(* ===== verification/Prelude.thy ===== *)
theory Prelude
  imports Main "HOL-Library.Multiset"
begin

text \<open>
  Shared vocabulary of the development: the result type of fallible code (a Python
  exception is the left injection of a sum), the sequencing of fallible steps and loops
  over them, tables keyed by a unique constraint with the two write statements the
  database functions use (\<open>INSERT ... ON CONFLICT DO UPDATE\<close> and \<open>DELETE\<close>), and the
  generic facts on lists that the components share. The collection \<open>result_simps\<close> holds
  the inversion rules that turn "this step returned normally" into the conditions under
  which it does.
\<close>

named_theorems result_simps \<open>inversion rules for successful fallible computations\<close>

named_theorems eval_simps \<open>defining equations that evaluate the model on concrete data\<close>

type_synonym uuid = nat
type_synonym timestamp = int

section \<open>Fallible computations\<close>

definition ebind :: "'e + 'a \<Rightarrow> ('a \<Rightarrow> 'e + 'b) \<Rightarrow> 'e + 'b" where
  "ebind m f = (case m of Inl e \<Rightarrow> Inl e | Inr x \<Rightarrow> f x)"

definition ensure :: "bool \<Rightarrow> 'e \<Rightarrow> 'e + unit" where
  "ensure c e = (if c then Inr () else Inl e)"

definition relabel :: "('e \<Rightarrow> 'f) \<Rightarrow> 'e + 'a \<Rightarrow> 'f + 'a" where
  "relabel h m = (case m of Inl e \<Rightarrow> Inl (h e) | Inr x \<Rightarrow> Inr x)"

definition from_option :: "'e \<Rightarrow> 'a option \<Rightarrow> 'e + 'a" where
  "from_option e m = (case m of None \<Rightarrow> Inl e | Some x \<Rightarrow> Inr x)"

fun efold :: "('a \<Rightarrow> 's \<Rightarrow> 'e + 's) \<Rightarrow> 'a list \<Rightarrow> 's \<Rightarrow> 'e + 's" where
  "efold f [] s = Inr s"
| "efold f (x # xs) s = ebind (f x s) (efold f xs)"

fun emap :: "('a \<Rightarrow> 'e + 'b) \<Rightarrow> 'a list \<Rightarrow> 'e + 'b list" where
  "emap f [] = Inr []"
| "emap f (x # xs) = ebind (f x) (\<lambda>y. ebind (emap f xs) (\<lambda>ys. Inr (y # ys)))"

lemma ebind_simps [simp]:
  "ebind (Inl e) f = Inl e"
  "ebind (Inr x) f = f x"
  by (simp_all add: ebind_def)

lemma ensure_simps [simp]:
  "ensure True e = Inr ()"
  "ensure False e = Inl e"
  by (simp_all add: ensure_def)

lemma relabel_simps [simp]:
  "relabel h (Inl e) = Inl (h e)"
  "relabel h (Inr x) = Inr x"
  by (simp_all add: relabel_def)

lemma from_option_simps [simp]:
  "from_option e None = Inl e"
  "from_option e (Some x) = Inr x"
  by (simp_all add: from_option_def)

lemma ebind_Inr_iff [result_simps]:
  "ebind m f = Inr y \<longleftrightarrow> (\<exists>x. m = Inr x \<and> f x = Inr y)"
  by (cases m) auto

lemma ebind_Inl_iff: "ebind m f = Inl e \<longleftrightarrow> m = Inl e \<or> (\<exists>x. m = Inr x \<and> f x = Inl e)"
  by (cases m) auto

lemma ensure_Inr_iff [result_simps]: "ensure c e = Inr u \<longleftrightarrow> c"
  by (cases c) auto

lemma relabel_Inr_iff [result_simps]: "relabel h m = Inr y \<longleftrightarrow> m = Inr y"
  by (cases m) auto

lemma from_option_Inr_iff [result_simps]: "from_option e m = Inr y \<longleftrightarrow> m = Some y"
  by (cases m) auto

lemma ebind_ensure: "ebind (ensure c e) f = (if c then f () else Inl e)"
  by simp

lemma efold_append: "efold f (xs @ ys) s = ebind (efold f xs s) (efold f ys)"
proof (induction xs arbitrary: s)
  case Nil
  then show ?case by simp
next
  case (Cons x xs)
  then show ?case by (cases "f x s") auto
qed

text \<open>A loop keeps what each of its iterations keeps.\<close>

lemma efold_snoc: "efold f (xs @ [x]) s = ebind (efold f xs s) (f x)"
  by (induction xs arbitrary: s) (auto simp: ebind_def split: sum.splits)

lemma efold_invariant:
  assumes "efold f xs s = Inr t" and "P s"
    and "\<And>x s t. x \<in> set xs \<Longrightarrow> P s \<Longrightarrow> f x s = Inr t \<Longrightarrow> P t"
  shows "P t"
  using assms
proof (induction xs arbitrary: s)
  case Nil
  then show ?case by simp
next
  case (Cons x xs)
  from Cons.prems(1) obtain s' where s': "f x s = Inr s'" and rest: "efold f xs s' = Inr t"
    by (auto simp: ebind_Inr_iff)
  show ?case
  proof (rule Cons.IH [OF rest])
    show "P s'" using Cons.prems(3) [OF _ Cons.prems(2) s'] by simp
    show "\<And>y s t. y \<in> set xs \<Longrightarrow> P s \<Longrightarrow> f y s = Inr t \<Longrightarrow> P t"
      by (rule Cons.prems(3)) simp_all
  qed
qed

lemma emap_Inr_iff [result_simps]:
  "emap f xs = Inr ys \<longleftrightarrow> list_all2 (\<lambda>x y. f x = Inr y) xs ys"
proof (induction xs arbitrary: ys)
  case Nil
  then show ?case by auto
next
  case (Cons x xs)
  then show ?case by (cases ys) (auto simp: ebind_Inr_iff)
qed

section \<open>Tables with a unique key\<close>

text \<open>
  A table is the list of its rows. \<open>table_get\<close> is a \<open>SELECT\<close> by unique key,
  \<open>table_put\<close> an \<open>INSERT ... ON CONFLICT (key) DO UPDATE\<close> of the whole row and
  \<open>table_del\<close> a \<open>DELETE ... WHERE\<close> on the key.
\<close>

definition table_get :: "('r \<Rightarrow> 'k) \<Rightarrow> 'k \<Rightarrow> 'r list \<Rightarrow> 'r option" where
  "table_get key k rs = find (\<lambda>r. key r = k) rs"

definition table_put :: "('r \<Rightarrow> 'k) \<Rightarrow> 'r \<Rightarrow> 'r list \<Rightarrow> 'r list" where
  "table_put key r rs =
     (if \<exists>x\<in>set rs. key x = key r
      then map (\<lambda>x. if key x = key r then r else x) rs
      else rs @ [r])"

definition table_del :: "('r \<Rightarrow> 'k) \<Rightarrow> 'k \<Rightarrow> 'r list \<Rightarrow> 'r list" where
  "table_del key k rs = filter (\<lambda>r. key r \<noteq> k) rs"

definition table_update :: "('r \<Rightarrow> 'k) \<Rightarrow> 'k \<Rightarrow> ('r \<Rightarrow> 'r) \<Rightarrow> 'r list \<Rightarrow> 'r list" where
  "table_update key k f rs = map (\<lambda>r. if key r = k then f r else r) rs"

lemma find_append:
  "find P (xs @ ys) = (case find P xs of None \<Rightarrow> find P ys | Some x \<Rightarrow> Some x)"
  by (induction xs) auto

lemma table_get_Nil [simp]: "table_get key k [] = None"
  by (simp add: table_get_def)

lemma table_get_Cons [simp]:
  "table_get key k (r # rs) = (if key r = k then Some r else table_get key k rs)"
  by (simp add: table_get_def)

lemma table_get_append:
  "table_get key k (rs @ ss) =
     (case table_get key k rs of None \<Rightarrow> table_get key k ss | Some r \<Rightarrow> Some r)"
  by (induction rs) auto

lemma table_get_SomeD: "table_get key k rs = Some r \<Longrightarrow> r \<in> set rs \<and> key r = k"
  by (induction rs) (auto split: if_splits)

lemma table_get_None_iff: "table_get key k rs = None \<longleftrightarrow> k \<notin> key ` set rs"
  by (induction rs) auto

lemma table_get_exists: "k \<in> key ` set rs \<Longrightarrow> \<exists>r. table_get key k rs = Some r"
  by (induction rs) auto

lemma table_get_member:
  "distinct (map key rs) \<Longrightarrow> r \<in> set rs \<Longrightarrow> table_get key (key r) rs = Some r"
  by (induction rs) auto

lemma table_get_Some_iff:
  "distinct (map key rs) \<Longrightarrow> table_get key k rs = Some r \<longleftrightarrow> r \<in> set rs \<and> key r = k"
  by (metis table_get_SomeD table_get_member)

lemma map_key_update:
  assumes "\<And>r. key (f r) = key r"
  shows "map key (table_update key k f rs) = map key rs"
  using assms by (simp add: table_update_def)

lemma table_get_update:
  assumes "\<And>r. key r = k \<Longrightarrow> key (f r) = k"
  shows "table_get key k' (table_update key k f rs) =
     (if k' = k then map_option f (table_get key k rs) else table_get key k' rs)"
  by (induction rs) (auto simp: table_update_def assms)

lemma set_table_update:
  "set (table_update key k f rs) = (\<lambda>r. if key r = k then f r else r) ` set rs"
  by (simp add: table_update_def)

lemma length_table_update [simp]: "length (table_update key k f rs) = length rs"
  by (simp add: table_update_def)

lemma map_key_put:
  "map key (table_put key r rs) = (if key r \<in> key ` set rs then map key rs else map key rs @ [key r])"
  by (auto simp: table_put_def comp_def intro!: map_cong dest: sym)

lemma distinct_table_put: "distinct (map key rs) \<Longrightarrow> distinct (map key (table_put key r rs))"
  by (auto simp: map_key_put)

lemma distinct_table_del: "distinct (map key rs) \<Longrightarrow> distinct (map key (table_del key k rs))"
  by (simp add: table_del_def distinct_map_filter)

lemma set_table_put:
  "set (table_put key r rs) = insert r {x \<in> set rs. key x \<noteq> key r}"
  by (auto simp: table_put_def)

lemma set_table_del: "set (table_del key k rs) = {x \<in> set rs. key x \<noteq> k}"
  by (simp add: table_del_def)

lemma table_get_map_put:
  "table_get key k (map (\<lambda>x. if key x = key r then r else x) rs) =
     (if k = key r then if key r \<in> key ` set rs then Some r else None else table_get key k rs)"
  by (induction rs) auto

lemma table_get_put:
  "table_get key k (table_put key r rs) = (if k = key r then Some r else table_get key k rs)"
proof (cases "key r \<in> key ` set rs")
  case True
  then show ?thesis by (auto simp: table_put_def table_get_map_put)
next
  case False
  then have "table_put key r rs = rs @ [r]" by (auto simp: table_put_def image_iff)
  moreover from False have "table_get key (key r) rs = None" by (simp add: table_get_None_iff)
  ultimately show ?thesis by (auto simp: table_get_append split: option.splits)
qed

lemma table_get_del:
  "table_get key k' (table_del key k rs) = (if k' = k then None else table_get key k' rs)"
  by (induction rs) (auto simp: table_del_def)

section \<open>Sums over lists\<close>

lemma sum_list_filter_split:
  "sum_list (map f (filter P xs)) + sum_list (map f (filter (\<lambda>x. \<not> P x) xs)) =
     (sum_list (map f xs) :: int)"
  by (induction xs) auto

lemma sum_list_map_zero: "(\<And>x. x \<in> set xs \<Longrightarrow> f x = 0) \<Longrightarrow> sum_list (map f xs) = (0 :: int)"
  by (induction xs) auto

lemma sum_list_map_if_distinct:
  fixes f :: "'a \<Rightarrow> int"
  assumes "distinct (map key xs)" and "x \<in> set xs"
  shows "sum_list (map f (filter (\<lambda>y. key y = key x) xs)) = f x"
  using assms
proof (induction xs)
  case Nil
  then show ?case by simp
next
  case (Cons y ys)
  show ?case
  proof (cases "x = y")
    case True
    with Cons.prems(1) have "filter (\<lambda>z. key z = key y) ys = []"
      by (auto simp: filter_empty_conv image_iff)
    with True show ?thesis by simp
  next
    case False
    with Cons.prems have "x \<in> set ys" and "key y \<noteq> key x" by auto
    with Cons.IH Cons.prems(1) show ?thesis by simp
  qed
qed

end
