(* ===== verification/Pytext.thy ===== *)
theory Pytext
  imports Prelude "HOL-Library.Char_ord" "HOL-Library.List_Lexorder"
begin

text \<open>
  The parts of Python's text handling that the services use: \<open>str.split\<close>, \<open>str.join\<close>,
  \<open>str.strip\<close>, \<open>str.casefold\<close>, the decimal and hexadecimal printing behind \<open>str(int)\<close> and
  \<open>str(uuid)\<close>, and \<open>json.dumps\<close> with sorted keys and compact separators. On top of them
  stands \<open>app/core/idempotency.py\<close>: the normalisation of idempotency keys and the canonical
  fingerprint of a payload. The digest of \<open>hashlib\<close> is a parameter \<open>sha256\<close> of everything
  that hashes.

  HOL has 256 characters. They stand for ASCII and the Cyrillic letters of the product's
  Russian texts, in the arrangement of ISO 8859-5 with the three dashes and bullets of
  Windows code pages at 149 to 151, the pictographs of the messages to Telegram at 128 to 136, and
  the middle dot, the double prime and the prime at 137 to 139
  (\<open>code_point\<close>); whitespace, case folding and NFKC are exact on this alphabet, which is the
  only restriction on texts.
\<close>

section \<open>The alphabet\<close>

definition code_point :: "char \<Rightarrow> nat" where
  "code_point c =
     (let n = of_char c
      in if n = 149 then 8226 else if n = 150 then 8211 else if n = 151 then 8212
         else if n = 128 then 128272 else if n = 129 then 9989 else if n = 130 then 10060
         else if n = 131 then 128104 else if n = 132 then 8205 else if n = 134 then 128187
         else if n = 135 then 128075 else if n = 136 then 128230
         else if n = 137 then 183 else if n = 138 then 8243 else if n = 139 then 8242
         else if n < 161 \<or> n = 173 then n
         else if n = 240 then 8470 else if n = 253 then 167
         else n + 864)"

definition point_char :: "nat \<Rightarrow> char" where
  "point_char n =
     (if n = 8226 then char_of (149 :: nat) else if n = 8211 then char_of (150 :: nat)
      else if n = 8212 then char_of (151 :: nat) else if n = 128272 then char_of (128 :: nat)
      else if n = 9989 then char_of (129 :: nat) else if n = 10060 then char_of (130 :: nat)
      else if n = 128104 then char_of (131 :: nat) else if n = 8205 then char_of (132 :: nat)
      else if n = 128187 then char_of (134 :: nat) else if n = 128075 then char_of (135 :: nat)
      else if n = 128230 then char_of (136 :: nat) else if n = 183 then char_of (137 :: nat)
      else if n = 8243 then char_of (138 :: nat) else if n = 8242 then char_of (139 :: nat)
      else if n < 161 \<or> n = 173 then char_of n
      else if n = 8470 then char_of (240 :: nat) else if n = 167 then char_of (253 :: nat)
      else char_of (n - 864))"

definition points_text :: "nat list \<Rightarrow> string" where
  "points_text ns = map point_char ns"

lemma point_char_code_point [simp]: "point_char (code_point c) = c"
proof -
  define n :: nat where "n = of_char c"
  have c: "char_of n = c" and n: "n < 256" by (simp_all add: n_def)
  have "point_char (code_point c) = char_of n"
    unfolding code_point_def Let_def n_def [symmetric] point_char_def using n by simp
  with c show ?thesis by simp
qed

section \<open>Whitespace\<close>

definition is_space :: "char \<Rightarrow> bool" where
  "is_space c =
     (let n = (of_char c :: nat)
      in (9 \<le> n \<and> n \<le> 13) \<or> (28 \<le> n \<and> n \<le> 32) \<or> n = 133 \<or> n = 160)"

fun py_split_from :: "string \<Rightarrow> string \<Rightarrow> string list" where
  "py_split_from acc [] = (if acc = [] then [] else [rev acc])"
| "py_split_from acc (c # cs) =
     (if is_space c
      then if acc = [] then py_split_from [] cs else rev acc # py_split_from [] cs
      else py_split_from (c # acc) cs)"

definition py_split :: "string \<Rightarrow> string list" where
  "py_split s = py_split_from [] s"

fun py_join :: "string \<Rightarrow> string list \<Rightarrow> string" where
  "py_join sep [] = []"
| "py_join sep [w] = w"
| "py_join sep (w # ws) = w @ sep @ py_join sep ws"

definition py_lstrip :: "string \<Rightarrow> string" where
  "py_lstrip s = dropWhile is_space s"

definition py_strip :: "string \<Rightarrow> string" where
  "py_strip s = rev (py_lstrip (rev (py_lstrip s)))"

definition words_ok :: "string list \<Rightarrow> bool" where
  "words_ok ws \<longleftrightarrow> (\<forall>w\<in>set ws. w \<noteq> [] \<and> (\<forall>c\<in>set w. \<not> is_space c))"

lemma is_space_blank [simp]: "is_space CHR '' ''"
  by (simp add: is_space_def Let_def)

lemma words_ok_split_from:
  "\<forall>c\<in>set acc. \<not> is_space c \<Longrightarrow> words_ok (py_split_from acc s)"
proof (induction acc s rule: py_split_from.induct)
  case (1 acc)
  then show ?case by (simp add: words_ok_def)
next
  case (2 acc c cs)
  show ?case
  proof (cases "is_space c")
    case True
    with 2 have "words_ok (py_split_from [] cs)" by (cases "acc = []") simp_all
    with True 2(4) show ?thesis by (simp add: words_ok_def)
  next
    case False
    with 2 show ?thesis by simp
  qed
qed

lemma words_ok_split: "words_ok (py_split s)"
  unfolding py_split_def by (rule words_ok_split_from) simp

lemma split_from_word:
  "\<forall>c\<in>set w. \<not> is_space c \<Longrightarrow> py_split_from acc (w @ s) = py_split_from (rev w @ acc) s"
  by (induction w arbitrary: acc) auto

lemma split_join: "words_ok ws \<Longrightarrow> py_split (py_join '' '' ws) = ws"
proof (induction "'' ''" ws rule: py_join.induct)
  case 1
  then show ?case by (simp add: py_split_def)
next
  case (2 w)
  then show ?case
    using split_from_word [of w "[]" "[]"] by (simp add: words_ok_def py_split_def)
next
  case (3 w v ws)
  then have w: "w \<noteq> []" "\<forall>c\<in>set w. \<not> is_space c" and rest: "words_ok (v # ws)"
    by (auto simp: words_ok_def)
  have "py_split (py_join '' '' (w # v # ws)) = w # py_split (py_join '' '' (v # ws))"
    using w split_from_word [of w "[]" "'' '' @ py_join '' '' (v # ws)"]
    by (simp add: py_split_def)
  with 3(1) [OF rest] show ?case by simp
qed

lemma strip_no_space: "py_strip s = [] \<longleftrightarrow> (\<forall>c\<in>set s. is_space c)"
proof -
  have "py_lstrip t = [] \<longleftrightarrow> (\<forall>c\<in>set t. is_space c)" for t
    by (simp add: py_lstrip_def dropWhile_eq_Nil_conv)
  moreover have "(\<forall>c\<in>set (py_lstrip s). is_space c) \<longleftrightarrow> (\<forall>c\<in>set s. is_space c)"
    unfolding py_lstrip_def by (induction s) auto
  ultimately show ?thesis by (simp add: py_strip_def)
qed

section \<open>Idempotency keys\<close>

definition normalize_idempotency_key :: "string \<Rightarrow> string" where
  "normalize_idempotency_key s = py_join '' '' (py_split s)"

lemma normalize_key_idem:
  "normalize_idempotency_key (normalize_idempotency_key s) = normalize_idempotency_key s"
  by (simp add: normalize_idempotency_key_def split_join words_ok_split)

lemma join_eq_Nil: "words_ok ws \<Longrightarrow> py_join '' '' ws = [] \<longleftrightarrow> ws = []"
  by (induction "'' ''" ws rule: py_join.induct) (auto simp: words_ok_def)

lemma split_from_eq_Nil: "py_split_from acc s = [] \<longleftrightarrow> acc = [] \<and> (\<forall>c\<in>set s. is_space c)"
  by (induction acc s rule: py_split_from.induct) auto

lemma normalize_key_blank: "normalize_idempotency_key s = [] \<longleftrightarrow> (\<forall>c\<in>set s. is_space c)"
  unfolding normalize_idempotency_key_def
  by (simp add: join_eq_Nil words_ok_split) (simp add: py_split_def split_from_eq_Nil)

section \<open>Numbers and identifiers as text\<close>

definition digit_char :: "nat \<Rightarrow> char" where
  "digit_char d = char_of (if d < 10 then 48 + d else 87 + d)"

fun nat_str :: "nat \<Rightarrow> string" where
  "nat_str n = (if n < 10 then [digit_char n] else nat_str (n div 10) @ [digit_char (n mod 10)])"

declare nat_str.simps [simp del]

definition int_str :: "int \<Rightarrow> string" where
  "int_str i = (if i < 0 then ''-'' @ nat_str (nat (- i)) else nat_str (nat i))"

fun hex_digits :: "nat \<Rightarrow> nat \<Rightarrow> string" where
  "hex_digits 0 n = []"
| "hex_digits (Suc k) n = hex_digits k (n div 16) @ [digit_char (n mod 16)]"

definition uuid_str :: "uuid \<Rightarrow> string" where
  "uuid_str u =
     (let h = hex_digits 32 u
      in take 8 h @ ''-'' @ take 4 (drop 8 h) @ ''-'' @ take 4 (drop 12 h) @ ''-''
         @ take 4 (drop 16 h) @ ''-'' @ drop 20 h)"

lemma length_hex_digits [simp]: "length (hex_digits k n) = k"
  by (induction k arbitrary: n) auto

lemma digit_char_inj: "a < 16 \<Longrightarrow> b < 16 \<Longrightarrow> digit_char a = digit_char b \<Longrightarrow> a = b"
proof -
  assume "a < 16" "b < 16" and eq: "digit_char a = digit_char b"
  then have "(of_char (digit_char a) :: nat) = of_char (digit_char b)" by simp
  with \<open>a < 16\<close> \<open>b < 16\<close> show ?thesis
    by (auto simp: digit_char_def of_char_of split: if_splits)
qed

lemma hex_digits_inj:
  "m < 16 ^ k \<Longrightarrow> n < 16 ^ k \<Longrightarrow> hex_digits k m = hex_digits k n \<Longrightarrow> m = n"
proof (induction k arbitrary: m n)
  case 0
  then show ?case by simp
next
  case (Suc k)
  from Suc.prems(3) have d: "digit_char (m mod 16) = digit_char (n mod 16)"
    and h: "hex_digits k (m div 16) = hex_digits k (n div 16)" by simp_all
  from Suc.prems have "m div 16 < 16 ^ k" "n div 16 < 16 ^ k"
    by (simp_all add: less_mult_imp_div_less mult.commute)
  with h have "m div 16 = n div 16" by (simp add: Suc.IH)
  moreover from d have "m mod 16 = n mod 16" by (simp add: digit_char_inj)
  ultimately show ?case by (metis div_mult_mod_eq)
qed

text \<open>The textual form of a UUID determines the 128-bit identifier.\<close>

lemma uuid_str_inj:
  assumes "u < 2 ^ 128" and "v < 2 ^ 128" and "uuid_str u = uuid_str v"
  shows "u = v"
proof -
  let ?h = "hex_digits 32 u" and ?g = "hex_digits 32 v"
  from assms(3) have parts: "take 8 ?h = take 8 ?g" "take 4 (drop 8 ?h) = take 4 (drop 8 ?g)"
    "take 4 (drop 12 ?h) = take 4 (drop 12 ?g)" "take 4 (drop 16 ?h) = take 4 (drop 16 ?g)"
    "drop 20 ?h = drop 20 ?g"
    by (simp_all add: uuid_str_def Let_def)
  have dec: "xs = take 8 xs @ take 4 (drop 8 xs) @ take 4 (drop 12 xs) @ take 4 (drop 16 xs)
    @ drop 20 xs" for xs :: string
    using append_take_drop_id [of 8 xs] append_take_drop_id [of 4 "drop 8 xs"]
      append_take_drop_id [of 4 "drop 12 xs"] append_take_drop_id [of 4 "drop 16 xs"]
    by (simp del: append_take_drop_id)
  have "?h = ?g" using parts dec [of ?h] dec [of ?g] by metis
  with assms(1,2) show ?thesis
    using hex_digits_inj [of u 32 v] by simp
qed

section \<open>Canonical JSON\<close>

text \<open>A floating-point number is kept as the text Python prints for it.\<close>

datatype json =
    JNull
  | JBool bool
  | JInt int
  | JFloat string
  | JStr string
  | JList "json list"
  | JObj "(string \<times> json) list"

definition json_escape :: "char \<Rightarrow> string" where
  "json_escape c =
     (let n = (of_char c :: nat)
      in if n = 34 then [char_of (92 :: nat), char_of (34 :: nat)]
         else if n = 92 then [char_of (92 :: nat), char_of (92 :: nat)]
         else if n = 10 then [char_of (92 :: nat), CHR ''n'']
         else if n = 13 then [char_of (92 :: nat), CHR ''r'']
         else if n = 9 then [char_of (92 :: nat), CHR ''t'']
         else if n = 12 then [char_of (92 :: nat), CHR ''f'']
         else if n = 8 then [char_of (92 :: nat), CHR ''b'']
         else if n < 32 then char_of (92 :: nat) # ''u'' @ hex_digits 4 n
         else [c])"

definition json_string :: "string \<Rightarrow> string" where
  "json_string s = [char_of (34 :: nat)] @ concat (map json_escape s) @ [char_of (34 :: nat)]"

fun json_dumps :: "json \<Rightarrow> string" where
  "json_dumps JNull = ''null''"
| "json_dumps (JBool b) = (if b then ''true'' else ''false'')"
| "json_dumps (JInt i) = int_str i"
| "json_dumps (JFloat r) = r"
| "json_dumps (JStr s) = json_string s"
| "json_dumps (JList xs) = ''['' @ py_join '','' (map json_dumps xs) @ '']''"
| "json_dumps (JObj kvs) =
     ''{'' @ py_join '',''
        (map snd (sort_key fst
           (map (\<lambda>kv. (fst kv, json_string (fst kv) @ '':'' @ json_dumps (snd kv))) kvs)))
     @ ''}''"

definition canonical_fingerprint :: "(string \<Rightarrow> string) \<Rightarrow> json \<Rightarrow> string" where
  "canonical_fingerprint sha256 payload = sha256 (json_dumps payload)"

definition jopt_uuid :: "uuid option \<Rightarrow> json" where
  "jopt_uuid u = (case u of None \<Rightarrow> JNull | Some v \<Rightarrow> JStr (uuid_str v))"

section \<open>Case folding and identity text\<close>

text \<open>The capital letters of the alphabet: Latin, the main Cyrillic block, and the Cyrillic
  letters before it.\<close>

definition casefold :: "char \<Rightarrow> char" where
  "casefold c =
     (let n = (of_char c :: nat)
      in if (65 \<le> n \<and> n \<le> 90) \<or> (176 \<le> n \<and> n \<le> 207) then char_of (n + 32)
         else if 161 \<le> n \<and> n \<le> 175 \<and> n \<noteq> 173 then char_of (n + 80)
         else c)"

text \<open>NFKC changes three characters of the alphabet: the numero sign, the double prime, which becomes
  two primes, and the no-break space, which \<open>str.split\<close> removes anyway.\<close>

definition nfkc :: "char \<Rightarrow> string" where
  "nfkc c =
     (let n = (of_char c :: nat)
      in if n = 240 then ''No'' else if n = 160 then '' ''
         else if n = 138 then [char_of (139 :: nat), char_of (139 :: nat)] else [c])"

definition comparison_text :: "string \<Rightarrow> string" where
  "comparison_text s = map casefold (py_join '' '' (py_split s))"

definition identity_text :: "string \<Rightarrow> string" where
  "identity_text s = comparison_text (concat (map nfkc s))"

lemma length_comparison_text: "length (comparison_text s) = length (normalize_idempotency_key s)"
  by (simp add: comparison_text_def normalize_idempotency_key_def)

lemma casefold_idem [simp]: "casefold (casefold c) = casefold c"
proof -
  have "of_char c < (256 :: nat)" by simp
  then show ?thesis by (auto simp: casefold_def Let_def of_char_of)
qed

lemma is_space_casefold [simp]: "is_space (casefold c) = is_space c"
proof -
  have "of_char c < (256 :: nat)" by simp
  then show ?thesis by (auto simp: casefold_def is_space_def Let_def of_char_of)
qed

lemma join_casefold:
  "map casefold (py_join '' '' ws) = py_join '' '' (map (map casefold) ws)"
proof (induction "'' ''" ws rule: py_join.induct)
  case (3 w v ws)
  then show ?case by (simp add: casefold_def)
qed simp_all

lemma comparison_text_idem: "comparison_text (comparison_text s) = comparison_text s"
proof -
  let ?ws = "map (map casefold) (py_split s)"
  have "words_ok ?ws"
    using words_ok_split [of s] by (auto simp: words_ok_def)
  then have "py_split (comparison_text s) = ?ws"
    by (simp add: comparison_text_def join_casefold split_join)
  then show ?thesis
    by (simp add: comparison_text_def join_casefold comp_def)
qed

lemma comparison_text_normalize: "comparison_text (normalize_idempotency_key s) = comparison_text s"
  by (simp add: comparison_text_def normalize_idempotency_key_def split_join words_ok_split)

text \<open>Characters that survive splitting and folding.\<close>

lemma set_split_from: "w \<in> set (py_split_from acc s) \<Longrightarrow> set w \<subseteq> set acc \<union> set s"
  by (induction acc s arbitrary: w rule: py_split_from.induct) (fastforce split: if_splits)+

text \<open>Normalisation keeps every character that is no space, and never makes a text longer.\<close>

lemma split_from_keeps:
  "\<not> is_space c \<Longrightarrow> c \<in> \<Union> (set ` set (py_split_from acc s)) \<longleftrightarrow> c \<in> set acc \<or> c \<in> set s"
  by (induction acc s rule: py_split_from.induct) auto

lemma join_keeps: "c \<notin> set sep \<Longrightarrow> c \<in> set (py_join sep ws) \<longleftrightarrow> c \<in> \<Union> (set ` set ws)"
  by (induction sep ws rule: py_join.induct) auto

lemma normalize_key_member:
  assumes "\<not> is_space c"
  shows "c \<in> set (normalize_idempotency_key s) \<longleftrightarrow> c \<in> set s"
proof -
  have "c \<notin> set '' ''" using assms is_space_blank by auto
  then show ?thesis
    using split_from_keeps [OF assms, of "[]" s] join_keeps [of c "'' ''"]
    by (simp add: normalize_idempotency_key_def py_split_def)
qed

lemma length_join_Cons: "length (py_join '' '' (w # ws)) \<le> length w + 1 + length (py_join '' '' ws)"
  by (cases ws) simp_all

lemma length_normalize_key: "length (normalize_idempotency_key s) \<le> length s"
proof -
  have "length (py_join '' '' (py_split_from acc s)) \<le> length acc + length s" for acc
  proof (induction acc s rule: py_split_from.induct)
    case (2 acc c cs)
    then show ?case using length_join_Cons [of "rev acc" "py_split_from [] cs"] by (auto split: if_splits)
  qed simp
  from this [of "[]"] show ?thesis by (simp add: normalize_idempotency_key_def py_split_def)
qed

lemma set_join: "set (py_join sep ws) \<subseteq> set sep \<union> \<Union> (set ` set ws)"
  by (induction sep ws rule: py_join.induct) auto

lemma set_comparison_text: "set (comparison_text s) \<subseteq> casefold ` (set s \<union> {CHR '' ''})"
proof -
  have "set (py_join '' '' (py_split s)) \<subseteq> {CHR '' ''} \<union> \<Union> (set ` set (py_split s))"
    using set_join [of "'' ''" "py_split s"] by simp
  also have "\<dots> \<subseteq> set s \<union> {CHR '' ''}"
    using set_split_from [of _ "[]" s] by (auto simp: py_split_def)
  finally show ?thesis by (auto simp: comparison_text_def)
qed

lemma nfkc_identity_text:
  assumes "c \<in> set (identity_text s)"
  shows "nfkc c = [c] \<or> is_space c"
proof -
  obtain x where x: "c = casefold x" "x \<in> set (concat (map nfkc s)) \<union> {CHR '' ''}"
    using assms set_comparison_text unfolding identity_text_def by blast
  then have "(of_char x :: nat) \<noteq> 240" "(of_char x :: nat) \<noteq> 138"
    by (auto simp: nfkc_def Let_def split: if_splits)
  moreover have "of_char x < (256 :: nat)" by simp
  ultimately show ?thesis
    unfolding x(1) by (auto simp: nfkc_def casefold_def is_space_def Let_def of_char_of)
qed

end
