(* ===== verification/Decimals.thy ===== *)
theory Decimals
  imports Pytext Complex_Main
begin

text \<open>
  Python's \<open>decimal.Decimal\<close> as far as the catalog uses it: finite values as sign, coefficient
  and exponent, construction from text, comparison, the two textual forms (\<open>str\<close> and
  \<open>format(value, "f")\<close>), and \<open>decimal_identity_text\<close> of \<open>app/modules/catalog/normalization.py\<close>.
  A text that denotes infinity or NaN is treated like one that denotes nothing, because both
  lead to the same catalog error. Digits are the ASCII digits.
\<close>

section \<open>Values\<close>

datatype decimal = Dec (dec_neg: bool) (dec_coeff: nat) (dec_exp: int)

definition dec_of_int :: "int \<Rightarrow> decimal" where
  "dec_of_int i = Dec (i < 0) (nat \<bar>i\<bar>) 0"

definition scaled :: "decimal \<Rightarrow> int \<Rightarrow> int" where
  "scaled a e = (if dec_neg a then - 1 else 1) * int (dec_coeff a) * 10 ^ nat (dec_exp a - e)"

definition dec_less :: "decimal \<Rightarrow> decimal \<Rightarrow> bool" where
  "dec_less a b = (let e = min (dec_exp a) (dec_exp b) in scaled a e < scaled b e)"

definition dec_value :: "decimal \<Rightarrow> rat" where
  "dec_value a = (if dec_neg a then - 1 else 1) * of_nat (dec_coeff a) * 10 powi dec_exp a"

section \<open>Text\<close>

definition is_digit :: "char \<Rightarrow> bool" where
  "is_digit c = (let n = (of_char c :: nat) in 48 \<le> n \<and> n \<le> 57)"

definition digit_value :: "char \<Rightarrow> nat" where
  "digit_value c = of_char c - 48"

definition digits_nat :: "string \<Rightarrow> nat" where
  "digits_nat s = foldl (\<lambda>n c. 10 * n + digit_value c) 0 s"

fun split_sign :: "string \<Rightarrow> bool \<times> string" where
  "split_sign (c # cs) =
     (if c = CHR ''-'' then (True, cs) else if c = CHR ''+'' then (False, cs) else (False, c # cs))"
| "split_sign [] = (False, [])"

definition parse_exponent :: "string \<Rightarrow> int option" where
  "parse_exponent s =
     (let (neg, r) = split_sign s
      in if r = [] \<or> \<not> list_all is_digit r then None
         else Some (if neg then - int (digits_nat r) else int (digits_nat r)))"

definition parse_decimal :: "string \<Rightarrow> decimal option" where
  "parse_decimal s =
     (let (neg, t) = split_sign (filter (\<lambda>c. c \<noteq> CHR ''_'') (py_strip s));
          int_part = takeWhile is_digit t;
          t1 = dropWhile is_digit t;
          (fraction, t2) = (case t1 of
             [] \<Rightarrow> ([], [])
           | c # r \<Rightarrow> if c = CHR ''.'' then (takeWhile is_digit r, dropWhile is_digit r) else ([], t1))
      in if int_part = [] \<and> fraction = [] then None
         else
           let number = Dec neg (digits_nat (int_part @ fraction))
           in case t2 of
                [] \<Rightarrow> Some (number (- int (length fraction)))
              | c # r \<Rightarrow>
                  if c = CHR ''e'' \<or> c = CHR ''E''
                  then map_option (\<lambda>e. number (e - int (length fraction))) (parse_exponent r)
                  else None)"

definition dec_sign :: "decimal \<Rightarrow> string" where
  "dec_sign a = (if dec_neg a then ''-'' else [])"

text \<open>\<open>format(value, "f")\<close>.\<close>

definition dec_fixed :: "decimal \<Rightarrow> string" where
  "dec_fixed a =
     (let digits = nat_str (dec_coeff a); k = nat (- dec_exp a)
      in dec_sign a @
         (if dec_exp a \<ge> 0
          then if dec_coeff a = 0 then digits else digits @ replicate (nat (dec_exp a)) (CHR ''0'')
          else if length digits > k
          then take (length digits - k) digits @ ''.'' @ drop (length digits - k) digits
          else ''0.'' @ replicate (k - length digits) (CHR ''0'') @ digits))"

text \<open>\<open>str(value)\<close>: positional notation for moderate exponents, scientific otherwise.\<close>

definition dec_str :: "decimal \<Rightarrow> string" where
  "dec_str a =
     (let digits = nat_str (dec_coeff a); left_digits = dec_exp a + int (length digits)
      in if dec_exp a \<le> 0 \<and> left_digits > - 6
         then if dec_exp a = 0 then dec_sign a @ digits else dec_fixed a
         else
           let point = (if length digits = 1 then digits
                        else take 1 digits @ ''.'' @ drop 1 digits);
               e = left_digits - 1
           in dec_sign a @ point @ ''E'' @ (if e \<ge> 0 then ''+'' else ''-'') @ nat_str (nat \<bar>e\<bar>))"

definition py_rstrip :: "char \<Rightarrow> string \<Rightarrow> string" where
  "py_rstrip c s = rev (dropWhile (\<lambda>x. x = c) (rev s))"

definition decimal_identity_text :: "decimal \<Rightarrow> string" where
  "decimal_identity_text a =
     (let fixed = dec_fixed a;
          result = (if CHR ''.'' \<in> set fixed then py_rstrip (CHR ''.'') (py_rstrip (CHR ''0'') fixed)
                    else fixed)
      in if result = [] \<or> result = ''-0'' then ''0'' else result)"

section \<open>Digits\<close>

lemma digits_foldl:
  "foldl (\<lambda>n c. 10 * n + digit_value c) m ys =
     m * 10 ^ length ys + foldl (\<lambda>n c. 10 * n + digit_value c) 0 ys"
proof (induction ys arbitrary: m)
  case (Cons y ys)
  have "foldl (\<lambda>n c. 10 * n + digit_value c) m (y # ys) =
      (10 * m + digit_value y) * 10 ^ length ys + foldl (\<lambda>n c. 10 * n + digit_value c) 0 ys"
    by (simp only: foldl_Cons Cons [of "10 * m + digit_value y"])
  moreover have "foldl (\<lambda>n c. 10 * n + digit_value c) 0 (y # ys) =
      digit_value y * 10 ^ length ys + foldl (\<lambda>n c. 10 * n + digit_value c) 0 ys"
    by (simp only: foldl_Cons mult_0_right add_0 Cons [of "digit_value y"])
  ultimately show ?case by (simp only: length_Cons power_Suc) (simp add: algebra_simps)
qed simp

lemma digits_nat_append:
  "digits_nat (xs @ ys) = digits_nat xs * 10 ^ length ys + digits_nat ys"
  unfolding digits_nat_def foldl_append by (rule digits_foldl)

lemma digits_nat_simps [simp]: "digits_nat [] = 0" "digits_nat [c] = digit_value c"
  by (simp_all add: digits_nat_def)

lemma digit_char_simps [simp]:
  "n < 10 \<Longrightarrow> digit_value (digit_char n) = n" "n < 10 \<Longrightarrow> is_digit (digit_char n)"
  by (simp_all add: digit_value_def digit_char_def is_digit_def of_char_of)

lemma nat_str_digits: "list_all is_digit (nat_str n) \<and> nat_str n \<noteq> [] \<and> digits_nat (nat_str n) = n"
proof (induction n rule: nat_str.induct)
  case (1 n)
  then show ?case by (auto simp: nat_str.simps [of n] digits_nat_append)
qed

lemma digit_zero: "is_digit (CHR ''0'')" "digit_value (CHR ''0'') = 0" "\<not> is_digit (CHR ''.'')"
  "\<not> is_digit (CHR ''-'')" "\<not> is_digit (CHR ''+'')" "\<not> is_digit (CHR ''_'')"
  by (simp_all add: is_digit_def digit_value_def)

lemma digit_value_less: "is_digit c \<Longrightarrow> digit_value c < 10"
  unfolding is_digit_def digit_value_def Let_def by linarith

lemma digit_value_inj: "is_digit a \<Longrightarrow> is_digit b \<Longrightarrow> digit_value a = digit_value b \<Longrightarrow> a = b"
proof -
  assume "is_digit a" "is_digit b" "digit_value a = digit_value b"
  then have "(of_char a :: nat) = of_char b"
    unfolding is_digit_def digit_value_def Let_def by linarith
  then show "a = b" by simp
qed

lemma digits_nat_zeros: "digits_nat (replicate k (CHR ''0'')) = 0"
  by (induction k) (simp_all add: digits_nat_def digit_zero)

lemma digits_nat_less: "list_all is_digit s \<Longrightarrow> digits_nat s < 10 ^ length s"
proof (induction s rule: rev_induct)
  case (snoc c s)
  then show ?case using digit_value_less [of c] by (simp add: digits_nat_append)
qed simp

lemma digits_nat_inj:
  "list_all is_digit s \<Longrightarrow> list_all is_digit t \<Longrightarrow> length s = length t \<Longrightarrow> digits_nat s = digits_nat t \<Longrightarrow> s = t"
proof (induction s arbitrary: t rule: rev_induct)
  case (snoc c s)
  then obtain u d where t: "t = u @ [d]" by (metis append_Nil2 length_0_conv rev_exhaust snoc_eq_iff_butlast)
  have lt: "digit_value c < 10" "digit_value d < 10" using snoc.prems t by (simp_all add: digit_value_less)
  have eq: "10 * digits_nat s + digit_value c = 10 * digits_nat u + digit_value d"
    using snoc.prems(4) by (simp add: t digits_nat_append mult.commute)
  then have "digits_nat s = digits_nat u" "digit_value c = digit_value d" using lt by presburger+
  then show ?case using snoc t digit_value_inj by simp
qed simp

section \<open>The identity text\<close>

text \<open>A number as integral digits and a fraction without trailing zeros.\<close>

definition plain :: "decimal \<Rightarrow> nat \<Rightarrow> string \<Rightarrow> bool" where
  "plain a i f \<longleftrightarrow> list_all is_digit f \<and> (f \<noteq> [] \<longrightarrow> last f \<noteq> CHR ''0'') \<and>
     of_nat (dec_coeff a) * 10 powi dec_exp a = (of_nat i + of_nat (digits_nat f) / 10 ^ length f :: rat)"

lemma rstrip_append:
  "py_rstrip c (s @ t) = (if py_rstrip c t = [] then py_rstrip c s else s @ py_rstrip c t)"
  by (simp add: py_rstrip_def dropWhile_append)

lemma rstrip_snoc: "py_rstrip c (s @ [x]) = (if x = c then py_rstrip c s else s @ [x])"
  by (simp add: py_rstrip_def)

lemma rstrip_split: "\<exists>k. s = py_rstrip c s @ replicate k c"
proof (induction s rule: rev_induct)
  case (snoc x s)
  then obtain k where k: "s = py_rstrip c s @ replicate k c" by blast
  show ?case
  proof (cases "x = c")
    case True
    then have "s @ [x] = py_rstrip c (s @ [x]) @ replicate (Suc k) c"
      using k by (metis append_assoc replicate_append_same replicate_Suc rstrip_snoc)
    then show ?thesis by blast
  next
    case False
    then show ?thesis by (intro exI [of _ 0]) (simp add: rstrip_snoc)
  qed
qed (simp add: py_rstrip_def)

lemma rstrip_last: "py_rstrip c s \<noteq> [] \<Longrightarrow> last (py_rstrip c s) \<noteq> c"
  unfolding py_rstrip_def using hd_dropWhile [of "\<lambda>x. x = c" "rev s"] by (auto simp: last_rev)

lemma nat_str_step: "10 \<le> n \<Longrightarrow> nat_str n = nat_str (n div 10) @ [digit_char (n mod 10)]"
  by (simp add: nat_str.simps [of n])

lemma nat_str_take:
  "k < length (nat_str c) \<Longrightarrow> take (length (nat_str c) - k) (nat_str c) = nat_str (c div 10 ^ k)"
proof (induction k arbitrary: c)
  case (Suc k)
  have c: "10 \<le> c" using Suc.prems by (simp add: nat_str.simps [of c] split: if_splits)
  have "take (length (nat_str c) - Suc k) (nat_str c) =
      take (length (nat_str (c div 10)) - k) (nat_str (c div 10))"
    using nat_str_step [OF c] by simp
  also have "\<dots> = nat_str (c div 10 div 10 ^ k)"
    by (rule Suc.IH) (use Suc.prems nat_str_step [OF c] in simp)
  finally show ?case by (simp add: div_mult2_eq)
qed simp

lemma nat_str_zero: "digit_char 0 = CHR ''0''" "nat_str 0 = ''0''"
  by code_simp+

lemma nat_str_shift: "0 < c \<Longrightarrow> nat_str (c * 10 ^ k) = nat_str c @ replicate k (CHR ''0'')"
proof (induction k)
  case (Suc k)
  have "10 \<le> c * 10 ^ Suc k" using Suc.prems by simp
  then have "nat_str (c * 10 ^ Suc k) = nat_str (c * 10 ^ k) @ [digit_char 0]"
    using nat_str_step [of "c * 10 ^ Suc k"] by simp
  then show ?case using Suc by (simp add: replicate_append_same nat_str_zero)
qed simp

lemma nat_str_length: "c < 10 ^ length (nat_str c)"
  using digits_nat_less [of "nat_str c"] nat_str_digits [of c] by simp

lemma nat_str_inj: "nat_str a = nat_str b \<Longrightarrow> a = b"
  using nat_str_digits by metis

lemma point_not_digit: "list_all is_digit s \<Longrightarrow> CHR ''.'' \<notin> set s"
  using digit_zero(3) by (auto simp: list_all_iff)

definition signed :: "decimal \<Rightarrow> string" where
  "signed a = (if dec_neg a \<and> dec_coeff a \<noteq> 0 then ''-'' else [])"

lemma fixed_fraction:
  assumes "dec_exp a < 0"
  obtains f where "dec_fixed a = dec_sign a @ nat_str (dec_coeff a div 10 ^ nat (- dec_exp a)) @ ''.'' @ f"
    and "list_all is_digit f" and "length f = nat (- dec_exp a)"
    and "digits_nat f = dec_coeff a mod 10 ^ nat (- dec_exp a)"
proof -
  let ?c = "dec_coeff a" and ?k = "nat (- dec_exp a)"
  let ?d = "nat_str ?c"
  note d = nat_str_digits [of ?c]
  show thesis
  proof (cases "length ?d > ?k")
    case True
    let ?f = "drop (length ?d - ?k) ?d"
    have split: "?d = nat_str (?c div 10 ^ ?k) @ ?f"
      using nat_str_take [OF True] by (metis append_take_drop_id)
    have len: "length ?f = ?k" using True by simp
    have "?c = ?c div 10 ^ ?k * 10 ^ ?k + digits_nat ?f"
      using d arg_cong [OF split, of digits_nat] nat_str_digits [of "?c div 10 ^ ?k"] len
      by (simp add: digits_nat_append del: length_drop)
    then have "digits_nat ?f = ?c mod 10 ^ ?k" by (metis add_left_imp_eq div_mult_mod_eq)
    moreover have "list_all is_digit ?f" using d by (metis append_take_drop_id list_all_append)
    moreover have "dec_fixed a = dec_sign a @ nat_str (?c div 10 ^ ?k) @ ''.'' @ ?f"
      using assms True nat_str_take [OF True] by (simp add: dec_fixed_def Let_def)
    ultimately show thesis using that [of ?f] len by blast
  next
    case False
    let ?f = "replicate (?k - length ?d) (CHR ''0'') @ ?d"
    have "?c < 10 ^ ?k"
      by (rule less_le_trans [OF nat_str_length]) (use False in \<open>simp add: power_increasing\<close>)
    then have "nat_str (?c div 10 ^ ?k) = ''0''" "?c mod 10 ^ ?k = ?c"
      by (simp_all add: nat_str_zero)
    moreover have "list_all is_digit ?f" using d digit_zero(1) by (auto simp: list_all_iff)
    moreover have "digits_nat ?f = ?c" using d by (simp add: digits_nat_append digits_nat_zeros)
    moreover have "dec_fixed a = dec_sign a @ ''0'' @ ''.'' @ ?f"
      using assms False by (simp add: dec_fixed_def Let_def)
    ultimately show thesis using that [of ?f] False by simp
  qed
qed

lemma last_digit: "f \<noteq> [] \<Longrightarrow> list_all is_digit f \<Longrightarrow> last f \<noteq> CHR ''0'' \<Longrightarrow> \<not> 10 dvd digits_nat f"
proof -
  assume a: "f \<noteq> []" "list_all is_digit f" "last f \<noteq> CHR ''0''"
  then obtain x y where xy: "f = x @ [y]" by (metis rev_exhaust)
  then have "is_digit y" "y \<noteq> CHR ''0''" using a by simp_all
  then have "digit_value y \<noteq> 0" "digit_value y < 10"
    using digit_value_inj digit_zero(1,2) digit_value_less by metis+
  then show ?thesis by (auto simp: xy digits_nat_append dvd_eq_mod_eq_0 mod_add_left_eq [symmetric])
qed

text \<open>Stripping the zeros and then the point of a fixed-point text.\<close>

lemma strip_fraction:
  assumes i: "list_all is_digit i" "i \<noteq> []" and f: "list_all is_digit f"
  shows "py_rstrip (CHR ''.'') (py_rstrip (CHR ''0'') (s @ i @ ''.'' @ f)) =
    s @ i @ (if py_rstrip (CHR ''0'') f = [] then [] else ''.'' @ py_rstrip (CHR ''0'') f)"
proof -
  let ?f = "py_rstrip (CHR ''0'') f"
  have keep: "py_rstrip (CHR ''.'') (t @ x) = t @ x" if x: "list_all is_digit x" "x \<noteq> []" for t x
  proof -
    obtain y z where "x = y @ [z]" using x(2) by (metis rev_exhaust)
    then show ?thesis using x(1) digit_zero(3) rstrip_snoc [of "CHR ''.''" "t @ y" z] by auto
  qed
  have pf: "list_all is_digit ?f" using f rstrip_split [of f "CHR ''0''"] by (metis list_all_append)
  have "py_rstrip (CHR ''0'') (s @ i @ ''.'' @ f) = s @ i @ ''.'' @ ?f"
    using rstrip_append [of "CHR ''0''" "s @ i @ ''.''" f] rstrip_snoc [of "CHR ''0''" "s @ i" "CHR ''.''"]
    by auto
  then show ?thesis
    using keep [OF i, of s] keep [OF pf, of "s @ i @ ''.''"] rstrip_snoc [of "CHR ''.''" "s @ i" "CHR ''.''"]
    by auto
qed

lemma plain_fraction:
  assumes e: "dec_exp a < 0" and f: "list_all is_digit f" "length f = nat (- dec_exp a)"
    "digits_nat f = dec_coeff a mod 10 ^ nat (- dec_exp a)"
  shows "plain a (dec_coeff a div 10 ^ nat (- dec_exp a)) (py_rstrip (CHR ''0'') f)"
proof -
  let ?k = "nat (- dec_exp a)"
  let ?i = "dec_coeff a div 10 ^ ?k" and ?f = "py_rstrip (CHR ''0'') f"
  obtain z where z: "f = ?f @ replicate z (CHR ''0'')" using rstrip_split by blast
  have pf: "list_all is_digit ?f" using f(1) z by (metis list_all_append)
  have dg: "digits_nat f = digits_nat ?f * 10 ^ z"
    using arg_cong [OF z, of digits_nat] by (simp add: digits_nat_append digits_nat_zeros)
  have lz: "?k = length ?f + z" using f(2) z by (metis length_append length_replicate)
  have "dec_coeff a = ?i * 10 ^ ?k + digits_nat f" unfolding f(3) by (rule div_mult_mod_eq [symmetric])
  then have "of_nat (dec_coeff a) = (of_nat (?i * 10 ^ ?k + digits_nat f) :: rat)" by (rule arg_cong)
  then have "of_nat (dec_coeff a) = (of_nat ?i * 10 ^ ?k + of_nat (digits_nat f) :: rat)"
    by (simp only: of_nat_add of_nat_mult of_nat_power of_nat_numeral)
  moreover have "10 powi dec_exp a = (1 / 10 ^ ?k :: rat)"
    using e by (simp add: power_int_def field_simps)
  ultimately have "of_nat (dec_coeff a) * 10 powi dec_exp a =
      (of_nat ?i + of_nat (digits_nat f) / 10 ^ ?k :: rat)"
    by (simp add: add_divide_distrib)
  also have "of_nat (digits_nat f) / 10 ^ ?k = (of_nat (digits_nat ?f) / 10 ^ length ?f :: rat)"
    unfolding dg lz by (simp add: power_add)
  finally show ?thesis using pf rstrip_last by (auto simp: plain_def)
qed

lemma plain_zero: "plain a i f \<Longrightarrow> dec_coeff a = 0 \<longleftrightarrow> i = 0 \<and> f = []"
proof -
  assume p: "plain a i f"
  have pos: "digits_nat f \<noteq> 0" if "f \<noteq> []"
    using last_digit [OF that] p that by (metis dvd_0_right plain_def)
  have "dec_coeff a = 0 \<longleftrightarrow> (of_nat i + of_nat (digits_nat f) / 10 ^ length f :: rat) = 0"
    using p by (auto simp: plain_def)
  also have "\<dots> \<longleftrightarrow> (of_nat i :: rat) = 0 \<and> of_nat (digits_nat f) / (10 ^ length f :: rat) = 0"
    by (rule add_nonneg_eq_0_iff) simp_all
  also have "\<dots> \<longleftrightarrow> i = 0 \<and> f = []" using pos by (cases "f = []") auto
  finally show ?thesis .
qed

text \<open>The last step of the function: an empty or negative-zero result becomes zero.\<close>

lemma normal_result:
  assumes p: "plain a i f"
    and R: "R = dec_sign a @ nat_str i @ (if f = [] then [] else ''.'' @ f)"
  shows "(if R = [] \<or> R = ''-0'' then ''0'' else R) = signed a @ nat_str i @ (if f = [] then [] else ''.'' @ f)"
proof (cases "dec_coeff a = 0")
  case True
  then show ?thesis using plain_zero [OF p] by (simp add: R nat_str_zero dec_sign_def signed_def)
next
  case False
  have d: "list_all is_digit (nat_str i)" "nat_str i \<noteq> []" using nat_str_digits by blast+
  have "nat_str i = ''0'' \<longleftrightarrow> i = 0" using nat_str_inj [of i 0] nat_str_zero(2) by auto
  then have "nat_str i @ (if f = [] then [] else ''.'' @ f) \<noteq> ''0''"
    using False plain_zero [OF p] d(2) by (cases "nat_str i") auto
  moreover have "hd (nat_str i) \<noteq> CHR ''-''" using d digit_zero(4) by (cases "nat_str i") auto
  ultimately show ?thesis
    using d(2) False by (cases "nat_str i") (auto simp: R dec_sign_def signed_def)
qed

lemma identity_text_plain:
  "\<exists>i f. plain a i f \<and> decimal_identity_text a = signed a @ nat_str i @ (if f = [] then [] else ''.'' @ f)"
proof (cases "dec_exp a < 0")
  case False
  let ?i = "dec_coeff a * 10 ^ nat (dec_exp a)"
  have p: "plain a ?i []" using False by (simp add: plain_def power_int_def)
  have fixed: "dec_fixed a = dec_sign a @ nat_str ?i"
    using False nat_str_shift [of "dec_coeff a" "nat (dec_exp a)"]
    by (auto simp: dec_fixed_def Let_def nat_str_zero)
  have "CHR ''.'' \<notin> set (dec_fixed a)"
    using point_not_digit nat_str_digits [of ?i] by (auto simp: fixed dec_sign_def)
  then have "decimal_identity_text a = (if dec_fixed a = [] \<or> dec_fixed a = ''-0'' then ''0'' else dec_fixed a)"
    by (simp add: decimal_identity_text_def)
  also have "\<dots> = signed a @ nat_str ?i" using normal_result [OF p, of "dec_fixed a"] fixed by simp
  finally have "decimal_identity_text a = signed a @ nat_str ?i" .
  then show ?thesis using p by (intro exI [of _ ?i] exI [of _ "[]"]) simp
next
  case True
  let ?i = "dec_coeff a div 10 ^ nat (- dec_exp a)"
  obtain f where fixed: "dec_fixed a = dec_sign a @ nat_str ?i @ ''.'' @ f"
    and f: "list_all is_digit f" "length f = nat (- dec_exp a)"
      "digits_nat f = dec_coeff a mod 10 ^ nat (- dec_exp a)"
    using fixed_fraction [OF True] by blast
  note p = plain_fraction [OF True f]
  have d: "list_all is_digit (nat_str ?i)" "nat_str ?i \<noteq> []" using nat_str_digits by blast+
  have "CHR ''.'' \<in> set (dec_fixed a)" by (simp add: fixed)
  then have "decimal_identity_text a =
      (let R = dec_sign a @ nat_str ?i @ (if py_rstrip (CHR ''0'') f = [] then []
         else ''.'' @ py_rstrip (CHR ''0'') f)
       in if R = [] \<or> R = ''-0'' then ''0'' else R)"
    unfolding decimal_identity_text_def strip_fraction [OF d f(1), symmetric] fixed [symmetric] by simp
  then show ?thesis using p normal_result [OF p refl] unfolding Let_def by metis
qed

lemma fraction_unique:
  assumes f: "list_all is_digit f" "f \<noteq> [] \<longrightarrow> last f \<noteq> CHR ''0''"
    and g: "list_all is_digit g" "g \<noteq> [] \<longrightarrow> last g \<noteq> CHR ''0''"
    and eq: "digits_nat f * 10 ^ length g = digits_nat g * 10 ^ length f" and le: "length f \<le> length g"
  shows "f = g"
proof -
  have "digits_nat g * 10 ^ length f = (digits_nat f * 10 ^ (length g - length f)) * 10 ^ length f"
    using eq le by (simp add: mult.assoc power_add [symmetric])
  then have eq': "digits_nat g = digits_nat f * 10 ^ (length g - length f)" by simp
  have "length f = length g"
  proof (rule ccontr)
    assume "length f \<noteq> length g"
    then have "10 dvd digits_nat g" "g \<noteq> []" using eq' le by (auto simp: dvd_mult)
    then show False using last_digit g by blast
  qed
  then show ?thesis using digits_nat_inj [OF f(1) g(1)] eq' by simp
qed

lemma plain_unique:
  assumes a: "plain a i f" and b: "plain b j g"
    and eq: "of_nat (dec_coeff a) * 10 powi dec_exp a = (of_nat (dec_coeff b) * 10 powi dec_exp b :: rat)"
  shows "i = j \<and> f = g"
proof -
  let ?x = "of_nat (digits_nat f) / 10 ^ length f :: rat" and ?y = "of_nat (digits_nat g) / 10 ^ length g :: rat"
  have sum: "of_nat i + ?x = of_nat j + ?y" using a b eq by (simp add: plain_def)
  have lt: "0 \<le> of_nat (digits_nat s) / (10 ^ length s :: rat) \<and>
      of_nat (digits_nat s) / (10 ^ length s :: rat) < 1" if "list_all is_digit s" for s
  proof -
    have "(of_nat (digits_nat s) :: rat) < of_nat (10 ^ length s)"
      using digits_nat_less [OF that] by (simp only: of_nat_less_iff)
    then show ?thesis by simp
  qed
  have xy: "0 \<le> ?x" "?x < 1" "0 \<le> ?y" "?y < 1" using a b lt by (simp_all add: plain_def)
  have "(of_nat i :: rat) < of_nat j + 1" "(of_nat j :: rat) < of_nat i + 1"
    using sum xy by linarith+
  then have "i = j" by (metis less_Suc_eq_le of_nat_Suc of_nat_less_iff order_antisym add.commute)
  then have "?x = ?y" using sum by simp
  then have "of_nat (digits_nat f * 10 ^ length g) = (of_nat (digits_nat g * 10 ^ length f) :: rat)"
    by (simp add: field_simps)
  then have "digits_nat f * 10 ^ length g = digits_nat g * 10 ^ length f"
    by (simp only: of_nat_eq_iff)
  then have "f = g"
    using fraction_unique [of f g] fraction_unique [of g f] a b
    by (cases "length f \<le> length g") (auto simp: plain_def)
  with \<open>i = j\<close> show ?thesis by simp
qed

lemma signed_value:
  "dec_value a = (if signed a = [] then 1 else - 1) * (of_nat (dec_coeff a) * 10 powi dec_exp a)"
  by (auto simp: dec_value_def signed_def)

lemma plain_text_inj:
  assumes eq: "s @ nat_str i @ (if f = [] then [] else ''.'' @ f) =
      t @ nat_str j @ (if g = [] then [] else ''.'' @ g)"
    and s: "s = [] \<or> s = ''-''" and t: "t = [] \<or> t = ''-''"
  shows "s = t \<and> i = j \<and> f = g"
proof -
  have d: "list_all is_digit (nat_str i)" "nat_str i \<noteq> []" "list_all is_digit (nat_str j)" "nat_str j \<noteq> []"
    using nat_str_digits by blast+
  then have hd: "is_digit (hd (nat_str i))" "is_digit (hd (nat_str j))" by (cases "nat_str i"; cases "nat_str j"; simp)+
  have st: "s = t" using eq s t d hd digit_zero(4) by (auto simp: neq_Nil_conv)
  then have rest: "nat_str i @ (if f = [] then [] else ''.'' @ f) =
      nat_str j @ (if g = [] then [] else ''.'' @ g)" using eq by simp
  have tw: "takeWhile is_digit (nat_str n @ (if h = [] then [] else ''.'' @ h)) = nat_str n" for n h
    using nat_str_digits [of n] digit_zero(3) by (auto simp: list_all_iff)
  have "nat_str i = nat_str j" using arg_cong [OF rest, of "takeWhile is_digit"] by (simp only: tw)
  then show ?thesis using st rest nat_str_inj by (auto split: if_splits)
qed

lemma identity_text_iff:
  "decimal_identity_text a = decimal_identity_text b \<longleftrightarrow> dec_value a = dec_value b"
proof -
  obtain i f where a: "plain a i f"
    "decimal_identity_text a = signed a @ nat_str i @ (if f = [] then [] else ''.'' @ f)"
    using identity_text_plain by blast
  obtain j g where b: "plain b j g"
    "decimal_identity_text b = signed b @ nat_str j @ (if g = [] then [] else ''.'' @ g)"
    using identity_text_plain by blast
  have sg: "signed c = [] \<or> signed c = ''-''" for c by (simp add: signed_def)
  let ?m = "\<lambda>c. of_nat (dec_coeff c) * 10 powi dec_exp c :: rat"
  have nonneg: "0 \<le> ?m c" for c by simp
  have neg: "0 < ?m c" if "signed c \<noteq> []" for c using that by (auto simp: signed_def split: if_splits)
  show ?thesis
  proof
    assume "decimal_identity_text a = decimal_identity_text b"
    then have "signed a = signed b \<and> i = j \<and> f = g"
      using plain_text_inj [OF _ sg sg] a(2) b(2) by metis
    then show "dec_value a = dec_value b" using a(1) b(1) by (simp add: signed_value plain_def)
  next
    assume v: "dec_value a = dec_value b"
    have diff: "False" if "signed c = []" "signed d \<noteq> []" "dec_value c = dec_value d" for c d
    proof -
      have "?m c = - ?m d" using that by (simp add: signed_value)
      then show False using nonneg [of c] neg [OF that(2)] by linarith
    qed
    have "(signed a = []) = (signed b = [])" using v diff by metis
    then have "signed a = signed b" "?m a = ?m b" using v sg [of a] sg [of b] unfolding signed_value by auto
    then show "decimal_identity_text a = decimal_identity_text b"
      using plain_unique [OF a(1) b(1)] a(2) b(2) by metis
  qed
qed

lemma dec_less_iff: "dec_less a b \<longleftrightarrow> dec_value a < dec_value b"
proof -
  let ?e = "min (dec_exp a) (dec_exp b)"
  have scaled: "of_int (scaled c ?e) * 10 powi ?e = dec_value c" if "?e \<le> dec_exp c" for c
  proof -
    have "(10 :: rat) powi dec_exp c = 10 powi (dec_exp c - ?e) * 10 powi ?e"
      by (subst power_int_add [symmetric]) simp_all
    then show ?thesis using that by (simp add: scaled_def dec_value_def power_int_def)
  qed
  have "dec_less a b \<longleftrightarrow> (of_int (scaled a ?e) :: rat) < of_int (scaled b ?e)"
    by (simp add: dec_less_def Let_def)
  also have "\<dots> \<longleftrightarrow> (of_int (scaled a ?e) * 10 powi ?e :: rat) < of_int (scaled b ?e) * 10 powi ?e"
    by simp
  also have "\<dots> \<longleftrightarrow> dec_value a < dec_value b" using scaled [of a] scaled [of b] by simp
  finally show ?thesis .
qed

text \<open>
  C31. \<open>decimal_identity_text\<close> is a canonical form: two finite decimals, however they were
  written (sign of zero, trailing zeros, exponent), get the same identity text exactly when
  they are the same number. Item identities that contain decimals are therefore exact.
\<close>

theorem decimal_identity_exact:
  "decimal_identity_text a = decimal_identity_text b \<longleftrightarrow> dec_value a = dec_value b"
  by (rule identity_text_iff)

end
