(* ===== verification/Models.thy ===== *)
theory Models
  imports Decimals
begin

text \<open>
  The data model: the enumerations of the \<open>enums.py\<close> files and the rows of the tables that
  the services read and write (\<open>app/modules/*/models.py\<close>), collected in one record
  \<open>db\<close> because the services of different modules share one PostgreSQL database and one
  transaction. Identifiers are UUIDs as numbers (Python and PostgreSQL order UUIDs as
  128-bit numbers, and so does their textual form), timestamps are integers. Columns
  that no service reads back (\<open>created_at\<close>, \<open>updated_at\<close>, surrogate keys of projection
  rows) are left out.
\<close>

section \<open>Enumerations\<close>

datatype user_role = ENGINEER | SENIOR_ENGINEER | MANAGER | ADMIN | OWNER

datatype user_access_status = PENDING | APPROVED | REJECTED | BLOCKED

datatype access_request_status = AR_PENDING | AR_APPROVED | AR_REJECTED

datatype location_status = LOC_ACTIVE | LOC_ARCHIVED

datatype location_type = WAREHOUSE | DATACENTER

datatype movement_type =
  RECEIPT | ISSUE | RETURN | TRANSFER | WRITE_OFF | CORRECTION | REVERSAL

datatype item_status = ITEM_ACTIVE | ITEM_ARCHIVED

datatype procurement_status =
    AGREEMENT_PENDING_MANAGER
  | AGREEMENT_REVISION_REQUIRED
  | PURCHASING
  | AWAITING_ACCEPTANCE
  | COMPLETED

datatype procurement_line_type = EXISTING_ITEM | PROPOSED_ITEM

datatype procurement_event_type =
    REQUEST_CREATED
  | REVISION_SUBMITTED
  | MANAGER_ACCEPTED
  | CORRECTION_REQUESTED
  | ASSIGNMENT_TAKEN
  | ASSIGNMENT_TRANSFERRED
  | TRANSFERRED_TO_ACCEPTANCE
  | LINE_BOUND
  | DISCREPANCY_REPORTED
  | EV_COMPLETED

datatype outbox_status = OB_PENDING | OB_SENT | OB_DEAD

section \<open>Identity\<close>

record user =
  u_id :: uuid
  u_role :: user_role
  u_access_status :: user_access_status
  u_approved_at :: "timestamp option"
  u_approved_by_user_id :: "uuid option"

record telegram_identity =
  ti_user_id :: uuid
  ti_telegram_user_id :: int
  ti_username :: "string option"
  ti_first_name :: string
  ti_last_name :: "string option"
  ti_language_code :: "string option"
  ti_last_auth_at :: "timestamp option"

record access_request =
  ar_id :: uuid
  ar_user_id :: uuid
  ar_status :: access_request_status
  ar_requested_at :: timestamp
  ar_decided_at :: "timestamp option"
  ar_decided_by_user_id :: "uuid option"
  ar_decision_note :: "string option"

record user_access_event =
  uae_actor_user_id :: uuid
  uae_target_user_id :: uuid
  uae_before_access_status :: user_access_status
  uae_after_access_status :: user_access_status
  uae_occurred_at :: timestamp

record user_role_event =
  ure_actor_user_id :: uuid
  ure_target_user_id :: uuid
  ure_before_role :: user_role
  ure_after_role :: user_role
  ure_occurred_at :: timestamp

record auth_session =
  as_id :: uuid
  as_user_id :: uuid
  as_token_hash :: string
  as_created_at :: timestamp
  as_expires_at :: timestamp
  as_revoked_at :: "timestamp option"

section \<open>Catalog\<close>

record manufacturer =
  mf_id :: uuid
  mf_name :: string
  mf_normalized_name :: string

datatype attribute_value =
    AText string
  | AInteger int
  | ADecimal decimal
  | ABoolean bool
  | AEnum string

record item =
  it_id :: uuid
  it_category_id :: uuid
  it_manufacturer_id :: "uuid option"
  it_name :: string
  it_normalized_name :: string
  it_model :: "string option"
  it_normalized_model :: "string option"
  it_status :: item_status
  it_identity_signature :: string
  it_archived_at :: "timestamp option"
  it_attributes :: "(string \<times> attribute_value) list"

section \<open>Warehouse\<close>

record location =
  loc_id :: uuid
  loc_code :: string
  loc_normalized_code :: string
  loc_name :: string
  loc_address :: "string option"
  loc_location_type :: location_type
  loc_status :: location_status
  loc_archived_at :: "timestamp option"

record movement =
  mv_id :: uuid
  mv_journal_seq :: int
  mv_line_count :: int
  mv_movement_type :: movement_type
  mv_actor_user_id :: uuid
  mv_custody_user_id :: "uuid option"
  mv_source_location_id :: "uuid option"
  mv_destination_location_id :: "uuid option"
  mv_original_movement_id :: "uuid option"
  mv_client_request_id :: string
  mv_request_fingerprint :: string
  mv_actor_display_name_snapshot :: string
  mv_source_location_code_snapshot :: "string option"
  mv_source_location_name_snapshot :: "string option"
  mv_destination_location_code_snapshot :: "string option"
  mv_destination_location_name_snapshot :: "string option"
  mv_occurred_at :: timestamp

record movement_line =
  ml_movement_id :: uuid
  ml_line_no :: int
  ml_item_id :: uuid
  ml_quantity :: int
  ml_item_name_snapshot :: string
  ml_manufacturer_name_snapshot :: "string option"
  ml_model_snapshot :: "string option"

record stock_balance =
  sb_item_id :: uuid
  sb_location_id :: uuid
  sb_quantity :: int

record user_item_custody_balance =
  cb_user_id :: uuid
  cb_item_id :: uuid
  cb_quantity :: int

section \<open>Procurement\<close>

record procurement_request =
  pr_id :: uuid
  pr_request_number :: string
  pr_status :: procurement_status
  pr_initiator_user_id :: uuid
  pr_assigned_manager_user_id :: uuid
  pr_creation_client_request_id :: string
  pr_request_fingerprint :: string
  pr_current_revision_id :: uuid
  pr_final_movement_id :: "uuid option"
  pr_state_version :: int
  pr_completed_at :: "timestamp option"

record procurement_revision =
  rv_id :: uuid
  rv_request_id :: uuid
  rv_revision_number :: int
  rv_submitted_by_user_id :: uuid
  rv_submitted_by_display_name_snapshot :: string
  rv_general_comment :: "string option"
  rv_line_count :: int

record procurement_revision_line =
  rl_id :: uuid
  rl_revision_id :: uuid
  rl_line_no :: int
  rl_line_type :: procurement_line_type
  rl_catalog_item_id :: "uuid option"
  rl_display_snapshot :: json
  rl_expected_identity_signature :: string
  rl_quantity :: int

record procurement_line_catalog_binding =
  bd_revision_line_id :: uuid
  bd_item_id :: uuid
  bd_bound_by_user_id :: uuid

record procurement_event =
  ev_id :: uuid
  ev_request_id :: uuid
  ev_event_type :: procurement_event_type
  ev_actor_user_id :: uuid
  ev_actor_display_name_snapshot :: string
  ev_client_request_id :: string
  ev_request_fingerprint :: string
  ev_from_status :: "procurement_status option"
  ev_to_status :: "procurement_status option"
  ev_revision_id :: "uuid option"
  ev_comment :: "string option"
  ev_metadata :: "json option"

section \<open>Notifications\<close>

record notification_outbox =
  no_id :: uuid
  no_method :: string
  no_payload :: json
  no_dedupe_key :: string
  no_status :: outbox_status
  no_attempts :: int
  no_available_at :: timestamp
  no_claimed_at :: "timestamp option"
  no_claim_token :: "uuid option"
  no_sent_at :: "timestamp option"
  no_last_error :: "string option"
  no_created_at :: timestamp

section \<open>The database\<close>

record db =
  users :: "user list"
  telegram_identities :: "telegram_identity list"
  access_requests :: "access_request list"
  user_access_events :: "user_access_event list"
  user_role_events :: "user_role_event list"
  auth_sessions :: "auth_session list"
  manufacturers :: "manufacturer list"
  items :: "item list"
  locations :: "location list"
  movements :: "movement list"
  movement_lines :: "movement_line list"
  stock_balances :: "stock_balance list"
  user_item_custody_balances :: "user_item_custody_balance list"
  procurement_requests :: "procurement_request list"
  procurement_revisions :: "procurement_revision list"
  procurement_revision_lines :: "procurement_revision_line list"
  procurement_line_catalog_bindings :: "procurement_line_catalog_binding list"
  procurement_events :: "procurement_event list"
  notification_outboxes :: "notification_outbox list"

definition empty_db :: db where
  "empty_db = \<lparr> users = [], telegram_identities = [], access_requests = [],
     user_access_events = [], user_role_events = [], auth_sessions = [],
     manufacturers = [], items = [], locations = [], movements = [], movement_lines = [],
     stock_balances = [], user_item_custody_balances = [],
     procurement_requests = [], procurement_revisions = [], procurement_revision_lines = [],
     procurement_line_catalog_bindings = [], procurement_events = [],
     notification_outboxes = [] \<rparr>"

lemma empty_db_simps [simp]:
  "users empty_db = []" "telegram_identities empty_db = []" "access_requests empty_db = []"
  "user_access_events empty_db = []" "user_role_events empty_db = []"
  "auth_sessions empty_db = []" "manufacturers empty_db = []" "items empty_db = []"
  "locations empty_db = []" "movements empty_db = []" "movement_lines empty_db = []"
  "stock_balances empty_db = []" "user_item_custody_balances empty_db = []"
  "procurement_requests empty_db = []" "procurement_revisions empty_db = []"
  "procurement_revision_lines empty_db = []" "procurement_line_catalog_bindings empty_db = []"
  "procurement_events empty_db = []" "notification_outboxes empty_db = []"
  by (simp_all add: empty_db_def)

section \<open>Lookups by primary key\<close>

definition get_user :: "db \<Rightarrow> uuid \<Rightarrow> user option" where
  "get_user d i = table_get u_id i (users d)"

definition get_identity :: "db \<Rightarrow> uuid \<Rightarrow> telegram_identity option" where
  "get_identity d i = table_get ti_user_id i (telegram_identities d)"

definition get_item :: "db \<Rightarrow> uuid \<Rightarrow> item option" where
  "get_item d i = table_get it_id i (items d)"

definition get_loc :: "db \<Rightarrow> uuid \<Rightarrow> location option" where
  "get_loc d i = table_get loc_id i (locations d)"

definition get_mov :: "db \<Rightarrow> uuid \<Rightarrow> movement option" where
  "get_mov d i = table_get mv_id i (movements d)"

definition get_request :: "db \<Rightarrow> uuid \<Rightarrow> procurement_request option" where
  "get_request d i = table_get pr_id i (procurement_requests d)"

definition btrim :: "string \<Rightarrow> string" where
  \<comment> \<open>PostgreSQL's one-argument \<open>btrim\<close> removes blanks only\<close>
  "btrim s = rev (dropWhile (\<lambda>c. c = CHR '' '') (rev (dropWhile (\<lambda>c. c = CHR '' '') s)))"

lemma btrim_eq_Nil: "btrim s = [] \<longleftrightarrow> (\<forall>c\<in>set s. c = CHR '' '')"
proof -
  have "(\<forall>c\<in>set (dropWhile (\<lambda>c. c = CHR '' '') s). c = CHR '' '') \<longleftrightarrow>
    (\<forall>c\<in>set s. c = CHR '' '')"
    by (induction s) auto
  then show ?thesis by (simp add: btrim_def dropWhile_eq_Nil_conv)
qed

text \<open>Normalised text that is not empty passes the \<open>btrim(...) <> ''\<close> checks.\<close>

lemma btrim_normalized:
  assumes "normalize_idempotency_key s \<noteq> []"
  shows "btrim (normalize_idempotency_key s) \<noteq> []"
proof
  let ?t = "normalize_idempotency_key s"
  assume "btrim ?t = []"
  then have "\<forall>c\<in>set ?t. is_space c" unfolding btrim_eq_Nil using is_space_blank by metis
  then have "normalize_idempotency_key ?t = []" by (simp add: normalize_key_blank)
  with assms show False by (simp add: normalize_key_idem)
qed

end
