(* ===== verification/Policy.thy ===== *)
theory Policy
  imports Models
begin

text \<open>
  The capability matrix of \<open>app/modules/identity/policy.py\<close>: which role holds which
  capability, the roles that may be assigned by an administrator, the roles that may
  hold equipment, and the order in which capabilities are serialised. Capabilities are
  ordered by their wire value, as \<open>sorted(..., key=str)\<close> orders them.
\<close>

datatype capability =
    CATALOG_READ
  | CATALOG_MANAGE
  | CATALOG_ARCHIVE
  | CATALOG_DELETE_UNUSED
  | INVENTORY_READ
  | INVENTORY_OPERATE
  | INVENTORY_ADMIN
  | MOVEMENT_READ_OWN
  | MOVEMENT_READ_ALL
  | PROCUREMENT_READ
  | PROCUREMENT_CREATE
  | PROCUREMENT_MANAGE
  | PROCUREMENT_ACCEPT
  | ACCESS_MANAGE_USERS
  | ACCESS_ASSIGN_STANDARD_ROLES
  | ACCESS_ASSIGN_ADMIN

fun capability_value :: "capability \<Rightarrow> string" where
  "capability_value CATALOG_READ = ''catalog.read''"
| "capability_value CATALOG_MANAGE = ''catalog.manage''"
| "capability_value CATALOG_ARCHIVE = ''catalog.archive''"
| "capability_value CATALOG_DELETE_UNUSED = ''catalog.delete_unused''"
| "capability_value INVENTORY_READ = ''inventory.read''"
| "capability_value INVENTORY_OPERATE = ''inventory.operate''"
| "capability_value INVENTORY_ADMIN = ''inventory.admin''"
| "capability_value MOVEMENT_READ_OWN = ''movement.read_own''"
| "capability_value MOVEMENT_READ_ALL = ''movement.read_all''"
| "capability_value PROCUREMENT_READ = ''procurement.read''"
| "capability_value PROCUREMENT_CREATE = ''procurement.create''"
| "capability_value PROCUREMENT_MANAGE = ''procurement.manage''"
| "capability_value PROCUREMENT_ACCEPT = ''procurement.accept''"
| "capability_value ACCESS_MANAGE_USERS = ''access.manage_users''"
| "capability_value ACCESS_ASSIGN_STANDARD_ROLES = ''access.assign_standard_roles''"
| "capability_value ACCESS_ASSIGN_ADMIN = ''access.assign_admin''"

lemma capability_value_inj: "capability_value a = capability_value b \<Longrightarrow> a = b"
  by (cases a; cases b; simp)

instantiation capability :: linorder
begin

definition less_eq_capability :: "capability \<Rightarrow> capability \<Rightarrow> bool" where
  "less_eq_capability a b \<longleftrightarrow> capability_value a \<le> capability_value b"

definition less_capability :: "capability \<Rightarrow> capability \<Rightarrow> bool" where
  "less_capability a b \<longleftrightarrow> capability_value a < capability_value b"

instance
  by standard (auto simp: less_eq_capability_def less_capability_def dest: capability_value_inj)

end

definition ENGINEER_CAPABILITIES :: "capability list" where
  "ENGINEER_CAPABILITIES = [CATALOG_READ, INVENTORY_READ, INVENTORY_OPERATE, MOVEMENT_READ_OWN]"

fun ROLE_CAPABILITIES :: "user_role \<Rightarrow> capability list" where
  "ROLE_CAPABILITIES ENGINEER = ENGINEER_CAPABILITIES"
| "ROLE_CAPABILITIES SENIOR_ENGINEER = ENGINEER_CAPABILITIES @
     [CATALOG_MANAGE, CATALOG_ARCHIVE, CATALOG_DELETE_UNUSED, MOVEMENT_READ_ALL,
      PROCUREMENT_READ, PROCUREMENT_ACCEPT]"
| "ROLE_CAPABILITIES MANAGER =
     [CATALOG_READ, INVENTORY_READ, PROCUREMENT_READ, PROCUREMENT_MANAGE]"
| "ROLE_CAPABILITIES ADMIN =
     [CATALOG_READ, CATALOG_MANAGE, CATALOG_ARCHIVE, CATALOG_DELETE_UNUSED, INVENTORY_READ,
      INVENTORY_OPERATE, INVENTORY_ADMIN, MOVEMENT_READ_ALL, PROCUREMENT_READ,
      PROCUREMENT_CREATE, PROCUREMENT_ACCEPT, ACCESS_MANAGE_USERS,
      ACCESS_ASSIGN_STANDARD_ROLES]"
| "ROLE_CAPABILITIES OWNER =
     [CATALOG_READ, CATALOG_MANAGE, CATALOG_ARCHIVE, CATALOG_DELETE_UNUSED, INVENTORY_READ,
      INVENTORY_OPERATE, INVENTORY_ADMIN, MOVEMENT_READ_ALL, PROCUREMENT_READ,
      PROCUREMENT_CREATE, PROCUREMENT_ACCEPT, ACCESS_MANAGE_USERS,
      ACCESS_ASSIGN_STANDARD_ROLES, ACCESS_ASSIGN_ADMIN]"

definition STANDARD_ASSIGNABLE_ROLES :: "user_role list" where
  "STANDARD_ASSIGNABLE_ROLES = [ENGINEER, SENIOR_ENGINEER, MANAGER]"

definition CUSTODY_ROLES :: "user_role list" where
  "CUSTODY_ROLES = [ENGINEER, SENIOR_ENGINEER]"

definition capabilities_for_role :: "user_role \<Rightarrow> capability set" where
  "capabilities_for_role role = set (ROLE_CAPABILITIES role)"

definition has_capability :: "user_role \<Rightarrow> capability \<Rightarrow> bool" where
  "has_capability role c \<longleftrightarrow> c \<in> capabilities_for_role role"

definition serialized_capabilities :: "user_role \<Rightarrow> capability list" where
  "serialized_capabilities role = sort (ROLE_CAPABILITIES role)"

lemma has_capability_iff [simp]: "has_capability r c \<longleftrightarrow> c \<in> set (ROLE_CAPABILITIES r)"
  by (simp add: has_capability_def capabilities_for_role_def)

lemma custody_role_iff [simp]: "r \<in> set CUSTODY_ROLES \<longleftrightarrow> r = ENGINEER \<or> r = SENIOR_ENGINEER"
  by (simp add: CUSTODY_ROLES_def)

lemma standard_role_iff [simp]:
  "r \<in> set STANDARD_ASSIGNABLE_ROLES \<longleftrightarrow> r = ENGINEER \<or> r = SENIOR_ENGINEER \<or> r = MANAGER"
  by (simp add: STANDARD_ASSIGNABLE_ROLES_def)

text \<open>Who holds the capabilities on which the access checks of the services rest.\<close>

lemma assign_admin_iff: "has_capability r ACCESS_ASSIGN_ADMIN \<longleftrightarrow> r = OWNER"
  by (cases r) (simp_all add: ENGINEER_CAPABILITIES_def)

lemma manage_users_iff: "has_capability r ACCESS_MANAGE_USERS \<longleftrightarrow> r = ADMIN \<or> r = OWNER"
  by (cases r) (simp_all add: ENGINEER_CAPABILITIES_def)

lemma assign_standard_iff:
  "has_capability r ACCESS_ASSIGN_STANDARD_ROLES \<longleftrightarrow> r = ADMIN \<or> r = OWNER"
  by (cases r) (simp_all add: ENGINEER_CAPABILITIES_def)

lemma procurement_create_iff: "has_capability r PROCUREMENT_CREATE \<longleftrightarrow> r = ADMIN \<or> r = OWNER"
  by (cases r) (simp_all add: ENGINEER_CAPABILITIES_def)

lemma procurement_manage_iff: "has_capability r PROCUREMENT_MANAGE \<longleftrightarrow> r = MANAGER"
  by (cases r) (simp_all add: ENGINEER_CAPABILITIES_def)

lemma procurement_accept_iff:
  "has_capability r PROCUREMENT_ACCEPT \<longleftrightarrow> r = SENIOR_ENGINEER \<or> r = ADMIN \<or> r = OWNER"
  by (cases r) (simp_all add: ENGINEER_CAPABILITIES_def)

lemma inventory_admin_iff: "has_capability r INVENTORY_ADMIN \<longleftrightarrow> r = ADMIN \<or> r = OWNER"
  by (cases r) (simp_all add: ENGINEER_CAPABILITIES_def)

lemma distinct_role_capabilities: "distinct (ROLE_CAPABILITIES r)"
  by (cases r) (simp_all add: ENGINEER_CAPABILITIES_def)

lemma serialized_capabilities_spec:
  "sorted (serialized_capabilities r) \<and> distinct (serialized_capabilities r) \<and>
   set (serialized_capabilities r) = capabilities_for_role r"
  by (simp add: serialized_capabilities_def distinct_role_capabilities capabilities_for_role_def)

end
