(* ===== verification/Identity.thy ===== *)
theory Identity
  imports Policy
begin

text \<open>
  Users and their access: the access lifecycle (\<open>identity/access_lifecycle.py\<close>), the
  administration of users (\<open>identity/admin_service.py\<close>), the account reset
  (\<open>identity/reset_service.py\<close>), access requests (\<open>access/service.py\<close>), and sign-in with
  its sessions (\<open>auth/service.py\<close>). The shared and exclusive barriers and row locks of
  these handlers do not change data. The deferred constraint triggers on \<open>users\<close>
  (\<open>f6a7b8c9d0e1\<close>, \<open>f7a8b9c0d1e2\<close>) run when the transaction commits; they compare the
  committed rows with those at its start.
\<close>

datatype identity_error =
    AdminUserNotFoundError
  | InvalidAccessTransitionError
  | PendingAccessRequestNotFoundError
  | AdminUserForbiddenError
  | RecoveryAdminInvariantError
  | OutstandingCustodyInvariantError
  | ActiveProcurementResponsibilityInvariantError
  | AccountResetIdentityMismatchError
  | AccountResetActiveProcurementError
  | AccessAlreadyApprovedError
  | AccessBlockedError
  | RecoveryOwnerConflictError
  | IdentityRuntimeError
  | IdentityDbError string

section \<open>Access lifecycle\<close>

definition save_user :: "db \<Rightarrow> user \<Rightarrow> db" where
  "save_user d u = d\<lparr>users := table_update u_id (u_id u) (\<lambda>_. u) (users d)\<rparr>"

definition transition_user_access ::
    "db \<Rightarrow> user \<Rightarrow> uuid \<Rightarrow> user_access_status \<Rightarrow> timestamp \<Rightarrow> db \<times> user \<times> user_access_event option"
where
  "transition_user_access d u actor status now =
     (let before = u_access_status u in
      if before = status then (d, u, None)
      else
        (let u' = u\<lparr>u_access_status := status,
                    u_approved_at := (if status = APPROVED then Some now else None),
                    u_approved_by_user_id := (if status = APPROVED then Some actor else None)\<rparr>;
             e = \<lparr> uae_actor_user_id = actor, uae_target_user_id = u_id u,
                   uae_before_access_status = before, uae_after_access_status = status,
                   uae_occurred_at = now \<rparr>
         in ((save_user d u')\<lparr>user_access_events := user_access_events d @ [e]\<rparr>, u', Some e)))"

section \<open>Administration of users\<close>

definition lock_actor_and_target :: "db \<Rightarrow> uuid \<Rightarrow> uuid \<Rightarrow> identity_error + user \<times> user" where
  "lock_actor_and_target d actor_id target_id =
     (case get_user d actor_id of
        None \<Rightarrow> Inl AdminUserForbiddenError
      | Some actor \<Rightarrow>
          if u_access_status actor \<noteq> APPROVED \<or> \<not> has_capability (u_role actor) ACCESS_MANAGE_USERS
          then Inl AdminUserForbiddenError
          else case get_user d target_id of
            None \<Rightarrow> Inl AdminUserNotFoundError
          | Some target \<Rightarrow> Inr (actor, target))"

definition is_recovery_identity :: "db \<Rightarrow> uuid \<Rightarrow> int option \<Rightarrow> bool" where
  "is_recovery_identity d user_id recovery_telegram_user_id =
     (case recovery_telegram_user_id of
        None \<Rightarrow> False
      | Some r \<Rightarrow> map_option ti_telegram_user_id (get_identity d user_id) = Some r)"

definition has_active_procurement_create_responsibility :: "db \<Rightarrow> uuid \<Rightarrow> bool" where
  "has_active_procurement_create_responsibility d user_id \<longleftrightarrow>
     (\<exists>r\<in>set (procurement_requests d). pr_initiator_user_id r = user_id \<and>
        pr_status r \<in> {AGREEMENT_PENDING_MANAGER, AGREEMENT_REVISION_REQUIRED})"

definition has_custody :: "db \<Rightarrow> uuid \<Rightarrow> bool" where
  "has_custody d user_id \<longleftrightarrow>
     (\<exists>b\<in>set (user_item_custody_balances d). cb_user_id b = user_id)"

definition revoke_session :: "uuid \<Rightarrow> timestamp \<Rightarrow> auth_session \<Rightarrow> auth_session" where
  "revoke_session user_id now s =
     (if as_user_id s = user_id \<and> as_revoked_at s = None
      then s\<lparr>as_revoked_at := Some now\<rparr> else s)"

definition revoke_sessions :: "db \<Rightarrow> uuid \<Rightarrow> timestamp \<Rightarrow> db" where
  "revoke_sessions d user_id now =
     d\<lparr>auth_sessions := map (revoke_session user_id now) (auth_sessions d)\<rparr>"

definition update_user_access ::
    "db \<Rightarrow> uuid \<Rightarrow> uuid \<Rightarrow> user_access_status \<Rightarrow> int option \<Rightarrow> timestamp
       \<Rightarrow> identity_error + db \<times> user \<times> user_access_event option" where
  "update_user_access d actor_id target_id status recovery now =
     ebind (lock_actor_and_target d actor_id target_id) (\<lambda>(actor, target).
     let before = u_access_status target in
     if status = before then Inr (d, target, None)
     else if (before, status) \<notin> {(APPROVED, BLOCKED), (BLOCKED, APPROVED)}
     then Inl InvalidAccessTransitionError
     else if u_role target = OWNER \<or> is_recovery_identity d (u_id target) recovery
     then Inl RecoveryAdminInvariantError
     else if u_role target = ADMIN \<and> \<not> has_capability (u_role actor) ACCESS_ASSIGN_ADMIN
     then Inl AdminUserForbiddenError
     else if u_id actor = u_id target then Inl AdminUserForbiddenError
     else if before = APPROVED \<and> status = BLOCKED \<and> has_custody d (u_id target)
     then Inl OutstandingCustodyInvariantError
     else if before = APPROVED \<and> status = BLOCKED \<and>
             has_capability (u_role target) PROCUREMENT_CREATE \<and>
             has_active_procurement_create_responsibility d (u_id target)
     then Inl ActiveProcurementResponsibilityInvariantError
     else
       (let (d1, target', event) = transition_user_access d target actor_id status now;
            d2 = (if status = BLOCKED then revoke_sessions d1 (u_id target) now else d1)
        in Inr (d2, target', event)))"

definition pending_requests_of :: "db \<Rightarrow> uuid \<Rightarrow> access_request list" where
  "pending_requests_of d user_id =
     filter (\<lambda>r. ar_user_id r = user_id \<and> ar_status r = AR_PENDING) (access_requests d)"

definition get_pending_access_request :: "db \<Rightarrow> uuid \<Rightarrow> access_request option" where
  "get_pending_access_request d user_id =
     (case sort_key (\<lambda>r. - ar_requested_at r) (pending_requests_of d user_id) of
        [] \<Rightarrow> None | r # _ \<Rightarrow> Some r)"

definition save_access_request :: "db \<Rightarrow> access_request \<Rightarrow> db" where
  "save_access_request d r =
     d\<lparr>access_requests := table_update ar_id (ar_id r) (\<lambda>_. r) (access_requests d)\<rparr>"

definition decide_pending_access_request ::
    "db \<Rightarrow> uuid \<Rightarrow> uuid \<Rightarrow> access_request_status \<Rightarrow> int option \<Rightarrow> timestamp
       \<Rightarrow> identity_error + db \<times> user \<times> access_request \<times> user_access_event" where
  "decide_pending_access_request d actor_id target_id decision recovery now =
     (if decision \<notin> {AR_APPROVED, AR_REJECTED} then Inl InvalidAccessTransitionError
      else
     ebind (lock_actor_and_target d actor_id target_id) (\<lambda>(actor, target).
     if u_id actor = u_id target then Inl AdminUserForbiddenError
     else if u_role target = OWNER \<or> is_recovery_identity d (u_id target) recovery
     then Inl RecoveryAdminInvariantError
     else if u_role target = ADMIN \<and> \<not> has_capability (u_role actor) ACCESS_ASSIGN_ADMIN
     then Inl AdminUserForbiddenError
     else if u_access_status target \<noteq> PENDING then Inl InvalidAccessTransitionError
     else case get_pending_access_request d (u_id target) of
       None \<Rightarrow> Inl PendingAccessRequestNotFoundError
     | Some request \<Rightarrow>
         (let status = (if decision = AR_APPROVED then APPROVED else REJECTED);
              (d1, target', event) = transition_user_access d target (u_id actor) status now
          in case event of
               None \<Rightarrow> Inl IdentityRuntimeError
             | Some e \<Rightarrow>
                 (let request' = request\<lparr>ar_status := decision, ar_decided_at := Some now,
                        ar_decided_by_user_id := Some (u_id actor),
                        ar_decision_note := Some ''Access management web console''\<rparr>
                  in Inr (save_access_request d1 request', target', request', e)))))"

definition change_role :: "db \<Rightarrow> user \<Rightarrow> uuid \<Rightarrow> user_role \<Rightarrow> timestamp \<Rightarrow> db \<times> user \<times> user_role_event" where
  "change_role d u actor role now =
     (let u' = u\<lparr>u_role := role\<rparr>;
          e = \<lparr> ure_actor_user_id = actor, ure_target_user_id = u_id u, ure_before_role = u_role u,
                ure_after_role = role, ure_occurred_at = now \<rparr>
      in ((save_user d u')\<lparr>user_role_events := user_role_events d @ [e]\<rparr>, u', e))"

definition update_user_role ::
    "db \<Rightarrow> uuid \<Rightarrow> uuid \<Rightarrow> user_role \<Rightarrow> int option \<Rightarrow> timestamp
       \<Rightarrow> identity_error + db \<times> user \<times> user_role_event option" where
  "update_user_role d actor_id target_id role recovery now =
     ebind (lock_actor_and_target d actor_id target_id) (\<lambda>(actor, target).
     if u_id actor = u_id target then Inl AdminUserForbiddenError
     else if role = OWNER then Inl AdminUserForbiddenError
     else if u_role target = OWNER \<or> is_recovery_identity d (u_id target) recovery
     then Inl RecoveryAdminInvariantError
     else if u_role target = ADMIN \<and> \<not> has_capability (u_role actor) ACCESS_ASSIGN_ADMIN
     then Inl AdminUserForbiddenError
     else if \<not> ((role \<in> set STANDARD_ASSIGNABLE_ROLES \<and>
                 has_capability (u_role actor) ACCESS_ASSIGN_STANDARD_ROLES) \<or>
                (role = ADMIN \<and> has_capability (u_role actor) ACCESS_ASSIGN_ADMIN))
     then Inl AdminUserForbiddenError
     else
       let before_role = u_role target in
       if role = before_role then Inr (d, target, None)
       else if role \<notin> set CUSTODY_ROLES \<and> has_custody d (u_id target)
       then Inl OutstandingCustodyInvariantError
       else if has_capability before_role PROCUREMENT_CREATE \<and>
               \<not> has_capability role PROCUREMENT_CREATE \<and>
               has_active_procurement_create_responsibility d (u_id target)
       then Inl ActiveProcurementResponsibilityInvariantError
       else
         (let (d1, target', e) = change_role d target (u_id actor) role now
          in Inr (d1, target', Some e)))"

section \<open>Account reset\<close>

definition notification_dedupe_key :: "(string \<Rightarrow> string) \<Rightarrow> string list \<Rightarrow> string" where
  "notification_dedupe_key sha256 parts = sha256 (py_join ''|'' parts)"

definition kill_notification :: "string \<Rightarrow> notification_outbox \<Rightarrow> notification_outbox" where
  "kill_notification key n =
     (if no_dedupe_key n = key \<and> no_status n = OB_PENDING \<and> no_claimed_at n = None
      then n\<lparr>no_status := OB_DEAD, no_last_error := Some ''account reset''\<rparr> else n)"

definition drop_pending_requests :: "(string \<Rightarrow> string) \<Rightarrow> db \<Rightarrow> uuid \<Rightarrow> db" where
  "drop_pending_requests sha256 d user_id =
     d\<lparr>notification_outboxes := map (\<lambda>n. fold (\<lambda>r. kill_notification
          (notification_dedupe_key sha256 [''access-request'', uuid_str (ar_id r), ''admin'']))
          (pending_requests_of d user_id) n) (notification_outboxes d),
       access_requests := filter (\<lambda>r. \<not> (ar_user_id r = user_id \<and> ar_status r = AR_PENDING))
          (access_requests d)\<rparr>"

definition reset_user_account ::
    "(string \<Rightarrow> string) \<Rightarrow> db \<Rightarrow> uuid \<Rightarrow> uuid \<Rightarrow> int \<Rightarrow> int option \<Rightarrow> timestamp \<Rightarrow> identity_error + db" where
  "reset_user_account sha256 d actor_id target_id expected recovery now =
     (case get_identity d target_id of
        None \<Rightarrow> Inl AdminUserNotFoundError
      | Some initial \<Rightarrow>
     if ti_telegram_user_id initial \<noteq> expected then Inl AccountResetIdentityMismatchError
     else
     ebind (lock_actor_and_target d actor_id target_id) (\<lambda>(actor, target).
     if u_id actor = u_id target then Inl AdminUserForbiddenError
     else case get_identity d (u_id target) of
       None \<Rightarrow> Inl AdminUserNotFoundError
     | Some identity \<Rightarrow>
     if ti_telegram_user_id identity \<noteq> expected then Inl AccountResetIdentityMismatchError
     else if u_role target = OWNER \<or>
             (recovery \<noteq> None \<and> recovery = Some (ti_telegram_user_id identity))
     then Inl RecoveryAdminInvariantError
     else if u_role target = ADMIN \<and> \<not> has_capability (u_role actor) ACCESS_ASSIGN_ADMIN
     then Inl AdminUserForbiddenError
     else if has_custody d (u_id target) then Inl OutstandingCustodyInvariantError
     else if \<exists>r\<in>set (procurement_requests d). pr_status r \<noteq> COMPLETED \<and>
               (pr_initiator_user_id r = u_id target \<or>
                pr_assigned_manager_user_id r = u_id target)
     then Inl AccountResetActiveProcurementError
     else
       (let d1 = revoke_sessions d (u_id target) now;
            d2 = drop_pending_requests sha256 d1 (u_id target);
            (d3, target', _) = transition_user_access d2 target (u_id actor) BLOCKED now;
            d4 = (if u_role target' \<noteq> ENGINEER
                  then fst (change_role d3 target' (u_id actor) ENGINEER now) else d3)
        in Inr (d4\<lparr>telegram_identities :=
             filter (\<lambda>t. ti_user_id t \<noteq> u_id target) (telegram_identities d4)\<rparr>))))"

section \<open>Access requests\<close>

definition create_or_get_access_request ::
    "db \<Rightarrow> uuid \<Rightarrow> uuid \<Rightarrow> timestamp
       \<Rightarrow> identity_error + db \<times> access_request \<times> user_access_status \<times> bool" where
  "create_or_get_access_request d request_id user_id now =
     (case get_user d user_id of
        None \<Rightarrow> Inl IdentityRuntimeError
      | Some u \<Rightarrow>
          if u_access_status u = APPROVED then Inl AccessAlreadyApprovedError
          else if u_access_status u = BLOCKED then Inl AccessBlockedError
          else
            (let (d1, u', _) = (if u_access_status u = REJECTED
                                then transition_user_access d u (u_id u) PENDING now
                                else (d, u, None))
             in case get_pending_access_request d1 (u_id u) of
                  Some r \<Rightarrow> Inr (d1, r, u_access_status u', False)
                | None \<Rightarrow>
                    if \<exists>r\<in>set (access_requests d1). ar_id r = request_id
                    then Inl (IdentityDbError ''23505'')
                    else
                      (let r = \<lparr> ar_id = request_id, ar_user_id = u_id u, ar_status = AR_PENDING,
                                 ar_requested_at = now, ar_decided_at = None,
                                 ar_decided_by_user_id = None, ar_decision_note = None \<rparr>
                       in Inr (d1\<lparr>access_requests := access_requests d1 @ [r]\<rparr>, r,
                               u_access_status u', True))))"

section \<open>Deferred triggers at commit\<close>

text \<open>
  Three constraint triggers on the user rows that a transaction changed run when it commits: a
  change of access or role has its audit event in the same transaction, and a user who is no
  approved holder of a custody role holds nothing.
\<close>

definition enforce_user_access_audit_coupling :: "db \<Rightarrow> db \<Rightarrow> bool" where
  "enforce_user_access_audit_coupling d d' \<longleftrightarrow>
     (\<forall>new\<in>set (users d'). case get_user d (u_id new) of
        None \<Rightarrow> True
      | Some old \<Rightarrow> u_access_status old = u_access_status new \<or>
          (\<exists>e\<in>set (drop (length (user_access_events d)) (user_access_events d')).
             uae_target_user_id e = u_id new \<and>
             uae_before_access_status e = u_access_status old \<and>
             uae_after_access_status e = u_access_status new))"

definition enforce_user_role_audit_coupling :: "db \<Rightarrow> db \<Rightarrow> bool" where
  "enforce_user_role_audit_coupling d d' \<longleftrightarrow>
     (\<forall>new\<in>set (users d'). case get_user d (u_id new) of
        None \<Rightarrow> True
      | Some old \<Rightarrow> u_role old = u_role new \<or>
          (\<exists>e\<in>set (drop (length (user_role_events d)) (user_role_events d')).
             ure_target_user_id e = u_id new \<and> ure_before_role e = u_role old \<and>
             ure_after_role e = u_role new))"

definition enforce_user_custody_eligibility :: "db \<Rightarrow> db \<Rightarrow> bool" where
  "enforce_user_custody_eligibility d d' \<longleftrightarrow>
     (\<forall>new\<in>set (users d'). case get_user d (u_id new) of
        None \<Rightarrow> True
      | Some old \<Rightarrow> (u_role old = u_role new \<and> u_access_status old = u_access_status new) \<or>
          \<not> ((u_access_status new \<noteq> APPROVED \<or> u_role new \<notin> {ENGINEER, SENIOR_ENGINEER}) \<and>
             has_custody d' (u_id new)))"

definition users_commit :: "db \<Rightarrow> db \<Rightarrow> bool" where
  "users_commit d d' \<longleftrightarrow>
     enforce_user_access_audit_coupling d d' \<and> enforce_user_role_audit_coupling d d' \<and>
     enforce_user_custody_eligibility d d'"

end
