(* ===== verification/Outbox.thy ===== *)
theory Outbox
  imports Identity "HOL-Library.Product_Lexorder"
begin

text \<open>
  The Telegram outbox \<open>app/modules/notifications/service.py\<close>: messages are written in the
  transaction of the change they announce, keyed by a dedupe key, and delivered by workers
  that claim a batch of rows with a token and a lease and report success or failure under
  that token. The rows of a claim are locked with \<open>SKIP LOCKED\<close>, so two claims do not
  overlap in time and each is one step. Identifiers and tokens are arguments.
\<close>

section \<open>Enqueueing\<close>

datatype outbox_error =
    UnsupportedTelegramMethodError string
  | OutboxValueError
  | OutboxDbError string

definition ALLOWED_TELEGRAM_METHODS :: "string list" where
  "ALLOWED_TELEGRAM_METHODS =
     [''sendMessage'', ''sendPhoto'', ''deleteMessage'', ''editMessageText'',
      ''editMessageReplyMarkup'', ''answerCallbackQuery'']"

definition get_notification :: "db \<Rightarrow> uuid \<Rightarrow> notification_outbox option" where
  "get_notification d i = table_get no_id i (notification_outboxes d)"

definition new_notification ::
    "uuid \<Rightarrow> timestamp \<Rightarrow> string \<Rightarrow> json \<Rightarrow> string \<Rightarrow> timestamp option \<Rightarrow> notification_outbox" where
  "new_notification new_id now method payload dedupe_key available_at =
     \<lparr> no_id = new_id, no_method = method, no_payload = payload, no_dedupe_key = dedupe_key,
       no_status = OB_PENDING, no_attempts = 0,
       no_available_at = (case available_at of None \<Rightarrow> now | Some t \<Rightarrow> t),
       no_claimed_at = None, no_claim_token = None, no_sent_at = None, no_last_error = None,
       no_created_at = now \<rparr>"

definition requeue :: "timestamp \<Rightarrow> notification_outbox \<Rightarrow> notification_outbox" where
  "requeue now n =
     (if no_status n = OB_DEAD
      then n\<lparr>no_status := OB_PENDING, no_attempts := 0, no_available_at := now,
             no_claimed_at := None, no_claim_token := None, no_last_error := None\<rparr>
      else n)"

definition enqueue_telegram_call ::
    "db \<Rightarrow> uuid \<Rightarrow> timestamp \<Rightarrow> string \<Rightarrow> json \<Rightarrow> string \<Rightarrow> timestamp option \<Rightarrow> bool \<Rightarrow> outbox_error + db"
where
  "enqueue_telegram_call d new_id now method payload dedupe_key available_at requeue_dead =
     (if method \<notin> set ALLOWED_TELEGRAM_METHODS then Inl (UnsupportedTelegramMethodError method)
      else if dedupe_key = [] \<or> length dedupe_key > 128 then Inl OutboxValueError
      else if \<exists>n\<in>set (notification_outboxes d). no_dedupe_key n = dedupe_key
      then Inr (if requeue_dead
                then d\<lparr>notification_outboxes :=
                       table_update no_dedupe_key dedupe_key (requeue now) (notification_outboxes d)\<rparr>
                else d)
      else if \<exists>n\<in>set (notification_outboxes d). no_id n = new_id then Inl (OutboxDbError ''23505'')
      else Inr (d\<lparr>notification_outboxes := notification_outboxes d @
                  [new_notification new_id now method payload dedupe_key available_at]\<rparr>))"

section \<open>Claims\<close>

record claimed_notification =
  cn_id :: uuid
  cn_claim_token :: uuid
  cn_method :: string
  cn_payload :: json
  cn_dedupe_key :: string
  cn_attempts :: int

definition stale_claim :: "timestamp \<Rightarrow> notification_outbox \<Rightarrow> bool" where
  "stale_claim stale_before n =
     (case no_claimed_at n of None \<Rightarrow> False | Some t \<Rightarrow> t < stale_before)"

definition claimable :: "timestamp \<Rightarrow> timestamp \<Rightarrow> int \<Rightarrow> notification_outbox \<Rightarrow> bool" where
  "claimable now stale_before max_attempts n \<longleftrightarrow>
     no_status n = OB_PENDING \<and> no_available_at n \<le> now \<and>
     (no_attempts n < max_attempts \<or> (no_attempts n \<ge> max_attempts \<and> stale_claim stale_before n)) \<and>
     (no_claimed_at n = None \<or> stale_claim stale_before n)"

definition delivery_order :: "notification_outbox \<Rightarrow> timestamp \<times> timestamp \<times> uuid" where
  "delivery_order n = (no_available_at n, no_created_at n, no_id n)"

definition batch_rows :: "db \<Rightarrow> nat \<Rightarrow> timestamp \<Rightarrow> timestamp \<Rightarrow> int \<Rightarrow> notification_outbox list" where
  "batch_rows d batch_size now stale_before max_attempts =
     take batch_size (sort_key delivery_order
       (filter (claimable now stale_before max_attempts) (notification_outboxes d)))"

definition claim_row ::
    "timestamp \<Rightarrow> timestamp \<Rightarrow> int \<Rightarrow> uuid \<Rightarrow> notification_outbox \<Rightarrow> notification_outbox" where
  "claim_row now stale_before max_attempts token n =
     (let was_stale_final_attempt = no_attempts n \<ge> max_attempts \<and> stale_claim stale_before n
      in n\<lparr>no_claimed_at := Some now, no_claim_token := Some token,
           no_attempts := (if was_stale_final_attempt then no_attempts n else no_attempts n + 1)\<rparr>)"

definition claim_of :: "uuid \<Rightarrow> notification_outbox \<Rightarrow> claimed_notification" where
  "claim_of token n =
     \<lparr> cn_id = no_id n, cn_claim_token = token, cn_method = no_method n, cn_payload = no_payload n,
       cn_dedupe_key = no_dedupe_key n, cn_attempts = no_attempts n \<rparr>"

definition flush_rows :: "notification_outbox list \<Rightarrow> notification_outbox list \<Rightarrow> notification_outbox list" where
  "flush_rows changed rows =
     map (\<lambda>n. case table_get no_id (no_id n) changed of None \<Rightarrow> n | Some n' \<Rightarrow> n') rows"

definition claim_notification_batch ::
    "db \<Rightarrow> nat \<Rightarrow> int \<Rightarrow> int \<Rightarrow> (nat \<Rightarrow> uuid) \<Rightarrow> timestamp \<Rightarrow> db \<times> claimed_notification list" where
  "claim_notification_batch d batch_size claim_ttl_seconds max_attempts tokens now =
     (let stale_before = now - claim_ttl_seconds;
          rows = enumerate 0 (batch_rows d batch_size now stale_before max_attempts);
          claimed = map (\<lambda>(k, n). claim_row now stale_before max_attempts (tokens k) n) rows
      in (d\<lparr>notification_outboxes := flush_rows claimed (notification_outboxes d)\<rparr>,
          map (\<lambda>(k, n). claim_of (tokens k) (claim_row now stale_before max_attempts (tokens k) n))
            rows))"

section \<open>Results of a delivery\<close>

definition owned_row :: "db \<Rightarrow> claimed_notification \<Rightarrow> notification_outbox option" where
  "owned_row d claim =
     (case get_notification d (cn_id claim) of
        None \<Rightarrow> None
      | Some n \<Rightarrow> if no_claim_token n = Some (cn_claim_token claim) \<and> no_status n = OB_PENDING
                  then Some n else None)"

definition save_notification :: "db \<Rightarrow> notification_outbox \<Rightarrow> db" where
  "save_notification d n =
     d\<lparr>notification_outboxes := table_update no_id (no_id n) (\<lambda>_. n) (notification_outboxes d)\<rparr>"

definition mark_notification_sent ::
    "db \<Rightarrow> claimed_notification \<Rightarrow> timestamp \<Rightarrow> db \<times> bool" where
  "mark_notification_sent d claim now =
     (case owned_row d claim of
        None \<Rightarrow> (d, False)
      | Some n \<Rightarrow>
          (save_notification d (n\<lparr>no_status := OB_SENT, no_sent_at := Some now,
             no_claimed_at := None, no_claim_token := None, no_last_error := None\<rparr>), True))"

definition retry_delay_seconds :: "int \<Rightarrow> int" where
  "retry_delay_seconds attempts =
     (let exponent = nat (max 0 (min (attempts - 1) 8)) in min 300 (2 ^ exponent))"

definition mark_notification_failed ::
    "db \<Rightarrow> claimed_notification \<Rightarrow> string \<Rightarrow> int \<Rightarrow> timestamp \<Rightarrow> db \<times> bool" where
  "mark_notification_failed d claim error max_attempts now =
     (case owned_row d claim of
        None \<Rightarrow> (d, False)
      | Some n \<Rightarrow>
          (let n1 = n\<lparr>no_claimed_at := None, no_claim_token := None,
                      no_last_error := Some (take 1000 error)\<rparr>;
               n2 = (if no_attempts n \<ge> max_attempts then n1\<lparr>no_status := OB_DEAD\<rparr>
                     else n1\<lparr>no_available_at := now + retry_delay_seconds (no_attempts n)\<rparr>)
           in (save_notification d n2, True)))"

end
