(* ===== verification/Projection.thy ===== *)
theory Projection
  imports Policy
begin

text \<open>
  The journal-controlled projections of the warehouse
  (\<open>migrations/versions/d2e3f4a5b6c7_journal_controlled_projections.py\<close>). The journal is
  the join of \<open>movement_lines\<close> with \<open>movements\<close>; \<open>stock_balances\<close> and
  \<open>user_item_custody_balances\<close> are tables of positive quantities derived from it by the
  database function \<open>refresh_warehouse_projection\<close>. The locale \<open>quantity_table\<close> is the
  contract of such a projection table, interpreted for both. The theory shows what one
  refresh does to each table and that the drift query of the migration, an independent
  formulation of the same sums, is false exactly when both tables agree with the journal.
\<close>

datatype db_error = DbError string string

text \<open>
  A text is sent to the server as it is, and PostgreSQL stores no text with the character U+0000:
  the first statement that has such a parameter fails.
\<close>

definition text_parameter :: "string \<Rightarrow> db_error + unit" where
  "text_parameter s =
     ensure (CHR 0x00 \<notin> set s) (DbError ''22021'' ''invalid byte sequence for encoding UTF8'')"

lemma text_parameter_simps [simp]:
  "text_parameter s = Inr u \<longleftrightarrow> CHR 0x00 \<notin> set s"
  "CHR 0x00 \<notin> set s \<Longrightarrow> text_parameter s = Inr ()"
  by (simp_all add: text_parameter_def ensure_def)

definition text_parameters :: "string list \<Rightarrow> db_error + unit" where
  "text_parameters ss = ebind (emap text_parameter ss) (\<lambda>_. Inr ())"

lemma text_parameters_cases:
  "text_parameters ss = (if \<exists>s\<in>set ss. CHR 0x00 \<in> set s
     then Inl (DbError ''22021'' ''invalid byte sequence for encoding UTF8'') else Inr ())"
  by (induction ss) (auto simp: text_parameters_def text_parameter_def ensure_def ebind_def split: sum.splits if_splits)

lemma text_parameters_Inr [simp]: "text_parameters ss = Inr u \<longleftrightarrow> (\<forall>s\<in>set ss. CHR 0x00 \<notin> set s)"
  by (simp add: text_parameters_cases)

section \<open>Tables of positive quantities\<close>

definition MAX_SAFE_QUANTITY :: int where
  "MAX_SAFE_QUANTITY = 2 ^ 53 - 1"

definition table_qty :: "('r \<Rightarrow> 'k) \<Rightarrow> ('r \<Rightarrow> int) \<Rightarrow> 'k \<Rightarrow> 'r list \<Rightarrow> int" where
  "table_qty key qty k rs = (case table_get key k rs of None \<Rightarrow> 0 | Some r \<Rightarrow> qty r)"

definition table_set :: "('r \<Rightarrow> 'k) \<Rightarrow> ('k \<Rightarrow> int \<Rightarrow> 'r) \<Rightarrow> 'k \<Rightarrow> int \<Rightarrow> 'r list \<Rightarrow> 'r list" where
  "table_set key mk k q rs = (if q = 0 then table_del key k rs else table_put key (mk k q) rs)"

definition table_ok :: "('r \<Rightarrow> 'k) \<Rightarrow> ('r \<Rightarrow> int) \<Rightarrow> 'r list \<Rightarrow> bool" where
  "table_ok key qty rs \<longleftrightarrow>
     distinct (map key rs) \<and> (\<forall>r\<in>set rs. 0 < qty r \<and> qty r \<le> MAX_SAFE_QUANTITY)"

locale quantity_table =
  fixes key :: "'r \<Rightarrow> 'k" and qty :: "'r \<Rightarrow> int" and mk :: "'k \<Rightarrow> int \<Rightarrow> 'r"
  assumes key_mk: "key (mk k q) = k"
    and qty_mk: "qty (mk k q) = q"
begin

lemma qty_set:
  "table_qty key qty k' (table_set key mk k q rs) =
     (if k' = k then q else table_qty key qty k' rs)"
  by (simp add: table_qty_def table_set_def table_get_put table_get_del key_mk qty_mk)

lemma ok_set:
  assumes "table_ok key qty rs" and "0 \<le> q" and "q \<le> MAX_SAFE_QUANTITY"
  shows "table_ok key qty (table_set key mk k q rs)"
  using assms unfolding table_ok_def table_set_def
  by (auto simp: distinct_table_put distinct_table_del set_table_put set_table_del qty_mk)

lemma ok_bounds:
  assumes "table_ok key qty rs"
  shows "0 \<le> table_qty key qty k rs \<and> table_qty key qty k rs \<le> MAX_SAFE_QUANTITY"
proof (cases "table_get key k rs")
  case None
  then show ?thesis by (simp add: table_qty_def MAX_SAFE_QUANTITY_def)
next
  case (Some r)
  then have "r \<in> set rs" by (auto dest: table_get_SomeD)
  with assms have "0 < qty r \<and> qty r \<le> MAX_SAFE_QUANTITY" by (simp add: table_ok_def)
  with Some show ?thesis by (simp add: table_qty_def)
qed

lemma row_qty:
  "table_ok key qty rs \<Longrightarrow> r \<in> set rs \<Longrightarrow> table_qty key qty (key r) rs = qty r"
  by (simp add: table_ok_def table_qty_def table_get_member)

lemma positive_iff_row:
  assumes "table_ok key qty rs"
  shows "0 < table_qty key qty k rs \<longleftrightarrow> (\<exists>r\<in>set rs. key r = k)"
proof
  assume "0 < table_qty key qty k rs"
  then show "\<exists>r\<in>set rs. key r = k"
    by (auto simp: table_qty_def dest: table_get_SomeD split: option.splits)
next
  assume "\<exists>r\<in>set rs. key r = k"
  then obtain r where "r \<in> set rs" "key r = k" by blast
  with assms show "0 < table_qty key qty k rs" by (auto simp: row_qty table_ok_def)
qed

end

definition sb_key :: "stock_balance \<Rightarrow> uuid \<times> uuid" where
  "sb_key r = (sb_item_id r, sb_location_id r)"

definition mk_stock_balance :: "uuid \<times> uuid \<Rightarrow> int \<Rightarrow> stock_balance" where
  "mk_stock_balance k q = \<lparr> sb_item_id = fst k, sb_location_id = snd k, sb_quantity = q \<rparr>"

definition cb_key :: "user_item_custody_balance \<Rightarrow> uuid \<times> uuid" where
  "cb_key r = (cb_user_id r, cb_item_id r)"

definition mk_custody_balance :: "uuid \<times> uuid \<Rightarrow> int \<Rightarrow> user_item_custody_balance" where
  "mk_custody_balance k q = \<lparr> cb_user_id = fst k, cb_item_id = snd k, cb_quantity = q \<rparr>"

interpretation stock_table: quantity_table sb_key sb_quantity mk_stock_balance
  by unfold_locales (simp_all add: sb_key_def mk_stock_balance_def)

interpretation custody_table: quantity_table cb_key cb_quantity mk_custody_balance
  by unfold_locales (simp_all add: cb_key_def mk_custody_balance_def)

definition stock_of :: "db \<Rightarrow> uuid \<Rightarrow> uuid \<Rightarrow> int" where
  "stock_of d i l = table_qty sb_key sb_quantity (i, l) (stock_balances d)"

definition custody_of :: "db \<Rightarrow> uuid \<Rightarrow> uuid \<Rightarrow> int" where
  "custody_of d u i = table_qty cb_key cb_quantity (u, i) (user_item_custody_balances d)"

section \<open>The journal\<close>

definition journal :: "db \<Rightarrow> (movement \<times> movement_line) list" where
  "journal d = concat (map (\<lambda>ml. map (\<lambda>m. (m, ml))
     (filter (\<lambda>m. mv_id m = ml_movement_id ml) (movements d))) (movement_lines d))"

definition stock_delta :: "uuid \<Rightarrow> movement \<times> movement_line \<Rightarrow> int" where
  "stock_delta l e =
     (if mv_destination_location_id (fst e) = Some l then ml_quantity (snd e) else 0)
     - (if mv_source_location_id (fst e) = Some l then ml_quantity (snd e) else 0)"

definition expected_stock :: "db \<Rightarrow> uuid \<Rightarrow> uuid \<Rightarrow> int" where
  "expected_stock d i l = sum_list (map (stock_delta l)
     (filter (\<lambda>e. ml_item_id (snd e) = i \<and>
        (mv_source_location_id (fst e) = Some l \<or> mv_destination_location_id (fst e) = Some l))
        (journal d)))"

definition original_type :: "db \<Rightarrow> movement \<Rightarrow> movement_type option" where
  "original_type d m = (case mv_original_movement_id m of
     None \<Rightarrow> None | Some oid \<Rightarrow> map_option mv_movement_type (get_mov d oid))"

definition custody_sign :: "movement_type \<Rightarrow> movement_type option \<Rightarrow> int" where
  "custody_sign t ot =
     (if t = ISSUE then 1
      else if t = RETURN then - 1
      else if t = REVERSAL \<and> ot = Some ISSUE then - 1
      else if t = REVERSAL \<and> ot = Some RETURN then 1
      else 0)"

definition custody_entry_delta :: "db \<Rightarrow> movement \<times> movement_line \<Rightarrow> int" where
  "custody_entry_delta d e =
     custody_sign (mv_movement_type (fst e)) (original_type d (fst e)) * ml_quantity (snd e)"

definition expected_custody :: "db \<Rightarrow> uuid \<Rightarrow> uuid \<Rightarrow> int" where
  "expected_custody d u i = sum_list (map (custody_entry_delta d)
     (filter (\<lambda>e. ml_item_id (snd e) = i \<and> mv_custody_user_id (fst e) = Some u) (journal d)))"

section \<open>Refreshing the projections\<close>

definition custody_holder_eligible :: "db \<Rightarrow> uuid \<Rightarrow> bool" where
  "custody_holder_eligible d u \<longleftrightarrow>
     (\<exists>x\<in>set (users d). u_id x = u \<and> u_access_status x = APPROVED \<and>
        (u_role x = ENGINEER \<or> u_role x = SENIOR_ENGINEER))"

definition refresh_stock :: "db \<Rightarrow> uuid \<Rightarrow> uuid \<Rightarrow> db_error + db" where
  "refresh_stock d i l =
     (let q = expected_stock d i l
      in if q < 0 \<or> q > MAX_SAFE_QUANTITY
         then Inl (DbError ''23514'' ''warehouse stock projection is outside supported range'')
         else Inr (d\<lparr>stock_balances :=
                       table_set sb_key mk_stock_balance (i, l) q (stock_balances d)\<rparr>))"

definition refresh_custody :: "db \<Rightarrow> uuid \<Rightarrow> uuid \<Rightarrow> db_error + db" where
  "refresh_custody d u i =
     (let q = expected_custody d u i
      in if q < 0 \<or> q > MAX_SAFE_QUANTITY
         then Inl (DbError ''23514'' ''warehouse custody projection is outside supported range'')
         else if q \<noteq> 0 \<and> \<not> custody_holder_eligible d u
         then Inl (DbError ''23514'' ''custody holder must be an approved custody role'')
         else Inr (d\<lparr>user_item_custody_balances :=
                       table_set cb_key mk_custody_balance (u, i) q
                         (user_item_custody_balances d)\<rparr>))"

definition refresh_warehouse_projection :: "db \<Rightarrow> uuid \<Rightarrow> uuid \<Rightarrow> db_error + db" where
  "refresh_warehouse_projection d movement_id item_id =
     (case get_mov d movement_id of
        None \<Rightarrow> Inl (DbError ''23503''
          ''warehouse projection refresh requires an existing movement'')
      | Some header \<Rightarrow>
          if \<not> (\<exists>ml\<in>set (movement_lines d).
                  ml_movement_id ml = movement_id \<and> ml_item_id ml = item_id)
          then Inl (DbError ''23503''
            ''warehouse projection refresh requires an existing movement line'')
          else
            ebind (case mv_source_location_id header of
                     None \<Rightarrow> Inr d | Some l \<Rightarrow> refresh_stock d item_id l) (\<lambda>d1.
            ebind (case mv_destination_location_id header of
                     None \<Rightarrow> Inr d1
                   | Some l \<Rightarrow> if mv_source_location_id header = Some l then Inr d1
                              else refresh_stock d1 item_id l) (\<lambda>d2.
            case mv_custody_user_id header of
              None \<Rightarrow> Inr d2 | Some u \<Rightarrow> refresh_custody d2 u item_id)))"

section \<open>The drift query\<close>

definition stock_deltas :: "db \<Rightarrow> ((uuid \<times> uuid) \<times> int) list" where
  "stock_deltas d =
     concat (map (\<lambda>(m, ml). case mv_source_location_id m of
         None \<Rightarrow> [] | Some l \<Rightarrow> [((ml_item_id ml, l), - ml_quantity ml)]) (journal d))
     @ concat (map (\<lambda>(m, ml). case mv_destination_location_id m of
         None \<Rightarrow> [] | Some l \<Rightarrow> [((ml_item_id ml, l), ml_quantity ml)]) (journal d))"

definition custody_deltas :: "db \<Rightarrow> ((uuid \<times> uuid) \<times> int) list" where
  "custody_deltas d =
     concat (map (\<lambda>(m, ml). case mv_custody_user_id m of
         None \<Rightarrow> []
       | Some u \<Rightarrow> [((u, ml_item_id ml), custody_entry_delta d (m, ml))]) (journal d))"

definition delta_sum :: "((uuid \<times> uuid) \<times> int) list \<Rightarrow> uuid \<times> uuid \<Rightarrow> int" where
  "delta_sum ds k = sum_list (map snd (filter (\<lambda>p. fst p = k) ds))"

definition projection_drift_exists :: "db \<Rightarrow> bool" where
  "projection_drift_exists d \<longleftrightarrow>
     (\<exists>k \<in> set (map fst (stock_deltas d)) \<union> set (map sb_key (stock_balances d)).
        delta_sum (stock_deltas d) k \<noteq> table_qty sb_key sb_quantity k (stock_balances d)) \<or>
     (\<exists>k \<in> set (map fst (custody_deltas d)) \<union> set (map cb_key (user_item_custody_balances d)).
        delta_sum (custody_deltas d) k
          \<noteq> table_qty cb_key cb_quantity k (user_item_custody_balances d))"

definition projections_agree :: "db \<Rightarrow> bool" where
  "projections_agree d \<longleftrightarrow>
     (\<forall>i l. stock_of d i l = expected_stock d i l) \<and>
     (\<forall>u i. custody_of d u i = expected_custody d u i)"

definition projection_tables_ok :: "db \<Rightarrow> bool" where
  "projection_tables_ok d \<longleftrightarrow>
     table_ok sb_key sb_quantity (stock_balances d) \<and>
     table_ok cb_key cb_quantity (user_item_custody_balances d)"

section \<open>What a refresh does\<close>

lemma journal_cong:
  "movements d' = movements d \<Longrightarrow> movement_lines d' = movement_lines d \<Longrightarrow> journal d' = journal d"
  by (simp add: journal_def)

lemma original_type_cong: "movements d' = movements d \<Longrightarrow> original_type d' = original_type d"
  by (auto simp: original_type_def get_mov_def fun_eq_iff split: option.splits)

lemma expected_stock_cong:
  "movements d' = movements d \<Longrightarrow> movement_lines d' = movement_lines d \<Longrightarrow>
     expected_stock d' = expected_stock d"
  by (simp add: expected_stock_def fun_eq_iff journal_cong [of d' d])

lemma expected_custody_cong:
  "movements d' = movements d \<Longrightarrow> movement_lines d' = movement_lines d \<Longrightarrow>
     expected_custody d' = expected_custody d"
  by (simp add: expected_custody_def custody_entry_delta_def [abs_def] fun_eq_iff
      journal_cong [of d' d] original_type_cong [of d' d])

lemmas expected_cong = expected_stock_cong expected_custody_cong

text \<open>Everything but the two projection tables is the same in both databases.\<close>

definition same_but_projections :: "db \<Rightarrow> db \<Rightarrow> bool" where
  "same_but_projections d d' \<longleftrightarrow>
     d' = d\<lparr>stock_balances := stock_balances d',
            user_item_custody_balances := user_item_custody_balances d'\<rparr>"

lemma same_but_projections_refl [simp]: "same_but_projections d d"
  by (simp add: same_but_projections_def)

lemma same_but_projections_trans:
  assumes "same_but_projections a b" and "same_but_projections b c"
  shows "same_but_projections a c"
proof -
  from assms(2) have "c = b\<lparr>stock_balances := stock_balances c,
    user_item_custody_balances := user_item_custody_balances c\<rparr>"
    by (simp add: same_but_projections_def)
  moreover from assms(1) obtain s t where
    "b = a\<lparr>stock_balances := s, user_item_custody_balances := t\<rparr>"
    by (auto simp: same_but_projections_def)
  ultimately have "c = a\<lparr>stock_balances := stock_balances c,
    user_item_custody_balances := user_item_custody_balances c\<rparr>"
    by simp
  then show ?thesis by (simp only: same_but_projections_def)
qed

lemma same_but_projectionsD:
  assumes "same_but_projections d d'"
  shows "movements d' = movements d" "movement_lines d' = movement_lines d"
    "users d' = users d" "items d' = items d" "locations d' = locations d"
    "procurement_requests d' = procurement_requests d"
    "manufacturers d' = manufacturers d"
proof -
  obtain s t where "d' = d\<lparr>stock_balances := s, user_item_custody_balances := t\<rparr>"
    using assms unfolding same_but_projections_def by blast
  then show "movements d' = movements d" "movement_lines d' = movement_lines d"
    "users d' = users d" "items d' = items d" "locations d' = locations d"
    "procurement_requests d' = procurement_requests d"
    "manufacturers d' = manufacturers d"
    by simp_all
qed

lemma same_but_projections_expected:
  "same_but_projections d d' \<Longrightarrow> expected_stock d' = expected_stock d"
  "same_but_projections d d' \<Longrightarrow> expected_custody d' = expected_custody d"
  by (rule expected_cong; erule same_but_projectionsD)+

lemma refresh_stock_spec:
  assumes "refresh_stock d i l = Inr d'" and "projection_tables_ok d"
  shows "same_but_projections d d' \<and> projection_tables_ok d' \<and>
     (\<forall>i' l'. stock_of d' i' l' =
        (if i' = i \<and> l' = l then expected_stock d i l else stock_of d i' l')) \<and>
     (\<forall>u i'. custody_of d' u i' = custody_of d u i')"
  using assms
  by (auto simp: refresh_stock_def Let_def same_but_projections_def projection_tables_ok_def
      stock_of_def custody_of_def stock_table.qty_set stock_table.ok_set split: if_splits)

lemma refresh_custody_spec:
  assumes "refresh_custody d u i = Inr d'" and "projection_tables_ok d"
  shows "same_but_projections d d' \<and> projection_tables_ok d' \<and>
     (\<forall>i' l'. stock_of d' i' l' = stock_of d i' l') \<and>
     (\<forall>u' i'. custody_of d' u' i' =
        (if u' = u \<and> i' = i then expected_custody d u i else custody_of d u' i'))"
  using assms
  by (auto simp: refresh_custody_def Let_def same_but_projections_def projection_tables_ok_def
      stock_of_def custody_of_def custody_table.qty_set custody_table.ok_set split: if_splits)

text \<open>
  One call of the database function sets the stock of its item at the locations of the
  movement, and the custody of its item for the custody user of the movement, to the
  journal's sums, and changes nothing else.
\<close>

lemma refresh_warehouse_projection_spec:
  assumes refresh: "refresh_warehouse_projection d mid i = Inr d'"
    and ok: "projection_tables_ok d" and header: "get_mov d mid = Some m"
  shows "same_but_projections d d' \<and> projection_tables_ok d' \<and>
     (\<forall>i' l. stock_of d' i' l =
        (if i' = i \<and> (mv_source_location_id m = Some l \<or> mv_destination_location_id m = Some l)
         then expected_stock d i' l else stock_of d i' l)) \<and>
     (\<forall>u i'. custody_of d' u i' =
        (if i' = i \<and> mv_custody_user_id m = Some u
         then expected_custody d u i' else custody_of d u i'))"
proof -
  let ?src = "mv_source_location_id m" and ?dst = "mv_destination_location_id m"
    and ?cust = "mv_custody_user_id m"
  from refresh header obtain d1 d2
    where s1: "(case ?src of None \<Rightarrow> Inr d | Some l \<Rightarrow> refresh_stock d i l) = Inr d1"
      and s2: "(case ?dst of None \<Rightarrow> Inr d1 | Some l \<Rightarrow>
          if ?src = Some l then Inr d1 else refresh_stock d1 i l) = Inr d2"
      and s3: "(case ?cust of None \<Rightarrow> Inr d2 | Some u \<Rightarrow> refresh_custody d2 u i) = Inr d'"
    by (auto simp: refresh_warehouse_projection_def ebind_Inr_iff split: if_splits)
  from s1 ok have 1: "same_but_projections d d1 \<and> projection_tables_ok d1 \<and>
     (\<forall>i' l. stock_of d1 i' l =
        (if i' = i \<and> ?src = Some l then expected_stock d i' l else stock_of d i' l)) \<and>
     (\<forall>u i'. custody_of d1 u i' = custody_of d u i')"
    by (cases ?src) (auto dest!: refresh_stock_spec)
  have 2: "same_but_projections d1 d2 \<and> projection_tables_ok d2 \<and>
     (\<forall>i' l. stock_of d2 i' l =
        (if i' = i \<and> ?dst = Some l \<and> ?src \<noteq> Some l then expected_stock d i' l
         else stock_of d1 i' l)) \<and>
     (\<forall>u i'. custody_of d2 u i' = custody_of d1 u i')"
  proof -
    from 1 have ok1: "projection_tables_ok d1" and e1: "expected_stock d1 = expected_stock d"
      by (simp_all add: same_but_projections_expected)
    show ?thesis
      using s2 refresh_stock_spec [OF _ ok1, of i _ d2] ok1 unfolding e1
      by (cases ?dst) (auto split: if_splits)
  qed
  have d2: "same_but_projections d d2"
    using 1 2 same_but_projections_trans by blast
  have 3: "same_but_projections d2 d' \<and> projection_tables_ok d' \<and>
     (\<forall>i' l. stock_of d' i' l = stock_of d2 i' l) \<and>
     (\<forall>u i'. custody_of d' u i' =
        (if i' = i \<and> ?cust = Some u then expected_custody d u i' else custody_of d2 u i'))"
  proof -
    from 2 have ok2: "projection_tables_ok d2" by simp
    show ?thesis
      using s3 refresh_custody_spec [OF _ ok2, of _ i d'] ok2
        same_but_projections_expected(2) [OF d2]
      by (cases ?cust) auto
  qed
  have "same_but_projections d d'"
    using d2 3 same_but_projections_trans by blast
  with 1 2 3 show ?thesis by auto
qed

section \<open>The drift query is exact\<close>

lemma sum_list_if_filter:
  "sum_list (map (\<lambda>x. if P x then f x else 0) xs) = (sum_list (map f (filter P xs)) :: int)"
  by (induction xs) auto

lemma delta_sum_append: "delta_sum (xs @ ys) k = delta_sum xs k + delta_sum ys k"
  by (simp add: delta_sum_def)

lemma delta_sum_concat:
  assumes "\<And>x. x \<in> set js \<Longrightarrow> delta_sum (f x) k = g x"
  shows "delta_sum (concat (map f js)) k = sum_list (map g js)"
  using assms by (induction js) (auto simp: delta_sum_append, simp add: delta_sum_def)

lemma delta_sum_stock: "delta_sum (stock_deltas d) (i, l) = expected_stock d i l"
proof -
  let ?js = "journal d"
  let ?s = "\<lambda>e. if ml_item_id (snd e) = i \<and> mv_source_location_id (fst e) = Some l
    then - ml_quantity (snd e) else 0"
  let ?t = "\<lambda>e. if ml_item_id (snd e) = i \<and> mv_destination_location_id (fst e) = Some l
    then ml_quantity (snd e) else 0"
  have src: "delta_sum (concat (map (\<lambda>(m, ml). case mv_source_location_id m of
      None \<Rightarrow> [] | Some l \<Rightarrow> [((ml_item_id ml, l), - ml_quantity ml)]) ?js)) (i, l)
    = sum_list (map ?s ?js)"
    by (rule delta_sum_concat) (auto simp: delta_sum_def split: option.splits)
  have dst: "delta_sum (concat (map (\<lambda>(m, ml). case mv_destination_location_id m of
      None \<Rightarrow> [] | Some l \<Rightarrow> [((ml_item_id ml, l), ml_quantity ml)]) ?js)) (i, l)
    = sum_list (map ?t ?js)"
    by (rule delta_sum_concat) (auto simp: delta_sum_def split: option.splits)
  have "sum_list (map ?s ?js) + sum_list (map ?t ?js) = expected_stock d i l"
    unfolding expected_stock_def sum_list_if_filter [symmetric] sum_list_addf [symmetric]
    by (rule arg_cong [where f = sum_list], rule map_cong) (auto simp: stock_delta_def)
  with src dst show ?thesis by (simp add: stock_deltas_def delta_sum_append)
qed

lemma delta_sum_custody: "delta_sum (custody_deltas d) (u, i) = expected_custody d u i"
proof -
  let ?g = "\<lambda>e. if ml_item_id (snd e) = i \<and> mv_custody_user_id (fst e) = Some u
    then custody_entry_delta d e else 0"
  have "delta_sum (custody_deltas d) (u, i) = sum_list (map ?g (journal d))"
    unfolding custody_deltas_def
    by (rule delta_sum_concat) (auto simp: delta_sum_def split: option.splits)
  then show ?thesis by (simp add: expected_custody_def sum_list_if_filter)
qed

lemma delta_sum_no_key: "k \<notin> set (map fst ds) \<Longrightarrow> delta_sum ds k = 0"
proof -
  assume "k \<notin> set (map fst ds)"
  then have "filter (\<lambda>p. fst p = k) ds = []" by (auto simp: filter_empty_conv)
  then show ?thesis by (simp add: delta_sum_def)
qed

lemma table_qty_no_key: "k \<notin> set (map key rs) \<Longrightarrow> table_qty key qty k rs = 0"
  by (simp add: table_qty_def table_get_None_iff split: option.splits)
    (metis option.distinct(1) table_get_None_iff)

lemma drift_iff:
  "(\<exists>k \<in> set (map fst ds) \<union> set (map key rs). delta_sum ds k \<noteq> table_qty key qty k rs) \<longleftrightarrow>
   (\<exists>k. delta_sum ds k \<noteq> table_qty key qty k rs)"
proof (intro iffI; elim bexE exE)
  fix k assume "delta_sum ds k \<noteq> table_qty key qty k rs"
  moreover from this have "k \<in> set (map fst ds) \<union> set (map key rs)"
    using delta_sum_no_key table_qty_no_key by (metis UnCI)
  ultimately show "\<exists>k \<in> set (map fst ds) \<union> set (map key rs).
    delta_sum ds k \<noteq> table_qty key qty k rs" by blast
qed blast

lemma projections_agree_iff: "projections_agree d \<longleftrightarrow> \<not> projection_drift_exists d"
  unfolding projection_drift_exists_def drift_iff projections_agree_def stock_of_def
    custody_of_def delta_sum_stock [symmetric] delta_sum_custody [symmetric]
  by (simp add: split_paired_All eq_commute)

text \<open>
  C11. The drift query, which recomputes both projections with its own grouped sums and a
  full join, reports drift exactly when some stock or custody balance differs from the
  journal's sum, whatever rows the tables hold.
\<close>

theorem drift_query_exact:
  "projection_drift_exists d \<longleftrightarrow>
     (\<exists>i l. stock_of d i l \<noteq> expected_stock d i l) \<or> (\<exists>u i. custody_of d u i \<noteq> expected_custody d u i)"
  using projections_agree_iff [of d] by (auto simp: projections_agree_def)

end
