(* ===== verification/Warehouse_Db.thy ===== *)
theory Warehouse_Db
  imports Projection
begin

text \<open>
  The database side of the warehouse journal: the constraints of
  \<open>app/modules/inventory/models.py\<close> and the trigger functions of the migrations that run
  when a row of \<open>movements\<close> or \<open>movement_lines\<close> is inserted. An insertion first runs the
  \<open>BEFORE INSERT\<close> triggers in the order of their names, then the \<open>CHECK\<close> constraints, the
  unique keys and the foreign keys; the first that fails raises and the row is not
  stored. History is append-only: there is no operation here that changes or removes a
  row. The lemmas give the effect of appending a movement with its lines on the sums from
  which the projections are derived.
\<close>

section \<open>Row constraints of movements\<close>

definition is_linked :: "movement_type \<Rightarrow> bool" where
  "is_linked t \<longleftrightarrow> t = CORRECTION \<or> t = REVERSAL"

definition ck_positions_distinct :: "movement \<Rightarrow> bool" where
  "ck_positions_distinct m \<longleftrightarrow>
     mv_source_location_id m = None \<or> mv_destination_location_id m = None \<or>
     mv_source_location_id m \<noteq> mv_destination_location_id m"

definition ck_operation_positions :: "movement \<Rightarrow> bool" where
  "ck_operation_positions m \<longleftrightarrow>
     (let t = mv_movement_type m; s = mv_source_location_id m; t' = mv_destination_location_id m
      in (t \<in> {RECEIPT, RETURN} \<and> s = None \<and> t' \<noteq> None) \<or>
         (t \<in> {ISSUE, WRITE_OFF} \<and> s \<noteq> None \<and> t' = None) \<or>
         (t = TRANSFER \<and> s \<noteq> None \<and> t' \<noteq> None) \<or>
         (is_linked t \<and> (s \<noteq> None \<or> t' \<noteq> None)))"

definition ck_custody_movement_type :: "movement \<Rightarrow> bool" where
  "ck_custody_movement_type m \<longleftrightarrow>
     mv_custody_user_id m = None \<or> mv_movement_type m \<in> {ISSUE, RETURN, REVERSAL}"

definition ck_location_snapshots :: "movement \<Rightarrow> bool" where
  "ck_location_snapshots m \<longleftrightarrow>
     ((mv_source_location_id m = None) = (mv_source_location_code_snapshot m = None)) \<and>
     ((mv_source_location_id m = None) = (mv_source_location_name_snapshot m = None)) \<and>
     ((mv_destination_location_id m = None) = (mv_destination_location_code_snapshot m = None)) \<and>
     ((mv_destination_location_id m = None) = (mv_destination_location_name_snapshot m = None))"

definition ck_original_relationship :: "movement \<Rightarrow> bool" where
  "ck_original_relationship m \<longleftrightarrow>
     (is_linked (mv_movement_type m) = (mv_original_movement_id m \<noteq> None)) \<and>
     mv_original_movement_id m \<noteq> Some (mv_id m)"

definition ck_movement_text :: "movement \<Rightarrow> bool" where
  "ck_movement_text m \<longleftrightarrow>
     btrim (mv_client_request_id m) \<noteq> [] \<and> length (mv_client_request_id m) \<le> 128 \<and>
     length (mv_request_fingerprint m) = 64 \<and>
     btrim (mv_actor_display_name_snapshot m) \<noteq> [] \<and>
     length (mv_actor_display_name_snapshot m) \<le> 579"

definition ck_line_count_range :: "movement \<Rightarrow> bool" where
  "ck_line_count_range m \<longleftrightarrow> 1 \<le> mv_line_count m \<and> mv_line_count m \<le> 500"

definition movement_checks :: "movement \<Rightarrow> bool" where
  "movement_checks m \<longleftrightarrow>
     ck_positions_distinct m \<and> ck_operation_positions m \<and> ck_custody_movement_type m \<and>
     ck_location_snapshots m \<and> ck_original_relationship m \<and> ck_movement_text m \<and>
     ck_line_count_range m"

definition movement_unique_keys :: "db \<Rightarrow> movement \<Rightarrow> bool" where
  "movement_unique_keys d m \<longleftrightarrow>
     (\<forall>x\<in>set (movements d).
        mv_id x \<noteq> mv_id m \<and>
        \<not> (mv_actor_user_id x = mv_actor_user_id m \<and>
           mv_client_request_id x = mv_client_request_id m) \<and>
        mv_journal_seq x \<noteq> mv_journal_seq m \<and>
        \<not> (mv_movement_type x = REVERSAL \<and> mv_movement_type m = REVERSAL \<and>
           mv_original_movement_id x = mv_original_movement_id m))"

definition opt_fk :: "'a set \<Rightarrow> 'a option \<Rightarrow> bool" where
  "opt_fk keys x \<longleftrightarrow> (case x of None \<Rightarrow> True | Some k \<Rightarrow> k \<in> keys)"

definition movement_foreign_keys :: "db \<Rightarrow> movement \<Rightarrow> bool" where
  "movement_foreign_keys d m \<longleftrightarrow>
     mv_actor_user_id m \<in> u_id ` set (users d) \<and>
     opt_fk (u_id ` set (users d)) (mv_custody_user_id m) \<and>
     opt_fk (loc_id ` set (locations d)) (mv_source_location_id m) \<and>
     opt_fk (loc_id ` set (locations d)) (mv_destination_location_id m) \<and>
     opt_fk (mv_id ` set (movements d)) (mv_original_movement_id m)"

section \<open>Insert triggers of movements\<close>

definition protect_procurement_receipt_movement :: "db \<Rightarrow> movement \<Rightarrow> db_error + unit" where
  "protect_procurement_receipt_movement d m =
     (if is_linked (mv_movement_type m) \<and> mv_original_movement_id m \<noteq> None \<and>
         (\<exists>r\<in>set (procurement_requests d). pr_final_movement_id r = mv_original_movement_id m)
      then Inl (DbError ''23514'' ''procurement movement is protected'')
      else Inr ())"

definition validate_warehouse_correction_header :: "db \<Rightarrow> movement \<Rightarrow> db_error + unit" where
  "validate_warehouse_correction_header d m =
     (if \<not> is_linked (mv_movement_type m) then Inr ()
      else case Option.bind (mv_original_movement_id m) (get_mov d) of
        None \<Rightarrow> Inl (DbError ''23514'' ''invalid correction/reversal target'')
      | Some original \<Rightarrow>
          if mv_movement_type original = REVERSAL
          then Inl (DbError ''23514'' ''invalid correction/reversal target'')
          else if mv_movement_type m = REVERSAL
          then if mv_line_count m \<noteq> mv_line_count original
               then Inl (DbError ''23514'' ''reversal must include every original line'')
               else if mv_source_location_id m \<noteq> mv_destination_location_id original \<or>
                       mv_destination_location_id m \<noteq> mv_source_location_id original
               then Inl (DbError ''23514'' ''reversal must invert original locations'')
               else Inr ()
          else if (mv_source_location_id m \<noteq> None \<and>
                   mv_source_location_id m \<in> {mv_source_location_id original,
                                              mv_destination_location_id original}) \<or>
                  (mv_destination_location_id m \<noteq> None \<and>
                   mv_destination_location_id m \<in> {mv_source_location_id original,
                                                   mv_destination_location_id original})
          then Inr ()
          else Inl (DbError ''23514'' ''correction must concern original location''))"

definition validate_movement_custody :: "db \<Rightarrow> movement \<Rightarrow> db_error + unit" where
  "validate_movement_custody d m =
     (let t = mv_movement_type m;
          actor_role = map_option u_role (get_user d (mv_actor_user_id m));
          original = Option.bind (mv_original_movement_id m) (get_mov d)
      in if mv_custody_user_id m \<noteq> None \<and> t \<notin> {ISSUE, RETURN, REVERSAL}
         then Inl (DbError ''23514'' ''custody is only valid for issue, return, or reversal'')
         else if t \<in> {ISSUE, RETURN} \<and> actor_role \<in> {Some ENGINEER, Some SENIOR_ENGINEER} \<and>
                 mv_custody_user_id m \<noteq> Some (mv_actor_user_id m)
         then Inl (DbError ''23514'' ''user issue/return custody must match movement actor'')
         else if t \<in> {ISSUE, RETURN} \<and> actor_role \<in> {Some ADMIN, Some OWNER} \<and>
                 mv_custody_user_id m \<noteq> None
         then Inl (DbError ''23514'' ''admin issue/return must not carry custody'')
         else if t = CORRECTION \<and> Option.bind original mv_custody_user_id \<noteq> None
         then Inl (DbError ''23514'' ''correction of custody movement is forbidden'')
         else if t = REVERSAL \<and> original = None
         then Inl (DbError ''23514'' ''reversal original movement not found'')
         else if t = REVERSAL \<and>
                 mv_custody_user_id m \<noteq> Option.bind original mv_custody_user_id
         then Inl (DbError ''23514'' ''reversal custody must match original movement'')
         else if t = REVERSAL \<and> mv_custody_user_id m \<noteq> None \<and>
                 map_option mv_movement_type original \<notin> {Some ISSUE, Some RETURN}
         then Inl (DbError ''23514'' ''custody reversal requires issue or return original'')
         else Inr ())"

definition insert_movement :: "db \<Rightarrow> movement \<Rightarrow> db_error + db" where
  "insert_movement d m =
     ebind (protect_procurement_receipt_movement d m) (\<lambda>_.
     ebind (validate_warehouse_correction_header d m) (\<lambda>_.
     ebind (validate_movement_custody d m) (\<lambda>_.
     ebind (ensure (movement_checks m) (DbError ''23514'' ''movements'')) (\<lambda>_.
     ebind (ensure (movement_unique_keys d m) (DbError ''23505'' ''movements'')) (\<lambda>_.
     ebind (ensure (movement_foreign_keys d m) (DbError ''23503'' ''movements'')) (\<lambda>_.
     Inr (d\<lparr>movements := movements d @ [m]\<rparr>)))))))"

definition next_journal_seq :: "db \<Rightarrow> int" where
  \<comment> \<open>the identity column: above every number already given to a stored row\<close>
  "next_journal_seq d = 1 + foldr (\<lambda>m. max (mv_journal_seq m)) (movements d) 0"

section \<open>Lines\<close>

definition movement_line_checks :: "movement_line \<Rightarrow> bool" where
  "movement_line_checks ml \<longleftrightarrow>
     0 < ml_quantity ml \<and> 0 < ml_line_no ml \<and> btrim (ml_item_name_snapshot ml) \<noteq> []"

definition movement_line_unique_keys :: "db \<Rightarrow> movement_line \<Rightarrow> bool" where
  "movement_line_unique_keys d ml \<longleftrightarrow>
     (\<forall>x\<in>set (movement_lines d). ml_movement_id x = ml_movement_id ml \<longrightarrow>
        ml_item_id x \<noteq> ml_item_id ml \<and> ml_line_no x \<noteq> ml_line_no ml)"

definition movement_line_foreign_keys :: "db \<Rightarrow> movement_line \<Rightarrow> bool" where
  "movement_line_foreign_keys d ml \<longleftrightarrow>
     ml_movement_id ml \<in> mv_id ` set (movements d) \<and> ml_item_id ml \<in> it_id ` set (items d)"

definition validate_warehouse_correction_line :: "db \<Rightarrow> movement_line \<Rightarrow> db_error + unit" where
  "validate_warehouse_correction_line d ml =
     (case get_mov d (ml_movement_id ml) of
        None \<Rightarrow> Inr ()
      | Some header \<Rightarrow>
          if is_linked (mv_movement_type header) \<and>
             \<not> (\<exists>x\<in>set (movement_lines d).
                   Some (ml_movement_id x) = mv_original_movement_id header \<and>
                   ml_item_id x = ml_item_id ml \<and>
                   (mv_movement_type header = CORRECTION \<or> ml_quantity x = ml_quantity ml))
          then Inl (DbError ''23514'' ''invalid original item/quantity relationship'')
          else Inr ())"

definition insert_movement_line :: "movement_line \<Rightarrow> db \<Rightarrow> db_error + db" where
  "insert_movement_line ml d =
     ebind (validate_warehouse_correction_line d ml) (\<lambda>_.
     ebind (ensure (movement_line_checks ml) (DbError ''23514'' ''movement_lines'')) (\<lambda>_.
     ebind (ensure (movement_line_unique_keys d ml) (DbError ''23505'' ''movement_lines'')) (\<lambda>_.
     ebind (ensure (movement_line_foreign_keys d ml) (DbError ''23503'' ''movement_lines'')) (\<lambda>_.
     Inr (d\<lparr>movement_lines := movement_lines d @ [ml]\<rparr>)))))"

definition lines_of :: "db \<Rightarrow> uuid \<Rightarrow> movement_line list" where
  "lines_of d mid = sort_key ml_line_no (filter (\<lambda>ml. ml_movement_id ml = mid) (movement_lines d))"

definition validate_warehouse_movement_line_count :: "db \<Rightarrow> uuid \<Rightarrow> db_error + unit" where
  "validate_warehouse_movement_line_count d mid =
     (case get_mov d mid of
        None \<Rightarrow> Inl (DbError ''23514'' ''movement header is unavailable for line cardinality check'')
      | Some m \<Rightarrow>
          (let nos = map ml_line_no (filter (\<lambda>ml. ml_movement_id ml = mid) (movement_lines d))
           in if int (length nos) \<noteq> mv_line_count m \<or> nos = [] \<or>
                 foldr min nos (hd nos) \<noteq> 1 \<or> foldr max nos (hd nos) \<noteq> mv_line_count m
              then Inl (DbError ''23514''
                ''movement line cardinality does not match sealed header'')
              else Inr ()))"

section \<open>Well-formed journals\<close>

definition journal_wf :: "db \<Rightarrow> bool" where
  "journal_wf d \<longleftrightarrow>
     distinct (map mv_id (movements d)) \<and>
     (\<forall>ml\<in>set (movement_lines d). ml_movement_id ml \<in> mv_id ` set (movements d)) \<and>
     (\<forall>m\<in>set (movements d). opt_fk (mv_id ` set (movements d)) (mv_original_movement_id m))"

definition append_movement :: "db \<Rightarrow> movement \<Rightarrow> movement_line list \<Rightarrow> db" where
  "append_movement d m ls =
     d\<lparr>movements := movements d @ [m], movement_lines := movement_lines d @ ls\<rparr>"

lemma insert_movement_Inr [result_simps]:
  "insert_movement d m = Inr d' \<longleftrightarrow>
     protect_procurement_receipt_movement d m = Inr () \<and>
     validate_warehouse_correction_header d m = Inr () \<and>
     validate_movement_custody d m = Inr () \<and>
     movement_checks m \<and> movement_unique_keys d m \<and> movement_foreign_keys d m \<and>
     d' = d\<lparr>movements := movements d @ [m]\<rparr>"
  by (auto simp: insert_movement_def result_simps)

lemma insert_line_Inr [result_simps]:
  "insert_movement_line ml d = Inr d' \<longleftrightarrow>
     validate_warehouse_correction_line d ml = Inr () \<and> movement_line_checks ml \<and>
     movement_line_unique_keys d ml \<and> movement_line_foreign_keys d ml \<and>
     d' = d\<lparr>movement_lines := movement_lines d @ [ml]\<rparr>"
  by (auto simp: insert_movement_line_def result_simps)

lemma insert_lines_Inr:
  "efold insert_movement_line ls d = Inr d' \<Longrightarrow>
     d' = d\<lparr>movement_lines := movement_lines d @ ls\<rparr>"
proof (induction ls arbitrary: d)
  case Nil
  then show ?case by simp
next
  case (Cons ml ls)
  then obtain d1 where "d1 = d\<lparr>movement_lines := movement_lines d @ [ml]\<rparr>"
    and "efold insert_movement_line ls d1 = Inr d'"
    by (auto simp: result_simps)
  with Cons.IH [of d1] show ?case by simp
qed

lemma get_mov_append:
  "mv_id m \<notin> mv_id ` set (movements d) \<Longrightarrow>
     get_mov (append_movement d m ls) i = (if i = mv_id m then Some m else get_mov d i)"
  using table_get_None_iff [of mv_id "mv_id m" "movements d"]
  by (auto simp: get_mov_def append_movement_def table_get_append split: option.splits)

lemma opt_fk_mono: "opt_fk A x \<Longrightarrow> A \<subseteq> B \<Longrightarrow> opt_fk B x"
  by (auto simp: opt_fk_def split: option.splits)

lemma journal_wf_append:
  assumes "journal_wf d" and "mv_id m \<notin> mv_id ` set (movements d)"
    and "opt_fk (mv_id ` set (movements d)) (mv_original_movement_id m)"
    and "\<forall>ml\<in>set ls. ml_movement_id ml = mv_id m"
  shows "journal_wf (append_movement d m ls)"
  using assms by (auto simp: journal_wf_def append_movement_def intro: opt_fk_mono)

lemma journal_append:
  assumes "journal_wf d" and "mv_id m \<notin> mv_id ` set (movements d)"
    and "\<forall>ml\<in>set ls. ml_movement_id ml = mv_id m"
  shows "journal (append_movement d m ls) = journal d @ map (Pair m) ls"
proof -
  have old: "filter (\<lambda>x. mv_id x = ml_movement_id ml) (movements d @ [m]) =
      filter (\<lambda>x. mv_id x = ml_movement_id ml) (movements d)" if "ml \<in> set (movement_lines d)" for ml
    using assms(1,2) that by (auto simp: journal_wf_def)
  have new: "filter (\<lambda>x. mv_id x = ml_movement_id ml) (movements d @ [m]) = [m]"
    if "ml \<in> set ls" for ml
    using assms(2,3) that by (auto simp: filter_empty_conv image_iff)
  have "concat (map (\<lambda>ml. map (\<lambda>x. (x, ml))
      (filter (\<lambda>x. mv_id x = ml_movement_id ml) (movements d @ [m]))) ls) = map (Pair m) ls"
  proof -
    have "map (\<lambda>ml. map (\<lambda>x. (x, ml))
        (filter (\<lambda>x. mv_id x = ml_movement_id ml) (movements d @ [m]))) ls =
      map (\<lambda>ml. [(m, ml)]) ls"
      by (rule map_cong [OF refl]) (simp only: new list.map)
    then show ?thesis by (induction ls) simp_all
  qed
  moreover have "map (\<lambda>ml. map (\<lambda>x. (x, ml))
      (filter (\<lambda>x. mv_id x = ml_movement_id ml) (movements d @ [m]))) (movement_lines d) =
    map (\<lambda>ml. map (\<lambda>x. (x, ml))
      (filter (\<lambda>x. mv_id x = ml_movement_id ml) (movements d))) (movement_lines d)"
    by (rule map_cong [OF refl]) (simp only: old)
  ultimately show ?thesis
    by (simp add: journal_def append_movement_def del: filter_append map_eq_conv)
qed

lemma journal_movements: "e \<in> set (journal d) \<Longrightarrow> fst e \<in> set (movements d)"
  by (auto simp: journal_def)

lemma original_type_append:
  assumes "journal_wf d" and "mv_id m \<notin> mv_id ` set (movements d)"
    and "opt_fk (mv_id ` set (movements d)) (mv_original_movement_id x)"
  shows "original_type (append_movement d m ls) x = original_type d x"
proof (cases "mv_original_movement_id x")
  case None
  then show ?thesis by (simp add: original_type_def)
next
  case (Some oid)
  with assms(3) have "oid \<in> mv_id ` set (movements d)" by (simp add: opt_fk_def)
  with assms(2) have "oid \<noteq> mv_id m" by blast
  with Some assms(2) show ?thesis by (simp add: original_type_def get_mov_append)
qed

definition line_quantity :: "movement_line list \<Rightarrow> uuid \<Rightarrow> int" where
  "line_quantity ls i = sum_list (map ml_quantity (filter (\<lambda>ml. ml_item_id ml = i) ls))"

lemma sum_pair_filter:
  "sum_list (map f (filter (\<lambda>e. ml_item_id (snd e) = i \<and> P (fst e)) (map (Pair m) ls))) =
     (if P m then sum_list (map (\<lambda>ml. f (m, ml)) (filter (\<lambda>ml. ml_item_id ml = i) ls)) else (0::int))"
  by (induction ls) auto

lemma sum_list_mult_right:
  "sum_list (map (\<lambda>x. c * f x) xs) = c * (sum_list (map f xs) :: int)"
  by (induction xs) (auto simp: algebra_simps)

definition stock_sign :: "movement \<Rightarrow> uuid \<Rightarrow> int" where
  "stock_sign m l =
     (if mv_destination_location_id m = Some l then 1 else 0)
     - (if mv_source_location_id m = Some l then 1 else 0)"

lemma stock_delta_sign: "stock_delta l (m, ml) = stock_sign m l * ml_quantity ml"
  by (simp add: stock_delta_def stock_sign_def)

text \<open>Appending a movement adds its signed line quantities to the journal's sums.\<close>

lemma expected_stock_append:
  assumes "journal_wf d" and "mv_id m \<notin> mv_id ` set (movements d)"
    and "\<forall>ml\<in>set ls. ml_movement_id ml = mv_id m"
  shows "expected_stock (append_movement d m ls) i l =
     expected_stock d i l + stock_sign m l * line_quantity ls i"
proof -
  have "sum_list (map (stock_delta l) (filter (\<lambda>e. ml_item_id (snd e) = i \<and>
        (mv_source_location_id (fst e) = Some l \<or> mv_destination_location_id (fst e) = Some l))
        (map (Pair m) ls))) = stock_sign m l * line_quantity ls i"
    unfolding sum_pair_filter [where P = "\<lambda>x. mv_source_location_id x = Some l \<or>
        mv_destination_location_id x = Some l"]
    by (simp add: stock_delta_sign sum_list_mult_right line_quantity_def)
      (simp add: stock_sign_def)
  then show ?thesis by (simp add: expected_stock_def journal_append [OF assms])
qed

lemma expected_custody_append:
  assumes "journal_wf d" and "mv_id m \<notin> mv_id ` set (movements d)"
    and "\<forall>ml\<in>set ls. ml_movement_id ml = mv_id m"
    and "opt_fk (mv_id ` set (movements d)) (mv_original_movement_id m)"
  shows "expected_custody (append_movement d m ls) u i =
     expected_custody d u i +
     (if mv_custody_user_id m = Some u
      then custody_sign (mv_movement_type m) (original_type d m) * line_quantity ls i else 0)"
proof -
  let ?d = "append_movement d m ls"
  have old: "custody_entry_delta ?d e = custody_entry_delta d e" if "e \<in> set (journal d)" for e
    using that assms(1,2) journal_movements [OF that]
    by (simp add: custody_entry_delta_def original_type_append journal_wf_def)
  have "map (custody_entry_delta ?d) (filter (\<lambda>e. ml_item_id (snd e) = i \<and>
        mv_custody_user_id (fst e) = Some u) (journal d)) =
      map (custody_entry_delta d) (filter (\<lambda>e. ml_item_id (snd e) = i \<and>
        mv_custody_user_id (fst e) = Some u) (journal d))"
    by (rule map_cong [OF refl]) (auto simp: old)
  moreover have "sum_list (map (custody_entry_delta ?d) (filter (\<lambda>e. ml_item_id (snd e) = i \<and>
        mv_custody_user_id (fst e) = Some u) (map (Pair m) ls))) =
      (if mv_custody_user_id m = Some u
       then custody_sign (mv_movement_type m) (original_type d m) * line_quantity ls i else 0)"
    unfolding sum_pair_filter [where P = "\<lambda>x. mv_custody_user_id x = Some u"]
    using assms(1,2,4)
    by (simp add: custody_entry_delta_def sum_list_mult_right line_quantity_def
        original_type_append)
  ultimately show ?thesis
    unfolding expected_custody_def journal_append [OF assms(1-3)] filter_append map_append
      sum_list_append by presburger
qed

lemma line_quantity_none: "i \<notin> ml_item_id ` set ls \<Longrightarrow> line_quantity ls i = 0"
proof -
  assume "i \<notin> ml_item_id ` set ls"
  then have "filter (\<lambda>ml. ml_item_id ml = i) ls = []" by (auto simp: filter_empty_conv)
  then show ?thesis by (simp add: line_quantity_def)
qed

lemma line_quantity_line:
  "distinct (map ml_item_id ls) \<Longrightarrow> ml \<in> set ls \<Longrightarrow> line_quantity ls (ml_item_id ml) = ml_quantity ml"
  unfolding line_quantity_def by (rule sum_list_map_if_distinct)

lemma next_journal_seq_above: "m \<in> set (movements d) \<Longrightarrow> mv_journal_seq m < next_journal_seq d"
proof -
  have "m \<in> set ms \<Longrightarrow> mv_journal_seq m \<le> foldr (\<lambda>m. max (mv_journal_seq m)) ms 0" for ms
    by (induction ms) auto
  then show "m \<in> set (movements d) \<Longrightarrow> mv_journal_seq m < next_journal_seq d"
    unfolding next_journal_seq_def by (metis zle_add1_eq_le add.commute)
qed

end
