(* ===== verification/Inventory.thy ===== *)
theory Inventory
  imports Warehouse_Db
begin

text \<open>
  The warehouse service \<open>app/modules/inventory/service.py\<close>: locations, the creation of
  movements with its validation pipeline, reversals, and idempotent replay. A handler
  takes the database at the start of its transaction and returns either the exception it
  raises (the transaction is rolled back by the caller) or the database it leaves and its
  result. Values the code draws from outside (the identifier of \<open>uuid.uuid4()\<close>, the
  clock of the database) and the digest \<open>sha256\<close> are arguments. Row locks and advisory
  locks do not change data; a handler is one step of the serialised execution they
  enforce. Errors carry the code of the exception, the message text is left out.
\<close>

datatype inventory_error =
    InventoryValidationError string
  | InventoryNotFoundError string
  | InventoryConflictError string
  | InventoryDbError string string

abbreviation validation_error :: inventory_error where
  "validation_error \<equiv> InventoryValidationError ''inventory_validation_error''"

abbreviation not_found_error :: inventory_error where
  "not_found_error \<equiv> InventoryNotFoundError ''inventory_not_found''"

abbreviation conflict_error :: inventory_error where
  "conflict_error \<equiv> InventoryConflictError ''inventory_conflict''"

fun inventory_db_error :: "db_error \<Rightarrow> inventory_error" where
  "inventory_db_error (DbError sqlstate msg) = InventoryDbError sqlstate msg"

section \<open>Request schemas\<close>

record location_create =
  lcr_code :: string
  lcr_name :: string
  lcr_location_type :: location_type
  lcr_address :: "string option"

record location_patch =
  lp_name :: string
  lp_location_type :: location_type
  lp_address :: "string option"

record movement_line_create =
  lc_item_id :: uuid
  lc_quantity :: int

record movement_create =
  mc_movement_type :: movement_type
  mc_source_location_id :: "uuid option"
  mc_destination_location_id :: "uuid option"
  mc_original_movement_id :: "uuid option"
  mc_client_request_id :: string
  mc_lines :: "movement_line_create list"

record movement_record =
  rec_movement :: movement
  rec_lines :: "movement_line list"

record movement_result =
  res_record :: movement_record
  res_replayed :: bool

definition movement_line_create_valid :: "movement_line_create \<Rightarrow> bool" where
  "movement_line_create_valid l \<longleftrightarrow> 0 < lc_quantity l \<and> lc_quantity l \<le> 2 ^ 53 - 1"

definition movement_create_valid :: "movement_create \<Rightarrow> bool" where
  "movement_create_valid p \<longleftrightarrow>
     1 \<le> length (mc_client_request_id p) \<and> length (mc_client_request_id p) \<le> 128 \<and>
     1 \<le> length (mc_lines p) \<and> length (mc_lines p) \<le> 500 \<and>
     list_all movement_line_create_valid (mc_lines p)"

section \<open>Text fields\<close>

definition normalize_inline_text :: "string \<Rightarrow> string \<Rightarrow> nat \<Rightarrow> inventory_error + string" where
  "normalize_inline_text v field max_length =
     (let normalized = normalize_idempotency_key v
      in if normalized = [] then Inl (InventoryValidationError (field @ ''_required''))
         else if length normalized > max_length
         then Inl (InventoryValidationError (field @ ''_too_long''))
         else Inr normalized)"

definition normalize_optional_text :: "string option \<Rightarrow> string option" where
  "normalize_optional_text v = (case v of
     None \<Rightarrow> None
   | Some s \<Rightarrow> (let normalized = py_strip s in if normalized = [] then None else Some normalized))"

definition display_identity :: "telegram_identity \<Rightarrow> string" where
  "display_identity ident =
     (let full_name = py_join '' '' (filter (\<lambda>v. v \<noteq> [])
        [ti_first_name ident, case ti_last_name ident of None \<Rightarrow> [] | Some v \<Rightarrow> v])
      in case ti_username ident of
           None \<Rightarrow> full_name
         | Some n \<Rightarrow> if n = [] then full_name else full_name @ '' (@'' @ n @ '')'')"

section \<open>Locations\<close>

definition insert_location :: "db \<Rightarrow> location \<Rightarrow> db_error + db" where
  "insert_location d l =
     (if btrim (loc_code l) = [] \<or> btrim (loc_normalized_code l) = [] \<or> btrim (loc_name l) = [] \<or>
         (loc_status l = LOC_ACTIVE) \<noteq> (loc_archived_at l = None)
      then Inl (DbError ''23514'' ''locations'')
      else if \<exists>x\<in>set (locations d).
           loc_id x = loc_id l \<or> loc_normalized_code x = loc_normalized_code l
      then Inl (DbError ''23505'' ''locations'')
      else Inr (d\<lparr>locations := locations d @ [l]\<rparr>))"

definition create_location ::
    "db \<Rightarrow> uuid \<Rightarrow> location_create \<Rightarrow> inventory_error + db \<times> location" where
  "create_location d new_id p =
     ebind (normalize_inline_text (lcr_code p) ''code'' 64) (\<lambda>code.
     let normalized_code = identity_text code in
     ebind (ensure (length normalized_code \<le> 64) validation_error) (\<lambda>_.
     ebind (normalize_inline_text (lcr_name p) ''name'' 255) (\<lambda>name.
     let l = \<lparr> loc_id = new_id, loc_code = code, loc_normalized_code = normalized_code,
               loc_name = name, loc_address = normalize_optional_text (lcr_address p),
               loc_location_type = lcr_location_type p, loc_status = LOC_ACTIVE,
               loc_archived_at = None \<rparr> in
     ebind (relabel inventory_db_error (insert_location d l)) (\<lambda>d'. Inr (d', l)))))"

definition update_location ::
    "db \<Rightarrow> uuid \<Rightarrow> location_patch \<Rightarrow> inventory_error + db \<times> location" where
  "update_location d location_id p =
     (case get_loc d location_id of
        None \<Rightarrow> Inl not_found_error
      | Some l \<Rightarrow>
          ebind (normalize_inline_text (lp_name p) ''name'' 255) (\<lambda>name.
          let l' = l\<lparr>loc_name := name, loc_location_type := lp_location_type p,
                     loc_address := normalize_optional_text (lp_address p)\<rparr> in
          Inr (d\<lparr>locations := table_update loc_id location_id (\<lambda>_. l') (locations d)\<rparr>, l')))"

definition set_location_archived ::
    "db \<Rightarrow> uuid \<Rightarrow> bool \<Rightarrow> timestamp \<Rightarrow> inventory_error + db \<times> location" where
  "set_location_archived d location_id archived now =
     (case get_loc d location_id of
        None \<Rightarrow> Inl not_found_error
      | Some l \<Rightarrow>
          if archived \<and> (\<exists>b\<in>set (stock_balances d). sb_location_id b = location_id)
          then Inl (InventoryConflictError ''location_not_empty'')
          else
            (let l' = l\<lparr>loc_status := (if archived then LOC_ARCHIVED else LOC_ACTIVE),
                        loc_archived_at := (if archived then Some now else None)\<rparr>
             in Inr (d\<lparr>locations := table_update loc_id location_id (\<lambda>_. l') (locations d)\<rparr>, l')))"

section \<open>Movement positions\<close>

fun allowed_shapes :: "movement_type \<Rightarrow> (bool \<times> bool) list" where
  "allowed_shapes RECEIPT = [(False, True)]"
| "allowed_shapes RETURN = [(False, True)]"
| "allowed_shapes ISSUE = [(True, False)]"
| "allowed_shapes WRITE_OFF = [(True, False)]"
| "allowed_shapes TRANSFER = [(True, True)]"
| "allowed_shapes CORRECTION = [(True, False), (False, True), (True, True)]"
| "allowed_shapes REVERSAL = [(True, False), (False, True), (True, True)]"

definition validate_positions :: "movement_create \<Rightarrow> inventory_error + unit" where
  "validate_positions p =
     (let source = mc_source_location_id p; destination = mc_destination_location_id p in
      if source \<noteq> None \<and> source = destination
      then Inl (InventoryValidationError ''same_location'')
      else if (source \<noteq> None, destination \<noteq> None) \<notin> set (allowed_shapes (mc_movement_type p))
      then Inl (InventoryValidationError ''movement_positions_invalid'')
      else if is_linked (mc_movement_type p) \<noteq> (mc_original_movement_id p \<noteq> None)
      then Inl validation_error
      else Inr ())"

section \<open>Idempotent replay\<close>

fun movement_type_value :: "movement_type \<Rightarrow> string" where
  "movement_type_value RECEIPT = ''RECEIPT''"
| "movement_type_value ISSUE = ''ISSUE''"
| "movement_type_value RETURN = ''RETURN''"
| "movement_type_value TRANSFER = ''TRANSFER''"
| "movement_type_value WRITE_OFF = ''WRITE_OFF''"
| "movement_type_value CORRECTION = ''CORRECTION''"
| "movement_type_value REVERSAL = ''REVERSAL''"

definition line_json :: "movement_line_create \<Rightarrow> json" where
  "line_json l = JObj [(''item_id'', JStr (uuid_str (lc_item_id l))),
                       (''quantity'', JInt (lc_quantity l))]"

definition movement_canonical :: "movement_create \<Rightarrow> string \<Rightarrow> uuid option \<Rightarrow> json" where
  "movement_canonical p request_id custody =
     JObj [(''movement_type'', JStr (movement_type_value (mc_movement_type p))),
           (''source_location_id'', jopt_uuid (mc_source_location_id p)),
           (''destination_location_id'', jopt_uuid (mc_destination_location_id p)),
           (''original_movement_id'', jopt_uuid (mc_original_movement_id p)),
           (''client_request_id'', JStr request_id),
           (''lines'', JList (map line_json
              (sort_key (\<lambda>l. uuid_str (lc_item_id l)) (mc_lines p)))),
           (''custody_user_id'', jopt_uuid custody)]"

definition get_movement_record :: "db \<Rightarrow> uuid \<Rightarrow> inventory_error + movement_record" where
  "get_movement_record d mid =
     (case get_mov d mid of
        None \<Rightarrow> Inl (InventoryNotFoundError ''movement_not_found'')
      | Some m \<Rightarrow> Inr \<lparr> rec_movement = m, rec_lines = lines_of d mid \<rparr>)"

definition existing_idempotent_result ::
    "db \<Rightarrow> uuid \<Rightarrow> string \<Rightarrow> string \<Rightarrow> inventory_error + movement_result option" where
  "existing_idempotent_result d actor request_id fingerprint =
     (case find (\<lambda>m. mv_actor_user_id m = actor \<and> mv_client_request_id m = request_id)
             (movements d) of
        None \<Rightarrow> Inr None
      | Some m \<Rightarrow>
          if mv_request_fingerprint m \<noteq> fingerprint
          then Inl (InventoryConflictError ''idempotency_payload_conflict'')
          else Inr (Some \<lparr> res_record = \<lparr> rec_movement = m, rec_lines = lines_of d (mv_id m) \<rparr>,
                           res_replayed = True \<rparr>))"

section \<open>Validation of a new movement\<close>

definition custody_delta :: "movement_type \<Rightarrow> movement_record option \<Rightarrow> int" where
  "custody_delta t original =
     (if t = ISSUE then 1
      else if t = RETURN then - 1
      else case original of
        None \<Rightarrow> 0
      | Some r \<Rightarrow>
          if t \<noteq> REVERSAL then 0
          else if mv_movement_type (rec_movement r) = ISSUE then - 1
          else if mv_movement_type (rec_movement r) = RETURN then 1
          else 0)"

definition check_custody_request ::
    "movement_type \<Rightarrow> uuid \<Rightarrow> uuid option \<Rightarrow> inventory_error + unit" where
  "check_custody_request t actor custody =
     (if t = REVERSAL then Inr ()
      else if custody \<noteq> None \<and> t \<notin> {ISSUE, RETURN}
      then Inl (InventoryValidationError ''custody_movement_type_invalid'')
      else if custody \<noteq> None \<and> custody \<noteq> Some actor
      then Inl (InventoryValidationError ''custody_actor_mismatch'')
      else Inr ())"

definition custody_user_approved :: "user \<Rightarrow> bool" where
  "custody_user_approved u \<longleftrightarrow> u_role u \<in> set CUSTODY_ROLES \<and> u_access_status u = APPROVED"

definition lock_custody_user ::
    "db \<Rightarrow> movement_type \<Rightarrow> uuid option \<Rightarrow> inventory_error + user option" where
  "lock_custody_user d t custody =
     (case custody of
        None \<Rightarrow> Inr None
      | Some uid \<Rightarrow>
          (case get_user d uid of
             None \<Rightarrow> Inl (InventoryNotFoundError ''custody_user_not_found'')
           | Some u \<Rightarrow>
               if t \<noteq> REVERSAL \<and> \<not> custody_user_approved u
               then Inl (InventoryConflictError ''custody_user_not_approved'')
               else Inr (Some u)))"

definition check_original ::
    "db \<Rightarrow> movement_create \<Rightarrow> uuid option \<Rightarrow> user option \<Rightarrow> inventory_error + movement_record option"
where
  "check_original d p custody custody_user =
     (case mc_original_movement_id p of
        None \<Rightarrow> Inr None
      | Some oid \<Rightarrow>
          if \<exists>r\<in>set (procurement_requests d). pr_final_movement_id r = Some oid
          then Inl (InventoryConflictError ''procurement_movement_protected'')
          else ebind (get_movement_record d oid) (\<lambda>original.
            let t = mc_movement_type p in
            if mv_movement_type (rec_movement original) = REVERSAL then Inl validation_error
            else if t = CORRECTION \<and> mv_custody_user_id (rec_movement original) \<noteq> None
            then Inl (InventoryValidationError ''custody_correction_forbidden'')
            else if t = REVERSAL \<and> custody \<noteq> mv_custody_user_id (rec_movement original)
            then Inl (InventoryValidationError ''reversal_custody_mismatch'')
            else if t = REVERSAL \<and>
                    (\<exists>m\<in>set (movements d). mv_original_movement_id m = Some oid \<and>
                       mv_movement_type m = REVERSAL)
            then Inl (InventoryConflictError ''movement_already_reversed'')
            else if t = REVERSAL \<and> custody \<noteq> None \<and> custody_delta t (Some original) > 0 \<and>
                    (case custody_user of None \<Rightarrow> True | Some u \<Rightarrow> \<not> custody_user_approved u)
            then Inl (InventoryConflictError ''custody_user_not_approved'')
            else Inr (Some original)))"

definition location_ids :: "movement_create \<Rightarrow> uuid list" where
  "location_ids p = List.map_filter (\<lambda>x. x) [mc_source_location_id p, mc_destination_location_id p]"

definition check_locations :: "db \<Rightarrow> movement_create \<Rightarrow> inventory_error + unit" where
  "check_locations d p =
     (if \<exists>i\<in>set (location_ids p). get_loc d i = None then Inl not_found_error
      else if \<exists>i\<in>set (location_ids p). map_option loc_status (get_loc d i) \<noteq> Some LOC_ACTIVE
      then Inl (InventoryConflictError ''location_archived'')
      else Inr ())"

definition item_ids :: "movement_create \<Rightarrow> uuid list" where
  "item_ids p = map lc_item_id (mc_lines p)"

definition check_items ::
    "db \<Rightarrow> movement_create \<Rightarrow> movement_record option \<Rightarrow> inventory_error + unit" where
  "check_items d p original =
     (if \<not> distinct (item_ids p) then Inl validation_error
      else if \<exists>i\<in>set (item_ids p). get_item d i = None then Inl not_found_error
      else if mc_movement_type p \<in> {RECEIPT, ISSUE} \<and>
              (\<exists>i\<in>set (item_ids p). map_option it_status (get_item d i) \<noteq> Some ITEM_ACTIVE)
      then Inl conflict_error
      else case original of
        None \<Rightarrow> Inr ()
      | Some r \<Rightarrow>
          if mc_movement_type p = CORRECTION \<and>
             (set (map Some (location_ids p)) \<inter>
                {mv_source_location_id (rec_movement r),
                 mv_destination_location_id (rec_movement r)} = {} \<or>
              \<not> set (item_ids p) \<subseteq> set (map ml_item_id (rec_lines r)))
          then Inl validation_error
          else Inr ())"

definition check_balance :: "int \<Rightarrow> int \<Rightarrow> string \<Rightarrow> inventory_error + unit" where
  "check_balance current delta insufficient =
     (let quantity = current + delta in
      if quantity < 0 then Inl (InventoryConflictError insufficient)
      else if quantity > 2 ^ 53 - 1 then Inl (InventoryConflictError ''quantity_overflow'')
      else Inr ())"

definition check_line ::
    "db \<Rightarrow> movement_create \<Rightarrow> movement_record option \<Rightarrow> uuid option \<Rightarrow> movement_line_create
       \<Rightarrow> inventory_error + unit" where
  "check_line d p original custody line =
     (if lc_quantity line \<le> 0 then Inl validation_error
      else
        ebind (case mc_source_location_id p of
                 None \<Rightarrow> Inr ()
               | Some l \<Rightarrow> check_balance (stock_of d (lc_item_id line) l) (- lc_quantity line)
                            ''insufficient_stock'') (\<lambda>_.
        ebind (case mc_destination_location_id p of
                 None \<Rightarrow> Inr ()
               | Some l \<Rightarrow> check_balance (stock_of d (lc_item_id line) l) (lc_quantity line)
                            ''insufficient_stock'') (\<lambda>_.
        let delta = custody_delta (mc_movement_type p) original * lc_quantity line in
        case custody of
          None \<Rightarrow> Inr ()
        | Some u \<Rightarrow>
            if delta = 0 then Inr ()
            else check_balance (custody_of d u (lc_item_id line)) delta ''insufficient_custody'')))"

section \<open>Creation of a movement\<close>

definition sorted_lines :: "movement_create \<Rightarrow> movement_line_create list" where
  "sorted_lines p = sort_key lc_item_id (mc_lines p)"

definition make_line :: "db \<Rightarrow> uuid \<Rightarrow> int \<Rightarrow> movement_line_create \<Rightarrow> movement_line" where
  "make_line d movement_id number line =
     (let it = the (get_item d (lc_item_id line))
      in \<lparr> ml_movement_id = movement_id, ml_line_no = number, ml_item_id = lc_item_id line,
           ml_quantity = lc_quantity line, ml_item_name_snapshot = it_name it,
           ml_manufacturer_name_snapshot =
             Option.bind (it_manufacturer_id it)
               (\<lambda>i. map_option mf_name (table_get mf_id i (manufacturers d))),
           ml_model_snapshot = it_model it \<rparr>)"

definition make_movement ::
    "db \<Rightarrow> uuid \<Rightarrow> timestamp \<Rightarrow> movement_create \<Rightarrow> uuid \<Rightarrow> string \<Rightarrow> uuid option \<Rightarrow> string \<Rightarrow> string
       \<Rightarrow> movement" where
  "make_movement d movement_id now p actor name custody request_id fingerprint =
     (let source = Option.bind (mc_source_location_id p) (get_loc d);
          destination = Option.bind (mc_destination_location_id p) (get_loc d)
      in \<lparr> mv_id = movement_id, mv_journal_seq = next_journal_seq d,
           mv_line_count = int (length (mc_lines p)), mv_movement_type = mc_movement_type p,
           mv_actor_user_id = actor, mv_custody_user_id = custody,
           mv_source_location_id = mc_source_location_id p,
           mv_destination_location_id = mc_destination_location_id p,
           mv_original_movement_id = mc_original_movement_id p,
           mv_client_request_id = request_id, mv_request_fingerprint = fingerprint,
           mv_actor_display_name_snapshot = name,
           mv_source_location_code_snapshot = map_option loc_code source,
           mv_source_location_name_snapshot = map_option loc_name source,
           mv_destination_location_code_snapshot = map_option loc_code destination,
           mv_destination_location_name_snapshot = map_option loc_name destination,
           mv_occurred_at = now \<rparr>)"

definition make_lines :: "db \<Rightarrow> uuid \<Rightarrow> movement_create \<Rightarrow> movement_line list" where
  "make_lines d movement_id p =
     map (\<lambda>(number, line). make_line d movement_id (int number) line)
       (enumerate 1 (sorted_lines p))"

text \<open>
  The key of the request is the first text that reaches the database, in the lookup of an earlier
  result; every other text of a movement is copied from a stored row. The deferred trigger that
  seals the lines runs when the transaction of the caller commits; no caller writes a movement or
  a line in between, so it sees what it sees here.
\<close>

definition create_movement_internal ::
    "(string \<Rightarrow> string) \<Rightarrow> db \<Rightarrow> uuid \<Rightarrow> timestamp \<Rightarrow> movement_create \<Rightarrow> uuid \<Rightarrow> string \<Rightarrow> uuid option
       \<Rightarrow> inventory_error + db \<times> movement_result" where
  "create_movement_internal sha256 d movement_id now p actor actor_name custody =
     ebind (check_custody_request (mc_movement_type p) actor custody) (\<lambda>_.
     ebind (normalize_inline_text (mc_client_request_id p) ''client_request_id'' 128) (\<lambda>request_id.
     let fingerprint = canonical_fingerprint sha256 (movement_canonical p request_id custody) in
     ebind (relabel inventory_db_error (text_parameter request_id)) (\<lambda>_.
     ebind (existing_idempotent_result d actor request_id fingerprint) (\<lambda>existing.
     case existing of Some r \<Rightarrow> Inr (d, r) | None \<Rightarrow>
     ebind (lock_custody_user d (mc_movement_type p) custody) (\<lambda>custody_user.
     ebind (validate_positions p) (\<lambda>_.
     ebind (check_original d p custody custody_user) (\<lambda>original.
     ebind (check_locations d p) (\<lambda>_.
     ebind (check_items d p original) (\<lambda>_.
     ebind (normalize_inline_text actor_name ''actor'' 579) (\<lambda>name.
     let movement = make_movement d movement_id now p actor name custody request_id fingerprint in
     ebind (relabel inventory_db_error (insert_movement d movement)) (\<lambda>d1.
     ebind (emap (check_line d p original custody) (sorted_lines p)) (\<lambda>_.
     let lines = make_lines d movement_id p in
     ebind (relabel inventory_db_error (efold insert_movement_line lines d1)) (\<lambda>d2.
     ebind (relabel inventory_db_error
       (efold (\<lambda>ml d. refresh_warehouse_projection d movement_id (ml_item_id ml)) lines d2)) (\<lambda>d3.
     ebind (relabel inventory_db_error (validate_warehouse_movement_line_count d3 movement_id)) (\<lambda>_.
     Inr (d3, \<lparr> res_record = \<lparr> rec_movement = movement, rec_lines = lines \<rparr>,
                res_replayed = False \<rparr>))))))))))))))))"

definition create_movement ::
    "(string \<Rightarrow> string) \<Rightarrow> db \<Rightarrow> uuid \<Rightarrow> timestamp \<Rightarrow> movement_create \<Rightarrow> uuid \<Rightarrow> string \<Rightarrow> uuid option
       \<Rightarrow> inventory_error + db \<times> movement_result" where
  "create_movement sha256 d movement_id now p actor actor_name custody =
     (if mc_movement_type p = REVERSAL then Inl validation_error
      else create_movement_internal sha256 d movement_id now p actor actor_name custody)"

definition reversal_payload :: "movement_record \<Rightarrow> uuid \<Rightarrow> string \<Rightarrow> movement_create" where
  "reversal_payload original original_movement_id client_request_id =
     \<lparr> mc_movement_type = REVERSAL,
       mc_source_location_id = mv_destination_location_id (rec_movement original),
       mc_destination_location_id = mv_source_location_id (rec_movement original),
       mc_original_movement_id = Some original_movement_id,
       mc_client_request_id = client_request_id,
       mc_lines = map (\<lambda>x. \<lparr> lc_item_id = ml_item_id x, lc_quantity = ml_quantity x \<rparr>)
                    (rec_lines original) \<rparr>"

definition reverse_movement ::
    "(string \<Rightarrow> string) \<Rightarrow> db \<Rightarrow> uuid \<Rightarrow> timestamp \<Rightarrow> uuid \<Rightarrow> string \<Rightarrow> uuid \<Rightarrow> string
       \<Rightarrow> inventory_error + db \<times> movement_result" where
  "reverse_movement sha256 d movement_id now original_movement_id client_request_id actor actor_name =
     ebind (get_movement_record d original_movement_id) (\<lambda>original.
     create_movement_internal sha256 d movement_id now
       (reversal_payload original original_movement_id client_request_id)
       actor actor_name (mv_custody_user_id (rec_movement original)))"

end
