(* ===== verification/Procurement_Db.thy ===== *)
theory Procurement_Db
  imports Inventory
begin

text \<open>
  What the database enforces on the procurement tables: the constraints declared in
  \<open>app/modules/procurement/models.py\<close> and the trigger functions of the migrations
  (a published revision is sealed, a publication event needs its complete line set, the
  receipt of a completed request is fixed). Foreign keys to rows that the service has just
  read and locked in the same transaction are not repeated here.
\<close>

section \<open>Requests\<close>

definition completion_state :: "procurement_request \<Rightarrow> bool" where
  "completion_state r \<longleftrightarrow>
     (pr_status r = COMPLETED \<and> pr_final_movement_id r \<noteq> None \<and> pr_completed_at r \<noteq> None) \<or>
     (pr_status r \<noteq> COMPLETED \<and> pr_final_movement_id r = None \<and> pr_completed_at r = None)"

definition request_checks :: "procurement_request \<Rightarrow> bool" where
  "request_checks r \<longleftrightarrow>
     btrim (pr_request_number r) \<noteq> [] \<and> 1 \<le> pr_state_version r \<and>
     btrim (pr_creation_client_request_id r) \<noteq> [] \<and> length (pr_request_fingerprint r) = 64 \<and>
     completion_state r"

definition adjusted_movement :: "db \<Rightarrow> uuid \<Rightarrow> bool" where
  "adjusted_movement d i \<longleftrightarrow>
     (\<exists>m\<in>set (movements d). mv_original_movement_id m = Some i \<and>
        mv_movement_type m \<in> {CORRECTION, REVERSAL})"

definition protect_procurement_final_movement_binding ::
    "db \<Rightarrow> procurement_request option \<Rightarrow> procurement_request \<Rightarrow> bool" where
  "protect_procurement_final_movement_binding d old new \<longleftrightarrow>
     (case old of None \<Rightarrow> True
      | Some o' \<Rightarrow> pr_status o' = COMPLETED \<longrightarrow>
          pr_status new = pr_status o' \<and> pr_final_movement_id new = pr_final_movement_id o' \<and>
          pr_completed_at new = pr_completed_at o') \<and>
     (case pr_final_movement_id new of None \<Rightarrow> True
      | Some i \<Rightarrow>
          (case old of None \<Rightarrow> True | Some o' \<Rightarrow> pr_final_movement_id o' \<noteq> Some i) \<longrightarrow>
          \<not> adjusted_movement d i)"

definition insert_request :: "db \<Rightarrow> procurement_request \<Rightarrow> db_error + db" where
  "insert_request d r =
     (if \<not> protect_procurement_final_movement_binding d None r \<or> \<not> request_checks r
      then Inl (DbError ''23514'' ''procurement_requests'')
      else if \<exists>x\<in>set (procurement_requests d).
           pr_id x = pr_id r \<or> pr_request_number x = pr_request_number r \<or>
           (pr_initiator_user_id x = pr_initiator_user_id r \<and>
            pr_creation_client_request_id x = pr_creation_client_request_id r) \<or>
           (pr_final_movement_id r \<noteq> None \<and> pr_final_movement_id x = pr_final_movement_id r)
      then Inl (DbError ''23505'' ''procurement_requests'')
      else Inr (d\<lparr>procurement_requests := procurement_requests d @ [r]\<rparr>))"

definition save_request :: "db \<Rightarrow> procurement_request \<Rightarrow> db_error + db" where
  "save_request d r =
     (if \<not> protect_procurement_final_movement_binding d (get_request d (pr_id r)) r \<or>
         \<not> request_checks r
      then Inl (DbError ''23514'' ''procurement_requests'')
      else if \<exists>x\<in>set (procurement_requests d). pr_id x \<noteq> pr_id r \<and>
           pr_final_movement_id r \<noteq> None \<and> pr_final_movement_id x = pr_final_movement_id r
      then Inl (DbError ''23505'' ''procurement_requests'')
      else Inr (d\<lparr>procurement_requests :=
             table_update pr_id (pr_id r) (\<lambda>_. r) (procurement_requests d)\<rparr>))"

section \<open>Revisions and their lines\<close>

definition comment_ok :: "string option \<Rightarrow> bool" where
  "comment_ok c = (case c of None \<Rightarrow> True | Some s \<Rightarrow> btrim s \<noteq> [])"

definition revision_checks :: "procurement_revision \<Rightarrow> bool" where
  "revision_checks v \<longleftrightarrow>
     0 < rv_revision_number v \<and> 1 \<le> rv_line_count v \<and> rv_line_count v \<le> 500 \<and>
     comment_ok (rv_general_comment v)"

definition insert_revision :: "db \<Rightarrow> procurement_revision \<Rightarrow> db_error + db" where
  "insert_revision d v =
     (if \<not> revision_checks v then Inl (DbError ''23514'' ''procurement_revisions'')
      else if \<exists>x\<in>set (procurement_revisions d). rv_id x = rv_id v \<or>
           (rv_request_id x = rv_request_id v \<and> rv_revision_number x = rv_revision_number v)
      then Inl (DbError ''23505'' ''procurement_revisions'')
      else Inr (d\<lparr>procurement_revisions := procurement_revisions d @ [v]\<rparr>))"

fun json_is_object :: "json \<Rightarrow> bool" where
  "json_is_object (JObj kvs) = True"
| "json_is_object _ = False"

definition hex64 :: "string \<Rightarrow> bool" where
  "hex64 s \<longleftrightarrow> length s = 64 \<and> (\<forall>c\<in>set s. c \<in> set ''0123456789abcdef'')"

definition revision_line_checks :: "procurement_revision_line \<Rightarrow> bool" where
  "revision_line_checks l \<longleftrightarrow>
     0 < rl_line_no l \<and> 0 < rl_quantity l \<and> json_is_object (rl_display_snapshot l) \<and>
     (rl_line_type l = EXISTING_ITEM) = (rl_catalog_item_id l \<noteq> None) \<and>
     hex64 (rl_expected_identity_signature l)"

definition is_publication :: "procurement_event_type \<Rightarrow> bool" where
  "is_publication t \<longleftrightarrow> t \<in> {REQUEST_CREATED, REVISION_SUBMITTED}"

definition protect_procurement_revision_line_insert :: "db \<Rightarrow> procurement_revision_line \<Rightarrow> bool" where
  "protect_procurement_revision_line_insert d l \<longleftrightarrow>
     \<not> (\<exists>e\<in>set (procurement_events d). ev_revision_id e = Some (rl_revision_id l) \<and>
          is_publication (ev_event_type e))"

definition insert_revision_line :: "procurement_revision_line \<Rightarrow> db \<Rightarrow> db_error + db" where
  "insert_revision_line l d =
     (if \<not> protect_procurement_revision_line_insert d l
      then Inl (DbError ''55000'' ''procurement revision is sealed'')
      else if \<not> revision_line_checks l then Inl (DbError ''23514'' ''procurement_revision_lines'')
      else if \<exists>x\<in>set (procurement_revision_lines d). rl_id x = rl_id l \<or>
           (rl_revision_id x = rl_revision_id l \<and> rl_line_no x = rl_line_no l)
      then Inl (DbError ''23505'' ''procurement_revision_lines'')
      else Inr (d\<lparr>procurement_revision_lines := procurement_revision_lines d @ [l]\<rparr>))"

definition insert_binding :: "db \<Rightarrow> procurement_line_catalog_binding \<Rightarrow> db_error + db" where
  "insert_binding d b =
     (if \<exists>x\<in>set (procurement_line_catalog_bindings d).
           bd_revision_line_id x = bd_revision_line_id b
      then Inl (DbError ''23505'' ''procurement_line_catalog_bindings'')
      else Inr (d\<lparr>procurement_line_catalog_bindings := procurement_line_catalog_bindings d @ [b]\<rparr>))"

section \<open>Events\<close>

definition revision_line_count :: "db \<Rightarrow> uuid \<Rightarrow> int" where
  "revision_line_count d v =
     int (length (filter (\<lambda>l. rl_revision_id l = v) (procurement_revision_lines d)))"

definition validate_procurement_revision_publication :: "db \<Rightarrow> procurement_event \<Rightarrow> db_error option" where
  "validate_procurement_revision_publication d e =
     (case ev_revision_id e of
        None \<Rightarrow> None
      | Some v \<Rightarrow>
          if \<not> is_publication (ev_event_type e) then None
          else case table_get rv_id v (procurement_revisions d) of
            None \<Rightarrow> Some (DbError ''23503'' ''unknown revision'')
          | Some rv \<Rightarrow>
              if revision_line_count d v \<noteq> rv_line_count rv
              then Some (DbError ''23514'' ''line count mismatch'') else None)"

definition event_checks :: "procurement_event \<Rightarrow> bool" where
  "event_checks e \<longleftrightarrow>
     btrim (ev_actor_display_name_snapshot e) \<noteq> [] \<and> btrim (ev_client_request_id e) \<noteq> [] \<and>
     length (ev_request_fingerprint e) = 64 \<and> comment_ok (ev_comment e) \<and>
     (case ev_metadata e of None \<Rightarrow> True | Some j \<Rightarrow> json_is_object j)"

definition event_revision_fk :: "db \<Rightarrow> procurement_event \<Rightarrow> bool" where
  "event_revision_fk d e =
     (case ev_revision_id e of None \<Rightarrow> True
      | Some v \<Rightarrow> \<exists>x\<in>set (procurement_revisions d). rv_id x = v \<and> rv_request_id x = ev_request_id e)"

definition insert_event :: "db \<Rightarrow> procurement_event \<Rightarrow> db_error + db" where
  "insert_event d e =
     (case validate_procurement_revision_publication d e of
        Some err \<Rightarrow> Inl err
      | None \<Rightarrow>
          if \<not> event_checks e then Inl (DbError ''23514'' ''procurement_events'')
          else if \<exists>x\<in>set (procurement_events d). ev_id x = ev_id e \<or>
               (ev_request_id x = ev_request_id e \<and> ev_actor_user_id x = ev_actor_user_id e \<and>
                ev_client_request_id x = ev_client_request_id e)
          then Inl (DbError ''23505'' ''procurement_events'')
          else if \<not> event_revision_fk d e then Inl (DbError ''23503'' ''procurement_events'')
          else Inr (d\<lparr>procurement_events := procurement_events d @ [e]\<rparr>))"

text \<open>The deferred constraint trigger on the current revision of a request.\<close>

definition validate_procurement_current_revision :: "db \<Rightarrow> procurement_request \<Rightarrow> bool" where
  "validate_procurement_current_revision d r \<longleftrightarrow>
     (\<exists>v\<in>set (procurement_revisions d). rv_id v = pr_current_revision_id r \<and> rv_request_id v = pr_id r)"

end
