(* ===== verification/Procurement_Notify.thy ===== *)
theory Procurement_Notify
  imports Outbox Procurement_Db
begin

text \<open>
  Announcements of procurement changes (\<open>app/modules/procurement/notifications.py\<close>): who is
  told, the text of the message, and the outbox rows written in the transaction of the
  change. The Russian texts of the source are given by their code points.
  \<open>procurement_deep_link\<close> parses the configured web address with \<open>urllib\<close>; its result
  for a request is an argument here, with no value where it raises.
\<close>

section \<open>Texts\<close>

definition text_purchase :: string where
  "text_purchase = points_text
     [1047, 1072, 1082, 1091, 1087, 1082, 1072, 32]"

definition text_open :: string where
  "text_open = points_text
     [1054, 1090, 1082, 1088, 1099, 1090, 1100, 58, 32]"

definition text_bullet :: string where
  "text_bullet = points_text
     [8226, 32]"

definition text_dash :: string where
  "text_dash = points_text
     [32, 8212, 32]"

definition text_pieces :: string where
  "text_pieces = points_text
     [32, 1096, 1090, 46]"

definition text_more :: string where
  "text_more = points_text
     [1080, 32, 1077, 1097, 1105, 32]"

definition text_positions :: string where
  "text_positions = points_text
     [32, 1087, 1086, 1079, 46]"

definition text_untitled :: string where
  "text_untitled = points_text
     [1055, 1086, 1079, 1080, 1094, 1080, 1103, 32, 1079, 1072, 1082, 1091, 1087, 1082,
      1080]"

definition action_created :: string where
  "action_created = points_text
     [1053, 1086, 1074, 1072, 1103, 32, 1079, 1072, 1103, 1074, 1082, 1072, 46, 32, 1054,
      1078, 1080, 1076, 1072, 1077, 1090, 32, 1086, 1073, 1088, 1072, 1073, 1086, 1090,
      1082, 1080, 32, 1084, 1077, 1085, 1077, 1076, 1078, 1077, 1088, 1086, 1084, 46]"

definition action_correction :: string where
  "action_correction = points_text
     [1052, 1077, 1085, 1077, 1076, 1078, 1077, 1088, 32, 1074, 1077, 1088, 1085, 1091,
      1083, 32, 1079, 1072, 1103, 1074, 1082, 1091, 32, 1085, 1072, 32, 1082, 1086, 1088,
      1088, 1077, 1082, 1090, 1080, 1088, 1086, 1074, 1082, 1091, 46]"

definition action_revision :: string where
  "action_revision = points_text
     [1054, 1090, 1087, 1088, 1072, 1074, 1083, 1077, 1085, 1072, 32, 1085, 1086, 1074,
      1072, 1103, 32, 1088, 1077, 1076, 1072, 1082, 1094, 1080, 1103, 32, 8470]"

definition action_assigned :: string where
  "action_assigned = points_text
     [1042, 1099, 32, 1085, 1072, 1079, 1085, 1072, 1095, 1077, 1085, 1099, 32, 1086,
      1090, 1074, 1077, 1090, 1089, 1090, 1074, 1077, 1085, 1085, 1099, 1084, 32, 1084,
      1077, 1085, 1077, 1076, 1078, 1077, 1088, 1086, 1084, 46]"

definition action_acceptance :: string where
  "action_acceptance = points_text
     [1055, 1086, 1089, 1090, 1072, 1074, 1082, 1072, 32, 1087, 1077, 1088, 1077, 1076,
      1072, 1085, 1072, 32, 1085, 1072, 32, 1090, 1077, 1093, 1085, 1080, 1095, 1077,
      1089, 1082, 1091, 1102, 32, 1087, 1088, 1080, 1105, 1084, 1082, 1091, 46]"

definition action_discrepancy :: string where
  "action_discrepancy = points_text
     [1053, 1072, 32, 1087, 1088, 1080, 1105, 1084, 1082, 1077, 32, 1086, 1073, 1085,
      1072, 1088, 1091, 1078, 1077, 1085, 1099, 32, 1088, 1072, 1089, 1093, 1086, 1078,
      1076, 1077, 1085, 1080, 1103, 46]"

definition action_completed :: string where
  "action_completed = points_text
     [1058, 1077, 1093, 1085, 1080, 1095, 1077, 1089, 1082, 1072, 1103, 32, 1087, 1088,
      1080, 1105, 1084, 1082, 1072, 32, 1079, 1072, 1074, 1077, 1088, 1096, 1077, 1085,
      1072, 44, 32, 1086, 1073, 1086, 1088, 1091, 1076, 1086, 1074, 1072, 1085, 1080,
      1077, 32, 1086, 1087, 1088, 1080, 1093, 1086, 1076, 1086, 1074, 1072, 1085, 1086, 46]"

definition newline :: string where
  "newline = [char_of (10 :: nat)]"

section \<open>Composition of a message\<close>

fun json_get :: "string \<Rightarrow> json \<Rightarrow> json option" where
  "json_get key (JObj kvs) = map_of kvs key"
| "json_get key _ = None"

definition snapshot_text :: "json \<Rightarrow> string \<Rightarrow> string list" where
  "snapshot_text snapshot key =
     (case json_get key snapshot of Some (JStr s) \<Rightarrow> if s = [] then [] else [s] | _ \<Rightarrow> [])"

definition line_title :: "procurement_revision_line \<Rightarrow> string" where
  "line_title line =
     (let snapshot = rl_display_snapshot line;
          title = py_join '' '' (snapshot_text snapshot ''manufacturer_name'' @
                    snapshot_text snapshot ''name'' @ snapshot_text snapshot ''model'')
      in if title = [] then text_untitled else title)"

definition composition_summary :: "procurement_revision_line list \<Rightarrow> string" where
  "composition_summary lines =
     (let visible = map (\<lambda>line. text_bullet @ line_title line @ text_dash @
                       int_str (rl_quantity line) @ text_pieces) (take 5 lines);
          more = (if length lines > 5
                  then [text_bullet @ text_more @ nat_str (length lines - 5) @ text_positions]
                  else [])
      in py_join newline (visible @ more))"

definition message_text :: "string \<Rightarrow> string \<Rightarrow> procurement_revision_line list \<Rightarrow> string \<Rightarrow> string" where
  "message_text request_number action lines link =
     text_purchase @ request_number @ newline @ action @ newline @ newline @
     composition_summary lines @ newline @ newline @ text_open @ link"

section \<open>Recipients\<close>

definition telegram_user_ids_for_users :: "db \<Rightarrow> uuid set \<Rightarrow> (uuid \<times> int) list" where
  "telegram_user_ids_for_users d user_ids =
     map (\<lambda>t. (ti_user_id t, ti_telegram_user_id t))
       (filter (\<lambda>t. ti_user_id t \<in> user_ids \<and>
          (case get_user d (ti_user_id t) of
             None \<Rightarrow> False
           | Some u \<Rightarrow> u_access_status u = APPROVED \<and> has_capability (u_role u) PROCUREMENT_READ))
        (telegram_identities d))"

definition technical_recipient_user_ids :: "db \<Rightarrow> uuid set" where
  "technical_recipient_user_ids d =
     u_id ` set (filter (\<lambda>u. u_access_status u = APPROVED \<and>
       u_role u \<in> {SENIOR_ENGINEER, ADMIN, OWNER}) (users d))"

definition enqueue_procurement_notifications ::
    "(string \<Rightarrow> string) \<Rightarrow> (uuid \<Rightarrow> string option) \<Rightarrow> (nat \<Rightarrow> uuid) \<Rightarrow> timestamp \<Rightarrow> db \<Rightarrow> uuid \<Rightarrow> string
       \<Rightarrow> uuid \<Rightarrow> string \<Rightarrow> procurement_revision_line list \<Rightarrow> uuid set \<Rightarrow> outbox_error + db" where
  "enqueue_procurement_notifications sha256 deep_link outbox_ids now d request_id request_number
       event_id action lines recipient_user_ids =
     (let recipients = telegram_user_ids_for_users d recipient_user_ids in
      if recipients = [] then Inr d
      else case deep_link request_id of
        None \<Rightarrow> Inl OutboxValueError
      | Some link \<Rightarrow>
          (let text = message_text request_number action lines link
           in efold (\<lambda>(k, user_id, telegram_user_id) d.
                enqueue_telegram_call d (outbox_ids k) now ''sendMessage''
                  (JObj [(''chat_id'', JInt telegram_user_id), (''text'', JStr text),
                         (''disable_web_page_preview'', JBool True)])
                  (notification_dedupe_key sha256
                     [''procurement'', uuid_str event_id, uuid_str user_id, ''telegram''])
                  None False)
                (enumerate 0 recipients) d))"

end
