(* ===== verification/Reach.thy ===== *)
theory Reach
  imports Decimals
begin

text \<open>
  \<open>clean_text\<close> and \<open>normalize_reach\<close> of \<open>app/modules/catalog/normalization.py\<close>: the display text
  of a transceiver's reach is scanned for distance clauses in metres and kilometres, and the
  largest distance is returned only if nothing else is left of the text but known words and
  punctuation. This theory works on lists of Unicode code points; case folding and the word
  characters are exact on ASCII, Latin-1 and the basic Cyrillic block, and digits are the
  ASCII digits. A \<open>None\<close> stands for the \<open>ValueError\<close>s, which the
  caller reports alike.
\<close>

type_synonym code_points = "nat list"

section \<open>Characters\<close>

definition cp_space :: "nat \<Rightarrow> bool" where
  "cp_space n \<longleftrightarrow> (9 \<le> n \<and> n \<le> 13) \<or> (28 \<le> n \<and> n \<le> 32) \<or> n = 133 \<or> n = 160 \<or> n = 5760 \<or>
     (8192 \<le> n \<and> n \<le> 8202) \<or> n = 8232 \<or> n = 8233 \<or> n = 8239 \<or> n = 8287 \<or> n = 12288"

definition cp_line_break :: "nat \<Rightarrow> bool" where
  "cp_line_break n \<longleftrightarrow> (10 \<le> n \<and> n \<le> 13) \<or> (28 \<le> n \<and> n \<le> 30) \<or> n = 133 \<or> n = 8232 \<or> n = 8233"

definition cp_digit :: "nat \<Rightarrow> bool" where
  "cp_digit n \<longleftrightarrow> 48 \<le> n \<and> n \<le> 57"

definition cp_word :: "nat \<Rightarrow> bool" where
  "cp_word n \<longleftrightarrow> cp_digit n \<or> (65 \<le> n \<and> n \<le> 90) \<or> n = 95 \<or> (97 \<le> n \<and> n \<le> 122) \<or>
     n \<in> {170, 178, 179, 181, 185, 186, 188, 189, 190} \<or>
     (192 \<le> n \<and> n \<le> 255 \<and> n \<noteq> 215 \<and> n \<noteq> 247) \<or> (1024 \<le> n \<and> n \<le> 1153) \<or> (1162 \<le> n \<and> n \<le> 1327)"

definition cp_casefold :: "nat \<Rightarrow> code_points" where
  "cp_casefold n =
     (if (65 \<le> n \<and> n \<le> 90) \<or> (192 \<le> n \<and> n \<le> 222 \<and> n \<noteq> 215) \<or> (1040 \<le> n \<and> n \<le> 1071) then [n + 32]
      else if n = 223 then [115, 115]
      else if n = 181 then [956]
      else if 1024 \<le> n \<and> n \<le> 1039 then [n + 80]
      else [n])"

section \<open>clean_text\<close>

definition cp_strip :: "code_points \<Rightarrow> code_points" where
  "cp_strip s = rev (dropWhile cp_space (rev (dropWhile cp_space s)))"

fun cp_words :: "code_points \<Rightarrow> code_points \<Rightarrow> code_points list" where
  "cp_words acc [] = (if acc = [] then [] else [rev acc])"
| "cp_words acc (c # cs) =
     (if cp_space c then (if acc = [] then cp_words [] cs else rev acc # cp_words [] cs)
      else cp_words (c # acc) cs)"

fun cp_join :: "nat \<Rightarrow> code_points list \<Rightarrow> code_points" where
  "cp_join sep [] = []"
| "cp_join sep [w] = w"
| "cp_join sep (w # ws) = w @ sep # cp_join sep ws"

text \<open>\<open>str.splitlines\<close>: a carriage return and the line feed after it end one line.\<close>

fun split_lines :: "code_points \<Rightarrow> code_points \<Rightarrow> code_points list" where
  "split_lines acc [] = (if acc = [] then [] else [rev acc])"
| "split_lines acc (c # cs) =
     (if cp_line_break c
      then rev acc # (case cs of
             [] \<Rightarrow> []
           | d # ds \<Rightarrow> if c = 13 \<and> d = 10 then split_lines [] ds else split_lines [] cs)
      else split_lines (c # acc) cs)"

definition clean_text :: "code_points \<Rightarrow> code_points" where
  "clean_text s = cp_join 10 (map (\<lambda>line. cp_join 32 (cp_words [] line)) (split_lines [] (cp_strip s)))"

section \<open>Distance clauses\<close>

definition word_end :: "code_points \<Rightarrow> bool" where
  "word_end s \<longleftrightarrow> (case s of [] \<Rightarrow> True | c # _ \<Rightarrow> \<not> cp_word c)"

text \<open>The units, km and m in Cyrillic, and the factor to metres.\<close>

definition match_unit :: "code_points \<Rightarrow> (nat \<times> code_points) option" where
  "match_unit s =
     (if take 2 s = [1082, 1084] \<and> word_end (drop 2 s) then Some (1000, drop 2 s)
      else if take 1 s = [1084] \<and> word_end (drop 1 s) then Some (1, drop 1 s)
      else None)"

definition match_fraction :: "code_points \<Rightarrow> code_points \<times> code_points" where
  "match_fraction t =
     (case t of
        [] \<Rightarrow> ([], [])
      | c # r \<Rightarrow> if (c = 46 \<or> c = 44) \<and> takeWhile cp_digit r \<noteq> []
                 then (takeWhile cp_digit r, dropWhile cp_digit r) else ([], t))"

definition match_distance :: "code_points \<Rightarrow> ((code_points \<times> code_points \<times> nat) \<times> code_points) option" where
  "match_distance s =
     (let int_part = takeWhile cp_digit s; (fraction, t) = match_fraction (dropWhile cp_digit s)
      in if int_part = [] then None
         else map_option (\<lambda>(factor, rest). ((int_part, fraction, factor), rest))
           (match_unit (dropWhile cp_space t)))"

lemma match_fraction_length: "match_fraction s = (f, t) \<Longrightarrow> length t \<le> length s"
  using length_dropWhile_le [of cp_digit "tl s"]
  by (auto simp: match_fraction_def split: list.splits if_splits)

lemma match_unit_length: "match_unit s = Some (m, rest) \<Longrightarrow> length rest < length s"
  by (cases s) (auto simp: match_unit_def split: if_splits)

lemma match_distance_shorter:
  assumes "match_distance s = Some (m, rest)"
  shows "length rest < length s"
proof -
  obtain f t where f: "match_fraction (dropWhile cp_digit s) = (f, t)" by fastforce
  with assms obtain k where "match_unit (dropWhile cp_space t) = Some (k, rest)"
    by (auto simp: match_distance_def Let_def split: if_splits)
  then have "length rest < length (dropWhile cp_space t)" by (rule match_unit_length)
  also have "\<dots> \<le> length t" by (rule length_dropWhile_le)
  also have "\<dots> \<le> length (dropWhile cp_digit s)" by (rule match_fraction_length [OF f])
  also have "\<dots> \<le> length s" by (rule length_dropWhile_le)
  finally show ?thesis .
qed

function scan_distances :: "code_points \<Rightarrow> (code_points \<times> code_points \<times> nat) list \<times> code_points" where
  "scan_distances [] = ([], [])"
| "scan_distances (c # cs) =
     (case match_distance (c # cs) of
        Some (m, rest) \<Rightarrow> (let (ms, left) = scan_distances rest in (m # ms, left))
      | None \<Rightarrow> (let (ms, left) = scan_distances cs in (ms, c # left)))"
  by pat_completeness auto
termination
  by (relation "measure length") (auto dest: match_distance_shorter)

section \<open>The rest of the text\<close>

definition REACH_WORDS :: "code_points list" where
  "REACH_WORDS =
     [[111, 109, 49], [111, 109, 50], [111, 109, 51], [111, 109, 52], [111, 109, 53],
      [109, 109, 102], [115, 109, 102], [114, 115, 45, 102, 101, 99],
      [1076, 1086], [1073, 1077, 1079], [1089], [1087, 1086]]"

definition match_word :: "code_points \<Rightarrow> code_points option" where
  "match_word s = find (\<lambda>w. take (length w) s = w \<and> word_end (drop (length w) s)) REACH_WORDS"

lemma match_word_nonempty: "match_word s = Some w \<Longrightarrow> w \<noteq> []"
proof -
  assume "match_word s = Some w"
  then have "w \<in> set REACH_WORDS" by (auto simp: match_word_def find_Some_iff)
  moreover have "\<forall>w\<in>set REACH_WORDS. w \<noteq> []" by (simp add: REACH_WORDS_def)
  ultimately show ?thesis by blast
qed

function drop_words :: "bool \<Rightarrow> code_points \<Rightarrow> code_points" where
  "drop_words inside [] = []"
| "drop_words inside (c # cs) =
     (case (if inside then None else match_word (c # cs)) of
        Some w \<Rightarrow> drop_words True (drop (length w) (c # cs))
      | None \<Rightarrow> c # drop_words (cp_word c) cs)"
  by pat_completeness auto
termination
  by (relation "measure (length \<circ> snd)")
    (auto dest!: match_word_nonempty split: if_splits simp: neq_Nil_conv)

definition reach_punctuation :: "nat \<Rightarrow> bool" where
  "reach_punctuation n \<longleftrightarrow> cp_space n \<or> n \<in> {58, 47, 59, 40, 41, 44, 8212, 8211, 45}"

section \<open>Metres\<close>

definition cp_digits_nat :: "code_points \<Rightarrow> nat" where
  "cp_digits_nat s = foldl (\<lambda>n c. 10 * n + (c - 48)) 0 s"

text \<open>A product rounded to the 28 significant digits of the default context, half to even.\<close>

definition round28 :: "nat \<Rightarrow> int \<Rightarrow> nat \<times> int" where
  "round28 c e =
     (let k = length (nat_str c) - 28
      in if k = 0 then (c, e)
         else
           let q = c div 10 ^ k; r = c mod 10 ^ k; half = 5 * 10 ^ (k - 1)
           in (if r > half \<or> (r = half \<and> odd q) then q + 1 else q, e + int k))"

fun clause_metres :: "code_points \<times> code_points \<times> nat \<Rightarrow> nat \<times> int" where
  "clause_metres (int_part, fraction, factor) =
     round28 (cp_digits_nat (int_part @ fraction) * factor) (- int (length fraction))"

text \<open>The number of metres if it is a positive integer.\<close>

definition whole_metres :: "nat \<times> int \<Rightarrow> nat option" where
  "whole_metres v =
     (let (c, e) = v
      in if c = 0 then None
         else if e \<ge> 0 then Some (c * 10 ^ nat e)
         else if c mod 10 ^ nat (- e) = 0 then Some (c div 10 ^ nat (- e)) else None)"

definition normalize_reach :: "code_points \<Rightarrow> nat option" where
  "normalize_reach value =
     (let t = concat (map cp_casefold (clean_text value));
          (found, remainder) = scan_distances t
      in if found = [] then None
         else if filter (\<lambda>c. \<not> reach_punctuation c) (drop_words False remainder) \<noteq> [] then None
         else
           let metres = map (whole_metres \<circ> clause_metres) found
           in if None \<in> set metres then None else Some (Max (the ` set metres)))"

end
