(* ===== verification/Catalog_Schema.thy ===== *)
theory Catalog_Schema
  imports Models Reach "HOL-Library.AList"
begin

text \<open>
  The fixed catalog schema and the validation of attribute values against it: category and
  attribute definitions (\<open>app/modules/catalog/models.py\<close>), the leaf categories of
  \<open>configuration.py\<close>, \<open>validate_attribute_values\<close> and \<open>prepare_attribute_filter_value\<close> of
  \<open>service.py\<close>, and \<open>item_signature\<close> of \<open>normalization.py\<close>. Only migrations write the two
  definition tables, so they are a record of their own, an argument of the operations. An
  error is the code of the catalog exception.
\<close>

section \<open>Definitions\<close>

datatype attribute_data_type = DT_TEXT | DT_INTEGER | DT_DECIMAL | DT_BOOLEAN | DT_ENUM
datatype filter_type = FT_NONE | FT_EXACT | FT_RANGE

record category =
  cat_id :: uuid
  cat_key :: string
  cat_display_name :: string
  cat_parent_id :: "uuid option"
  cat_sort_order :: int

record category_attribute =
  at_id :: uuid
  at_category_id :: uuid
  at_key :: string
  at_data_type :: attribute_data_type
  at_required :: bool
  at_searchable :: bool
  at_filterable :: bool
  at_filter_type :: filter_type
  at_sort_order :: int
  at_allowed_values :: "json option"
  at_validation_metadata :: "(string \<times> json) list option"

record catalog_schema =
  cs_categories :: "category list"
  cs_attributes :: "category_attribute list"

text \<open>The product configuration: the leaf categories with their family and attributes. Labels and
  units are display texts and left out.\<close>

record leaf_attribute =
  la_key :: string
  la_required :: bool
  la_data_type :: attribute_data_type
  la_derived :: bool

definition text_attribute :: "string \<Rightarrow> leaf_attribute" where
  "text_attribute k = \<lparr> la_key = k, la_required = True, la_data_type = DT_TEXT, la_derived = False \<rparr>"

definition typed_attribute :: "string \<Rightarrow> attribute_data_type \<Rightarrow> leaf_attribute" where
  "typed_attribute k t = (text_attribute k)\<lparr>la_data_type := t\<rparr>"

definition TRANSCEIVER_ATTRIBUTES :: "leaf_attribute list" where
  "TRANSCEIVER_ATTRIBUTES =
     map text_attribute [''speed'', ''wavelength'', ''reach'', ''form_factor'', ''fiber'', ''connector''] @
     [(typed_attribute ''reach_m'' DT_INTEGER)\<lparr>la_derived := True\<rparr>]"

definition NETWORK_ATTRIBUTES :: "leaf_attribute list" where
  "NETWORK_ATTRIBUTES =
     [text_attribute ''interface'', typed_attribute ''ports'' DT_INTEGER, text_attribute ''speed'',
      text_attribute ''port_type'', text_attribute ''application'']"

definition DRIVE_ATTRIBUTES :: "leaf_attribute list" where
  "DRIVE_ATTRIBUTES = map text_attribute [''form_factor'', ''interface'', ''capacity'']"

definition LEAVES :: "(string \<times> string \<times> leaf_attribute list) list" where
  "LEAVES =
     [(''transceiver_ethernet'', ''transceivers'', TRANSCEIVER_ATTRIBUTES),
      (''transceiver_fc'', ''transceivers'', TRANSCEIVER_ATTRIBUTES),
      (''optical_patch_cord'', ''optics'',
        map text_attribute [''fiber'', ''fiber_category'', ''connector_a'', ''connector_b''] @
        [typed_attribute ''length_m'' DT_DECIMAL, text_attribute ''construction'',
         (text_attribute ''color'')\<lparr>la_required := False\<rparr>]),
      (''optical_splitter'', ''optics'',
        map text_attribute [''type'', ''configuration'', ''fiber'', ''wavelength'', ''connector'',
          ''split_ratio'', ''construction'']),
      (''ethernet_patch_cord'', ''copper_cabling'',
        map text_attribute [''cable_category'', ''connector_a'', ''connector_b''] @
        [typed_attribute ''length_m'' DT_DECIMAL, text_attribute ''shielding'', text_attribute ''color'']),
      (''network_ethernet'', ''network_adapters'', NETWORK_ATTRIBUTES),
      (''network_fc'', ''network_adapters'', NETWORK_ATTRIBUTES),
      (''ssd'', ''storage'',
        DRIVE_ATTRIBUTES @ map text_attribute [''interface_speed'', ''type'']),
      (''hdd'', ''storage'',
        DRIVE_ATTRIBUTES @ [text_attribute ''interface_speed'', typed_attribute ''rpm'' DT_INTEGER,
          text_attribute ''type'']),
      (''ram'', ''memory'',
        map text_attribute [''capacity'', ''type'', ''speed'', ''organization''] @
        [typed_attribute ''ecc'' DT_BOOLEAN]),
      (''pcie_adapter'', ''pcie'',
        map text_attribute [''interface'', ''ports'', ''application'', ''features'']),
      (''power_cable'', ''power'',
        map text_attribute [''type'', ''connector_a'', ''connector_b''] @
        [typed_attribute ''length_m'' DT_DECIMAL, text_attribute ''rating'', text_attribute ''color''])]"

definition MANUFACTURED_LEAVES :: "string list" where
  "MANUFACTURED_LEAVES =
     [''transceiver_ethernet'', ''transceiver_fc'', ''network_ethernet'', ''network_fc'', ''ssd'',
      ''hdd'', ''ram'', ''pcie_adapter'']"

section \<open>Text fields\<close>

definition catalog_inline_text :: "string \<Rightarrow> string \<Rightarrow> nat \<Rightarrow> string + string" where
  "catalog_inline_text v field max_length =
     (let normalized = normalize_idempotency_key v
      in if normalized = [] then Inl (field @ ''_required'')
         else if length normalized > max_length then Inl (field @ ''_too_long'')
         else Inr normalized)"

definition normalize_optional_inline_text :: "string option \<Rightarrow> string \<Rightarrow> nat \<Rightarrow> string + string option" where
  "normalize_optional_inline_text v field max_length =
     (case v of
        None \<Rightarrow> Inr None
      | Some s \<Rightarrow>
          (let normalized = normalize_idempotency_key s
           in if normalized = [] then Inr None
              else if length normalized > max_length then Inl (field @ ''_too_long'')
              else Inr (Some normalized)))"

definition normalize_comparison :: "string \<Rightarrow> string \<Rightarrow> nat \<Rightarrow> string + string" where
  "normalize_comparison v field max_length =
     (let normalized = comparison_text v
      in if length normalized > max_length then Inl (field @ ''_too_long'') else Inr normalized)"

definition normalize_category_key :: "string \<Rightarrow> string + string" where
  "normalize_category_key v =
     ebind (catalog_inline_text v ''category_key'' 64) (\<lambda>k. Inr (map casefold k))"

section \<open>Attribute values\<close>

text \<open>\<open>AttributeInputValue\<close>: a value of a request body, or one read back from the stored row when
  an item is edited, which is how a \<open>Decimal\<close> gets here. A float is kept as its \<open>repr\<close>.\<close>

datatype raw_value = RStr string | RInt int | RDecimal decimal | RFloat string | RBool bool

definition MAX_DECIMAL_SCALE :: int where "MAX_DECIMAL_SCALE = 10"
definition MAX_DECIMAL_INTEGRAL_DIGITS :: int where "MAX_DECIMAL_INTEGRAL_DIGITS = 20"
definition MAX_SAFE_INTEGER :: int where "MAX_SAFE_INTEGER = 2 ^ 53 - 1"
definition MIN_SAFE_INTEGER :: int where "MIN_SAFE_INTEGER = - (2 ^ 53 - 1)"

abbreviation schema_error :: string where "schema_error \<equiv> ''catalog_schema_invalid''"

definition metadata_of :: "category_attribute \<Rightarrow> (string \<times> json) list" where
  "metadata_of a = (case at_validation_metadata a of None \<Rightarrow> [] | Some kvs \<Rightarrow> kvs)"

definition numeric_metadata :: "category_attribute \<Rightarrow> string \<Rightarrow> string + decimal option" where
  "numeric_metadata a key =
     (case map_of (metadata_of a) key of
        None \<Rightarrow> Inr None
      | Some (JStr s) \<Rightarrow> (case parse_decimal s of None \<Rightarrow> Inl schema_error | Some v \<Rightarrow> Inr (Some v))
      | Some (JFloat s) \<Rightarrow> (case parse_decimal s of None \<Rightarrow> Inl schema_error | Some v \<Rightarrow> Inr (Some v))
      | Some (JInt i) \<Rightarrow> Inr (Some (dec_of_int i))
      | Some _ \<Rightarrow> Inl schema_error)"

definition validate_numeric_bounds :: "category_attribute \<Rightarrow> decimal \<Rightarrow> string + unit" where
  "validate_numeric_bounds a v =
     ebind (numeric_metadata a ''min'') (\<lambda>minimum.
     ebind (numeric_metadata a ''max'') (\<lambda>maximum.
     if \<exists>m\<in>set_option minimum. dec_less v m then Inl ''attribute_below_minimum''
     else if \<exists>m\<in>set_option maximum. dec_less m v then Inl ''attribute_above_maximum''
     else Inr ()))"

definition validate_decimal_storage :: "decimal \<Rightarrow> string + unit" where
  "validate_decimal_storage v =
     (let fractional_digits = max (- dec_exp v) 0;
          integer_digits = (if dec_coeff v = 0 then 0
             else max (int (length (nat_str (dec_coeff v))) + dec_exp v) 0)
      in if fractional_digits > MAX_DECIMAL_SCALE then Inl ''decimal_scale_exceeded''
         else if integer_digits > MAX_DECIMAL_INTEGRAL_DIGITS then Inl ''decimal_precision_exceeded''
         else Inr ())"

abbreviation type_mismatch :: string where "type_mismatch \<equiv> ''attribute_type_mismatch''"

definition blank_value :: "category_attribute \<Rightarrow> string + attribute_value option" where
  "blank_value a = (if at_required a then Inl ''required_attribute_missing'' else Inr None)"

definition prepare_text :: "category_attribute \<Rightarrow> string \<Rightarrow> string + attribute_value option" where
  "prepare_text a raw =
     ebind (case map_of (metadata_of a) ''preserve_whitespace'' of
              None \<Rightarrow> Inr False | Some (JBool b) \<Rightarrow> Inr b | Some _ \<Rightarrow> Inl schema_error) (\<lambda>preserve.
     let v = (if preserve then py_strip raw else normalize_idempotency_key raw)
     in if v = [] then blank_value a
        else case map_of (metadata_of a) ''max_length'' of
          None \<Rightarrow> Inr (Some (AText v))
        | Some JNull \<Rightarrow> Inr (Some (AText v))
        | Some (JInt m) \<Rightarrow>
            if int (length v) > m then Inl ''attribute_too_long'' else Inr (Some (AText v))
        | Some _ \<Rightarrow> Inl schema_error)"

definition prepare_integer :: "category_attribute \<Rightarrow> int \<Rightarrow> string + attribute_value option" where
  "prepare_integer a i =
     (if \<not> (MIN_SAFE_INTEGER \<le> i \<and> i \<le> MAX_SAFE_INTEGER) then Inl ''integer_out_of_range''
      else ebind (validate_numeric_bounds a (dec_of_int i)) (\<lambda>_. Inr (Some (AInteger i))))"

definition prepare_decimal :: "category_attribute \<Rightarrow> decimal \<Rightarrow> string + attribute_value option" where
  "prepare_decimal a v =
     ebind (validate_decimal_storage v) (\<lambda>_.
     ebind (validate_numeric_bounds a v) (\<lambda>_. Inr (Some (ADecimal v))))"

definition prepare_enum :: "category_attribute \<Rightarrow> string \<Rightarrow> string + attribute_value option" where
  "prepare_enum a raw =
     (let v = normalize_idempotency_key raw
      in if v = [] then blank_value a
         else case at_allowed_values a of
           Some (JList xs) \<Rightarrow>
             if xs = [] \<or> (\<exists>x\<in>set xs. case x of JStr s \<Rightarrow> False | _ \<Rightarrow> True) then Inl schema_error
             else if JStr v \<notin> set xs then Inl ''attribute_enum_invalid''
             else Inr (Some (AEnum v))
         | _ \<Rightarrow> Inl schema_error)"

definition prepare_attribute_value ::
    "category_attribute \<Rightarrow> raw_value \<Rightarrow> string + attribute_value option" where
  "prepare_attribute_value a raw =
     (case at_data_type a of
        DT_TEXT \<Rightarrow> (case raw of RStr s \<Rightarrow> prepare_text a s | _ \<Rightarrow> Inl type_mismatch)
      | DT_INTEGER \<Rightarrow> (case raw of RInt i \<Rightarrow> prepare_integer a i | _ \<Rightarrow> Inl type_mismatch)
      | DT_DECIMAL \<Rightarrow>
          (case raw of
             RDecimal v \<Rightarrow> prepare_decimal a v
           | RInt i \<Rightarrow> prepare_decimal a (dec_of_int i)
           | RStr s \<Rightarrow>
               if py_strip s = [] then blank_value a
               else (case parse_decimal s of None \<Rightarrow> Inl type_mismatch | Some v \<Rightarrow> prepare_decimal a v)
           | _ \<Rightarrow> Inl type_mismatch)
      | DT_BOOLEAN \<Rightarrow> (case raw of RBool b \<Rightarrow> Inr (Some (ABoolean b)) | _ \<Rightarrow> Inl type_mismatch)
      | DT_ENUM \<Rightarrow> (case raw of RStr s \<Rightarrow> prepare_enum a s | _ \<Rightarrow> Inl type_mismatch))"

text \<open>\<open>int\<close> refuses texts of more than 4300 digits.\<close>

definition parse_filter_integer :: "string \<Rightarrow> int option" where
  "parse_filter_integer s =
     (let (neg, digits) = split_sign (py_strip s)
      in if digits = [] \<or> \<not> list_all is_digit digits \<or> length digits > 4300 then None
         else Some (if neg then - int (digits_nat digits) else int (digits_nat digits)))"

definition prepare_attribute_filter_value ::
    "category_attribute \<Rightarrow> string \<Rightarrow> string + attribute_value" where
  "prepare_attribute_filter_value a raw =
     ebind (case at_data_type a of
              DT_INTEGER \<Rightarrow> (case parse_filter_integer raw of
                 None \<Rightarrow> Inl type_mismatch | Some i \<Rightarrow> Inr (RInt i))
            | DT_BOOLEAN \<Rightarrow>
                (let normalized = map casefold (py_strip raw)
                 in if normalized \<noteq> ''true'' \<and> normalized \<noteq> ''false'' then Inl type_mismatch
                    else Inr (RBool (normalized = ''true'')))
            | _ \<Rightarrow> Inr (RStr raw)) (\<lambda>candidate.
     ebind (prepare_attribute_value a candidate) (\<lambda>prepared.
     case prepared of None \<Rightarrow> Inl type_mismatch | Some v \<Rightarrow> Inr v))"

fun value_data_type :: "attribute_value \<Rightarrow> attribute_data_type" where
  "value_data_type (AText s) = DT_TEXT"
| "value_data_type (AInteger i) = DT_INTEGER"
| "value_data_type (ADecimal v) = DT_DECIMAL"
| "value_data_type (ABoolean b) = DT_BOOLEAN"
| "value_data_type (AEnum s) = DT_ENUM"

fun present :: "'a option list \<Rightarrow> 'a list" where
  "present [] = []"
| "present (None # xs) = present xs"
| "present (Some x # xs) = x # present xs"

definition by_key :: "category_attribute list \<Rightarrow> string \<Rightarrow> category_attribute option" where
  "by_key definitions = map_of (rev (map (\<lambda>a. (at_key a, a)) definitions))"

definition validate_attribute_values ::
    "uuid \<Rightarrow> category_attribute list \<Rightarrow> (string \<times> raw_value) list
       \<Rightarrow> string + (string \<times> attribute_value) list" where
  "validate_attribute_values category_id definitions supplied =
     (if \<exists>a\<in>set definitions. at_category_id a \<noteq> category_id then Inl ''cross_category_attribute''
      else if \<exists>k\<in>fst ` set supplied. by_key definitions k = None then Inl ''unknown_attribute''
      else if \<exists>a\<in>set definitions. at_required a \<and> at_key a \<notin> fst ` set supplied
      then Inl ''required_attribute_missing''
      else
        ebind (emap (\<lambda>(k, raw).
            case by_key definitions k of
              None \<Rightarrow> Inl ''unknown_attribute''
            | Some a \<Rightarrow> ebind (prepare_attribute_value a raw) (\<lambda>v. Inr (map_option (Pair k) v))) supplied)
          (\<lambda>vs. Inr (present vs)))"

section \<open>Signature\<close>

fun signature_value :: "attribute_value \<Rightarrow> json" where
  "signature_value (AText s) = JStr (identity_text s)"
| "signature_value (AEnum s) = JStr (identity_text s)"
| "signature_value (ADecimal v) = JStr (decimal_identity_text v)"
| "signature_value (AInteger i) = JInt i"
| "signature_value (ABoolean b) = JBool b"

definition or_empty :: "string option \<Rightarrow> string" where
  "or_empty s = (case s of None \<Rightarrow> [] | Some v \<Rightarrow> v)"

definition item_signature ::
    "(string \<Rightarrow> string) \<Rightarrow> string \<Rightarrow> string option \<Rightarrow> string option \<Rightarrow> (string \<times> attribute_value) list \<Rightarrow> string"
where
  "item_signature sha256 category_key manufacturer model attributes =
     canonical_fingerprint sha256 (JList
       [JStr category_key, JStr (identity_text (or_empty manufacturer)),
        JStr (identity_text (or_empty model)),
        JObj (map (\<lambda>(k, v). (k, signature_value v))
          (filter (\<lambda>(k, v). v \<noteq> AText [] \<and> v \<noteq> AEnum []) attributes))])"

section \<open>Values as JSON\<close>

fun value_json :: "attribute_value \<Rightarrow> json" where
  "value_json (AText s) = JStr s"
| "value_json (AEnum s) = JStr s"
| "value_json (ADecimal v) = JStr (dec_str v)"
| "value_json (AInteger i) = JInt i"
| "value_json (ABoolean b) = JBool b"

definition attributes_json :: "(string \<times> attribute_value) list \<Rightarrow> json" where
  "attributes_json kvs = JObj (map (\<lambda>(k, v). (k, value_json v)) kvs)"

fun raw_json :: "raw_value \<Rightarrow> json" where
  "raw_json (RStr s) = JStr s"
| "raw_json (RInt i) = JInt i"
| "raw_json (RDecimal v) = JStr (dec_str v)"
| "raw_json (RFloat r) = JFloat r"
| "raw_json (RBool b) = JBool b"

fun raw_str :: "raw_value \<Rightarrow> string" where
  "raw_str (RStr s) = s"
| "raw_str (RInt i) = int_str i"
| "raw_str (RDecimal v) = dec_str v"
| "raw_str (RFloat r) = r"
| "raw_str (RBool b) = (if b then ''True'' else ''False'')"

section \<open>Reading the definitions\<close>

definition get_category :: "catalog_schema \<Rightarrow> uuid \<Rightarrow> category option" where
  "get_category schema i = table_get cat_id i (cs_categories schema)"

definition category_by_key :: "catalog_schema \<Rightarrow> string \<Rightarrow> category option" where
  "category_by_key schema key = table_get cat_key key (cs_categories schema)"

definition get_category_by_key :: "catalog_schema \<Rightarrow> string \<Rightarrow> string + category" where
  "get_category_by_key schema key =
     ebind (normalize_category_key key) (\<lambda>k.
     ebind (ensure (CHR 0x00 \<notin> set k) ''22021'') (\<lambda>_.
     from_option ''catalog_not_found'' (category_by_key schema k)))"

definition get_category_attributes :: "catalog_schema \<Rightarrow> uuid \<Rightarrow> category_attribute list" where
  "get_category_attributes schema category_id =
     sort_key at_sort_order (sort_key at_key
       (filter (\<lambda>a. at_category_id a = category_id) (cs_attributes schema)))"

end
