(* ===== verification/Catalog_Db.thy ===== *)
theory Catalog_Db
  imports Catalog_Schema Projection
begin

text \<open>
  The database side of the catalog: the constraints of \<open>app/modules/catalog/models.py\<close> on items
  and their attribute values, and the trigger functions of the migrations that run when an item
  is written. Migration \<open>f8b9c0d1e2f3\<close> implements text normalisation, decimal identity and the
  identity signature a second time in SQL and compares the stored columns with them when the
  transaction ends; \<open>f7a8b9c0d1e2\<close> checks that required attributes are present, and
  \<open>c1d2e3f4a5b6\<close> that a value has the declared type. The rows of an item's values are kept in the
  item's row, keyed by the attribute's key.
\<close>

section \<open>Text and numbers in SQL\<close>

text \<open>The class \<open>[[:space:]]\<close> is the Unicode property \<open>White_Space\<close>, which leaves out the four
  separators 28 to 31 that Python's \<open>str.split\<close> splits at.\<close>

definition sql_space :: "char \<Rightarrow> bool" where
  "sql_space c =
     (let n = (of_char c :: nat) in (9 \<le> n \<and> n \<le> 13) \<or> n = 32 \<or> n = 133 \<or> n = 160)"

fun collapse_spaces :: "bool \<Rightarrow> string \<Rightarrow> string" where
  "collapse_spaces inside [] = []"
| "collapse_spaces inside (c # cs) =
     (if sql_space c
      then if inside then collapse_spaces True cs else CHR '' '' # collapse_spaces True cs
      else c # collapse_spaces False cs)"

definition catalog_normalize_comparison :: "string \<Rightarrow> string" where
  "catalog_normalize_comparison v = map casefold (btrim (collapse_spaces False v))"

definition catalog_identity_text :: "string \<Rightarrow> string" where
  "catalog_identity_text v = map casefold (btrim (collapse_spaces False (concat (map nfkc v))))"

text \<open>A value of type \<open>numeric(30, 10)\<close>: ten fractional digits, and no negative zero.\<close>

definition stored_decimal :: "decimal \<Rightarrow> decimal" where
  "stored_decimal v =
     Dec (dec_neg v \<and> dec_coeff v \<noteq> 0) (dec_coeff v * 10 ^ nat (dec_exp v + 10)) (- 10)"

function trim_scale :: "decimal \<Rightarrow> decimal" where
  "trim_scale (Dec neg c e) =
     (if e < 0 \<and> c mod 10 = 0 then trim_scale (Dec neg (c div 10) (e + 1)) else Dec neg c e)"
  by pat_completeness auto
termination
  by (relation "measure (\<lambda>v. nat (- dec_exp v))") auto

declare trim_scale.simps [simp del]

definition numeric_text :: "decimal \<Rightarrow> string" where
  "numeric_text v = dec_fixed (if dec_coeff v = 0 then Dec False 0 (dec_exp v) else v)"

definition catalog_decimal_identity :: "decimal \<Rightarrow> string" where
  "catalog_decimal_identity v = numeric_text (trim_scale v)"

section \<open>The signature in SQL\<close>

fun sql_attribute_json :: "attribute_value \<Rightarrow> string" where
  "sql_attribute_json (AText s) = json_string (catalog_identity_text s)"
| "sql_attribute_json (AInteger i) = int_str i"
| "sql_attribute_json (ADecimal v) = json_string (catalog_decimal_identity v)"
| "sql_attribute_json (ABoolean b) = (if b then ''true'' else ''false'')"
| "sql_attribute_json (AEnum s) = json_string (catalog_identity_text s)"

definition manufacturer_name :: "db \<Rightarrow> uuid option \<Rightarrow> string option" where
  "manufacturer_name d m =
     Option.bind m (\<lambda>i. map_option mf_name (table_get mf_id i (manufacturers d)))"

definition catalog_item_signature ::
    "catalog_schema \<Rightarrow> (string \<Rightarrow> string) \<Rightarrow> db \<Rightarrow> item \<Rightarrow> string option" where
  "catalog_item_signature schema sha256 d it =
     (case get_category schema (it_category_id it) of
        None \<Rightarrow> None
      | Some c \<Rightarrow> Some (sha256
          (''['' @ json_string (cat_key c) @ '','' @
           json_string (catalog_identity_text (or_empty (manufacturer_name d (it_manufacturer_id it)))) @
           '','' @ json_string (catalog_identity_text (or_empty (it_model it))) @ '',{'' @
           py_join '','' (map (\<lambda>(k, v). json_string k @ '':'' @ sql_attribute_json v)
              (sort_key fst (it_attributes it))) @ ''}]'')))"

definition assert_catalog_item_identity ::
    "catalog_schema \<Rightarrow> (string \<Rightarrow> string) \<Rightarrow> db \<Rightarrow> item \<Rightarrow> bool" where
  "assert_catalog_item_identity schema sha256 d it \<longleftrightarrow>
     it_normalized_name it = catalog_normalize_comparison (it_name it) \<and>
     it_normalized_model it = map_option catalog_normalize_comparison (it_model it) \<and>
     Some (it_identity_signature it) = catalog_item_signature schema sha256 d it"

section \<open>Row constraints\<close>

definition enforce_item_required_attributes :: "catalog_schema \<Rightarrow> item \<Rightarrow> bool" where
  "enforce_item_required_attributes schema it \<longleftrightarrow>
     (\<forall>a\<in>set (cs_attributes schema). at_category_id a = it_category_id it \<and> at_required a \<longrightarrow>
        at_key a \<in> fst ` set (it_attributes it))"

definition allows_enum :: "category_attribute \<Rightarrow> string \<Rightarrow> bool" where
  "allows_enum a s \<longleftrightarrow>
     (case at_allowed_values a of Some (JList xs) \<Rightarrow> JStr s \<in> set xs | _ \<Rightarrow> False)"

definition validate_item_attribute_value_data_type ::
    "category_attribute \<Rightarrow> attribute_value \<Rightarrow> bool" where
  "validate_item_attribute_value_data_type a v \<longleftrightarrow>
     value_data_type v = at_data_type a \<and> (case v of AEnum s \<Rightarrow> allows_enum a s | _ \<Rightarrow> True)"

fun attribute_value_checks :: "attribute_value \<Rightarrow> bool" where
  "attribute_value_checks (AText s) \<longleftrightarrow> btrim s \<noteq> []"
| "attribute_value_checks (AInteger i) \<longleftrightarrow> - (2 ^ 63) \<le> i \<and> i < 2 ^ 63"
| "attribute_value_checks (ADecimal v) \<longleftrightarrow> dec_coeff v * 10 ^ nat (dec_exp v + 10) < 10 ^ 30"
| "attribute_value_checks (ABoolean b) \<longleftrightarrow> True"
| "attribute_value_checks (AEnum s) \<longleftrightarrow> btrim s \<noteq> [] \<and> length s \<le> 255"

text \<open>The rows of one item: one per attribute, each of an attribute of the item's category.\<close>

definition attribute_rows_ok :: "catalog_schema \<Rightarrow> item \<Rightarrow> bool" where
  "attribute_rows_ok schema it \<longleftrightarrow>
     distinct (map fst (it_attributes it)) \<and>
     (\<forall>(k, v)\<in>set (it_attributes it). attribute_value_checks v \<and>
        (\<exists>a\<in>set (cs_attributes schema). at_category_id a = it_category_id it \<and> at_key a = k \<and>
           validate_item_attribute_value_data_type a v))"

definition item_checks :: "item \<Rightarrow> bool" where
  "item_checks it \<longleftrightarrow>
     btrim (it_name it) \<noteq> [] \<and> length (it_name it) \<le> 255 \<and>
     btrim (it_normalized_name it) \<noteq> [] \<and> length (it_normalized_name it) \<le> 255 \<and>
     (\<forall>m\<in>set_option (it_model it). length m \<le> 255) \<and>
     (\<forall>m\<in>set_option (it_normalized_model it). length m \<le> 255) \<and>
     length (it_identity_signature it) \<le> 64 \<and>
     (it_status it = ITEM_ACTIVE) = (it_archived_at it = None)"

definition item_references_ok :: "catalog_schema \<Rightarrow> db \<Rightarrow> item \<Rightarrow> bool" where
  "item_references_ok schema d it \<longleftrightarrow>
     it_category_id it \<in> cat_id ` set (cs_categories schema) \<and>
     (\<forall>m\<in>set_option (it_manufacturer_id it). m \<in> mf_id ` set (manufacturers d))"

text \<open>The texts that the statements for the row and for its values send.\<close>

definition item_texts :: "item \<Rightarrow> string list" where
  "item_texts it = [it_name it, it_normalized_name it] @ [or_empty (it_model it), or_empty (it_normalized_model it)]"

fun value_texts :: "attribute_value \<Rightarrow> string list" where
  "value_texts (AText s) = [s]"
| "value_texts (AEnum s) = [s]"
| "value_texts _ = []"

definition attribute_texts :: "(string \<times> attribute_value) list \<Rightarrow> string list" where
  "attribute_texts values = concat (map (value_texts \<circ> snd) values)"

definition item_write_checks ::
    "catalog_schema \<Rightarrow> (string \<Rightarrow> string) \<Rightarrow> db \<Rightarrow> item \<Rightarrow> db_error + unit" where
  "item_write_checks schema sha256 d it =
     ebind (ensure (item_checks it) (DbError ''23514'' ''items'')) (\<lambda>_.
     ebind (ensure (item_references_ok schema d it) (DbError ''23503'' ''items'')) (\<lambda>_.
     ebind (text_parameters (attribute_texts (it_attributes it))) (\<lambda>_.
     ebind (ensure (attribute_rows_ok schema it) (DbError ''23514'' ''item_attribute_values'')) (\<lambda>_.
     ebind (ensure (enforce_item_required_attributes schema it)
       (DbError ''23514'' ''item is missing required catalog attributes'')) (\<lambda>_.
     ensure (assert_catalog_item_identity schema sha256 d it)
       (DbError ''23514'' ''canonical identity''))))))"

definition insert_item ::
    "catalog_schema \<Rightarrow> (string \<Rightarrow> string) \<Rightarrow> db \<Rightarrow> item \<Rightarrow> db_error + db" where
  "insert_item schema sha256 d it =
     ebind (text_parameters (item_texts it)) (\<lambda>_.
     ebind (ensure (\<forall>x\<in>set (items d). it_id x \<noteq> it_id it \<and>
         it_identity_signature x \<noteq> it_identity_signature it)
       (DbError ''23505'' ''items'')) (\<lambda>_.
     ebind (item_write_checks schema sha256 d it) (\<lambda>_. Inr (d\<lparr>items := items d @ [it]\<rparr>))))"

definition save_item ::
    "catalog_schema \<Rightarrow> (string \<Rightarrow> string) \<Rightarrow> db \<Rightarrow> item \<Rightarrow> db_error + db" where
  "save_item schema sha256 d it =
     ebind (text_parameters (item_texts it)) (\<lambda>_.
     ebind (ensure (\<forall>x\<in>set (items d). it_id x = it_id it \<or>
         it_identity_signature x \<noteq> it_identity_signature it)
       (DbError ''23505'' ''items'')) (\<lambda>_.
     ebind (item_write_checks schema sha256 d it) (\<lambda>_.
     Inr (d\<lparr>items := table_update it_id (it_id it) (\<lambda>_. it) (items d)\<rparr>))))"

definition insert_manufacturer :: "db \<Rightarrow> manufacturer \<Rightarrow> db_error + db" where
  "insert_manufacturer d m =
     (if btrim (mf_name m) = [] \<or> btrim (mf_normalized_name m) = []
      then Inl (DbError ''23514'' ''manufacturers'')
      else if \<exists>x\<in>set (manufacturers d). mf_id x = mf_id m \<or> mf_normalized_name x = mf_normalized_name m
      then Inl (DbError ''23505'' ''manufacturers'')
      else Inr (d\<lparr>manufacturers := manufacturers d @ [m]\<rparr>))"

end
