(* ===== verification/Catalog.thy ===== *)
theory Catalog
  imports Catalog_Db
begin

text \<open>
  The catalog service \<open>app/modules/catalog/service.py\<close>: manufacturers and items are created, an
  item is edited, archived, restored and, while nothing refers to it, deleted. Creation and
  editing share \<open>prepare_identity\<close>, which checks a payload against the fixed schema and computes
  the identity signature under which an item is unique. Listing is paged. An error of the
  service is the code of its exception, an error of the database a \<open>DbError\<close>.
\<close>

section \<open>Payloads and records\<close>

record item_create =
  ic_category_key :: string
  ic_manufacturer_id :: "uuid option"
  ic_name :: string
  ic_model :: "string option"
  ic_attributes :: "(string \<times> raw_value) list"

text \<open>\<open>ItemPatch\<close> with \<open>fields_set\<close>: the outer option says whether the field was sent.\<close>

record item_patch =
  ip_category_key :: "string option option"
  ip_manufacturer_id :: "uuid option option"
  ip_name :: "string option option"
  ip_model :: "string option option"
  ip_attributes :: "(string \<times> raw_value) list option option"

record prepared_item_identity =
  pi_category :: category
  pi_manufacturer :: "manufacturer option"
  pi_attributes :: "(string \<times> attribute_value) list"
  pi_identity_signature :: string

record validated_item_draft =
  vd_category :: category
  vd_manufacturer :: "manufacturer option"
  vd_name :: string
  vd_model :: "string option"
  vd_attributes :: "(string \<times> attribute_value) list"
  vd_identity_signature :: string

record catalog_env =
  ce_schema :: catalog_schema
  ce_sha256 :: "string \<Rightarrow> string"

type_synonym 'a catalog_result = "(string + db_error) + 'a"

section \<open>Identity\<close>

text \<open>Python's \<open>==\<close> between a supplied value and an integer; a float is compared through its
  \<open>repr\<close>, which is exact below \<open>2 ^ 53\<close>.\<close>

fun raw_equals_int :: "raw_value \<Rightarrow> int \<Rightarrow> bool" where
  "raw_equals_int (RStr s) n = False"
| "raw_equals_int (RInt i) n = (i = n)"
| "raw_equals_int (RDecimal v) n = (\<not> dec_less v (dec_of_int n) \<and> \<not> dec_less (dec_of_int n) v)"
| "raw_equals_int (RFloat r) n =
     (case parse_decimal r of
        None \<Rightarrow> False
      | Some v \<Rightarrow> \<not> dec_less v (dec_of_int n) \<and> \<not> dec_less (dec_of_int n) v)"
| "raw_equals_int (RBool b) n = ((if b then 1 else 0) = n)"

definition is_transceiver :: "category \<Rightarrow> bool" where
  "is_transceiver c \<longleftrightarrow> take 12 (cat_key c) = ''transceiver_''"

definition derive_reach ::
    "category \<Rightarrow> (string \<times> raw_value) list \<Rightarrow> string + (string \<times> raw_value) list" where
  "derive_reach c attributes =
     (if \<not> is_transceiver c then Inr attributes
      else
        case normalize_reach (map code_point
            (case map_of attributes ''reach'' of None \<Rightarrow> [] | Some v \<Rightarrow> raw_str v)) of
          None \<Rightarrow> Inl ''reach_invalid''
        | Some derived \<Rightarrow>
            if \<exists>v\<in>set_option (map_of attributes ''reach_m''). \<not> raw_equals_int v (int derived)
            then Inl ''reach_mismatch''
            else Inr (AList.update ''reach_m'' (RInt (int derived)) attributes))"

definition find_manufacturer :: "db \<Rightarrow> uuid option \<Rightarrow> string + manufacturer option" where
  "find_manufacturer d m =
     (case m of
        None \<Rightarrow> Inr None
      | Some i \<Rightarrow>
          (case table_get mf_id i (manufacturers d) of
             None \<Rightarrow> Inl ''catalog_not_found''
           | Some x \<Rightarrow> Inr (Some x)))"

definition prepare_identity ::
    "catalog_env \<Rightarrow> db \<Rightarrow> item_create \<Rightarrow> string + prepared_item_identity" where
  "prepare_identity env d p =
     ebind (get_category_by_key (ce_schema env) (ic_category_key p)) (\<lambda>c.
     ebind (ensure (cat_parent_id c \<noteq> None \<and> cat_key c \<in> fst ` set LEAVES) ''leaf_category_required'') (\<lambda>_.
     ebind (find_manufacturer d (ic_manufacturer_id p)) (\<lambda>m.
     ebind (ensure (\<not> (cat_key c \<in> set MANUFACTURED_LEAVES \<and>
         (m = None \<or> py_strip (or_empty (ic_model p)) = []))) ''identity_required'') (\<lambda>_.
     ebind (derive_reach c (ic_attributes p)) (\<lambda>attributes.
     ebind (validate_attribute_values (cat_id c)
         (get_category_attributes (ce_schema env) (cat_id c)) attributes) (\<lambda>values.
     Inr \<lparr> pi_category = c, pi_manufacturer = m, pi_attributes = values,
           pi_identity_signature = item_signature (ce_sha256 env) (cat_key c)
             (map_option mf_name m) (ic_model p) values \<rparr>))))))"

definition validate_item :: "catalog_env \<Rightarrow> db \<Rightarrow> item_create \<Rightarrow> string + validated_item_draft" where
  "validate_item env d p =
     ebind (prepare_identity env d p) (\<lambda>prepared.
     ebind (catalog_inline_text (ic_name p) ''name'' 255) (\<lambda>name.
     ebind (normalize_optional_inline_text (ic_model p) ''model'' 255) (\<lambda>model.
     Inr \<lparr> vd_category = pi_category prepared, vd_manufacturer = pi_manufacturer prepared,
           vd_name = name, vd_model = model, vd_attributes = pi_attributes prepared,
           vd_identity_signature = pi_identity_signature prepared \<rparr>)))"

definition validate_item_create_payload ::
    "catalog_env \<Rightarrow> db \<Rightarrow> item_create \<Rightarrow> string + validated_item_draft" where
  "validate_item_create_payload env d p =
     ebind (normalize_category_key (ic_category_key p)) (\<lambda>_. validate_item env d p)"

section \<open>Manufacturers\<close>

definition create_manufacturer :: "db \<Rightarrow> uuid \<Rightarrow> string \<Rightarrow> (db \<times> manufacturer) catalog_result" where
  "create_manufacturer d new_id payload_name =
     ebind (relabel Inl (catalog_inline_text payload_name ''manufacturer_name'' 255)) (\<lambda>name.
     ebind (relabel Inl (normalize_comparison name ''manufacturer_name'' 255)) (\<lambda>normalized_name.
     ebind (relabel Inr (text_parameter normalized_name)) (\<lambda>_.
     ebind (ensure (\<forall>x\<in>set (manufacturers d). mf_normalized_name x \<noteq> normalized_name)
        (Inl ''catalog_conflict'')) (\<lambda>_.
     let m = \<lparr> mf_id = new_id, mf_name = name, mf_normalized_name = normalized_name \<rparr> in
     ebind (relabel Inr (insert_manufacturer d m)) (\<lambda>d'. Inr (d', m))))))"

section \<open>Items\<close>

fun stored_value :: "attribute_value \<Rightarrow> attribute_value" where
  "stored_value (ADecimal v) = ADecimal (stored_decimal v)"
| "stored_value v = v"

definition item_attribute_rows :: "(string \<times> attribute_value) list \<Rightarrow> (string \<times> attribute_value) list" where
  "item_attribute_rows values = map (\<lambda>(k, v). (k, stored_value v)) values"

definition create_item :: "catalog_env \<Rightarrow> uuid \<Rightarrow> db \<Rightarrow> item_create \<Rightarrow> (db \<times> uuid) catalog_result" where
  "create_item env new_id d p =
     ebind (relabel Inl (normalize_category_key (ic_category_key p))) (\<lambda>_.
     ebind (relabel Inl (prepare_identity env d p)) (\<lambda>prepared.
     ebind (relabel Inl (catalog_inline_text (ic_name p) ''name'' 255)) (\<lambda>name.
     ebind (relabel Inl (normalize_comparison (ic_name p) ''name'' 255)) (\<lambda>normalized_name.
     ebind (relabel Inl (normalize_optional_inline_text (ic_model p) ''model'' 255)) (\<lambda>model.
     ebind (if or_empty (ic_model p) = [] then Inr None
            else relabel Inl (ebind (normalize_comparison (or_empty (ic_model p)) ''model'' 255)
              (\<lambda>m. Inr (Some m)))) (\<lambda>normalized_model.
     let it = \<lparr> it_id = new_id, it_category_id = cat_id (pi_category prepared),
                it_manufacturer_id = ic_manufacturer_id p, it_name = name,
                it_normalized_name = normalized_name, it_model = model,
                it_normalized_model = normalized_model, it_status = ITEM_ACTIVE,
                it_identity_signature = pi_identity_signature prepared, it_archived_at = None,
                it_attributes = item_attribute_rows (pi_attributes prepared) \<rparr> in
     ebind (relabel Inr (insert_item (ce_schema env) (ce_sha256 env) d it)) (\<lambda>d'.
     Inr (d', new_id))))))))"

text \<open>Stored values are read back in the order of the definitions.\<close>

definition stored_attribute_value :: "category_attribute \<Rightarrow> attribute_value \<Rightarrow> string + attribute_value" where
  "stored_attribute_value a v = (if value_data_type v = at_data_type a then Inr v else Inl schema_error)"

definition load_attributes :: "catalog_schema \<Rightarrow> item \<Rightarrow> string + (string \<times> attribute_value) list" where
  "load_attributes schema it =
     emap (\<lambda>(a, v). ebind (stored_attribute_value a v) (\<lambda>w. Inr (at_key a, w)))
       (List.map_filter (\<lambda>a. map_option (Pair a) (map_of (it_attributes it) (at_key a)))
          (get_category_attributes schema (it_category_id it)))"

fun value_raw :: "attribute_value \<Rightarrow> raw_value" where
  "value_raw (AText s) = RStr s"
| "value_raw (AInteger i) = RInt i"
| "value_raw (ADecimal v) = RDecimal v"
| "value_raw (ABoolean b) = RBool b"
| "value_raw (AEnum s) = RStr s"

definition sent :: "'a option \<Rightarrow> 'a \<Rightarrow> 'a" where
  "sent field current = (case field of None \<Rightarrow> current | Some v \<Rightarrow> v)"

definition merge_patch ::
    "catalog_schema \<Rightarrow> item \<Rightarrow> item_patch \<Rightarrow> string + item_create" where
  "merge_patch schema it p =
     ebind (ensure (ip_category_key p = None) ''category_immutable'') (\<lambda>_.
     ebind (ensure (ip_name p \<noteq> Some None) ''name_required'') (\<lambda>_.
     ebind (load_attributes schema it) (\<lambda>current.
     ebind (from_option ''catalog_not_found'' (get_category schema (it_category_id it))) (\<lambda>c.
     ebind (case ip_attributes p of
              None \<Rightarrow> Inr (filter (\<lambda>(k, v). k \<noteq> ''reach_m'') (map (\<lambda>(k, v). (k, value_raw v)) current))
            | Some None \<Rightarrow> Inl ''attributes_required''
            | Some (Some kvs) \<Rightarrow> Inr kvs) (\<lambda>attributes.
     Inr \<lparr> ic_category_key = cat_key c,
           ic_manufacturer_id = sent (ip_manufacturer_id p) (it_manufacturer_id it),
           ic_name = or_empty (sent (ip_name p) (Some (it_name it))),
           ic_model = sent (ip_model p) (it_model it), ic_attributes = attributes \<rparr>)))))"

definition update_item ::
    "catalog_env \<Rightarrow> db \<Rightarrow> uuid \<Rightarrow> item_patch \<Rightarrow> (db \<times> uuid) catalog_result" where
  "update_item env d item_id p =
     ebind (from_option (Inl ''catalog_not_found'') (get_item d item_id)) (\<lambda>it.
     ebind (relabel Inl (merge_patch (ce_schema env) it p)) (\<lambda>merged.
     ebind (relabel Inl (prepare_identity env d merged)) (\<lambda>prepared.
     ebind (relabel Inl (catalog_inline_text (ic_name merged) ''name'' 255)) (\<lambda>name.
     ebind (relabel Inl (normalize_comparison name ''name'' 255)) (\<lambda>normalized_name.
     ebind (relabel Inl (normalize_optional_inline_text (ic_model merged) ''model'' 255)) (\<lambda>model.
     ebind (case model of None \<Rightarrow> Inr None
            | Some m \<Rightarrow> relabel Inl (ebind (normalize_comparison m ''model'' 255) (\<lambda>n. Inr (Some n))))
       (\<lambda>normalized_model.
     let it' = it\<lparr>it_name := name, it_normalized_name := normalized_name, it_model := model,
                  it_normalized_model := normalized_model,
                  it_manufacturer_id := ic_manufacturer_id merged,
                  it_identity_signature := pi_identity_signature prepared,
                  it_attributes := item_attribute_rows (pi_attributes prepared)\<rparr> in
     ebind (relabel Inr (save_item (ce_schema env) (ce_sha256 env) d it')) (\<lambda>d'.
     Inr (d', item_id)))))))))"

definition set_item_archived ::
    "catalog_env \<Rightarrow> db \<Rightarrow> uuid \<Rightarrow> bool \<Rightarrow> timestamp \<Rightarrow> (db \<times> uuid) catalog_result" where
  "set_item_archived env d item_id archived now =
     ebind (from_option (Inl ''catalog_not_found'') (get_item d item_id)) (\<lambda>it.
     let target_status = (if archived then ITEM_ARCHIVED else ITEM_ACTIVE) in
     if it_status it = target_status then Inr (d, item_id)
     else
       ebind (relabel Inr (save_item (ce_schema env) (ce_sha256 env) d
          (it\<lparr>it_status := target_status,
              it_archived_at := (if archived then Some now else None)\<rparr>))) (\<lambda>d'.
       Inr (d', item_id)))"

definition delete_unused_item :: "db \<Rightarrow> uuid \<Rightarrow> db catalog_result" where
  "delete_unused_item d item_id =
     (case get_item d item_id of
        None \<Rightarrow> Inl (Inl ''catalog_not_found'')
      | Some it \<Rightarrow>
          if (\<exists>l\<in>set (movement_lines d). ml_item_id l = item_id) \<or>
             (\<exists>b\<in>set (stock_balances d). sb_item_id b = item_id) \<or>
             (\<exists>b\<in>set (user_item_custody_balances d). cb_item_id b = item_id) \<or>
             (\<exists>l\<in>set (procurement_revision_lines d). rl_catalog_item_id l = Some item_id) \<or>
             (\<exists>b\<in>set (procurement_line_catalog_bindings d). bd_item_id b = item_id)
          then Inl (Inl ''catalog_item_in_use'')
          else Inr (d\<lparr>items := table_del it_id item_id (items d)\<rparr>))"

definition check_duplicate_candidates ::
    "catalog_env \<Rightarrow> db \<Rightarrow> item_create \<Rightarrow> uuid option \<Rightarrow> string + item list" where
  "check_duplicate_candidates env d p exclude_item_id =
     ebind (normalize_category_key (ic_category_key p)) (\<lambda>_.
     ebind (prepare_identity env d p) (\<lambda>prepared.
     Inr (filter (\<lambda>it. it_identity_signature it = pi_identity_signature prepared \<and>
         Some (it_id it) \<noteq> exclude_item_id) (items d))))"

section \<open>Listing\<close>

definition page :: "nat \<Rightarrow> nat \<Rightarrow> 'a list \<Rightarrow> 'a list" where
  "page limit offset rows = take limit (drop offset rows)"

fun is_prefix :: "string \<Rightarrow> string \<Rightarrow> bool" where
  "is_prefix [] s = True"
| "is_prefix (c # cs) [] = False"
| "is_prefix (c # cs) (x # xs) = (c = x \<and> is_prefix cs xs)"

fun contains :: "string \<Rightarrow> string \<Rightarrow> bool" where
  "contains s [] = (s = [])"
| "contains s (x # xs) = (is_prefix s (x # xs) \<or> contains s xs)"

definition list_manufacturers ::
    "db \<Rightarrow> string option \<Rightarrow> nat \<Rightarrow> nat \<Rightarrow> string + manufacturer list \<times> nat" where
  "list_manufacturers d query limit offset =
     ebind (if py_strip (or_empty query) = [] then Inr (manufacturers d)
            else ebind (normalize_comparison (or_empty query) ''manufacturer_query'' 255)
              (\<lambda>q. Inr (filter (\<lambda>m. contains q (mf_normalized_name m)) (manufacturers d)))) (\<lambda>rows.
     Inr (page limit offset (sort_key mf_normalized_name (sort_key mf_id rows)), length rows))"

definition get_item_record :: "catalog_schema \<Rightarrow> db \<Rightarrow> uuid
    \<Rightarrow> string + item \<times> (string \<times> attribute_value) list" where
  "get_item_record schema d item_id =
     ebind (from_option ''catalog_not_found'' (get_item d item_id)) (\<lambda>it.
     ebind (load_attributes schema it) (\<lambda>attributes. Inr (it, attributes)))"

definition list_items ::
    "catalog_schema \<Rightarrow> db \<Rightarrow> string option \<Rightarrow> item_status \<Rightarrow> nat \<Rightarrow> nat
       \<Rightarrow> string + (item \<times> (string \<times> attribute_value) list) list \<times> nat" where
  "list_items schema d category_key status limit offset =
     ebind (case category_key of None \<Rightarrow> Inr None
            | Some k \<Rightarrow> ebind (get_category_by_key schema k) (\<lambda>c. Inr (Some (cat_id c)))) (\<lambda>category_id.
     let rows = filter (\<lambda>it. it_status it = status \<and>
           (\<forall>c\<in>set_option category_id. it_category_id it = c)) (items d) in
     ebind (emap (\<lambda>it. ebind (load_attributes schema it) (\<lambda>attributes. Inr (it, attributes)))
        (page limit offset (sort_key it_normalized_name (sort_key it_id rows)))) (\<lambda>records.
     Inr (records, length rows)))"

end
