(* ===== verification/Procurement.thy ===== *)
theory Procurement
  imports Procurement_Notify Inventory Catalog
begin

text \<open>
  The procurement service \<open>app/modules/procurement/service.py\<close> with its state machine
  (\<open>state_machine.py\<close>) and request schemas: a request is created by an initiator for a
  manager, agreed or returned for correction, purchased, handed over for acceptance, its
  proposed lines are bound to catalog items, and acceptance books one warehouse receipt.
  Every mutation names the state version and revision it was made against and an
  idempotency key; every accepted mutation appends exactly one event. Identifiers, the
  clock, the number sequence, the digest and the catalog schema are collected in an
  environment record.
\<close>

section \<open>Errors, payloads, environment\<close>

datatype procurement_error =
    ProcurementValidationError string
  | ProcurementNotFoundError string
  | ProcurementConflictError string
  | ProcurementForbiddenError string
  | ProcurementCatalogError string
  | ProcurementInventoryError inventory_error
  | ProcurementOutboxError outbox_error
  | ProcurementRuntimeError
  | ProcurementDbError string string

abbreviation forbidden :: procurement_error where
  "forbidden \<equiv> ProcurementForbiddenError ''procurement_forbidden''"

fun procurement_db_error :: "db_error \<Rightarrow> procurement_error" where
  "procurement_db_error (DbError sqlstate msg) = ProcurementDbError sqlstate msg"

fun catalog_failure :: "string + db_error \<Rightarrow> procurement_error" where
  "catalog_failure (Inl code) = ProcurementCatalogError code"
| "catalog_failure (Inr e) = procurement_db_error e"

datatype procurement_line_create =
    ExistingItemLineCreate uuid int
  | ProposedItemLineCreate item_create int

record procurement_request_create =
  prc_assigned_manager_user_id :: uuid
  prc_general_comment :: "string option"
  prc_client_request_id :: string
  prc_lines :: "procurement_line_create list"

record expected_state_mutation =
  em_expected_state_version :: int
  em_expected_revision_id :: uuid
  em_client_request_id :: string

record correction_request = expected_state_mutation +
  cq_comment :: string
  cq_alternative_proposal :: "procurement_line_create list option"

record revision_create = expected_state_mutation +
  rc_general_comment :: "string option"
  rc_lines :: "procurement_line_create list"

record assignment_mutation = expected_state_mutation +
  am_expected_assigned_manager_user_id :: uuid

record manager_transfer = assignment_mutation +
  mt_manager_user_id :: uuid

record line_binding_create = expected_state_mutation +
  lb_item_id :: uuid
  lb_line_id :: uuid

record proposed_item_create_and_bind = expected_state_mutation +
  pb_line_id :: uuid
  pb_item :: item_create

record discrepancy_create = expected_state_mutation +
  dc_comment :: string

record procurement_acceptance_create = expected_state_mutation +
  pa_receiving_location_id :: uuid

record procurement_env =
  pe_sha256 :: "string \<Rightarrow> string"
  pe_schema :: catalog_schema
  pe_item_id :: uuid
  pe_deep_link :: "uuid \<Rightarrow> string option"
  pe_now :: timestamp
  pe_year :: string
  pe_sequence :: nat
  pe_request_id :: uuid
  pe_revision_id :: uuid
  pe_event_id :: uuid
  pe_movement_id :: uuid
  pe_line_id :: "nat \<Rightarrow> uuid"
  pe_outbox_id :: "nat \<Rightarrow> uuid"

definition pe_catalog :: "procurement_env \<Rightarrow> catalog_env" where
  "pe_catalog env = \<lparr> ce_schema = pe_schema env, ce_sha256 = pe_sha256 env \<rparr>"

record procurement_record =
  prr_request :: procurement_request
  prr_revisions :: "procurement_revision list"
  prr_events :: "procurement_event list"

section \<open>Serialised payloads\<close>

definition jopt_str :: "string option \<Rightarrow> json" where
  "jopt_str s = (case s of None \<Rightarrow> JNull | Some v \<Rightarrow> JStr v)"

definition raw_attributes_json :: "(string \<times> raw_value) list \<Rightarrow> json" where
  "raw_attributes_json kvs = JObj (map (\<lambda>(k, v). (k, raw_json v)) kvs)"

fun line_create_json :: "procurement_line_create \<Rightarrow> json" where
  "line_create_json (ExistingItemLineCreate i q) =
     JObj [(''line_type'', JStr ''EXISTING_ITEM''), (''item_id'', JStr (uuid_str i)),
           (''quantity'', JInt q)]"
| "line_create_json (ProposedItemLineCreate c q) =
     JObj [(''line_type'', JStr ''PROPOSED_ITEM''), (''category_key'', JStr (ic_category_key c)),
           (''manufacturer_id'', jopt_uuid (ic_manufacturer_id c)), (''name'', JStr (ic_name c)),
           (''model'', jopt_str (ic_model c)), (''attributes'', raw_attributes_json (ic_attributes c)),
           (''quantity'', JInt q)]"

definition request_create_json :: "procurement_request_create \<Rightarrow> json" where
  "request_create_json p =
     JObj [(''assigned_manager_user_id'', JStr (uuid_str (prc_assigned_manager_user_id p))),
           (''general_comment'', jopt_str (prc_general_comment p)),
           (''client_request_id'', JStr (prc_client_request_id p)),
           (''lines'', JList (map line_create_json (prc_lines p)))]"

definition mutation_fields :: "'a expected_state_mutation_scheme \<Rightarrow> (string \<times> json) list" where
  "mutation_fields p =
     [(''expected_state_version'', JInt (em_expected_state_version p)),
      (''expected_revision_id'', JStr (uuid_str (em_expected_revision_id p))),
      (''client_request_id'', JStr (em_client_request_id p))]"

definition mutation_json :: "expected_state_mutation \<Rightarrow> json" where
  "mutation_json p = JObj (mutation_fields p)"

definition correction_json :: "correction_request \<Rightarrow> json" where
  "correction_json p = JObj (mutation_fields p @
     [(''comment'', JStr (cq_comment p)),
      (''alternative_proposal'', case cq_alternative_proposal p of None \<Rightarrow> JNull
         | Some ls \<Rightarrow> JList (map line_create_json ls))])"

definition revision_json :: "revision_create \<Rightarrow> json" where
  "revision_json p = JObj (mutation_fields p @
     [(''general_comment'', jopt_str (rc_general_comment p)),
      (''lines'', JList (map line_create_json (rc_lines p)))])"

definition assignment_fields :: "'a assignment_mutation_scheme \<Rightarrow> (string \<times> json) list" where
  "assignment_fields p = mutation_fields p @
     [(''expected_assigned_manager_user_id'',
        JStr (uuid_str (am_expected_assigned_manager_user_id p)))]"

definition assignment_json :: "assignment_mutation \<Rightarrow> json" where
  "assignment_json p = JObj (assignment_fields p)"

definition transfer_json :: "manager_transfer \<Rightarrow> json" where
  "transfer_json p = JObj (assignment_fields p @
     [(''manager_user_id'', JStr (uuid_str (mt_manager_user_id p)))])"

definition binding_json :: "line_binding_create \<Rightarrow> json" where
  "binding_json p = JObj (mutation_fields p @
     [(''item_id'', JStr (uuid_str (lb_item_id p))), (''line_id'', JStr (uuid_str (lb_line_id p)))])"

definition item_create_json :: "item_create \<Rightarrow> json" where
  "item_create_json c = JObj [(''category_key'', JStr (ic_category_key c)),
     (''manufacturer_id'', jopt_uuid (ic_manufacturer_id c)), (''name'', JStr (ic_name c)),
     (''model'', jopt_str (ic_model c)), (''attributes'', raw_attributes_json (ic_attributes c))]"

definition create_and_bind_json :: "proposed_item_create_and_bind \<Rightarrow> json" where
  "create_and_bind_json p = JObj (mutation_fields p @
     [(''line_id'', JStr (uuid_str (pb_line_id p))), (''item'', item_create_json (pb_item p))])"

definition discrepancy_json :: "discrepancy_create \<Rightarrow> json" where
  "discrepancy_json p = JObj (mutation_fields p @ [(''comment'', JStr (dc_comment p))])"

definition acceptance_json :: "procurement_acceptance_create \<Rightarrow> json" where
  "acceptance_json p = JObj (mutation_fields p @
     [(''receiving_location_id'', JStr (uuid_str (pa_receiving_location_id p)))])"

section \<open>State machine\<close>

fun ALLOWED_TRANSITIONS :: "procurement_status \<Rightarrow> procurement_status list" where
  "ALLOWED_TRANSITIONS AGREEMENT_PENDING_MANAGER = [AGREEMENT_REVISION_REQUIRED, PURCHASING]"
| "ALLOWED_TRANSITIONS AGREEMENT_REVISION_REQUIRED = [AGREEMENT_PENDING_MANAGER]"
| "ALLOWED_TRANSITIONS PURCHASING = [AWAITING_ACCEPTANCE]"
| "ALLOWED_TRANSITIONS AWAITING_ACCEPTANCE = [AGREEMENT_REVISION_REQUIRED, COMPLETED]"
| "ALLOWED_TRANSITIONS COMPLETED = []"

definition transition_allowed :: "procurement_status \<Rightarrow> procurement_status \<Rightarrow> bool" where
  "transition_allowed current target \<longleftrightarrow> target \<in> set (ALLOWED_TRANSITIONS current)"

definition ACTIVE_PROCUREMENT_STATUSES :: "procurement_status list" where
  "ACTIVE_PROCUREMENT_STATUSES =
     [AGREEMENT_PENDING_MANAGER, AGREEMENT_REVISION_REQUIRED, PURCHASING, AWAITING_ACCEPTANCE]"

section \<open>Text fields and people\<close>

definition normalize_client_request_id :: "string \<Rightarrow> procurement_error + string" where
  "normalize_client_request_id v =
     (let normalized = normalize_idempotency_key v
      in if normalized = [] then Inl (ProcurementValidationError ''client_request_id_required'')
         else if length normalized > 128
         then Inl (ProcurementValidationError ''client_request_id_too_long'')
         else Inr normalized)"

definition normalize_comment :: "string option \<Rightarrow> bool \<Rightarrow> procurement_error + string option" where
  "normalize_comment v required =
     (case v of
        None \<Rightarrow> if required then Inl (ProcurementValidationError ''comment_required'') else Inr None
      | Some s \<Rightarrow>
          (let normalized = py_strip s
           in if normalized = []
              then if required then Inl (ProcurementValidationError ''comment_required'') else Inr None
              else Inr (Some normalized)))"

definition opt_text :: "string option \<Rightarrow> string list" where
  "opt_text v = (case v of None \<Rightarrow> [] | Some s \<Rightarrow> if s = [] then [] else [s])"

definition display_name :: "telegram_identity option \<Rightarrow> uuid \<Rightarrow> string" where
  "display_name identity user_id =
     (case identity of
        None \<Rightarrow> uuid_str user_id
      | Some t \<Rightarrow>
          (let name = py_strip (py_join '' ''
                 (opt_text (Some (ti_first_name t)) @ opt_text (ti_last_name t)))
           in case opt_text (ti_username t) of
                u # _ \<Rightarrow> if name \<noteq> [] then name @ '' (@'' @ u @ '')'' else CHR ''@'' # u
              | [] \<Rightarrow> if name \<noteq> [] then name else uuid_str user_id))"

definition actor_snapshot :: "db \<Rightarrow> uuid \<Rightarrow> string" where
  "actor_snapshot d user_id = display_name (get_identity d user_id) user_id"

definition validate_manager :: "db \<Rightarrow> uuid \<Rightarrow> procurement_error + user" where
  "validate_manager d user_id =
     (case get_user d user_id of
        None \<Rightarrow> Inl (ProcurementNotFoundError ''manager_not_found'')
      | Some m \<Rightarrow> if u_role m \<noteq> MANAGER \<or> u_access_status m \<noteq> APPROVED
                  then Inl (ProcurementValidationError ''manager_not_active'') else Inr m)"

definition lock_and_require_actor_capabilities ::
    "db \<Rightarrow> uuid \<Rightarrow> capability list \<Rightarrow> procurement_error + unit" where
  "lock_and_require_actor_capabilities d actor_user_id capabilities =
     (case get_user d actor_user_id of
        None \<Rightarrow> Inl forbidden
      | Some actor \<Rightarrow>
          if u_access_status actor \<noteq> APPROVED \<or>
             (\<exists>c\<in>set capabilities. \<not> has_capability (u_role actor) c)
          then Inl forbidden else Inr ())"

section \<open>Lines\<close>

definition MAX_AGGREGATED_ITEM_QUANTITY :: int where
  "MAX_AGGREGATED_ITEM_QUANTITY = 2 ^ 53 - 1"

definition binding_of :: "db \<Rightarrow> procurement_revision_line \<Rightarrow> uuid option" where
  "binding_of d line =
     map_option bd_item_id
       (table_get bd_revision_line_id (rl_id line) (procurement_line_catalog_bindings d))"

definition bound_item_id ::
    "(procurement_revision_line \<Rightarrow> uuid option) \<Rightarrow> procurement_revision_line \<Rightarrow> uuid option" where
  "bound_item_id binding line =
     (case rl_catalog_item_id line of Some i \<Rightarrow> Some i | None \<Rightarrow> binding line)"

definition dict_get :: "(uuid \<times> int) list \<Rightarrow> uuid \<Rightarrow> int" where
  "dict_get q i = (case map_of q i of None \<Rightarrow> 0 | Some v \<Rightarrow> v)"

definition add_quantity ::
    "(procurement_revision_line \<Rightarrow> uuid option) \<Rightarrow> procurement_revision_line \<Rightarrow> (uuid \<times> int) list
       \<Rightarrow> procurement_error + (uuid \<times> int) list" where
  "add_quantity item_of line quantities =
     (case item_of line of
        None \<Rightarrow> Inr quantities
      | Some i \<Rightarrow>
          (let quantity = dict_get quantities i + rl_quantity line
           in if quantity > MAX_AGGREGATED_ITEM_QUANTITY
              then Inl (ProcurementValidationError ''aggregated_item_quantity_too_large'')
              else Inr (AList.update i quantity quantities)))"

definition validate_aggregated_item_quantities ::
    "(procurement_revision_line \<Rightarrow> uuid option) \<Rightarrow> procurement_revision_line list
       \<Rightarrow> procurement_error + (uuid \<times> int) list" where
  "validate_aggregated_item_quantities item_of lines = efold (add_quantity item_of) lines []"

definition opt_manufacturer_fields :: "manufacturer option \<Rightarrow> (string \<times> json) list" where
  "opt_manufacturer_fields m =
     [(''manufacturer_id'', jopt_uuid (map_option mf_id m)),
      (''manufacturer_name'', jopt_str (map_option mf_name m))]"

definition snapshot_json ::
    "category \<Rightarrow> manufacturer option \<Rightarrow> string \<Rightarrow> string option \<Rightarrow> (string \<times> attribute_value) list \<Rightarrow> json"
where
  "snapshot_json c m name model attributes =
     JObj ([(''category_key'', JStr (cat_key c)), (''category_name'', JStr (cat_display_name c))] @
       opt_manufacturer_fields m @
       [(''name'', JStr name), (''model'', jopt_str model), (''attributes'', attributes_json attributes)])"

definition item_snapshot :: "procurement_env \<Rightarrow> db \<Rightarrow> item \<Rightarrow> procurement_error + json" where
  "item_snapshot env d it =
     ebind (relabel ProcurementCatalogError (load_attributes (pe_schema env) it)) (\<lambda>attributes.
     ebind (from_option ProcurementRuntimeError (get_category (pe_schema env) (it_category_id it))) (\<lambda>c.
     Inr (snapshot_json c
       (Option.bind (it_manufacturer_id it) (\<lambda>i. table_get mf_id i (manufacturers d)))
       (it_name it) (it_model it) attributes)))"

definition draft_snapshot :: "validated_item_draft \<Rightarrow> json" where
  "draft_snapshot v =
     snapshot_json (vd_category v) (vd_manufacturer v) (vd_name v) (vd_model v) (vd_attributes v)"

fun prepare_line ::
    "procurement_env \<Rightarrow> db \<Rightarrow> uuid \<Rightarrow> nat \<times> procurement_line_create
       \<Rightarrow> procurement_error + procurement_revision_line" where
  "prepare_line env d revision_id (line_no, ExistingItemLineCreate item_id quantity) =
     (case get_item d item_id of
        None \<Rightarrow> Inl (ProcurementConflictError ''catalog_item_not_found'')
      | Some it \<Rightarrow>
          if it_status it \<noteq> ITEM_ACTIVE then Inl (ProcurementConflictError ''catalog_item_archived'')
          else ebind (item_snapshot env d it) (\<lambda>snapshot.
            Inr \<lparr> rl_id = pe_line_id env line_no, rl_revision_id = revision_id,
                  rl_line_no = int line_no, rl_line_type = EXISTING_ITEM,
                  rl_catalog_item_id = Some (it_id it), rl_display_snapshot = snapshot,
                  rl_expected_identity_signature = it_identity_signature it,
                  rl_quantity = quantity \<rparr>))"
| "prepare_line env d revision_id (line_no, ProposedItemLineCreate draft quantity) =
     (case validate_item (pe_catalog env) d draft of
        Inl code \<Rightarrow> Inl (ProcurementCatalogError code)
      | Inr v \<Rightarrow>
          Inr \<lparr> rl_id = pe_line_id env line_no, rl_revision_id = revision_id,
                rl_line_no = int line_no, rl_line_type = PROPOSED_ITEM,
                rl_catalog_item_id = None, rl_display_snapshot = draft_snapshot v,
                rl_expected_identity_signature = vd_identity_signature v,
                rl_quantity = quantity \<rparr>)"

fun proposed_draft :: "procurement_line_create \<Rightarrow> item_create option" where
  "proposed_draft (ExistingItemLineCreate i q) = None"
| "proposed_draft (ProposedItemLineCreate c q) = Some c"

fun existing_item :: "procurement_line_create \<Rightarrow> uuid option" where
  "existing_item (ExistingItemLineCreate i q) = Some i"
| "existing_item (ProposedItemLineCreate c q) = None"

definition prepare_lines ::
    "procurement_env \<Rightarrow> db \<Rightarrow> procurement_line_create list \<Rightarrow> uuid
       \<Rightarrow> procurement_error + procurement_revision_line list" where
  "prepare_lines env d payloads revision_id =
     ebind (emap (\<lambda>it. relabel ProcurementCatalogError (load_attributes (pe_schema env) it))
        (List.map_filter (get_item d) (List.map_filter existing_item payloads))) (\<lambda>_.
     ebind (emap (\<lambda>c. relabel ProcurementCatalogError (normalize_category_key (ic_category_key c)))
        (List.map_filter proposed_draft payloads)) (\<lambda>_.
     ebind (emap (prepare_line env d revision_id) (enumerate 1 payloads)) (\<lambda>rows.
     ebind (validate_aggregated_item_quantities (bound_item_id (\<lambda>_. None)) rows) (\<lambda>_.
     Inr rows))))"

section \<open>Loading a request\<close>

definition revisions_of :: "db \<Rightarrow> uuid \<Rightarrow> procurement_revision list" where
  "revisions_of d request_id =
     sort_key rv_revision_number
       (filter (\<lambda>v. rv_request_id v = request_id) (procurement_revisions d))"

definition revision_lines :: "db \<Rightarrow> uuid \<Rightarrow> procurement_revision_line list" where
  "revision_lines d revision_id =
     sort_key rl_line_no
       (filter (\<lambda>l. rl_revision_id l = revision_id) (procurement_revision_lines d))"

definition events_of :: "db \<Rightarrow> uuid \<Rightarrow> procurement_event list" where
  "events_of d request_id =
     filter (\<lambda>e. ev_request_id e = request_id) (procurement_events d)"

definition get_request_record :: "db \<Rightarrow> uuid \<Rightarrow> procurement_error + procurement_record" where
  "get_request_record d request_id =
     (case get_request d request_id of
        None \<Rightarrow> Inl (ProcurementNotFoundError ''procurement_not_found'')
      | Some r \<Rightarrow> Inr \<lparr> prr_request = r, prr_revisions = revisions_of d request_id,
                        prr_events = events_of d request_id \<rparr>)"

definition current_revision :: "procurement_record \<Rightarrow> procurement_error + procurement_revision" where
  "current_revision record =
     from_option ProcurementRuntimeError
       (table_get rv_id (pr_current_revision_id (prr_request record)) (prr_revisions record))"

definition current_lines ::
    "db \<Rightarrow> procurement_record \<Rightarrow> procurement_error + procurement_revision_line list" where
  "current_lines d record =
     ebind (current_revision record) (\<lambda>v. Inr (revision_lines d (rv_id v)))"

section \<open>Events\<close>

definition procurement_event_row ::
    "procurement_env \<Rightarrow> uuid \<Rightarrow> procurement_event_type \<Rightarrow> uuid \<Rightarrow> string \<Rightarrow> string \<Rightarrow> string
       \<Rightarrow> procurement_status option \<Rightarrow> procurement_status option \<Rightarrow> uuid option \<Rightarrow> string option
       \<Rightarrow> json option \<Rightarrow> procurement_event" where
  "procurement_event_row env request_id event_type actor_user_id snapshot key fingerprint
       from_status to_status revision_id comment metadata =
     \<lparr> ev_id = pe_event_id env, ev_request_id = request_id, ev_event_type = event_type,
       ev_actor_user_id = actor_user_id, ev_actor_display_name_snapshot = snapshot,
       ev_client_request_id = key, ev_request_fingerprint = fingerprint,
       ev_from_status = from_status, ev_to_status = to_status, ev_revision_id = revision_id,
       ev_comment = comment, ev_metadata = metadata \<rparr>"

definition add_event :: "db \<Rightarrow> procurement_event \<Rightarrow> procurement_error + db" where
  "add_event d e = relabel procurement_db_error (insert_event d e)"

definition write_request :: "db \<Rightarrow> procurement_request \<Rightarrow> procurement_error + db" where
  "write_request d r = relabel procurement_db_error (save_request d r)"

definition announce ::
    "procurement_env \<Rightarrow> db \<Rightarrow> procurement_request \<Rightarrow> string \<Rightarrow> procurement_revision_line list \<Rightarrow> uuid set
       \<Rightarrow> procurement_error + db" where
  "announce env d r action lines recipients =
     relabel ProcurementOutboxError
       (enqueue_procurement_notifications (pe_sha256 env) (pe_deep_link env) (pe_outbox_id env)
          (pe_now env) d (pr_id r) (pr_request_number r) (pe_event_id env) action lines recipients)"

definition result :: "db \<Rightarrow> uuid \<Rightarrow> procurement_error + db \<times> procurement_record" where
  "result d request_id = ebind (get_request_record d request_id) (\<lambda>record. Inr (d, record))"

section \<open>Creation\<close>

definition zero_padded :: "nat \<Rightarrow> string \<Rightarrow> string" where
  "zero_padded width s = replicate (width - length s) (CHR ''0'') @ s"

definition next_request_number :: "procurement_env \<Rightarrow> string" where
  "next_request_number env =
     ''PR-'' @ pe_year env @ ''-'' @ zero_padded 6 (nat_str (pe_sequence env))"

definition create_request ::
    "procurement_env \<Rightarrow> db \<Rightarrow> procurement_request_create \<Rightarrow> uuid
       \<Rightarrow> procurement_error + db \<times> procurement_record" where
  "create_request env d p actor =
     ebind (lock_and_require_actor_capabilities d actor [PROCUREMENT_CREATE]) (\<lambda>_.
     ebind (normalize_client_request_id (prc_client_request_id p)) (\<lambda>request_key.
     let fingerprint = canonical_fingerprint (pe_sha256 env) (request_create_json p) in
     case find (\<lambda>r. pr_initiator_user_id r = actor \<and>
                  pr_creation_client_request_id r = request_key) (procurement_requests d) of
       Some existing \<Rightarrow>
         if pr_request_fingerprint existing \<noteq> fingerprint
         then Inl (ProcurementConflictError ''idempotency_payload_conflict'')
         else result d (pr_id existing)
     | None \<Rightarrow>
     ebind (validate_manager d (prc_assigned_manager_user_id p)) (\<lambda>_.
     ebind (prepare_lines env d (prc_lines p) (pe_revision_id env)) (\<lambda>lines.
     ebind (normalize_comment (prc_general_comment p) False) (\<lambda>comment.
     let request = \<lparr> pr_id = pe_request_id env, pr_request_number = next_request_number env,
           pr_status = AGREEMENT_PENDING_MANAGER, pr_initiator_user_id = actor,
           pr_assigned_manager_user_id = prc_assigned_manager_user_id p,
           pr_creation_client_request_id = request_key, pr_request_fingerprint = fingerprint,
           pr_current_revision_id = pe_revision_id env, pr_final_movement_id = None,
           pr_state_version = 1, pr_completed_at = None \<rparr>;
         revision = \<lparr> rv_id = pe_revision_id env, rv_request_id = pe_request_id env,
           rv_revision_number = 1, rv_submitted_by_user_id = actor,
           rv_submitted_by_display_name_snapshot = actor_snapshot d actor,
           rv_general_comment = comment, rv_line_count = int (length lines) \<rparr>
     in
     ebind (relabel procurement_db_error (insert_request d request)) (\<lambda>d1.
     ebind (relabel procurement_db_error (insert_revision d1 revision)) (\<lambda>d2.
     ebind (relabel procurement_db_error (efold insert_revision_line lines d2)) (\<lambda>d3.
     ebind (add_event d3 (procurement_event_row env (pr_id request) REQUEST_CREATED actor
        (actor_snapshot d actor) request_key fingerprint None (Some (pr_status request))
        (Some (rv_id revision)) None None)) (\<lambda>d4.
     ebind (announce env d4 request action_created lines {pr_assigned_manager_user_id request}) (\<lambda>d5.
     result d5 (pr_id request)))))))))))"

section \<open>Mutations\<close>

definition lock_and_validate_expected ::
    "procurement_env \<Rightarrow> db \<Rightarrow> uuid \<Rightarrow> 'a expected_state_mutation_scheme \<Rightarrow> json \<Rightarrow> uuid
       \<Rightarrow> procurement_event_type
       \<Rightarrow> procurement_error + procurement_record \<times> string \<times> string \<times> procurement_event option" where
  "lock_and_validate_expected env d request_id p payload actor event_type =
     ebind (get_request_record d request_id) (\<lambda>record.
     ebind (normalize_client_request_id (em_client_request_id p)) (\<lambda>key.
     let fingerprint = canonical_fingerprint (pe_sha256 env) payload in
     case find (\<lambda>e. ev_request_id e = request_id \<and> ev_actor_user_id e = actor \<and>
                  ev_client_request_id e = key) (procurement_events d) of
       Some previous \<Rightarrow>
         if ev_event_type previous \<noteq> event_type
         then Inl (ProcurementConflictError ''idempotency_action_conflict'')
         else if ev_request_fingerprint previous \<noteq> fingerprint
         then Inl (ProcurementConflictError ''idempotency_payload_conflict'')
         else Inr (record, key, fingerprint, Some previous)
     | None \<Rightarrow>
         if pr_state_version (prr_request record) \<noteq> em_expected_state_version p \<or>
            pr_current_revision_id (prr_request record) \<noteq> em_expected_revision_id p
         then Inl (ProcurementConflictError ''stale_state'')
         else Inr (record, key, fingerprint, None)))"

text \<open>The common opening of the mutations: validation, capabilities, replay.\<close>

definition mutation ::
    "procurement_env \<Rightarrow> db \<Rightarrow> uuid \<Rightarrow> 'a expected_state_mutation_scheme \<Rightarrow> json \<Rightarrow> uuid
       \<Rightarrow> procurement_event_type \<Rightarrow> capability list
       \<Rightarrow> (procurement_record \<Rightarrow> string \<Rightarrow> string \<Rightarrow> procurement_error + db \<times> procurement_record)
       \<Rightarrow> procurement_error + db \<times> procurement_record" where
  "mutation env d request_id p payload actor event_type capabilities body =
     ebind (lock_and_validate_expected env d request_id p payload actor event_type)
       (\<lambda>(record, key, fingerprint, replay).
     ebind (lock_and_require_actor_capabilities d actor capabilities) (\<lambda>_.
     case replay of Some _ \<Rightarrow> Inr (d, record) | None \<Rightarrow> body record key fingerprint))"

definition require_status ::
    "procurement_request \<Rightarrow> procurement_status list \<Rightarrow> procurement_error + unit" where
  "require_status r expected =
     ensure (pr_status r \<in> set expected) (ProcurementConflictError ''invalid_transition'')"

definition set_status ::
    "procurement_request \<Rightarrow> procurement_status \<Rightarrow> procurement_error + procurement_request" where
  "set_status r target =
     (if \<not> transition_allowed (pr_status r) target
      then Inl (ProcurementConflictError ''invalid_transition'')
      else Inr (r\<lparr>pr_status := target, pr_state_version := pr_state_version r + 1\<rparr>))"

definition bump_version :: "procurement_request \<Rightarrow> procurement_request" where
  "bump_version r = r\<lparr>pr_state_version := pr_state_version r + 1\<rparr>"

definition manager_accept ::
    "procurement_env \<Rightarrow> db \<Rightarrow> uuid \<Rightarrow> expected_state_mutation \<Rightarrow> uuid
       \<Rightarrow> procurement_error + db \<times> procurement_record" where
  "manager_accept env d request_id p actor =
     mutation env d request_id p (mutation_json p) actor MANAGER_ACCEPTED [PROCUREMENT_MANAGE]
       (\<lambda>record key fingerprint.
     let r = prr_request record in
     ebind (set_status r PURCHASING) (\<lambda>r'.
     ebind (write_request d r') (\<lambda>d1.
     ebind (add_event d1 (procurement_event_row env request_id MANAGER_ACCEPTED actor
        (actor_snapshot d actor) key fingerprint (Some (pr_status r)) (Some (pr_status r'))
        (Some (pr_current_revision_id r')) None None)) (\<lambda>d2.
     result d2 request_id))))"

fun line_type_value :: "procurement_line_type \<Rightarrow> string" where
  "line_type_value EXISTING_ITEM = ''EXISTING_ITEM''"
| "line_type_value PROPOSED_ITEM = ''PROPOSED_ITEM''"

definition proposal_metadata :: "procurement_revision_line list \<Rightarrow> json" where
  "proposal_metadata lines =
     JObj [(''alternative_proposal'', JList (map (\<lambda>line. JObj
       [(''line_type'', JStr (line_type_value (rl_line_type line))),
        (''quantity'', JInt (rl_quantity line)),
        (''catalog_item_id'', jopt_uuid (rl_catalog_item_id line)),
        (''display_snapshot'', rl_display_snapshot line)]) lines))]"

definition return_for_correction ::
    "procurement_env \<Rightarrow> db \<Rightarrow> uuid \<Rightarrow> correction_request \<Rightarrow> uuid
       \<Rightarrow> procurement_error + db \<times> procurement_record" where
  "return_for_correction env d request_id p actor =
     mutation env d request_id p (correction_json p) actor CORRECTION_REQUESTED [PROCUREMENT_MANAGE]
       (\<lambda>record key fingerprint.
     let r = prr_request record in
     ebind (require_status r [AGREEMENT_PENDING_MANAGER, AWAITING_ACCEPTANCE]) (\<lambda>_.
     ebind (case cq_alternative_proposal p of
              None \<Rightarrow> Inr []
            | Some ls \<Rightarrow> if ls = [] then Inr [] else prepare_lines env d ls (pe_revision_id env))
       (\<lambda>proposal.
     ebind (set_status r AGREEMENT_REVISION_REQUIRED) (\<lambda>r'.
     ebind (write_request d r') (\<lambda>d1.
     ebind (normalize_comment (Some (cq_comment p)) True) (\<lambda>comment.
     ebind (add_event d1 (procurement_event_row env request_id CORRECTION_REQUESTED actor
        (actor_snapshot d actor) key fingerprint (Some (pr_status r)) (Some (pr_status r'))
        (Some (pr_current_revision_id r')) comment
        (if proposal = [] then None else Some (proposal_metadata proposal)))) (\<lambda>d2.
     ebind (current_lines d record) (\<lambda>lines.
     ebind (announce env d2 r' action_correction lines {pr_initiator_user_id r'}) (\<lambda>d3.
     result d3 request_id)))))))))"

definition submit_revision ::
    "procurement_env \<Rightarrow> db \<Rightarrow> uuid \<Rightarrow> revision_create \<Rightarrow> uuid
       \<Rightarrow> procurement_error + db \<times> procurement_record" where
  "submit_revision env d request_id p actor =
     mutation env d request_id p (revision_json p) actor REVISION_SUBMITTED [PROCUREMENT_CREATE]
       (\<lambda>record key fingerprint.
     let r = prr_request record in
     ebind (ensure (pr_initiator_user_id r = actor) forbidden) (\<lambda>_.
     ebind (require_status r [AGREEMENT_REVISION_REQUIRED]) (\<lambda>_.
     ebind (prepare_lines env d (rc_lines p) (pe_revision_id env)) (\<lambda>lines.
     ebind (ensure (prr_revisions record \<noteq> []) ProcurementRuntimeError) (\<lambda>_.
     ebind (normalize_comment (rc_general_comment p) False) (\<lambda>comment.
     let number = Max (rv_revision_number ` set (prr_revisions record)) + 1;
         revision = \<lparr> rv_id = pe_revision_id env, rv_request_id = request_id,
           rv_revision_number = number, rv_submitted_by_user_id = actor,
           rv_submitted_by_display_name_snapshot = actor_snapshot d actor,
           rv_general_comment = comment, rv_line_count = int (length lines) \<rparr>
     in
     ebind (relabel procurement_db_error (insert_revision d revision)) (\<lambda>d1.
     ebind (relabel procurement_db_error (efold insert_revision_line lines d1)) (\<lambda>d2.
     ebind (set_status r AGREEMENT_PENDING_MANAGER) (\<lambda>r1.
     let r' = r1\<lparr>pr_current_revision_id := rv_id revision\<rparr> in
     ebind (write_request d2 r') (\<lambda>d3.
     ebind (add_event d3 (procurement_event_row env request_id REVISION_SUBMITTED actor
        (actor_snapshot d actor) key fingerprint (Some (pr_status r)) (Some (pr_status r'))
        (Some (rv_id revision)) None None)) (\<lambda>d4.
     ebind (announce env d4 r' (action_revision @ int_str number @ ''.'') lines
        {pr_assigned_manager_user_id r'}) (\<lambda>d5.
     result d5 request_id))))))))))))"

definition change_assignment ::
    "procurement_env \<Rightarrow> db \<Rightarrow> uuid \<Rightarrow> 'a assignment_mutation_scheme \<Rightarrow> json \<Rightarrow> uuid \<Rightarrow> uuid
       \<Rightarrow> procurement_event_type \<Rightarrow> procurement_error + db \<times> procurement_record" where
  "change_assignment env d request_id p payload actor target event_type =
     mutation env d request_id p payload actor event_type [PROCUREMENT_MANAGE]
       (\<lambda>record key fingerprint.
     let r = prr_request record in
     ebind (ensure (pr_status r \<in> set ACTIVE_PROCUREMENT_STATUSES)
        (ProcurementConflictError ''procurement_conflict'')) (\<lambda>_.
     ebind (ensure (pr_assigned_manager_user_id r = am_expected_assigned_manager_user_id p)
        (ProcurementConflictError ''stale_assignment'')) (\<lambda>_.
     ebind (validate_manager d target) (\<lambda>_.
     ebind (ensure (pr_assigned_manager_user_id r \<noteq> target)
        (ProcurementConflictError ''assignment_unchanged'')) (\<lambda>_.
     let r' = bump_version (r\<lparr>pr_assigned_manager_user_id := target\<rparr>) in
     ebind (write_request d r') (\<lambda>d1.
     ebind (add_event d1 (procurement_event_row env request_id event_type actor
        (actor_snapshot d actor) key fingerprint None None (Some (pr_current_revision_id r')) None
        (Some (JObj [(''from_manager_user_id'', JStr (uuid_str (pr_assigned_manager_user_id r))),
                     (''to_manager_user_id'', JStr (uuid_str target))])))) (\<lambda>d2.
     ebind (current_lines d record) (\<lambda>lines.
     ebind (announce env d2 r' action_assigned lines {target}) (\<lambda>d3.
     result d3 request_id)))))))))"

definition take_ownership ::
    "procurement_env \<Rightarrow> db \<Rightarrow> uuid \<Rightarrow> assignment_mutation \<Rightarrow> uuid
       \<Rightarrow> procurement_error + db \<times> procurement_record" where
  "take_ownership env d request_id p actor =
     change_assignment env d request_id p (assignment_json p) actor actor ASSIGNMENT_TAKEN"

definition transfer_manager ::
    "procurement_env \<Rightarrow> db \<Rightarrow> uuid \<Rightarrow> manager_transfer \<Rightarrow> uuid
       \<Rightarrow> procurement_error + db \<times> procurement_record" where
  "transfer_manager env d request_id p actor =
     change_assignment env d request_id p (transfer_json p) actor (mt_manager_user_id p)
       ASSIGNMENT_TRANSFERRED"

definition transfer_to_acceptance ::
    "procurement_env \<Rightarrow> db \<Rightarrow> uuid \<Rightarrow> expected_state_mutation \<Rightarrow> uuid
       \<Rightarrow> procurement_error + db \<times> procurement_record" where
  "transfer_to_acceptance env d request_id p actor =
     mutation env d request_id p (mutation_json p) actor TRANSFERRED_TO_ACCEPTANCE
       [PROCUREMENT_MANAGE] (\<lambda>record key fingerprint.
     let r = prr_request record in
     ebind (set_status r AWAITING_ACCEPTANCE) (\<lambda>r'.
     ebind (write_request d r') (\<lambda>d1.
     ebind (add_event d1 (procurement_event_row env request_id TRANSFERRED_TO_ACCEPTANCE actor
        (actor_snapshot d actor) key fingerprint (Some (pr_status r)) (Some (pr_status r'))
        (Some (pr_current_revision_id r')) None None)) (\<lambda>d2.
     ebind (current_lines d record) (\<lambda>lines.
     ebind (announce env d2 r' action_acceptance lines (technical_recipient_user_ids d2)) (\<lambda>d3.
     result d3 request_id))))))"

section \<open>Binding of proposed lines\<close>

definition find_proposed_line ::
    "db \<Rightarrow> procurement_record \<Rightarrow> uuid \<Rightarrow> procurement_error + procurement_revision_line" where
  "find_proposed_line d record line_id =
     ebind (ensure (pr_status (prr_request record) \<noteq> COMPLETED)
        (ProcurementConflictError ''procurement_conflict'')) (\<lambda>_.
     ebind (current_lines d record) (\<lambda>lines.
     case find (\<lambda>l. rl_id l = line_id) lines of
       None \<Rightarrow> Inl (ProcurementNotFoundError ''line_not_found'')
     | Some line \<Rightarrow>
         if rl_line_type line \<noteq> PROPOSED_ITEM
         then Inl (ProcurementValidationError ''procurement_validation_error'')
         else if binding_of d line \<noteq> None
         then Inl (ProcurementConflictError ''line_already_bound'')
         else Inr line))"

definition pending_item ::
    "db \<Rightarrow> uuid \<Rightarrow> uuid \<Rightarrow> procurement_revision_line \<Rightarrow> uuid option" where
  "pending_item d pending_line_id pending_item_id line =
     (if rl_id line = pending_line_id then Some pending_item_id
      else bound_item_id (binding_of d) line)"

definition bind_line ::
    "procurement_env \<Rightarrow> db \<Rightarrow> uuid \<Rightarrow> line_binding_create \<Rightarrow> uuid
       \<Rightarrow> procurement_error + db \<times> procurement_record" where
  "bind_line env d request_id p actor =
     mutation env d request_id p (binding_json p) actor LINE_BOUND [PROCUREMENT_ACCEPT]
       (\<lambda>record key fingerprint.
     let r = prr_request record in
     ebind (find_proposed_line d record (lb_line_id p)) (\<lambda>line.
     case get_item d (lb_item_id p) of
       None \<Rightarrow> Inl (ProcurementNotFoundError ''catalog_item_not_found'')
     | Some it \<Rightarrow>
     ebind (ensure (it_status it = ITEM_ACTIVE) (ProcurementConflictError ''catalog_item_archived'')) (\<lambda>_.
     ebind (ensure (it_identity_signature it = rl_expected_identity_signature line)
        (ProcurementConflictError ''item_identity_mismatch'')) (\<lambda>_.
     ebind (current_lines d record) (\<lambda>lines.
     ebind (validate_aggregated_item_quantities (pending_item d (rl_id line) (it_id it)) lines) (\<lambda>_.
     ebind (relabel procurement_db_error (insert_binding d
        \<lparr> bd_revision_line_id = rl_id line, bd_item_id = it_id it, bd_bound_by_user_id = actor \<rparr>))
        (\<lambda>d1.
     let r' = bump_version r in
     ebind (write_request d1 r') (\<lambda>d2.
     ebind (add_event d2 (procurement_event_row env request_id LINE_BOUND actor
        (actor_snapshot d actor) key fingerprint None None (Some (pr_current_revision_id r')) None
        (Some (JObj [(''line_id'', JStr (uuid_str (rl_id line))),
                     (''item_id'', JStr (uuid_str (it_id it)))])))) (\<lambda>d3.
     result d3 request_id)))))))))"

definition create_and_bind_line ::
    "procurement_env \<Rightarrow> db \<Rightarrow> uuid \<Rightarrow> proposed_item_create_and_bind \<Rightarrow> uuid
       \<Rightarrow> procurement_error + db \<times> procurement_record" where
  "create_and_bind_line env d request_id p actor =
     mutation env d request_id p (create_and_bind_json p) actor LINE_BOUND
       [PROCUREMENT_ACCEPT, CATALOG_MANAGE] (\<lambda>record key fingerprint.
     let r = prr_request record in
     ebind (find_proposed_line d record (pb_line_id p)) (\<lambda>line.
     ebind (relabel ProcurementCatalogError
        (validate_item_create_payload (pe_catalog env) d (pb_item p))) (\<lambda>v.
     ebind (ensure (vd_identity_signature v = rl_expected_identity_signature line)
        (ProcurementConflictError ''item_identity_mismatch'')) (\<lambda>_.
     ebind (relabel catalog_failure
        (create_item (pe_catalog env) (pe_item_id env) d (pb_item p))) (\<lambda>(d1, item_id).
     ebind (relabel procurement_db_error (insert_binding d1
        \<lparr> bd_revision_line_id = rl_id line, bd_item_id = item_id, bd_bound_by_user_id = actor \<rparr>))
        (\<lambda>d2.
     let r' = bump_version r in
     ebind (write_request d2 r') (\<lambda>d3.
     ebind (add_event d3 (procurement_event_row env request_id LINE_BOUND actor
        (actor_snapshot d actor) key fingerprint None None (Some (pr_current_revision_id r')) None
        (Some (JObj [(''line_id'', JStr (uuid_str (rl_id line))),
                     (''item_id'', JStr (uuid_str item_id)), (''item_created'', JBool True)]))))
        (\<lambda>d4.
     result d4 request_id))))))))"

section \<open>Acceptance\<close>

definition report_discrepancy ::
    "procurement_env \<Rightarrow> db \<Rightarrow> uuid \<Rightarrow> discrepancy_create \<Rightarrow> uuid
       \<Rightarrow> procurement_error + db \<times> procurement_record" where
  "report_discrepancy env d request_id p actor =
     mutation env d request_id p (discrepancy_json p) actor DISCREPANCY_REPORTED
       [PROCUREMENT_ACCEPT] (\<lambda>record key fingerprint.
     let r = prr_request record in
     ebind (require_status r [AWAITING_ACCEPTANCE]) (\<lambda>_.
     let r' = bump_version r in
     ebind (write_request d r') (\<lambda>d1.
     ebind (normalize_comment (Some (dc_comment p)) True) (\<lambda>comment.
     ebind (add_event d1 (procurement_event_row env request_id DISCREPANCY_REPORTED actor
        (actor_snapshot d actor) key fingerprint None None (Some (pr_current_revision_id r'))
        comment None)) (\<lambda>d2.
     ebind (current_lines d record) (\<lambda>lines.
     ebind (announce env d2 r' action_discrepancy lines {pr_assigned_manager_user_id r'}) (\<lambda>d3.
     result d3 request_id)))))))"

definition check_acceptance_line ::
    "db \<Rightarrow> procurement_revision_line \<Rightarrow> procurement_error + unit" where
  "check_acceptance_line d line =
     (case bound_item_id (binding_of d) line of
        None \<Rightarrow> Inr ()
      | Some i \<Rightarrow>
          (case get_item d i of
             None \<Rightarrow> Inl (ProcurementConflictError ''catalog_item_not_found'')
           | Some it \<Rightarrow>
               if it_status it \<noteq> ITEM_ACTIVE
               then Inl (ProcurementConflictError ''catalog_item_archived'')
               else if it_identity_signature it \<noteq> rl_expected_identity_signature line
               then Inl (ProcurementConflictError ''item_identity_mismatch'')
               else Inr ()))"

definition check_acceptance_lines ::
    "db \<Rightarrow> procurement_revision_line list \<Rightarrow> procurement_error + unit" where
  "check_acceptance_lines d lines =
     (let item_ids = List.map_filter (bound_item_id (binding_of d)) lines in
      if \<exists>i\<in>set item_ids. get_item d i = None
      then Inl (ProcurementConflictError ''catalog_item_not_found'')
      else
        ebind (emap (check_acceptance_line d) lines) (\<lambda>_.
        ensure (\<forall>l\<in>set lines. bound_item_id (binding_of d) l \<noteq> None)
          (ProcurementConflictError ''unbound_procurement_line'')))"

definition receipt_payload :: "uuid \<Rightarrow> uuid \<Rightarrow> (uuid \<times> int) list \<Rightarrow> movement_create" where
  "receipt_payload request_id receiving_location_id quantities =
     \<lparr> mc_movement_type = RECEIPT, mc_source_location_id = None,
       mc_destination_location_id = Some receiving_location_id, mc_original_movement_id = None,
       mc_client_request_id = ''procurement:'' @ uuid_str request_id,
       mc_lines = map (\<lambda>(item_id, quantity). \<lparr> lc_item_id = item_id, lc_quantity = quantity \<rparr>)
         (sort_key fst quantities) \<rparr>"

definition acceptance_participants :: "procurement_record \<Rightarrow> uuid set" where
  "acceptance_participants record =
     {pr_initiator_user_id (prr_request record), pr_assigned_manager_user_id (prr_request record)} \<union>
     ev_actor_user_id ` set (filter (\<lambda>e. ev_event_type e \<in>
        {MANAGER_ACCEPTED, CORRECTION_REQUESTED, ASSIGNMENT_TAKEN, ASSIGNMENT_TRANSFERRED,
         TRANSFERRED_TO_ACCEPTANCE}) (prr_events record))"

definition complete_acceptance ::
    "procurement_env \<Rightarrow> db \<Rightarrow> uuid \<Rightarrow> procurement_acceptance_create \<Rightarrow> uuid
       \<Rightarrow> procurement_error + db \<times> procurement_record" where
  "complete_acceptance env d request_id p actor =
     mutation env d request_id p (acceptance_json p) actor EV_COMPLETED [PROCUREMENT_ACCEPT]
       (\<lambda>record key fingerprint.
     let r = prr_request record in
     ebind (require_status r [AWAITING_ACCEPTANCE]) (\<lambda>_.
     ebind (current_lines d record) (\<lambda>lines.
     ebind (check_acceptance_lines d lines) (\<lambda>_.
     ebind (validate_aggregated_item_quantities (bound_item_id (binding_of d)) lines) (\<lambda>quantities.
     ebind (relabel ProcurementInventoryError (create_movement (pe_sha256 env) d (pe_movement_id env)
        (pe_now env) (receipt_payload request_id (pa_receiving_location_id p) quantities) actor
        (actor_snapshot d actor) None)) (\<lambda>(d1, movement).
     if res_replayed movement then Inl (ProcurementConflictError ''receipt_already_exists'')
     else
     let movement_id = mv_id (rec_movement (res_record movement)) in
     ebind (set_status r COMPLETED) (\<lambda>r1.
     let r' = r1\<lparr>pr_final_movement_id := Some movement_id, pr_completed_at := Some (pe_now env)\<rparr> in
     ebind (write_request d1 r') (\<lambda>d2.
     ebind (add_event d2 (procurement_event_row env request_id EV_COMPLETED actor
        (actor_snapshot d actor) key fingerprint (Some (pr_status r)) (Some (pr_status r'))
        (Some (pr_current_revision_id r')) None
        (Some (JObj [(''movement_id'', JStr (uuid_str movement_id)),
          (''receiving_location_id'', JStr (uuid_str (pa_receiving_location_id p)))])))) (\<lambda>d3.
     ebind (announce env d3 r' action_completed lines (acceptance_participants record)) (\<lambda>d4.
     result d4 request_id))))))))))"

section \<open>Actions offered to a user\<close>

definition available_actions :: "db \<Rightarrow> procurement_record \<Rightarrow> user \<Rightarrow> procurement_error + string list" where
  "available_actions d record actor =
     (let r = prr_request record;
          manage = (if has_capability (u_role actor) PROCUREMENT_MANAGE \<and>
                       pr_status r \<in> set ACTIVE_PROCUREMENT_STATUSES
                    then (if pr_assigned_manager_user_id r \<noteq> u_id actor then [''take_ownership''] else []) @
                         [''transfer_manager''] @
                         (if pr_status r = AGREEMENT_PENDING_MANAGER
                          then [''manager_accept'', ''return_for_correction'']
                          else if pr_status r = PURCHASING then [''transfer_to_acceptance'']
                          else if pr_status r = AWAITING_ACCEPTANCE then [''return_for_correction'']
                          else [])
                    else []);
          create = (if has_capability (u_role actor) PROCUREMENT_CREATE \<and>
                       u_id actor = pr_initiator_user_id r \<and>
                       pr_status r = AGREEMENT_REVISION_REQUIRED
                    then [''submit_revision''] else [])
      in if \<not> has_capability (u_role actor) PROCUREMENT_ACCEPT then Inr (manage @ create)
         else
           ebind (if pr_status r = COMPLETED then Inr []
                  else ebind (current_lines d record) (\<lambda>lines.
                    Inr (if \<exists>l\<in>set lines. rl_line_type l = PROPOSED_ITEM \<and> binding_of d l = None
                         then [''bind_lines''] else []))) (\<lambda>bind.
           Inr (manage @ create @ bind @
             (if pr_status r = AWAITING_ACCEPTANCE
              then [''report_discrepancy'', ''complete_acceptance''] else []))))"

end
