(* ===== verification/Catalog_Identity.thy ===== *)
theory Catalog_Identity
  imports Catalog
begin

text \<open>
  Python and SQL compute the same identity. The functions of migration \<open>f8b9c0d1e2f3\<close> are shown
  equal to their Python counterparts of \<open>service.py\<close> and \<open>normalization.py\<close>: on texts without the
  four control separators, which only Python treats as white space, and on decimals as the
  \<open>numeric(30, 10)\<close> column stores them.
\<close>

section \<open>Text\<close>

definition no_separators :: "string \<Rightarrow> bool" where
  "no_separators s \<longleftrightarrow> (\<forall>c\<in>set s. \<not> (28 \<le> (of_char c :: nat) \<and> (of_char c :: nat) \<le> 31))"

lemma sql_space_iff: "no_separators s \<Longrightarrow> c \<in> set s \<Longrightarrow> sql_space c = is_space c"
proof -
  assume "no_separators s" "c \<in> set s"
  then have "\<not> (28 \<le> (of_char c :: nat) \<and> (of_char c :: nat) \<le> 31)" by (simp add: no_separators_def)
  then show ?thesis unfolding sql_space_def is_space_def Let_def by linarith
qed

lemma collapse_split:
  assumes "no_separators s" and "\<forall>c\<in>set acc. \<not> is_space c"
  shows "\<exists>k. (if acc = [] then collapse_spaces True s else rev acc @ collapse_spaces False s) =
     py_join '' '' (py_split_from acc s) @ replicate k (CHR '' '')"
  using assms
proof (induction acc s rule: py_split_from.induct)
  case (1 acc)
  then show ?case by (auto intro: exI [of _ 0])
next
  case (2 acc c cs)
  have sp: "sql_space c = is_space c" using sql_space_iff 2(4) by simp
  have cs: "no_separators cs" using 2(4) by (simp add: no_separators_def)
  show ?case
  proof (cases "is_space c")
    case True
    show ?thesis
    proof (cases "acc = []")
      case acc: False
      from 2(2) [OF True acc cs] obtain k
        where k: "collapse_spaces True cs = py_join '' '' (py_split_from [] cs) @ replicate k (CHR '' '')"
        by auto
      show ?thesis
      proof (cases "py_split_from [] cs")
        case Nil
        then show ?thesis using True acc sp k by (auto intro!: exI [of _ "Suc k"])
      next
        case (Cons w ws)
        then show ?thesis using True acc sp k by (auto intro!: exI [of _ k])
      qed
    qed (use 2(1) True sp cs in simp)
  next
    case False
    then have "\<forall>x\<in>set (c # acc). \<not> is_space x" using 2(5) by simp
    from 2(3) [OF False cs this] False sp show ?thesis by auto
  qed
qed

lemma collapse_inside:
  "collapse_spaces False s = collapse_spaces True s \<or>
   collapse_spaces False s = CHR '' '' # collapse_spaces True s"
  by (cases s) auto

lemma btrim_pad:
  assumes "w = [] \<or> hd w \<noteq> CHR '' '' \<and> last w \<noteq> CHR '' ''"
  shows "btrim (replicate i (CHR '' '') @ w @ replicate k (CHR '' '')) = w"
proof (cases w)
  case Nil
  then show ?thesis by (auto simp: btrim_eq_Nil)
next
  case (Cons x xs)
  have drop: "dropWhile (\<lambda>c. c = CHR '' '') (replicate i (CHR '' '') @ v) =
      dropWhile (\<lambda>c. c = CHR '' '') v" for i and v :: string
    by (induction i) auto
  have "dropWhile (\<lambda>c. c = CHR '' '') (w @ v) = w @ v" for v using assms Cons by simp
  moreover have "dropWhile (\<lambda>c. c = CHR '' '') (rev w) = rev w"
    using assms Cons by (simp only: dropWhile_eq_self_iff hd_rev) simp
  ultimately show ?thesis by (simp add: btrim_def drop)
qed

lemma join_ends:
  assumes "words_ok ws" and "ws \<noteq> []"
  shows "\<not> is_space (hd (py_join '' '' ws)) \<and> \<not> is_space (last (py_join '' '' ws))"
  using assms
proof (induction "'' ''" ws rule: py_join.induct)
  case (2 w)
  then show ?case by (simp add: words_ok_def)
next
  case (3 w v ws)
  then have "w \<noteq> []" "\<not> is_space (hd w)" and rest: "words_ok (v # ws)" by (simp_all add: words_ok_def)
  moreover have "py_join '' '' (v # ws) \<noteq> []" using join_eq_Nil [OF rest] by simp
  ultimately show ?case using 3(1) [OF rest] by simp
qed simp

lemma btrim_collapse:
  assumes "no_separators s"
  shows "btrim (collapse_spaces False s) = normalize_idempotency_key s"
proof -
  let ?w = "normalize_idempotency_key s"
  obtain k where k: "collapse_spaces True s = ?w @ replicate k (CHR '' '')"
    using collapse_split [OF assms, of "[]"] by (auto simp: normalize_idempotency_key_def py_split_def)
  have ends: "?w = [] \<or> hd ?w \<noteq> CHR '' '' \<and> last ?w \<noteq> CHR '' ''"
    using join_ends [OF words_ok_split [of s]] is_space_blank
    unfolding normalize_idempotency_key_def by (cases "py_split s") (simp, metis list.distinct(1))
  consider "collapse_spaces False s = replicate 0 (CHR '' '') @ ?w @ replicate k (CHR '' '')"
    | "collapse_spaces False s = replicate 1 (CHR '' '') @ ?w @ replicate k (CHR '' '')"
    using collapse_inside [of s] k by auto
  then show ?thesis by cases (simp_all only: btrim_pad [OF ends])
qed

lemma normalize_comparison_sql:
  "no_separators s \<Longrightarrow> catalog_normalize_comparison s = comparison_text s"
  unfolding catalog_normalize_comparison_def comparison_text_def
  by (simp add: btrim_collapse normalize_idempotency_key_def)

lemma no_separators_nfkc: "no_separators s \<Longrightarrow> no_separators (concat (map nfkc s))"
  by (fastforce simp: no_separators_def nfkc_def Let_def split: if_splits)

lemma identity_text_sql: "no_separators s \<Longrightarrow> catalog_identity_text s = identity_text s"
  unfolding catalog_identity_text_def identity_text_def comparison_text_def
  using btrim_collapse [OF no_separators_nfkc] by (simp add: normalize_idempotency_key_def)

lemma no_separators_normalized: "no_separators (normalize_idempotency_key s)"
proof -
  have "set (py_join '' '' (py_split s)) \<subseteq> {CHR '' ''} \<union> \<Union> (set ` set (py_split s))"
    using set_join [of "'' ''" "py_split s"] by simp
  moreover have "\<forall>w\<in>set (py_split s). \<forall>c\<in>set w. \<not> is_space c"
    using words_ok_split [of s] by (simp add: words_ok_def)
  ultimately have "\<forall>c\<in>set (normalize_idempotency_key s). c = CHR '' '' \<or> \<not> is_space c"
    unfolding normalize_idempotency_key_def by blast
  then show ?thesis unfolding no_separators_def is_space_def Let_def by fastforce
qed

text \<open>Identity text does not see the difference between a text and its normal form.\<close>

lemma nfkc_space: "if is_space c then \<exists>x. nfkc c = [x] \<and> is_space x
    else nfkc c \<noteq> [] \<and> (\<forall>x\<in>set (nfkc c). \<not> is_space x)"
  by (auto simp: nfkc_def is_space_def Let_def)

lemma concat_nfkc_Nil: "\<forall>c\<in>set s. \<not> is_space c \<Longrightarrow> concat (map nfkc s) = [] \<longleftrightarrow> s = []"
proof (cases s)
  case (Cons c cs)
  assume "\<forall>c\<in>set s. \<not> is_space c"
  then have "nfkc c \<noteq> []" using nfkc_space [of c] Cons by simp
  then show ?thesis by (simp add: Cons)
qed simp

lemma split_nfkc:
  assumes "\<forall>c\<in>set acc. \<not> is_space c"
  shows "py_split_from (rev (concat (map nfkc (rev acc)))) (concat (map nfkc s)) =
     map (concat \<circ> map nfkc) (py_split_from acc s)"
  using assms
proof (induction acc s rule: py_split_from.induct)
  case (1 acc)
  then have "concat (map nfkc (rev acc)) = [] \<longleftrightarrow> acc = []" using concat_nfkc_Nil [of "rev acc"] by simp
  then show ?case by (cases "acc = []") simp_all
next
  case (2 acc c cs)
  have empty: "concat (map nfkc (rev acc)) = [] \<longleftrightarrow> acc = []"
    using 2(4) concat_nfkc_Nil [of "rev acc"] by simp
  show ?case
  proof (cases "is_space c")
    case True
    then obtain x where "nfkc c = [x]" "is_space x" using nfkc_space [of c] by auto
    with True 2(1,2) empty show ?thesis by auto
  next
    case False
    then have "py_split_from acc' (nfkc c @ t) = py_split_from (rev (nfkc c) @ acc') t" for acc' t
      using nfkc_space [of c] by (simp add: split_from_word)
    with False 2(3,4) show ?thesis by simp
  qed
qed

lemma identity_text_words: "identity_text s = map casefold (py_join '' '' (map (concat \<circ> map nfkc) (py_split s)))"
  using split_nfkc [of "[]" s] by (simp add: identity_text_def comparison_text_def py_split_def)

lemma identity_text_normalize: "identity_text (normalize_idempotency_key s) = identity_text s"
  by (simp add: identity_text_words normalize_idempotency_key_def split_join words_ok_split)

section \<open>Decimals\<close>

lemma trim_step: "c mod 10 = 0 \<Longrightarrow> dec_value (Dec neg (c div 10) (e + 1)) = dec_value (Dec neg c e)"
proof -
  assume "c mod 10 = 0"
  then have "c = 10 * (c div 10)" by presburger
  then have "(of_nat c :: rat) = 10 * of_nat (c div 10)" by (metis of_nat_mult of_nat_numeral)
  then show ?thesis by (simp add: dec_value_def power_int_add)
qed

lemma dec_value_trim: "dec_value (trim_scale v) = dec_value v"
proof (induction v rule: trim_scale.induct)
  case (1 neg c e)
  then show ?case using trim_step [of c neg e] by (subst trim_scale.simps) simp
qed

lemma trim_scale_shape:
  "dec_exp v \<le> 0 \<Longrightarrow> dec_exp (trim_scale v) \<le> 0 \<and>
     (dec_exp (trim_scale v) < 0 \<longrightarrow> dec_coeff (trim_scale v) mod 10 \<noteq> 0)"
proof (induction v rule: trim_scale.induct)
  case (1 neg c e)
  then show ?case
    by (cases "e < 0 \<and> c mod 10 = 0") (simp_all add: trim_scale.simps [of neg c e], auto)
qed

lemma nat_str_last: "\<exists>s. nat_str n = s @ [digit_char (n mod 10)]"
  by (subst nat_str.simps) simp

lemma digit_char_zero: "n < 10 \<Longrightarrow> digit_char n = CHR ''0'' \<longleftrightarrow> n = 0"
  using digit_char_simps(1) [of n] digit_zero(2) by (metis digit_char_simps(1) digit_value_inj digit_char_simps(2) digit_zero(1) zero_less_numeral)

lemma dec_fixed_last:
  assumes "dec_exp v < 0"
  shows "\<exists>s. dec_fixed v = s @ [digit_char (dec_coeff v mod 10)] \<and> CHR ''.'' \<in> set s"
proof -
  let ?k = "nat (- dec_exp v)"
  obtain s where s: "nat_str (dec_coeff v) = s @ [digit_char (dec_coeff v mod 10)]"
    using nat_str_last by blast
  have k: "?k > 0" using assms by simp
  show ?thesis
  proof (cases "length (nat_str (dec_coeff v)) > ?k")
    case True
    then have "Suc (length s) - ?k \<le> length s" using k by simp
    then show ?thesis using assms True unfolding dec_fixed_def Let_def s by simp
  next
    case False
    then show ?thesis using assms unfolding dec_fixed_def Let_def s by simp
  qed
qed

lemma identity_text_trimmed:
  assumes "dec_exp v \<le> 0" and "dec_exp v < 0 \<Longrightarrow> dec_coeff v mod 10 \<noteq> 0"
  shows "decimal_identity_text v = numeric_text v"
proof (cases "dec_exp v = 0")
  case True
  have dot: "CHR ''.'' \<notin> set (nat_str n)" for n
    using nat_str_digits [of n] digit_zero(3) by (metis list_all_iff)
  have zero: "nat_str n = ''0'' \<longleftrightarrow> n = 0" for n
    using nat_str_digits [of n] digit_char_zero [of 0] digit_zero(2)
    by (auto simp: nat_str.simps [of 0])
  have neg: "nat_str n \<noteq> ''-0''" and ne: "nat_str n \<noteq> []" and n0: "nat_str 0 = ''0''" for n
    using nat_str_digits [of n] digit_zero(4) zero [of 0] by auto
  have fixed: "dec_fixed w = dec_sign w @ nat_str (dec_coeff w)" if "dec_exp w = 0" for w
    using that by (simp add: dec_fixed_def Let_def)
  show ?thesis
    unfolding decimal_identity_text_def numeric_text_def Let_def
    using True dot neg ne zero n0 by (cases "dec_neg v"; cases "dec_coeff v = 0") (simp_all add: fixed dec_sign_def n0)
next
  case False
  then have e: "dec_exp v < 0" and nz: "dec_coeff v mod 10 \<noteq> 0" using assms by auto
  obtain s where s: "dec_fixed v = s @ [digit_char (dec_coeff v mod 10)]" "CHR ''.'' \<in> set s"
    using dec_fixed_last [OF e] by blast
  have "is_digit (digit_char (dec_coeff v mod 10))" by (rule digit_char_simps(2)) simp
  then have c: "digit_char (dec_coeff v mod 10) \<noteq> CHR ''.''" using digit_zero(3) by metis
  have z: "digit_char (dec_coeff v mod 10) \<noteq> CHR ''0''" using nz digit_char_zero [of "dec_coeff v mod 10"] by simp
  have "s \<noteq> ''-''" "s \<noteq> []" using s(2) by auto
  have "dec_coeff v \<noteq> 0" using nz by auto
  then show ?thesis
    using s c z \<open>s \<noteq> ''-''\<close> by (simp add: decimal_identity_text_def numeric_text_def rstrip_snoc)
qed

lemma decimal_identity_sql:
  assumes "dec_exp v \<le> 0"
  shows "catalog_decimal_identity v = decimal_identity_text v"
proof -
  have "decimal_identity_text v = decimal_identity_text (trim_scale v)"
    by (simp add: identity_text_iff dec_value_trim)
  also have "\<dots> = numeric_text (trim_scale v)"
    using trim_scale_shape [OF assms] by (intro identity_text_trimmed) auto
  finally show ?thesis by (simp add: catalog_decimal_identity_def)
qed

lemma dec_value_stored: "- 10 \<le> dec_exp v \<Longrightarrow> dec_value (stored_decimal v) = dec_value v"
proof -
  assume e: "- 10 \<le> dec_exp v"
  have "(10 :: rat) ^ nat (dec_exp v + 10) * 10 powi (- 10) = 10 powi (dec_exp v + 10) * 10 powi (- 10)"
    using e by (simp add: power_int_def)
  also have "\<dots> = 10 powi (dec_exp v + 10 + - 10)" by (rule power_int_add [symmetric]) simp
  finally have scale: "(10 :: rat) ^ nat (dec_exp v + 10) * 10 powi (- 10) = 10 powi dec_exp v" by simp
  have "dec_value (stored_decimal v) = (if dec_neg v then - 1 else 1) * of_nat (dec_coeff v) *
      (10 ^ nat (dec_exp v + 10) * 10 powi (- 10))"
    unfolding dec_value_def stored_decimal_def by (cases "dec_coeff v = 0") simp_all
  then show ?thesis unfolding scale by (simp add: dec_value_def)
qed

end
