(* ===== verification/Catalog_Proofs.thy ===== *)
theory Catalog_Proofs
  imports Catalog_Identity
begin

text \<open>
  Facts about the catalog service: what an accepted write did to the tables, that the values a
  validated payload stores have the declared types and fit their columns, that the identity
  computed in Python is the one the database recomputes in SQL, and the invariant of the item
  table.
\<close>

section \<open>Effects of the writes\<close>

lemma insert_item_Inr:
  "insert_item schema sha256 d it = Inr d' \<longleftrightarrow>
     d' = d\<lparr>items := items d @ [it]\<rparr> \<and> item_write_checks schema sha256 d it = Inr () \<and>
     (\<forall>s\<in>set (item_texts it). CHR 0x00 \<notin> set s) \<and>
     (\<forall>x\<in>set (items d). it_id x \<noteq> it_id it \<and> it_identity_signature x \<noteq> it_identity_signature it)"
  unfolding insert_item_def by (auto simp: result_simps)

lemma save_item_Inr:
  "save_item schema sha256 d it = Inr d' \<longleftrightarrow>
     d' = d\<lparr>items := table_update it_id (it_id it) (\<lambda>_. it) (items d)\<rparr> \<and>
     item_write_checks schema sha256 d it = Inr () \<and> (\<forall>s\<in>set (item_texts it). CHR 0x00 \<notin> set s) \<and>
     (\<forall>x\<in>set (items d). it_id x = it_id it \<or> it_identity_signature x \<noteq> it_identity_signature it)"
  unfolding save_item_def by (auto simp: result_simps)

lemma item_write_checks_Inr:
  "item_write_checks schema sha256 d it = Inr () \<longleftrightarrow>
     item_checks it \<and> item_references_ok schema d it \<and> attribute_rows_ok schema it \<and>
     enforce_item_required_attributes schema it \<and> assert_catalog_item_identity schema sha256 d it \<and>
     (\<forall>s\<in>set (attribute_texts (it_attributes it)). CHR 0x00 \<notin> set s)"
  unfolding item_write_checks_def by (auto simp: result_simps)

lemma create_item_inserts:
  assumes "create_item env new_id d p = Inr (d', i)"
  obtains it where "insert_item (ce_schema env) (ce_sha256 env) d it = Inr d'" and "i = new_id"
    and "it_id it = new_id" and "it_status it = ITEM_ACTIVE"
  using assms unfolding create_item_def Let_def by (fastforce simp: result_simps)

lemma create_item_Inr:
  assumes "create_item env new_id d p = Inr (d', i)"
  obtains it where "d' = d\<lparr>items := items d @ [it]\<rparr>" and "i = new_id" and "it_id it = new_id"
    and "it_status it = ITEM_ACTIVE" and "new_id \<notin> it_id ` set (items d)"
    and "btrim (it_name it) \<noteq> []"
proof -
  obtain it where it: "insert_item (ce_schema env) (ce_sha256 env) d it = Inr d'" "i = new_id"
    "it_id it = new_id" "it_status it = ITEM_ACTIVE"
    using create_item_inserts [OF assms] by blast
  then show ?thesis
    by (intro that [of it]) (auto simp: insert_item_Inr item_write_checks_Inr item_checks_def)
qed

section \<open>Attribute values\<close>

lemma numeric_bounds_Inr:
  "validate_numeric_bounds a v = Inr u \<longleftrightarrow>
     (\<exists>lo hi. numeric_metadata a ''min'' = Inr lo \<and> numeric_metadata a ''max'' = Inr hi \<and>
        (\<forall>m\<in>set_option lo. dec_value m \<le> dec_value v) \<and> (\<forall>m\<in>set_option hi. dec_value v \<le> dec_value m))"
  unfolding validate_numeric_bounds_def
  by (auto simp: ebind_Inr_iff dec_less_iff not_less)

lemma decimal_storage_Inr:
  assumes "validate_decimal_storage v = Inr u"
  shows "- 10 \<le> dec_exp v" and "dec_coeff v * 10 ^ nat (dec_exp v + 10) < 10 ^ 30"
proof -
  let ?n = "length (nat_str (dec_coeff v))"
  show e: "- 10 \<le> dec_exp v"
    using assms by (auto simp: validate_decimal_storage_def Let_def MAX_DECIMAL_SCALE_def split: if_splits)
  show "dec_coeff v * 10 ^ nat (dec_exp v + 10) < 10 ^ 30"
  proof (cases "dec_coeff v = 0")
    case False
    have c: "dec_coeff v < 10 ^ ?n"
      using nat_str_digits [of "dec_coeff v"] digits_nat_less by metis
    have n: "int ?n + dec_exp v \<le> 20"
      using assms False
      by (auto simp: validate_decimal_storage_def Let_def MAX_DECIMAL_INTEGRAL_DIGITS_def split: if_splits)
    have "dec_coeff v * 10 ^ nat (dec_exp v + 10) < 10 ^ ?n * 10 ^ nat (dec_exp v + 10)"
      using c by simp
    also have "\<dots> = (10 :: nat) ^ (?n + nat (dec_exp v + 10))" by (simp add: power_add)
    also have "\<dots> \<le> 10 ^ 30" using n e by (intro power_increasing) auto
    finally show ?thesis .
  qed simp
qed

lemma strip_keeps: "c \<in> set s \<Longrightarrow> \<not> is_space c \<Longrightarrow> c \<in> set (py_strip s)"
proof -
  have keep: "c \<in> set (dropWhile is_space xs)" if "c \<in> set xs" "\<not> is_space c" for xs
    using that by (induction xs) auto
  assume "c \<in> set s" "\<not> is_space c"
  then show ?thesis using keep [of s] keep [of "rev (dropWhile is_space s)"] by (simp add: py_strip_def py_lstrip_def)
qed

lemma strip_subset: "set (py_strip s) \<subseteq> set s"
  unfolding py_strip_def py_lstrip_def by (auto dest!: set_dropWhileD)

lemma btrim_strip: "py_strip s \<noteq> [] \<Longrightarrow> btrim (py_strip s) \<noteq> []"
proof -
  assume "py_strip s \<noteq> []"
  then obtain c where "c \<in> set s" "\<not> is_space c" using strip_no_space by blast
  then have "c \<in> set (py_strip s)" "c \<noteq> CHR '' ''" using strip_keeps is_space_blank by (blast, metis)
  then show ?thesis unfolding btrim_eq_Nil by blast
qed

text \<open>What is known of a value that passed: its declared type, that it fits its column, and that the
  database computes the same identity text for it.\<close>

fun column_ready :: "attribute_value \<Rightarrow> bool" where
  "column_ready (AText s) \<longleftrightarrow> btrim s \<noteq> []"
| "column_ready (AInteger i) \<longleftrightarrow> MIN_SAFE_INTEGER \<le> i \<and> i \<le> MAX_SAFE_INTEGER"
| "column_ready (ADecimal v) \<longleftrightarrow> - 10 \<le> dec_exp v \<and> dec_coeff v * 10 ^ nat (dec_exp v + 10) < 10 ^ 30"
| "column_ready (ABoolean b) \<longleftrightarrow> True"
| "column_ready (AEnum s) \<longleftrightarrow> btrim s \<noteq> [] \<and> no_separators s"

text \<open>
  The declaration, read without the service: the metadata entries \<open>min\<close> and \<open>max\<close> are numbers, and a
  value lies between them.
\<close>

fun declared_number :: "json \<Rightarrow> rat option" where
  "declared_number (JInt i) = Some (of_int i)"
| "declared_number (JStr s) = map_option dec_value (parse_decimal s)"
| "declared_number (JFloat s) = map_option dec_value (parse_decimal s)"
| "declared_number _ = None"

definition in_declared_range :: "category_attribute \<Rightarrow> rat \<Rightarrow> bool" where
  "in_declared_range a q \<longleftrightarrow>
     (\<forall>j. map_of (metadata_of a) ''min'' = Some j \<longrightarrow> (\<exists>b. declared_number j = Some b \<and> b \<le> q)) \<and>
     (\<forall>j. map_of (metadata_of a) ''max'' = Some j \<longrightarrow> (\<exists>b. declared_number j = Some b \<and> q \<le> b))"

lemma dec_value_of_int: "dec_value (dec_of_int i) = of_int i"
  by (simp add: dec_value_def dec_of_int_def)

lemma numeric_metadata_Inr:
  assumes "numeric_metadata a key = Inr r" and "map_of (metadata_of a) key = Some j"
  shows "\<exists>m. r = Some m \<and> declared_number j = Some (dec_value m)"
  using assms
  by (cases j) (auto simp: numeric_metadata_def dec_value_of_int option.case_eq_if split: if_splits)

lemma bounds_declared: "validate_numeric_bounds a v = Inr u \<Longrightarrow> in_declared_range a (dec_value v)"
  unfolding numeric_bounds_Inr in_declared_range_def by (fastforce dest: numeric_metadata_Inr)

fun within_bounds :: "category_attribute \<Rightarrow> attribute_value \<Rightarrow> bool" where
  "within_bounds a (AInteger i) \<longleftrightarrow> in_declared_range a (of_int i)"
| "within_bounds a (ADecimal v) \<longleftrightarrow> in_declared_range a (dec_value v)"
| "within_bounds a (AText s) \<longleftrightarrow>
     (\<forall>m. map_of (metadata_of a) ''max_length'' = Some (JInt m) \<longrightarrow> int (length s) \<le> m)"
| "within_bounds a (AEnum s) \<longleftrightarrow> allows_enum a s"
| "within_bounds a (ABoolean b) \<longleftrightarrow> True"

lemma prepare_text_Inr:
  assumes "prepare_text a s = Inr (Some v)"
  obtains t where "v = AText t" and "t \<noteq> []" and "t = py_strip s \<or> t = normalize_idempotency_key s"
    and "within_bounds a v"
  using assms unfolding prepare_text_def Let_def blank_value_def
  by (auto simp: ebind_Inr_iff split: if_splits option.splits json.splits)

lemma prepare_enum_Inr:
  assumes "prepare_enum a s = Inr (Some v)"
  shows "v = AEnum (normalize_idempotency_key s) \<and> normalize_idempotency_key s \<noteq> [] \<and>
    allows_enum a (normalize_idempotency_key s)"
  using assms unfolding prepare_enum_def Let_def blank_value_def allows_enum_def
  by (auto split: if_splits option.splits json.splits)

lemma prepare_decimal_Inr:
  "prepare_decimal a v = Inr w \<longleftrightarrow>
     w = Some (ADecimal v) \<and> validate_decimal_storage v = Inr () \<and> validate_numeric_bounds a v = Inr ()"
  unfolding prepare_decimal_def by (auto simp: ebind_Inr_iff)

lemma prepare_integer_Inr:
  "prepare_integer a i = Inr w \<longleftrightarrow>
     w = Some (AInteger i) \<and> MIN_SAFE_INTEGER \<le> i \<and> i \<le> MAX_SAFE_INTEGER \<and>
     validate_numeric_bounds a (dec_of_int i) = Inr ()"
  unfolding prepare_integer_def by (auto simp: ebind_Inr_iff)

lemma prepared_value_ok:
  assumes "prepare_attribute_value a raw = Inr (Some v)"
  shows "value_data_type v = at_data_type a \<and> column_ready v \<and> within_bounds a v"
proof (cases "at_data_type a")
  case DT_TEXT
  then obtain s where "prepare_text a s = Inr (Some v)"
    using assms by (auto simp: prepare_attribute_value_def split: raw_value.splits)
  then show ?thesis using DT_TEXT btrim_strip btrim_normalized by (elim prepare_text_Inr) auto
next
  case DT_INTEGER
  then show ?thesis
    using assms bounds_declared
    by (fastforce simp: prepare_attribute_value_def prepare_integer_Inr dec_value_of_int [symmetric]
        split: raw_value.splits)
next
  case DT_DECIMAL
  then obtain x where "prepare_decimal a x = Inr (Some v)"
    using assms
    by (auto simp: prepare_attribute_value_def blank_value_def split: raw_value.splits if_splits option.splits)
  then show ?thesis using DT_DECIMAL decimal_storage_Inr bounds_declared by (auto simp: prepare_decimal_Inr)
next
  case DT_BOOLEAN
  then show ?thesis
    using assms by (auto simp: prepare_attribute_value_def split: raw_value.splits)
next
  case DT_ENUM
  then obtain s where "prepare_enum a s = Inr (Some v)"
    using assms by (auto simp: prepare_attribute_value_def split: raw_value.splits)
  then show ?thesis
    using DT_ENUM prepare_enum_Inr btrim_normalized no_separators_normalized by fastforce
qed

lemma required_text: "at_required a \<Longrightarrow> prepare_text a s \<noteq> Inr None"
  unfolding prepare_text_def Let_def blank_value_def
  by (auto simp: ebind_Inr_iff split: if_splits option.splits json.splits)

lemma required_enum: "at_required a \<Longrightarrow> prepare_enum a s \<noteq> Inr None"
  unfolding prepare_enum_def Let_def blank_value_def
  by (auto split: if_splits option.splits json.splits)

lemma prepared_required: "at_required a \<Longrightarrow> prepare_attribute_value a raw \<noteq> Inr None"
  by (cases "at_data_type a"; cases raw)
    (auto simp: prepare_attribute_value_def required_text required_enum prepare_integer_Inr
      prepare_decimal_Inr blank_value_def split: option.splits)

text \<open>A text comes from a supplied text, stripped or normalised.\<close>

lemma prepared_text_source:
  assumes "prepare_attribute_value a raw = Inr (Some v)" and "t \<in> set (value_texts v)"
  shows "\<exists>s. raw = RStr s \<and> (t = py_strip s \<or> t = normalize_idempotency_key s)"
proof -
  have "\<exists>s. raw = RStr s \<and> (prepare_text a s = Inr (Some v) \<or> prepare_enum a s = Inr (Some v))"
    using assms unfolding prepare_attribute_value_def
    by (cases v) (auto simp: prepare_integer_Inr prepare_decimal_Inr blank_value_def
        split: attribute_data_type.splits raw_value.splits if_splits option.splits)
  then obtain s where s: "raw = RStr s" and "prepare_text a s = Inr (Some v) \<or> prepare_enum a s = Inr (Some v)"
    by blast
  then have "t = py_strip s \<or> t = normalize_idempotency_key s"
    using assms(2) prepare_enum_Inr [of a s v] by (auto elim!: prepare_text_Inr)
  with s show ?thesis by blast
qed

lemma prepared_text_separators:
  assumes "prepare_attribute_value a raw = Inr (Some (AText t))" and "\<And>s. raw = RStr s \<Longrightarrow> no_separators s"
  shows "no_separators t"
  using prepared_text_source [OF assms(1), of t] assms(2) strip_subset no_separators_normalized
  by (auto simp: no_separators_def)

lemma prepared_text_nul:
  assumes "prepare_attribute_value a raw = Inr (Some v)" and "t \<in> set (value_texts v)"
    and "\<And>s. raw = RStr s \<Longrightarrow> CHR 0x00 \<notin> set s"
  shows "CHR 0x00 \<notin> set t"
proof -
  have "\<not> is_space (CHR 0x00)" by (simp add: is_space_def)
  then show ?thesis
    using prepared_text_source [OF assms(1,2)] assms(3) strip_subset normalize_key_member [of "CHR 0x00"] by blast
qed

end
