(* ===== verification/Auth.thy ===== *)
theory Auth
  imports Identity
begin

text \<open>
  Sign-in (\<open>auth/service.py\<close>) and the authorisation dependencies of the API
  (\<open>auth/dependencies.py\<close>): the recovery owner, the Telegram identity of a signed-in
  user, sessions with their cap per user, and the checks that stand in front of every
  protected endpoint. \<open>sha256\<close> stands for the digest of a session token, the token itself
  (\<open>secrets.token_urlsafe\<close>) and new identifiers are arguments. The clock of the
  application is taken not to run backwards, so the constraint that a session is not
  revoked before its creation never fails.
\<close>

section \<open>The recovery owner\<close>

definition recovery_settled :: "db \<Rightarrow> user \<Rightarrow> bool" where
  "recovery_settled d u \<longleftrightarrow>
     u_role u = OWNER \<and> u_access_status u = APPROVED \<and> u_approved_at u \<noteq> None \<and>
     u_approved_by_user_id u \<noteq> None \<and> pending_requests_of d (u_id u) = []"

definition approve_pending_request :: "db \<Rightarrow> uuid \<Rightarrow> timestamp \<Rightarrow> db \<times> bool" where
  "approve_pending_request d user_id now =
     (case pending_requests_of d user_id of
        [] \<Rightarrow> (d, False)
      | r # _ \<Rightarrow>
          (save_access_request d (r\<lparr>ar_status := AR_APPROVED, ar_decided_at := Some now,
             ar_decided_by_user_id := Some user_id,
             ar_decision_note := Some ''configured recovery owner''\<rparr>), True))"

definition reconcile_recovery_owner ::
    "db \<Rightarrow> user \<Rightarrow> telegram_identity \<Rightarrow> int option \<Rightarrow> timestamp \<Rightarrow> identity_error + db \<times> bool" where
  "reconcile_recovery_owner d u identity recovery now =
     (if recovery = None \<or> recovery \<noteq> Some (ti_telegram_user_id identity) then Inr (d, False)
      else if recovery_settled d u then Inr (d, False)
      else case get_user d (u_id u) of
        None \<Rightarrow> Inl IdentityRuntimeError
      | Some locked \<Rightarrow>
          if \<exists>x\<in>set (users d). u_role x = OWNER \<and> u_id x \<noteq> u_id locked
          then Inl RecoveryOwnerConflictError
          else
            (let (d1, u1, c1) =
                   (if u_role locked \<noteq> OWNER
                    then (let (d', u', _) = change_role d locked (u_id locked) OWNER now in (d', u', True))
                    else (d, locked, False));
                 (d2, u2, event) = transition_user_access d1 u1 (u_id locked) APPROVED now;
                 (d3, c3) =
                   (if event \<noteq> None then (d2, True)
                    else if u_approved_at u2 = None \<or> u_approved_by_user_id u2 = None
                    then (save_user d2 (u2\<lparr>u_approved_at := Some now,
                            u_approved_by_user_id := Some (u_id locked)\<rparr>), True)
                    else (d2, False));
                 (d4, c4) = approve_pending_request d3 (u_id locked) now
             in Inr (d4, c1 \<or> c3 \<or> c4)))"

section \<open>Telegram identities\<close>

record telegram_web_app_user =
  tg_id :: int
  tg_first_name :: string
  tg_last_name :: "string option"
  tg_username :: "string option"
  tg_language_code :: "string option"

definition identity_by_telegram :: "db \<Rightarrow> int \<Rightarrow> telegram_identity option" where
  "identity_by_telegram d t = table_get ti_telegram_user_id t (telegram_identities d)"

definition upsert_telegram_identity ::
    "db \<Rightarrow> uuid \<Rightarrow> telegram_web_app_user \<Rightarrow> int option \<Rightarrow> timestamp
       \<Rightarrow> identity_error + db \<times> uuid" where
  "upsert_telegram_identity d new_user_id v recovery now =
     (let is_recovery = (recovery = Some (tg_id v)) in
      case identity_by_telegram d (tg_id v) of
        None \<Rightarrow>
          if is_recovery \<and> (\<exists>u\<in>set (users d). u_role u = OWNER) then Inl RecoveryOwnerConflictError
          else if new_user_id \<in> u_id ` set (users d) then Inl (IdentityDbError ''23505'')
          else
            (let u = \<lparr> u_id = new_user_id, u_role = (if is_recovery then OWNER else ENGINEER),
                       u_access_status = (if is_recovery then APPROVED else PENDING),
                       u_approved_at = (if is_recovery then Some now else None),
                       u_approved_by_user_id = None \<rparr>;
                 t = \<lparr> ti_user_id = new_user_id, ti_telegram_user_id = tg_id v,
                       ti_username = tg_username v, ti_first_name = tg_first_name v,
                       ti_last_name = tg_last_name v, ti_language_code = tg_language_code v,
                       ti_last_auth_at = Some now \<rparr>
             in Inr (d\<lparr>users := users d @ [u],
                       telegram_identities := telegram_identities d @ [t]\<rparr>, new_user_id))
      | Some identity \<Rightarrow>
          (let t = identity\<lparr>ti_username := tg_username v, ti_first_name := tg_first_name v,
                     ti_last_name := tg_last_name v, ti_language_code := tg_language_code v,
                     ti_last_auth_at := Some now\<rparr>;
               d1 = d\<lparr>telegram_identities :=
                        table_update ti_telegram_user_id (tg_id v) (\<lambda>_. t) (telegram_identities d)\<rparr>
           in if is_recovery
              then (case get_user d1 (ti_user_id identity) of
                      None \<Rightarrow> Inl IdentityRuntimeError
                    | Some u \<Rightarrow> ebind (reconcile_recovery_owner d1 u t recovery now)
                        (\<lambda>(d2, _). Inr (d2, ti_user_id identity)))
              else Inr (d1, ti_user_id identity)))"

section \<open>Sessions\<close>

definition MAX_ACTIVE_SESSIONS_PER_USER :: nat where
  "MAX_ACTIVE_SESSIONS_PER_USER = 5"

definition session_live :: "timestamp \<Rightarrow> auth_session \<Rightarrow> bool" where
  "session_live now s \<longleftrightarrow> as_revoked_at s = None \<and> now < as_expires_at s"

definition active_sessions :: "db \<Rightarrow> uuid \<Rightarrow> timestamp \<Rightarrow> auth_session list" where
  "active_sessions d user_id now =
     filter (\<lambda>s. as_user_id s = user_id \<and> session_live now s) (auth_sessions d)"

definition oldest_first :: "auth_session list \<Rightarrow> auth_session list" where
  "oldest_first ss = sort_key as_created_at (sort_key as_id ss)"

definition issue_auth_session ::
    "(string \<Rightarrow> string) \<Rightarrow> db \<Rightarrow> uuid \<Rightarrow> uuid \<Rightarrow> string \<Rightarrow> int \<Rightarrow> timestamp
       \<Rightarrow> identity_error + db \<times> auth_session" where
  "issue_auth_session sha256 d session_id user_id raw_token ttl_seconds now =
     (if get_user d user_id = None then Inl IdentityRuntimeError
      else
        (let active = active_sessions d user_id now;
             revoke_count = Suc (length active) - MAX_ACTIVE_SESSIONS_PER_USER;
             revoked = map as_id (take revoke_count (oldest_first active));
             sessions = map (\<lambda>s. if as_id s \<in> set revoked then s\<lparr>as_revoked_at := Some now\<rparr> else s)
                          (auth_sessions d);
             s = \<lparr> as_id = session_id, as_user_id = user_id, as_token_hash = sha256 raw_token,
                   as_created_at = now, as_expires_at = now + ttl_seconds, as_revoked_at = None \<rparr>
         in if \<exists>x\<in>set (auth_sessions d). as_id x = session_id \<or> as_token_hash x = sha256 raw_token
            then Inl (IdentityDbError ''23505'')
            else if ttl_seconds \<le> 0
            then Inl (IdentityDbError ''23514'')
            else Inr (d\<lparr>auth_sessions := sessions @ [s]\<rparr>, s)))"

record authenticated_context =
  ctx_session :: auth_session
  ctx_user :: user
  ctx_identity :: telegram_identity

definition load_auth_context ::
    "(string \<Rightarrow> string) \<Rightarrow> db \<Rightarrow> string \<Rightarrow> timestamp \<Rightarrow> authenticated_context option" where
  "load_auth_context sha256 d raw_token now =
     (case find (\<lambda>s. as_token_hash s = sha256 raw_token \<and> session_live now s) (auth_sessions d) of
        None \<Rightarrow> None
      | Some s \<Rightarrow>
          Option.bind (get_user d (as_user_id s)) (\<lambda>u.
          Option.bind (get_identity d (as_user_id s)) (\<lambda>i.
          Some \<lparr> ctx_session = s, ctx_user = u, ctx_identity = i \<rparr>)))"

definition revoke_auth_session :: "db \<Rightarrow> auth_session \<Rightarrow> timestamp \<Rightarrow> db" where
  "revoke_auth_session d s now =
     d\<lparr>auth_sessions := table_update as_id (as_id s) (\<lambda>x. x\<lparr>as_revoked_at := Some now\<rparr>)
         (auth_sessions d)\<rparr>"

section \<open>Authorisation of a request\<close>

record http_request =
  hr_method :: string
  hr_origin :: "string option"
  hr_cookie :: "string option"

type_synonym http_error = "nat \<times> string"

text \<open>The database that a request leaves, and its answer.\<close>

type_synonym 'a response = "db \<times> (http_error + 'a)"

definition SAFE_METHODS :: "string list" where
  "SAFE_METHODS = [''GET'', ''HEAD'', ''OPTIONS'']"

definition ascii_upper :: "char \<Rightarrow> char" where
  "ascii_upper c = (let n = of_char c :: nat
     in if 97 \<le> n \<and> n \<le> 122 then char_of (n - 32) else c)"

definition rstrip_slash :: "string \<Rightarrow> string" where
  "rstrip_slash s = rev (dropWhile (\<lambda>c. c = CHR ''/'') (rev s))"

definition enforce_cookie_mutation_origin :: "http_request \<Rightarrow> string \<Rightarrow> http_error + unit" where
  "enforce_cookie_mutation_origin r expected_origin =
     (if map ascii_upper (hr_method r) \<in> set SAFE_METHODS then Inr ()
      else case hr_origin r of
        None \<Rightarrow> Inl (403, ''cross-origin authenticated mutation forbidden'')
      | Some origin \<Rightarrow>
          if map casefold (rstrip_slash origin) \<noteq> expected_origin
          then Inl (403, ''cross-origin authenticated mutation forbidden'')
          else Inr ())"

text \<open>
  A change of the recovery owner is committed here, before the handler runs; when a deferred
  trigger rejects it, the exception is not handled.
\<close>

definition get_authenticated_context ::
    "(string \<Rightarrow> string) \<Rightarrow> db \<Rightarrow> http_request \<Rightarrow> string \<Rightarrow> int option \<Rightarrow> timestamp
       \<Rightarrow> http_error + db \<times> authenticated_context" where
  "get_authenticated_context sha256 d r expected_origin recovery now =
     (case hr_cookie r of
        None \<Rightarrow> Inl (401, ''authentication required'')
      | Some raw_token \<Rightarrow>
          if raw_token = [] then Inl (401, ''authentication required'')
          else ebind (enforce_cookie_mutation_origin r expected_origin) (\<lambda>_.
          case load_auth_context sha256 d raw_token now of
            None \<Rightarrow> Inl (401, ''invalid or expired session'')
          | Some ctx \<Rightarrow>
              (case reconcile_recovery_owner d (ctx_user ctx) (ctx_identity ctx) recovery now of
                 Inl RecoveryOwnerConflictError \<Rightarrow>
                   Inl (409, ''configured recovery identity conflicts with existing owner'')
               | Inl _ \<Rightarrow> Inl (500, ''internal server error'')
               | Inr (d', changed) \<Rightarrow>
                   if changed \<and> \<not> users_commit d d' then Inl (500, ''internal server error'')
                   else Inr (d', ctx\<lparr>ctx_user := (case get_user d' (u_id (ctx_user ctx)) of
                          None \<Rightarrow> ctx_user ctx | Some u \<Rightarrow> u)\<rparr>))))"

definition get_approved_context ::
    "authenticated_context \<Rightarrow> http_error + authenticated_context" where
  "get_approved_context ctx =
     (if u_access_status (ctx_user ctx) \<noteq> APPROVED then Inl (403, ''access approval required'')
      else Inr ctx)"

definition require_any_capability ::
    "capability list \<Rightarrow> authenticated_context \<Rightarrow> http_error + authenticated_context" where
  "require_any_capability cs ctx =
     ebind (get_approved_context ctx) (\<lambda>ctx.
     if \<exists>c\<in>set cs. has_capability (u_role (ctx_user ctx)) c then Inr ctx
     else Inl (403, ''required capability missing''))"

definition require_capability ::
    "capability \<Rightarrow> authenticated_context \<Rightarrow> http_error + authenticated_context" where
  "require_capability c ctx =
     ebind (get_approved_context ctx) (\<lambda>ctx.
     if has_capability (u_role (ctx_user ctx)) c then Inr ctx
     else Inl (403, ''required capability missing''))"

end
