(* ===== verification/Ledger.thy ===== *)
theory Ledger
  imports Inventory
begin

text \<open>
  Correctness of the warehouse service against its ledger. The first part inverts a
  successful call of \<open>_create_movement\<close>: it either replays a stored movement or appends
  one movement with its lines and refreshes the projections of exactly the items on those
  lines. The second part is the warehouse invariant and its preservation; the abstract
  specification is a pair of balance functions to which a movement adds its signed line
  quantities, and the code refines it.
\<close>

section \<open>Quantities of a request\<close>

definition payload_quantity :: "movement_create \<Rightarrow> uuid \<Rightarrow> int" where
  "payload_quantity p i =
     sum_list (map lc_quantity (filter (\<lambda>l. lc_item_id l = i) (mc_lines p)))"

lemma sorted_lines_perm: "mset (sorted_lines p) = mset (mc_lines p)"
  by (simp add: sorted_lines_def)

lemma set_sorted_lines [simp]: "set (sorted_lines p) = set (mc_lines p)"
  by (simp add: sorted_lines_def)

lemma length_sorted_lines [simp]: "length (sorted_lines p) = length (mc_lines p)"
  by (simp add: sorted_lines_def)

lemma make_line_simps [simp]:
  "ml_movement_id (make_line d mid n l) = mid"
  "ml_line_no (make_line d mid n l) = n"
  "ml_item_id (make_line d mid n l) = lc_item_id l"
  "ml_quantity (make_line d mid n l) = lc_quantity l"
  by (simp_all add: make_line_def Let_def)

lemma map_enumerate_snd: "map (\<lambda>(n, x). f x) (enumerate k xs) = map f xs"
  by (induction xs arbitrary: k) auto

lemma map_enumerate_fst: "map (\<lambda>(n, x). f n) (enumerate k xs) = map f [k..<k + length xs]"
  by (induction xs arbitrary: k) (auto simp: upt_rec)

lemma make_lines_movement: "ml \<in> set (make_lines d mid p) \<Longrightarrow> ml_movement_id ml = mid"
  by (auto simp: make_lines_def)

lemma make_lines_numbers:
  "map ml_line_no (make_lines d mid p) = map int [1..<Suc (length (mc_lines p))]"
proof -
  have "map ml_line_no (make_lines d mid p) =
      map (\<lambda>(n, x). int n) (enumerate 1 (sorted_lines p))"
    by (simp add: make_lines_def case_prod_unfold comp_def)
  then show ?thesis by (simp add: map_enumerate_fst del: upt_Suc)
qed

lemma make_lines_contents:
  "map (\<lambda>ml. (ml_item_id ml, ml_quantity ml)) (make_lines d mid p) =
     map (\<lambda>l. (lc_item_id l, lc_quantity l)) (sorted_lines p)"
proof -
  have "map (\<lambda>ml. (ml_item_id ml, ml_quantity ml)) (make_lines d mid p) =
      map (\<lambda>(n, l). (lc_item_id l, lc_quantity l)) (enumerate 1 (sorted_lines p))"
    by (simp add: make_lines_def case_prod_unfold comp_def)
  then show ?thesis by (simp only: map_enumerate_snd)
qed

lemma make_lines_items:
  "map ml_item_id (make_lines d mid p) = map lc_item_id (sorted_lines p)"
  using arg_cong [OF make_lines_contents, of "map fst"] by (simp add: comp_def)

lemma make_lines_item_set: "ml_item_id ` set (make_lines d mid p) = set (item_ids p)"
  using arg_cong [OF make_lines_items, of set] by (simp add: item_ids_def)

lemma make_lines_distinct:
  assumes "distinct (item_ids p)"
  shows "distinct (map ml_item_id (make_lines d mid p))"
proof -
  have "mset (map lc_item_id (sorted_lines p)) = mset (item_ids p)"
    by (simp add: item_ids_def sorted_lines_perm)
  with assms show ?thesis
    unfolding make_lines_items using mset_eq_imp_distinct_iff by blast
qed

lemma sum_filter_contents:
  "sum_list (map q (filter (\<lambda>x. k x = i) xs)) =
     sum_list (map snd (filter (\<lambda>e. fst e = i) (map (\<lambda>x. (k x, q x)) xs)))"
  by (induction xs) auto

lemma make_lines_quantity: "line_quantity (make_lines d mid p) i = payload_quantity p i"
proof -
  have "line_quantity (make_lines d mid p) i =
      sum_list (map lc_quantity (filter (\<lambda>l. lc_item_id l = i) (sorted_lines p)))"
    unfolding line_quantity_def sum_filter_contents [of ml_quantity]
      sum_filter_contents [of lc_quantity] make_lines_contents by (rule refl)
  also have "\<dots> = payload_quantity p i"
    by (simp add: payload_quantity_def sum_mset_sum_list [symmetric] sorted_lines_perm)
  finally show ?thesis .
qed

section \<open>The refresh loop\<close>

lemma refresh_loop:
  assumes "efold (\<lambda>ml d. refresh_warehouse_projection d mid (ml_item_id ml)) ls d = Inr d'"
    and "projection_tables_ok d" and "get_mov d mid = Some m"
  shows "same_but_projections d d' \<and> projection_tables_ok d' \<and>
     (\<forall>i l. stock_of d' i l =
        (if i \<in> ml_item_id ` set ls \<and>
            (mv_source_location_id m = Some l \<or> mv_destination_location_id m = Some l)
         then expected_stock d i l else stock_of d i l)) \<and>
     (\<forall>u i. custody_of d' u i =
        (if i \<in> ml_item_id ` set ls \<and> mv_custody_user_id m = Some u
         then expected_custody d u i else custody_of d u i))"
  using assms
proof (induction ls arbitrary: d)
  case Nil
  then show ?case by simp
next
  case (Cons ml ls)
  from Cons.prems(1) obtain d1
    where step: "refresh_warehouse_projection d mid (ml_item_id ml) = Inr d1"
      and rest: "efold (\<lambda>ml d. refresh_warehouse_projection d mid (ml_item_id ml)) ls d1 = Inr d'"
    by (auto simp: result_simps)
  note one = refresh_warehouse_projection_spec [OF step Cons.prems(2,3)]
  from one have same: "same_but_projections d d1" and ok: "projection_tables_ok d1" by simp_all
  have m: "get_mov d1 mid = Some m"
    using Cons.prems(3) same_but_projectionsD(1) [OF same] by (simp add: get_mov_def)
  note two = Cons.IH [OF rest ok m]
  then have "same_but_projections d d'" using same same_but_projections_trans by blast
  with one two show ?case
    by (simp add: same_but_projections_expected [OF same])
qed

section \<open>Inversion of a successful call\<close>

text \<open>The facts established by the checks of a call that stored a new movement.\<close>

definition accepted ::
    "(string \<Rightarrow> string) \<Rightarrow> db \<Rightarrow> uuid \<Rightarrow> timestamp \<Rightarrow> movement_create \<Rightarrow> uuid \<Rightarrow> string \<Rightarrow> uuid option
       \<Rightarrow> movement_record option \<Rightarrow> movement \<Rightarrow> movement_line list \<Rightarrow> bool" where
  "accepted sha256 d mid now p actor actor_name custody original m ls \<longleftrightarrow>
     (\<exists>request_id name custody_user.
        normalize_inline_text (mc_client_request_id p) ''client_request_id'' 128 = Inr request_id \<and>
        normalize_inline_text actor_name ''actor'' 579 = Inr name \<and>
        m = make_movement d mid now p actor name custody request_id
              (canonical_fingerprint sha256 (movement_canonical p request_id custody)) \<and>
        lock_custody_user d (mc_movement_type p) custody = Inr custody_user \<and>
        check_original d p custody custody_user = Inr original) \<and>
     ls = make_lines d mid p \<and>
     check_custody_request (mc_movement_type p) actor custody = Inr () \<and>
     validate_positions p = Inr () \<and> check_locations d p = Inr () \<and>
     check_items d p original = Inr () \<and>
     insert_movement d m = Inr (d\<lparr>movements := movements d @ [m]\<rparr>) \<and>
     (\<forall>l\<in>set (mc_lines p). check_line d p original custody l = Inr ())"

lemma list_all2_left: "list_all2 (\<lambda>x y. P x) xs ys \<Longrightarrow> x \<in> set xs \<Longrightarrow> P x"
  by (induction xs arbitrary: ys) (auto simp: list_all2_Cons1)

lemma create_movement_cases:
  assumes "create_movement_internal sha256 d mid now p actor actor_name custody = Inr (d', r)"
  obtains
    (replay) "res_replayed r" "d' = d"
      "\<exists>request_id. normalize_inline_text (mc_client_request_id p) ''client_request_id'' 128
           = Inr request_id \<and>
         existing_idempotent_result d actor request_id
           (canonical_fingerprint sha256 (movement_canonical p request_id custody)) = Inr (Some r)"
  | (new) original m ls where
      "accepted sha256 d mid now p actor actor_name custody original m ls"
      "efold insert_movement_line ls (d\<lparr>movements := movements d @ [m]\<rparr>) =
         Inr (append_movement d m ls)"
      "efold (\<lambda>ml d. refresh_warehouse_projection d mid (ml_item_id ml)) ls
         (append_movement d m ls) = Inr d'"
      "r = \<lparr> res_record = \<lparr> rec_movement = m, rec_lines = ls \<rparr>, res_replayed = False \<rparr>"
proof -
  from assms obtain request_id existing where
    c: "check_custody_request (mc_movement_type p) actor custody = Inr ()"
    and q: "normalize_inline_text (mc_client_request_id p) ''client_request_id'' 128
          = Inr request_id"
    and e: "existing_idempotent_result d actor request_id
        (canonical_fingerprint sha256 (movement_canonical p request_id custody)) = Inr existing"
    and t: "CHR 0x00 \<notin> set request_id"
    unfolding create_movement_internal_def Let_def ebind_Inr_iff relabel_Inr_iff text_parameter_simps by auto
  show thesis
  proof (cases existing)
    case (Some r')
    with assms c q e t have "r' = r" "d' = d" by (simp_all add: create_movement_internal_def)
    with Some q e show thesis
      by (intro replay) (auto simp: existing_idempotent_result_def split: option.splits if_splits)
  next
    case None
    from assms c q e t None show thesis
      unfolding create_movement_internal_def
      by (simp add: result_simps Let_def)
        (elim exE conjE, rule new [unfolded accepted_def];
          auto simp: result_simps append_movement_def dest: insert_lines_Inr list_all2_left)
  qed
qed

section \<open>The warehouse invariant\<close>

definition custody_holders_eligible :: "db \<Rightarrow> bool" where
  "custody_holders_eligible d \<longleftrightarrow>
     (\<forall>b\<in>set (user_item_custody_balances d). custody_holder_eligible d (cb_user_id b))"

definition warehouse_inv :: "db \<Rightarrow> bool" where
  "warehouse_inv d \<longleftrightarrow>
     journal_wf d \<and> projection_tables_ok d \<and> projections_agree d \<and> custody_holders_eligible d"

lemma warehouse_invD:
  assumes "warehouse_inv d"
  shows "journal_wf d" "projection_tables_ok d" "custody_holders_eligible d"
    "stock_of d i l = expected_stock d i l" "custody_of d u i = expected_custody d u i"
  using assms by (simp_all add: warehouse_inv_def projections_agree_def)

text \<open>The invariant depends on other tables only through the eligibility of custody holders.\<close>

lemma warehouse_inv_cong:
  assumes "warehouse_inv d" and "movements d' = movements d"
    and "movement_lines d' = movement_lines d" and "stock_balances d' = stock_balances d"
    and "user_item_custody_balances d' = user_item_custody_balances d"
    and "custody_holders_eligible d'"
  shows "warehouse_inv d'"
  using assms(1,6) unfolding warehouse_inv_def projections_agree_def
  by (simp add: journal_wf_def projection_tables_ok_def stock_of_def custody_of_def assms(2-5)
      expected_stock_cong [OF assms(2,3)] expected_custody_cong [OF assms(2,3)])

lemma accepted_movement:
  assumes "accepted sha256 d mid now p actor actor_name custody original m ls"
  shows "mv_id m = mid" "mv_movement_type m = mc_movement_type p"
    "mv_source_location_id m = mc_source_location_id p"
    "mv_destination_location_id m = mc_destination_location_id p"
    "mv_original_movement_id m = mc_original_movement_id p"
    "mv_custody_user_id m = custody" "mv_actor_user_id m = actor"
    "mv_line_count m = int (length (mc_lines p))"
    "mv_journal_seq m = next_journal_seq d"
    "mv_occurred_at m = now"
  using assms by (auto simp: accepted_def make_movement_def Let_def)

lemma accepted_fresh:
  assumes "accepted sha256 d mid now p actor actor_name custody original m ls"
  shows "mid \<notin> mv_id ` set (movements d)"
    and "opt_fk (mv_id ` set (movements d)) (mv_original_movement_id m)"
    and "movement_checks m"
    and "\<forall>ml\<in>set ls. ml_movement_id ml = mv_id m"
proof -
  have ins: "insert_movement d m = Inr (d\<lparr>movements := movements d @ [m]\<rparr>)" and ls: "ls = make_lines d mid p"
    using assms by (auto simp: accepted_def)
  show "mid \<notin> mv_id ` set (movements d)"
    using ins accepted_movement(1) [OF assms]
    by (auto simp: result_simps movement_unique_keys_def)
  show "opt_fk (mv_id ` set (movements d)) (mv_original_movement_id m)" "movement_checks m"
    using ins by (auto simp: result_simps movement_foreign_keys_def)
  show "\<forall>ml\<in>set ls. ml_movement_id ml = mv_id m"
    using ls make_lines_movement accepted_movement(1) [OF assms] by metis
qed

lemma accepted_distinct:
  assumes "accepted sha256 d mid now p actor actor_name custody original m ls"
  shows "distinct (map ml_item_id ls)" and "ml_item_id ` set ls = set (item_ids p)"
    and "line_quantity ls i = payload_quantity p i"
proof -
  have "distinct (item_ids p)" and ls: "ls = make_lines d mid p"
    using assms by (auto simp: accepted_def check_items_def split: if_splits)
  then show "distinct (map ml_item_id ls)" by (simp add: make_lines_distinct)
  show "ml_item_id ` set ls = set (item_ids p)" by (simp add: ls make_lines_item_set)
  show "line_quantity ls i = payload_quantity p i" by (simp add: ls make_lines_quantity)
qed

text \<open>The effect of a movement on the two balance functions of the abstract specification.\<close>

definition spec_stock :: "(uuid \<Rightarrow> uuid \<Rightarrow> int) \<Rightarrow> movement_create \<Rightarrow> uuid \<Rightarrow> uuid \<Rightarrow> int" where
  "spec_stock s p i l = s i l
     + (if mc_destination_location_id p = Some l then payload_quantity p i else 0)
     - (if mc_source_location_id p = Some l then payload_quantity p i else 0)"

definition spec_custody ::
    "(uuid \<Rightarrow> uuid \<Rightarrow> int) \<Rightarrow> movement_create \<Rightarrow> uuid option \<Rightarrow> int \<Rightarrow> uuid \<Rightarrow> uuid \<Rightarrow> int" where
  "spec_custody c p custody sign u i =
     c u i + (if custody = Some u then sign * payload_quantity p i else 0)"

lemma stock_off_movement:
  assumes "accepted sha256 d mid now p actor actor_name custody original m ls"
    and "\<not> (mv_source_location_id m = Some l \<or> mv_destination_location_id m = Some l)"
  shows "stock_sign m l * line_quantity ls i = 0"
  using assms(2) by (simp add: stock_sign_def)

text \<open>The database a new movement leaves, in terms of the journal before it.\<close>

lemma new_movement_effect:
  assumes inv: "warehouse_inv d"
    and acc: "accepted sha256 d mid now p actor actor_name custody original m ls"
    and refresh: "efold (\<lambda>ml d. refresh_warehouse_projection d mid (ml_item_id ml)) ls
         (append_movement d m ls) = Inr d'"
  shows "same_but_projections (append_movement d m ls) d'" and "projection_tables_ok d'"
    and "projections_agree d'"
    and "stock_of d' i l = spec_stock (stock_of d) p i l"
    and "custody_of d' u i = spec_custody (custody_of d) p custody
       (custody_sign (mv_movement_type m) (original_type d m)) u i"
proof -
  let ?d = "append_movement d m ls"
  note fresh = accepted_fresh [OF acc] and mv = accepted_movement [OF acc]
    and dist = accepted_distinct [OF acc]
  note wf = warehouse_invD(1) [OF inv]
  have fresh': "mv_id m \<notin> mv_id ` set (movements d)" using fresh(1) mv(1) by simp
  have ok: "projection_tables_ok ?d"
    using warehouse_invD(2) [OF inv] by (simp add: projection_tables_ok_def append_movement_def)
  have m: "get_mov ?d mid = Some m" using get_mov_append [OF fresh'] mv(1) by simp
  have s0: "stock_of ?d = stock_of d" and c0: "custody_of ?d = custody_of d"
    by (simp_all add: stock_of_def custody_of_def append_movement_def fun_eq_iff)
  note es = expected_stock_append [OF wf fresh' fresh(4)]
    and ec = expected_custody_append [OF wf fresh' fresh(4) fresh(2)]
  note loop = refresh_loop [OF refresh ok m]
  have zero: "line_quantity ls i = 0" if "i \<notin> ml_item_id ` set ls" for i
    using that by (rule line_quantity_none)
  have stock: "stock_of d' i l = expected_stock ?d i l" for i l
    using loop es zero warehouse_invD(4) [OF inv] by (auto simp: s0 stock_sign_def)
  have custody: "custody_of d' u i = expected_custody ?d u i" for u i
    using loop ec zero warehouse_invD(5) [OF inv] by (auto simp: c0)
  show same: "same_but_projections ?d d'" and "projection_tables_ok d'" using loop by simp_all
  show "projections_agree d'"
    by (simp add: projections_agree_def stock custody same_but_projections_expected [OF same])
  show "stock_of d' i l = spec_stock (stock_of d) p i l"
    by (simp add: stock es warehouse_invD(4) [OF inv] spec_stock_def stock_sign_def mv dist)
  show "custody_of d' u i = spec_custody (custody_of d) p custody
       (custody_sign (mv_movement_type m) (original_type d m)) u i"
    by (simp add: custody ec warehouse_invD(5) [OF inv] spec_custody_def mv dist)
qed

lemma custody_holder_eligible_update [simp]:
  "custody_holder_eligible (d\<lparr>user_item_custody_balances := c\<rparr>) = custody_holder_eligible d"
  "custody_holder_eligible (d\<lparr>stock_balances := b\<rparr>) = custody_holder_eligible d"
  by (simp_all add: custody_holder_eligible_def fun_eq_iff)

lemma refresh_custody_eligible:
  assumes "refresh_custody d u i = Inr d'" and "custody_holders_eligible d"
  shows "custody_holders_eligible d'"
  using assms
  by (auto simp: refresh_custody_def Let_def custody_holders_eligible_def table_set_def
      set_table_put set_table_del mk_custody_balance_def split: if_splits)

lemma refresh_stock_eligible:
  assumes "refresh_stock d i l = Inr d'" and "custody_holders_eligible d"
  shows "custody_holders_eligible d'"
  using assms
  by (auto simp: refresh_stock_def Let_def custody_holders_eligible_def split: if_splits)

lemma refresh_eligible:
  assumes "refresh_warehouse_projection d mid i = Inr d'" and "custody_holders_eligible d"
  shows "custody_holders_eligible d'"
  using assms
  by (auto simp: refresh_warehouse_projection_def ebind_Inr_iff
      dest: refresh_stock_eligible refresh_custody_eligible split: if_splits option.splits)

lemma new_movement_inv:
  assumes inv: "warehouse_inv d"
    and acc: "accepted sha256 d mid now p actor actor_name custody original m ls"
    and refresh: "efold (\<lambda>ml d. refresh_warehouse_projection d mid (ml_item_id ml)) ls
         (append_movement d m ls) = Inr d'"
  shows "warehouse_inv d'"
proof -
  let ?d = "append_movement d m ls"
  note eff = new_movement_effect [OF inv acc refresh] and fresh = accepted_fresh [OF acc]
  have "journal_wf ?d"
    using journal_wf_append [OF warehouse_invD(1) [OF inv] _ fresh(2,4)] fresh(1)
      accepted_movement(1) [OF acc] by simp
  then have "journal_wf d'"
    using same_but_projectionsD(1,2) [OF eff(1)] by (simp add: journal_wf_def)
  moreover have "custody_holders_eligible d'"
  proof (rule efold_invariant [OF refresh])
    show "custody_holders_eligible ?d"
      using warehouse_invD(3) [OF inv]
      by (simp add: custody_holders_eligible_def custody_holder_eligible_def append_movement_def)
  qed (rule refresh_eligible)
  ultimately show ?thesis using eff by (simp add: warehouse_inv_def)
qed

text \<open>The custody sign the database derives from the journal is the one the service checked.\<close>

lemma accepted_original:
  assumes "accepted sha256 d mid now p actor actor_name custody original m ls"
  shows "original = Option.bind (mc_original_movement_id p)
     (\<lambda>oid. map_option (\<lambda>x. \<lparr> rec_movement = x, rec_lines = lines_of d oid \<rparr>) (get_mov d oid))"
    and "(mc_original_movement_id p \<noteq> None) = is_linked (mc_movement_type p)"
    and "original = None \<longleftrightarrow> mc_original_movement_id p = None"
proof -
  obtain cu where "check_original d p custody cu = Inr original"
    using assms by (auto simp: accepted_def)
  then show "original = Option.bind (mc_original_movement_id p)
     (\<lambda>oid. map_option (\<lambda>x. \<lparr> rec_movement = x, rec_lines = lines_of d oid \<rparr>) (get_mov d oid))"
    and "original = None \<longleftrightarrow> mc_original_movement_id p = None"
    by (auto simp: check_original_def get_movement_record_def Let_def ebind_Inr_iff
        split: option.splits if_splits)
  show "(mc_original_movement_id p \<noteq> None) = is_linked (mc_movement_type p)"
    using assms by (auto simp: accepted_def validate_positions_def Let_def split: if_splits)
qed

lemma accepted_custody_sign:
  assumes "accepted sha256 d mid now p actor actor_name custody original m ls"
  shows "custody_sign (mv_movement_type m) (original_type d m) =
     custody_delta (mc_movement_type p) original"
  using accepted_original [OF assms] accepted_movement [OF assms]
  by (cases "mc_original_movement_id p")
    (auto simp: custody_sign_def custody_delta_def original_type_def is_linked_def
      split: option.splits)

section \<open>Reading a stored movement\<close>

lemma sorted_line_numbers: "sorted (map ml_line_no (make_lines d mid p))"
  unfolding make_lines_numbers by (simp add: sorted_map sorted_wrt_upt del: upt_Suc)

lemma lines_of_append:
  assumes "journal_wf d" and "mv_id m \<notin> mv_id ` set (movements d)"
    and "\<forall>ml\<in>set ls. ml_movement_id ml = mv_id m"
  shows "lines_of (append_movement d m ls) i =
     (if i = mv_id m then sort_key ml_line_no ls else lines_of d i)"
proof -
  have "filter (\<lambda>ml. ml_movement_id ml = mv_id m) (movement_lines d) = []"
    using assms(1,2) unfolding filter_empty_conv journal_wf_def by metis
  moreover have "filter (\<lambda>ml. ml_movement_id ml = mv_id m) ls = ls"
    using assms(3) by (simp add: filter_id_conv)
  moreover have "filter (\<lambda>ml. ml_movement_id ml = i) ls = []" if "i \<noteq> mv_id m"
    using assms(3) that by (auto simp: filter_empty_conv)
  ultimately show ?thesis by (auto simp: lines_of_def append_movement_def)
qed

lemma sort_make_lines: "sort_key ml_line_no (make_lines d mid p) = make_lines d mid p"
  using sorted_line_numbers by (rule sort_key_id_if_sorted)

definition journal_extends :: "db \<Rightarrow> db \<Rightarrow> bool" where
  "journal_extends d d' \<longleftrightarrow>
     (\<exists>ms ls. movements d' = movements d @ ms \<and> movement_lines d' = movement_lines d @ ls \<and>
        (\<forall>ml\<in>set ls. ml_movement_id ml \<notin> mv_id ` set (movements d)))"

lemma journal_extends_refl [simp]: "journal_extends d d"
  by (simp add: journal_extends_def)

lemma journal_extends_trans:
  assumes "journal_extends a b" and "journal_extends b c" shows "journal_extends a c"
proof -
  obtain ms ls where 1: "movements b = movements a @ ms" "movement_lines b = movement_lines a @ ls"
    "\<forall>ml\<in>set ls. ml_movement_id ml \<notin> mv_id ` set (movements a)"
    using assms(1) by (auto simp: journal_extends_def)
  obtain ns ks where 2: "movements c = movements b @ ns" "movement_lines c = movement_lines b @ ks"
    "\<forall>ml\<in>set ks. ml_movement_id ml \<notin> mv_id ` set (movements b)"
    using assms(2) by (auto simp: journal_extends_def)
  show ?thesis
    unfolding journal_extends_def
    by (rule exI [of _ "ms @ ns"], rule exI [of _ "ls @ ks"]) (use 1 2 in auto)
qed

lemma get_mov_extends:
  "journal_extends d d' \<Longrightarrow> get_mov d i = Some m \<Longrightarrow> get_mov d' i = Some m"
  by (auto simp: journal_extends_def get_mov_def table_get_append)

lemma lines_of_extends:
  assumes "journal_extends d d'" and "i \<in> mv_id ` set (movements d)"
  shows "lines_of d' i = lines_of d i"
proof -
  obtain ls where "movement_lines d' = movement_lines d @ ls"
    "\<forall>ml\<in>set ls. ml_movement_id ml \<notin> mv_id ` set (movements d)"
    using assms(1) by (auto simp: journal_extends_def)
  moreover from this assms(2) have "filter (\<lambda>ml. ml_movement_id ml = i) ls = []"
    by (auto simp: filter_empty_conv)
  ultimately show ?thesis by (simp add: lines_of_def)
qed

lemma get_movement_record_extends:
  assumes "journal_extends d d'" and "get_movement_record d i = Inr r"
  shows "get_movement_record d' i = Inr r"
proof -
  obtain m where m: "get_mov d i = Some m" "r = \<lparr> rec_movement = m, rec_lines = lines_of d i \<rparr>"
    using assms(2) by (auto simp: get_movement_record_def split: option.splits)
  then have "i \<in> mv_id ` set (movements d)" by (auto simp: get_mov_def dest: table_get_SomeD)
  then show ?thesis
    using m get_mov_extends [OF assms(1) m(1)] lines_of_extends [OF assms(1)]
    by (simp add: get_movement_record_def)
qed

lemma append_extends:
  assumes "mv_id m \<notin> mv_id ` set (movements d)" and "\<forall>ml\<in>set ls. ml_movement_id ml = mv_id m"
    and "same_but_projections (append_movement d m ls) d'"
  shows "journal_extends d d'"
  using assms(1,2) same_but_projectionsD(1,2) [OF assms(3)]
  by (auto simp: journal_extends_def append_movement_def)

end
