(* ===== verification/Samples.thy ===== *)
theory Samples
  imports Inventory Catalog
begin

text \<open>
  A small concrete deployment on which the theorems of the development are instantiated:
  an owner, an administrator, two engineers and a manager, two locations and two catalog
  items, with an empty journal. \<open>sample_digest\<close> stands for the digest function.
\<close>

definition sample_user :: "uuid \<Rightarrow> user_role \<Rightarrow> user_access_status \<Rightarrow> user" where
  "sample_user i r s = \<lparr> u_id = i, u_role = r, u_access_status = s,
     u_approved_at = (if s = APPROVED then Some 1 else None),
     u_approved_by_user_id = (if s = APPROVED \<and> r \<noteq> OWNER then Some 1 else None) \<rparr>"

definition sample_location :: "uuid \<Rightarrow> string \<Rightarrow> string \<Rightarrow> location" where
  "sample_location i code ncode = \<lparr> loc_id = i, loc_code = code, loc_normalized_code = ncode,
     loc_name = code, loc_address = None, loc_location_type = WAREHOUSE,
     loc_status = LOC_ACTIVE, loc_archived_at = None \<rparr>"

definition sample_item :: "uuid \<Rightarrow> string \<Rightarrow> item" where
  "sample_item i name = \<lparr> it_id = i, it_category_id = 31,
     it_manufacturer_id = None, it_name = name, it_normalized_name = comparison_text name, it_model = None,
     it_normalized_model = None, it_status = ITEM_ACTIVE, it_identity_signature = name,
     it_archived_at = None, it_attributes = [] \<rparr>"

definition sample_db :: db where
  "sample_db = empty_db\<lparr>
     users := [sample_user 1 OWNER APPROVED, sample_user 2 ADMIN APPROVED,
               sample_user 3 ENGINEER APPROVED, sample_user 4 ENGINEER BLOCKED,
               sample_user 5 MANAGER APPROVED],
     items := [sample_item 20 ''Patch cord'', sample_item 21 ''Switch''],
     locations := [sample_location 10 ''WH1'' ''wh1'', sample_location 11 ''DC1'' ''dc1'']\<rparr>"

definition sample_digest :: "string \<Rightarrow> string" where
  "sample_digest s = replicate 64 (CHR ''0'')"

definition sample_attribute ::
    "uuid \<Rightarrow> uuid \<Rightarrow> string \<Rightarrow> attribute_data_type \<Rightarrow> bool \<Rightarrow> category_attribute" where
  "sample_attribute i c k t r = \<lparr> at_id = i, at_category_id = c, at_key = k, at_data_type = t,
     at_required = r, at_searchable = True, at_filterable = True, at_filter_type = FT_EXACT,
     at_sort_order = int i, at_allowed_values = None, at_validation_metadata = None \<rparr>"

definition sample_schema :: catalog_schema where
  "sample_schema = \<lparr> cs_categories =
     [\<lparr> cat_id = 30, cat_key = ''cables'', cat_display_name = ''Cables'', cat_parent_id = None,
         cat_sort_order = 1 \<rparr>,
      \<lparr> cat_id = 31, cat_key = ''optical_patch_cord'', cat_display_name = ''Patch cords'',
         cat_parent_id = Some 30,
         cat_sort_order = 2 \<rparr>,
      \<lparr> cat_id = 32, cat_key = ''transceiver_fc'', cat_display_name = ''FC'', cat_parent_id = Some 30,
         cat_sort_order = 2 \<rparr>],
     cs_attributes =
     [sample_attribute 1 31 ''length'' DT_DECIMAL False, sample_attribute 2 32 ''reach'' DT_TEXT True,
      sample_attribute 3 32 ''reach_m'' DT_INTEGER True] \<rparr>"

definition sample_catalog :: catalog_env where
  "sample_catalog = \<lparr> ce_schema = sample_schema, ce_sha256 = sample_digest \<rparr>"

definition sample_makers :: db where
  "sample_makers = sample_db\<lparr>items := [], manufacturers :=
     [\<lparr> mf_id = 40, mf_name = ''Acme'', mf_normalized_name = ''acme'' \<rparr>]\<rparr>"

text \<open>A transceiver with a reach of 10 km, and a patch cord whose model is a blank.\<close>

definition sample_reach :: string where
  "sample_reach = ''10 '' @ points_text [1082, 1084]"

definition sample_transceiver :: item_create where
  "sample_transceiver = \<lparr> ic_category_key = ''transceiver_fc'', ic_manufacturer_id = Some 40,
     ic_name = ''FC module'', ic_model = Some ''FC16'',
     ic_attributes = [(''reach'', RStr sample_reach)] \<rparr>"

definition sample_cord :: item_create where
  "sample_cord = \<lparr> ic_category_key = ''optical_patch_cord'', ic_manufacturer_id = None,
     ic_name = ''Cord'', ic_model = Some '' '', ic_attributes = [(''length'', RStr ''1.50'')] \<rparr>"

definition sample_line :: "uuid \<Rightarrow> int \<Rightarrow> movement_line_create" where
  "sample_line i q = \<lparr> lc_item_id = i, lc_quantity = q \<rparr>"

definition sample_receipt :: movement_create where
  "sample_receipt = \<lparr> mc_movement_type = RECEIPT, mc_source_location_id = None,
     mc_destination_location_id = Some 10, mc_original_movement_id = None,
     mc_client_request_id = ''r1'', mc_lines = [sample_line 21 2, sample_line 20 5] \<rparr>"

definition sample_issue :: movement_create where
  "sample_issue = \<lparr> mc_movement_type = ISSUE, mc_source_location_id = Some 10,
     mc_destination_location_id = None, mc_original_movement_id = None,
     mc_client_request_id = ''i1'', mc_lines = [sample_line 20 3] \<rparr>"

definition sample_transfer :: movement_create where
  "sample_transfer = \<lparr> mc_movement_type = TRANSFER, mc_source_location_id = Some 10,
     mc_destination_location_id = Some 11, mc_original_movement_id = None,
     mc_client_request_id = ''t1'', mc_lines = [sample_line 20 4] \<rparr>"

definition sample_receipt_movement :: movement where
  "sample_receipt_movement = \<lparr> mv_id = 100, mv_journal_seq = 1, mv_line_count = 2,
     mv_movement_type = RECEIPT, mv_actor_user_id = 2, mv_custody_user_id = None,
     mv_source_location_id = None, mv_destination_location_id = Some 10,
     mv_original_movement_id = None, mv_client_request_id = ''r1'',
     mv_request_fingerprint = replicate 64 (CHR ''0''),
     mv_actor_display_name_snapshot = ''Admin'',
     mv_source_location_code_snapshot = None, mv_source_location_name_snapshot = None,
     mv_destination_location_code_snapshot = Some ''WH1'',
     mv_destination_location_name_snapshot = Some ''WH1'', mv_occurred_at = 5 \<rparr>"

definition sample_receipt_lines :: "movement_line list" where
  "sample_receipt_lines =
     [\<lparr> ml_movement_id = 100, ml_line_no = 1, ml_item_id = 20, ml_quantity = 5,
        ml_item_name_snapshot = ''Patch cord'', ml_manufacturer_name_snapshot = None,
        ml_model_snapshot = None \<rparr>,
      \<lparr> ml_movement_id = 100, ml_line_no = 2, ml_item_id = 21, ml_quantity = 2,
        ml_item_name_snapshot = ''Switch'', ml_manufacturer_name_snapshot = None,
        ml_model_snapshot = None \<rparr>]"

definition sample_stocked :: db where
  "sample_stocked = sample_db\<lparr>
     movements := [sample_receipt_movement], movement_lines := sample_receipt_lines,
     stock_balances := [\<lparr> sb_item_id = 20, sb_location_id = 10, sb_quantity = 5 \<rparr>,
                        \<lparr> sb_item_id = 21, sb_location_id = 10, sb_quantity = 2 \<rparr>]\<rparr>"

definition sample_issue_movement :: movement where
  "sample_issue_movement = \<lparr> mv_id = 101, mv_journal_seq = 2, mv_line_count = 1,
     mv_movement_type = ISSUE, mv_actor_user_id = 3, mv_custody_user_id = Some 3,
     mv_source_location_id = Some 10, mv_destination_location_id = None,
     mv_original_movement_id = None, mv_client_request_id = ''i1'',
     mv_request_fingerprint = replicate 64 (CHR ''0''),
     mv_actor_display_name_snapshot = ''Eng'',
     mv_source_location_code_snapshot = Some ''WH1'',
     mv_source_location_name_snapshot = Some ''WH1'',
     mv_destination_location_code_snapshot = None,
     mv_destination_location_name_snapshot = None, mv_occurred_at = 6 \<rparr>"

definition sample_issue_line :: movement_line where
  "sample_issue_line = \<lparr> ml_movement_id = 101, ml_line_no = 1, ml_item_id = 20, ml_quantity = 3,
     ml_item_name_snapshot = ''Patch cord'', ml_manufacturer_name_snapshot = None,
     ml_model_snapshot = None \<rparr>"

definition sample_issued :: db where
  "sample_issued = sample_stocked\<lparr>
     movements := [sample_receipt_movement, sample_issue_movement],
     movement_lines := sample_receipt_lines @ [sample_issue_line],
     stock_balances := [\<lparr> sb_item_id = 20, sb_location_id = 10, sb_quantity = 2 \<rparr>,
                        \<lparr> sb_item_id = 21, sb_location_id = 10, sb_quantity = 2 \<rparr>],
     user_item_custody_balances := [\<lparr> cb_user_id = 3, cb_item_id = 20, cb_quantity = 3 \<rparr>]\<rparr>"

lemma sample_fingerprint [eval_simps]:
  "canonical_fingerprint sample_digest x = replicate 64 (CHR ''0'')"
  by (simp add: canonical_fingerprint_def sample_digest_def)

lemma sample_texts [eval_simps]:
  "normalize_idempotency_key ''r1'' = ''r1''" "normalize_idempotency_key ''i1'' = ''i1''"
  "normalize_idempotency_key ''t1'' = ''t1''" "normalize_idempotency_key ''v1'' = ''v1''"
  "normalize_idempotency_key ''Admin'' = ''Admin''" "normalize_idempotency_key ''Eng'' = ''Eng''"
  by code_simp+

lemma btrim_Cons [eval_simps]: "btrim (c # cs) = [] \<longleftrightarrow> c = CHR '' '' \<and> btrim cs = []"
  by (simp add: btrim_eq_Nil)

declare create_movement_def [eval_simps] create_movement_internal_def [eval_simps]
  reverse_movement_def [eval_simps] reversal_payload_def [eval_simps]
  get_movement_record_def [eval_simps] lines_of_def [eval_simps]
  check_custody_request_def [eval_simps] normalize_inline_text_def [eval_simps]
  existing_idempotent_result_def [eval_simps] lock_custody_user_def [eval_simps]
  validate_positions_def [eval_simps] is_linked_def [eval_simps] check_original_def [eval_simps]
  check_locations_def [eval_simps] location_ids_def [eval_simps] List.map_filter_def [eval_simps]
  get_loc_def [eval_simps] check_items_def [eval_simps] item_ids_def [eval_simps]
  get_item_def [eval_simps] make_movement_def [eval_simps] insert_movement_def [eval_simps]
  protect_procurement_receipt_movement_def [eval_simps]
  validate_warehouse_correction_header_def [eval_simps] validate_movement_custody_def [eval_simps]
  movement_checks_def [eval_simps] ck_positions_distinct_def [eval_simps]
  ck_operation_positions_def [eval_simps] ck_custody_movement_type_def [eval_simps]
  ck_location_snapshots_def [eval_simps] ck_original_relationship_def [eval_simps]
  ck_movement_text_def [eval_simps] ck_line_count_range_def [eval_simps]
  movement_unique_keys_def [eval_simps] movement_foreign_keys_def [eval_simps]
  opt_fk_def [eval_simps] get_user_def [eval_simps] sorted_lines_def [eval_simps]
  check_line_def [eval_simps] check_balance_def [eval_simps] stock_of_def [eval_simps]
  custody_of_def [eval_simps] table_qty_def [eval_simps] custody_delta_def [eval_simps]
  make_lines_def [eval_simps] enumerate_eq_zip [eval_simps] make_line_def [eval_simps]
  insert_movement_line_def [eval_simps] movement_line_checks_def [eval_simps]
  movement_line_unique_keys_def [eval_simps] movement_line_foreign_keys_def [eval_simps]
  validate_warehouse_correction_line_def [eval_simps] get_mov_def [eval_simps]
  next_journal_seq_def [eval_simps] refresh_warehouse_projection_def [eval_simps]
  refresh_stock_def [eval_simps] refresh_custody_def [eval_simps] expected_stock_def [eval_simps]
  expected_custody_def [eval_simps] journal_def [eval_simps] stock_delta_def [eval_simps]
  MAX_SAFE_QUANTITY_def [eval_simps] table_set_def [eval_simps] table_del_def [eval_simps]
  table_put_def [eval_simps] sb_key_def [eval_simps] cb_key_def [eval_simps]
  mk_stock_balance_def [eval_simps] mk_custody_balance_def [eval_simps]
  custody_entry_delta_def [eval_simps] original_type_def [eval_simps] custody_sign_def [eval_simps]
  custody_holder_eligible_def [eval_simps] CUSTODY_ROLES_def [eval_simps]
  custody_user_approved_def [eval_simps] validate_warehouse_movement_line_count_def [eval_simps]

lemmas sample_data = sample_db_def sample_line_def sample_location_def sample_item_def
  sample_user_def sample_receipt_def sample_issue_def sample_transfer_def
  sample_receipt_movement_def sample_receipt_lines_def sample_stocked_def
  sample_issue_movement_def sample_issue_line_def sample_issued_def

lemma sample_receipt_run:
  "create_movement sample_digest sample_db 100 5 sample_receipt 2 ''Admin'' None =
     Inr (sample_stocked, \<lparr> res_record = \<lparr> rec_movement = sample_receipt_movement,
       rec_lines = sample_receipt_lines \<rparr>, res_replayed = False \<rparr>)"
  by (simp add: eval_simps sample_data Let_def)

lemma sample_issue_run:
  "create_movement sample_digest sample_stocked 101 6 sample_issue 3 ''Eng'' (Some 3) =
     Inr (sample_issued, \<lparr> res_record = \<lparr> rec_movement = sample_issue_movement,
       rec_lines = [sample_issue_line] \<rparr>, res_replayed = False \<rparr>)"
  by (simp add: eval_simps sample_data Let_def)

end
