(* ===== verification/Warehouse.thy ===== *)
theory Warehouse
  imports Ledger Samples
begin

text \<open>
  What the warehouse service promises: the projections never drift from the journal, a
  movement changes the balances by exactly its signed quantities, repeated requests are
  replayed, a reversal undoes its original, quantities are conserved, and the checks of the
  service are at least as strict as the constraints and triggers of the database.
\<close>

section \<open>Shared facts about calls of the service\<close>

lemma create_movement_effect:
  assumes inv: "warehouse_inv d"
    and call: "create_movement_internal sha256 d mid now p actor actor_name custody = Inr (d', r)"
  shows "warehouse_inv d'" and "journal_extends d d'"
proof -
  show "warehouse_inv d'"
    using call by (cases rule: create_movement_cases) (use inv new_movement_inv in blast)+
  show "journal_extends d d'"
    using call
  proof (cases rule: create_movement_cases)
    case replay
    then show ?thesis by simp
  next
    case (new original m ls)
    show ?thesis
      using append_extends [OF _ _ new_movement_effect(1) [OF inv new(1,3)]]
        accepted_fresh(1,4) [OF new(1)] accepted_movement(1) [OF new(1)] by simp
  qed
qed

lemma new_call:
  assumes "create_movement_internal sha256 d mid now p actor actor_name custody = Inr (d', r)"
    and "\<not> res_replayed r"
  obtains original m ls where
    "accepted sha256 d mid now p actor actor_name custody original m ls"
    "efold (\<lambda>ml d. refresh_warehouse_projection d mid (ml_item_id ml)) ls
         (append_movement d m ls) = Inr d'"
    "r = \<lparr> res_record = \<lparr> rec_movement = m, rec_lines = ls \<rparr>, res_replayed = False \<rparr>"
  using assms(1) by (cases rule: create_movement_cases) (use assms(2) that in auto)

lemma create_movement_internalI:
  "create_movement sha256 d mid now p actor actor_name custody = Inr x \<Longrightarrow>
     create_movement_internal sha256 d mid now p actor actor_name custody = Inr x"
  by (simp add: create_movement_def split: if_splits)

lemma warehouse_inv_no_journal:
  assumes "movements d = []" "movement_lines d = []" "stock_balances d = []"
    "user_item_custody_balances d = []"
  shows "warehouse_inv d"
  using assms
  by (simp add: warehouse_inv_def journal_wf_def projection_tables_ok_def table_ok_def
      projections_agree_def stock_of_def custody_of_def table_qty_def expected_stock_def
      expected_custody_def journal_def custody_holders_eligible_def)

lemma sample_db_inv: "warehouse_inv sample_db"
  by (rule warehouse_inv_no_journal) (simp_all add: sample_db_def)

lemma sample_stocked_inv: "warehouse_inv sample_stocked"
  using create_movement_effect(1) [OF sample_db_inv
      create_movement_internalI [OF sample_receipt_run]] .

lemma sample_issued_inv: "warehouse_inv sample_issued"
  using create_movement_effect(1) [OF sample_stocked_inv
      create_movement_internalI [OF sample_issue_run]] .

section \<open>The ledger\<close>

text \<open>
  C1. Every successful call of \<open>create_movement\<close> keeps the warehouse invariant: the journal
  stays well formed, both projection tables hold unique keys with quantities in
  \<open>1 .. 2^53 - 1\<close> that equal the sums of the journal, and only approved holders of a
  custody role hold equipment.
\<close>

theorem create_movement_keeps_inv:
  assumes "warehouse_inv d"
    and "create_movement sha256 d mid now p actor actor_name custody = Inr (d', r)"
  shows "warehouse_inv d'"
  using create_movement_effect(1) [OF assms(1) create_movement_internalI [OF assms(2)]] .

theorem create_movement_keeps_inv_witness:
  "warehouse_inv sample_stocked \<and> stock_of sample_stocked 20 10 = 5"
  using create_movement_keeps_inv [OF sample_db_inv sample_receipt_run]
  by (simp add: sample_data eval_simps)

text \<open>
  C2. \<open>create_movement\<close> refines the abstract ledger: a call that stores a new movement
  adds the requested quantity of each item at the destination, subtracts it at the source,
  adds it to the custody of the custody user with the sign of the operation, and appends
  exactly one movement, with the line quantities of the request, to the journal.
\<close>

theorem create_movement_refines:
  assumes "warehouse_inv d"
    and "create_movement sha256 d mid now p actor actor_name custody = Inr (d', r)"
    and "\<not> res_replayed r"
  shows "stock_of d' = spec_stock (stock_of d) p \<and>
     custody_of d' = spec_custody (custody_of d) p custody
       (if mc_movement_type p = ISSUE then 1 else if mc_movement_type p = RETURN then - 1 else 0) \<and>
     movements d' = movements d @ [rec_movement (res_record r)] \<and>
     movement_lines d' = movement_lines d @ rec_lines (res_record r) \<and>
     (\<forall>i. line_quantity (rec_lines (res_record r)) i = payload_quantity p i)"
proof -
  note call = create_movement_internalI [OF assms(2)]
  have t: "mc_movement_type p \<noteq> REVERSAL"
    using assms(2) by (auto simp: create_movement_def)
  obtain original m ls where
    acc: "accepted sha256 d mid now p actor actor_name custody original m ls" and
    refresh: "efold (\<lambda>ml d. refresh_warehouse_projection d mid (ml_item_id ml)) ls
         (append_movement d m ls) = Inr d'" and
    r: "r = \<lparr> res_record = \<lparr> rec_movement = m, rec_lines = ls \<rparr>, res_replayed = False \<rparr>"
    using new_call [OF call assms(3)] by metis
  note eff = new_movement_effect [OF assms(1) acc refresh]
  have "custody_delta (mc_movement_type p) original =
      (if mc_movement_type p = ISSUE then 1 else if mc_movement_type p = RETURN then - 1 else 0)"
    using t by (auto simp: custody_delta_def split: option.splits)
  then show ?thesis
    using eff(4,5) same_but_projectionsD(1,2) [OF eff(1)] accepted_custody_sign [OF acc]
      accepted_distinct(3) [OF acc]
    by (auto simp: r fun_eq_iff append_movement_def)
qed

theorem create_movement_refines_witness:
  "stock_of sample_issued 20 10 = 2 \<and> custody_of sample_issued 3 20 = 3"
  using create_movement_refines [OF sample_stocked_inv sample_issue_run]
  by (simp add: spec_stock_def spec_custody_def payload_quantity_def sample_data eval_simps)

section \<open>Idempotency\<close>

lemma find_extends:
  "journal_extends d d' \<Longrightarrow> find P (movements d) = Some m \<Longrightarrow> find P (movements d') = Some m"
  by (auto simp: journal_extends_def find_append)

lemma existing_extends:
  assumes "journal_extends d d'" and "existing_idempotent_result d actor q f = Inr (Some r)"
  shows "existing_idempotent_result d' actor q f = Inr (Some r)"
proof -
  obtain m where m: "find (\<lambda>m. mv_actor_user_id m = actor \<and> mv_client_request_id m = q)
      (movements d) = Some m"
    and r: "mv_request_fingerprint m = f"
      "r = \<lparr> res_record = \<lparr> rec_movement = m, rec_lines = lines_of d (mv_id m) \<rparr>,
             res_replayed = True \<rparr>"
    using assms(2) by (auto simp: existing_idempotent_result_def split: option.splits if_splits)
  have "m \<in> set (movements d)" using m by (auto simp: find_Some_iff)
  then have "lines_of d' (mv_id m) = lines_of d (mv_id m)"
    using lines_of_extends [OF assms(1)] by simp
  with find_extends [OF assms(1) m] r show ?thesis
    by (simp add: existing_idempotent_result_def)
qed

lemma storable_request:
  assumes "create_movement_internal sha256 d mid now p actor actor_name custody = Inr x"
  shows "\<exists>q. normalize_inline_text (mc_client_request_id p) ''client_request_id'' 128 = Inr q \<and>
     CHR 0x00 \<notin> set q" and "check_custody_request (mc_movement_type p) actor custody = Inr ()"
  using assms by (auto simp: create_movement_internal_def ebind_Inr_iff relabel_Inr_iff Let_def)

lemma replayed_call:
  assumes inv: "warehouse_inv d"
    and call: "create_movement_internal sha256 d mid now p actor actor_name custody = Inr (d', r)"
  shows "\<exists>q. normalize_inline_text (mc_client_request_id p) ''client_request_id'' 128 = Inr q \<and>
     CHR 0x00 \<notin> set q \<and> check_custody_request (mc_movement_type p) actor custody = Inr () \<and>
     existing_idempotent_result d' actor q
       (canonical_fingerprint sha256 (movement_canonical p q custody)) =
       Inr (Some (r\<lparr>res_replayed := True\<rparr>))"
  using call
proof (cases rule: create_movement_cases)
  case replay
  moreover have "r\<lparr>res_replayed := True\<rparr> = r" using replay(1) by simp
  ultimately show ?thesis using storable_request [OF call] by auto
next
  case (new original m ls)
  note acc = new(1)
  note eff = new_movement_effect [OF inv acc new(3)]
  from acc obtain q name where
    q: "normalize_inline_text (mc_client_request_id p) ''client_request_id'' 128 = Inr q"
    and m: "m = make_movement d mid now p actor name custody q
              (canonical_fingerprint sha256 (movement_canonical p q custody))"
    and c: "check_custody_request (mc_movement_type p) actor custody = Inr ()"
    and ins: "insert_movement d m = Inr (d\<lparr>movements := movements d @ [m]\<rparr>)"
    and ls: "ls = make_lines d mid p"
    by (auto simp: accepted_def)
  have mq: "mv_actor_user_id m = actor" "mv_client_request_id m = q" "mv_id m = mid"
    "mv_request_fingerprint m = canonical_fingerprint sha256 (movement_canonical p q custody)"
    by (simp_all add: m make_movement_def Let_def)
  have "find (\<lambda>m. mv_actor_user_id m = actor \<and> mv_client_request_id m = q) (movements d) = None"
    using ins mq by (auto simp: find_None_iff result_simps movement_unique_keys_def)
  then have "find (\<lambda>m. mv_actor_user_id m = actor \<and> mv_client_request_id m = q) (movements d') = Some m"
    using same_but_projectionsD(1) [OF eff(1)] mq by (simp add: append_movement_def find_append)
  moreover have "lines_of d' mid = ls"
    using lines_of_append [OF warehouse_invD(1) [OF inv], of m ls mid]
      accepted_fresh(1,4) [OF acc] mq(3) same_but_projectionsD(2) [OF eff(1)] sort_make_lines
    by (simp add: ls lines_of_def)
  ultimately have "existing_idempotent_result d' actor q
       (canonical_fingerprint sha256 (movement_canonical p q custody)) =
       Inr (Some (r\<lparr>res_replayed := True\<rparr>))"
    using mq new(4) by (simp add: existing_idempotent_result_def)
  with q c storable_request [OF call] show ?thesis by auto
qed

lemma create_movement_replays:
  assumes "warehouse_inv d"
    and "create_movement sha256 d mid now p actor actor_name custody = Inr (d', r)"
    and "journal_extends d' d''"
  shows "create_movement sha256 d'' mid' now' p actor actor_name' custody =
     Inr (d'', r\<lparr>res_replayed := True\<rparr>)"
proof -
  obtain q where "normalize_inline_text (mc_client_request_id p) ''client_request_id'' 128 = Inr q"
    and "CHR 0x00 \<notin> set q" and "check_custody_request (mc_movement_type p) actor custody = Inr ()"
    and "existing_idempotent_result d'' actor q
       (canonical_fingerprint sha256 (movement_canonical p q custody)) =
       Inr (Some (r\<lparr>res_replayed := True\<rparr>))"
    using replayed_call [OF assms(1) create_movement_internalI [OF assms(2)]]
      existing_extends [OF assms(3)] by blast
  moreover have "mc_movement_type p \<noteq> REVERSAL"
    using assms(2) by (auto simp: create_movement_def)
  ultimately show ?thesis by (simp add: create_movement_def create_movement_internal_def)
qed

text \<open>
  C3. Idempotency: after a successful call, the same request of the same actor, sent again
  at any later time (whatever the journal has gained since), returns the same stored record
  marked as replayed and leaves the database unchanged.
\<close>

theorem create_movement_idempotent:
  assumes "warehouse_inv d"
    and "create_movement sha256 d mid now p actor actor_name custody = Inr (d', r)"
    and "journal_extends d' d''"
  shows "create_movement sha256 d'' mid' now' p actor actor_name' custody =
     Inr (d'', r\<lparr>res_replayed := True\<rparr>)"
  using create_movement_replays [OF assms] .

theorem create_movement_idempotent_witness:
  "create_movement sample_digest sample_issued 300 99 sample_receipt 2 ''Admin'' None =
     Inr (sample_issued, \<lparr> res_record = \<lparr> rec_movement = sample_receipt_movement,
       rec_lines = sample_receipt_lines \<rparr>, res_replayed = True \<rparr>)"
proof -
  have "journal_extends sample_stocked sample_issued"
    using create_movement_effect(2) [OF sample_stocked_inv
        create_movement_internalI [OF sample_issue_run]] .
  from create_movement_idempotent [OF sample_db_inv sample_receipt_run this, of 300 99 "''Admin''"]
  show ?thesis by simp
qed

section \<open>Reversal\<close>

lemma reversal_payload_quantity:
  "payload_quantity (reversal_payload rc oid key) i = line_quantity (rec_lines rc) i"
proof -
  have "sum_list (map lc_quantity (filter (\<lambda>l. lc_item_id l = i)
      (map (\<lambda>x. \<lparr> lc_item_id = ml_item_id x, lc_quantity = ml_quantity x \<rparr>) xs))) =
    sum_list (map ml_quantity (filter (\<lambda>x. ml_item_id x = i) xs))" for xs
    by (induction xs) auto
  then show ?thesis
    by (simp add: payload_quantity_def reversal_payload_def line_quantity_def)
qed

lemma reverse_movement_effect:
  assumes inv: "warehouse_inv d" and m0: "get_mov d oid = Some m0"
    and call: "reverse_movement sha256 d mid now oid key actor actor_name = Inr (d', r)"
    and new: "\<not> res_replayed r"
  shows "stock_of d' i l = stock_of d i l - stock_sign m0 l * line_quantity (lines_of d oid) i"
    and "custody_of d' u i = custody_of d u i -
       (if mv_custody_user_id m0 = Some u
        then custody_sign (mv_movement_type m0) (original_type d m0) *
             line_quantity (lines_of d oid) i
        else 0)"
    and "mv_movement_type m0 \<noteq> REVERSAL"
    and "\<forall>x\<in>set (movements d). \<not> (mv_movement_type x = REVERSAL \<and> mv_original_movement_id x = Some oid)"
    and "\<forall>x\<in>set (procurement_requests d). pr_final_movement_id x \<noteq> Some oid"
    and "mv_original_movement_id (rec_movement (res_record r)) = Some oid"
    and "mv_movement_type (rec_movement (res_record r)) = REVERSAL"
    and "movements d' = movements d @ [rec_movement (res_record r)]"
    and "procurement_requests d' = procurement_requests d"
proof -
  let ?rc = "\<lparr> rec_movement = m0, rec_lines = lines_of d oid \<rparr>"
  let ?p = "reversal_payload ?rc oid key"
  have call': "create_movement_internal sha256 d mid now ?p actor actor_name
      (mv_custody_user_id m0) = Inr (d', r)"
    using call m0 by (simp add: reverse_movement_def get_movement_record_def)
  obtain original m ls where
    acc: "accepted sha256 d mid now ?p actor actor_name (mv_custody_user_id m0) original m ls" and
    refresh: "efold (\<lambda>ml d. refresh_warehouse_projection d mid (ml_item_id ml)) ls
         (append_movement d m ls) = Inr d'" and
    r: "r = \<lparr> res_record = \<lparr> rec_movement = m, rec_lines = ls \<rparr>, res_replayed = False \<rparr>"
    using new_call [OF call' new] by metis
  note eff = new_movement_effect [OF inv acc refresh]
  have original: "original = Some ?rc"
    using accepted_original(1) [OF acc] m0 by (simp add: reversal_payload_def)
  obtain cu where co: "check_original d ?p (mv_custody_user_id m0) cu = Inr original"
    using acc by (auto simp: accepted_def)
  then show type: "mv_movement_type m0 \<noteq> REVERSAL"
    and "\<forall>x\<in>set (movements d). \<not> (mv_movement_type x = REVERSAL \<and> mv_original_movement_id x = Some oid)"
    and "\<forall>x\<in>set (procurement_requests d). pr_final_movement_id x \<noteq> Some oid"
    using m0 by (auto simp: check_original_def get_movement_record_def reversal_payload_def Let_def
        split: if_splits)
  show "stock_of d' i l = stock_of d i l - stock_sign m0 l * line_quantity (lines_of d oid) i"
    unfolding eff(4) spec_stock_def reversal_payload_quantity
    by (simp add: reversal_payload_def stock_sign_def)
  have "custody_delta REVERSAL (Some ?rc) = - custody_sign (mv_movement_type m0) (original_type d m0)"
    using type by (auto simp: custody_delta_def custody_sign_def)
  then show "custody_of d' u i = custody_of d u i -
       (if mv_custody_user_id m0 = Some u
        then custody_sign (mv_movement_type m0) (original_type d m0) *
             line_quantity (lines_of d oid) i
        else 0)"
    unfolding eff(5) spec_custody_def reversal_payload_quantity accepted_custody_sign [OF acc]
      original by (simp add: reversal_payload_def)
  show "mv_original_movement_id (rec_movement (res_record r)) = Some oid"
    "mv_movement_type (rec_movement (res_record r)) = REVERSAL"
    using accepted_movement(2,5) [OF acc] by (simp_all add: r reversal_payload_def)
  show "movements d' = movements d @ [rec_movement (res_record r)]"
    "procurement_requests d' = procurement_requests d"
    using same_but_projectionsD(1,6) [OF eff(1)] by (simp_all add: r append_movement_def)
qed

lemma reverse_movement_keeps:
  assumes "warehouse_inv d"
    and "reverse_movement sha256 d mid now oid key actor actor_name = Inr (d', r)"
  shows "warehouse_inv d'" and "journal_extends d d'"
  using assms(2) create_movement_effect [OF assms(1)]
  by (auto simp: reverse_movement_def ebind_Inr_iff)

text \<open>
  C4. Reversing a movement that was just created restores every stock balance and every
  custody balance to the value it had before the movement.
\<close>

theorem reversal_restores_balances:
  assumes inv: "warehouse_inv d"
    and create: "create_movement sha256 d mid now p actor actor_name custody = Inr (d1, r1)"
    and new1: "\<not> res_replayed r1"
    and reverse: "reverse_movement sha256 d1 mid2 now2 mid key2 actor2 actor_name2 = Inr (d2, r2)"
    and new2: "\<not> res_replayed r2"
  shows "stock_of d2 = stock_of d \<and> custody_of d2 = custody_of d"
proof -
  note call = create_movement_internalI [OF create]
  obtain original m ls where
    acc: "accepted sha256 d mid now p actor actor_name custody original m ls" and
    refresh: "efold (\<lambda>ml d. refresh_warehouse_projection d mid (ml_item_id ml)) ls
         (append_movement d m ls) = Inr d1"
    using new_call [OF call new1] by metis
  note eff = new_movement_effect [OF inv acc refresh] and mv = accepted_movement [OF acc]
    and fresh = accepted_fresh [OF acc] and wf = warehouse_invD(1) [OF inv]
  have inv1: "warehouse_inv d1" using create_movement_effect(1) [OF inv call] .
  have fresh': "mv_id m \<notin> mv_id ` set (movements d)" using fresh(1) mv(1) by simp
  have m: "get_mov d1 mid = Some m"
    using get_mov_append [OF fresh', of ls mid] mv(1) same_but_projectionsD(1) [OF eff(1)]
    by (simp add: get_mov_def)
  have ls: "ls = make_lines d mid p" using acc by (simp add: accepted_def)
  have lines: "lines_of d1 mid = ls"
    using lines_of_append [OF wf fresh' fresh(4), of mid] mv(1)
      same_but_projectionsD(2) [OF eff(1)] by (simp add: lines_of_def ls sort_make_lines)
  have ot: "original_type d1 m = original_type d m"
    using original_type_append [OF wf fresh' fresh(2), of ls]
      original_type_cong [OF same_but_projectionsD(1) [OF eff(1)]] by simp
  note rev = reverse_movement_effect [OF inv1 m reverse new2]
  have "stock_of d2 i l = stock_of d i l" for i l
    unfolding rev(1) lines eff(4) spec_stock_def stock_sign_def accepted_distinct(3) [OF acc]
    by (simp add: mv)
  moreover have "custody_of d2 u i = custody_of d u i" for u i
    unfolding rev(2) lines eff(5) spec_custody_def accepted_distinct(3) [OF acc] ot
    by (simp add: mv)
  ultimately show ?thesis by (simp add: fun_eq_iff)
qed

lemma sample_reversal_new:
  "\<exists>d r. reverse_movement sample_digest sample_issued 102 7 101 ''v1'' 2 ''Admin'' = Inr (d, r) \<and>
     \<not> res_replayed r"
  by (simp add: eval_simps sample_data Let_def)

theorem reversal_restores_balances_witness:
  "\<exists>d r. reverse_movement sample_digest sample_issued 102 7 101 ''v1'' 2 ''Admin'' = Inr (d, r) \<and>
     stock_of d 20 10 = 5 \<and> custody_of d 3 20 = 0"
proof -
  obtain d r where run: "reverse_movement sample_digest sample_issued 102 7 101 ''v1'' 2 ''Admin''
      = Inr (d, r)" "\<not> res_replayed r"
    using sample_reversal_new by blast
  have "stock_of d = stock_of sample_stocked \<and> custody_of d = custody_of sample_stocked"
    using reversal_restores_balances [OF sample_stocked_inv sample_issue_run _ run] by simp
  moreover have "stock_of sample_stocked 20 10 = 5" "custody_of sample_stocked 3 20 = 0"
    by (simp_all add: sample_data eval_simps)
  ultimately show ?thesis using run by auto
qed

text \<open>
  C5. A movement is reversed at most once, and a reversal is never reversed: in every later
  state of the journal another reversal of the same original, under any other request key,
  is refused.
\<close>

theorem reversed_at_most_once:
  assumes inv: "warehouse_inv d"
    and first: "reverse_movement sha256 d mid now oid key actor actor_name = Inr (d', r)"
    and new: "\<not> res_replayed r"
    and later: "warehouse_inv d''" "journal_extends d' d''"
    and second: "reverse_movement sha256 d'' mid2 now2 oid2 key2 actor2 actor_name2 = Inr (d3, r2)"
    and new2: "\<not> res_replayed r2"
  shows "oid2 \<noteq> oid \<and> oid2 \<noteq> mv_id (rec_movement (res_record r))"
proof -
  obtain m0 where m0: "get_mov d oid = Some m0"
    using first by (auto simp: reverse_movement_def get_movement_record_def ebind_Inr_iff
        split: option.splits)
  note rev = reverse_movement_effect [OF inv m0 first new]
  let ?m = "rec_movement (res_record r)"
  have in'': "?m \<in> set (movements d'')"
    using later(2) rev(8) by (auto simp: journal_extends_def)
  obtain m2 where m2: "get_mov d'' oid2 = Some m2"
    using second by (auto simp: reverse_movement_def get_movement_record_def ebind_Inr_iff
        split: option.splits)
  note rev2 = reverse_movement_effect [OF later(1) m2 second new2]
  have "oid2 \<noteq> oid" using rev2(4) in'' rev(6,7) by blast
  moreover have "oid2 \<noteq> mv_id ?m"
  proof
    assume "oid2 = mv_id ?m"
    then have "m2 = ?m"
      using m2 in'' warehouse_invD(1) [OF later(1)]
      by (simp add: get_mov_def journal_wf_def table_get_member)
    then show False using rev2(3) rev(7) by simp
  qed
  ultimately show ?thesis ..
qed

text \<open>The witness: the reversal of the sample issue, after which only the receipt is left to reverse.\<close>

definition sample_reversed :: db where
  "sample_reversed = (case reverse_movement sample_digest sample_issued 102 7 101 ''v1'' 2 ''Admin''
     of Inl _ \<Rightarrow> empty_db | Inr (d, _) \<Rightarrow> d)"

lemma sample_second_reversal:
  "\<exists>d r. reverse_movement sample_digest sample_reversed 103 8 100 ''t1'' 2 ''Admin'' = Inr (d, r) \<and>
     \<not> res_replayed r"
  by (simp add: sample_reversed_def eval_simps sample_data Let_def)

theorem reversed_at_most_once_witness:
  "\<exists>r. reverse_movement sample_digest sample_issued 102 7 101 ''v1'' 2 ''Admin'' =
         Inr (sample_reversed, r) \<and> (100::nat) \<noteq> mv_id (rec_movement (res_record r))"
proof -
  obtain r where run: "reverse_movement sample_digest sample_issued 102 7 101 ''v1'' 2 ''Admin''
      = Inr (sample_reversed, r)" "\<not> res_replayed r"
    using sample_reversal_new by (auto simp: sample_reversed_def)
  obtain d2 r2 where run2: "reverse_movement sample_digest sample_reversed 103 8 100 ''t1'' 2 ''Admin''
      = Inr (d2, r2)" "\<not> res_replayed r2"
    using sample_second_reversal by blast
  have "100 \<noteq> (101::nat) \<and> 100 \<noteq> mv_id (rec_movement (res_record r))"
    using reversed_at_most_once [OF sample_issued_inv run
        reverse_movement_keeps(1) [OF sample_issued_inv run(1)] journal_extends_refl run2] .
  with run show ?thesis by blast
qed

end
