(* ===== verification/Warehouse_Safety.thy ===== *)
theory Warehouse_Safety
  imports Warehouse
begin

text \<open>
  Conservation of quantities, the limits a movement respects, and the agreement of the
  service's checks with the constraints and triggers of the database.
\<close>

section \<open>Conservation\<close>

context quantity_table
begin

lemma sum_rows:
  assumes ok: "table_ok key qty rs" and K: "finite K" "K \<subseteq> Collect P"
    and cover: "\<And>r. r \<in> set rs \<Longrightarrow> P (key r) \<Longrightarrow> key r \<in> K"
  shows "sum_list (map qty (filter (\<lambda>r. P (key r)) rs)) = (\<Sum>k\<in>K. table_qty key qty k rs)"
proof -
  let ?R = "{r \<in> set rs. P (key r)}"
  have dist: "distinct (map key rs)" using ok by (simp add: table_ok_def)
  then have "distinct rs" by (simp add: distinct_map)
  then have "sum_list (map qty (filter (\<lambda>r. P (key r)) rs)) = sum qty ?R"
    by (simp add: sum_list_distinct_conv_sum_set)
  also have "\<dots> = (\<Sum>k\<in>key ` ?R. table_qty key qty k rs)"
  proof (rule sum.reindex_cong [symmetric, of key])
    show "inj_on key ?R" using dist by (auto simp: distinct_map intro: inj_on_subset)
    show "table_qty key qty (key r) rs = qty r" if "r \<in> ?R" for r
      using row_qty [OF ok, of r] that by simp
  qed simp
  also have "\<dots> = (\<Sum>k\<in>K. table_qty key qty k rs)"
  proof (rule sum.mono_neutral_left [OF K(1)])
    show "key ` ?R \<subseteq> K" using cover by auto
    show "\<forall>k\<in>K - key ` ?R. table_qty key qty k rs = 0"
    proof
      fix k assume k: "k \<in> K - key ` ?R"
      then have "k \<notin> set (map key rs)" using K(2) by auto
      then show "table_qty key qty k rs = 0" by (rule table_qty_no_key)
    qed
  qed
  finally show ?thesis .
qed

end

definition item_total :: "db \<Rightarrow> uuid \<Rightarrow> int" where
  "item_total d i =
     sum_list (map sb_quantity (filter (\<lambda>b. sb_item_id b = i) (stock_balances d))) +
     sum_list (map cb_quantity (filter (\<lambda>b. cb_item_id b = i) (user_item_custody_balances d)))"

definition net_inflow :: "movement_create \<Rightarrow> uuid option \<Rightarrow> int" where
  "net_inflow p custody =
     (if custody \<noteq> None then 0
      else case mc_movement_type p of
        RECEIPT \<Rightarrow> 1 | RETURN \<Rightarrow> 1 | ISSUE \<Rightarrow> - 1 | WRITE_OFF \<Rightarrow> - 1 | TRANSFER \<Rightarrow> 0
      | _ \<Rightarrow> (if mc_destination_location_id p \<noteq> None then 1 else 0)
            - (if mc_source_location_id p \<noteq> None then 1 else 0))"

lemma sum_Pair_left: "(\<Sum>k\<in>{a} \<times> B. f k) = (\<Sum>b\<in>B. f (a, b))"
  by (rule sum.reindex_cong [of "Pair a"]) (auto simp: inj_on_def)

lemma sum_Pair_right: "(\<Sum>k\<in>A \<times> {b}. f k) = (\<Sum>a\<in>A. f (a, b))"
  by (rule sum.reindex_cong [of "\<lambda>a. (a, b)"]) (auto simp: inj_on_def)

lemma item_total_sum:
  assumes "projection_tables_ok d" and "finite L" "finite U"
    and "sb_location_id ` set (stock_balances d) \<subseteq> L"
    and "cb_user_id ` set (user_item_custody_balances d) \<subseteq> U"
  shows "item_total d i = (\<Sum>l\<in>L. stock_of d i l) + (\<Sum>u\<in>U. custody_of d u i)"
proof -
  have "sum_list (map sb_quantity (filter (\<lambda>b. fst (sb_key b) = i) (stock_balances d))) =
      (\<Sum>k\<in>{i} \<times> L. table_qty sb_key sb_quantity k (stock_balances d))"
    by (rule stock_table.sum_rows)
      (use assms in \<open>auto simp: projection_tables_ok_def sb_key_def\<close>)
  moreover have "sum_list (map cb_quantity (filter (\<lambda>b. snd (cb_key b) = i)
        (user_item_custody_balances d))) =
      (\<Sum>k\<in>U \<times> {i}. table_qty cb_key cb_quantity k (user_item_custody_balances d))"
    by (rule custody_table.sum_rows)
      (use assms in \<open>auto simp: projection_tables_ok_def cb_key_def\<close>)
  moreover have "(\<Sum>k\<in>{i} \<times> L. table_qty sb_key sb_quantity k (stock_balances d)) =
      (\<Sum>l\<in>L. stock_of d i l)"
    by (simp add: stock_of_def sum_Pair_left)
  moreover have "(\<Sum>k\<in>U \<times> {i}. table_qty cb_key cb_quantity k (user_item_custody_balances d)) =
      (\<Sum>u\<in>U. custody_of d u i)"
    by (simp add: custody_of_def sum_Pair_right)
  ultimately show ?thesis by (simp add: item_total_def sb_key_def cb_key_def)
qed

lemma sum_if_Some:
  assumes "finite A" and "set_option x \<subseteq> A"
  shows "(\<Sum>a\<in>A. if x = Some a then q else 0) = (if x = None then 0 else (q::int))"
  using assms by (cases x) (auto simp: sum.delta)

lemma shape_of_type:
  assumes "validate_positions p = Inr ()"
  shows "(mc_source_location_id p \<noteq> None, mc_destination_location_id p \<noteq> None)
     \<in> set (allowed_shapes (mc_movement_type p))"
    and "mc_source_location_id p \<noteq> None \<Longrightarrow> mc_source_location_id p \<noteq> mc_destination_location_id p"
    and "is_linked (mc_movement_type p) = (mc_original_movement_id p \<noteq> None)"
  using assms by (auto simp: validate_positions_def Let_def split: if_splits)

text \<open>
  C6. Conservation: a new movement changes the total quantity of an item in the system (all
  locations plus all custody) by the requested quantity times its net inflow. A transfer,
  and an issue or return that runs through an engineer's custody, change no total.
\<close>

theorem movement_conserves_totals:
  assumes inv: "warehouse_inv d"
    and create: "create_movement sha256 d mid now p actor actor_name custody = Inr (d', r)"
    and new: "\<not> res_replayed r"
  shows "item_total d' i = item_total d i + net_inflow p custody * payload_quantity p i"
proof -
  note call = create_movement_internalI [OF create]
  obtain original m ls where
    acc: "accepted sha256 d mid now p actor actor_name custody original m ls" and
    refresh: "efold (\<lambda>ml d. refresh_warehouse_projection d mid (ml_item_id ml)) ls
         (append_movement d m ls) = Inr d'"
    using new_call [OF call new] by metis
  note eff = new_movement_effect [OF inv acc refresh]
  let ?L = "sb_location_id ` set (stock_balances d) \<union> sb_location_id ` set (stock_balances d') \<union>
    set_option (mc_source_location_id p) \<union> set_option (mc_destination_location_id p)"
  let ?U = "cb_user_id ` set (user_item_custody_balances d) \<union>
    cb_user_id ` set (user_item_custody_balances d') \<union> set_option custody"
  let ?q = "payload_quantity p i" and ?s = "custody_delta (mc_movement_type p) original"
  have fin: "finite ?L" "finite ?U" by auto
  have t: "mc_movement_type p \<noteq> REVERSAL" using create by (auto simp: create_movement_def)
  have pos: "validate_positions p = Inr ()"
    and cust: "check_custody_request (mc_movement_type p) actor custody = Inr ()"
    using acc by (simp_all add: accepted_def)
  have "item_total d' i = (\<Sum>l\<in>?L. spec_stock (stock_of d) p i l) +
      (\<Sum>u\<in>?U. spec_custody (custody_of d) p custody ?s u i)"
    unfolding item_total_sum [OF eff(2) fin] eff(4,5) accepted_custody_sign [OF acc]
    by (subst item_total_sum [OF eff(2) fin]) (auto simp: eff(4,5) accepted_custody_sign [OF acc])
  also have "\<dots> = (\<Sum>l\<in>?L. stock_of d i l) + (\<Sum>u\<in>?U. custody_of d u i) +
      (if mc_destination_location_id p = None then 0 else ?q) -
      (if mc_source_location_id p = None then 0 else ?q) +
      (if custody = None then 0 else ?s * ?q)"
    unfolding spec_stock_def spec_custody_def sum.distrib sum_subtractf
    by (subst sum_if_Some, use fin in auto)+
  also have "(\<Sum>l\<in>?L. stock_of d i l) + (\<Sum>u\<in>?U. custody_of d u i) = item_total d i"
    by (rule item_total_sum [OF warehouse_invD(2) [OF inv] fin, symmetric]) auto
  finally show ?thesis
    using shape_of_type(1) [OF pos] cust t
    by (cases "mc_movement_type p")
      (auto simp: net_inflow_def custody_delta_def check_custody_request_def split: if_splits)
qed

theorem movement_conserves_totals_witness:
  "item_total sample_issued 20 = item_total sample_stocked 20 \<and> item_total sample_stocked 20 = 5"
  using movement_conserves_totals [OF sample_stocked_inv sample_issue_run, of 20]
    movement_conserves_totals [OF sample_db_inv sample_receipt_run, of 20]
  by (simp add: net_inflow_def item_total_def payload_quantity_def sample_data)

section \<open>Limits\<close>

lemma check_balance_Inr [result_simps]:
  "check_balance c x e = Inr () \<longleftrightarrow> 0 \<le> c + x \<and> c + x \<le> MAX_SAFE_QUANTITY"
  by (auto simp: check_balance_def MAX_SAFE_QUANTITY_def Let_def)

lemma check_line_Inr:
  assumes "check_line d p original custody l = Inr ()"
  shows "0 < lc_quantity l"
    and "mc_source_location_id p = Some s \<Longrightarrow>
       lc_quantity l \<le> stock_of d (lc_item_id l) s \<and>
       stock_of d (lc_item_id l) s - lc_quantity l \<le> MAX_SAFE_QUANTITY"
    and "mc_destination_location_id p = Some t \<Longrightarrow>
       0 \<le> stock_of d (lc_item_id l) t + lc_quantity l \<and>
       stock_of d (lc_item_id l) t + lc_quantity l \<le> MAX_SAFE_QUANTITY"
    and "custody = Some u \<Longrightarrow> custody_delta (mc_movement_type p) original \<noteq> 0 \<Longrightarrow>
       0 \<le> custody_of d u (lc_item_id l) +
         custody_delta (mc_movement_type p) original * lc_quantity l \<and>
       custody_of d u (lc_item_id l) +
         custody_delta (mc_movement_type p) original * lc_quantity l \<le> MAX_SAFE_QUANTITY"
  using assms
  by (auto simp: check_line_def check_balance_Inr ebind_Inr_iff Let_def
      split: if_splits option.splits)

text \<open>
  C7. A new movement never takes more of an item from its source than the location holds,
  and a return never more than the custody user holds.
\<close>

theorem movement_within_balances:
  assumes create: "create_movement sha256 d mid now p actor actor_name custody = Inr (d', r)"
    and new: "\<not> res_replayed r" and line: "l \<in> set (mc_lines p)"
  shows "0 < lc_quantity l \<and>
     (\<forall>s. mc_source_location_id p = Some s \<longrightarrow> lc_quantity l \<le> stock_of d (lc_item_id l) s) \<and>
     (\<forall>u. custody = Some u \<and> mc_movement_type p = RETURN \<longrightarrow>
        lc_quantity l \<le> custody_of d u (lc_item_id l))"
proof -
  obtain original m ls where
    acc: "accepted sha256 d mid now p actor actor_name custody original m ls"
    using new_call [OF create_movement_internalI [OF create] new] by metis
  then have ok: "check_line d p original custody l = Inr ()"
    using line by (simp add: accepted_def)
  have "lc_quantity l \<le> custody_of d u (lc_item_id l)"
    if "custody = Some u" "mc_movement_type p = RETURN" for u
    using check_line_Inr(4) [OF ok that(1)] that(2) by (simp add: custody_delta_def)
  with check_line_Inr(1,2) [OF ok] show ?thesis by blast
qed

theorem movement_within_balances_witness:
  "(3::int) \<le> stock_of sample_stocked 20 10"
  using movement_within_balances [OF sample_issue_run, of "sample_line 20 3"]
  by (simp add: sample_data)

section \<open>The database accepts what the service accepts\<close>

definition journal_sealed :: "db \<Rightarrow> bool" where
  "journal_sealed d \<longleftrightarrow>
     (\<forall>m\<in>set (movements d). movement_checks m \<and>
        validate_warehouse_movement_line_count d (mv_id m) = Inr ())"

definition catalog_names_ok :: "db \<Rightarrow> bool" where
  "catalog_names_ok d \<longleftrightarrow> (\<forall>it\<in>set (items d). btrim (it_name it) \<noteq> [])"

definition custody_follows_role :: "db \<Rightarrow> movement_type \<Rightarrow> uuid \<Rightarrow> uuid option \<Rightarrow> bool" where
  "custody_follows_role d t actor custody \<longleftrightarrow>
     (\<exists>u. get_user d actor = Some u \<and>
        (t \<in> {ISSUE, RETURN} \<longrightarrow>
           (u_role u \<in> {ENGINEER, SENIOR_ENGINEER} \<longrightarrow> custody = Some actor) \<and>
           (u_role u \<in> {ADMIN, OWNER} \<longrightarrow> custody = None)))"

text \<open>What holds when the service has run all of its checks.\<close>

definition checked ::
    "(string \<Rightarrow> string) \<Rightarrow> db \<Rightarrow> uuid \<Rightarrow> timestamp \<Rightarrow> movement_create \<Rightarrow> uuid \<Rightarrow> string \<Rightarrow> uuid option
       \<Rightarrow> movement_record option \<Rightarrow> movement \<Rightarrow> bool" where
  "checked sha256 d mid now p actor actor_name custody original m \<longleftrightarrow>
     (\<exists>request_id name custody_user.
        normalize_inline_text (mc_client_request_id p) ''client_request_id'' 128 = Inr request_id \<and>
        normalize_inline_text actor_name ''actor'' 579 = Inr name \<and>
        existing_idempotent_result d actor request_id
          (canonical_fingerprint sha256 (movement_canonical p request_id custody)) = Inr None \<and>
        m = make_movement d mid now p actor name custody request_id
              (canonical_fingerprint sha256 (movement_canonical p request_id custody)) \<and>
        lock_custody_user d (mc_movement_type p) custody = Inr custody_user \<and>
        check_original d p custody custody_user = Inr original) \<and>
     check_custody_request (mc_movement_type p) actor custody = Inr () \<and>
     validate_positions p = Inr () \<and> check_locations d p = Inr () \<and>
     check_items d p original = Inr ()"

lemma service_error_not_db:
  "check_custody_request t a c \<noteq> Inl (InventoryDbError s e)"
  "normalize_inline_text v f n \<noteq> Inl (InventoryDbError s e)"
  "existing_idempotent_result d a q x \<noteq> Inl (InventoryDbError s e)"
  "lock_custody_user d t c \<noteq> Inl (InventoryDbError s e)"
  "validate_positions p \<noteq> Inl (InventoryDbError s e)"
  "check_original d p c u \<noteq> Inl (InventoryDbError s e)"
  "check_locations d p \<noteq> Inl (InventoryDbError s e)"
  "check_items d p orig \<noteq> Inl (InventoryDbError s e)"
  "check_balance cur dl i \<noteq> Inl (InventoryDbError s e)"
  by (simp_all add: check_custody_request_def normalize_inline_text_def
      existing_idempotent_result_def lock_custody_user_def validate_positions_def
      check_original_def get_movement_record_def check_locations_def check_items_def
      check_balance_def Let_def ebind_def split: option.splits sum.splits)

lemma check_line_not_db: "check_line d p orig c l \<noteq> Inl (InventoryDbError s e)"
  using service_error_not_db(9)
  by (auto simp: check_line_def ebind_def Let_def split: option.splits sum.splits if_splits)

lemma emap_Inl: "emap f xs = Inl e \<Longrightarrow> \<exists>x\<in>set xs. f x = Inl e"
  by (induction xs) (auto simp: ebind_def split: sum.splits)

text \<open>
  A database error is the rejected key of the request, or it surfaces only after every check of
  the service has passed.
\<close>

definition late_writes ::
    "db \<Rightarrow> uuid \<Rightarrow> movement_create \<Rightarrow> movement_record option \<Rightarrow> uuid option \<Rightarrow> movement \<Rightarrow> bool" where
  "late_writes d mid p original custody m \<longleftrightarrow>
     insert_movement d m = Inr (d\<lparr>movements := movements d @ [m]\<rparr>) \<and>
     ((\<forall>l\<in>set (mc_lines p). check_line d p original custody l = Inr ()) \<longrightarrow>
      efold insert_movement_line (make_lines d mid p) (d\<lparr>movements := movements d @ [m]\<rparr>) =
        Inr (append_movement d m (make_lines d mid p)) \<and>
      (\<exists>d'. efold (\<lambda>ml d. refresh_warehouse_projection d mid (ml_item_id ml))
         (make_lines d mid p) (append_movement d m (make_lines d mid p)) = Inr d' \<and>
         validate_warehouse_movement_line_count d' mid = Inr ()))"

lemma text_parameter_error:
  "relabel inventory_db_error (text_parameter t) = Inl (InventoryDbError s e) \<Longrightarrow>
     s = ''22021'' \<and> CHR 0x00 \<in> set t"
  by (auto simp: text_parameter_def ensure_def split: if_splits)

lemma db_error_cases:
  assumes "create_movement_internal sha256 d mid now p actor actor_name custody =
      Inl (InventoryDbError s e)"
  obtains (key) request_id where
    "normalize_inline_text (mc_client_request_id p) ''client_request_id'' 128 = Inr request_id"
    "s = ''22021''" "CHR 0x00 \<in> set request_id" "check_custody_request (mc_movement_type p) actor custody = Inr ()"
  | (late) original m where
    "checked sha256 d mid now p actor actor_name custody original m"
    "\<not> late_writes d mid p original custody m"
proof -
  from assms obtain request_id where
    q: "normalize_inline_text (mc_client_request_id p) ''client_request_id'' 128 = Inr request_id"
      "check_custody_request (mc_movement_type p) actor custody = Inr ()"
    unfolding create_movement_internal_def Let_def
    by (auto simp: ebind_Inl_iff service_error_not_db split: option.splits)
  show thesis
  proof (cases "CHR 0x00 \<in> set request_id")
    case True
    with assms q have "s = ''22021''"
      by (auto simp: create_movement_internal_def Let_def text_parameter_def ensure_def)
    with q True show thesis by (intro key)
  next
    case clean: False
    with assms q obtain name cu original where
      steps: "normalize_inline_text actor_name ''actor'' 579 = Inr name"
        "existing_idempotent_result d actor request_id
            (canonical_fingerprint sha256 (movement_canonical p request_id custody)) = Inr None"
        "lock_custody_user d (mc_movement_type p) custody = Inr cu"
        "check_original d p custody cu = Inr original"
        "validate_positions p = Inr ()" "check_locations d p = Inr ()"
        "check_items d p original = Inr ()"
      unfolding create_movement_internal_def Let_def
      by (auto simp: ebind_Inl_iff service_error_not_db split: option.splits)
    let ?m = "make_movement d mid now p actor name custody request_id
                (canonical_fingerprint sha256 (movement_canonical p request_id custody))"
    have "checked sha256 d mid now p actor actor_name custody original ?m"
      unfolding checked_def using q steps by blast
    moreover have "\<not> late_writes d mid p original custody ?m"
    proof
      assume *: "late_writes d mid p original custody ?m"
      then have "emap (check_line d p original custody) (sorted_lines p) \<noteq> Inl (InventoryDbError s e)"
        using emap_Inl check_line_not_db by metis
      with assms q steps clean * show False
        unfolding create_movement_internal_def Let_def late_writes_def
        by (auto simp: ebind_Inl_iff emap_Inr_iff dest: list_all2_left)
    qed
    ultimately show thesis by (rule late)
  qed
qed

lemma normalize_inline_Inr:
  assumes "normalize_inline_text v f n = Inr t"
  shows "btrim t \<noteq> []" and "length t \<le> n"
  using assms btrim_normalized [of v]
  by (auto simp: normalize_inline_text_def Let_def split: if_splits)

lemma get_loc_member: "get_loc d i = Some l \<Longrightarrow> i \<in> loc_id ` set (locations d)"
  by (auto simp: get_loc_def dest: table_get_SomeD)

lemma location_ids_set:
  "set (location_ids p) =
     set_option (mc_source_location_id p) \<union> set_option (mc_destination_location_id p)"
  by (auto simp: location_ids_def List.map_filter_def split: option.splits)

lemma check_locations_Inr:
  assumes "check_locations d p = Inr ()"
    and "i \<in> set_option (mc_source_location_id p) \<union> set_option (mc_destination_location_id p)"
  shows "\<exists>l. get_loc d i = Some l \<and> loc_status l = LOC_ACTIVE"
  using assms unfolding location_ids_set [symmetric]
  by (auto simp: check_locations_def split: if_splits)

lemma checked_original:
  assumes "checked sha256 d mid now p actor actor_name custody original m"
    and "mc_original_movement_id p = Some oid"
  shows "\<exists>m0. original = Some \<lparr> rec_movement = m0, rec_lines = lines_of d oid \<rparr> \<and>
     get_mov d oid = Some m0 \<and> mv_movement_type m0 \<noteq> REVERSAL \<and>
     (\<forall>r\<in>set (procurement_requests d). pr_final_movement_id r \<noteq> Some oid) \<and>
     (mc_movement_type p = CORRECTION \<longrightarrow> mv_custody_user_id m0 = None) \<and>
     (mc_movement_type p = REVERSAL \<longrightarrow> custody = mv_custody_user_id m0 \<and>
        \<not> (\<exists>x\<in>set (movements d). mv_original_movement_id x = Some oid \<and>
              mv_movement_type x = REVERSAL))"
proof -
  obtain cu where "check_original d p custody cu = Inr original"
    using assms(1) by (auto simp: checked_def)
  then show ?thesis
    using assms(2)
    by (auto simp: check_original_def get_movement_record_def Let_def ebind_Inr_iff
        split: option.splits if_splits)
qed

lemma checked_movement:
  assumes "checked sha256 d mid now p actor actor_name custody original m"
  shows "mv_id m = mid" "mv_movement_type m = mc_movement_type p"
    "mv_source_location_id m = mc_source_location_id p"
    "mv_destination_location_id m = mc_destination_location_id p"
    "mv_original_movement_id m = mc_original_movement_id p"
    "mv_custody_user_id m = custody" "mv_actor_user_id m = actor"
    "mv_line_count m = int (length (mc_lines p))"
    "mv_journal_seq m = next_journal_seq d"
  using assms by (auto simp: checked_def make_movement_def Let_def)

lemma checked_row_constraints:
  assumes chk: "checked sha256 d mid now p actor actor_name custody original m"
    and valid: "movement_create_valid p" and digest: "\<And>s. length (sha256 s) = 64"
    and fresh: "get_mov d mid = None"
  shows "movement_checks m"
proof -
  have pos: "validate_positions p = Inr ()" and locs: "check_locations d p = Inr ()"
    and cust: "check_custody_request (mc_movement_type p) actor custody = Inr ()"
    using chk by (auto simp: checked_def)
  obtain q name where q: "normalize_inline_text (mc_client_request_id p) ''client_request_id'' 128 = Inr q"
    and name: "normalize_inline_text actor_name ''actor'' 579 = Inr name"
    and m: "m = make_movement d mid now p actor name custody q
              (canonical_fingerprint sha256 (movement_canonical p q custody))"
    using chk by (auto simp: checked_def)
  note mv = checked_movement [OF chk]
  have "ck_positions_distinct m"
    using shape_of_type(2) [OF pos] by (auto simp: ck_positions_distinct_def mv)
  moreover have "ck_operation_positions m"
    using shape_of_type(1) [OF pos]
    by (cases "mc_movement_type p")
      (auto simp: ck_operation_positions_def mv Let_def is_linked_def)
  moreover have "ck_custody_movement_type m"
    using cust by (auto simp: ck_custody_movement_type_def mv check_custody_request_def
        split: if_splits)
  moreover have "ck_location_snapshots m"
    using check_locations_Inr [OF locs]
    by (auto simp: ck_location_snapshots_def m make_movement_def Let_def
        split: Option.bind_splits)
  moreover have "ck_original_relationship m"
  proof -
    have "mc_original_movement_id p \<noteq> Some mid"
      using checked_original [OF chk, of mid] fresh by auto
    then show ?thesis
      using shape_of_type(3) [OF pos] by (simp add: ck_original_relationship_def mv)
  qed
  moreover have "ck_movement_text m"
    using normalize_inline_Inr [OF q] normalize_inline_Inr [OF name] digest
    by (simp add: ck_movement_text_def m make_movement_def Let_def canonical_fingerprint_def)
  moreover have "ck_line_count_range m"
    using valid by (auto simp: ck_line_count_range_def mv movement_create_valid_def)
  ultimately show ?thesis by (simp add: movement_checks_def)
qed

lemma checked_keys:
  assumes chk: "checked sha256 d mid now p actor actor_name custody original m"
    and fresh: "get_mov d mid = None"
    and actor: "get_user d actor = Some u"
  shows "movement_unique_keys d m" and "movement_foreign_keys d m"
proof -
  obtain q x where
    existing: "existing_idempotent_result d actor q x = Inr None"
    and mq: "mv_client_request_id m = q"
    using chk by (auto simp: checked_def make_movement_def Let_def)
  note mv = checked_movement [OF chk]
  have linked: "is_linked (mc_movement_type p) = (mc_original_movement_id p \<noteq> None)"
    and locs: "check_locations d p = Inr ()"
    using chk shape_of_type(3) by (auto simp: checked_def)
  have "mv_id y \<noteq> mid" if "y \<in> set (movements d)" for y
    using fresh that by (auto simp: get_mov_def table_get_None_iff)
  moreover have "\<not> (mv_actor_user_id y = actor \<and> mv_client_request_id y = q)"
    if "y \<in> set (movements d)" for y
    using existing that
    by (auto simp: existing_idempotent_result_def find_None_iff split: option.splits if_splits)
  moreover have "mv_journal_seq y \<noteq> next_journal_seq d" if "y \<in> set (movements d)" for y
    using next_journal_seq_above [OF that] by simp
  moreover have "\<not> (mv_movement_type y = REVERSAL \<and> mc_movement_type p = REVERSAL \<and>
      mv_original_movement_id y = mc_original_movement_id p)" if "y \<in> set (movements d)" for y
  proof
    assume y: "mv_movement_type y = REVERSAL \<and> mc_movement_type p = REVERSAL \<and>
      mv_original_movement_id y = mc_original_movement_id p"
    then obtain oid where "mc_original_movement_id p = Some oid"
      using linked by (auto simp: is_linked_def)
    with checked_original [OF chk this] y that show False by auto
  qed
  ultimately show "movement_unique_keys d m"
    unfolding movement_unique_keys_def mv mq by blast
  have "opt_fk (mv_id ` set (movements d)) (mc_original_movement_id p)"
    using checked_original [OF chk]
    by (auto simp: opt_fk_def get_mov_def dest!: table_get_SomeD split: option.splits)
  moreover have "opt_fk (u_id ` set (users d)) custody"
  proof -
    obtain cu where "lock_custody_user d (mc_movement_type p) custody = Inr cu"
      using chk by (auto simp: checked_def)
    then show ?thesis
      by (auto simp: lock_custody_user_def opt_fk_def get_user_def dest!: table_get_SomeD
          split: option.splits)
  qed
  moreover have "actor \<in> u_id ` set (users d)"
    using actor by (auto simp: get_user_def dest: table_get_SomeD)
  moreover have "opt_fk (loc_id ` set (locations d)) (mc_source_location_id p)"
    "opt_fk (loc_id ` set (locations d)) (mc_destination_location_id p)"
    using check_locations_Inr [OF locs] by (auto simp: opt_fk_def dest: get_loc_member
        split: option.splits)
  ultimately show "movement_foreign_keys d m" by (simp add: movement_foreign_keys_def mv)
qed

text \<open>A reversal request is always the one \<open>reverse_movement\<close> builds from its original.\<close>

definition reversal_built :: "db \<Rightarrow> movement_create \<Rightarrow> bool" where
  "reversal_built d p \<longleftrightarrow>
     (mc_movement_type p = REVERSAL \<longrightarrow>
        (\<exists>rc oid key. get_movement_record d oid = Inr rc \<and> p = reversal_payload rc oid key))"

lemma sealed_line_count:
  assumes "journal_sealed d" and "get_mov d oid = Some m0"
  shows "mv_line_count m0 = int (length (lines_of d oid))" and "movement_checks m0"
proof -
  from assms(2) have "m0 \<in> set (movements d)" "mv_id m0 = oid"
    by (auto simp: get_mov_def dest: table_get_SomeD)
  then show "mv_line_count m0 = int (length (lines_of d oid))" "movement_checks m0"
    using assms by (auto simp: journal_sealed_def validate_warehouse_movement_line_count_def
        lines_of_def Let_def split: if_splits)
qed

lemma checked_header:
  assumes chk: "checked sha256 d mid now p actor actor_name custody original m"
    and sealed: "journal_sealed d" and built: "reversal_built d p"
  shows "protect_procurement_receipt_movement d m = Inr ()"
    and "validate_warehouse_correction_header d m = Inr ()"
proof -
  note mv = checked_movement [OF chk]
  have linked: "is_linked (mc_movement_type p) = (mc_original_movement_id p \<noteq> None)"
    and items: "check_items d p original = Inr ()"
    using chk shape_of_type(3) by (auto simp: checked_def)
  show "protect_procurement_receipt_movement d m = Inr ()"
    using checked_original [OF chk]
    by (auto simp: protect_procurement_receipt_movement_def mv)
  show "validate_warehouse_correction_header d m = Inr ()"
  proof (cases "mc_original_movement_id p")
    case None
    then show ?thesis using linked by (simp add: validate_warehouse_correction_header_def mv)
  next
    case (Some oid)
    obtain m0 where m0: "original = Some \<lparr> rec_movement = m0, rec_lines = lines_of d oid \<rparr>"
      "get_mov d oid = Some m0" "mv_movement_type m0 \<noteq> REVERSAL"
      using checked_original [OF chk Some] by blast
    show ?thesis
    proof (cases "mc_movement_type p = REVERSAL")
      case True
      then obtain key where "p = reversal_payload \<lparr> rec_movement = m0, rec_lines = lines_of d oid \<rparr> oid key"
        using built Some m0 by (auto simp: reversal_built_def reversal_payload_def
            get_movement_record_def split: option.splits)
      then show ?thesis
        using m0 Some sealed_line_count(1) [OF sealed m0(2)]
        by (simp add: validate_warehouse_correction_header_def mv reversal_payload_def)
    next
      case False
      with linked Some have "mc_movement_type p = CORRECTION" by (simp add: is_linked_def)
      then have "set (map Some (location_ids p)) \<inter>
          {mv_source_location_id m0, mv_destination_location_id m0} \<noteq> {}"
        using items m0(1) by (auto simp: check_items_def split: if_splits)
      then have "(mc_source_location_id p \<noteq> None \<and>
             mc_source_location_id p \<in> {mv_source_location_id m0, mv_destination_location_id m0}) \<or>
          (mc_destination_location_id p \<noteq> None \<and>
             mc_destination_location_id p \<in> {mv_source_location_id m0, mv_destination_location_id m0})"
        by (auto simp: location_ids_set)
      then show ?thesis
        using m0(2,3) Some False by (auto simp: validate_warehouse_correction_header_def mv)
    qed
  qed
qed

lemma checked_custody_trigger:
  assumes chk: "checked sha256 d mid now p actor actor_name custody original m"
    and sealed: "journal_sealed d"
    and role: "custody_follows_role d (mc_movement_type p) actor custody"
  shows "validate_movement_custody d m = Inr ()"
proof -
  note mv = checked_movement [OF chk]
  have linked: "is_linked (mc_movement_type p) = (mc_original_movement_id p \<noteq> None)"
    and cust: "check_custody_request (mc_movement_type p) actor custody = Inr ()"
    using chk shape_of_type(3) by (auto simp: checked_def)
  have plain: ?thesis if "mc_original_movement_id p = None"
    using that linked cust role
    by (auto simp: validate_movement_custody_def mv Let_def is_linked_def
        check_custody_request_def custody_follows_role_def split: if_splits)
  moreover have ?thesis if orig: "mc_original_movement_id p = Some oid" for oid
  proof -
    obtain m0 where m0: "get_mov d oid = Some m0" "mv_movement_type m0 \<noteq> REVERSAL"
      "mc_movement_type p = CORRECTION \<longrightarrow> mv_custody_user_id m0 = None"
      "mc_movement_type p = REVERSAL \<longrightarrow> custody = mv_custody_user_id m0"
      using checked_original [OF chk orig] by blast
    have "mv_custody_user_id m0 \<noteq> None \<Longrightarrow> mv_movement_type m0 \<in> {ISSUE, RETURN}"
      using sealed_line_count(2) [OF sealed m0(1)] m0(2)
      by (auto simp: movement_checks_def ck_custody_movement_type_def)
    then show ?thesis
      using orig linked m0 cust
      by (auto simp: validate_movement_custody_def mv Let_def is_linked_def
          check_custody_request_def split: if_splits)
  qed
  ultimately show ?thesis by blast
qed

lemma checked_insert:
  assumes chk: "checked sha256 d mid now p actor actor_name custody original m"
    and "movement_create_valid p" and "\<And>s. length (sha256 s) = 64"
    and "get_mov d mid = None" and "journal_sealed d" and "reversal_built d p"
    and role: "custody_follows_role d (mc_movement_type p) actor custody"
  shows "insert_movement d m = Inr (d\<lparr>movements := movements d @ [m]\<rparr>)"
proof -
  obtain u where u: "get_user d actor = Some u"
    using role by (auto simp: custody_follows_role_def)
  show ?thesis
    unfolding insert_movement_Inr
    using checked_header [OF chk assms(5,6)] checked_custody_trigger [OF chk assms(5) role]
      checked_row_constraints [OF chk assms(2-4)] checked_keys [OF chk assms(4) u] by simp
qed

lemma checked_items:
  assumes "checked sha256 d mid now p actor actor_name custody original m"
  shows "distinct (item_ids p)" and "i \<in> set (item_ids p) \<Longrightarrow> \<exists>it. get_item d i = Some it"
    and "mc_movement_type p = CORRECTION \<Longrightarrow> original = Some rc \<Longrightarrow>
       set (item_ids p) \<subseteq> set (map ml_item_id (rec_lines rc))"
  using assms by (auto simp: checked_def check_items_def split: if_splits option.splits)

lemma make_lines_Cons_source:
  "ml \<in> set (make_lines d mid p) \<Longrightarrow>
     \<exists>l n. l \<in> set (mc_lines p) \<and> 0 < n \<and> ml = make_line d mid n l"
proof -
  assume "ml \<in> set (make_lines d mid p)"
  then obtain n l where "(n, l) \<in> set (enumerate 1 (sorted_lines p))" "ml = make_line d mid (int n) l"
    by (auto simp: make_lines_def)
  moreover from this have "l \<in> set (sorted_lines p)" "0 < int n"
    by (auto simp: in_set_enumerate_eq simp del: set_sorted_lines)
  ultimately show ?thesis by (metis set_sorted_lines)
qed

lemma checked_line_rows:
  assumes chk: "checked sha256 d mid now p actor actor_name custody original m"
    and fresh: "get_mov d mid = None" and names: "catalog_names_ok d"
    and built: "reversal_built d p"
    and lines: "\<forall>l\<in>set (mc_lines p). check_line d p original custody l = Inr ()"
    and ml: "ml \<in> set (make_lines d mid p)" and d1: "movements d1 = movements d @ [m]"
      "items d1 = items d" "\<exists>zs. movement_lines d1 = movement_lines d @ zs"
  shows "validate_warehouse_correction_line d1 ml = Inr ()" and "movement_line_checks ml"
    and "movement_line_foreign_keys d1 ml"
proof -
  note mv = checked_movement [OF chk]
  obtain l n where l: "l \<in> set (mc_lines p)" "0 < n" and ml_eq: "ml = make_line d mid n l"
    using make_lines_Cons_source [OF ml] by blast
  have item: "lc_item_id l \<in> set (item_ids p)" using l by (simp add: item_ids_def)
  then obtain it where it: "get_item d (lc_item_id l) = Some it" using checked_items(2) [OF chk] by blast
  then have it_in: "it \<in> set (items d)" "it_id it = lc_item_id l"
    by (auto simp: get_item_def dest: table_get_SomeD)
  show "movement_line_checks ml"
    using check_line_Inr(1) [of d p original custody l] lines l names it it_in(1)
    by (simp add: movement_line_checks_def ml_eq make_line_def Let_def catalog_names_ok_def)
  show "movement_line_foreign_keys d1 ml"
    using it_in mv(1) by (force simp: movement_line_foreign_keys_def ml_eq d1)
  have header: "get_mov d1 mid = Some m"
    using fresh mv(1) by (simp add: get_mov_def d1 table_get_append)
  have linked: "is_linked (mc_movement_type p) = (mc_original_movement_id p \<noteq> None)"
    using chk shape_of_type(3) by (auto simp: checked_def)
  have "\<exists>x\<in>set (movement_lines d). Some (ml_movement_id x) = mc_original_movement_id p \<and>
      ml_item_id x = lc_item_id l \<and> (mc_movement_type p = CORRECTION \<or> ml_quantity x = lc_quantity l)"
    if link: "is_linked (mc_movement_type p)"
  proof -
    obtain oid where oid: "mc_original_movement_id p = Some oid" using linked link by auto
    obtain m0 where m0: "original = Some \<lparr> rec_movement = m0, rec_lines = lines_of d oid \<rparr>"
      "get_mov d oid = Some m0" using checked_original [OF chk oid] by blast
    have "\<exists>x\<in>set (lines_of d oid). ml_item_id x = lc_item_id l \<and>
        (mc_movement_type p = CORRECTION \<or> ml_quantity x = lc_quantity l)"
    proof (cases "mc_movement_type p = CORRECTION")
      case True
      then show ?thesis using checked_items(3) [OF chk True m0(1)] item by (auto dest!: subsetD)
    next
      case False
      then have "mc_movement_type p = REVERSAL" using link by (simp add: is_linked_def)
      then obtain key where "p = reversal_payload \<lparr> rec_movement = m0, rec_lines = lines_of d oid \<rparr> oid key"
        using built oid m0 by (auto simp: reversal_built_def reversal_payload_def
            get_movement_record_def split: option.splits)
      then show ?thesis using l(1) by (auto simp: reversal_payload_def)
    qed
    then show ?thesis using oid by (auto simp: lines_of_def)
  qed
  then show "validate_warehouse_correction_line d1 ml = Inr ()"
    using header d1(3)
    by (auto simp: validate_warehouse_correction_line_def ml_eq mv)
qed

lemma insert_lines_ok:
  assumes "\<And>ml d1. ml \<in> set ls \<Longrightarrow> movements d1 = movements d0 \<Longrightarrow> items d1 = items d0 \<Longrightarrow>
        \<exists>zs. movement_lines d1 = movement_lines d0 @ zs \<Longrightarrow>
        validate_warehouse_correction_line d1 ml = Inr () \<and> movement_line_checks ml \<and>
        movement_line_foreign_keys d1 ml"
    and "distinct (map ml_item_id ls)" and "distinct (map ml_line_no ls)"
    and "\<forall>ml\<in>set ls. ml_movement_id ml = mid"
    and "\<forall>x\<in>set (movement_lines d0). ml_movement_id x \<noteq> mid"
  shows "\<exists>d'. efold insert_movement_line ls d0 = Inr d'"
  using assms(1-3,4)
proof (induction ls rule: rev_induct)
  case Nil
  then show ?case by simp
next
  case (snoc ml ls)
  then obtain d1 where d1: "efold insert_movement_line ls d0 = Inr d1" by fastforce
  then have eq: "d1 = d0\<lparr>movement_lines := movement_lines d0 @ ls\<rparr>" by (rule insert_lines_Inr)
  have "movement_line_unique_keys d1 ml"
    unfolding movement_line_unique_keys_def eq
  proof (intro ballI impI)
    fix x assume x: "x \<in> set (movement_lines (d0\<lparr>movement_lines := movement_lines d0 @ ls\<rparr>))"
      "ml_movement_id x = ml_movement_id ml"
    then have "x \<in> set ls" using snoc.prems(4) assms(5) by auto
    then have "ml_item_id x \<in> set (map ml_item_id ls)" "ml_line_no x \<in> set (map ml_line_no ls)"
      by simp_all
    then show "ml_item_id x \<noteq> ml_item_id ml \<and> ml_line_no x \<noteq> ml_line_no ml"
      using snoc.prems(2,3) by auto
  qed
  moreover have "validate_warehouse_correction_line d1 ml = Inr () \<and> movement_line_checks ml \<and>
      movement_line_foreign_keys d1 ml"
    by (rule snoc.prems(1)) (simp_all add: eq)
  ultimately show ?case by (simp add: efold_append d1 ebind_Inr_iff insert_line_Inr)
qed

lemma checked_insert_lines:
  assumes chk: "checked sha256 d mid now p actor actor_name custody original m"
    and fresh: "get_mov d mid = None" and names: "catalog_names_ok d"
    and built: "reversal_built d p" and wf: "journal_wf d"
    and lines: "\<forall>l\<in>set (mc_lines p). check_line d p original custody l = Inr ()"
  shows "efold insert_movement_line (make_lines d mid p) (d\<lparr>movements := movements d @ [m]\<rparr>) =
     Inr (append_movement d m (make_lines d mid p))"
proof -
  let ?d = "d\<lparr>movements := movements d @ [m]\<rparr>" and ?ls = "make_lines d mid p"
  have "\<exists>d'. efold insert_movement_line ?ls ?d = Inr d'"
  proof (rule insert_lines_ok [where mid = mid])
    fix ml and d1 :: db assume "ml \<in> set ?ls" "movements d1 = movements ?d" "items d1 = items ?d"
      "\<exists>zs. movement_lines d1 = movement_lines ?d @ zs"
    then show "validate_warehouse_correction_line d1 ml = Inr () \<and> movement_line_checks ml \<and>
        movement_line_foreign_keys d1 ml"
      using checked_line_rows [OF chk fresh names built lines, of ml d1] by simp
  next
    show "distinct (map ml_item_id ?ls)" by (rule make_lines_distinct [OF checked_items(1) [OF chk]])
    show "distinct (map ml_line_no ?ls)" unfolding make_lines_numbers by (simp add: distinct_map)
    show "\<forall>ml\<in>set ?ls. ml_movement_id ml = mid" using make_lines_movement by blast
    show "\<forall>x\<in>set (movement_lines ?d). ml_movement_id x \<noteq> mid"
      using wf fresh by (auto simp: journal_wf_def get_mov_def table_get_None_iff)
  qed
  then show ?thesis using insert_lines_Inr [of ?ls ?d] by (auto simp: append_movement_def)
qed

lemma refresh_stock_ok:
  assumes "same_but_projections d0 d" and "0 \<le> expected_stock d0 i l"
    and "expected_stock d0 i l \<le> MAX_SAFE_QUANTITY"
  shows "\<exists>d'. refresh_stock d i l = Inr d' \<and> same_but_projections d0 d'"
proof -
  obtain d' where d': "refresh_stock d i l = Inr d'" and "same_but_projections d d'"
    using assms(2,3)
    by (simp add: refresh_stock_def same_but_projections_expected [OF assms(1)]
        same_but_projections_def)
  with same_but_projections_trans [OF assms(1)] show ?thesis by blast
qed

lemma refresh_custody_ok:
  assumes "same_but_projections d0 d" and "0 \<le> expected_custody d0 u i"
    and "expected_custody d0 u i \<le> MAX_SAFE_QUANTITY"
    and "expected_custody d0 u i = 0 \<or> custody_holder_eligible d0 u"
  shows "\<exists>d'. refresh_custody d u i = Inr d' \<and> same_but_projections d0 d'"
proof -
  have "custody_holder_eligible d u = custody_holder_eligible d0 u"
    using same_but_projectionsD(3) [OF assms(1)] by (simp add: custody_holder_eligible_def)
  then obtain d' where d': "refresh_custody d u i = Inr d'" and "same_but_projections d d'"
    using assms(2-4)
    by (auto simp: refresh_custody_def same_but_projections_expected [OF assms(1)]
        same_but_projections_def)
  with same_but_projections_trans [OF assms(1)] show ?thesis by blast
qed

lemma refresh_ok:
  assumes same: "same_but_projections d0 d" and m: "get_mov d0 mid = Some m"
    and line: "\<exists>ml\<in>set (movement_lines d0). ml_movement_id ml = mid \<and> ml_item_id ml = i"
    and stock: "\<And>l. mv_source_location_id m = Some l \<or> mv_destination_location_id m = Some l \<Longrightarrow>
      0 \<le> expected_stock d0 i l \<and> expected_stock d0 i l \<le> MAX_SAFE_QUANTITY"
    and custody: "\<And>u. mv_custody_user_id m = Some u \<Longrightarrow> 0 \<le> expected_custody d0 u i \<and>
      expected_custody d0 u i \<le> MAX_SAFE_QUANTITY \<and>
      (expected_custody d0 u i = 0 \<or> custody_holder_eligible d0 u)"
  shows "\<exists>d'. refresh_warehouse_projection d mid i = Inr d' \<and> same_but_projections d0 d'"
proof -
  have m': "get_mov d mid = Some m" and line': "\<exists>ml\<in>set (movement_lines d).
      ml_movement_id ml = mid \<and> ml_item_id ml = i"
    using m line same_but_projectionsD(1,2) [OF same] by (simp_all add: get_mov_def)
  have s: "\<exists>d'. refresh_stock dx i l = Inr d' \<and> same_but_projections d0 d'"
    if "same_but_projections d0 dx"
      and "mv_source_location_id m = Some l \<or> mv_destination_location_id m = Some l" for dx l
    using refresh_stock_ok [OF that(1)] stock [OF that(2)] by blast
  obtain d1 where 1: "(case mv_source_location_id m of None \<Rightarrow> Inr d
      | Some l \<Rightarrow> refresh_stock d i l) = Inr d1" "same_but_projections d0 d1"
    using same s [OF same]
    by (cases "mv_source_location_id m") auto
  obtain d2 where 2: "(case mv_destination_location_id m of None \<Rightarrow> Inr d1
      | Some l \<Rightarrow> if mv_source_location_id m = Some l then Inr d1 else refresh_stock d1 i l) = Inr d2"
    "same_but_projections d0 d2"
    using 1(2) s [OF 1(2)]
    by (cases "mv_destination_location_id m"; cases "mv_source_location_id m = mv_destination_location_id m")
      auto
  obtain d3 where 3: "(case mv_custody_user_id m of None \<Rightarrow> Inr d2
      | Some u \<Rightarrow> refresh_custody d2 u i) = Inr d3" "same_but_projections d0 d3"
    using 2(2) refresh_custody_ok [OF 2(2)] custody
    by (cases "mv_custody_user_id m") auto
  show ?thesis using 1 2 3 m' line' by (simp add: refresh_warehouse_projection_def)
qed

lemma refresh_loop_ok:
  assumes "same_but_projections d0 d"
    and "\<And>i dx. i \<in> ml_item_id ` set ls \<Longrightarrow> same_but_projections d0 dx \<Longrightarrow>
      \<exists>d'. refresh_warehouse_projection dx mid i = Inr d' \<and> same_but_projections d0 d'"
  shows "\<exists>d'. efold (\<lambda>ml d. refresh_warehouse_projection d mid (ml_item_id ml)) ls d = Inr d' \<and>
    same_but_projections d0 d'"
  using assms
proof (induction ls arbitrary: d)
  case Nil
  then show ?case by simp
next
  case (Cons ml ls)
  obtain d1 where d1: "refresh_warehouse_projection d mid (ml_item_id ml) = Inr d1"
    "same_but_projections d0 d1"
    using Cons.prems(2) [of "ml_item_id ml" d] Cons.prems(1) by auto
  obtain d' where "efold (\<lambda>ml d. refresh_warehouse_projection d mid (ml_item_id ml)) ls d1 = Inr d'"
    "same_but_projections d0 d'"
    using Cons.IH [OF d1(2)] Cons.prems(2) by auto
  then show ?case by (simp add: d1)
qed

text \<open>A user who is not an approved holder of a custody role holds nothing.\<close>

lemma ineligible_holds_nothing:
  assumes "warehouse_inv d" and "\<not> custody_holder_eligible d u"
  shows "custody_of d u i = 0"
proof -
  have "\<not> (\<exists>r\<in>set (user_item_custody_balances d). cb_key r = (u, i))"
    using assms warehouse_invD(3) [OF assms(1)]
    by (auto simp: custody_holders_eligible_def cb_key_def)
  then have "\<not> 0 < custody_of d u i"
    using custody_table.positive_iff_row warehouse_invD(2) [OF assms(1)]
    by (simp add: custody_of_def projection_tables_ok_def)
  moreover have "0 \<le> custody_of d u i"
    using custody_table.ok_bounds warehouse_invD(2) [OF assms(1)]
    by (simp add: custody_of_def projection_tables_ok_def)
  ultimately show ?thesis by simp
qed

lemma checked_eligible:
  assumes chk: "checked sha256 d mid now p actor actor_name (Some u) original m"
    and up: "0 < custody_delta (mc_movement_type p) original"
  shows "custody_holder_eligible d u"
proof -
  obtain cu where lock: "lock_custody_user d (mc_movement_type p) (Some u) = Inr cu"
    and co: "check_original d p (Some u) cu = Inr original"
    using chk by (auto simp: checked_def)
  then have "get_user d u \<noteq> None" "cu = get_user d u"
    by (auto simp: lock_custody_user_def split: option.splits if_splits)
  then obtain x where x: "cu = Some x" "get_user d u = Some x" by auto
  have "custody_user_approved x"
  proof (cases "mc_movement_type p = REVERSAL")
    case False
    with lock x show ?thesis by (auto simp: lock_custody_user_def split: if_splits)
  next
    case True
    then obtain oid where oid: "mc_original_movement_id p = Some oid"
      using chk shape_of_type(3) by (auto simp: checked_def is_linked_def)
    obtain m0 where m0: "original = Some \<lparr> rec_movement = m0, rec_lines = lines_of d oid \<rparr>"
      "get_mov d oid = Some m0"
      using checked_original [OF chk oid] by blast
    show ?thesis
      using co up True x m0
      by (auto simp: check_original_def oid get_movement_record_def Let_def split: if_splits)
  qed
  then show ?thesis
    using x(2) unfolding custody_user_approved_def custody_holder_eligible_def
    by (intro bexI [of _ x]) (auto simp: CUSTODY_ROLES_def get_user_def dest: table_get_SomeD)
qed

lemma checked_refresh:
  assumes chk: "checked sha256 d mid now p actor actor_name custody original m"
    and inv: "warehouse_inv d" and fresh: "get_mov d mid = None"
    and lines: "\<forall>l\<in>set (mc_lines p). check_line d p original custody l = Inr ()"
  shows "\<exists>d'. efold (\<lambda>ml d. refresh_warehouse_projection d mid (ml_item_id ml))
     (make_lines d mid p) (append_movement d m (make_lines d mid p)) = Inr d' \<and>
     same_but_projections (append_movement d m (make_lines d mid p)) d'"
proof -
  let ?ls = "make_lines d mid p"
  let ?d = "append_movement d m ?ls"
  note mv = checked_movement [OF chk] and wf = warehouse_invD(1) [OF inv]
  have fresh': "mv_id m \<notin> mv_id ` set (movements d)"
    using fresh mv(1) by (simp add: get_mov_def table_get_None_iff)
  have own: "\<forall>ml\<in>set ?ls. ml_movement_id ml = mv_id m"
    using make_lines_movement mv(1) by metis
  have fk: "opt_fk (mv_id ` set (movements d)) (mv_original_movement_id m)"
    using checked_original [OF chk]
    by (auto simp: mv opt_fk_def get_mov_def dest!: table_get_SomeD split: option.splits)
  have sign: "custody_sign (mv_movement_type m) (original_type d m) =
      custody_delta (mc_movement_type p) original"
  proof (cases "mc_original_movement_id p")
    case None
    then have "original = None" using chk by (auto simp: checked_def check_original_def)
    moreover have "mc_movement_type p \<noteq> REVERSAL"
      using chk shape_of_type(3) [of p] None by (auto simp: checked_def is_linked_def)
    ultimately show ?thesis by (simp add: custody_sign_def custody_delta_def mv)
  next
    case (Some oid)
    with checked_original [OF chk Some] show ?thesis
      by (auto simp: custody_sign_def custody_delta_def mv original_type_def)
  qed
  have item: "\<exists>d'. refresh_warehouse_projection dx mid i = Inr d' \<and> same_but_projections ?d d'"
    if i: "i \<in> ml_item_id ` set ?ls" and dx: "same_but_projections ?d dx" for i dx
  proof -
    obtain l where l: "l \<in> set (mc_lines p)" "i = lc_item_id l"
      using i unfolding make_lines_item_set item_ids_def by auto
    then have ok: "check_line d p original custody l = Inr ()" using lines by simp
    have q: "line_quantity ?ls i = lc_quantity l"
      unfolding make_lines_quantity payload_quantity_def l(2)
      using sum_list_map_if_distinct [of lc_item_id "mc_lines p" l lc_quantity]
        checked_items(1) [OF chk] l(1) by (simp add: item_ids_def)
    note es = expected_stock_append [OF wf fresh' own] and
      ec = expected_custody_append [OF wf fresh' own fk, unfolded sign]
    have distinct_pos: "mc_source_location_id p = Some s \<Longrightarrow> mc_destination_location_id p \<noteq> Some s" for s
      using chk shape_of_type(2) by (force simp: checked_def)
    show ?thesis
    proof (rule refresh_ok [OF dx])
      show "get_mov ?d mid = Some m" using get_mov_append [OF fresh'] mv(1) by simp
      show "\<exists>ml\<in>set (movement_lines ?d). ml_movement_id ml = mid \<and> ml_item_id ml = i"
        using i own mv(1) by (auto simp: append_movement_def)
      show "0 \<le> expected_stock ?d i s \<and> expected_stock ?d i s \<le> MAX_SAFE_QUANTITY"
        if "mv_source_location_id m = Some s \<or> mv_destination_location_id m = Some s" for s
        using that check_line_Inr(2,3) [OF ok] distinct_pos warehouse_invD(4) [OF inv]
        by (auto simp: es q [unfolded l(2)] stock_sign_def mv l(2))
      fix u assume u: "mv_custody_user_id m = Some u"
      let ?s = "custody_delta (mc_movement_type p) original"
      have exp: "expected_custody ?d u i = custody_of d u i + ?s * lc_quantity l"
        using u by (simp add: ec q warehouse_invD(5) [OF inv])
      have pos: "0 < lc_quantity l" using check_line_Inr(1) [OF ok] .
      have cu: "custody = Some u" using u mv(6) by simp
      have bounds: "0 \<le> expected_custody ?d u i \<and> expected_custody ?d u i \<le> MAX_SAFE_QUANTITY"
      proof (cases "?s = 0")
        case True
        then show ?thesis
          using custody_table.ok_bounds warehouse_invD(2) [OF inv]
          by (simp add: exp custody_of_def projection_tables_ok_def)
      next
        case False
        then show ?thesis using check_line_Inr(4) [OF ok cu False] by (simp add: exp l(2) [symmetric])
      qed
      have "custody_holder_eligible d u" if "expected_custody ?d u i \<noteq> 0"
      proof (rule ccontr)
        assume no: "\<not> custody_holder_eligible d u"
        then have "\<not> 0 < ?s" using checked_eligible [of sha256 d mid now p actor actor_name u] chk cu
          by blast
        moreover from no have "custody_of d u i = 0" by (rule ineligible_holds_nothing [OF inv])
        ultimately have "expected_custody ?d u i \<le> 0"
          using exp pos by (simp add: mult_nonpos_nonneg)
        with bounds that show False by simp
      qed
      with bounds show "0 \<le> expected_custody ?d u i \<and>
          expected_custody ?d u i \<le> MAX_SAFE_QUANTITY \<and>
          (expected_custody ?d u i = 0 \<or> custody_holder_eligible ?d u)"
        by (auto simp: custody_holder_eligible_def append_movement_def)
    qed
  qed
  show ?thesis by (rule refresh_loop_ok [of ?d]) (use item in auto)
qed

lemma foldr_min_upt: "foldr min (map int [1..<Suc n]) 1 = 1"
proof -
  have "(\<forall>x\<in>set xs. 1 \<le> x) \<Longrightarrow> foldr min xs 1 = (1::int)" for xs
    by (induction xs) auto
  then show ?thesis by (simp del: upt_Suc)
qed

lemma foldr_max_upt: "0 < n \<Longrightarrow> foldr max (map int [1..<Suc n]) 1 = int n"
proof -
  have "foldr max xs (a::int) = Max (insert a (set xs))" for xs a
    by (induction xs) (auto simp: insert_commute)
  moreover assume "0 < n"
  then have "Max (insert 1 (int ` {1..<Suc n})) = int n"
    by (intro Max_eqI) auto
  ultimately show ?thesis by (simp del: upt_Suc)
qed

lemma sealed_lines:
  assumes "filter (\<lambda>ml. ml_movement_id ml = mid) (movement_lines d) = ls"
    and "map ml_line_no ls = map int [1..<Suc n]" and "0 < n"
    and "get_mov d mid = Some m" and "mv_line_count m = int n"
  shows "validate_warehouse_movement_line_count d mid = Inr ()"
proof -
  have "length ls = n" using arg_cong [OF assms(2), of length] by simp
  moreover have "hd (map ml_line_no ls) = 1"
    unfolding assms(2) using assms(3) by (simp add: hd_map upt_rec)
  moreover have "foldr min (map ml_line_no ls) 1 = 1" "foldr max (map ml_line_no ls) 1 = int n"
    unfolding assms(2) by (rule foldr_min_upt) (rule foldr_max_upt [OF assms(3)])
  ultimately show ?thesis
    using assms(3) by (auto simp: validate_warehouse_movement_line_count_def assms(1,4,5) Let_def)
qed

lemma checked_sealed:
  assumes chk: "checked sha256 d mid now p actor actor_name custody original m"
    and wf: "journal_wf d" and fresh: "get_mov d mid = None" and some: "mc_lines p \<noteq> []"
    and same: "same_but_projections (append_movement d m (make_lines d mid p)) d'"
  shows "validate_warehouse_movement_line_count d' mid = Inr ()"
proof (rule sealed_lines)
  note mv = checked_movement [OF chk]
  have "ml_movement_id x \<noteq> mid" if "x \<in> set (movement_lines d)" for x
    using wf fresh that by (auto simp: journal_wf_def get_mov_def table_get_None_iff)
  moreover have "filter (\<lambda>ml. ml_movement_id ml = mid) (make_lines d mid p) = make_lines d mid p"
    using make_lines_movement by (auto simp: filter_id_conv)
  ultimately show "filter (\<lambda>ml. ml_movement_id ml = mid) (movement_lines d') = make_lines d mid p"
    using same_but_projectionsD(2) [OF same] by (auto simp: append_movement_def filter_empty_conv)
  show "map ml_line_no (make_lines d mid p) = map int [1..<Suc (length (mc_lines p))]"
    by (simp add: make_lines_numbers del: upt_Suc)
  show "0 < length (mc_lines p)" using some by simp
  have "mv_id m \<notin> mv_id ` set (movements d)"
    using fresh mv(1) by (simp add: get_mov_def table_get_None_iff)
  from get_mov_append [OF this] show "get_mov d' mid = Some m"
    using mv(1) same_but_projectionsD(1) [OF same] by (simp add: get_mov_def append_movement_def)
  show "mv_line_count m = int (length (mc_lines p))" by (rule mv(8))
qed

lemma only_key_error:
  assumes "warehouse_inv d" "journal_sealed d" "catalog_names_ok d"
    and "\<And>s. length (sha256 s) = 64" "get_mov d mid = None"
    and "movement_create_valid p" "reversal_built d p"
    and "custody_follows_role d (mc_movement_type p) actor custody"
    and error: "create_movement_internal sha256 d mid now p actor actor_name custody = Inl (InventoryDbError s e)"
  shows "s = ''22021'' \<and> CHR 0x00 \<in> set (mc_client_request_id p) \<and>
    check_custody_request (mc_movement_type p) actor custody = Inr ()"
  using error
proof (cases rule: db_error_cases)
  case (key request_id)
  then show ?thesis
    using normalize_key_member [of "CHR 0x00"]
    by (auto simp: normalize_inline_text_def is_space_def Let_def split: if_splits)
next
  case (late original m)
  have some: "mc_lines p \<noteq> []" using assms(6) by (auto simp: movement_create_valid_def)
  have "late_writes d mid p original custody m"
    unfolding late_writes_def
    using checked_insert [OF late(1) assms(6) assms(4,5,2,7,8)]
      checked_insert_lines [OF late(1) assms(5,3,7) warehouse_invD(1) [OF assms(1)]]
      checked_refresh [OF late(1) assms(1,5)]
      checked_sealed [OF late(1) warehouse_invD(1) [OF assms(1)] assms(5) some]
    by blast
  with late(2) show ?thesis by blast
qed

text \<open>The key that reaches the database with U+0000 in it.\<close>

lemma key_error:
  assumes "movement_create_valid p" and nul: "CHR 0x00 \<in> set (mc_client_request_id p)"
    and "check_custody_request (mc_movement_type p) actor custody = Inr ()"
  shows "\<exists>e. create_movement_internal sha256 d mid now p actor actor_name custody =
    Inl (InventoryDbError ''22021'' e)"
proof -
  let ?q = "normalize_idempotency_key (mc_client_request_id p)"
  have q: "CHR 0x00 \<in> set ?q"
    using nul normalize_key_member [of "CHR 0x00"] by (simp add: is_space_def)
  moreover have "length ?q \<le> 128"
    using assms(1) length_normalize_key [of "mc_client_request_id p"] by (simp add: movement_create_valid_def)
  ultimately have "normalize_inline_text (mc_client_request_id p) ''client_request_id'' 128 = Inr ?q"
    by (auto simp: normalize_inline_text_def Let_def)
  with q assms(3) show ?thesis
    by (simp add: create_movement_internal_def Let_def text_parameter_def)
qed


lemma sample_stocked_sealed: "journal_sealed sample_stocked"
  by (simp add: journal_sealed_def eval_simps sample_data Let_def)


section \<open>The sealed journal\<close>

lemma line_count_cong:
  assumes "get_mov d' mid = get_mov d mid"
    and "filter (\<lambda>ml. ml_movement_id ml = mid) (movement_lines d') =
         filter (\<lambda>ml. ml_movement_id ml = mid) (movement_lines d)"
  shows "validate_warehouse_movement_line_count d' mid = validate_warehouse_movement_line_count d mid"
  unfolding validate_warehouse_movement_line_count_def assms by (rule refl)

lemma new_movement_sealed:
  assumes inv: "warehouse_inv d" and sealed: "journal_sealed d"
    and call: "create_movement_internal sha256 d mid now p actor actor_name custody = Inr (d', r)"
  shows "journal_sealed d'"
  using call
proof (cases rule: create_movement_cases)
  case replay
  then show ?thesis using sealed by simp
next
  case (new original m ls)
  note acc = new(1) and eff = new_movement_effect [OF inv new(1,3)]
  note mv = accepted_movement [OF acc] and fresh = accepted_fresh [OF acc]
  have same: "movements d' = movements d @ [m]" "movement_lines d' = movement_lines d @ ls"
    using same_but_projectionsD(1,2) [OF eff(1)] by (simp_all add: append_movement_def)
  have fresh': "mv_id m \<notin> mv_id ` set (movements d)" using fresh(1) mv(1) by simp
  have ls: "ls = make_lines d mid p" using acc by (simp add: accepted_def)
  have "ml_movement_id x \<noteq> mid" if "x \<in> set (movement_lines d)" for x
    using warehouse_invD(1) [OF inv] fresh(1) that by (metis journal_wf_def)
  then have own: "filter (\<lambda>ml. ml_movement_id ml = mid) (movement_lines d) = []"
    "filter (\<lambda>ml. ml_movement_id ml = mid) ls = ls"
    using fresh(4) mv(1) by (auto simp: filter_empty_conv filter_id_conv)
  have get: "get_mov d' i = (if i = mid then Some m else get_mov d i)" for i
    using get_mov_append [OF fresh', of ls i] mv(1) same
    by (simp add: get_mov_def append_movement_def)
  have "validate_warehouse_movement_line_count d' mid = Inr ()"
  proof (rule sealed_lines)
    show "filter (\<lambda>ml. ml_movement_id ml = mid) (movement_lines d') = ls"
      by (simp add: same own)
    show "map ml_line_no ls = map int [1..<Suc (length (mc_lines p))]"
      by (simp add: ls make_lines_numbers del: upt_Suc)
    show "0 < length (mc_lines p)"
      using fresh(3) mv(8) by (auto simp: movement_checks_def ck_line_count_range_def)
    show "get_mov d' mid = Some m" by (simp add: get)
    show "mv_line_count m = int (length (mc_lines p))" by (rule mv(8))
  qed
  moreover have "validate_warehouse_movement_line_count d' (mv_id x) = Inr ()"
    if x: "x \<in> set (movements d)" for x
  proof -
    have ne: "mv_id x \<noteq> mid" using x fresh(1) by auto
    have "filter (\<lambda>ml. ml_movement_id ml = mv_id x) ls = []"
      using ne fresh(4) mv(1) by (auto simp: filter_empty_conv)
    then have "validate_warehouse_movement_line_count d' (mv_id x) =
        validate_warehouse_movement_line_count d (mv_id x)"
      by (intro line_count_cong) (simp_all add: get ne same)
    then show ?thesis using sealed x by (simp add: journal_sealed_def)
  qed
  ultimately show ?thesis
    using sealed fresh(3) mv(1) by (auto simp: journal_sealed_def same)
qed

section \<open>Custody of users who lost their approval\<close>

text \<open>
  C9. A reversal that would reduce the custody of a user who is not an approved holder of a
  custody role is always refused (under a request key the actor has not used before): the
  invariant leaves such a user nothing in custody, so the reversal would drive the custody
  balance below zero. The comment in \<open>_create_movement\<close> (service.py, lines 279-283) calls
  this case an available repair path.
\<close>

theorem custody_repair_path_unavailable:
  assumes inv: "warehouse_inv d" and m0: "get_mov d oid = Some m0"
    and holder: "mv_custody_user_id m0 = Some u" "\<not> custody_holder_eligible d u"
    and issue: "mv_movement_type m0 = ISSUE" and lines: "lines_of d oid \<noteq> []"
    and unused: "\<forall>x\<in>set (movements d). mv_actor_user_id x = actor \<longrightarrow>
      mv_client_request_id x \<noteq> normalize_idempotency_key key"
  shows "\<exists>e. reverse_movement sha256 d mid now oid key actor actor_name = Inl e"
proof (rule ccontr)
  let ?p = "reversal_payload \<lparr> rec_movement = m0, rec_lines = lines_of d oid \<rparr> oid key"
  assume "\<not> (\<exists>e. reverse_movement sha256 d mid now oid key actor actor_name = Inl e)"
  then obtain d' r where
    "reverse_movement sha256 d mid now oid key actor actor_name = Inr (d', r)"
    by (cases "reverse_movement sha256 d mid now oid key actor actor_name") auto
  then have "create_movement_internal sha256 d mid now ?p actor actor_name (Some u) = Inr (d', r)"
    using m0 holder(1) by (simp add: reverse_movement_def get_movement_record_def)
  then show False
  proof (cases rule: create_movement_cases)
    case replay
    then obtain q where
      "normalize_inline_text key ''client_request_id'' 128 = Inr q"
      "existing_idempotent_result d actor q
         (canonical_fingerprint sha256 (movement_canonical ?p q (Some u))) = Inr (Some r)"
      by (auto simp: reversal_payload_def)
    then show False
      using unused
      by (auto simp: existing_idempotent_result_def normalize_inline_text_def Let_def
          find_Some_iff split: option.splits if_splits)
  next
    case (new original m ls)
    note acc = new(1)
    have original: "original = Some \<lparr> rec_movement = m0, rec_lines = lines_of d oid \<rparr>"
      using accepted_original(1) [OF acc] m0 by (simp add: reversal_payload_def)
    obtain x where "x \<in> set (lines_of d oid)" using lines by (cases "lines_of d oid") auto
    then obtain l where l: "l \<in> set (mc_lines ?p)" by (auto simp: reversal_payload_def)
    then have ok: "check_line d ?p original (Some u) l = Inr ()" using acc by (simp add: accepted_def)
    have "custody_delta (mc_movement_type ?p) original = - 1"
      using issue by (simp add: original custody_delta_def reversal_payload_def)
    then have "lc_quantity l \<le> custody_of d u (lc_item_id l)"
      using check_line_Inr(4) [OF ok refl] by simp
    then show False
      using check_line_Inr(1) [OF ok] ineligible_holds_nothing [OF inv holder(2)] by simp
  qed
qed

definition sample_return :: movement_create where
  "sample_return = \<lparr> mc_movement_type = RETURN, mc_source_location_id = None,
     mc_destination_location_id = Some 10, mc_original_movement_id = None,
     mc_client_request_id = ''t1'', mc_lines = [sample_line 20 3] \<rparr>"

definition sample_returned :: db where
  "sample_returned = (case create_movement sample_digest sample_issued 102 7 sample_return 3 ''Eng''
     (Some 3) of Inl _ \<Rightarrow> empty_db | Inr (d, _) \<Rightarrow> d)"

definition sample_blocked :: db where
  "sample_blocked = sample_returned\<lparr>users := [sample_user 2 ADMIN APPROVED,
     sample_user 3 ENGINEER BLOCKED]\<rparr>"

lemma sample_return_run:
  "\<exists>r. create_movement sample_digest sample_issued 102 7 sample_return 3 ''Eng'' (Some 3) =
     Inr (sample_returned, r) \<and> user_item_custody_balances sample_returned = [] \<and>
     get_mov sample_returned 101 = Some sample_issue_movement \<and>
     lines_of sample_returned 101 = [sample_issue_line] \<and>
     map mv_client_request_id (movements sample_returned) = [''r1'', ''i1'', ''t1'']"
  by (simp add: sample_returned_def sample_return_def eval_simps sample_data Let_def)

theorem custody_repair_path_unavailable_witness:
  "\<exists>e. reverse_movement sample_digest sample_blocked 103 8 101 ''v1'' 2 ''Admin'' = Inl e"
proof -
  obtain r where run: "create_movement sample_digest sample_issued 102 7 sample_return 3 ''Eng''
      (Some 3) = Inr (sample_returned, r)"
    and facts: "user_item_custody_balances sample_returned = []"
      "get_mov sample_returned 101 = Some sample_issue_movement"
      "lines_of sample_returned 101 = [sample_issue_line]"
      "map mv_client_request_id (movements sample_returned) = [''r1'', ''i1'', ''t1'']"
    using sample_return_run by (elim exE conjE) (rule that)
  have "warehouse_inv sample_returned"
    by (rule create_movement_effect(1) [OF sample_issued_inv create_movement_internalI [OF run]])
  then have "warehouse_inv sample_blocked"
    by (rule warehouse_inv_cong)
      (simp_all add: sample_blocked_def custody_holders_eligible_def facts(1))
  then show ?thesis
  proof (rule custody_repair_path_unavailable)
    show "get_mov sample_blocked 101 = Some sample_issue_movement"
      using facts(2) by (simp add: sample_blocked_def get_mov_def)
    show "mv_custody_user_id sample_issue_movement = Some 3"
      "mv_movement_type sample_issue_movement = ISSUE"
      by (simp_all add: sample_issue_movement_def)
    show "\<not> custody_holder_eligible sample_blocked 3"
      by (simp add: custody_holder_eligible_def sample_blocked_def sample_user_def)
    show "lines_of sample_blocked 101 \<noteq> []"
      using facts(3) by (simp add: sample_blocked_def lines_of_def)
    have "mv_client_request_id x \<in> {''r1'', ''i1'', ''t1''}" if "x \<in> set (movements sample_blocked)" for x
      using that arg_cong [OF facts(4), of set] by (auto simp: sample_blocked_def)
    then show "\<forall>x\<in>set (movements sample_blocked). mv_actor_user_id x = 2 \<longrightarrow>
        mv_client_request_id x \<noteq> normalize_idempotency_key ''v1''"
      by (fastforce simp: sample_texts)
  qed
qed

end
