(* ===== verification/Warehouse_Steps.thy ===== *)
theory Warehouse_Steps
  imports Warehouse_Safety
begin

text \<open>
  The warehouse service as a transition system: one step is one successful service call
  that changes data (\<open>create_location\<close>, \<open>update_location\<close>, \<open>set_location_archived\<close>,
  \<open>create_movement\<close>, \<open>reverse_movement\<close>). The invariant of the ledger is extended by the
  rules on locations: their identifiers and codes are unique, and stock lies only at
  locations in use. It holds in every state reachable from an empty journal.
\<close>

inductive inventory_step :: "(string \<Rightarrow> string) \<Rightarrow> db \<Rightarrow> db \<Rightarrow> bool" for sha256 where
  step_create_location:
    "create_location d i p = Inr (d', l) \<Longrightarrow> inventory_step sha256 d d'"
| step_update_location:
    "update_location d i p = Inr (d', l) \<Longrightarrow> inventory_step sha256 d d'"
| step_set_location_archived:
    "set_location_archived d i archived now = Inr (d', l) \<Longrightarrow> inventory_step sha256 d d'"
| step_create_movement:
    "create_movement sha256 d mid now p actor name custody = Inr (d', r) \<Longrightarrow>
       inventory_step sha256 d d'"
| step_reverse_movement:
    "reverse_movement sha256 d mid now oid key actor name = Inr (d', r) \<Longrightarrow>
       inventory_step sha256 d d'"

inductive_cases inventory_stepE: "inventory_step sha256 d d'"

definition location_row_ok :: "location \<Rightarrow> bool" where
  "location_row_ok l \<longleftrightarrow>
     btrim (loc_code l) \<noteq> [] \<and> btrim (loc_normalized_code l) \<noteq> [] \<and> btrim (loc_name l) \<noteq> [] \<and>
     ((loc_status l = LOC_ACTIVE) = (loc_archived_at l = None))"

definition locations_ok :: "db \<Rightarrow> bool" where
  "locations_ok d \<longleftrightarrow>
     distinct (map loc_id (locations d)) \<and> distinct (map loc_normalized_code (locations d)) \<and>
     (\<forall>l\<in>set (locations d). location_row_ok l)"

definition stock_at_active :: "db \<Rightarrow> bool" where
  "stock_at_active d \<longleftrightarrow>
     (\<forall>b\<in>set (stock_balances d).
        \<exists>l. get_loc d (sb_location_id b) = Some l \<and> loc_status l = LOC_ACTIVE)"

definition inventory_inv :: "db \<Rightarrow> bool" where
  "inventory_inv d \<longleftrightarrow>
     warehouse_inv d \<and> journal_sealed d \<and> locations_ok d \<and> stock_at_active d"

section \<open>Locations\<close>

lemma normalize_inline_btrim: "normalize_inline_text v f n = Inr t \<Longrightarrow> btrim t \<noteq> []"
  by (rule normalize_inline_Inr)

lemma create_location_Inr:
  assumes "create_location d i p = Inr (d', l)"
  shows "d' = d\<lparr>locations := locations d @ [l]\<rparr>" and "loc_id l = i"
    and "location_row_ok l" and "loc_status l = LOC_ACTIVE"
    and "\<forall>x\<in>set (locations d). loc_id x \<noteq> i \<and> loc_normalized_code x \<noteq> loc_normalized_code l"
  using assms
  by (auto simp: create_location_def insert_location_def location_row_ok_def Let_def
      result_simps split: if_splits)

lemma update_location_Inr:
  assumes "update_location d i p = Inr (d', l')"
  shows "\<exists>l. get_loc d i = Some l \<and> loc_normalized_code l' = loc_normalized_code l \<and>
     loc_status l' = loc_status l \<and> loc_archived_at l' = loc_archived_at l \<and>
     loc_code l' = loc_code l \<and> loc_id l' = i \<and> btrim (loc_name l') \<noteq> [] \<and>
     d' = d\<lparr>locations := table_update loc_id i (\<lambda>_. l') (locations d)\<rparr>"
  using assms normalize_inline_btrim
  by (auto simp: update_location_def Let_def result_simps get_loc_def dest: table_get_SomeD
      split: option.splits)

lemma set_location_archived_Inr:
  assumes "set_location_archived d i archived now = Inr (d', l')"
  shows "\<exists>l. get_loc d i = Some l \<and>
     l' = l\<lparr>loc_status := (if archived then LOC_ARCHIVED else LOC_ACTIVE),
            loc_archived_at := (if archived then Some now else None)\<rparr> \<and>
     (archived \<longrightarrow> (\<forall>b\<in>set (stock_balances d). sb_location_id b \<noteq> i)) \<and>
     d' = d\<lparr>locations := table_update loc_id i (\<lambda>_. l') (locations d)\<rparr>"
  using assms by (auto simp: set_location_archived_def Let_def split: option.splits if_splits)

lemma table_update_same_key:
  assumes "distinct (map key rs)" and "table_get key i rs = Some r"
    and "f r' = f r"
  shows "map f (table_update key i (\<lambda>_. r') rs) = map f rs"
  using assms
  by (auto simp: table_update_def table_get_Some_iff intro!: map_cong dest: eq_key_imp_eq_value)
    (metis table_get_member option.inject)

lemma locations_ok_update:
  assumes ok: "locations_ok d" and l: "get_loc d i = Some l" and l': "location_row_ok l'"
    and same: "loc_id l' = i" "loc_normalized_code l' = loc_normalized_code l"
  shows "locations_ok (d\<lparr>locations := table_update loc_id i (\<lambda>_. l') (locations d)\<rparr>)"
proof -
  have id: "loc_id l = i" using l by (auto simp: get_loc_def dest: table_get_SomeD)
  note upd = table_update_same_key [of loc_id "locations d" i l]
  have "map loc_id (table_update loc_id i (\<lambda>_. l') (locations d)) = map loc_id (locations d)"
    using upd [where f = loc_id] ok l same id by (simp add: locations_ok_def get_loc_def)
  moreover have "map loc_normalized_code (table_update loc_id i (\<lambda>_. l') (locations d)) =
      map loc_normalized_code (locations d)"
    using upd [where f = loc_normalized_code] ok l same by (simp add: locations_ok_def get_loc_def)
  moreover have "\<forall>x\<in>set (table_update loc_id i (\<lambda>_. l') (locations d)). location_row_ok x"
    using ok l' by (auto simp: set_table_update locations_ok_def)
  ultimately show ?thesis using ok by (simp add: locations_ok_def)
qed

lemma location_row_of_get:
  "locations_ok d \<Longrightarrow> get_loc d i = Some l \<Longrightarrow> location_row_ok l \<and> loc_id l = i"
  by (auto simp: locations_ok_def get_loc_def dest: table_get_SomeD)

lemma get_loc_update:
  "loc_id l' = i \<Longrightarrow> get_loc (d\<lparr>locations := table_update loc_id i (\<lambda>_. l') (locations d)\<rparr>) j =
     (if j = i then map_option (\<lambda>_. l') (get_loc d i) else get_loc d j)"
  by (simp add: get_loc_def table_get_update)

text \<open>A change of the locations table alone keeps the ledger invariants.\<close>

lemma journal_sealed_cong:
  assumes "movements d' = movements d" and "movement_lines d' = movement_lines d"
  shows "journal_sealed d' = journal_sealed d"
proof -
  have "validate_warehouse_movement_line_count d' i = validate_warehouse_movement_line_count d i" for i
    by (rule line_count_cong) (simp_all add: get_mov_def assms)
  then show ?thesis by (simp add: journal_sealed_def assms)
qed

lemma ledger_locations_update:
  "warehouse_inv d \<Longrightarrow> warehouse_inv (d\<lparr>locations := ls\<rparr>)"
  "journal_sealed d \<Longrightarrow> journal_sealed (d\<lparr>locations := ls\<rparr>)"
proof -
  show "warehouse_inv d \<Longrightarrow> warehouse_inv (d\<lparr>locations := ls\<rparr>)"
    by (rule warehouse_inv_cong)
      (simp_all add: warehouse_inv_def custody_holders_eligible_def custody_holder_eligible_def)
  show "journal_sealed d \<Longrightarrow> journal_sealed (d\<lparr>locations := ls\<rparr>)"
    using journal_sealed_cong [of "d\<lparr>locations := ls\<rparr>" d] by simp
qed

lemma create_location_inv:
  assumes "inventory_inv d" and call: "create_location d i p = Inr (d', l)"
  shows "inventory_inv d'"
proof -
  note c = create_location_Inr [OF call]
  have "locations_ok d'"
    using assms(1) c by (auto simp: inventory_inv_def locations_ok_def)
  moreover have "stock_at_active d'"
    using assms(1) c
    by (auto simp: inventory_inv_def stock_at_active_def get_loc_def table_get_append
        split: option.splits)
  ultimately show ?thesis
    using assms(1) c(1) ledger_locations_update by (simp add: inventory_inv_def)
qed

lemma update_location_inv:
  assumes "inventory_inv d" and call: "update_location d i p = Inr (d', l')"
  shows "inventory_inv d'"
proof -
  obtain l where l: "get_loc d i = Some l" and eq: "loc_normalized_code l' = loc_normalized_code l"
    "loc_status l' = loc_status l" "loc_archived_at l' = loc_archived_at l"
    "loc_code l' = loc_code l" "loc_id l' = i" "btrim (loc_name l') \<noteq> []"
    and d': "d' = d\<lparr>locations := table_update loc_id i (\<lambda>_. l') (locations d)\<rparr>"
    using update_location_Inr [OF call] by blast
  have ok: "locations_ok d" using assms(1) by (simp add: inventory_inv_def)
  have "locations_ok d'"
    using locations_ok_update [OF ok l _ eq(5,1)] location_row_of_get [OF ok l] eq
    by (simp add: d' location_row_ok_def)
  moreover have "stock_at_active d'"
    using assms(1) l eq(2,5)
    by (fastforce simp: inventory_inv_def stock_at_active_def d' get_loc_update)
  ultimately show ?thesis
    using assms(1) d' ledger_locations_update by (simp add: inventory_inv_def)
qed

lemma set_location_archived_inv:
  assumes "inventory_inv d" and call: "set_location_archived d i archived now = Inr (d', l')"
  shows "inventory_inv d'"
proof -
  obtain l where l: "get_loc d i = Some l"
    and l': "l' = l\<lparr>loc_status := (if archived then LOC_ARCHIVED else LOC_ACTIVE),
            loc_archived_at := (if archived then Some now else None)\<rparr>"
    and empty: "archived \<longrightarrow> (\<forall>b\<in>set (stock_balances d). sb_location_id b \<noteq> i)"
    and d': "d' = d\<lparr>locations := table_update loc_id i (\<lambda>_. l') (locations d)\<rparr>"
    using set_location_archived_Inr [OF call] by blast
  have ok: "locations_ok d" using assms(1) by (simp add: inventory_inv_def)
  have id: "loc_id l' = i" using location_row_of_get [OF ok l] by (simp add: l')
  have "locations_ok d'"
    using locations_ok_update [OF ok l _ id] location_row_of_get [OF ok l]
    by (simp add: d' l' location_row_ok_def)
  moreover have "stock_at_active d'"
    using assms(1) l empty id
    by (fastforce simp: inventory_inv_def stock_at_active_def d' get_loc_update l')
  ultimately show ?thesis
    using assms(1) d' ledger_locations_update by (simp add: inventory_inv_def)
qed

section \<open>Movements\<close>

lemma stock_row_iff:
  assumes "projection_tables_ok d"
  shows "(\<exists>b\<in>set (stock_balances d). sb_item_id b = i \<and> sb_location_id b = l) \<longleftrightarrow> 0 < stock_of d i l"
  using stock_table.positive_iff_row [of "stock_balances d" "(i, l)"] assms
  by (auto simp: stock_of_def projection_tables_ok_def sb_key_def)

lemma accepted_quantity_nonneg:
  assumes acc: "accepted sha256 d mid now p actor actor_name custody original m ls"
  shows "0 \<le> payload_quantity p i"
proof (cases "i \<in> ml_item_id ` set ls")
  case True
  then obtain ml where ml: "ml \<in> set ls" "i = ml_item_id ml" by auto
  then obtain l n where "l \<in> set (mc_lines p)" "ml = make_line d mid n l"
    using make_lines_Cons_source [of ml d mid p] acc by (auto simp: accepted_def)
  then have "0 < ml_quantity ml"
    using check_line_Inr(1) [of d p original custody l] acc by (simp add: accepted_def)
  then show ?thesis
    using line_quantity_line [OF accepted_distinct(1) [OF acc] ml(1)] ml(2)
      accepted_distinct(3) [OF acc, of i] by simp
next
  case False
  then show ?thesis using line_quantity_none accepted_distinct(3) [OF acc, of i] by fastforce
qed

lemma movement_inv:
  assumes inv: "inventory_inv d"
    and call: "create_movement_internal sha256 d mid now p actor actor_name custody = Inr (d', r)"
  shows "inventory_inv d'"
proof -
  have w: "warehouse_inv d" and sealed: "journal_sealed d" and ok: "locations_ok d"
    and active: "stock_at_active d"
    using inv by (simp_all add: inventory_inv_def)
  note ledger = create_movement_effect(1) [OF w call] new_movement_sealed [OF w sealed call]
  have "locations_ok d' \<and> stock_at_active d'"
    using call
  proof (cases rule: create_movement_cases)
    case replay
    then show ?thesis using ok active by simp
  next
    case (new original m ls)
    note acc = new(1) and eff = new_movement_effect [OF w new(1,3)]
    have locs: "locations d' = locations d"
      using same_but_projectionsD(5) [OF eff(1)] by (simp add: append_movement_def)
    have "\<exists>x. get_loc d l = Some x \<and> loc_status x = LOC_ACTIVE"
      if row: "b \<in> set (stock_balances d')" "sb_location_id b = l" for b l
    proof (cases "mc_destination_location_id p = Some l")
      case True
      have "check_locations d p = Inr ()" using acc by (simp add: accepted_def)
      from check_locations_Inr [OF this] True show ?thesis by simp
    next
      case False
      let ?i = "sb_item_id b"
      have "0 < stock_of d' ?i l" using stock_row_iff [OF eff(2)] row by blast
      then have "0 < stock_of d ?i l"
        using eff(4) [of ?i l] False accepted_quantity_nonneg [OF acc, of ?i] by (auto simp: spec_stock_def split: if_splits)
      then obtain b' where "b' \<in> set (stock_balances d)" "sb_location_id b' = l"
        using stock_row_iff [OF warehouse_invD(2) [OF w]] by blast
      then show ?thesis using active by (auto simp: stock_at_active_def)
    qed
    then have "stock_at_active d'" by (auto simp: stock_at_active_def get_loc_def locs)
    then show ?thesis using ok by (simp add: locations_ok_def locs)
  qed
  with ledger show ?thesis by (simp add: inventory_inv_def)
qed

lemma inventory_step_inv:
  assumes "inventory_step sha256 d d'" and "inventory_inv d"
  shows "inventory_inv d'"
  using assms(1)
proof cases
  case (step_create_location i p l)
  then show ?thesis using create_location_inv assms(2) by blast
next
  case (step_update_location i p l)
  then show ?thesis using update_location_inv assms(2) by blast
next
  case (step_set_location_archived i archived now l)
  then show ?thesis using set_location_archived_inv assms(2) by blast
next
  case (step_create_movement mid now p actor name custody r)
  then show ?thesis using movement_inv [OF assms(2) create_movement_internalI] by blast
next
  case (step_reverse_movement mid now oid key actor name r)
  then show ?thesis
    using movement_inv [OF assms(2)] by (auto simp: reverse_movement_def ebind_Inr_iff)
qed

text \<open>
  In every state the warehouse service can reach from a state that satisfies the
  invariant (an empty journal does), the query of the migrations that looks for drift of the
  projections finds none, the journal is sealed, location codes are unique, and no stock
  lies at an archived or unknown location.
\<close>

lemma reachable_inventory:
  assumes "inventory_inv d" and "(inventory_step sha256)\<^sup>*\<^sup>* d d'"
  shows "inventory_inv d' \<and> \<not> projection_drift_exists d'"
proof -
  from assms(2) have "inventory_inv d'"
    by (induction rule: rtranclp_induct) (use assms(1) inventory_step_inv in blast)+
  then show ?thesis
    by (simp add: inventory_inv_def warehouse_inv_def projections_agree_iff)
qed

lemma sample_db_inventory_inv: "inventory_inv sample_db"
  unfolding inventory_inv_def
proof (intro conjI)
  show "warehouse_inv sample_db" by (rule sample_db_inv)
  show "journal_sealed sample_db" by (simp add: journal_sealed_def sample_db_def)
  show "locations_ok sample_db"
    by (simp add: locations_ok_def location_row_ok_def sample_data eval_simps)
  show "stock_at_active sample_db" by (simp add: stock_at_active_def sample_db_def)
qed

lemma reachable_inventory_witness:
  "inventory_inv sample_issued \<and> \<not> projection_drift_exists sample_issued"
proof (rule reachable_inventory [OF sample_db_inventory_inv])
  have "inventory_step sample_digest sample_db sample_stocked"
    by (rule step_create_movement [OF sample_receipt_run])
  moreover have "inventory_step sample_digest sample_stocked sample_issued"
    by (rule step_create_movement [OF sample_issue_run])
  ultimately show "(inventory_step sample_digest)\<^sup>*\<^sup>* sample_db sample_issued" by auto
qed

text \<open>
  Archiving is refused with the code \<open>location_not_empty\<close> exactly when the location
  exists and some stock row refers to it; otherwise an existing location is archived.
\<close>

lemma archive_refused_iff_stocked:
  "set_location_archived d i True now = Inl (InventoryConflictError ''location_not_empty'') \<longleftrightarrow>
     get_loc d i \<noteq> None \<and> (\<exists>b\<in>set (stock_balances d). sb_location_id b = i)"
  "get_loc d i \<noteq> None \<Longrightarrow> \<not> (\<exists>b\<in>set (stock_balances d). sb_location_id b = i) \<Longrightarrow>
     \<exists>d' l. set_location_archived d i True now = Inr (d', l) \<and> get_loc d' i = Some l \<and>
       loc_status l = LOC_ARCHIVED \<and> loc_archived_at l = Some now"
proof -
  show "set_location_archived d i True now = Inl (InventoryConflictError ''location_not_empty'') \<longleftrightarrow>
     get_loc d i \<noteq> None \<and> (\<exists>b\<in>set (stock_balances d). sb_location_id b = i)"
    by (auto simp: set_location_archived_def Let_def split: option.splits)
  assume "get_loc d i \<noteq> None" and empty: "\<not> (\<exists>b\<in>set (stock_balances d). sb_location_id b = i)"
  then obtain l where l: "get_loc d i = Some l" by auto
  then have id: "loc_id l = i" by (auto simp: get_loc_def dest: table_get_SomeD)
  show "\<exists>d' l. set_location_archived d i True now = Inr (d', l) \<and> get_loc d' i = Some l \<and>
       loc_status l = LOC_ARCHIVED \<and> loc_archived_at l = Some now"
    using l empty id by (auto simp: set_location_archived_def Let_def get_loc_update)
qed

end
