(* ===== verification/Identity_Proofs.thy ===== *)
theory Identity_Proofs
  imports Auth Warehouse_Steps
begin

text \<open>
  Correctness of user administration and sign-in. Every handler either leaves the users
  alone or changes exactly one user row and records the change in the audit tables
  (\<open>user_changed\<close>); from this one fact follow the deferred triggers at commit, the
  invariants on owners and approvals, and the custody rule shared with the warehouse.
\<close>

section \<open>What one handler may change\<close>

definition same_but_identity :: "db \<Rightarrow> db \<Rightarrow> bool" where
  "same_but_identity d d' \<longleftrightarrow>
     d' = d\<lparr>users := users d', telegram_identities := telegram_identities d',
            access_requests := access_requests d', user_access_events := user_access_events d',
            user_role_events := user_role_events d', auth_sessions := auth_sessions d',
            notification_outboxes := notification_outboxes d'\<rparr>"

lemma same_but_identity_refl [simp]: "same_but_identity d d"
  by (simp add: same_but_identity_def)

lemma same_but_identity_iff:
  "same_but_identity d d' \<longleftrightarrow>
     manufacturers d' = manufacturers d \<and> items d' = items d \<and> locations d' = locations d \<and>
     movements d' = movements d \<and> movement_lines d' = movement_lines d \<and>
     stock_balances d' = stock_balances d \<and>
     user_item_custody_balances d' = user_item_custody_balances d \<and>
     procurement_requests d' = procurement_requests d \<and>
     procurement_revisions d' = procurement_revisions d \<and>
     procurement_revision_lines d' = procurement_revision_lines d \<and>
     procurement_line_catalog_bindings d' = procurement_line_catalog_bindings d \<and>
     procurement_events d' = procurement_events d"
  unfolding same_but_identity_def by (cases d; cases d') auto

lemma same_but_identity_trans:
  "same_but_identity a b \<Longrightarrow> same_but_identity b c \<Longrightarrow> same_but_identity a c"
  by (simp add: same_but_identity_iff)

definition access_audited :: "user_access_event list \<Rightarrow> user \<Rightarrow> user \<Rightarrow> bool" where
  "access_audited es t t' \<longleftrightarrow>
     u_access_status t = u_access_status t' \<or>
     (\<exists>e\<in>set es. uae_target_user_id e = u_id t \<and>
        uae_before_access_status e = u_access_status t \<and>
        uae_after_access_status e = u_access_status t')"

definition role_audited :: "user_role_event list \<Rightarrow> user \<Rightarrow> user \<Rightarrow> bool" where
  "role_audited es t t' \<longleftrightarrow>
     u_role t = u_role t' \<or>
     (\<exists>e\<in>set es. ure_target_user_id e = u_id t \<and> ure_before_role e = u_role t \<and>
        ure_after_role e = u_role t')"

definition user_changed :: "db \<Rightarrow> db \<Rightarrow> user \<Rightarrow> user \<Rightarrow> bool" where
  "user_changed d d' t t' \<longleftrightarrow>
     get_user d (u_id t) = Some t \<and> u_id t' = u_id t \<and> same_but_identity d d' \<and>
     map u_id (users d') = map u_id (users d) \<and>
     (\<forall>j. get_user d' j = (if j = u_id t then Some t' else get_user d j)) \<and>
     (\<exists>as rs. user_access_events d' = user_access_events d @ as \<and>
        user_role_events d' = user_role_events d @ rs \<and>
        access_audited as t t' \<and> role_audited rs t t')"

lemma user_changed_refl: "get_user d (u_id t) = Some t \<Longrightarrow> user_changed d d t t"
  by (auto simp: user_changed_def access_audited_def role_audited_def)

lemma user_changed_trans:
  assumes "user_changed d d1 t t1" and "user_changed d1 d2 t1 t2"
    and "u_access_status t = u_access_status t1 \<or> u_access_status t1 = u_access_status t2"
    and "u_role t = u_role t1 \<or> u_role t1 = u_role t2"
  shows "user_changed d d2 t t2"
proof -
  obtain as rs where 1: "user_access_events d1 = user_access_events d @ as"
    "user_role_events d1 = user_role_events d @ rs" "access_audited as t t1" "role_audited rs t t1"
    using assms(1) by (auto simp: user_changed_def)
  obtain bs ss where 2: "user_access_events d2 = user_access_events d1 @ bs"
    "user_role_events d2 = user_role_events d1 @ ss" "access_audited bs t1 t2" "role_audited ss t1 t2"
    using assms(2) by (auto simp: user_changed_def)
  have id: "u_id t1 = u_id t" using assms(1) by (simp add: user_changed_def)
  have "access_audited (as @ bs) t t2" "role_audited (rs @ ss) t t2"
    using 1(3,4) 2(3,4) assms(3,4) id by (auto simp: access_audited_def role_audited_def)
  then show ?thesis
    using assms(1,2) 1(1,2) 2(1,2) same_but_identity_trans
    by (auto simp: user_changed_def)
qed

lemma get_user_id: "get_user d i = Some u \<Longrightarrow> u_id u = i"
  by (auto simp: get_user_def dest: table_get_SomeD)

lemma get_user_cong: "users d' = users d \<Longrightarrow> get_user d' i = get_user d i"
  by (simp add: get_user_def)

lemma get_user_save:
  "get_user (save_user d u) j =
     (if j = u_id u then map_option (\<lambda>_. u) (get_user d (u_id u)) else get_user d j)"
  by (simp add: get_user_def save_user_def table_get_update)

lemma ids_save: "map u_id (users (save_user d u)) = map u_id (users d)"
  by (auto simp: save_user_def table_update_def)

text \<open>A later change of sessions, identities, requests or the outbox keeps \<open>user_changed\<close>.\<close>

lemma user_changed_after:
  assumes "user_changed d d1 t t'" and "same_but_identity d1 d2" and "users d2 = users d1"
    and "user_access_events d2 = user_access_events d1" and "user_role_events d2 = user_role_events d1"
  shows "user_changed d d2 t t'"
  using assms same_but_identity_trans [of d d1 d2] get_user_cong [OF assms(3)]
  by (simp add: user_changed_def)

lemma user_changed_before:
  assumes "user_changed d1 d2 t t'" and "same_but_identity d d1" and "users d1 = users d"
    and "user_access_events d1 = user_access_events d" and "user_role_events d1 = user_role_events d"
  shows "user_changed d d2 t t'"
  using assms same_but_identity_trans [of d d1 d2] get_user_cong [OF assms(3)]
  by (simp add: user_changed_def)

lemma transition_changed:
  assumes "get_user d (u_id t) = Some t"
    and "transition_user_access d t actor status now = (d', t', e)"
  shows "user_changed d d' t t'" and "u_access_status t' = status" and "u_role t' = u_role t"
    and "(e = None) = (u_access_status t = status)"
    and "e = None \<Longrightarrow> t' = t \<and> d' = d"
    and "e \<noteq> None \<Longrightarrow> (status = APPROVED \<longrightarrow> u_approved_at t' = Some now) \<and>
       (status \<noteq> APPROVED \<longrightarrow> u_approved_at t' = None \<and> u_approved_by_user_id t' = None)"
    and "auth_sessions d' = auth_sessions d" "telegram_identities d' = telegram_identities d"
    and "access_requests d' = access_requests d"
    and "notification_outboxes d' = notification_outboxes d"
proof -
  have same: "same_but_identity d ((save_user d u)\<lparr>user_access_events := es\<rparr>)" for u es
    by (simp add: same_but_identity_iff save_user_def)
  show "user_changed d d' t t'"
  proof (cases "u_access_status t = status")
    case True
    then show ?thesis using assms user_changed_refl by (auto simp: transition_user_access_def)
  next
    case False
    then show ?thesis
      using assms same
      by (auto simp: transition_user_access_def Let_def user_changed_def access_audited_def
          role_audited_def get_user_save get_user_cong [of "_\<lparr>user_access_events := _\<rparr>"] ids_save
          split: if_splits) (simp_all add: save_user_def)
  qed
qed (use assms in \<open>auto simp: transition_user_access_def Let_def save_user_def split: if_splits\<close>)

lemma change_role_changed:
  assumes "get_user d (u_id t) = Some t" and "change_role d t actor role now = (d', t', e)"
  shows "user_changed d d' t t'" and "t' = t\<lparr>u_role := role\<rparr>"
    and "auth_sessions d' = auth_sessions d" "telegram_identities d' = telegram_identities d"
    and "access_requests d' = access_requests d"
    and "notification_outboxes d' = notification_outboxes d"
proof -
  have same: "same_but_identity d ((save_user d u)\<lparr>user_role_events := es\<rparr>)" for u es
    by (simp add: same_but_identity_iff save_user_def)
  show "user_changed d d' t t'"
    using assms same
    by (auto simp: change_role_def Let_def user_changed_def access_audited_def role_audited_def
        get_user_save get_user_cong [of "_\<lparr>user_role_events := _\<rparr>"] ids_save)
      (simp_all add: save_user_def)
qed (use assms in \<open>auto simp: change_role_def Let_def save_user_def\<close>)

section \<open>The invariant on users\<close>

definition stamp_ok :: "user \<Rightarrow> bool" where
  "stamp_ok u \<longleftrightarrow>
     (u_access_status u = APPROVED \<longrightarrow> u_approved_at u \<noteq> None) \<and>
     (u_access_status u \<noteq> APPROVED \<longrightarrow> u_approved_at u = None \<and> u_approved_by_user_id u = None)"

definition users_inv :: "db \<Rightarrow> bool" where
  "users_inv d \<longleftrightarrow>
     distinct (map u_id (users d)) \<and>
     (\<forall>u\<in>set (users d). stamp_ok u \<and> (u_role u = OWNER \<longrightarrow> u_access_status u = APPROVED)) \<and>
     (\<forall>u\<in>set (users d). \<forall>v\<in>set (users d). u_role u = OWNER \<and> u_role v = OWNER \<longrightarrow> u_id u = u_id v)"

definition create_ok :: "user \<Rightarrow> bool" where
  "create_ok u \<longleftrightarrow> u_access_status u = APPROVED \<and> has_capability (u_role u) PROCUREMENT_CREATE"

definition responsibilities_ok :: "db \<Rightarrow> bool" where
  "responsibilities_ok d \<longleftrightarrow>
     (\<forall>r\<in>set (procurement_requests d).
        pr_status r \<in> {AGREEMENT_PENDING_MANAGER, AGREEMENT_REVISION_REQUIRED} \<longrightarrow>
        (\<exists>u\<in>set (users d). u_id u = pr_initiator_user_id r \<and> create_ok u))"

definition holder_ok :: "user \<Rightarrow> bool" where
  "holder_ok u \<longleftrightarrow> u_access_status u = APPROVED \<and> (u_role u = ENGINEER \<or> u_role u = SENIOR_ENGINEER)"

lemma user_member_iff:
  "distinct (map u_id (users d)) \<Longrightarrow> u \<in> set (users d) \<longleftrightarrow> get_user d (u_id u) = Some u"
  by (simp add: get_user_def table_get_Some_iff)

lemma get_user_member: "get_user d i = Some u \<Longrightarrow> u \<in> set (users d) \<and> u_id u = i"
  by (auto simp: get_user_def dest: table_get_SomeD)

lemma changed_members:
  assumes "distinct (map u_id (users d))" and "user_changed d d' t t'" and "u \<in> set (users d')"
  shows "u = t' \<or> (u \<in> set (users d) \<and> u_id u \<noteq> u_id t)"
proof -
  have "distinct (map u_id (users d'))" using assms by (simp add: user_changed_def)
  then have "get_user d' (u_id u) = Some u" using assms(3) user_member_iff by blast
  moreover have "get_user d' (u_id u) = (if u_id u = u_id t then Some t' else get_user d (u_id u))"
    using assms(2) by (simp add: user_changed_def)
  ultimately show ?thesis by (cases "u_id u = u_id t") (auto dest: get_user_member)
qed

lemma changed_users_inv:
  assumes inv: "users_inv d" and ch: "user_changed d d' t t'"
    and t': "stamp_ok t \<Longrightarrow> stamp_ok t'" "u_role t' = OWNER \<Longrightarrow> u_access_status t' = APPROVED"
    and owner: "u_role t' = OWNER \<Longrightarrow> \<forall>x\<in>set (users d). u_role x = OWNER \<longrightarrow> u_id x = u_id t"
  shows "users_inv d'"
proof -
  have dist: "distinct (map u_id (users d))" using inv by (simp add: users_inv_def)
  note mem = changed_members [OF dist ch]
  have "t \<in> set (users d)" "u_id t' = u_id t"
    using ch by (auto simp: user_changed_def dest: get_user_member)
  then have "stamp_ok t'" using inv t'(1) by (simp add: users_inv_def)
  moreover have "distinct (map u_id (users d'))" using dist ch by (simp add: user_changed_def)
  moreover have "u_id u = u_id v" if "u \<in> set (users d')" "v \<in> set (users d')"
    "u_role u = OWNER" "u_role v = OWNER" for u v
  proof -
    have old: "u_id x = u_id y" if "x \<in> set (users d)" "y \<in> set (users d)"
      "u_role x = OWNER" "u_role y = OWNER" for x y
      using inv that unfolding users_inv_def by blast
    show ?thesis
      using mem [OF that(1)] mem [OF that(2)] that(3,4) owner old \<open>u_id t' = u_id t\<close> by metis
  qed
  moreover have "stamp_ok u \<and> (u_role u = OWNER \<longrightarrow> u_access_status u = APPROVED)"
    if "u \<in> set (users d')" for u
    using mem [OF that] \<open>stamp_ok t'\<close> t'(2) inv by (auto simp: users_inv_def)
  ultimately show ?thesis unfolding users_inv_def by blast
qed

lemma eligible_iff:
  "distinct (map u_id (users d)) \<Longrightarrow>
     custody_holder_eligible d i \<longleftrightarrow> (\<exists>u. get_user d i = Some u \<and> holder_ok u)"
  by (auto simp: custody_holder_eligible_def holder_ok_def user_member_iff dest: get_user_member)

lemma changed_warehouse_inv:
  assumes "warehouse_inv d" and dist: "distinct (map u_id (users d))" and ch: "user_changed d d' t t'"
    and holder: "has_custody d (u_id t) \<Longrightarrow> holder_ok t \<Longrightarrow> holder_ok t'"
  shows "warehouse_inv d'"
proof -
  have same: "same_but_identity d d'" and dist': "distinct (map u_id (users d'))"
    and get: "\<And>j. get_user d' j = (if j = u_id t then Some t' else get_user d j)"
    and t: "get_user d (u_id t) = Some t"
    using ch dist by (auto simp: user_changed_def)
  have "custody_holder_eligible d' (cb_user_id b)" if "b \<in> set (user_item_custody_balances d)" for b
  proof -
    have "custody_holder_eligible d (cb_user_id b)"
      using warehouse_invD(3) [OF assms(1)] that by (simp add: custody_holders_eligible_def)
    moreover have "has_custody d (cb_user_id b)" using that by (auto simp: has_custody_def)
    ultimately show ?thesis
      using holder t by (auto simp: eligible_iff [OF dist] eligible_iff [OF dist'] get)
  qed
  then have "custody_holders_eligible d'"
    using same by (simp add: custody_holders_eligible_def same_but_identity_iff)
  then show ?thesis
    using warehouse_inv_cong [OF assms(1)] same by (simp add: same_but_identity_iff)
qed

lemma changed_responsibilities:
  assumes "responsibilities_ok d" and dist: "distinct (map u_id (users d))"
    and ch: "user_changed d d' t t'"
    and keeps: "has_active_procurement_create_responsibility d (u_id t) \<Longrightarrow> create_ok t \<Longrightarrow> create_ok t'"
  shows "responsibilities_ok d'"
  unfolding responsibilities_ok_def
proof (intro ballI impI)
  fix r assume "r \<in> set (procurement_requests d')"
    and active: "pr_status r \<in> {AGREEMENT_PENDING_MANAGER, AGREEMENT_REVISION_REQUIRED}"
  then have r: "r \<in> set (procurement_requests d)"
    using ch by (simp add: user_changed_def same_but_identity_iff)
  with assms(1) active obtain u where u: "u \<in> set (users d)" "u_id u = pr_initiator_user_id r"
    "create_ok u"
    unfolding responsibilities_ok_def by blast
  have t: "get_user d (u_id t) = Some t" "u_id t' = u_id t"
    and get: "get_user d' j = (if j = u_id t then Some t' else get_user d j)" for j
    using ch by (auto simp: user_changed_def)
  show "\<exists>u\<in>set (users d'). u_id u = pr_initiator_user_id r \<and> create_ok u"
  proof (cases "u_id u = u_id t")
    case True
    have "get_user d (u_id u) = Some u" using u(1) user_member_iff [OF dist] by blast
    then have "u = t" using True t(1) by simp
    moreover have "has_active_procurement_create_responsibility d (u_id t)"
      using r active u(2) True unfolding has_active_procurement_create_responsibility_def by auto
    ultimately have "create_ok t'" using keeps u(3) by blast
    moreover have "t' \<in> set (users d')"
      using get_user_member [of d' "u_id t" t'] get [of "u_id t"] by simp
    ultimately show ?thesis using True u(2) t(2) by (intro bexI [of _ t']) simp_all
  next
    case False
    moreover have "get_user d (u_id u) = Some u" using u(1) user_member_iff [OF dist] by blast
    ultimately have "get_user d' (u_id u) = Some u" by (simp add: get)
    from get_user_member [OF this] show ?thesis using u(2,3) by (intro bexI [of _ u]) simp_all
  qed
qed

section \<open>Deferred triggers at commit\<close>

lemma changed_commit:
  assumes inv: "warehouse_inv d" and dist: "distinct (map u_id (users d))"
    and ch: "user_changed d d' t t'"
    and holder: "has_custody d (u_id t) \<Longrightarrow> holder_ok t \<Longrightarrow> holder_ok t'"
  shows "users_commit d d'"
proof -
  obtain as rs where ev: "user_access_events d' = user_access_events d @ as"
    "user_role_events d' = user_role_events d @ rs" "access_audited as t t'" "role_audited rs t t'"
    using ch by (auto simp: user_changed_def)
  have t: "get_user d (u_id t) = Some t" "u_id t' = u_id t"
    and cust: "has_custody d' i = has_custody d i" for i
    using ch by (auto simp: user_changed_def has_custody_def same_but_identity_iff)
  have same: "get_user d (u_id u) = Some u" if "u \<in> set (users d')" "u \<noteq> t'" for u
    using changed_members [OF dist ch that(1)] that(2) user_member_iff [OF dist] by auto
  have hold: "holder_ok t" if "has_custody d (u_id t)"
  proof -
    have "custody_holder_eligible d (u_id t)"
      using that warehouse_invD(3) [OF inv] by (auto simp: has_custody_def custody_holders_eligible_def)
    then show ?thesis using eligible_iff [OF dist] t by auto
  qed
  have 1: "enforce_user_access_audit_coupling d d'"
    unfolding enforce_user_access_audit_coupling_def
  proof
    fix u assume "u \<in> set (users d')"
    then show "case get_user d (u_id u) of None \<Rightarrow> True
      | Some old \<Rightarrow> u_access_status old = u_access_status u \<or>
          (\<exists>e\<in>set (drop (length (user_access_events d)) (user_access_events d')).
             uae_target_user_id e = u_id u \<and> uae_before_access_status e = u_access_status old \<and>
             uae_after_access_status e = u_access_status u)"
      using same [of u] ev(1,3) t by (cases "u = t'") (auto simp: access_audited_def)
  qed
  have 2: "enforce_user_role_audit_coupling d d'"
    unfolding enforce_user_role_audit_coupling_def
  proof
    fix u assume "u \<in> set (users d')"
    then show "case get_user d (u_id u) of None \<Rightarrow> True
      | Some old \<Rightarrow> u_role old = u_role u \<or>
          (\<exists>e\<in>set (drop (length (user_role_events d)) (user_role_events d')).
             ure_target_user_id e = u_id u \<and> ure_before_role e = u_role old \<and>
             ure_after_role e = u_role u)"
      using same [of u] ev(2,4) t by (cases "u = t'") (auto simp: role_audited_def)
  qed
  have 3: "enforce_user_custody_eligibility d d'"
    unfolding enforce_user_custody_eligibility_def
  proof
    fix u assume "u \<in> set (users d')"
    then show "case get_user d (u_id u) of None \<Rightarrow> True
      | Some old \<Rightarrow> (u_role old = u_role u \<and> u_access_status old = u_access_status u) \<or>
          \<not> ((u_access_status u \<noteq> APPROVED \<or> u_role u \<notin> {ENGINEER, SENIOR_ENGINEER}) \<and>
             has_custody d' (u_id u))"
      using same [of u] t holder hold by (cases "u = t'") (auto simp: cust holder_ok_def)
  qed
  from 1 2 3 show ?thesis by (simp add: users_commit_def)
qed

section \<open>The contract of an administrative handler\<close>

definition admin_change :: "db \<Rightarrow> db \<Rightarrow> uuid \<Rightarrow> user \<Rightarrow> user \<Rightarrow> bool" where
  "admin_change d d' actor t t' \<longleftrightarrow>
     user_changed d d' t t' \<and>
     (\<exists>a. get_user d actor = Some a \<and> u_access_status a = APPROVED \<and> u_role a \<in> {ADMIN, OWNER} \<and>
        (u_role t = ADMIN \<or> u_role t' = ADMIN \<longrightarrow> u_role a = OWNER)) \<and>
     actor \<noteq> u_id t \<and> u_role t \<noteq> OWNER \<and> u_role t' \<noteq> OWNER \<and>
     (stamp_ok t \<longrightarrow> stamp_ok t') \<and>
     (has_custody d (u_id t) \<and> holder_ok t \<longrightarrow> holder_ok t') \<and>
     (has_active_procurement_create_responsibility d (u_id t) \<and> create_ok t \<longrightarrow> create_ok t')"

definition drop_result :: "'e + db \<times> 'r \<Rightarrow> 'e + db" where
  "drop_result r = (case r of Inl e \<Rightarrow> Inl e | Inr (d, _) \<Rightarrow> Inr d)"

lemma drop_result_Inr [result_simps]: "drop_result r = Inr d \<longleftrightarrow> (\<exists>x. r = Inr (d, x))"
  by (cases r) (auto simp: drop_result_def)

definition accounts_inv :: "bool \<Rightarrow> db \<Rightarrow> bool" where
  "accounts_inv b d \<longleftrightarrow> users_inv d \<and> warehouse_inv d \<and> (b \<longrightarrow> responsibilities_ok d)"

abbreviation identity_inv :: "db \<Rightarrow> bool" where
  "identity_inv \<equiv> accounts_inv True"

locale admin_handler =
  fixes run :: "'x \<Rightarrow> db \<Rightarrow> uuid \<Rightarrow> uuid \<Rightarrow> identity_error + db"
  assumes contract: "run x d actor target = Inr d' \<Longrightarrow>
    d' = d \<or> (\<exists>t t'. u_id t = target \<and> admin_change d d' actor t t')"
begin

lemma keeps_inv:
  assumes "accounts_inv b d" and "run x d actor target = Inr d'"
  shows "accounts_inv b d'"
proof -
  have dist: "distinct (map u_id (users d))" using assms(1) by (simp add: accounts_inv_def users_inv_def)
  from contract [OF assms(2)] show ?thesis
  proof (elim disjE exE conjE)
    assume "d' = d" then show ?thesis using assms(1) by simp
  next
    fix t t' assume "admin_change d d' actor t t'"
    then have ch: "user_changed d d' t t'" and facts: "u_role t' \<noteq> OWNER" "stamp_ok t \<longrightarrow> stamp_ok t'"
      "has_custody d (u_id t) \<and> holder_ok t \<longrightarrow> holder_ok t'"
      "has_active_procurement_create_responsibility d (u_id t) \<and> create_ok t \<longrightarrow> create_ok t'"
      by (simp_all add: admin_change_def)
    then show ?thesis
      using assms(1) changed_users_inv [of d, OF _ ch] changed_warehouse_inv [OF _ dist ch]
        changed_responsibilities [OF _ dist ch]
      by (simp add: accounts_inv_def)
  qed
qed

lemma commits:
  assumes "accounts_inv b d" and "run x d actor target = Inr d'"
  shows "users_commit d d'"
proof -
  have dist: "distinct (map u_id (users d))" and w: "warehouse_inv d"
    using assms(1) by (simp_all add: accounts_inv_def users_inv_def)
  from contract [OF assms(2)] show ?thesis
  proof (elim disjE exE conjE)
    assume [simp]: "d' = d"
    have "get_user d (u_id u) = Some u" if "u \<in> set (users d)" for u
      using that user_member_iff [OF dist] by blast
    then show ?thesis
      by (auto simp: users_commit_def enforce_user_access_audit_coupling_def
          enforce_user_role_audit_coupling_def enforce_user_custody_eligibility_def)
  next
    fix t t' assume "admin_change d d' actor t t'"
    then show ?thesis using changed_commit [OF w dist] by (auto simp: admin_change_def)
  qed
qed

lemma no_escalation:
  assumes "accounts_inv b d" and "run x d actor target = Inr d'" and "get_user d' i = Some u"
    and "get_user d i \<noteq> Some u"
  shows "i = target \<and> i \<noteq> actor \<and> u_role u \<noteq> OWNER \<and>
     (\<exists>a old. get_user d actor = Some a \<and> u_access_status a = APPROVED \<and>
        u_role a \<in> {ADMIN, OWNER} \<and> get_user d i = Some old \<and> u_role old \<noteq> OWNER \<and>
        (u_role old = ADMIN \<or> u_role u = ADMIN \<longrightarrow> u_role a = OWNER))"
  using contract [OF assms(2)]
proof (elim disjE exE conjE)
  assume "d' = d" then show ?thesis using assms(3,4) by simp
next
  fix t t' assume t: "u_id t = target" and ch: "admin_change d d' actor t t'"
  then have "i = target" "u = t'" "get_user d target = Some t"
    using assms(3,4) by (auto simp: admin_change_def user_changed_def split: if_splits)
  then show ?thesis using ch t by (auto simp: admin_change_def)
qed

end

lemma lock_actor_and_target_Inr:
  assumes "lock_actor_and_target d actor_id target_id = Inr (a, t)"
  shows "get_user d actor_id = Some a" "get_user d target_id = Some t"
    "u_access_status a = APPROVED" "u_role a \<in> {ADMIN, OWNER}"
    "u_id a = actor_id" "u_id t = target_id"
  using assms manage_users_iff
  by (auto simp: lock_actor_and_target_def simp del: has_capability_iff
      dest: get_user_id split: option.splits if_splits)

lemma revoke_sessions_same:
  "same_but_identity d (revoke_sessions d i now)" "users (revoke_sessions d i now) = users d"
  "user_access_events (revoke_sessions d i now) = user_access_events d"
  "user_role_events (revoke_sessions d i now) = user_role_events d"
  by (simp_all add: revoke_sessions_def same_but_identity_iff)

lemma revoke_session_revoked:
  "as_user_id (revoke_session i now s) = i \<Longrightarrow> as_revoked_at (revoke_session i now s) \<noteq> None"
  by (simp add: revoke_session_def split: if_splits)

lemma revoked_all:
  assumes "s \<in> set (auth_sessions (revoke_sessions d i now))" and "as_user_id s = i"
  shows "as_revoked_at s \<noteq> None"
proof -
  obtain x where "s = revoke_session i now x" using assms(1) by (auto simp: revoke_sessions_def)
  then show ?thesis using revoke_session_revoked [of i now x] assms(2) by blast
qed

lemma update_user_access_contract:
  assumes "update_user_access d actor_id target_id status recovery now = Inr (d', t', e)"
  shows "d' = d \<or> (\<exists>t t'. u_id t = target_id \<and> admin_change d d' actor_id t t')"
proof -
  obtain a t where lock: "lock_actor_and_target d actor_id target_id = Inr (a, t)"
    using assms by (auto simp: update_user_access_def ebind_Inr_iff)
  note l = lock_actor_and_target_Inr [OF lock]
  show ?thesis
  proof (cases "status = u_access_status t")
    case True
    then show ?thesis using assms lock by (simp add: update_user_access_def)
  next
    case False
    obtain d1 t1 e1 where tr: "transition_user_access d t actor_id status now = (d1, t1, e1)"
      by (metis prod_cases3)
    have t: "get_user d (u_id t) = Some t" using l by simp
    note ch = transition_changed [OF t tr]
    have guards: "(u_access_status t, status) \<in> {(APPROVED, BLOCKED), (BLOCKED, APPROVED)}"
      "u_role t \<noteq> OWNER" "u_role t = ADMIN \<longrightarrow> u_role a = OWNER" "u_id a \<noteq> u_id t"
      "status = BLOCKED \<longrightarrow> \<not> has_custody d (u_id t)"
      "status = BLOCKED \<longrightarrow> \<not> (has_capability (u_role t) PROCUREMENT_CREATE \<and>
         has_active_procurement_create_responsibility d (u_id t))"
      and d': "d' = (if status = BLOCKED then revoke_sessions d1 (u_id t) now else d1)"
      using assms lock False tr assign_admin_iff
      by (auto simp: update_user_access_def Let_def simp del: has_capability_iff split: if_splits)
    have "user_changed d d' t t1"
      using ch(1) user_changed_after [OF ch(1) revoke_sessions_same] by (simp add: d')
    moreover have "stamp_ok t1" using ch(2,4,6) False by (auto simp: stamp_ok_def)
    ultimately have "admin_change d d' actor_id t t1"
      using guards l ch(2,3) False
      by (auto simp: admin_change_def holder_ok_def create_ok_def simp del: has_capability_iff)
    then show ?thesis using l(6) by blast
  qed
qed

lemma save_request_same:
  "same_but_identity d (save_access_request d r)" "users (save_access_request d r) = users d"
  "user_access_events (save_access_request d r) = user_access_events d"
  "user_role_events (save_access_request d r) = user_role_events d"
  by (simp_all add: save_access_request_def same_but_identity_iff)

lemma decide_contract:
  assumes "decide_pending_access_request d actor_id target_id decision recovery now =
      Inr (d', t', r, e)"
  shows "\<exists>t t'. u_id t = target_id \<and> admin_change d d' actor_id t t'"
proof -
  obtain a t where lock: "lock_actor_and_target d actor_id target_id = Inr (a, t)"
    using assms by (auto simp: decide_pending_access_request_def ebind_Inr_iff split: if_splits)
  note l = lock_actor_and_target_Inr [OF lock]
  let ?status = "if decision = AR_APPROVED then APPROVED else REJECTED"
  obtain d1 t1 e1 where tr: "transition_user_access d t (u_id a) ?status now = (d1, t1, e1)"
    by (metis prod_cases3)
  have t: "get_user d (u_id t) = Some t" using l by simp
  note ch = transition_changed [OF t tr]
  have guards: "u_role t \<noteq> OWNER" "u_role t = ADMIN \<longrightarrow> u_role a = OWNER" "u_id a \<noteq> u_id t"
    "u_access_status t = PENDING" and d': "\<exists>r. d' = save_access_request d1 r"
    using assms lock tr assign_admin_iff
    by (auto simp: decide_pending_access_request_def Let_def simp del: has_capability_iff
        split: if_splits option.splits)
  have "user_changed d d' t t1"
    using d' user_changed_after [OF ch(1) save_request_same] by auto
  moreover have "stamp_ok t1" using ch(2,4,6) guards(4) by (auto simp: stamp_ok_def split: if_splits)
  ultimately have "admin_change d d' actor_id t t1"
    using guards l ch(2,3) by (auto simp: admin_change_def holder_ok_def create_ok_def)
  then show ?thesis using l(6) by blast
qed

lemma update_user_role_contract:
  assumes "update_user_role d actor_id target_id role recovery now = Inr (d', t', e)"
  shows "d' = d \<or> (\<exists>t t'. u_id t = target_id \<and> admin_change d d' actor_id t t')"
proof -
  obtain a t where lock: "lock_actor_and_target d actor_id target_id = Inr (a, t)"
    using assms by (auto simp: update_user_role_def ebind_Inr_iff)
  note l = lock_actor_and_target_Inr [OF lock]
  show ?thesis
  proof (cases "role = u_role t")
    case True
    then show ?thesis
      using assms lock by (auto simp: update_user_role_def Let_def split: if_splits)
  next
    case False
    obtain d1 t1 e1 where cr: "change_role d t (u_id a) role now = (d1, t1, e1)"
      by (metis prod_cases3)
    have t: "get_user d (u_id t) = Some t" using l by simp
    note ch = change_role_changed [OF t cr]
    have guards: "role \<noteq> OWNER" "u_role t \<noteq> OWNER" "u_role t = ADMIN \<longrightarrow> u_role a = OWNER"
      "u_id a \<noteq> u_id t" "role = ADMIN \<longrightarrow> u_role a = OWNER"
      "has_custody d (u_id t) \<longrightarrow> role = ENGINEER \<or> role = SENIOR_ENGINEER"
      "has_active_procurement_create_responsibility d (u_id t) \<and>
         has_capability (u_role t) PROCUREMENT_CREATE \<longrightarrow> has_capability role PROCUREMENT_CREATE"
      and d': "d' = d1"
      using assms lock False cr assign_admin_iff
      by (auto simp: update_user_role_def Let_def simp del: has_capability_iff split: if_splits)
    have "admin_change d d' actor_id t t1"
      using guards l ch(1,2) by (auto simp: d' admin_change_def holder_ok_def create_ok_def
          stamp_ok_def simp del: has_capability_iff)
    then show ?thesis using l(6) by blast
  qed
qed

lemma drop_pending_same:
  "same_but_identity d (drop_pending_requests sha256 d i)"
  "users (drop_pending_requests sha256 d i) = users d"
  "user_access_events (drop_pending_requests sha256 d i) = user_access_events d"
  "user_role_events (drop_pending_requests sha256 d i) = user_role_events d"
  "auth_sessions (drop_pending_requests sha256 d i) = auth_sessions d"
  by (simp_all add: drop_pending_requests_def same_but_identity_iff)

text \<open>A reset blocks the user, takes every role away, ends the sessions and the identity.\<close>

lemma reset_effect:
  assumes "reset_user_account sha256 d actor_id target_id expected recovery now = Inr d'"
  shows "\<exists>t t'. u_id t = target_id \<and> admin_change d d' actor_id t t' \<and>
     u_access_status t' = BLOCKED \<and> u_role t' = ENGINEER"
    and "get_identity d' target_id = None"
    and "\<forall>s\<in>set (auth_sessions d'). as_user_id s = target_id \<longrightarrow> as_revoked_at s \<noteq> None"
    and "\<forall>r\<in>set (access_requests d'). ar_user_id r = target_id \<longrightarrow> ar_status r \<noteq> AR_PENDING"
    and "set (telegram_identities d') \<subseteq> set (telegram_identities d)"
proof -
  obtain a t where lock: "lock_actor_and_target d actor_id target_id = Inr (a, t)"
    using assms by (auto simp: reset_user_account_def ebind_Inr_iff split: if_splits option.splits)
  note l = lock_actor_and_target_Inr [OF lock]
  let ?d1 = "revoke_sessions d target_id now"
  let ?d2 = "drop_pending_requests sha256 ?d1 target_id"
  obtain d3 t1 e1 where tr: "transition_user_access ?d2 t actor_id BLOCKED now = (d3, t1, e1)"
    by (metis prod_cases3)
  let ?d4 = "if u_role t1 \<noteq> ENGINEER then fst (change_role d3 t1 actor_id ENGINEER now) else d3"
  have guards: "actor_id \<noteq> target_id" "u_role t \<noteq> OWNER" "u_role t = ADMIN \<longrightarrow> u_role a = OWNER"
    "\<not> has_custody d target_id"
    "\<not> (\<exists>r\<in>set (procurement_requests d). pr_status r \<noteq> COMPLETED \<and>
        (pr_initiator_user_id r = target_id \<or> pr_assigned_manager_user_id r = target_id))"
    and d': "d' = ?d4\<lparr>telegram_identities :=
       filter (\<lambda>t. ti_user_id t \<noteq> target_id) (telegram_identities ?d4)\<rparr>"
    using assms lock l(5,6) tr assign_admin_iff
    by (auto simp: reset_user_account_def Let_def simp del: has_capability_iff
        split: if_splits option.splits)
  have t2: "get_user ?d2 (u_id t) = Some t"
    using l by (simp add: get_user_cong [OF drop_pending_same(2)] get_user_cong [OF revoke_sessions_same(2)])
  note tc = transition_changed [OF t2 tr]
  have c3: "user_changed d d3 t t1"
    by (rule user_changed_before [OF user_changed_before [OF tc(1) drop_pending_same(1-4)]
          revoke_sessions_same])
  have t3: "get_user d3 (u_id t1) = Some t1" using c3 by (auto simp: user_changed_def)
  define t4 where "t4 = t1\<lparr>u_role := ENGINEER\<rparr>"
  obtain dc tx ec where cr: "change_role d3 t1 actor_id ENGINEER now = (dc, tx, ec)"
    by (metis prod_cases3)
  note rc = change_role_changed [OF t3 cr]
  have c4: "user_changed d ?d4 t t4"
  proof (cases "u_role t1 = ENGINEER")
    case True
    then have "t4 = t1" by (simp add: t4_def)
    with True c3 show ?thesis by simp
  next
    case False
    then show ?thesis
      using user_changed_trans [OF c3 rc(1)] rc(2) cr tc(3) by (auto simp: t4_def)
  qed
  have sessions: "auth_sessions ?d4 = auth_sessions ?d1"
    and requests: "access_requests ?d4 = access_requests ?d2"
    using rc(3,5) cr tc(7,9) drop_pending_same(5) by auto
  have "user_changed d d' t t4"
    by (rule user_changed_after [OF c4]) (simp_all add: d' same_but_identity_iff)
  moreover have "stamp_ok t \<longrightarrow> stamp_ok t4"
    using tc(2,4,5,6) by (auto simp: stamp_ok_def t4_def)
  moreover have "\<not> has_active_procurement_create_responsibility d target_id"
    using guards(5) by (auto simp: has_active_procurement_create_responsibility_def)
  ultimately have change: "admin_change d d' actor_id t t4"
    using guards l by (auto simp: admin_change_def t4_def)
  have "u_access_status t4 = BLOCKED" "u_role t4 = ENGINEER" by (simp_all add: t4_def tc(2))
  with change show "\<exists>t t'. u_id t = target_id \<and> admin_change d d' actor_id t t' \<and>
     u_access_status t' = BLOCKED \<and> u_role t' = ENGINEER"
    using l(6) \<open>u_access_status t4 = BLOCKED\<close> \<open>u_role t4 = ENGINEER\<close> by blast
  show "get_identity d' target_id = None"
    unfolding d' get_identity_def table_get_None_iff by (simp add: image_iff)
  show "\<forall>s\<in>set (auth_sessions d'). as_user_id s = target_id \<longrightarrow> as_revoked_at s \<noteq> None"
  proof -
    have "auth_sessions d' = auth_sessions ?d1" unfolding d' using sessions by simp
    then show ?thesis using revoked_all by simp
  qed
  show "\<forall>r\<in>set (access_requests d'). ar_user_id r = target_id \<longrightarrow> ar_status r \<noteq> AR_PENDING"
    unfolding d' using requests by (simp add: drop_pending_requests_def)
  have "telegram_identities ?d4 = telegram_identities d"
    using rc(4) cr tc(8) by (auto simp: drop_pending_requests_def revoke_sessions_def)
  then show "set (telegram_identities d') \<subseteq> set (telegram_identities d)" unfolding d' by simp
qed

definition run_update_access ::
    "user_access_status \<times> int option \<times> timestamp \<Rightarrow> db \<Rightarrow> uuid \<Rightarrow> uuid \<Rightarrow> identity_error + db" where
  "run_update_access x d actor target =
     (case x of (status, recovery, now) \<Rightarrow>
        drop_result (update_user_access d actor target status recovery now))"

definition run_decide ::
    "access_request_status \<times> int option \<times> timestamp \<Rightarrow> db \<Rightarrow> uuid \<Rightarrow> uuid \<Rightarrow> identity_error + db" where
  "run_decide x d actor target =
     (case x of (decision, recovery, now) \<Rightarrow>
        drop_result (decide_pending_access_request d actor target decision recovery now))"

definition run_update_role ::
    "user_role \<times> int option \<times> timestamp \<Rightarrow> db \<Rightarrow> uuid \<Rightarrow> uuid \<Rightarrow> identity_error + db" where
  "run_update_role x d actor target =
     (case x of (role, recovery, now) \<Rightarrow>
        drop_result (update_user_role d actor target role recovery now))"

definition run_reset ::
    "(string \<Rightarrow> string) \<times> int \<times> int option \<times> timestamp \<Rightarrow> db \<Rightarrow> uuid \<Rightarrow> uuid \<Rightarrow> identity_error + db" where
  "run_reset x d actor target =
     (case x of (sha256, expected, recovery, now) \<Rightarrow>
        reset_user_account sha256 d actor target expected recovery now)"

interpretation access_handler: admin_handler run_update_access
  by unfold_locales
    (auto simp: run_update_access_def drop_result_Inr dest!: update_user_access_contract)

interpretation decide_handler: admin_handler run_decide
  by unfold_locales (auto simp: run_decide_def drop_result_Inr dest!: decide_contract)

interpretation role_handler: admin_handler run_update_role
  by unfold_locales (auto simp: run_update_role_def drop_result_Inr dest!: update_user_role_contract)

interpretation reset_handler: admin_handler run_reset
  by unfold_locales (auto simp: run_reset_def dest!: reset_effect(1))

section \<open>The recovery owner\<close>

lemma approve_pending_same:
  assumes "approve_pending_request d i now = (d', c)"
  shows "same_but_identity d d'" "users d' = users d" "user_access_events d' = user_access_events d"
    "user_role_events d' = user_role_events d"
  using assms save_request_same by (auto simp: approve_pending_request_def split: list.splits)

lemma save_user_changed:
  assumes "get_user d (u_id t) = Some t" and "u_id t' = u_id t"
    and "u_access_status t' = u_access_status t" and "u_role t' = u_role t"
  shows "user_changed d (save_user d t') t t'"
  using assms
  by (auto simp: user_changed_def get_user_save ids_save access_audited_def role_audited_def
      same_but_identity_iff) (simp_all add: save_user_def)

lemma reconcile_effect:
  assumes "reconcile_recovery_owner d u identity recovery now = Inr (d', c)"
  shows "d' = d \<or> (\<exists>t t'. u_id t = u_id u \<and> user_changed d d' t t' \<and> u_role t' = OWNER \<and>
     u_access_status t' = APPROVED \<and> u_approved_at t' \<noteq> None \<and> u_approved_by_user_id t' \<noteq> None \<and>
     (\<forall>x\<in>set (users d). u_role x = OWNER \<longrightarrow> u_id x = u_id t))"
proof (cases "recovery = None \<or> recovery \<noteq> Some (ti_telegram_user_id identity) \<or> recovery_settled d u")
  case True
  then show ?thesis using assms by (auto simp: reconcile_recovery_owner_def split: if_splits)
next
  case False
  then obtain t where t: "get_user d (u_id u) = Some t"
    and sole: "\<forall>x\<in>set (users d). u_role x = OWNER \<longrightarrow> u_id x = u_id t"
    using assms by (auto simp: reconcile_recovery_owner_def split: option.splits if_splits)
  have id: "u_id t = u_id u" using t by (rule get_user_id)
  define step1 where "step1 = (if u_role t \<noteq> OWNER
      then (let (d', u', _) = change_role d t (u_id t) OWNER now in (d', u', True))
      else (d, t, False))"
  obtain d1 t1 c1 where s1: "step1 = (d1, t1, c1)" by (metis prod_cases3)
  obtain d2 t2 e where tr: "transition_user_access d1 t1 (u_id t) APPROVED now = (d2, t2, e)"
    by (metis prod_cases3)
  define step3 where "step3 = (if e \<noteq> None then (d2, True)
      else if u_approved_at t2 = None \<or> u_approved_by_user_id t2 = None
      then (save_user d2 (t2\<lparr>u_approved_at := Some now, u_approved_by_user_id := Some (u_id t)\<rparr>), True)
      else (d2, False))"
  obtain d3 c3 where s3: "step3 = (d3, c3)" by (metis surj_pair)
  obtain d4 c4 where s4: "approve_pending_request d3 (u_id t) now = (d4, c4)" by (metis surj_pair)
  have d': "d' = d4"
    using assms False t sole s1 tr s3 s4
    by (simp add: reconcile_recovery_owner_def step1_def step3_def Let_def split: if_splits)
  have t': "get_user d (u_id t) = Some t" using t id by simp
  have 1: "user_changed d d1 t t1 \<and> u_role t1 = OWNER \<and> u_access_status t1 = u_access_status t"
    using s1 change_role_changed(1,2) [OF t', of "u_id t" OWNER now] user_changed_refl [OF t']
    by (auto simp: step1_def split: if_splits prod.splits)
  have t1: "get_user d1 (u_id t1) = Some t1" using 1 by (auto simp: user_changed_def)
  note tc = transition_changed [OF t1 tr]
  have 2: "user_changed d d2 t t2" using user_changed_trans [OF _ tc(1)] 1 tc(3) by auto
  have t2: "get_user d2 (u_id t2) = Some t2" using 2 by (auto simp: user_changed_def)
  have "\<exists>t3. user_changed d d3 t t3 \<and> u_role t3 = OWNER \<and> u_access_status t3 = APPROVED \<and>
      u_approved_at t3 \<noteq> None \<and> u_approved_by_user_id t3 \<noteq> None"
  proof (cases "e \<noteq> None \<or> (u_approved_at t2 \<noteq> None \<and> u_approved_by_user_id t2 \<noteq> None)")
    case True
    then have "d3 = d2" using s3 by (auto simp: step3_def split: if_splits)
    moreover have "u_approved_at t2 \<noteq> None \<and> u_approved_by_user_id t2 \<noteq> None"
      using True tr by (auto simp: transition_user_access_def Let_def split: if_splits)
    ultimately show ?thesis using 2 1 tc(2,3) by auto
  next
    case False
    let ?t3 = "t2\<lparr>u_approved_at := Some now, u_approved_by_user_id := Some (u_id t)\<rparr>"
    have "d3 = save_user d2 ?t3" using False s3 by (auto simp: step3_def)
    moreover have "user_changed d2 (save_user d2 ?t3) t2 ?t3"
      by (rule save_user_changed [OF t2]) simp_all
    ultimately have "user_changed d d3 t ?t3" using user_changed_trans [OF 2] by simp
    then show ?thesis using 1 tc(2,3) by (intro exI [of _ ?t3]) simp
  qed
  then obtain t3 where 3: "user_changed d d3 t t3" "u_role t3 = OWNER" "u_access_status t3 = APPROVED"
    "u_approved_at t3 \<noteq> None" "u_approved_by_user_id t3 \<noteq> None" by blast
  have "user_changed d d' t t3"
    unfolding d' by (rule user_changed_after [OF 3(1) approve_pending_same [OF s4]])
  with 3 id sole show ?thesis by blast
qed

text \<open>A transaction that changes a user and commits keeps the identity invariant.\<close>

lemma committed_warehouse_inv:
  assumes w: "warehouse_inv d" and dist: "distinct (map u_id (users d))"
    and ch: "user_changed d d' t t'" and commit: "users_commit d d'"
  shows "warehouse_inv d'"
proof (cases "u_role t = u_role t' \<and> u_access_status t = u_access_status t'")
  case True
  then show ?thesis using changed_warehouse_inv [OF w dist ch] by (simp add: holder_ok_def)
next
  case False
  have t: "get_user d (u_id t) = Some t" "u_id t' = u_id t" and t': "t' \<in> set (users d')"
    and cust: "has_custody d' i = has_custody d i" for i
    using ch get_user_member [of d' "u_id t" t']
    by (auto simp: user_changed_def has_custody_def same_but_identity_iff)
  have "has_custody d (u_id t) \<longrightarrow> holder_ok t'"
    using commit False t t' by (force simp: users_commit_def enforce_user_custody_eligibility_def
        cust holder_ok_def)
  then show ?thesis using changed_warehouse_inv [OF w dist ch] by blast
qed

lemma reconcile_keeps:
  assumes inv: "accounts_inv b d"
    and call: "reconcile_recovery_owner d u identity recovery now = Inr (d', c)"
    and commit: "users_commit d d'"
  shows "accounts_inv b d'"
  using reconcile_effect [OF call]
proof (elim disjE exE conjE)
  assume "d' = d" then show ?thesis using inv by simp
next
  fix t t' assume ch: "user_changed d d' t t'" and t': "u_role t' = OWNER" "u_access_status t' = APPROVED"
    "u_approved_at t' \<noteq> None" and sole: "\<forall>x\<in>set (users d). u_role x = OWNER \<longrightarrow> u_id x = u_id t"
  have dist: "distinct (map u_id (users d))" and w: "warehouse_inv d"
    using inv by (simp_all add: accounts_inv_def users_inv_def)
  have "users_inv d'"
    using changed_users_inv [OF _ ch] inv t' sole by (simp add: accounts_inv_def stamp_ok_def)
  moreover have "b \<longrightarrow> responsibilities_ok d'"
    using changed_responsibilities [OF _ dist ch] inv t' procurement_create_iff [of OWNER]
    by (simp add: accounts_inv_def create_ok_def)
  ultimately show ?thesis
    using committed_warehouse_inv [OF w dist ch commit] by (simp add: accounts_inv_def)
qed

end
