(* ===== verification/Retention_Batch.thy ===== *)
theory Retention_Batch
  imports Outbox
begin

text \<open>
  The deletion of a batch of rows in \<open>maintenance/technical_retention.py\<close>, which all its
  statements share, and the statement for the Telegram outbox, the one that acts on a table
  the outbox service and its workers use at the same time. The column \<open>updated_at\<close> is an
  argument.
\<close>

section \<open>Deletion of a batch\<close>

definition delete_batch ::
    "('a \<Rightarrow> 'k) \<Rightarrow> ('a \<Rightarrow> bool) \<Rightarrow> ('a \<Rightarrow> 'o::linorder) \<Rightarrow> nat \<Rightarrow> 'a list \<Rightarrow> 'a list \<times> nat" where
  "delete_batch key candidate order batch_size rows =
     (let candidates = map key (take batch_size (sort_key order (filter candidate rows)))
      in (filter (\<lambda>r. key r \<notin> set candidates) rows, length (filter (\<lambda>r. key r \<in> set candidates) rows)))"

section \<open>The outbox rows it deletes\<close>

definition notification_settled :: "(uuid \<Rightarrow> timestamp) \<Rightarrow> timestamp \<Rightarrow> notification_outbox \<Rightarrow> bool" where
  "notification_settled updated_at cutoff n \<longleftrightarrow>
     no_status n \<in> {OB_SENT, OB_DEAD} \<and> updated_at (no_id n) < cutoff \<and>
     no_claimed_at n = None \<and> no_claim_token n = None"

definition NOTIFICATION_OUTBOX_DELETE ::
    "(uuid \<Rightarrow> timestamp) \<Rightarrow> timestamp \<Rightarrow> nat \<Rightarrow> notification_outbox list \<Rightarrow> notification_outbox list \<times> nat" where
  "NOTIFICATION_OUTBOX_DELETE updated_at cutoff = delete_batch no_id
     (notification_settled updated_at cutoff) (\<lambda>n. (updated_at (no_id n), no_id n))"

section \<open>What a batch deletes\<close>

lemma candidate_set: "set (take n (sort_key ord (filter P rows))) \<subseteq> {r \<in> set rows. P r}"
  using set_take_subset [of n "sort_key ord (filter P rows)"] by auto

lemma deleted_is_candidate:
  assumes "distinct (map key rows)" and "r \<in> set rows"
    and "key r \<in> key ` set (take n (sort_key ord (filter P rows)))"
  shows "P r"
proof -
  obtain x where "key x = key r" "x \<in> {r \<in> set rows. P r}" using assms(3) candidate_set by fastforce
  then show ?thesis using assms(1,2) by (metis (mono_tags, lifting) distinct_map inj_onD mem_Collect_eq)
qed

lemma delete_batch_spares:
  assumes "distinct (map key rows)" and "delete_batch key P ord n rows = (rows', k)"
    and "\<And>r. r \<in> set rows \<Longrightarrow> Q r \<Longrightarrow> \<not> P r"
  shows "filter Q rows' = filter Q rows"
proof -
  let ?keys = "set (map key (take n (sort_key ord (filter P rows))))"
  have "rows' = filter (\<lambda>r. key r \<notin> ?keys) rows" using assms(2) by (auto simp: delete_batch_def Let_def)
  moreover have "(key r \<notin> ?keys \<and> Q r) = Q r" if "r \<in> set rows" for r
    using deleted_is_candidate [OF assms(1) that] assms(3) [OF that] by fastforce
  ultimately show ?thesis by (auto simp: conj_commute intro: filter_cong)
qed

lemma delete_batch_count:
  assumes "distinct (map key rows)" and "delete_batch key P ord n rows = (rows', k)"
  shows "k = min n (length (filter P rows))" and "length rows' + k = length rows"
proof -
  let ?top = "take n (sort_key ord (filter P rows))"
  have k: "k = length (filter (\<lambda>r. key r \<in> set (map key ?top)) rows)"
    and rows': "rows' = filter (\<lambda>r. key r \<notin> set (map key ?top)) rows"
    using assms(2) by (auto simp: delete_batch_def Let_def)
  show "length rows' + k = length rows"
    unfolding k rows' using sum_length_filter_compl [of "\<lambda>r. key r \<in> set (map key ?top)" rows] by simp
  have inj: "inj_on key (set rows)" and d: "distinct rows" using assms(1) by (auto simp: distinct_map)
  have "{r \<in> set rows. key r \<in> set (map key ?top)} = set ?top"
    using candidate_set [of n ord P rows] inj by (auto dest: inj_onD)
  then have "set (filter (\<lambda>r. key r \<in> set (map key ?top)) rows) = set ?top" by auto
  moreover have "distinct ?top" using d by simp
  ultimately have "k = length ?top"
    unfolding k using d by (metis distinct_card distinct_filter)
  then show "k = min n (length (filter P rows))" by simp
qed

text \<open>
  The effect of one deletion on its table: the rows that are no candidates stay, in their
  order, and of the candidates a full batch goes, or all of them.
\<close>

definition purged :: "('a \<Rightarrow> bool) \<Rightarrow> nat \<Rightarrow> 'a list \<Rightarrow> 'a list \<Rightarrow> bool" where
  "purged P n rows rows' \<longleftrightarrow>
     filter (\<lambda>r. \<not> P r) rows' = filter (\<lambda>r. \<not> P r) rows \<and> set rows' \<subseteq> set rows \<and>
     length (filter P rows') = length (filter P rows) - n"

lemma delete_batch_purged:
  assumes "distinct (map key rows)"
  shows "purged P n rows (fst (delete_batch key P ord n rows))"
proof -
  obtain rows' k where run: "delete_batch key P ord n rows = (rows', k)" by (metis surj_pair)
  have same: "filter (\<lambda>r. \<not> P r) rows' = filter (\<lambda>r. \<not> P r) rows"
    by (rule delete_batch_spares [OF assms run]) simp
  have "length (filter P rows') + length (filter (\<lambda>r. \<not> P r) rows') = length rows'"
    "length (filter P rows) + length (filter (\<lambda>r. \<not> P r) rows) = length rows"
    by (rule sum_length_filter_compl)+
  then have "length (filter P rows') + k = length (filter P rows)"
    using delete_batch_count(2) [OF assms run] unfolding same by linarith
  then have "length (filter P rows') = length (filter P rows) - n"
    using delete_batch_count(1) [OF assms run] by linarith
  moreover have "set rows' \<subseteq> set rows" using run by (auto simp: delete_batch_def Let_def)
  ultimately show ?thesis using same run by (simp add: purged_def)
qed

lemma purged_spares:
  assumes "purged P n rows rows'" and "\<And>r. r \<in> set rows \<Longrightarrow> Q r \<Longrightarrow> \<not> P r"
  shows "filter Q rows' = filter Q rows"
proof -
  have "filter Q xs = filter Q (filter (\<lambda>r. \<not> P r) xs)" if "set xs \<subseteq> set rows" for xs
    using assms(2) that by (auto intro: filter_cong)
  then show ?thesis using assms(1) unfolding purged_def by (metis order_refl)
qed

end
