(* ===== verification/Outbox_Proofs.thy ===== *)
theory Outbox_Proofs
  imports Retention_Batch
begin

text \<open>
  Delivery guarantees of the outbox under any interleaving of transactions: producers that
  enqueue, workers that claim, report success or report failure, an account reset that
  cancels unclaimed messages, and the technical retention that deletes settled rows. A transaction is an action; \<open>outbox_run\<close> executes one. The
  contract \<open>outbox_queue\<close> lists what every action guarantees, its interpretation discharges
  it for the service, and the theorems follow for sequences of actions.
\<close>

section \<open>Actions\<close>

datatype outbox_action =
    Enqueue uuid timestamp string json string "timestamp option" bool
  | Claim nat "nat \<Rightarrow> uuid" timestamp
  | Sent claimed_notification timestamp
  | Failed claimed_notification string timestamp
  | Cancel string
  | Retain "uuid \<Rightarrow> timestamp" timestamp nat

fun outbox_run :: "int \<Rightarrow> int \<Rightarrow> outbox_action \<Rightarrow> db \<Rightarrow> db" where
  "outbox_run ttl max_attempts (Enqueue i now verb payload key available requeue_dead) d =
     (case enqueue_telegram_call d i now verb payload key available requeue_dead of
        Inl e \<Rightarrow> d | Inr d' \<Rightarrow> d')"
| "outbox_run ttl max_attempts (Claim batch tokens now) d =
     fst (claim_notification_batch d batch ttl max_attempts tokens now)"
| "outbox_run ttl max_attempts (Sent claim now) d = fst (mark_notification_sent d claim now)"
| "outbox_run ttl max_attempts (Failed claim error now) d =
     fst (mark_notification_failed d claim error max_attempts now)"
| "outbox_run ttl max_attempts (Cancel key) d =
     d\<lparr>notification_outboxes := map (kill_notification key) (notification_outboxes d)\<rparr>"
| "outbox_run ttl max_attempts (Retain updated_at cutoff batch) d =
     d\<lparr>notification_outboxes :=
         fst (NOTIFICATION_OUTBOX_DELETE updated_at cutoff batch (notification_outboxes d))\<rparr>"

text \<open>
  An action respects the lease taken at time \<open>t\<close> with token \<open>k\<close> if it is not a claim after
  the end of the lease and not a report under that very token.
\<close>

fun respects_lease :: "int \<Rightarrow> timestamp \<Rightarrow> uuid \<Rightarrow> outbox_action \<Rightarrow> bool" where
  "respects_lease ttl t k (Claim batch tokens now) = (now \<le> t + ttl)"
| "respects_lease ttl t k (Sent claim now) = (cn_claim_token claim \<noteq> k)"
| "respects_lease ttl t k (Failed claim error now) = (cn_claim_token claim \<noteq> k)"
| "respects_lease ttl t k _ = True"

definition leased :: "int \<Rightarrow> outbox_action \<Rightarrow> notification_outbox \<Rightarrow> bool" where
  "leased ttl a n \<longleftrightarrow>
     (\<exists>t k. no_claimed_at n = Some t \<and> no_claim_token n = Some k \<and> respects_lease ttl t k a)"

fun issues :: "outbox_action \<Rightarrow> uuid set" where
  "issues (Claim batch tokens now) = range tokens"
| "issues _ = {}"

text \<open>
  The one transaction that takes a settled row out of the table: a retention pass for which
  the row was last updated before the cutoff.
\<close>

fun deletes :: "outbox_action \<Rightarrow> notification_outbox \<Rightarrow> bool" where
  "deletes (Retain updated_at cutoff batch) n = notification_settled updated_at cutoff n"
| "deletes _ n = False"

section \<open>The invariant of the table\<close>

definition notification_ok :: "int \<Rightarrow> notification_outbox \<Rightarrow> bool" where
  "notification_ok max_attempts n \<longleftrightarrow>
     no_method n \<in> set ALLOWED_TELEGRAM_METHODS \<and>
     0 \<le> no_attempts n \<and> no_attempts n \<le> max_attempts \<and>
     (no_claimed_at n = None) = (no_claim_token n = None) \<and>
     (no_status n = OB_SENT) = (no_sent_at n \<noteq> None) \<and>
     (no_status n \<noteq> OB_PENDING \<longrightarrow> no_claimed_at n = None) \<and>
     (no_status n = OB_PENDING \<and> no_claimed_at n = None \<longrightarrow> no_attempts n < max_attempts)"

definition outbox_inv :: "int \<Rightarrow> db \<Rightarrow> bool" where
  "outbox_inv max_attempts d \<longleftrightarrow> 0 < max_attempts \<and>
     distinct (map no_id (notification_outboxes d)) \<and>
     distinct (map no_dedupe_key (notification_outboxes d)) \<and>
     (\<forall>n\<in>set (notification_outboxes d). notification_ok max_attempts n)"

lemma outbox_inv_cong:
  "notification_outboxes d' = notification_outboxes d \<Longrightarrow> outbox_inv m d' = outbox_inv m d"
  by (simp add: outbox_inv_def)

definition tokens_of :: "db \<Rightarrow> uuid set" where
  "tokens_of d = {k. \<exists>n\<in>set (notification_outboxes d). no_claim_token n = Some k}"

locale outbox_queue =
  fixes run :: "'a \<Rightarrow> db \<Rightarrow> db" and inv :: "db \<Rightarrow> bool"
    and kept :: "'a \<Rightarrow> notification_outbox \<Rightarrow> bool"
    and removes :: "'a \<Rightarrow> notification_outbox \<Rightarrow> bool" and fresh :: "'a \<Rightarrow> uuid set"
  assumes run_inv: "inv d \<Longrightarrow> inv (run a d)"
    and run_frame: "run a d = d\<lparr>notification_outboxes := notification_outboxes (run a d)\<rparr>"
    and run_sent: "inv d \<Longrightarrow> n \<in> set (notification_outboxes d) \<Longrightarrow> no_status n = OB_SENT \<Longrightarrow>
      \<not> removes a n \<Longrightarrow> n \<in> set (notification_outboxes (run a d))"
    and run_kept: "inv d \<Longrightarrow> n \<in> set (notification_outboxes d) \<Longrightarrow> no_status n = OB_PENDING \<Longrightarrow>
      no_claim_token n \<noteq> None \<Longrightarrow> kept a n \<Longrightarrow> n \<in> set (notification_outboxes (run a d))"
    and run_tokens: "tokens_of (run a d) \<subseteq> tokens_of d \<union> fresh a"
begin

lemma run_all_inv: "inv d \<Longrightarrow> inv (fold run as d)"
  by (induction as arbitrary: d) (simp_all add: run_inv)

lemma run_all_sent:
  "inv d \<Longrightarrow> n \<in> set (notification_outboxes d) \<Longrightarrow> no_status n = OB_SENT \<Longrightarrow>
     \<forall>a\<in>set as. \<not> removes a n \<Longrightarrow> n \<in> set (notification_outboxes (fold run as d))"
  by (induction as arbitrary: d) (simp_all add: run_inv run_sent)

lemma run_all_kept:
  assumes "inv d" and "n \<in> set (notification_outboxes d)" and "no_status n = OB_PENDING"
    and "no_claim_token n \<noteq> None" and "\<forall>a\<in>set as. kept a n"
  shows "n \<in> set (notification_outboxes (fold run as d))"
  using assms by (induction as arbitrary: d) (simp_all add: run_inv run_kept)

lemma run_all_tokens:
  assumes "k \<notin> tokens_of d" and "\<forall>a\<in>set as. k \<notin> fresh a"
  shows "k \<notin> tokens_of (fold run as d)"
  using assms
proof (induction as arbitrary: d)
  case Nil
  then show ?case by simp
next
  case (Cons a as)
  have "k \<notin> tokens_of (run a d)" using Cons.prems run_tokens by fastforce
  with Cons show ?case by simp
qed

end

section \<open>Row-wise facts\<close>

lemma get_notification_iff:
  "outbox_inv m d \<Longrightarrow> get_notification d i = Some n \<longleftrightarrow> n \<in> set (notification_outboxes d) \<and> no_id n = i"
  by (simp add: outbox_inv_def get_notification_def table_get_Some_iff)

lemma owned_rowD:
  assumes "owned_row d c = Some n"
  shows "n \<in> set (notification_outboxes d)" and "no_id n = cn_id c"
    and "no_claim_token n = Some (cn_claim_token c)" and "no_status n = OB_PENDING"
  using assms
  by (auto simp: owned_row_def get_notification_def split: option.splits if_splits
      dest: table_get_SomeD)

lemma map_cong_rows:
  assumes "distinct (map key rs)" and "r \<in> set rs" and "f r' = f r"
  shows "map f (table_update key (key r) (\<lambda>_. r') rs) = map f rs"
  unfolding table_update_def using assms by (auto simp: distinct_map inj_on_def)

lemma save_notification_inv:
  assumes inv: "outbox_inv m d" and n: "n \<in> set (notification_outboxes d)"
    and same: "no_id n' = no_id n" "no_dedupe_key n' = no_dedupe_key n"
    and ok: "notification_ok m n'"
  shows "outbox_inv m (save_notification d n')"
proof -
  have "map no_id (table_update no_id (no_id n) (\<lambda>_. n') (notification_outboxes d)) =
      map no_id (notification_outboxes d)"
    using inv n same by (intro map_cong_rows) (simp_all add: outbox_inv_def)
  moreover have "map no_dedupe_key (table_update no_id (no_id n) (\<lambda>_. n') (notification_outboxes d)) =
      map no_dedupe_key (notification_outboxes d)"
    using inv n same by (intro map_cong_rows) (simp_all add: outbox_inv_def)
  ultimately show ?thesis
    using inv ok by (auto simp: outbox_inv_def save_notification_def same set_table_update)
qed

lemma save_notification_other:
  "n \<in> set (notification_outboxes d) \<Longrightarrow> no_id n \<noteq> no_id n' \<Longrightarrow>
     n \<in> set (notification_outboxes (save_notification d n'))"
  by (force simp: save_notification_def set_table_update)

lemma save_notification_tokens:
  "no_claim_token n' = None \<Longrightarrow> tokens_of (save_notification d n') \<subseteq> tokens_of d"
  by (auto simp: tokens_of_def save_notification_def set_table_update)

lemma unique_notification:
  "outbox_inv m d \<Longrightarrow> n \<in> set (notification_outboxes d) \<Longrightarrow> n' \<in> set (notification_outboxes d) \<Longrightarrow>
     no_id n = no_id n' \<Longrightarrow> n = n'"
  by (simp add: outbox_inv_def) (metis table_get_member option.inject)

section \<open>Claiming a batch\<close>

lemma batch_rows_set:
  assumes "n \<in> set (batch_rows d batch now stale_before m)"
  shows "n \<in> set (notification_outboxes d)" and "claimable now stale_before m n"
  using assms by (auto simp: batch_rows_def dest!: in_set_takeD)

lemma claim_row_simps [simp]:
  "no_id (claim_row now sb m k n) = no_id n"
  "no_dedupe_key (claim_row now sb m k n) = no_dedupe_key n"
  "no_status (claim_row now sb m k n) = no_status n"
  "no_claim_token (claim_row now sb m k n) = Some k"
  "no_claimed_at (claim_row now sb m k n) = Some now"
  by (simp_all add: claim_row_def Let_def)

lemma claim_row_ok:
  "notification_ok m n \<Longrightarrow> claimable now sb m n \<Longrightarrow> notification_ok m (claim_row now sb m k n)"
  by (auto simp: notification_ok_def claimable_def claim_row_def Let_def stale_claim_def
      split: option.splits)

lemma distinct_batch:
  assumes "outbox_inv m d"
  shows "distinct (map no_id (batch_rows d batch now sb m'))"
proof -
  have "distinct (map no_id (filter (claimable now sb m') (notification_outboxes d)))"
    using assms by (simp add: outbox_inv_def distinct_map_filter)
  moreover have "mset (map no_id (sort_key delivery_order
      (filter (claimable now sb m') (notification_outboxes d)))) =
      mset (map no_id (filter (claimable now sb m') (notification_outboxes d)))"
    by simp
  ultimately have "distinct (map no_id (sort_key delivery_order
      (filter (claimable now sb m') (notification_outboxes d))))"
    by (metis mset_eq_imp_distinct_iff)
  then show ?thesis by (simp add: batch_rows_def take_map [symmetric])
qed

lemma enumerate_claimed:
  "n' \<in> set (map (\<lambda>(k, n). f k n) (enumerate 0 rows)) \<longleftrightarrow> (\<exists>k<length rows. n' = f k (rows ! k))"
  by (auto simp: in_set_enumerate_eq image_iff Bex_def split: prod.splits)

lemma flush_claimed:
  assumes inv: "outbox_inv m d" and n: "n \<in> set (notification_outboxes d)"
    and rows: "rows = batch_rows d batch now sb m'"
    and new: "new = (case table_get no_id (no_id n)
      (map (\<lambda>(k, n). claim_row now sb m' (tokens k) n) (enumerate 0 rows)) of
      None \<Rightarrow> n | Some n' \<Rightarrow> n')"
  shows "(n \<notin> set rows \<and> new = n) \<or> (n \<in> set rows \<and> (\<exists>k. new = claim_row now sb m' (tokens k) n))"
proof (cases "table_get no_id (no_id n)
    (map (\<lambda>(k, n). claim_row now sb m' (tokens k) n) (enumerate 0 rows))")
  case None
  have "n \<notin> set rows"
  proof
    assume "n \<in> set rows"
    then obtain k where "k < length rows" "n = rows ! k" by (metis in_set_conv_nth)
    then have "claim_row now sb m' (tokens k) n \<in>
        set (map (\<lambda>(k, n). claim_row now sb m' (tokens k) n) (enumerate 0 rows))"
      unfolding enumerate_claimed by blast
    then show False using None unfolding table_get_None_iff by (metis claim_row_simps(1) image_eqI)
  qed
  with None new show ?thesis by simp
next
  case (Some n')
  then obtain k where k: "k < length rows" "n' = claim_row now sb m' (tokens k) (rows ! k)"
    and id: "no_id n' = no_id n"
    using table_get_SomeD [OF Some] unfolding enumerate_claimed by blast
  have "rows ! k \<in> set (notification_outboxes d)"
    using k(1) rows batch_rows_set(1) by (metis nth_mem)
  then have "rows ! k = n" using unique_notification [OF inv _ n] id k(2) by simp
  with k Some new show ?thesis by (metis nth_mem option.simps(5))
qed

lemma claim_rows:
  assumes "outbox_inv m d"
  obtains g where
    "notification_outboxes (outbox_run ttl m (Claim batch tokens now) d) =
       map g (notification_outboxes d)"
    and "\<And>n. n \<in> set (notification_outboxes d) \<Longrightarrow>
      g n = n \<or> (claimable now (now - ttl) m n \<and>
        (\<exists>k. g n = claim_row now (now - ttl) m (tokens k) n))"
proof -
  let ?rows = "batch_rows d batch now (now - ttl) m"
  let ?g = "\<lambda>n. case table_get no_id (no_id n)
      (map (\<lambda>(k, n). claim_row now (now - ttl) m (tokens k) n) (enumerate 0 ?rows)) of
      None \<Rightarrow> n | Some n' \<Rightarrow> n'"
  have "notification_outboxes (outbox_run ttl m (Claim batch tokens now) d) =
      map ?g (notification_outboxes d)"
    by (simp add: claim_notification_batch_def Let_def flush_rows_def)
  moreover have "?g n = n \<or> (claimable now (now - ttl) m n \<and>
      (\<exists>k. ?g n = claim_row now (now - ttl) m (tokens k) n))"
    if "n \<in> set (notification_outboxes d)" for n
    using flush_claimed [OF assms that refl refl] batch_rows_set(2) by blast
  ultimately show ?thesis by (rule that)
qed

lemma claim_inv:
  assumes inv: "outbox_inv m d"
  shows "outbox_inv m (outbox_run ttl m (Claim batch tokens now) d)"
proof -
  obtain g where rows: "notification_outboxes (outbox_run ttl m (Claim batch tokens now) d) =
      map g (notification_outboxes d)"
    and g: "\<And>n. n \<in> set (notification_outboxes d) \<Longrightarrow>
      g n = n \<or> (claimable now (now - ttl) m n \<and>
        (\<exists>k. g n = claim_row now (now - ttl) m (tokens k) n))"
    using claim_rows [OF inv] by metis
  have ids: "map no_id (map g (notification_outboxes d)) = map no_id (notification_outboxes d)"
    using g by (auto intro!: map_cong) (metis claim_row_simps(1))
  have keys: "map no_dedupe_key (map g (notification_outboxes d)) =
      map no_dedupe_key (notification_outboxes d)"
    using g by (auto intro!: map_cong) (metis claim_row_simps(2))
  have ok: "notification_ok m (g n)" if n: "n \<in> set (notification_outboxes d)" for n
    using g [OF n] inv n claim_row_ok by (metis outbox_inv_def)
  show ?thesis
    unfolding outbox_inv_def rows ids keys using inv ok by (auto simp: outbox_inv_def)
qed

lemma claim_not_claimable:
  assumes inv: "outbox_inv m d" and n: "n \<in> set (notification_outboxes d)"
    and out: "\<not> claimable now (now - ttl) m n"
  shows "n \<in> set (notification_outboxes (outbox_run ttl m (Claim batch tokens now) d))"
proof -
  obtain g where rows: "notification_outboxes (outbox_run ttl m (Claim batch tokens now) d) =
      map g (notification_outboxes d)"
    and g: "\<And>n. n \<in> set (notification_outboxes d) \<Longrightarrow>
      g n = n \<or> (claimable now (now - ttl) m n \<and>
        (\<exists>k. g n = claim_row now (now - ttl) m (tokens k) n))"
    using claim_rows [OF inv] by metis
  have "g n = n" using g [OF n] out by blast
  then show ?thesis unfolding rows using n by (metis image_eqI set_map)
qed

lemma claim_tokens:
  "tokens_of (outbox_run ttl m (Claim batch tokens now) d) \<subseteq> tokens_of d \<union> range tokens"
proof -
  let ?new = "map (\<lambda>(k, n). claim_row now (now - ttl) m (tokens k) n)
    (enumerate 0 (batch_rows d batch now (now - ttl) m))"
  have tok: "no_claim_token n \<in> Some ` range tokens" if "n \<in> set ?new" for n
    using that unfolding enumerate_claimed by auto
  have "no_claim_token n' \<in> Some ` tokens_of d \<or> no_claim_token n' = None \<or>
      no_claim_token n' \<in> Some ` range tokens"
    if "n' \<in> set (flush_rows ?new (notification_outboxes d))" for n'
  proof -
    from that obtain n where n: "n \<in> set (notification_outboxes d)"
      and n': "n' = (case table_get no_id (no_id n) ?new of None \<Rightarrow> n | Some x \<Rightarrow> x)"
      by (auto simp: flush_rows_def)
    show ?thesis
    proof (cases "table_get no_id (no_id n) ?new")
      case None
      with n n' show ?thesis by (cases "no_claim_token n") (auto simp: tokens_of_def)
    next
      case (Some x)
      with n' tok table_get_SomeD [OF Some] show ?thesis by simp
    qed
  qed
  then show ?thesis
    by (fastforce simp: tokens_of_def claim_notification_batch_def Let_def)
qed

section \<open>The other actions\<close>

lemma enqueue_outcome:
  assumes "enqueue_telegram_call d i now verb payload key available rq = Inr d'"
  shows "d' = d \<or>
    d' = d\<lparr>notification_outboxes :=
      table_update no_dedupe_key key (requeue now) (notification_outboxes d)\<rparr> \<or>
    (verb \<in> set ALLOWED_TELEGRAM_METHODS \<and>
      (\<forall>n\<in>set (notification_outboxes d). no_dedupe_key n \<noteq> key \<and> no_id n \<noteq> i) \<and>
      d' = d\<lparr>notification_outboxes := notification_outboxes d @
        [new_notification i now verb payload key available]\<rparr>)"
  using assms unfolding enqueue_telegram_call_def by (simp split: if_splits)

lemma enqueue_cases:
  assumes "enqueue_telegram_call d i now verb payload key available rq = Inr d'"
  obtains (same) "d' = d"
  | (requeue) "d' = d\<lparr>notification_outboxes :=
      table_update no_dedupe_key key (requeue now) (notification_outboxes d)\<rparr>"
  | (insert) "verb \<in> set ALLOWED_TELEGRAM_METHODS"
      "\<forall>n\<in>set (notification_outboxes d). no_dedupe_key n \<noteq> key \<and> no_id n \<noteq> i"
      "d' = d\<lparr>notification_outboxes := notification_outboxes d @
        [new_notification i now verb payload key available]\<rparr>"
  using enqueue_outcome [OF assms] by metis

lemma requeue_simps [simp]:
  "no_id (requeue now n) = no_id n" "no_dedupe_key (requeue now n) = no_dedupe_key n"
  by (simp_all add: requeue_def)

lemma requeue_ok: "0 < m \<Longrightarrow> notification_ok m n \<Longrightarrow> notification_ok m (requeue now n)"
  by (auto simp: notification_ok_def requeue_def)

lemma kill_ok: "notification_ok m n \<Longrightarrow> notification_ok m (kill_notification key n)"
  by (auto simp: notification_ok_def kill_notification_def)

lemma new_notification_ok:
  "0 < m \<Longrightarrow> verb \<in> set ALLOWED_TELEGRAM_METHODS \<Longrightarrow>
     notification_ok m (new_notification i now verb payload key available)"
  by (simp add: notification_ok_def new_notification_def)

lemma enqueue_inv:
  assumes inv: "outbox_inv m d"
    and run: "enqueue_telegram_call d i now verb payload key available rq = Inr d'"
  shows "outbox_inv m d'"
  using run
proof (cases rule: enqueue_cases)
  case same
  then show ?thesis using inv by simp
next
  case requeue
  have "map no_id (table_update no_dedupe_key key (Outbox.requeue now) (notification_outboxes d)) =
      map no_id (notification_outboxes d)"
    "map no_dedupe_key (table_update no_dedupe_key key (Outbox.requeue now) (notification_outboxes d)) =
      map no_dedupe_key (notification_outboxes d)"
    by (simp_all add: table_update_def)
  then show ?thesis
    using requeue inv requeue_ok by (auto simp: outbox_inv_def set_table_update)
next
  case insert
  then show ?thesis using inv new_notification_ok
    by (auto simp: outbox_inv_def new_notification_def)
qed

lemma enqueue_keeps_row:
  assumes "enqueue_telegram_call d i now verb payload key available rq = Inr d'"
    and "n \<in> set (notification_outboxes d)" and "no_status n \<noteq> OB_DEAD"
  shows "n \<in> set (notification_outboxes d')"
  using assms(1)
  by (cases rule: enqueue_cases)
    (use assms in \<open>force simp: set_table_update requeue_def image_iff\<close>)+

lemma enqueue_tokens:
  assumes "enqueue_telegram_call d i now verb payload key available rq = Inr d'"
  shows "tokens_of d' \<subseteq> tokens_of d"
  using assms
  by (cases rule: enqueue_cases)
    (auto simp: tokens_of_def set_table_update requeue_def new_notification_def split: if_splits)

lemma sent_row_ok:
  "notification_ok m n \<Longrightarrow> notification_ok m (n\<lparr>no_status := OB_SENT, no_sent_at := Some now,
     no_claimed_at := None, no_claim_token := None, no_last_error := None\<rparr>)"
  by (simp add: notification_ok_def)

definition failed_row :: "notification_outbox \<Rightarrow> string \<Rightarrow> int \<Rightarrow> timestamp \<Rightarrow> notification_outbox" where
  "failed_row n error max_attempts now =
     (let n1 = n\<lparr>no_claimed_at := None, no_claim_token := None,
                 no_last_error := Some (take 1000 error)\<rparr>
      in if no_attempts n \<ge> max_attempts then n1\<lparr>no_status := OB_DEAD\<rparr>
         else n1\<lparr>no_available_at := now + retry_delay_seconds (no_attempts n)\<rparr>)"

lemma mark_failed_row:
  "mark_notification_failed d c error m now =
     (case owned_row d c of None \<Rightarrow> (d, False)
      | Some n \<Rightarrow> (save_notification d (failed_row n error m now), True))"
  by (cases "owned_row d c") (simp_all add: mark_notification_failed_def failed_row_def Let_def)

lemma failed_row_simps [simp]:
  "no_id (failed_row n e m now) = no_id n" "no_dedupe_key (failed_row n e m now) = no_dedupe_key n"
  "no_claim_token (failed_row n e m now) = None"
  by (simp_all add: failed_row_def Let_def)

lemma failed_row_ok:
  "notification_ok m n \<Longrightarrow> no_status n = OB_PENDING \<Longrightarrow> notification_ok m (failed_row n e m now)"
  by (auto simp: notification_ok_def failed_row_def Let_def)

lemma retain_rows:
  "notification_outboxes (outbox_run ttl m (Retain updated_at cutoff batch) d) =
     filter (\<lambda>n. no_id n \<notin> set (map no_id (take batch (sort_key (\<lambda>n. (updated_at (no_id n), no_id n))
       (filter (notification_settled updated_at cutoff) (notification_outboxes d))))))
       (notification_outboxes d)"
  by (simp add: NOTIFICATION_OUTBOX_DELETE_def delete_batch_def Let_def)

lemma retain_inv:
  "outbox_inv m d \<Longrightarrow> outbox_inv m (outbox_run ttl m (Retain updated_at cutoff batch) d)"
  unfolding outbox_inv_def retain_rows by (auto simp: distinct_map_filter)

lemma retain_keeps_row:
  assumes "outbox_inv m d" and "n \<in> set (notification_outboxes d)"
    and "\<not> notification_settled updated_at cutoff n"
  shows "n \<in> set (notification_outboxes (outbox_run ttl m (Retain updated_at cutoff batch) d))"
proof -
  have "distinct (map no_id (notification_outboxes d))" using assms(1) by (simp add: outbox_inv_def)
  from deleted_is_candidate [OF this assms(2)] show ?thesis
    unfolding retain_rows using assms(2,3) by fastforce
qed

lemma retain_tokens: "tokens_of (outbox_run ttl m (Retain updated_at cutoff batch) d) \<subseteq> tokens_of d"
  unfolding tokens_of_def retain_rows by auto

section \<open>The service is an outbox queue\<close>

lemma mark_sent_run:
  "outbox_run ttl m (Sent c now) d =
     (case owned_row d c of None \<Rightarrow> d
      | Some n \<Rightarrow> save_notification d (n\<lparr>no_status := OB_SENT, no_sent_at := Some now,
          no_claimed_at := None, no_claim_token := None, no_last_error := None\<rparr>))"
  by (cases "owned_row d c") (simp_all add: mark_notification_sent_def)

lemma mark_failed_run:
  "outbox_run ttl m (Failed c e now) d =
     (case owned_row d c of None \<Rightarrow> d | Some n \<Rightarrow> save_notification d (failed_row n e m now))"
  by (cases "owned_row d c") (simp_all add: mark_failed_row)

lemma kill_simps [simp]:
  "no_id (kill_notification key n) = no_id n"
  "no_dedupe_key (kill_notification key n) = no_dedupe_key n"
  "no_claim_token (kill_notification key n) = no_claim_token n"
  by (simp_all add: kill_notification_def)

lemma cancel_inv: "outbox_inv m d \<Longrightarrow> outbox_inv m (outbox_run ttl m (Cancel key) d)"
proof -
  have "map no_id (map (kill_notification key) ns) = map no_id ns"
    "map no_dedupe_key (map (kill_notification key) ns) = map no_dedupe_key ns" for ns
    by simp_all
  then show "outbox_inv m d \<Longrightarrow> outbox_inv m (outbox_run ttl m (Cancel key) d)"
    using kill_ok by (auto simp: outbox_inv_def simp del: map_map)
qed

lemma outbox_inv_row: "outbox_inv m d \<Longrightarrow> n \<in> set (notification_outboxes d) \<Longrightarrow> notification_ok m n"
  by (simp add: outbox_inv_def)

lemma outbox_run_inv:
  assumes inv: "outbox_inv m d"
  shows "outbox_inv m (outbox_run ttl m a d)"
proof (cases a)
  case (Enqueue i now verb payload key available rq)
  then show ?thesis using inv enqueue_inv by (auto split: sum.splits)
next
  case (Claim batch tokens now)
  then show ?thesis using claim_inv [OF inv] by blast
next
  case (Sent c now)
  show ?thesis
  proof (cases "owned_row d c")
    case (Some n)
    then show ?thesis unfolding Sent mark_sent_run
      using save_notification_inv [OF inv owned_rowD(1) [OF Some] _ _
          sent_row_ok [OF outbox_inv_row [OF inv owned_rowD(1) [OF Some]]]] by simp
  qed (simp add: Sent mark_sent_run inv del: outbox_run.simps)
next
  case (Failed c e now)
  show ?thesis
  proof (cases "owned_row d c")
    case (Some n)
    then show ?thesis unfolding Failed mark_failed_run
      using save_notification_inv [OF inv owned_rowD(1) [OF Some] _ _
          failed_row_ok [OF outbox_inv_row [OF inv owned_rowD(1) [OF Some]] owned_rowD(4) [OF Some]]]
      by simp
  qed (simp add: Failed mark_failed_run inv del: outbox_run.simps)
next
  case (Cancel key)
  then show ?thesis using cancel_inv [OF inv] by blast
next
  case (Retain updated_at cutoff batch)
  then show ?thesis using retain_inv [OF inv] by blast
qed

lemma outbox_run_frame:
  "outbox_run ttl m a d = d\<lparr>notification_outboxes := notification_outboxes (outbox_run ttl m a d)\<rparr>"
proof (cases a)
  case (Enqueue i now verb payload key available rq)
  then show ?thesis by (auto split: sum.splits elim!: enqueue_cases)
next
  case (Sent c now)
  then show ?thesis unfolding Sent mark_sent_run
    by (cases "owned_row d c") (simp_all add: save_notification_def)
next
  case (Failed c e now)
  then show ?thesis unfolding Failed mark_failed_run
    by (cases "owned_row d c") (simp_all add: save_notification_def)
qed (simp_all add: claim_notification_batch_def Let_def)

lemma outbox_run_row:
  assumes inv: "outbox_inv m d" and n: "n \<in> set (notification_outboxes d)"
    and live: "no_status n = OB_SENT \<and> \<not> deletes a n \<or> leased ttl a n \<and> no_status n = OB_PENDING"
  shows "n \<in> set (notification_outboxes (outbox_run ttl m a d))"
proof (cases a)
  case (Enqueue i now verb payload key available rq)
  then show ?thesis using n live enqueue_keeps_row by (fastforce split: sum.splits)
next
  case (Claim batch tokens now)
  have "\<not> claimable now (now - ttl) m n"
    using live Claim by (auto simp: claimable_def leased_def stale_claim_def)
  then show ?thesis unfolding Claim by (rule claim_not_claimable [OF inv n])
next
  case (Sent c now)
  have "no_id n \<noteq> no_id n1" if "owned_row d c = Some n1" for n1
    using that live Sent owned_rowD [OF that] unique_notification [OF inv n]
    by (auto simp: leased_def)
  then show ?thesis unfolding Sent mark_sent_run
    using n by (auto split: option.splits intro!: save_notification_other)
next
  case (Failed c e now)
  have "no_id n \<noteq> no_id n1" if "owned_row d c = Some n1" for n1
    using that live Failed owned_rowD [OF that] unique_notification [OF inv n]
    by (auto simp: leased_def)
  then show ?thesis unfolding Failed mark_failed_run
    using n by (auto split: option.splits intro!: save_notification_other)
next
  case (Cancel key)
  have "kill_notification key n = n" using live by (auto simp: leased_def kill_notification_def)
  then show ?thesis using Cancel n by (simp add: image_iff) metis
next
  case (Retain updated_at cutoff batch)
  have "\<not> notification_settled updated_at cutoff n"
    using live Retain by (auto simp: notification_settled_def)
  then show ?thesis unfolding Retain by (rule retain_keeps_row [OF inv n])
qed

lemma outbox_run_tokens: "tokens_of (outbox_run ttl m a d) \<subseteq> tokens_of d \<union> issues a"
proof (cases a)
  case (Enqueue i now verb payload key available rq)
  then show ?thesis using enqueue_tokens by (fastforce split: sum.splits)
next
  case (Claim batch tokens now)
  then show ?thesis using claim_tokens by simp
next
  case (Sent c now)
  then show ?thesis unfolding Sent mark_sent_run
    by (auto split: option.splits dest!: subsetD [OF save_notification_tokens, rotated])
next
  case (Failed c e now)
  then show ?thesis unfolding Failed mark_failed_run
    by (auto split: option.splits dest!: subsetD [OF save_notification_tokens, rotated])
next
  case (Cancel key)
  then show ?thesis by (auto simp: tokens_of_def)
next
  case (Retain updated_at cutoff batch)
  then show ?thesis using retain_tokens by blast
qed

interpretation delivery: outbox_queue "outbox_run ttl m" "outbox_inv m" "leased ttl" deletes issues
  for ttl m
proof unfold_locales
  show "outbox_inv m (outbox_run ttl m a d)" if "outbox_inv m d" for a d
    using that by (rule outbox_run_inv)
  show "outbox_run ttl m a d = d\<lparr>notification_outboxes := notification_outboxes (outbox_run ttl m a d)\<rparr>"
    for a d by (rule outbox_run_frame)
qed (use outbox_run_row outbox_run_tokens in blast)+

section \<open>Guarantees\<close>

lemma claims_of_batch:
  assumes inv: "outbox_inv m d"
    and run: "claim_notification_batch d batch ttl m tokens now = (d1, claims)"
    and c: "c \<in> set claims"
  obtains n where "n \<in> set (notification_outboxes d1)" and "no_id n = cn_id c"
    and "no_claim_token n = Some (cn_claim_token c)" and "no_claimed_at n = Some now"
    and "no_status n = OB_PENDING" and "cn_claim_token c \<in> range tokens"
proof -
  let ?rows = "batch_rows d batch now (now - ttl) m"
  let ?row = "\<lambda>k n. claim_row now (now - ttl) m (tokens k) n"
  let ?new = "map (\<lambda>(k, n). ?row k n) (enumerate 0 ?rows)"
  have "c \<in> set (map (\<lambda>(k, n). claim_of (tokens k) (?row k n)) (enumerate 0 ?rows))"
    using run c by (auto simp: claim_notification_batch_def Let_def)
  then obtain k where k: "k < length ?rows" "c = claim_of (tokens k) (?row k (?rows ! k))"
    unfolding enumerate_claimed by blast
  have row: "?rows ! k \<in> set (notification_outboxes d)" "claimable now (now - ttl) m (?rows ! k)"
    using k(1) batch_rows_set by (metis nth_mem)+
  have "map no_id ?new = map no_id ?rows"
    by (intro nth_equalityI) (simp_all add: nth_enumerate_eq)
  then have "distinct (map no_id ?new)" using distinct_batch [OF inv] by metis
  moreover have "?row k (?rows ! k) \<in> set ?new" using k(1) unfolding enumerate_claimed by blast
  ultimately have "table_get no_id (no_id (?rows ! k)) ?new = Some (?row k (?rows ! k))"
    by (metis table_get_member claim_row_simps(1))
  then have "?row k (?rows ! k) \<in> set (notification_outboxes d1)"
    using run row(1) by (force simp: claim_notification_batch_def Let_def flush_rows_def image_iff)
  then show ?thesis
    by (rule that) (use k row(2) in \<open>simp_all add: claim_of_def claimable_def\<close>)
qed

lemma claim_ids:
  "map cn_id (snd (claim_notification_batch d batch ttl m tokens now)) =
     map no_id (batch_rows d batch now (now - ttl) m)"
  by (intro nth_equalityI)
    (simp_all add: claim_notification_batch_def Let_def nth_enumerate_eq claim_of_def)

lemma claim_id_set:
  "cn_id ` set (snd (claim_notification_batch d batch ttl m tokens now)) =
     no_id ` set (batch_rows d batch now (now - ttl) m)"
  using claim_ids [of d batch ttl m tokens now] by (metis set_map)

lemma not_claimed:
  assumes "outbox_inv m d" and "n \<in> set (notification_outboxes d)" and "\<not> claimable now (now - ttl) m n"
  shows "no_id n \<notin> cn_id ` set (snd (claim_notification_batch d batch ttl m tokens now))"
proof
  assume "no_id n \<in> cn_id ` set (snd (claim_notification_batch d batch ttl m tokens now))"
  then obtain x where x: "x \<in> set (batch_rows d batch now (now - ttl) m)" "no_id x = no_id n"
    unfolding claim_id_set by auto
  then show False
    using batch_rows_set [OF x(1)] unique_notification [OF assms(1) _ assms(2)] assms(3) by metis
qed

text \<open>
  C18. A claim is exclusive for the length of its lease: whatever producers and other
  workers do until \<open>claim_ttl_seconds\<close> after the claim, no other claim returns the message,
  and the report of the worker that holds it is accepted and makes it SENT.
\<close>
theorem claim_is_exclusive:
  assumes "outbox_inv m d"
    and "claim_notification_batch d batch ttl m tokens now = (d1, claims)"
    and "c \<in> set claims"
    and "\<forall>a\<in>set others. respects_lease ttl now (cn_claim_token c) a"
    and "now' \<le> now + ttl"
  shows "cn_id c \<notin> cn_id ` set (snd (claim_notification_batch
           (fold (outbox_run ttl m) others d1) batch' ttl m tokens' now')) \<and>
         snd (mark_notification_sent (fold (outbox_run ttl m) others d1) c now') \<and>
         map_option no_status (get_notification
           (fst (mark_notification_sent (fold (outbox_run ttl m) others d1) c now')) (cn_id c)) =
           Some OB_SENT"
proof -
  obtain n where n: "n \<in> set (notification_outboxes d1)" "no_id n = cn_id c"
    "no_claim_token n = Some (cn_claim_token c)" "no_claimed_at n = Some now"
    "no_status n = OB_PENDING"
    using claims_of_batch [OF assms(1-3)] by metis
  let ?d = "fold (outbox_run ttl m) others d1"
  have inv1: "outbox_inv m d1" using claim_inv [OF assms(1), of ttl batch tokens now] assms(2) by simp
  have inv: "outbox_inv m ?d" by (rule delivery.run_all_inv [OF inv1])
  have row: "n \<in> set (notification_outboxes ?d)"
    by (rule delivery.run_all_kept [OF inv1 n(1,5)]) (use n assms(4) in \<open>auto simp: leased_def\<close>)
  have "\<not> claimable now' (now' - ttl) m n"
    using n(4) assms(5) by (simp add: claimable_def stale_claim_def)
  then have "cn_id c \<notin> cn_id ` set (snd (claim_notification_batch ?d batch' ttl m tokens' now'))"
    using not_claimed [OF inv row] n(2) by metis
  moreover have get: "get_notification ?d (cn_id c) = Some n"
    using get_notification_iff [OF inv] row n(2) by blast
  moreover from get have "owned_row ?d c = Some n" using n by (simp add: owned_row_def)
  ultimately show ?thesis
    using get n(2)
    by (auto simp: mark_notification_sent_def save_notification_def get_notification_def
        table_get_update)
qed


text \<open>
  A worker that lost its lease is fenced off: once no row carries its token (the message
  was reported, or taken over by a later claim), neither report of that worker changes
  anything, as long as the token is not issued again.
\<close>
lemma lost_claim_is_fenced:
  assumes "cn_claim_token c \<notin> tokens_of d"
    and "\<forall>a\<in>set later. cn_claim_token c \<notin> issues a"
  shows "mark_notification_sent (fold (outbox_run ttl m) later d) c now =
           (fold (outbox_run ttl m) later d, False) \<and>
         mark_notification_failed (fold (outbox_run ttl m) later d) c e m now =
           (fold (outbox_run ttl m) later d, False)"
proof -
  have "cn_claim_token c \<notin> tokens_of (fold (outbox_run ttl m) later d)"
    by (rule delivery.run_all_tokens [OF assms])
  then have "owned_row (fold (outbox_run ttl m) later d) c = None"
    using owned_rowD(1,3) by (cases "owned_row (fold (outbox_run ttl m) later d) c")
      (simp, unfold tokens_of_def, blast)
  then show ?thesis
    by (simp_all add: mark_notification_sent_def mark_notification_failed_def)
qed

text \<open>
  No pending message is stranded: in every state of the outbox a PENDING row can be
  claimed at every time from its due time and the end of its lease on, also after its last
  attempt was interrupted, so a batch that is large enough returns it.
\<close>
lemma pending_is_never_stranded:
  assumes "outbox_inv m d" and "n \<in> set (notification_outboxes d)" and "no_status n = OB_PENDING"
    and "no_available_at n \<le> now"
    and "case no_claimed_at n of None \<Rightarrow> True | Some t \<Rightarrow> t + ttl < now"
    and "length (notification_outboxes d) \<le> batch"
  shows "no_id n \<in> cn_id ` set (snd (claim_notification_batch d batch ttl m tokens now))"
proof -
  have "claimable now (now - ttl) m n"
    using outbox_inv_row [OF assms(1,2)] assms(3-5)
    by (auto simp: claimable_def notification_ok_def stale_claim_def split: option.splits)
  moreover have "length (filter (claimable now (now - ttl) m) (notification_outboxes d)) \<le> batch"
    using assms(6) length_filter_le order_trans by blast
  ultimately have "n \<in> set (batch_rows d batch now (now - ttl) m)"
    using assms(2) by (simp add: batch_rows_def)
  then show ?thesis unfolding claim_id_set by simp
qed

section \<open>Concrete runs\<close>

definition sample_outbox :: db where
  "sample_outbox = outbox_run 30 3 (Enqueue 70 100 ''sendMessage'' (JObj []) ''k1'' None False) empty_db"

definition sample_claim :: claimed_notification where
  "sample_claim = \<lparr> cn_id = 70, cn_claim_token = 90, cn_method = ''sendMessage'',
     cn_payload = JObj [], cn_dedupe_key = ''k1'', cn_attempts = 1 \<rparr>"

definition sample_row :: notification_outbox where
  "sample_row = new_notification 70 100 ''sendMessage'' (JObj []) ''k1'' None"

lemma sample_outbox_rows: "sample_outbox = empty_db\<lparr>notification_outboxes := [sample_row]\<rparr>"
  by (simp add: sample_outbox_def enqueue_telegram_call_def ALLOWED_TELEGRAM_METHODS_def
      empty_db_def sample_row_def)

lemma sample_outbox_inv: "outbox_inv 3 sample_outbox"
  by (simp add: sample_outbox_rows outbox_inv_def notification_ok_def sample_row_def
      new_notification_def ALLOWED_TELEGRAM_METHODS_def)

definition sample_claimed :: db where
  "sample_claimed = empty_db\<lparr>notification_outboxes := [claim_row 105 75 3 90 sample_row]\<rparr>"

lemma sample_claim_run:
  "claim_notification_batch sample_outbox 5 30 3 (\<lambda>k. 90 + k) 105 = (sample_claimed, [sample_claim])"
  by (simp add: sample_outbox_rows claim_notification_batch_def Let_def batch_rows_def claimable_def
      sample_row_def new_notification_def stale_claim_def flush_rows_def enumerate_eq_zip
      sample_claimed_def claim_row_def claim_of_def sample_claim_def)

theorem claim_is_exclusive_witness:
  "cn_id sample_claim \<notin> cn_id ` set (snd (claim_notification_batch
      (fold (outbox_run 30 3) [Claim 5 (\<lambda>k. 190 + k) 120, Cancel ''k1''] sample_claimed)
      7 30 3 (\<lambda>k. 290 + k) 130)) \<and>
   snd (mark_notification_sent
      (fold (outbox_run 30 3) [Claim 5 (\<lambda>k. 190 + k) 120, Cancel ''k1''] sample_claimed)
      sample_claim 130)"
  using claim_is_exclusive [OF sample_outbox_inv sample_claim_run, of sample_claim
      "[Claim 5 (\<lambda>k. 190 + k) 120, Cancel ''k1'']" 130 7 "\<lambda>k. 290 + k"]
  by simp


lemma lost_claim_is_fenced_witness:
  "mark_notification_sent (fold (outbox_run 30 3) [Claim 5 (\<lambda>k. 290 + k) 200] sample_outbox)
     sample_claim 201 =
   (fold (outbox_run 30 3) [Claim 5 (\<lambda>k. 290 + k) 200] sample_outbox, False)"
proof -
  have "cn_claim_token sample_claim \<notin> tokens_of sample_outbox"
    by (simp add: tokens_of_def sample_outbox_rows sample_row_def new_notification_def)
  moreover have "\<forall>a\<in>set [Claim 5 (\<lambda>k. 290 + k) 200]. cn_claim_token sample_claim \<notin> issues a"
    by (auto simp: sample_claim_def)
  ultimately show ?thesis by (rule conjunct1 [OF lost_claim_is_fenced])
qed

lemma pending_is_never_stranded_witness:
  "70 \<in> cn_id ` set (snd (claim_notification_batch sample_claimed 1 30 1 (\<lambda>k. 91 + k) 136))"
proof -
  have "outbox_inv 1 sample_claimed"
    by (simp add: sample_claimed_def outbox_inv_def notification_ok_def sample_row_def claim_row_def
        new_notification_def ALLOWED_TELEGRAM_METHODS_def stale_claim_def)
  then show ?thesis
    using pending_is_never_stranded [of 1 sample_claimed "claim_row 105 75 3 90 sample_row" 136 30 1]
    by (simp add: sample_claimed_def sample_row_def new_notification_def claim_row_def Let_def)
qed

end
