(* ===== verification/Procurement_Proofs.thy ===== *)
theory Procurement_Proofs
  imports Procurement Catalog_Proofs Identity_Proofs Outbox_Proofs
begin

text \<open>
  Every procurement mutation has the same shape: the opening (\<open>mutation\<close>) rejects a stale
  or conflicting call and answers a repeated one from the journal of events; otherwise one
  preparation (a new revision with its lines, a binding, a new item with its binding, a
  receipt, or nothing), one update of the request with the next state version, one event,
  and announcements. The locale \<open>procurement_mutation\<close> is that contract; it is interpreted
  for each handler, and the properties of the service follow from it.
\<close>

section \<open>What the write statements leave\<close>

definition same_but_outbox :: "db \<Rightarrow> db \<Rightarrow> bool" where
  "same_but_outbox d d' \<longleftrightarrow> d' = d\<lparr>notification_outboxes := notification_outboxes d'\<rparr> \<and>
     (\<forall>m. outbox_inv m d \<longrightarrow> outbox_inv m d')"

lemma same_but_outboxD:
  assumes "same_but_outbox d d'"
  shows "users d' = users d" "telegram_identities d' = telegram_identities d" "items d' = items d"
    "movements d' = movements d" "movement_lines d' = movement_lines d"
    "procurement_requests d' = procurement_requests d"
    "procurement_revisions d' = procurement_revisions d"
    "procurement_revision_lines d' = procurement_revision_lines d"
    "procurement_line_catalog_bindings d' = procurement_line_catalog_bindings d"
    "procurement_events d' = procurement_events d" "locations d' = locations d"
    "stock_balances d' = stock_balances d"
    "user_item_custody_balances d' = user_item_custody_balances d" "manufacturers d' = manufacturers d"
proof -
  obtain x where "d' = d\<lparr>notification_outboxes := x\<rparr>"
    using assms unfolding same_but_outbox_def by blast
  then show "users d' = users d" "telegram_identities d' = telegram_identities d" "items d' = items d"
    "movements d' = movements d" "movement_lines d' = movement_lines d"
    "procurement_requests d' = procurement_requests d"
    "procurement_revisions d' = procurement_revisions d"
    "procurement_revision_lines d' = procurement_revision_lines d"
    "procurement_line_catalog_bindings d' = procurement_line_catalog_bindings d"
    "procurement_events d' = procurement_events d" "locations d' = locations d"
    "stock_balances d' = stock_balances d"
    "user_item_custody_balances d' = user_item_custody_balances d" "manufacturers d' = manufacturers d"
    by simp_all
qed

lemma same_but_outbox_refl [simp]: "same_but_outbox d d"
  by (simp add: same_but_outbox_def)

lemma enqueue_same_but_outbox:
  assumes "enqueue_telegram_call d i now verb payload key available rq = Inr d'"
  shows "same_but_outbox d d'"
proof -
  have "d' = d\<lparr>notification_outboxes := notification_outboxes d'\<rparr>"
    using assms by (cases rule: enqueue_cases) simp_all
  then show ?thesis using enqueue_inv [OF _ assms] by (simp add: same_but_outbox_def)
qed

lemma same_but_outbox_trans: "same_but_outbox a b \<Longrightarrow> same_but_outbox b c \<Longrightarrow> same_but_outbox a c"
proof -
  have "c = a\<lparr>notification_outboxes := notification_outboxes c\<rparr>"
    if "b = a\<lparr>notification_outboxes := notification_outboxes b\<rparr>"
      "c = b\<lparr>notification_outboxes := notification_outboxes c\<rparr>"
    using that by (cases a; cases b; cases c) simp
  then show "same_but_outbox a b \<Longrightarrow> same_but_outbox b c \<Longrightarrow> same_but_outbox a c"
    by (auto simp: same_but_outbox_def)
qed

lemma announce_same_but_outbox:
  assumes "announce env d r action lines recipients = Inr d'"
  shows "same_but_outbox d d'"
proof -
  have loop: "same_but_outbox d d'"
    if "efold (\<lambda>(k, user_id, telegram_user_id) d. enqueue_telegram_call d (f k) now verb
         (g telegram_user_id) (h user_id) None False) rs d = Inr d'" for f now verb g h rs
  proof (rule efold_invariant [OF that])
    show "same_but_outbox d d" by simp
    show "same_but_outbox d t"
      if "same_but_outbox d s" and "(case x of (k, user_id, telegram_user_id) \<Rightarrow> \<lambda>d.
        enqueue_telegram_call d (f k) now verb (g telegram_user_id) (h user_id) None False) s = Inr t"
      for x s t
      using that enqueue_same_but_outbox same_but_outbox_trans by (auto split: prod.splits)
  qed
  then show ?thesis
    using assms
    by (auto simp: announce_def enqueue_procurement_notifications_def Let_def result_simps
        split: if_splits option.splits)
qed

lemma result_Inr [result_simps]: "result d i = Inr (d', rec) \<longleftrightarrow>
    d' = d \<and> get_request_record d i = Inr rec"
  by (auto simp: result_def ebind_Inr_iff)

lemma write_request_Inr:
  assumes "write_request d r = Inr d'"
  shows "d' = d\<lparr>procurement_requests := table_update pr_id (pr_id r) (\<lambda>_. r) (procurement_requests d)\<rparr>"
    and "request_checks r"
    and "protect_procurement_final_movement_binding d (get_request d (pr_id r)) r"
    and "\<forall>x\<in>set (procurement_requests d). pr_id x \<noteq> pr_id r \<longrightarrow> pr_final_movement_id r \<noteq> None \<longrightarrow>
      pr_final_movement_id x \<noteq> pr_final_movement_id r"
  using assms by (auto simp: write_request_def save_request_def relabel_Inr_iff split: if_splits)

lemma add_event_Inr:
  assumes "add_event d e = Inr d'"
  shows "d' = d\<lparr>procurement_events := procurement_events d @ [e]\<rparr>"
    and "event_checks e" and "event_revision_fk d e"
    and "validate_procurement_revision_publication d e = None"
    and "\<forall>x\<in>set (procurement_events d). ev_id x \<noteq> ev_id e \<and>
      (ev_request_id x = ev_request_id e \<longrightarrow> ev_actor_user_id x = ev_actor_user_id e \<longrightarrow>
       ev_client_request_id x \<noteq> ev_client_request_id e)"
  using assms
  by (auto simp: add_event_def insert_event_def relabel_Inr_iff split: if_splits option.splits)

lemma insert_lines_Inr_procurement:
  assumes "efold insert_revision_line ls d = Inr d'"
  shows "d' = d\<lparr>procurement_revision_lines := procurement_revision_lines d @ ls\<rparr> \<and>
    (\<forall>l\<in>set ls. revision_line_checks l) \<and>
    (distinct (map rl_id (procurement_revision_lines d)) \<longrightarrow>
       distinct (map rl_id (procurement_revision_lines d @ ls)))"
  using assms
proof (induction ls arbitrary: d)
  case Nil
  then show ?case by simp
next
  case (Cons l ls)
  then obtain d1 where 1: "insert_revision_line l d = Inr d1" and 2: "efold insert_revision_line ls d1 = Inr d'"
    by (auto simp: ebind_Inr_iff)
  have d1: "d1 = d\<lparr>procurement_revision_lines := procurement_revision_lines d @ [l]\<rparr>"
    "revision_line_checks l" "rl_id l \<notin> rl_id ` set (procurement_revision_lines d)"
    using 1 by (auto simp: insert_revision_line_def split: if_splits)
  show ?case using Cons.IH [OF 2] d1 by auto
qed

lemma insert_revision_Inr:
  assumes "insert_revision d v = Inr d'"
  shows "d' = d\<lparr>procurement_revisions := procurement_revisions d @ [v]\<rparr>" and "revision_checks v"
    and "rv_id v \<notin> rv_id ` set (procurement_revisions d)"
  using assms by (auto simp: insert_revision_def split: if_splits)

lemma insert_binding_Inr:
  assumes "insert_binding d b = Inr d'"
  shows "d' = d\<lparr>procurement_line_catalog_bindings := procurement_line_catalog_bindings d @ [b]\<rparr>"
    and "bd_revision_line_id b \<notin> bd_revision_line_id ` set (procurement_line_catalog_bindings d)"
  using assms by (auto simp: insert_binding_def split: if_splits)

section \<open>The shape of a mutation\<close>

text \<open>What a handler does before it writes the request: one of five preparations.\<close>

inductive preparation ::
    "procurement_env \<Rightarrow> uuid \<Rightarrow> db \<Rightarrow> procurement_request \<Rightarrow> db \<Rightarrow> procurement_request \<Rightarrow> bool"
  for env actor d r where
  nothing: "pr_current_revision_id r' = pr_current_revision_id r \<Longrightarrow>
     pr_final_movement_id r' = pr_final_movement_id r \<Longrightarrow> preparation env actor d r d r'"
| revision: "insert_revision d v = Inr d1 \<Longrightarrow> efold insert_revision_line ls d1 = Inr d0 \<Longrightarrow>
     rv_request_id v = pr_id r \<Longrightarrow> rv_line_count v = int (length ls) \<Longrightarrow>
     \<forall>l\<in>set ls. rl_revision_id l = rv_id v \<Longrightarrow> pr_current_revision_id r' = rv_id v \<Longrightarrow>
     pr_final_movement_id r' = pr_final_movement_id r \<Longrightarrow> preparation env actor d r d0 r'"
| binding: "insert_binding d b = Inr d0 \<Longrightarrow>
     pr_current_revision_id r' = pr_current_revision_id r \<Longrightarrow>
     pr_final_movement_id r' = pr_final_movement_id r \<Longrightarrow> preparation env actor d r d0 r'"
| new_item: "create_item (pe_catalog env) new_id d p = Inr (d1, i) \<Longrightarrow> insert_binding d1 b = Inr d0 \<Longrightarrow>
     pr_current_revision_id r' = pr_current_revision_id r \<Longrightarrow>
     pr_final_movement_id r' = pr_final_movement_id r \<Longrightarrow> preparation env actor d r d0 r'"
| receipt: "create_movement (pe_sha256 env) d (pe_movement_id env) (pe_now env)
       (receipt_payload (pr_id r) location quantities) actor name None = Inr (d0, m) \<Longrightarrow>
     \<not> res_replayed m \<Longrightarrow> pr_current_revision_id r' = pr_current_revision_id r \<Longrightarrow>
     pr_final_movement_id r' = Some (mv_id (rec_movement (res_record m))) \<Longrightarrow>
     preparation env actor d r d0 r'"

fun moves_status :: "procurement_event_type \<Rightarrow> bool" where
  "moves_status ASSIGNMENT_TAKEN = False"
| "moves_status ASSIGNMENT_TRANSFERRED = False"
| "moves_status LINE_BOUND = False"
| "moves_status DISCREPANCY_REPORTED = False"
| "moves_status _ = True"

definition status_step :: "procurement_status \<Rightarrow> procurement_event \<Rightarrow> procurement_status \<Rightarrow> bool" where
  "status_step s e s' \<longleftrightarrow>
     (if moves_status (ev_event_type e)
      then ev_from_status e = Some s \<and> ev_to_status e = Some s' \<and> transition_allowed s s'
      else ev_from_status e = None \<and> ev_to_status e = None \<and> s' = s)"

definition request_step :: "procurement_request \<Rightarrow> procurement_event \<Rightarrow> procurement_request \<Rightarrow> bool" where
  "request_step r e r' \<longleftrightarrow>
     pr_id r' = pr_id r \<and> pr_request_number r' = pr_request_number r \<and>
     pr_initiator_user_id r' = pr_initiator_user_id r \<and>
     pr_creation_client_request_id r' = pr_creation_client_request_id r \<and>
     pr_request_fingerprint r' = pr_request_fingerprint r \<and>
     pr_state_version r' = pr_state_version r + 1 \<and>
     ev_request_id e = pr_id r \<and> ev_revision_id e = Some (pr_current_revision_id r') \<and>
     status_step (pr_status r) e (pr_status r')"

definition changed ::
    "procurement_env \<Rightarrow> uuid \<Rightarrow> string \<Rightarrow> string \<Rightarrow> procurement_event_type \<Rightarrow> db \<Rightarrow> procurement_request
       \<Rightarrow> db \<Rightarrow> bool" where
  "changed env actor key fingerprint event_type d r d' \<longleftrightarrow>
     (\<exists>d0 d1 d2 r' e.
        preparation env actor d r d0 r' \<and> write_request d0 r' = Inr d1 \<and> add_event d1 e = Inr d2 \<and>
        same_but_outbox d2 d' \<and> request_step r e r' \<and> ev_event_type e = event_type \<and>
        ev_actor_user_id e = actor \<and> ev_client_request_id e = key \<and>
        ev_request_fingerprint e = fingerprint)"

definition previous_event :: "db \<Rightarrow> uuid \<Rightarrow> uuid \<Rightarrow> string \<Rightarrow> procurement_event option" where
  "previous_event d request_id actor key =
     find (\<lambda>e. ev_request_id e = request_id \<and> ev_actor_user_id e = actor \<and>
       ev_client_request_id e = key) (procurement_events d)"

definition capable :: "db \<Rightarrow> uuid \<Rightarrow> capability list \<Rightarrow> bool" where
  "capable d actor cs \<longleftrightarrow>
     (\<exists>u. get_user d actor = Some u \<and> u_access_status u = APPROVED \<and>
        (\<forall>c\<in>set cs. has_capability (u_role u) c))"

lemma capable_iff: "lock_and_require_actor_capabilities d actor cs = Inr u \<longleftrightarrow> capable d actor cs"
  by (auto simp: lock_and_require_actor_capabilities_def capable_def split: option.splits if_splits)

lemma capable_run: "capable d actor cs \<Longrightarrow> lock_and_require_actor_capabilities d actor cs = Inr ()"
  by (simp add: capable_iff)

locale procurement_mutation =
  fixes run :: "procurement_env \<Rightarrow> db \<Rightarrow> uuid \<Rightarrow> 'p \<Rightarrow> uuid \<Rightarrow> procurement_error + db \<times> procurement_record"
    and expected :: "'p \<Rightarrow> expected_state_mutation" and payload :: "'p \<Rightarrow> json"
    and event_type :: "'p \<Rightarrow> procurement_event_type" and capabilities :: "'p \<Rightarrow> capability list"
  assumes guarded: "\<exists>body. run env d i p actor =
      mutation env d i (expected p) (payload p) actor (event_type p) (capabilities p) body \<and>
      (\<forall>rec key fp d' rec'. get_request_record d i = Inr rec \<longrightarrow> body rec key fp = Inr (d', rec') \<longrightarrow>
         changed env actor key fp (event_type p) d (prr_request rec) d')"
begin

lemma run_cases:
  assumes run: "run env d i p actor = Inr (d', rec')"
  obtains (replay) r key e where "get_request d i = Some r"
      "normalize_client_request_id (em_client_request_id (expected p)) = Inr key"
      "previous_event d i actor key = Some e" "ev_event_type e = event_type p"
      "ev_request_fingerprint e = canonical_fingerprint (pe_sha256 env) (payload p)"
      "capable d actor (capabilities p)" "d' = d" "get_request_record d i = Inr rec'"
  | (fresh) r key where "get_request d i = Some r"
      "normalize_client_request_id (em_client_request_id (expected p)) = Inr key"
      "previous_event d i actor key = None" "capable d actor (capabilities p)"
      "pr_state_version r = em_expected_state_version (expected p)"
      "pr_current_revision_id r = em_expected_revision_id (expected p)"
      "changed env actor key (canonical_fingerprint (pe_sha256 env) (payload p)) (event_type p) d r d'"
proof -
  obtain body where body: "run env d i p actor =
      mutation env d i (expected p) (payload p) actor (event_type p) (capabilities p) body"
    and ch: "\<And>rec key fp d' rec'. get_request_record d i = Inr rec \<Longrightarrow> body rec key fp = Inr (d', rec') \<Longrightarrow>
         changed env actor key fp (event_type p) d (prr_request rec) d'"
    using guarded by metis
  from run [unfolded body mutation_def] obtain rec key fp rep where
    lv: "lock_and_validate_expected env d i (expected p) (payload p) actor (event_type p) =
       Inr (rec, key, fp, rep)"
    and cap: "capable d actor (capabilities p)"
    and rest: "(case rep of Some _ \<Rightarrow> Inr (d, rec) | None \<Rightarrow> body rec key fp) = Inr (d', rec')"
    by (auto simp: ebind_Inr_iff capable_iff)
  from lv have rec: "get_request_record d i = Inr rec"
    and key: "normalize_client_request_id (em_client_request_id (expected p)) = Inr key"
    and fp: "fp = canonical_fingerprint (pe_sha256 env) (payload p)"
    by (auto simp: lock_and_validate_expected_def ebind_Inr_iff Let_def split: option.splits if_splits)
  then have r: "get_request d i = Some (prr_request rec)"
    by (auto simp: get_request_record_def split: option.splits)
  show thesis
  proof (cases "previous_event d i actor key")
    case (Some e)
    with lv rec key have "rep = Some e" "ev_event_type e = event_type p" "ev_request_fingerprint e = fp"
      by (auto simp: lock_and_validate_expected_def Let_def previous_event_def split: if_splits)
    then show thesis using replay [OF r key Some _ _ cap] rest rec fp by simp
  next
    case None
    with lv rec key have "rep = None"
      "pr_state_version (prr_request rec) = em_expected_state_version (expected p)"
      "pr_current_revision_id (prr_request rec) = em_expected_revision_id (expected p)"
      by (auto simp: lock_and_validate_expected_def Let_def previous_event_def split: if_splits)
    then show thesis using fresh [OF r key None cap] ch [OF rec] rest fp by simp
  qed
qed

lemma run_replay:
  assumes "get_request d i = Some r"
    and "normalize_client_request_id (em_client_request_id (expected p)) = Inr key"
    and "previous_event d i actor key = Some e" and "ev_event_type e = event_type p"
    and "ev_request_fingerprint e = canonical_fingerprint (pe_sha256 env) (payload p)"
    and "capable d actor (capabilities p)"
  shows "\<exists>rec. run env d i p actor = Inr (d, rec) \<and> get_request_record d i = Inr rec"
proof -
  obtain body where body: "run env d i p actor =
      mutation env d i (expected p) (payload p) actor (event_type p) (capabilities p) body"
    using guarded by metis
  show ?thesis
    using assms
    by (simp add: body mutation_def lock_and_validate_expected_def get_request_record_def Let_def
        previous_event_def capable_run)
qed

lemma run_stale:
  assumes "get_request d i = Some r"
    and "normalize_client_request_id (em_client_request_id (expected p)) = Inr key"
    and "previous_event d i actor key = None"
    and "pr_state_version r \<noteq> em_expected_state_version (expected p) \<or>
      pr_current_revision_id r \<noteq> em_expected_revision_id (expected p)"
  shows "run env d i p actor = Inl (ProcurementConflictError ''stale_state'')"
proof -
  obtain body where body: "run env d i p actor =
      mutation env d i (expected p) (payload p) actor (event_type p) (capabilities p) body"
    using guarded by metis
  show ?thesis
    using assms
    by (auto simp: body mutation_def lock_and_validate_expected_def get_request_record_def Let_def
        previous_event_def)
qed

end

section \<open>The handlers\<close>

abbreviation expected_of :: "'a expected_state_mutation_scheme \<Rightarrow> expected_state_mutation" where
  "expected_of \<equiv> expected_state_mutation.truncate"

lemma expected_of_simps [simp]:
  "em_expected_state_version (expected_of p) = em_expected_state_version p"
  "em_expected_revision_id (expected_of p) = em_expected_revision_id p"
  "em_client_request_id (expected_of p) = em_client_request_id p"
  by (simp_all add: expected_state_mutation.truncate_def)

lemma mutation_expected_of:
  "mutation env d i p pl actor t cs body = mutation env d i (expected_of p) pl actor t cs body"
  unfolding mutation_def lock_and_validate_expected_def expected_of_simps ..

lemma guardedI:
  assumes "\<And>rec key fp d' rec'. get_request_record d i = Inr rec \<Longrightarrow> body rec key fp = Inr (d', rec') \<Longrightarrow>
     changed env actor key fp t d (prr_request rec) d'"
  shows "\<exists>body'. mutation env d i p pl actor t cs body = mutation env d i (expected_of p) pl actor t cs body' \<and>
     (\<forall>rec key fp d' rec'. get_request_record d i = Inr rec \<longrightarrow> body' rec key fp = Inr (d', rec') \<longrightarrow>
        changed env actor key fp t d (prr_request rec) d')"
  using assms mutation_expected_of by blast

lemma changedI:
  assumes "preparation env actor d r d0 r'" and "write_request d0 r' = Inr d1"
    and "add_event d1 (procurement_event_row env i t actor snap key fp from_status to_status
      (Some (pr_current_revision_id r')) comment metadata) = Inr d2"
    and "same_but_outbox d2 d'" and "i = pr_id r" and "pr_id r' = pr_id r"
    and "pr_request_number r' = pr_request_number r"
    and "pr_initiator_user_id r' = pr_initiator_user_id r"
    and "pr_creation_client_request_id r' = pr_creation_client_request_id r"
    and "pr_request_fingerprint r' = pr_request_fingerprint r"
    and "pr_state_version r' = pr_state_version r + 1"
    and "if moves_status t
      then from_status = Some (pr_status r) \<and> to_status = Some (pr_status r') \<and>
        transition_allowed (pr_status r) (pr_status r')
      else from_status = None \<and> to_status = None \<and> pr_status r' = pr_status r"
  shows "changed env actor key fp t d r d'"
  unfolding changed_def
  by (intro exI conjI, rule assms(1), rule assms(2), rule assms(3), rule assms(4))
    (use assms(5-) in \<open>simp_all add: request_step_def status_step_def procurement_event_row_def\<close>)

lemma set_status_Inr:
  "set_status r t = Inr r' \<longleftrightarrow> transition_allowed (pr_status r) t \<and>
     r' = r\<lparr>pr_status := t, pr_state_version := pr_state_version r + 1\<rparr>"
  by (auto simp: set_status_def)

lemma get_request_record_id: "get_request_record d i = Inr rec \<Longrightarrow> pr_id (prr_request rec) = i"
  by (auto simp: get_request_record_def get_request_def split: option.splits dest: table_get_SomeD)

lemmas body_simps = Let_def ebind_Inr_iff result_Inr ensure_Inr_iff

interpretation accept: procurement_mutation manager_accept expected_of mutation_json
  "\<lambda>_. MANAGER_ACCEPTED" "\<lambda>_. [PROCUREMENT_MANAGE]"
proof (unfold_locales, unfold manager_accept_def, rule guardedI, goal_cases)
  case (1 env d i p actor rec key fp d' rec')
  from 1(2) obtain r' d1 where step: "set_status (prr_request rec) PURCHASING = Inr r'"
    and w: "write_request d r' = Inr d1"
    and e: "add_event d1 (procurement_event_row env i MANAGER_ACCEPTED actor (actor_snapshot d actor)
      key fp (Some (pr_status (prr_request rec))) (Some (pr_status r'))
      (Some (pr_current_revision_id r')) None None) = Inr d'"
    by (auto simp: body_simps)
  show ?case
    by (rule changedI [OF preparation.nothing w e])
      (use step get_request_record_id [OF 1(1)] in \<open>auto simp: set_status_Inr\<close>)
qed

interpretation correction: procurement_mutation return_for_correction expected_of correction_json
  "\<lambda>_. CORRECTION_REQUESTED" "\<lambda>_. [PROCUREMENT_MANAGE]"
proof (unfold_locales, unfold return_for_correction_def, rule guardedI, goal_cases)
  case (1 env d i p actor rec key fp d' rec')
  from 1(2) obtain r' d1 comment metadata d2 lines
    where step: "set_status (prr_request rec) AGREEMENT_REVISION_REQUIRED = Inr r'"
    and w: "write_request d r' = Inr d1"
    and e: "add_event d1 (procurement_event_row env i CORRECTION_REQUESTED actor
      (actor_snapshot d actor) key fp (Some (pr_status (prr_request rec))) (Some (pr_status r'))
      (Some (pr_current_revision_id r')) comment metadata) = Inr d2"
    and a: "announce env d2 r' action_correction lines {pr_initiator_user_id r'} = Inr d'"
    by (auto simp: body_simps)
  show ?case
    by (rule changedI [OF preparation.nothing w e announce_same_but_outbox [OF a]])
      (use step get_request_record_id [OF 1(1)] in \<open>auto simp: set_status_Inr\<close>)
qed

lemma assignment_changed:
  assumes "\<And>rec key fp. body rec key fp = (let r = prr_request rec in
     ebind (ensure (pr_status r \<in> set ACTIVE_PROCUREMENT_STATUSES) e1) (\<lambda>_.
     ebind (ensure (pr_assigned_manager_user_id r = am_expected_assigned_manager_user_id p) e2) (\<lambda>_.
     ebind (validate_manager d target) (\<lambda>_.
     ebind (ensure (pr_assigned_manager_user_id r \<noteq> target) e3) (\<lambda>_.
     let r' = bump_version (r\<lparr>pr_assigned_manager_user_id := target\<rparr>) in
     ebind (write_request d r') (\<lambda>d1.
     ebind (add_event d1 (procurement_event_row env i t actor (actor_snapshot d actor) key fp
        None None (Some (pr_current_revision_id r')) None (metadata r))) (\<lambda>d2.
     ebind (current_lines d rec) (\<lambda>lines.
     ebind (announce env d2 r' action_assigned lines {target}) (\<lambda>d3.
     result d3 i)))))))))"
    and "get_request_record d i = Inr rec" and "body rec key fp = Inr (d', rec')"
    and "\<not> moves_status t"
  shows "changed env actor key fp t d (prr_request rec) d'"
proof -
  from assms(3) obtain d1 d2 lines
    where w: "write_request d (bump_version ((prr_request rec)
      \<lparr>pr_assigned_manager_user_id := target\<rparr>)) = Inr d1"
    and e: "add_event d1 (procurement_event_row env i t actor (actor_snapshot d actor) key fp
      None None (Some (pr_current_revision_id (bump_version ((prr_request rec)
      \<lparr>pr_assigned_manager_user_id := target\<rparr>)))) None (metadata (prr_request rec))) = Inr d2"
    and a: "announce env d2 (bump_version ((prr_request rec)\<lparr>pr_assigned_manager_user_id := target\<rparr>))
      action_assigned lines {target} = Inr d'"
    by (auto simp: assms(1) body_simps)
  show ?thesis
    by (rule changedI [OF preparation.nothing w e announce_same_but_outbox [OF a]])
      (use get_request_record_id [OF assms(2)] assms(4) in \<open>auto simp: bump_version_def\<close>)
qed

interpretation take: procurement_mutation take_ownership expected_of assignment_json
  "\<lambda>_. ASSIGNMENT_TAKEN" "\<lambda>_. [PROCUREMENT_MANAGE]"
  by (unfold_locales, unfold take_ownership_def change_assignment_def, rule guardedI)
    (erule (1) assignment_changed [OF refl], simp)

interpretation transfer: procurement_mutation transfer_manager expected_of transfer_json
  "\<lambda>_. ASSIGNMENT_TRANSFERRED" "\<lambda>_. [PROCUREMENT_MANAGE]"
  by (unfold_locales, unfold transfer_manager_def change_assignment_def, rule guardedI)
    (erule (1) assignment_changed [OF refl], simp)

interpretation handover: procurement_mutation transfer_to_acceptance expected_of mutation_json
  "\<lambda>_. TRANSFERRED_TO_ACCEPTANCE" "\<lambda>_. [PROCUREMENT_MANAGE]"
proof (unfold_locales, unfold transfer_to_acceptance_def, rule guardedI, goal_cases)
  case (1 env d i p actor rec key fp d' rec')
  from 1(2) obtain r' d1 d2 lines
    where step: "set_status (prr_request rec) AWAITING_ACCEPTANCE = Inr r'"
    and w: "write_request d r' = Inr d1"
    and e: "add_event d1 (procurement_event_row env i TRANSFERRED_TO_ACCEPTANCE actor
      (actor_snapshot d actor) key fp (Some (pr_status (prr_request rec))) (Some (pr_status r'))
      (Some (pr_current_revision_id r')) None None) = Inr d2"
    and a: "announce env d2 r' action_acceptance lines (technical_recipient_user_ids d2) = Inr d'"
    by (auto simp: body_simps)
  show ?case
    by (rule changedI [OF preparation.nothing w e announce_same_but_outbox [OF a]])
      (use step get_request_record_id [OF 1(1)] in \<open>auto simp: set_status_Inr\<close>)
qed

interpretation discrepancy: procurement_mutation report_discrepancy expected_of discrepancy_json
  "\<lambda>_. DISCREPANCY_REPORTED" "\<lambda>_. [PROCUREMENT_ACCEPT]"
proof (unfold_locales, unfold report_discrepancy_def, rule guardedI, goal_cases)
  case (1 env d i p actor rec key fp d' rec')
  from 1(2) obtain d1 comment d2 lines
    where w: "write_request d (bump_version (prr_request rec)) = Inr d1"
    and e: "add_event d1 (procurement_event_row env i DISCREPANCY_REPORTED actor
      (actor_snapshot d actor) key fp None None
      (Some (pr_current_revision_id (bump_version (prr_request rec)))) comment None) = Inr d2"
    and a: "announce env d2 (bump_version (prr_request rec)) action_discrepancy lines
      {pr_assigned_manager_user_id (bump_version (prr_request rec))} = Inr d'"
    by (auto simp: body_simps)
  show ?case
    by (rule changedI [OF preparation.nothing w e announce_same_but_outbox [OF a]])
      (use get_request_record_id [OF 1(1)] in \<open>auto simp: bump_version_def\<close>)
qed

lemma prepare_line_Inr:
  assumes "prepare_line env d v (n, c) = Inr l"
  shows "rl_revision_id l = v" and "rl_line_no l = int n" and "rl_id l = pe_line_id env n"
    and "rl_quantity l = (case c of ExistingItemLineCreate i q \<Rightarrow> q | ProposedItemLineCreate x q \<Rightarrow> q)"
  using assms
  by (cases c; auto simp: ebind_Inr_iff split: option.splits if_splits sum.splits)+

lemma prepare_lines_revision:
  assumes "prepare_lines env d ps v = Inr ls" and "l \<in> set ls"
  shows "rl_revision_id l = v"
proof -
  from assms(1) have "list_all2 (\<lambda>x y. prepare_line env d v x = Inr y) (enumerate 1 ps) ls"
    by (auto simp: prepare_lines_def ebind_Inr_iff emap_Inr_iff)
  then obtain x where "prepare_line env d v x = Inr l"
    using assms(2) unfolding list_all2_conv_all_nth in_set_conv_nth by metis
  then show ?thesis by (cases x) (simp add: prepare_line_Inr(1))
qed

interpretation resubmit: procurement_mutation submit_revision expected_of revision_json
  "\<lambda>_. REVISION_SUBMITTED" "\<lambda>_. [PROCUREMENT_CREATE]"
proof (unfold_locales, unfold submit_revision_def, rule guardedI, goal_cases)
  case (1 env d i p actor rec key fp d' rec')
  from 1(2) obtain lines comment number v d1 d2 r1 d3 d4 action
    where ls: "prepare_lines env d (rc_lines p) (pe_revision_id env) = Inr lines"
    and v: "v = \<lparr> rv_id = pe_revision_id env, rv_request_id = i, rv_revision_number = number,
      rv_submitted_by_user_id = actor,
      rv_submitted_by_display_name_snapshot = actor_snapshot d actor,
      rv_general_comment = comment, rv_line_count = int (length lines) \<rparr>"
    and ins: "insert_revision d v = Inr d1" and insl: "efold insert_revision_line lines d1 = Inr d2"
    and step: "set_status (prr_request rec) AGREEMENT_PENDING_MANAGER = Inr r1"
    and w: "write_request d2 (r1\<lparr>pr_current_revision_id := rv_id v\<rparr>) = Inr d3"
    and e: "add_event d3 (procurement_event_row env i REVISION_SUBMITTED actor
      (actor_snapshot d actor) key fp (Some (pr_status (prr_request rec)))
      (Some (pr_status (r1\<lparr>pr_current_revision_id := rv_id v\<rparr>)))
      (Some (pr_current_revision_id (r1\<lparr>pr_current_revision_id := rv_id v\<rparr>))) None None) = Inr d4"
    and a: "announce env d4 (r1\<lparr>pr_current_revision_id := rv_id v\<rparr>) action lines
      {pr_assigned_manager_user_id (r1\<lparr>pr_current_revision_id := rv_id v\<rparr>)} = Inr d'"
    by (auto simp: body_simps relabel_Inr_iff)
  have rv: "\<forall>l\<in>set lines. rl_revision_id l = rv_id v"
    using prepare_lines_revision [OF ls] v by simp
  show ?case
    by (rule changedI [OF preparation.revision [OF ins insl _ _ rv] w e announce_same_but_outbox [OF a]])
      (use step v get_request_record_id [OF 1(1)] in \<open>auto simp: set_status_Inr\<close>)
qed

interpretation bind: procurement_mutation bind_line expected_of binding_json
  "\<lambda>_. LINE_BOUND" "\<lambda>_. [PROCUREMENT_ACCEPT]"
proof (unfold_locales, unfold bind_line_def, rule guardedI, goal_cases)
  case (1 env d i p actor rec key fp d' rec')
  from 1(2) obtain b d1 d2 metadata where b: "insert_binding d b = Inr d1"
    and w: "write_request d1 (bump_version (prr_request rec)) = Inr d2"
    and e: "add_event d2 (procurement_event_row env i LINE_BOUND actor
      (actor_snapshot d actor) key fp None None
      (Some (pr_current_revision_id (bump_version (prr_request rec)))) None metadata) = Inr d'"
    by (auto simp: body_simps relabel_Inr_iff split: option.splits)
  show ?case
    by (rule changedI [OF preparation.binding [OF b] w e])
      (use get_request_record_id [OF 1(1)] in \<open>auto simp: bump_version_def\<close>)
qed

interpretation create_bind: procurement_mutation create_and_bind_line expected_of create_and_bind_json
  "\<lambda>_. LINE_BOUND" "\<lambda>_. [PROCUREMENT_ACCEPT, CATALOG_MANAGE]"
proof (unfold_locales, unfold create_and_bind_line_def, rule guardedI, goal_cases)
  case (1 env d i p actor rec key fp d' rec')
  from 1(2) obtain b d1 item_id d2 d3 metadata
    where c: "create_item (pe_catalog env) (pe_item_id env) d (pb_item p) = Inr (d1, item_id)"
    and b: "insert_binding d1 b = Inr d2"
    and w: "write_request d2 (bump_version (prr_request rec)) = Inr d3"
    and e: "add_event d3 (procurement_event_row env i LINE_BOUND actor
      (actor_snapshot d actor) key fp None None
      (Some (pr_current_revision_id (bump_version (prr_request rec)))) None metadata) = Inr d'"
    by (auto simp: body_simps relabel_Inr_iff)
  show ?case
    by (rule changedI [OF preparation.new_item [OF c b] w e])
      (use get_request_record_id [OF 1(1)] in \<open>auto simp: bump_version_def\<close>)
qed

lemma complete_acceptance_body:
  assumes "(let r = prr_request rec in
     ebind (require_status r [AWAITING_ACCEPTANCE]) (\<lambda>_.
     ebind (current_lines d rec) (\<lambda>lines.
     ebind (check_acceptance_lines d lines) (\<lambda>_.
     ebind (validate_aggregated_item_quantities (bound_item_id (binding_of d)) lines) (\<lambda>quantities.
     ebind (relabel ProcurementInventoryError (create_movement (pe_sha256 env) d (pe_movement_id env)
        (pe_now env) (receipt_payload i location quantities) actor
        (actor_snapshot d actor) None)) (\<lambda>(d1, movement).
     if res_replayed movement then Inl (ProcurementConflictError ''receipt_already_exists'')
     else
     let movement_id = mv_id (rec_movement (res_record movement)) in
     ebind (set_status r COMPLETED) (\<lambda>r1.
     let r' = r1\<lparr>pr_final_movement_id := Some movement_id, pr_completed_at := Some (pe_now env)\<rparr> in
     ebind (write_request d1 r') (\<lambda>d2.
     ebind (add_event d2 (procurement_event_row env i EV_COMPLETED actor
        (actor_snapshot d actor) key fp (Some (pr_status r)) (Some (pr_status r'))
        (Some (pr_current_revision_id r')) None (metadata movement_id))) (\<lambda>d3.
     ebind (announce env d3 r' action_completed lines (acceptance_participants rec)) (\<lambda>d4.
     result d4 i)))))))))) = Inr (d', rec')"
  obtains lines quantities d1 movement r' d2 d3
  where "current_lines d rec = Inr lines" and "check_acceptance_lines d lines = Inr ()"
    and "validate_aggregated_item_quantities (bound_item_id (binding_of d)) lines = Inr quantities"
    and "create_movement (pe_sha256 env) d (pe_movement_id env) (pe_now env)
      (receipt_payload i location quantities) actor (actor_snapshot d actor) None = Inr (d1, movement)"
    and "\<not> res_replayed movement" and "transition_allowed (pr_status (prr_request rec)) COMPLETED"
    and "r' = (prr_request rec)\<lparr>pr_status := COMPLETED,
      pr_state_version := pr_state_version (prr_request rec) + 1,
      pr_final_movement_id := Some (mv_id (rec_movement (res_record movement))),
      pr_completed_at := Some (pe_now env)\<rparr>"
    and "write_request d1 r' = Inr d2"
    and "add_event d2 (procurement_event_row env i EV_COMPLETED actor (actor_snapshot d actor) key fp
      (Some (pr_status (prr_request rec))) (Some (pr_status r')) (Some (pr_current_revision_id r')) None
      (metadata (mv_id (rec_movement (res_record movement))))) = Inr d3"
    and "same_but_outbox d3 d'"
  using assms
  by (auto simp: body_simps relabel_Inr_iff set_status_Inr split: if_splits
      dest: announce_same_but_outbox)

interpretation completion: procurement_mutation complete_acceptance expected_of acceptance_json
  "\<lambda>_. EV_COMPLETED" "\<lambda>_. [PROCUREMENT_ACCEPT]"
proof (unfold_locales, unfold complete_acceptance_def, rule guardedI, goal_cases)
  case (1 env d i p actor rec key fp d' rec')
  have id: "pr_id (prr_request rec) = i" by (rule get_request_record_id [OF 1(1)])
  from 1(2) show ?case
  proof (rule complete_acceptance_body, goal_cases)
    case (1 lines quantities d1 movement r' d2 d3)
    show ?case
      by (rule changedI [OF preparation.receipt [OF 1(4) [folded id] 1(5)] 1(8,9,10)])
        (use 1(6,7) id in auto)
  qed
qed

section \<open>All mutations as one\<close>

datatype procurement_call =
    Accept expected_state_mutation
  | Correct correction_request
  | Resubmit revision_create
  | Take_Over assignment_mutation
  | Reassign manager_transfer
  | Hand_Over expected_state_mutation
  | Bind_Line line_binding_create
  | Create_And_Bind proposed_item_create_and_bind
  | Report discrepancy_create
  | Complete procurement_acceptance_create

fun run_call ::
    "procurement_env \<Rightarrow> db \<Rightarrow> uuid \<Rightarrow> procurement_call \<Rightarrow> uuid \<Rightarrow> procurement_error + db \<times> procurement_record"
where
  "run_call env d i (Accept p) actor = manager_accept env d i p actor"
| "run_call env d i (Correct p) actor = return_for_correction env d i p actor"
| "run_call env d i (Resubmit p) actor = submit_revision env d i p actor"
| "run_call env d i (Take_Over p) actor = take_ownership env d i p actor"
| "run_call env d i (Reassign p) actor = transfer_manager env d i p actor"
| "run_call env d i (Hand_Over p) actor = transfer_to_acceptance env d i p actor"
| "run_call env d i (Bind_Line p) actor = bind_line env d i p actor"
| "run_call env d i (Create_And_Bind p) actor = create_and_bind_line env d i p actor"
| "run_call env d i (Report p) actor = report_discrepancy env d i p actor"
| "run_call env d i (Complete p) actor = complete_acceptance env d i p actor"

fun call_expected :: "procurement_call \<Rightarrow> expected_state_mutation" where
  "call_expected (Accept p) = expected_of p"
| "call_expected (Correct p) = expected_of p"
| "call_expected (Resubmit p) = expected_of p"
| "call_expected (Take_Over p) = expected_of p"
| "call_expected (Reassign p) = expected_of p"
| "call_expected (Hand_Over p) = expected_of p"
| "call_expected (Bind_Line p) = expected_of p"
| "call_expected (Create_And_Bind p) = expected_of p"
| "call_expected (Report p) = expected_of p"
| "call_expected (Complete p) = expected_of p"

fun call_payload :: "procurement_call \<Rightarrow> json" where
  "call_payload (Accept p) = mutation_json p"
| "call_payload (Correct p) = correction_json p"
| "call_payload (Resubmit p) = revision_json p"
| "call_payload (Take_Over p) = assignment_json p"
| "call_payload (Reassign p) = transfer_json p"
| "call_payload (Hand_Over p) = mutation_json p"
| "call_payload (Bind_Line p) = binding_json p"
| "call_payload (Create_And_Bind p) = create_and_bind_json p"
| "call_payload (Report p) = discrepancy_json p"
| "call_payload (Complete p) = acceptance_json p"

fun call_event :: "procurement_call \<Rightarrow> procurement_event_type" where
  "call_event (Accept p) = MANAGER_ACCEPTED"
| "call_event (Correct p) = CORRECTION_REQUESTED"
| "call_event (Resubmit p) = REVISION_SUBMITTED"
| "call_event (Take_Over p) = ASSIGNMENT_TAKEN"
| "call_event (Reassign p) = ASSIGNMENT_TRANSFERRED"
| "call_event (Hand_Over p) = TRANSFERRED_TO_ACCEPTANCE"
| "call_event (Bind_Line p) = LINE_BOUND"
| "call_event (Create_And_Bind p) = LINE_BOUND"
| "call_event (Report p) = DISCREPANCY_REPORTED"
| "call_event (Complete p) = EV_COMPLETED"

fun call_capabilities :: "procurement_call \<Rightarrow> capability list" where
  "call_capabilities (Resubmit p) = [PROCUREMENT_CREATE]"
| "call_capabilities (Bind_Line p) = [PROCUREMENT_ACCEPT]"
| "call_capabilities (Create_And_Bind p) = [PROCUREMENT_ACCEPT, CATALOG_MANAGE]"
| "call_capabilities (Report p) = [PROCUREMENT_ACCEPT]"
| "call_capabilities (Complete p) = [PROCUREMENT_ACCEPT]"
| "call_capabilities _ = [PROCUREMENT_MANAGE]"

interpretation calls: procurement_mutation run_call call_expected call_payload call_event
  call_capabilities
proof (unfold_locales, goal_cases)
  case (1 env d i p actor)
  show ?case
    by (cases p; simp only: run_call.simps call_expected.simps call_payload.simps call_event.simps
        call_capabilities.simps;
        rule accept.guarded correction.guarded resubmit.guarded take.guarded transfer.guarded
          handover.guarded bind.guarded create_bind.guarded discrepancy.guarded completion.guarded)
qed

end
