(* ===== verification/Owner_Rotation.thy ===== *)
theory Owner_Rotation
  imports Identity_Proofs
begin

text \<open>
  The guarded rotation of the recovery owner (\<open>bootstrap/recovery_owner_rotation.py\<close>): an
  operator hands ownership from the configured recovery user to another signed-in user. It is
  the only transaction that changes two users. The parts of the database address that the
  guard reads, which a library parses, are fields of the arguments.
\<close>

datatype rotation_error = RecoveryOwnerRotationError

record rotation_args =
  ra_app_env :: string
  ra_drivername :: string
  ra_host :: "string option"
  ra_admin_telegram_user_id :: "int option"
  ra_current_telegram_user_id :: int
  ra_target_telegram_user_id :: int
  ra_target_user_id :: uuid
  ra_confirm :: string

record rotation_result =
  rr_old_owner_user_id :: uuid
  rr_new_owner_user_id :: uuid
  rr_new_owner_access_status :: user_access_status
  rr_pending_access_request_resolved :: bool
  rr_owner_count :: nat

definition CONFIRMATION :: string where
  "CONFIRMATION = ''ROTATE_RECOVERY_OWNER''"

definition assert_production_runtime :: "rotation_args \<Rightarrow> rotation_error + unit" where
  "assert_production_runtime a =
     (if ra_app_env a \<noteq> ''production'' then Inl RecoveryOwnerRotationError
      else if ra_drivername a \<noteq> ''postgresql+asyncpg'' \<or> ra_host a \<noteq> Some ''postgres''
      then Inl RecoveryOwnerRotationError
      else Inr ())"

definition check_rotation ::
    "db \<Rightarrow> int \<Rightarrow> int \<Rightarrow> uuid \<Rightarrow> rotation_error + user \<times> user" where
  "check_rotation d configured target_telegram confirmed =
     ebind (ensure (configured \<noteq> target_telegram) RecoveryOwnerRotationError) (\<lambda>_.
     ebind (from_option RecoveryOwnerRotationError (identity_by_telegram d configured)) (\<lambda>current.
     ebind (from_option RecoveryOwnerRotationError (identity_by_telegram d target_telegram)) (\<lambda>target.
     ebind (ensure (ti_user_id target = confirmed) RecoveryOwnerRotationError) (\<lambda>_.
     ebind (ensure (ti_user_id current \<noteq> ti_user_id target) RecoveryOwnerRotationError) (\<lambda>_.
     ebind (from_option RecoveryOwnerRotationError (get_user d (ti_user_id current))) (\<lambda>current_owner.
     ebind (from_option RecoveryOwnerRotationError (get_user d (ti_user_id target))) (\<lambda>target_user.
     ebind (ensure (map u_id (filter (\<lambda>u. u_role u = OWNER) (users d)) = [u_id current_owner])
        RecoveryOwnerRotationError) (\<lambda>_.
     ebind (ensure (u_access_status current_owner = APPROVED) RecoveryOwnerRotationError) (\<lambda>_.
     ebind (ensure (u_role target_user \<noteq> OWNER) RecoveryOwnerRotationError) (\<lambda>_.
     ebind (ensure (\<not> has_custody d (u_id target_user)) RecoveryOwnerRotationError) (\<lambda>_.
     Inr (current_owner, target_user))))))))))))"

definition approve_target :: "db \<Rightarrow> user \<Rightarrow> uuid \<Rightarrow> timestamp \<Rightarrow> db \<times> user" where
  "approve_target d u owner_id now =
     (if u_access_status u \<noteq> APPROVED
      then (let (d', u', _) = transition_user_access d u owner_id APPROVED now in (d', u'))
      else
        (let u1 = (if u_approved_at u = None then u\<lparr>u_approved_at := Some now\<rparr> else u);
             u2 = (if u_approved_by_user_id u1 = None
                   then u1\<lparr>u_approved_by_user_id := Some owner_id\<rparr> else u1)
         in (save_user d u2, u2)))"

definition resolve_pending_request :: "db \<Rightarrow> uuid \<Rightarrow> uuid \<Rightarrow> timestamp \<Rightarrow> db \<times> bool" where
  "resolve_pending_request d user_id owner_id now =
     (case pending_requests_of d user_id of
        [] \<Rightarrow> (d, False)
      | r # _ \<Rightarrow>
          (save_access_request d (r\<lparr>ar_status := AR_APPROVED, ar_decided_at := Some now,
             ar_decided_by_user_id := Some owner_id,
             ar_decision_note := Some ''recovery OWNER rotation''\<rparr>), True))"

definition rotate_recovery_owner_transaction ::
    "db \<Rightarrow> int \<Rightarrow> int \<Rightarrow> uuid \<Rightarrow> timestamp \<Rightarrow> rotation_error + db \<times> rotation_result" where
  "rotate_recovery_owner_transaction d configured target_telegram confirmed now =
     ebind (check_rotation d configured target_telegram confirmed) (\<lambda>(current_owner, target_user).
     let owner_id = u_id current_owner;
         (d1, _, _) = change_role d current_owner owner_id ADMIN now;
         (d2, target1) = approve_target d1 target_user owner_id now;
         (d3, resolved) = resolve_pending_request d2 (u_id target_user) owner_id now;
         (d4, target2, _) = change_role d3 target1 owner_id OWNER now;
         d5 = revoke_sessions (revoke_sessions d4 owner_id now) (u_id target_user) now;
         owners = map u_id (filter (\<lambda>u. u_role u = OWNER) (users d5))
     in if length owners \<noteq> 1 \<or> owners \<noteq> [u_id target_user] then Inl RecoveryOwnerRotationError
        else Inr (d5, \<lparr> rr_old_owner_user_id = owner_id, rr_new_owner_user_id = u_id target_user,
                        rr_new_owner_access_status = u_access_status target2,
                        rr_pending_access_request_resolved = resolved,
                        rr_owner_count = length owners \<rparr>))"

definition run_rotation :: "db \<Rightarrow> rotation_args \<Rightarrow> timestamp \<Rightarrow> rotation_error + db \<times> rotation_result" where
  "run_rotation d a now =
     ebind (assert_production_runtime a) (\<lambda>_.
     ebind (ensure (ra_confirm a = CONFIRMATION) RecoveryOwnerRotationError) (\<lambda>_.
     ebind (ensure (ra_admin_telegram_user_id a = Some (ra_current_telegram_user_id a))
        RecoveryOwnerRotationError) (\<lambda>_.
     rotate_recovery_owner_transaction d (ra_current_telegram_user_id a)
       (ra_target_telegram_user_id a) (ra_target_user_id a) now)))"

section \<open>Effect\<close>

lemma check_rotation_Inr:
  assumes "check_rotation d configured target_telegram confirmed = Inr (t, s)"
  shows "get_user d (u_id t) = Some t" "get_user d (u_id s) = Some s" "u_id s \<noteq> u_id t" "u_id s = confirmed"
    "map u_id (filter (\<lambda>u. u_role u = OWNER) (users d)) = [u_id t]" "u_access_status t = APPROVED"
    "\<not> has_custody d (u_id s)"
proof -
  note unfolds = check_rotation_def ebind_Inr_iff ensure_Inr_iff from_option_Inr_iff
  have rest: "map u_id (filter (\<lambda>u. u_role u = OWNER) (users d)) = [u_id t]" "u_access_status t = APPROVED"
    "\<not> has_custody d (u_id s)"
    using assms by (auto simp: unfolds)
  have "\<exists>i. get_user d i = Some t \<and> i \<noteq> confirmed" and s: "get_user d confirmed = Some s"
    using assms by (auto simp: unfolds)
  then obtain i where t: "get_user d i = Some t" "i \<noteq> confirmed" by blast
  have "u_id t = i" "u_id s = confirmed" using t(1) s get_user_id by blast+
  then show "get_user d (u_id t) = Some t" "get_user d (u_id s) = Some s" "u_id s \<noteq> u_id t" "u_id s = confirmed"
    "map u_id (filter (\<lambda>u. u_role u = OWNER) (users d)) = [u_id t]" "u_access_status t = APPROVED"
    "\<not> has_custody d (u_id s)"
    using t s rest by simp_all
qed

lemma approve_target_changed:
  assumes "get_user d (u_id t) = Some t" and "approve_target d t owner_id now = (d', t')"
  shows "user_changed d d' t t' \<and> u_access_status t' = APPROVED \<and> u_role t' = u_role t \<and>
    u_approved_at t' \<noteq> None \<and> telegram_identities d' = telegram_identities d"
proof (cases "u_access_status t = APPROVED")
  case True
  define t2 where "t2 = (let u1 = (if u_approved_at t = None then t\<lparr>u_approved_at := Some now\<rparr> else t)
    in if u_approved_by_user_id u1 = None then u1\<lparr>u_approved_by_user_id := Some owner_id\<rparr> else u1)"
  have t2: "u_id t2 = u_id t" "u_access_status t2 = u_access_status t" "u_role t2 = u_role t"
    "u_approved_at t2 \<noteq> None" by (simp_all add: t2_def Let_def)
  have "d' = save_user d t2" "t' = t2"
    using assms(2) True by (auto simp: approve_target_def t2_def Let_def)
  then show ?thesis using save_user_changed [OF assms(1) t2(1-3)] t2 True by (simp add: save_user_def)
next
  case False
  obtain e where tr: "transition_user_access d t owner_id APPROVED now = (d', t', e)"
    using assms(2) False by (auto simp: approve_target_def split: prod.splits)
  note tc = transition_changed [OF assms(1) tr]
  have "e \<noteq> None" using tc(4) False by simp
  then have "u_approved_at t' \<noteq> None" using tc(6) by simp
  then show ?thesis using tc(1,2,3,8) by blast
qed

lemma resolve_pending_same:
  assumes "resolve_pending_request d i j now = (d', c)"
  shows "same_but_identity d d'" "users d' = users d" "user_access_events d' = user_access_events d"
    "user_role_events d' = user_role_events d"
    "telegram_identities d' = telegram_identities d"
  using assms save_request_same
  by (auto simp: resolve_pending_request_def save_access_request_def same_but_identity_iff split: list.splits)

lemma rotation_effect:
  assumes "rotate_recovery_owner_transaction d configured target_telegram confirmed now = Inr (d', r)"
    and dist: "distinct (map u_id (users d))"
  shows "\<exists>d1 t s s'. u_id s \<noteq> u_id t \<and> u_id s = confirmed \<and> u_role t = OWNER \<and>
    user_changed d d1 t (t\<lparr>u_role := ADMIN\<rparr>) \<and> user_changed d1 d' s s' \<and>
    u_role s' = OWNER \<and> u_access_status s' = APPROVED \<and> u_approved_at s' \<noteq> None \<and>
    \<not> has_custody d (u_id s) \<and> (\<forall>x\<in>set (users d). u_role x = OWNER \<longrightarrow> u_id x = u_id t)"
    and "telegram_identities d' = telegram_identities d"
proof -
  obtain t s where check: "check_rotation d configured target_telegram confirmed = Inr (t, s)"
    using assms(1) by (auto simp: rotate_recovery_owner_transaction_def ebind_Inr_iff)
  note c = check_rotation_Inr [OF check]
  obtain d1 t1 e1 where 1: "change_role d t (u_id t) ADMIN now = (d1, t1, e1)" by (metis prod_cases3)
  obtain d2 s1 where 2: "approve_target d1 s (u_id t) now = (d2, s1)" by (metis surj_pair)
  obtain d3 b where 3: "resolve_pending_request d2 (u_id s) (u_id t) now = (d3, b)" by (metis surj_pair)
  obtain d4 s2 e2 where 4: "change_role d3 s1 (u_id t) OWNER now = (d4, s2, e2)" by (metis prod_cases3)
  have d': "d' = revoke_sessions (revoke_sessions d4 (u_id t) now) (u_id s) now"
    using assms(1) check 1 2 3 4
    by (simp add: rotate_recovery_owner_transaction_def Let_def split: if_splits)
  note c1 = change_role_changed [OF c(1) 1]
  have get1: "get_user d1 (u_id s) = Some s" using c1(1) c(2,3) by (simp add: user_changed_def)
  note c2 = approve_target_changed [OF get1 2]
  have "user_changed d1 d3 s s1"
    using c2 by (intro user_changed_after [OF _ resolve_pending_same(1-4) [OF 3]]) blast
  moreover from this have "get_user d3 (u_id s1) = Some s1" by (simp add: user_changed_def)
  note c4 = change_role_changed [OF this 4]
  have "user_changed d1 d4 s s2"
    by (rule user_changed_trans [OF calculation c4(1)]) (simp_all add: c4(2) c2)
  then have "user_changed d1 d' s s2"
    unfolding d' by (intro user_changed_after [OF user_changed_after [OF _ revoke_sessions_same] revoke_sessions_same])
  moreover have "u_role s2 = OWNER" "u_access_status s2 = APPROVED" "u_approved_at s2 \<noteq> None"
    using c2 by (simp_all add: c4(2))
  moreover have owner: "u_role t = OWNER" "\<forall>x\<in>set (users d). u_role x = OWNER \<longrightarrow> u_id x = u_id t"
  proof -
    have "u_id ` {u \<in> set (users d). u_role u = OWNER} = {u_id t}"
      using arg_cong [OF c(5), of set] by simp
    then show "\<forall>x\<in>set (users d). u_role x = OWNER \<longrightarrow> u_id x = u_id t" by blast
    obtain x where x: "filter (\<lambda>u. u_role u = OWNER) (users d) = [x]" "u_id x = u_id t" using c(5) by auto
    then have "x \<in> set (users d)" "u_role x = OWNER"
      using filter_set [of "\<lambda>u. u_role u = OWNER" "users d"] by auto
    then show "u_role t = OWNER" using c(1) x(2) user_member_iff [OF dist] by (metis option.inject)
  qed
  ultimately show "\<exists>d1 t s s'. u_id s \<noteq> u_id t \<and> u_id s = confirmed \<and> u_role t = OWNER \<and>
    user_changed d d1 t (t\<lparr>u_role := ADMIN\<rparr>) \<and> user_changed d1 d' s s' \<and>
    u_role s' = OWNER \<and> u_access_status s' = APPROVED \<and> u_approved_at s' \<noteq> None \<and>
    \<not> has_custody d (u_id s) \<and> (\<forall>x\<in>set (users d). u_role x = OWNER \<longrightarrow> u_id x = u_id t)"
    using c(3,4,7) c1(1,2) by blast
  show "telegram_identities d' = telegram_identities d"
    unfolding d' using c1(4) c2 resolve_pending_same(5) [OF 3] c4(4) by (simp add: revoke_sessions_def)
qed

lemma run_rotation_Inr:
  assumes "run_rotation d a now = Inr (d', r)"
  shows "\<exists>configured target confirmed.
    rotate_recovery_owner_transaction d configured target confirmed now = Inr (d', r)"
  using assms by (auto simp: run_rotation_def ebind_Inr_iff)

lemma run_rotation_frame:
  assumes "run_rotation d a now = Inr (d', r)"
  shows "same_but_identity d d' \<and> notification_outboxes d' = notification_outboxes d"
  using assms
  by (auto simp: run_rotation_def rotate_recovery_owner_transaction_def ebind_Inr_iff Let_def
      change_role_def approve_target_def transition_user_access_def resolve_pending_request_def
      save_user_def save_access_request_def revoke_sessions_def same_but_identity_iff
      split: if_splits list.splits)

section \<open>Two users in one transaction\<close>

text \<open>
  A condition that the triggers check on every changed row holds across two changes of
  different users when it holds across each of them.
\<close>

lemma rows_of_two_changes:
  assumes dist: "distinct (map u_id (users d))" and c1: "user_changed d d1 t t1"
    and c2: "user_changed d1 d2 s s2" and ne: "u_id s \<noteq> u_id t"
    and first: "\<forall>new\<in>set (users d1). case get_user d (u_id new) of None \<Rightarrow> True | Some old \<Rightarrow> P old new"
    and second: "\<forall>new\<in>set (users d2). case get_user d1 (u_id new) of None \<Rightarrow> True | Some old \<Rightarrow> Q old new"
    and "\<And>old new. P old new \<Longrightarrow> R old new" and "\<And>old new. Q old new \<Longrightarrow> R old new"
  shows "\<forall>new\<in>set (users d2). case get_user d (u_id new) of None \<Rightarrow> True | Some old \<Rightarrow> R old new"
proof
  fix u assume u: "u \<in> set (users d2)"
  have dist1: "distinct (map u_id (users d1))" using dist c1 by (simp add: user_changed_def)
  consider "u = s2" | "u \<in> set (users d1)" using changed_members [OF dist1 c2 u] by blast
  then show "case get_user d (u_id u) of None \<Rightarrow> True | Some old \<Rightarrow> R old u"
  proof cases
    case 1
    then have "get_user d (u_id u) = get_user d1 (u_id u)" using c1 c2 ne by (simp add: user_changed_def)
    then show ?thesis using bspec [OF second u] assms(8) by (simp split: option.splits)
  next
    case 2
    then show ?thesis using bspec [OF first] assms(7) by (fastforce split: option.splits)
  qed
qed

lemma changes_commit:
  assumes inv: "warehouse_inv d" and dist: "distinct (map u_id (users d))"
    and c1: "user_changed d d1 t t1" and c2: "user_changed d1 d2 s s2" and ne: "u_id s \<noteq> u_id t"
    and h1: "has_custody d (u_id t) \<Longrightarrow> holder_ok t \<Longrightarrow> holder_ok t1"
    and h2: "has_custody d1 (u_id s) \<Longrightarrow> holder_ok s \<Longrightarrow> holder_ok s2"
  shows "users_commit d d2"
proof -
  have w1: "warehouse_inv d1" by (rule changed_warehouse_inv [OF inv dist c1 h1])
  have dist1: "distinct (map u_id (users d1))" using dist c1 by (simp add: user_changed_def)
  have first: "users_commit d d1" by (rule changed_commit [OF inv dist c1 h1])
  have second: "users_commit d1 d2" by (rule changed_commit [OF w1 dist1 c2 h2])
  obtain as rs bs ss where ev: "user_access_events d1 = user_access_events d @ as"
    "user_role_events d1 = user_role_events d @ rs" "user_access_events d2 = user_access_events d1 @ bs"
    "user_role_events d2 = user_role_events d1 @ ss"
    using c1 c2 unfolding user_changed_def by blast
  have cust: "has_custody d2 = has_custody d1"
    using c2 by (simp add: fun_eq_iff user_changed_def has_custody_def same_but_identity_iff)
  note rows = rows_of_two_changes [OF dist c1 c2 ne]
  note commits = first [unfolded users_commit_def] second [unfolded users_commit_def]
  have "enforce_user_access_audit_coupling d d2"
    unfolding enforce_user_access_audit_coupling_def
    by (rule rows [OF commits(1) [THEN conjunct1, unfolded enforce_user_access_audit_coupling_def]
          commits(2) [THEN conjunct1, unfolded enforce_user_access_audit_coupling_def]])
      (use ev in auto)
  moreover have "enforce_user_role_audit_coupling d d2"
    unfolding enforce_user_role_audit_coupling_def
    by (rule rows [OF commits(1) [THEN conjunct2, THEN conjunct1, unfolded enforce_user_role_audit_coupling_def]
          commits(2) [THEN conjunct2, THEN conjunct1, unfolded enforce_user_role_audit_coupling_def]])
      (use ev in auto)
  moreover have "enforce_user_custody_eligibility d d2"
    unfolding enforce_user_custody_eligibility_def cust
    by (rule rows [OF commits(1) [THEN conjunct2, THEN conjunct2, unfolded enforce_user_custody_eligibility_def]
          commits(2) [THEN conjunct2, THEN conjunct2, unfolded enforce_user_custody_eligibility_def cust]])
  ultimately show ?thesis by (simp add: users_commit_def)
qed

text \<open>
  The rotation keeps the identity invariant and passes the deferred triggers: the old owner
  becomes an administrator, the new owner is approved and holds no equipment.
\<close>

lemma rotation_keeps:
  assumes inv: "accounts_inv b d"
    and call: "rotate_recovery_owner_transaction d configured target_telegram confirmed now = Inr (d', r)"
  shows "accounts_inv b d'" and "users_commit d d'"
proof -
  have dist: "distinct (map u_id (users d))" and w: "warehouse_inv d"
    using inv by (simp_all add: accounts_inv_def users_inv_def)
  obtain d1 t s s' where ne: "u_id s \<noteq> u_id t" and t: "u_role t = OWNER"
    and c1: "user_changed d d1 t (t\<lparr>u_role := ADMIN\<rparr>)" and c2: "user_changed d1 d' s s'"
    and s': "u_role s' = OWNER" "u_access_status s' = APPROVED" "u_approved_at s' \<noteq> None"
    and free: "\<not> has_custody d (u_id s)"
    and sole: "\<forall>x\<in>set (users d). u_role x = OWNER \<longrightarrow> u_id x = u_id t"
    using rotation_effect(1) [OF call dist] by blast
  have h1: "holder_ok t \<Longrightarrow> holder_ok (t\<lparr>u_role := ADMIN\<rparr>)" using t by (simp add: holder_ok_def)
  have free1: "\<not> has_custody d1 (u_id s)"
    using free c1 by (simp add: user_changed_def has_custody_def same_but_identity_iff)
  show "users_commit d d'" using changes_commit [OF w dist c1 c2 ne h1] free1 by blast
  have dist1: "distinct (map u_id (users d1))" using dist c1 by (simp add: user_changed_def)
  have parts: "users_inv d" "b \<longrightarrow> responsibilities_ok d" using inv by (simp_all add: accounts_inv_def)
  have "users_inv d1" by (rule changed_users_inv [OF parts(1) c1]) (simp_all add: stamp_ok_def)
  moreover have "warehouse_inv d1" by (rule changed_warehouse_inv [OF w dist c1 h1])
  moreover have "b \<longrightarrow> responsibilities_ok d1"
    using parts(2) changed_responsibilities [OF _ dist c1] procurement_create_iff
    by (simp add: create_ok_def del: has_capability_iff)
  ultimately have inv1: "users_inv d1" "warehouse_inv d1" "b \<longrightarrow> responsibilities_ok d1" by blast+
  have none: "u_role x \<noteq> OWNER" if "x \<in> set (users d1)" for x
    using changed_members [OF dist c1 that] sole by auto
  have "users_inv d'"
    by (rule changed_users_inv [OF inv1(1) c2]) (use s' none in \<open>simp_all add: stamp_ok_def\<close>)
  moreover have "warehouse_inv d'" using changed_warehouse_inv [OF inv1(2) dist1 c2] free1 by blast
  moreover have "b \<longrightarrow> responsibilities_ok d'"
    using inv1(3) changed_responsibilities [OF _ dist1 c2] procurement_create_iff s'
    by (simp add: create_ok_def del: has_capability_iff)
  ultimately show "accounts_inv b d'" by (simp add: accounts_inv_def)
qed

end
