(* ===== verification/Identity_Steps.thy ===== *)
theory Identity_Steps
  imports Owner_Rotation
begin

text \<open>
  Identity as a transition system. A step is a transaction of the identity handlers that
  commits, that is, one whose deferred triggers accept the changed rows
  (\<open>users_commit\<close>). The theorems state the invariant of all reachable states, the limits
  on what an administrator may change, and what a reset or a block does to the sessions.
\<close>

inductive admin_step :: "(string \<Rightarrow> string) \<Rightarrow> uuid \<Rightarrow> uuid \<Rightarrow> db \<Rightarrow> db \<Rightarrow> bool"
  for sha256 actor target where
  admin_access:
    "update_user_access d actor target status recovery now = Inr (d', u, e) \<Longrightarrow>
       admin_step sha256 actor target d d'"
| admin_decide:
    "decide_pending_access_request d actor target decision recovery now = Inr (d', u, r, e') \<Longrightarrow>
       admin_step sha256 actor target d d'"
| admin_role:
    "update_user_role d actor target role recovery now = Inr (d', u, e'') \<Longrightarrow>
       admin_step sha256 actor target d d'"
| admin_reset:
    "reset_user_account sha256 d actor target expected recovery now = Inr d' \<Longrightarrow>
       admin_step sha256 actor target d d'"

inductive identity_step :: "(string \<Rightarrow> string) \<Rightarrow> db \<Rightarrow> db \<Rightarrow> bool" for sha256 where
  step_admin:
    "admin_step sha256 actor target d d' \<Longrightarrow> identity_step sha256 d d'"
| step_request:
    "create_or_get_access_request d request_id user_id now = Inr (d', x) \<Longrightarrow>
       users_commit d d' \<Longrightarrow> identity_step sha256 d d'"
| step_sign_in:
    "upsert_telegram_identity d new_user_id v recovery now = Inr (d1, uid) \<Longrightarrow>
       issue_auth_session sha256 d1 session_id uid token ttl now = Inr (d', s) \<Longrightarrow>
       users_commit d d' \<Longrightarrow> identity_step sha256 d d'"
| step_recover:
    "reconcile_recovery_owner d u identity recovery now = Inr (d', c) \<Longrightarrow>
       users_commit d d' \<Longrightarrow> identity_step sha256 d d'"
| step_logout:
    "identity_step sha256 d (revoke_auth_session d s now)"
| step_rotate:
    "run_rotation d a now = Inr (d', r) \<Longrightarrow> identity_step sha256 d d'"

lemma admin_step_run:
  assumes "admin_step sha256 actor target d d'"
  shows "(\<exists>x. run_update_access x d actor target = Inr d') \<or> (\<exists>x. run_decide x d actor target = Inr d') \<or>
     (\<exists>x. run_update_role x d actor target = Inr d') \<or> (\<exists>x. run_reset x d actor target = Inr d')"
  using assms
proof cases
  case (admin_access status recovery now u e)
  then have "run_update_access (status, recovery, now) d actor target = Inr d'"
    by (simp add: run_update_access_def drop_result_def)
  then show ?thesis by blast
next
  case (admin_decide decision recovery now u r e')
  then have "run_decide (decision, recovery, now) d actor target = Inr d'"
    by (simp add: run_decide_def drop_result_def)
  then show ?thesis by blast
next
  case (admin_role role recovery now u e'')
  then have "run_update_role (role, recovery, now) d actor target = Inr d'"
    by (simp add: run_update_role_def drop_result_def)
  then show ?thesis by blast
next
  case (admin_reset expected recovery now)
  then have "run_reset (sha256, expected, recovery, now) d actor target = Inr d'"
    by (simp add: run_reset_def)
  then show ?thesis by blast
qed

lemma admin_step_keeps:
  assumes step: "admin_step sha256 actor target d d'" and inv: "accounts_inv b d"
  shows "accounts_inv b d'" and "users_commit d d'"
proof -
  show "accounts_inv b d'"
    using admin_step_run [OF step]
    by (elim disjE exE)
      (erule access_handler.keeps_inv [OF inv] decide_handler.keeps_inv [OF inv]
        role_handler.keeps_inv [OF inv] reset_handler.keeps_inv [OF inv])+
  show "users_commit d d'"
    using admin_step_run [OF step]
    by (elim disjE exE)
      (erule access_handler.commits [OF inv] decide_handler.commits [OF inv]
        role_handler.commits [OF inv] reset_handler.commits [OF inv])+
qed

text \<open>
  C12. Every administrative change of a user (block and unblock, decision on an access
  request, role change, account reset) keeps the identity invariant (unique users, at most
  one owner and it is approved, approval stamps, custody only with approved engineers,
  initiators of open procurement agreements still able to create them) and passes the
  deferred triggers that demand an audit event in the same transaction.
\<close>

theorem admin_changes_are_safe:
  assumes "identity_inv d" and "admin_step sha256 actor target d d'"
  shows "identity_inv d' \<and> users_commit d d'"
  using admin_step_keeps [OF assms(2,1)] by simp

text \<open>
  C13. No escalation: whatever administrative operation succeeds, it changes at most the
  row of its target, never the actor's own row and never an owner's, it never produces an
  owner, its actor is an approved administrator or owner, and a row that is or becomes an
  administrator's is changed by an owner only.
\<close>

theorem admin_no_escalation:
  assumes "identity_inv d" and "admin_step sha256 actor target d d'"
    and "get_user d' i = Some u" and "get_user d i \<noteq> Some u"
  shows "i = target \<and> i \<noteq> actor \<and> u_role u \<noteq> OWNER \<and>
     (\<exists>a old. get_user d actor = Some a \<and> u_access_status a = APPROVED \<and>
        u_role a \<in> {ADMIN, OWNER} \<and> get_user d i = Some old \<and> u_role old \<noteq> OWNER \<and>
        (u_role old = ADMIN \<or> u_role u = ADMIN \<longrightarrow> u_role a = OWNER))"
  using admin_step_run [OF assms(2)]
proof (elim disjE exE)
  fix x assume "run_update_access x d actor target = Inr d'"
  from access_handler.no_escalation [OF assms(1) this assms(3,4)] show ?thesis .
next
  fix x assume "run_decide x d actor target = Inr d'"
  from decide_handler.no_escalation [OF assms(1) this assms(3,4)] show ?thesis .
next
  fix x assume "run_update_role x d actor target = Inr d'"
  from role_handler.no_escalation [OF assms(1) this assms(3,4)] show ?thesis .
next
  fix x assume "run_reset x d actor target = Inr d'"
  from reset_handler.no_escalation [OF assms(1) this assms(3,4)] show ?thesis .
qed

section \<open>The other identity handlers\<close>

lemma request_effect:
  assumes "create_or_get_access_request d request_id user_id now = Inr (d', x)"
  shows "\<exists>t t'. user_changed d d' t t' \<and> u_role t' = u_role t \<and> u_access_status t' = PENDING \<and>
     (stamp_ok t \<longrightarrow> stamp_ok t') \<and> u_access_status t \<in> {PENDING, REJECTED}"
    and "telegram_identities d' = telegram_identities d" "auth_sessions d' = auth_sessions d"
proof -
  obtain t where t: "get_user d user_id = Some t"
    and st: "u_access_status t = PENDING \<or> u_access_status t = REJECTED"
    using assms by (cases "get_user d user_id"; cases "u_access_status (the (get_user d user_id))")
      (auto simp: create_or_get_access_request_def split: if_splits)
  have id: "get_user d (u_id t) = Some t" using t get_user_id by metis
  obtain d1 t1 e where s1: "(if u_access_status t = REJECTED
      then transition_user_access d t (u_id t) PENDING now else (d, t, None)) = (d1, t1, e)"
    by (metis prod_cases3)
  have 1: "user_changed d d1 t t1 \<and> u_role t1 = u_role t \<and> u_access_status t1 = PENDING \<and>
      (stamp_ok t \<longrightarrow> stamp_ok t1) \<and> telegram_identities d1 = telegram_identities d \<and>
      auth_sessions d1 = auth_sessions d"
  proof (cases "u_access_status t = REJECTED")
    case True
    with s1 have "transition_user_access d t (u_id t) PENDING now = (d1, t1, e)" by simp
    note tc = transition_changed [OF id this]
    show ?thesis using tc(1-4,6-8) True by (auto simp: stamp_ok_def)
  next
    case False
    with s1 st user_changed_refl [OF id] show ?thesis by auto
  qed
  have d': "d' = d1 \<or> (\<exists>r. d' = d1\<lparr>access_requests := access_requests d1 @ [r]\<rparr>)"
    using assms t st s1
    by (auto simp: create_or_get_access_request_def Let_def split: option.splits if_splits)
  have "user_changed d d' t t1"
    using d' 1 user_changed_after [of d d1 t t1 d'] by (auto simp: same_but_identity_iff)
  with 1 st show "\<exists>t t'. user_changed d d' t t' \<and> u_role t' = u_role t \<and> u_access_status t' = PENDING \<and>
     (stamp_ok t \<longrightarrow> stamp_ok t') \<and> u_access_status t \<in> {PENDING, REJECTED}" by blast
  show "telegram_identities d' = telegram_identities d" "auth_sessions d' = auth_sessions d"
    using d' 1 by auto
qed

lemma request_keeps:
  assumes inv: "accounts_inv b d" and call: "create_or_get_access_request d request_id user_id now = Inr (d', x)"
  shows "accounts_inv b d'"
proof -
  obtain t t' where ch: "user_changed d d' t t'" and t': "u_role t' = u_role t"
    "u_access_status t' = PENDING" "stamp_ok t \<longrightarrow> stamp_ok t'" "u_access_status t \<in> {PENDING, REJECTED}"
    using request_effect(1) [OF call] by blast
  have dist: "distinct (map u_id (users d))" using inv by (simp add: accounts_inv_def users_inv_def)
  have "t \<in> set (users d)" using ch by (auto simp: user_changed_def dest: get_user_member)
  then have "u_role t \<noteq> OWNER" using inv t'(4) unfolding accounts_inv_def users_inv_def by auto
  then show ?thesis
    using inv t' changed_users_inv [OF _ ch] changed_warehouse_inv [OF _ dist ch]
      changed_responsibilities [OF _ dist ch]
    by (auto simp: accounts_inv_def holder_ok_def create_ok_def)
qed

lemma reconcile_identities:
  assumes "reconcile_recovery_owner d u identity recovery now = Inr (d', c)"
  shows "telegram_identities d' = telegram_identities d" "auth_sessions d' = auth_sessions d"
  using assms
  by (auto simp: reconcile_recovery_owner_def change_role_def transition_user_access_def Let_def
      save_user_def approve_pending_request_def save_access_request_def
      split: if_splits option.splits list.splits)

lemma user_ids_mono:
  assumes "user_changed d d' t t'"
  shows "u_id ` set (users d') = u_id ` set (users d)"
proof -
  have "map u_id (users d') = map u_id (users d)" using assms by (simp add: user_changed_def)
  then show ?thesis by (metis set_map)
qed

lemma upsert_new:
  assumes inv: "accounts_inv b d" and fresh: "new_user_id \<notin> u_id ` set (users d)"
    and u: "u_id u = new_user_id" "stamp_ok u" "u_role u = OWNER \<longrightarrow> u_access_status u = APPROVED"
      "u_role u = OWNER \<longrightarrow> (\<forall>x\<in>set (users d). u_role x \<noteq> OWNER)"
  shows "accounts_inv b (d\<lparr>users := users d @ [u], telegram_identities := ts\<rparr>)" (is "accounts_inv b ?d")
proof -
  have old: "distinct (map u_id (users d))"
    "\<And>x. x \<in> set (users d) \<Longrightarrow> stamp_ok x \<and> (u_role x = OWNER \<longrightarrow> u_access_status x = APPROVED)"
    "\<And>x y. x \<in> set (users d) \<Longrightarrow> y \<in> set (users d) \<Longrightarrow> u_role x = OWNER \<Longrightarrow> u_role y = OWNER \<Longrightarrow>
       u_id x = u_id y"
    using inv unfolding accounts_inv_def users_inv_def by blast+
  have "users_inv ?d"
    unfolding users_inv_def
  proof (intro conjI ballI impI)
    show "distinct (map u_id (users ?d))" using old(1) fresh u(1) by simp
    show "stamp_ok x" if "x \<in> set (users ?d)" for x using that old(2) u(2) by auto
    show "u_access_status x = APPROVED" if "x \<in> set (users ?d)" "u_role x = OWNER" for x
      using that old(2) u(3) by auto
    fix x y assume "x \<in> set (users ?d)" "y \<in> set (users ?d)" "u_role x = OWNER \<and> u_role y = OWNER"
    then have "x \<in> set (users d) \<or> x = u" "y \<in> set (users d) \<or> y = u" "u_role x = OWNER" "u_role y = OWNER"
      by auto
    then show "u_id x = u_id y" using old(3) u(4) by metis
  qed
  moreover have "warehouse_inv ?d"
    by (rule warehouse_inv_cong [of d])
      (use inv in \<open>auto simp: accounts_inv_def warehouse_inv_def custody_holders_eligible_def
        custody_holder_eligible_def\<close>)
  moreover have "b \<longrightarrow> responsibilities_ok ?d"
    using inv by (auto simp: accounts_inv_def responsibilities_ok_def)
  ultimately show ?thesis by (simp add: accounts_inv_def)
qed

lemma identity_inv_cong:
  assumes "accounts_inv b d" and "same_but_identity d d'" and "users d' = users d"
  shows "accounts_inv b d'"
proof -
  have w: "warehouse_inv d" using assms(1) by (simp add: accounts_inv_def)
  have "custody_holders_eligible d'"
    using warehouse_invD(3) [OF w] assms(2,3)
    by (simp add: custody_holders_eligible_def custody_holder_eligible_def same_but_identity_iff)
  then have "warehouse_inv d'"
    using warehouse_inv_cong [OF w] assms(2) by (simp add: same_but_identity_iff)
  moreover have "users_inv d' = users_inv d" unfolding users_inv_def assms(3) by (rule refl)
  moreover have "responsibilities_ok d' = responsibilities_ok d"
    using assms(2,3) unfolding responsibilities_ok_def by (simp add: same_but_identity_iff)
  ultimately show ?thesis using assms(1) by (simp add: accounts_inv_def)
qed

text \<open>Sign-in either adds one user with a new identity or refreshes the stored identity.\<close>

lemma upsert_cases:
  assumes "upsert_telegram_identity d new_user_id v recovery now = Inr (d', uid)"
  obtains
    (added) u t where "identity_by_telegram d (tg_id v) = None" "new_user_id \<notin> u_id ` set (users d)"
      "uid = new_user_id" "u_id u = new_user_id" "stamp_ok u" "u_role u \<in> {OWNER, ENGINEER}"
      "u_role u = OWNER \<longrightarrow> u_access_status u = APPROVED"
      "u_role u = OWNER \<longrightarrow> (\<forall>x\<in>set (users d). u_role x \<noteq> OWNER)"
      "ti_user_id t = new_user_id" "ti_telegram_user_id t = tg_id v"
      "d' = d\<lparr>users := users d @ [u], telegram_identities := telegram_identities d @ [t]\<rparr>"
  | (refreshed) i t d1 where "identity_by_telegram d (tg_id v) = Some i" "uid = ti_user_id i"
      "ti_user_id t = ti_user_id i" "ti_telegram_user_id t = tg_id v"
      "d1 = d\<lparr>telegram_identities :=
         table_update ti_telegram_user_id (tg_id v) (\<lambda>_. t) (telegram_identities d)\<rparr>"
      "d' = d1 \<or> (\<exists>u c. get_user d1 (ti_user_id i) = Some u \<and>
         reconcile_recovery_owner d1 u t recovery now = Inr (d', c))"
proof (cases "identity_by_telegram d (tg_id v)")
  case None
  let ?u = "\<lparr> u_id = new_user_id, u_role = (if recovery = Some (tg_id v) then OWNER else ENGINEER),
     u_access_status = (if recovery = Some (tg_id v) then APPROVED else PENDING),
     u_approved_at = (if recovery = Some (tg_id v) then Some now else None),
     u_approved_by_user_id = None \<rparr>"
  from None assms show thesis
    by (intro added [of ?u "\<lparr> ti_user_id = new_user_id, ti_telegram_user_id = tg_id v,
        ti_username = tg_username v, ti_first_name = tg_first_name v, ti_last_name = tg_last_name v,
        ti_language_code = tg_language_code v, ti_last_auth_at = Some now \<rparr>"])
      (auto simp: upsert_telegram_identity_def Let_def stamp_ok_def split: if_splits)
next
  case (Some i)
  let ?t = "i\<lparr>ti_username := tg_username v, ti_first_name := tg_first_name v,
     ti_last_name := tg_last_name v, ti_language_code := tg_language_code v,
     ti_last_auth_at := Some now\<rparr>"
  have "ti_telegram_user_id i = tg_id v"
    using Some by (auto simp: identity_by_telegram_def dest: table_get_SomeD)
  then show thesis
    using Some assms
    by (intro refreshed [of i ?t])
      (auto simp: upsert_telegram_identity_def Let_def ebind_Inr_iff split: if_splits option.splits)
qed

definition retired :: "db \<Rightarrow> uuid \<Rightarrow> bool" where
  "retired d i \<longleftrightarrow> i \<in> u_id ` set (users d) \<and> i \<notin> ti_user_id ` set (telegram_identities d)"

lemma table_update_user_ids:
  assumes "identity_by_telegram d k = Some i" and "ti_user_id t = ti_user_id i"
  shows "ti_user_id ` set (table_update ti_telegram_user_id k (\<lambda>_. t) (telegram_identities d))
     \<subseteq> ti_user_id ` set (telegram_identities d)"
  using assms by (auto simp: set_table_update identity_by_telegram_def image_iff
      dest!: table_get_SomeD)

lemma upsert_keeps:
  assumes inv: "accounts_inv b d"
    and call: "upsert_telegram_identity d new_user_id v recovery now = Inr (d', uid)"
    and commit: "users_commit d d'"
  shows "accounts_inv b d' \<and> (retired d i \<longrightarrow> retired d' i)"
  using call
proof (cases rule: upsert_cases)
  case (added u t)
  have "accounts_inv b d'" using upsert_new [OF inv added(2,4,5,7,8)] added(11) by simp
  moreover have "retired d' i" if "retired d i"
  proof -
    have "i \<noteq> new_user_id" using that added(2) by (auto simp: retired_def)
    then show ?thesis using that added(9,11) by (simp add: retired_def)
  qed
  ultimately show ?thesis by blast
next
  case (refreshed i' t d1)
  have d1: "same_but_identity d d1" "users d1 = users d" "user_access_events d1 = user_access_events d"
    "user_role_events d1 = user_role_events d"
    by (simp_all add: refreshed(5) same_but_identity_iff)
  have inv1: "accounts_inv b d1" by (rule identity_inv_cong [OF inv d1(1,2)])
  have commit1: "users_commit d1 d'"
    using commit
    unfolding users_commit_def enforce_user_access_audit_coupling_def
      enforce_user_role_audit_coupling_def enforce_user_custody_eligibility_def
      d1(3,4) get_user_cong [OF d1(2)] .
  have "accounts_inv b d'" using refreshed(6) inv1 reconcile_keeps [OF inv1 _ commit1] by blast
  moreover have "u_id ` set (users d') = u_id ` set (users d)" "telegram_identities d' = telegram_identities d1"
    using refreshed(6) reconcile_effect reconcile_identities(1) user_ids_mono d1(2) by metis+
  ultimately show ?thesis
    using table_update_user_ids [OF refreshed(1,3)] by (auto simp: retired_def refreshed(5))
qed

section \<open>Sessions\<close>

lemma issue_Inr:
  assumes "issue_auth_session sha256 d session_id user_id token ttl now = Inr (d', s)"
  shows "s = \<lparr> as_id = session_id, as_user_id = user_id, as_token_hash = sha256 token,
      as_created_at = now, as_expires_at = now + ttl, as_revoked_at = None \<rparr>"
    and "0 < ttl" and "get_user d user_id \<noteq> None"
    and "\<forall>x\<in>set (auth_sessions d). as_id x \<noteq> session_id \<and> as_token_hash x \<noteq> sha256 token"
    and "d' = d\<lparr>auth_sessions := map (\<lambda>x. if as_id x \<in> set (map as_id (take
        (Suc (length (active_sessions d user_id now)) - MAX_ACTIVE_SESSIONS_PER_USER)
        (oldest_first (active_sessions d user_id now)))) then x\<lparr>as_revoked_at := Some now\<rparr> else x)
        (auth_sessions d) @ [s]\<rparr>"
  using assms by (auto simp: issue_auth_session_def Let_def split: if_splits)

lemma filter_take_keys:
  assumes "distinct (map f xs)"
  shows "filter (\<lambda>x. f x \<in> set (map f (take k xs))) xs = take k xs"
proof -
  have split: "xs = take k xs @ drop k xs" by simp
  have "f x \<notin> set (map f (take k xs))" if "x \<in> set (drop k xs)" for x
    using assms that by (metis (no_types, lifting) append_take_drop_id distinct_append disjoint_iff
        image_eqI list.set_map map_append)
  then have "filter (\<lambda>x. f x \<in> set (map f (take k xs))) (drop k xs) = []"
    by (auto simp: filter_empty_conv)
  moreover have "filter (\<lambda>x. f x \<in> set (map f (take k xs))) (take k xs) = take k xs"
    by (simp add: filter_id_conv)
  ultimately show ?thesis by (metis filter_append split append_Nil2)
qed

lemma length_filter_mset: "mset xs = mset ys \<Longrightarrow> length (filter P xs) = length (filter P ys)"
  by (metis mset_filter size_mset)

lemma mset_oldest_first: "mset (oldest_first ss) = mset ss"
  by (simp add: oldest_first_def)

lemma kept_sessions:
  assumes "distinct (map as_id ss)"
  shows "length (filter (\<lambda>x. as_id x \<notin> set (map as_id (take k (oldest_first ss)))) ss) = length ss - k"
proof -
  let ?ys = "oldest_first ss" and ?P = "\<lambda>x. as_id x \<in> set (map as_id (take k (oldest_first ss)))"
  have "mset (map as_id ?ys) = mset (map as_id ss)" by (simp add: mset_oldest_first)
  then have "distinct (map as_id ?ys)" using assms mset_eq_imp_distinct_iff by blast
  then have "length (filter ?P ?ys) = min k (length ?ys)"
    using filter_take_keys [of as_id ?ys k] by simp
  then have "length (filter ?P ss) = min k (length ss)"
    using length_filter_mset [OF mset_oldest_first, of ?P ss] by (metis mset_oldest_first size_mset)
  moreover have "length (filter ?P ss) + length (filter (\<lambda>x. \<not> ?P x) ss) = length ss"
    by (rule sum_length_filter_compl)
  ultimately show ?thesis by simp
qed

definition sessions_ok :: "db \<Rightarrow> bool" where
  "sessions_ok d \<longleftrightarrow> distinct (map as_id (auth_sessions d))"

lemma map_revoke_active:
  "filter (\<lambda>s. as_user_id s = i \<and> session_live now s)
     (map (\<lambda>x. if as_id x \<in> A then x\<lparr>as_revoked_at := Some now\<rparr> else x) ss) =
   filter (\<lambda>x. as_id x \<notin> A) (filter (\<lambda>s. as_user_id s = i \<and> session_live now s) ss)"
  by (induction ss) (auto simp: session_live_def)

text \<open>
  C14. Sign-in keeps at most five live sessions per user: whatever sessions a user had, after
  \<open>issue_auth_session\<close> the user has at most \<open>MAX_ACTIVE_SESSIONS_PER_USER\<close> live ones, the
  new one among them, and the new token authenticates as this user until it expires.
\<close>

theorem session_cap:
  assumes "sessions_ok d"
    and "issue_auth_session sha256 d session_id user_id token ttl now = Inr (d', s)"
  shows "length (active_sessions d' user_id now) \<le> MAX_ACTIVE_SESSIONS_PER_USER \<and>
     s \<in> set (active_sessions d' user_id now) \<and>
     (\<forall>i later. get_identity d user_id = Some i \<and> later < now + ttl \<longrightarrow>
        map_option (u_id \<circ> ctx_user) (load_auth_context sha256 d' token later) = Some user_id)"
proof -
  note i = issue_Inr [OF assms(2)]
  let ?act = "active_sessions d user_id now"
  let ?k = "Suc (length ?act) - MAX_ACTIVE_SESSIONS_PER_USER"
  let ?A = "set (map as_id (take ?k (oldest_first ?act)))"
  let ?ss = "map (\<lambda>x. if as_id x \<in> ?A then x\<lparr>as_revoked_at := Some now\<rparr> else x) (auth_sessions d)"
  have live: "session_live now s" "as_user_id s = user_id" using i(1,2) by (simp_all add: session_live_def)
  have act': "active_sessions d' user_id now =
      filter (\<lambda>x. as_id x \<notin> ?A) ?act @ [s]"
    unfolding active_sessions_def i(5) using live
    by (simp add: map_revoke_active active_sessions_def)
  have "distinct (map as_id ?act)"
    using assms(1) by (simp add: sessions_ok_def active_sessions_def distinct_map_filter)
  then have "length (filter (\<lambda>x. as_id x \<notin> ?A) ?act) = length ?act - ?k" by (rule kept_sessions)
  then have "length (active_sessions d' user_id now) \<le> MAX_ACTIVE_SESSIONS_PER_USER"
    by (simp add: act' MAX_ACTIVE_SESSIONS_PER_USER_def)
  moreover have "map_option (u_id \<circ> ctx_user) (load_auth_context sha256 d' token later) = Some user_id"
    if "get_identity d user_id = Some t" "later < now + ttl" for t later
  proof -
    have "find (\<lambda>x. as_token_hash x = sha256 token \<and> session_live later x) ?ss = None"
      using i(4) by (auto simp: find_None_iff)
    then have "find (\<lambda>x. as_token_hash x = sha256 token \<and> session_live later x) (auth_sessions d') = Some s"
      unfolding i(5) using i(1) that(2) by (simp add: find_append session_live_def)
    moreover obtain u where "get_user d user_id = Some u" using i(3) by auto
    moreover have "get_user d' = get_user d" "get_identity d' = get_identity d"
      by (simp_all add: i(5) get_user_def get_identity_def fun_eq_iff)
    ultimately show ?thesis
      using that(1) live(2) get_user_id by (auto simp: load_auth_context_def)
  qed
  ultimately show ?thesis using act' by auto
qed

section \<open>All steps\<close>

lemma admin_step_identities:
  assumes "admin_step sha256 actor target d d'"
  shows "set (telegram_identities d') \<subseteq> set (telegram_identities d)"
  using assms
proof cases
  case (admin_access status recovery now u e)
  then show ?thesis
    by (auto simp: update_user_access_def transition_user_access_def revoke_sessions_def
        save_user_def ebind_Inr_iff Let_def split: if_splits)
next
  case (admin_decide decision recovery now u r e')
  then show ?thesis
    by (auto simp: decide_pending_access_request_def transition_user_access_def save_user_def
        save_access_request_def ebind_Inr_iff Let_def split: if_splits option.splits)
next
  case (admin_role role recovery now u e'')
  then show ?thesis
    by (auto simp: update_user_role_def change_role_def save_user_def ebind_Inr_iff Let_def
        split: if_splits)
next
  case (admin_reset expected recovery now)
  then show ?thesis by (rule reset_effect(5))
qed

lemma admin_step_change:
  assumes "admin_step sha256 actor target d d'"
  shows "d' = d \<or> (\<exists>t t'. u_id t = target \<and> admin_change d d' actor t t')"
  using admin_step_run [OF assms]
  by (elim disjE exE)
    (erule access_handler.contract decide_handler.contract role_handler.contract
      reset_handler.contract)+

lemma admin_step_user_ids:
  assumes "admin_step sha256 actor target d d'"
  shows "u_id ` set (users d') = u_id ` set (users d)"
proof -
  from admin_step_change [OF assms] show ?thesis
  proof (elim disjE exE conjE)
    fix t t' assume "admin_change d d' actor t t'"
    then have "user_changed d d' t t'" by (simp add: admin_change_def)
    then show ?thesis by (rule user_ids_mono)
  qed simp
qed

lemma users_commit_cong:
  assumes "users_commit d d'" and "users d1 = users d'"
    and "user_access_events d1 = user_access_events d'" "user_role_events d1 = user_role_events d'"
    and "user_item_custody_balances d1 = user_item_custody_balances d'"
  shows "users_commit d d1"
  using assms(1)
  unfolding users_commit_def enforce_user_access_audit_coupling_def
    enforce_user_role_audit_coupling_def enforce_user_custody_eligibility_def has_custody_def
    assms(2-5) .

lemma identity_step_keeps:
  assumes "identity_step sha256 d d'" and inv: "accounts_inv b d"
  shows "accounts_inv b d' \<and> (retired d i \<longrightarrow> retired d' i)"
  using assms(1)
proof cases
  case (step_admin actor target)
  have "retired d i \<longrightarrow> retired d' i"
    using admin_step_identities [OF step_admin] admin_step_user_ids [OF step_admin]
    by (auto simp: retired_def)
  with admin_step_keeps(1) [OF step_admin inv] show ?thesis by blast
next
  case (step_request request_id user_id now x)
  obtain t t' where "user_changed d d' t t'" using request_effect(1) [OF step_request(1)] by blast
  then have "retired d i \<longrightarrow> retired d' i"
    using request_effect(2) [OF step_request(1)] user_ids_mono by (simp add: retired_def)
  with request_keeps [OF inv step_request(1)] show ?thesis by blast
next
  case (step_sign_in new_user_id v recovery now d1 uid session_id token ttl s)
  note d' = issue_Inr(5) [OF step_sign_in(2)]
  have "users_commit d d1"
    by (rule users_commit_cong [OF step_sign_in(3)]) (simp_all add: d')
  with upsert_keeps [OF inv step_sign_in(1)] have "accounts_inv b d1" "retired d i \<longrightarrow> retired d1 i"
    by blast+
  moreover from this(1) have "accounts_inv b d'"
    by (rule identity_inv_cong) (simp_all add: d' same_but_identity_iff)
  moreover have "retired d1 i = retired d' i" by (simp add: retired_def d')
  ultimately show ?thesis by blast
next
  case (step_recover u identity recovery now c)
  have "u_id ` set (users d') = u_id ` set (users d)"
    using reconcile_effect [OF step_recover(1)] user_ids_mono by metis
  then have "retired d i \<longrightarrow> retired d' i"
    using reconcile_identities(1) [OF step_recover(1)] by (simp add: retired_def)
  with reconcile_keeps [OF inv step_recover] show ?thesis by blast
next
  case (step_logout s now)
  have "accounts_inv b d'"
    by (rule identity_inv_cong [OF inv]) (simp_all add: step_logout revoke_auth_session_def same_but_identity_iff)
  then show ?thesis by (simp add: step_logout retired_def revoke_auth_session_def)
next
  case (step_rotate a now r)
  have dist: "distinct (map u_id (users d))" using inv by (simp add: accounts_inv_def users_inv_def)
  obtain c t k where call: "rotate_recovery_owner_transaction d c t k now = Inr (d', r)"
    using run_rotation_Inr [OF step_rotate] by blast
  note eff = rotation_effect [OF call dist]
  have "retired d i \<longrightarrow> retired d' i" using eff(1,2) user_ids_mono by (metis retired_def)
  with rotation_keeps(1) [OF inv call] show ?thesis by blast
qed

text \<open>
  In every state that committed transactions of the identity handlers can reach, the
  rotation of the recovery owner among them, there is at most one owner, an owner is approved,
  every user with equipment in custody is an approved engineer, and every initiator of an open
  procurement agreement can still create procurement requests.
\<close>

lemma reachable_identity:
  assumes "identity_inv d" and "(identity_step sha256)\<^sup>*\<^sup>* d d'"
  shows "identity_inv d'"
  using assms(2)
  by (induction rule: rtranclp_induct) (use assms(1) identity_step_keeps in blast)+

lemma load_retired:
  assumes "retired d i"
  shows "load_auth_context sha256 d token now = Some ctx \<Longrightarrow> u_id (ctx_user ctx) \<noteq> i"
proof -
  assume load: "load_auth_context sha256 d token now = Some ctx"
  then obtain s where "find (\<lambda>s. as_token_hash s = sha256 token \<and> session_live now s)
      (auth_sessions d) = Some s"
    by (auto simp: load_auth_context_def split: option.splits)
  with load obtain x where u: "get_user d (as_user_id s) = Some (ctx_user ctx)"
    and x: "get_identity d (as_user_id s) = Some x"
    by (auto simp: load_auth_context_def bind_eq_Some_conv)
  have "u_id (ctx_user ctx) = as_user_id s" using u by (rule get_user_id)
  moreover have "as_user_id s \<in> ti_user_id ` set (telegram_identities d)"
    using x table_get_None_iff [of ti_user_id] by (metis get_identity_def option.distinct(1))
  ultimately show ?thesis using assms by (auto simp: retired_def)
qed

text \<open>
  C16. A reset is final: at the moment of \<open>reset_user_account\<close> the user is blocked, loses every
  role above engineer, has no live session and no pending access request; and from then on no
  session token authenticates as the reset user, in any later state of the identity handlers.
\<close>

theorem reset_is_final:
  assumes inv: "identity_inv d"
    and reset: "reset_user_account sha256 d actor target expected recovery now = Inr d'"
    and later: "(identity_step sha256)\<^sup>*\<^sup>* d' d''"
  shows "(\<exists>u. get_user d' target = Some u \<and> u_access_status u = BLOCKED \<and> u_role u = ENGINEER) \<and>
     (\<forall>s\<in>set (auth_sessions d'). as_user_id s = target \<longrightarrow> as_revoked_at s \<noteq> None) \<and>
     (\<forall>r\<in>set (access_requests d'). ar_user_id r = target \<longrightarrow> ar_status r \<noteq> AR_PENDING) \<and>
     (\<forall>token time ctx. load_auth_context sha256 d'' token time = Some ctx \<longrightarrow> u_id (ctx_user ctx) \<noteq> target)"
proof -
  note eff = reset_effect [OF reset]
  obtain t t' where t: "u_id t = target" "admin_change d d' actor t t'" "u_access_status t' = BLOCKED"
    "u_role t' = ENGINEER"
    using eff(1) by blast
  then have u: "get_user d' target = Some t'" by (auto simp: admin_change_def user_changed_def)
  have "retired d' target"
    using eff(2) get_user_member [OF u]
    by (auto simp: retired_def get_identity_def table_get_None_iff image_iff)
  moreover have "identity_inv d'"
    using admin_step_keeps(1) [OF admin_reset [OF reset] inv] .
  ultimately have start: "identity_inv d' \<and> retired d' target" by blast
  from later have "identity_inv d'' \<and> retired d'' target"
    by (induction rule: rtranclp_induct) (use start identity_step_keeps in blast)+
  then show ?thesis using load_retired u t eff(3,4) by blast
qed

text \<open>
  C17. The configured recovery user who still holds equipment cannot be promoted: the
  promotion computed by \<open>reconcile_recovery_owner\<close> violates the deferred custody trigger, so
  the transaction of the request in which it runs does not commit.
\<close>

theorem recovery_promotion_blocked_by_custody:
  assumes inv: "identity_inv d" and u: "get_user d i = Some u" and custody: "has_custody d i"
    and call: "reconcile_recovery_owner d u identity (Some (ti_telegram_user_id identity)) now =
      Inr (d', c)"
  shows "\<not> users_commit d d'"
proof -
  have dist: "distinct (map u_id (users d))" and w: "warehouse_inv d"
    using inv by (simp_all add: accounts_inv_def users_inv_def)
  have id: "u_id u = i" using u by (rule get_user_id)
  have "custody_holder_eligible d i"
    using custody warehouse_invD(3) [OF w] by (auto simp: has_custody_def custody_holders_eligible_def)
  then have h: "holder_ok u" using eligible_iff [OF dist] u by auto
  have change: "\<exists>t t'. u_id t = i \<and> user_changed d d' t t' \<and> u_role t' = OWNER"
  proof -
    have "d' \<noteq> d"
    proof
      assume "d' = d"
      then have "users d' = users d" by simp
      moreover have "\<exists>x. get_user d' i = Some x \<and> u_role x = OWNER"
        using call u h id get_user_save
        by (auto simp: reconcile_recovery_owner_def recovery_settled_def holder_ok_def change_role_def
            transition_user_access_def approve_pending_request_def save_access_request_def Let_def
            get_user_cong [of "_\<lparr>user_role_events := _\<rparr>"] get_user_cong [of "_\<lparr>access_requests := _\<rparr>"]
            split: if_splits list.splits)
      ultimately show False using u h \<open>d' = d\<close> by (auto simp: holder_ok_def)
    qed
    then show ?thesis using reconcile_effect [OF call] id by blast
  qed
  then obtain t t' where t: "u_id t = i" "user_changed d d' t t'" "u_role t' = OWNER" by blast
  show ?thesis
  proof
    assume "users_commit d d'"
    from committed_warehouse_inv [OF w dist t(2) this] have w': "warehouse_inv d'" .
    have "has_custody d' i" and dist': "distinct (map u_id (users d'))" and "get_user d' i = Some t'"
      using t(1,2) custody dist by (auto simp: user_changed_def has_custody_def same_but_identity_iff)
    moreover from this(1) have "custody_holder_eligible d' i"
      using warehouse_invD(3) [OF w'] by (auto simp: has_custody_def custody_holders_eligible_def)
    ultimately show False using eligible_iff [OF dist'] t(3) by (auto simp: holder_ok_def)
  qed
qed

section \<open>Instances on the sample deployment\<close>

definition sample_identity :: "uuid \<Rightarrow> int \<Rightarrow> telegram_identity" where
  "sample_identity i t = \<lparr> ti_user_id = i, ti_telegram_user_id = t, ti_username = None,
     ti_first_name = ''Eng'', ti_last_name = None, ti_language_code = None, ti_last_auth_at = None \<rparr>"

definition sample_people :: db where
  "sample_people = sample_db\<lparr>telegram_identities := [sample_identity 2 22, sample_identity 3 33],
     auth_sessions := [\<lparr> as_id = 60, as_user_id = 3, as_token_hash = ''h'', as_created_at = 1,
       as_expires_at = 100, as_revoked_at = None \<rparr>,
       \<lparr> as_id = 61, as_user_id = 2, as_token_hash = ''k'', as_created_at = 1,
       as_expires_at = 100, as_revoked_at = None \<rparr>]\<rparr>"

lemma sample_db_identity_inv: "identity_inv sample_db"
proof -
  have "users_inv sample_db"
    by (simp add: users_inv_def stamp_ok_def sample_db_def sample_user_def)
  then show ?thesis
    using sample_db_inv by (simp add: accounts_inv_def responsibilities_ok_def sample_db_def)
qed

lemma sample_people_inv: "identity_inv sample_people"
  by (rule identity_inv_cong [OF sample_db_identity_inv])
    (simp_all add: sample_people_def same_but_identity_iff)

lemma has_capability_eval:
  "has_capability ADMIN ACCESS_MANAGE_USERS" "\<not> has_capability ENGINEER PROCUREMENT_CREATE"
  by (simp_all add: ENGINEER_CAPABILITIES_def)

definition sample_blocking :: db where
  "sample_blocking = (case update_user_access sample_people 2 3 BLOCKED None 9 of
     Inl _ \<Rightarrow> empty_db | Inr (d, _) \<Rightarrow> d)"

lemma sample_block_run:
  "\<exists>u e. update_user_access sample_people 2 3 BLOCKED None 9 = Inr (sample_blocking, u, e) \<and>
     map_option u_access_status (get_user sample_blocking 3) = Some BLOCKED"
  by (simp add: sample_blocking_def update_user_access_def lock_actor_and_target_def get_user_def
      sample_people_def sample_db_def sample_user_def has_custody_def is_recovery_identity_def
      transition_user_access_def save_user_def table_update_def revoke_sessions_def Let_def
      ENGINEER_CAPABILITIES_def)

theorem admin_changes_are_safe_witness:
  "identity_inv sample_blocking \<and> users_commit sample_people sample_blocking"
proof -
  obtain u e where "update_user_access sample_people 2 3 BLOCKED None 9 = Inr (sample_blocking, u, e)"
    using sample_block_run by blast
  from admin_changes_are_safe [OF sample_people_inv admin_access [OF this, of sample_digest]]
  show ?thesis .
qed

theorem admin_no_escalation_witness:
  "(3::nat) \<noteq> 2 \<and> (\<exists>u. get_user sample_blocking 3 = Some u \<and> u_role u \<noteq> OWNER)"
proof -
  obtain u e x where run: "update_user_access sample_people 2 3 BLOCKED None 9 = Inr (sample_blocking, u, e)"
    and x: "get_user sample_blocking 3 = Some x" "u_access_status x = BLOCKED"
    using sample_block_run by auto
  have "get_user sample_people 3 \<noteq> Some x"
    using x(2) by (auto simp: get_user_def sample_people_def sample_db_def sample_user_def)
  with admin_no_escalation [OF sample_people_inv admin_access [OF run, of sample_digest] x(1)]
  show ?thesis using x(1) by auto
qed

lemma sample_issue_session:
  "\<exists>d s. issue_auth_session (\<lambda>t. t) sample_people 70 3 ''tok'' 50 9 = Inr (d, s)"
  by (simp add: issue_auth_session_def active_sessions_def session_live_def sample_people_def
      sample_db_def sample_user_def get_user_def MAX_ACTIVE_SESSIONS_PER_USER_def Let_def)

theorem session_cap_witness:
  "\<exists>d s. issue_auth_session (\<lambda>t. t) sample_people 70 3 ''tok'' 50 9 = Inr (d, s) \<and>
     length (active_sessions d 3 9) \<le> 5 \<and>
     map_option (u_id \<circ> ctx_user) (load_auth_context (\<lambda>t. t) d ''tok'' 20) = Some 3"
proof -
  obtain d s where run: "issue_auth_session (\<lambda>t. t) sample_people 70 3 ''tok'' 50 9 = Inr (d, s)"
    using sample_issue_session by blast
  have "sessions_ok sample_people" by (simp add: sessions_ok_def sample_people_def)
  from session_cap [OF this run] have cap: "length (active_sessions d 3 9) \<le> MAX_ACTIVE_SESSIONS_PER_USER"
    and load: "\<forall>i later. get_identity sample_people 3 = Some i \<and> later < 9 + 50 \<longrightarrow>
        map_option (u_id \<circ> ctx_user) (load_auth_context (\<lambda>t. t) d ''tok'' later) = Some 3"
    by blast+
  have "get_identity sample_people 3 = Some (sample_identity 3 33)"
    by (simp add: get_identity_def sample_people_def sample_identity_def)
  with load have "map_option (u_id \<circ> ctx_user) (load_auth_context (\<lambda>t. t) d ''tok'' 20) = Some 3"
    by (auto dest: spec [of _ "sample_identity 3 33"] spec [of _ 20])
  with run cap show ?thesis by (auto simp: MAX_ACTIVE_SESSIONS_PER_USER_def)
qed

lemma reachable_identity_witness: "identity_inv sample_blocking"
proof -
  obtain u e where "update_user_access sample_people 2 3 BLOCKED None 9 = Inr (sample_blocking, u, e)"
    using sample_block_run by blast
  then have "identity_step sample_digest sample_people sample_blocking"
    by (intro step_admin admin_access)
  then show ?thesis by (intro reachable_identity [OF sample_people_inv, of sample_digest]) auto
qed

lemma sample_reset_run: "\<exists>d. reset_user_account (\<lambda>t. t) sample_people 2 3 33 None 9 = Inr d"
  by (simp add: reset_user_account_def lock_actor_and_target_def get_user_def get_identity_def
      sample_people_def sample_identity_def sample_db_def sample_user_def has_custody_def
      transition_user_access_def save_user_def table_update_def revoke_sessions_def
      revoke_session_def drop_pending_requests_def change_role_def load_auth_context_def
      session_live_def Let_def)

theorem reset_is_final_witness:
  "\<exists>d. reset_user_account (\<lambda>t. t) sample_people 2 3 33 None 9 = Inr d \<and>
     (\<exists>u. get_user d 3 = Some u \<and> u_access_status u = BLOCKED \<and> u_role u = ENGINEER) \<and>
     (\<forall>token time ctx. load_auth_context (\<lambda>t. t) d token time = Some ctx \<longrightarrow> u_id (ctx_user ctx) \<noteq> 3)"
proof -
  obtain d where run: "reset_user_account (\<lambda>t. t) sample_people 2 3 33 None 9 = Inr d"
    using sample_reset_run by blast
  show ?thesis
    using reset_is_final [OF sample_people_inv run rtranclp.rtrancl_refl] run by blast
qed

definition sample_recovery :: db where
  "sample_recovery = sample_issued\<lparr>users := [sample_user 2 ADMIN APPROVED, sample_user 3 ENGINEER APPROVED]\<rparr>"

lemma sample_recovery_inv: "identity_inv sample_recovery"
proof -
  have "warehouse_inv sample_recovery"
    by (rule warehouse_inv_cong [OF sample_issued_inv])
      (simp_all add: sample_recovery_def custody_holders_eligible_def custody_holder_eligible_def
        sample_data)
  moreover have "users_inv sample_recovery"
    by (simp add: users_inv_def stamp_ok_def sample_recovery_def sample_user_def)
  ultimately show ?thesis
    by (simp add: accounts_inv_def responsibilities_ok_def sample_recovery_def sample_data)
qed

lemma sample_promotion_run:
  "\<exists>d c. reconcile_recovery_owner sample_recovery (sample_user 3 ENGINEER APPROVED)
     (sample_identity 3 33) (Some 33) 9 = Inr (d, c)"
  by (simp add: reconcile_recovery_owner_def recovery_settled_def sample_identity_def
      sample_recovery_def sample_user_def get_user_def Let_def split_beta) blast

theorem recovery_promotion_blocked_by_custody_witness:
  "\<exists>d c. reconcile_recovery_owner sample_recovery (sample_user 3 ENGINEER APPROVED)
     (sample_identity 3 33) (Some 33) 9 = Inr (d, c) \<and> \<not> users_commit sample_recovery d"
proof -
  obtain d c where run: "reconcile_recovery_owner sample_recovery (sample_user 3 ENGINEER APPROVED)
     (sample_identity 3 33) (Some (ti_telegram_user_id (sample_identity 3 33))) 9 = Inr (d, c)"
    using sample_promotion_run by (auto simp: sample_identity_def)
  have "get_user sample_recovery 3 = Some (sample_user 3 ENGINEER APPROVED)"
    by (simp add: get_user_def sample_recovery_def sample_user_def)
  moreover have "has_custody sample_recovery 3"
    by (simp add: has_custody_def sample_recovery_def sample_data)
  ultimately have "\<not> users_commit sample_recovery d"
    using recovery_promotion_blocked_by_custody [OF sample_recovery_inv _ _ run] by blast
  with run show ?thesis by (auto simp: sample_identity_def)
qed

end
