(* ===== verification/Procurement_Steps.thy ===== *)
theory Procurement_Steps
  imports Procurement_Proofs Identity_Steps
begin

text \<open>
  Procurement as a transition system. The invariant ties the three records of a request
  together: its row, its append-only events and its revisions with their lines. The state
  version counts the events, the events replay to the status along the transition table,
  the current revision is complete, and a completed request owns one receipt that no other
  request and no adjustment refers to.
\<close>

section \<open>What a preparation leaves\<close>

lemma refresh_same_but_projections:
  assumes "refresh_warehouse_projection d mid i = Inr d'"
  shows "same_but_projections d d'"
proof -
  have st: "same_but_projections d d'" if "refresh_stock d i l = Inr d'" for d d' l
    using that by (auto simp: refresh_stock_def Let_def same_but_projections_def split: if_splits)
  have cu: "same_but_projections d d'" if "refresh_custody d u i = Inr d'" for d d' u
    using that by (auto simp: refresh_custody_def Let_def same_but_projections_def split: if_splits)
  from assms obtain h where h: "get_mov d mid = Some h"
    by (cases "get_mov d mid") (simp_all add: refresh_warehouse_projection_def)
  have "ebind (case mv_source_location_id h of None \<Rightarrow> Inr d | Some l \<Rightarrow> refresh_stock d i l) (\<lambda>d1.
      ebind (case mv_destination_location_id h of None \<Rightarrow> Inr d1
       | Some l \<Rightarrow> if mv_source_location_id h = Some l then Inr d1 else refresh_stock d1 i l) (\<lambda>d2.
      case mv_custody_user_id h of None \<Rightarrow> Inr d2 | Some u \<Rightarrow> refresh_custody d2 u i)) = Inr d'"
    using assms unfolding refresh_warehouse_projection_def h option.case by (simp split: if_split_asm)
  then obtain d1 d2 where
    1: "(case mv_source_location_id h of None \<Rightarrow> Inr d | Some l \<Rightarrow> refresh_stock d i l) = Inr d1" and
    2: "(case mv_destination_location_id h of None \<Rightarrow> Inr d1
       | Some l \<Rightarrow> if mv_source_location_id h = Some l then Inr d1 else refresh_stock d1 i l) = Inr d2" and
    3: "(case mv_custody_user_id h of None \<Rightarrow> Inr d2 | Some u \<Rightarrow> refresh_custody d2 u i) = Inr d'"
    unfolding ebind_Inr_iff by blast
  have "same_but_projections d d1" using 1 st by (cases "mv_source_location_id h") auto
  moreover have "same_but_projections d1 d2"
    using 2 st by (cases "mv_destination_location_id h") (auto split: if_splits)
  moreover have "same_but_projections d2 d'" using 3 cu by (cases "mv_custody_user_id h") auto
  ultimately show ?thesis using same_but_projections_trans by blast
qed

lemma new_movement_frame:
  assumes "create_movement_internal sha256 d mid now p actor name custody = Inr (d', r)"
    and "\<not> res_replayed r"
  obtains original m ls where "accepted sha256 d mid now p actor name custody original m ls"
    and "same_but_projections (append_movement d m ls) d'" and "rec_movement (res_record r) = m"
    and "efold (\<lambda>ml d. refresh_warehouse_projection d mid (ml_item_id ml)) ls
         (append_movement d m ls) = Inr d'"
  using assms(1)
proof (cases rule: create_movement_cases)
  case replay
  then show thesis using assms(2) by simp
next
  case (new original m ls)
  have "same_but_projections (append_movement d m ls) d'"
    by (rule efold_invariant [OF new(3)])
      (simp, blast intro: refresh_same_but_projections same_but_projections_trans)
  then show thesis using new that by simp
qed

lemma same_but_projections_tables:
  assumes "same_but_projections d d'"
  shows "users d' = users d" "telegram_identities d' = telegram_identities d" "items d' = items d"
    "locations d' = locations d" "procurement_requests d' = procurement_requests d"
    "procurement_revisions d' = procurement_revisions d"
    "procurement_revision_lines d' = procurement_revision_lines d"
    "procurement_line_catalog_bindings d' = procurement_line_catalog_bindings d"
    "procurement_events d' = procurement_events d"
    "notification_outboxes d' = notification_outboxes d" "manufacturers d' = manufacturers d"
proof -
  obtain x y where "d' = d\<lparr>stock_balances := x, user_item_custody_balances := y\<rparr>"
    using assms unfolding same_but_projections_def by blast
  then show "users d' = users d" "telegram_identities d' = telegram_identities d" "items d' = items d"
    "locations d' = locations d" "procurement_requests d' = procurement_requests d"
    "procurement_revisions d' = procurement_revisions d"
    "procurement_revision_lines d' = procurement_revision_lines d"
    "procurement_line_catalog_bindings d' = procurement_line_catalog_bindings d"
    "procurement_events d' = procurement_events d"
    "notification_outboxes d' = notification_outboxes d" "manufacturers d' = manufacturers d"
    by simp_all
qed

lemma new_movement_tables:
  assumes "create_movement_internal sha256 d mid now p actor name custody = Inr (d', r)"
  shows "users d' = users d" "telegram_identities d' = telegram_identities d" "items d' = items d"
    "locations d' = locations d" "procurement_requests d' = procurement_requests d"
    "procurement_revisions d' = procurement_revisions d"
    "procurement_revision_lines d' = procurement_revision_lines d"
    "procurement_line_catalog_bindings d' = procurement_line_catalog_bindings d"
    "procurement_events d' = procurement_events d"
    "notification_outboxes d' = notification_outboxes d" "journal_extends d d'"
    "manufacturers d' = manufacturers d"
proof -
  have "users d' = users d \<and> telegram_identities d' = telegram_identities d \<and> items d' = items d \<and>
    locations d' = locations d \<and> procurement_requests d' = procurement_requests d \<and>
    procurement_revisions d' = procurement_revisions d \<and>
    procurement_revision_lines d' = procurement_revision_lines d \<and>
    procurement_line_catalog_bindings d' = procurement_line_catalog_bindings d \<and>
    procurement_events d' = procurement_events d \<and>
    notification_outboxes d' = notification_outboxes d \<and> journal_extends d d' \<and>
    manufacturers d' = manufacturers d"
  proof (cases "res_replayed r")
    case True
    with assms have "d' = d" by (cases rule: create_movement_cases) auto
    then show ?thesis by simp
  next
    case False
    obtain original m ls where acc: "accepted sha256 d mid now p actor name custody original m ls"
      and same: "same_but_projections (append_movement d m ls) d'"
      using new_movement_frame [OF assms False] by metis
    have "journal_extends d d'"
      by (rule append_extends [OF _ _ same])
        (use accepted_fresh [OF acc] accepted_movement(1) [OF acc] in simp_all)
    then show ?thesis using same_but_projections_tables [OF same] by (simp add: append_movement_def)
  qed
  then show "users d' = users d" "telegram_identities d' = telegram_identities d" "items d' = items d"
    "locations d' = locations d" "procurement_requests d' = procurement_requests d"
    "procurement_revisions d' = procurement_revisions d"
    "procurement_revision_lines d' = procurement_revision_lines d"
    "procurement_line_catalog_bindings d' = procurement_line_catalog_bindings d"
    "procurement_events d' = procurement_events d"
    "notification_outboxes d' = notification_outboxes d" "journal_extends d d'"
    "manufacturers d' = manufacturers d" by simp_all
qed

lemma create_movement_is_internal:
  "create_movement sha256 d mid now p actor name custody = Inr x \<Longrightarrow>
     create_movement_internal sha256 d mid now p actor name custody = Inr x"
  by (simp add: create_movement_def split: if_splits)

lemma preparation_frame:
  assumes "preparation env actor d r d0 r'"
  shows "procurement_requests d0 = procurement_requests d \<and>
    procurement_events d0 = procurement_events d \<and> users d0 = users d \<and>
    telegram_identities d0 = telegram_identities d \<and> locations d0 = locations d \<and>
    journal_extends d d0 \<and> notification_outboxes d0 = notification_outboxes d \<and>
    (\<exists>vs. procurement_revisions d0 = procurement_revisions d @ vs) \<and>
    (\<exists>ls. procurement_revision_lines d0 = procurement_revision_lines d @ ls) \<and>
    (\<exists>bs. procurement_line_catalog_bindings d0 = procurement_line_catalog_bindings d @ bs) \<and>
    (\<exists>xs. items d0 = items d @ xs) \<and> manufacturers d0 = manufacturers d"
  using assms
proof cases
  case nothing
  then show ?thesis by simp
next
  case (revision v d1 ls)
  have "d0 = d\<lparr>procurement_revisions := procurement_revisions d @ [v],
      procurement_revision_lines := procurement_revision_lines d @ ls\<rparr>"
    using insert_revision_Inr(1) [OF revision(1)] insert_lines_Inr_procurement [OF revision(2)] by simp
  then show ?thesis by (simp add: journal_extends_def)
next
  case (binding b)
  then show ?thesis using insert_binding_Inr(1) by (fastforce simp: journal_extends_def)
next
  case (new_item new_id p d1 i b)
  obtain it where "d1 = d\<lparr>items := items d @ [it]\<rparr>" using create_item_Inr [OF new_item(1)] by metis
  then have "d0 = d\<lparr>items := items d @ [it],
      procurement_line_catalog_bindings := procurement_line_catalog_bindings d @ [b]\<rparr>"
    using insert_binding_Inr(1) [OF new_item(2)] by simp
  then show ?thesis by (simp add: journal_extends_def)
next
  case (receipt location quantities name m)
  show ?thesis
    using new_movement_tables [OF create_movement_is_internal [OF receipt(1)]] by simp
qed

section \<open>The effect of a mutation\<close>

definition event_of :: "uuid \<Rightarrow> string \<Rightarrow> string \<Rightarrow> procurement_event_type \<Rightarrow> procurement_event \<Rightarrow> bool" where
  "event_of actor key fingerprint event_type e \<longleftrightarrow>
     ev_event_type e = event_type \<and> ev_actor_user_id e = actor \<and> ev_client_request_id e = key \<and>
     ev_request_fingerprint e = fingerprint"

lemma changed_effect:
  assumes "changed env actor key fp t d r d'"
  obtains d0 r' e where "preparation env actor d r d0 r'" and "request_step r e r'"
    and "event_of actor key fp t e" and "request_checks r'" and "event_checks e"
    and "protect_procurement_final_movement_binding d0 (get_request d (pr_id r)) r'"
    and "\<forall>x\<in>set (procurement_requests d). pr_id x \<noteq> pr_id r \<longrightarrow> pr_final_movement_id r' \<noteq> None \<longrightarrow>
      pr_final_movement_id x \<noteq> pr_final_movement_id r'"
    and "procurement_requests d' =
      table_update pr_id (pr_id r) (\<lambda>_. r') (procurement_requests d)"
    and "procurement_events d' = procurement_events d @ [e]"
    and "procurement_revisions d' = procurement_revisions d0"
    and "procurement_revision_lines d' = procurement_revision_lines d0"
    and "procurement_line_catalog_bindings d' = procurement_line_catalog_bindings d0"
    and "items d' = items d0" and "movements d' = movements d0" and "movement_lines d' = movement_lines d0"
    and "stock_balances d' = stock_balances d0"
    and "user_item_custody_balances d' = user_item_custody_balances d0"
    and "users d' = users d" and "telegram_identities d' = telegram_identities d"
    and "locations d' = locations d" and "event_revision_fk d' e"
    and "\<forall>m. outbox_inv m d \<longrightarrow> outbox_inv m d'" and "manufacturers d' = manufacturers d"
proof -
  from assms obtain d0 d1 d2 r' e where prep: "preparation env actor d r d0 r'"
    and w: "write_request d0 r' = Inr d1" and e: "add_event d1 e = Inr d2"
    and out: "same_but_outbox d2 d'" and step: "request_step r e r'"
    and ev: "event_of actor key fp t e"
    unfolding changed_def event_of_def by blast
  note frame = preparation_frame [OF prep]
  have id: "pr_id r' = pr_id r" using step by (simp add: request_step_def)
  note w' = write_request_Inr [OF w, unfolded id] and e' = add_event_Inr [OF e]
  have d2: "d2 = d0\<lparr>procurement_requests := table_update pr_id (pr_id r) (\<lambda>_. r') (procurement_requests d0),
      procurement_events := procurement_events d0 @ [e]\<rparr>"
    using w'(1) e'(1) by simp
  have fk: "event_revision_fk d' e"
    using e'(3) same_but_outboxD(7) [OF out] e'(1)
    by (simp add: event_revision_fk_def split: option.splits)
  have req: "get_request d0 (pr_id r) = get_request d (pr_id r)" using frame by (simp add: get_request_def)
  have ob: "\<forall>m. outbox_inv m d \<longrightarrow> outbox_inv m d'"
    using out outbox_inv_cong [of d2 d] frame d2 by (auto simp: same_but_outbox_def)
  show thesis
    by (rule that [OF prep step ev w'(2) e'(2)])
      (use w'(3,4) frame fk req ob same_but_outboxD [OF out] d2 in simp_all)
qed

section \<open>The invariant\<close>

text \<open>A list of events is a walk along the transition table from one status to another.\<close>

fun status_trail ::
    "procurement_status option \<Rightarrow> procurement_event list \<Rightarrow> procurement_status option \<Rightarrow> bool" where
  "status_trail s [] t \<longleftrightarrow> s = t"
| "status_trail s (e # es) t \<longleftrightarrow>
     (case ev_to_status e of
        None \<Rightarrow> ev_from_status e = None \<and> s \<noteq> None \<and> status_trail s es t
      | Some u \<Rightarrow> ev_from_status e = s \<and>
          (case s of None \<Rightarrow> u = AGREEMENT_PENDING_MANAGER | Some x \<Rightarrow> transition_allowed x u) \<and>
          status_trail (Some u) es t)"

lemma status_trail_snoc:
  "status_trail s (es @ [e]) t \<longleftrightarrow> (\<exists>x. status_trail s es x \<and> status_trail x [e] t)"
  by (induction es arbitrary: s) (auto split: option.splits)

definition receipt_ok :: "db \<Rightarrow> uuid \<Rightarrow> bool" where
  "receipt_ok d i \<longleftrightarrow>
     (\<exists>m. get_mov d i = Some m \<and> mv_movement_type m = RECEIPT) \<and> \<not> adjusted_movement d i"

definition request_ok :: "db \<Rightarrow> procurement_request \<Rightarrow> bool" where
  "request_ok d r \<longleftrightarrow>
     request_checks r \<and> validate_procurement_current_revision d r \<and>
     pr_state_version r = int (length (events_of d (pr_id r))) \<and>
     status_trail None (events_of d (pr_id r)) (Some (pr_status r)) \<and>
     (\<forall>i. pr_final_movement_id r = Some i \<longrightarrow> receipt_ok d i)"

definition revisions_ok :: "db \<Rightarrow> bool" where
  "revisions_ok d \<longleftrightarrow>
     distinct (map rv_id (procurement_revisions d)) \<and>
     (\<forall>v\<in>set (procurement_revisions d). revision_line_count d (rv_id v) = rv_line_count v \<and>
        1 \<le> rv_line_count v \<and> rv_line_count v \<le> 500) \<and>
     (\<forall>l\<in>set (procurement_revision_lines d). rl_revision_id l \<in> rv_id ` set (procurement_revisions d) \<and>
        revision_line_checks l)"

definition receipts_distinct :: "db \<Rightarrow> bool" where
  "receipts_distinct d \<longleftrightarrow>
     (\<forall>r\<in>set (procurement_requests d). \<forall>x\<in>set (procurement_requests d).
        pr_final_movement_id r \<noteq> None \<and> pr_final_movement_id x = pr_final_movement_id r \<longrightarrow>
        pr_id x = pr_id r)"

definition procurement_inv :: "db \<Rightarrow> bool" where
  "procurement_inv d \<longleftrightarrow>
     distinct (map pr_id (procurement_requests d)) \<and>
     (\<forall>r\<in>set (procurement_requests d). request_ok d r) \<and> revisions_ok d \<and> receipts_distinct d \<and>
     (\<forall>e\<in>set (procurement_events d). ev_request_id e \<in> pr_id ` set (procurement_requests d))"

lemma revision_line_count_append:
  "procurement_revision_lines d' = procurement_revision_lines d @ ls \<Longrightarrow>
     revision_line_count d' v = revision_line_count d v +
       int (length (filter (\<lambda>l. rl_revision_id l = v) ls))"
  by (simp add: revision_line_count_def)

lemma revisions_ok_append:
  assumes ok: "revisions_ok d" and ins: "insert_revision d v = Inr d1"
    and insl: "efold insert_revision_line ls d1 = Inr d0"
    and n: "rv_line_count v = int (length ls)" and rv: "\<forall>l\<in>set ls. rl_revision_id l = rv_id v"
  shows "revisions_ok d0"
proof -
  note i = insert_revision_Inr [OF ins] and l = insert_lines_Inr_procurement [OF insl]
  have d0: "procurement_revisions d0 = procurement_revisions d @ [v]"
    "procurement_revision_lines d0 = procurement_revision_lines d @ ls"
    using i(1) l by simp_all
  have none: "filter (\<lambda>l. rl_revision_id l = rv_id v) (procurement_revision_lines d) = []"
    using ok i(3) unfolding revisions_ok_def filter_empty_conv by metis
  have new: "revision_line_count d0 (rv_id v) = rv_line_count v"
    using n rv none by (simp add: revision_line_count_def d0)
  have old: "revision_line_count d0 (rv_id x) = revision_line_count d (rv_id x)"
    if "x \<in> set (procurement_revisions d)" for x
  proof -
    have "rv_id x \<noteq> rv_id v" using i(3) that by (metis imageI)
    then have "filter (\<lambda>l. rl_revision_id l = rv_id x) ls = []"
      using rv by (auto simp: filter_empty_conv)
    then show ?thesis by (simp add: revision_line_count_def d0)
  qed
  have "1 \<le> rv_line_count v" "rv_line_count v \<le> 500" using i(2) by (simp_all add: revision_checks_def)
  then show ?thesis
    using ok i(3) l new old rv unfolding revisions_ok_def d0 by auto
qed

lemma revisions_ok_cong:
  "revisions_ok d \<Longrightarrow> procurement_revisions d' = procurement_revisions d \<Longrightarrow>
     procurement_revision_lines d' = procurement_revision_lines d \<Longrightarrow> revisions_ok d'"
  by (simp add: revisions_ok_def revision_line_count_def)

lemma preparation_revisions_ok:
  assumes "preparation env actor d r d0 r'" and "revisions_ok d"
  shows "revisions_ok d0"
  using assms(1)
proof cases
  case (revision v d1 ls)
  then show ?thesis using revisions_ok_append [OF assms(2)] by blast
next
  case (binding b)
  then show ?thesis using assms(2) insert_binding_Inr(1) by (fastforce intro: revisions_ok_cong)
next
  case (new_item new_id p d1 i b)
  obtain it where "d1 = d\<lparr>items := items d @ [it]\<rparr>" using create_item_Inr [OF new_item(1)] by metis
  then show ?thesis
    using assms(2) insert_binding_Inr(1) [OF new_item(2)] by (auto intro: revisions_ok_cong)
next
  case (receipt location quantities name m)
  show ?thesis
    using new_movement_tables [OF create_movement_is_internal [OF receipt(1)]] assms(2)
    by (auto intro: revisions_ok_cong)
qed (use assms(2) in simp)

text \<open>No movement adjusts a receipt that a request refers to.\<close>

lemma original_is_protected:
  assumes "r \<in> set (procurement_requests d)" "pr_final_movement_id r = Some i"
    and "mc_original_movement_id p = Some i"
  shows "check_original d p custody custody_user =
    Inl (InventoryConflictError ''procurement_movement_protected'')"
proof -
  have "\<exists>r\<in>set (procurement_requests d). pr_final_movement_id r = Some i" using assms by blast
  then show ?thesis unfolding check_original_def assms(3) option.case by (rule if_P)
qed

lemma movement_keeps_receipts:
  assumes run: "create_movement_internal sha256 d mid now p actor name custody = Inr (d', res)"
    and ok: "receipt_ok d i" and ref: "r \<in> set (procurement_requests d)" "pr_final_movement_id r = Some i"
  shows "receipt_ok d' i"
proof (cases "res_replayed res")
  case True
  with run have "d' = d" by (cases rule: create_movement_cases) auto
  then show ?thesis using ok by simp
next
  case False
  obtain original m ls where acc: "accepted sha256 d mid now p actor name custody original m ls"
    and same: "same_but_projections (append_movement d m ls) d'"
    using new_movement_frame [OF run False] by metis
  have ext: "journal_extends d d'" by (rule new_movement_tables [OF run])
  have mv: "movements d' = movements d @ [m]"
    using same_but_projectionsD(1) [OF same] by (simp add: append_movement_def)
  obtain custody_user where "check_original d p custody custody_user = Inr original"
    using acc by (auto simp: accepted_def)
  then have "mc_original_movement_id p \<noteq> Some i" using original_is_protected [OF ref] by fastforce
  then have "mv_original_movement_id m \<noteq> Some i" using accepted_movement(5) [OF acc] by simp
  then have "adjusted_movement d' i \<longleftrightarrow> adjusted_movement d i"
    by (auto simp: adjusted_movement_def mv)
  then show ?thesis using ok get_mov_extends [OF ext] by (auto simp: receipt_ok_def)
qed

lemma receipt_ok_cong:
  "movements d' = movements d \<Longrightarrow> receipt_ok d' i = receipt_ok d i"
  by (simp add: receipt_ok_def get_mov_def adjusted_movement_def)

lemma preparation_keeps_receipts:
  assumes prep: "preparation env actor d r d0 r'" and ok: "receipt_ok d i"
    and ref: "x \<in> set (procurement_requests d)" "pr_final_movement_id x = Some i"
  shows "receipt_ok d0 i"
  using prep
proof cases
  case (revision v d1 ls)
  then have "movements d0 = movements d"
    using insert_revision_Inr(1) [OF revision(1)] insert_lines_Inr_procurement [OF revision(2)] by simp
  then show ?thesis using ok receipt_ok_cong by blast
next
  case (binding b)
  then have "movements d0 = movements d" using insert_binding_Inr(1) by fastforce
  then show ?thesis using ok receipt_ok_cong by blast
next
  case (new_item new_id p d1 j b)
  obtain it where "d1 = d\<lparr>items := items d @ [it]\<rparr>" using create_item_Inr [OF new_item(1)] by metis
  then have "movements d0 = movements d" using insert_binding_Inr(1) [OF new_item(2)] by simp
  then show ?thesis using ok receipt_ok_cong by blast
next
  case (receipt location quantities name m)
  show ?thesis
    by (rule movement_keeps_receipts [OF create_movement_is_internal [OF receipt(1)] ok ref])
qed (use ok in simp)

lemma preparation_new_receipt:
  assumes prep: "preparation env actor d r d0 r'"
    and new: "pr_final_movement_id r' = Some i" "pr_final_movement_id r \<noteq> Some i"
  shows "\<exists>m. get_mov d0 i = Some m \<and> mv_movement_type m = RECEIPT"
  using prep
proof cases
  case (receipt location quantities name m)
  note run = create_movement_is_internal [OF receipt(1)]
  obtain original mv ls where acc: "accepted (pe_sha256 env) d (pe_movement_id env) (pe_now env)
      (receipt_payload (pr_id r) location quantities) actor name None original mv ls"
    and same: "same_but_projections (append_movement d mv ls) d0"
    and mv: "rec_movement (res_record m) = mv"
    using new_movement_frame [OF run receipt(2)] by metis
  have fresh: "mv_id mv \<notin> mv_id ` set (movements d)"
    using accepted_fresh(1) [OF acc] accepted_movement(1) [OF acc] by simp
  have "get_mov d0 (mv_id mv) = get_mov (append_movement d mv ls) (mv_id mv)"
    using same_but_projectionsD(1) [OF same] by (simp add: get_mov_def)
  then have "get_mov d0 i = Some mv"
    using get_mov_append [OF fresh] new(1) receipt(4) mv by simp
  then show ?thesis using accepted_movement(2) [OF acc] by (simp add: receipt_payload_def)
qed (use new in simp_all)

lemma events_of_append:
  "procurement_events d' = procurement_events d @ [e] \<Longrightarrow>
     events_of d' i = (if ev_request_id e = i then events_of d i @ [e] else events_of d i)"
  by (simp add: events_of_def)

lemma current_revision_kept:
  assumes "validate_procurement_current_revision d r" and "procurement_revisions d' = procurement_revisions d @ vs"
  shows "validate_procurement_current_revision d' r"
  using assms by (auto simp: validate_procurement_current_revision_def)

lemma status_step_trail:
  assumes "status_trail None es (Some s)" and "status_step s e s'"
  shows "status_trail None (es @ [e]) (Some s')"
  unfolding status_trail_snoc using assms by (auto simp: status_step_def split: if_splits)

lemma changed_inv:
  assumes inv: "procurement_inv d" and r: "get_request d (pr_id r) = Some r"
    and ch: "changed env actor key fp t d r d'"
  shows "procurement_inv d'"
proof (rule changed_effect [OF ch])
  fix d0 r' e
  assume prep: "preparation env actor d r d0 r'" and step: "request_step r e r'"
    and checks: "request_checks r'"
    and prot: "protect_procurement_final_movement_binding d0 (get_request d (pr_id r)) r'"
    and uniq: "\<forall>x\<in>set (procurement_requests d). pr_id x \<noteq> pr_id r \<longrightarrow> pr_final_movement_id r' \<noteq> None \<longrightarrow>
      pr_final_movement_id x \<noteq> pr_final_movement_id r'"
    and reqs: "procurement_requests d' = table_update pr_id (pr_id r) (\<lambda>_. r') (procurement_requests d)"
    and evs: "procurement_events d' = procurement_events d @ [e]"
    and revs: "procurement_revisions d' = procurement_revisions d0"
    and lines: "procurement_revision_lines d' = procurement_revision_lines d0"
    and mvs: "movements d' = movements d0" and fk: "event_revision_fk d' e"
  have id: "pr_id r' = pr_id r" "ev_request_id e = pr_id r" using step by (simp_all add: request_step_def)
  have mem: "r \<in> set (procurement_requests d)"
    using r by (auto simp: get_request_def dest: table_get_SomeD)
  have rok: "request_ok d r" using inv mem by (simp add: procurement_inv_def)
  obtain vs where vs: "procurement_revisions d' = procurement_revisions d @ vs"
    using preparation_frame [OF prep] revs by auto
  have receipt: "receipt_ok d' i" if "x \<in> set (procurement_requests d)" "pr_final_movement_id x = Some i" for x i
    using that inv preparation_keeps_receipts [OF prep _ that] receipt_ok_cong [OF mvs]
    by (auto simp: procurement_inv_def request_ok_def)
  have others: "request_ok d' x" if x: "x \<in> set (procurement_requests d)" "pr_id x \<noteq> pr_id r" for x
    using x inv receipt current_revision_kept [OF _ vs] id events_of_append [OF evs]
    by (auto simp: procurement_inv_def request_ok_def)
  have "receipt_ok d' i" if f: "pr_final_movement_id r' = Some i" for i
  proof (cases "pr_final_movement_id r = Some i")
    case True
    then show ?thesis using receipt [OF mem] by blast
  next
    case False
    then have "\<not> adjusted_movement d0 i"
      using prot r f by (simp add: protect_procurement_final_movement_binding_def)
    then have "receipt_ok d0 i"
      using preparation_new_receipt [OF prep f False] by (simp add: receipt_ok_def)
    then show ?thesis using receipt_ok_cong [OF mvs] by blast
  qed
  moreover have "validate_procurement_current_revision d' r'"
    using fk step id by (auto simp: event_revision_fk_def request_step_def
        validate_procurement_current_revision_def)
  ultimately have new: "request_ok d' r'"
    using rok checks step id events_of_append [OF evs, of "pr_id r"]
      status_step_trail [of "events_of d (pr_id r)" "pr_status r" e "pr_status r'"]
    by (simp add: request_ok_def request_step_def)
  have ids: "map pr_id (procurement_requests d') = map pr_id (procurement_requests d)"
    unfolding reqs by (rule table_update_same_key [OF _ r [unfolded get_request_def]])
      (use inv id in \<open>simp_all add: procurement_inv_def\<close>)
  have mems: "x = r' \<or> (x \<in> set (procurement_requests d) \<and> pr_id x \<noteq> pr_id r)"
    if "x \<in> set (procurement_requests d')" for x
    using that unfolding reqs set_table_update by auto
  have "receipts_distinct d'"
    using inv uniq mems id unfolding receipts_distinct_def procurement_inv_def by metis
  moreover have "revisions_ok d'"
    using preparation_revisions_ok [OF prep] inv revisions_ok_cong [OF _ revs lines]
    by (simp add: procurement_inv_def)
  moreover have "ev_request_id x \<in> pr_id ` set (procurement_requests d')"
    if "x \<in> set (procurement_events d')" for x
    using that inv evs id mem unfolding procurement_inv_def set_map [symmetric] ids by auto
  ultimately show ?thesis
    using inv ids mems others new unfolding procurement_inv_def by metis
qed


section \<open>Creation\<close>

lemma create_request_cases:
  assumes "create_request env d p actor = Inr (d', rec)"
  obtains (replay) r where "r \<in> set (procurement_requests d)" "pr_initiator_user_id r = actor"
      "pr_request_fingerprint r = canonical_fingerprint (pe_sha256 env) (request_create_json p)"
      "d' = d" "get_request_record d (pr_id r) = Inr rec"
  | (fresh) r v lines e d1 d2 d3 d4 where
      "capable d actor [PROCUREMENT_CREATE]"
      "prepare_lines env d (prc_lines p) (rv_id v) = Inr lines"
      "insert_request d r = Inr d1" "insert_revision d1 v = Inr d2"
      "efold insert_revision_line lines d2 = Inr d3" "add_event d3 e = Inr d4"
      "same_but_outbox d4 d'" "get_request_record d' (pr_id r) = Inr rec"
      "rv_request_id v = pr_id r" "rv_line_count v = int (length lines)"
      "pr_current_revision_id r = rv_id v" "pr_state_version r = 1"
      "pr_status r = AGREEMENT_PENDING_MANAGER" "pr_final_movement_id r = None"
      "pr_initiator_user_id r = actor"
      "ev_request_id e = pr_id r" "ev_from_status e = None"
      "ev_to_status e = Some AGREEMENT_PENDING_MANAGER" "ev_event_type e = REQUEST_CREATED"
proof -
  from assms obtain key where cap: "capable d actor [PROCUREMENT_CREATE]"
    and key: "normalize_client_request_id (prc_client_request_id p) = Inr key"
    by (auto simp: create_request_def ebind_Inr_iff capable_iff)
  let ?P = "\<lambda>r. pr_initiator_user_id r = actor \<and> pr_creation_client_request_id r = key"
  show thesis
  proof (cases "find ?P (procurement_requests d)")
    case (Some r)
    then have "r \<in> set (procurement_requests d)" "?P r" by (auto simp: find_Some_iff)
    then show thesis using assms Some key capable_run [OF cap] replay
      by (auto simp: create_request_def Let_def body_simps split: if_splits)
  next
    case None
    let ?fp = "canonical_fingerprint (pe_sha256 env) (request_create_json p)"
    from assms None key capable_run [OF cap] obtain lines comment r v d1 d2 d3 d4
      where ls: "prepare_lines env d (prc_lines p) (pe_revision_id env) = Inr lines"
      and r: "r = \<lparr> pr_id = pe_request_id env, pr_request_number = next_request_number env,
           pr_status = AGREEMENT_PENDING_MANAGER, pr_initiator_user_id = actor,
           pr_assigned_manager_user_id = prc_assigned_manager_user_id p,
           pr_creation_client_request_id = key, pr_request_fingerprint = ?fp,
           pr_current_revision_id = pe_revision_id env, pr_final_movement_id = None,
           pr_state_version = 1, pr_completed_at = None \<rparr>"
      and v: "v = \<lparr> rv_id = pe_revision_id env, rv_request_id = pe_request_id env,
           rv_revision_number = 1, rv_submitted_by_user_id = actor,
           rv_submitted_by_display_name_snapshot = actor_snapshot d actor,
           rv_general_comment = comment, rv_line_count = int (length lines) \<rparr>"
      and ins: "insert_request d r = Inr d1" "insert_revision d1 v = Inr d2"
        "efold insert_revision_line lines d2 = Inr d3"
      and e: "add_event d3 (procurement_event_row env (pr_id r) REQUEST_CREATED actor
        (actor_snapshot d actor) key ?fp None (Some (pr_status r)) (Some (rv_id v)) None None) = Inr d4"
      and a: "announce env d4 r action_created lines {pr_assigned_manager_user_id r} = Inr d'"
      and rec: "get_request_record d' (pr_id r) = Inr rec"
      by (auto simp: create_request_def body_simps relabel_Inr_iff)
    show thesis
      by (rule fresh [OF cap _ ins e announce_same_but_outbox [OF a] rec])
        (use ls in \<open>simp_all add: r v procurement_event_row_def\<close>)
  qed
qed

lemma insert_request_Inr:
  assumes "insert_request d r = Inr d'"
  shows "d' = d\<lparr>procurement_requests := procurement_requests d @ [r]\<rparr>" and "request_checks r"
    and "pr_id r \<notin> pr_id ` set (procurement_requests d)"
  using assms by (auto simp: insert_request_def split: if_splits)

lemma create_request_inv:
  assumes inv: "procurement_inv d" and run: "create_request env d p actor = Inr (d', rec)"
  shows "procurement_inv d'"
  using run
proof (cases rule: create_request_cases)
  case replay
  then show ?thesis using inv by simp
next
  case (fresh r v lines e d1 d2 d3 d4)
  note q = insert_request_Inr [OF fresh(3)] and w = insert_revision_Inr [OF fresh(4)]
    and l = insert_lines_Inr_procurement [OF fresh(5)] and ev = add_event_Inr [OF fresh(6)]
    and out = same_but_outboxD [OF fresh(7)]
  have tabs: "procurement_requests d' = procurement_requests d @ [r]"
    "procurement_events d' = procurement_events d @ [e]"
    "procurement_revisions d' = procurement_revisions d @ [v]" "movements d' = movements d"
    using q(1) w(1) l ev(1) out by simp_all
  have "revisions_ok d" using inv by (simp add: procurement_inv_def)
  then have "revisions_ok d1" by (rule revisions_ok_cong) (use q(1) in simp_all)
  then have "revisions_ok d3"
    by (rule revisions_ok_append [OF _ fresh(4,5,10)]) (use prepare_lines_revision [OF fresh(2)] in blast)
  then have revs: "revisions_ok d'"
    by (rule revisions_ok_cong) (use ev(1) out in simp_all)
  have none: "events_of d (pr_id r) = []"
    using inv q(3) unfolding procurement_inv_def events_of_def filter_empty_conv by metis
  have old: "request_ok d' x" if x: "x \<in> set (procurement_requests d)" for x
  proof -
    have "pr_id x \<noteq> pr_id r" using q(3) x by (metis imageI)
    then show ?thesis
      using inv x current_revision_kept [OF _ tabs(3)] events_of_append [OF tabs(2)]
        receipt_ok_cong [OF tabs(4)] fresh(16)
      by (simp add: procurement_inv_def request_ok_def)
  qed
  have new: "request_ok d' r"
    using q(2) fresh none events_of_append [OF tabs(2), of "pr_id r"] tabs(3)
    by (simp add: request_ok_def validate_procurement_current_revision_def)
  have "receipts_distinct d" using inv by (simp add: procurement_inv_def)
  then have "receipts_distinct d'"
    using fresh(14) unfolding receipts_distinct_def tabs set_append
    by (metis Un_iff empty_iff empty_set set_ConsD)
  then show ?thesis
    using inv revs old new q(3) fresh(16) by (auto simp: procurement_inv_def tabs)
qed

lemma run_call_inv:
  assumes inv: "procurement_inv d" and run: "run_call env d i c actor = Inr (d', rec)"
  shows "procurement_inv d'"
proof (rule calls.run_cases [OF run], goal_cases)
  case 1
  then show ?case using inv by simp
next
  case (2 r key)
  have "get_request d (pr_id r) = Some r"
    using 2(1) by (auto simp: get_request_def dest: table_get_SomeD)
  then show ?case by (rule changed_inv [OF inv _ 2(7)])
qed

section \<open>Procurement beside the warehouse and the accounts\<close>

lemma procurement_inv_frame:
  assumes "procurement_inv d" and "procurement_requests d' = procurement_requests d"
    and "procurement_events d' = procurement_events d"
    and "procurement_revisions d' = procurement_revisions d"
    and "procurement_revision_lines d' = procurement_revision_lines d"
    and rc: "\<And>r i. r \<in> set (procurement_requests d) \<Longrightarrow> pr_final_movement_id r = Some i \<Longrightarrow>
      receipt_ok d i \<Longrightarrow> receipt_ok d' i"
  shows "procurement_inv d'"
proof -
  have "request_ok d' r" if "r \<in> set (procurement_requests d)" for r
    using assms(1,3,4) that rc
    by (simp add: procurement_inv_def request_ok_def events_of_def validate_procurement_current_revision_def)
  moreover have "receipts_distinct d' = receipts_distinct d"
    unfolding receipts_distinct_def assms(2) ..
  ultimately show ?thesis
    using assms(1-5) revisions_ok_cong [OF _ assms(4,5)] by (simp add: procurement_inv_def)
qed

lemma movement_procurement_inv:
  assumes inv: "procurement_inv d"
    and run: "create_movement_internal sha256 d mid now p actor name custody = Inr (d', res)"
  shows "procurement_inv d'"
  by (rule procurement_inv_frame [OF inv new_movement_tables(5,9,6,7) [OF run]])
    (rule movement_keeps_receipts [OF run])

lemma locations_procurement_inv:
  "procurement_inv d \<Longrightarrow> procurement_inv (d\<lparr>locations := x\<rparr>)"
  by (erule procurement_inv_frame) (simp_all add: receipt_ok_def get_mov_def adjusted_movement_def)

lemma inventory_step_procurement_inv:
  assumes "inventory_step sha256 d d'" and "procurement_inv d"
  shows "procurement_inv d'"
  using assms(1)
proof cases
  case (step_create_location i p l)
  then show ?thesis using create_location_Inr(1) locations_procurement_inv assms(2) by metis
next
  case (step_update_location i p l)
  then show ?thesis using update_location_Inr locations_procurement_inv assms(2) by metis
next
  case (step_set_location_archived i archived now l)
  then show ?thesis using set_location_archived_Inr locations_procurement_inv assms(2) by metis
next
  case (step_create_movement mid now p actor name custody r)
  then show ?thesis
    using movement_procurement_inv [OF assms(2) create_movement_is_internal] by blast
next
  case (step_reverse_movement mid now oid key actor name r)
  then show ?thesis
    using movement_procurement_inv [OF assms(2)] by (auto simp: reverse_movement_def ebind_Inr_iff)
qed

lemma identity_step_frame:
  assumes "identity_step sha256 d d'"
  shows "same_but_identity d d'"
  using assms
proof cases
  case (step_admin actor target)
  then show ?thesis
    using admin_step_change by (metis admin_change_def same_but_identity_refl user_changed_def)
next
  case (step_request request_id user_id now x)
  then show ?thesis using request_effect(1) by (metis user_changed_def)
next
  case (step_sign_in new_user_id v recovery now d1 uid session_id token ttl s)
  have 1: "same_but_identity d d1"
    using step_sign_in(1)
  proof (cases rule: upsert_cases)
    case (refreshed i t d0)
    have "same_but_identity d d0" by (simp add: refreshed(5) same_but_identity_iff)
    moreover have "same_but_identity d0 d1"
      using refreshed(6) reconcile_effect by (metis same_but_identity_refl user_changed_def)
    ultimately show ?thesis by (rule same_but_identity_trans)
  qed (simp add: same_but_identity_iff)
  then show ?thesis
    using issue_Inr [OF step_sign_in(2)] by (auto simp: same_but_identity_iff)
next
  case (step_recover u identity recovery now c)
  then show ?thesis using reconcile_effect by (metis same_but_identity_refl user_changed_def)
next
  case (step_logout s now)
  then show ?thesis by (simp add: same_but_identity_iff revoke_auth_session_def)
next
  case (step_rotate a now r)
  then show ?thesis using run_rotation_frame by blast
qed

lemma identity_step_procurement_inv:
  assumes "identity_step sha256 d d'" and "procurement_inv d"
  shows "procurement_inv d'"
  by (rule procurement_inv_frame [OF assms(2)])
    (use identity_step_frame [OF assms(1)] in
      \<open>simp_all add: same_but_identity_iff receipt_ok_def get_mov_def adjusted_movement_def\<close>)

end
