(* ===== verification/Procurement_Samples.thy ===== *)
theory Procurement_Samples
  imports Procurement_Steps Samples
begin

text \<open>
  A concrete procurement request awaiting acceptance, on which the theorems about the
  procurement service are instantiated. Its initiator (user 4) has been blocked since the
  agreement, its manager is user 5; the administrator (user 2) may accept the delivery.
\<close>

definition sample_signature :: string where
  "sample_signature = replicate 64 (CHR ''0'')"

definition sample_event ::
    "uuid \<Rightarrow> procurement_event_type \<Rightarrow> uuid \<Rightarrow> string \<Rightarrow> procurement_status option \<Rightarrow> procurement_status option
       \<Rightarrow> procurement_event" where
  "sample_event i t actor key from_status to_status =
     \<lparr> ev_id = i, ev_request_id = 50, ev_event_type = t, ev_actor_user_id = actor,
       ev_actor_display_name_snapshot = ''User'', ev_client_request_id = key,
       ev_request_fingerprint = replicate 64 (CHR ''0''), ev_from_status = from_status,
       ev_to_status = to_status, ev_revision_id = Some 51, ev_comment = None, ev_metadata = None \<rparr>"

definition sample_request :: procurement_request where
  "sample_request = \<lparr> pr_id = 50, pr_request_number = ''PR-2026-000001'', pr_status = AWAITING_ACCEPTANCE,
     pr_initiator_user_id = 4, pr_assigned_manager_user_id = 5,
     pr_creation_client_request_id = ''c1'', pr_request_fingerprint = replicate 64 (CHR ''0''),
     pr_current_revision_id = 51, pr_final_movement_id = None, pr_state_version = 3,
     pr_completed_at = None \<rparr>"

definition sample_revision_line :: "uuid \<Rightarrow> int \<Rightarrow> int \<Rightarrow> procurement_revision_line" where
  "sample_revision_line i n q = \<lparr> rl_id = i, rl_revision_id = 51, rl_line_no = n,
     rl_line_type = EXISTING_ITEM, rl_catalog_item_id = Some 20, rl_display_snapshot = JObj [],
     rl_expected_identity_signature = sample_signature, rl_quantity = q \<rparr>"

definition sample_procurement :: db where
  "sample_procurement = sample_db\<lparr>
     items := [(sample_item 20 ''Patch cord'')\<lparr>it_identity_signature := sample_signature\<rparr>],
     procurement_requests := [sample_request],
     procurement_revisions := [\<lparr> rv_id = 51, rv_request_id = 50, rv_revision_number = 1,
       rv_submitted_by_user_id = 4, rv_submitted_by_display_name_snapshot = ''User'',
       rv_general_comment = None, rv_line_count = 2 \<rparr>],
     procurement_revision_lines := [sample_revision_line 52 1 3, sample_revision_line 53 2 4],
     procurement_events :=
       [sample_event 60 REQUEST_CREATED 4 ''c1'' None (Some AGREEMENT_PENDING_MANAGER),
        sample_event 61 MANAGER_ACCEPTED 5 ''a1'' (Some AGREEMENT_PENDING_MANAGER) (Some PURCHASING),
        sample_event 62 TRANSFERRED_TO_ACCEPTANCE 5 ''t1'' (Some PURCHASING) (Some AWAITING_ACCEPTANCE)]\<rparr>"

definition sample_env :: procurement_env where
  "sample_env = \<lparr> pe_sha256 = sample_digest, pe_schema = sample_schema, pe_item_id = 70,
     pe_deep_link = (\<lambda>_. None), pe_now = 30, pe_year = ''2026'', pe_sequence = 2, pe_request_id = 71,
     pe_revision_id = 72, pe_event_id = 73, pe_movement_id = 74, pe_line_id = (\<lambda>n. 80 + n),
     pe_outbox_id = (\<lambda>n. 90 + n) \<rparr>"

definition sample_completion :: procurement_acceptance_create where
  "sample_completion = \<lparr> em_expected_state_version = 3, em_expected_revision_id = 51,
     em_client_request_id = ''k1'', pa_receiving_location_id = 10 \<rparr>"

definition sample_correction :: correction_request where
  "sample_correction = \<lparr> em_expected_state_version = 3, em_expected_revision_id = 51,
     em_client_request_id = ''k2'', cq_comment = ''No'', cq_alternative_proposal = None \<rparr>"

lemmas procurement_data = sample_signature_def sample_event_def sample_request_def
  sample_revision_line_def sample_procurement_def sample_env_def sample_completion_def
  sample_correction_def sample_data

lemma procurement_texts [eval_simps]:
  "normalize_idempotency_key ''k1'' = ''k1''" "normalize_idempotency_key ''k2'' = ''k2''"
  by code_simp+

lemma sample_procurement_inv: "procurement_inv sample_procurement"
  by (simp add: procurement_inv_def request_ok_def revisions_ok_def receipts_distinct_def
      request_checks_def completion_state_def validate_procurement_current_revision_def events_of_def
      transition_allowed_def revision_line_count_def revision_line_checks_def hex64_def eval_simps
      procurement_data)

lemma sample_procurement_warehouse: "inventory_inv sample_procurement"
proof -
  have "warehouse_inv sample_procurement"
    by (rule warehouse_inv_cong [OF sample_db_inv])
      (simp_all add: sample_procurement_def custody_holders_eligible_def sample_db_def)
  then show ?thesis
    using sample_db_inventory_inv journal_sealed_cong [of sample_procurement sample_db]
    by (simp add: inventory_inv_def sample_procurement_def locations_ok_def stock_at_active_def get_loc_def)
qed

definition sample_delivery_key :: string where
  "sample_delivery_key = ''procurement:'' @ uuid_str 50"

lemma sample_delivery_key_text [eval_simps]:
  "normalize_idempotency_key sample_delivery_key = sample_delivery_key" "length sample_delivery_key = 48"
  "sample_delivery_key \<noteq> []" "btrim sample_delivery_key \<noteq> []"
  "text_parameter sample_delivery_key = Inr ()"
  by code_simp+

declare complete_acceptance_def [eval_simps] return_for_correction_def [eval_simps]
  mutation_def [eval_simps] lock_and_validate_expected_def [eval_simps]
  get_request_record_def [eval_simps] get_request_def [eval_simps]
  normalize_client_request_id_def [eval_simps] lock_and_require_actor_capabilities_def [eval_simps]
  require_status_def [eval_simps] current_lines_def [eval_simps] current_revision_def [eval_simps]
  revisions_of_def [eval_simps] revision_lines_def [eval_simps] check_acceptance_lines_def [eval_simps]
  check_acceptance_line_def [eval_simps] bound_item_id_def [eval_simps] binding_of_def [eval_simps]
  validate_aggregated_item_quantities_def [eval_simps] add_quantity_def [eval_simps]
  dict_get_def [eval_simps] MAX_AGGREGATED_ITEM_QUANTITY_def [eval_simps]
  set_status_def [eval_simps] transition_allowed_def [eval_simps]
  write_request_def [eval_simps] save_request_def [eval_simps] add_event_def [eval_simps]
  insert_event_def [eval_simps] announce_def [eval_simps] result_def [eval_simps]
  enqueue_procurement_notifications_def [eval_simps]
  request_checks_def [eval_simps] completion_state_def [eval_simps]
  protect_procurement_final_movement_binding_def [eval_simps] adjusted_movement_def [eval_simps]
  validate_procurement_revision_publication_def [eval_simps] is_publication_def [eval_simps]
  event_checks_def [eval_simps] event_revision_fk_def [eval_simps] comment_ok_def [eval_simps]
  procurement_event_row_def [eval_simps] normalize_comment_def [eval_simps]

lemma sample_procurement_tables [eval_simps]:
  "users sample_procurement = users sample_db" "locations sample_procurement = locations sample_db"
  "telegram_identities sample_procurement = []" "movements sample_procurement = []"
  "movement_lines sample_procurement = []" "stock_balances sample_procurement = []"
  "user_item_custody_balances sample_procurement = []"
  "procurement_line_catalog_bindings sample_procurement = []"
  "items sample_procurement = [(sample_item 20 ''Patch cord'')\<lparr>it_identity_signature := sample_signature\<rparr>]"
  "procurement_requests sample_procurement = [sample_request]"
  "procurement_revision_lines sample_procurement = [sample_revision_line 52 1 3, sample_revision_line 53 2 4]"
  by (simp_all add: sample_procurement_def sample_db_def)

lemma sample_snapshot [eval_simps]:
  "telegram_identities d = [] \<Longrightarrow> actor_snapshot d i = uuid_str i"
  by (simp add: actor_snapshot_def get_identity_def display_name_def)

lemma no_recipients [eval_simps]:
  "telegram_identities d = [] \<Longrightarrow> telegram_user_ids_for_users d us = []"
  by (simp add: telegram_user_ids_for_users_def)

lemma sample_uuid_texts [eval_simps]:
  "normalize_idempotency_key (uuid_str 2) = uuid_str 2" "length (uuid_str 2) = 36"
  "uuid_str 2 \<noteq> []" "btrim (uuid_str 2) \<noteq> []" "btrim (uuid_str 5) \<noteq> []"
  by code_simp+

definition sample_record :: procurement_record where
  "sample_record = \<lparr> prr_request = sample_request,
     prr_revisions = procurement_revisions sample_procurement,
     prr_events = procurement_events sample_procurement \<rparr>"

lemma sample_record_run: "get_request_record sample_procurement 50 = Inr sample_record"
  by (simp add: get_request_record_def get_request_def revisions_of_def events_of_def sample_record_def
      procurement_data)

lemma sample_lines_run:
  "current_lines sample_procurement sample_record = Inr [sample_revision_line 52 1 3, sample_revision_line 53 2 4]"
  by (simp add: current_lines_def current_revision_def revision_lines_def sample_record_def procurement_data)

lemma sample_bound: "bound_item_id (binding_of sample_procurement) (sample_revision_line i n q) = Some 20"
  by (simp add: bound_item_id_def sample_revision_line_def)

lemma sample_line_quantity: "rl_quantity (sample_revision_line i n q) = q"
  by (simp add: sample_revision_line_def)

lemma sample_check_run:
  "check_acceptance_lines sample_procurement [sample_revision_line 52 1 3, sample_revision_line 53 2 4] = Inr ()"
  by (simp add: check_acceptance_lines_def check_acceptance_line_def sample_bound get_item_def
      List.map_filter_def eval_simps sample_item_def sample_revision_line_def)

lemma sample_quantities_run:
  "validate_aggregated_item_quantities (bound_item_id (binding_of sample_procurement))
     [sample_revision_line 52 1 3, sample_revision_line 53 2 4] = Inr [(20, 7)]"
  by (simp add: validate_aggregated_item_quantities_def add_quantity_def sample_bound dict_get_def
      MAX_AGGREGATED_ITEM_QUANTITY_def sample_line_quantity)

definition sample_delivery :: movement where
  "sample_delivery = sample_receipt_movement\<lparr>mv_id := 74, mv_line_count := 1, mv_occurred_at := 30,
     mv_client_request_id := sample_delivery_key,
     mv_actor_display_name_snapshot := uuid_str 2\<rparr>"

definition sample_delivery_line :: movement_line where
  "sample_delivery_line = \<lparr> ml_movement_id = 74, ml_line_no = 1, ml_item_id = 20, ml_quantity = 7,
     ml_item_name_snapshot = ''Patch cord'', ml_manufacturer_name_snapshot = None,
     ml_model_snapshot = None \<rparr>"

definition sample_received :: db where
  "sample_received = sample_procurement\<lparr>movements := [sample_delivery],
     movement_lines := [sample_delivery_line],
     stock_balances := [\<lparr> sb_item_id = 20, sb_location_id = 10, sb_quantity = 7 \<rparr>]\<rparr>"

lemma sample_receipt_payload:
  "receipt_payload 50 10 [(20, 7)] = \<lparr> mc_movement_type = RECEIPT, mc_source_location_id = None,
     mc_destination_location_id = Some 10, mc_original_movement_id = None,
     mc_client_request_id = sample_delivery_key, mc_lines = [sample_line 20 7] \<rparr>"
  by (simp add: receipt_payload_def sample_delivery_key_def sample_line_def)

lemma sample_delivery_run:
  "create_movement sample_digest sample_procurement 74 30 (receipt_payload 50 10 [(20, 7)]) 2 (uuid_str 2) None =
     Inr (sample_received, \<lparr> res_record = \<lparr> rec_movement = sample_delivery,
       rec_lines = [sample_delivery_line] \<rparr>, res_replayed = False \<rparr>)"
  by (simp add: eval_simps sample_receipt_payload sample_received_def sample_delivery_def
      sample_delivery_line_def sample_data Let_def)

lemma sample_opening:
  assumes "em_expected_state_version p = 3" "em_expected_revision_id p = 51"
    and "normalize_client_request_id (em_client_request_id p) = Inr k"
    and "previous_event sample_procurement 50 actor k = None" and "capable sample_procurement actor cs"
  shows "mutation sample_env sample_procurement 50 p pl actor t cs body =
    body sample_record k (replicate 64 (CHR ''0''))"
  using assms
  by (simp add: mutation_def lock_and_validate_expected_def sample_record_run Let_def previous_event_def
      sample_record_def sample_request_def capable_run sample_env_def sample_fingerprint)

lemma sample_key [eval_simps]:
  "normalize_client_request_id ''k1'' = Inr ''k1''" "normalize_client_request_id ''k2'' = Inr ''k2''"
  by (simp_all add: normalize_client_request_id_def procurement_texts)

lemma sample_capable [eval_simps]:
  "capable sample_procurement 2 [PROCUREMENT_ACCEPT]" "capable sample_procurement 5 [PROCUREMENT_MANAGE]"
  "\<not> capable sample_procurement 4 [PROCUREMENT_CREATE]"
  by (simp_all add: capable_def get_user_def sample_procurement_tables sample_db_def sample_user_def)

lemma sample_new_key [eval_simps]:
  "previous_event sample_procurement 50 2 ''k1'' = None" "previous_event sample_procurement 50 5 ''k2'' = None"
  by (simp_all add: previous_event_def sample_procurement_def sample_event_def)

definition sample_closed :: procurement_request where
  "sample_closed = sample_request\<lparr>pr_status := COMPLETED, pr_state_version := 4,
     pr_final_movement_id := Some 74, pr_completed_at := Some 30\<rparr>"

definition sample_closing_event :: procurement_event where
  "sample_closing_event = procurement_event_row sample_env 50 EV_COMPLETED 2 (uuid_str 2) ''k1''
     (replicate 64 (CHR ''0'')) (Some AWAITING_ACCEPTANCE) (Some COMPLETED) (Some 51) None
     (Some (JObj [(''movement_id'', JStr (uuid_str 74)), (''receiving_location_id'', JStr (uuid_str 10))]))"

definition sample_completed :: db where
  "sample_completed = sample_received\<lparr>procurement_requests := [sample_closed],
     procurement_events := procurement_events sample_procurement @ [sample_closing_event]\<rparr>"

lemma sample_write_run:
  "write_request sample_received sample_closed =
     Inr (sample_received\<lparr>procurement_requests := [sample_closed]\<rparr>)"
  by (simp add: write_request_def save_request_def protect_procurement_final_movement_binding_def
      request_checks_def completion_state_def sample_closed_def sample_request_def sample_received_def
      get_request_def adjusted_movement_def table_update_def eval_simps sample_delivery_def
      sample_receipt_movement_def)

lemma sample_close_run:
  "add_event (sample_received\<lparr>procurement_requests := [sample_closed]\<rparr>) sample_closing_event =
     Inr sample_completed"
  by (simp add: add_event_def insert_event_def sample_closing_event_def procurement_event_row_def
      validate_procurement_revision_publication_def is_publication_def event_checks_def comment_ok_def
      event_revision_fk_def sample_completed_def sample_received_def sample_env_def eval_simps
      sample_procurement_def sample_event_def)

lemma sample_completion_fields:
  "em_expected_state_version sample_completion = 3" "em_expected_revision_id sample_completion = 51"
  "normalize_client_request_id (em_client_request_id sample_completion) = Inr ''k1''" "pa_receiving_location_id sample_completion = 10"
  by (simp_all add: sample_completion_def sample_key)

lemma sample_env_fields:
  "pe_sha256 sample_env = sample_digest" "pe_movement_id sample_env = 74" "pe_now sample_env = 30"
  by (simp_all add: sample_env_def)

lemma sample_record_fields:
  "prr_request sample_record = sample_request" "pr_status sample_request = AWAITING_ACCEPTANCE"
  "pr_current_revision_id sample_request = 51"
  by (simp_all add: sample_record_def sample_request_def)

lemma sample_status_run:
  "set_status sample_request COMPLETED = Inr (sample_request\<lparr>pr_status := COMPLETED, pr_state_version := 4\<rparr>)"
  by (simp add: set_status_def transition_allowed_def sample_request_def)

lemma sample_delivery_id: "mv_id sample_delivery = 74"
  by (simp add: sample_delivery_def)

lemma sample_closed_fields:
  "pr_status sample_closed = COMPLETED" "pr_current_revision_id sample_closed = 51"
  by (simp_all add: sample_closed_def sample_request_def)

lemmas sample_closed_fold = sample_closed_def [symmetric]

lemma sample_completion_run:
  "\<exists>rec. run_call sample_env sample_procurement 50 (Complete sample_completion) 2 = Inr (sample_completed, rec)"
proof -
  have "run_call sample_env sample_procurement 50 (Complete sample_completion) 2 =
      ebind (announce sample_env sample_completed sample_closed action_completed
        [sample_revision_line 52 1 3, sample_revision_line 53 2 4] (acceptance_participants sample_record))
        (\<lambda>d. result d 50)"
    by (simp only: run_call.simps complete_acceptance_def
      sample_opening [OF sample_completion_fields(1-3) sample_new_key(1) sample_capable(1)])
     (simp add: sample_lines_run sample_check_run sample_quantities_run sample_delivery_run require_status_def
       sample_record_fields sample_completion_fields sample_env_fields sample_snapshot sample_procurement_tables
       sample_status_run sample_delivery_id sample_closed_fields
       sample_closed_fold sample_write_run sample_closing_event_def [symmetric] sample_close_run)
  then show ?thesis
    by (simp add: announce_def enqueue_procurement_notifications_def Let_def eval_simps result_def
      sample_completed_def sample_received_def sample_closed_def sample_request_def get_request_record_def get_request_def)
qed

definition sample_reopened :: procurement_request where
  "sample_reopened = sample_request\<lparr>pr_status := AGREEMENT_REVISION_REQUIRED, pr_state_version := 4\<rparr>"

definition sample_return_event :: procurement_event where
  "sample_return_event = procurement_event_row sample_env 50 CORRECTION_REQUESTED 5 (uuid_str 5) ''k2''
     (replicate 64 (CHR ''0'')) (Some AWAITING_ACCEPTANCE) (Some AGREEMENT_REVISION_REQUIRED) (Some 51)
     (Some ''No'') None"

definition sample_returned :: db where
  "sample_returned = sample_procurement\<lparr>procurement_requests := [sample_reopened],
     procurement_events := procurement_events sample_procurement @ [sample_return_event]\<rparr>"

lemma sample_correction_fields:
  "em_expected_state_version sample_correction = 3" "em_expected_revision_id sample_correction = 51"
  "normalize_client_request_id (em_client_request_id sample_correction) = Inr ''k2''"
  "cq_comment sample_correction = ''No''" "cq_alternative_proposal sample_correction = None"
  by (simp_all add: sample_correction_def sample_key)

lemma sample_reopen_run:
  "set_status sample_request AGREEMENT_REVISION_REQUIRED = Inr sample_reopened"
  by (simp add: set_status_def transition_allowed_def sample_request_def sample_reopened_def)

lemma sample_reopened_fields:
  "pr_status sample_reopened = AGREEMENT_REVISION_REQUIRED" "pr_current_revision_id sample_reopened = 51"
  "pr_initiator_user_id sample_reopened = 4"
  by (simp_all add: sample_reopened_def sample_request_def)

lemma sample_rewrite_run:
  "write_request sample_procurement sample_reopened =
     Inr (sample_procurement\<lparr>procurement_requests := [sample_reopened]\<rparr>)"
  by (simp add: write_request_def save_request_def protect_procurement_final_movement_binding_def
      request_checks_def completion_state_def sample_reopened_def sample_request_def
      get_request_def table_update_def eval_simps)

lemma sample_comment_run: "normalize_comment (Some ''No'') True = Inr (Some ''No'')"
  by code_simp

lemma sample_return_event_run:
  "add_event (sample_procurement\<lparr>procurement_requests := [sample_reopened]\<rparr>) sample_return_event =
     Inr sample_returned"
  by (simp add: add_event_def insert_event_def sample_return_event_def procurement_event_row_def
      validate_procurement_revision_publication_def is_publication_def event_checks_def comment_ok_def
      event_revision_fk_def sample_returned_def sample_env_def eval_simps
      sample_procurement_def sample_event_def)

lemma sample_correction_run:
  "\<exists>rec. run_call sample_env sample_procurement 50 (Correct sample_correction) 5 = Inr (sample_returned, rec)"
proof -
  have "run_call sample_env sample_procurement 50 (Correct sample_correction) 5 =
      ebind (announce sample_env sample_returned sample_reopened action_correction
        [sample_revision_line 52 1 3, sample_revision_line 53 2 4] {4}) (\<lambda>d. result d 50)"
    by (simp only: run_call.simps return_for_correction_def
      sample_opening [OF sample_correction_fields(1-3) sample_new_key(2) sample_capable(2)])
     (simp add: sample_lines_run require_status_def sample_record_fields sample_correction_fields
       sample_snapshot sample_procurement_tables sample_reopen_run sample_reopened_fields
       sample_rewrite_run sample_comment_run sample_return_event_def [symmetric] sample_return_event_run)
  then show ?thesis
    by (simp add: announce_def enqueue_procurement_notifications_def Let_def eval_simps result_def
      sample_returned_def sample_reopened_def sample_request_def get_request_record_def get_request_def)
qed

end
