(* ===== verification/Procurement_Safety.thy ===== *)
theory Procurement_Safety
  imports Procurement_Samples
begin

text \<open>
  What the procurement service guarantees to its callers: a mutation is applied against
  the state it was made for and leaves exactly one event, a repeated call does nothing, a
  concurrent one is rejected, a completed request never changes, and the calls that succeed
  are among the actions the service offers. Acceptance books the sum of the lines of each
  item as one receipt.
\<close>

section \<open>One mutation\<close>

text \<open>What one accepted mutation does to the procurement tables.\<close>

definition mutated :: "uuid \<Rightarrow> string \<Rightarrow> string \<Rightarrow> procurement_event_type \<Rightarrow> db \<Rightarrow> uuid \<Rightarrow> db \<Rightarrow> bool" where
  "mutated actor key fingerprint event_type d i d' \<longleftrightarrow>
     (\<exists>r r' e. get_request d i = Some r \<and> get_request d' i = Some r' \<and> request_step r e r' \<and>
        event_of actor key fingerprint event_type e \<and>
        procurement_events d' = procurement_events d @ [e] \<and>
        (\<forall>j. j \<noteq> i \<longrightarrow> get_request d' j = get_request d j) \<and>
        (\<exists>vs. procurement_revisions d' = procurement_revisions d @ vs) \<and>
        (\<exists>ls. procurement_revision_lines d' = procurement_revision_lines d @ ls) \<and>
        (\<exists>bs. procurement_line_catalog_bindings d' = procurement_line_catalog_bindings d @ bs) \<and>
        journal_extends d d' \<and> users d' = users d)"

lemma get_request_id: "get_request d i = Some r \<Longrightarrow> pr_id r = i"
  by (auto simp: get_request_def dest: table_get_SomeD)

lemma changed_mutated:
  assumes r: "get_request d i = Some r" and ch: "changed env actor key fp t d r d'"
  shows "mutated actor key fp t d i d'"
proof (rule changed_effect [OF ch], goal_cases)
  case (1 d0 r' e)
  have i: "pr_id r = i" using r by (rule get_request_id)
  have id: "pr_id r' = i" using 1(2) i by (simp add: request_step_def)
  have get: "get_request d' j = (if j = i then Some r' else get_request d j)" for j
    using r id i by (simp add: get_request_def 1(8) table_get_update)
  have ext: "journal_extends d d'"
    using preparation_frame [OF 1(1)] 1(14,15) by (simp add: journal_extends_def)
  show ?case
    unfolding mutated_def
    by (rule exI [of _ r], rule exI [of _ r'], rule exI [of _ e])
      (use preparation_frame [OF 1(1)] 1 r get ext in simp)
qed

text \<open>
  C22. A mutation of a procurement request that succeeds either is the repetition of an
  earlier call (same actor, key, kind and payload), and then it changes nothing; or it was
  made against the current state version and revision by an approved user with the
  capabilities of the action, and then the request moves along the transition table to the
  next state version, exactly one event is appended, no other request changes, and
  revisions, lines, bindings and the journal are only appended to.
\<close>

theorem procurement_mutation_effect:
  assumes "run_call env d i c actor = Inr (d', rec)"
  shows "capable d actor (call_capabilities c) \<and>
    (\<exists>key. normalize_client_request_id (em_client_request_id (call_expected c)) = Inr key \<and>
      ((d' = d \<and> (\<exists>e. previous_event d i actor key = Some e \<and> ev_event_type e = call_event c \<and>
          ev_request_fingerprint e = canonical_fingerprint (pe_sha256 env) (call_payload c))) \<or>
       (previous_event d i actor key = None \<and>
        (\<exists>r. get_request d i = Some r \<and>
          pr_state_version r = em_expected_state_version (call_expected c) \<and>
          pr_current_revision_id r = em_expected_revision_id (call_expected c)) \<and>
        mutated actor key (canonical_fingerprint (pe_sha256 env) (call_payload c)) (call_event c) d i d')))"
proof (rule calls.run_cases [OF assms], goal_cases)
  case (1 r key e)
  then show ?case by blast
next
  case (2 r key)
  from changed_mutated [OF 2(1) 2(7)] 2 show ?case by blast
qed

lemma procurement_mutation_shape:
  assumes "run_call env d i c actor = Inr (d', rec)" and "d' \<noteq> d"
  shows "\<exists>key fp. mutated actor key fp (call_event c) d i d'"
proof (rule calls.run_cases [OF assms(1)], goal_cases)
  case (2 r key)
  from changed_mutated [OF 2(1) 2(7)] show ?case by blast
qed (use assms(2) in simp)

section \<open>Repetition and concurrency\<close>

inductive procurement_step :: "catalog_env \<Rightarrow> db \<Rightarrow> db \<Rightarrow> bool" for ce where
  step_create_request:
    "create_request env d p actor = Inr (d', rec) \<Longrightarrow> pe_catalog env = ce \<Longrightarrow>
       procurement_step ce d d'"
| step_call:
    "run_call env d i c actor = Inr (d', rec) \<Longrightarrow> pe_catalog env = ce \<Longrightarrow>
       procurement_step ce d d'"

inductive_cases procurement_stepE: "procurement_step ce d d'"

lemma procurement_step_inv:
  assumes "procurement_step ce d d'" and "procurement_inv d"
  shows "procurement_inv d'"
  using assms by cases (blast intro: create_request_inv run_call_inv)+

text \<open>Events are append-only and requests are never deleted.\<close>

definition procurement_extends :: "db \<Rightarrow> db \<Rightarrow> bool" where
  "procurement_extends d d' \<longleftrightarrow>
     (\<exists>es. procurement_events d' = procurement_events d @ es) \<and>
     (\<forall>i. get_request d i \<noteq> None \<longrightarrow> get_request d' i \<noteq> None) \<and> users d' = users d"

lemma procurement_extends_trans:
  "procurement_extends a b \<Longrightarrow> procurement_extends b c \<Longrightarrow> procurement_extends a c"
  by (auto simp: procurement_extends_def)

lemma create_request_extends:
  assumes "create_request env d p actor = Inr (d', rec)"
  shows "procurement_extends d d'"
  using assms
proof (cases rule: create_request_cases)
  case replay
  then show ?thesis by (simp add: procurement_extends_def)
next
  case (fresh r v lines e d1 d2 d3 d4)
  note q = insert_request_Inr [OF fresh(3)] and w = insert_revision_Inr [OF fresh(4)]
    and l = insert_lines_Inr_procurement [OF fresh(5)] and ev = add_event_Inr [OF fresh(6)]
    and out = same_but_outboxD [OF fresh(7)]
  have "procurement_requests d' = procurement_requests d @ [r]"
    "procurement_events d' = procurement_events d @ [e]" "users d' = users d"
    using q(1) w(1) l ev(1) out by simp_all
  then show ?thesis
    by (simp add: procurement_extends_def get_request_def table_get_append split: option.splits)
qed

lemma run_call_extends:
  assumes "run_call env d i c actor = Inr (d', rec)"
  shows "procurement_extends d d'"
proof (rule calls.run_cases [OF assms], goal_cases)
  case 1
  then show ?case by (simp add: procurement_extends_def)
next
  case (2 r key)
  from changed_mutated [OF 2(1) 2(7)] show ?case
    unfolding mutated_def procurement_extends_def by (metis option.distinct(1))
qed

lemma procurement_steps_extend:
  "(procurement_step ce)\<^sup>*\<^sup>* d d' \<Longrightarrow> procurement_extends d d'"
proof (induction rule: rtranclp_induct)
  case base
  then show ?case by (simp add: procurement_extends_def)
next
  case (step y z)
  from step(2) have "procurement_extends y z"
    by cases (blast intro: create_request_extends run_call_extends)+
  with step(3) show ?case by (rule procurement_extends_trans)
qed

lemma previous_event_extends:
  assumes "procurement_events d' = procurement_events d @ es" and "previous_event d i actor key = Some e"
  shows "previous_event d' i actor key = Some e"
  using assms by (simp add: previous_event_def find_append)

lemma previous_event_mutated:
  assumes "mutated actor key fp t d i d'" and "previous_event d i actor key = None"
  shows "\<exists>e. previous_event d' i actor key = Some e \<and> ev_event_type e = t \<and> ev_request_fingerprint e = fp"
proof -
  obtain r r' e where e: "procurement_events d' = procurement_events d @ [e]" "request_step r e r'"
    "event_of actor key fp t e" "get_request d i = Some r"
    using assms(1) unfolding mutated_def by blast
  then show ?thesis
    using assms(2) get_request_id [OF e(4)]
    by (auto simp: previous_event_def find_append event_of_def request_step_def)
qed

text \<open>
  C23. Exactly once: after a mutation has succeeded, sending the same call again (same
  actor, key and payload), at once or after any number of other procurement transactions,
  answers with the current request and changes nothing.
\<close>

theorem repeated_call_changes_nothing:
  assumes run: "run_call env d i c actor = Inr (d', rec)"
    and later: "(procurement_step ce)\<^sup>*\<^sup>* d' d''" and sha: "pe_sha256 env' = pe_sha256 env"
  shows "\<exists>rec'. run_call env' d'' i c actor = Inr (d'', rec') \<and> get_request_record d'' i = Inr rec'"
proof -
  note ext = procurement_extends_trans [OF run_call_extends [OF run] procurement_steps_extend [OF later]]
  obtain es where es: "procurement_events d'' = procurement_events d' @ es"
    using procurement_steps_extend [OF later] by (auto simp: procurement_extends_def)
  have "\<exists>key r e. normalize_client_request_id (em_client_request_id (call_expected c)) = Inr key \<and>
      get_request d i = Some r \<and> previous_event d' i actor key = Some e \<and> ev_event_type e = call_event c \<and>
      ev_request_fingerprint e = canonical_fingerprint (pe_sha256 env) (call_payload c) \<and>
      capable d actor (call_capabilities c)"
  proof (rule calls.run_cases [OF run], goal_cases)
    case (1 r key e)
    then show ?case by auto
  next
    case (2 r key)
    from previous_event_mutated [OF changed_mutated [OF 2(1) 2(7)] 2(3)] 2 show ?case by blast
  qed
  then obtain key r e where k: "normalize_client_request_id (em_client_request_id (call_expected c)) = Inr key"
    and r: "get_request d i = Some r" and e: "previous_event d' i actor key = Some e"
    "ev_event_type e = call_event c"
    "ev_request_fingerprint e = canonical_fingerprint (pe_sha256 env) (call_payload c)"
    and cap: "capable d actor (call_capabilities c)" by blast
  obtain r'' where "get_request d'' i = Some r''"
    using ext r unfolding procurement_extends_def by (metis option.distinct(1) option.exhaust)
  moreover have "capable d'' actor (call_capabilities c)"
    using cap ext by (simp add: capable_def get_user_def procurement_extends_def)
  ultimately show ?thesis
    using calls.run_replay [OF _ k previous_event_extends [OF es e(1)] e(2)] e(3) sha by metis
qed

text \<open>
  C24. No lost update: once a mutation has changed a request, any other call that was made
  against the same state version is rejected as stale, whoever makes it and whatever it asks
  for, unless it repeats a call already answered.
\<close>

theorem concurrent_mutation_is_stale:
  assumes run: "run_call env d i c actor = Inr (d', rec)"
    and changed: "procurement_events d' \<noteq> procurement_events d"
    and same: "em_expected_state_version (call_expected c2) = em_expected_state_version (call_expected c)"
    and key: "normalize_client_request_id (em_client_request_id (call_expected c2)) = Inr key2"
    and new: "previous_event d' i actor2 key2 = None"
  shows "run_call env2 d' i c2 actor2 = Inl (ProcurementConflictError ''stale_state'')"
proof (rule calls.run_cases [OF run], goal_cases)
  case 1
  then show ?case using changed by simp
next
  case (2 r key)
  from changed_mutated [OF 2(1) 2(7)] obtain r' where r': "get_request d' i = Some r'"
    "pr_state_version r' = pr_state_version r + 1"
    using 2(1) by (auto simp: mutated_def request_step_def)
  show ?case by (rule calls.run_stale [OF r'(1) key new]) (use r'(2) 2(5) same in simp)
qed

section \<open>Offered actions\<close>

fun call_action :: "procurement_call \<Rightarrow> string" where
  "call_action (Accept p) = ''manager_accept''"
| "call_action (Correct p) = ''return_for_correction''"
| "call_action (Resubmit p) = ''submit_revision''"
| "call_action (Take_Over p) = ''take_ownership''"
| "call_action (Reassign p) = ''transfer_manager''"
| "call_action (Hand_Over p) = ''transfer_to_acceptance''"
| "call_action (Bind_Line p) = ''bind_lines''"
| "call_action (Create_And_Bind p) = ''bind_lines''"
| "call_action (Report p) = ''report_discrepancy''"
| "call_action (Complete p) = ''complete_acceptance''"

text \<open>The guards the handlers evaluate on the locked request.\<close>

fun call_guard :: "db \<Rightarrow> procurement_record \<Rightarrow> uuid \<Rightarrow> procurement_call \<Rightarrow> bool" where
  "call_guard d rec actor (Accept p) \<longleftrightarrow> pr_status (prr_request rec) = AGREEMENT_PENDING_MANAGER"
| "call_guard d rec actor (Correct p) \<longleftrightarrow>
     pr_status (prr_request rec) \<in> {AGREEMENT_PENDING_MANAGER, AWAITING_ACCEPTANCE}"
| "call_guard d rec actor (Resubmit p) \<longleftrightarrow>
     pr_status (prr_request rec) = AGREEMENT_REVISION_REQUIRED \<and>
     pr_initiator_user_id (prr_request rec) = actor"
| "call_guard d rec actor (Take_Over p) \<longleftrightarrow>
     pr_status (prr_request rec) \<noteq> COMPLETED \<and> pr_assigned_manager_user_id (prr_request rec) \<noteq> actor"
| "call_guard d rec actor (Reassign p) \<longleftrightarrow> pr_status (prr_request rec) \<noteq> COMPLETED"
| "call_guard d rec actor (Hand_Over p) \<longleftrightarrow> pr_status (prr_request rec) = PURCHASING"
| "call_guard d rec actor (Report p) \<longleftrightarrow> pr_status (prr_request rec) = AWAITING_ACCEPTANCE"
| "call_guard d rec actor (Complete p) \<longleftrightarrow> pr_status (prr_request rec) = AWAITING_ACCEPTANCE"
| "call_guard d rec actor _ \<longleftrightarrow> pr_status (prr_request rec) \<noteq> COMPLETED \<and>
     (\<exists>ls. current_lines d rec = Inr ls \<and>
        (\<exists>l\<in>set ls. rl_line_type l = PROPOSED_ITEM \<and> binding_of d l = None))"

lemma mutation_Inr:
  assumes "mutation env d i p pl actor t cs body = Inr (d', rec')" and "get_request_record d i = Inr rec"
  shows "d' = d \<or> (\<exists>key fp. body rec key fp = Inr (d', rec'))"
  using assms
  by (auto simp: mutation_def lock_and_validate_expected_def ebind_Inr_iff Let_def
      split: option.splits if_splits)

lemma transition_source:
  "transition_allowed s PURCHASING \<longleftrightarrow> s = AGREEMENT_PENDING_MANAGER"
  "transition_allowed s AWAITING_ACCEPTANCE \<longleftrightarrow> s = PURCHASING"
  "s \<in> set ACTIVE_PROCUREMENT_STATUSES \<longleftrightarrow> s \<noteq> COMPLETED"
  by (cases s; simp add: transition_allowed_def ACTIVE_PROCUREMENT_STATUSES_def)+

lemma find_proposed_line_Inr:
  assumes "find_proposed_line d rec line_id = Inr line"
  shows "pr_status (prr_request rec) \<noteq> COMPLETED \<and> (\<exists>ls. current_lines d rec = Inr ls \<and>
     line \<in> set ls \<and> rl_id line = line_id \<and> rl_line_type line = PROPOSED_ITEM \<and> binding_of d line = None)"
proof -
  from assms obtain ls where st: "pr_status (prr_request rec) \<noteq> COMPLETED" and ls: "current_lines d rec = Inr ls"
    and c: "(case find (\<lambda>l. rl_id l = line_id) ls of
       None \<Rightarrow> Inl (ProcurementNotFoundError ''line_not_found'')
     | Some line \<Rightarrow>
         if rl_line_type line \<noteq> PROPOSED_ITEM
         then Inl (ProcurementValidationError ''procurement_validation_error'')
         else if binding_of d line \<noteq> None
         then Inl (ProcurementConflictError ''line_already_bound'')
         else Inr line) = Inr line"
    unfolding find_proposed_line_def ebind_Inr_iff ensure_Inr_iff by blast
  then obtain x where x: "find (\<lambda>l. rl_id l = line_id) ls = Some x"
    by (cases "find (\<lambda>l. rl_id l = line_id) ls") simp_all
  then have f: "find (\<lambda>l. rl_id l = line_id) ls = Some line" and l: "rl_line_type line = PROPOSED_ITEM"
      "binding_of d line = None"
    using c by (simp_all split: if_split_asm)
  from f have "line \<in> set ls" "rl_id line = line_id" by (auto simp: find_Some_iff)
  then show ?thesis using st ls l by blast
qed

lemmas handler_guards = body_simps set_status_Inr transition_source require_status_def

lemma run_call_guard:
  assumes "run_call env d i c actor = Inr (d', rec')" and "get_request_record d i = Inr rec"
    and "d' \<noteq> d"
  shows "call_guard d rec actor c"
proof (cases c)
  case (Bind_Line p)
  with assms(1) obtain key fp line where "find_proposed_line d rec (lb_line_id p) = Inr line"
    using mutation_Inr [OF _ assms(2)] assms(3) by (fastforce simp: bind_line_def body_simps)
  then show ?thesis using find_proposed_line_Inr [of d rec "lb_line_id p" line] Bind_Line by auto
next
  case (Create_And_Bind p)
  with assms(1) obtain key fp line where "find_proposed_line d rec (pb_line_id p) = Inr line"
    using mutation_Inr [OF _ assms(2)] assms(3) by (fastforce simp: create_and_bind_line_def body_simps)
  then show ?thesis using find_proposed_line_Inr [of d rec "pb_line_id p" line] Create_And_Bind by auto
qed (use assms(1,3) mutation_Inr [OF _ assms(2)] in
  \<open>fastforce simp: manager_accept_def return_for_correction_def submit_revision_def take_ownership_def
    transfer_manager_def change_assignment_def transfer_to_acceptance_def report_discrepancy_def
    complete_acceptance_def handler_guards\<close>)+

lemma current_lines_ok:
  assumes "procurement_inv d" and "get_request_record d i = Inr rec"
  shows "current_lines d rec = Inr (revision_lines d (pr_current_revision_id (prr_request rec)))"
proof -
  have r: "get_request d i = Some (prr_request rec)" and vs: "prr_revisions rec = revisions_of d i"
    using assms(2) by (auto simp: get_request_record_def split: option.splits)
  have "request_ok d (prr_request rec)"
    using assms(1) r by (auto simp: procurement_inv_def get_request_def dest: table_get_SomeD)
  then obtain v where "v \<in> set (revisions_of d i)" "rv_id v = pr_current_revision_id (prr_request rec)"
    using get_request_id [OF r]
    by (auto simp: request_ok_def validate_procurement_current_revision_def revisions_of_def)
  then obtain w where "table_get rv_id (pr_current_revision_id (prr_request rec)) (prr_revisions rec) = Some w"
    unfolding vs by (metis table_get_None_iff image_eqI not_None_eq)
  moreover from this have "rv_id w = pr_current_revision_id (prr_request rec)"
    by (auto dest: table_get_SomeD)
  ultimately show ?thesis by (simp add: current_lines_def current_revision_def)
qed

text \<open>
  The service offers what it accepts: whenever a call changes a request, the action it
  performs is in the list \<open>available_actions\<close> computes for that user and request. In
  particular nothing changes a completed request.
\<close>

lemma accepted_calls_are_offered:
  assumes inv: "procurement_inv d" and run: "run_call env d i c actor = Inr (d', rec')"
    and "d' \<noteq> d" and u: "get_user d actor = Some u" and rec: "get_request_record d i = Inr rec"
  shows "\<exists>as. available_actions d rec u = Inr as \<and> call_action c \<in> set as \<and>
    pr_status (prr_request rec) \<noteq> COMPLETED"
proof -
  note guard = run_call_guard [OF run rec \<open>d' \<noteq> d\<close>]
  have "capable d actor (call_capabilities c)" by (rule calls.run_cases [OF run])
  then have caps: "\<forall>x\<in>set (call_capabilities c). has_capability (u_role u) x" and id: "u_id u = actor"
    using u get_user_id [OF u] by (simp_all add: capable_def)
  obtain ls where ls: "current_lines d rec = Inr ls" using current_lines_ok [OF inv rec] by blast
  show ?thesis
    using guard caps ls unfolding id [symmetric] available_actions_def Let_def
    by (cases c) (auto simp: transition_source)
qed

section \<open>Aggregated quantities\<close>

definition lines_total ::
    "(procurement_revision_line \<Rightarrow> uuid option) \<Rightarrow> procurement_revision_line list \<Rightarrow> uuid \<Rightarrow> int" where
  "lines_total item_of lines i = sum_list (map rl_quantity (filter (\<lambda>l. item_of l = Some i) lines))"

definition item_order ::
    "(procurement_revision_line \<Rightarrow> uuid option) \<Rightarrow> procurement_revision_line list \<Rightarrow> uuid list" where
  "item_order item_of lines = rev (remdups (rev (List.map_filter item_of lines)))"

lemma map_filter_snoc:
  "List.map_filter f (xs @ [x]) = List.map_filter f xs @ (case f x of None \<Rightarrow> [] | Some y \<Rightarrow> [y])"
  by (simp add: List.map_filter_def split: option.split)

lemma item_order_snoc:
  "item_order f (ls @ [l]) = (case f l of None \<Rightarrow> item_order f ls
     | Some i \<Rightarrow> if i \<in> set (item_order f ls) then item_order f ls else item_order f ls @ [i])"
  by (simp add: item_order_def map_filter_snoc split: option.split)

lemma lines_total_snoc:
  "lines_total f (ls @ [l]) i = lines_total f ls i + (if f l = Some i then rl_quantity l else 0)"
  by (simp add: lines_total_def)

lemma lines_total_nonneg: "\<forall>l\<in>set ls. 0 < rl_quantity l \<Longrightarrow> 0 \<le> lines_total f ls i"
  by (force simp: lines_total_def intro!: sum_list_nonneg)

lemma lines_total_none: "i \<notin> set (item_order f ls) \<Longrightarrow> lines_total f ls i = 0"
proof (induction ls rule: rev_induct)
  case (snoc l ls)
  then show ?case by (auto simp: item_order_snoc lines_total_snoc split: option.splits if_splits)
qed (simp add: lines_total_def)

lemma distinct_item_order: "distinct (item_order f ls)"
  by (simp add: item_order_def)

lemma update_map:
  "distinct js \<Longrightarrow> AList.update i v (map (\<lambda>j. (j, g j)) js) =
     (if i \<in> set js then map (\<lambda>j. (j, (g(i := v)) j)) js else map (\<lambda>j. (j, g j)) js @ [(i, v)])"
  by (induction js) auto

lemma dict_get_map: "dict_get (map (\<lambda>j. (j, g j)) js) i = (if i \<in> set js then g i else 0)"
  by (simp add: dict_get_def map_of_map_restrict restrict_map_def)

lemma aggregated_quantities_exact:
  assumes "\<forall>l\<in>set lines. 0 < rl_quantity l"
  shows "validate_aggregated_item_quantities item_of lines =
    (if \<forall>i\<in>set (item_order item_of lines). lines_total item_of lines i \<le> MAX_AGGREGATED_ITEM_QUANTITY
     then Inr (map (\<lambda>i. (i, lines_total item_of lines i)) (item_order item_of lines))
     else Inl (ProcurementValidationError ''aggregated_item_quantity_too_large''))"
  using assms
proof (induction lines rule: rev_induct)
  case Nil
  then show ?case by (simp add: validate_aggregated_item_quantities_def item_order_def)
next
  case (snoc l ls)
  let ?o = "item_order item_of ls" and ?t = "lines_total item_of ls"
  have IH: "efold (add_quantity item_of) ls [] =
    (if \<forall>i\<in>set ?o. ?t i \<le> MAX_AGGREGATED_ITEM_QUANTITY then Inr (map (\<lambda>i. (i, ?t i)) ?o)
     else Inl (ProcurementValidationError ''aggregated_item_quantity_too_large''))"
    using snoc by (simp add: validate_aggregated_item_quantities_def)
  have pos: "0 < rl_quantity l" using snoc.prems by simp
  show ?case
  proof (cases "item_of l")
    case None
    then have "lines_total item_of (ls @ [l]) = ?t" by (auto simp: lines_total_snoc)
    then show ?thesis
      using IH None
      by (simp add: validate_aggregated_item_quantities_def efold_snoc item_order_snoc add_quantity_def)
  next
    case (Some i)
    have t: "lines_total item_of (ls @ [l]) = ?t(i := ?t i + rl_quantity l)"
      using Some by (auto simp: lines_total_snoc)
    have g: "dict_get (map (\<lambda>i. (i, ?t i)) ?o) i = ?t i"
      using lines_total_none [of i item_of ls] by (simp add: dict_get_map)
    have set: "set (item_order item_of (ls @ [l])) = insert i (set ?o)"
      using Some by (auto simp: item_order_snoc)
    show ?thesis
    proof (cases "\<forall>i\<in>set ?o. ?t i \<le> MAX_AGGREGATED_ITEM_QUANTITY")
      case False
      then obtain j where "j \<in> set ?o" "MAX_AGGREGATED_ITEM_QUANTITY < ?t j" by force
      then have "j \<in> insert i (set ?o)" "\<not> (?t(i := ?t i + rl_quantity l)) j \<le> MAX_AGGREGATED_ITEM_QUANTITY"
        using pos by auto
      then have not: "\<not> (\<forall>j\<in>insert i (set ?o). (?t(i := ?t i + rl_quantity l)) j \<le> MAX_AGGREGATED_ITEM_QUANTITY)"
        by blast
      then show ?thesis
        unfolding validate_aggregated_item_quantities_def efold_snoc IH t set if_not_P [OF False]
          if_not_P [OF not] by simp
    next
      case True
      have "(\<forall>j\<in>insert i (set ?o). (?t(i := ?t i + rl_quantity l)) j \<le> MAX_AGGREGATED_ITEM_QUANTITY) \<longleftrightarrow>
          ?t i + rl_quantity l \<le> MAX_AGGREGATED_ITEM_QUANTITY"
        using True by auto
      then show ?thesis
        unfolding validate_aggregated_item_quantities_def efold_snoc IH t set
        using True Some g update_map [OF distinct_item_order, of i "?t i + rl_quantity l" ?t item_of ls]
        by (auto simp: add_quantity_def Let_def item_order_snoc)
    qed
  qed
qed

section \<open>Acceptance\<close>

lemma receipt_payload_quantity:
  assumes "distinct js"
  shows "payload_quantity (receipt_payload i location (map (\<lambda>j. (j, g j)) js)) k =
    (if k \<in> set js then g k else 0)"
proof -
  let ?q = "map (\<lambda>j. (j, g j)) js"
  have "payload_quantity (receipt_payload i location ?q) k =
      sum_list (map snd (filter (\<lambda>x. fst x = k) (sort_key fst ?q)))"
    by (simp add: payload_quantity_def receipt_payload_def filter_map comp_def split_def)
  also have "\<dots> = sum_mset (image_mset snd (filter_mset (\<lambda>x. fst x = k) (mset (sort_key fst ?q))))"
    by (simp add: sum_mset_sum_list [symmetric])
  also have "\<dots> = sum_mset (image_mset snd (filter_mset (\<lambda>x. fst x = k) (mset ?q)))"
    by (simp only: mset_sort)
  also have "\<dots> = sum_list (map snd (filter (\<lambda>x. fst x = k) ?q))"
    by (simp add: sum_mset_sum_list [symmetric])
  also have "\<dots> = (if k \<in> set js then g k else 0)"
    using assms by (induction js) auto
  finally show ?thesis .
qed

lemma check_acceptance_lines_Inr:
  assumes "check_acceptance_lines d lines = Inr ()" and "l \<in> set lines"
  shows "\<exists>j it. bound_item_id (binding_of d) l = Some j \<and> get_item d j = Some it \<and>
    it_status it = ITEM_ACTIVE \<and> it_identity_signature it = rl_expected_identity_signature l"
proof -
  from assms(1) obtain us where us: "emap (check_acceptance_line d) lines = Inr us"
    and bound: "bound_item_id (binding_of d) l \<noteq> None"
    using assms(2) by (auto simp: check_acceptance_lines_def Let_def ebind_Inr_iff ensure_Inr_iff split: if_splits)
  from us assms(2) have "check_acceptance_line d l = Inr ()"
    by (auto simp: emap_Inr_iff list_all2_conv_all_nth in_set_conv_nth)
  with bound show ?thesis
    by (auto simp: check_acceptance_line_def split: option.splits if_splits)
qed

lemma current_line_positive:
  assumes "procurement_inv d" and "l \<in> set (revision_lines d v)"
  shows "0 < rl_quantity l"
  using assms by (auto simp: procurement_inv_def revisions_ok_def revision_lines_def revision_line_checks_def)

lemma booked_receipt:
  assumes w: "warehouse_inv d" and new: "\<not> res_replayed r"
    and run: "create_movement sha256 d mid now (receipt_payload i location quantities) actor name None = Inr (d1, r)"
  shows "stock_of d1 j l = stock_of d j l +
      (if l = location then payload_quantity (receipt_payload i location quantities) j else 0)"
    and "custody_of d1 = custody_of d"
    and "get_mov d1 (mv_id (rec_movement (res_record r))) = Some (rec_movement (res_record r))"
    and "mv_movement_type (rec_movement (res_record r)) = RECEIPT"
proof -
  obtain original m ls where
    acc: "accepted sha256 d mid now (receipt_payload i location quantities) actor name None original m ls"
    and m: "rec_movement (res_record r) = m"
    and ref: "efold (\<lambda>ml d. refresh_warehouse_projection d mid (ml_item_id ml)) ls (append_movement d m ls) = Inr d1"
    using new_movement_frame [OF create_movement_is_internal [OF run] new] by metis
  note eff = new_movement_effect [OF w acc ref]
  show "stock_of d1 j l = stock_of d j l +
      (if l = location then payload_quantity (receipt_payload i location quantities) j else 0)"
    using eff(4) by (simp add: spec_stock_def receipt_payload_def)
  show "custody_of d1 = custody_of d"
    by (rule ext)+ (use eff(5) in \<open>simp add: spec_custody_def\<close>)
  have "mv_id m \<notin> mv_id ` set (movements d)"
    using accepted_fresh(1) [OF acc] accepted_movement(1) [OF acc] by simp
  then show "get_mov d1 (mv_id (rec_movement (res_record r))) = Some (rec_movement (res_record r))"
    using same_but_projectionsD(1) [OF eff(1)] get_mov_append [of m d ls] by (simp add: get_mov_def m)
  show "mv_movement_type (rec_movement (res_record r)) = RECEIPT"
    using accepted_movement(2) [OF acc] by (simp add: receipt_payload_def m)
qed

text \<open>
  C27. Accepting a delivery books exactly what was agreed: when \<open>complete_acceptance\<close>
  changes the state, the stock of every item at the receiving location grows by the sum of
  the accepted lines bound to it, no other stock and no custody changes, every line of the
  current revision is bound to an active catalog item with the identity that was ordered,
  and the request is completed with that receipt.
\<close>

theorem acceptance_books_the_lines:
  assumes w: "warehouse_inv d" and inv: "procurement_inv d"
    and run: "complete_acceptance env d i p actor = Inr (d', rec')" and new: "d' \<noteq> d"
    and r: "get_request d i = Some r"
  shows "(\<forall>j l. stock_of d' j l = stock_of d j l +
      (if l = pa_receiving_location_id p
       then lines_total (bound_item_id (binding_of d)) (revision_lines d (pr_current_revision_id r)) j
       else 0)) \<and>
    custody_of d' = custody_of d \<and>
    (\<forall>l\<in>set (revision_lines d (pr_current_revision_id r)).
       \<exists>j it. bound_item_id (binding_of d) l = Some j \<and> get_item d j = Some it \<and>
         it_status it = ITEM_ACTIVE \<and> it_identity_signature it = rl_expected_identity_signature l) \<and>
    (\<exists>r' m. get_request d' i = Some r' \<and> pr_status r' = COMPLETED \<and>
       pr_final_movement_id r' = Some (mv_id m) \<and> get_mov d' (mv_id m) = Some m \<and>
       mv_movement_type m = RECEIPT)"
proof -
  obtain rec where rec: "get_request_record d i = Inr rec" "prr_request rec = r"
    using r by (simp add: get_request_record_def)
  let ?lines = "revision_lines d (pr_current_revision_id r)" and ?item = "bound_item_id (binding_of d)"
  from mutation_Inr [OF run [unfolded complete_acceptance_def] rec(1)] show ?thesis
  proof (elim disjE exE, simp add: new, elim complete_acceptance_body, goal_cases)
    case (1 key fp lines quantities d1 movement r' d2 d3)
    have lines: "lines = ?lines" using 1(2) current_lines_ok [OF inv rec(1)] rec(2) by simp
    have q: "quantities = map (\<lambda>j. (j, lines_total ?item ?lines j)) (item_order ?item ?lines)"
      using 1(4) aggregated_quantities_exact [of ?lines ?item] current_line_positive [OF inv]
      by (auto simp: lines split: if_splits)
    note booked = booked_receipt [OF w 1(6,5)]
    have tabs: "stock_balances d' = stock_balances d1"
      "user_item_custody_balances d' = user_item_custody_balances d1" "movements d' = movements d1"
      "procurement_requests d' = table_update pr_id (pr_id r') (\<lambda>_. r') (procurement_requests d1)"
      using write_request_Inr(1) [OF 1(9)] add_event_Inr(1) [OF 1(10)] same_but_outboxD [OF 1(11)]
      by simp_all
    have "payload_quantity (receipt_payload i (pa_receiving_location_id p) quantities) j =
        lines_total ?item ?lines j" for j
      using receipt_payload_quantity [OF distinct_item_order] lines_total_none [of j ?item ?lines]
      by (simp add: q)
    then have stock: "\<forall>j l. stock_of d' j l = stock_of d j l +
        (if l = pa_receiving_location_id p then lines_total ?item ?lines j else 0)"
      using booked(1) by (simp add: stock_of_def tabs)
    have custody: "custody_of d' = custody_of d"
      by (rule ext)+ (use fun_cong [OF fun_cong [OF booked(2)]] in \<open>simp add: custody_of_def tabs\<close>)
    have r': "get_request d' i = Some r'"
      using get_request_id [OF r] new_movement_tables(5) [OF create_movement_is_internal [OF 1(5)]] r 1(8) rec(2)
      by (simp add: get_request_def tabs table_get_update)
    have "get_mov d' (mv_id (rec_movement (res_record movement))) = Some (rec_movement (res_record movement))"
      using booked(3) by (simp add: get_mov_def tabs)
    with r' booked(4) have "\<exists>r' m. get_request d' i = Some r' \<and> pr_status r' = COMPLETED \<and>
       pr_final_movement_id r' = Some (mv_id m) \<and> get_mov d' (mv_id m) = Some m \<and>
       mv_movement_type m = RECEIPT"
      using 1(8) by fastforce
    with stock custody check_acceptance_lines_Inr [OF 1(3)] lines show ?case by blast
  qed
qed

section \<open>A request nobody can resubmit\<close>

text \<open>The initiator of a request that waits for a revision cannot submit one.\<close>

definition stranded :: "db \<Rightarrow> uuid \<Rightarrow> bool" where
  "stranded d i \<longleftrightarrow> (\<exists>r. get_request d i = Some r \<and> pr_status r = AGREEMENT_REVISION_REQUIRED \<and>
     \<not> capable d (pr_initiator_user_id r) [PROCUREMENT_CREATE])"

lemma capable_cong: "users d' = users d \<Longrightarrow> capable d' a cs = capable d a cs"
  by (simp add: capable_def get_user_def)

lemma run_call_stranded:
  assumes run: "run_call env d j c actor = Inr (d', rec)" and st: "stranded d i"
  shows "stranded d' i"
proof (rule calls.run_cases [OF run], goal_cases)
  case 1
  then show ?case using st by simp
next
  case (2 r key)
  note m = changed_mutated [OF 2(1) 2(7)]
  obtain q where q: "get_request d i = Some q" "pr_status q = AGREEMENT_REVISION_REQUIRED"
    "\<not> capable d (pr_initiator_user_id q) [PROCUREMENT_CREATE]"
    using st by (auto simp: stranded_def)
  have us: "users d' = users d" using m by (auto simp: mutated_def)
  show ?case
  proof (cases "j = i")
    case False
    then have "get_request d' i = Some q" using m q(1) by (auto simp: mutated_def)
    then show ?thesis using q capable_cong [OF us] by (auto simp: stranded_def)
  next
    case True
    with m q(1) obtain r' e where r': "get_request d' i = Some r'" "request_step q e r'"
      and ne: "procurement_events d' = procurement_events d @ [e]" and t: "ev_event_type e = call_event c"
      by (auto simp: mutated_def event_of_def)
    obtain rec0 where rec0: "get_request_record d i = Inr rec0" "prr_request rec0 = q"
      using q(1) by (simp add: get_request_record_def)
    have "d' \<noteq> d" using ne by auto
    have "call_guard d rec0 actor c"
      by (rule run_call_guard [OF run [unfolded True] rec0(1) \<open>d' \<noteq> d\<close>])
    then have "\<not> moves_status (call_event c)" using 2(4) q(2,3) rec0(2) by (cases c) auto
    then have "pr_status r' = AGREEMENT_REVISION_REQUIRED"
      using r'(2) t q(2) by (simp add: request_step_def status_step_def)
    then show ?thesis using r' q(3) capable_cong [OF us] by (auto simp: stranded_def request_step_def)
  qed
qed

lemma procurement_step_stranded:
  assumes "procurement_step ce d d'" and "stranded d i"
  shows "stranded d' i"
  using assms(1)
proof cases
  case (step_create_request env p actor rec)
  from step_create_request(1) show ?thesis
  proof (cases rule: create_request_cases)
    case replay
    then show ?thesis using assms(2) by simp
  next
    case (fresh r v lines e d1 d2 d3 d4)
    have "procurement_requests d' = procurement_requests d @ [r]" "users d' = users d"
      using insert_request_Inr(1) [OF fresh(3)] insert_revision_Inr(1) [OF fresh(4)]
        insert_lines_Inr_procurement [OF fresh(5)] add_event_Inr(1) [OF fresh(6)]
        same_but_outboxD [OF fresh(7)] by simp_all
    then show ?thesis
      using assms(2) capable_cong [of d' d]
      by (auto simp: stranded_def get_request_def table_get_append)
  qed
next
  case (step_call env j c actor rec)
  then show ?thesis using run_call_stranded [OF _ assms(2)] by blast
qed

lemma correction_effect:
  assumes "run_call env d i (Correct p) actor = Inr (d', rec)" and "d' \<noteq> d" and "get_request d i = Some r"
  shows "\<exists>r'. get_request d' i = Some r' \<and> pr_status r' = AGREEMENT_REVISION_REQUIRED \<and>
    pr_initiator_user_id r' = pr_initiator_user_id r \<and> users d' = users d"
proof -
  let ?rec = "\<lparr> prr_request = r, prr_revisions = revisions_of d i, prr_events = events_of d i \<rparr>"
  have rec: "get_request_record d i = Inr ?rec" by (simp add: get_request_record_def assms(3))
  have id: "pr_id r = i" by (rule get_request_id [OF assms(3)])
  from mutation_Inr [OF assms(1) [unfolded run_call.simps return_for_correction_def] rec] assms(2)
  obtain r' d1 e d2 lines where r': "set_status r AGREEMENT_REVISION_REQUIRED = Inr r'"
    and w: "write_request d r' = Inr d1" and e: "add_event d1 e = Inr d2"
    and a: "announce env d2 r' action_correction lines {pr_initiator_user_id r'} = Inr d'"
    by (auto simp: body_simps)
  have "procurement_requests d' = table_update pr_id (pr_id r') (\<lambda>_. r') (procurement_requests d)"
    "users d' = users d"
    using write_request_Inr(1) [OF w] add_event_Inr(1) [OF e]
      same_but_outboxD [OF announce_same_but_outbox [OF a]] by simp_all
  then show ?thesis
    using r' id assms(3) by (auto simp: set_status_Inr get_request_def table_get_update)
qed

text \<open>
  C28. A request can be stranded. The administration guards only the initiators of requests
  in agreement, but a manager can send a request back from acceptance at any time: if its
  initiator has meanwhile been blocked or has lost the capability, the request waits for a
  revision that nobody may submit, and no sequence of procurement transactions changes that.
\<close>

theorem returned_request_is_stranded:
  assumes run: "run_call env d i (Correct p) actor = Inr (d', rec)" and "d' \<noteq> d"
    and r: "get_request d i = Some r" and lost: "\<not> capable d (pr_initiator_user_id r) [PROCUREMENT_CREATE]"
    and later: "(procurement_step ce)\<^sup>*\<^sup>* d' d''"
  shows "stranded d'' i"
proof -
  have "stranded d' i"
    using correction_effect [OF run \<open>d' \<noteq> d\<close> r] lost capable_cong [of d' d]
    by (auto simp: stranded_def)
  with later show ?thesis
    by (induction rule: rtranclp_induct) (auto intro: procurement_step_stranded)
qed

section \<open>Instances\<close>

lemma sample_returned_new: "sample_returned \<noteq> sample_procurement"
proof
  assume "sample_returned = sample_procurement"
  then have "procurement_events sample_returned = procurement_events sample_procurement" by simp
  then show False by (simp add: sample_returned_def)
qed

lemma sample_completed_new: "sample_completed \<noteq> sample_procurement"
proof
  assume "sample_completed = sample_procurement"
  then have "procurement_events sample_completed = procurement_events sample_procurement" by simp
  then show False by (simp add: sample_completed_def)
qed

lemma sample_get_request: "get_request sample_procurement 50 = Some sample_request"
  by (simp add: get_request_def sample_procurement_tables sample_request_def)

theorem procurement_mutation_effect_witness:
  "mutated 5 ''k2'' (replicate 64 (CHR ''0'')) CORRECTION_REQUESTED sample_procurement 50 sample_returned"
proof -
  obtain rec where "run_call sample_env sample_procurement 50 (Correct sample_correction) 5 =
      Inr (sample_returned, rec)" using sample_correction_run by blast
  from procurement_mutation_effect [OF this] show ?thesis
    using sample_returned_new by (auto simp: sample_correction_fields sample_env_fields sample_fingerprint)
qed

theorem repeated_call_changes_nothing_witness:
  "\<exists>rec. run_call sample_env sample_returned 50 (Correct sample_correction) 5 = Inr (sample_returned, rec)"
proof -
  obtain rec where "run_call sample_env sample_procurement 50 (Correct sample_correction) 5 =
      Inr (sample_returned, rec)" using sample_correction_run by blast
  from repeated_call_changes_nothing [OF this rtranclp.rtrancl_refl refl] show ?thesis by blast
qed

theorem concurrent_mutation_is_stale_witness:
  "run_call sample_env sample_returned 50 (Complete sample_completion) 2 =
     Inl (ProcurementConflictError ''stale_state'')"
proof -
  obtain rec where run: "run_call sample_env sample_procurement 50 (Correct sample_correction) 5 =
      Inr (sample_returned, rec)" using sample_correction_run by blast
  show ?thesis
    by (rule concurrent_mutation_is_stale [OF run, where ?key2.0 = "''k1''"])
      (simp_all add: sample_completion_fields sample_correction_fields previous_event_def
        sample_returned_def sample_return_event_def procurement_event_row_def sample_procurement_def
        sample_event_def)
qed

lemma sample_return_offered:
  "\<exists>as. available_actions sample_procurement sample_record (sample_user 5 MANAGER APPROVED) = Inr as \<and>
     ''return_for_correction'' \<in> set as"
proof -
  obtain rec where run: "run_call sample_env sample_procurement 50 (Correct sample_correction) 5 =
      Inr (sample_returned, rec)" using sample_correction_run by blast
  have "get_user sample_procurement 5 = Some (sample_user 5 MANAGER APPROVED)"
    by (simp add: get_user_def sample_procurement_tables sample_db_def sample_user_def)
  from accepted_calls_are_offered [OF sample_procurement_inv run sample_returned_new this sample_record_run]
  show ?thesis by auto
qed

theorem acceptance_books_the_lines_witness:
  "stock_of sample_completed 20 10 = stock_of sample_procurement 20 10 + 7 \<and>
     stock_of sample_completed 20 11 = stock_of sample_procurement 20 11"
proof -
  obtain rec where "complete_acceptance sample_env sample_procurement 50 sample_completion 2 =
      Inr (sample_completed, rec)" using sample_completion_run by auto
  from acceptance_books_the_lines [OF _ sample_procurement_inv this sample_completed_new sample_get_request]
  have "\<forall>j l. stock_of sample_completed j l = stock_of sample_procurement j l +
      (if l = pa_receiving_location_id sample_completion
       then lines_total (bound_item_id (binding_of sample_procurement))
         (revision_lines sample_procurement (pr_current_revision_id sample_request)) j else 0)"
    using sample_procurement_warehouse by (simp add: inventory_inv_def)
  moreover have "revision_lines sample_procurement (pr_current_revision_id sample_request) =
      [sample_revision_line 52 1 3, sample_revision_line 53 2 4]"
    by (simp add: revision_lines_def procurement_data)
  ultimately show ?thesis
    by (simp add: sample_completion_fields lines_total_def sample_bound sample_line_quantity)
qed

theorem returned_request_is_stranded_witness:
  "procurement_inv sample_procurement \<and> stranded sample_returned 50"
proof -
  obtain rec where run: "run_call sample_env sample_procurement 50 (Correct sample_correction) 5 =
      Inr (sample_returned, rec)" using sample_correction_run by blast
  have "\<not> capable sample_procurement (pr_initiator_user_id sample_request) [PROCUREMENT_CREATE]"
    using sample_capable(3) by (simp add: sample_request_def)
  from returned_request_is_stranded [OF run sample_returned_new sample_get_request this
      rtranclp.rtrancl_refl] show ?thesis using sample_procurement_inv by simp
qed

end
