(* ===== verification/Catalog_Writes.thy ===== *)
theory Catalog_Writes
  imports Catalog_Proofs
begin

text \<open>
  What validation gives to the database. A payload that \<open>prepare_identity\<close> accepts produces an item
  row that passes every constraint and trigger of the catalog tables but two: no text may contain
  U+0000, and SQL has to compute the signature that Python computed, which it does unless an
  attribute text contains one of the control separators U+001C to U+001F.
\<close>

section \<open>The fixed schema\<close>

text \<open>The unique keys of the two definition tables, and enumeration values that fit their column.\<close>

definition schema_ok :: "catalog_schema \<Rightarrow> bool" where
  "schema_ok schema \<longleftrightarrow>
     distinct (map cat_id (cs_categories schema)) \<and> distinct (map cat_key (cs_categories schema)) \<and>
     distinct (map (\<lambda>a. (at_category_id a, at_key a)) (cs_attributes schema)) \<and>
     (\<forall>a\<in>set (cs_attributes schema). \<forall>xs. at_allowed_values a = Some (JList xs) \<longrightarrow>
        (\<forall>s. JStr s \<in> set xs \<longrightarrow> length s \<le> 255))"

lemma set_category_attributes [simp]:
  "set (get_category_attributes schema c) = {a \<in> set (cs_attributes schema). at_category_id a = c}"
  by (simp add: get_category_attributes_def)

lemma by_key_Some: "by_key defs k = Some a \<Longrightarrow> a \<in> set defs \<and> at_key a = k"
  unfolding by_key_def by (auto dest!: map_of_SomeD)

section \<open>Validated values\<close>

definition prepared_row :: "category_attribute list \<Rightarrow> string \<times> raw_value \<Rightarrow> (string \<times> attribute_value) option \<Rightarrow> bool" where
  "prepared_row defs kr w \<longleftrightarrow>
     (\<exists>a x. by_key defs (fst kr) = Some a \<and> prepare_attribute_value a (snd kr) = Inr x \<and>
        w = map_option (Pair (fst kr)) x)"

lemma set_present: "kv \<in> set (present ws) \<longleftrightarrow> Some kv \<in> set ws"
  by (induction ws rule: present.induct) auto

lemma list_all2_member_right: "list_all2 R xs ys \<Longrightarrow> y \<in> set ys \<Longrightarrow> \<exists>x\<in>set xs. R x y"
  by (induction rule: list_all2_induct) auto

lemma list_all2_member_left: "list_all2 R xs ys \<Longrightarrow> x \<in> set xs \<Longrightarrow> \<exists>y\<in>set ys. R x y"
  by (induction rule: list_all2_induct) auto

lemma prepared_row_stored:
  assumes "list_all2 (prepared_row defs) supplied ws" and "(k, v) \<in> set (present ws)"
  shows "\<exists>raw a. (k, raw) \<in> set supplied \<and> by_key defs k = Some a \<and>
    prepare_attribute_value a raw = Inr (Some v)"
proof -
  obtain kr where "kr \<in> set supplied" "prepared_row defs kr (Some (k, v))"
    using list_all2_member_right [OF assms(1), of "Some (k, v)"] assms(2) by (auto simp: set_present)
  then have "fst kr = k \<and> (\<exists>a. by_key defs k = Some a \<and> prepare_attribute_value a (snd kr) = Inr (Some v))"
    by (auto simp: prepared_row_def eq_commute [of "Some _"])
  with \<open>kr \<in> set supplied\<close> show ?thesis by (metis prod.collapse)
qed

lemma prepared_row_supplied:
  assumes "list_all2 (prepared_row defs) supplied ws" and "(k, raw) \<in> set supplied"
  shows "\<exists>a x. by_key defs k = Some a \<and> prepare_attribute_value a raw = Inr x \<and>
    (x \<noteq> None \<longrightarrow> k \<in> fst ` set (present ws))"
proof -
  obtain w where w: "w \<in> set ws" "prepared_row defs (k, raw) w"
    using list_all2_member_left [OF assms] by blast
  then obtain a x where ax: "by_key defs k = Some a" "prepare_attribute_value a raw = Inr x"
    "w = map_option (Pair k) x" by (auto simp: prepared_row_def)
  have "k \<in> fst ` set (present ws)" if "x = Some v" for v
    using w(1) ax(3) that by (intro rev_image_eqI [of "(k, v)"]) (simp_all add: set_present)
  then show ?thesis using ax by auto
qed

lemma prepared_rows_distinct:
  assumes "list_all2 (prepared_row defs) supplied ws" and "distinct (map fst supplied)"
  shows "distinct (map fst (present ws))"
  using assms
proof (induction rule: list_all2_induct)
  case (Cons kr supplied w ws)
  have "fst kr \<notin> fst ` set (present ws)"
    using prepared_row_stored [OF Cons.hyps(2)] Cons.prems by (fastforce simp: image_iff)
  moreover have "distinct (map fst (present ws))" using Cons by simp
  ultimately show ?case
    using Cons.hyps(1) by (cases w) (force simp: prepared_row_def eq_commute [of "Some _"] image_iff)+
qed simp

lemma validate_attribute_values_Inr:
  assumes "validate_attribute_values c defs supplied = Inr vs"
  shows "\<exists>ws. vs = present ws \<and> list_all2 (prepared_row defs) supplied ws"
    and "\<forall>a\<in>set defs. at_required a \<longrightarrow> at_key a \<in> fst ` set supplied"
proof -
  from assms obtain ws where ws: "vs = present ws"
    "emap (\<lambda>(k, raw). case by_key defs k of None \<Rightarrow> Inl ''unknown_attribute''
       | Some a \<Rightarrow> ebind (prepare_attribute_value a raw) (\<lambda>v. Inr (map_option (Pair k) v))) supplied = Inr ws"
    unfolding validate_attribute_values_def by (auto simp: ebind_Inr_iff split: if_splits)
  have "list_all2 (prepared_row defs) supplied ws"
    using ws(2) unfolding emap_Inr_iff
    by (rule list_all2_mono) (auto simp: prepared_row_def ebind_Inr_iff split: option.splits prod.splits)
  with ws(1) show "\<exists>ws. vs = present ws \<and> list_all2 (prepared_row defs) supplied ws" by blast
  show "\<forall>a\<in>set defs. at_required a \<longrightarrow> at_key a \<in> fst ` set supplied"
    using assms unfolding validate_attribute_values_def by (auto split: if_splits)
qed

lemma validated_value:
  assumes "validate_attribute_values c defs supplied = Inr vs" and "(k, v) \<in> set vs"
  obtains raw a where "(k, raw) \<in> set supplied" and "a \<in> set defs" and "at_key a = k"
    and "by_key defs k = Some a" and "prepare_attribute_value a raw = Inr (Some v)"
proof -
  obtain ws where "vs = present ws" "list_all2 (prepared_row defs) supplied ws"
    using validate_attribute_values_Inr(1) [OF assms(1)] by blast
  with prepared_row_stored assms(2) have "\<exists>raw a. (k, raw) \<in> set supplied \<and> by_key defs k = Some a \<and>
      prepare_attribute_value a raw = Inr (Some v)" by metis
  then show ?thesis using that by_key_Some by blast
qed

lemma validated_required:
  assumes "validate_attribute_values c defs supplied = Inr vs" and "distinct (map at_key defs)"
    and "a \<in> set defs" and "at_required a"
  shows "at_key a \<in> fst ` set vs"
proof -
  obtain ws where ws: "vs = present ws" "list_all2 (prepared_row defs) supplied ws"
    using validate_attribute_values_Inr(1) [OF assms(1)] by blast
  obtain raw where "(at_key a, raw) \<in> set supplied"
    using validate_attribute_values_Inr(2) [OF assms(1)] assms(3,4) by fastforce
  then obtain b x where b: "by_key defs (at_key a) = Some b" "prepare_attribute_value b raw = Inr x"
    "x \<noteq> None \<longrightarrow> at_key a \<in> fst ` set vs"
    using prepared_row_supplied [OF ws(2)] ws(1) by blast
  have "b = a" using by_key_Some [OF b(1)] assms(2,3) by (metis distinct_map inj_onD)
  then show ?thesis using b prepared_required [OF assms(4)] by auto
qed

lemma validated_distinct:
  "validate_attribute_values c defs supplied = Inr vs \<Longrightarrow> distinct (map fst supplied) \<Longrightarrow> distinct (map fst vs)"
  using validate_attribute_values_Inr(1) prepared_rows_distinct by metis

section \<open>Prepared identity\<close>

lemma prepare_identity_Inr:
  assumes "prepare_identity env d p = Inr prepared"
  obtains attributes where
    "pi_category prepared \<in> set (cs_categories (ce_schema env))"
    and "find_manufacturer d (ic_manufacturer_id p) = Inr (pi_manufacturer prepared)"
    and "derive_reach (pi_category prepared) (ic_attributes p) = Inr attributes"
    and "validate_attribute_values (cat_id (pi_category prepared))
       (get_category_attributes (ce_schema env) (cat_id (pi_category prepared))) attributes =
       Inr (pi_attributes prepared)"
    and "pi_identity_signature prepared = item_signature (ce_sha256 env) (cat_key (pi_category prepared))
       (map_option mf_name (pi_manufacturer prepared)) (ic_model p) (pi_attributes prepared)"
  using assms unfolding prepare_identity_def get_category_by_key_def category_by_key_def
  by (auto simp: result_simps dest!: table_get_SomeD)

lemma derive_reach_Inr:
  assumes "derive_reach c attributes = Inr derived"
  shows "distinct (map fst attributes) \<Longrightarrow> distinct (map fst derived)"
    and "(k, RStr s) \<in> set derived \<Longrightarrow> (k, RStr s) \<in> set attributes"
proof -
  from assms consider "derived = attributes"
    | n where "derived = AList.update ''reach_m'' (RInt n) attributes"
    by (auto simp: derive_reach_def split: if_splits option.splits)
  note cases = this
  have upd: "(k, RStr s) \<in> set (AList.update j (RInt n) xs) \<Longrightarrow> (k, RStr s) \<in> set xs" for j n xs
    by (induction xs) (auto split: if_splits)
  show "distinct (map fst attributes) \<Longrightarrow> distinct (map fst derived)"
    using cases by cases (simp_all add: distinct_update)
  show "(k, RStr s) \<in> set derived \<Longrightarrow> (k, RStr s) \<in> set attributes"
    using cases by cases (auto dest: upd)
qed

section \<open>The signature in Python and in SQL\<close>

fun sql_ready :: "attribute_value \<Rightarrow> bool" where
  "sql_ready (AText s) \<longleftrightarrow> s \<noteq> [] \<and> no_separators s"
| "sql_ready (AEnum s) \<longleftrightarrow> s \<noteq> [] \<and> no_separators s"
| "sql_ready (ADecimal v) \<longleftrightarrow> dec_exp v \<le> 0"
| "sql_ready (AInteger i) \<longleftrightarrow> True"
| "sql_ready (ABoolean b) \<longleftrightarrow> True"

lemma sql_attribute_json_eq: "sql_ready v \<Longrightarrow> sql_attribute_json v = json_dumps (signature_value v)"
  by (cases v) (auto simp: identity_text_sql decimal_identity_sql)

lemma sort_key_map:
  assumes "\<And>x. k' (f x) = k x"
  shows "sort_key k' (map f xs) = map f (sort_key k xs)"
proof -
  have "insort_key k' (f x) (map f ys) = map f (insort_key k x ys)" for x ys
    by (induction ys) (simp_all add: assms)
  then show ?thesis by (induction xs) (simp_all add: sort_key_def)
qed

lemma signature_sql:
  assumes c: "get_category schema (it_category_id it) = Some c"
    and m: "no_separators (or_empty (manufacturer_name d (it_manufacturer_id it)))"
    and model: "no_separators (or_empty (it_model it))"
    and ready: "\<forall>kv\<in>set (it_attributes it). sql_ready (snd kv)"
  shows "catalog_item_signature schema sha256 d it =
     Some (item_signature sha256 (cat_key c) (manufacturer_name d (it_manufacturer_id it)) (it_model it)
       (it_attributes it))"
proof -
  let ?row = "\<lambda>kv. json_string (fst kv) @ '':'' @ json_dumps (signature_value (snd kv))"
  have all: "filter (\<lambda>(k, v). v \<noteq> AText [] \<and> v \<noteq> AEnum []) (it_attributes it) = it_attributes it"
    using ready by (intro filter_True) auto
  have "map snd (sort_key fst (map (\<lambda>kv. (fst kv, ?row kv)) (it_attributes it))) =
      map ?row (sort_key fst (it_attributes it))"
    by (subst sort_key_map [of fst _ fst]) (simp_all add: comp_def)
  also have "\<dots> = map (\<lambda>(k, v). json_string k @ '':'' @ sql_attribute_json v) (sort_key fst (it_attributes it))"
    using ready by (intro map_cong refl) (auto simp: sql_attribute_json_eq)
  finally show ?thesis
    unfolding catalog_item_signature_def item_signature_def canonical_fingerprint_def all c
    by (simp add: identity_text_sql [OF m] identity_text_sql [OF model] comp_def split_def)
qed

text \<open>The stored columns give the same signature as the payload.\<close>

lemma signature_stored_value:
  "column_ready v \<Longrightarrow> signature_value (stored_value v) = signature_value v"
  by (cases v) (simp_all add: identity_text_iff dec_value_stored)

lemma identity_text_or_empty:
  assumes "normalize_optional_inline_text v field n = Inr w"
  shows "identity_text (or_empty w) = identity_text (or_empty v)"
proof (cases v)
  case (Some s)
  have w: "or_empty w = normalize_idempotency_key s"
    using assms Some
    by (cases "normalize_idempotency_key s = []")
      (auto simp: normalize_optional_inline_text_def or_empty_def Let_def split: if_splits)
  show ?thesis unfolding w by (simp add: Some or_empty_def identity_text_normalize)
qed (use assms in \<open>simp add: normalize_optional_inline_text_def or_empty_def\<close>)

lemma blank_stored_value: "(stored_value v = AText [] \<or> stored_value v = AEnum []) \<longleftrightarrow> v = AText [] \<or> v = AEnum []"
  by (cases v) auto

lemma signature_stored:
  assumes "\<forall>kv\<in>set vs. column_ready (snd kv)"
    and "normalize_optional_inline_text model field n = Inr model'"
  shows "item_signature sha256 key m model' (item_attribute_rows vs) =
    item_signature sha256 key m model vs"
proof -
  have "map (\<lambda>(k, v). (k, signature_value v))
      (filter (\<lambda>(k, v). v \<noteq> AText [] \<and> v \<noteq> AEnum []) (item_attribute_rows vs)) =
    map (\<lambda>(k, v). (k, signature_value v)) (filter (\<lambda>(k, v). v \<noteq> AText [] \<and> v \<noteq> AEnum []) vs)"
    using assms(1) blank_stored_value
    by (induction vs) (auto simp: item_attribute_rows_def signature_stored_value)
  then show ?thesis
    unfolding item_signature_def identity_text_or_empty [OF assms(2)] by simp
qed

section \<open>A prepared item passes the database\<close>

definition manufacturers_ok :: "db \<Rightarrow> bool" where
  "manufacturers_ok d \<longleftrightarrow>
     distinct (map mf_id (manufacturers d)) \<and> distinct (map mf_normalized_name (manufacturers d)) \<and>
     (\<forall>m\<in>set (manufacturers d). normalize_idempotency_key (mf_name m) = mf_name m \<and> mf_name m \<noteq> [] \<and>
        mf_normalized_name m = comparison_text (mf_name m))"

lemma prepared_attribute:
  assumes prep: "prepare_identity env d p = Inr prepared"
    and kv: "(k, v) \<in> set (pi_attributes prepared)"
  obtains a where "a \<in> set (cs_attributes (ce_schema env))"
    and "at_category_id a = cat_id (pi_category prepared)" and "at_key a = k"
    and "value_data_type v = at_data_type a" and "column_ready v" and "within_bounds a v"
proof -
  obtain attributes where reach: "derive_reach (pi_category prepared) (ic_attributes p) = Inr attributes"
    and val: "validate_attribute_values (cat_id (pi_category prepared))
      (get_category_attributes (ce_schema env) (cat_id (pi_category prepared))) attributes =
      Inr (pi_attributes prepared)"
    using prepare_identity_Inr [OF prep] by metis
  obtain raw a where a: "(k, raw) \<in> set attributes"
    "a \<in> set (get_category_attributes (ce_schema env) (cat_id (pi_category prepared)))" "at_key a = k"
    "prepare_attribute_value a raw = Inr (Some v)"
    using validated_value [OF val kv] by metis
  with prepared_value_ok [OF a(4)] show ?thesis by (intro that [of a]) auto
qed

text \<open>A payload without such characters gives values without them.\<close>

lemma prepared_separators:
  assumes prep: "prepare_identity env d p = Inr prepared"
    and clean: "\<forall>(k, raw)\<in>set (ic_attributes p). \<forall>s. raw = RStr s \<longrightarrow> no_separators s"
    and kv: "(k, AText s) \<in> set (pi_attributes prepared)"
  shows "no_separators s"
proof -
  obtain attributes where reach: "derive_reach (pi_category prepared) (ic_attributes p) = Inr attributes"
    and val: "validate_attribute_values (cat_id (pi_category prepared))
      (get_category_attributes (ce_schema env) (cat_id (pi_category prepared))) attributes =
      Inr (pi_attributes prepared)"
    using prepare_identity_Inr [OF prep] by metis
  obtain raw a where a: "(k, raw) \<in> set attributes" "prepare_attribute_value a raw = Inr (Some (AText s))"
    using validated_value [OF val kv] by metis
  have "no_separators t" if "raw = RStr t" for t
    using derive_reach_Inr(2) [OF reach] clean a(1) that by blast
  then show ?thesis using prepared_text_separators a(2) by metis
qed

lemma prepared_nul:
  assumes prep: "prepare_identity env d p = Inr prepared"
    and clean: "\<forall>(k, raw)\<in>set (ic_attributes p). \<forall>s. raw = RStr s \<longrightarrow> CHR 0x00 \<notin> set s"
    and s: "s \<in> set (attribute_texts (pi_attributes prepared))"
  shows "CHR 0x00 \<notin> set s"
proof -
  obtain k v where kv: "(k, v) \<in> set (pi_attributes prepared)" "s \<in> set (value_texts v)"
    using s by (auto simp: attribute_texts_def)
  obtain attributes where reach: "derive_reach (pi_category prepared) (ic_attributes p) = Inr attributes"
    and val: "validate_attribute_values (cat_id (pi_category prepared))
      (get_category_attributes (ce_schema env) (cat_id (pi_category prepared))) attributes =
      Inr (pi_attributes prepared)"
    using prepare_identity_Inr [OF prep] by metis
  obtain raw a where a: "(k, raw) \<in> set attributes" "prepare_attribute_value a raw = Inr (Some v)"
    using validated_value [OF val kv(1)] by metis
  have "CHR 0x00 \<notin> set t" if "raw = RStr t" for t
    using derive_reach_Inr(2) [OF reach] clean a(1) that by blast
  then show ?thesis by (rule prepared_text_nul [OF a(2) kv(2)])
qed

lemma stored_value_checks:
  assumes "column_ready v" and "\<And>s. v = AEnum s \<Longrightarrow> length s \<le> 255"
  shows "attribute_value_checks (stored_value v)"
  using assms by (cases v) (auto simp: stored_decimal_def MIN_SAFE_INTEGER_def MAX_SAFE_INTEGER_def)

lemma stored_value_type:
  "validate_item_attribute_value_data_type a (stored_value v) \<longleftrightarrow> validate_item_attribute_value_data_type a v"
  by (cases v) (auto simp: validate_item_attribute_value_data_type_def)

lemma stored_value_ready:
  "column_ready v \<Longrightarrow> (\<And>s. v = AText s \<Longrightarrow> no_separators s) \<Longrightarrow> sql_ready (stored_value v)"
  by (cases v) (auto simp: stored_decimal_def btrim_def)

lemma prepared_rows_ok:
  assumes prep: "prepare_identity env d p = Inr prepared" and object: "distinct (map fst (ic_attributes p))"
    and schema: "schema_ok (ce_schema env)"
    and it: "it_category_id it = cat_id (pi_category prepared)"
      "it_attributes it = item_attribute_rows (pi_attributes prepared)"
  shows "attribute_rows_ok (ce_schema env) it" and "enforce_item_required_attributes (ce_schema env) it"
    and "\<forall>kv\<in>set (pi_attributes prepared). column_ready (snd kv)"
proof -
  let ?c = "cat_id (pi_category prepared)" and ?defs = "get_category_attributes (ce_schema env)"
  obtain attributes where reach: "derive_reach (pi_category prepared) (ic_attributes p) = Inr attributes"
    and val: "validate_attribute_values ?c (?defs ?c) attributes = Inr (pi_attributes prepared)"
    using prepare_identity_Inr [OF prep] by metis
  have keys: "map fst (it_attributes it) = map fst (pi_attributes prepared)"
    by (simp add: it(2) item_attribute_rows_def split_def)
  show ready: "\<forall>kv\<in>set (pi_attributes prepared). column_ready (snd kv)"
    using prepared_attribute [OF prep] by (metis prod.collapse)
  have "attribute_value_checks (stored_value v) \<and>
      (\<exists>a\<in>set (cs_attributes (ce_schema env)). at_category_id a = ?c \<and> at_key a = k \<and>
         validate_item_attribute_value_data_type a (stored_value v))"
    if kv: "(k, v) \<in> set (pi_attributes prepared)" for k v
  proof -
    obtain a where a: "a \<in> set (cs_attributes (ce_schema env))" "at_category_id a = ?c" "at_key a = k"
      "value_data_type v = at_data_type a" "column_ready v" "within_bounds a v"
      using prepared_attribute [OF prep kv] by metis
    have "length s \<le> 255" if "v = AEnum s" for s
      using a(1,6) schema that
      by (auto simp: schema_ok_def allows_enum_def split: option.splits json.splits)
    then have "attribute_value_checks (stored_value v)" using a(5) by (intro stored_value_checks)
    moreover have "validate_item_attribute_value_data_type a v"
      using a(4,6) by (cases v) (simp_all add: validate_item_attribute_value_data_type_def)
    ultimately show ?thesis using a stored_value_type by blast
  qed
  note values_ok = this
  have "distinct (map fst attributes)"
    using object derive_reach_Inr(1) [OF reach] by blast
  then have "distinct (map fst (it_attributes it))" using validated_distinct [OF val] keys by simp
  then show "attribute_rows_ok (ce_schema env) it"
    using values_ok by (fastforce simp: attribute_rows_ok_def it item_attribute_rows_def)
  have inj: "inj_on (\<lambda>a. (at_category_id a, at_key a)) (set (cs_attributes (ce_schema env)))"
    and dist: "distinct (cs_attributes (ce_schema env))"
    using schema by (simp_all add: schema_ok_def distinct_map)
  have "distinct (map at_key (?defs ?c))"
    unfolding distinct_map
    using dist inj by (auto simp: get_category_attributes_def inj_on_def)
  then show "enforce_item_required_attributes (ce_schema env) it"
    using validated_required [OF val] arg_cong [OF keys, of set]
    by (auto simp: enforce_item_required_attributes_def it(1))
qed

lemma inline_text_Inr:
  "catalog_inline_text v field n = Inr t \<longleftrightarrow>
     t = normalize_idempotency_key v \<and> t \<noteq> [] \<and> length t \<le> n"
  by (auto simp: catalog_inline_text_def Let_def)

lemma normalize_comparison_Inr:
  "normalize_comparison v field n = Inr t \<longleftrightarrow> t = comparison_text v \<and> length t \<le> n"
  by (auto simp: normalize_comparison_def Let_def)

lemma optional_inline_text_Inr:
  "normalize_optional_inline_text v field n = Inr t \<Longrightarrow>
     (\<forall>s\<in>set_option t. no_separators s \<and> s \<noteq> [] \<and> length s \<le> n \<and> normalize_idempotency_key s = s)"
  by (auto simp: normalize_optional_inline_text_def Let_def no_separators_normalized normalize_key_idem
      split: option.splits if_splits)

lemma btrim_comparison:
  assumes "normalize_idempotency_key s \<noteq> []"
  shows "btrim (comparison_text s) \<noteq> []"
proof
  assume "btrim (comparison_text s) = []"
  then have "\<forall>c\<in>set (normalize_idempotency_key s). casefold c = CHR '' ''"
    by (simp add: btrim_eq_Nil comparison_text_def normalize_idempotency_key_def)
  then have "\<forall>c\<in>set (normalize_idempotency_key s). is_space c" using is_space_casefold is_space_blank by metis
  then have "normalize_idempotency_key (normalize_idempotency_key s) = []" by (simp add: normalize_key_blank)
  with assms show False by (simp add: normalize_key_idem)
qed

lemma found_manufacturer:
  assumes "find_manufacturer d m = Inr x" and "manufacturers_ok d"
  shows "manufacturer_name d m = map_option mf_name x" and "no_separators (or_empty (manufacturer_name d m))"
    and "\<forall>i\<in>set_option m. i \<in> mf_id ` set (manufacturers d)"
proof -
  have "m = None \<and> x = None \<or> (\<exists>i y. m = Some i \<and> x = Some y \<and> table_get mf_id i (manufacturers d) = Some y)"
    using assms(1) unfolding find_manufacturer_def
    by (cases m; cases "table_get mf_id (the m) (manufacturers d)") auto
  note cases = this
  show "manufacturer_name d m = map_option mf_name x" using cases by (auto simp: manufacturer_name_def)
  then show "no_separators (or_empty (manufacturer_name d m))"
    using cases assms(2) no_separators_normalized
    by (auto simp: or_empty_def manufacturers_ok_def no_separators_def dest!: table_get_SomeD) (metis no_separators_def)+
  show "\<forall>i\<in>set_option m. i \<in> mf_id ` set (manufacturers d)"
    using cases by (auto dest!: table_get_SomeD)
qed

lemma stored_texts [simp]: "attribute_texts (item_attribute_rows values) = attribute_texts values"
proof -
  have "value_texts (stored_value v) = value_texts v" for v by (cases v) simp_all
  then show ?thesis by (simp add: attribute_texts_def item_attribute_rows_def comp_def split_def)
qed

lemma prepared_signature:
  assumes prep: "prepare_identity env d p = Inr prepared"
    and schema: "schema_ok (ce_schema env)" and mf: "manufacturers_ok d"
    and model: "normalize_optional_inline_text (ic_model p) ''model'' 255 = Inr model"
    and it: "it_category_id it = cat_id (pi_category prepared)"
      "it_attributes it = item_attribute_rows (pi_attributes prepared)"
      "it_manufacturer_id it = ic_manufacturer_id p" "it_model it = model"
    and clean: "\<forall>k s. (k, AText s) \<in> set (pi_attributes prepared) \<longrightarrow> no_separators s"
  shows "catalog_item_signature (ce_schema env) (ce_sha256 env) d it = Some (pi_identity_signature prepared)"
proof -
  obtain c where c: "c = pi_category prepared" "c \<in> set (cs_categories (ce_schema env))"
    and m: "find_manufacturer d (ic_manufacturer_id p) = Inr (pi_manufacturer prepared)"
    and sig: "pi_identity_signature prepared = item_signature (ce_sha256 env) (cat_key c)
       (map_option mf_name (pi_manufacturer prepared)) (ic_model p) (pi_attributes prepared)"
    using prepare_identity_Inr [OF prep] by metis
  note mn = found_manufacturer [OF m mf]
  have ready: "\<forall>kv\<in>set (pi_attributes prepared). column_ready (snd kv)"
    using prepared_attribute [OF prep] by (metis prod.collapse)
  then have rows: "\<forall>kv\<in>set (it_attributes it). sql_ready (snd kv)"
    using clean stored_value_ready by (fastforce simp: it(2) item_attribute_rows_def)
  have md: "\<forall>s\<in>set_option model. no_separators s \<and> s \<noteq> [] \<and> length s \<le> 255 \<and> normalize_idempotency_key s = s"
    by (rule optional_inline_text_Inr [OF model])
  have cat: "get_category (ce_schema env) (it_category_id it) = Some c"
    using schema c by (simp add: get_category_def it table_get_member schema_ok_def)
  have "no_separators (or_empty (it_model it))"
    using md it(4) by (auto simp: or_empty_def no_separators_def split: option.splits)
  then have "catalog_item_signature (ce_schema env) (ce_sha256 env) d it =
      Some (item_signature (ce_sha256 env) (cat_key c) (manufacturer_name d (it_manufacturer_id it)) (it_model it)
        (it_attributes it))"
    using mn(2) rows by (intro signature_sql [OF cat]) (simp_all add: it)
  then show ?thesis unfolding it sig mn(1) signature_stored [OF ready model] .
qed

text \<open>What is left of the checks on the row of a prepared item.\<close>

lemma prepared_item_checks:
  assumes prep: "prepare_identity env d p = Inr prepared" and object: "distinct (map fst (ic_attributes p))"
    and schema: "schema_ok (ce_schema env)" and mf: "manufacturers_ok d"
    and digest: "\<And>s. length (ce_sha256 env s) = 64"
    and name: "catalog_inline_text (ic_name p) ''name'' 255 = Inr name"
    and model: "normalize_optional_inline_text (ic_model p) ''model'' 255 = Inr model"
    and it: "it_category_id it = cat_id (pi_category prepared)"
      "it_attributes it = item_attribute_rows (pi_attributes prepared)"
      "it_manufacturer_id it = ic_manufacturer_id p" "it_name it = name" "it_model it = model"
      "it_normalized_name it = comparison_text name" "it_normalized_model it = map_option comparison_text model"
      "it_identity_signature it = pi_identity_signature prepared"
      "(it_status it = ITEM_ACTIVE) = (it_archived_at it = None)"
  shows "item_write_checks (ce_schema env) (ce_sha256 env) d it = Inr () \<longleftrightarrow>
    (\<forall>s\<in>set (attribute_texts (pi_attributes prepared)). CHR 0x00 \<notin> set s) \<and>
    catalog_item_signature (ce_schema env) (ce_sha256 env) d it = Some (pi_identity_signature prepared)"
proof -
  obtain c where c: "c = pi_category prepared" "c \<in> set (cs_categories (ce_schema env))"
    and m: "find_manufacturer d (ic_manufacturer_id p) = Inr (pi_manufacturer prepared)"
    and sig: "pi_identity_signature prepared = item_signature (ce_sha256 env) (cat_key c)
       (map_option mf_name (pi_manufacturer prepared)) (ic_model p) (pi_attributes prepared)"
    using prepare_identity_Inr [OF prep] by metis
  note rows = prepared_rows_ok [OF prep object schema it(1,2)]
  have nm: "name = normalize_idempotency_key (ic_name p)" "name \<noteq> []" "length name \<le> 255"
    using name unfolding inline_text_Inr by blast+
  have nn: "normalize_idempotency_key name = name" "no_separators name"
    by (simp_all add: nm normalize_key_idem no_separators_normalized)
  have md: "\<forall>s\<in>set_option model. no_separators s \<and> s \<noteq> [] \<and> length s \<le> 255 \<and> normalize_idempotency_key s = s"
    by (rule optional_inline_text_Inr [OF model])
  have "btrim name \<noteq> []" using btrim_normalized [of name] nn nm by simp
  moreover have "btrim (comparison_text name) \<noteq> []" by (rule btrim_comparison) (simp only: nn(1) nm(2) not_False_eq_True)
  moreover have "length (comparison_text name) \<le> 255" by (simp only: length_comparison_text nn(1) nm(3))
  moreover have "\<forall>s\<in>set_option (map_option comparison_text model). length s \<le> 255"
    using md by (auto simp: length_comparison_text)
  moreover have "length (pi_identity_signature prepared) = 64"
    by (simp add: sig item_signature_def canonical_fingerprint_def digest)
  ultimately have checks: "item_checks it" using nm md it(9) by (auto simp: item_checks_def it)
  have refs: "item_references_ok (ce_schema env) d it"
    using c found_manufacturer(3) [OF m mf] by (auto simp: item_references_ok_def it)
  have "assert_catalog_item_identity (ce_schema env) (ce_sha256 env) d it \<longleftrightarrow>
      catalog_item_signature (ce_schema env) (ce_sha256 env) d it = Some (pi_identity_signature prepared)"
    using md nn by (cases model) (auto simp: assert_catalog_item_identity_def it normalize_comparison_sql)
  with checks refs rows(1,2) show ?thesis by (auto simp: item_write_checks_Inr it(2))
qed

end
