(* ===== verification/Catalog_Safety.thy ===== *)
theory Catalog_Safety
  imports Catalog_Writes Samples
begin

text \<open>
  The properties of the catalog service: accepted attribute values are well typed and complete,
  creation succeeds exactly for valid drafts of a new identity, and what the database still
  refuses. The instances use a small schema with one cable and one transceiver category.
\<close>

section \<open>Creation\<close>

definition blank_model :: "item_create \<Rightarrow> bool" where
  "blank_model p \<longleftrightarrow> or_empty (ic_model p) \<noteq> [] \<and> py_strip (or_empty (ic_model p)) = []"

lemma strip_blank: "py_strip s = [] \<longleftrightarrow> normalize_idempotency_key s = []"
  by (simp add: strip_no_space normalize_key_blank)

lemma normalize_Nil [simp]: "normalize_idempotency_key [] = []"
  by (simp add: normalize_key_blank)

lemma optional_model:
  assumes "\<not> blank_model p" and "normalize_optional_inline_text (ic_model p) field n = Inr model"
  shows "or_empty (ic_model p) = [] \<and> model = None \<or>
    or_empty (ic_model p) \<noteq> [] \<and> (\<exists>m. model = Some m \<and> comparison_text (or_empty (ic_model p)) = comparison_text m \<and>
      length (comparison_text m) \<le> n)"
  using assms
  by (cases "ic_model p")
    (auto simp: blank_model_def normalize_optional_inline_text_def or_empty_def Let_def strip_blank
      comparison_text_normalize length_comparison_text normalize_key_idem split: if_splits)

lemma validate_item_Inr:
  "validate_item_create_payload env d p = Inr v \<longleftrightarrow>
     (\<exists>k prepared name model. normalize_category_key (ic_category_key p) = Inr k \<and>
        prepare_identity env d p = Inr prepared \<and>
        catalog_inline_text (ic_name p) ''name'' 255 = Inr name \<and>
        normalize_optional_inline_text (ic_model p) ''model'' 255 = Inr model \<and>
        v = \<lparr> vd_category = pi_category prepared, vd_manufacturer = pi_manufacturer prepared,
           vd_name = name, vd_model = model, vd_attributes = pi_attributes prepared,
           vd_identity_signature = pi_identity_signature prepared \<rparr>)"
  by (auto simp: validate_item_create_payload_def validate_item_def ebind_Inr_iff)

lemma duplicates_Nil:
  assumes "normalize_category_key (ic_category_key p) = Inr k" and "prepare_identity env d p = Inr prepared"
  shows "check_duplicate_candidates env d p None = Inr [] \<longleftrightarrow>
    (\<forall>x\<in>set (items d). it_identity_signature x \<noteq> pi_identity_signature prepared)"
  by (simp add: check_duplicate_candidates_def assms filter_empty_conv)

text \<open>Creation is validation followed by one insertion.\<close>

definition drafted_item :: "uuid \<Rightarrow> item_create \<Rightarrow> validated_item_draft \<Rightarrow> item" where
  "drafted_item new_id p v =
     \<lparr> it_id = new_id, it_category_id = cat_id (vd_category v), it_manufacturer_id = ic_manufacturer_id p,
       it_name = vd_name v, it_normalized_name = comparison_text (vd_name v), it_model = vd_model v,
       it_normalized_model = (if or_empty (ic_model p) = [] then None
         else Some (comparison_text (or_empty (ic_model p)))),
       it_status = ITEM_ACTIVE, it_identity_signature = vd_identity_signature v, it_archived_at = None,
       it_attributes = item_attribute_rows (vd_attributes v) \<rparr>"

lemma create_item_alt:
  "create_item env new_id d p =
     (case validate_item_create_payload env d p of
        Inl code \<Rightarrow> Inl (Inl code)
      | Inr v \<Rightarrow> ebind (relabel Inr (insert_item (ce_schema env) (ce_sha256 env) d (drafted_item new_id p v)))
          (\<lambda>d'. Inr (d', new_id)))"
proof (cases "validate_item_create_payload env d p")
  case (Inl code)
  have short: "\<exists>n. normalize_comparison (ic_name p) ''name'' 255 = Inr n"
    if "catalog_inline_text (ic_name p) ''name'' 255 = Inr name" for name
    using that by (auto simp: inline_text_Inr normalize_comparison_def length_comparison_text Let_def)
  from Inl show ?thesis
    by (auto simp: validate_item_create_payload_def validate_item_def create_item_def ebind_def relabel_def
        dest!: short split: sum.splits)
next
  case (Inr v)
  then obtain k prepared name m where key: "normalize_category_key (ic_category_key p) = Inr k"
    and prep: "prepare_identity env d p = Inr prepared"
    and name: "catalog_inline_text (ic_name p) ''name'' 255 = Inr name"
    and m: "normalize_optional_inline_text (ic_model p) ''model'' 255 = Inr m"
    and v: "v = \<lparr> vd_category = pi_category prepared, vd_manufacturer = pi_manufacturer prepared,
      vd_name = name, vd_model = m, vd_attributes = pi_attributes prepared,
      vd_identity_signature = pi_identity_signature prepared \<rparr>"
    unfolding validate_item_Inr by blast
  have cmp: "normalize_comparison (ic_name p) ''name'' 255 = Inr (comparison_text name)"
    using name by (auto simp: inline_text_Inr normalize_comparison_Inr comparison_text_normalize
        length_comparison_text normalize_key_idem)
  have "length (comparison_text (or_empty (ic_model p))) \<le> 255" if "or_empty (ic_model p) \<noteq> []"
    using m that by (cases "ic_model p")
      (auto simp: or_empty_def normalize_optional_inline_text_def Let_def length_comparison_text split: if_splits)
  then have nmodel: "(if or_empty (ic_model p) = [] then Inr None
      else relabel Inl (ebind (normalize_comparison (or_empty (ic_model p)) ''model'' 255) (\<lambda>m. Inr (Some m)))) =
      (Inr (it_normalized_model (drafted_item new_id p v)) :: string option catalog_result)"
    by (cases "or_empty (ic_model p) = []") (auto simp: normalize_comparison_def Let_def drafted_item_def)
  show ?thesis
    unfolding Inr create_item_def key prep name cmp m nmodel by (simp add: Let_def drafted_item_def v)
qed

text \<open>
  What the database still asks of the row of a validated draft of a new identity: an empty
  normalised model goes with an empty model only, no text contains U+0000, and the signature is the
  one that SQL computes.
\<close>

definition storable :: "catalog_env \<Rightarrow> db \<Rightarrow> item_create \<Rightarrow> validated_item_draft \<Rightarrow> bool" where
  "storable env d p v \<longleftrightarrow>
     \<not> blank_model p \<and> (\<forall>s\<in>set (attribute_texts (vd_attributes v)). CHR 0x00 \<notin> set s) \<and>
     catalog_item_signature (ce_schema env) (ce_sha256 env) d (drafted_item 0 p v) = Some (vd_identity_signature v)"

lemma drafted_signature:
  "catalog_item_signature schema sha256 d (drafted_item i p v) = catalog_item_signature schema sha256 d (drafted_item 0 p v)"
  by (simp add: catalog_item_signature_def drafted_item_def cong: option.case_cong)

lemma signature_without_separators:
  assumes schema: "schema_ok (ce_schema env)" and mf: "manufacturers_ok d"
    and valid: "validate_item_create_payload env d p = Inr v"
    and clean: "\<forall>k s. (k, AText s) \<in> set (vd_attributes v) \<longrightarrow> no_separators s"
  shows "catalog_item_signature (ce_schema env) (ce_sha256 env) d (drafted_item new_id p v) =
    Some (vd_identity_signature v)"
proof -
  from valid obtain prepared where prep: "prepare_identity env d p = Inr prepared"
    and m: "normalize_optional_inline_text (ic_model p) ''model'' 255 = Inr (vd_model v)"
    and v: "vd_category v = pi_category prepared" "vd_attributes v = pi_attributes prepared"
      "vd_identity_signature v = pi_identity_signature prepared"
    unfolding validate_item_Inr by fastforce
  show ?thesis
    unfolding v by (rule prepared_signature [OF prep schema mf m])
      (use clean in \<open>simp_all add: drafted_item_def v\<close>)
qed

lemma drafted_checks:
  assumes schema: "schema_ok (ce_schema env)" and mf: "manufacturers_ok d"
    and object: "distinct (map fst (ic_attributes p))" and digest: "\<And>s. length (ce_sha256 env s) = 64"
    and valid: "validate_item_create_payload env d p = Inr v"
  shows "item_write_checks (ce_schema env) (ce_sha256 env) d (drafted_item new_id p v) = Inr () \<longleftrightarrow> storable env d p v"
proof (cases "blank_model p")
  case True
  then have "vd_model v = None"
    using valid unfolding validate_item_Inr
    by (cases "ic_model p") (auto simp: blank_model_def or_empty_def normalize_optional_inline_text_def strip_blank)
  then have "\<not> assert_catalog_item_identity (ce_schema env) (ce_sha256 env) d (drafted_item new_id p v)"
    using True by (simp add: assert_catalog_item_identity_def drafted_item_def blank_model_def)
  then show ?thesis using True by (simp add: item_write_checks_Inr storable_def)
next
  case False
  from valid obtain prepared where prep: "prepare_identity env d p = Inr prepared"
    and name: "catalog_inline_text (ic_name p) ''name'' 255 = Inr (vd_name v)"
    and m: "normalize_optional_inline_text (ic_model p) ''model'' 255 = Inr (vd_model v)"
    and v: "vd_category v = pi_category prepared" "vd_attributes v = pi_attributes prepared"
      "vd_identity_signature v = pi_identity_signature prepared"
    unfolding validate_item_Inr by fastforce
  have "item_write_checks (ce_schema env) (ce_sha256 env) d (drafted_item new_id p v) = Inr () \<longleftrightarrow>
      (\<forall>s\<in>set (attribute_texts (pi_attributes prepared)). CHR 0x00 \<notin> set s) \<and>
      catalog_item_signature (ce_schema env) (ce_sha256 env) d (drafted_item new_id p v) =
        Some (pi_identity_signature prepared)"
    by (rule prepared_item_checks [OF prep object schema mf digest name m])
      (use optional_model [OF False m] in \<open>auto simp: drafted_item_def v\<close>)
  then show ?thesis
    unfolding drafted_signature [of _ _ _ new_id] by (simp add: storable_def False v)
qed

lemma nul_code: "CHR 0x00 = c \<longleftrightarrow> (of_char c :: nat) = 0"
  using of_char_eq_iff [of "CHR 0x00" c, where ?'a = nat] by auto

lemma nul_not_space: "\<not> is_space (CHR 0x00)"
  by (simp add: is_space_def)

lemma nul_comparison: "CHR 0x00 \<in> set (comparison_text s) \<longleftrightarrow> CHR 0x00 \<in> set s"
proof -
  have zero: "CHR 0x00 = casefold c \<longleftrightarrow> c = CHR 0x00" for c
    unfolding nul_code nul_code [of c, unfolded eq_commute [of "CHR 0x00"]]
    by (auto simp: casefold_def Let_def of_char_of)
  have "CHR 0x00 \<in> set (comparison_text s) \<longleftrightarrow> CHR 0x00 \<in> casefold ` set (normalize_idempotency_key s)"
    by (simp add: comparison_text_def normalize_idempotency_key_def)
  also have "\<dots> \<longleftrightarrow> CHR 0x00 \<in> set (normalize_idempotency_key s)" by (simp add: image_iff zero)
  also have "\<dots> \<longleftrightarrow> CHR 0x00 \<in> set s" by (rule normalize_key_member [OF nul_not_space])
  finally show ?thesis .
qed

lemma drafted_texts:
  assumes "validate_item_create_payload env d p = Inr v"
  shows "(\<forall>s\<in>set (item_texts (drafted_item new_id p v)). CHR 0x00 \<notin> set s) \<longleftrightarrow>
    CHR 0x00 \<notin> set (vd_name v) \<and> CHR 0x00 \<notin> set (or_empty (vd_model v))"
proof -
  note nul = nul_not_space and compared = nul_comparison
  have m: "normalize_optional_inline_text (ic_model p) ''model'' 255 = Inr (vd_model v)"
    using assms unfolding validate_item_Inr by fastforce
  have "CHR 0x00 \<in> set (or_empty (vd_model v)) \<longleftrightarrow> CHR 0x00 \<in> set (or_empty (ic_model p))"
  proof (cases "ic_model p")
    case (Some s)
    have "or_empty (vd_model v) = normalize_idempotency_key s"
      using m Some by (cases "normalize_idempotency_key s = []"; cases "vd_model v")
        (auto simp: or_empty_def normalize_optional_inline_text_def Let_def split: if_splits)
    then show ?thesis by (simp add: Some or_empty_def normalize_key_member [OF nul])
  qed (use m in \<open>simp add: or_empty_def normalize_optional_inline_text_def\<close>)
  then show ?thesis by (cases "or_empty (ic_model p) = []") (simp_all add: item_texts_def drafted_item_def compared or_empty_def)
qed

lemma create_valid_item:
  assumes schema: "schema_ok (ce_schema env)" and mf: "manufacturers_ok d"
    and object: "distinct (map fst (ic_attributes p))" and digest: "\<And>s. length (ce_sha256 env s) = 64"
    and valid: "validate_item_create_payload env d p = Inr v"
  shows "(\<exists>d'. create_item env new_id d p = Inr (d', new_id)) \<longleftrightarrow>
    new_id \<notin> it_id ` set (items d) \<and> check_duplicate_candidates env d p None = Inr [] \<and>
    CHR 0x00 \<notin> set (vd_name v) \<and> CHR 0x00 \<notin> set (or_empty (vd_model v)) \<and> storable env d p v"
proof -
  have dup: "check_duplicate_candidates env d p None = Inr [] \<longleftrightarrow>
      (\<forall>x\<in>set (items d). it_identity_signature x \<noteq> it_identity_signature (drafted_item new_id p v))"
    using valid duplicates_Nil [of p _ env d] by (auto simp: validate_item_Inr drafted_item_def)
  have "(\<exists>d'. create_item env new_id d p = Inr (d', new_id)) \<longleftrightarrow>
      (\<exists>d'. insert_item (ce_schema env) (ce_sha256 env) d (drafted_item new_id p v) = Inr d')"
    by (simp add: create_item_alt valid result_simps)
  then show ?thesis
    unfolding insert_item_Inr drafted_checks [OF schema mf object digest valid] drafted_texts [OF valid] dup
    by (auto simp: drafted_item_def)
qed

text \<open>None of this happens to a payload without the five control characters and without a blank model.\<close>

definition clean_payload :: "item_create \<Rightarrow> bool" where
  "clean_payload p \<longleftrightarrow> distinct (map fst (ic_attributes p)) \<and> \<not> blank_model p \<and>
     CHR 0x00 \<notin> set (ic_name p) \<and> CHR 0x00 \<notin> set (or_empty (ic_model p)) \<and>
     (\<forall>(k, raw)\<in>set (ic_attributes p). \<forall>s. raw = RStr s \<longrightarrow> no_separators s \<and> CHR 0x00 \<notin> set s)"

lemma create_clean_item:
  assumes schema: "schema_ok (ce_schema env)" and mf: "manufacturers_ok d" and clean: "clean_payload p"
    and digest: "\<And>s. length (ce_sha256 env s) = 64"
    and valid: "validate_item_create_payload env d p = Inr v"
  shows "(\<exists>d'. create_item env new_id d p = Inr (d', new_id)) \<longleftrightarrow>
    new_id \<notin> it_id ` set (items d) \<and> check_duplicate_candidates env d p None = Inr []"
proof -
  from valid obtain prepared where prep: "prepare_identity env d p = Inr prepared"
    and name: "catalog_inline_text (ic_name p) ''name'' 255 = Inr (vd_name v)"
    and m: "normalize_optional_inline_text (ic_model p) ''model'' 255 = Inr (vd_model v)"
    and v: "vd_attributes v = pi_attributes prepared"
    unfolding validate_item_Inr by fastforce
  have nul: "\<not> is_space (CHR 0x00)" by (simp add: is_space_def)
  have "\<forall>k s. (k, AText s) \<in> set (vd_attributes v) \<longrightarrow> no_separators s"
    using prepared_separators [OF prep] clean by (fastforce simp: clean_payload_def v)
  then have "catalog_item_signature (ce_schema env) (ce_sha256 env) d (drafted_item 0 p v) =
      Some (vd_identity_signature v)"
    by (rule signature_without_separators [OF schema mf valid])
  moreover have "CHR 0x00 \<notin> set s" if "s \<in> set (attribute_texts (vd_attributes v))" for s
    using prepared_nul [OF prep _ that [unfolded v]] clean by (fastforce simp: clean_payload_def)
  ultimately have "storable env d p v" using clean by (auto simp: storable_def clean_payload_def)
  moreover have "CHR 0x00 \<notin> set (vd_name v)"
    using name clean by (simp add: inline_text_Inr clean_payload_def normalize_key_member [OF nul])
  moreover have "CHR 0x00 \<notin> set (or_empty (vd_model v))"
    using m clean normalize_key_member [OF nul]
    by (cases "ic_model p"; cases "vd_model v") (auto simp: clean_payload_def or_empty_def
        normalize_optional_inline_text_def Let_def split: if_splits)
  ultimately show ?thesis
    using create_valid_item [OF schema mf _ digest valid, of new_id] clean by (auto simp: clean_payload_def)
qed

lemma created_is_valid:
  assumes "create_item env new_id d p = Inr (d', i)"
  shows "\<exists>v. validate_item_create_payload env d p = Inr v"
  using assms unfolding create_item_def validate_item_Inr Let_def by (auto simp: result_simps)

text \<open>
  C32. Validation gives exactly what the schema declares: the accepted values carry the keys
  and the data types of the category's attributes, numbers lie between the numbers that the
  metadata of their attribute declares as \<open>min\<close> and \<open>max\<close> and fit their columns, texts are not longer
  than the declared \<open>max_length\<close>, enumeration values are among the allowed ones, and no required
  attribute is missing or blank.
\<close>

theorem validated_attributes_conform:
  assumes "validate_attribute_values c defs supplied = Inr vs" and "distinct (map at_key defs)"
  shows "(\<forall>(k, v)\<in>set vs. \<exists>a\<in>set defs. at_key a = k \<and> at_category_id a = c \<and>
      value_data_type v = at_data_type a \<and> column_ready v \<and> within_bounds a v) \<and>
    (\<forall>a\<in>set defs. at_required a \<longrightarrow> at_key a \<in> fst ` set vs) \<and>
    fst ` set vs \<subseteq> fst ` set supplied"
proof (intro conjI)
  have c: "\<forall>a\<in>set defs. at_category_id a = c"
    using assms(1) by (auto simp: validate_attribute_values_def split: if_splits)
  show "\<forall>(k, v)\<in>set vs. \<exists>a\<in>set defs. at_key a = k \<and> at_category_id a = c \<and>
      value_data_type v = at_data_type a \<and> column_ready v \<and> within_bounds a v"
  proof (clarify)
    fix k v assume "(k, v) \<in> set vs"
    then obtain raw a where "a \<in> set defs" "at_key a = k" "prepare_attribute_value a raw = Inr (Some v)"
      using validated_value [OF assms(1)] by metis
    then show "\<exists>a\<in>set defs. at_key a = k \<and> at_category_id a = c \<and>
        value_data_type v = at_data_type a \<and> column_ready v \<and> within_bounds a v"
      using prepared_value_ok c by blast
  qed
  show "\<forall>a\<in>set defs. at_required a \<longrightarrow> at_key a \<in> fst ` set vs"
    using validated_required [OF assms] by blast
  show "fst ` set vs \<subseteq> fst ` set supplied"
  proof
    fix k assume "k \<in> fst ` set vs"
    then obtain v where "(k, v) \<in> set vs" by force
    then obtain raw where "(k, raw) \<in> set supplied" using validated_value [OF assms(1)] by metis
    then show "k \<in> fst ` set supplied" by force
  qed
qed

text \<open>
  A draft whose model consists of blanks is never created: the service stores no model but an
  empty normalised model, which the identity trigger refuses, although the same draft passes
  \<open>validate_item_create_payload\<close>.
\<close>

lemma blank_model_never_created:
  assumes "blank_model p"
  shows "\<forall>r. create_item env new_id d p \<noteq> Inr r"
proof (intro allI notI)
  fix r assume run: "create_item env new_id d p = Inr r"
  have empty: "normalize_optional_inline_text (ic_model p) ''model'' 255 = Inr None"
    using assms
    by (cases "ic_model p") (simp_all add: blank_model_def or_empty_def normalize_optional_inline_text_def strip_blank)
  from run obtain it where ins: "insert_item (ce_schema env) (ce_sha256 env) d it = Inr (fst r)"
    and it: "it_model it = None" "it_normalized_model it \<noteq> None"
    using assms unfolding create_item_def Let_def empty blank_model_def by (fastforce simp: result_simps)
  then show False by (auto simp: insert_item_Inr item_write_checks_Inr assert_catalog_item_identity_def)
qed

section \<open>Instances\<close>

lemma sample_schema_ok: "schema_ok sample_schema"
  by (simp add: schema_ok_def sample_schema_def sample_attribute_def)

lemma sample_makers_ok: "manufacturers_ok sample_makers"
proof -
  have "normalize_idempotency_key ''Acme'' = ''Acme''" "comparison_text ''Acme'' = ''acme''" by code_simp+
  then show ?thesis by (simp add: manufacturers_ok_def sample_makers_def)
qed

lemma sample_models: "\<not> blank_model sample_transceiver" "blank_model sample_cord"
proof -
  have "py_strip ''FC16'' \<noteq> []" "py_strip '' '' = []" by code_simp+
  then show "\<not> blank_model sample_transceiver" "blank_model sample_cord"
    by (simp_all add: blank_model_def sample_transceiver_def sample_cord_def or_empty_def)
qed

lemma sample_payloads_clean: "clean_payload sample_transceiver"
proof -
  have "no_separators sample_reach"
    by (simp add: no_separators_def sample_reach_def points_text_def point_char_def)
  moreover have "CHR 0x00 \<notin> set sample_reach"
    by (simp add: sample_reach_def points_text_def point_char_def nul_code of_char_of)
  ultimately show ?thesis using sample_models by (simp add: clean_payload_def sample_transceiver_def or_empty_def)
qed

lemma sample_draft_texts:
  "normalize_category_key ''transceiver_fc'' = Inr ''transceiver_fc''"
  "normalize_category_key ''optical_patch_cord'' = Inr ''optical_patch_cord''"
  "normalize_idempotency_key ''FC module'' = ''FC module''" "normalize_idempotency_key ''FC16'' = ''FC16''"
  "normalize_idempotency_key ''Cord'' = ''Cord''" "normalize_idempotency_key '' '' = []"
  "parse_decimal ''1.50'' = Some (Dec False 150 (- 2))" "py_strip ''1.50'' = ''1.50''" "py_strip ''FC16'' = ''FC16''"
  by code_simp+

lemma sample_reach_metres: "normalize_reach (map code_point sample_reach) = Some 10000"
proof -
  have points: "map code_point sample_reach = [49, 48, 32, 1082, 1084]"
    by (simp add: sample_reach_def code_point_def points_text_def point_char_def)
  have clean: "clean_text [49, 48, 32, 1082, 1084] = [49, 48, 32, 1082, 1084]"
    by (simp add: clean_text_def cp_strip_def cp_space_def cp_line_break_def)
  have "scan_distances [49, 48, 32, 1082, 1084] = ([([49, 48], [], 1000)], [])"
    by (simp add: scan_distances.simps match_distance_def match_fraction_def cp_digit_def cp_space_def
        match_unit_def word_end_def numeral_2_eq_2)
  then show ?thesis unfolding points
    by (simp add: normalize_reach_def clean cp_casefold_def round28_def whole_metres_def
        cp_digits_nat_def nat_str.simps Let_def del: scan_distances.simps)
qed

lemma sample_category_attributes:
  "get_category_attributes sample_schema 32 =
     [sample_attribute 2 32 ''reach'' DT_TEXT True, sample_attribute 3 32 ''reach_m'' DT_INTEGER True]"
  "get_category_attributes sample_schema 31 = [sample_attribute 1 31 ''length'' DT_DECIMAL False]"
  by (simp_all add: get_category_attributes_def sample_schema_def sample_attribute_def)

lemmas validation_simps = validate_attribute_values_def by_key_def sample_attribute_def
  prepare_attribute_value_def prepare_text_def metadata_of_def prepare_integer_def MIN_SAFE_INTEGER_def
  MAX_SAFE_INTEGER_def validate_numeric_bounds_def numeric_metadata_def Let_def

lemma sample_reach_validates:
  "validate_attribute_values 32 (get_category_attributes sample_schema 32)
     [(''reach'', RStr sample_reach), (''reach_m'', RInt 10000)] =
   Inr [(''reach'', AText sample_reach), (''reach_m'', AInteger 10000)]"
proof -
  have "normalize_idempotency_key sample_reach = sample_reach" and "sample_reach \<noteq> []"
    by (simp_all add: sample_reach_def normalize_idempotency_key_def py_split_def is_space_def
        points_text_def point_char_def)
  then show ?thesis unfolding sample_category_attributes by (simp add: validation_simps)
qed

lemma sample_length_validates:
  "validate_attribute_values 31 (get_category_attributes sample_schema 31) [(''length'', RStr ''1.50'')] =
   Inr [(''length'', ADecimal (Dec False 150 (- 2)))]"
proof -
  have "validate_decimal_storage (Dec False 150 (- 2)) = Inr ()" by code_simp
  then show ?thesis
    unfolding sample_category_attributes by (simp add: validation_simps prepare_decimal_def sample_draft_texts)
qed

lemmas sample_drafts = validate_item_create_payload_def validate_item_def prepare_identity_def
  get_category_by_key_def category_by_key_def find_manufacturer_def derive_reach_def is_transceiver_def
  catalog_inline_text_def normalize_optional_inline_text_def LEAVES_def MANUFACTURED_LEAVES_def
  or_empty_def Let_def sample_draft_texts sample_catalog_def

lemma sample_transceiver_valid:
  "\<exists>v. validate_item_create_payload sample_catalog sample_makers sample_transceiver = Inr v"
proof -
  have "cs_categories sample_schema = [\<lparr> cat_id = 30, cat_key = ''cables'', cat_display_name = ''Cables'', cat_parent_id = None,
         cat_sort_order = 1 \<rparr>,
      \<lparr> cat_id = 31, cat_key = ''optical_patch_cord'', cat_display_name = ''Patch cords'',
         cat_parent_id = Some 30,
         cat_sort_order = 2 \<rparr>,
      \<lparr> cat_id = 32, cat_key = ''transceiver_fc'', cat_display_name = ''FC'', cat_parent_id = Some 30,
         cat_sort_order = 2 \<rparr>]"
    by (simp add: sample_schema_def)
  then show ?thesis
    by (simp add: sample_drafts sample_transceiver_def sample_makers_def sample_reach_metres sample_reach_validates)
qed

lemma sample_cord_valid:
  "\<exists>v. validate_item_create_payload sample_catalog sample_makers sample_cord = Inr v"
proof -
  have "table_get cat_key ''optical_patch_cord'' (cs_categories sample_schema) =
      Some \<lparr> cat_id = 31, cat_key = ''optical_patch_cord'', cat_display_name = ''Patch cords'',
         cat_parent_id = Some 30,
         cat_sort_order = 2 \<rparr>"
    by (simp add: sample_schema_def)
  then show ?thesis
    by (simp add: sample_drafts sample_cord_def sample_length_validates)
qed

theorem validated_attributes_conform_witness:
  "column_ready (AInteger 10000) \<and>
   within_bounds (sample_attribute 3 32 ''reach_m'' DT_INTEGER True) (AInteger 10000)"
proof -
  have "distinct (map at_key (get_category_attributes sample_schema 32))"
    by (simp add: sample_category_attributes sample_attribute_def)
  from validated_attributes_conform [OF sample_reach_validates this]
  have "\<exists>a\<in>set (get_category_attributes sample_schema 32). at_key a = ''reach_m'' \<and>
      column_ready (AInteger 10000) \<and> within_bounds a (AInteger 10000)" by auto
  then show ?thesis by (auto simp: sample_category_attributes sample_attribute_def)
qed

lemma sample_item_created:
  "\<exists>d'. create_item sample_catalog 70 sample_makers sample_transceiver = Inr (d', 70)"
proof -
  obtain v where v: "validate_item_create_payload sample_catalog sample_makers sample_transceiver = Inr v"
    using sample_transceiver_valid by blast
  then have dup: "check_duplicate_candidates sample_catalog sample_makers sample_transceiver None = Inr []"
    unfolding validate_item_Inr by (auto simp: check_duplicate_candidates_def sample_makers_def)
  show ?thesis
    by (subst create_clean_item [OF _ sample_makers_ok sample_payloads_clean _ v])
      (use dup in \<open>auto simp: sample_catalog_def sample_schema_ok sample_digest_def sample_makers_def\<close>)
qed

lemma blank_model_never_created_witness:
  "(\<exists>v. validate_item_create_payload sample_catalog sample_makers sample_cord = Inr v) \<and>
   (\<forall>r. create_item sample_catalog 70 sample_makers sample_cord \<noteq> Inr r)"
  using sample_cord_valid blank_model_never_created [OF sample_models(2)] by blast

end
