(* ===== verification/Catalog_Steps.thy ===== *)
theory Catalog_Steps
  imports Catalog_Safety
begin

text \<open>
  The catalog as a state machine: a step is a committed write of the service. The invariant says
  that identifiers and signatures are unique and that every stored row still passes the checks
  under which it was written, although manufacturers are added and items change around it.
\<close>

inductive catalog_step :: "catalog_env \<Rightarrow> db \<Rightarrow> db \<Rightarrow> bool" for env where
  step_manufacturer: "create_manufacturer d i n = Inr (d', m) \<Longrightarrow> catalog_step env d d'"
| step_create_item: "create_item env i d p = Inr (d', j) \<Longrightarrow> catalog_step env d d'"
| step_update_item: "update_item env d i p = Inr (d', j) \<Longrightarrow> catalog_step env d d'"
| step_archive_item: "set_item_archived env d i archived now = Inr (d', j) \<Longrightarrow> catalog_step env d d'"
| step_delete_item: "delete_unused_item d i = Inr d' \<Longrightarrow> catalog_step env d d'"

definition catalog_inv :: "catalog_env \<Rightarrow> db \<Rightarrow> bool" where
  "catalog_inv env d \<longleftrightarrow> manufacturers_ok d \<and> distinct (map it_id (items d)) \<and>
     distinct (map it_identity_signature (items d)) \<and>
     (\<forall>it\<in>set (items d). item_write_checks (ce_schema env) (ce_sha256 env) d it = Inr ())"

section \<open>Effects\<close>

lemma create_manufacturer_Inr:
  assumes "create_manufacturer d i n = Inr (d', m)"
  shows "d' = d\<lparr>manufacturers := manufacturers d @ [m]\<rparr>" and "mf_id m \<notin> mf_id ` set (manufacturers d)"
    and "mf_normalized_name m \<notin> mf_normalized_name ` set (manufacturers d)"
    and "mf_name m = normalize_idempotency_key n" and "mf_name m \<noteq> []"
    and "mf_normalized_name m = comparison_text (mf_name m)"
  using assms unfolding create_manufacturer_def insert_manufacturer_def Let_def
  by (auto simp: result_simps inline_text_Inr normalize_comparison_Inr split: if_splits)

lemma update_item_Inr:
  assumes "update_item env d i p = Inr (d', j)"
  obtains it it' where "get_item d i = Some it" and "save_item (ce_schema env) (ce_sha256 env) d it' = Inr d'"
    and "it_id it' = it_id it" and "it_category_id it' = it_category_id it"
    and "it_status it' = it_status it" and "it_archived_at it' = it_archived_at it"
  using assms unfolding update_item_def Let_def by (fastforce simp: result_simps)

lemma set_item_archived_Inr:
  assumes "set_item_archived env d i archived now = Inr (d', j)"
  obtains "d' = d"
  | it where "get_item d i = Some it"
      "save_item (ce_schema env) (ce_sha256 env) d
         (it\<lparr>it_status := (if archived then ITEM_ARCHIVED else ITEM_ACTIVE),
             it_archived_at := (if archived then Some now else None)\<rparr>) = Inr d'"
  using assms unfolding set_item_archived_def Let_def by (auto simp: result_simps split: if_splits)

lemma delete_unused_item_Inr:
  "delete_unused_item d i = Inr d' \<longleftrightarrow>
     i \<in> it_id ` set (items d) \<and> d' = d\<lparr>items := table_del it_id i (items d)\<rparr> \<and>
     i \<notin> ml_item_id ` set (movement_lines d) \<and> i \<notin> sb_item_id ` set (stock_balances d) \<and>
     i \<notin> cb_item_id ` set (user_item_custody_balances d) \<and>
     Some i \<notin> rl_catalog_item_id ` set (procurement_revision_lines d) \<and>
     i \<notin> bd_item_id ` set (procurement_line_catalog_bindings d)"
proof -
  have item: "get_item d i = None \<longleftrightarrow> i \<notin> it_id ` set (items d)"
    by (simp add: get_item_def table_get_None_iff)
  have used: "(\<exists>x\<in>S. f x = k) \<longleftrightarrow> k \<in> f ` S" for k and f :: "'a \<Rightarrow> 'b" and S
    by (auto simp: image_iff)
  show ?thesis
    unfolding delete_unused_item_def used using item by (cases "get_item d i") auto
qed

text \<open>Only the two tables of the catalog change.\<close>

lemma catalog_step_frame:
  assumes "catalog_step env d d'"
  shows "\<exists>ms its. d' = d\<lparr>manufacturers := ms, items := its\<rparr>"
  using assms
proof cases
  case (step_manufacturer i n m)
  then have "d' = d\<lparr>manufacturers := manufacturers d @ [m], items := items d\<rparr>"
    by (simp add: create_manufacturer_Inr(1))
  then show ?thesis by blast
next
  case (step_create_item i p j)
  then obtain it where "d' = d\<lparr>items := items d @ [it]\<rparr>" using create_item_Inr by metis
  then have "d' = d\<lparr>manufacturers := manufacturers d, items := items d @ [it]\<rparr>" by simp
  then show ?thesis by blast
next
  case (step_update_item i p j)
  then obtain it where "d' = d\<lparr>items := table_update it_id (it_id it) (\<lambda>_. it) (items d)\<rparr>"
    using update_item_Inr save_item_Inr by metis
  then have "d' = d\<lparr>manufacturers := manufacturers d, items := table_update it_id (it_id it) (\<lambda>_. it) (items d)\<rparr>" by simp
  then show ?thesis by blast
next
  case (step_archive_item i archived now j)
  then consider "d' = d" | it where "d' = d\<lparr>items := table_update it_id (it_id it) (\<lambda>_. it) (items d)\<rparr>"
    using set_item_archived_Inr save_item_Inr by metis
  then show ?thesis
  proof cases
    case 1
    then have "d' = d\<lparr>manufacturers := manufacturers d, items := items d\<rparr>" by simp
    then show ?thesis by blast
  next
    case (2 it)
    then have "d' = d\<lparr>manufacturers := manufacturers d, items := table_update it_id (it_id it) (\<lambda>_. it) (items d)\<rparr>" by simp
    then show ?thesis by blast
  qed
next
  case (step_delete_item i)
  then have "d' = d\<lparr>manufacturers := manufacturers d, items := table_del it_id i (items d)\<rparr>"
    by (simp add: delete_unused_item_Inr)
  then show ?thesis by blast
qed

section \<open>The invariant\<close>

lemma write_checks_cong:
  assumes "manufacturers d' = manufacturers d"
  shows "item_write_checks schema sha256 d' it = item_write_checks schema sha256 d it"
proof -
  have name: "manufacturer_name d' = manufacturer_name d" by (rule ext) (simp add: manufacturer_name_def assms)
  show ?thesis
    unfolding item_write_checks_def item_references_ok_def assert_catalog_item_identity_def
      catalog_item_signature_def assms name ..
qed

lemma distinct_column_update:
  assumes "distinct (map key rs)" and "distinct (map col rs)" and "\<forall>x\<in>set rs. key x = key r \<or> col x \<noteq> col r"
  shows "distinct (map col (table_update key (key r) (\<lambda>_. r) rs))"
  using assms
proof (induction rs)
  case (Cons x rs)
  then have IH: "distinct (map col (table_update key (key r) (\<lambda>_. r) rs))" by simp
  have same: "table_update key (key r) (\<lambda>_. r) rs = rs" if "key x = key r"
  proof -
    have "\<forall>y\<in>set rs. key y \<noteq> key r" using Cons.prems(1) that by (auto simp: image_iff)
    then show ?thesis unfolding table_update_def by (intro map_idI) simp
  qed
  show ?case
  proof (cases "key x = key r")
    case True
    have "\<forall>y\<in>set rs. key y \<noteq> key r" using Cons.prems(1) True by (auto simp: image_iff)
    then have "col r \<notin> col ` set rs" using Cons.prems(3) by (auto simp: image_iff)
    moreover have "table_update key (key r) (\<lambda>_. r) (x # rs) = r # rs"
      using same [OF True] True by (simp add: table_update_def)
    ultimately show ?thesis using Cons.prems(2) by simp
  next
    case False
    then have "col x \<notin> col ` set (table_update key (key r) (\<lambda>_. r) rs)"
      using Cons.prems by (auto simp: table_update_def)
    moreover have "table_update key (key r) (\<lambda>_. r) (x # rs) = x # table_update key (key r) (\<lambda>_. r) rs"
      using False by (simp add: table_update_def)
    ultimately show ?thesis using IH by simp
  qed
qed (simp add: table_update_def)

lemma write_checks_append:
  assumes "item_write_checks schema sha256 d it = Inr ()" and "manufacturers d' = manufacturers d @ [m]"
  shows "item_write_checks schema sha256 d' it = Inr ()"
proof -
  have refs: "item_references_ok schema d it" using assms(1) by (simp add: item_write_checks_Inr)
  then have "item_references_ok schema d' it" by (auto simp: item_references_ok_def assms(2))
  moreover have name: "manufacturer_name d' (it_manufacturer_id it) = manufacturer_name d (it_manufacturer_id it)"
    using refs table_get_exists [of _ mf_id "manufacturers d"]
    by (cases "it_manufacturer_id it") (fastforce simp: manufacturer_name_def item_references_ok_def assms(2)
        table_get_append)+
  moreover have "catalog_item_signature schema sha256 d' it = catalog_item_signature schema sha256 d it"
    unfolding catalog_item_signature_def name ..
  ultimately show ?thesis
    using assms(1) by (simp add: item_write_checks_Inr assert_catalog_item_identity_def)
qed

lemma save_item_inv:
  assumes "catalog_inv env d" and "save_item (ce_schema env) (ce_sha256 env) d it = Inr d'"
  shows "catalog_inv env d'"
proof -
  let ?its = "table_update it_id (it_id it) (\<lambda>_. it) (items d)"
  from assms(2) have d': "d' = d\<lparr>items := ?its\<rparr>" and ok: "item_write_checks (ce_schema env) (ce_sha256 env) d it = Inr ()"
    and uniq: "\<forall>x\<in>set (items d). it_id x = it_id it \<or> it_identity_signature x \<noteq> it_identity_signature it"
    by (auto simp: save_item_Inr)
  have ids: "map it_id ?its = map it_id (items d)" by (auto simp: table_update_def)
  have "distinct (map it_identity_signature ?its)"
    using assms(1) uniq by (intro distinct_column_update) (simp_all add: catalog_inv_def)
  moreover have same: "item_write_checks (ce_schema env) (ce_sha256 env) d' x =
      item_write_checks (ce_schema env) (ce_sha256 env) d x" for x
    by (rule write_checks_cong) (simp add: d')
  moreover have "\<forall>x\<in>set ?its. x = it \<or> x \<in> set (items d)" by (auto simp: table_update_def)
  moreover have "manufacturers_ok d' = manufacturers_ok d" by (simp add: manufacturers_ok_def d')
  ultimately show ?thesis
    using assms(1) ok ids unfolding catalog_inv_def same by (auto simp: d')
qed

lemma insert_item_inv:
  assumes "catalog_inv env d" and "insert_item (ce_schema env) (ce_sha256 env) d it = Inr d'"
  shows "catalog_inv env d'"
proof -
  from assms(2) have d': "d' = d\<lparr>items := items d @ [it]\<rparr>"
    and "item_write_checks (ce_schema env) (ce_sha256 env) d it = Inr ()"
    and "\<forall>x\<in>set (items d). it_id x \<noteq> it_id it \<and> it_identity_signature x \<noteq> it_identity_signature it"
    by (auto simp: insert_item_Inr)
  then show ?thesis
    using assms(1) unfolding catalog_inv_def d'
    by (auto simp: write_checks_cong [of "d\<lparr>items := items d @ [it]\<rparr>" d] manufacturers_ok_def)
qed

lemma create_manufacturer_inv:
  assumes "catalog_inv env d" and "create_manufacturer d i n = Inr (d', m)"
  shows "catalog_inv env d'"
proof -
  note m = create_manufacturer_Inr [OF assms(2)]
  have "manufacturers_ok d'"
    using assms(1) m by (auto simp: catalog_inv_def manufacturers_ok_def normalize_key_idem)
  moreover have "\<forall>it\<in>set (items d). item_write_checks (ce_schema env) (ce_sha256 env) d' it = Inr ()"
    using assms(1) write_checks_append [of _ _ d _ d' m] m(1) by (simp add: catalog_inv_def)
  ultimately show ?thesis using assms(1) by (simp add: catalog_inv_def m(1))
qed

lemma delete_item_inv:
  assumes "catalog_inv env d" and "delete_unused_item d i = Inr d'"
  shows "catalog_inv env d'"
proof -
  have d': "d' = d\<lparr>items := table_del it_id i (items d)\<rparr>" using assms(2) by (simp add: delete_unused_item_Inr)
  have "item_write_checks (ce_schema env) (ce_sha256 env) d' it = item_write_checks (ce_schema env) (ce_sha256 env) d it"
    for it by (rule write_checks_cong) (simp add: d')
  moreover have "manufacturers_ok d' = manufacturers_ok d" by (simp add: manufacturers_ok_def d')
  ultimately show ?thesis
    using assms(1) by (simp add: catalog_inv_def) (simp add: d' table_del_def distinct_map_filter)
qed

lemma catalog_step_inv:
  assumes "catalog_step env d d'" and "catalog_inv env d"
  shows "catalog_inv env d'"
  using assms(1)
proof cases
  case step_manufacturer
  then show ?thesis using create_manufacturer_inv assms(2) by blast
next
  case step_create_item
  then show ?thesis using insert_item_inv [OF assms(2)] create_item_inserts by metis
next
  case step_update_item
  then show ?thesis using save_item_inv [OF assms(2)] update_item_Inr by metis
next
  case step_archive_item
  then show ?thesis using save_item_inv [OF assms(2)] assms(2) by (elim set_item_archived_Inr) auto
next
  case step_delete_item
  then show ?thesis using delete_item_inv assms(2) by blast
qed

section \<open>Equipment identity\<close>

text \<open>The same category, manufacturer, model and attributes, up to case, spacing, compatibility
  characters and the writing of decimals.\<close>

definition same_equipment :: "db \<Rightarrow> item \<Rightarrow> item \<Rightarrow> bool" where
  "same_equipment d x y \<longleftrightarrow>
     it_category_id x = it_category_id y \<and>
     catalog_identity_text (or_empty (manufacturer_name d (it_manufacturer_id x))) =
       catalog_identity_text (or_empty (manufacturer_name d (it_manufacturer_id y))) \<and>
     catalog_identity_text (or_empty (it_model x)) = catalog_identity_text (or_empty (it_model y)) \<and>
     set (map (map_prod id sql_attribute_json) (it_attributes x)) =
       set (map (map_prod id sql_attribute_json) (it_attributes y))"

lemma sorted_keys_unique:
  assumes "distinct (map fst xs)" and "distinct (map fst ys)" and "set xs = set ys"
  shows "sort_key fst xs = sort_key fst (ys :: ('k :: linorder \<times> 'v) list)"
proof (rule map_sorted_distinct_set_unique)
  show "inj_on fst (set (sort_key fst xs) \<union> set (sort_key fst ys))"
    using assms by (auto simp: distinct_map)
qed (use assms in \<open>simp_all add: distinct_map\<close>)

lemma same_equipment_signature:
  assumes "same_equipment d x y" and "distinct (map fst (it_attributes x))"
    and "distinct (map fst (it_attributes y))"
  shows "catalog_item_signature schema sha256 d x = catalog_item_signature schema sha256 d y"
proof -
  have rows: "map (\<lambda>(k, v). json_string k @ '':'' @ sql_attribute_json v) (sort_key fst kvs) =
      map (\<lambda>(k, j). json_string k @ '':'' @ j) (sort_key fst (map (map_prod id sql_attribute_json) kvs))"
    for kvs :: "(string \<times> attribute_value) list"
    by (subst sort_key_map [of fst _ fst]) (auto simp: comp_def)
  have attrs: "sort_key fst (map (map_prod id sql_attribute_json) (it_attributes x)) =
      sort_key fst (map (map_prod id sql_attribute_json) (it_attributes y))"
    using assms by (intro sorted_keys_unique) (auto simp: same_equipment_def comp_def)
  have "it_category_id x = it_category_id y"
    "catalog_identity_text (or_empty (manufacturer_name d (it_manufacturer_id x))) =
       catalog_identity_text (or_empty (manufacturer_name d (it_manufacturer_id y)))"
    "catalog_identity_text (or_empty (it_model x)) = catalog_identity_text (or_empty (it_model y))"
    using assms(1) by (simp_all add: same_equipment_def)
  then show ?thesis unfolding catalog_item_signature_def rows attrs by (simp only:)
qed

text \<open>
  C35. The catalog never holds the same piece of equipment twice: in every state that the
  operations of the service reach, two items of one category whose manufacturer, model and
  attributes agree up to case, spacing, compatibility characters and the writing of decimals are
  the same item.
\<close>

theorem equipment_is_unique:
  assumes "catalog_inv env d" and "(catalog_step env)\<^sup>*\<^sup>* d d'"
    and "x \<in> set (items d')" and "y \<in> set (items d')" and "same_equipment d' x y"
  shows "x = y"
proof -
  from assms(2) have inv: "catalog_inv env d'"
    by (induction rule: rtranclp_induct) (use assms(1) catalog_step_inv in blast)+
  have row: "Some (it_identity_signature z) = catalog_item_signature (ce_schema env) (ce_sha256 env) d' z"
    "distinct (map fst (it_attributes z))" if "z \<in> set (items d')" for z
    using inv that
    by (auto simp: catalog_inv_def item_write_checks_Inr assert_catalog_item_identity_def attribute_rows_ok_def)
  have "it_identity_signature x = it_identity_signature y"
    using row assms(3,4) same_equipment_signature [OF assms(5)] by (metis option.inject)
  then show ?thesis using inv assms(3,4) by (auto simp: catalog_inv_def distinct_map inj_on_def)
qed

section \<open>Instances\<close>

lemma sample_makers_inv: "catalog_inv sample_catalog sample_makers"
  using sample_makers_ok by (simp add: catalog_inv_def sample_makers_def)

theorem equipment_is_unique_witness:
  "\<exists>d' x. (catalog_step sample_catalog)\<^sup>*\<^sup>* sample_makers d' \<and> items d' = [x] \<and>
     (\<forall>y\<in>set (items d'). same_equipment d' y x \<longrightarrow> y = x)"
proof -
  obtain v where v: "validate_item_create_payload sample_catalog sample_makers sample_transceiver = Inr v"
    using sample_transceiver_valid by blast
  have "check_duplicate_candidates sample_catalog sample_makers sample_transceiver None = Inr []"
    using v unfolding validate_item_Inr by (auto simp: check_duplicate_candidates_def sample_makers_def)
  then obtain d' where d': "create_item sample_catalog 70 sample_makers sample_transceiver = Inr (d', 70)"
    using create_clean_item [OF _ sample_makers_ok sample_payloads_clean _ v, of 70]
    by (auto simp: sample_catalog_def sample_schema_ok sample_digest_def sample_makers_def)
  then obtain x where x: "items d' = [x]" by (elim create_item_Inr) (auto simp: sample_makers_def)
  have steps: "(catalog_step sample_catalog)\<^sup>*\<^sup>* sample_makers d'"
    using step_create_item [OF d'] by (rule r_into_rtranclp)
  have "y = x" if "y \<in> set (items d')" "same_equipment d' y x" for y
    by (rule equipment_is_unique [OF sample_makers_inv steps that(1) _ that(2)]) (simp add: x)
  with x steps show ?thesis by blast
qed

end
