(* ===== verification/Telegram_Bot.thy ===== *)
theory Telegram_Bot
  imports Procurement_Notify Auth
begin

text \<open>
  The Telegram bot (\<open>app/modules/telegram_bot\<close>): the webhook that receives updates, the
  \<open>/start\<close> welcome, and the inline buttons by which an administrator decides an access
  request. The bot keeps three tables of its own beside the shared database: the updates it
  has seen, the chat states, and the callback tokens behind the buttons. Its writes to the
  shared tables go through the identity service and the outbox.

  A handler is one transaction with one reading of the clock; settings are a record, fresh
  identifiers and callback tokens are arguments. Times count seconds, so the delay of 150 ms
  before a welcome is sent is a setting of the model. A Python \<open>int\<close> that does not fit the
  \<open>bigint\<close> column it is written to or compared with is refused by the driver (\<open>22003\<close>).
\<close>

section \<open>Rows and settings\<close>

record telegram_update =
  tu_update_id :: int
  tu_received_at :: timestamp
  tu_processed_at :: "timestamp option"

record telegram_chat_state =
  tc_chat_id :: int
  tc_latest_start_update_id :: int
  tc_last_welcome_message_id :: "int option"
  tc_last_welcome_sent_at :: "timestamp option"

record access_decision_callback =
  ac_token :: string
  ac_access_request_id :: uuid
  ac_action :: string
  ac_created_at :: timestamp

record bot_db =
  core :: db
  telegram_updates :: "telegram_update list"
  telegram_chat_states :: "telegram_chat_state list"
  access_decision_callbacks :: "access_decision_callback list"

record bot_env =
  be_sha256 :: "string \<Rightarrow> string"
  be_admin_telegram_user_id :: "int option"
  be_notification_telegram_user_id :: "int option"
  be_support_telegram_username :: string
  be_telegram_web_app_url :: string
  be_telegram_webhook_secret :: "string option"
  be_access_callback_ttl_seconds :: int
  be_start_welcome_send_delay :: int

datatype bot_error =
    TelegramDeliveryConfigurationError
  | InvalidAccessCallbackError
  | TelegramAccessManagerAuthorizationError
  | BotValueError
  | BotRuntimeError
  | BotDbError string
  | OutboxFailure outbox_error
  | IdentityFailure identity_error

definition START_WELCOME_DEDUPE_PREFIX :: string where
  "START_WELCOME_DEDUPE_PREFIX = ''telegram-start-welcome:''"

definition is_bigint :: "int \<Rightarrow> bool" where
  "is_bigint i \<longleftrightarrow> - (2 ^ 63) \<le> i \<and> i < 2 ^ 63"

section \<open>Texts\<close>

definition text_no_username :: string where
  "text_no_username = points_text
     [1073, 1077, 1079, 32, 117, 115, 101, 114, 110, 97, 109, 101]"

definition text_new_access_request :: string where
  "text_new_access_request = points_text
     [128272, 32, 1053, 1086, 1074, 1099, 1081, 32, 1079, 1072, 1087, 1088, 1086, 1089, 32,
      1076, 1086, 1089, 1090, 1091, 1087, 1072, 32, 1082, 32, 83, 112, 105, 107, 32, 73, 110,
      118, 101, 110, 116, 111, 114, 121]"

definition text_allow :: string where
  "text_allow = points_text
     [9989, 32, 1056, 1072, 1079, 1088, 1077, 1096, 1080, 1090, 1100]"

definition text_reject :: string where
  "text_reject = points_text
     [10060, 32, 1054, 1090, 1082, 1083, 1086, 1085, 1080, 1090, 1100]"

definition text_colleague :: string where
  "text_colleague = points_text
     [1082, 1086, 1083, 1083, 1077, 1075, 1072]"

definition text_technician :: string where
  "text_technician = points_text
     [128104, 8205, 128187]"

definition text_hello :: string where
  "text_hello = points_text
     [1055, 1088, 1080, 1074, 1077, 1090, 44, 32]"

definition text_wave :: string where
  "text_wave = points_text
     [33, 32, 128075]"

definition text_welcome_1 :: string where
  "text_welcome_1 = points_text
     [1044, 1086, 1073, 1088, 1086, 32, 1087, 1086, 1078, 1072, 1083, 1086, 1074, 1072, 1090,
      1100, 32, 1074, 32]"

definition text_welcome_2 :: string where
  "text_welcome_2 = points_text
     [32, 8212, 32, 1074, 1085, 1091, 1090, 1088, 1077, 1085, 1085, 1102, 1102, 32, 1089,
      1080, 1089, 1090, 1077, 1084, 1091, 32, 1091, 1095, 1105, 1090, 1072, 32, 1086, 1073,
      1086, 1088, 1091, 1076, 1086, 1074, 1072, 1085, 1080, 1103, 32, 1062, 1054, 1044, 46]"

definition text_welcome_3 :: string where
  "text_welcome_3 = points_text
     [1047, 1076, 1077, 1089, 1100, 32, 1084, 1086, 1078, 1085, 1086, 32, 1085, 1072, 1081,
      1090, 1080, 32, 1086, 1073, 1086, 1088, 1091, 1076, 1086, 1074, 1072, 1085, 1080, 1077,
      44, 32, 1087, 1088, 1086, 1074, 1077, 1088, 1080, 1090, 1100, 32, 1086, 1089, 1090,
      1072, 1090, 1082, 1080, 32, 1087, 1086, 32, 1087, 1083, 1086, 1097, 1072, 1076, 1082,
      1072, 1084, 44, 32, 1088, 1072, 1073, 1086, 1090, 1072, 1090, 1100, 32, 1089, 32, 1074,
      1099, 1076, 1072, 1095, 1077, 1081, 32, 1080, 32, 1074, 1086, 1079, 1074, 1088, 1072,
      1090, 1086, 1084, 44, 32, 1072, 32, 1090, 1072, 1082, 1078, 1077, 32, 1089, 1084, 1086,
      1090, 1088, 1077, 1090, 1100, 32, 1080, 1089, 1090, 1086, 1088, 1080, 1102, 32, 1076,
      1074, 1080, 1078, 1077, 1085, 1080, 1081, 46]"

definition text_welcome_4 :: string where
  "text_welcome_4 = points_text
     [1055, 1086, 32, 1074, 1086, 1087, 1088, 1086, 1089, 1072, 1084, 32, 1076, 1086, 1089,
      1090, 1091, 1087, 1072, 32, 1080, 32, 1088, 1072, 1073, 1086, 1090, 1099, 32, 1089,
      1077, 1088, 1074, 1080, 1089, 1072, 32, 8212, 32]"

definition text_open_app :: string where
  "text_open_app = points_text
     [1054, 1090, 1082, 1088, 1099, 1090, 1100, 32, 1087, 1088, 1080, 1083, 1086, 1078, 1077,
      1085, 1080, 1077]"

definition text_granted :: string where
  "text_granted = points_text
     [9989, 32, 1044, 1086, 1089, 1090, 1091, 1087, 32, 1087, 1088, 1077, 1076, 1086, 1089,
      1090, 1072, 1074, 1083, 1077, 1085, 46]"

definition text_refused :: string where
  "text_refused = points_text
     [10060, 32, 1047, 1072, 1087, 1088, 1086, 1089, 32, 1076, 1086, 1089, 1090, 1091, 1087,
      1072, 32, 1086, 1090, 1082, 1083, 1086, 1085, 1105, 1085, 46]"

definition text_contact :: string where
  "text_contact = points_text
     [1055, 1086, 32, 1074, 1086, 1087, 1088, 1086, 1089, 1072, 1084, 32, 1076, 1086, 1089,
      1090, 1091, 1087, 1072, 58, 32, 64]"

definition label_allowed :: string where
  "label_allowed = points_text
     [1044, 1086, 1089, 1090, 1091, 1087, 32, 1088, 1072, 1079, 1088, 1077, 1096, 1105, 1085]"

definition label_rejected :: string where
  "label_rejected = points_text
     [1047, 1072, 1087, 1088, 1086, 1089, 32, 1086, 1090, 1082, 1083, 1086, 1085, 1105, 1085]"

definition label_already :: string where
  "label_already = points_text
     [1059, 1078, 1077, 32, 1088, 1077, 1096, 1077, 1085, 1086, 58, 32]"

definition text_no_rights :: string where
  "text_no_rights = points_text
     [1053, 1077, 1076, 1086, 1089, 1090, 1072, 1090, 1086, 1095, 1085, 1086, 32, 1087, 1088,
      1072, 1074]"

definition text_unavailable :: string where
  "text_unavailable = points_text
     [1044, 1077, 1081, 1089, 1090, 1074, 1080, 1077, 32, 1085, 1077, 1076, 1086, 1089, 1090,
      1091, 1087, 1085, 1086]"

definition quote_char :: string where
  "quote_char = [char_of (34 :: nat)]"

definition html_escape_char :: "char \<Rightarrow> string" where
  "html_escape_char c =
     (let n = (of_char c :: nat)
      in if n = 38 then ''&amp;'' else if n = 60 then ''&lt;'' else if n = 62 then ''&gt;''
         else if n = 34 then ''&quot;'' else if n = 39 then ''&#x27;'' else [c])"

definition html_escape :: "string \<Rightarrow> string" where
  "html_escape s = concat (map html_escape_char s)"

section \<open>Secrets and tokens\<close>

definition CALLBACK_PREFIX :: string where
  "CALLBACK_PREFIX = ''access:''"

definition verify_webhook_secret :: "string option \<Rightarrow> string option \<Rightarrow> bool" where
  "verify_webhook_secret provided configured =
     (case (provided, configured) of (Some p, Some c) \<Rightarrow> p = c | _ \<Rightarrow> False)"

definition is_token_char :: "char \<Rightarrow> bool" where
  "is_token_char c =
     (let n = (of_char c :: nat)
      in (48 \<le> n \<and> n \<le> 57) \<or> (65 \<le> n \<and> n \<le> 90) \<or> (97 \<le> n \<and> n \<le> 122) \<or> n = 45 \<or> n = 95)"

definition is_callback_token :: "string \<Rightarrow> bool" where
  "is_callback_token s \<longleftrightarrow> 20 \<le> length s \<and> length s \<le> 48 \<and> list_all is_token_char s"

definition parse_access_callback_data :: "string \<Rightarrow> bot_error + string" where
  "parse_access_callback_data data =
     (if take (length CALLBACK_PREFIX) data \<noteq> CALLBACK_PREFIX then Inl InvalidAccessCallbackError
      else let token = drop (length CALLBACK_PREFIX) data
           in if is_callback_token token then Inr token else Inl InvalidAccessCallbackError)"

definition utf8_length :: "string \<Rightarrow> nat" where
  "utf8_length s = sum_list (map (\<lambda>c. let n = code_point c
     in if n < 128 then 1 else if n < 2048 then 2 else if n < 65536 then 3 else 4) s)"

definition access_callback_data :: "string \<Rightarrow> bot_error + string" where
  "access_callback_data token =
     (let data = CALLBACK_PREFIX @ token
      in if utf8_length data > 64 then Inl BotValueError else Inr data)"

section \<open>Updates\<close>

definition register_telegram_update :: "bot_db \<Rightarrow> int \<Rightarrow> timestamp \<Rightarrow> bot_error + bot_db \<times> bool" where
  "register_telegram_update st update_id now =
     (if \<not> is_bigint update_id then Inl (BotDbError ''22003'')
      else if update_id < 0 then Inl (BotDbError ''23514'')
      else if \<exists>t\<in>set (telegram_updates st). tu_update_id t = update_id then Inr (st, False)
      else Inr (st\<lparr>telegram_updates := telegram_updates st @
             [\<lparr> tu_update_id = update_id, tu_received_at = now, tu_processed_at = None \<rparr>]\<rparr>, True))"

definition mark_telegram_update_processed :: "bot_db \<Rightarrow> int \<Rightarrow> timestamp \<Rightarrow> bot_db" where
  "mark_telegram_update_processed st update_id now =
     st\<lparr>telegram_updates := table_update tu_update_id update_id
         (\<lambda>t. t\<lparr>tu_processed_at := Some now\<rparr>) (telegram_updates st)\<rparr>"

definition bot_enqueue ::
    "bot_db \<Rightarrow> uuid \<Rightarrow> timestamp \<Rightarrow> string \<Rightarrow> json \<Rightarrow> string \<Rightarrow> timestamp option \<Rightarrow> bool
       \<Rightarrow> bot_error + bot_db" where
  "bot_enqueue st new_id now verb payload key available requeue_dead =
     ebind (relabel OutboxFailure
         (enqueue_telegram_call (core st) new_id now verb payload key available requeue_dead))
       (\<lambda>d. Inr (st\<lparr>core := d\<rparr>))"

section \<open>Buttons of an access request\<close>

definition get_access_request :: "db \<Rightarrow> uuid \<Rightarrow> access_request option" where
  "get_access_request d i = table_get ar_id i (access_requests d)"

definition create_access_decision_callbacks ::
    "bot_db \<Rightarrow> uuid \<Rightarrow> string \<Rightarrow> string \<Rightarrow> timestamp
       \<Rightarrow> bot_error + bot_db \<times> access_decision_callback \<times> access_decision_callback" where
  "create_access_decision_callbacks st access_request_id approve_token reject_token now =
     (let approve = \<lparr> ac_token = approve_token, ac_access_request_id = access_request_id,
                      ac_action = ''APPROVE'', ac_created_at = now \<rparr>;
          reject = \<lparr> ac_token = reject_token, ac_access_request_id = access_request_id,
                     ac_action = ''REJECT'', ac_created_at = now \<rparr>
      in if length approve_token > 48 \<or> length reject_token > 48 then Inl (BotDbError ''22001'')
         else if get_access_request (core st) access_request_id = None then Inl (BotDbError ''23503'')
         else if approve_token = reject_token \<or>
                 (\<exists>c\<in>set (access_decision_callbacks st).
                    ac_token c = approve_token \<or> ac_token c = reject_token \<or>
                    ac_access_request_id c = access_request_id \<and>
                    ac_action c \<in> {''APPROVE'', ''REJECT''})
         then Inl (BotDbError ''23505'')
         else Inr (st\<lparr>access_decision_callbacks :=
                access_decision_callbacks st @ [approve, reject]\<rparr>, approve, reject))"

definition get_or_create_access_decision_callbacks ::
    "bot_db \<Rightarrow> uuid \<Rightarrow> string \<Rightarrow> string \<Rightarrow> timestamp
       \<Rightarrow> bot_error + bot_db \<times> access_decision_callback \<times> access_decision_callback" where
  "get_or_create_access_decision_callbacks st access_request_id approve_token reject_token now =
     (let existing = filter (\<lambda>c. ac_access_request_id c = access_request_id)
                       (access_decision_callbacks st)
      in if existing = []
         then create_access_decision_callbacks st access_request_id approve_token reject_token now
         else case (find (\<lambda>c. ac_action c = ''APPROVE'') existing,
                    find (\<lambda>c. ac_action c = ''REJECT'') existing) of
                (Some approve, Some reject) \<Rightarrow>
                  if length existing \<noteq> 2 then Inl BotRuntimeError else Inr (st, approve, reject)
              | _ \<Rightarrow> Inl BotRuntimeError)"

definition bot_display_identity :: "telegram_identity \<Rightarrow> string" where
  "bot_display_identity identity =
     (let username = (case ti_username identity of
            Some u \<Rightarrow> if u = [] then text_no_username else CHR ''@'' # u
          | None \<Rightarrow> text_no_username);
          last_name = (case ti_last_name identity of None \<Rightarrow> [] | Some n \<Rightarrow> n);
          full_name = py_join '' '' (filter (\<lambda>s. s \<noteq> []) [ti_first_name identity, last_name])
      in full_name @ newline @ username @ newline @ ''Telegram ID: '' @
         int_str (ti_telegram_user_id identity))"

definition button :: "string \<Rightarrow> string \<Rightarrow> json \<Rightarrow> json" where
  "button caption kind v = JObj [(''text'', JStr caption), (kind, v)]"

definition keyboard :: "json list \<Rightarrow> json" where
  "keyboard buttons = JObj [(''inline_keyboard'', JList [JList buttons])]"

definition enqueue_access_request_admin_notification ::
    "bot_env \<Rightarrow> bot_db \<Rightarrow> uuid \<Rightarrow> string \<Rightarrow> string \<Rightarrow> timestamp \<Rightarrow> access_request \<Rightarrow> telegram_identity
       \<Rightarrow> bot_error + bot_db" where
  "enqueue_access_request_admin_notification env st new_id approve_token reject_token now request identity =
     (case be_notification_telegram_user_id env of
        None \<Rightarrow> Inl TelegramDeliveryConfigurationError
      | Some notification_id \<Rightarrow>
          ebind (get_or_create_access_decision_callbacks st (ar_id request) approve_token
              reject_token now) (\<lambda>(st1, approve, reject).
          ebind (access_callback_data (ac_token approve)) (\<lambda>approve_data.
          ebind (access_callback_data (ac_token reject)) (\<lambda>reject_data.
          bot_enqueue st1 new_id now ''sendMessage''
            (JObj [(''chat_id'', JInt notification_id),
                   (''text'', JStr (text_new_access_request @ newline @ newline @
                      bot_display_identity identity)),
                   (''reply_markup'', keyboard
                      [button text_allow ''callback_data'' (JStr approve_data),
                       button text_reject ''callback_data'' (JStr reject_data)])])
            (notification_dedupe_key (be_sha256 env)
               [''access-request'', uuid_str (ar_id request), ''admin''])
            None True))))"

definition request_access ::
    "bot_env \<Rightarrow> bot_db \<Rightarrow> uuid \<Rightarrow> uuid \<Rightarrow> string \<Rightarrow> string \<Rightarrow> timestamp \<Rightarrow> user \<Rightarrow> telegram_identity
       \<Rightarrow> http_error + bot_db \<times> access_request \<times> user_access_status" where
  "request_access env st request_id new_id approve_token reject_token now user identity =
     (case create_or_get_access_request (core st) request_id (u_id user) now of
        Inl AccessAlreadyApprovedError \<Rightarrow> Inl (409, ''access already approved'')
      | Inl AccessBlockedError \<Rightarrow> Inl (403, ''access blocked'')
      | Inl _ \<Rightarrow> Inl (500, ''internal server error'')
      | Inr (d1, request, status, created) \<Rightarrow>
          (case enqueue_access_request_admin_notification env (st\<lparr>core := d1\<rparr>) new_id
                  approve_token reject_token now request identity of
             Inl TelegramDeliveryConfigurationError \<Rightarrow> Inl (503, ''access notification unavailable'')
           | Inl _ \<Rightarrow> Inl (500, ''internal server error'')
           | Inr st2 \<Rightarrow> Inr (st2, request, status)))"

section \<open>The welcome\<close>

definition START_WELCOME_DELETE_WINDOW :: int where
  "START_WELCOME_DELETE_WINDOW = 48 * 3600"

definition start_welcome_dedupe_key :: "int \<Rightarrow> int \<Rightarrow> string" where
  "start_welcome_dedupe_key update_id chat_id =
     START_WELCOME_DEDUPE_PREFIX @ int_str update_id @ '':'' @ int_str chat_id"

definition start_welcome_text :: "bot_env \<Rightarrow> string \<Rightarrow> string" where
  "start_welcome_text env first_name =
     (let safe_name = html_escape (let n = py_strip first_name in if n = [] then text_colleague else n);
          safe_support = html_escape (be_support_telegram_username env)
      in ''<tg-emoji emoji-id='' @ quote_char @ ''5444965061749644170'' @ quote_char @ ''>'' @
         text_technician @ ''</tg-emoji> '' @
         ''<b>'' @ text_hello @ safe_name @ text_wave @ ''</b>'' @ newline @ newline @
         text_welcome_1 @ ''<b>Spikatel Inventory</b>'' @ text_welcome_2 @ newline @ newline @
         text_welcome_3 @ newline @ newline @
         text_welcome_4 @ ''<b>@'' @ safe_support @ ''</b>.'')"

definition open_app_button :: "bot_env \<Rightarrow> json" where
  "open_app_button env =
     button text_open_app ''web_app'' (JObj [(''url'', JStr (be_telegram_web_app_url env))])"

definition register_latest_start ::
    "bot_db \<Rightarrow> int \<Rightarrow> int \<Rightarrow> bot_error + bot_db \<times> int \<times> int option \<times> timestamp option" where
  "register_latest_start st chat_id update_id =
     (if \<not> is_bigint chat_id \<or> \<not> is_bigint update_id then Inl (BotDbError ''22003'')
      else if update_id < 0 then Inl (BotDbError ''23514'')
      else
        (let row = (case table_get tc_chat_id chat_id (telegram_chat_states st) of
               None \<Rightarrow> \<lparr> tc_chat_id = chat_id, tc_latest_start_update_id = update_id,
                         tc_last_welcome_message_id = None, tc_last_welcome_sent_at = None \<rparr>
             | Some old \<Rightarrow> old\<lparr>tc_latest_start_update_id :=
                                max (tc_latest_start_update_id old) update_id\<rparr>)
         in Inr (st\<lparr>telegram_chat_states := table_put tc_chat_id row (telegram_chat_states st)\<rparr>,
                 tc_latest_start_update_id row, tc_last_welcome_message_id row,
                 tc_last_welcome_sent_at row)))"

definition chat_message :: "int \<Rightarrow> int \<Rightarrow> json" where
  "chat_message chat_id message_id =
     JObj [(''chat_id'', JInt chat_id), (''message_id'', JInt message_id)]"

definition delete_previous_welcome ::
    "bot_env \<Rightarrow> bot_db \<Rightarrow> uuid \<Rightarrow> timestamp \<Rightarrow> int \<Rightarrow> int option \<Rightarrow> timestamp option \<Rightarrow> bot_error + bot_db" where
  "delete_previous_welcome env st new_id now chat_id previous_message_id previous_sent_at =
     (case (previous_message_id, previous_sent_at) of
        (Some previous, Some sent) \<Rightarrow>
          if now - sent < START_WELCOME_DELETE_WINDOW
          then bot_enqueue st new_id now ''deleteMessage'' (chat_message chat_id previous)
                 (notification_dedupe_key (be_sha256 env)
                    [''telegram-start'', int_str chat_id, int_str previous, ''delete-previous''])
                 (Some now) False
          else Inr st
      | _ \<Rightarrow> Inr st)"

definition enqueue_welcome ::
    "bot_env \<Rightarrow> bot_db \<Rightarrow> uuid \<Rightarrow> timestamp \<Rightarrow> int \<Rightarrow> string \<Rightarrow> int \<Rightarrow> bot_error + bot_db" where
  "enqueue_welcome env st new_id now chat_id first_name update_id =
     bot_enqueue st new_id now ''sendPhoto''
       (JObj [(''chat_id'', JInt chat_id),
              (''photo'', JStr (rstrip_slash (be_telegram_web_app_url env) @
                 ''/telegram/start-welcome.png'')),
              (''caption'', JStr (start_welcome_text env first_name)),
              (''parse_mode'', JStr ''HTML''),
              (''message_effect_id'', JStr ''5046509860389126442''),
              (''reply_markup'', keyboard [open_app_button env])])
       (start_welcome_dedupe_key update_id chat_id)
       (Some (now + be_start_welcome_send_delay env)) False"

definition enqueue_start_message ::
    "bot_env \<Rightarrow> bot_db \<Rightarrow> (nat \<Rightarrow> uuid) \<Rightarrow> timestamp \<Rightarrow> int \<Rightarrow> int \<Rightarrow> string \<Rightarrow> int \<Rightarrow> bot_error + bot_db" where
  "enqueue_start_message env st ids now chat_id command_message_id first_name update_id =
     ebind (bot_enqueue st (ids 0) now ''deleteMessage'' (chat_message chat_id command_message_id)
         (notification_dedupe_key (be_sha256 env)
            [''telegram-update'', int_str update_id, ''delete-start''])
         (Some now) False) (\<lambda>st1.
     ebind (register_latest_start st1 chat_id update_id)
       (\<lambda>(st2, latest_update_id, previous_message_id, previous_sent_at).
     if latest_update_id \<noteq> update_id then Inr st2
     else
       ebind (delete_previous_welcome env st2 (ids 1) now chat_id previous_message_id previous_sent_at)
         (\<lambda>st3. enqueue_welcome env st3 (ids 2) now chat_id first_name update_id)))"

section \<open>Decisions by button\<close>

definition resolve_actor_user_id :: "db \<Rightarrow> int \<Rightarrow> bot_error + uuid" where
  "resolve_actor_user_id d telegram_user_id =
     (if \<not> is_bigint telegram_user_id then Inl (BotDbError ''22003'')
      else case identity_by_telegram d telegram_user_id of
        None \<Rightarrow> Inl TelegramAccessManagerAuthorizationError
      | Some t \<Rightarrow> Inr (ti_user_id t))"

definition require_approved_access_manager :: "user option \<Rightarrow> bot_error + user" where
  "require_approved_access_manager u =
     (case u of
        None \<Rightarrow> Inl TelegramAccessManagerAuthorizationError
      | Some user \<Rightarrow>
          if \<not> has_capability (u_role user) ACCESS_MANAGE_USERS \<or> u_access_status user \<noteq> APPROVED
          then Inl TelegramAccessManagerAuthorizationError
          else Inr user)"

definition enqueue_callback_answer ::
    "bot_env \<Rightarrow> bot_db \<Rightarrow> uuid \<Rightarrow> timestamp \<Rightarrow> string \<Rightarrow> string \<Rightarrow> bot_error + bot_db" where
  "enqueue_callback_answer env st new_id now callback_query_id answer =
     bot_enqueue st new_id now ''answerCallbackQuery''
       (JObj [(''callback_query_id'', JStr callback_query_id), (''text'', JStr answer)])
       (notification_dedupe_key (be_sha256 env) [''callback'', callback_query_id, ''answer''])
       None False"

definition enqueue_access_buttons_clear ::
    "bot_env \<Rightarrow> bot_db \<Rightarrow> uuid \<Rightarrow> timestamp \<Rightarrow> string \<Rightarrow> int option \<Rightarrow> int option \<Rightarrow> bot_error + bot_db" where
  "enqueue_access_buttons_clear env st new_id now callback_query_id message_chat_id message_id =
     (case (message_chat_id, message_id) of
        (Some chat, Some message) \<Rightarrow>
          bot_enqueue st new_id now ''editMessageReplyMarkup''
            (JObj [(''chat_id'', JInt chat), (''message_id'', JInt message),
                   (''reply_markup'', JObj [(''inline_keyboard'', JList [])])])
            (notification_dedupe_key (be_sha256 env)
               [''callback'', callback_query_id, ''clear-buttons''])
            None False
      | _ \<Rightarrow> Inr st)"

definition enqueue_access_decision_user_notification ::
    "bot_env \<Rightarrow> bot_db \<Rightarrow> uuid \<Rightarrow> timestamp \<Rightarrow> uuid \<Rightarrow> telegram_identity \<Rightarrow> access_request_status
       \<Rightarrow> bot_error + bot_db" where
  "enqueue_access_decision_user_notification env st new_id now access_request_id target_identity status =
     (let support = be_support_telegram_username env;
          (content, reply_markup) =
            (if status = AR_APPROVED then (text_granted, keyboard [open_app_button env])
             else (text_refused @ newline @ newline @ text_contact @ support,
                   keyboard [button (CHR ''@'' # support) ''url'' (JStr (''https://t.me/'' @ support))]))
      in bot_enqueue st new_id now ''sendMessage''
           (JObj [(''chat_id'', JInt (ti_telegram_user_id target_identity)),
                  (''text'', JStr content), (''reply_markup'', reply_markup)])
           (notification_dedupe_key (be_sha256 env)
              [''access-request'', uuid_str access_request_id, ''user-decision''])
           None False)"

fun decision_failure :: "identity_error \<Rightarrow> bot_error" where
  "decision_failure AdminUserForbiddenError = TelegramAccessManagerAuthorizationError"
| "decision_failure InvalidAccessTransitionError = InvalidAccessCallbackError"
| "decision_failure PendingAccessRequestNotFoundError = InvalidAccessCallbackError"
| "decision_failure RecoveryAdminInvariantError = InvalidAccessCallbackError"
| "decision_failure e = IdentityFailure e"

definition decide_by_callback ::
    "bot_env \<Rightarrow> bot_db \<Rightarrow> (nat \<Rightarrow> uuid) \<Rightarrow> timestamp \<Rightarrow> access_decision_callback \<Rightarrow> user \<Rightarrow> user
       \<Rightarrow> telegram_identity \<Rightarrow> bot_error + bot_db \<times> access_request" where
  "decide_by_callback env st ids now callback access_manager target_user target_identity =
     (let decision = (if ac_action callback = ''APPROVE'' then AR_APPROVED else AR_REJECTED)
      in ebind (relabel decision_failure
             (decide_pending_access_request (core st) (u_id access_manager) (u_id target_user)
                decision (be_admin_telegram_user_id env) now)) (\<lambda>(d1, _, decided, _).
         let request = decided\<lparr>ar_decision_note := Some ''Telegram inline callback''\<rparr>;
             st1 = st\<lparr>core := save_access_request d1 request\<rparr>
         in ebind (enqueue_access_decision_user_notification env st1 (ids 0) now (ar_id request)
                target_identity (ar_status request)) (\<lambda>st2.
            Inr (st2, request))))"

definition apply_access_decision ::
    "bot_env \<Rightarrow> bot_db \<Rightarrow> (nat \<Rightarrow> uuid) \<Rightarrow> timestamp \<Rightarrow> string \<Rightarrow> string \<Rightarrow> int \<Rightarrow> int option \<Rightarrow> int option
       \<Rightarrow> bot_error + bot_db \<times> access_request_status \<times> bool" where
  "apply_access_decision env st ids now callback_data callback_query_id actor_telegram_user_id
       message_chat_id message_id =
     ebind (resolve_actor_user_id (core st) actor_telegram_user_id) (\<lambda>actor_user_id.
     ebind (parse_access_callback_data callback_data) (\<lambda>token.
     ebind (from_option InvalidAccessCallbackError
         (table_get ac_token token (access_decision_callbacks st))) (\<lambda>callback.
     if now \<ge> ac_created_at callback + be_access_callback_ttl_seconds env
     then Inl InvalidAccessCallbackError
     else
     ebind (from_option InvalidAccessCallbackError
         (get_access_request (core st) (ac_access_request_id callback))) (\<lambda>request.
     ebind (require_approved_access_manager (get_user (core st) actor_user_id)) (\<lambda>access_manager.
     ebind (from_option BotRuntimeError (get_user (core st) (ar_user_id request))) (\<lambda>target_user.
     if ar_status request = AR_PENDING \<and> u_access_status target_user \<noteq> PENDING
     then Inl InvalidAccessCallbackError
     else
     ebind (from_option BotRuntimeError (get_identity (core st) (u_id target_user))) (\<lambda>target_identity.
     let changed = (ar_status request = AR_PENDING) in
     ebind (if changed
            then decide_by_callback env st ids now callback access_manager target_user target_identity
            else Inr (st, request)) (\<lambda>(st1, request1).
     ebind (enqueue_access_buttons_clear env st1 (ids 1) now callback_query_id message_chat_id
         message_id) (\<lambda>st2.
     let decided = (if ar_status request1 = AR_APPROVED then label_allowed else label_rejected);
         label = (if changed then decided else label_already @ map casefold decided)
     in ebind (enqueue_callback_answer env st2 (ids 2) now callback_query_id label) (\<lambda>st3.
        Inr (st3, ar_status request1, changed)))))))))))"

section \<open>Processing of an update\<close>

fun json_integer :: "json option \<Rightarrow> int option" where
  "json_integer (Some (JInt i)) = Some i"
| "json_integer _ = None"

fun json_text :: "json option \<Rightarrow> string option" where
  "json_text (Some (JStr s)) = Some s"
| "json_text _ = None"

fun json_dict :: "json option \<Rightarrow> json option" where
  "json_dict (Some (JObj kvs)) = Some (JObj kvs)"
| "json_dict _ = None"

definition message_command :: "json \<Rightarrow> string option" where
  "message_command message =
     (case json_text (json_get ''text'' message) of
        None \<Rightarrow> None
      | Some content \<Rightarrow>
          (case py_split content of [] \<Rightarrow> None
           | part # _ \<Rightarrow> Some (takeWhile (\<lambda>c. c \<noteq> CHR ''@'') part)))"

definition process_message ::
    "bot_env \<Rightarrow> bot_db \<Rightarrow> (nat \<Rightarrow> uuid) \<Rightarrow> timestamp \<Rightarrow> int \<Rightarrow> json \<Rightarrow> bot_error + bot_db" where
  "process_message env st ids now update_id message =
     (case json_dict (json_get ''chat'' message) of
        None \<Rightarrow> Inr st
      | Some chat \<Rightarrow>
          if message_command message = Some ''/start'' \<and>
             json_get ''type'' chat = Some (JStr ''private'')
          then
            (let first_name = (case json_dict (json_get ''from'' message) of
                   None \<Rightarrow> []
                 | Some sender \<Rightarrow> (case json_text (json_get ''first_name'' sender) of
                                   None \<Rightarrow> [] | Some s \<Rightarrow> s))
             in case (json_integer (json_get ''id'' chat),
                      json_integer (json_get ''message_id'' message)) of
                  (Some chat_id, Some command_message_id) \<Rightarrow>
                    enqueue_start_message env st ids now chat_id command_message_id first_name update_id
                | _ \<Rightarrow> Inr st)
          else Inr st)"

definition handle_access_callback ::
    "bot_env \<Rightarrow> bot_db \<Rightarrow> (nat \<Rightarrow> uuid) \<Rightarrow> timestamp \<Rightarrow> string \<Rightarrow> string \<Rightarrow> int \<Rightarrow> int option \<Rightarrow> int option
       \<Rightarrow> bot_error + bot_db" where
  "handle_access_callback env st ids now callback_data callback_query_id actor_id message_chat_id message_id =
     (case apply_access_decision env st ids now callback_data callback_query_id actor_id
             message_chat_id message_id of
        Inl TelegramAccessManagerAuthorizationError \<Rightarrow>
          enqueue_callback_answer env st (ids 2) now callback_query_id text_no_rights
      | Inl InvalidAccessCallbackError \<Rightarrow>
          enqueue_callback_answer env st (ids 2) now callback_query_id text_unavailable
      | Inl e \<Rightarrow> Inl e
      | Inr (st', _) \<Rightarrow> Inr st')"

definition process_callback_query ::
    "bot_env \<Rightarrow> bot_db \<Rightarrow> (nat \<Rightarrow> uuid) \<Rightarrow> timestamp \<Rightarrow> json \<Rightarrow> bot_error + bot_db" where
  "process_callback_query env st ids now query =
     (case (json_text (json_get ''id'' query), json_dict (json_get ''from'' query),
            json_text (json_get ''data'' query)) of
        (Some callback_query_id, Some actor, Some callback_data) \<Rightarrow>
          (case json_integer (json_get ''id'' actor) of
             None \<Rightarrow> Inr st
           | Some actor_id \<Rightarrow>
               (let message = json_dict (json_get ''message'' query);
                    message_id = Option.bind message (\<lambda>m. json_integer (json_get ''message_id'' m));
                    message_chat_id = Option.bind message (\<lambda>m.
                      Option.bind (json_dict (json_get ''chat'' m)) (\<lambda>chat.
                        json_integer (json_get ''id'' chat)))
                in handle_access_callback env st ids now callback_data callback_query_id actor_id
                     message_chat_id message_id))
      | _ \<Rightarrow> Inr st)"

definition process_telegram_update ::
    "bot_env \<Rightarrow> bot_db \<Rightarrow> (nat \<Rightarrow> uuid) \<Rightarrow> timestamp \<Rightarrow> int \<Rightarrow> json \<Rightarrow> bot_error + bot_db" where
  "process_telegram_update env st ids now update_id payload =
     (case json_dict (json_get ''message'' payload) of
        Some message \<Rightarrow> process_message env st ids now update_id message
      | None \<Rightarrow>
          (case json_dict (json_get ''callback_query'' payload) of
             None \<Rightarrow> Inr st
           | Some query \<Rightarrow> process_callback_query env st ids now query))"

section \<open>The webhook\<close>

text \<open>
  \<open>loads\<close> stands for \<open>json.loads\<close>: no value where it raises. An exception of the transaction
  that no handler catches rolls it back and answers 500.
\<close>

definition MAX_TELEGRAM_UPDATE_BYTES :: nat where
  "MAX_TELEGRAM_UPDATE_BYTES = 1048576"

fun read_stream :: "'b list list \<Rightarrow> 'b list \<Rightarrow> 'b list option" where
  "read_stream [] raw = Some raw"
| "read_stream (chunk # chunks) raw =
     (if length raw + length chunk > MAX_TELEGRAM_UPDATE_BYTES then None
      else read_stream chunks (raw @ chunk))"

definition decode_update_json :: "('b list \<Rightarrow> json option) \<Rightarrow> 'b list \<Rightarrow> json option" where
  "decode_update_json loads raw = json_dict (loads raw)"

definition webhook_transaction ::
    "bot_env \<Rightarrow> bot_db \<Rightarrow> (nat \<Rightarrow> uuid) \<Rightarrow> timestamp \<Rightarrow> int \<Rightarrow> json \<Rightarrow> bot_error + bot_db" where
  "webhook_transaction env st ids now update_id payload =
     ebind (register_telegram_update st update_id now) (\<lambda>(st1, inserted).
     if \<not> inserted then Inr st1
     else ebind (process_telegram_update env st1 ids now update_id payload) (\<lambda>st2.
          Inr (mark_telegram_update_processed st2 update_id now)))"

definition telegram_webhook ::
    "bot_env \<Rightarrow> ('b list \<Rightarrow> json option) \<Rightarrow> bot_db \<Rightarrow> (nat \<Rightarrow> uuid) \<Rightarrow> timestamp \<Rightarrow> string option
       \<Rightarrow> 'b list list \<Rightarrow> http_error + bot_db" where
  "telegram_webhook env loads st ids now secret_token chunks =
     (if be_telegram_webhook_secret env = None
      then Inl (503, ''Telegram webhook is not configured'')
      else if \<not> verify_webhook_secret secret_token (be_telegram_webhook_secret env)
      then Inl (401, ''invalid Telegram webhook secret'')
      else case read_stream chunks [] of
        None \<Rightarrow> Inl (413, ''Telegram update is too large'')
      | Some raw \<Rightarrow>
          (case decode_update_json loads raw of
             None \<Rightarrow> Inl (400, ''invalid Telegram update'')
           | Some payload \<Rightarrow>
               (case json_integer (json_get ''update_id'' payload) of
                  None \<Rightarrow> Inl (400, ''invalid Telegram update_id'')
                | Some update_id \<Rightarrow>
                    if update_id < 0 then Inl (400, ''invalid Telegram update_id'')
                    else relabel (\<lambda>_. (500, ''internal server error''))
                           (webhook_transaction env st ids now update_id payload))))"

end
