(* ===== verification/Telegram_Safety.thy ===== *)
theory Telegram_Safety
  imports Telegram_Bot Procurement_Proofs Identity_Steps Samples
begin

text \<open>
  What the bot may change. Every write of a webhook call to the shared database is an outbox
  row or one decision of the identity service, the same operation that the web console
  calls; the handlers of the bot's own tables keep the constraints of those tables.
\<close>

section \<open>Frames\<close>

definition announces :: "bot_db \<Rightarrow> bot_db \<Rightarrow> bool" where
  "announces st st' \<longleftrightarrow> same_but_outbox (core st) (core st') \<and>
     telegram_updates st' = telegram_updates st \<and>
     access_decision_callbacks st' = access_decision_callbacks st"

lemma announces_refl [simp]: "announces st st"
  by (simp add: announces_def)

lemma announces_trans: "announces a b \<Longrightarrow> announces b c \<Longrightarrow> announces a c"
  unfolding announces_def using same_but_outbox_trans by metis

lemma bot_enqueue_frame:
  assumes "bot_enqueue st i now verb payload key available rq = Inr st'"
  shows "announces st st'"
  using assms enqueue_same_but_outbox by (auto simp: bot_enqueue_def result_simps announces_def)

lemma enqueue_frames:
  "enqueue_callback_answer env st i now q answer = Inr st' \<Longrightarrow> announces st st'"
  "enqueue_access_buttons_clear env st i now q chat message = Inr st' \<Longrightarrow> announces st st'"
  "enqueue_access_decision_user_notification env st i now r t status = Inr st' \<Longrightarrow> announces st st'"
  by (auto simp: enqueue_callback_answer_def enqueue_access_buttons_clear_def
      enqueue_access_decision_user_notification_def Let_def bot_enqueue_frame
      split: option.splits prod.splits if_splits)

lemma register_latest_start_frame:
  "register_latest_start st chat u = Inr (st', x) \<Longrightarrow> announces st st'"
  by (auto simp: register_latest_start_def Let_def announces_def split: if_splits)

lemma welcome_frames:
  "delete_previous_welcome env st i now chat prev t = Inr st' \<Longrightarrow> announces st st'"
  "enqueue_welcome env st i now chat name u = Inr st' \<Longrightarrow> announces st st'"
  by (auto simp: delete_previous_welcome_def enqueue_welcome_def bot_enqueue_frame
      split: option.splits if_splits)

lemma start_frame:
  assumes "enqueue_start_message env st ids now chat message name u = Inr st'"
  shows "announces st st'"
  using assms unfolding enqueue_start_message_def
  by (auto simp: ebind_Inr_iff split: if_splits
      dest!: bot_enqueue_frame register_latest_start_frame welcome_frames intro: announces_trans)

section \<open>Decisions\<close>

text \<open>
  The partial unique index of \<open>access_requests\<close>: a user has at most one pending request.
\<close>

definition pending_unique :: "db \<Rightarrow> bool" where
  "pending_unique d \<longleftrightarrow> (\<forall>r\<in>set (access_requests d). \<forall>s\<in>set (access_requests d).
     ar_status r = AR_PENDING \<and> ar_status s = AR_PENDING \<and> ar_user_id r = ar_user_id s \<longrightarrow> r = s)"

definition callback_decision :: "access_decision_callback \<Rightarrow> access_request_status" where
  "callback_decision c = (if ac_action c = ''APPROVE'' then AR_APPROVED else AR_REJECTED)"

definition with_telegram_note :: "db \<Rightarrow> access_request \<Rightarrow> db" where
  "with_telegram_note d r =
     save_access_request d (r\<lparr>ar_decision_note := Some ''Telegram inline callback''\<rparr>)"

text \<open>
  \<open>d'\<close> results from the decision that a button allows: the token of the button is stored and
  not expired, its request is pending, the person who pressed it is an approved access
  manager, and the identity service decides the pending request of the same user as the
  button says, which is that very request because a user has at most one.
\<close>

definition button_decision :: "bot_env \<Rightarrow> bot_db \<Rightarrow> timestamp \<Rightarrow> int \<Rightarrow> string \<Rightarrow> db \<Rightarrow> bool" where
  "button_decision env st now telegram_user_id token d' \<longleftrightarrow>
     (\<exists>callback identity manager request d1 u r e.
        table_get ac_token token (access_decision_callbacks st) = Some callback \<and>
        now < ac_created_at callback + be_access_callback_ttl_seconds env \<and>
        identity_by_telegram (core st) telegram_user_id = Some identity \<and>
        get_user (core st) (ti_user_id identity) = Some manager \<and>
        u_access_status manager = APPROVED \<and>
        has_capability (u_role manager) ACCESS_MANAGE_USERS \<and>
        get_access_request (core st) (ac_access_request_id callback) = Some request \<and>
        ar_status request = AR_PENDING \<and>
        decide_pending_access_request (core st) (u_id manager) (ar_user_id request)
          (callback_decision callback) (be_admin_telegram_user_id env) now = Inr (d1, u, r, e) \<and>
        (pending_unique (core st) \<longrightarrow> ar_id r = ar_id request) \<and>
        ar_status r = callback_decision callback \<and>
        same_but_outbox (with_telegram_note d1 r) d')"

lemma decided_request:
  assumes "decide_pending_access_request d actor target decision recovery now = Inr (d1, u, r, e)"
  obtains request where "request \<in> set (access_requests d)" "ar_user_id request = target"
    "ar_status request = AR_PENDING" "ar_id r = ar_id request" "ar_status r = decision"
proof -
  obtain a t request where t: "get_user d target = Some t"
    and req: "get_pending_access_request d (u_id t) = Some request"
    and r: "ar_id r = ar_id request" "ar_status r = decision"
    using assms
    by (auto simp: decide_pending_access_request_def lock_actor_and_target_def ebind_Inr_iff Let_def
        split: if_splits option.splits prod.splits)
  have "request \<in> set (pending_requests_of d (u_id t))"
    using req by (auto simp: get_pending_access_request_def split: list.splits)
      (metis list.set_intros(1) set_sort)
  then show ?thesis using that r get_user_id [OF t] by (auto simp: pending_requests_of_def)
qed

lemma decide_by_callback_Inr:
  assumes "decide_by_callback env st ids now callback manager target identity = Inr (st', request)"
  obtains d1 u r e where "decide_pending_access_request (core st) (u_id manager) (u_id target)
      (callback_decision callback) (be_admin_telegram_user_id env) now = Inr (d1, u, r, e)"
    and "announces (st\<lparr>core := with_telegram_note d1 r\<rparr>) st'"
  using assms enqueue_frames(3)
  by (fastforce simp: decide_by_callback_def callback_decision_def with_telegram_note_def result_simps Let_def)

lemma apply_decision_cases:
  assumes "apply_access_decision env st ids now data q telegram_user_id chat message = Inr (st', status, b)"
  shows "announces st st' \<or>
    (\<exists>token. parse_access_callback_data data = Inr token \<and>
       button_decision env st now telegram_user_id token (core st') \<and>
       telegram_updates st' = telegram_updates st \<and>
       access_decision_callbacks st' = access_decision_callbacks st)"
proof -
  obtain identity token callback request manager target ti st1 request1 st2 where
    actor: "identity_by_telegram (core st) telegram_user_id = Some identity" and
    token: "parse_access_callback_data data = Inr token" and
    callback: "table_get ac_token token (access_decision_callbacks st) = Some callback"
      "now < ac_created_at callback + be_access_callback_ttl_seconds env" and
    request: "get_access_request (core st) (ac_access_request_id callback) = Some request" and
    manager: "get_user (core st) (ti_user_id identity) = Some manager"
      "has_capability (u_role manager) ACCESS_MANAGE_USERS" "u_access_status manager = APPROVED" and
    target: "get_user (core st) (ar_user_id request) = Some target" and
    run: "(if ar_status request = AR_PENDING
       then decide_by_callback env st ids now callback manager target ti
       else Inr (st, request)) = Inr (st1, request1)" and
    clear: "enqueue_access_buttons_clear env st1 (ids 1) now q chat message = Inr st2" and
    answer: "announces st2 st'"
    using assms(1)
    by (auto simp: apply_access_decision_def resolve_actor_user_id_def require_approved_access_manager_def
        ebind_Inr_iff from_option_Inr_iff Let_def split: if_splits option.splits
        dest!: enqueue_frames(1))
  have rest: "announces st1 st'" by (rule announces_trans [OF enqueue_frames(2) [OF clear] answer])
  show ?thesis
  proof (cases "ar_status request = AR_PENDING")
    case False
    then show ?thesis using run rest by simp
  next
    case True
    then have "decide_by_callback env st ids now callback manager target ti = Inr (st1, request1)"
      using run by simp
    then obtain d1 u r e where dec: "decide_pending_access_request (core st) (u_id manager) (u_id target)
        (callback_decision callback) (be_admin_telegram_user_id env) now = Inr (d1, u, r, e)"
      and st1: "announces (st\<lparr>core := with_telegram_note d1 r\<rparr>) st1"
      by (rule decide_by_callback_Inr)
    have tid: "u_id target = ar_user_id request" using get_user_id [OF target] .
    obtain found where found: "found \<in> set (access_requests (core st))" "ar_user_id found = u_id target"
      "ar_status found = AR_PENDING" "ar_id r = ar_id found" "ar_status r = callback_decision callback"
      using decided_request [OF dec] by metis
    have "request \<in> set (access_requests (core st))"
      using table_get_SomeD request unfolding get_access_request_def by metis
    then have "pending_unique (core st) \<longrightarrow> ar_id r = ar_id request"
      using found True tid unfolding pending_unique_def by metis
    with found(5) dec tid announces_trans [OF st1 rest]
    have "button_decision env st now telegram_user_id token (core st')"
      unfolding button_decision_def using actor callback request manager True
      by (intro exI [of _ callback] exI [of _ identity] exI [of _ manager] exI [of _ request]
          exI [of _ d1] exI [of _ u] exI [of _ r] exI [of _ e]) (simp add: announces_def)
    then show ?thesis using token announces_trans [OF st1 rest] by (auto simp: announces_def)
  qed
qed

section \<open>Updates\<close>

text \<open>The sender and the data of the button that an update reports.\<close>

definition pressed_button :: "json \<Rightarrow> (int \<times> string) option" where
  "pressed_button payload =
     (case json_dict (json_get ''callback_query'' payload) of
        None \<Rightarrow> None
      | Some query \<Rightarrow>
          (case (json_dict (json_get ''from'' query), json_text (json_get ''data'' query)) of
             (Some sender, Some data) \<Rightarrow>
               map_option (\<lambda>i. (i, data)) (json_integer (json_get ''id'' sender))
           | _ \<Rightarrow> None))"

lemma process_message_frame:
  "process_message env st ids now u message = Inr st' \<Longrightarrow> announces st st'"
  by (auto simp: process_message_def Let_def dest: start_frame split: option.splits if_splits)

lemma handle_callback_cases:
  assumes "handle_access_callback env st ids now data q i chat message = Inr st'"
  shows "announces st st' \<or>
    (\<exists>token. parse_access_callback_data data = Inr token \<and>
       button_decision env st now i token (core st') \<and> telegram_updates st' = telegram_updates st)"
proof (cases "apply_access_decision env st ids now data q i chat message")
  case (Inl e)
  then show ?thesis using assms(1) enqueue_frames(1) by (cases e) (auto simp: handle_access_callback_def)
next
  case (Inr x)
  then obtain status b where "apply_access_decision env st ids now data q i chat message =
      Inr (st', status, b)" using assms(1) by (cases x) (simp add: handle_access_callback_def)
  from apply_decision_cases [OF this] show ?thesis by blast
qed

lemma process_callback_cases:
  assumes "process_callback_query env st ids now query = Inr st'"
  shows "announces st st' \<or>
    (\<exists>sender i data token. json_dict (json_get ''from'' query) = Some sender \<and>
       json_integer (json_get ''id'' sender) = Some i \<and> json_text (json_get ''data'' query) = Some data \<and>
       parse_access_callback_data data = Inr token \<and> button_decision env st now i token (core st') \<and>
       telegram_updates st' = telegram_updates st)"
proof -
  have "st' = st \<or> (\<exists>q sender i data chat message. json_dict (json_get ''from'' query) = Some sender \<and>
      json_integer (json_get ''id'' sender) = Some i \<and> json_text (json_get ''data'' query) = Some data \<and>
      handle_access_callback env st ids now data q i chat message = Inr st')"
    using assms(1) by (auto simp: process_callback_query_def Let_def split: option.splits)
  then show ?thesis using handle_callback_cases by (metis announces_refl)
qed

lemma process_update_cases:
  assumes "process_telegram_update env st ids now u payload = Inr st'"
  shows "telegram_updates st' = telegram_updates st"
    and "same_but_outbox (core st) (core st') \<or>
      (\<exists>i data token. pressed_button payload = Some (i, data) \<and>
         parse_access_callback_data data = Inr token \<and> button_decision env st now i token (core st'))"
proof -
  have "telegram_updates st' = telegram_updates st \<and> (same_but_outbox (core st) (core st') \<or>
      (\<exists>i data token. pressed_button payload = Some (i, data) \<and>
         parse_access_callback_data data = Inr token \<and> button_decision env st now i token (core st')))"
  proof (cases "json_dict (json_get ''message'' payload)")
    case (Some message)
    then show ?thesis using assms(1) process_message_frame
      by (auto simp: process_telegram_update_def announces_def)
  next
    case None
    show ?thesis
    proof (cases "json_dict (json_get ''callback_query'' payload)")
      case None
      with \<open>json_dict (json_get ''message'' payload) = None\<close> show ?thesis
        using assms(1) by (simp add: process_telegram_update_def)
    next
      case (Some query)
      with None have "process_callback_query env st ids now query = Inr st'"
        using assms(1) by (simp add: process_telegram_update_def)
      from process_callback_cases [OF this] show ?thesis
        using Some by (auto simp: pressed_button_def announces_def)
    qed
  qed
  then show "telegram_updates st' = telegram_updates st"
    and "same_but_outbox (core st) (core st') \<or>
      (\<exists>i data token. pressed_button payload = Some (i, data) \<and>
         parse_access_callback_data data = Inr token \<and> button_decision env st now i token (core st'))"
    by blast+
qed

lemma webhook_transaction_cases:
  assumes run: "webhook_transaction env st ids now u payload = Inr st'"
  shows "u \<in> tu_update_id ` set (telegram_updates st) \<and> st' = st \<or>
    u \<notin> tu_update_id ` set (telegram_updates st) \<and> u \<in> tu_update_id ` set (telegram_updates st') \<and>
    (same_but_outbox (core st) (core st') \<or>
      (\<exists>i data token. pressed_button payload = Some (i, data) \<and>
         parse_access_callback_data data = Inr token \<and> button_decision env st now i token (core st')))"
proof (cases "u \<in> tu_update_id ` set (telegram_updates st)")
  case True
  then show ?thesis using run
    by (auto simp: webhook_transaction_def register_telegram_update_def split: if_splits)
next
  case False
  let ?st1 = "st\<lparr>telegram_updates := telegram_updates st @
    [\<lparr> tu_update_id = u, tu_received_at = now, tu_processed_at = None \<rparr>]\<rparr>"
  obtain st2 where p: "process_telegram_update env ?st1 ids now u payload = Inr st2"
    and st': "st' = mark_telegram_update_processed st2 u now"
  proof -
    have "register_telegram_update st u now = Inr (?st1, True)"
      using run False by (auto simp: webhook_transaction_def register_telegram_update_def split: if_splits)
    then show thesis using run that by (auto simp: webhook_transaction_def ebind_Inr_iff)
  qed
  have core: "core st' = core st2" by (simp add: st' mark_telegram_update_processed_def)
  note c = process_update_cases [OF p]
  have "u \<in> tu_update_id ` set (telegram_updates st')"
    using c(1) by (force simp: st' mark_telegram_update_processed_def set_table_update)
  with False c(2) show ?thesis by (simp add: core button_decision_def)
qed

text \<open>What the two transactions of the bot do to the shared database.\<close>

lemma webhook_transaction_core:
  assumes "webhook_transaction env st ids now u payload = Inr st'"
  shows "same_but_outbox (core st) (core st') \<or>
    (\<exists>actor target decision recovery d1 v r e.
       decide_pending_access_request (core st) actor target decision recovery now = Inr (d1, v, r, e) \<and>
       same_but_outbox (with_telegram_note d1 r) (core st'))"
proof -
  have "same_but_outbox (core st) (core st') \<or> (\<exists>i token. button_decision env st now i token (core st'))"
    using webhook_transaction_cases [OF assms] by (metis same_but_outbox_refl)
  then show ?thesis unfolding button_decision_def by blast
qed

lemma get_or_create_callbacks_frame:
  "get_or_create_access_decision_callbacks st i a b now = Inr (st', x) \<Longrightarrow> core st' = core st"
  by (auto simp: get_or_create_access_decision_callbacks_def create_access_decision_callbacks_def Let_def
      split: if_splits option.splits)

lemma request_access_core:
  assumes "request_access env st request_id new_id a b now user identity = Inr (st', r, status)"
  shows "\<exists>d1 x. create_or_get_access_request (core st) request_id (u_id user) now = Inr (d1, x) \<and>
    same_but_outbox d1 (core st')"
proof -
  obtain d1 created where c: "create_or_get_access_request (core st) request_id (u_id user) now =
      Inr (d1, r, status, created)"
    and n: "enqueue_access_request_admin_notification env (st\<lparr>core := d1\<rparr>) new_id a b now r identity = Inr st'"
    using assms by (auto simp: request_access_def split: sum.splits identity_error.splits bot_error.splits)
  obtain st1 where "core st1 = d1" "announces st1 st'"
    using n by (auto simp: enqueue_access_request_admin_notification_def ebind_Inr_iff split: option.splits
        dest!: get_or_create_callbacks_frame bot_enqueue_frame)
  then show ?thesis using c by (auto simp: announces_def)
qed

text \<open>
  C38. The bot is no second way into the system: a webhook call that is accepted carries the
  configured secret and an update with an id. If that id was registered before, the call
  changes nothing; otherwise the id is registered, and apart from outbox rows the shared
  database is unchanged or the result of one decision of the identity service: the sender of
  the update is an approved access manager, the button's token is stored and has not expired,
  its request is pending, and exactly that request is decided, as the button says.
\<close>
theorem webhook_decides_like_console:
  assumes "telegram_webhook env loads st ids now secret chunks = Inr st'"
  shows "\<exists>s raw payload u. be_telegram_webhook_secret env = Some s \<and> secret = Some s \<and>
    read_stream chunks [] = Some raw \<and> loads raw = Some payload \<and>
    json_integer (json_get ''update_id'' payload) = Some u \<and>
    (u \<in> tu_update_id ` set (telegram_updates st) \<and> st' = st \<or>
     u \<notin> tu_update_id ` set (telegram_updates st) \<and> u \<in> tu_update_id ` set (telegram_updates st') \<and>
     (same_but_outbox (core st) (core st') \<or>
       (\<exists>i data token. pressed_button payload = Some (i, data) \<and>
          parse_access_callback_data data = Inr token \<and> button_decision env st now i token (core st'))))"
proof -
  obtain s raw payload u where h: "be_telegram_webhook_secret env = Some s" "secret = Some s"
    "read_stream chunks [] = Some raw" "json_dict (loads raw) = Some payload"
    "json_integer (json_get ''update_id'' payload) = Some u"
    and run: "webhook_transaction env st ids now u payload = Inr st'"
    using assms(1) by (auto simp: telegram_webhook_def verify_webhook_secret_def decode_update_json_def
        result_simps split: if_splits option.splits)
  moreover have "loads raw = Some payload" using h(4) by (cases "loads raw" rule: json_dict.cases) auto
  ultimately show ?thesis using webhook_transaction_cases [OF run] by blast
qed

section \<open>A concrete call\<close>

definition sample_contact :: "uuid \<Rightarrow> int \<Rightarrow> telegram_identity" where
  "sample_contact i t = \<lparr> ti_user_id = i, ti_telegram_user_id = t, ti_username = None,
     ti_first_name = ''A'', ti_last_name = None, ti_language_code = None, ti_last_auth_at = None \<rparr>"

definition sample_access_request :: access_request where
  "sample_access_request = \<lparr> ar_id = 9, ar_user_id = 6, ar_status = AR_PENDING, ar_requested_at = 50,
     ar_decided_at = None, ar_decided_by_user_id = None, ar_decision_note = None \<rparr>"

definition sample_applicants :: db where
  "sample_applicants = empty_db\<lparr>
     users := [sample_user 2 ADMIN APPROVED, sample_user 6 ENGINEER PENDING],
     telegram_identities := [sample_contact 2 1002, sample_contact 6 1006],
     access_requests := [sample_access_request]\<rparr>"

definition sample_token :: string where
  "sample_token = replicate 24 (CHR ''a'')"

definition sample_chat :: bot_db where
  "sample_chat = \<lparr> core = sample_applicants, telegram_updates = [], telegram_chat_states = [],
     access_decision_callbacks = [\<lparr> ac_token = sample_token, ac_access_request_id = 9,
       ac_action = ''APPROVE'', ac_created_at = 60 \<rparr>] \<rparr>"

definition sample_bot_env :: bot_env where
  "sample_bot_env = \<lparr> be_sha256 = sample_digest, be_admin_telegram_user_id = None,
     be_notification_telegram_user_id = Some 1002, be_support_telegram_username = ''support'',
     be_telegram_web_app_url = ''https://app'', be_telegram_webhook_secret = Some ''secret'',
     be_access_callback_ttl_seconds = 900, be_start_welcome_send_delay = 0 \<rparr>"

definition sample_callback_data :: string where
  "sample_callback_data = CALLBACK_PREFIX @ sample_token"

definition sample_press :: json where
  "sample_press = JObj [(''update_id'', JInt 500), (''callback_query'', JObj [(''id'', JStr ''q1''),
     (''from'', JObj [(''id'', JInt 1002)]), (''data'', JStr sample_callback_data)])]"

lemma sample_token_parsed: "parse_access_callback_data sample_callback_data = Inr sample_token"
  by code_simp

definition sample_decided :: db where
  "sample_decided = sample_applicants\<lparr>
     users := [sample_user 2 ADMIN APPROVED,
       (sample_user 6 ENGINEER PENDING)\<lparr>u_access_status := APPROVED, u_approved_at := Some 100,
          u_approved_by_user_id := Some 2\<rparr>],
     user_access_events := [\<lparr> uae_actor_user_id = 2, uae_target_user_id = 6,
       uae_before_access_status = PENDING, uae_after_access_status = APPROVED, uae_occurred_at = 100 \<rparr>],
     access_requests := [sample_access_request\<lparr>ar_status := AR_APPROVED, ar_decided_at := Some 100,
       ar_decided_by_user_id := Some 2, ar_decision_note := Some ''Access management web console''\<rparr>]\<rparr>"

lemma sample_decide:
  "\<exists>u r e. decide_pending_access_request sample_applicants 2 6 AR_APPROVED None 100 =
     Inr (sample_decided, u, r, e)"
  by (simp add: decide_pending_access_request_def lock_actor_and_target_def sample_applicants_def get_user_def
      sample_user_def has_capability_def is_recovery_identity_def get_pending_access_request_def
      pending_requests_of_def sample_access_request_def transition_user_access_def Let_def
      save_user_def save_access_request_def table_update_def sample_decided_def)

lemma sample_digest_key [simp]:
  "notification_dedupe_key sample_digest parts \<noteq> []" "length (notification_dedupe_key sample_digest parts) = 64"
  by (simp_all add: notification_dedupe_key_def sample_digest_def)

lemma sample_env_digest: "be_sha256 sample_bot_env = sample_digest"
  by (simp add: sample_bot_env_def)

lemma sample_enqueue:
  assumes "verb \<in> set ALLOWED_TELEGRAM_METHODS" and "no_id ` set (notification_outboxes (core st)) \<subseteq> {..<i}"
  shows "\<exists>st'. bot_enqueue st i now verb payload (notification_dedupe_key sample_digest parts) None False = Inr st' \<and>
    users (core st') = users (core st) \<and> no_id ` set (notification_outboxes (core st')) \<subseteq> {..<i + 1}"
  using assms
  by (auto simp: bot_enqueue_def enqueue_telegram_call_def new_notification_def image_subset_iff
      intro: less_SucI)

lemma sample_apply:
  assumes "core st = sample_applicants" and "access_decision_callbacks st = access_decision_callbacks sample_chat"
  shows "\<exists>st'. apply_access_decision sample_bot_env st (\<lambda>k. 70 + k) 100 sample_callback_data ''q1''
      1002 None None = Inr (st', AR_APPROVED, True) \<and> users (core st') = users sample_decided"
proof -
  obtain u r e where dec: "decide_pending_access_request sample_applicants 2 6 AR_APPROVED None 100 =
      Inr (sample_decided, u, r, e)" using sample_decide by blast
  let ?st = "st\<lparr>core := with_telegram_note sample_decided r\<rparr>"
  have base: "notification_outboxes (with_telegram_note sample_decided r) = []"
    "users (with_telegram_note sample_decided r) = users sample_decided"
    by (simp_all add: with_telegram_note_def save_access_request_def sample_decided_def sample_applicants_def)
  have status: "ar_status r = AR_APPROVED" using decided_request [OF dec] by metis
  have "\<exists>st2. enqueue_access_decision_user_notification sample_bot_env ?st 70 100 (ar_id r)
      (sample_contact 6 1006) (ar_status r) = Inr st2 \<and> users (core st2) = users (core ?st) \<and>
      no_id ` set (notification_outboxes (core st2)) \<subseteq> {..<70 + 1}"
    unfolding enqueue_access_decision_user_notification_def Let_def status sample_env_digest
    by (simp only: refl if_True prod.case, rule sample_enqueue)
      (simp_all add: ALLOWED_TELEGRAM_METHODS_def base)
  then obtain st2 where st2: "enqueue_access_decision_user_notification sample_bot_env ?st 70 100 (ar_id r)
      (sample_contact 6 1006) (ar_status r) = Inr st2" "users (core st2) = users sample_decided"
    "no_id ` set (notification_outboxes (core st2)) \<subseteq> {..<71}"
    using base(2) by auto
  have sub: "no_id ` set (notification_outboxes (core st2)) \<subseteq> {..<72}" using st2(3) by fastforce
  have step: "decide_by_callback sample_bot_env st (\<lambda>k. 70 + k) 100
      \<lparr> ac_token = sample_token, ac_access_request_id = 9, ac_action = ''APPROVE'', ac_created_at = 60 \<rparr>
      (sample_user 2 ADMIN APPROVED) (sample_user 6 ENGINEER PENDING) (sample_contact 6 1006) =
      Inr (st2, r\<lparr>ar_decision_note := Some ''Telegram inline callback''\<rparr>)"
    using dec st2(1) assms(1)
    by (simp add: decide_by_callback_def sample_bot_env_def sample_user_def with_telegram_note_def)
  have "\<exists>st3. enqueue_callback_answer sample_bot_env st2 72 100 ''q1'' label_allowed = Inr st3 \<and>
      users (core st3) = users (core st2) \<and> no_id ` set (notification_outboxes (core st3)) \<subseteq> {..<72 + 1}"
    unfolding enqueue_callback_answer_def sample_env_digest
    by (rule sample_enqueue) (use sub in \<open>simp_all add: ALLOWED_TELEGRAM_METHODS_def\<close>)
  then obtain st3 where "enqueue_callback_answer sample_bot_env st2 72 100 ''q1'' label_allowed = Inr st3"
    "users (core st3) = users sample_decided" using st2(2) by auto
  moreover have
    "table_get ac_token sample_token (access_decision_callbacks st) = Some \<lparr> ac_token = sample_token,
       ac_access_request_id = 9, ac_action = ''APPROVE'', ac_created_at = 60 \<rparr>"
    "get_user sample_applicants 2 = Some (sample_user 2 ADMIN APPROVED)"
    "get_user sample_applicants 6 = Some (sample_user 6 ENGINEER PENDING)"
    "get_identity sample_applicants 6 = Some (sample_contact 6 1006)"
    "identity_by_telegram sample_applicants 1002 = Some (sample_contact 2 1002)"
    "get_access_request sample_applicants 9 = Some sample_access_request"
    by (simp_all add: assms(2) sample_chat_def get_user_def get_identity_def identity_by_telegram_def
        get_access_request_def sample_applicants_def sample_user_def sample_contact_def sample_access_request_def)
  moreover have "be_access_callback_ttl_seconds sample_bot_env = 900" by (simp add: sample_bot_env_def)
  moreover have "has_capability ADMIN ACCESS_MANAGE_USERS" by (simp add: has_capability_def)
  moreover have "u_role (sample_user i ro s) = ro" "u_access_status (sample_user i ro s) = s"
    "u_id (sample_user i ro s) = i" "ti_user_id (sample_contact i t) = i" for i ro s t
    by (simp_all add: sample_user_def sample_contact_def)
  ultimately show ?thesis using step status
    by (simp add: apply_access_decision_def resolve_actor_user_id_def require_approved_access_manager_def
        sample_token_parsed assms(1) is_bigint_def enqueue_access_buttons_clear_def Let_def)
      (simp add: sample_access_request_def assms(1) enqueue_access_buttons_clear_def)
qed

definition sample_webhook :: "http_error + bot_db" where
  "sample_webhook = telegram_webhook sample_bot_env (\<lambda>_. Some sample_press) sample_chat (\<lambda>k. 70 + k) 100
     (Some ''secret'') [[()]]"

lemma sample_webhook_run:
  "\<exists>st'. sample_webhook = Inr st' \<and> users (core st') = users sample_decided"
proof -
  let ?st = "sample_chat\<lparr>telegram_updates :=
    [\<lparr> tu_update_id = 500, tu_received_at = 100, tu_processed_at = None \<rparr>]\<rparr>"
  obtain st' status b where "apply_access_decision sample_bot_env ?st (\<lambda>k. 70 + k) 100 sample_callback_data
      ''q1'' 1002 None None = Inr (st', status, b)" "users (core st') = users sample_decided"
    using sample_apply [of ?st] by (auto simp: sample_chat_def)
  moreover have "register_telegram_update sample_chat 500 100 = Inr (?st, True)"
    by (simp add: register_telegram_update_def is_bigint_def sample_chat_def)
  moreover have "be_telegram_webhook_secret sample_bot_env = Some ''secret''" by (simp add: sample_bot_env_def)
  ultimately show ?thesis
    by (simp add: sample_webhook_def telegram_webhook_def verify_webhook_secret_def decode_update_json_def
        MAX_TELEGRAM_UPDATE_BYTES_def sample_press_def webhook_transaction_def process_telegram_update_def
        process_callback_query_def handle_access_callback_def mark_telegram_update_processed_def)
qed

theorem webhook_decides_like_console_witness:
  "\<exists>st' i data token. sample_webhook = Inr st' \<and> pressed_button sample_press = Some (i, data) \<and>
     parse_access_callback_data data = Inr token \<and>
     button_decision sample_bot_env sample_chat 100 i token (core st')"
proof -
  obtain st' where run: "sample_webhook = Inr st'" and us: "users (core st') = users sample_decided"
    using sample_webhook_run by blast
  have "users (core st') \<noteq> users (core sample_chat)"
    by (simp add: us sample_decided_def sample_chat_def sample_applicants_def sample_user_def)
  then have "\<not> same_but_outbox (core sample_chat) (core st')" using same_but_outboxD(1) by metis
  moreover have "telegram_updates sample_chat = []" by (simp add: sample_chat_def)
  ultimately show ?thesis
    using webhook_decides_like_console [OF run [unfolded sample_webhook_def]] run
    by auto
qed

end
