(* ===== verification/Worker_Loop.thy ===== *)
theory Worker_Loop
  imports Prelude
begin

text \<open>
  The loop that the delivery workers share (\<open>run_worker_once\<close> of \<open>notifications/worker.py\<close> and
  \<open>run_email_worker_once\<close> of \<open>procurement/email.py\<close>): a bounded number of iterations, each of
  which takes one due message, delivers it and reports the result; it stops early when
  nothing is due, and an exception ends it with the transactions committed so far in place.
  The loop around it (\<open>_run_worker_loop\<close>, \<open>run_email_worker\<close>) starts the next round whatever
  happened. A pass holds what an iteration reads from outside: clock, token and reply.

  The contract \<open>lease_worker\<close> says what one iteration does to the table of messages;
  \<open>drains\<close> concludes that the loop empties the queue whatever the replies are.
\<close>

section \<open>Rounds\<close>

datatype 'e outcome = Idle | Processed | Crashed 'e

fun run_passes :: "('p \<Rightarrow> 's \<Rightarrow> 's \<times> 'e outcome) \<Rightarrow> 'p list \<Rightarrow> 's \<Rightarrow> 's \<times> ('e + nat)" where
  "run_passes iterate [] s = (s, Inr 0)"
| "run_passes iterate (p # ps) s =
     (case iterate p s of
        (s', Idle) \<Rightarrow> (s', Inr 0)
      | (s', Crashed e) \<Rightarrow> (s', Inl e)
      | (s', Processed) \<Rightarrow> (case run_passes iterate ps s' of (s'', r) \<Rightarrow> (s'', map_sum id Suc r)))"

definition run_rounds :: "('p list \<Rightarrow> 's \<Rightarrow> 's \<times> ('e + nat)) \<Rightarrow> 'p list list \<Rightarrow> 's \<Rightarrow> 's" where
  "run_rounds once rounds s = fold (\<lambda>ps s. fst (once ps s)) rounds s"

lemma run_rounds_simps [simp]:
  "run_rounds once [] s = s"
  "run_rounds once (ps # rounds) s = run_rounds once rounds (fst (once ps s))"
  by (simp_all add: run_rounds_def)

text \<open>
  Passes are spaced when each starts no earlier than the longest retry delay after the end of
  the one before.
\<close>

fun spaced :: "('p \<Rightarrow> timestamp) \<Rightarrow> ('p \<Rightarrow> timestamp) \<Rightarrow> int \<Rightarrow> timestamp \<Rightarrow> 'p list \<Rightarrow> bool" where
  "spaced starts ends backoff t [] = True"
| "spaced starts ends backoff t (p # ps) =
     (t \<le> starts p \<and> starts p \<le> ends p \<and> spaced starts ends backoff (ends p + backoff) ps)"

lemma spaced_mono: "t' \<le> t \<Longrightarrow> spaced starts ends b t ps \<Longrightarrow> spaced starts ends b t' ps"
  by (cases ps) auto

lemma spaced_skip:
  assumes "0 \<le> b" and "spaced starts ends b t (ps @ qs)"
  shows "spaced starts ends b t qs"
  using assms(2)
proof (induction ps arbitrary: t)
  case Nil
  then show ?case by simp
next
  case (Cons p ps)
  then have "spaced starts ends b (ends p + b) qs" and "t \<le> ends p" by auto
  then show ?case using assms(1) by (auto intro: spaced_mono [rotated])
qed

section \<open>Updates of one row\<close>

lemma table_update_twice:
  "key a = k \<Longrightarrow> table_update key k (\<lambda>_. b) (table_update key k (\<lambda>_. a) rs) = table_update key k (\<lambda>_. b) rs"
  by (simp add: table_update_def)

section \<open>The sum of credits\<close>

definition total :: "('r \<Rightarrow> nat) \<Rightarrow> 'r list \<Rightarrow> nat" where
  "total credit rs = sum_list (map credit rs)"

lemma total_zero_iff: "total credit rs = 0 \<longleftrightarrow> (\<forall>r\<in>set rs. credit r = 0)"
  by (simp add: total_def)

lemma total_update:
  assumes "distinct (map key rs)" and "r \<in> set rs"
  shows "total credit (table_update key (key r) (\<lambda>_. r') rs) + credit r = total credit rs + credit r'"
  using assms
proof (induction rs)
  case Nil
  then show ?case by simp
next
  case (Cons x xs)
  show ?case
  proof (cases "x = r")
    case True
    with Cons.prems(1) have "table_update key (key r) (\<lambda>_. r') xs = xs"
      by (auto simp: table_update_def image_iff intro!: map_idI)
    with True show ?thesis by (simp add: total_def table_update_def)
  next
    case False
    with Cons have "key x \<noteq> key r" and
      "total credit (table_update key (key r) (\<lambda>_. r') xs) + credit r = total credit xs + credit r'"
      by auto
    then show ?thesis by (simp add: total_def table_update_def)
  qed
qed

section \<open>Workers that hold a lease\<close>

locale lease_worker =
  fixes iterate :: "'p \<Rightarrow> 's \<Rightarrow> 's \<times> 'e outcome"
    and rows :: "'s \<Rightarrow> 'r list" and key :: "'r \<Rightarrow> 'k"
    and inv :: "'s \<Rightarrow> bool" and good :: "'p \<Rightarrow> bool"
    and takes :: "'p \<Rightarrow> 'r \<Rightarrow> bool" and results :: "'p \<Rightarrow> 'r \<Rightarrow> 'r \<Rightarrow> bool"
    and credit :: "'r \<Rightarrow> nat" and due :: "timestamp \<Rightarrow> 'r \<Rightarrow> bool"
    and starts ends :: "'p \<Rightarrow> timestamp" and backoff :: int
  assumes backoff: "0 \<le> backoff"
    and unique: "inv s \<Longrightarrow> distinct (map key (rows s))"
    and keeps: "inv s \<Longrightarrow> good p \<Longrightarrow> inv (fst (iterate p s))"
    and idle: "inv s \<Longrightarrow> good p \<Longrightarrow> iterate p s = (s', Idle) \<Longrightarrow> s' = s \<and> (\<forall>r\<in>set (rows s). \<not> takes p r)"
    and serves: "inv s \<Longrightarrow> good p \<Longrightarrow> iterate p s = (s', Processed) \<Longrightarrow>
      \<exists>r r'. r \<in> set (rows s) \<and> takes p r \<and> results p r r' \<and>
        rows s' = table_update key (key r) (\<lambda>_. r') (rows s)"
    and no_crash: "inv s \<Longrightarrow> good p \<Longrightarrow> iterate p s \<noteq> (s', Crashed e)"
    and spends: "inv s \<Longrightarrow> r \<in> set (rows s) \<Longrightarrow> takes p r \<Longrightarrow> results p r r' \<Longrightarrow> credit r' < credit r"
    and due_later: "due t r \<Longrightarrow> t \<le> t' \<Longrightarrow> due t' r"
    and results_due: "results p r r' \<Longrightarrow> due (ends p + backoff) r'"
    and due_takes: "inv s \<Longrightarrow> r \<in> set (rows s) \<Longrightarrow> due t r \<Longrightarrow> t \<le> starts p \<Longrightarrow> 0 < credit r \<Longrightarrow> takes p r"
begin

definition left_over :: "'s \<Rightarrow> nat" where
  "left_over s = total credit (rows s)"

definition all_due :: "timestamp \<Rightarrow> 's \<Rightarrow> bool" where
  "all_due t s \<longleftrightarrow> (\<forall>r\<in>set (rows s). due t r)"

lemma all_due_later: "all_due t s \<Longrightarrow> t \<le> t' \<Longrightarrow> all_due t' s"
  by (auto simp: all_due_def intro: due_later)

lemma processed:
  assumes "inv s" and "good p" and "iterate p s = (s', Processed)"
  shows "left_over s' < left_over s"
    and "all_due t s \<Longrightarrow> t \<le> starts p \<Longrightarrow> starts p \<le> ends p \<Longrightarrow> all_due (ends p + backoff) s'"
proof -
  obtain r r' where r: "r \<in> set (rows s)" "takes p r" "results p r r'"
    "rows s' = table_update key (key r) (\<lambda>_. r') (rows s)"
    using serves [OF assms] by blast
  have "total credit (rows s') + credit r = total credit (rows s) + credit r'"
    unfolding r(4) by (rule total_update [OF unique [OF assms(1)] r(1)])
  moreover have "credit r' < credit r" by (rule spends [OF assms(1) r(1-3)])
  ultimately show "left_over s' < left_over s" by (simp add: left_over_def)
  assume t: "all_due t s" "t \<le> starts p" "starts p \<le> ends p"
  show "all_due (ends p + backoff) s'"
    using all_due_later [OF t(1), of "ends p + backoff"] t backoff results_due [OF r(3)]
    by (auto simp: all_due_def r(4) set_table_update)
qed

lemma settled:
  assumes "inv s" and "good p" and "iterate p s = (s', Idle)" and "all_due t s" and "t \<le> starts p"
  shows "s' = s" and "left_over s = 0"
  using idle [OF assms(1-3)] due_takes [OF assms(1) _ _ assms(5)] assms(4)
  by (auto simp: left_over_def total_zero_iff all_due_def)

lemma round_keeps:
  assumes "inv s" and "\<forall>p\<in>set ps. good p" and "all_due t s"
    and "spaced starts ends backoff t (ps @ qs)"
  shows "inv (fst (run_passes iterate ps s)) \<and> left_over (fst (run_passes iterate ps s)) \<le> left_over s \<and>
    (ps \<noteq> [] \<longrightarrow> left_over s = 0 \<or> left_over (fst (run_passes iterate ps s)) < left_over s) \<and>
    (\<exists>t'. all_due t' (fst (run_passes iterate ps s)) \<and> spaced starts ends backoff t' qs)"
  using assms
proof (induction ps arbitrary: s t)
  case Nil
  then show ?case by auto
next
  case (Cons p ps)
  obtain s' o' where it: "iterate p s = (s', o')" by fastforce
  have good: "good p" "\<forall>p\<in>set ps. good p" using Cons.prems(2) by simp_all
  have t: "t \<le> starts p" "starts p \<le> ends p" and
    sp: "spaced starts ends backoff (ends p + backoff) (ps @ qs)" using Cons.prems(4) by simp_all
  show ?case
  proof (cases o')
    case Idle
    with it have idl: "iterate p s = (s', Idle)" by simp
    note st = settled [OF Cons.prems(1) good(1) idl Cons.prems(3) t(1)]
    have "spaced starts ends backoff t qs"
      using spaced_skip [OF backoff, of starts ends t "p # ps" qs] Cons.prems(4) by simp
    then show ?thesis using idl st Cons.prems by auto
  next
    case (Crashed e)
    then show ?thesis using it no_crash [OF Cons.prems(1) good(1)] by blast
  next
    case Processed
    with it have pr: "iterate p s = (s', Processed)" by simp
    have inv': "inv s'" using keeps [OF Cons.prems(1) good(1)] pr by simp
    note less = processed(1) [OF Cons.prems(1) good(1) pr]
    note due' = processed(2) [OF Cons.prems(1) good(1) pr Cons.prems(3) t]
    have "fst (run_passes iterate (p # ps) s) = fst (run_passes iterate ps s')"
      by (simp add: pr split: prod.splits)
    then show ?thesis using Cons.IH [OF inv' good(2) due' sp] less by auto
  qed
qed

theorem drains:
  assumes "inv s" and "all_due t s" and "\<forall>ps\<in>set rounds. ps \<noteq> [] \<and> (\<forall>p\<in>set ps. good p)"
    and "spaced starts ends backoff t (concat rounds)" and "left_over s \<le> length rounds"
  shows "inv (run_rounds (run_passes iterate) rounds s) \<and>
    left_over (run_rounds (run_passes iterate) rounds s) = 0"
  using assms
proof (induction rounds arbitrary: s t)
  case Nil
  then show ?case by simp
next
  case (Cons ps rounds)
  have ps: "ps \<noteq> []" "\<forall>p\<in>set ps. good p" using Cons.prems(3) by simp_all
  have sp: "spaced starts ends backoff t (ps @ concat rounds)" using Cons.prems(4) by simp
  let ?s = "fst (run_passes iterate ps s)"
  obtain t' where r: "inv ?s" "left_over ?s \<le> left_over s"
    "left_over s = 0 \<or> left_over ?s < left_over s" "all_due t' ?s"
    "spaced starts ends backoff t' (concat rounds)"
    using round_keeps [OF Cons.prems(1) ps(2) Cons.prems(2) sp] ps(1) by blast
  have "left_over ?s \<le> length rounds" using r(2,3) Cons.prems(5) by auto
  then show ?case using Cons.IH [OF r(1,4) _ r(5)] Cons.prems(3) by simp
qed

end

end
