(* ===== verification/Email.thy ===== *)
theory Email
  imports Procurement Telegram_Bot Worker_Loop
begin

text \<open>
  Email announcements of completed purchases (\<open>procurement/email.py\<close>, the request schema of
  \<open>procurement/schemas.py\<close>): the outbox row that an initiator asks for, keyed so that a
  repeated command finds the row of the first one, and the worker that delivers rows through
  Microsoft Graph. The table is a list of its own beside the shared database. The deep link
  of a request and Python's \<open>str\<close> of a JSON value that is not a text are arguments, and so is
  the result of a delivery: no value, or the class name of the exception.
\<close>

section \<open>Rows and settings\<close>

record email_outbox =
  eo_id :: uuid
  eo_request_id :: uuid
  eo_to_addresses :: "string list"
  eo_cc_addresses :: "string list"
  eo_subject :: string
  eo_text_body :: string
  eo_html_body :: string
  eo_dedupe_key :: string
  eo_status :: outbox_status
  eo_attempts :: int
  eo_available_at :: timestamp
  eo_claimed_at :: "timestamp option"
  eo_claim_token :: "uuid option"
  eo_sent_at :: "timestamp option"
  eo_last_error :: "string option"
  eo_created_at :: timestamp

record email_env =
  ee_sha256 :: "string \<Rightarrow> string"
  ee_str :: "json \<Rightarrow> string"
  ee_deep_link :: "uuid \<Rightarrow> string option"
  ee_email_delivery_enabled :: bool
  ee_microsoft_graph_tenant_id :: "string option"
  ee_microsoft_graph_client_id :: "string option"
  ee_microsoft_graph_client_secret :: "string option"
  ee_microsoft_graph_sender :: "string option"
  ee_microsoft_graph_timeout_seconds :: int
  ee_email_worker_claim_ttl_seconds :: int
  ee_email_worker_max_attempts :: int

datatype email_error =
    EmailServiceUnavailableError string
  | EmailConflictError string
  | EmailProcurementError procurement_error
  | EmailValueError
  | EmailRuntimeError
  | EmailDbError string

section \<open>The request schema\<close>

record procurement_email_create =
  pm_to :: "string list"
  pm_cc :: "string list"
  pm_client_request_id :: string

text \<open>\<open>EMAIL_PATTERN\<close>: one at sign, no whitespace, and a dot inside the domain.\<close>

definition is_email :: "string \<Rightarrow> bool" where
  "is_email s =
     (let local = takeWhile (\<lambda>c. c \<noteq> CHR ''@'') s;
          domain = drop (Suc (length local)) s
      in list_all (\<lambda>c. \<not> is_space c) s \<and> local \<noteq> [] \<and> CHR ''@'' \<in> set s \<and>
         CHR ''@'' \<notin> set domain \<and> CHR ''.'' \<in> set (butlast (tl domain)))"

definition add_address :: "string \<Rightarrow> string list \<Rightarrow> email_error + string list" where
  "add_address address normalized =
     (let v = map casefold (py_strip address)
      in if length v > 254 \<or> \<not> is_email v then Inl EmailValueError
         else Inr (if v \<in> set normalized then normalized else normalized @ [v]))"

definition validate_addresses :: "string list \<Rightarrow> email_error + string list" where
  "validate_addresses addresses = efold add_address addresses []"

definition procurement_email_create ::
    "string list \<Rightarrow> string list \<Rightarrow> string \<Rightarrow> email_error + procurement_email_create" where
  "procurement_email_create to_addresses cc_addresses client_request_id =
     (let key = normalize_idempotency_key client_request_id
      in if to_addresses = [] \<or> length to_addresses > 50 \<or> length cc_addresses > 50 \<or>
            key = [] \<or> length key > 128 then Inl EmailValueError
         else ebind (validate_addresses to_addresses) (\<lambda>recipients.
              ebind (validate_addresses cc_addresses) (\<lambda>copies.
              Inr \<lparr> pm_to = recipients, pm_cc = copies, pm_client_request_id = key \<rparr>)))"

section \<open>Texts\<close>

definition mail_done :: string where
  "mail_done = points_text
     [32, 1074, 1099, 1087, 1086, 1083, 1085, 1077, 1085, 1072]"

definition mail_positions :: string where
  "mail_positions = points_text
     [1055, 1086, 1079, 1080, 1094, 1080, 1080, 58]"

definition mail_open :: string where
  "mail_open = points_text
     [1054, 1090, 1082, 1088, 1099, 1090, 1100, 32, 1079, 1072, 1103, 1074, 1082, 1091, 58, 32]"

definition mail_link :: string where
  "mail_link = points_text
     [1054, 1090, 1082, 1088, 1099, 1090, 1100, 32, 1079, 1072, 1103, 1074, 1082, 1091]"

definition mail_position :: string where
  "mail_position = points_text
     [1055, 1086, 1079, 1080, 1094, 1080, 1103]"

fun json_falsy :: "json \<Rightarrow> bool" where
  "json_falsy JNull = True"
| "json_falsy (JBool b) = (\<not> b)"
| "json_falsy (JInt i) = (i = 0)"
| "json_falsy (JFloat r) = (r \<in> {''0.0'', ''-0.0''})"
| "json_falsy (JStr s) = (s = [])"
| "json_falsy (JList xs) = (xs = [])"
| "json_falsy (JObj kvs) = (kvs = [])"

definition snapshot_name :: "email_env \<Rightarrow> procurement_revision_line \<Rightarrow> string" where
  "snapshot_name env line =
     (case json_get ''name'' (rl_display_snapshot line) of
        None \<Rightarrow> mail_position
      | Some v \<Rightarrow> if json_falsy v then mail_position
                  else (case v of JStr s \<Rightarrow> s | _ \<Rightarrow> ee_str env v))"

definition email_subject :: "string \<Rightarrow> string" where
  "email_subject request_number = text_purchase @ request_number @ mail_done"

definition email_text_body :: "string \<Rightarrow> procurement_revision_line list \<Rightarrow> string \<Rightarrow> string" where
  "email_text_body request_number lines link =
     text_purchase @ request_number @ newline @ newline @ mail_positions @ newline @
     composition_summary lines @ newline @ newline @ mail_open @ link"

definition email_html_body ::
    "email_env \<Rightarrow> string \<Rightarrow> procurement_revision_line list \<Rightarrow> string \<Rightarrow> string" where
  "email_html_body env request_number lines link =
     (let html_lines = concat (map (\<lambda>line. ''<li>'' @ html_escape (snapshot_name env line) @ text_dash @
            int_str (rl_quantity line) @ text_pieces @ ''</li>'') lines)
      in ''<h1>'' @ text_purchase @ html_escape request_number @ ''</h1>'' @
         ''<ul>'' @ html_lines @ ''</ul>'' @
         ''<p><a href='' @ quote_char @ html_escape link @ quote_char @ ''>'' @ mail_link @ ''</a></p>'')"

section \<open>Enqueueing\<close>

definition email_dedupe_key :: "(string \<Rightarrow> string) \<Rightarrow> uuid \<Rightarrow> uuid \<Rightarrow> string \<Rightarrow> string" where
  "email_dedupe_key sha256 request_id actor_user_id client_request_id =
     sha256 (''procurement-email|'' @ uuid_str request_id @ ''|'' @ uuid_str actor_user_id @ ''|'' @
       client_request_id)"

definition by_code_point :: "string list \<Rightarrow> string list" where
  "by_code_point ss = sort_key (map code_point) ss"

definition email_command_fingerprint ::
    "(string \<Rightarrow> string) \<Rightarrow> string list \<Rightarrow> string list \<Rightarrow> string \<Rightarrow> string \<Rightarrow> string \<Rightarrow> string" where
  "email_command_fingerprint sha256 to_addresses cc_addresses subject text_body html_body =
     sha256 (json_dumps (JObj [
       (''to'', JList (map JStr (by_code_point to_addresses))),
       (''cc'', JList (map JStr (by_code_point cc_addresses))),
       (''subject'', JStr subject), (''text_body'', JStr text_body), (''html_body'', JStr html_body)]))"

definition email_delivery_is_configured :: "email_env \<Rightarrow> bool" where
  "email_delivery_is_configured env \<longleftrightarrow> ee_email_delivery_enabled env \<and>
     list_all (\<lambda>v. v \<noteq> None)
       [ee_microsoft_graph_tenant_id env, ee_microsoft_graph_client_id env,
        ee_microsoft_graph_client_secret env, ee_microsoft_graph_sender env]"

definition new_email ::
    "uuid \<Rightarrow> timestamp \<Rightarrow> uuid \<Rightarrow> procurement_email_create \<Rightarrow> string \<Rightarrow> string \<Rightarrow> string \<Rightarrow> string
       \<Rightarrow> email_outbox" where
  "new_email new_id now request_id payload subject text_body html_body key =
     \<lparr> eo_id = new_id, eo_request_id = request_id, eo_to_addresses = pm_to payload,
       eo_cc_addresses = pm_cc payload, eo_subject = subject, eo_text_body = text_body,
       eo_html_body = html_body, eo_dedupe_key = key, eo_status = OB_PENDING, eo_attempts = 0,
       eo_available_at = now, eo_claimed_at = None, eo_claim_token = None, eo_sent_at = None,
       eo_last_error = None, eo_created_at = now \<rparr>"

definition insert_email :: "email_outbox \<Rightarrow> email_outbox list \<Rightarrow> email_error + email_outbox list" where
  "insert_email row rows =
     (if length (eo_subject row) > 255 \<or> length (eo_dedupe_key row) > 128 then Inl (EmailDbError ''22001'')
      else if \<exists>r\<in>set rows. eo_dedupe_key r = eo_dedupe_key row then Inr rows
      else if \<exists>r\<in>set rows. eo_id r = eo_id row then Inl (EmailDbError ''23505'')
      else Inr (rows @ [row]))"

definition enqueue_procurement_email ::
    "email_env \<Rightarrow> db \<Rightarrow> email_outbox list \<Rightarrow> uuid \<Rightarrow> timestamp \<Rightarrow> procurement_record
       \<Rightarrow> procurement_email_create \<Rightarrow> uuid \<Rightarrow> email_error + email_outbox list \<times> email_outbox" where
  "enqueue_procurement_email env d rows new_id now record payload actor_user_id =
     (if \<not> email_delivery_is_configured env
      then Inl (EmailServiceUnavailableError ''email_delivery_not_configured'')
      else if pr_status (prr_request record) \<noteq> COMPLETED
      then Inl (EmailConflictError ''email_before_completion'')
      else
        (let request = prr_request record;
             key = email_dedupe_key (ee_sha256 env) (pr_id request) actor_user_id
                     (pm_client_request_id payload)
         in ebind (from_option EmailValueError (ee_deep_link env (pr_id request))) (\<lambda>link.
            ebind (relabel EmailProcurementError (current_lines d record)) (\<lambda>lines.
            let subject = email_subject (pr_request_number request);
                text_body = email_text_body (pr_request_number request) lines link;
                html_body = email_html_body env (pr_request_number request) lines link;
                command_fingerprint = email_command_fingerprint (ee_sha256 env) (pm_to payload)
                  (pm_cc payload) subject text_body html_body
            in ebind (insert_email (new_email new_id now (pr_id request) payload subject text_body
                   html_body key) rows) (\<lambda>rows1.
               ebind (from_option EmailRuntimeError (table_get eo_dedupe_key key rows1)) (\<lambda>row.
               let stored_fingerprint = email_command_fingerprint (ee_sha256 env)
                     (eo_to_addresses row) (eo_cc_addresses row) (eo_subject row) (eo_text_body row)
                     (eo_html_body row)
               in if stored_fingerprint \<noteq> command_fingerprint
                  then Inl (EmailConflictError ''email_idempotency_conflict'')
                  else Inr (rows1, row)))))))"

definition post_email ::
    "email_env \<Rightarrow> db \<Rightarrow> email_outbox list \<Rightarrow> uuid \<Rightarrow> timestamp \<Rightarrow> uuid
       \<Rightarrow> procurement_email_create \<Rightarrow> uuid \<Rightarrow> email_error + email_outbox list \<times> email_outbox" where
  "post_email env d rows new_id now request_id payload actor_user_id =
     ebind (relabel EmailProcurementError (get_request_record d request_id)) (\<lambda>record.
     enqueue_procurement_email env d rows new_id now record payload actor_user_id)"

section \<open>Claims\<close>

record claimed_email =
  ce_id :: uuid
  ce_claim_token :: uuid
  ce_to :: "string list"
  ce_cc :: "string list"
  ce_subject :: string
  ce_text_body :: string
  ce_html_body :: string
  ce_attempts :: int

definition email_stale :: "timestamp \<Rightarrow> email_outbox \<Rightarrow> bool" where
  "email_stale stale r = (case eo_claimed_at r of None \<Rightarrow> False | Some t \<Rightarrow> t < stale)"

definition email_claimable :: "timestamp \<Rightarrow> timestamp \<Rightarrow> int \<Rightarrow> email_outbox \<Rightarrow> bool" where
  "email_claimable now stale max_attempts r \<longleftrightarrow>
     eo_status r = OB_PENDING \<and> eo_available_at r \<le> now \<and>
     (eo_attempts r < max_attempts \<or> (eo_attempts r \<ge> max_attempts \<and> email_stale stale r)) \<and>
     (eo_claimed_at r = None \<or> email_stale stale r)"

definition email_order :: "email_outbox \<Rightarrow> timestamp \<times> timestamp \<times> uuid" where
  "email_order r = (eo_available_at r, eo_created_at r, eo_id r)"

definition claim_email_row :: "timestamp \<Rightarrow> timestamp \<Rightarrow> int \<Rightarrow> uuid \<Rightarrow> email_outbox \<Rightarrow> email_outbox" where
  "claim_email_row now stale max_attempts token r =
     (let was_stale_final_attempt = eo_attempts r \<ge> max_attempts \<and> email_stale stale r
      in r\<lparr>eo_claimed_at := Some now, eo_claim_token := Some token,
           eo_attempts := (if was_stale_final_attempt then eo_attempts r else eo_attempts r + 1)\<rparr>)"

definition email_claim_of :: "uuid \<Rightarrow> email_outbox \<Rightarrow> claimed_email" where
  "email_claim_of token r =
     \<lparr> ce_id = eo_id r, ce_claim_token = token, ce_to = eo_to_addresses r, ce_cc = eo_cc_addresses r,
       ce_subject = eo_subject r, ce_text_body = eo_text_body r, ce_html_body = eo_html_body r,
       ce_attempts = eo_attempts r \<rparr>"

definition claim_email_batch ::
    "email_outbox list \<Rightarrow> nat \<Rightarrow> int \<Rightarrow> int \<Rightarrow> (nat \<Rightarrow> uuid) \<Rightarrow> timestamp
       \<Rightarrow> email_outbox list \<times> claimed_email list" where
  "claim_email_batch rows batch_size claim_ttl_seconds max_attempts tokens now =
     (let stale = now - claim_ttl_seconds;
          batch = enumerate 0 (take batch_size
            (sort_key email_order (filter (email_claimable now stale max_attempts) rows)));
          claimed = map (\<lambda>(k, r). claim_email_row now stale max_attempts (tokens k) r) batch
      in (fold (table_put eo_id) claimed rows,
          map (\<lambda>(k, r). email_claim_of (tokens k) (claim_email_row now stale max_attempts (tokens k) r))
            batch))"

section \<open>Results of a delivery\<close>

definition email_retry_delay :: "int \<Rightarrow> int" where
  "email_retry_delay attempts = min 300 (2 ^ nat (min (max 0 (attempts - 1)) 8))"

definition finished_email ::
    "email_outbox \<Rightarrow> string option \<Rightarrow> int \<Rightarrow> timestamp \<Rightarrow> email_outbox" where
  "finished_email r error max_attempts now =
     (let r1 = r\<lparr>eo_claimed_at := None, eo_claim_token := None\<rparr>
      in case error of
           None \<Rightarrow> r1\<lparr>eo_status := OB_SENT, eo_sent_at := Some now, eo_last_error := None\<rparr>
         | Some e \<Rightarrow>
             (let r2 = r1\<lparr>eo_last_error := Some (take 1000 e)\<rparr>
              in if eo_attempts r \<ge> max_attempts then r2\<lparr>eo_status := OB_DEAD\<rparr>
                 else r2\<lparr>eo_available_at := now + email_retry_delay (eo_attempts r)\<rparr>))"

definition finalize_email ::
    "email_outbox list \<Rightarrow> claimed_email \<Rightarrow> string option \<Rightarrow> int \<Rightarrow> timestamp \<Rightarrow> email_outbox list \<times> bool" where
  "finalize_email rows claim error max_attempts now =
     (case table_get eo_id (ce_id claim) rows of
        None \<Rightarrow> (rows, False)
      | Some r \<Rightarrow>
          if eo_claim_token r \<noteq> Some (ce_claim_token claim) \<or> eo_status r \<noteq> OB_PENDING then (rows, False)
          else (table_update eo_id (eo_id r) (\<lambda>_. finished_email r error max_attempts now) rows, True))"

section \<open>The worker\<close>

definition validate_email_worker_config :: "email_env \<Rightarrow> email_error + unit" where
  "validate_email_worker_config env =
     (if \<not> ee_email_delivery_enabled env then Inl EmailRuntimeError
      else if \<exists>v\<in>set [ee_microsoft_graph_tenant_id env, ee_microsoft_graph_client_id env,
                ee_microsoft_graph_client_secret env, ee_microsoft_graph_sender env]. v = None
      then Inl EmailRuntimeError
      else if ee_email_worker_claim_ttl_seconds env < ee_microsoft_graph_timeout_seconds env * 2 + 5
      then Inl EmailRuntimeError
      else Inr ())"

record email_pass =
  ep_token :: uuid
  ep_claim_at :: timestamp
  ep_report_at :: timestamp
  ep_error :: "string option"

type_synonym email_state = "email_outbox list \<times> claimed_email list"

definition email_iteration ::
    "email_env \<Rightarrow> email_pass \<Rightarrow> email_state \<Rightarrow> email_state \<times> email_error outcome" where
  "email_iteration env p s =
     (case s of (rows, sends) \<Rightarrow>
      (case claim_email_batch rows 1 (ee_email_worker_claim_ttl_seconds env)
              (ee_email_worker_max_attempts env) (\<lambda>_. ep_token p) (ep_claim_at p) of
         (rows1, []) \<Rightarrow> ((rows1, sends), Idle)
       | (rows1, claim # _) \<Rightarrow>
           ((fst (finalize_email rows1 claim (ep_error p) (ee_email_worker_max_attempts env)
                (ep_report_at p)), sends @ [claim]), Processed)))"

definition run_email_worker_once ::
    "email_env \<Rightarrow> email_pass list \<Rightarrow> email_state \<Rightarrow> email_state \<times> (email_error + nat)" where
  "run_email_worker_once env passes s = run_passes (email_iteration env) passes s"

definition run_email_worker ::
    "email_env \<Rightarrow> email_pass list list \<Rightarrow> email_state \<Rightarrow> email_error + email_state" where
  "run_email_worker env rounds s =
     ebind (validate_email_worker_config env) (\<lambda>_.
     Inr (run_rounds (run_email_worker_once env) rounds s))"

end
