(* ===== verification/Retention.thy ===== *)
theory Retention
  imports Retention_Batch Telegram_Bot Email
begin

text \<open>
  Technical retention (\<open>maintenance/technical_retention.py\<close>, \<open>maintenance/worker.py\<close>): the
  maintenance worker deletes sessions, Telegram updates, settled outbox rows and used decision
  buttons after a number of days, a bounded batch of each per transaction. The outcome of the
  advisory lock, the column \<open>updated_at\<close>, which the database stamps on every write, and the
  collation of button tokens are arguments.
\<close>

section \<open>Settings and results\<close>

record retention_settings =
  rs_batch_size :: nat
  rs_auth_session_days :: int
  rs_telegram_update_days :: int
  rs_notification_outbox_days :: int
  rs_email_outbox_days :: int
  rs_access_callback_days :: int

definition retention_settings_valid :: "retention_settings \<Rightarrow> bool" where
  "retention_settings_valid c \<longleftrightarrow>
     1 \<le> rs_batch_size c \<and> rs_batch_size c \<le> 5000 \<and>
     1 \<le> rs_auth_session_days c \<and> rs_auth_session_days c \<le> 365 \<and>
     1 \<le> rs_telegram_update_days c \<and> rs_telegram_update_days c \<le> 365 \<and>
     1 \<le> rs_notification_outbox_days c \<and> rs_notification_outbox_days c \<le> 730 \<and>
     1 \<le> rs_email_outbox_days c \<and> rs_email_outbox_days c \<le> 730 \<and>
     1 \<le> rs_access_callback_days c \<and> rs_access_callback_days c \<le> 365"

record retention_counts =
  rc_auth_sessions :: nat
  rc_telegram_updates :: nat
  rc_notification_outbox :: nat
  rc_email_outbox :: nat
  rc_access_decision_callbacks :: nat

definition retention_total :: "retention_counts \<Rightarrow> nat" where
  "retention_total c = rc_auth_sessions c + rc_telegram_updates c + rc_notification_outbox c +
     rc_email_outbox c + rc_access_decision_callbacks c"

record retention_pass =
  rp_lock_acquired :: bool
  rp_notification_updated_at :: "uuid \<Rightarrow> timestamp"
  rp_email_updated_at :: "uuid \<Rightarrow> timestamp"
  rp_collate :: "string \<Rightarrow> nat"
  rp_now :: timestamp

section \<open>The other tables\<close>

definition session_expired :: "timestamp \<Rightarrow> auth_session \<Rightarrow> bool" where
  "session_expired cutoff s \<longleftrightarrow>
     as_expires_at s < cutoff \<or> (case as_revoked_at s of None \<Rightarrow> False | Some t \<Rightarrow> t < cutoff)"

definition session_order :: "auth_session \<Rightarrow> timestamp \<times> uuid" where
  "session_order s =
     (min (as_expires_at s) (case as_revoked_at s of None \<Rightarrow> as_expires_at s | Some t \<Rightarrow> t), as_id s)"

definition AUTH_SESSIONS_DELETE :: "timestamp \<Rightarrow> nat \<Rightarrow> auth_session list \<Rightarrow> auth_session list \<times> nat" where
  "AUTH_SESSIONS_DELETE cutoff = delete_batch as_id (session_expired cutoff) session_order"

definition update_processed :: "timestamp \<Rightarrow> telegram_update \<Rightarrow> bool" where
  "update_processed cutoff u \<longleftrightarrow> (case tu_processed_at u of None \<Rightarrow> False | Some t \<Rightarrow> t < cutoff)"

definition TELEGRAM_UPDATES_DELETE ::
    "timestamp \<Rightarrow> nat \<Rightarrow> telegram_update list \<Rightarrow> telegram_update list \<times> nat" where
  "TELEGRAM_UPDATES_DELETE cutoff = delete_batch tu_update_id
     (update_processed cutoff) (\<lambda>u. (the (tu_processed_at u), tu_update_id u))"

definition email_settled :: "(uuid \<Rightarrow> timestamp) \<Rightarrow> timestamp \<Rightarrow> email_outbox \<Rightarrow> bool" where
  "email_settled updated_at cutoff r \<longleftrightarrow>
     eo_status r \<in> {OB_SENT, OB_DEAD} \<and> updated_at (eo_id r) < cutoff \<and>
     eo_claimed_at r = None \<and> eo_claim_token r = None"

definition EMAIL_OUTBOX_DELETE ::
    "(uuid \<Rightarrow> timestamp) \<Rightarrow> timestamp \<Rightarrow> nat \<Rightarrow> email_outbox list \<Rightarrow> email_outbox list \<times> nat" where
  "EMAIL_OUTBOX_DELETE updated_at cutoff = delete_batch eo_id
     (email_settled updated_at cutoff) (\<lambda>r. (updated_at (eo_id r), eo_id r))"

definition callback_decided_at :: "db \<Rightarrow> access_decision_callback \<Rightarrow> timestamp option" where
  "callback_decided_at d c =
     (case get_access_request d (ac_access_request_id c) of
        None \<Rightarrow> None
      | Some r \<Rightarrow> if ar_status r \<in> {AR_APPROVED, AR_REJECTED} then ar_decided_at r else None)"

definition callback_used :: "db \<Rightarrow> timestamp \<Rightarrow> access_decision_callback \<Rightarrow> bool" where
  "callback_used d cutoff c \<longleftrightarrow> (case callback_decided_at d c of None \<Rightarrow> False | Some t \<Rightarrow> t < cutoff)"

definition ACCESS_CALLBACKS_DELETE ::
    "(string \<Rightarrow> nat) \<Rightarrow> db \<Rightarrow> timestamp \<Rightarrow> nat \<Rightarrow> access_decision_callback list
       \<Rightarrow> access_decision_callback list \<times> nat" where
  "ACCESS_CALLBACKS_DELETE collate d cutoff = delete_batch ac_token
     (callback_used d cutoff) (\<lambda>c. (the (callback_decided_at d c), collate (ac_token c)))"

section \<open>One transaction and the loop\<close>

definition days_before :: "timestamp \<Rightarrow> int \<Rightarrow> timestamp" where
  "days_before now days = now - 86400 * days"

definition run_technical_retention_once ::
    "retention_settings \<Rightarrow> retention_pass \<Rightarrow> bot_db \<times> email_outbox list
       \<Rightarrow> (bot_db \<times> email_outbox list) \<times> retention_counts" where
  "run_technical_retention_once c p state =
     (case state of (st, emails) \<Rightarrow>
      if \<not> rp_lock_acquired p
      then (state, \<lparr> rc_auth_sessions = 0, rc_telegram_updates = 0, rc_notification_outbox = 0,
                     rc_email_outbox = 0, rc_access_decision_callbacks = 0 \<rparr>)
      else
        (let now = rp_now p; batch_size = rs_batch_size c; d = core st;
             (sessions, n1) = AUTH_SESSIONS_DELETE (days_before now (rs_auth_session_days c)) batch_size
                (auth_sessions d);
             (updates, n2) = TELEGRAM_UPDATES_DELETE (days_before now (rs_telegram_update_days c)) batch_size
                (telegram_updates st);
             (notifications, n3) = NOTIFICATION_OUTBOX_DELETE (rp_notification_updated_at p)
                (days_before now (rs_notification_outbox_days c)) batch_size (notification_outboxes d);
             (emails', n4) = EMAIL_OUTBOX_DELETE (rp_email_updated_at p)
                (days_before now (rs_email_outbox_days c)) batch_size emails;
             (callbacks, n5) = ACCESS_CALLBACKS_DELETE (rp_collate p) d
                (days_before now (rs_access_callback_days c)) batch_size (access_decision_callbacks st)
         in ((st\<lparr>core := d\<lparr>auth_sessions := sessions, notification_outboxes := notifications\<rparr>,
                 telegram_updates := updates, access_decision_callbacks := callbacks\<rparr>, emails'),
             \<lparr> rc_auth_sessions = n1, rc_telegram_updates = n2, rc_notification_outbox = n3,
               rc_email_outbox = n4, rc_access_decision_callbacks = n5 \<rparr>)))"

definition run_maintenance_loop ::
    "retention_settings \<Rightarrow> retention_pass list \<Rightarrow> bot_db \<times> email_outbox list
       \<Rightarrow> (bot_db \<times> email_outbox list) \<times> nat list" where
  "run_maintenance_loop c passes state =
     fold (\<lambda>p (s, totals). let (s', counts) = run_technical_retention_once c p s
                           in (s', totals @ [retention_total counts])) passes (state, [])"

end
