(* ===== verification/Email_Proofs.thy ===== *)
theory Email_Proofs
  imports Email
begin

text \<open>
  The email outbox: what a command leaves in the table, and that the worker settles every
  row. The worker interprets the same contract of \<open>Worker_Loop\<close> as the Telegram worker.
\<close>

section \<open>The invariant of the table\<close>

definition email_ok :: "int \<Rightarrow> email_outbox \<Rightarrow> bool" where
  "email_ok max_attempts r \<longleftrightarrow>
     0 \<le> eo_attempts r \<and> eo_attempts r \<le> max_attempts \<and>
     (eo_claimed_at r = None) = (eo_claim_token r = None) \<and>
     (eo_status r = OB_SENT) = (eo_sent_at r \<noteq> None) \<and>
     (eo_status r \<noteq> OB_PENDING \<longrightarrow> eo_claimed_at r = None) \<and>
     (eo_status r = OB_PENDING \<and> eo_claimed_at r = None \<longrightarrow> eo_attempts r < max_attempts)"

definition email_inv :: "int \<Rightarrow> email_outbox list \<Rightarrow> bool" where
  "email_inv max_attempts rows \<longleftrightarrow> 0 < max_attempts \<and> distinct (map eo_id rows) \<and>
     distinct (map eo_dedupe_key rows) \<and> (\<forall>r\<in>set rows. email_ok max_attempts r)"

lemma email_inv_row: "email_inv m rows \<Longrightarrow> r \<in> set rows \<Longrightarrow> email_ok m r"
  by (simp add: email_inv_def)

lemma email_update_inv:
  assumes inv: "email_inv m rows" and r: "r \<in> set rows"
    and same: "eo_id r' = eo_id r" "eo_dedupe_key r' = eo_dedupe_key r" and ok: "email_ok m r'"
  shows "email_inv m (table_update eo_id (eo_id r) (\<lambda>_. r') rows)"
proof -
  have eq: "x = r" if "x \<in> set rows" "eo_id x = eo_id r" for x
    using that r inv by (auto simp: email_inv_def distinct_map inj_on_def)
  have "map eo_id (table_update eo_id (eo_id r) (\<lambda>_. r') rows) = map eo_id rows"
    "map eo_dedupe_key (table_update eo_id (eo_id r) (\<lambda>_. r') rows) = map eo_dedupe_key rows"
    using eq same by (auto simp: table_update_def)
  then show ?thesis using inv ok by (auto simp: email_inv_def set_table_update)
qed

section \<open>Commands\<close>

lemma insert_email_cases:
  assumes "insert_email row rows = Inr rows'"
  obtains (known) "eo_dedupe_key row \<in> eo_dedupe_key ` set rows" "rows' = rows"
  | (new) "eo_dedupe_key row \<notin> eo_dedupe_key ` set rows" "eo_id row \<notin> eo_id ` set rows"
      "rows' = rows @ [row]"
proof (cases "\<exists>r\<in>set rows. eo_dedupe_key r = eo_dedupe_key row")
  case True
  then have "rows' = rows" using assms by (simp add: insert_email_def split: if_splits)
  moreover have "eo_dedupe_key row \<in> eo_dedupe_key ` set rows" using True by (metis image_eqI)
  ultimately show ?thesis by (intro known)
next
  case False
  then have "eo_id row \<notin> eo_id ` set rows \<and> rows' = rows @ [row]"
    using assms by (auto simp: insert_email_def split: if_splits)
  moreover have "eo_dedupe_key row \<notin> eo_dedupe_key ` set rows" using False by auto
  ultimately show ?thesis by (intro new) blast+
qed

lemma enqueue_email_Inr:
  assumes "enqueue_procurement_email env d rows i now record payload actor = Inr (rows', row)"
  shows "email_delivery_is_configured env" and "pr_status (prr_request record) = COMPLETED"
    and "table_get eo_dedupe_key (email_dedupe_key (ee_sha256 env) (pr_id (prr_request record)) actor
      (pm_client_request_id payload)) rows' = Some row"
    and "\<exists>subject body html. insert_email (new_email i now (pr_id (prr_request record)) payload subject body html
      (email_dedupe_key (ee_sha256 env) (pr_id (prr_request record)) actor (pm_client_request_id payload)))
      rows = Inr rows'"
  using assms by (auto simp: enqueue_procurement_email_def result_simps Let_def split: if_splits)

lemma new_email_ok: "0 < m \<Longrightarrow> email_ok m (new_email i now request payload subject body html key)"
  by (simp add: email_ok_def new_email_def)

lemma enqueue_email_inv:
  assumes "email_inv m rows"
    and "enqueue_procurement_email env d rows i now record payload actor = Inr (rows', row)"
  shows "email_inv m rows'"
proof -
  obtain subject body html where "insert_email (new_email i now (pr_id (prr_request record)) payload subject
      body html (email_dedupe_key (ee_sha256 env) (pr_id (prr_request record)) actor
      (pm_client_request_id payload))) rows = Inr rows'"
    using enqueue_email_Inr(4) [OF assms(2)] by blast
  then show ?thesis
    by (cases rule: insert_email_cases)
      (use assms(1) new_email_ok in \<open>auto simp: email_inv_def new_email_def\<close>)
qed

text \<open>A repeated command returns the row of the first one and changes nothing.\<close>

lemma enqueue_email_again:
  assumes "enqueue_procurement_email env d rows i now record payload actor = Inr (rows', row)"
  shows "enqueue_procurement_email env d rows' j later record payload actor = Inr (rows', row)"
proof -
  let ?key = "email_dedupe_key (ee_sha256 env) (pr_id (prr_request record)) actor
    (pm_client_request_id payload)"
  have "?key \<in> eo_dedupe_key ` set rows'"
    using table_get_SomeD [OF enqueue_email_Inr(3) [OF assms]] by (metis image_eqI)
  then have again: "insert_email (new_email j later (pr_id (prr_request record)) payload subject body html ?key)
      rows' = Inr rows'" if "length subject \<le> 255" "length ?key \<le> 128" for subject body html
    using that by (force simp: insert_email_def new_email_def)
  have "length ?key \<le> 128" "length (email_subject (pr_request_number (prr_request record))) \<le> 255"
    using assms by (auto simp: enqueue_procurement_email_def result_simps Let_def insert_email_def
        new_email_def split: if_splits)
  note again [OF this(2,1)]
  then show ?thesis
    using assms enqueue_email_Inr(3) [OF assms]
    by (auto simp: enqueue_procurement_email_def result_simps Let_def split: if_splits)
qed

section \<open>One row in the worker\<close>

definition email_credit :: "int \<Rightarrow> email_outbox \<Rightarrow> nat" where
  "email_credit max_attempts r =
     (if eo_status r = OB_PENDING
      then nat (max_attempts - eo_attempts r) + (if eo_claimed_at r = None then 0 else 1) else 0)"

definition email_due_by :: "int \<Rightarrow> timestamp \<Rightarrow> email_outbox \<Rightarrow> bool" where
  "email_due_by ttl t r \<longleftrightarrow> (eo_status r = OB_PENDING \<longrightarrow> eo_available_at r \<le> t \<and>
     (case eo_claimed_at r of None \<Rightarrow> True | Some c \<Rightarrow> c + ttl < t))"

definition claimed_by :: "email_env \<Rightarrow> email_pass \<Rightarrow> email_outbox \<Rightarrow> email_outbox" where
  "claimed_by env p r = claim_email_row (ep_claim_at p)
     (ep_claim_at p - ee_email_worker_claim_ttl_seconds env) (ee_email_worker_max_attempts env) (ep_token p) r"

definition settled_email :: "email_env \<Rightarrow> email_pass \<Rightarrow> email_outbox \<Rightarrow> email_outbox \<Rightarrow> bool" where
  "settled_email env p r r' \<longleftrightarrow>
     r' = finished_email (claimed_by env p r) (ep_error p) (ee_email_worker_max_attempts env) (ep_report_at p)"

definition email_takes :: "email_env \<Rightarrow> email_pass \<Rightarrow> email_outbox \<Rightarrow> bool" where
  "email_takes env p r \<longleftrightarrow> email_claimable (ep_claim_at p)
     (ep_claim_at p - ee_email_worker_claim_ttl_seconds env) (ee_email_worker_max_attempts env) r"

lemma claimed_by_simps [simp]:
  "eo_id (claimed_by env p r) = eo_id r" "eo_dedupe_key (claimed_by env p r) = eo_dedupe_key r"
  "eo_status (claimed_by env p r) = eo_status r" "eo_claim_token (claimed_by env p r) = Some (ep_token p)"
  by (simp_all add: claimed_by_def claim_email_row_def Let_def)

lemma finished_email_simps [simp]:
  "eo_id (finished_email r e m now) = eo_id r" "eo_dedupe_key (finished_email r e m now) = eo_dedupe_key r"
  by (simp_all add: finished_email_def Let_def split: option.splits)

lemma email_credit_zero: "email_ok m r \<Longrightarrow> email_credit m r = 0 \<longleftrightarrow> eo_status r \<noteq> OB_PENDING"
  by (auto simp: email_credit_def email_ok_def)

lemma email_credit_le:
  assumes "email_ok m r"
  shows "email_credit m r \<le> nat m + 1"
proof -
  have "0 \<le> eo_attempts r" using assms by (simp add: email_ok_def)
  then show ?thesis by (auto simp: email_credit_def)
qed

lemma email_retry_bound: "1 \<le> email_retry_delay a \<and> email_retry_delay a \<le> 300"
  by (simp add: email_retry_delay_def)

lemma claimed_by_attempts:
  assumes "email_ok (ee_email_worker_max_attempts env) r" and "email_takes env p r"
  shows "0 \<le> eo_attempts (claimed_by env p r)"
    and "eo_attempts (claimed_by env p r) \<le> ee_email_worker_max_attempts env"
    and "eo_attempts (claimed_by env p r) < ee_email_worker_max_attempts env \<Longrightarrow>
      eo_attempts (claimed_by env p r) = eo_attempts r + 1"
  using assms
  by (auto simp: email_ok_def email_takes_def email_claimable_def claimed_by_def claim_email_row_def Let_def
      split: if_splits)

lemma settled_email_ok:
  assumes "email_ok (ee_email_worker_max_attempts env) r" and "email_takes env p r"
    and "settled_email env p r r'"
  shows "email_ok (ee_email_worker_max_attempts env) r'"
proof -
  have "eo_status r = OB_PENDING" using assms(2) by (simp add: email_takes_def email_claimable_def)
  moreover have "eo_sent_at (claimed_by env p r) = None"
    using assms(1) calculation by (simp add: email_ok_def claimed_by_def claim_email_row_def Let_def)
  ultimately show ?thesis
    using claimed_by_attempts [OF assms(1,2)] unfolding assms(3) [unfolded settled_email_def]
    by (simp add: email_ok_def finished_email_def Let_def split: option.splits)
qed

lemma settled_email_spends:
  assumes "email_ok (ee_email_worker_max_attempts env) r" and "email_takes env p r"
    and "settled_email env p r r'"
  shows "email_credit (ee_email_worker_max_attempts env) r' < email_credit (ee_email_worker_max_attempts env) r"
proof -
  have pending: "eo_status r = OB_PENDING" using assms(2) by (simp add: email_takes_def email_claimable_def)
  have pos: "0 < email_credit (ee_email_worker_max_attempts env) r"
    using email_credit_zero [OF assms(1)] pending by simp
  show ?thesis
    using claimed_by_attempts [OF assms(1,2)] pending pos unfolding assms(3) [unfolded settled_email_def]
    by (auto simp: email_credit_def finished_email_def Let_def split: option.splits)
qed

lemma settled_email_due: "settled_email env p r r' \<Longrightarrow> email_due_by ttl (ep_report_at p + 300) r'"
  using email_retry_bound [of "eo_attempts (claimed_by env p r)"]
  by (simp add: settled_email_def email_due_by_def finished_email_def Let_def split: option.splits)

lemma email_due_later: "email_due_by ttl t r \<Longrightarrow> t \<le> t' \<Longrightarrow> email_due_by ttl t' r"
  by (auto simp: email_due_by_def split: option.splits)

lemma email_due_takes:
  assumes "email_ok (ee_email_worker_max_attempts env) r"
    and "email_due_by (ee_email_worker_claim_ttl_seconds env) t r" and "t \<le> ep_claim_at p"
    and "0 < email_credit (ee_email_worker_max_attempts env) r"
  shows "email_takes env p r"
proof -
  have "eo_status r = OB_PENDING" using assms(4) by (simp add: email_credit_def split: if_splits)
  then show ?thesis using assms(1-3)
    by (auto simp: email_takes_def email_claimable_def email_due_by_def email_ok_def email_stale_def
        split: option.splits)
qed

section \<open>One iteration\<close>

lemma put_is_update:
  assumes "r \<in> set rs" and "key r' = key r"
  shows "table_put key r' rs = table_update key (key r) (\<lambda>_. r') rs"
  using assms by (auto simp: table_put_def table_update_def)

lemma iteration_cases:
  assumes inv: "email_inv (ee_email_worker_max_attempts env) rows"
  shows "(\<forall>r\<in>set rows. \<not> email_takes env p r) \<and> email_iteration env p (rows, sends) = ((rows, sends), Idle) \<or>
    (\<exists>r r' claim. r \<in> set rows \<and> email_takes env p r \<and> settled_email env p r r' \<and>
       email_iteration env p (rows, sends) =
         ((table_update eo_id (eo_id r) (\<lambda>_. r') rows, sends @ [claim]), Processed))"
proof -
  let ?now = "ep_claim_at p" and ?m = "ee_email_worker_max_attempts env"
  let ?sb = "?now - ee_email_worker_claim_ttl_seconds env"
  let ?due = "sort_key email_order (filter (email_claimable ?now ?sb ?m) rows)"
  have due: "set ?due = {r \<in> set rows. email_takes env p r}" by (auto simp: email_takes_def)
  show ?thesis
  proof (cases ?due)
    case Nil
    then have "\<forall>r\<in>set rows. \<not> email_takes env p r" using due by auto
    then show ?thesis using Nil by (simp add: email_iteration_def claim_email_batch_def Let_def)
  next
    case (Cons r rest)
    then have r: "r \<in> set rows" "email_takes env p r" using due by auto
    let ?c = "claimed_by env p r"
    let ?new = "finished_email ?c (ep_error p) ?m (ep_report_at p)"
    have pending: "eo_status ?c = OB_PENDING"
      using r(2) by (simp add: email_takes_def email_claimable_def)
    have "distinct (map eo_id rows)" using inv by (simp add: email_inv_def)
    then have get: "table_get eo_id (eo_id r) rows = Some r" by (rule table_get_member [OF _ r(1)])
    have first: "take 1 ?due = [r]" using Cons by simp
    have batch: "claim_email_batch rows 1 (ee_email_worker_claim_ttl_seconds env) ?m (\<lambda>_. ep_token p) ?now =
        (table_update eo_id (eo_id r) (\<lambda>_. ?c) rows, [email_claim_of (ep_token p) ?c])"
      unfolding claim_email_batch_def Let_def first
      by (simp add: put_is_update [OF r(1), of eo_id ?c, OF claimed_by_simps(1)] claimed_by_def [symmetric])
    have "finalize_email (table_update eo_id (eo_id r) (\<lambda>_. ?c) rows) (email_claim_of (ep_token p) ?c)
        (ep_error p) ?m (ep_report_at p) = (table_update eo_id (eo_id r) (\<lambda>_. ?new) rows, True)"
      using get pending
      by (simp add: finalize_email_def email_claim_of_def table_get_update table_update_twice)
    then have "email_iteration env p (rows, sends) = ((table_update eo_id (eo_id r) (\<lambda>_. ?new) rows,
        sends @ [email_claim_of (ep_token p) ?c]), Processed)"
      by (simp add: email_iteration_def batch [simplified])
    with r show ?thesis unfolding settled_email_def by blast
  qed
qed

interpretation email_worker: lease_worker "email_iteration env" fst eo_id
  "\<lambda>s. email_inv (ee_email_worker_max_attempts env) (fst s)" "\<lambda>_. True" "email_takes env"
  "settled_email env" "email_credit (ee_email_worker_max_attempts env)"
  "email_due_by (ee_email_worker_claim_ttl_seconds env)" ep_claim_at ep_report_at 300
  for env
proof unfold_locales
  fix s s' :: email_state and p
  assume inv: "email_inv (ee_email_worker_max_attempts env) (fst s)"
  obtain rows sends where s: "s = (rows, sends)" by (cases s)
  note c = iteration_cases [OF inv, of p sends, unfolded s fst_conv]
  show "email_inv (ee_email_worker_max_attempts env) (fst (fst (email_iteration env p s)))"
    using c inv settled_email_ok email_inv_row email_update_inv
    unfolding s by (auto simp: settled_email_def)
  show "s' = s \<and> (\<forall>r\<in>set (fst s). \<not> email_takes env p r)" if "email_iteration env p s = (s', Idle)"
    using c that unfolding s by auto
  show "\<exists>r r'. r \<in> set (fst s) \<and> email_takes env p r \<and> settled_email env p r r' \<and>
      fst s' = table_update eo_id (eo_id r) (\<lambda>_. r') (fst s)"
    if pr: "email_iteration env p s = (s', Processed)"
  proof -
    obtain r r' claim where "r \<in> set rows" "email_takes env p r" "settled_email env p r r'"
      "email_iteration env p (rows, sends) =
        ((table_update eo_id (eo_id r) (\<lambda>_. r') rows, sends @ [claim]), Processed)"
      using c pr unfolding s by (metis Pair_inject outcome.distinct(1))
    then show ?thesis using pr unfolding s by (intro exI [of _ r] exI [of _ r']) simp
  qed
  show "email_iteration env p s \<noteq> (s', Crashed e)" for e
    using c unfolding s by auto
qed (auto simp: email_inv_def intro: settled_email_spends settled_email_due email_due_takes email_due_later)

section \<open>The email outbox drains\<close>

lemma total_email_credit_le:
  "(\<forall>r\<in>set rs. email_ok m r) \<Longrightarrow> total (email_credit m) rs \<le> (nat m + 1) * length rs"
  using email_credit_le by (induction rs) (fastforce simp: total_def)+

text \<open>
  C39. The email worker drains its outbox: started with a complete configuration on any
  consistent table whose rows are due, it settles every row as SENT or DEAD within
  \<open>max_attempts + 1\<close> rounds per row, whatever the mail service answers, provided that rounds
  are not empty and the retry delays have passed in between; the table stays consistent, with
  one row per command key.
\<close>
theorem email_worker_drains:
  assumes "email_inv (ee_email_worker_max_attempts env) rows"
    and "validate_email_worker_config env = Inr ()"
    and "\<forall>r\<in>set rows. email_due_by (ee_email_worker_claim_ttl_seconds env) t r"
    and "\<forall>passes\<in>set rounds. passes \<noteq> []"
    and "spaced ep_claim_at ep_report_at 300 t (concat rounds)"
    and "(nat (ee_email_worker_max_attempts env) + 1) * length rows \<le> length rounds"
  shows "\<exists>rows' sends'. run_email_worker env rounds (rows, sends) = Inr (rows', sends') \<and>
    email_inv (ee_email_worker_max_attempts env) rows' \<and> (\<forall>r\<in>set rows'. eo_status r \<in> {OB_SENT, OB_DEAD})"
proof -
  let ?m = "ee_email_worker_max_attempts env"
  let ?s = "run_rounds (run_passes (email_iteration env)) rounds (rows, sends)"
  have inv: "email_inv ?m (fst (rows, sends))" using assms(1) by simp
  have due: "email_worker.all_due env t (rows, sends)"
    using assms(3) by (simp add: email_worker.all_due_def)
  have "total (email_credit ?m) rows \<le> length rounds"
    using total_email_credit_le assms(1,6) by (meson email_inv_row le_trans)
  then have end_inv: "email_inv ?m (fst ?s)" and "total (email_credit ?m) (fst ?s) = 0"
    using email_worker.drains [OF inv due _ assms(5)] assms(4)
    by (simp_all add: email_worker.left_over_def)
  then have "\<forall>r\<in>set (fst ?s). eo_status r \<noteq> OB_PENDING"
    using email_credit_zero email_inv_row by (fastforce simp: total_zero_iff)
  then have "\<forall>r\<in>set (fst ?s). eo_status r \<in> {OB_SENT, OB_DEAD}"
    using outbox_status.exhaust by blast
  moreover have "run_email_worker env rounds (rows, sends) = Inr (fst ?s, snd ?s)"
    using assms(2) by (simp add: run_email_worker_def run_email_worker_once_def [abs_def])
  ultimately show ?thesis using end_inv by blast
qed

section \<open>A concrete run\<close>

definition sample_email :: email_outbox where
  "sample_email = new_email 80 100 50 \<lparr> pm_to = [''a@b.ru''], pm_cc = [], pm_client_request_id = ''c1'' \<rparr>
     ''s'' ''t'' ''h'' ''key''"

definition sample_email_env :: email_env where
  "sample_email_env = \<lparr> ee_sha256 = (\<lambda>s. s), ee_str = (\<lambda>_. []), ee_deep_link = (\<lambda>_. None),
     ee_email_delivery_enabled = True, ee_microsoft_graph_tenant_id = Some ''t'',
     ee_microsoft_graph_client_id = Some ''c'', ee_microsoft_graph_client_secret = Some ''s'',
     ee_microsoft_graph_sender = Some ''m@b.ru'', ee_microsoft_graph_timeout_seconds = 10,
     ee_email_worker_claim_ttl_seconds = 60, ee_email_worker_max_attempts = 2 \<rparr>"

definition sample_email_pass :: "int \<Rightarrow> string option \<Rightarrow> email_pass" where
  "sample_email_pass t e = \<lparr> ep_token = nat t, ep_claim_at = t, ep_report_at = t + 2, ep_error = e \<rparr>"

theorem email_worker_drains_witness:
  "\<exists>rows' sends'. run_email_worker sample_email_env
      [[sample_email_pass 500 (Some ''MicrosoftGraphError'')], [sample_email_pass 1000 None],
       [sample_email_pass 1500 None]] ([sample_email], []) = Inr (rows', sends') \<and>
    eo_status ` set rows' \<subseteq> {OB_SENT, OB_DEAD}"
proof -
  have inv: "email_inv (ee_email_worker_max_attempts sample_email_env) [sample_email]"
    by (simp add: sample_email_env_def sample_email_def email_inv_def email_ok_def new_email_def)
  have config: "validate_email_worker_config sample_email_env = Inr ()"
    by (simp add: validate_email_worker_config_def sample_email_env_def)
  have due: "\<forall>r\<in>set [sample_email].
      email_due_by (ee_email_worker_claim_ttl_seconds sample_email_env) 100 r"
    by (simp add: email_due_by_def sample_email_def new_email_def)
  have "spaced ep_claim_at ep_report_at 300 100 (concat
      [[sample_email_pass 500 (Some ''MicrosoftGraphError'')], [sample_email_pass 1000 None],
       [sample_email_pass 1500 None]])"
    by (simp add: sample_email_pass_def)
  from email_worker_drains [OF inv config due _ this] show ?thesis
    by (simp add: sample_email_env_def image_subset_iff) blast
qed

end
