(* ===== verification/Retention_Safety.thy ===== *)
theory Retention_Safety
  imports Retention Email_Proofs Outbox_Proofs Samples
begin

text \<open>
  Technical retention deletes exactly what it is meant to delete: per table a batch of the
  rows whose time has passed, and nothing that a session check, a worker or a decision button
  still needs. The outbox invariants survive the deletion.
\<close>

definition retention_keys :: "bot_db \<Rightarrow> email_outbox list \<Rightarrow> bool" where
  "retention_keys st emails \<longleftrightarrow>
     distinct (map as_id (auth_sessions (core st))) \<and> distinct (map tu_update_id (telegram_updates st)) \<and>
     distinct (map no_id (notification_outboxes (core st))) \<and> distinct (map eo_id emails) \<and>
     distinct (map ac_token (access_decision_callbacks st))"

section \<open>The transaction\<close>

lemma retention_skipped:
  assumes "run_technical_retention_once c p (st, emails) = ((st', emails'), counts)" and "\<not> rp_lock_acquired p"
  shows "st' = st \<and> emails' = emails"
  using assms by (simp add: run_technical_retention_once_def)

lemma retention_run:
  assumes "run_technical_retention_once c p (st, emails) = ((st', emails'), counts)" and "rp_lock_acquired p"
    and "retention_keys st emails"
  shows "purged (session_expired (days_before (rp_now p) (rs_auth_session_days c))) (rs_batch_size c)
      (auth_sessions (core st)) (auth_sessions (core st'))"
    and "purged (update_processed (days_before (rp_now p) (rs_telegram_update_days c))) (rs_batch_size c)
      (telegram_updates st) (telegram_updates st')"
    and "purged (notification_settled (rp_notification_updated_at p)
        (days_before (rp_now p) (rs_notification_outbox_days c))) (rs_batch_size c)
      (notification_outboxes (core st)) (notification_outboxes (core st'))"
    and "purged (email_settled (rp_email_updated_at p) (days_before (rp_now p) (rs_email_outbox_days c)))
      (rs_batch_size c) emails emails'"
    and "purged (callback_used (core st) (days_before (rp_now p) (rs_access_callback_days c))) (rs_batch_size c)
      (access_decision_callbacks st) (access_decision_callbacks st')"
  using assms delete_batch_purged
  by (auto simp: run_technical_retention_once_def retention_keys_def Let_def AUTH_SESSIONS_DELETE_def
      TELEGRAM_UPDATES_DELETE_def NOTIFICATION_OUTBOX_DELETE_def EMAIL_OUTBOX_DELETE_def
      ACCESS_CALLBACKS_DELETE_def split_beta)

lemma retention_frame:
  assumes "run_technical_retention_once c p (st, emails) = ((st', emails'), counts)"
  shows "st' = st\<lparr>core := (core st)\<lparr>auth_sessions := auth_sessions (core st'),
      notification_outboxes := notification_outboxes (core st')\<rparr>,
    telegram_updates := telegram_updates st', access_decision_callbacks := access_decision_callbacks st'\<rparr>"
  using assms by (auto simp: run_technical_retention_once_def Let_def split_beta split: if_splits)

lemma retention_core:
  assumes "run_technical_retention_once c p (st, emails) = ((st', emails'), counts)"
  shows "core st' = (core st)\<lparr>auth_sessions := auth_sessions (core st'),
    notification_outboxes := notification_outboxes (core st')\<rparr>"
  by (subst retention_frame [OF assms]) simp

lemma retention_filters:
  assumes "run_technical_retention_once c p (st, emails) = ((st', emails'), counts)"
  shows "\<exists>P Q. notification_outboxes (core st') = filter P (notification_outboxes (core st)) \<and>
    emails' = filter Q emails"
proof (cases "rp_lock_acquired p")
  case True
  then show ?thesis
    using assms by (auto simp: run_technical_retention_once_def Let_def split_beta
        NOTIFICATION_OUTBOX_DELETE_def EMAIL_OUTBOX_DELETE_def delete_batch_def)
next
  case False
  then show ?thesis using retention_skipped [OF assms] by (intro exI [of _ "\<lambda>_. True"]) simp
qed

text \<open>Both outboxes stay consistent.\<close>

lemma retention_outboxes:
  assumes "run_technical_retention_once c p (st, emails) = ((st', emails'), counts)"
  shows "outbox_inv m (core st) \<Longrightarrow> outbox_inv m (core st')" and "email_inv k emails \<Longrightarrow> email_inv k emails'"
  using retention_filters [OF assms] by (auto simp: outbox_inv_def email_inv_def distinct_map_filter)

section \<open>Nothing in use is deleted\<close>

lemma find_by_filter: "find P xs = (case filter P xs of [] \<Rightarrow> None | x # _ \<Rightarrow> Some x)"
  by (induction xs) simp_all

lemma load_by_live:
  assumes "filter (session_live now) (auth_sessions d') = filter (session_live now) (auth_sessions d)"
    and "users d' = users d" and "telegram_identities d' = telegram_identities d"
  shows "load_auth_context sha256 d' token now = load_auth_context sha256 d token now"
proof -
  let ?P = "\<lambda>s. as_token_hash s = sha256 token"
  have "filter (\<lambda>s. ?P s \<and> session_live now s) ss = filter ?P (filter (session_live now) ss)" for ss
    by (simp add: conj_commute)
  then have "find (\<lambda>s. ?P s \<and> session_live now s) (auth_sessions d') =
      find (\<lambda>s. ?P s \<and> session_live now s) (auth_sessions d)"
    unfolding find_by_filter by (metis assms(1))
  then show ?thesis
    unfolding load_auth_context_def get_user_def get_identity_def assms(2,3) by simp
qed

lemma expired_not_live:
  assumes "session_expired cutoff s" and "cutoff \<le> now"
  shows "\<not> session_live now s"
  using assms by (auto simp: session_expired_def session_live_def split: option.splits)

text \<open>
  C26. Technical retention deletes what has expired and nothing else. A pass that holds the
  lock leaves, in each of the five tables, every row outside its deletion criterion untouched
  and removes a full batch of the others, or all of them; every other table, the chat states
  of the bot among them, is the same afterwards. Every session token authenticates as before, at that moment and later, all pending
  messages and e-mails are still there, and so are the buttons of undecided requests.
\<close>

theorem retention_spares_live_data:
  assumes "retention_settings_valid c" and "retention_keys st emails" and "rp_lock_acquired p"
    and "run_technical_retention_once c p (st, emails) = ((st', emails'), counts)" and "rp_now p \<le> later"
  shows "purged (session_expired (days_before (rp_now p) (rs_auth_session_days c))) (rs_batch_size c)
      (auth_sessions (core st)) (auth_sessions (core st')) \<and>
    purged (update_processed (days_before (rp_now p) (rs_telegram_update_days c))) (rs_batch_size c)
      (telegram_updates st) (telegram_updates st') \<and>
    purged (notification_settled (rp_notification_updated_at p)
        (days_before (rp_now p) (rs_notification_outbox_days c))) (rs_batch_size c)
      (notification_outboxes (core st)) (notification_outboxes (core st')) \<and>
    purged (email_settled (rp_email_updated_at p) (days_before (rp_now p) (rs_email_outbox_days c)))
      (rs_batch_size c) emails emails' \<and>
    purged (callback_used (core st) (days_before (rp_now p) (rs_access_callback_days c))) (rs_batch_size c)
      (access_decision_callbacks st) (access_decision_callbacks st') \<and>
    st' = st\<lparr>core := (core st)\<lparr>auth_sessions := auth_sessions (core st'),
        notification_outboxes := notification_outboxes (core st')\<rparr>,
      telegram_updates := telegram_updates st', access_decision_callbacks := access_decision_callbacks st'\<rparr> \<and>
    load_auth_context sha256 (core st') token later = load_auth_context sha256 (core st) token later \<and>
    filter (\<lambda>n. no_status n = OB_PENDING) (notification_outboxes (core st')) =
      filter (\<lambda>n. no_status n = OB_PENDING) (notification_outboxes (core st)) \<and>
    filter (\<lambda>r. eo_status r = OB_PENDING) emails' = filter (\<lambda>r. eo_status r = OB_PENDING) emails \<and>
    filter (\<lambda>b. callback_decided_at (core st) b = None) (access_decision_callbacks st') =
      filter (\<lambda>b. callback_decided_at (core st) b = None) (access_decision_callbacks st)"
proof -
  note run = retention_run [OF assms(4,3,2)]
  note frame = retention_core [OF assms(4)]
  have "users (core st') = users (core st)" "telegram_identities (core st') = telegram_identities (core st)"
    by (subst frame, simp)+
  moreover have "days_before (rp_now p) (rs_auth_session_days c) \<le> later"
    using assms(1,5) by (simp add: retention_settings_valid_def days_before_def)
  then have "filter (session_live later) (auth_sessions (core st')) =
      filter (session_live later) (auth_sessions (core st))"
    using purged_spares [OF run(1)] expired_not_live by blast
  ultimately have "load_auth_context sha256 (core st') token later = load_auth_context sha256 (core st) token later"
    by (intro load_by_live)
  moreover have "filter (\<lambda>n. no_status n = OB_PENDING) (notification_outboxes (core st')) =
      filter (\<lambda>n. no_status n = OB_PENDING) (notification_outboxes (core st))"
    by (rule purged_spares [OF run(3)]) (simp add: notification_settled_def)
  moreover have "filter (\<lambda>r. eo_status r = OB_PENDING) emails' = filter (\<lambda>r. eo_status r = OB_PENDING) emails"
    by (rule purged_spares [OF run(4)]) (simp add: email_settled_def)
  moreover have "filter (\<lambda>b. callback_decided_at (core st) b = None) (access_decision_callbacks st') =
      filter (\<lambda>b. callback_decided_at (core st) b = None) (access_decision_callbacks st)"
    by (rule purged_spares [OF run(5)]) (simp add: callback_used_def)
  ultimately show ?thesis using run retention_frame [OF assms(4)] by blast
qed

section \<open>A concrete pass\<close>

definition sample_retention :: retention_settings where
  "sample_retention = \<lparr> rs_batch_size = 1, rs_auth_session_days = 7, rs_telegram_update_days = 30,
     rs_notification_outbox_days = 90, rs_email_outbox_days = 90, rs_access_callback_days = 30 \<rparr>"

definition sample_retention_pass :: retention_pass where
  "sample_retention_pass = \<lparr> rp_lock_acquired = True, rp_notification_updated_at = (\<lambda>_. 0),
     rp_email_updated_at = (\<lambda>_. 0), rp_collate = (\<lambda>_. 0), rp_now = 1000000 \<rparr>"

definition sample_session :: "uuid \<Rightarrow> timestamp \<Rightarrow> auth_session" where
  "sample_session i expires = \<lparr> as_id = i, as_user_id = 3, as_token_hash = ''t'', as_created_at = 1,
     as_expires_at = expires, as_revoked_at = None \<rparr>"

definition sample_sessions :: bot_db where
  "sample_sessions = \<lparr> core = sample_db\<lparr>auth_sessions := [sample_session 60 100, sample_session 61 50,
       sample_session 62 2000000]\<rparr>,
     telegram_updates = [], telegram_chat_states = [], access_decision_callbacks = [] \<rparr>"

lemma sample_retention_run:
  "\<exists>counts. run_technical_retention_once sample_retention sample_retention_pass (sample_sessions, []) =
     ((sample_sessions\<lparr>core := (core sample_sessions)\<lparr>auth_sessions :=
         [sample_session 60 100, sample_session 62 2000000]\<rparr>\<rparr>, []), counts)"
  by (simp add: run_technical_retention_once_def sample_retention_def sample_retention_pass_def
      sample_sessions_def sample_session_def sample_db_def AUTH_SESSIONS_DELETE_def
      TELEGRAM_UPDATES_DELETE_def NOTIFICATION_OUTBOX_DELETE_def EMAIL_OUTBOX_DELETE_def
      ACCESS_CALLBACKS_DELETE_def delete_batch_def session_expired_def session_order_def days_before_def)

theorem retention_spares_live_data_witness:
  "\<exists>st' emails' counts. run_technical_retention_once sample_retention sample_retention_pass
      (sample_sessions, []) = ((st', emails'), counts) \<and> length (auth_sessions (core st')) = 2 \<and>
    load_auth_context (\<lambda>s. s) (core st') ''t'' 1500000 = load_auth_context (\<lambda>s. s) (core sample_sessions) ''t'' 1500000"
proof -
  obtain counts where run: "run_technical_retention_once sample_retention sample_retention_pass
      (sample_sessions, []) = ((sample_sessions\<lparr>core := (core sample_sessions)\<lparr>auth_sessions :=
         [sample_session 60 100, sample_session 62 2000000]\<rparr>\<rparr>, []), counts)"
    using sample_retention_run by blast
  have "retention_settings_valid sample_retention" "rp_lock_acquired sample_retention_pass"
    "rp_now sample_retention_pass \<le> 1500000" "retention_keys sample_sessions []"
    by (simp_all add: retention_settings_valid_def sample_retention_def sample_retention_pass_def
        retention_keys_def sample_sessions_def sample_session_def sample_db_def)
  from retention_spares_live_data [OF this(1,4,2) run this(3), of "\<lambda>s. s" "''t''"]
  show ?thesis using run by (intro exI conjI) (rule run, simp, blast)
qed

end
