(* ===== verification/System.thy ===== *)
theory System
  imports Procurement_Safety Warehouse_Steps Catalog_Steps Telegram_Safety Retention_Safety
begin

text \<open>
  The services together. A step of the system is a committed transaction of the warehouse,
  the catalog, the identity, the procurement service, the notification outbox, the Telegram bot or
  the retention worker, in any order. Some steps act on tables of their own too; here only their effect on the shared
  database counts. Each component keeps its own invariant; this theory shows that the others keep it too.
\<close>

inductive system_step :: "catalog_env \<Rightarrow> int \<Rightarrow> int \<Rightarrow> db \<Rightarrow> db \<Rightarrow> bool" for ce ttl m where
  sys_inventory: "inventory_step (ce_sha256 ce) d d' \<Longrightarrow> system_step ce ttl m d d'"
| sys_catalog: "catalog_step ce d d' \<Longrightarrow> system_step ce ttl m d d'"
| sys_identity: "identity_step (ce_sha256 ce) d d' \<Longrightarrow> system_step ce ttl m d d'"
| sys_procurement: "procurement_step ce d d' \<Longrightarrow> system_step ce ttl m d d'"
| sys_outbox: "system_step ce ttl m d (outbox_run ttl m a d)"
| sys_webhook:
    "webhook_transaction env st ids now u payload = Inr st' \<Longrightarrow>
       system_step ce ttl m (core st) (core st')"
| sys_request_access:
    "request_access env st request_id new_id approve reject now user identity = Inr (st', r, status) \<Longrightarrow>
       users_commit (core st) (core st') \<Longrightarrow> system_step ce ttl m (core st) (core st')"
| sys_retention:
    "run_technical_retention_once c p (st, emails) = ((st', emails'), counts) \<Longrightarrow>
       system_step ce ttl m (core st) (core st')"

inductive_cases system_stepE: "system_step ce ttl m d d'"

definition system_inv :: "catalog_env \<Rightarrow> int \<Rightarrow> db \<Rightarrow> bool" where
  "system_inv ce m d \<longleftrightarrow>
     users_inv d \<and> inventory_inv d \<and> procurement_inv d \<and> outbox_inv m d \<and> catalog_inv ce d"

lemma catalog_inv_cong:
  assumes "items d' = items d" and "manufacturers d' = manufacturers d"
  shows "catalog_inv ce d' = catalog_inv ce d"
  using write_checks_cong [OF assms(2)] by (simp add: catalog_inv_def manufacturers_ok_def assms)

section \<open>The warehouse\<close>

lemma inventory_step_frame:
  assumes "inventory_step sha256 d d'"
  shows "users d' = users d \<and> notification_outboxes d' = notification_outboxes d \<and>
    procurement_requests d' = procurement_requests d \<and> items d' = items d \<and> manufacturers d' = manufacturers d"
  using assms
proof cases
  case (step_create_location i p l)
  then show ?thesis using create_location_Inr(1) by fastforce
next
  case (step_update_location i p l)
  then show ?thesis using update_location_Inr by fastforce
next
  case (step_set_location_archived i archived now l)
  then show ?thesis using set_location_archived_Inr by fastforce
next
  case (step_create_movement mid now p actor name custody r)
  from new_movement_tables [OF create_movement_is_internal [OF step_create_movement]]
  show ?thesis by simp
next
  case (step_reverse_movement mid now oid key actor name r)
  then obtain p custody where
    "create_movement_internal sha256 d mid now p actor name custody = Inr (d', r)"
    by (auto simp: reverse_movement_def ebind_Inr_iff)
  from new_movement_tables [OF this] show ?thesis by simp
qed

lemma users_inv_cong: "users d' = users d \<Longrightarrow> users_inv d' = users_inv d"
  by (simp only: users_inv_def)

lemma inventory_step_system:
  assumes "inventory_step sha256 d d'" and "system_inv ce m d"
  shows "system_inv ce m d'"
  using assms inventory_step_frame [OF assms(1)] inventory_step_inv inventory_step_procurement_inv
    users_inv_cong outbox_inv_cong catalog_inv_cong unfolding system_inv_def by metis

section \<open>Accounts\<close>

lemma inventory_inv_cong:
  assumes "inventory_inv d" and "warehouse_inv d'" and "movements d' = movements d"
    and "movement_lines d' = movement_lines d" and "stock_balances d' = stock_balances d"
    and "locations d' = locations d"
  shows "inventory_inv d'"
  using assms journal_sealed_cong [of d' d]
  by (simp add: inventory_inv_def locations_ok_def stock_at_active_def get_loc_def)

lemma same_ledger_inventory:
  assumes "inventory_inv d" and "movements d' = movements d"
    and "movement_lines d' = movement_lines d" and "stock_balances d' = stock_balances d"
    and "user_item_custody_balances d' = user_item_custody_balances d"
    and "locations d' = locations d" and "users d' = users d"
  shows "inventory_inv d'"
proof -
  have w: "warehouse_inv d" using assms(1) by (simp add: inventory_inv_def)
  have "custody_holders_eligible d'"
    using warehouse_invD(3) [OF w]
    by (simp add: custody_holders_eligible_def custody_holder_eligible_def assms)
  then have "warehouse_inv d'" using warehouse_inv_cong [OF w assms(2-5)] by blast
  then show ?thesis by (rule inventory_inv_cong [OF assms(1) _ assms(2-4,6)])
qed

lemma kill_fold [simp]:
  "no_id (fold (\<lambda>r. kill_notification (f r)) rs n) = no_id n"
  "no_dedupe_key (fold (\<lambda>r. kill_notification (f r)) rs n) = no_dedupe_key n"
  "notification_ok m n \<Longrightarrow> notification_ok m (fold (\<lambda>r. kill_notification (f r)) rs n)"
  by (induction rs arbitrary: n) (auto simp: kill_ok)

lemma drop_pending_outbox: "outbox_inv m d \<Longrightarrow> outbox_inv m (drop_pending_requests sha256 d u)"
  by (auto simp: outbox_inv_def drop_pending_requests_def comp_def)

lemma account_writes_outbox [simp]:
  "notification_outboxes (fst (transition_user_access d u a s now)) = notification_outboxes d"
  "notification_outboxes (fst (change_role d u a r now)) = notification_outboxes d"
  "notification_outboxes (revoke_sessions d i now) = notification_outboxes d"
  "notification_outboxes (save_user d u) = notification_outboxes d"
  by (auto simp: transition_user_access_def change_role_def revoke_sessions_def save_user_def Let_def)

lemma transition_outbox: "transition_user_access d u a s now = (d', x) \<Longrightarrow>
    notification_outboxes d' = notification_outboxes d"
  using account_writes_outbox(1) [of d u a s now] by simp

lemma admin_step_outbox:
  assumes "admin_step sha256 actor target d d'" and "outbox_inv m d"
  shows "outbox_inv m d'"
  using assms(1)
proof cases
  case (admin_access status recovery now u e)
  then have "notification_outboxes d' = notification_outboxes d"
    by (auto simp: update_user_access_def ebind_Inr_iff Let_def split: if_splits prod.splits
        dest!: transition_outbox)
  then show ?thesis using assms(2) outbox_inv_cong by blast
next
  case (admin_decide decision recovery now u r e')
  then have "notification_outboxes d' = notification_outboxes d"
    by (auto simp: decide_pending_access_request_def save_access_request_def ebind_Inr_iff Let_def
        split: if_splits prod.splits option.splits dest!: transition_outbox)
  then show ?thesis using assms(2) outbox_inv_cong by blast
next
  case (admin_role role recovery now u e'')
  then have "notification_outboxes d' = notification_outboxes d"
    by (auto simp: update_user_role_def change_role_def save_user_def ebind_Inr_iff Let_def
        split: if_splits prod.splits)
  then show ?thesis using assms(2) outbox_inv_cong by blast
next
  case (admin_reset expected recovery now)
  then obtain t where "notification_outboxes d' =
      notification_outboxes (drop_pending_requests sha256 (revoke_sessions d t now) t)"
    by (auto simp: reset_user_account_def ebind_Inr_iff Let_def
        split: if_splits prod.splits option.splits dest!: transition_outbox)
  moreover have "outbox_inv m (revoke_sessions d t now)"
    using assms(2) outbox_inv_cong [of "revoke_sessions d t now" d] by simp
  ultimately show ?thesis using drop_pending_outbox outbox_inv_cong by blast
qed

lemma reconcile_outbox:
  assumes "reconcile_recovery_owner d u identity recovery now = Inr (d', c)"
  shows "notification_outboxes d' = notification_outboxes d"
  using assms
  by (auto simp: reconcile_recovery_owner_def approve_pending_request_def save_access_request_def Let_def
      change_role_def save_user_def split: if_splits list.splits prod.splits option.splits dest!: transition_outbox)

lemma identity_step_outbox:
  assumes "identity_step sha256 d d'" and "outbox_inv m d"
  shows "outbox_inv m d'"
  using assms(1)
proof cases
  case (step_admin actor target)
  then show ?thesis using admin_step_outbox assms(2) by blast
next
  case (step_request request_id user_id now x)
  then have "notification_outboxes d' = notification_outboxes d"
    by (auto simp: create_or_get_access_request_def Let_def split: if_splits prod.splits option.splits
        dest!: transition_outbox)
  then show ?thesis using assms(2) outbox_inv_cong by blast
next
  case (step_sign_in new_user_id v recovery now d1 uid session_id token ttl s)
  have "notification_outboxes d1 = notification_outboxes d"
    using step_sign_in(1)
  proof (cases rule: upsert_cases)
    case (refreshed i t d0)
    have "notification_outboxes d1 = notification_outboxes d0"
      using refreshed(6) reconcile_outbox by metis
    then show ?thesis by (simp add: refreshed(5))
  qed simp
  moreover have "notification_outboxes d' = notification_outboxes d1"
    using issue_Inr(5) [OF step_sign_in(2)] by simp
  ultimately show ?thesis using assms(2) outbox_inv_cong by metis
next
  case (step_recover u identity recovery now c)
  then show ?thesis using reconcile_outbox assms(2) outbox_inv_cong by metis
next
  case (step_logout s now)
  then show ?thesis using assms(2) outbox_inv_cong [of d' d] by (simp add: revoke_auth_session_def)
next
  case (step_rotate a now r)
  then show ?thesis using run_rotation_frame assms(2) outbox_inv_cong by metis
qed

lemma identity_step_system:
  assumes step: "identity_step sha256 d d'" and inv: "system_inv ce m d"
  shows "system_inv ce m d'"
proof -
  have "accounts_inv False d" using inv by (simp add: system_inv_def accounts_inv_def inventory_inv_def)
  then have "accounts_inv False d'" using identity_step_keeps [OF step] by blast
  then show ?thesis
    using inv identity_step_procurement_inv [OF step] identity_step_outbox [OF step]
      inventory_inv_cong [of d d'] identity_step_frame [OF step] catalog_inv_cong [of d' d]
    by (simp add: system_inv_def accounts_inv_def same_but_identity_iff)
qed

section \<open>Procurement\<close>

lemma preparation_inventory:
  assumes "preparation env actor d r d0 r'" and "inventory_inv d"
  shows "inventory_inv d0"
  using assms(1)
proof cases
  case (receipt location quantities name x)
  then show ?thesis using movement_inv [OF assms(2) create_movement_is_internal] by blast
next
  case (revision v d1 ls)
  then have "d0 = d\<lparr>procurement_revisions := procurement_revisions d @ [v],
      procurement_revision_lines := procurement_revision_lines d @ ls\<rparr>"
    using insert_revision_Inr(1) insert_lines_Inr_procurement by fastforce
  then show ?thesis using same_ledger_inventory [OF assms(2)] by simp
next
  case (binding b)
  then show ?thesis using same_ledger_inventory [OF assms(2)] insert_binding_Inr(1) by fastforce
next
  case (new_item new_id p d1 i b)
  obtain it where "d1 = d\<lparr>items := items d @ [it]\<rparr>" using create_item_Inr [OF new_item(1)] by metis
  then show ?thesis
    using same_ledger_inventory [OF assms(2)] insert_binding_Inr(1) [OF new_item(2)] by simp
qed (use assms(2) in simp)

lemma preparation_catalog:
  assumes "preparation env actor d r d0 r'" and "catalog_inv (pe_catalog env) d"
  shows "catalog_inv (pe_catalog env) d0"
  using assms(1)
proof cases
  case (receipt location quantities name x)
  then show ?thesis
    using new_movement_tables [OF create_movement_is_internal] catalog_inv_cong assms(2) by metis
next
  case (revision v d1 ls)
  then have "d0 = d\<lparr>procurement_revisions := procurement_revisions d @ [v],
      procurement_revision_lines := procurement_revision_lines d @ ls\<rparr>"
    using insert_revision_Inr(1) insert_lines_Inr_procurement by fastforce
  then show ?thesis using catalog_inv_cong [of d0 d] assms(2) by simp
next
  case (binding b)
  then show ?thesis using catalog_inv_cong [of d0 d] insert_binding_Inr(1) [OF binding(1)] assms(2) by simp
next
  case (new_item new_id p d1 i b)
  have "catalog_inv (pe_catalog env) d1" using catalog_step_inv [OF step_create_item [OF new_item(1)] assms(2)] .
  then show ?thesis using catalog_inv_cong [of d0 d1] insert_binding_Inr(1) [OF new_item(2)] by simp
qed (use assms(2) in simp)

lemma run_call_system:
  assumes run: "run_call env d i c actor = Inr (d', rec)" and inv: "system_inv ce m d"
    and env: "pe_catalog env = ce"
  shows "system_inv ce m d'"
proof (rule calls.run_cases [OF run], goal_cases)
  case 1
  then show ?case using inv by simp
next
  case (2 r key)
  show ?case
  proof (rule changed_effect [OF 2(7)], goal_cases)
    case (1 d0 r' e)
    note f = preparation_frame [OF 1(1)]
    have "inventory_inv d0" using preparation_inventory [OF 1(1)] inv by (simp add: system_inv_def)
    then have "inventory_inv d'"
      by (rule same_ledger_inventory) (use 1 f in simp_all)
    moreover have "catalog_inv ce d'"
      using preparation_catalog [OF 1(1)] inv catalog_inv_cong [of d' d0] 1(13,23) f env
      by (simp add: system_inv_def)
    ultimately show ?case
      using inv run_call_inv [OF _ run] users_inv_cong [OF 1(18)] 1(22) by (simp add: system_inv_def)
  qed
qed

lemma create_request_system:
  assumes run: "create_request env d p actor = Inr (d', rec)" and inv: "system_inv ce m d"
  shows "system_inv ce m d'"
  using run
proof (cases rule: create_request_cases)
  case replay
  then show ?thesis using inv by simp
next
  case (fresh r v lines e d1 d2 d3 d4)
  note parts = insert_request_Inr(1) [OF fresh(3)] insert_revision_Inr(1) [OF fresh(4)]
    insert_lines_Inr_procurement [OF fresh(5)] add_event_Inr(1) [OF fresh(6)]
  have "inventory_inv d'"
    by (rule same_ledger_inventory [of d])
      (use inv parts same_but_outboxD [OF fresh(7)] in \<open>simp_all add: system_inv_def\<close>)
  moreover have "users d' = users d" using parts same_but_outboxD [OF fresh(7)] by simp
  moreover have "outbox_inv m d'"
    using fresh(7) outbox_inv_cong [of d4 d] parts inv by (auto simp: same_but_outbox_def system_inv_def)
  moreover have "catalog_inv ce d'"
    using inv catalog_inv_cong [of d' d] parts same_but_outboxD [OF fresh(7)] by (simp add: system_inv_def)
  ultimately show ?thesis
    using inv create_request_inv [OF _ run] users_inv_cong [of d' d] by (simp add: system_inv_def)
qed

section \<open>Catalog\<close>

lemma catalog_step_system:
  assumes step: "catalog_step ce d d'" and inv: "system_inv ce m d"
  shows "system_inv ce m d'"
proof -
  obtain ms its where d': "d' = d\<lparr>manufacturers := ms, items := its\<rparr>"
    using catalog_step_frame [OF step] by blast
  have "inventory_inv d'"
    by (rule same_ledger_inventory [of d]) (use inv d' in \<open>simp_all add: system_inv_def\<close>)
  moreover have "procurement_inv d'"
    by (rule procurement_inv_frame [of d])
      (use inv d' in \<open>simp_all add: system_inv_def receipt_ok_def get_mov_def adjusted_movement_def\<close>)
  moreover have "users_inv d' = users_inv d" "outbox_inv m d' = outbox_inv m d"
    using users_inv_cong [of d' d] outbox_inv_cong [of d' d] d' by simp_all
  ultimately show ?thesis using inv catalog_step_inv [OF step] by (simp add: system_inv_def)
qed

section \<open>The outbox\<close>

text \<open>The other tables of the identity services and the outbox rows are read by no other invariant.\<close>

lemma side_tables_system:
  assumes inv: "system_inv ce m d" and same: "same_but_identity d d'" and us: "users d' = users d"
    and "outbox_inv m d'"
  shows "system_inv ce m d'"
proof -
  have "inventory_inv d'"
    by (rule same_ledger_inventory [of d]) (use inv same us in \<open>simp_all add: system_inv_def same_but_identity_iff\<close>)
  moreover have "procurement_inv d'"
    by (rule procurement_inv_frame [of d])
      (use inv same in \<open>simp_all add: system_inv_def same_but_identity_iff receipt_ok_def get_mov_def
        adjusted_movement_def\<close>)
  moreover have "users_inv d'" "catalog_inv ce d'"
    using inv same users_inv_cong [OF us] catalog_inv_cong [of d' d]
    by (simp_all add: system_inv_def same_but_identity_iff)
  ultimately show ?thesis using assms(4) by (simp add: system_inv_def)
qed

lemma outbox_rows_system:
  assumes "system_inv ce m d" and "outbox_inv m (d\<lparr>notification_outboxes := x\<rparr>)"
  shows "system_inv ce m (d\<lparr>notification_outboxes := x\<rparr>)"
  by (rule side_tables_system [OF assms(1) _ _ assms(2)]) (simp_all add: same_but_identity_iff)

lemma same_but_outbox_system:
  assumes "system_inv ce m d" and "same_but_outbox d d'"
  shows "system_inv ce m d'"
  using outbox_rows_system [OF assms(1)] assms unfolding same_but_outbox_def system_inv_def by metis

lemma outbox_run_system:
  assumes "system_inv ce m d"
  shows "system_inv ce m (outbox_run ttl m a d)"
  using outbox_rows_system [OF assms] outbox_run_frame outbox_run_inv assms unfolding system_inv_def by metis

section \<open>The Telegram bot\<close>

lemma note_system:
  assumes "system_inv ce m d"
  shows "system_inv ce m (with_telegram_note d r)"
  by (rule side_tables_system [OF assms])
    (use assms in \<open>simp_all add: with_telegram_note_def save_access_request_def same_but_identity_iff
      system_inv_def outbox_inv_def\<close>)

lemma webhook_system:
  assumes "webhook_transaction env st ids now u payload = Inr st'" and inv: "system_inv ce m (core st)"
  shows "system_inv ce m (core st')"
  using webhook_transaction_core [OF assms(1)]
proof (elim disjE exE conjE)
  assume "same_but_outbox (core st) (core st')"
  then show ?thesis by (rule same_but_outbox_system [OF inv])
next
  fix actor target decision recovery d1 v r e
  assume "decide_pending_access_request (core st) actor target decision recovery now = Inr (d1, v, r, e)"
    and out: "same_but_outbox (with_telegram_note d1 r) (core st')"
  then have "identity_step (\<lambda>s. s) (core st) d1" by (intro step_admin admin_decide)
  then have "system_inv ce m d1" by (rule identity_step_system [OF _ inv])
  then show ?thesis using same_but_outbox_system [OF note_system out] by blast
qed

lemma request_access_system:
  assumes "request_access env st request_id new_id a b now user identity = Inr (st', r, status)"
    and "users_commit (core st) (core st')" and inv: "system_inv ce m (core st)"
  shows "system_inv ce m (core st')"
proof -
  obtain d1 x where c: "create_or_get_access_request (core st) request_id (u_id user) now = Inr (d1, x)"
    and out: "same_but_outbox d1 (core st')" using request_access_core [OF assms(1)] by blast
  obtain y where y: "core st' = d1\<lparr>notification_outboxes := y\<rparr>"
    using out unfolding same_but_outbox_def by blast
  have "users_commit (core st) d1" by (rule users_commit_cong [OF assms(2)]) (simp_all add: y)
  with c have "identity_step (\<lambda>s. s) (core st) d1" by (rule step_request)
  then show ?thesis using identity_step_system [OF _ inv] same_but_outbox_system [OF _ out] by blast
qed

section \<open>Retention\<close>

lemma retention_system:
  assumes "run_technical_retention_once c p (st, emails) = ((st', emails'), counts)"
    and "system_inv ce m (core st)"
  shows "system_inv ce m (core st')"
proof (rule side_tables_system [OF assms(2)])
  note frame = retention_core [OF assms(1)]
  show "same_but_identity (core st) (core st')" by (subst frame) (simp add: same_but_identity_iff)
  show "users (core st') = users (core st)" by (subst frame) simp
  show "outbox_inv m (core st')" using retention_outboxes(1) [OF assms(1)] assms(2) by (simp add: system_inv_def)
qed

section \<open>All steps\<close>

lemma system_step_inv:
  assumes "system_step ce ttl m d d'" and "system_inv ce m d"
  shows "system_inv ce m d'"
  using assms(1)
proof cases
  case sys_procurement
  then show ?thesis
    using assms(2) by cases (blast intro: run_call_system create_request_system)+
next
  case (sys_webhook env st ids now u payload st')
  then show ?thesis using webhook_system assms(2) by blast
next
  case (sys_request_access env st request_id new_id approve reject now user identity st' r status)
  then show ?thesis using request_access_system assms(2) by blast
next
  case (sys_retention c p st emails st' emails' counts)
  then show ?thesis using retention_system assms(2) by blast
qed (use assms(2) in \<open>simp_all add: inventory_step_system identity_step_system outbox_run_system
    catalog_step_system\<close>)

text \<open>A completed request and its receipt.\<close>

definition settled :: "db \<Rightarrow> procurement_request \<Rightarrow> bool" where
  "settled d r \<longleftrightarrow> get_request d (pr_id r) = Some r \<and> pr_status r = COMPLETED \<and>
     (\<exists>i. pr_final_movement_id r = Some i \<and> receipt_ok d i)"

lemma completed_is_settled:
  assumes "system_inv ce m d" and "get_request d i = Some r" and "pr_status r = COMPLETED"
  shows "settled d r"
proof -
  have "request_ok d r"
    using assms(1,2) by (auto simp: system_inv_def procurement_inv_def get_request_def dest: table_get_SomeD)
  then show ?thesis
    using assms(2,3) get_request_id [OF assms(2)]
    by (auto simp: settled_def request_ok_def request_checks_def completion_state_def)
qed

lemma procurement_step_completed:
  assumes "procurement_step ce d d'" and "get_request d i = Some r" and "pr_status r = COMPLETED"
  shows "get_request d' i = Some r"
  using assms(1)
proof cases
  case (step_create_request env p actor rec)
  from step_create_request(1) show ?thesis
  proof (cases rule: create_request_cases)
    case replay
    then show ?thesis using assms(2) by simp
  next
    case (fresh q v lines e d1 d2 d3 d4)
    have "procurement_requests d' = procurement_requests d @ [q]"
      using insert_request_Inr(1) [OF fresh(3)] insert_revision_Inr(1) [OF fresh(4)]
        insert_lines_Inr_procurement [OF fresh(5)] add_event_Inr(1) [OF fresh(6)]
        same_but_outboxD [OF fresh(7)] by simp
    then show ?thesis using assms(2) by (simp add: get_request_def table_get_append)
  qed
next
  case (step_call env j c actor rec)
  show ?thesis
  proof (cases "d' = d")
    case False
    obtain key fp t where m: "mutated actor key fp t d j d'"
      using procurement_mutation_shape [OF step_call(1) False] by blast
    show ?thesis
    proof (cases "j = i")
      case True
      let ?rec = "\<lparr> prr_request = r, prr_revisions = revisions_of d i, prr_events = events_of d i \<rparr>"
      have "call_guard d ?rec actor c"
        by (rule run_call_guard [OF step_call(1) [unfolded True] _ False])
          (simp add: get_request_record_def assms(2))
      then show ?thesis using assms(3) by (cases c) auto
    next
      case False
      then show ?thesis using m assms(2) by (auto simp: mutated_def)
    qed
  qed (use assms(2) in simp)
qed

lemma system_step_completed:
  assumes step: "system_step ce ttl m d d'" and "get_request d i = Some r" and "pr_status r = COMPLETED"
  shows "get_request d' i = Some r"
  using step
proof cases
  case sys_inventory
  then show ?thesis using inventory_step_frame assms(2) by (simp add: get_request_def)
next
  case sys_catalog
  then show ?thesis using catalog_step_frame assms(2) by (fastforce simp: get_request_def)
next
  case sys_identity
  then show ?thesis using identity_step_frame assms(2) by (simp add: get_request_def same_but_identity_iff)
next
  case sys_procurement
  then show ?thesis using procurement_step_completed assms(2,3) by blast
next
  case (sys_outbox a)
  then show ?thesis
    using outbox_run_frame [of ttl m a d] assms(2) unfolding get_request_def
    by (metis db.select_convs db.surjective db.update_convs)
next
  case (sys_webhook env st ids now u payload st')
  have "procurement_requests d' = procurement_requests d"
    using webhook_transaction_core [OF sys_webhook(3)] unfolding sys_webhook(1,2)
  proof (elim disjE exE conjE)
    assume "same_but_outbox (core st) (core st')"
    then show "procurement_requests (core st') = procurement_requests (core st)" by (rule same_but_outboxD)
  next
    fix actor target decision recovery d1 v x e
    assume "decide_pending_access_request (core st) actor target decision recovery now = Inr (d1, v, x, e)"
      and out: "same_but_outbox (with_telegram_note d1 x) (core st')"
    then have "identity_step (\<lambda>s. s) (core st) d1" by (intro step_admin admin_decide)
    from identity_step_frame [OF this] show "procurement_requests (core st') = procurement_requests (core st)"
      using same_but_outboxD(6) [OF out]
      by (simp add: same_but_identity_iff with_telegram_note_def save_access_request_def)
  qed
  then show ?thesis using assms(2) by (simp add: get_request_def)
next
  case (sys_request_access env st request_id new_id approve reject now user identity st' x status)
  obtain d1 y where c: "create_or_get_access_request (core st) request_id (u_id user) now = Inr (d1, y)"
    and out: "same_but_outbox d1 (core st')" using request_access_core [OF sys_request_access(3)] by blast
  have "procurement_requests d1 = procurement_requests (core st)"
    using request_effect(1) [OF c] by (auto simp: user_changed_def same_but_identity_iff)
  then show ?thesis using same_but_outboxD(6) [OF out] assms(2) by (simp add: get_request_def sys_request_access)
next
  case (sys_retention c p st emails st' emails' counts)
  have "procurement_requests (core st') = procurement_requests (core st)"
    by (subst retention_core [OF sys_retention(3)]) simp
  then show ?thesis using assms(2) by (simp add: get_request_def sys_retention)
qed

end
