(* ===== verification/Pynumber.thy ===== *)
theory Pynumber
  imports Decimals
begin

text \<open>
  Python's \<open>int(text)\<close> in base ten: surrounding whitespace, an optional sign, and digits that
  may be grouped by single underscores; a text of more than 4300 digits is refused. No value
  means that \<open>int\<close> raises \<open>ValueError\<close>. It reads back what \<open>str\<close> prints.
\<close>

definition INT_MAX_STR_DIGITS :: nat where
  "INT_MAX_STR_DIGITS = 4300"

fun grouped_digits :: "string \<Rightarrow> string option" where
  "grouped_digits [] = None"
| "grouped_digits [c] = (if is_digit c then Some [c] else None)"
| "grouped_digits (c # d # cs) =
     (if \<not> is_digit c then None
      else map_option ((#) c) (grouped_digits (if d = CHR ''_'' then cs else d # cs)))"

definition py_nat :: "string \<Rightarrow> nat option" where
  "py_nat s =
     (case grouped_digits s of
        None \<Rightarrow> None
      | Some ds \<Rightarrow> if length ds > INT_MAX_STR_DIGITS then None else Some (digits_nat ds))"

definition py_int :: "string \<Rightarrow> int option" where
  "py_int s =
     (case py_strip s of
        [] \<Rightarrow> None
      | c # cs \<Rightarrow>
          if c = CHR ''-'' then map_option (\<lambda>n. - int n) (py_nat cs)
          else if c = CHR ''+'' then map_option int (py_nat cs)
          else map_option int (py_nat (c # cs)))"

lemma grouped_plain: "s \<noteq> [] \<Longrightarrow> list_all is_digit s \<Longrightarrow> grouped_digits s = Some s"
proof (induction s rule: grouped_digits.induct)
  case (3 c d cs)
  then have "d \<noteq> CHR ''_''" by (auto simp: is_digit_def)
  with 3 show ?case by simp
qed simp_all

lemma length_nat_str: "n < 10 ^ k \<Longrightarrow> 0 < k \<Longrightarrow> length (nat_str n) \<le> k"
proof (induction n arbitrary: k rule: nat_str.induct)
  case (1 n)
  show ?case
  proof (cases "n < 10")
    case True
    with 1 show ?thesis by (subst nat_str.simps) simp
  next
    case False
    with "1.prems" obtain j where j: "k = Suc j" "0 < j" by (cases k; cases "k - 1") auto
    then have "n div 10 < 10 ^ j" using "1.prems"(1) by (simp add: less_mult_imp_div_less mult.commute)
    then show ?thesis using "1.IH" [OF False _ j(2)] False j(1) by (subst nat_str.simps) simp
  qed
qed

lemma py_nat_str:
  assumes "n < 10 ^ INT_MAX_STR_DIGITS"
  shows "py_nat (nat_str n) = Some n"
  using nat_str_digits [of n] length_nat_str [OF assms]
  by (simp add: py_nat_def grouped_plain INT_MAX_STR_DIGITS_def)

lemma digit_not_space: "is_digit c \<Longrightarrow> \<not> is_space c \<and> c \<noteq> CHR ''-'' \<and> c \<noteq> CHR ''+''"
  by (auto simp: is_digit_def is_space_def Let_def)

lemma strip_solid:
  assumes "\<forall>c\<in>set s. \<not> is_space c"
  shows "py_strip s = s"
proof -
  have "py_lstrip t = t" if "\<forall>c\<in>set t. \<not> is_space c" for t
    using that by (cases t) (simp_all add: py_lstrip_def)
  then show ?thesis using assms by (simp add: py_strip_def)
qed

lemma int_str_solid: "\<forall>c\<in>set (int_str i). \<not> is_space c"
  using nat_str_digits digit_not_space
  by (auto simp: int_str_def list_all_iff is_space_def Let_def dest: bspec)

lemma py_int_str:
  assumes "\<bar>i\<bar> < 10 ^ INT_MAX_STR_DIGITS"
  shows "py_int (int_str i) = Some i"
proof (cases "i < 0")
  case True
  then have small: "nat (- i) < 10 ^ INT_MAX_STR_DIGITS" using assms by (simp add: nat_less_iff)
  have "py_strip (int_str i) = CHR ''-'' # nat_str (nat (- i))"
    using strip_solid [OF int_str_solid [of i]] True by (simp add: int_str_def)
  then show ?thesis using True py_nat_str [OF small] by (simp add: py_int_def)
next
  case False
  then have small: "nat i < 10 ^ INT_MAX_STR_DIGITS" using assms by (simp add: nat_less_iff)
  obtain c cs where c: "nat_str (nat i) = c # cs" "is_digit c"
    using nat_str_digits [of "nat i"] by (cases "nat_str (nat i)") auto
  have "py_strip (int_str i) = c # cs" using strip_solid [OF int_str_solid [of i]] False c by (simp add: int_str_def)
  then show ?thesis using c digit_not_space [OF c(2)] py_nat_str [OF small] False
    by (simp add: py_int_def)
qed

end
