(* ===== verification/Notification_Worker.thy ===== *)
theory Notification_Worker
  imports Telegram_Bot Pynumber Worker_Loop
begin

text \<open>
  The delivery worker of the Telegram outbox (\<open>notifications/worker.py\<close>) and its gateway
  client (\<open>notifications/gateway.py\<close>). An iteration claims one message in a transaction,
  calls the gateway outside of any transaction and reports the result in another
  transaction. A welcome that a newer \<open>/start\<close> has superseded is dropped without a call; one
  that was superseded while it was being sent is deleted again. A pass holds what an
  iteration meets: the token, the clock at its two transactions and the gateway's reply. The
  calls to the gateway are recorded; logging is left out.
\<close>

section \<open>The gateway client\<close>

datatype 'b gateway_reply =
    Reply "'b list list"
  | HTTPStatusError nat
  | RequestError
  | OtherError string

datatype gateway_error = TelegramGatewayError string | OtherException string

definition RESPONSE_LIMIT_BYTES :: nat where
  "RESPONSE_LIMIT_BYTES = 1048576"

fun read_response :: "'b list list \<Rightarrow> 'b list \<Rightarrow> 'b list option" where
  "read_response [] raw = Some raw"
| "read_response (chunk # chunks) raw =
     (if length raw + length chunk > RESPONSE_LIMIT_BYTES then None
      else read_response chunks (raw @ chunk))"

fun gateway_send :: "('b list \<Rightarrow> json option) \<Rightarrow> 'b gateway_reply \<Rightarrow> gateway_error + json option" where
  "gateway_send loads (HTTPStatusError n) =
     Inl (TelegramGatewayError (''gateway returned HTTP '' @ nat_str n))"
| "gateway_send loads RequestError = Inl (TelegramGatewayError ''gateway request failed'')"
| "gateway_send loads (OtherError e) = Inl (OtherException e)"
| "gateway_send loads (Reply chunks) =
     (case read_response chunks [] of
        None \<Rightarrow> Inl (TelegramGatewayError ''gateway response is too large'')
      | Some raw \<Rightarrow>
          (case loads raw of
             None \<Rightarrow> Inl (TelegramGatewayError ''gateway returned invalid JSON'')
           | Some answer \<Rightarrow>
               if json_get ''ok'' answer \<noteq> Some (JBool True)
               then Inl (TelegramGatewayError ''Telegram Bot API call failed'')
               else Inr (json_get ''result'' answer)))"

fun safe_delivery_error :: "gateway_error \<Rightarrow> string" where
  "safe_delivery_error (TelegramGatewayError message) = ''TelegramGatewayError: '' @ message"
| "safe_delivery_error (OtherException name) = name"

section \<open>Welcomes\<close>

definition welcome_key_context :: "string \<Rightarrow> (int \<times> int) option" where
  "welcome_key_context key =
     (let prefix = START_WELCOME_DEDUPE_PREFIX in
      if take (length prefix) key \<noteq> prefix then None
      else
        (let suffix = drop (length prefix) key;
             update_raw = takeWhile (\<lambda>c. c \<noteq> CHR '':'') suffix;
             remainder = dropWhile (\<lambda>c. c \<noteq> CHR '':'') suffix
         in if remainder = [] then None
            else case (py_int update_raw, py_int (tl remainder)) of
                   (Some update_id, Some chat_id) \<Rightarrow>
                     if update_id < 0 then None else Some (update_id, chat_id)
                 | _ \<Rightarrow> None))"

definition start_welcome_context :: "claimed_notification \<Rightarrow> (int \<times> int) option" where
  "start_welcome_context claim = welcome_key_context (cn_dedupe_key claim)"

definition telegram_message_id :: "json option \<Rightarrow> int option" where
  "telegram_message_id result =
     (case result of
        None \<Rightarrow> None
      | Some r \<Rightarrow>
          (case json_integer (json_get ''message_id'' r) of
             None \<Rightarrow> None | Some i \<Rightarrow> if i \<le> 0 then None else Some i))"

definition is_current_start :: "bot_db \<Rightarrow> int \<Rightarrow> int \<Rightarrow> bot_error + bool" where
  "is_current_start st chat_id update_id =
     (if \<not> is_bigint chat_id then Inl (BotDbError ''22003'')
      else Inr (map_option tc_latest_start_update_id
                  (table_get tc_chat_id chat_id (telegram_chat_states st)) = Some update_id))"

definition record_welcome_if_current_in_session ::
    "bot_db \<Rightarrow> int \<Rightarrow> int \<Rightarrow> int \<Rightarrow> timestamp \<Rightarrow> bot_error + bot_db \<times> bool" where
  "record_welcome_if_current_in_session st chat_id update_id message_id now =
     (if \<not> is_bigint chat_id then Inl (BotDbError ''22003'')
      else case table_get tc_chat_id chat_id (telegram_chat_states st) of
        None \<Rightarrow> Inr (st, False)
      | Some state \<Rightarrow>
          if tc_latest_start_update_id state \<noteq> update_id then Inr (st, False)
          else if \<not> is_bigint message_id then Inl (BotDbError ''22003'')
          else Inr (st\<lparr>telegram_chat_states := table_update tc_chat_id chat_id
                  (\<lambda>s. s\<lparr>tc_last_welcome_message_id := Some message_id,
                         tc_last_welcome_sent_at := Some now\<rparr>) (telegram_chat_states st)\<rparr>, True))"

section \<open>Reporting\<close>

definition finalize_success :: "bot_db \<Rightarrow> claimed_notification \<Rightarrow> timestamp \<Rightarrow> bot_db" where
  "finalize_success st claim now = st\<lparr>core := fst (mark_notification_sent (core st) claim now)\<rparr>"

definition finalize_failure ::
    "bot_db \<Rightarrow> claimed_notification \<Rightarrow> string \<Rightarrow> int \<Rightarrow> timestamp \<Rightarrow> bot_db" where
  "finalize_failure st claim error max_attempts now =
     st\<lparr>core := fst (mark_notification_failed (core st) claim error max_attempts now)\<rparr>"

definition finalize_start_welcome_success ::
    "bot_db \<Rightarrow> claimed_notification \<Rightarrow> int \<Rightarrow> int \<Rightarrow> int \<Rightarrow> timestamp \<Rightarrow> bot_error + bot_db \<times> bool" where
  "finalize_start_welcome_success st claim chat_id update_id message_id now =
     (case mark_notification_sent (core st) claim now of
        (d, marked) \<Rightarrow>
          if \<not> marked then Inr (st\<lparr>core := d\<rparr>, False)
          else record_welcome_if_current_in_session (st\<lparr>core := d\<rparr>) chat_id update_id message_id now)"

section \<open>The loop\<close>

record worker_settings =
  ws_claim_ttl_seconds :: int
  ws_max_attempts :: int
  ws_gateway_timeout_seconds :: int

record 'b worker_pass =
  wp_token :: uuid
  wp_claim_at :: timestamp
  wp_report_at :: timestamp
  wp_reply :: "'b gateway_reply"

type_synonym gateway_call = "string \<times> json"

type_synonym worker_state = "bot_db \<times> gateway_call list"

definition validate_notification_worker_lease :: "worker_settings \<Rightarrow> bot_error + unit" where
  "validate_notification_worker_lease ws =
     (let minimum_ttl_seconds = ws_gateway_timeout_seconds ws * 2 + 5
      in ensure (ws_claim_ttl_seconds ws \<ge> minimum_ttl_seconds) BotRuntimeError)"

definition deliver ::
    "('b list \<Rightarrow> json option) \<Rightarrow> worker_settings \<Rightarrow> 'b worker_pass \<Rightarrow> bot_db \<Rightarrow> gateway_call list
       \<Rightarrow> claimed_notification \<Rightarrow> worker_state \<times> bot_error outcome" where
  "deliver loads ws p st calls claim =
     (let calls1 = calls @ [(cn_method claim, cn_payload claim)];
          now = wp_report_at p
      in case gateway_send loads (wp_reply p) of
           Inl exc \<Rightarrow>
             ((finalize_failure st claim (safe_delivery_error exc) (ws_max_attempts ws) now, calls1),
              Processed)
         | Inr result \<Rightarrow>
             (case start_welcome_context claim of
                None \<Rightarrow> ((finalize_success st claim now, calls1), Processed)
              | Some (update_id, chat_id) \<Rightarrow>
                  (case telegram_message_id result of
                     None \<Rightarrow> ((finalize_success st claim now, calls1), Processed)
                   | Some message_id \<Rightarrow>
                       (case finalize_start_welcome_success st claim chat_id update_id message_id now of
                          Inl e \<Rightarrow> ((st, calls1), Crashed e)
                        | Inr (st1, is_current) \<Rightarrow>
                            ((st1, if is_current then calls1
                                   else calls1 @ [(''deleteMessage'', chat_message chat_id message_id)]),
                             Processed)))))"

definition worker_iteration ::
    "('b list \<Rightarrow> json option) \<Rightarrow> worker_settings \<Rightarrow> 'b worker_pass \<Rightarrow> worker_state
       \<Rightarrow> worker_state \<times> bot_error outcome" where
  "worker_iteration loads ws p state =
     (case state of (st, calls) \<Rightarrow>
      (case claim_notification_batch (core st) 1 (ws_claim_ttl_seconds ws) (ws_max_attempts ws)
              (\<lambda>_. wp_token p) (wp_claim_at p) of
         (d, []) \<Rightarrow> ((st\<lparr>core := d\<rparr>, calls), Idle)
       | (d, claim # _) \<Rightarrow>
           (let st1 = st\<lparr>core := d\<rparr>
            in case start_welcome_context claim of
                 None \<Rightarrow> deliver loads ws p st1 calls claim
               | Some (update_id, chat_id) \<Rightarrow>
                   (case is_current_start st1 chat_id update_id of
                      Inl e \<Rightarrow> ((st1, calls), Crashed e)
                    | Inr current \<Rightarrow>
                        if \<not> current
                        then ((finalize_success st1 claim (wp_report_at p), calls), Processed)
                        else deliver loads ws p st1 calls claim))))"

definition run_worker_once ::
    "('b list \<Rightarrow> json option) \<Rightarrow> worker_settings \<Rightarrow> 'b worker_pass list \<Rightarrow> worker_state
       \<Rightarrow> worker_state \<times> (bot_error + nat)" where
  "run_worker_once loads ws passes state =
     (case validate_notification_worker_lease ws of
        Inl e \<Rightarrow> (state, Inl e)
      | Inr _ \<Rightarrow> run_passes (worker_iteration loads ws) passes state)"

definition run_worker_loop ::
    "('b list \<Rightarrow> json option) \<Rightarrow> worker_settings \<Rightarrow> 'b worker_pass list list \<Rightarrow> worker_state
       \<Rightarrow> worker_state" where
  "run_worker_loop loads ws rounds state = run_rounds (run_worker_once loads ws) rounds state"

end
