(* ===== verification/Worker_Proofs.thy ===== *)
theory Worker_Proofs
  imports Notification_Worker Outbox_Proofs
begin

text \<open>
  The notification worker empties the outbox: an iteration that finds a due message moves it
  to SENT, to DEAD or to its next attempt, so every message is settled after a bounded number
  of rounds, whatever the gateway answers. The proof interprets the contract of
  \<open>Worker_Loop\<close>.
\<close>

section \<open>One message\<close>

definition delivery_credit :: "int \<Rightarrow> notification_outbox \<Rightarrow> nat" where
  "delivery_credit max_attempts n =
     (if no_status n = OB_PENDING
      then nat (max_attempts - no_attempts n) + (if no_claimed_at n = None then 0 else 1) else 0)"

definition due_by :: "int \<Rightarrow> timestamp \<Rightarrow> notification_outbox \<Rightarrow> bool" where
  "due_by ttl t n \<longleftrightarrow> (no_status n = OB_PENDING \<longrightarrow> no_available_at n \<le> t \<and>
     (case no_claimed_at n of None \<Rightarrow> True | Some c \<Rightarrow> c + ttl < t))"

definition sent_row :: "notification_outbox \<Rightarrow> timestamp \<Rightarrow> notification_outbox" where
  "sent_row n now = n\<lparr>no_status := OB_SENT, no_sent_at := Some now, no_claimed_at := None,
     no_claim_token := None, no_last_error := None\<rparr>"

definition settled_row :: "worker_settings \<Rightarrow> 'b worker_pass \<Rightarrow> notification_outbox \<Rightarrow> notification_outbox \<Rightarrow> bool" where
  "settled_row ws p n n' \<longleftrightarrow>
     (let c = claim_row (wp_claim_at p) (wp_claim_at p - ws_claim_ttl_seconds ws) (ws_max_attempts ws)
                (wp_token p) n
      in n' = sent_row c (wp_report_at p) \<or>
         (\<exists>e. n' = failed_row c e (ws_max_attempts ws) (wp_report_at p)))"

lemma delivery_credit_zero:
  "notification_ok m n \<Longrightarrow> delivery_credit m n = 0 \<longleftrightarrow> no_status n \<noteq> OB_PENDING"
  by (auto simp: delivery_credit_def notification_ok_def)

lemma delivery_credit_le:
  assumes "notification_ok m n"
  shows "delivery_credit m n \<le> nat m + 1"
proof -
  have "0 \<le> no_attempts n" using assms by (simp add: notification_ok_def)
  then show ?thesis by (auto simp: delivery_credit_def)
qed

lemma retry_delay_bound: "1 \<le> retry_delay_seconds a \<and> retry_delay_seconds a \<le> 300"
  by (simp add: retry_delay_seconds_def Let_def)

lemma settled_row_key [simp]: "settled_row ws p n n' \<Longrightarrow> no_id n' = no_id n"
  by (auto simp: settled_row_def Let_def sent_row_def)

lemma settled_row_spends:
  assumes ok: "notification_ok (ws_max_attempts ws) n"
    and due: "claimable (wp_claim_at p) (wp_claim_at p - ws_claim_ttl_seconds ws) (ws_max_attempts ws) n"
    and new: "settled_row ws p n n'"
  shows "delivery_credit (ws_max_attempts ws) n' < delivery_credit (ws_max_attempts ws) n"
proof -
  have pending: "no_status n = OB_PENDING" using due by (simp add: claimable_def)
  then have pos: "0 < delivery_credit (ws_max_attempts ws) n"
    using delivery_credit_zero [OF ok] by simp
  let ?c = "claim_row (wp_claim_at p) (wp_claim_at p - ws_claim_ttl_seconds ws) (ws_max_attempts ws)
    (wp_token p) n"
  consider "n' = sent_row ?c (wp_report_at p)"
    | e where "n' = failed_row ?c e (ws_max_attempts ws) (wp_report_at p)"
    using new unfolding settled_row_def Let_def by blast
  then show ?thesis
  proof cases
    case 1
    then show ?thesis using pos by (simp add: delivery_credit_def sent_row_def)
  next
    case (2 e)
    show ?thesis
    proof (cases "no_attempts ?c \<ge> ws_max_attempts ws")
      case True
      then show ?thesis using 2 pos by (simp add: failed_row_def Let_def delivery_credit_def)
    next
      case False
      then have "no_attempts ?c = no_attempts n + 1" and "no_attempts n < ws_max_attempts ws"
        by (auto simp: claim_row_def Let_def split: if_splits)
      then show ?thesis using 2 False pending by (simp add: failed_row_def Let_def delivery_credit_def)
    qed
  qed
qed

lemma due_by_later: "due_by ttl t n \<Longrightarrow> t \<le> t' \<Longrightarrow> due_by ttl t' n"
  by (auto simp: due_by_def split: option.splits)

lemma failed_row_due: "due_by ttl (now + 300) (failed_row n e m now)"
  using retry_delay_bound [of "no_attempts n"] by (simp add: due_by_def failed_row_def Let_def)

lemma settled_row_due: "settled_row ws p n n' \<Longrightarrow> due_by ttl (wp_report_at p + 300) n'"
  unfolding settled_row_def Let_def
  by (elim disjE exE) (simp_all add: failed_row_due, simp add: due_by_def sent_row_def)

lemma due_claimable:
  assumes "notification_ok m n" and "due_by ttl t n" and "t \<le> now" and "0 < delivery_credit m n"
  shows "claimable now (now - ttl) m n"
proof -
  have "no_status n = OB_PENDING" using assms(4) by (simp add: delivery_credit_def split: if_splits)
  then show ?thesis using assms(1-3)
    by (auto simp: claimable_def due_by_def notification_ok_def stale_claim_def split: option.splits)
qed

section \<open>One iteration\<close>

lemma claim_nothing:
  assumes "claim_notification_batch d 1 ttl m tokens now = (d', [])"
  shows "d' = d" and "\<forall>n\<in>set (notification_outboxes d). \<not> claimable now (now - ttl) m n"
proof -
  have rows: "batch_rows d 1 now (now - ttl) m = []"
    using assms by (simp add: claim_notification_batch_def Let_def enumerate_eq_zip)
  then show "d' = d"
    using assms by (simp add: claim_notification_batch_def Let_def flush_rows_def)
  show "\<forall>n\<in>set (notification_outboxes d). \<not> claimable now (now - ttl) m n"
  proof -
    have "sort_key delivery_order (filter (claimable now (now - ttl) m) (notification_outboxes d)) = []"
      using rows by (simp add: batch_rows_def)
    then have "set (filter (claimable now (now - ttl) m) (notification_outboxes d)) = {}"
      by (metis set_sort list.set(1))
    then show ?thesis by auto
  qed
qed

lemma claim_one:
  assumes inv: "outbox_inv m d" and run: "claim_notification_batch d 1 ttl m tokens now = (d', c # cs)"
  obtains n where "n \<in> set (notification_outboxes d)" and "claimable now (now - ttl) m n"
    and "d' = save_notification d (claim_row now (now - ttl) m (tokens 0) n)"
    and "c = claim_of (tokens 0) (claim_row now (now - ttl) m (tokens 0) n)"
proof -
  obtain n where rows: "batch_rows d 1 now (now - ttl) m = [n]"
  proof (cases "batch_rows d 1 now (now - ttl) m")
    case Nil
    then show ?thesis using run by (simp add: claim_notification_batch_def Let_def)
  next
    case (Cons n ns)
    moreover have "length (batch_rows d 1 now (now - ttl) m) \<le> 1" by (simp add: batch_rows_def)
    ultimately show ?thesis by (intro that) simp
  qed
  have n: "n \<in> set (notification_outboxes d)" "claimable now (now - ttl) m n"
    using batch_rows_set [of n d 1 now "now - ttl" m] rows by simp_all
  have "d' = save_notification d (claim_row now (now - ttl) m (tokens 0) n)"
    using run rows
    by (auto simp: claim_notification_batch_def Let_def enumerate_eq_zip flush_rows_def
        save_notification_def table_update_def)
  moreover have "c = claim_of (tokens 0) (claim_row now (now - ttl) m (tokens 0) n)"
    using run rows by (simp add: claim_notification_batch_def Let_def enumerate_eq_zip)
  ultimately show ?thesis using n that by blast
qed

lemma save_save:
  "no_id a = no_id b \<Longrightarrow> save_notification (save_notification d a) b = save_notification d b"
  by (simp add: save_notification_def table_update_def)

lemma owned_claim:
  assumes inv: "outbox_inv m d" and n: "n \<in> set (notification_outboxes d)"
    and c: "no_id c = no_id n" "no_claim_token c = Some k" "no_status c = OB_PENDING"
  shows "owned_row (save_notification d c) (claim_of k c) = Some c"
proof -
  have "get_notification d (no_id n) = Some n" using get_notification_iff [OF inv] n by blast
  then show ?thesis
    using c by (simp add: owned_row_def claim_of_def get_notification_def save_notification_def
        table_get_update)
qed

lemma report_effect:
  assumes inv: "outbox_inv m d" and n: "n \<in> set (notification_outboxes d)"
    and c: "no_id c = no_id n" "no_claim_token c = Some k" "no_status c = OB_PENDING"
  shows "mark_notification_sent (save_notification d c) (claim_of k c) now =
      (save_notification d (sent_row c now), True)"
    and "mark_notification_failed (save_notification d c) (claim_of k c) e m' now =
      (save_notification d (failed_row c e m' now), True)"
  unfolding mark_failed_row mark_notification_sent_def owned_claim [OF assms]
  by (simp_all add: sent_row_def save_save)

definition reported :: "worker_settings \<Rightarrow> 'b worker_pass \<Rightarrow> db \<Rightarrow> claimed_notification \<Rightarrow> db \<Rightarrow> bool" where
  "reported ws p d claim d' \<longleftrightarrow>
     d' = fst (mark_notification_sent d claim (wp_report_at p)) \<or>
     (\<exists>e. d' = fst (mark_notification_failed d claim e (ws_max_attempts ws) (wp_report_at p)))"

lemma record_welcome_core:
  "record_welcome_if_current_in_session st chat u i now = Inr (st', b) \<Longrightarrow> core st' = core st"
  by (auto simp: record_welcome_if_current_in_session_def split: if_splits option.splits)

lemma finalize_welcome_core:
  assumes "finalize_start_welcome_success st claim chat u i now = Inr (st', b)"
  shows "core st' = fst (mark_notification_sent (core st) claim now)"
  using assms by (auto simp: finalize_start_welcome_success_def dest!: record_welcome_core
      split: prod.splits if_splits)

lemma deliver_reports:
  assumes "deliver loads ws p st calls claim = ((st', calls'), Processed)"
  shows "reported ws p (core st) claim (core st')"
  using assms
  by (auto simp: deliver_def reported_def Let_def finalize_failure_def finalize_success_def
      dest!: finalize_welcome_core split: sum.splits option.splits prod.splits)

lemma deliver_outcome [simp]: "deliver loads ws p st calls claim \<noteq> (s', Idle)"
  by (simp add: deliver_def Let_def split: sum.splits option.splits prod.splits)

lemma iteration_idle:
  assumes "worker_iteration loads ws p (st, calls) = (s', Idle)"
  shows "s' = (st, calls)" and "\<forall>n\<in>set (notification_outboxes (core st)). \<not> claimable (wp_claim_at p)
      (wp_claim_at p - ws_claim_ttl_seconds ws) (ws_max_attempts ws) n"
proof -
  obtain d cs where run: "claim_notification_batch (core st) 1 (ws_claim_ttl_seconds ws)
      (ws_max_attempts ws) (\<lambda>_. wp_token p) (wp_claim_at p) = (d, cs)" by fastforce
  have "cs = []"
    using assms run
    by (cases cs) (auto simp: worker_iteration_def Let_def split: option.splits sum.splits if_splits)
  with run have none: "claim_notification_batch (core st) 1 (ws_claim_ttl_seconds ws)
      (ws_max_attempts ws) (\<lambda>_. wp_token p) (wp_claim_at p) = (d, [])" by simp
  show "s' = (st, calls)" using assms none claim_nothing(1) [OF none]
    by (simp add: worker_iteration_def)
  show "\<forall>n\<in>set (notification_outboxes (core st)). \<not> claimable (wp_claim_at p)
      (wp_claim_at p - ws_claim_ttl_seconds ws) (ws_max_attempts ws) n"
    by (rule claim_nothing(2) [OF none])
qed

lemma iteration_processed:
  assumes inv: "outbox_inv (ws_max_attempts ws) (core st)"
    and run: "worker_iteration loads ws p (st, calls) = ((st', calls'), Processed)"
  obtains n n' where "n \<in> set (notification_outboxes (core st))"
    and "claimable (wp_claim_at p) (wp_claim_at p - ws_claim_ttl_seconds ws) (ws_max_attempts ws) n"
    and "settled_row ws p n n'" and "core st' = save_notification (core st) n'"
proof -
  let ?m = "ws_max_attempts ws" and ?now = "wp_claim_at p"
  let ?sb = "?now - ws_claim_ttl_seconds ws"
  obtain d claim cs where batch: "claim_notification_batch (core st) 1 (ws_claim_ttl_seconds ws) ?m
      (\<lambda>_. wp_token p) ?now = (d, claim # cs)"
    using run by (auto simp: worker_iteration_def split: prod.splits list.splits)
  obtain n where n: "n \<in> set (notification_outboxes (core st))" "claimable ?now ?sb ?m n"
    and d: "d = save_notification (core st) (claim_row ?now ?sb ?m (wp_token p) n)"
    and claim: "claim = claim_of (wp_token p) (claim_row ?now ?sb ?m (wp_token p) n)"
    using claim_one [OF inv batch] by metis
  have "reported ws p d claim (core st')"
    using run batch deliver_reports [of loads ws p "st\<lparr>core := d\<rparr>" calls claim st' calls']
    by (auto simp: worker_iteration_def Let_def reported_def finalize_success_def
        split: option.splits sum.splits if_splits)
  moreover have pending: "no_status (claim_row ?now ?sb ?m (wp_token p) n) = OB_PENDING"
    using n(2) by (simp add: claimable_def)
  ultimately have "\<exists>n'. settled_row ws p n n' \<and> core st' = save_notification (core st) n'"
    unfolding reported_def d claim report_effect [OF inv n(1) claim_row_simps(1,4) pending]
      settled_row_def Let_def fst_conv by blast
  with n show ?thesis using that by blast
qed

section \<open>The worker keeps its contract\<close>

definition welcome_keys_ok :: "db \<Rightarrow> bool" where
  "welcome_keys_ok d \<longleftrightarrow> (\<forall>n\<in>set (notification_outboxes d).
     case welcome_key_context (no_dedupe_key n) of None \<Rightarrow> True | Some (_, chat_id) \<Rightarrow> is_bigint chat_id)"

definition worker_inv :: "worker_settings \<Rightarrow> worker_state \<Rightarrow> bool" where
  "worker_inv ws s \<longleftrightarrow> outbox_inv (ws_max_attempts ws) (core (fst s)) \<and> welcome_keys_ok (core (fst s))"

definition sane_reply :: "('b list \<Rightarrow> json option) \<Rightarrow> 'b worker_pass \<Rightarrow> bool" where
  "sane_reply loads p \<longleftrightarrow> (case gateway_send loads (wp_reply p) of
     Inl _ \<Rightarrow> True
   | Inr result \<Rightarrow> (case telegram_message_id result of None \<Rightarrow> True | Some i \<Rightarrow> is_bigint i))"

lemma settled_row_fields:
  assumes "settled_row ws p n n'"
  shows "no_id n' = no_id n" and "no_dedupe_key n' = no_dedupe_key n"
    and "notification_ok (ws_max_attempts ws) n \<Longrightarrow>
      claimable (wp_claim_at p) (wp_claim_at p - ws_claim_ttl_seconds ws) (ws_max_attempts ws) n \<Longrightarrow>
      notification_ok (ws_max_attempts ws) n'"
proof -
  let ?c = "claim_row (wp_claim_at p) (wp_claim_at p - ws_claim_ttl_seconds ws) (ws_max_attempts ws)
    (wp_token p) n"
  have new: "n' = sent_row ?c (wp_report_at p) \<or>
      (\<exists>e. n' = failed_row ?c e (ws_max_attempts ws) (wp_report_at p))"
    using assms unfolding settled_row_def Let_def .
  then show "no_id n' = no_id n" and "no_dedupe_key n' = no_dedupe_key n"
    by (auto simp: sent_row_def)
  assume ok: "notification_ok (ws_max_attempts ws) n" and cl: "claimable (wp_claim_at p)
      (wp_claim_at p - ws_claim_ttl_seconds ws) (ws_max_attempts ws) n"
  have pending: "no_status ?c = OB_PENDING" using cl by (simp add: claimable_def)
  note row = claim_row_ok [OF ok cl, of "wp_token p"]
  note failed = failed_row_ok [OF row pending]
  show "notification_ok (ws_max_attempts ws) n'"
    using new by (elim disjE exE) (simp_all only: failed sent_row_def sent_row_ok [OF row])
qed

lemma settle_keeps:
  assumes inv: "worker_inv ws (st, calls)" and n: "n \<in> set (notification_outboxes (core st))"
    and cl: "claimable (wp_claim_at p) (wp_claim_at p - ws_claim_ttl_seconds ws) (ws_max_attempts ws) n"
    and new: "settled_row ws p n n'" and core: "core st' = save_notification (core st) n'"
  shows "worker_inv ws (st', calls')"
proof -
  have ob: "outbox_inv (ws_max_attempts ws) (core st)" and keys: "welcome_keys_ok (core st)"
    using inv by (simp_all add: worker_inv_def)
  note f = settled_row_fields [OF new]
  have "outbox_inv (ws_max_attempts ws) (save_notification (core st) n')"
    by (rule save_notification_inv [OF ob n f(1,2) f(3) [OF outbox_inv_row [OF ob n] cl]])
  moreover have "welcome_keys_ok (save_notification (core st) n')"
    using keys n f(2) by (auto simp: welcome_keys_ok_def save_notification_def set_table_update)
  ultimately show ?thesis by (simp add: worker_inv_def core)
qed

lemma deliver_no_crash:
  assumes "case start_welcome_context claim of None \<Rightarrow> True | Some (_, chat_id) \<Rightarrow> is_bigint chat_id"
    and "sane_reply loads p"
  shows "deliver loads ws p st calls claim \<noteq> (s', Crashed e)"
  using assms
  by (auto simp: deliver_def sane_reply_def Let_def finalize_start_welcome_success_def
      record_welcome_if_current_in_session_def split: sum.splits option.splits prod.splits if_splits)

lemma iteration_no_crash:
  assumes inv: "worker_inv ws (st, calls)" and sane: "sane_reply loads p"
  shows "worker_iteration loads ws p (st, calls) \<noteq> (s', Crashed e)"
proof
  assume run: "worker_iteration loads ws p (st, calls) = (s', Crashed e)"
  have ob: "outbox_inv (ws_max_attempts ws) (core st)" using inv by (simp add: worker_inv_def)
  obtain d claim cs where batch: "claim_notification_batch (core st) 1 (ws_claim_ttl_seconds ws)
      (ws_max_attempts ws) (\<lambda>_. wp_token p) (wp_claim_at p) = (d, claim # cs)"
    using run by (auto simp: worker_iteration_def split: prod.splits list.splits)
  obtain n where "n \<in> set (notification_outboxes (core st))" "cn_dedupe_key claim = no_dedupe_key n"
    using claim_one [OF ob batch] by (metis claim_row_simps(2) claim_of_def claimed_notification.select_convs(5))
  then have key: "case start_welcome_context claim of None \<Rightarrow> True | Some (_, chat_id) \<Rightarrow> is_bigint chat_id"
    using inv by (simp add: worker_inv_def welcome_keys_ok_def start_welcome_context_def)
  then show False
    using run batch deliver_no_crash [OF key sane, of ws "st\<lparr>core := d\<rparr>" calls s' e]
    by (auto simp: worker_iteration_def Let_def is_current_start_def
        split: option.splits sum.splits if_splits)
qed

interpretation notification_worker: lease_worker "worker_iteration loads ws"
  "\<lambda>s. notification_outboxes (core (fst s))" no_id "worker_inv ws" "sane_reply loads"
  "\<lambda>p. claimable (wp_claim_at p) (wp_claim_at p - ws_claim_ttl_seconds ws) (ws_max_attempts ws)"
  "settled_row ws" "delivery_credit (ws_max_attempts ws)" "due_by (ws_claim_ttl_seconds ws)"
  wp_claim_at wp_report_at 300
  for loads ws
proof unfold_locales
  fix s p s'
  assume inv: "worker_inv ws s" and sane: "sane_reply loads p"
  obtain st calls where s: "s = (st, calls)" by (cases s)
  have ob: "outbox_inv (ws_max_attempts ws) (core st)" using inv by (simp add: worker_inv_def s)
  obtain t o' where it: "worker_iteration loads ws p s = (t, o')" by fastforce
  obtain st' calls' where t: "t = (st', calls')" by (cases t)
  show "worker_inv ws (fst (worker_iteration loads ws p s))"
  proof (cases o')
    case Idle
    then show ?thesis using it iteration_idle(1) inv unfolding s by (metis fst_conv)
  next
    case Processed
    with it have "worker_iteration loads ws p (st, calls) = ((st', calls'), Processed)"
      by (simp add: s t)
    from iteration_processed [OF ob this] show ?thesis
      using settle_keeps [OF inv [unfolded s]] it t by (metis fst_conv)
  next
    case (Crashed e)
    then show ?thesis using it iteration_no_crash [OF inv [unfolded s] sane] s by blast
  qed
  show "s' = s \<and> (\<forall>r\<in>set (notification_outboxes (core (fst s))). \<not> claimable (wp_claim_at p)
      (wp_claim_at p - ws_claim_ttl_seconds ws) (ws_max_attempts ws) r)"
    if "worker_iteration loads ws p s = (s', Idle)"
    using iteration_idle [OF that [unfolded s]] by (simp add: s)
  show "\<exists>r r'. r \<in> set (notification_outboxes (core (fst s))) \<and>
      claimable (wp_claim_at p) (wp_claim_at p - ws_claim_ttl_seconds ws) (ws_max_attempts ws) r \<and>
      settled_row ws p r r' \<and> notification_outboxes (core (fst s')) =
        table_update no_id (no_id r) (\<lambda>_. r') (notification_outboxes (core (fst s)))"
    if pr: "worker_iteration loads ws p s = (s', Processed)"
  proof -
    have "worker_iteration loads ws p (st, calls) = ((fst s', snd s'), Processed)" using pr s by simp
    from iteration_processed [OF ob this] obtain n n' where
      n: "n \<in> set (notification_outboxes (core st))" "claimable (wp_claim_at p)
        (wp_claim_at p - ws_claim_ttl_seconds ws) (ws_max_attempts ws) n" "settled_row ws p n n'"
      and new: "core (fst s') = save_notification (core st) n'" by metis
    have "notification_outboxes (core (fst s')) =
        table_update no_id (no_id n) (\<lambda>_. n') (notification_outboxes (core st))"
      by (simp add: new save_notification_def settled_row_fields(1) [OF n(3)])
    with n show ?thesis unfolding s fst_conv by blast
  qed
  show "worker_iteration loads ws p s \<noteq> (s', Crashed e)" for e
    using iteration_no_crash [OF inv [unfolded s] sane] by (simp add: s)
qed (auto simp: worker_inv_def outbox_inv_def intro: settled_row_spends settled_row_due
  due_claimable due_by_later)

section \<open>The outbox drains\<close>

lemma total_credit_le:
  "(\<forall>n\<in>set ns. notification_ok m n) \<Longrightarrow> total (delivery_credit m) ns \<le> (nat m + 1) * length ns"
  using delivery_credit_le by (induction ns) (fastforce simp: total_def)+

lemma run_worker_loop_passes:
  assumes "validate_notification_worker_lease ws = Inr ()"
  shows "run_worker_loop loads ws rounds s = run_rounds (run_passes (worker_iteration loads ws)) rounds s"
proof -
  have "run_worker_once loads ws = run_passes (worker_iteration loads ws)"
    by (intro ext) (simp add: run_worker_once_def assms)
  then show ?thesis by (simp add: run_worker_loop_def)
qed

text \<open>
  C37. The notification worker drains the outbox: with a valid lease setting, from any
  consistent outbox whose messages are due, the worker loop settles every message within
  \<open>max_attempts + 1\<close> rounds per message, whatever the gateway answers to each call (success,
  refusal, timeout, malformed response) and whichever welcomes were superseded, provided
  that rounds are not empty and the retry delays have passed in between. No message is
  left PENDING, and the outbox is consistent at the end. (An answer whose message id does
  not fit the database column is excluded.)
\<close>
theorem worker_drains_outbox:
  assumes "outbox_inv (ws_max_attempts ws) (core st)" and "welcome_keys_ok (core st)"
    and "validate_notification_worker_lease ws = Inr ()"
    and "\<forall>n\<in>set (notification_outboxes (core st)). due_by (ws_claim_ttl_seconds ws) t n"
    and "\<forall>passes\<in>set rounds. passes \<noteq> [] \<and> (\<forall>p\<in>set passes. sane_reply loads p)"
    and "spaced wp_claim_at wp_report_at 300 t (concat rounds)"
    and "(nat (ws_max_attempts ws) + 1) * length (notification_outboxes (core st)) \<le> length rounds"
  shows "outbox_inv (ws_max_attempts ws) (core (fst (run_worker_loop loads ws rounds (st, calls)))) \<and>
    (\<forall>n\<in>set (notification_outboxes (core (fst (run_worker_loop loads ws rounds (st, calls))))).
       no_status n \<noteq> OB_PENDING)"
proof -
  let ?s = "run_worker_loop loads ws rounds (st, calls)"
  have inv: "worker_inv ws (st, calls)" using assms(1,2) by (simp add: worker_inv_def)
  have due: "notification_worker.all_due ws t (st, calls)"
    using assms(4) by (simp add: notification_worker.all_due_def)
  have "total (delivery_credit (ws_max_attempts ws)) (notification_outboxes (core st)) \<le> length rounds"
    using total_credit_le assms(1,7) by (meson outbox_inv_row le_trans)
  then have "worker_inv ws ?s" and
    "total (delivery_credit (ws_max_attempts ws)) (notification_outboxes (core (fst ?s))) = 0"
    using notification_worker.drains [OF inv due assms(5,6)]
    by (simp_all add: notification_worker.left_over_def run_worker_loop_passes [OF assms(3)])
  then show ?thesis
    using delivery_credit_zero outbox_inv_row by (fastforce simp: worker_inv_def total_zero_iff)
qed

section \<open>A concrete run\<close>

definition sample_bot :: bot_db where
  "sample_bot = \<lparr> core = sample_outbox, telegram_updates = [], telegram_chat_states = [],
     access_decision_callbacks = [] \<rparr>"

definition sample_worker :: worker_settings where
  "sample_worker = \<lparr> ws_claim_ttl_seconds = 30, ws_max_attempts = 3, ws_gateway_timeout_seconds = 10 \<rparr>"

definition sample_pass :: "int \<Rightarrow> nat worker_pass" where
  "sample_pass t = \<lparr> wp_token = nat t, wp_claim_at = t, wp_report_at = t + 2, wp_reply = RequestError \<rparr>"

lemma sample_pass_sane: "sane_reply loads (sample_pass t)"
  by (simp add: sane_reply_def sample_pass_def)

lemma sample_bot_due: "\<forall>n\<in>set (notification_outboxes (core sample_bot)). due_by 30 100 n"
  by (simp add: sample_bot_def sample_outbox_rows sample_row_def new_notification_def due_by_def)

lemma sample_bot_keys: "welcome_keys_ok (core sample_bot)"
  by (simp add: sample_bot_def sample_outbox_rows sample_row_def new_notification_def
      welcome_keys_ok_def welcome_key_context_def START_WELCOME_DEDUPE_PREFIX_def)

theorem worker_drains_outbox_witness:
  "OB_PENDING \<notin> no_status ` set (notification_outboxes (core (fst (run_worker_loop (\<lambda>_. None)
      sample_worker [[sample_pass 500], [sample_pass 1000], [sample_pass 1500], [sample_pass 2000]]
      (sample_bot, [])))))"
proof -
  have inv: "outbox_inv (ws_max_attempts sample_worker) (core sample_bot)"
    using sample_outbox_inv by (simp add: sample_worker_def sample_bot_def)
  have due: "\<forall>n\<in>set (notification_outboxes (core sample_bot)).
      due_by (ws_claim_ttl_seconds sample_worker) 100 n"
    using sample_bot_due by (simp add: sample_worker_def)
  have lease: "validate_notification_worker_lease sample_worker = Inr ()"
    by (simp add: validate_notification_worker_lease_def sample_worker_def)
  have "\<forall>n\<in>set (notification_outboxes (core (fst (run_worker_loop (\<lambda>_. None) sample_worker
      [[sample_pass 500], [sample_pass 1000], [sample_pass 1500], [sample_pass 2000]]
      (sample_bot, []))))). no_status n \<noteq> OB_PENDING"
    by (rule conjunct2 [OF worker_drains_outbox [OF inv sample_bot_keys lease due]])
      (auto simp: sample_pass_sane, simp_all add: sample_pass_def sample_worker_def sample_bot_def
        sample_outbox_rows)
  then show ?thesis by force
qed

end
