(* ===== verification/Init_Data.thy ===== *)
theory Init_Data
  imports Auth Reach Pynumber Procurement_Notify
begin

text \<open>
  The check of Telegram's sign-in data (\<open>auth/telegram.py\<close>): the query string is parsed into
  unique fields, the hash field must be the keyed digest of the others, the data must be
  fresh, and the user field must hold a valid person. Texts are lists of code points here,
  because the query string may hold any character; \<open>urllib.parse.parse_qsl\<close>, percent decoding
  and UTF-8 are written out. Arguments stand for the keyed digest (\<open>hmac\<close> with SHA-256), for
  \<open>json.loads\<close>, for Python's \<open>int\<close> of a text with characters outside of ASCII, and for the
  number and truth value coercions of pydantic.
\<close>

section \<open>UTF-8\<close>

type_synonym bytes = "nat list"

definition REPLACEMENT :: nat where
  "REPLACEMENT = 65533"

definition is_scalar :: "nat \<Rightarrow> bool" where
  "is_scalar p \<longleftrightarrow> p < 1114112 \<and> \<not> (55296 \<le> p \<and> p \<le> 57343)"

definition utf8_point :: "nat \<Rightarrow> bytes" where
  "utf8_point p =
     (if p < 128 then [p]
      else if p < 2048 then [192 + p div 64, 128 + p mod 64]
      else if p < 65536 then [224 + p div 4096, 128 + p div 64 mod 64, 128 + p mod 64]
      else [240 + p div 262144, 128 + p div 4096 mod 64, 128 + p div 64 mod 64, 128 + p mod 64])"

definition utf8_encode :: "code_points \<Rightarrow> bytes option" where
  "utf8_encode s = (if list_all is_scalar s then Some (concat (map utf8_point s)) else None)"

definition continuation :: "nat \<Rightarrow> bool" where
  "continuation b \<longleftrightarrow> 128 \<le> b \<and> b < 192"

text \<open>The second byte that may follow a lead byte, and how many bytes the lead announces.\<close>

definition second_ok :: "nat \<Rightarrow> nat \<Rightarrow> bool" where
  "second_ok lead b \<longleftrightarrow>
     (if lead = 224 then 160 \<le> b \<and> b < 192 else if lead = 237 then 128 \<le> b \<and> b < 160
      else if lead = 240 then 144 \<le> b \<and> b < 192 else if lead = 244 then 128 \<le> b \<and> b < 144
      else continuation b)"

text \<open>
  One decoded point and the number of bytes it takes; an ill-formed sequence yields one
  replacement character for its longest well-formed beginning.
\<close>

fun utf8_step :: "nat \<Rightarrow> bytes \<Rightarrow> nat \<times> nat" where
  "utf8_step b bs =
     (if b < 128 then (b, 1)
      else if 194 \<le> b \<and> b < 224
      then (case bs of c # _ \<Rightarrow> if continuation c then ((b - 192) * 64 + (c - 128), 2) else (REPLACEMENT, 1)
            | [] \<Rightarrow> (REPLACEMENT, 1))
      else if 224 \<le> b \<and> b < 240
      then (case bs of
              c # cs \<Rightarrow>
                if \<not> second_ok b c then (REPLACEMENT, 1)
                else (case cs of
                        e # _ \<Rightarrow> if continuation e
                                 then ((b - 224) * 4096 + (c - 128) * 64 + (e - 128), 3)
                                 else (REPLACEMENT, 2)
                      | [] \<Rightarrow> (REPLACEMENT, 2))
            | [] \<Rightarrow> (REPLACEMENT, 1))
      else if 240 \<le> b \<and> b < 245
      then (case bs of
              c # cs \<Rightarrow>
                if \<not> second_ok b c then (REPLACEMENT, 1)
                else (case cs of
                        e # es \<Rightarrow>
                          if \<not> continuation e then (REPLACEMENT, 2)
                          else (case es of
                                  g # _ \<Rightarrow> if continuation g
                                    then ((b - 240) * 262144 + (c - 128) * 4096 + (e - 128) * 64 + (g - 128), 4)
                                    else (REPLACEMENT, 3)
                                | [] \<Rightarrow> (REPLACEMENT, 3))
                      | [] \<Rightarrow> (REPLACEMENT, 2))
            | [] \<Rightarrow> (REPLACEMENT, 1))
      else (REPLACEMENT, 1))"

declare utf8_step.simps [simp del]

lemma utf8_step_consumes: "0 < snd (utf8_step b bs)"
  by (simp add: utf8_step.simps split: list.splits)

function utf8_decode :: "bytes \<Rightarrow> code_points" where
  "utf8_decode [] = []"
| "utf8_decode (b # bs) = fst (utf8_step b bs) # utf8_decode (drop (snd (utf8_step b bs)) (b # bs))"
  by pat_completeness auto
termination
  by (relation "measure length") (use utf8_step_consumes in \<open>auto simp: less_diff_conv\<close>)

declare utf8_decode.simps(2) [simp del]

section \<open>Percent decoding\<close>

definition hex_value :: "nat \<Rightarrow> nat option" where
  "hex_value c =
     (if 48 \<le> c \<and> c \<le> 57 then Some (c - 48) else if 65 \<le> c \<and> c \<le> 70 then Some (c - 55)
      else if 97 \<le> c \<and> c \<le> 102 then Some (c - 87) else None)"

fun unquote_to_bytes :: "code_points \<Rightarrow> bytes" where
  "unquote_to_bytes (p # a # b # cs) =
     (if p = 37
      then (case (hex_value a, hex_value b) of
              (Some x, Some y) \<Rightarrow> (16 * x + y) # unquote_to_bytes cs
            | _ \<Rightarrow> p # unquote_to_bytes (a # b # cs))
      else p # unquote_to_bytes (a # b # cs))"
| "unquote_to_bytes cs = cs"

definition is_ascii :: "nat \<Rightarrow> bool" where
  "is_ascii c \<longleftrightarrow> c < 128"

function unquote :: "code_points \<Rightarrow> code_points" where
  "unquote [] = []"
| "unquote (c # cs) =
     (if is_ascii c
      then utf8_decode (unquote_to_bytes (takeWhile is_ascii (c # cs))) @ unquote (dropWhile is_ascii (c # cs))
      else c # unquote cs)"
  by pat_completeness auto
termination
  by (relation "measure length") (auto simp: less_Suc_eq_le length_dropWhile_le)

declare unquote.simps(2) [simp del]

section \<open>Query strings\<close>

fun split_on :: "nat \<Rightarrow> code_points \<Rightarrow> code_points list" where
  "split_on sep [] = [[]]"
| "split_on sep (c # cs) =
     (if c = sep then [] # split_on sep cs
      else (case split_on sep cs of w # ws \<Rightarrow> (c # w) # ws | [] \<Rightarrow> [[c]]))"

definition plus_to_space :: "code_points \<Rightarrow> code_points" where
  "plus_to_space s = map (\<lambda>c. if c = 43 then 32 else c) s"

definition parse_pair :: "code_points \<Rightarrow> (code_points \<times> code_points) option" where
  "parse_pair s =
     (if 61 \<notin> set s then None
      else Some (unquote (plus_to_space (takeWhile (\<lambda>c. c \<noteq> 61) s)),
                 unquote (plus_to_space (tl (dropWhile (\<lambda>c. c \<noteq> 61) s)))))"

definition parse_qsl :: "nat \<Rightarrow> code_points \<Rightarrow> (code_points \<times> code_points) list option" where
  "parse_qsl max_num_fields qs =
     (if qs = [] then Some []
      else if max_num_fields < 1 + count_list qs 38 then None
      else those (map parse_pair (split_on 38 qs)))"

section \<open>Fields\<close>

record init_env =
  ie_hmac :: "bytes \<Rightarrow> bytes \<Rightarrow> bytes"
  ie_loads :: "code_points \<Rightarrow> json option"
  ie_unicode_int :: "code_points \<Rightarrow> int option"
  ie_coerce_int :: "json \<Rightarrow> int option"
  ie_coerce_bool :: "json \<Rightarrow> bool option"

datatype init_error = TelegramInitDataError | InitUnicodeEncodeError

type_synonym init_fields = "(code_points \<times> code_points) list"

definition cps :: "string \<Rightarrow> code_points" where
  "cps s = map code_point s"

definition MAX_INIT_DATA_LENGTH :: nat where
  "MAX_INIT_DATA_LENGTH = 16384"

definition MAX_INIT_DATA_FIELDS :: nat where
  "MAX_INIT_DATA_FIELDS = 100"

definition MAX_FUTURE_SKEW_SECONDS :: int where
  "MAX_FUTURE_SKEW_SECONDS = 30"

definition add_field :: "code_points \<times> code_points \<Rightarrow> init_fields \<Rightarrow> init_error + init_fields" where
  "add_field pair fs =
     (case pair of (k, v) \<Rightarrow>
        if k = [] \<or> k \<in> fst ` set fs then Inl TelegramInitDataError else Inr (fs @ [(k, v)]))"

definition parse_unique_fields :: "code_points \<Rightarrow> init_error + init_fields" where
  "parse_unique_fields init_data =
     (if init_data = [] \<or> length init_data > MAX_INIT_DATA_LENGTH then Inl TelegramInitDataError
      else case parse_qsl MAX_INIT_DATA_FIELDS init_data of
        None \<Rightarrow> Inl TelegramInitDataError
      | Some pairs \<Rightarrow> efold add_field pairs [])"

section \<open>The keyed digest\<close>

definition hex_digit :: "nat \<Rightarrow> nat" where
  "hex_digit d = (if d < 10 then 48 + d else 87 + d)"

definition hex_byte :: "nat \<Rightarrow> code_points" where
  "hex_byte b = [hex_digit (b div 16), hex_digit (b mod 16)]"

definition hexdigest :: "bytes \<Rightarrow> code_points" where
  "hexdigest bs = concat (map hex_byte bs)"

fun join_lines :: "code_points list \<Rightarrow> code_points" where
  "join_lines [] = []"
| "join_lines [l] = l"
| "join_lines (l # ls) = l @ [10] @ join_lines ls"

definition data_check_string :: "init_fields \<Rightarrow> code_points" where
  "data_check_string fs =
     join_lines (map (\<lambda>(k, v). k @ [61] @ v)
       (sort_key fst (filter (\<lambda>(k, v). k \<noteq> cps ''hash'') fs)))"

definition expected_hash :: "init_env \<Rightarrow> init_fields \<Rightarrow> code_points \<Rightarrow> init_error + code_points" where
  "expected_hash env fs bot_token =
     ebind (from_option InitUnicodeEncodeError (utf8_encode bot_token)) (\<lambda>token.
     ebind (from_option InitUnicodeEncodeError (utf8_encode (data_check_string fs))) (\<lambda>data.
     let secret_key = ie_hmac env (cps ''WebAppData'') token
     in Inr (hexdigest (ie_hmac env secret_key data))))"

section \<open>The user\<close>

definition optional_text :: "nat \<Rightarrow> json option \<Rightarrow> init_error + string option" where
  "optional_text max_length v =
     (case v of
        None \<Rightarrow> Inr None
      | Some JNull \<Rightarrow> Inr None
      | Some (JStr s) \<Rightarrow> if length s \<le> max_length then Inr (Some s) else Inl TelegramInitDataError
      | Some _ \<Rightarrow> Inl TelegramInitDataError)"

definition validate_user :: "init_env \<Rightarrow> json \<Rightarrow> init_error + telegram_web_app_user \<times> bool" where
  "validate_user env payload =
     (case payload of
        JObj _ \<Rightarrow>
          ebind (from_option TelegramInitDataError
              (Option.bind (json_get ''id'' payload) (ie_coerce_int env))) (\<lambda>i.
          ebind (ensure (0 < i \<and> i \<le> 2 ^ 52) TelegramInitDataError) (\<lambda>_.
          ebind (case json_get ''first_name'' payload of
                   Some (JStr s) \<Rightarrow> if 1 \<le> length s \<and> length s \<le> 255 then Inr s else Inl TelegramInitDataError
                 | _ \<Rightarrow> Inl TelegramInitDataError) (\<lambda>first_name.
          ebind (optional_text 255 (json_get ''last_name'' payload)) (\<lambda>last_name.
          ebind (optional_text 64 (json_get ''username'' payload)) (\<lambda>username.
          ebind (optional_text 35 (json_get ''language_code'' payload)) (\<lambda>language_code.
          ebind (case json_get ''is_bot'' payload of
                   None \<Rightarrow> Inr False
                 | Some v \<Rightarrow> from_option TelegramInitDataError (ie_coerce_bool env v)) (\<lambda>is_bot.
          Inr (\<lparr> tg_id = i, tg_first_name = first_name, tg_last_name = last_name,
                 tg_username = username, tg_language_code = language_code \<rparr>, is_bot))))))))
      | _ \<Rightarrow> Inl TelegramInitDataError)"

section \<open>Validation\<close>

record validated_telegram_init_data =
  vi_user :: telegram_web_app_user
  vi_auth_date :: timestamp
  vi_query_id :: "code_points option"

definition is_hash :: "code_points \<Rightarrow> bool" where
  "is_hash s \<longleftrightarrow> length s = 64 \<and> list_all (\<lambda>c. hex_value c \<noteq> None) s"

definition ascii_lower :: "code_points \<Rightarrow> code_points" where
  "ascii_lower s = map (\<lambda>c. if 65 \<le> c \<and> c \<le> 90 then c + 32 else c) s"

definition parse_timestamp :: "init_env \<Rightarrow> code_points \<Rightarrow> int option" where
  "parse_timestamp env s =
     (case (if list_all is_ascii s then py_int (map char_of s) else ie_unicode_int env s) of
        None \<Rightarrow> None
      | Some t \<Rightarrow> if - 62135596800 \<le> t \<and> t \<le> 253402300799 then Some t else None)"

definition validate_telegram_init_data ::
    "init_env \<Rightarrow> code_points \<Rightarrow> code_points \<Rightarrow> int \<Rightarrow> timestamp \<Rightarrow> init_error + validated_telegram_init_data" where
  "validate_telegram_init_data env init_data bot_token max_age_seconds now =
     (if bot_token = [] then Inl TelegramInitDataError
      else
      ebind (parse_unique_fields init_data) (\<lambda>fs.
      case map_of fs (cps ''hash'') of
        None \<Rightarrow> Inl TelegramInitDataError
      | Some provided_hash \<Rightarrow>
      if \<not> is_hash provided_hash then Inl TelegramInitDataError
      else
      ebind (expected_hash env fs bot_token) (\<lambda>expected.
      if expected \<noteq> ascii_lower provided_hash then Inl TelegramInitDataError
      else
      ebind (from_option TelegramInitDataError
          (Option.bind (map_of fs (cps ''auth_date'')) (parse_timestamp env))) (\<lambda>auth_date.
      let age_seconds = now - auth_date in
      if age_seconds < - MAX_FUTURE_SKEW_SECONDS then Inl TelegramInitDataError
      else if age_seconds > max_age_seconds then Inl TelegramInitDataError
      else
      ebind (from_option TelegramInitDataError
          (Option.bind (map_of fs (cps ''user'')) (ie_loads env))) (\<lambda>payload.
      ebind (validate_user env payload) (\<lambda>(user, is_bot).
      if is_bot then Inl TelegramInitDataError
      else Inr \<lparr> vi_user = user, vi_auth_date = auth_date,
                 vi_query_id = map_of fs (cps ''query_id'') \<rparr>))))))"

end
