(* ===== verification/Init_Data_Proofs.thy ===== *)
theory Init_Data_Proofs
  imports Init_Data
begin

text \<open>
  Sign-in data as Telegram builds it is accepted exactly when its hash is the keyed digest
  of its other fields. The proof runs through the encodings: UTF-8 and percent encoding are
  undone by the decoder, the query string splits back into its fields.
\<close>

section \<open>UTF-8 round trip\<close>

text \<open>The base-64 digits of a code point.\<close>

lemma base64_digits:
  fixes p :: nat
  obtains a b c where "p mod 64 = c" "p div 64 mod 64 = b" "p div 4096 = a" "c < 64" "b < 64"
    "p = a * 4096 + b * 64 + c"
proof
  have "p div 4096 = p div 64 div 64" by (simp add: div_mult2_eq [symmetric])
  then show "p = p div 4096 * 4096 + p div 64 mod 64 * 64 + p mod 64"
    using div_mult_mod_eq [of p 64] div_mult_mod_eq [of "p div 64" 64] by linarith
qed simp_all

lemma utf8_step_point:
  assumes "is_scalar p"
  shows "utf8_step (hd (utf8_point p)) (tl (utf8_point p) @ bs) = (p, length (utf8_point p))"
proof -
  obtain a b c where d: "p mod 64 = c" "p div 64 mod 64 = b" "p div 4096 = a" "c < 64" "b < 64"
    and p: "p = a * 4096 + b * 64 + c" by (rule base64_digits)
  consider "p < 128" | "128 \<le> p" "p < 2048" | "2048 \<le> p" "p < 65536" | "65536 \<le> p" "p < 1114112"
    using assms by (fastforce simp: is_scalar_def)
  then show ?thesis
  proof cases
    case 1
    then show ?thesis by (simp add: utf8_point_def utf8_step.simps)
  next
    case 2
    then have "2 \<le> p div 64" "p div 64 < 32" by auto
    then show ?thesis using 2 by (simp add: utf8_point_def utf8_step.simps continuation_def)
  next
    case 3
    have "second_ok (224 + a) (128 + b)"
      using 3 d(4,5) p assms by (auto simp: second_ok_def continuation_def is_scalar_def)
    moreover have "a < 16" using 3 p by linarith
    ultimately show ?thesis using 3 d(4,5)
      by (simp add: utf8_point_def d utf8_step.simps continuation_def) (simp add: p)
  next
    case 4
    obtain a1 a2 where a: "a mod 64 = a2" "a div 64 = a1" "a2 < 64" "a = a1 * 64 + a2"
      using div_mult_mod_eq [of a 64] by (metis mod_less_divisor zero_less_numeral)
    have "p div 262144 = a div 64" using d(3) by (simp add: div_mult2_eq [symmetric])
    then have digits: "p div 262144 = a1" "p div 4096 mod 64 = a2" using a d(3) by simp_all
    have "second_ok (240 + a1) (128 + a2)"
      using 4 d(4,5) p a by (auto simp: second_ok_def continuation_def)
    moreover have "a1 < 5" using 4 p a(4) by linarith
    ultimately show ?thesis using 4 d(4,5) a(3)
      by (simp add: utf8_point_def digits d(1,2) utf8_step.simps continuation_def) (simp add: p a(4))
  qed
qed

lemma utf8_point_nonempty [simp]: "utf8_point p \<noteq> []"
  by (simp add: utf8_point_def)

lemma utf8_decode_point:
  assumes "is_scalar p"
  shows "utf8_decode (utf8_point p @ bs) = p # utf8_decode bs"
proof -
  obtain b tail where u: "utf8_point p = b # tail" by (cases "utf8_point p") auto
  have "utf8_step b (tail @ bs) = (p, length (utf8_point p))" using utf8_step_point [OF assms] u by simp
  then show ?thesis using utf8_decode.simps(2) [of b "tail @ bs"] by (simp add: u)
qed

definition utf8 :: "code_points \<Rightarrow> bytes" where
  "utf8 s = concat (map utf8_point s)"

lemma utf8_decode_utf8: "list_all is_scalar s \<Longrightarrow> utf8_decode (utf8 s) = s"
  by (induction s) (simp_all add: utf8_def utf8_decode_point)

lemma utf8_encode_scalar: "list_all is_scalar s \<Longrightarrow> utf8_encode s = Some (utf8 s)"
  by (simp add: utf8_encode_def utf8_def)

lemma utf8_bytes: "list_all is_scalar s \<Longrightarrow> b \<in> set (utf8 s) \<Longrightarrow> b < 256"
  by (induction s) (auto simp: utf8_def utf8_point_def is_scalar_def split: if_splits)

section \<open>Percent encoding round trip\<close>

definition percent_encode :: "code_points \<Rightarrow> code_points" where
  "percent_encode s = concat (map (\<lambda>b. 37 # hex_byte b) (utf8 s))"

lemma hex_value_digit: "d < 16 \<Longrightarrow> hex_value (hex_digit d) = Some d"
  by (simp add: hex_value_def hex_digit_def)

lemma unquote_percent:
  "\<forall>b\<in>set bs. b < 256 \<Longrightarrow> unquote_to_bytes (concat (map (\<lambda>b. 37 # hex_byte b) bs)) = bs"
  by (induction bs) (simp_all add: hex_byte_def hex_value_digit less_mult_imp_div_less)

lemma percent_chars:
  assumes "list_all is_scalar s" and "c \<in> set (percent_encode s)"
  shows "is_ascii c" and "c \<noteq> 38" and "c \<noteq> 61" and "c \<noteq> 43"
proof -
  obtain b where b: "b \<in> set (utf8 s)" "c \<in> set (37 # hex_byte b)"
    using assms(2) unfolding percent_encode_def set_concat set_map by blast
  have "b div 16 < 16" "b mod 16 < 16" using utf8_bytes [OF assms(1) b(1)] by auto
  then show "is_ascii c" "c \<noteq> 38" "c \<noteq> 61" "c \<noteq> 43"
    using b(2) by (auto simp: hex_byte_def hex_digit_def is_ascii_def split: if_splits)
qed

lemma unquote_ascii: "\<forall>c\<in>set s. is_ascii c \<Longrightarrow> unquote s = utf8_decode (unquote_to_bytes s)"
  by (cases s) (simp_all add: unquote.simps(2) takeWhile_eq_all_conv [THEN iffD2] dropWhile_eq_Nil_conv [THEN iffD2])

lemma unquote_percent_encode:
  assumes "list_all is_scalar s"
  shows "unquote (plus_to_space (percent_encode s)) = s"
proof -
  have "plus_to_space (percent_encode s) = percent_encode s"
    unfolding plus_to_space_def by (rule map_idI) (use percent_chars(4) [OF assms] in auto)
  then show ?thesis
    using percent_chars(1) [OF assms] unquote_percent [of "utf8 s"] utf8_bytes [OF assms]
    by (simp add: unquote_ascii utf8_decode_utf8 [OF assms]) (simp add: percent_encode_def utf8_decode_utf8 [OF assms])
qed

section \<open>Query strings round trip\<close>

definition encode_pair :: "code_points \<times> code_points \<Rightarrow> code_points" where
  "encode_pair kv = percent_encode (fst kv) @ [61] @ percent_encode (snd kv)"

fun join_fields :: "code_points list \<Rightarrow> code_points" where
  "join_fields [] = []"
| "join_fields [w] = w"
| "join_fields (w # ws) = w @ [38] @ join_fields ws"

definition encode_fields :: "init_fields \<Rightarrow> code_points" where
  "encode_fields fs = join_fields (map encode_pair fs)"

definition scalar_pair :: "code_points \<times> code_points \<Rightarrow> bool" where
  "scalar_pair kv \<longleftrightarrow> list_all is_scalar (fst kv) \<and> list_all is_scalar (snd kv)"

lemma takeWhile_sep: "sep \<notin> set w \<Longrightarrow> takeWhile (\<lambda>c. c \<noteq> sep) (w @ sep # v) = w"
  by (induction w) auto

lemma dropWhile_sep: "sep \<notin> set w \<Longrightarrow> dropWhile (\<lambda>c. c \<noteq> sep) (w @ sep # v) = sep # v"
  by (induction w) auto

lemma parse_encoded_pair:
  assumes "scalar_pair kv"
  shows "parse_pair (encode_pair kv) = Some kv"
proof -
  have "61 \<notin> set (percent_encode (fst kv))" using percent_chars(3) assms by (auto simp: scalar_pair_def)
  then show ?thesis
    using assms
    by (simp add: parse_pair_def encode_pair_def takeWhile_sep dropWhile_sep scalar_pair_def
        unquote_percent_encode)
qed

lemma no_ampersand: "scalar_pair kv \<Longrightarrow> 38 \<notin> set (encode_pair kv)"
  using percent_chars(2) by (auto simp: encode_pair_def scalar_pair_def)

lemma split_word: "sep \<notin> set w \<Longrightarrow> split_on sep w = [w]"
  by (induction w) auto

lemma split_append: "sep \<notin> set w \<Longrightarrow> split_on sep (w @ sep # v) = w # split_on sep v"
  by (induction w) auto

lemma split_join_fields:
  "ws \<noteq> [] \<Longrightarrow> \<forall>w\<in>set ws. 38 \<notin> set w \<Longrightarrow> split_on 38 (join_fields ws) = ws"
  by (induction ws rule: join_fields.induct) (simp_all add: split_word split_append)

lemma count_join_fields:
  "ws \<noteq> [] \<Longrightarrow> \<forall>w\<in>set ws. 38 \<notin> set w \<Longrightarrow> Suc (count_list (join_fields ws) 38) = length ws"
  by (induction ws rule: join_fields.induct) (simp_all add: count_notin)

lemma those_map_parse:
  "\<forall>kv\<in>set fs. scalar_pair kv \<Longrightarrow> those (map parse_pair (map encode_pair fs)) = Some fs"
  by (induction fs) (simp_all add: parse_encoded_pair)

lemma encode_fields_nonempty: "fs \<noteq> [] \<Longrightarrow> encode_fields fs \<noteq> []"
  by (cases fs; cases "tl fs") (simp_all add: encode_fields_def encode_pair_def)

lemma parse_qsl_encode:
  assumes "fs \<noteq> []" and "\<forall>kv\<in>set fs. scalar_pair kv" and "length fs \<le> n"
  shows "parse_qsl n (encode_fields fs) = Some fs"
proof -
  have amp: "\<forall>w\<in>set (map encode_pair fs). 38 \<notin> set w" using no_ampersand assms(2) by auto
  have ne: "map encode_pair fs \<noteq> []" using assms(1) by simp
  show ?thesis
    using count_join_fields [OF ne amp] split_join_fields [OF ne amp] encode_fields_nonempty [OF assms(1)]
      those_map_parse [OF assms(2)] assms(3)
    by (simp add: parse_qsl_def encode_fields_def)
qed

lemma add_fields:
  assumes "distinct (map fst (gs @ fs))" and "[] \<notin> fst ` set fs"
  shows "efold add_field fs gs = Inr (gs @ fs)"
  using assms
proof (induction fs arbitrary: gs)
  case Nil
  then show ?case by simp
next
  case (Cons kv fs)
  obtain k v where kv: "kv = (k, v)" by (cases kv)
  have "add_field kv gs = Inr (gs @ [kv])" using Cons.prems by (auto simp: add_field_def kv)
  then show ?case using Cons.IH [of "gs @ [kv]"] Cons.prems by simp
qed

lemma parse_unique_encode:
  assumes "fs \<noteq> []" and "\<forall>kv\<in>set fs. scalar_pair kv" and "length fs \<le> MAX_INIT_DATA_FIELDS"
    and "distinct (map fst fs)" and "[] \<notin> fst ` set fs"
    and "length (encode_fields fs) \<le> MAX_INIT_DATA_LENGTH"
  shows "parse_unique_fields (encode_fields fs) = Inr fs"
  using parse_qsl_encode [OF assms(1-3)] add_fields [of "[]" fs] encode_fields_nonempty [OF assms(1)] assms
  by (simp add: parse_unique_fields_def)

section \<open>Signed data\<close>

definition sign :: "init_env \<Rightarrow> code_points \<Rightarrow> init_fields \<Rightarrow> code_points" where
  "sign env bot_token fs =
     hexdigest (ie_hmac env (ie_hmac env (cps ''WebAppData'') (utf8 bot_token)) (utf8 (data_check_string fs)))"

text \<open>The keyed digest has 32 bytes.\<close>

definition digest_ok :: "init_env \<Rightarrow> bool" where
  "digest_ok env \<longleftrightarrow> (\<forall>key data. length (ie_hmac env key data) = 32 \<and> (\<forall>b\<in>set (ie_hmac env key data). b < 256))"

lemma scalar_join_lines: "\<forall>l\<in>set ls. list_all is_scalar l \<Longrightarrow> list_all is_scalar (join_lines ls)"
  by (induction ls rule: join_lines.induct) (simp_all add: is_scalar_def)

lemma scalar_data_check: "\<forall>kv\<in>set fs. scalar_pair kv \<Longrightarrow> list_all is_scalar (data_check_string fs)"
  unfolding data_check_string_def
  by (rule scalar_join_lines) (auto simp: scalar_pair_def is_scalar_def)

lemma data_check_hash:
  assumes "cps ''hash'' \<notin> fst ` set fs"
  shows "data_check_string (fs @ [(cps ''hash'', h)]) = data_check_string fs"
  using assms by (simp add: data_check_string_def)

lemma hexdigest_hash:
  assumes "digest_ok env"
  shows "is_hash (hexdigest (ie_hmac env key data))"
    and "\<forall>c\<in>set (hexdigest (ie_hmac env key data)). 48 \<le> c \<and> c \<le> 57 \<or> 97 \<le> c \<and> c \<le> 102"
proof -
  let ?m = "ie_hmac env key data"
  have m: "length ?m = 32" "\<forall>b\<in>set ?m. b < 256" using assms by (auto simp: digest_ok_def)
  have len: "length (hexdigest bs) = 2 * length bs" for bs by (induction bs) (simp_all add: hexdigest_def hex_byte_def)
  show chars: "\<forall>c\<in>set (hexdigest ?m). 48 \<le> c \<and> c \<le> 57 \<or> 97 \<le> c \<and> c \<le> 102"
    using m(2) by (auto simp: hexdigest_def hex_byte_def hex_digit_def less_mult_imp_div_less)
  show "is_hash (hexdigest ?m)"
    unfolding is_hash_def using len [of ?m] m(1) chars by (auto simp: list_all_iff hex_value_def)
qed

lemma hash_of_lower:
  assumes "is_hash (ascii_lower h)"
  shows "is_hash h"
proof -
  let ?lower = "\<lambda>c. if 65 \<le> c \<and> c \<le> 90 then c + 32 else c"
  have char: "hex_value c \<noteq> None" if "hex_value (?lower c) \<noteq> None" for c
    using that by (auto simp: hex_value_def split: if_splits)
  have "list_all ((\<lambda>c. hex_value c \<noteq> None) \<circ> ?lower) h"
    using assms unfolding is_hash_def ascii_lower_def list.pred_map by blast
  then have "list_all (\<lambda>c. hex_value c \<noteq> None) h"
    by (rule list.pred_mono_strong) (use char in \<open>unfold comp_def, blast\<close>)
  then show ?thesis using assms by (simp add: is_hash_def ascii_lower_def)
qed

text \<open>
  C40. Sign-in data is accepted exactly when it is signed: take fields with distinct names, an
  \<open>auth_date\<close> within the allowed age and a valid \<open>user\<close> who is not a bot, encode them with a
  hash as Telegram does (UTF-8, percent encoding, one pair per field) within the size limits.
  If the hash, in upper or lower case, is the keyed digest of the sorted fields under the
  bot's token, the data is accepted and yields that user, that time and the query id of the
  fields; with every other hash it is refused.
\<close>
theorem init_data_accepted_iff_signed:
  assumes "digest_ok env" and "bot_token \<noteq> []" and "list_all is_scalar bot_token"
    and "\<forall>kv\<in>set (fs @ [(cps ''hash'', h)]). scalar_pair kv"
    and "distinct (map fst (fs @ [(cps ''hash'', h)]))" and "[] \<notin> fst ` set fs"
    and "length fs < MAX_INIT_DATA_FIELDS"
    and "length (encode_fields (fs @ [(cps ''hash'', h)])) \<le> MAX_INIT_DATA_LENGTH"
    and "map_of fs (cps ''auth_date'') = Some date" and "parse_timestamp env date = Some t"
    and "- MAX_FUTURE_SKEW_SECONDS \<le> now - t" and "now - t \<le> max_age"
    and "map_of fs (cps ''user'') = Some raw" and "ie_loads env raw = Some payload"
    and "validate_user env payload = Inr (person, False)"
  shows "validate_telegram_init_data env (encode_fields (fs @ [(cps ''hash'', h)])) bot_token max_age now =
    (if ascii_lower h = sign env bot_token fs
     then Inr \<lparr> vi_user = person, vi_auth_date = t, vi_query_id = map_of fs (cps ''query_id'') \<rparr>
     else Inl TelegramInitDataError)"
proof -
  let ?fs = "fs @ [(cps ''hash'', h)]"
  have parsed: "parse_unique_fields (encode_fields ?fs) = Inr ?fs"
  proof (rule parse_unique_encode)
    show "[] \<notin> fst ` set ?fs" using assms(6) by (auto simp: cps_def)
  qed (use assms in simp_all)
  have names: "cps ''hash'' \<noteq> cps ''auth_date''" "cps ''hash'' \<noteq> cps ''user''" "cps ''hash'' \<noteq> cps ''query_id''"
    by (simp_all add: cps_def code_point_def)
  have key: "cps ''hash'' \<notin> fst ` set fs" using assms(5) by simp
  then have "map_of fs (cps ''hash'') = None" by (simp add: map_of_eq_None_iff)
  then have lookup: "map_of ?fs (cps ''hash'') = Some h" "map_of ?fs (cps ''auth_date'') = Some date"
    "map_of ?fs (cps ''user'') = Some raw" "map_of ?fs (cps ''query_id'') = map_of fs (cps ''query_id'')"
    using assms(9,13) names names [symmetric] by (simp_all add: map_add_def split: option.splits)
  have "list_all is_scalar (data_check_string fs)" using scalar_data_check assms(4) by simp
  then have hash: "expected_hash env ?fs bot_token = Inr (sign env bot_token fs)"
    unfolding expected_hash_def data_check_hash [OF key]
    by (simp add: utf8_encode_scalar assms(3) sign_def Let_def)
  show ?thesis
  proof (cases "ascii_lower h = sign env bot_token fs")
    case True
    then have "is_hash h" using hexdigest_hash(1) [OF assms(1)] hash_of_lower by (simp add: sign_def)
    then show ?thesis
      using True parsed lookup hash assms(2,10-12,14,15)
      by (simp add: validate_telegram_init_data_def Let_def)
  next
    case False
    then show ?thesis
      using parsed lookup(1) hash assms(2) by (auto simp: validate_telegram_init_data_def)
  qed
qed

section \<open>A concrete sign-in\<close>

definition sample_init_env :: init_env where
  "sample_init_env = \<lparr> ie_hmac = (\<lambda>key data. replicate 32 171), ie_loads = (\<lambda>_. Some (JObj
     [(''id'', JInt 1002), (''first_name'', JStr ''A'')])), ie_unicode_int = (\<lambda>_. None),
     ie_coerce_int = (\<lambda>j. case j of JInt i \<Rightarrow> Some i | _ \<Rightarrow> None),
     ie_coerce_bool = (\<lambda>j. case j of JBool b \<Rightarrow> Some b | _ \<Rightarrow> None) \<rparr>"

definition sample_init_fields :: init_fields where
  "sample_init_fields = [(cps ''auth_date'', cps ''1000''), (cps ''user'', cps ''u'')]"

definition sample_hash :: code_points where
  "sample_hash = concat (replicate 32 [65, 66])"

lemma length_percent_ascii: "\<forall>c\<in>set s. is_ascii c \<Longrightarrow> length (percent_encode s) = 3 * length s"
  by (induction s) (simp_all add: percent_encode_def utf8_def utf8_point_def is_ascii_def hex_byte_def)

lemma sample_texts_ascii:
  "\<forall>c\<in>set (cps ''auth_date'') \<union> set (cps ''1000'') \<union> set (cps ''user'') \<union> set (cps ''u'') \<union>
     set (cps ''hash'') \<union> set sample_hash \<union> set (cps ''token''). is_ascii c"
  by (simp add: cps_def code_point_def is_ascii_def sample_hash_def)

lemma ascii_scalar: "\<forall>c\<in>set s. is_ascii c \<Longrightarrow> list_all is_scalar s"
  by (auto simp: list_all_iff is_ascii_def is_scalar_def)

lemma length_sample_hash: "length sample_hash = 64"
  by (simp add: sample_hash_def length_concat sum_list_replicate)

lemma sample_init_encoded:
  "\<forall>kv\<in>set (sample_init_fields @ [(cps ''hash'', sample_hash)]). scalar_pair kv"
  "distinct (map fst (sample_init_fields @ [(cps ''hash'', sample_hash)]))"
  "length (encode_fields (sample_init_fields @ [(cps ''hash'', sample_hash)])) \<le> MAX_INIT_DATA_LENGTH"
  using sample_texts_ascii
  by (simp_all add: sample_init_fields_def scalar_pair_def ascii_scalar encode_fields_def encode_pair_def
      length_percent_ascii MAX_INIT_DATA_LENGTH_def length_sample_hash)
    (simp_all add: cps_def code_point_def)

lemma sample_init_date: "parse_timestamp sample_init_env (cps ''1000'') = Some 1000"
proof -
  have "map char_of (cps ''1000'') = ''1000''" by code_simp
  moreover have "py_int ''1000'' = Some 1000" by code_simp
  moreover have "list_all is_ascii (cps ''1000'')" using sample_texts_ascii by (auto simp: list_all_iff)
  ultimately show ?thesis by (simp add: parse_timestamp_def)
qed

theorem init_data_accepted_iff_signed_witness:
  "\<exists>v. validate_telegram_init_data sample_init_env
      (encode_fields (sample_init_fields @ [(cps ''hash'', sample_hash)])) (cps ''token'') 300 1100 = Inr v \<and>
    tg_id (vi_user v) = 1002 \<and> vi_auth_date v = 1000"
proof -
  let ?person = "\<lparr> tg_id = 1002, tg_first_name = ''A'', tg_last_name = None, tg_username = None,
    tg_language_code = None \<rparr>"
  have env: "digest_ok sample_init_env" by (simp add: digest_ok_def sample_init_env_def)
  have look: "map_of sample_init_fields (cps ''auth_date'') = Some (cps ''1000'')"
    "map_of sample_init_fields (cps ''user'') = Some (cps ''u'')"
    by (simp_all add: sample_init_fields_def cps_def code_point_def)
  have user: "ie_loads sample_init_env (cps ''u'') = Some (JObj [(''id'', JInt 1002), (''first_name'', JStr ''A'')])"
    "validate_user sample_init_env (JObj [(''id'', JInt 1002), (''first_name'', JStr ''A'')]) = Inr (?person, False)"
    by (simp_all add: sample_init_env_def validate_user_def optional_text_def)
  have "ascii_lower sample_hash = sign sample_init_env (cps ''token'') sample_init_fields"
    by (simp add: sample_hash_def ascii_lower_def sign_def sample_init_env_def hexdigest_def hex_byte_def
        hex_digit_def map_concat)
  moreover have "list_all is_scalar (cps ''token'')" using sample_texts_ascii by (simp add: ascii_scalar)
  moreover have "cps ''token'' \<noteq> []" "[] \<notin> fst ` set sample_init_fields"
    "length sample_init_fields < MAX_INIT_DATA_FIELDS"
    by (simp_all add: cps_def sample_init_fields_def MAX_INIT_DATA_FIELDS_def)
  ultimately show ?thesis
    using init_data_accepted_iff_signed [OF env _ _ sample_init_encoded(1,2) _ _ sample_init_encoded(3)
        look(1) sample_init_date _ _ look(2) user, of "cps ''token''" 1100 300]
    by (simp add: MAX_FUTURE_SKEW_SECONDS_def)
qed

end
