(* ===== verification/Catalog_Query.thy ===== *)
theory Catalog_Query
  imports Catalog
begin

text \<open>
  Search, filtering and facets of the catalog (\<open>app/modules/catalog/query.py\<close>): the query
  specification built from request parameters, the predicate on items it stands for, the
  ordered and paged list, and the facets with their counts. A statement is its meaning on the
  rows: \<open>EXISTS\<close> a bounded quantifier, \<open>GROUP BY\<close> the classes of equal values, \<open>LIKE\<close> a matcher
  of patterns. The order of texts is that of the database collation, given by the sort key
  \<open>qe_collate\<close>. Labels and units of facets are display texts and left out.
\<close>

section \<open>Requests and specifications\<close>

datatype availability = AV_ANY | AV_IN_STOCK | AV_OUT_OF_STOCK
datatype item_sort =
  SORT_NAME | SORT_RELEVANCE | SORT_MANUFACTURER | SORT_AVAILABLE | SORT_TOTAL | SORT_SPEED
datatype sort_order = ORDER_ASC | ORDER_DESC

record attribute_filter =
  af_attribute_id :: uuid
  af_key :: string
  af_data_type :: attribute_data_type
  af_filter_type :: filter_type
  af_operator :: string
  af_value :: attribute_value

record query_request =
  rq_q :: "string option"
  rq_category_key :: "string option"
  rq_long_range :: bool
  rq_rj45 :: bool
  rq_item_status :: item_status
  rq_manufacturer_ids :: "uuid list"
  rq_availability :: string
  rq_location_ids :: "uuid list"
  rq_sort :: string
  rq_order :: string
  rq_filter_expressions :: "string list"

record catalog_query_spec =
  qs_tokens :: "string list"
  qs_category_id :: "uuid option"
  qs_category_ids :: "uuid list"
  qs_definitions :: "category_attribute list"
  qs_long_range :: bool
  qs_rj45 :: bool
  qs_category_key :: "string option"
  qs_status :: item_status
  qs_manufacturer_ids :: "uuid list"
  qs_availability :: availability
  qs_location_ids :: "uuid list"
  qs_attribute_filters :: "attribute_filter list"
  qs_sort :: item_sort
  qs_order :: sort_order

record query_env =
  qe_schema :: catalog_schema
  qe_collate :: "string \<Rightarrow> nat list"

definition MAX_SEARCH_TOKENS :: nat where "MAX_SEARCH_TOKENS = 12"
definition MAX_QUERY_VALUES :: nat where "MAX_QUERY_VALUES = 50"
definition MAX_FILTER_EXPRESSION_LENGTH :: nat where "MAX_FILTER_EXPRESSION_LENGTH = 2048"
definition MAX_FACET_VALUE_LIMIT :: nat where "MAX_FACET_VALUE_LIMIT = 100"

text \<open>\<open>dict.fromkeys\<close> and the order of \<open>set\<close> after sorting.\<close>

definition first_occurrences :: "'a list \<Rightarrow> 'a list" where
  "first_occurrences xs = rev (remdups (rev xs))"

definition normalize_query_tokens :: "string option \<Rightarrow> string + string list" where
  "normalize_query_tokens q =
     (case q of
        None \<Rightarrow> Inr []
      | Some s \<Rightarrow>
          (let normalized = normalize_idempotency_key s
           in if length normalized > 200 then Inl ''search_too_long''
              else if normalized = [] then Inr []
              else
                (let tokens = first_occurrences (map comparison_text (py_split normalized))
                 in if length tokens > MAX_SEARCH_TOKENS then Inl ''search_too_complex'' else Inr tokens)))"

definition upper :: "char \<Rightarrow> char" where
  "upper c = (let n = (of_char c :: nat) in if 97 \<le> n \<and> n \<le> 122 then char_of (n - 32) else c)"

definition parse_availability :: "string \<Rightarrow> string + availability" where
  "parse_availability raw =
     from_option ''availability_invalid'' (map_of [(''ANY'', AV_ANY), (''IN_STOCK'', AV_IN_STOCK),
       (''OUT_OF_STOCK'', AV_OUT_OF_STOCK)] (map upper (py_strip raw)))"

definition parse_sort :: "string \<Rightarrow> string + item_sort" where
  "parse_sort raw =
     from_option ''sort_invalid'' (map_of [(''name'', SORT_NAME), (''relevance'', SORT_RELEVANCE),
       (''manufacturer'', SORT_MANUFACTURER), (''available'', SORT_AVAILABLE), (''total'', SORT_TOTAL),
       (''speed'', SORT_SPEED)] (map casefold (py_strip raw)))"

definition parse_order :: "string \<Rightarrow> string + sort_order" where
  "parse_order raw =
     from_option ''order_invalid''
       (map_of [(''asc'', ORDER_ASC), (''desc'', ORDER_DESC)] (map casefold (py_strip raw)))"

definition scope_category_ids :: "catalog_schema \<Rightarrow> category \<Rightarrow> uuid list" where
  "scope_category_ids schema c =
     (if cat_parent_id c \<noteq> None then [cat_id c]
      else map cat_id (filter (\<lambda>x. cat_parent_id x = Some (cat_id c)) (cs_categories schema)))"

definition split_colon :: "string \<Rightarrow> (string \<times> string) option" where
  "split_colon s =
     (case dropWhile (\<lambda>c. c \<noteq> CHR '':'') s of
        [] \<Rightarrow> None | _ # rest \<Rightarrow> Some (takeWhile (\<lambda>c. c \<noteq> CHR '':'') s, rest))"

definition split_expression :: "string \<Rightarrow> string + string \<times> string \<times> string" where
  "split_expression s =
     from_option ''filter_malformed''
       (Option.bind (split_colon s) (\<lambda>(key, rest).
        Option.bind (split_colon rest) (\<lambda>(operator, raw_value).
        if py_strip key = [] \<or> py_strip operator = [] then None
        else Some (map casefold (py_strip key), map casefold (py_strip operator), raw_value))))"

definition parse_filter ::
    "category_attribute list \<Rightarrow> string \<Rightarrow> (string \<times> string) list \<times> attribute_filter list
       \<Rightarrow> string + (string \<times> string) list \<times> attribute_filter list" where
  "parse_filter definitions expression state =
     (case state of (range_boundaries, parsed) \<Rightarrow>
     ebind (split_expression expression) (\<lambda>(key, operator, raw_value).
     ebind (from_option ''filter_unknown_attribute'' (by_key definitions key)) (\<lambda>a.
     ebind (ensure (at_filterable a \<and> at_filter_type a \<noteq> FT_NONE) ''filter_not_filterable'') (\<lambda>_.
     ebind (ensure (operator \<in> set (if at_filter_type a = FT_EXACT then [''eq''] else [''eq'', ''gte'', ''lte'']))
       ''filter_operator_not_allowed'') (\<lambda>_.
     ebind (ensure (operator \<in> {''gte'', ''lte''} \<longrightarrow> at_data_type a \<in> {DT_INTEGER, DT_DECIMAL})
       ''filter_operator_not_allowed'') (\<lambda>_.
     ebind (ensure (operator \<in> {''gte'', ''lte''} \<longrightarrow> (key, operator) \<notin> set range_boundaries)
       ''filter_range_boundary_conflict'') (\<lambda>_.
     ebind (case prepare_attribute_filter_value a raw_value of
              Inl e \<Rightarrow> Inl (if e = schema_error then e else ''filter_value_invalid'')
            | Inr v \<Rightarrow> Inr v) (\<lambda>v.
     Inr (if operator \<in> {''gte'', ''lte''} then (key, operator) # range_boundaries else range_boundaries,
          parsed @ [\<lparr> af_attribute_id = at_id a, af_key = at_key a, af_data_type = at_data_type a,
            af_filter_type = at_filter_type a, af_operator = operator, af_value = v \<rparr>])))))))))"

definition check_request :: "query_request \<Rightarrow> string + unit" where
  "check_request r =
     ebind (ensure (\<not> (rq_rj45 r \<and> rq_long_range r)) ''transceiver_view_conflict'') (\<lambda>_.
     ebind (ensure (rq_rj45 r \<longrightarrow> rq_category_key r = Some ''transceiver_ethernet'')
       ''rj45_category_invalid'') (\<lambda>_.
     ebind (ensure (length (rq_manufacturer_ids r) \<le> MAX_QUERY_VALUES) ''query_too_complex'') (\<lambda>_.
     ebind (ensure (length (rq_location_ids r) \<le> MAX_QUERY_VALUES) ''query_too_complex'') (\<lambda>_.
     ebind (ensure (length (rq_filter_expressions r) \<le> MAX_QUERY_VALUES) ''query_too_complex'') (\<lambda>_.
     ensure (\<forall>e\<in>set (rq_filter_expressions r). length e \<le> MAX_FILTER_EXPRESSION_LENGTH)
       ''filter_too_long'')))))"

definition build_catalog_query_spec :: "catalog_schema \<Rightarrow> query_request \<Rightarrow> string + catalog_query_spec" where
  "build_catalog_query_spec schema r =
     ebind (normalize_query_tokens (rq_q r)) (\<lambda>tokens.
     ebind (check_request r) (\<lambda>_.
     ebind (case rq_category_key r of None \<Rightarrow> Inr None
            | Some k \<Rightarrow> ebind (get_category_by_key schema k) (\<lambda>c. Inr (Some c))) (\<lambda>category.
     let category_ids = (case category of None \<Rightarrow> [] | Some c \<Rightarrow> scope_category_ids schema c);
         definitions = sort_key at_key
           (filter (\<lambda>a. at_category_id a \<in> set category_ids) (cs_attributes schema)) in
     ebind (ensure (rq_filter_expressions r \<noteq> [] \<longrightarrow> category \<noteq> None) ''filter_category_required'') (\<lambda>_.
     ebind (parse_availability (rq_availability r)) (\<lambda>availability.
     ebind (parse_sort (rq_sort r)) (\<lambda>sort_by.
     ebind (parse_order (rq_order r)) (\<lambda>order.
     ebind (efold (parse_filter definitions) (rq_filter_expressions r) ([], [])) (\<lambda>(_, filters).
     Inr \<lparr> qs_tokens = tokens, qs_category_id = map_option cat_id category,
           qs_category_ids = category_ids, qs_definitions = definitions,
           qs_long_range = rq_long_range r, qs_rj45 = rq_rj45 r,
           qs_category_key = map_option cat_key category, qs_status = rq_item_status r,
           qs_manufacturer_ids = sort (remdups (rq_manufacturer_ids r)), qs_availability = availability,
           qs_location_ids = sort (remdups (rq_location_ids r)), qs_attribute_filters = filters,
           qs_sort = sort_by, qs_order = order \<rparr>))))))))"

section \<open>Patterns\<close>

text \<open>\<open>LIKE\<close> with the escape character \<open>\\<close>; \<open>ILIKE\<close> compares in lower case.\<close>

function sql_like :: "string \<Rightarrow> string \<Rightarrow> bool" where
  "sql_like [] s = (s = [])"
| "sql_like (p # ps) s =
     (if p = CHR 0x5C
      then (case (ps, s) of (q # qs, c # cs) \<Rightarrow> c = q \<and> sql_like qs cs | _ \<Rightarrow> False)
      else if p = CHR ''%''
      then sql_like ps s \<or> (case s of [] \<Rightarrow> False | c # cs \<Rightarrow> sql_like (p # ps) cs)
      else (case s of [] \<Rightarrow> False | c # cs \<Rightarrow> (p = CHR ''_'' \<or> c = p) \<and> sql_like ps cs))"
  by pat_completeness auto
termination
  by (relation "measure (\<lambda>(ps, s). length ps + length s)") auto

definition sql_ilike :: "string \<Rightarrow> string \<Rightarrow> bool" where
  "sql_ilike pattern s \<longleftrightarrow> sql_like (map casefold pattern) (map casefold s)"

definition py_replace :: "char \<Rightarrow> string \<Rightarrow> string \<Rightarrow> string" where
  "py_replace c r s = concat (map (\<lambda>x. if x = c then r else [x]) s)"

definition escaped_like_fragment :: "string \<Rightarrow> string" where
  "escaped_like_fragment v =
     py_replace (CHR ''_'') [CHR 0x5C, CHR ''_'']
       (py_replace (CHR ''%'') [CHR 0x5C, CHR ''%'']
         (py_replace (CHR 0x5C) [CHR 0x5C, CHR 0x5C] v))"

definition escaped_contains_pattern :: "string \<Rightarrow> string" where
  "escaped_contains_pattern v = ''%'' @ escaped_like_fragment v @ ''%''"

definition escaped_prefix_pattern :: "string \<Rightarrow> string" where
  "escaped_prefix_pattern v = escaped_like_fragment v @ ''%''"

section \<open>Predicates on items\<close>

text \<open>Equality of two values of an attribute column; texts are compared without case.\<close>

fun column_eq :: "attribute_value \<Rightarrow> attribute_value \<Rightarrow> bool" where
  "column_eq (AText s) (AText t) = (map casefold s = map casefold t)"
| "column_eq (ADecimal a) (ADecimal b) = (dec_value a = dec_value b)"
| "column_eq v w = (v = w)"

fun column_number :: "attribute_value \<Rightarrow> rat" where
  "column_number (AInteger i) = of_int i"
| "column_number (ADecimal v) = dec_value v"
| "column_number v = 0"

definition attribute_of :: "item \<Rightarrow> string \<Rightarrow> attribute_value option" where
  "attribute_of it key = map_of (it_attributes it) key"

definition attribute_value_column :: "attribute_data_type \<Rightarrow> attribute_value \<Rightarrow> attribute_value option" where
  "attribute_value_column t v = (if value_data_type v = t then Some v else None)"

definition category_key_of :: "catalog_schema \<Rightarrow> item \<Rightarrow> string option" where
  "category_key_of schema it = map_option cat_key (get_category schema (it_category_id it))"

definition long_range_predicate :: "catalog_schema \<Rightarrow> item \<Rightarrow> bool" where
  "long_range_predicate schema it \<longleftrightarrow>
     category_key_of schema it = Some ''transceiver_ethernet'' \<and>
     (case attribute_of it ''reach_m'' of Some (AInteger i) \<Rightarrow> 2000 \<le> i | _ \<Rightarrow> False)"

definition is_lower_alnum :: "char \<Rightarrow> bool" where
  "is_lower_alnum c \<longleftrightarrow> is_digit c \<or> (let n = (of_char c :: nat) in 97 \<le> n \<and> n \<le> 122)"

definition rj45_transceiver_predicate :: "catalog_schema \<Rightarrow> item \<Rightarrow> bool" where
  "rj45_transceiver_predicate schema it \<longleftrightarrow>
     category_key_of schema it = Some ''transceiver_ethernet'' \<and>
     (case attribute_of it ''connector'' of
        Some (AText s) \<Rightarrow> sql_like ''rj45%'' (filter is_lower_alnum (map casefold s))
      | _ \<Rightarrow> False)"

definition safe_integer_token :: "string \<Rightarrow> int option" where
  "safe_integer_token token =
     (let (neg, digits) = split_sign token;
          i = (if neg then - int (digits_nat digits) else int (digits_nat digits))
      in if digits = [] \<or> \<not> list_all is_digit digits \<or> length digits > 4300 then None
         else if MIN_SAFE_INTEGER \<le> i \<and> i \<le> MAX_SAFE_INTEGER then Some i else None)"

definition safe_decimal_token :: "string \<Rightarrow> decimal option" where
  "safe_decimal_token token =
     (case parse_decimal token of
        None \<Rightarrow> None
      | Some v \<Rightarrow> if validate_decimal_storage v = Inr () then Some v else None)"

definition token_value_matches :: "string \<Rightarrow> attribute_value \<Rightarrow> bool" where
  "token_value_matches token v \<longleftrightarrow>
     (case v of
        AInteger i \<Rightarrow> safe_integer_token token = Some i
      | ADecimal w \<Rightarrow> (case safe_decimal_token token of None \<Rightarrow> False | Some t \<Rightarrow> dec_value w = dec_value t)
      | ABoolean b \<Rightarrow> token \<in> {''true'', ''false''} \<and> b = (token = ''true'')
      | _ \<Rightarrow> False)"

definition text_matches :: "string \<Rightarrow> attribute_value \<Rightarrow> bool" where
  "text_matches pattern v \<longleftrightarrow>
     (case v of AText s \<Rightarrow> sql_ilike pattern s | AEnum s \<Rightarrow> sql_ilike pattern s | _ \<Rightarrow> False)"

definition searchable_values :: "catalog_schema \<Rightarrow> item \<Rightarrow> attribute_value list" where
  "searchable_values schema it =
     map snd (filter (\<lambda>(k, v). \<exists>a\<in>set (cs_attributes schema).
       at_category_id a = it_category_id it \<and> at_key a = k \<and> at_searchable a) (it_attributes it))"

definition item_manufacturer :: "db \<Rightarrow> item \<Rightarrow> manufacturer option" where
  "item_manufacturer d it = Option.bind (it_manufacturer_id it) (\<lambda>m. table_get mf_id m (manufacturers d))"

definition column_like :: "string \<Rightarrow> string option \<Rightarrow> bool" where
  "column_like pattern column = (case column of None \<Rightarrow> False | Some s \<Rightarrow> sql_like pattern s)"

definition search_predicate :: "catalog_schema \<Rightarrow> db \<Rightarrow> string \<Rightarrow> item \<Rightarrow> bool" where
  "search_predicate schema d token it \<longleftrightarrow>
     (let pattern = escaped_contains_pattern token
      in sql_like pattern (it_normalized_name it) \<or> column_like pattern (it_normalized_model it) \<or>
         column_like pattern (map_option mf_normalized_name (item_manufacturer d it)) \<or>
         (\<exists>v\<in>set (searchable_values schema it). text_matches pattern v \<or> token_value_matches token v))"

definition filter_value_matches :: "attribute_filter list \<Rightarrow> attribute_value \<Rightarrow> bool" where
  "filter_value_matches filters v \<longleftrightarrow>
     (let equal_values = map af_value (filter (\<lambda>f. af_operator f = ''eq'') filters);
          first_type = af_data_type (hd filters)
      in value_data_type v = first_type \<and>
         (equal_values \<noteq> [] \<longrightarrow>
            (\<exists>w\<in>set equal_values. case (v, w) of
               (AText s, AText t) \<Rightarrow> sql_ilike (escaped_like_fragment t) s
             | _ \<Rightarrow> column_eq v w)) \<and>
         (\<forall>f\<in>set filters.
            (af_operator f = ''gte'' \<longrightarrow> column_number (af_value f) \<le> column_number v) \<and>
            (af_operator f = ''lte'' \<longrightarrow> column_number v \<le> column_number (af_value f))))"

definition attribute_filter_predicate :: "attribute_filter list \<Rightarrow> item \<Rightarrow> bool" where
  "attribute_filter_predicate filters it \<longleftrightarrow>
     (case attribute_of it (af_key (hd filters)) of
        None \<Rightarrow> False | Some v \<Rightarrow> filter_value_matches filters v)"

definition in_stock :: "db \<Rightarrow> item \<Rightarrow> bool" where
  "in_stock d it \<longleftrightarrow> (\<exists>b\<in>set (stock_balances d). sb_item_id b = it_id it \<and> 0 < sb_quantity b)"

definition stocked_at :: "db \<Rightarrow> uuid list \<Rightarrow> item \<Rightarrow> bool" where
  "stocked_at d ids it \<longleftrightarrow>
     (\<exists>b\<in>set (stock_balances d). sb_item_id b = it_id it \<and> sb_location_id b \<in> set ids)"

definition transceiver_view :: "catalog_schema \<Rightarrow> catalog_query_spec \<Rightarrow> item \<Rightarrow> bool" where
  "transceiver_view schema spec it \<longleftrightarrow>
     (if qs_rj45 spec then rj45_transceiver_predicate schema it
      else if qs_long_range spec then long_range_predicate schema it
      else if qs_category_key spec = Some ''transceiver_ethernet''
      then \<not> long_range_predicate schema it \<and> \<not> rj45_transceiver_predicate schema it
      else True)"

text \<open>The scope of the movement lists. It compares the key as the request spells it.\<close>

definition equipment_scope :: "catalog_schema \<Rightarrow> string option \<Rightarrow> bool \<Rightarrow> bool \<Rightarrow> string + (item \<Rightarrow> bool)" where
  "equipment_scope schema key long_range rj45 =
     ebind (case key of None \<Rightarrow> Inr []
            | Some k \<Rightarrow> ebind (get_category_by_key schema k) (\<lambda>c. Inr (scope_category_ids schema c))) (\<lambda>ids.
     Inr (\<lambda>it.
       (key \<notin> {None, Some []} \<longrightarrow> it_category_id it \<in> set ids) \<and>
       (if rj45 then rj45_transceiver_predicate schema it
        else if long_range then long_range_predicate schema it
        else if key = Some ''transceiver_ethernet''
        then \<not> long_range_predicate schema it \<and> \<not> rj45_transceiver_predicate schema it
        else True)))"

definition item_predicates :: "query_env \<Rightarrow> db \<Rightarrow> catalog_query_spec \<Rightarrow> string list \<Rightarrow> item \<Rightarrow> bool" where
  "item_predicates env d spec exclude it \<longleftrightarrow>
     it_status it = qs_status spec \<and>
     (qs_category_key spec \<noteq> None \<longrightarrow> it_category_id it \<in> set (qs_category_ids spec)) \<and>
     transceiver_view (qe_schema env) spec it \<and>
     (qs_manufacturer_ids spec \<noteq> [] \<and> ''manufacturer'' \<notin> set exclude \<longrightarrow>
        (\<exists>m\<in>set (qs_manufacturer_ids spec). it_manufacturer_id it = Some m)) \<and>
     (qs_availability spec \<noteq> AV_ANY \<and> ''availability'' \<notin> set exclude \<longrightarrow>
        in_stock d it = (qs_availability spec = AV_IN_STOCK)) \<and>
     (qs_location_ids spec \<noteq> [] \<and> ''location'' \<notin> set exclude \<longrightarrow> stocked_at d (qs_location_ids spec) it) \<and>
     (\<forall>token\<in>set (qs_tokens spec). search_predicate (qe_schema env) d token it) \<and>
     (\<forall>key\<in>set (map af_key (qs_attribute_filters spec)). ''attribute:'' @ key \<notin> set exclude \<longrightarrow>
        attribute_filter_predicate (filter (\<lambda>f. af_key f = key) (qs_attribute_filters spec)) it)"

definition matching_items :: "query_env \<Rightarrow> db \<Rightarrow> catalog_query_spec \<Rightarrow> string list \<Rightarrow> item list" where
  "matching_items env d spec exclude = filter (item_predicates env d spec exclude) (items d)"

section \<open>The list\<close>

definition available_count :: "db \<Rightarrow> item \<Rightarrow> int" where
  "available_count d it =
     sum_list (map sb_quantity (filter (\<lambda>b. sb_item_id b = it_id it) (stock_balances d)))"

definition normalized_text_relevance :: "string option \<Rightarrow> string \<Rightarrow> int \<Rightarrow> int \<Rightarrow> int \<Rightarrow> int" where
  "normalized_text_relevance column token w_exact w_prefix w_contains =
     (if column = Some token then w_exact
      else if column_like (escaped_prefix_pattern token) column then w_prefix
      else if column_like (escaped_contains_pattern token) column then w_contains
      else 0)"

definition value_relevance :: "string \<Rightarrow> attribute_value \<Rightarrow> int" where
  "value_relevance token v =
     (if token_value_matches token v then 100
      else if text_matches (escaped_like_fragment token) v then 100
      else if text_matches (escaped_prefix_pattern token) v then 75
      else if text_matches (escaped_contains_pattern token) v then 45
      else 0)"

definition searchable_attribute_relevance :: "catalog_schema \<Rightarrow> string \<Rightarrow> item \<Rightarrow> int" where
  "searchable_attribute_relevance schema token it =
     fold (\<lambda>v best. max best (value_relevance token v)) (searchable_values schema it) 0"

definition search_relevance_score :: "catalog_schema \<Rightarrow> db \<Rightarrow> catalog_query_spec \<Rightarrow> item \<Rightarrow> int" where
  "search_relevance_score schema d spec it =
     sum_list (map (\<lambda>token.
       normalized_text_relevance (it_normalized_model it) token 160 120 80 +
       normalized_text_relevance (Some (it_normalized_name it)) token 150 110 70 +
       normalized_text_relevance (map_option mf_normalized_name (item_manufacturer d it)) token 120 90 60 +
       searchable_attribute_relevance schema token it) (qs_tokens spec))"

text \<open>The first run of digits with an optional fraction.\<close>

definition speed_number :: "string \<Rightarrow> rat option" where
  "speed_number s =
     (let rest = dropWhile (\<lambda>c. \<not> is_digit c) s;
          whole = takeWhile is_digit rest;
          tail = dropWhile is_digit rest;
          fraction = (case tail of
             c # cs \<Rightarrow> if c = CHR ''.'' \<or> c = CHR '','' then takeWhile is_digit cs else []
           | [] \<Rightarrow> [])
      in if whole = [] then None
         else Some (of_nat (digits_nat (whole @ fraction)) / 10 ^ length fraction))"

definition speed_sort_value :: "item \<Rightarrow> rat option" where
  "speed_sort_value it =
     (case attribute_of it ''speed'' of Some (AText s) \<Rightarrow> speed_number s | _ \<Rightarrow> None)"

text \<open>\<open>ORDER BY\<close>: a later key breaks the ties of an earlier one, so it is sorted by first.\<close>

definition order_by :: "bool \<Rightarrow> ('a \<Rightarrow> 'k::linorder) \<Rightarrow> 'a list \<Rightarrow> 'a list" where
  "order_by descending k xs = (if descending then rev (sort_key k (rev xs)) else sort_key k xs)"

definition order_by_nulls_last :: "bool \<Rightarrow> ('a \<Rightarrow> ('k::linorder) option) \<Rightarrow> 'a list \<Rightarrow> 'a list" where
  "order_by_nulls_last descending k xs =
     order_by descending (\<lambda>x. the (k x)) (filter (\<lambda>x. k x \<noteq> None) xs) @ filter (\<lambda>x. k x = None) xs"

definition ordered_items :: "query_env \<Rightarrow> db \<Rightarrow> catalog_query_spec \<Rightarrow> item list \<Rightarrow> item list" where
  "ordered_items env d spec rows =
     (let descending = (qs_order spec = ORDER_DESC);
          item_name = (\<lambda>it. qe_collate env (it_normalized_name it));
          by_name = order_by descending item_name (order_by descending it_id rows)
      in case qs_sort spec of
           SORT_RELEVANCE \<Rightarrow>
             if qs_tokens spec = [] then by_name
             else order_by descending (search_relevance_score (qe_schema env) d spec)
               (order_by False item_name (order_by False it_id rows))
         | SORT_MANUFACTURER \<Rightarrow>
             order_by_nulls_last descending
               (\<lambda>it. map_option (\<lambda>m. qe_collate env (mf_normalized_name m)) (item_manufacturer d it)) by_name
         | SORT_AVAILABLE \<Rightarrow> order_by descending (available_count d) by_name
         | SORT_TOTAL \<Rightarrow> order_by descending (available_count d) by_name
         | SORT_SPEED \<Rightarrow> order_by_nulls_last descending speed_sort_value by_name
         | SORT_NAME \<Rightarrow> by_name)"

record catalog_list_record =
  cl_item :: item
  cl_attributes :: "(string \<times> attribute_value) list"
  cl_available_count :: int
  cl_total_count :: int

record catalog_item_page =
  cp_items :: "catalog_list_record list"
  cp_total :: nat

definition query_catalog_items ::
    "query_env \<Rightarrow> db \<Rightarrow> catalog_query_spec \<Rightarrow> nat \<Rightarrow> nat \<Rightarrow> string + catalog_item_page" where
  "query_catalog_items env d spec limit offset =
     (let matching = matching_items env d spec [] in
      ebind (emap (\<lambda>it. ebind (load_attributes (qe_schema env) it) (\<lambda>attributes.
          Inr \<lparr> cl_item = it, cl_attributes = attributes, cl_available_count = available_count d it,
                cl_total_count = available_count d it \<rparr>))
        (page limit offset (ordered_items env d spec matching))) (\<lambda>records.
      Inr \<lparr> cp_items = records, cp_total = length matching \<rparr>))"

end
