(* ===== verification/Catalog_Facets.thy ===== *)
theory Catalog_Facets
  imports Catalog_Query
begin

text \<open>
  The facets of the catalog list (\<open>_category_facet\<close> to \<open>query_catalog_facets\<close> of
  \<open>app/modules/catalog/query.py\<close>): for every filter the values that occur among the items
  matching all other filters, with the number of items each would leave. Rows of a statement
  with \<open>GROUP BY\<close> are a representative of every class of equal values.
\<close>

datatype facet_value = FV_uuid uuid | FV_text string | FV_value attribute_value | FV_null

record facet_value_record =
  fv_value :: facet_value
  fv_count :: nat

record facet_record =
  fr_key :: string
  fr_data_type :: attribute_data_type
  fr_filter_type :: filter_type
  fr_values :: "facet_value_record list"
  fr_values_has_more :: bool
  fr_minimum :: "attribute_value option"
  fr_maximum :: "attribute_value option"

definition facet_row :: "facet_value \<Rightarrow> nat \<Rightarrow> facet_value_record" where
  "facet_row v n = \<lparr> fv_value = v, fv_count = n \<rparr>"

text \<open>One row more than the limit is read to see whether there are more.\<close>

definition limited :: "nat \<Rightarrow> nat \<Rightarrow> 'a list \<Rightarrow> 'a list \<times> bool" where
  "limited value_limit value_offset xs =
     (let rows = page (value_limit + 1) value_offset xs
      in (take value_limit rows, length rows > value_limit))"

definition value_facet ::
    "string \<Rightarrow> attribute_data_type \<Rightarrow> filter_type \<Rightarrow> facet_value_record list \<times> bool \<Rightarrow> facet_record" where
  "value_facet key t f rows =
     \<lparr> fr_key = key, fr_data_type = t, fr_filter_type = f, fr_values = fst rows,
       fr_values_has_more = snd rows, fr_minimum = None, fr_maximum = None \<rparr>"

text \<open>An inner join leaves out the groups without a matching item.\<close>

definition counted :: "('a \<Rightarrow> facet_value) \<Rightarrow> ('a \<Rightarrow> item \<Rightarrow> bool) \<Rightarrow> item list \<Rightarrow> 'a list
    \<Rightarrow> facet_value_record list" where
  "counted value belongs matching groups =
     filter (\<lambda>r. fv_count r \<noteq> 0)
       (map (\<lambda>g. facet_row (value g) (length (filter (belongs g) matching))) groups)"

definition category_facet :: "query_env \<Rightarrow> db \<Rightarrow> catalog_query_spec \<Rightarrow> nat \<Rightarrow> nat \<Rightarrow> facet_record" where
  "category_facet env d spec value_limit value_offset =
     value_facet ''category'' DT_TEXT FT_EXACT (limited value_limit value_offset
       (counted (\<lambda>c. FV_text (cat_key c)) (\<lambda>c it. it_category_id it = cat_id c)
         (matching_items env d spec [''category''])
         (sort_key cat_sort_order (sort_key (\<lambda>c. qe_collate env (cat_key c)) (cs_categories (qe_schema env))))))"

definition manufacturer_facet :: "query_env \<Rightarrow> db \<Rightarrow> catalog_query_spec \<Rightarrow> nat \<Rightarrow> nat \<Rightarrow> facet_record" where
  "manufacturer_facet env d spec value_limit value_offset =
     value_facet ''manufacturer'' DT_TEXT FT_EXACT (limited value_limit value_offset
       (counted (\<lambda>m. FV_uuid (mf_id m)) (\<lambda>m it. it_manufacturer_id it = Some (mf_id m))
         (matching_items env d spec [''manufacturer''])
         (sort_key (\<lambda>m. qe_collate env (mf_normalized_name m)) (sort_key mf_id (manufacturers d)))))"

definition availability_facet :: "query_env \<Rightarrow> db \<Rightarrow> catalog_query_spec \<Rightarrow> facet_record" where
  "availability_facet env d spec =
     value_facet ''availability'' DT_ENUM FT_EXACT
       (counted (\<lambda>state. FV_text (if state then ''IN_STOCK'' else ''OUT_OF_STOCK''))
         (\<lambda>state it. in_stock d it = state) (matching_items env d spec [''availability'']) [True, False], False)"

definition location_facet :: "query_env \<Rightarrow> db \<Rightarrow> catalog_query_spec \<Rightarrow> nat \<Rightarrow> nat \<Rightarrow> facet_record" where
  "location_facet env d spec value_limit value_offset =
     value_facet ''location'' DT_TEXT FT_EXACT (limited value_limit value_offset
       (counted (\<lambda>l. FV_uuid (loc_id l)) (\<lambda>l. stocked_at d [loc_id l])
         (matching_items env d spec [''location''])
         (sort_key (\<lambda>l. qe_collate env (loc_normalized_code l)) (sort_key loc_id (locations d)))))"

section \<open>Attributes\<close>

definition facet_column ::
    "query_env \<Rightarrow> db \<Rightarrow> catalog_query_spec \<Rightarrow> category_attribute \<Rightarrow> attribute_value option list" where
  "facet_column env d spec a =
     List.map_filter (\<lambda>it. map_option (attribute_value_column (at_data_type a)) (attribute_of it (at_key a)))
       (matching_items env d spec [''attribute:'' @ at_key a])"

fun column_same :: "attribute_value option \<Rightarrow> attribute_value option \<Rightarrow> bool" where
  "column_same None None = True"
| "column_same (Some v) (Some w) = column_eq v w"
| "column_same _ _ = False"

fun representatives :: "('a \<Rightarrow> 'a \<Rightarrow> bool) \<Rightarrow> 'a list \<Rightarrow> 'a list" where
  "representatives eq [] = []"
| "representatives eq (x # xs) = x # filter (\<lambda>y. \<not> eq x y) (representatives eq xs)"

definition group_count :: "attribute_value option list \<Rightarrow> attribute_value option \<Rightarrow> nat" where
  "group_count column r = length (filter (column_same r) column)"

text \<open>\<open>min(text_value)\<close> of a class.\<close>

definition text_of :: "attribute_value option \<Rightarrow> string" where
  "text_of v = (case v of Some (AText s) \<Rightarrow> s | Some (AEnum s) \<Rightarrow> s | _ \<Rightarrow> [])"

definition smallest_text :: "query_env \<Rightarrow> attribute_value option list \<Rightarrow> attribute_value option \<Rightarrow> attribute_value option" where
  "smallest_text env column r =
     hd (sort_key (\<lambda>v. qe_collate env (text_of v)) (filter (column_same r) column))"

definition column_value :: "attribute_value option \<Rightarrow> facet_value" where
  "column_value v = (case v of None \<Rightarrow> FV_null | Some w \<Rightarrow> FV_value w)"

definition text_rows :: "query_env \<Rightarrow> attribute_value option list \<Rightarrow> facet_value_record list" where
  "text_rows env column =
     map (\<lambda>r. facet_row (column_value (smallest_text env column r)) (group_count column r))
       (order_by_nulls_last False (map_option (\<lambda>v. qe_collate env (map casefold (text_of (Some v)))))
         (representatives column_same column))"

definition number_rows :: "attribute_value option list \<Rightarrow> facet_value_record list" where
  "number_rows column =
     map (\<lambda>r. facet_row (column_value r) (group_count column r))
       (order_by_nulls_last False (map_option column_number) (representatives column_same column))"

definition listed_rows :: "attribute_value option list \<Rightarrow> attribute_value list \<Rightarrow> facet_value_record list" where
  "listed_rows column listed =
     map (\<lambda>v. facet_row (FV_value v) (group_count column (Some v)))
       (filter (\<lambda>v. Some v \<in> set column) listed)"

definition allowed_enums :: "category_attribute \<Rightarrow> string + attribute_value list" where
  "allowed_enums a =
     (case at_allowed_values a of
        Some (JList xs) \<Rightarrow> Inr (List.map_filter (\<lambda>x. case x of JStr s \<Rightarrow> Some (AEnum s) | _ \<Rightarrow> None) xs)
      | _ \<Rightarrow> Inl schema_error)"

text \<open>Python cannot sort \<open>None\<close> among numbers.\<close>

definition exact_rows ::
    "query_env \<Rightarrow> category_attribute \<Rightarrow> attribute_value option list \<Rightarrow> nat \<Rightarrow> nat
       \<Rightarrow> string + facet_value_record list \<times> bool" where
  "exact_rows env a column value_limit value_offset =
     (case at_data_type a of
        DT_TEXT \<Rightarrow> Inr (limited value_limit value_offset (text_rows env column))
      | DT_ENUM \<Rightarrow> ebind (allowed_enums a) (\<lambda>listed. Inr (listed_rows column listed, False))
      | DT_BOOLEAN \<Rightarrow> Inr (listed_rows column [ABoolean False, ABoolean True], False)
      | _ \<Rightarrow>
          (let (rows, has_more) = limited value_limit value_offset (number_rows column)
           in if length rows > 1 \<and> FV_null \<in> set (map fv_value rows) then Inl ''TypeError''
              else Inr (rows, has_more)))"

definition exact_attribute_facet ::
    "query_env \<Rightarrow> db \<Rightarrow> catalog_query_spec \<Rightarrow> category_attribute \<Rightarrow> nat \<Rightarrow> nat \<Rightarrow> string + facet_record" where
  "exact_attribute_facet env d spec a value_limit value_offset =
     ebind (exact_rows env a (facet_column env d spec a) value_limit value_offset) (\<lambda>rows.
     Inr (value_facet (at_key a) (at_data_type a) (at_filter_type a) rows))"

definition range_attribute_facet ::
    "query_env \<Rightarrow> db \<Rightarrow> catalog_query_spec \<Rightarrow> category_attribute \<Rightarrow> string + facet_record" where
  "range_attribute_facet env d spec a =
     (let column = List.map_filter (\<lambda>v. v) (facet_column env d spec a);
          ordered = (if at_data_type a \<in> {DT_INTEGER, DT_DECIMAL} then sort_key column_number column
                     else sort_key (\<lambda>v. qe_collate env (text_of (Some v))) column)
      in if at_data_type a = DT_BOOLEAN then Inl ''42883''
         else Inr \<lparr> fr_key = at_key a, fr_data_type = at_data_type a, fr_filter_type = at_filter_type a,
                    fr_values = [], fr_values_has_more = False,
                    fr_minimum = (if ordered = [] then None else Some (hd ordered)),
                    fr_maximum = (if ordered = [] then None else Some (last ordered)) \<rparr>)"

definition attribute_facet ::
    "query_env \<Rightarrow> db \<Rightarrow> catalog_query_spec \<Rightarrow> nat \<Rightarrow> nat \<Rightarrow> category_attribute \<Rightarrow> string + facet_record" where
  "attribute_facet env d spec value_limit value_offset a =
     (case at_filter_type a of
        FT_RANGE \<Rightarrow> range_attribute_facet env d spec a
      | FT_EXACT \<Rightarrow> exact_attribute_facet env d spec a value_limit value_offset
      | FT_NONE \<Rightarrow> Inl schema_error)"

section \<open>All facets\<close>

fun first_by_key :: "category_attribute list \<Rightarrow> category_attribute list" where
  "first_by_key [] = []"
| "first_by_key (a # as) = a # first_by_key (filter (\<lambda>b. at_key b \<noteq> at_key a) as)"

fun same_bound :: "attribute_value option \<Rightarrow> attribute_value option \<Rightarrow> bool" where
  "same_bound (Some (ADecimal a)) (Some (ADecimal b)) = (dec_value a = dec_value b)"
| "same_bound v w = (v = w)"

definition facet_worth_showing :: "facet_record \<Rightarrow> bool" where
  "facet_worth_showing f \<longleftrightarrow>
     fr_values_has_more f \<or> length (fr_values f) > 1 \<or>
     (fr_minimum f \<noteq> None \<and> \<not> same_bound (fr_maximum f) (fr_minimum f))"

definition query_catalog_facets ::
    "query_env \<Rightarrow> db \<Rightarrow> catalog_query_spec \<Rightarrow> int \<Rightarrow> int \<Rightarrow> string option \<Rightarrow> string + facet_record list" where
  "query_catalog_facets env d spec value_limit value_offset only_key =
     ebind (ensure (1 \<le> value_limit \<and> value_limit \<le> int MAX_FACET_VALUE_LIMIT) ''facet_limit_invalid'') (\<lambda>_.
     ebind (ensure (0 \<le> value_offset) ''facet_offset_invalid'') (\<lambda>_.
     ebind (ensure (0 < value_offset \<longrightarrow> only_key \<noteq> None) ''facet_key_required'') (\<lambda>_.
     let limit = nat value_limit; offset = nat value_offset;
         wanted = (\<lambda>key. only_key = None \<or> only_key = Some key);
         definitions = sort_key at_sort_order (sort_key at_key (filter at_filterable (qs_definitions spec))) in
     ebind (if qs_category_id spec = None then Inr []
            else emap (attribute_facet env d spec limit offset)
              (filter (\<lambda>a. wanted (at_key a)) (first_by_key definitions))) (\<lambda>attribute_facets.
     let facets =
       (if qs_category_id spec = None \<and> wanted ''category'' then [category_facet env d spec limit offset] else []) @
       (if wanted ''manufacturer'' then [manufacturer_facet env d spec limit offset] else []) @
       (if wanted ''availability'' then [availability_facet env d spec] else []) @
       (if wanted ''location'' then [location_facet env d spec limit offset] else []) @ attribute_facets
     in ebind (ensure (only_key \<noteq> None \<longrightarrow> facets \<noteq> []) ''facet_unknown'') (\<lambda>_.
        Inr (filter (\<lambda>f. only_key \<noteq> None \<or> facet_worth_showing f) facets))))))"

end
