(* ===== verification/Catalog_Patterns.thy ===== *)
theory Catalog_Patterns
  imports Catalog_Facets
begin

text \<open>
  What the search patterns mean: whatever characters a user types, the escaped fragment matches
  exactly itself, with a wildcard its extensions, with two the texts that contain it; and the
  equality of attribute columns is an equivalence, so classes of equal values are well defined.
\<close>

section \<open>Escaping\<close>

definition wildcard :: "char \<Rightarrow> bool" where
  "wildcard c \<longleftrightarrow> c = CHR 0x5C \<or> c = CHR ''%'' \<or> c = CHR ''_''"

definition escape :: "char \<Rightarrow> string" where
  "escape c = (if wildcard c then [CHR 0x5C, c] else [c])"

lemma replace_simps [simp]:
  "py_replace c r [] = []"
  "py_replace c r (x # s) = (if x = c then r else [x]) @ py_replace c r s"
  "py_replace c r (s @ t) = py_replace c r s @ py_replace c r t"
  by (simp_all add: py_replace_def)

lemma escaped_simps [simp]:
  "escaped_like_fragment [] = []"
  "escaped_like_fragment (c # s) = escape c @ escaped_like_fragment s"
  by (simp_all add: escaped_like_fragment_def escape_def wildcard_def)

lemma like_escaped:
  "sql_like (escape c @ ps) s \<longleftrightarrow> (\<exists>t. s = c # t \<and> sql_like ps t)"
  by (cases s) (auto simp: escape_def wildcard_def)

lemma like_fragment: "sql_like (escaped_like_fragment v @ ps) s \<longleftrightarrow> (\<exists>t. s = v @ t \<and> sql_like ps t)"
  by (induction v arbitrary: s) (auto simp: like_escaped)

lemma like_any [simp]: "sql_like ''%'' s"
  by (induction s) auto

lemma like_from_any: "sql_like (CHR ''%'' # ps) s \<longleftrightarrow> (\<exists>a t. s = a @ t \<and> sql_like ps t)"
proof (induction s)
  case Nil
  then show ?case by simp
next
  case (Cons c s)
  have "(\<exists>a t. c # s = a @ t \<and> sql_like ps t) \<longleftrightarrow> sql_like ps (c # s) \<or> (\<exists>a t. s = a @ t \<and> sql_like ps t)"
    by (metis append_Cons append_Nil append_eq_Cons_conv)
  with Cons show ?case by simp
qed

declare sql_like.simps(2) [simp del]

lemma like_exact: "sql_like (escaped_like_fragment v) s \<longleftrightarrow> s = v"
  using like_fragment [of v "[]" s] by simp

lemma like_prefix: "sql_like (escaped_prefix_pattern v) s \<longleftrightarrow> (\<exists>t. s = v @ t)"
  by (simp add: escaped_prefix_pattern_def like_fragment)

lemma like_contains: "sql_like (escaped_contains_pattern v) s \<longleftrightarrow> (\<exists>a b. s = a @ v @ b)"
  by (simp add: escaped_contains_pattern_def like_from_any like_fragment) blast

section \<open>Lower case\<close>

lemma casefold_wildcard: "wildcard (casefold c) = wildcard c" "wildcard c \<Longrightarrow> casefold c = c"
proof -
  have w: "wildcard c \<longleftrightarrow> of_char c \<in> {92, 37, 95 :: nat}" for c
    using of_char_eq_iff [of c "CHR 0x5C", where 'a = nat] of_char_eq_iff [of c "CHR ''%''", where 'a = nat]
      of_char_eq_iff [of c "CHR ''_''", where 'a = nat]
    by (auto simp: wildcard_def)
  show "wildcard (casefold c) = wildcard c" "wildcard c \<Longrightarrow> casefold c = c"
    unfolding w by (auto simp: casefold_def Let_def)
qed

lemma casefold_escaped: "map casefold (escaped_like_fragment v) = escaped_like_fragment (map casefold v)"
proof -
  have "map casefold (escape c) = escape (casefold c)" for c
    using casefold_wildcard(2) [of "CHR 0x5C"] casefold_wildcard(2) [of c] casefold_wildcard(1) [of c]
    by (cases "wildcard c") (simp_all add: escape_def wildcard_def)
  then show ?thesis by (induction v) simp_all
qed

lemma ilike_exact: "sql_ilike (escaped_like_fragment v) s \<longleftrightarrow> map casefold s = map casefold v"
  by (simp add: sql_ilike_def casefold_escaped like_exact)

section \<open>Classes of equal values\<close>

lemma column_eq_refl [simp]: "column_eq v v"
  by (cases v) simp_all

lemma column_eq_sym: "column_eq v w = column_eq w v"
  by (cases v; cases w) auto

lemma column_eq_trans: "column_eq u v \<Longrightarrow> column_eq v w \<Longrightarrow> column_eq u w"
  by (cases u; cases v; cases w) auto

lemma column_same_iff:
  "column_same v w \<longleftrightarrow> (v = None \<and> w = None) \<or> (\<exists>x y. v = Some x \<and> w = Some y \<and> column_eq x y)"
  by (cases v; cases w) auto

lemma column_same_refl [simp]: "column_same v v"
  by (cases v) simp_all

lemma column_same_cong: "column_same v w \<Longrightarrow> column_same v x = column_same w x"
  unfolding column_same_iff using column_eq_sym column_eq_trans by blast

lemma group_count_cong: "column_same v w \<Longrightarrow> group_count column v = group_count column w"
  using column_same_cong unfolding group_count_def by (intro arg_cong [where f = length] filter_cong) auto

lemma group_count_member: "v \<in> set column \<Longrightarrow> 0 < group_count column v"
  by (auto simp: group_count_def filter_empty_conv intro!: bexI [of _ v])

lemma set_representatives: "set (representatives eq xs) \<subseteq> set xs"
  by (induction xs) auto

section \<open>Orders and pages\<close>

lemma mset_order_by [simp]: "mset (order_by descending k xs) = mset xs"
  by (simp add: order_by_def)

lemma mset_order_by_nulls_last [simp]: "mset (order_by_nulls_last descending k xs) = mset xs"
  by (simp add: order_by_nulls_last_def)

lemma set_order_by_nulls_last [simp]: "set (order_by_nulls_last descending k xs) = set xs"
  by (rule mset_eq_setD) simp

lemma mset_ordered_items: "mset (ordered_items env d spec rows) = mset rows"
  by (simp add: ordered_items_def Let_def split: item_sort.splits)

lemma set_limited: "set (fst (limited n offset xs)) \<subseteq> set xs"
  by (auto simp: limited_def Let_def page_def dest!: in_set_takeD in_set_dropD)

lemma counted_row:
  assumes "r \<in> set (counted value belongs matching groups)"
  obtains g where "g \<in> set groups" and "fv_value r = value g"
    and "fv_count r = length (filter (belongs g) matching)" and "0 < fv_count r"
  using assms by (auto simp: counted_def facet_row_def)

end
