(* ===== verification/Catalog_Facets_Proofs.thy ===== *)
theory Catalog_Facets_Proofs
  imports Catalog_Patterns Catalog_Steps Samples
begin

text \<open>
  Facets and list agree: the count beside a facet value is the number of items the list shows
  once that value is chosen.
\<close>

text \<open>The unique columns of the two definition tables.\<close>

definition schema_keys_ok :: "catalog_schema \<Rightarrow> bool" where
  "schema_keys_ok schema \<longleftrightarrow>
     distinct (map cat_key (cs_categories schema)) \<and>
     distinct (map (\<lambda>a. (at_category_id a, at_key a)) (cs_attributes schema))"

text \<open>Items lie in leaf categories: the service accepts no other, and the category of an item never
  changes.\<close>

definition leaf_items :: "catalog_schema \<Rightarrow> db \<Rightarrow> bool" where
  "leaf_items schema d \<longleftrightarrow> (\<forall>it\<in>set (items d).
     \<exists>c\<in>set (cs_categories schema). cat_id c = it_category_id it \<and> cat_parent_id c \<noteq> None)"

lemma created_in_leaf:
  assumes "create_item env i d p = Inr (d', j)"
  obtains it c where "items d' = items d @ [it]" and "c \<in> set (cs_categories (ce_schema env))"
    and "cat_id c = it_category_id it" and "cat_parent_id c \<noteq> None"
proof -
  obtain prepared where prep: "prepare_identity env d p = Inr prepared"
    and ins: "\<exists>it. insert_item (ce_schema env) (ce_sha256 env) d it = Inr d' \<and>
      it_category_id it = cat_id (pi_category prepared)"
    using assms unfolding create_item_def Let_def by (fastforce simp: result_simps)
  have "pi_category prepared \<in> set (cs_categories (ce_schema env)) \<and> cat_parent_id (pi_category prepared) \<noteq> None"
    using prep unfolding prepare_identity_def get_category_by_key_def category_by_key_def Let_def
    by (auto simp: result_simps dest!: table_get_SomeD)
  then show thesis using ins that by (auto simp: insert_item_Inr)
qed

lemma catalog_step_leaf_items:
  assumes "catalog_step env d d'" and "leaf_items (ce_schema env) d"
  shows "leaf_items (ce_schema env) d'"
proof -
  have saved: "leaf_items (ce_schema env) d1"
    if "get_item d i = Some it" and "save_item (ce_schema env) (ce_sha256 env) d it' = Inr d1"
      and "it_category_id it' = it_category_id it" for i it it' d1
  proof -
    have "it \<in> set (items d)" using that(1) by (auto simp: get_item_def dest: table_get_SomeD)
    then have "\<exists>c\<in>set (cs_categories (ce_schema env)). cat_id c = it_category_id it' \<and> cat_parent_id c \<noteq> None"
      using assms(2) that(3) by (simp add: leaf_items_def)
    then show ?thesis
      using assms(2) that(2) by (auto simp: leaf_items_def save_item_Inr table_update_def)
  qed
  show ?thesis
    using assms(1)
  proof cases
    case step_manufacturer
    then have "items d' = items d" using create_manufacturer_Inr(1) by fastforce
    then show ?thesis using assms(2) by (simp add: leaf_items_def)
  next
    case step_create_item
    then show ?thesis using assms(2) by (elim created_in_leaf) (auto simp: leaf_items_def)
  next
    case step_update_item
    then show ?thesis using saved update_item_Inr by metis
  next
    case step_archive_item
    then show ?thesis using assms(2) by (elim set_item_archived_Inr) (auto intro: saved)
  next
    case step_delete_item
    then show ?thesis using assms(2) by (auto simp: leaf_items_def delete_unused_item_Inr table_del_def)
  qed
qed

section \<open>The list\<close>

lemma load_attributes_ok:
  assumes keys: "schema_keys_ok schema" and rows: "attribute_rows_ok schema it"
  shows "\<exists>vs. load_attributes schema it = Inr vs"
proof -
  have "value_data_type v = at_data_type a"
    if "a \<in> set (get_category_attributes schema (it_category_id it))"
      and "map_of (it_attributes it) (at_key a) = Some v" for a v
  proof -
    have "(at_key a, v) \<in> set (it_attributes it)" using that(2) by (rule map_of_SomeD)
    then obtain b where b: "b \<in> set (cs_attributes schema)" "at_category_id b = it_category_id it"
      "at_key b = at_key a" "value_data_type v = at_data_type b"
      using rows by (fastforce simp: attribute_rows_ok_def validate_item_attribute_value_data_type_def)
    moreover have "a \<in> set (cs_attributes schema)" "at_category_id a = it_category_id it"
      using that(1) by (auto simp: get_category_attributes_def)
    ultimately have "a = b"
      using keys by (auto simp: schema_keys_ok_def distinct_map dest!: inj_onD [of _ _ a b])
    then show ?thesis using b(4) by simp
  qed
  then have "\<exists>vs. emap (\<lambda>(a, v). ebind (stored_attribute_value a v) (\<lambda>w. Inr (at_key a, w)))
      (List.map_filter (\<lambda>a. map_option (Pair a) (map_of (it_attributes it) (at_key a))) as) = Inr vs"
    if "set as \<subseteq> set (get_category_attributes schema (it_category_id it))" for as
    using that by (induction as)
      (auto simp: List.map_filter_simps stored_attribute_value_def split: option.splits)
  then show ?thesis by (simp add: load_attributes_def)
qed

lemma query_total:
  assumes keys: "schema_keys_ok (qe_schema env)" and inv: "catalog_inv cenv d" and "ce_schema cenv = qe_schema env"
  shows "\<exists>p. query_catalog_items env d spec limit offset = Inr p \<and>
    cp_total p = length (filter (item_predicates env d spec []) (items d))"
proof -
  let ?f = "\<lambda>it. ebind (load_attributes (qe_schema env) it) (\<lambda>attributes.
    Inr \<lparr> cl_item = it, cl_attributes = attributes, cl_available_count = available_count d it,
          cl_total_count = available_count d it \<rparr>)"
  have one: "\<exists>r. ?f it = Inr r" if "it \<in> set (items d)" for it
    using load_attributes_ok [OF keys, of it] inv that assms(3)
    by (fastforce simp: catalog_inv_def item_write_checks_Inr)
  have all: "\<exists>rs. emap ?f its = Inr rs" if "set its \<subseteq> set (items d)" for its
    using that
  proof (induction its)
    case (Cons it its)
    then obtain r rs where "?f it = Inr r" "emap ?f its = Inr rs" using one by fastforce
    then show ?case by simp
  qed simp
  have "set (page limit offset (ordered_items env d spec (matching_items env d spec []))) \<subseteq> set (items d)"
    using mset_ordered_items [THEN mset_eq_setD, of env d spec "matching_items env d spec []"]
    by (auto simp: page_def matching_items_def dest!: in_set_takeD in_set_dropD)
  from all [OF this] show ?thesis
    by (auto simp: query_catalog_items_def Let_def matching_items_def)
qed

section \<open>Choosing a facet value\<close>

definition equals_filter :: "facet_record \<Rightarrow> attribute_value \<Rightarrow> attribute_filter" where
  "equals_filter f v = \<lparr> af_attribute_id = 0, af_key = fr_key f, af_data_type = fr_data_type f,
     af_filter_type = fr_filter_type f, af_operator = ''eq'', af_value = v \<rparr>"

text \<open>
  The query with this value in place of what the query said for the same filter. Only the row of
  values that have another type than the facet cannot be chosen.
\<close>

definition choose_value :: "catalog_schema \<Rightarrow> catalog_query_spec \<Rightarrow> facet_record \<Rightarrow> facet_value
    \<Rightarrow> catalog_query_spec option" where
  "choose_value schema spec f v =
     (case v of
        FV_uuid i \<Rightarrow>
          if fr_key f = ''manufacturer'' then Some (spec\<lparr>qs_manufacturer_ids := [i]\<rparr>)
          else Some (spec\<lparr>qs_location_ids := [i]\<rparr>)
      | FV_text s \<Rightarrow>
          if fr_key f = ''availability''
          then Some (spec\<lparr>qs_availability := (if s = ''IN_STOCK'' then AV_IN_STOCK else AV_OUT_OF_STOCK)\<rparr>)
          else map_option (\<lambda>c. spec\<lparr>qs_category_key := Some s, qs_category_ids := scope_category_ids schema c\<rparr>)
            (category_by_key schema s)
      | FV_value w \<Rightarrow>
          Some (spec\<lparr>qs_attribute_filters :=
            filter (\<lambda>g. af_key g \<noteq> fr_key f) (qs_attribute_filters spec) @ [equals_filter f w]\<rparr>)
      | FV_null \<Rightarrow> None)"

text \<open>
  The list of Ethernet transceivers is split into three views; the one that its category alone
  selects leaves out the long-range and the RJ45 modules, which the category facet counts.
\<close>

definition in_other_view :: "catalog_schema \<Rightarrow> catalog_query_spec \<Rightarrow> facet_record \<Rightarrow> facet_value \<Rightarrow> item \<Rightarrow> bool" where
  "in_other_view schema spec f v it \<longleftrightarrow>
     fr_key f = ''category'' \<and> v = FV_text ''transceiver_ethernet'' \<and> \<not> qs_long_range spec \<and>
     (long_range_predicate schema it \<or> rj45_transceiver_predicate schema it)"

lemma choose_manufacturer:
  "item_predicates env d (spec\<lparr>qs_manufacturer_ids := [i]\<rparr>) [] it \<longleftrightarrow>
     item_predicates env d spec [''manufacturer''] it \<and> it_manufacturer_id it = Some i"
  by (auto simp: item_predicates_def transceiver_view_def)

lemma choose_location:
  "item_predicates env d (spec\<lparr>qs_location_ids := [i]\<rparr>) [] it \<longleftrightarrow>
     item_predicates env d spec [''location''] it \<and> stocked_at d [i] it"
  by (auto simp: item_predicates_def transceiver_view_def)

lemma choose_availability:
  "item_predicates env d (spec\<lparr>qs_availability := (if b then AV_IN_STOCK else AV_OUT_OF_STOCK)\<rparr>) [] it \<longleftrightarrow>
     item_predicates env d spec [''availability''] it \<and> in_stock d it = b"
  by (auto simp: item_predicates_def transceiver_view_def)

lemma choose_category:
  assumes "qs_category_key spec = None" and "\<not> qs_rj45 spec" and "fr_key f = ''category''"
  shows "item_predicates env d (spec\<lparr>qs_category_key := Some key, qs_category_ids := [i]\<rparr>) [] it \<longleftrightarrow>
     item_predicates env d spec [''category''] it \<and> it_category_id it = i \<and>
     \<not> in_other_view (qe_schema env) spec f (FV_text key) it"
  using assms by (auto simp: item_predicates_def transceiver_view_def in_other_view_def)

lemma other_view_category:
  assumes "schema_keys_ok schema" and "in_other_view schema spec f (FV_text (cat_key c)) it"
    and "c \<in> set (cs_categories schema)"
  shows "it_category_id it = cat_id c"
proof -
  obtain x where x: "get_category schema (it_category_id it) = Some x" "cat_key x = cat_key c"
    using assms(2)
    by (auto simp: in_other_view_def long_range_predicate_def rj45_transceiver_predicate_def category_key_of_def)
  then have "x \<in> set (cs_categories schema)" "cat_id x = it_category_id it"
    by (auto simp: get_category_def dest: table_get_SomeD)
  moreover have "inj_on cat_key (set (cs_categories schema))"
    using assms(1) by (simp add: schema_keys_ok_def distinct_map)
  ultimately show ?thesis using assms(3) x(2) by (metis inj_onD)
qed

lemma equals_filter_matches:
  "attribute_filter_predicate [equals_filter f w] it \<longleftrightarrow>
     (\<exists>v. attribute_of it (fr_key f) = Some v \<and> value_data_type v = fr_data_type f \<and> column_eq w v)"
proof -
  have "filter_value_matches [equals_filter f w] v \<longleftrightarrow> value_data_type v = fr_data_type f \<and> column_eq w v" for v
    by (cases v; cases w) (auto simp: filter_value_matches_def equals_filter_def ilike_exact)
  then show ?thesis
    by (auto simp: attribute_filter_predicate_def equals_filter_def split: option.splits)
qed

lemma choose_attribute:
  "item_predicates env d (spec\<lparr>qs_attribute_filters :=
       filter (\<lambda>g. af_key g \<noteq> fr_key f) (qs_attribute_filters spec) @ [equals_filter f w]\<rparr>) [] it \<longleftrightarrow>
     item_predicates env d spec [''attribute:'' @ fr_key f] it \<and>
     attribute_filter_predicate [equals_filter f w] it"
proof -
  let ?fs = "filter (\<lambda>g. af_key g \<noteq> fr_key f) (qs_attribute_filters spec) @ [equals_filter f w]"
  have key: "af_key (equals_filter f w) = fr_key f" by (simp add: equals_filter_def)
  have "filter (\<lambda>g. af_key g = k) ?fs = (if k = fr_key f then [equals_filter f w]
      else filter (\<lambda>g. af_key g = k) (qs_attribute_filters spec))" for k
    by (auto simp: key filter_empty_conv intro: filter_cong)
  then have "(\<forall>k\<in>set (map af_key ?fs). attribute_filter_predicate (filter (\<lambda>g. af_key g = k) ?fs) it) \<longleftrightarrow>
      (\<forall>k\<in>set (map af_key (qs_attribute_filters spec)). k \<noteq> fr_key f \<longrightarrow>
         attribute_filter_predicate (filter (\<lambda>g. af_key g = k) (qs_attribute_filters spec)) it) \<and>
      attribute_filter_predicate [equals_filter f w] it"
    by (auto simp: key)
  then show ?thesis by (auto simp: item_predicates_def transceiver_view_def)
qed

section \<open>Rows of a facet\<close>

text \<open>A row of an attribute facet shows a value of its class and counts the class.\<close>

definition class_row :: "attribute_value option list \<Rightarrow> facet_value_record \<Rightarrow> bool" where
  "class_row column r \<longleftrightarrow>
     (\<exists>v w. v \<in> set column \<and> column_same v w \<and> fv_value r = column_value w \<and>
        fv_count r = group_count column v)"

lemma text_rows_classes: "r \<in> set (text_rows env column) \<Longrightarrow> class_row column r"
proof -
  assume "r \<in> set (text_rows env column)"
  then obtain v where v: "v \<in> set (representatives column_same column)"
    and r: "r = facet_row (column_value (smallest_text env column v)) (group_count column v)"
    by (auto simp: text_rows_def)
  have "v \<in> set column" using v by (rule subsetD [OF set_representatives])
  moreover from this have "filter (column_same v) column \<noteq> []" by (auto simp: filter_empty_conv intro!: bexI [of _ v])
  then have "smallest_text env column v \<in> set (filter (column_same v) column)"
    using hd_in_set [of "sort_key (\<lambda>v. qe_collate env (text_of v)) (filter (column_same v) column)"]
    unfolding smallest_text_def set_sort by (metis set_empty set_sort)
  ultimately show ?thesis using r by (auto simp: class_row_def facet_row_def)
qed

lemma number_rows_classes:
  assumes "r \<in> set (number_rows column)"
  shows "class_row column r"
proof -
  obtain v where v: "v \<in> set (representatives column_same column)"
    and r: "r = facet_row (column_value v) (group_count column v)"
    using assms by (auto simp: number_rows_def)
  have "v \<in> set column" using v by (rule subsetD [OF set_representatives])
  then show ?thesis unfolding class_row_def r facet_row_def by (intro exI [of _ v]) simp
qed

lemma listed_rows_classes:
  assumes "r \<in> set (listed_rows column listed)"
  shows "class_row column r"
proof -
  obtain v where "Some v \<in> set column" and r: "r = facet_row (FV_value v) (group_count column (Some v))"
    using assms by (auto simp: listed_rows_def)
  then show ?thesis unfolding class_row_def r facet_row_def
    by (intro exI [of _ "Some v"]) (simp add: column_value_def)
qed

lemma exact_rows_classes:
  assumes "exact_rows env a column n offset = Inr (rows, b)" and "r \<in> set rows"
  shows "class_row column r"
proof -
  have "r \<in> set (text_rows env column) \<or> r \<in> set (number_rows column) \<or> (\<exists>vs. r \<in> set (listed_rows column vs))"
    using assms set_limited [of n offset "text_rows env column"] set_limited [of n offset "number_rows column"]
    by (auto simp: exact_rows_def ebind_Inr_iff Let_def split_beta split: attribute_data_type.splits if_splits)
  then show ?thesis using text_rows_classes number_rows_classes listed_rows_classes by blast
qed

lemma null_count:
  assumes "class_row (facet_column env d spec a) r" and "fv_value r = FV_null"
    and f: "fr_key f = at_key a" "fr_data_type f = at_data_type a"
  shows "0 < fv_count r" and "fv_count r = length (filter (\<lambda>it.
      item_predicates env d spec [''attribute:'' @ fr_key f] it \<and>
      (\<exists>v. attribute_of it (fr_key f) = Some v \<and> value_data_type v \<noteq> fr_data_type f)) (items d))"
proof -
  obtain v where v: "v \<in> set (facet_column env d spec a)" "column_same v None"
    "fv_count r = group_count (facet_column env d spec a) v"
    using assms(1,2) by (auto simp: class_row_def column_value_def split: option.splits)
  show "0 < fv_count r" using group_count_member [OF v(1)] v(3) by simp
  have "length (filter (column_same None) (List.map_filter
      (\<lambda>it. map_option (attribute_value_column (at_data_type a)) (attribute_of it (at_key a))) its)) =
    length (filter (\<lambda>it. \<exists>v. attribute_of it (fr_key f) = Some v \<and> value_data_type v \<noteq> fr_data_type f) its)" for its
    by (induction its)
      (auto simp: List.map_filter_simps f attribute_value_column_def split: option.splits)
  then show "fv_count r = length (filter (\<lambda>it.
      item_predicates env d spec [''attribute:'' @ fr_key f] it \<and>
      (\<exists>v. attribute_of it (fr_key f) = Some v \<and> value_data_type v \<noteq> fr_data_type f)) (items d))"
    unfolding v(3) group_count_cong [OF v(2)]
    by (simp add: group_count_def facet_column_def matching_items_def f conj_commute)
qed

lemma class_count:
  assumes "class_row (facet_column env d spec a) r" and "fv_value r = FV_value w"
    and f: "fr_key f = at_key a" "fr_data_type f = at_data_type a"
  shows "0 < fv_count r" and "fv_count r = length (filter (\<lambda>it.
      item_predicates env d spec [''attribute:'' @ fr_key f] it \<and>
      attribute_filter_predicate [equals_filter f w] it) (items d))"
proof -
  obtain v where v: "v \<in> set (facet_column env d spec a)" "column_same v (Some w)"
    "fv_count r = group_count (facet_column env d spec a) v"
    using assms(1,2) by (auto simp: class_row_def column_value_def split: option.splits)
  show "0 < fv_count r" using group_count_member [OF v(1)] v(3) by simp
  have "length (filter (column_same (Some w)) (List.map_filter
      (\<lambda>it. map_option (attribute_value_column (at_data_type a)) (attribute_of it (at_key a))) its)) =
    length (filter (attribute_filter_predicate [equals_filter f w]) its)" for its
    by (induction its)
      (auto simp: List.map_filter_simps equals_filter_matches f attribute_value_column_def split: option.splits)
  then show "fv_count r = length (filter (\<lambda>it.
      item_predicates env d spec [''attribute:'' @ fr_key f] it \<and>
      attribute_filter_predicate [equals_filter f w] it) (items d))"
    unfolding v(3) group_count_cong [OF v(2)]
    by (simp add: group_count_def facet_column_def matching_items_def f conj_commute)
qed

section \<open>Facets of a query\<close>

lemma spec_without_category:
  assumes "build_catalog_query_spec schema req = Inr spec" and "qs_category_id spec = None"
  shows "qs_category_key spec = None" and "\<not> qs_rj45 spec"
  using assms unfolding build_catalog_query_spec_def check_request_def
  by (auto simp: result_simps Let_def split: option.splits prod.splits)

lemma query_catalog_facets_cases:
  assumes "query_catalog_facets env d spec vl vo only = Inr facets" and "f \<in> set facets"
  obtains "qs_category_id spec = None" "f = category_facet env d spec (nat vl) (nat vo)"
  | "f = manufacturer_facet env d spec (nat vl) (nat vo)"
  | "f = availability_facet env d spec"
  | "f = location_facet env d spec (nat vl) (nat vo)"
  | a where "attribute_facet env d spec (nat vl) (nat vo) a = Inr f"
proof -
  have emap: "\<exists>a\<in>set as. g a = Inr f" if "emap g as = Inr fs" and "f \<in> set fs"
    for g :: "category_attribute \<Rightarrow> string + facet_record" and as fs
    using that by (auto simp: result_simps list_all2_conv_all_nth in_set_conv_nth) (metis nth_mem)
  obtain attribute_facets as where attributes:
      "attribute_facets = [] \<or> emap (attribute_facet env d spec (nat vl) (nat vo)) as = Inr attribute_facets"
    and "f \<in> set ((if qs_category_id spec = None then [category_facet env d spec (nat vl) (nat vo)] else []) @
      [manufacturer_facet env d spec (nat vl) (nat vo), availability_facet env d spec,
       location_facet env d spec (nat vl) (nat vo)] @ attribute_facets)"
    using assms unfolding query_catalog_facets_def Let_def ebind_Inr_iff
    by (clarsimp split: if_splits) blast+
  moreover have "\<exists>a. attribute_facet env d spec (nat vl) (nat vo) a = Inr f" if "f \<in> set attribute_facets"
    using attributes that emap by fastforce
  ultimately show thesis using that by (auto split: if_splits)
qed

lemma value_facet_simps [simp]:
  "fr_key (value_facet key t g rows) = key" "fr_data_type (value_facet key t g rows) = t"
  "fr_values (value_facet key t g rows) = fst rows"
  by (simp_all add: value_facet_def)

text \<open>What a count means: the total of the list after choosing the value and, beside it, the items
  that another view of the category shows; for the row without a value, the items whose stored
  value has another type.\<close>

definition shows_count :: "query_env \<Rightarrow> db \<Rightarrow> catalog_query_spec \<Rightarrow> facet_record \<Rightarrow> facet_value_record \<Rightarrow> bool" where
  "shows_count env d spec f r \<longleftrightarrow> 0 < fv_count r \<and>
     (case choose_value (qe_schema env) spec f (fv_value r) of
        None \<Rightarrow> fv_value r = FV_null \<and> fv_count r = length (filter (\<lambda>it.
          item_predicates env d spec [''attribute:'' @ fr_key f] it \<and>
          (\<exists>v. attribute_of it (fr_key f) = Some v \<and> value_data_type v \<noteq> fr_data_type f)) (items d))
      | Some spec' \<Rightarrow> fv_count r = length (filter (item_predicates env d spec' []) (items d)) +
          length (filter (\<lambda>it. item_predicates env d spec [''category''] it \<and>
            in_other_view (qe_schema env) spec f (fv_value r) it) (items d)))"

lemma filter_split: "length (filter P xs) = length (filter (\<lambda>x. P x \<and> \<not> Q x) xs) + length (filter (\<lambda>x. P x \<and> Q x) xs)"
  by (induction xs) auto

lemma counted_shows:
  assumes "r \<in> set (counted val belongs (matching_items env d spec exclude) groups)"
    and "\<And>g. g \<in> set groups \<Longrightarrow> fv_value r = val g \<Longrightarrow> \<exists>it\<in>set (items d). belongs g it \<Longrightarrow>
      \<exists>spec'. choose_value (qe_schema env) spec f (fv_value r) = Some spec' \<and>
        (\<forall>it. item_predicates env d spec' [] it \<longleftrightarrow> item_predicates env d spec exclude it \<and> belongs g it \<and>
           \<not> in_other_view (qe_schema env) spec f (fv_value r) it) \<and>
        (\<forall>it. in_other_view (qe_schema env) spec f (fv_value r) it \<longrightarrow> exclude = [''category''] \<and> belongs g it)"
  shows "shows_count env d spec f r"
proof -
  let ?other = "in_other_view (qe_schema env) spec f (fv_value r)"
  obtain g where g: "g \<in> set groups" "fv_value r = val g" and pos: "0 < fv_count r"
    and count: "fv_count r = length (filter (belongs g) (matching_items env d spec exclude))"
    using assms(1) by (rule counted_row)
  from pos count have "filter (belongs g) (matching_items env d spec exclude) \<noteq> []" by force
  then have "\<exists>it\<in>set (items d). belongs g it" by (auto simp: matching_items_def filter_empty_conv)
  then obtain spec' where choice: "choose_value (qe_schema env) spec f (fv_value r) = Some spec'"
    and list: "\<And>it. item_predicates env d spec' [] it \<longleftrightarrow>
      (item_predicates env d spec exclude it \<and> belongs g it) \<and> \<not> ?other it"
    and other: "\<And>it. ?other it \<Longrightarrow> exclude = [''category''] \<and> belongs g it"
    using assms(2) [OF g] by auto
  have "(item_predicates env d spec [''category''] it \<and> ?other it) =
      ((item_predicates env d spec exclude it \<and> belongs g it) \<and> ?other it)" for it
    using other by blast
  moreover have "item_predicates env d spec' [] =
      (\<lambda>it. (item_predicates env d spec exclude it \<and> belongs g it) \<and> \<not> ?other it)"
    by (rule ext) (rule list)
  ultimately have "fv_count r = length (filter (item_predicates env d spec' []) (items d)) +
      length (filter (\<lambda>it. item_predicates env d spec [''category''] it \<and> ?other it) (items d))"
    unfolding count matching_items_def filter_filter by (simp only: filter_split [where Q = ?other, symmetric])
  then show ?thesis using pos choice by (simp add: shows_count_def)
qed

lemma category_shows:
  assumes keys: "schema_keys_ok (qe_schema env)" and leaf: "leaf_items (qe_schema env) d"
    and ids: "distinct (map cat_id (cs_categories (qe_schema env)))"
    and "qs_category_key spec = None" and "\<not> qs_rj45 spec"
    and r: "r \<in> set (fr_values (category_facet env d spec n m))"
  shows "shows_count env d spec (category_facet env d spec n m) r"
proof (rule counted_shows)
  show "r \<in> set (counted (\<lambda>c. FV_text (cat_key c)) (\<lambda>c it. it_category_id it = cat_id c)
      (matching_items env d spec [''category'']) (sort_key cat_sort_order
        (sort_key (\<lambda>c. qe_collate env (cat_key c)) (cs_categories (qe_schema env)))))"
    using r set_limited by (force simp: category_facet_def)
next
  fix c
  assume "c \<in> set (sort_key cat_sort_order (sort_key (\<lambda>c. qe_collate env (cat_key c)) (cs_categories (qe_schema env))))"
    and v: "fv_value r = FV_text (cat_key c)" and item: "\<exists>it\<in>set (items d). it_category_id it = cat_id c"
  then have c: "c \<in> set (cs_categories (qe_schema env))" by simp
  then have by_key: "category_by_key (qe_schema env) (cat_key c) = Some c"
    using keys by (auto simp: category_by_key_def schema_keys_ok_def table_get_member)
  have "\<exists>x\<in>set (cs_categories (qe_schema env)). cat_id x = cat_id c \<and> cat_parent_id x \<noteq> None"
    using leaf item by (fastforce simp: leaf_items_def)
  then have "cat_parent_id c \<noteq> None" using ids c by (metis distinct_map inj_onD)
  then have "choose_value (qe_schema env) spec (category_facet env d spec n m) (fv_value r) =
      Some (spec\<lparr>qs_category_key := Some (cat_key c), qs_category_ids := [cat_id c]\<rparr>)"
    by (simp add: choose_value_def v by_key category_facet_def scope_category_ids_def)
  moreover have "fr_key (category_facet env d spec n m) = ''category''" by (simp add: category_facet_def)
  ultimately show "\<exists>spec'. choose_value (qe_schema env) spec (category_facet env d spec n m) (fv_value r) = Some spec' \<and>
      (\<forall>it. item_predicates env d spec' [] it \<longleftrightarrow> item_predicates env d spec [''category''] it \<and>
         it_category_id it = cat_id c \<and>
         \<not> in_other_view (qe_schema env) spec (category_facet env d spec n m) (fv_value r) it) \<and>
      (\<forall>it. in_other_view (qe_schema env) spec (category_facet env d spec n m) (fv_value r) it \<longrightarrow>
         [''category''] = [''category''] \<and> it_category_id it = cat_id c)"
    using choose_category [OF assms(4,5)] other_view_category [OF keys _ c] unfolding v by blast
qed

lemma manufacturer_shows:
  assumes r: "r \<in> set (fr_values (manufacturer_facet env d spec n m))"
  shows "shows_count env d spec (manufacturer_facet env d spec n m) r"
proof (rule counted_shows)
  show "r \<in> set (counted (\<lambda>m. FV_uuid (mf_id m)) (\<lambda>m it. it_manufacturer_id it = Some (mf_id m))
      (matching_items env d spec [''manufacturer''])
      (sort_key (\<lambda>m. qe_collate env (mf_normalized_name m)) (sort_key mf_id (manufacturers d))))"
    using r set_limited by (force simp: manufacturer_facet_def)
qed (simp add: choose_value_def manufacturer_facet_def choose_manufacturer in_other_view_def)

lemma availability_shows:
  assumes r: "r \<in> set (fr_values (availability_facet env d spec))"
  shows "shows_count env d spec (availability_facet env d spec) r"
proof (rule counted_shows)
  show "r \<in> set (counted (\<lambda>state. FV_text (if state then ''IN_STOCK'' else ''OUT_OF_STOCK''))
      (\<lambda>state it. in_stock d it = state) (matching_items env d spec [''availability'']) [True, False])"
    using r by (simp add: availability_facet_def)
next
  fix state
  assume "fv_value r = FV_text (if state then ''IN_STOCK'' else ''OUT_OF_STOCK'')"
  then show "\<exists>spec'. choose_value (qe_schema env) spec (availability_facet env d spec) (fv_value r) = Some spec' \<and>
      (\<forall>it. item_predicates env d spec' [] it \<longleftrightarrow> item_predicates env d spec [''availability''] it \<and>
         in_stock d it = state \<and> \<not> in_other_view (qe_schema env) spec (availability_facet env d spec) (fv_value r) it) \<and>
      (\<forall>it. in_other_view (qe_schema env) spec (availability_facet env d spec) (fv_value r) it \<longrightarrow>
         [''availability''] = [''category''] \<and> in_stock d it = state)"
    using choose_availability [where env = env and d = d and spec = spec and b = state]
    by (cases state) (auto simp: choose_value_def availability_facet_def in_other_view_def)
qed

lemma location_shows:
  assumes r: "r \<in> set (fr_values (location_facet env d spec n m))"
  shows "shows_count env d spec (location_facet env d spec n m) r"
proof (rule counted_shows)
  show "r \<in> set (counted (\<lambda>l. FV_uuid (loc_id l)) (\<lambda>l. stocked_at d [loc_id l])
      (matching_items env d spec [''location''])
      (sort_key (\<lambda>l. qe_collate env (loc_normalized_code l)) (sort_key loc_id (locations d))))"
    using r set_limited by (force simp: location_facet_def)
qed (simp add: choose_value_def location_facet_def choose_location in_other_view_def)

lemma attribute_shows:
  assumes f: "attribute_facet env d spec n m a = Inr f" and r: "r \<in> set (fr_values f)"
  shows "shows_count env d spec f r"
proof -
  obtain rows has_more where rows: "exact_rows env a (facet_column env d spec a) n m = Inr (rows, has_more)"
    and f': "f = value_facet (at_key a) (at_data_type a) (at_filter_type a) (rows, has_more)"
    using f r by (auto simp: attribute_facet_def range_attribute_facet_def exact_attribute_facet_def
        result_simps Let_def split: filter_type.splits if_splits)
  have row: "class_row (facet_column env d spec a) r"
    using exact_rows_classes [OF rows] r f' by simp
  have key: "fr_key f = at_key a" "fr_data_type f = at_data_type a" by (simp_all add: f')
  consider "fv_value r = FV_null" | w where "fv_value r = FV_value w"
    using row by (auto simp: class_row_def column_value_def split: option.splits)
  then show ?thesis
  proof cases
    case 1
    then show ?thesis using null_count [OF row 1 key] by (simp add: shows_count_def choose_value_def)
  next
    case (2 w)
    have "item_predicates env d (spec\<lparr>qs_attribute_filters :=
          filter (\<lambda>g. af_key g \<noteq> fr_key f) (qs_attribute_filters spec) @ [equals_filter f w]\<rparr>) [] = (\<lambda>it.
        item_predicates env d spec [''attribute:'' @ fr_key f] it \<and> attribute_filter_predicate [equals_filter f w] it)"
      by (simp only: choose_attribute fun_eq_iff) simp
    then show ?thesis
      using class_count [OF row 2 key] 2 by (simp add: shows_count_def choose_value_def in_other_view_def)
  qed
qed


section \<open>Instances\<close>

text \<open>One patch cord of 1.50 m in a catalog of two leaf categories; the user searches for
  \<open>patch 1.5\<close>.\<close>

definition sample_patch_cord :: item where
  "sample_patch_cord = (sample_item 20 ''Patch cord'')\<lparr>it_identity_signature := sample_digest [],
     it_attributes := [(''length'', ADecimal (Dec False 150 (- 2)))]\<rparr>"

definition sample_shelf :: db where
  "sample_shelf = sample_makers\<lparr>items := [sample_patch_cord]\<rparr>"

definition sample_query :: query_request where
  "sample_query = \<lparr> rq_q = Some ''patch 1.5'', rq_category_key = None, rq_long_range = False, rq_rj45 = False,
     rq_item_status = ITEM_ACTIVE, rq_manufacturer_ids = [], rq_availability = ''any'', rq_location_ids = [],
     rq_sort = ''name'', rq_order = ''asc'', rq_filter_expressions = [] \<rparr>"

definition sample_query_env :: query_env where
  "sample_query_env = \<lparr> qe_schema = sample_schema, qe_collate = map of_char \<rparr>"

definition sample_spec :: catalog_query_spec where
  "sample_spec = \<lparr> qs_tokens = [''patch'', ''1.5''], qs_category_id = None, qs_category_ids = [],
     qs_definitions = [], qs_long_range = False, qs_rj45 = False, qs_category_key = None,
     qs_status = ITEM_ACTIVE, qs_manufacturer_ids = [], qs_availability = AV_ANY, qs_location_ids = [],
     qs_attribute_filters = [], qs_sort = SORT_NAME, qs_order = ORDER_ASC \<rparr>"

lemma sample_shelf_inv: "catalog_inv sample_catalog sample_shelf"
proof -
  have texts: "btrim ''Patch cord'' \<noteq> []" "btrim (comparison_text ''Patch cord'') \<noteq> []"
    "length (comparison_text ''Patch cord'') \<le> 255"
    "comparison_text ''Patch cord'' = catalog_normalize_comparison ''Patch cord''"
    by code_simp+
  have "item_checks sample_patch_cord"
    using texts by (simp add: item_checks_def sample_patch_cord_def sample_item_def sample_digest_def)
  moreover have "item_references_ok sample_schema sample_shelf sample_patch_cord"
    "attribute_rows_ok sample_schema sample_patch_cord"
    "enforce_item_required_attributes sample_schema sample_patch_cord"
    by (simp_all add: item_references_ok_def attribute_rows_ok_def enforce_item_required_attributes_def
        validate_item_attribute_value_data_type_def
        sample_patch_cord_def sample_item_def sample_schema_def sample_attribute_def)
  moreover have "assert_catalog_item_identity sample_schema sample_digest sample_shelf sample_patch_cord"
    using texts(4) by (simp add: assert_catalog_item_identity_def catalog_item_signature_def get_category_def
        sample_patch_cord_def sample_item_def sample_schema_def sample_digest_def)
  ultimately have "item_write_checks sample_schema sample_digest sample_shelf sample_patch_cord = Inr ()"
    by (simp add: item_write_checks_Inr attribute_texts_def sample_patch_cord_def)
  moreover have "manufacturers_ok sample_shelf"
    using sample_makers_inv by (simp add: catalog_inv_def manufacturers_ok_def sample_shelf_def)
  ultimately show ?thesis by (simp add: catalog_inv_def sample_shelf_def sample_catalog_def)
qed

lemma sample_query_spec: "build_catalog_query_spec sample_schema sample_query = Inr sample_spec"
  by code_simp

lemma sample_facets:
  "query_catalog_facets sample_query_env sample_shelf sample_spec 20 0 (Some ''category'') =
     Inr [value_facet ''category'' DT_TEXT FT_EXACT ([facet_row (FV_text ''optical_patch_cord'') 1], False)]"
  by code_simp

lemma sample_choice:
  "choose_value sample_schema sample_spec
       (value_facet ''category'' DT_TEXT FT_EXACT ([facet_row (FV_text ''optical_patch_cord'') 1], False))
       (FV_text ''optical_patch_cord'') =
     Some (sample_spec\<lparr>qs_category_key := Some ''optical_patch_cord'', qs_category_ids := [31]\<rparr>)"
  by code_simp

lemma sample_schema_keys: "schema_keys_ok sample_schema"
  by (simp add: schema_keys_ok_def sample_schema_def sample_attribute_def)


end
