(* ===== verification/Feed_Cursor.thy ===== *)
theory Feed_Cursor
  imports Init_Data
begin

text \<open>
  The page token of the movement feed (\<open>inventory/feed_cursor.py\<close>): a JSON payload with the
  snapshot, the position and a digest of the request, signed with a keyed digest, both parts
  in URL-safe base 64 without padding. Arguments stand for the digests, for \<open>json.loads\<close> on
  bytes and for \<open>datetime.fromisoformat\<close>; \<open>base64.urlsafe_b64decode\<close> is written out with what
  it does to foreign characters and padding. A \<open>datetime\<close> here is one in UTC.
\<close>

section \<open>Base 64\<close>

definition b64_char :: "nat \<Rightarrow> nat" where
  "b64_char v =
     (if v < 26 then 65 + v else if v < 52 then 71 + v else if v < 62 then v - 4
      else if v = 62 then 45 else 95)"

text \<open>The decoder maps \<open>-\<close> and \<open>_\<close> to \<open>+\<close> and \<open>/\<close> first, so it reads both spellings.\<close>

definition b64_value :: "nat \<Rightarrow> nat option" where
  "b64_value c =
     (if 65 \<le> c \<and> c \<le> 90 then Some (c - 65) else if 97 \<le> c \<and> c \<le> 122 then Some (c - 71)
      else if 48 \<le> c \<and> c \<le> 57 then Some (c + 4)
      else if c = 45 \<or> c = 43 then Some 62 else if c = 95 \<or> c = 47 then Some 63 else None)"

fun b64_groups :: "bytes \<Rightarrow> nat list" where
  "b64_groups [] = []"
| "b64_groups [a] = [a div 4, a mod 4 * 16]"
| "b64_groups [a, b] = [a div 4, a mod 4 * 16 + b div 16, b mod 16 * 4]"
| "b64_groups (a # b # c # bs) =
     a div 4 # (a mod 4 * 16 + b div 16) # (b mod 16 * 4 + c div 64) # c mod 64 # b64_groups bs"

definition encode_base64 :: "bytes \<Rightarrow> code_points" where
  "encode_base64 bs = map b64_char (b64_groups bs)"

text \<open>
  The state is the position in the group of four, the bits left over and the number of padding
  signs seen; foreign characters are skipped.
\<close>

fun a2b_base64 :: "nat \<Rightarrow> nat \<Rightarrow> nat \<Rightarrow> code_points \<Rightarrow> bytes option" where
  "a2b_base64 quad left pads [] = (if quad = 0 then Some [] else None)"
| "a2b_base64 quad left pads (c # cs) =
     (if c = 61
      then if 2 \<le> quad \<and> 4 \<le> quad + (pads + 1) then Some []
           else a2b_base64 quad left (if 2 \<le> quad then pads + 1 else pads) cs
      else case b64_value c of
        None \<Rightarrow> a2b_base64 quad left pads cs
      | Some v \<Rightarrow>
          if quad = 0 then a2b_base64 1 v 0 cs
          else if quad = 1 then map_option (Cons (left * 4 + v div 16)) (a2b_base64 2 (v mod 16) 0 cs)
          else if quad = 2 then map_option (Cons (left * 16 + v div 4)) (a2b_base64 3 (v mod 4) 0 cs)
          else map_option (Cons (left * 64 + v)) (a2b_base64 0 0 0 cs))"

definition decode_base64 :: "code_points \<Rightarrow> bytes option" where
  "decode_base64 s =
     (let padded = s @ replicate (nat (- int (length s) mod 4)) 61
      in if list_all is_ascii padded then a2b_base64 0 0 0 padded else None)"

section \<open>Dates\<close>

record utc_datetime =
  dt_year :: nat
  dt_month :: nat
  dt_day :: nat
  dt_hour :: nat
  dt_minute :: nat
  dt_second :: nat
  dt_microsecond :: nat

definition is_leap :: "nat \<Rightarrow> bool" where
  "is_leap y \<longleftrightarrow> y mod 4 = 0 \<and> (y mod 100 \<noteq> 0 \<or> y mod 400 = 0)"

definition days_in_month :: "nat \<Rightarrow> nat \<Rightarrow> nat" where
  "days_in_month y m =
     (if m = 2 then if is_leap y then 29 else 28 else if m \<in> {4, 6, 9, 11} then 30 else 31)"

definition days_before_year :: "nat \<Rightarrow> nat" where
  "days_before_year y = (y - 1) * 365 + (y - 1) div 4 - (y - 1) div 100 + (y - 1) div 400"

definition days_before_month :: "nat \<Rightarrow> nat \<Rightarrow> nat" where
  "days_before_month y m = sum_list (map (days_in_month y) [1..<m])"

text \<open>Microseconds since 1970; 719163 is the ordinal of its first day.\<close>

definition utc_timestamp :: "utc_datetime \<Rightarrow> timestamp" where
  "utc_timestamp t =
     (((int (days_before_year (dt_year t) + days_before_month (dt_year t) (dt_month t) + dt_day t)
        - 719163) * 24 + int (dt_hour t)) * 60 + int (dt_minute t)) * 60000000 +
     int (dt_second t) * 1000000 + int (dt_microsecond t)"

fun pad_digits :: "nat \<Rightarrow> nat \<Rightarrow> string" where
  "pad_digits 0 n = []"
| "pad_digits (Suc k) n = pad_digits k (n div 10) @ [digit_char (n mod 10)]"

definition isoformat :: "utc_datetime \<Rightarrow> string" where
  "isoformat t =
     pad_digits 4 (dt_year t) @ ''-'' @ pad_digits 2 (dt_month t) @ ''-'' @ pad_digits 2 (dt_day t) @ ''T'' @
     pad_digits 2 (dt_hour t) @ '':'' @ pad_digits 2 (dt_minute t) @ '':'' @ pad_digits 2 (dt_second t) @
     (if dt_microsecond t = 0 then [] else ''.'' @ pad_digits 6 (dt_microsecond t)) @ ''+00:00''"

section \<open>Tokens\<close>

text \<open>\<open>fc_fromisoformat\<close> returns nothing for a text that is no date, and \<open>None\<close> inside for a date
  without a time zone.\<close>

record cursor_env =
  fc_hmac :: "bytes \<Rightarrow> bytes \<Rightarrow> bytes"
  fc_sha256 :: "bytes \<Rightarrow> bytes"
  fc_loads :: "bytes \<Rightarrow> json option"
  fc_fromisoformat :: "string \<Rightarrow> utc_datetime option option"
  fc_webhook_secret :: "string option"
  fc_production :: bool

datatype cursor_error = MovementFeedCursorError string | CursorValueError | CursorRuntimeError

record movement_feed_cursor_state =
  fcs_snapshot_at :: utc_datetime
  fcs_database_snapshot :: string
  fcs_before_journal_seq :: "int option"

definition CURSOR_TTL_SECONDS :: int where "CURSOR_TTL_SECONDS = 3600"
definition CLOCK_SKEW_SECONDS :: int where "CLOCK_SKEW_SECONDS = 60"

text \<open>No character of the alphabet is a surrogate, so every text has an encoding.\<close>

definition text_bytes :: "string \<Rightarrow> bytes" where
  "text_bytes s = concat (map utf8_point (cps s))"

definition scope_digest :: "cursor_env \<Rightarrow> (string \<times> json) list \<Rightarrow> string" where
  "scope_digest env scope = map char_of (hexdigest (fc_sha256 env (text_bytes (json_dumps (JObj scope)))))"

definition cursor_key :: "cursor_env \<Rightarrow> cursor_error + bytes" where
  "cursor_key env =
     (case fc_webhook_secret env of
        None \<Rightarrow>
          if fc_production env then Inl CursorRuntimeError
          else Inr (text_bytes ''dc-inventory-nonproduction-movement-feed-cursor-v1'')
      | Some secret \<Rightarrow>
          Inr (fc_hmac env (text_bytes secret) (text_bytes ''dc-inventory/movement-feed-cursor/key/v1'')))"

definition cursor_signature :: "cursor_env \<Rightarrow> bytes \<Rightarrow> cursor_error + bytes" where
  "cursor_signature env raw =
     ebind (cursor_key env) (\<lambda>key.
     Inr (fc_hmac env key (text_bytes ''dc-inventory/movement-feed-cursor/token/v1'' @ [0] @ raw)))"

definition cursor_payload ::
    "cursor_env \<Rightarrow> utc_datetime \<Rightarrow> string \<Rightarrow> int option \<Rightarrow> (string \<times> json) list \<Rightarrow> int \<Rightarrow> json" where
  "cursor_payload env snapshot_at database_snapshot before scope now =
     JObj [(''before'', case before of None \<Rightarrow> JNull | Some b \<Rightarrow> JInt b),
       (''database_snapshot'', JStr database_snapshot), (''iat'', JInt now),
       (''scope'', JStr (scope_digest env scope)), (''snapshot_at'', JStr (isoformat snapshot_at)),
       (''v'', JInt 1)]"

definition encode_movement_feed_cursor ::
    "cursor_env \<Rightarrow> utc_datetime \<Rightarrow> string \<Rightarrow> int option \<Rightarrow> (string \<times> json) list \<Rightarrow> int
       \<Rightarrow> cursor_error + code_points" where
  "encode_movement_feed_cursor env snapshot_at database_snapshot before scope now =
     ebind (ensure (database_snapshot \<noteq> [] \<and> length database_snapshot \<le> 12000) CursorValueError) (\<lambda>_.
     ebind (ensure (\<forall>b\<in>set_option before. 0 < b) CursorValueError) (\<lambda>_.
     let raw = text_bytes (json_dumps (cursor_payload env snapshot_at database_snapshot before scope now)) in
     ebind (cursor_signature env raw) (\<lambda>signature.
     Inr (encode_base64 raw @ [46] @ encode_base64 signature))))"

text \<open>Python's \<open>payload.get("v") != 1\<close> also lets \<open>true\<close> and \<open>1.0\<close> pass.\<close>

definition equals_one :: "json option \<Rightarrow> bool" where
  "equals_one v \<longleftrightarrow> v \<in> {Some (JInt 1), Some (JBool True), Some (JFloat ''1.0'')}"

definition invalid_cursor :: cursor_error where
  "invalid_cursor = MovementFeedCursorError ''invalid''"

definition check_payload ::
    "cursor_env \<Rightarrow> (string \<times> json) list \<Rightarrow> int \<Rightarrow> json \<Rightarrow> cursor_error + movement_feed_cursor_state" where
  "check_payload env scope now payload =
     ebind (ensure (case payload of JObj _ \<Rightarrow> True | _ \<Rightarrow> False) invalid_cursor) (\<lambda>_.
     ebind (ensure (equals_one (json_get ''v'' payload)) (MovementFeedCursorError ''unsupported'')) (\<lambda>_.
     ebind (case json_get ''iat'' payload of Some (JInt i) \<Rightarrow> Inr i | _ \<Rightarrow> Inl invalid_cursor) (\<lambda>issued_at.
     let age = now - issued_at in
     ebind (ensure (- CLOCK_SKEW_SECONDS \<le> age \<and> age \<le> CURSOR_TTL_SECONDS)
       (MovementFeedCursorError ''expired'')) (\<lambda>_.
     ebind (ensure (json_get ''scope'' payload = Some (JStr (scope_digest env scope)))
       (MovementFeedCursorError ''does not match'')) (\<lambda>_.
     ebind (case json_get ''snapshot_at'' payload of Some (JStr s) \<Rightarrow> Inr s | _ \<Rightarrow> Inl invalid_cursor) (\<lambda>snapshot_raw.
     ebind (case fc_fromisoformat env snapshot_raw of Some (Some t) \<Rightarrow> Inr t | _ \<Rightarrow> Inl invalid_cursor) (\<lambda>snapshot_at.
     ebind (case json_get ''database_snapshot'' payload of
              Some (JStr s) \<Rightarrow> if s \<noteq> [] \<and> length s \<le> 12000 then Inr s else Inl invalid_cursor
            | _ \<Rightarrow> Inl invalid_cursor) (\<lambda>database_snapshot.
     ebind (case json_get ''before'' payload of
              None \<Rightarrow> Inr None | Some JNull \<Rightarrow> Inr None
            | Some (JInt b) \<Rightarrow> if 0 < b then Inr (Some b) else Inl invalid_cursor
            | _ \<Rightarrow> Inl invalid_cursor) (\<lambda>before.
     Inr \<lparr> fcs_snapshot_at = snapshot_at, fcs_database_snapshot = database_snapshot,
           fcs_before_journal_seq = before \<rparr>)))))))))"

definition decode_movement_feed_cursor ::
    "cursor_env \<Rightarrow> code_points \<Rightarrow> (string \<times> json) list \<Rightarrow> int \<Rightarrow> cursor_error + movement_feed_cursor_state" where
  "decode_movement_feed_cursor env token scope now =
     ebind (ensure (46 \<in> set token) invalid_cursor) (\<lambda>_.
     ebind (from_option invalid_cursor (decode_base64 (takeWhile (\<lambda>c. c \<noteq> 46) token))) (\<lambda>raw.
     ebind (from_option invalid_cursor (decode_base64 (tl (dropWhile (\<lambda>c. c \<noteq> 46) token)))) (\<lambda>supplied.
     ebind (cursor_signature env raw) (\<lambda>expected.
     ebind (ensure (supplied = expected) invalid_cursor) (\<lambda>_.
     ebind (from_option invalid_cursor (fc_loads env raw)) (check_payload env scope now))))))"

end
