(* ===== verification/Movement_Feed.thy ===== *)
theory Movement_Feed
  imports Feed_Cursor Catalog_Query Inventory Policy
begin

text \<open>
  The lists of movements: \<open>_movement_filters\<close>, \<open>list_movements\<close> and \<open>list_movements_cursor\<close> of
  \<open>inventory/service.py\<close>, and the feed of \<open>inventory/api.py\<close>, which shows the journal in pages as
  it was when the first page was read. The snapshot is a text of the database
  (\<open>pg_current_snapshot\<close>), and the database says whether the transaction that wrote a row is
  visible in it; both are arguments. Transactions follow one another, so no other transaction is
  in progress when a page is read. Times of movements count microseconds.
\<close>

section \<open>Filters\<close>

record movement_query =
  mq_movement_type :: "movement_type option"
  mq_item_id :: "uuid option"
  mq_actor_user_id :: "uuid option"
  mq_location_id :: "uuid option"
  mq_category_key :: "string option"
  mq_long_range :: bool
  mq_since :: "timestamp option"
  mq_until :: "timestamp option"

definition scoped_query :: "movement_query \<Rightarrow> bool" where
  "scoped_query q \<longleftrightarrow> mq_item_id q \<noteq> None \<or> mq_category_key q \<notin> {None, Some []} \<or> mq_long_range q"

definition row_filters :: "movement_query \<Rightarrow> movement \<Rightarrow> bool" where
  "row_filters q m \<longleftrightarrow>
     (\<forall>t\<in>set_option (mq_movement_type q). mv_movement_type m = t) \<and>
     (\<forall>a\<in>set_option (mq_actor_user_id q). mv_actor_user_id m = a) \<and>
     (\<forall>l\<in>set_option (mq_location_id q).
        mv_source_location_id m = Some l \<or> mv_destination_location_id m = Some l) \<and>
     (\<forall>t\<in>set_option (mq_since q). t \<le> mv_occurred_at m) \<and>
     (\<forall>t\<in>set_option (mq_until q). mv_occurred_at m < t)"

definition moves_item :: "db \<Rightarrow> (item \<Rightarrow> bool) \<Rightarrow> movement \<Rightarrow> bool" where
  "moves_item d wanted m \<longleftrightarrow>
     (\<exists>ml\<in>set (movement_lines d). ml_movement_id ml = mv_id m \<and>
        (\<exists>it\<in>set (items d). wanted it \<and> it_id it = ml_item_id ml))"

definition movement_filters :: "catalog_schema \<Rightarrow> db \<Rightarrow> movement_query \<Rightarrow> string + (movement \<Rightarrow> bool)" where
  "movement_filters schema d q =
     (if \<not> scoped_query q then Inr (row_filters q)
      else ebind (equipment_scope schema (mq_category_key q) (mq_long_range q) False) (\<lambda>scope.
        Inr (\<lambda>m. row_filters q m \<and>
          moves_item d (\<lambda>it. scope it \<and> (\<forall>i\<in>set_option (mq_item_id q). it_id it = i)) m)))"

section \<open>Lists\<close>

definition newest_first :: "movement list \<Rightarrow> movement list" where
  "newest_first = sort_key (\<lambda>m. - mv_journal_seq m)"

definition movement_record_of :: "db \<Rightarrow> movement \<Rightarrow> movement_record" where
  "movement_record_of d m = \<lparr> rec_movement = m, rec_lines = lines_of d (mv_id m) \<rparr>"

record movement_page =
  mp_items :: "movement_record list"
  mp_total :: nat

definition list_movements :: "catalog_schema \<Rightarrow> db \<Rightarrow> movement_query \<Rightarrow> nat \<Rightarrow> nat \<Rightarrow> string + movement_page" where
  "list_movements schema d q limit offset =
     ebind (movement_filters schema d q) (\<lambda>wanted.
     let rows = filter wanted (movements d) in
     Inr \<lparr> mp_items = map (movement_record_of d) (page limit offset (newest_first rows)),
           mp_total = length rows \<rparr>)"

record movement_cursor_page =
  cu_items :: "movement_record list"
  cu_next_before_journal_seq :: "int option"

definition below :: "int option \<Rightarrow> movement \<Rightarrow> bool" where
  "below before m \<longleftrightarrow> (\<forall>b\<in>set_option before. mv_journal_seq m < b)"

record feed_env =
  fe_cursor :: cursor_env
  fe_schema :: catalog_schema
  fe_current_snapshot :: "db \<Rightarrow> string"
  fe_visible :: "string \<Rightarrow> movement \<Rightarrow> bool"

definition list_movements_cursor ::
    "feed_env \<Rightarrow> db \<Rightarrow> movement_query \<Rightarrow> int option \<Rightarrow> string option \<Rightarrow> nat
       \<Rightarrow> string + movement_cursor_page" where
  "list_movements_cursor env d q before database_snapshot limit =
     ebind (movement_filters (fe_schema env) d q) (\<lambda>wanted.
     let rows = filter (\<lambda>m. wanted m \<and> (\<forall>s\<in>set_option database_snapshot. fe_visible env s m) \<and> below before m)
           (movements d);
         read = take (limit + 1) (newest_first rows);
         visible = take limit read in
     Inr \<lparr> cu_items = map (movement_record_of d) visible,
           cu_next_before_journal_seq =
             (if length read > limit \<and> visible \<noteq> [] then Some (mv_journal_seq (last visible)) else None) \<rparr>)"

section \<open>The feed\<close>

datatype feed_period = PERIOD_7D | PERIOD_30D | PERIOD_3M | PERIOD_YEAR | PERIOD_ALL

fun period_value :: "feed_period \<Rightarrow> string" where
  "period_value PERIOD_7D = ''7d''"
| "period_value PERIOD_30D = ''30d''"
| "period_value PERIOD_3M = ''3m''"
| "period_value PERIOD_YEAR = ''year''"
| "period_value PERIOD_ALL = ''all''"

text \<open>Some months earlier, on the last day of that month when it is shorter.\<close>

definition months_before :: "nat \<Rightarrow> utc_datetime \<Rightarrow> utc_datetime" where
  "months_before months now =
     (let month_index = dt_year now * 12 + dt_month now - 1 - months;
          year = month_index div 12; month = month_index mod 12
      in now\<lparr>dt_year := year, dt_month := month + 1,
             dt_day := min (dt_day now) (days_in_month year (month + 1))\<rparr>)"

definition period_since :: "feed_period \<Rightarrow> utc_datetime \<Rightarrow> timestamp option" where
  "period_since period now =
     (case period of
        PERIOD_ALL \<Rightarrow> None
      | PERIOD_7D \<Rightarrow> Some (utc_timestamp now - 7 * 86400000000)
      | PERIOD_30D \<Rightarrow> Some (utc_timestamp now - 30 * 86400000000)
      | PERIOD_3M \<Rightarrow> Some (utc_timestamp (months_before 3 now))
      | PERIOD_YEAR \<Rightarrow> Some (utc_timestamp (months_before 12 now)))"

record feed_request =
  fq_user_id :: uuid
  fq_role :: user_role
  fq_legacy_parameters :: bool
  fq_movement_type :: "movement_type option"
  fq_actor_user_id :: "uuid option"
  fq_category :: "string option"
  fq_long_range :: bool
  fq_location_id :: "uuid option"
  fq_period :: feed_period
  fq_limit :: nat

datatype feed_error = FeedHttp nat string | FeedCatalogError string | FeedServerError

record feed_page =
  fp_items :: "movement_record list"
  fp_snapshot_at :: utc_datetime
  fp_cursor :: code_points
  fp_next_cursor :: "code_points option"

fun server_error :: "cursor_error + 'a \<Rightarrow> feed_error + 'a" where
  "server_error (Inl e) = Inl FeedServerError"
| "server_error (Inr x) = Inr x"

fun cursor_http_error :: "cursor_error + 'a \<Rightarrow> feed_error + 'a" where
  "cursor_http_error (Inl (MovementFeedCursorError s)) = Inl (FeedHttp 422 ''movement_cursor_invalid'')"
| "cursor_http_error (Inl e) = Inl FeedServerError"
| "cursor_http_error (Inr x) = Inr x"

fun catalog_http_error :: "string + 'a \<Rightarrow> feed_error + 'a" where
  "catalog_http_error (Inl e) = Inl (FeedCatalogError e)"
| "catalog_http_error (Inr x) = Inr x"

text \<open>Only the capability to read all movements shows movements of others.\<close>

definition feed_actor :: "feed_request \<Rightarrow> feed_error + uuid option" where
  "feed_actor r =
     (if has_capability (fq_role r) MOVEMENT_READ_ALL then Inr (fq_actor_user_id r)
      else if fq_actor_user_id r \<notin> {None, Some (fq_user_id r)}
      then Inl (FeedHttp 403 ''all movement history capability required'')
      else Inr (Some (fq_user_id r)))"

definition feed_scope :: "feed_request \<Rightarrow> uuid option \<Rightarrow> (string \<times> json) list" where
  "feed_scope r actor =
     [(''requester_user_id'', JStr (uuid_str (fq_user_id r))),
      (''movement_type'', case fq_movement_type r of None \<Rightarrow> JNull | Some t \<Rightarrow> JStr (movement_type_value t)),
      (''actor_user_id'', jopt_uuid actor),
      (''category'', case fq_category r of None \<Rightarrow> JNull | Some c \<Rightarrow> JStr c),
      (''long_range'', JBool (fq_long_range r)),
      (''location_id'', jopt_uuid (fq_location_id r)),
      (''period'', JStr (period_value (fq_period r))),
      (''limit'', JInt (int (fq_limit r)))]"

definition feed_query :: "feed_request \<Rightarrow> uuid option \<Rightarrow> utc_datetime \<Rightarrow> movement_query" where
  "feed_query r actor snapshot_at =
     \<lparr> mq_movement_type = fq_movement_type r, mq_item_id = None, mq_actor_user_id = actor,
       mq_location_id = fq_location_id r, mq_category_key = fq_category r,
       mq_long_range = fq_long_range r, mq_since = period_since (fq_period r) snapshot_at,
       mq_until = Some (utc_timestamp snapshot_at) \<rparr>"

definition acquire_movement_feed_snapshot ::
    "feed_env \<Rightarrow> db \<Rightarrow> utc_datetime \<Rightarrow> feed_error + utc_datetime \<times> string" where
  "acquire_movement_feed_snapshot env d clock =
     (if fe_current_snapshot env d = [] then Inl FeedServerError
      else Inr (clock, fe_current_snapshot env d))"

text \<open>Where a page starts: a new snapshot, or the position in the token.\<close>

definition feed_position ::
    "feed_env \<Rightarrow> db \<Rightarrow> (string \<times> json) list \<Rightarrow> code_points option \<Rightarrow> int \<Rightarrow> utc_datetime
       \<Rightarrow> feed_error + movement_feed_cursor_state \<times> code_points" where
  "feed_position env d scope cursor now clock =
     (case cursor of
        None \<Rightarrow>
          ebind (acquire_movement_feed_snapshot env d clock) (\<lambda>(snapshot_at, database_snapshot).
          ebind (server_error (encode_movement_feed_cursor (fe_cursor env) snapshot_at database_snapshot
            None scope now)) (\<lambda>token.
          Inr (\<lparr> fcs_snapshot_at = snapshot_at, fcs_database_snapshot = database_snapshot,
                 fcs_before_journal_seq = None \<rparr>, token)))
      | Some token \<Rightarrow>
          ebind (cursor_http_error (decode_movement_feed_cursor (fe_cursor env) token scope now)) (\<lambda>state.
          Inr (state, token)))"

definition get_movement_feed ::
    "feed_env \<Rightarrow> feed_request \<Rightarrow> db \<Rightarrow> code_points option \<Rightarrow> int \<Rightarrow> utc_datetime \<Rightarrow> feed_error + feed_page" where
  "get_movement_feed env r d cursor now clock =
     ebind (ensure (\<not> fq_legacy_parameters r) (FeedHttp 422 ''movement_cursor_legacy_parameters'')) (\<lambda>_.
     ebind (feed_actor r) (\<lambda>actor.
     let scope = feed_scope r actor in
     ebind (feed_position env d scope cursor now clock) (\<lambda>(state, current_cursor).
     ebind (catalog_http_error (list_movements_cursor env d (feed_query r actor (fcs_snapshot_at state))
       (fcs_before_journal_seq state) (Some (fcs_database_snapshot state)) (fq_limit r))) (\<lambda>found.
     ebind (case cu_next_before_journal_seq found of
              None \<Rightarrow> Inr None
            | Some b \<Rightarrow> ebind (server_error (encode_movement_feed_cursor (fe_cursor env)
                (fcs_snapshot_at state) (fcs_database_snapshot state) (Some b) scope now)) (\<lambda>t. Inr (Some t))) (\<lambda>next_cursor.
     Inr \<lparr> fp_items = cu_items found, fp_snapshot_at = fcs_snapshot_at state, fp_cursor = current_cursor,
           fp_next_cursor = next_cursor \<rparr>)))))"

end
