(* ===== verification/Feed_Cursor_Proofs.thy ===== *)
theory Feed_Cursor_Proofs
  imports Feed_Cursor Init_Data_Proofs
begin

text \<open>
  A page token of the movement feed is read back as it was written: base 64 is undone by the
  lenient decoder of Python, the signature is the one computed again, and the payload holds
  what was put into it.
\<close>

section \<open>Base 64 round trip\<close>

lemma b64_value_char: "v < 64 \<Longrightarrow> b64_value (b64_char v) = Some v"
  by (auto simp: b64_value_def b64_char_def)

lemma b64_char_plain: "v < 64 \<Longrightarrow> b64_char v \<noteq> 61 \<and> b64_char v \<noteq> 46 \<and> is_ascii (b64_char v)"
  by (auto simp: b64_char_def is_ascii_def)

lemma a2b_char:
  "v < 64 \<Longrightarrow> a2b_base64 quad left pads (b64_char v # cs) =
     (if quad = 0 then a2b_base64 1 v 0 cs
      else if quad = 1 then map_option (Cons (left * 4 + v div 16)) (a2b_base64 2 (v mod 16) 0 cs)
      else if quad = 2 then map_option (Cons (left * 16 + v div 4)) (a2b_base64 3 (v mod 4) 0 cs)
      else map_option (Cons (left * 64 + v)) (a2b_base64 0 0 0 cs))"
  by (simp add: b64_value_char b64_char_plain)

text \<open>Six bits are split off a byte and put back.\<close>

lemma sextets:
  fixes a b c :: nat
  assumes "a < 256" and "b < 256" and "c < 256"
  shows "a div 4 < 64" and "a mod 4 * 16 + b div 16 < 64" and "b mod 16 * 4 + c div 64 < 64"
    and "(a mod 4 * 16 + b div 16) div 16 = a mod 4" and "(a mod 4 * 16 + b div 16) mod 16 = b div 16"
    and "(b mod 16 * 4 + c div 64) div 4 = b mod 16" and "(b mod 16 * 4 + c div 64) mod 4 = c div 64"
    and "b div 16 mod 16 = b div 16"
proof -
  have d: "b div 16 < 16" "c div 64 < 4" "a mod 4 < 4" "b mod 16 < 16" using assms by auto
  show "a div 4 < 64" using assms(1) by auto
  show "a mod 4 * 16 + b div 16 < 64" "b mod 16 * 4 + c div 64 < 64" using d by auto
  show "(a mod 4 * 16 + b div 16) div 16 = a mod 4" "(a mod 4 * 16 + b div 16) mod 16 = b div 16"
    "(b mod 16 * 4 + c div 64) div 4 = b mod 16" "(b mod 16 * 4 + c div 64) mod 4 = c div 64"
    "b div 16 mod 16 = b div 16"
    using d by (simp_all add: div_less mod_less)
qed

definition b64_padding :: "nat list \<Rightarrow> nat list" where
  "b64_padding s = replicate (nat (- int (length s) mod 4)) 61"

lemma b64_padding_skip: "b64_padding (w # x # y # z # s) = b64_padding s"
proof -
  have "- (4 + i) mod 4 = - i mod 4" for i :: int by presburger
  then show ?thesis by (simp add: b64_padding_def)
qed

lemma b64_padding_map: "b64_padding (map f s) = b64_padding s"
  by (simp add: b64_padding_def)

lemma a2b_groups:
  "\<forall>b\<in>set bs. b < 256 \<Longrightarrow>
     a2b_base64 0 left pads (map b64_char (b64_groups bs) @ b64_padding (b64_groups bs)) = Some bs"
proof (induction bs arbitrary: left pads rule: b64_groups.induct)
  case 1
  show ?case by (simp add: b64_padding_def)
next
  case (2 a)
  then show ?case using sextets [of a 0 0]
    by (simp add: b64_padding_def a2b_char numeral_2_eq_2 del: a2b_base64.simps(2)) (simp add: numeral_2_eq_2)
next
  case (3 a b)
  then show ?case using sextets [of a b 0]
    by (simp add: b64_padding_def a2b_char del: a2b_base64.simps(2)) simp
next
  case (4 a b c bs)
  then show ?case using sextets [of a b c]
    by (simp add: b64_padding_skip a2b_char del: a2b_base64.simps(2))
qed

lemma b64_groups_below: "\<forall>b\<in>set bs. b < 256 \<Longrightarrow> v \<in> set (b64_groups bs) \<Longrightarrow> v < 64"
proof (induction bs rule: b64_groups.induct)
  case (2 a)
  then show ?case using sextets [of a 0 0] by auto
next
  case (3 a b)
  then show ?case using sextets [of a b 0] by auto
next
  case (4 a b c bs)
  then show ?case using sextets [of a b c] by auto
qed simp

lemma encode_base64_plain:
  assumes "\<forall>b\<in>set bs. b < 256" and "c \<in> set (encode_base64 bs)"
  shows "c \<noteq> 46" and "is_ascii c"
  using assms b64_groups_below b64_char_plain by (auto simp: encode_base64_def)

lemma decode_encode_base64:
  assumes "\<forall>b\<in>set bs. b < 256"
  shows "decode_base64 (encode_base64 bs) = Some bs"
proof -
  have "list_all is_ascii (encode_base64 bs @ b64_padding (b64_groups bs))"
    using encode_base64_plain(2) [OF assms] by (auto simp: list_all_iff b64_padding_def is_ascii_def)
  then show ?thesis
    using a2b_groups [OF assms]
    by (simp add: decode_base64_def encode_base64_def b64_padding_def Let_def)
qed

section \<open>Texts as bytes\<close>

lemma code_point_scalar: "is_scalar (code_point c)"
proof -
  obtain n :: nat where n: "of_char c = n" "n < 256" using nat_of_char_less_256 by blast
  then show ?thesis by (auto simp: is_scalar_def code_point_def n(1) Let_def)
qed

lemma text_bytes_below: "b \<in> set (text_bytes s) \<Longrightarrow> b < 256"
  using utf8_bytes [of "cps s" b] code_point_scalar
  by (auto simp: text_bytes_def utf8_def cps_def list_all_iff)

section \<open>Tokens\<close>

definition cursor_digest_ok :: "cursor_env \<Rightarrow> bool" where
  "cursor_digest_ok env \<longleftrightarrow> (\<forall>key message. \<forall>b\<in>set (fc_hmac env key message). b < 256)"

text \<open>What is asked of the two parsers, for one token: they read what was printed.\<close>

definition cursor_parsed ::
    "cursor_env \<Rightarrow> utc_datetime \<Rightarrow> string \<Rightarrow> int option \<Rightarrow> (string \<times> json) list \<Rightarrow> int \<Rightarrow> bool" where
  "cursor_parsed env snapshot_at database_snapshot before scope now \<longleftrightarrow>
     (let payload = cursor_payload env snapshot_at database_snapshot before scope now
      in fc_loads env (text_bytes (json_dumps payload)) = Some payload) \<and>
     fc_fromisoformat env (isoformat snapshot_at) = Some (Some snapshot_at)"

definition in_time :: "int \<Rightarrow> int \<Rightarrow> bool" where
  "in_time issued now \<longleftrightarrow> issued - CLOCK_SKEW_SECONDS \<le> now \<and> now \<le> issued + CURSOR_TTL_SECONDS"

lemma token_parts:
  assumes "\<forall>b\<in>set raw. b < 256"
  shows "takeWhile (\<lambda>c. c \<noteq> 46) (encode_base64 raw @ 46 # s) = encode_base64 raw"
    and "dropWhile (\<lambda>c. c \<noteq> 46) (encode_base64 raw @ 46 # s) = 46 # s"
  using takeWhile_sep [of 46 "encode_base64 raw" s] dropWhile_sep [of 46 "encode_base64 raw" s]
    encode_base64_plain(1) [OF assms] by blast+

lemma check_payload_written:
  assumes "cursor_parsed env t snap before scope issued" and "in_time issued now"
    and "snap \<noteq> []" and "length snap \<le> 12000" and "\<forall>b\<in>set_option before. 0 < b"
  shows "check_payload env scope now (cursor_payload env t snap before scope issued) =
    Inr \<lparr> fcs_snapshot_at = t, fcs_database_snapshot = snap, fcs_before_journal_seq = before \<rparr>"
  using assms
  by (cases before)
    (auto simp: check_payload_def cursor_payload_def cursor_parsed_def in_time_def equals_one_def Let_def ensure_def)

lemma cursor_roundtrip:
  assumes "cursor_digest_ok env" and "cursor_parsed env t snap before scope issued" and "in_time issued now"
    and "encode_movement_feed_cursor env t snap before scope issued = Inr token"
  shows "decode_movement_feed_cursor env token scope now =
    Inr \<lparr> fcs_snapshot_at = t, fcs_database_snapshot = snap, fcs_before_journal_seq = before \<rparr>"
proof -
  define raw where "raw = text_bytes (json_dumps (cursor_payload env t snap before scope issued))"
  obtain sig where sig: "cursor_signature env raw = Inr sig"
    and token: "token = encode_base64 raw @ 46 # encode_base64 sig"
    and ok: "snap \<noteq> []" "length snap \<le> 12000" "\<forall>b\<in>set_option before. 0 < b"
    using assms(4) unfolding encode_movement_feed_cursor_def raw_def [symmetric] Let_def
    by (auto simp: result_simps)
  have raw: "\<forall>b\<in>set raw. b < 256" using text_bytes_below by (simp add: raw_def)
  have "\<forall>b\<in>set sig. b < 256"
    using sig assms(1) by (auto simp: cursor_signature_def cursor_digest_ok_def result_simps)
  moreover have "fc_loads env raw = Some (cursor_payload env t snap before scope issued)"
    using assms(2) by (simp add: cursor_parsed_def raw_def Let_def)
  ultimately show ?thesis
    using check_payload_written [OF assms(2,3) ok]
    by (simp add: decode_movement_feed_cursor_def token token_parts [OF raw] decode_encode_base64 raw sig ensure_def)
qed

text \<open>Whatever token is accepted, its payload carries the signature of this server.\<close>

lemma accepted_cursor_signed:
  assumes "decode_movement_feed_cursor env token scope now = Inr c"
  shows "\<exists>raw sig. decode_base64 (takeWhile (\<lambda>c. c \<noteq> 46) token) = Some raw \<and>
    decode_base64 (tl (dropWhile (\<lambda>c. c \<noteq> 46) token)) = Some sig \<and> cursor_signature env raw = Inr sig"
  using assms by (auto simp: decode_movement_feed_cursor_def result_simps)

end
