(* ===== verification/Movement_Feed_Proofs.thy ===== *)
theory Movement_Feed_Proofs
  imports Movement_Feed Feed_Cursor_Proofs Warehouse_Steps
begin

text \<open>
  The feed shows one state of the journal: however many movements are booked while a user reads
  page after page, the pages together are the movements that were there when the first page was
  read, each once, newest first.
\<close>

section \<open>Positions in the journal\<close>

text \<open>The unique column of the journal, an identity that starts at one.\<close>

definition journal_seqs_ok :: "db \<Rightarrow> bool" where
  "journal_seqs_ok d \<longleftrightarrow> distinct (map mv_journal_seq (movements d)) \<and> (\<forall>m\<in>set (movements d). 0 < mv_journal_seq m)"

definition newer :: "movement \<Rightarrow> movement \<Rightarrow> bool" where
  "newer a b \<longleftrightarrow> mv_journal_seq b < mv_journal_seq a"

lemma sorted_newest_first:
  assumes "distinct (map mv_journal_seq ms)"
  shows "sorted_wrt newer (newest_first ms)"
proof -
  let ?xs = "map (\<lambda>m. - mv_journal_seq m) (newest_first ms)"
  have "mset (map mv_journal_seq (newest_first ms)) = mset (map mv_journal_seq ms)"
    by (simp add: newest_first_def)
  then have "distinct (map mv_journal_seq (newest_first ms))" using assms mset_eq_imp_distinct_iff by blast
  then have "distinct ?xs" by (auto simp: distinct_map inj_on_def)
  moreover have "sorted ?xs" by (simp add: newest_first_def)
  ultimately have "sorted_wrt (<) ?xs" by (simp add: strict_sorted_iff)
  then show ?thesis by (simp add: sorted_wrt_map newer_def [abs_def])
qed

lemma filter_newest_first: "newest_first (filter P ms) = filter P (newest_first ms)"
  by (simp add: newest_first_def filter_sort)

text \<open>What lies below the last row of a page is what the page left over.\<close>

lemma below_last_of_page:
  assumes sorted: "sorted_wrt newer ms" and "k \<le> length (filter (below before) ms)" and "0 < k"
  shows "filter (below (Some (mv_journal_seq (last (take k (filter (below before) ms)))))) ms =
    drop k (filter (below before) ms)"
proof -
  define rs where "rs = filter (below before) ms"
  define x where "x = last (take k rs)"
  have split: "sorted_wrt newer (take k rs @ drop k rs)"
    using sorted_wrt_filter [OF sorted] by (simp add: rs_def)
  have ne: "take k rs \<noteq> []" using assms(2,3) by (auto simp: rs_def [symmetric])
  then obtain front where front: "take k rs = front @ [x]" unfolding x_def by (metis append_butlast_last_id)
  have "x \<in> set rs" using front by (metis in_set_takeD in_set_conv_decomp)
  then have "below before x" by (simp add: rs_def)
  then have "below (Some (mv_journal_seq x)) m \<Longrightarrow> below before m" for m by (auto simp: below_def)
  then have "filter (below (Some (mv_journal_seq x))) ms = filter (below (Some (mv_journal_seq x))) rs"
    unfolding rs_def filter_filter by (intro filter_cong) auto
  also have "\<dots> = filter (below (Some (mv_journal_seq x))) (take k rs) @ filter (below (Some (mv_journal_seq x))) (drop k rs)"
    by (metis append_take_drop_id filter_append)
  also have "filter (below (Some (mv_journal_seq x))) (take k rs) = []"
    using split by (auto simp: front filter_empty_conv below_def newer_def sorted_wrt_append)
  also have "filter (below (Some (mv_journal_seq x))) (drop k rs) = drop k rs"
    using split by (auto simp: front filter_id_conv below_def newer_def sorted_wrt_append)
  finally show ?thesis by (simp add: rs_def x_def)
qed

section \<open>Later states\<close>

text \<open>The journal only grows, and a filter by category sees the same catalog.\<close>

definition served_later :: "feed_request \<Rightarrow> db \<Rightarrow> db \<Rightarrow> bool" where
  "served_later r d d' \<longleftrightarrow>
     journal_extends d d' \<and> distinct (map mv_id (movements d')) \<and>
     (fq_category r \<notin> {None, Some []} \<or> fq_long_range r \<longrightarrow> items d' = items d)"

lemma moves_item_later:
  assumes "journal_extends d d'" and "items d' = items d" and "m \<in> set (movements d)"
  shows "moves_item d' wanted m = moves_item d wanted m"
proof -
  obtain ls where "movement_lines d' = movement_lines d @ ls"
    "\<forall>ml\<in>set ls. ml_movement_id ml \<notin> mv_id ` set (movements d)"
    using assms(1) by (auto simp: journal_extends_def)
  then show ?thesis using assms(2,3) by (auto simp: moves_item_def)
qed

lemma movement_filters_later:
  assumes "served_later r d d'" and "movement_filters schema d (feed_query r actor t) = Inr wanted"
  obtains wanted' where "movement_filters schema d' (feed_query r actor t) = Inr wanted'"
    and "\<And>m. m \<in> set (movements d) \<Longrightarrow> wanted' m = wanted m"
proof (cases "scoped_query (feed_query r actor t)")
  case False
  then show ?thesis using that assms(2) by (simp add: movement_filters_def)
next
  case True
  then have "items d' = items d"
    using assms(1) by (auto simp: scoped_query_def feed_query_def served_later_def)
  with True show ?thesis
    using that assms moves_item_later [of d d'] by (auto simp: movement_filters_def result_simps served_later_def)
qed

lemma record_later:
  "journal_extends d d' \<Longrightarrow> m \<in> set (movements d) \<Longrightarrow> movement_record_of d' m = movement_record_of d m"
  by (simp add: movement_record_of_def lines_of_extends)

lemma rows_later:
  assumes "served_later r d d'" and "\<And>m. m \<in> set (movements d) \<Longrightarrow> wanted' m = wanted m"
    and "\<And>m. m \<in> set (movements d') \<Longrightarrow> seen m \<longleftrightarrow> m \<in> set (movements d)"
  shows "filter (\<lambda>m. wanted' m \<and> seen m \<and> p m) (movements d') = filter p (filter wanted (movements d))"
proof -
  obtain ms where ms: "movements d' = movements d @ ms" "distinct (map mv_id (movements d @ ms))"
    using assms(1) by (auto simp: served_later_def journal_extends_def)
  then have "\<not> seen m" if "m \<in> set ms" for m using assms(3) [of m] that by (auto simp: distinct_map)
  then have "filter (\<lambda>m. wanted' m \<and> seen m \<and> p m) ms = []" by (auto simp: filter_empty_conv)
  moreover have "filter (\<lambda>m. wanted' m \<and> seen m \<and> p m) (movements d) = filter p (filter wanted (movements d))"
    unfolding filter_filter using assms(2,3) ms(1) by (intro filter_cong) auto
  ultimately show ?thesis by (simp add: ms(1))
qed

text \<open>Whatever the warehouse service does is such a later state.\<close>

lemma journal_seqs_append:
  assumes "journal_seqs_ok d" and "mv_journal_seq m = next_journal_seq d"
  shows "distinct (map mv_journal_seq (movements d @ [m])) \<and> (\<forall>x\<in>set (movements d @ [m]). 0 < mv_journal_seq x)"
proof -
  have "0 \<le> foldr (\<lambda>m. max (mv_journal_seq m)) ms 0" for ms :: "movement list"
    by (induction ms) (auto simp: le_max_iff_disj)
  then have "0 < next_journal_seq d" unfolding next_journal_seq_def by (metis add.commute zle_add1_eq_le order_le_less_trans zero_less_one add_pos_nonneg)
  moreover have "mv_journal_seq m \<notin> mv_journal_seq ` set (movements d)"
    using next_journal_seq_above assms(2) by fastforce
  ultimately show ?thesis using assms by (auto simp: journal_seqs_ok_def)
qed

lemma movement_later:
  assumes inv: "warehouse_inv d" and seqs: "journal_seqs_ok d"
    and call: "create_movement_internal sha256 d mid now p actor name custody = Inr (d', r)"
  shows "items d' = items d \<and> journal_seqs_ok d'"
  using call
proof (cases rule: create_movement_cases)
  case replay
  then show ?thesis using seqs by simp
next
  case (new original m ls)
  note same = same_but_projectionsD [OF new_movement_effect(1) [OF inv new(1,3)]]
  show ?thesis
    using journal_seqs_append [OF seqs accepted_movement(9) [OF new(1)]] same(1,4)
    by (simp add: append_movement_def journal_seqs_ok_def)
qed

lemma warehouse_step_later:
  assumes "inventory_step sha256 d d'" and inv: "inventory_inv d" and "journal_seqs_ok d"
  shows "journal_extends d d' \<and> items d' = items d \<and> journal_seqs_ok d'"
proof -
  have w: "warehouse_inv d" using inv by (simp add: inventory_inv_def)
  have move: ?thesis if "create_movement_internal sha256 d mid now p actor name custody = Inr (d', r)"
    for mid now p actor name custody r
    using create_movement_effect(2) [OF w that] movement_later [OF w assms(3) that] by simp
  have place: ?thesis if "d' = d\<lparr>locations := ls\<rparr>" for ls
    using assms(3) that by (simp add: journal_extends_def journal_seqs_ok_def)
  show ?thesis
    using assms(1)
  proof cases
    case step_create_location
    then show ?thesis using create_location_Inr place by blast
  next
    case step_update_location
    then show ?thesis using update_location_Inr place by blast
  next
    case step_set_location_archived
    then show ?thesis using set_location_archived_Inr place by blast
  next
    case step_create_movement
    then show ?thesis using create_movement_internalI move by blast
  next
    case step_reverse_movement
    then show ?thesis using move by (auto simp: reverse_movement_def ebind_Inr_iff)
  qed
qed

lemma warehouse_run_later:
  assumes "(inventory_step sha256)\<^sup>*\<^sup>* d d'" and "inventory_inv d" and "journal_seqs_ok d"
  shows "served_later r d d'"
proof -
  from assms(1) have "inventory_inv d' \<and> journal_extends d d' \<and> items d' = items d \<and> journal_seqs_ok d'"
  proof (induction rule: rtranclp_induct)
    case base
    then show ?case using assms(2,3) by simp
  next
    case (step x y)
    then show ?case
      using warehouse_step_later [OF step(2)] inventory_step_inv [OF step(2)] journal_extends_trans by metis
  qed
  then show ?thesis by (simp add: served_later_def inventory_inv_def warehouse_inv_def journal_wf_def)
qed

section \<open>One page\<close>

text \<open>The snapshot taken in a state shows its movements, in every state in which a page is read.\<close>

definition snapshot_shows :: "feed_env \<Rightarrow> db \<Rightarrow> db \<Rightarrow> bool" where
  "snapshot_shows env d d' \<longleftrightarrow>
     (\<forall>m\<in>set (movements d'). fe_visible env (fe_current_snapshot env d) m \<longleftrightarrow> m \<in> set (movements d))"

lemma page_of_snapshot:
  assumes later: "served_later r d d'" and seen: "snapshot_shows env d d'"
    and wanted: "movement_filters (fe_schema env) d (feed_query r actor t) = Inr wanted"
    and "0 < limit" and rs: "rs = filter (below before) (newest_first (filter wanted (movements d)))"
  shows "list_movements_cursor env d' (feed_query r actor t) before (Some (fe_current_snapshot env d)) limit =
    Inr \<lparr> cu_items = map (movement_record_of d) (take limit rs),
          cu_next_before_journal_seq =
            (if length rs > limit then Some (mv_journal_seq (last (take limit rs))) else None) \<rparr>"
proof -
  obtain wanted' where wanted': "movement_filters (fe_schema env) d' (feed_query r actor t) = Inr wanted'"
    "\<And>m. m \<in> set (movements d) \<Longrightarrow> wanted' m = wanted m"
    using movement_filters_later [OF later wanted] by blast
  have "newest_first (filter (\<lambda>m. wanted' m \<and> fe_visible env (fe_current_snapshot env d) m \<and> below before m)
      (movements d')) = rs"
    using rows_later [OF later wanted'(2), where seen = "fe_visible env (fe_current_snapshot env d)" and p = "below before"] seen
    by (simp add: snapshot_shows_def rs filter_newest_first)
  moreover have "map (movement_record_of d') (take limit rs) = map (movement_record_of d) (take limit rs)"
    using later record_later by (auto simp: served_later_def rs newest_first_def dest!: in_set_takeD)
  ultimately show ?thesis
    using \<open>0 < limit\<close> by (auto simp: list_movements_cursor_def wanted' Let_def take_all)
qed

section \<open>All pages\<close>

text \<open>A visit is the state in which a page is asked for, the time in seconds, and the clock of the
  database; a walk follows the tokens until there is no next page.\<close>

type_synonym visit = "db \<times> int \<times> utc_datetime"

fun feed_walk :: "feed_env \<Rightarrow> feed_request \<Rightarrow> visit list \<Rightarrow> code_points option
    \<Rightarrow> feed_error + movement_record list \<times> code_points option" where
  "feed_walk env r [] cursor = Inr ([], cursor)"
| "feed_walk env r ((d, now, clock) # vs) cursor =
     ebind (get_movement_feed env r d cursor now clock) (\<lambda>p.
     case fp_next_cursor p of
       None \<Rightarrow> Inr (fp_items p, None)
     | Some token \<Rightarrow> ebind (feed_walk env r vs (Some token)) (\<lambda>(rest, end_cursor).
         Inr (fp_items p @ rest, end_cursor)))"

fun paced :: "int list \<Rightarrow> bool" where
  "paced (a # b # ts) \<longleftrightarrow> in_time a b \<and> paced (b # ts)"
| "paced ts \<longleftrightarrow> True"

text \<open>The request is allowed and well formed, and the server can sign tokens.\<close>

definition feed_ready ::
    "feed_env \<Rightarrow> feed_request \<Rightarrow> db \<Rightarrow> utc_datetime \<Rightarrow> uuid option \<Rightarrow> (movement \<Rightarrow> bool) \<Rightarrow> bool" where
  "feed_ready env r d clock actor wanted \<longleftrightarrow>
     \<not> fq_legacy_parameters r \<and> 0 < fq_limit r \<and> feed_actor r = Inr actor \<and>
     movement_filters (fe_schema env) d (feed_query r actor clock) = Inr wanted \<and>
     cursor_digest_ok (fe_cursor env) \<and> (\<exists>key. cursor_key (fe_cursor env) = Inr key) \<and>
     fe_current_snapshot env d \<noteq> [] \<and> length (fe_current_snapshot env d) \<le> 12000"

definition tokens_parsed ::
    "feed_env \<Rightarrow> feed_request \<Rightarrow> uuid option \<Rightarrow> db \<Rightarrow> utc_datetime \<Rightarrow> int list \<Rightarrow> bool" where
  "tokens_parsed env r actor d clock moments \<longleftrightarrow>
     (\<forall>now\<in>set moments. \<forall>before\<in>insert None (Some ` mv_journal_seq ` set (movements d)).
        cursor_parsed (fe_cursor env) clock (fe_current_snapshot env d) before (feed_scope r actor) now)"

definition snapshot_position :: "feed_env \<Rightarrow> db \<Rightarrow> utc_datetime \<Rightarrow> int option \<Rightarrow> movement_feed_cursor_state" where
  "snapshot_position env d clock before =
     \<lparr> fcs_snapshot_at = clock, fcs_database_snapshot = fe_current_snapshot env d,
       fcs_before_journal_seq = before \<rparr>"

lemma encode_ready:
  assumes "feed_ready env r d clock actor wanted" and "\<forall>b\<in>set_option before. 0 < b"
  obtains token where
    "encode_movement_feed_cursor (fe_cursor env) clock (fe_current_snapshot env d) before scope now = Inr token"
  using assms by (auto simp: feed_ready_def encode_movement_feed_cursor_def cursor_signature_def Let_def ensure_def)

lemma get_page:
  assumes ready: "feed_ready env r d clock actor wanted" and seqs: "journal_seqs_ok d"
    and later: "served_later r d d'" "snapshot_shows env d d'"
    and rs: "rs = filter (below before) (newest_first (filter wanted (movements d)))"
    and here: "feed_position env d' (feed_scope r actor) cursor now clock' =
      Inr (snapshot_position env d clock before, token)"
  obtains p where "get_movement_feed env r d' cursor now clock' = Inr p"
    and "fp_items p = map (movement_record_of d) (take (fq_limit r) rs)"
    and "length rs \<le> fq_limit r \<Longrightarrow> fp_next_cursor p = None"
    and "fq_limit r < length rs \<Longrightarrow> \<exists>next. fp_next_cursor p = Some next \<and>
      encode_movement_feed_cursor (fe_cursor env) clock (fe_current_snapshot env d)
        (Some (mv_journal_seq (last (take (fq_limit r) rs)))) (feed_scope r actor) now = Inr next"
proof -
  have limit: "0 < fq_limit r" using ready by (simp add: feed_ready_def)
  have wanted: "movement_filters (fe_schema env) d (feed_query r actor clock) = Inr wanted"
    using ready by (simp add: feed_ready_def)
  note read = page_of_snapshot [OF later wanted limit rs]
  show ?thesis
  proof (cases "fq_limit r < length rs")
    case False
    then show ?thesis
      using ready read here
      by (intro that) (auto simp: get_movement_feed_def feed_ready_def snapshot_position_def Let_def ensure_def)
  next
    case True
    then have "last (take (fq_limit r) rs) \<in> set rs" using limit by (metis in_set_takeD last_in_set length_0_conv
        length_take less_nat_zero_code min.absorb4 not_gr_zero)
    then have "0 < mv_journal_seq (last (take (fq_limit r) rs))"
      using seqs by (auto simp: rs newest_first_def journal_seqs_ok_def)
    then obtain token' where "encode_movement_feed_cursor (fe_cursor env) clock (fe_current_snapshot env d)
        (Some (mv_journal_seq (last (take (fq_limit r) rs)))) (feed_scope r actor) now = Inr token'"
      using encode_ready [OF ready, of "Some (mv_journal_seq (last (take (fq_limit r) rs)))"] by auto
    then show ?thesis
      using ready read here True
      by (intro that) (auto simp: get_movement_feed_def feed_ready_def snapshot_position_def Let_def ensure_def)
  qed
qed

lemma walk_from:
  assumes ready: "feed_ready env r d clock actor wanted" and seqs: "journal_seqs_ok d"
    and parsed: "tokens_parsed env r actor d clock moments"
    and "vs \<noteq> []" and "paced (map (fst \<circ> snd) vs)" and "fst ` snd ` set vs \<subseteq> set moments"
    and "\<forall>v\<in>set vs. served_later r d (fst v) \<and> snapshot_shows env d (fst v)"
    and "rs = filter (below before) (newest_first (filter wanted (movements d)))"
    and "length rs \<le> length vs * fq_limit r"
    and "feed_position env (fst (hd vs)) (feed_scope r actor) cursor (fst (snd (hd vs))) (snd (snd (hd vs))) =
      Inr (snapshot_position env d clock before, token)"
  shows "feed_walk env r vs cursor = Inr (map (movement_record_of d) rs, None)"
  using assms(4-)
proof (induction vs arbitrary: rs before cursor token)
  case (Cons v vs)
  obtain d' now clock' where v: "v = (d', now, clock')" by (cases v)
  let ?scope = "feed_scope r actor"
  obtain p where p: "get_movement_feed env r d' cursor now clock' = Inr p"
    "fp_items p = map (movement_record_of d) (take (fq_limit r) rs)"
    "length rs \<le> fq_limit r \<Longrightarrow> fp_next_cursor p = None"
    "fq_limit r < length rs \<Longrightarrow> \<exists>next. fp_next_cursor p = Some next \<and>
      encode_movement_feed_cursor (fe_cursor env) clock (fe_current_snapshot env d)
        (Some (mv_journal_seq (last (take (fq_limit r) rs)))) ?scope now = Inr next"
    using get_page [OF ready seqs _ _ Cons.prems(5), of d' cursor now clock' token] Cons.prems(4,7) by (auto simp: v)
  show ?case
  proof (cases "fq_limit r < length rs")
    case False
    then show ?thesis using p by (simp add: v)
  next
    case True
    let ?b = "mv_journal_seq (last (take (fq_limit r) rs))"
    obtain token' where next_page: "fp_next_cursor p = Some token'"
      and enc: "encode_movement_feed_cursor (fe_cursor env) clock (fe_current_snapshot env d) (Some ?b) ?scope now = Inr token'"
      using p(4) [OF True] by blast
    have limit: "0 < fq_limit r" using ready by (simp add: feed_ready_def)
    have vs: "vs \<noteq> []" using True Cons.prems(6) by auto
    then obtain d2 now2 clock2 ws where ws: "vs = (d2, now2, clock2) # ws" by (metis neq_Nil_conv prod_cases3)
    have "last (take (fq_limit r) rs) \<in> set (movements d)"
    proof -
      have "take (fq_limit r) rs \<noteq> []" using True limit by auto
      then have "last (take (fq_limit r) rs) \<in> set rs" by (metis in_set_takeD last_in_set)
      then show ?thesis by (simp add: Cons.prems(5) newest_first_def)
    qed
    then have "cursor_parsed (fe_cursor env) clock (fe_current_snapshot env d) (Some ?b) ?scope now"
      using parsed Cons.prems(3) by (simp add: tokens_parsed_def v)
    from cursor_roundtrip [OF _ this _ enc, of now2]
    have dec: "decode_movement_feed_cursor (fe_cursor env) token' ?scope now2 = Inr (snapshot_position env d clock (Some ?b))"
      using ready Cons.prems(2) by (simp add: feed_ready_def snapshot_position_def v ws)
    have rest: "drop (fq_limit r) rs = filter (below (Some ?b)) (newest_first (filter wanted (movements d)))"
      using below_last_of_page [OF sorted_newest_first, of "filter wanted (movements d)" "fq_limit r" before] seqs True limit
      by (simp add: Cons.prems(5) journal_seqs_ok_def distinct_map_filter)
    have "feed_walk env r vs (Some token') = Inr (map (movement_record_of d) (drop (fq_limit r) rs), None)"
      using Cons.prems(2-4,6) dec
      by (intro Cons.IH [OF vs _ _ _ rest]) (auto simp: ws v feed_position_def)
    then show ?thesis using p(1,2) next_page by (simp add: v map_append [symmetric] del: map_append)
  qed
qed simp

text \<open>
  C15. The movement feed shows one state of the journal. Let a user whose request is allowed read
  page after page by the tokens of the server, each within the hour the token is valid, while the
  warehouse service goes on booking movements. If the database answers which rows the snapshot
  shows, and the JSON and date parsers read what was printed, then the pages together are exactly
  the movements of the first state that the request asks for, each once with its lines, newest
  first, and the walk ends; as many pages as the limit requires are enough.
\<close>

theorem feed_is_one_snapshot:
  assumes inv: "inventory_inv d" and seqs: "journal_seqs_ok d"
    and ready: "feed_ready env r d clock actor wanted"
    and later: "\<forall>v\<in>set vs. (inventory_step sha256)\<^sup>*\<^sup>* d (fst v)"
    and visible: "\<forall>v\<in>set ((d, now, clock) # vs). snapshot_shows env d (fst v)"
    and in_time: "paced (map (fst \<circ> snd) ((d, now, clock) # vs))"
    and parsed: "tokens_parsed env r actor d clock (map (fst \<circ> snd) ((d, now, clock) # vs))"
    and enough: "length (filter wanted (movements d)) \<le> (1 + length vs) * fq_limit r"
  shows "feed_walk env r ((d, now, clock) # vs) None =
    Inr (map (movement_record_of d) (newest_first (filter wanted (movements d))), None)"
proof -
  have all: "\<forall>v\<in>set ((d, now, clock) # vs). served_later r d (fst v) \<and> snapshot_shows env d (fst v)"
    using later visible warehouse_run_later [OF _ inv seqs] by fastforce
  obtain token where
    "encode_movement_feed_cursor (fe_cursor env) clock (fe_current_snapshot env d) None (feed_scope r actor) now = Inr token"
    using encode_ready [OF ready, of None] by auto
  then have start: "feed_position env d (feed_scope r actor) None now clock =
      Inr (snapshot_position env d clock None, token)"
    using ready by (simp add: feed_position_def acquire_movement_feed_snapshot_def snapshot_position_def feed_ready_def)
  have rows: "newest_first (filter wanted (movements d)) =
      filter (below None) (newest_first (filter wanted (movements d)))"
    by (simp add: below_def)
  have moments: "fst ` snd ` set ((d, now, clock) # vs) \<subseteq> set (map (fst \<circ> snd) ((d, now, clock) # vs))"
    by (simp only: image_comp set_map subset_refl)
  show ?thesis
    by (rule walk_from [OF ready seqs parsed _ in_time moments all rows])
      (use enough start in \<open>simp_all add: newest_first_def\<close>)
qed

section \<open>Scopes\<close>

text \<open>For a key in its normal form the movement lists have the scope of the catalog list; another
  spelling of the Ethernet transceivers finds the same category but shows all its views.\<close>

lemma normal_key_nonempty: "normalize_category_key k = Inr k' \<Longrightarrow> k \<noteq> []"
  by (auto simp: normalize_category_key_def catalog_inline_text_def normalize_idempotency_key_def py_split_def
      result_simps Let_def split: if_splits)

lemma equipment_scope_agrees:
  assumes "build_catalog_query_spec schema req = Inr spec" and "rq_category_key req = Some k"
    and "normalize_category_key k = Inr k"
    and "equipment_scope schema (Some k) (rq_long_range req) (rq_rj45 req) = Inr scope"
  shows "scope it \<longleftrightarrow> it_category_id it \<in> set (qs_category_ids spec) \<and> transceiver_view schema spec it"
proof -
  obtain c where c: "category_by_key schema k = Some c" "ensure (CHR 0x00 \<notin> set k) ''22021'' = Inr ()"
    using assms(2,3,4) by (auto simp: equipment_scope_def get_category_by_key_def result_simps)
  then have key: "cat_key c = k" by (auto simp: category_by_key_def dest: table_get_SomeD)
  have spec: "qs_category_ids spec = scope_category_ids schema c" "qs_category_key spec = Some k"
    "qs_long_range spec = rq_long_range req" "qs_rj45 spec = rq_rj45 req"
    using assms(1-3) c key unfolding build_catalog_query_spec_def
    by (auto simp: result_simps Let_def get_category_by_key_def split: prod.splits)
  show ?thesis
    using assms(4) c normal_key_nonempty [OF assms(3)]
    by (auto simp: equipment_scope_def get_category_by_key_def assms(3) transceiver_view_def spec)
qed

lemma equipment_scope_spelling:
  assumes "normalize_category_key k = Inr ''transceiver_ethernet''" and "k \<noteq> ''transceiver_ethernet''"
    and "category_by_key schema ''transceiver_ethernet'' = Some c"
  shows "equipment_scope schema (Some k) False False = Inr scope \<Longrightarrow>
    scope it \<longleftrightarrow> it_category_id it \<in> set (scope_category_ids schema c)"
  using assms normal_key_nonempty [OF assms(1)] by (auto simp: equipment_scope_def get_category_by_key_def)

section \<open>Instances\<close>

text \<open>An administrator reads the two movements of the sample journal in pages of one; between the
  pages a third is booked.\<close>

definition sample_reader :: feed_request where
  "sample_reader = \<lparr> fq_user_id = 2, fq_role = ADMIN, fq_legacy_parameters = False, fq_movement_type = None,
     fq_actor_user_id = None, fq_category = None, fq_long_range = False, fq_location_id = None,
     fq_period = PERIOD_ALL, fq_limit = 1 \<rparr>"

definition sample_clock :: utc_datetime where
  "sample_clock = \<lparr> dt_year = 2026, dt_month = 3, dt_day = 31, dt_hour = 9, dt_minute = 5, dt_second = 0,
     dt_microsecond = 0 \<rparr>"

definition sample_signer :: "(bytes \<Rightarrow> json option) \<Rightarrow> cursor_env" where
  "sample_signer loads = \<lparr> fc_hmac = (\<lambda>key message. replicate 32 7), fc_sha256 = (\<lambda>message. replicate 32 1),
     fc_loads = loads, fc_fromisoformat = (\<lambda>s. if s = isoformat sample_clock then Some (Some sample_clock) else None),
     fc_webhook_secret = None, fc_production = False \<rparr>"

text \<open>Within one second the tokens differ only in the position, which one character tells.\<close>

definition sample_payload :: "int option \<Rightarrow> json" where
  "sample_payload before = cursor_payload (sample_signer (\<lambda>_. None)) sample_clock ''3:3:'' before
     (feed_scope sample_reader None) 100"

definition sample_loads :: "bytes \<Rightarrow> json option" where
  "sample_loads bs = Some (sample_payload (if bs ! 10 = 110 then None else Some (int (bs ! 10) - 48)))"

definition sample_feed :: feed_env where
  "sample_feed = \<lparr> fe_cursor = sample_signer sample_loads, fe_schema = sample_schema,
     fe_current_snapshot = (\<lambda>d. ''3:3:''), fe_visible = (\<lambda>snapshot m. mv_journal_seq m < 3) \<rparr>"

lemma sample_payload_signer: "cursor_payload (sample_signer loads) sample_clock ''3:3:'' before
    (feed_scope sample_reader None) 100 = sample_payload before"
  by (simp add: sample_payload_def cursor_payload_def scope_digest_def sample_signer_def)

lemma text_bytes_append: "text_bytes (s @ t) = text_bytes s @ text_bytes t"
  by (simp add: text_bytes_def cps_def)

lemma json_dumps_fields:
  "sorted (map fst kvs) \<Longrightarrow> json_dumps (JObj kvs) =
     ''{'' @ py_join '','' (map (\<lambda>kv. json_string (fst kv) @ '':'' @ json_dumps (snd kv)) kvs) @ ''}''"
  by (subst json_dumps.simps, subst sort_key_id_if_sorted) (simp_all add: comp_def)

lemma sample_dumps:
  "\<exists>tail. text_bytes (json_dumps (sample_payload before)) =
     text_bytes (''{'' @ json_string ''before'' @ '':'') @
     text_bytes (json_dumps (case before of None \<Rightarrow> JNull | Some b \<Rightarrow> JInt b)) @ tail"
proof -
  have "sorted [''before'', ''database_snapshot'', ''iat'', ''scope'', ''snapshot_at'', ''v'']" by code_simp
  then have "\<exists>tail. json_dumps (sample_payload before) = (''{'' @ json_string ''before'' @ '':'') @
      json_dumps (case before of None \<Rightarrow> JNull | Some b \<Rightarrow> JInt b) @ tail"
    unfolding sample_payload_def cursor_payload_def
    by (subst json_dumps_fields) (simp_all del: json_dumps.simps)
  then show ?thesis using text_bytes_append by metis
qed

lemma sample_loads_dumped:
  assumes "before \<in> {None, Some 1, Some 2}"
  shows "sample_loads (text_bytes (json_dumps (sample_payload before))) = Some (sample_payload before)"
proof -
  have head: "text_bytes (''{'' @ json_string ''before'' @ '':'') = [123, 34, 98, 101, 102, 111, 114, 101, 34, 58]"
    and texts: "text_bytes (json_dumps JNull) = [110, 117, 108, 108]"
      "text_bytes (json_dumps (JInt 1)) = [49]" "text_bytes (json_dumps (JInt 2)) = [50]"
    by code_simp+
  obtain tail where "text_bytes (json_dumps (sample_payload before)) =
      [123, 34, 98, 101, 102, 111, 114, 101, 34, 58] @
      text_bytes (json_dumps (case before of None \<Rightarrow> JNull | Some b \<Rightarrow> JInt b)) @ tail"
    using sample_dumps [of before] head by metis
  then show ?thesis using assms by (auto simp: sample_loads_def texts simp del: json_dumps.simps)
qed

lemma sample_issued_inventory: "inventory_inv sample_issued" "journal_seqs_ok sample_issued"
  using reachable_inventory_witness by (simp_all add: journal_seqs_ok_def sample_data)

lemma sample_return_later:
  "inventory_step sample_digest sample_issued sample_returned"
  "snapshot_shows sample_feed sample_issued sample_issued"
  "snapshot_shows sample_feed sample_issued sample_returned"
proof -
  obtain r where "create_movement sample_digest sample_issued 102 7 sample_return 3 ''Eng'' (Some 3) =
      Inr (sample_returned, r)" using sample_return_run by blast
  then show step: "inventory_step sample_digest sample_issued sample_returned" by (rule step_create_movement)
  show "snapshot_shows sample_feed sample_issued sample_issued"
    by (simp add: snapshot_shows_def sample_feed_def sample_data)
  have ext: "journal_extends sample_issued sample_returned" "journal_seqs_ok sample_returned"
    using warehouse_step_later [OF step sample_issued_inventory] by simp_all
  have "map mv_journal_seq (movements sample_returned) = [1, 2, 3]"
    by (simp add: sample_returned_def sample_return_def eval_simps sample_data Let_def)
  then have "map mv_journal_seq ms = [3]" if "movements sample_returned = movements sample_issued @ ms" for ms
    using that by (simp add: sample_data)
  then show "snapshot_shows sample_feed sample_issued sample_returned"
    using ext(1) by (auto simp: snapshot_shows_def journal_extends_def sample_feed_def sample_data)
qed

lemma sample_feed_ready:
  "feed_ready sample_feed sample_reader sample_issued sample_clock None
     (row_filters (feed_query sample_reader None sample_clock))"
  by (simp add: feed_ready_def sample_reader_def sample_feed_def feed_actor_def movement_filters_def
      scoped_query_def feed_query_def cursor_digest_ok_def sample_signer_def cursor_key_def)

lemma sample_tokens_parsed: "tokens_parsed sample_feed sample_reader None sample_issued sample_clock [100, 100]"
proof -
  have "cursor_parsed (sample_signer sample_loads) sample_clock ''3:3:'' before (feed_scope sample_reader None) 100"
    if "before \<in> {None, Some 1, Some 2}" for before
    using sample_loads_dumped [OF that]
    by (simp add: cursor_parsed_def sample_payload_signer) (simp add: sample_signer_def)
  then show ?thesis by (simp add: tokens_parsed_def sample_feed_def sample_data)
qed

lemma sample_rows:
  "newest_first (filter (row_filters (feed_query sample_reader None sample_clock)) (movements sample_issued)) =
     [sample_issue_movement, sample_receipt_movement]"
proof -
  have "(6 :: int) < utc_timestamp sample_clock"
    by (simp add: utc_timestamp_def sample_clock_def days_before_year_def days_before_month_def
        days_in_month_def is_leap_def upt_conv_Cons)
  then show ?thesis
    by (simp add: row_filters_def feed_query_def sample_reader_def period_since_def newest_first_def sample_data)
qed

theorem feed_is_one_snapshot_witness:
  "feed_walk sample_feed sample_reader
     [(sample_issued, 100, sample_clock), (sample_returned, 100, sample_clock)] None =
   Inr (map (movement_record_of sample_issued) [sample_issue_movement, sample_receipt_movement], None)"
proof -
  let ?wanted = "row_filters (feed_query sample_reader None sample_clock)"
  have "\<forall>v\<in>set [(sample_returned, 100 :: int, sample_clock)].
      (inventory_step sample_digest)\<^sup>*\<^sup>* sample_issued (fst v)"
    using sample_return_later(1) by auto
  moreover have "length (filter ?wanted (movements sample_issued)) \<le>
      (1 + length [(sample_returned, 100 :: int, sample_clock)]) * fq_limit sample_reader"
    by (rule le_trans [OF length_filter_le]) (simp add: sample_reader_def sample_data)
  ultimately show ?thesis
    using feed_is_one_snapshot [OF sample_issued_inventory sample_feed_ready, of "[(sample_returned, 100, sample_clock)]" sample_digest 100]
      sample_return_later(2,3) sample_tokens_parsed
    by (simp add: sample_rows in_time_def CLOCK_SKEW_SECONDS_def CURSOR_TTL_SECONDS_def del: filter.simps)
qed

end
