(* ===== verification/Inventory_Api.thy ===== *)
theory Inventory_Api
  imports Movement_Feed Outbox Auth
begin

text \<open>
  The requests of \<open>inventory/api.py\<close>: who may send them, which custody a movement gets, the
  message that announces an issue, the status code of every failure, and the read requests. A
  handler gets the database and the context that the authorisation dependency of its route has
  accepted; it returns the status and code of an error, after which the transaction is rolled
  back, or the committed database and the answer. Locks and retries are the database's.
\<close>

section \<open>Errors\<close>

definition RETRYABLE_POSTGRES_SQLSTATES :: "string list" where
  "RETRYABLE_POSTGRES_SQLSTATES = [''40P01'', ''55P03'', ''40001'']"

definition CUSTODY_TRIGGER_CONFLICT_CODES :: "(string \<times> string) list" where
  "CUSTODY_TRIGGER_CONFLICT_CODES =
     [(''custody is only valid for issue, return, or reversal'', ''custody_movement_type_invalid''),
      (''user issue/return custody must match movement actor'', ''custody_actor_mismatch''),
      (''admin issue/return must not carry custody'', ''custody_admin_invalid''),
      (''correction of custody movement is forbidden'', ''custody_correction_forbidden''),
      (''reversal original movement not found'', ''reversal_original_not_found''),
      (''reversal custody must match original movement'', ''reversal_custody_mismatch''),
      (''custody reversal requires issue or return original'', ''reversal_custody_original_invalid''),
      (''procurement movement is protected'', ''procurement_movement_protected'')]"

definition internal_error :: http_error where
  "internal_error = (500, ''internal server error'')"

definition raise_retryable_db_conflict :: "string \<Rightarrow> http_error" where
  "raise_retryable_db_conflict sqlstate =
     (if sqlstate \<in> set RETRYABLE_POSTGRES_SQLSTATES then (409, ''inventory_concurrency_conflict'')
      else internal_error)"

definition raise_integrity_conflict :: "string \<Rightarrow> string \<Rightarrow> http_error" where
  "raise_integrity_conflict sqlstate trigger_message =
     (if sqlstate \<in> set RETRYABLE_POSTGRES_SQLSTATES then raise_retryable_db_conflict sqlstate
      else case (if sqlstate = ''23514'' then map_of CUSTODY_TRIGGER_CONFLICT_CODES trigger_message else None) of
        Some code \<Rightarrow> (409, code)
      | None \<Rightarrow> if sqlstate \<noteq> ''23505'' then internal_error else (409, ''inventory_conflict''))"

text \<open>The driver raises \<open>IntegrityError\<close> for the states of class 23.\<close>

definition raise_db_error :: "string \<Rightarrow> string \<Rightarrow> http_error" where
  "raise_db_error sqlstate trigger_message =
     (if take 2 sqlstate = ''23'' then raise_integrity_conflict sqlstate trigger_message
      else raise_retryable_db_conflict sqlstate)"

fun raise_inventory_error :: "inventory_error \<Rightarrow> http_error" where
  "raise_inventory_error (InventoryNotFoundError code) = (404, code)"
| "raise_inventory_error (InventoryConflictError code) = (409, code)"
| "raise_inventory_error (InventoryValidationError code) = (422, code)"
| "raise_inventory_error (InventoryDbError sqlstate trigger_message) = raise_db_error sqlstate trigger_message"

fun raise_outbox_error :: "outbox_error \<Rightarrow> http_error" where
  "raise_outbox_error (OutboxDbError sqlstate) = raise_db_error sqlstate ''notification_outbox''"
| "raise_outbox_error e = internal_error"

section \<open>The announcement of an issue\<close>

definition text_issue_title :: string where
  "text_issue_title = points_text
     [128230, 32, 1042, 1099, 1076, 1072, 1095, 1072, 32, 1086, 1073, 1086, 1088, 1091,
      1076, 1086, 1074, 1072, 1085, 1080, 1103, 10, 10, 1057, 1086, 1090, 1088, 1091,
      1076, 1085, 1080, 1082, 58, 32]"

definition text_issue_from :: string where
  "text_issue_from = points_text
     [10, 1054, 1090, 1082, 1091, 1076, 1072, 58, 32]"

definition text_bullet :: string where
  "text_bullet = points_text
     [8226, 32]"

definition text_dash :: string where
  "text_dash = points_text
     [32, 8212, 32]"

definition text_pieces :: string where
  "text_pieces = points_text
     [32, 1096, 1090, 46]"

definition text_not_given :: string where
  "text_not_given = points_text
     [1085, 1077, 32, 1091, 1082, 1072, 1079, 1072, 1085, 1086]"

record inventory_api_env =
  iv_sha256 :: "string \<Rightarrow> string"
  iv_real_inventory_mutations_enabled :: bool
  iv_notification_telegram_user_id :: "int option"

definition truthy :: "string option \<Rightarrow> string option" where
  "truthy v = (if v = Some [] then None else v)"

definition issue_line_text :: "movement_line \<Rightarrow> string" where
  "issue_line_text ml =
     (let title = (case truthy (ml_manufacturer_name_snapshot ml) of
            None \<Rightarrow> ml_item_name_snapshot ml | Some n \<Rightarrow> n @ '' '' @ ml_item_name_snapshot ml);
          full = (case truthy (ml_model_snapshot ml) of None \<Rightarrow> title | Some n \<Rightarrow> title @ '' ('' @ n @ '')'')
      in text_bullet @ full @ text_dash @ int_str (ml_quantity ml) @ text_pieces)"

definition issue_text :: "movement_record \<Rightarrow> string" where
  "issue_text rec =
     (let m = rec_movement rec;
          place = (case truthy (mv_source_location_name_snapshot m) of
              Some n \<Rightarrow> n
            | None \<Rightarrow> (case truthy (mv_source_location_code_snapshot m) of Some c \<Rightarrow> c | None \<Rightarrow> text_not_given))
      in text_issue_title @ mv_actor_display_name_snapshot m @ text_issue_from @ place @
         [char_of (10 :: nat), char_of (10 :: nat)] @
         py_join [char_of (10 :: nat)] (map issue_line_text (rec_lines rec)))"

definition issue_dedupe_key :: "(string \<Rightarrow> string) \<Rightarrow> uuid \<Rightarrow> string" where
  "issue_dedupe_key sha256 movement_id =
     notification_dedupe_key sha256 [''inventory-issue'', uuid_str movement_id, ''admin'']"

definition enqueue_issue_admin_notification ::
    "inventory_api_env \<Rightarrow> db \<Rightarrow> uuid \<Rightarrow> timestamp \<Rightarrow> movement_record \<Rightarrow> outbox_error + db" where
  "enqueue_issue_admin_notification env d new_id now rec =
     (case iv_notification_telegram_user_id env of
        None \<Rightarrow> Inr d
      | Some chat_id \<Rightarrow>
          if mv_movement_type (rec_movement rec) \<noteq> ISSUE then Inr d
          else enqueue_telegram_call d new_id now ''sendMessage''
            (JObj [(''chat_id'', JInt chat_id), (''text'', JStr (issue_text rec))])
            (issue_dedupe_key (iv_sha256 env) (mv_id (rec_movement rec))) None False)"

section \<open>Movements\<close>

definition require_real_inventory_mutations_enabled :: "inventory_api_env \<Rightarrow> http_error + unit" where
  "require_real_inventory_mutations_enabled env =
     ensure (iv_real_inventory_mutations_enabled env) (423, ''real_inventory_mutations_disabled'')"

definition request_custody :: "user \<Rightarrow> movement_create \<Rightarrow> uuid option" where
  "request_custody u p =
     (if u_role u \<in> set CUSTODY_ROLES \<and> mc_movement_type p \<in> {ISSUE, RETURN} then Some (u_id u) else None)"

definition post_movement ::
    "inventory_api_env \<Rightarrow> db \<Rightarrow> authenticated_context \<Rightarrow> movement_create \<Rightarrow> uuid \<Rightarrow> uuid \<Rightarrow> timestamp
       \<Rightarrow> http_error + db \<times> movement_record" where
  "post_movement env d approved p movement_id notification_id now =
     ebind (ensure (has_capability (u_role (ctx_user approved)) INVENTORY_ADMIN \<or>
         mc_movement_type p \<in> {RECEIPT, ISSUE, RETURN, TRANSFER})
       (403, ''inventory admin capability required'')) (\<lambda>_.
     ebind (require_real_inventory_mutations_enabled env) (\<lambda>_.
     ebind (relabel raise_inventory_error (create_movement (iv_sha256 env) d movement_id now p
         (u_id (ctx_user approved)) (display_identity (ctx_identity approved))
         (request_custody (ctx_user approved) p))) (\<lambda>(d1, result).
     ebind (relabel raise_outbox_error (enqueue_issue_admin_notification env d1 notification_id now
         (res_record result))) (\<lambda>d2.
     Inr (d2, res_record result)))))"

definition post_movement_reversal ::
    "inventory_api_env \<Rightarrow> db \<Rightarrow> authenticated_context \<Rightarrow> uuid \<Rightarrow> string \<Rightarrow> uuid \<Rightarrow> timestamp
       \<Rightarrow> http_error + db \<times> movement_record" where
  "post_movement_reversal env d admin original_movement_id client_request_id movement_id now =
     ebind (require_real_inventory_mutations_enabled env) (\<lambda>_.
     ebind (relabel raise_inventory_error (reverse_movement (iv_sha256 env) d movement_id now
         original_movement_id client_request_id (u_id (ctx_user admin))
         (display_identity (ctx_identity admin)))) (\<lambda>(d', result).
     Inr (d', res_record result)))"

section \<open>Locations\<close>

definition post_location ::
    "inventory_api_env \<Rightarrow> db \<Rightarrow> location_create \<Rightarrow> uuid \<Rightarrow> http_error + db \<times> location" where
  "post_location env d p location_id =
     ebind (require_real_inventory_mutations_enabled env) (\<lambda>_.
     relabel raise_inventory_error (create_location d location_id p))"

text \<open>These three routes have no clause for \<open>IntegrityError\<close>.\<close>

fun raise_location_error :: "inventory_error \<Rightarrow> http_error" where
  "raise_location_error (InventoryDbError sqlstate trigger_message) = raise_retryable_db_conflict sqlstate"
| "raise_location_error e = raise_inventory_error e"

definition patch_location ::
    "inventory_api_env \<Rightarrow> db \<Rightarrow> uuid \<Rightarrow> location_patch \<Rightarrow> http_error + db \<times> location" where
  "patch_location env d location_id p =
     ebind (require_real_inventory_mutations_enabled env) (\<lambda>_.
     relabel raise_location_error (update_location d location_id p))"

definition archive_location ::
    "inventory_api_env \<Rightarrow> db \<Rightarrow> uuid \<Rightarrow> timestamp \<Rightarrow> http_error + db \<times> location" where
  "archive_location env d location_id now =
     ebind (require_real_inventory_mutations_enabled env) (\<lambda>_.
     relabel raise_location_error (set_location_archived d location_id True now))"

definition unarchive_location ::
    "inventory_api_env \<Rightarrow> db \<Rightarrow> uuid \<Rightarrow> timestamp \<Rightarrow> http_error + db \<times> location" where
  "unarchive_location env d location_id now =
     ebind (require_real_inventory_mutations_enabled env) (\<lambda>_.
     relabel raise_location_error (set_location_archived d location_id False now))"

section \<open>Requests\<close>

text \<open>A route runs behind the dependency that loads the session and asks for a capability.\<close>

record request_env =
  re_api :: inventory_api_env
  re_expected_origin :: string
  re_recovery :: "int option"

definition authorised ::
    "request_env \<Rightarrow> db \<Rightarrow> http_request \<Rightarrow> timestamp \<Rightarrow> capability \<Rightarrow> authenticated_context response" where
  "authorised env d r now c =
     (case get_authenticated_context (iv_sha256 (re_api env)) d r (re_expected_origin env) (re_recovery env) now of
        Inl e \<Rightarrow> (d, Inl e)
      | Inr (d1, ctx) \<Rightarrow> (d1, require_capability c ctx))"

text \<open>What the dependency committed stays, whatever the handler ends in.\<close>

definition behind :: "authenticated_context response \<Rightarrow> (db \<Rightarrow> authenticated_context \<Rightarrow> http_error + db \<times> 'a) \<Rightarrow> 'a response" where
  "behind dependency handler =
     (case dependency of
        (d1, Inl e) \<Rightarrow> (d1, Inl e)
      | (d1, Inr approved) \<Rightarrow>
          (case handler d1 approved of Inl e \<Rightarrow> (d1, Inl e) | Inr (d2, x) \<Rightarrow> (d2, Inr x)))"

definition movement_request ::
    "request_env \<Rightarrow> db \<Rightarrow> http_request \<Rightarrow> movement_create \<Rightarrow> uuid \<Rightarrow> uuid \<Rightarrow> timestamp \<Rightarrow> movement_record response" where
  "movement_request env d r p movement_id notification_id now =
     behind (authorised env d r now INVENTORY_OPERATE) (\<lambda>d1 approved.
     post_movement (re_api env) d1 approved p movement_id notification_id now)"

definition reversal_request ::
    "request_env \<Rightarrow> db \<Rightarrow> http_request \<Rightarrow> uuid \<Rightarrow> string \<Rightarrow> uuid \<Rightarrow> timestamp \<Rightarrow> movement_record response" where
  "reversal_request env d r original_movement_id client_request_id movement_id now =
     behind (authorised env d r now INVENTORY_ADMIN) (\<lambda>d1 admin.
     post_movement_reversal (re_api env) d1 admin original_movement_id client_request_id movement_id now)"

section \<open>Reading\<close>

record location_page =
  lg_items :: "location list"
  lg_total :: nat

definition list_locations ::
    "(string \<Rightarrow> nat list) \<Rightarrow> db \<Rightarrow> location_status option \<Rightarrow> nat \<Rightarrow> nat \<Rightarrow> location_page" where
  "list_locations collate d status limit offset =
     (let rows = filter (\<lambda>l. \<forall>s\<in>set_option status. loc_status l = s) (locations d)
      in \<lparr> lg_items = page limit offset
             (sort_key (\<lambda>l. collate (loc_normalized_code l)) (sort_key loc_id rows)),
           lg_total = length rows \<rparr>)"

definition get_location_detail :: "db \<Rightarrow> uuid \<Rightarrow> http_error + location" where
  "get_location_detail d location_id =
     (case get_loc d location_id of None \<Rightarrow> Inl (404, ''location_not_found'') | Some l \<Rightarrow> Inr l)"

text \<open>A balance with its item and its location; the inner joins drop a row without them.\<close>

record stock_balance_record =
  sr_balance :: stock_balance
  sr_item :: item
  sr_location :: location

definition join_balance :: "db \<Rightarrow> stock_balance \<Rightarrow> stock_balance_record option" where
  "join_balance d b =
     Option.bind (get_item d (sb_item_id b)) (\<lambda>it.
     map_option (\<lambda>l. \<lparr> sr_balance = b, sr_item = it, sr_location = l \<rparr>) (get_loc d (sb_location_id b)))"

record stock_balance_page =
  sp_items :: "stock_balance_record list"
  sp_total :: nat

definition list_stock_balances ::
    "(string \<Rightarrow> nat list) \<Rightarrow> db \<Rightarrow> uuid option \<Rightarrow> uuid option \<Rightarrow> nat \<Rightarrow> nat \<Rightarrow> stock_balance_page" where
  "list_stock_balances collate d item_id location_id limit offset =
     (let rows = filter (\<lambda>b. (\<forall>i\<in>set_option item_id. sb_item_id b = i) \<and>
            (\<forall>l\<in>set_option location_id. sb_location_id b = l)) (stock_balances d)
      in \<lparr> sp_items = page limit offset
             (sort_key (\<lambda>r. collate (it_normalized_name (sr_item r)))
               (sort_key (\<lambda>r. collate (loc_normalized_code (sr_location r))) (List.map_filter (join_balance d) rows))),
           sp_total = length rows \<rparr>)"

record inventory_summary =
  is_total_count :: int
  is_locations :: "stock_balance_record list"

definition get_item_inventory_summary ::
    "(string \<Rightarrow> nat list) \<Rightarrow> db \<Rightarrow> uuid \<Rightarrow> http_error + inventory_summary" where
  "get_item_inventory_summary collate d item_id =
     (if get_item d item_id = None then Inl (404, ''item not found'')
      else let rows = sort_key (\<lambda>r. collate (loc_normalized_code (sr_location r)))
             (List.map_filter (join_balance d) (filter (\<lambda>b. sb_item_id b = item_id) (stock_balances d)))
        in Inr \<lparr> is_total_count = sum_list (map (\<lambda>r. sb_quantity (sr_balance r)) rows), is_locations = rows \<rparr>)"

text \<open>A movement with the request it completed; only readers of procurement see which.\<close>

record movement_out =
  mo_record :: movement_record
  mo_procurement_request_id :: "uuid option"
  mo_generic_adjustment_protected :: bool

definition procurement_movement_links :: "db \<Rightarrow> uuid \<Rightarrow> uuid option" where
  "procurement_movement_links d movement_id =
     map_of (rev (List.map_filter (\<lambda>r. map_option (\<lambda>m. (m, pr_id r)) (pr_final_movement_id r))
       (procurement_requests d))) movement_id"

definition movement_outs :: "db \<Rightarrow> user_role \<Rightarrow> movement_record list \<Rightarrow> movement_out list" where
  "movement_outs d role records =
     map (\<lambda>rec. let link = procurement_movement_links d (mv_id (rec_movement rec)) in
       \<lparr> mo_record = rec,
         mo_procurement_request_id = (if has_capability role PROCUREMENT_READ then link else None),
         mo_generic_adjustment_protected = (link \<noteq> None) \<rparr>) records"

definition get_movements ::
    "catalog_schema \<Rightarrow> db \<Rightarrow> feed_request \<Rightarrow> uuid option \<Rightarrow> timestamp option \<Rightarrow> timestamp option \<Rightarrow> nat
       \<Rightarrow> utc_datetime \<Rightarrow> feed_error + movement_out list \<times> nat" where
  "get_movements schema d r item_id since until offset clock =
     ebind (feed_actor r) (\<lambda>actor.
     let since' = (if since = None then period_since (fq_period r) clock else since) in
     ebind (ensure (case (since', until) of (Some a, Some b) \<Rightarrow> a < b | _ \<Rightarrow> True)
       (FeedHttp 422 ''invalid period'')) (\<lambda>_.
     ebind (catalog_http_error (list_movements schema d
         \<lparr> mq_movement_type = fq_movement_type r, mq_item_id = item_id, mq_actor_user_id = actor,
           mq_location_id = fq_location_id r, mq_category_key = fq_category r,
           mq_long_range = fq_long_range r, mq_since = since', mq_until = until \<rparr> (fq_limit r) offset)) (\<lambda>found.
     Inr (movement_outs d (fq_role r) (mp_items found), mp_total found))))"

definition get_movement :: "db \<Rightarrow> authenticated_context \<Rightarrow> uuid \<Rightarrow> http_error + movement_out" where
  "get_movement d approved movement_id =
     ebind (relabel raise_inventory_error (get_movement_record d movement_id)) (\<lambda>rec.
     let u = ctx_user approved in
     ebind (ensure (has_capability (u_role u) MOVEMENT_READ_ALL \<or> mv_actor_user_id (rec_movement rec) = u_id u)
       (403, ''all movement history capability required'')) (\<lambda>_.
     Inr (hd (movement_outs d (u_role u) [rec]))))"

text \<open>The latest name of every actor, by name.\<close>

definition get_movement_actors :: "db \<Rightarrow> authenticated_context \<Rightarrow> (uuid \<times> string) list" where
  "get_movement_actors d approved =
     (let u = ctx_user approved;
          rows = filter (\<lambda>m. has_capability (u_role u) MOVEMENT_READ_ALL \<or> mv_actor_user_id m = u_id u)
            (newest_first (movements d));
          actors = remdups (map mv_actor_user_id rows);
          latest = map (\<lambda>a. (a, mv_actor_display_name_snapshot (the (find (\<lambda>m. mv_actor_user_id m = a) rows)))) actors
      in sort_key (\<lambda>(a, name). map code_point name) (sort_key (\<lambda>(a, name). uuid_str a) latest))"

end
