(* ===== verification/Catalog_Api.thy ===== *)
theory Catalog_Api
  imports Catalog_Facets Inventory_Api
begin

text \<open>
  The requests of \<open>catalog/api.py\<close>. A request that writes commits its transaction first and then
  reads the row that it answers with in a second one, so its outcome is the database that is left
  and the answer, and an error may in principle come after the commit. Before the commit an error
  rolls the transaction back. Labels, units and descriptions are display texts, and the limits
  that the framework enforces on the parameters of a request are taken to hold.
\<close>


section \<open>Errors\<close>

text \<open>
  The class of a catalog exception is known from its code. Three codes name errors that are not
  catalog exceptions: two of the facet queries, and \<open>22021\<close> of a category key with the character
  U+0000.
\<close>

definition raise_catalog_error :: "string \<Rightarrow> http_error" where
  "raise_catalog_error code =
     (if code = ''catalog_not_found'' then (404, code)
      else if code \<in> {''catalog_conflict'', ''catalog_item_in_use''} then (409, code)
      else if code = schema_error then (500, code)
      else if code \<in> {''TypeError'', ''42883'', ''22021''} then internal_error
      else (422, code))"

definition raise_catalog_integrity_conflict :: "string \<Rightarrow> http_error" where
  "raise_catalog_integrity_conflict sqlstate =
     (if sqlstate \<noteq> ''23505'' then internal_error else (409, ''catalog_conflict''))"

fun raise_write_error :: "string + db_error \<Rightarrow> http_error" where
  "raise_write_error (Inl code) = raise_catalog_error code"
| "raise_write_error (Inr (DbError sqlstate msg)) =
     (if take 2 sqlstate = ''23'' then raise_catalog_integrity_conflict sqlstate else internal_error)"

text \<open>Archiving has no clause for database errors.\<close>

fun raise_archive_error :: "string + db_error \<Rightarrow> http_error" where
  "raise_archive_error (Inl code) = raise_catalog_error code"
| "raise_archive_error (Inr e) = internal_error"

section \<open>Answers\<close>

record category_summary =
  cy_category :: category
  cy_requires_manufacturer_model :: bool

record category_detail = category_summary +
  cy_attributes :: "category_attribute list"

definition category_summary_out :: "category \<Rightarrow> category_summary" where
  "category_summary_out c =
     \<lparr> cy_category = c, cy_requires_manufacturer_model = (cat_key c \<in> set MANUFACTURED_LEAVES) \<rparr>"

record item_view =
  io_item :: item
  io_category :: category
  io_manufacturer :: "manufacturer option"
  io_attributes :: "(string \<times> attribute_value) list"

text \<open>The foreign key gives every item a category; without one the answer cannot be built.\<close>

definition item_out ::
    "catalog_schema \<Rightarrow> db \<Rightarrow> item \<Rightarrow> (string \<times> attribute_value) list \<Rightarrow> http_error + item_view" where
  "item_out schema d it attributes =
     ebind (from_option internal_error (get_category schema (it_category_id it))) (\<lambda>c.
     Inr \<lparr> io_item = it, io_category = c, io_manufacturer = item_manufacturer d it,
           io_attributes = attributes \<rparr>)"

definition load_item_out :: "catalog_schema \<Rightarrow> db \<Rightarrow> uuid \<Rightarrow> http_error + item_view" where
  "load_item_out schema d item_id =
     ebind (relabel raise_catalog_error (get_item_record schema d item_id)) (\<lambda>(it, attributes).
     item_out schema d it attributes)"

section \<open>Reading\<close>

definition list_categories :: "(string \<Rightarrow> nat list) \<Rightarrow> catalog_schema \<Rightarrow> category list" where
  "list_categories collate schema =
     sort_key cat_sort_order (sort_key (\<lambda>c. collate (cat_key c)) (cs_categories schema))"

definition get_categories :: "(string \<Rightarrow> nat list) \<Rightarrow> catalog_schema \<Rightarrow> category_summary list" where
  "get_categories collate schema = map category_summary_out (list_categories collate schema)"

definition get_category_detail :: "catalog_schema \<Rightarrow> string \<Rightarrow> http_error + category_detail" where
  "get_category_detail schema key =
     ebind (relabel raise_catalog_error (get_category_by_key schema key)) (\<lambda>c.
     Inr (category_summary.extend (category_summary_out c)
       (category_detail.fields (get_category_attributes schema (cat_id c)))))"

text \<open>\<open>list_manufacturers\<close> is called outside of any \<open>try\<close>.\<close>

definition get_manufacturers ::
    "db \<Rightarrow> string option \<Rightarrow> nat \<Rightarrow> nat \<Rightarrow> http_error + manufacturer list \<times> nat" where
  "get_manufacturers d q limit offset =
     relabel (\<lambda>_. internal_error) (list_manufacturers d q limit offset)"

record item_list_entry = item_view +
  ie_available_count :: int
  ie_total_count :: int

definition item_list_out :: "query_env \<Rightarrow> db \<Rightarrow> catalog_list_record \<Rightarrow> http_error + item_list_entry" where
  "item_list_out env d r =
     ebind (item_out (qe_schema env) d (cl_item r) (cl_attributes r)) (\<lambda>shown.
     Inr (item_view.extend shown (item_list_entry.fields (cl_available_count r) (cl_total_count r))))"

definition get_items ::
    "query_env \<Rightarrow> db \<Rightarrow> query_request \<Rightarrow> nat \<Rightarrow> nat \<Rightarrow> http_error + item_list_entry list \<times> nat" where
  "get_items env d r limit offset =
     ebind (relabel raise_catalog_error
       (ebind (build_catalog_query_spec (qe_schema env) r) (\<lambda>spec.
        query_catalog_items env d spec limit offset))) (\<lambda>found.
     ebind (emap (item_list_out env d) (cp_items found)) (\<lambda>entries.
     Inr (entries, cp_total found)))"

text \<open>The facets ignore the order of the list: the specification is built with the defaults.\<close>

definition get_item_facets ::
    "query_env \<Rightarrow> db \<Rightarrow> query_request \<Rightarrow> string option \<Rightarrow> nat \<Rightarrow> nat \<Rightarrow> http_error + facet_record list" where
  "get_item_facets env d r facet_key facet_limit facet_offset =
     relabel raise_catalog_error
       (ebind (build_catalog_query_spec (qe_schema env) (r\<lparr>rq_sort := ''name'', rq_order := ''asc''\<rparr>)) (\<lambda>spec.
        query_catalog_facets env d spec (int facet_limit) (int facet_offset) facet_key))"

record duplicate_candidate_out =
  do_item :: item
  do_manufacturer_name :: "string option"
  do_reason :: string

definition post_duplicate_check ::
    "catalog_env \<Rightarrow> db \<Rightarrow> item_create \<Rightarrow> uuid option \<Rightarrow> http_error + duplicate_candidate_out list" where
  "post_duplicate_check env d p exclude_item_id =
     ebind (relabel raise_catalog_error (check_duplicate_candidates env d p exclude_item_id)) (\<lambda>candidates.
     Inr (map (\<lambda>it. \<lparr> do_item = it, do_manufacturer_name = map_option mf_name (item_manufacturer d it),
        do_reason = ''exact_equipment_identity'' \<rparr>) candidates))"

section \<open>Writing\<close>

text \<open>The transaction of a request: committed with a value, or rolled back with an error.\<close>

definition transaction ::
    "'s \<Rightarrow> http_error + 's \<times> 'a \<Rightarrow> ('s \<Rightarrow> 'a \<Rightarrow> http_error + 'b) \<Rightarrow> 's \<times> (http_error + 'b)" where
  "transaction d r answer = (case r of Inl e \<Rightarrow> (d, Inl e) | Inr (d', x) \<Rightarrow> (d', answer d' x))"

definition post_manufacturer :: "inventory_api_env \<Rightarrow> db \<Rightarrow> string \<Rightarrow> uuid \<Rightarrow> manufacturer response" where
  "post_manufacturer api d payload_name new_id =
     transaction d
       (ebind (require_real_inventory_mutations_enabled api) (\<lambda>_.
        relabel raise_write_error (create_manufacturer d new_id payload_name)))
       (\<lambda>d' m. Inr m)"

definition post_item ::
    "inventory_api_env \<Rightarrow> catalog_env \<Rightarrow> db \<Rightarrow> item_create \<Rightarrow> uuid \<Rightarrow> item_view response" where
  "post_item api env d p new_id =
     transaction d
       (ebind (require_real_inventory_mutations_enabled api) (\<lambda>_.
        relabel raise_write_error (create_item env new_id d p)))
       (load_item_out (ce_schema env))"

definition patch_item ::
    "inventory_api_env \<Rightarrow> catalog_env \<Rightarrow> db \<Rightarrow> uuid \<Rightarrow> item_patch \<Rightarrow> item_view response" where
  "patch_item api env d item_id p =
     transaction d
       (ebind (require_real_inventory_mutations_enabled api) (\<lambda>_.
        relabel raise_write_error (update_item env d item_id p)))
       (\<lambda>d' _. load_item_out (ce_schema env) d' item_id)"

definition archive_item ::
    "inventory_api_env \<Rightarrow> catalog_env \<Rightarrow> db \<Rightarrow> uuid \<Rightarrow> timestamp \<Rightarrow> item_view response" where
  "archive_item api env d item_id now =
     transaction d
       (ebind (require_real_inventory_mutations_enabled api) (\<lambda>_.
        relabel raise_archive_error (set_item_archived env d item_id True now)))
       (\<lambda>d' _. load_item_out (ce_schema env) d' item_id)"

definition unarchive_item ::
    "inventory_api_env \<Rightarrow> catalog_env \<Rightarrow> db \<Rightarrow> uuid \<Rightarrow> timestamp \<Rightarrow> item_view response" where
  "unarchive_item api env d item_id now =
     transaction d
       (ebind (require_real_inventory_mutations_enabled api) (\<lambda>_.
        relabel raise_archive_error (set_item_archived env d item_id False now)))
       (\<lambda>d' _. load_item_out (ce_schema env) d' item_id)"

definition delete_item :: "inventory_api_env \<Rightarrow> db \<Rightarrow> uuid \<Rightarrow> unit response" where
  "delete_item api d item_id =
     transaction d
       (ebind (require_real_inventory_mutations_enabled api) (\<lambda>_.
        ebind (relabel raise_write_error (delete_unused_item d item_id)) (\<lambda>d'. Inr (d', ()))))
       (\<lambda>d' u. Inr u)"

section \<open>Requests\<close>

text \<open>Every writing request, behind the capability of its route.\<close>

datatype catalog_write =
    Write_Manufacturer string uuid
  | Write_Item item_create uuid
  | Write_Patch uuid item_patch
  | Write_Archive uuid timestamp
  | Write_Unarchive uuid timestamp
  | Write_Delete uuid

datatype catalog_answer = Shows_Manufacturer manufacturer | Shows_Item item_view | No_Content

fun write_capability :: "catalog_write \<Rightarrow> capability" where
  "write_capability (Write_Archive i now) = CATALOG_ARCHIVE"
| "write_capability (Write_Unarchive i now) = CATALOG_ARCHIVE"
| "write_capability (Write_Delete i) = CATALOG_DELETE_UNUSED"
| "write_capability _ = CATALOG_MANAGE"

definition answered :: "('a \<Rightarrow> catalog_answer) \<Rightarrow> 'a response \<Rightarrow> catalog_answer response" where
  "answered f r = (case r of (d, a) \<Rightarrow> (d, map_sum id f a))"

fun run_write :: "inventory_api_env \<Rightarrow> catalog_env \<Rightarrow> db \<Rightarrow> catalog_write \<Rightarrow> catalog_answer response" where
  "run_write api env d (Write_Manufacturer n i) = answered Shows_Manufacturer (post_manufacturer api d n i)"
| "run_write api env d (Write_Item p i) = answered Shows_Item (post_item api env d p i)"
| "run_write api env d (Write_Patch i p) = answered Shows_Item (patch_item api env d i p)"
| "run_write api env d (Write_Archive i now) = answered Shows_Item (archive_item api env d i now)"
| "run_write api env d (Write_Unarchive i now) = answered Shows_Item (unarchive_item api env d i now)"
| "run_write api env d (Write_Delete i) = answered (\<lambda>_. No_Content) (delete_item api d i)"

definition catalog_request ::
    "request_env \<Rightarrow> catalog_env \<Rightarrow> db \<Rightarrow> http_request \<Rightarrow> catalog_write \<Rightarrow> timestamp \<Rightarrow> catalog_answer response" where
  "catalog_request env ce d r w now =
     (case authorised env d r now (write_capability w) of
        (d1, Inl e) \<Rightarrow> (d1, Inl e)
      | (d1, Inr _) \<Rightarrow> run_write (re_api env) ce d1 w)"

end
