(* ===== verification/Inventory_Api_Proofs.thy ===== *)
theory Inventory_Api_Proofs
  imports Inventory_Api Warehouse_Steps Outbox_Proofs
begin

text \<open>
  Posting a movement ends well: it is refused with a status the client can act on, or booked in
  the name of the caller, announced once, and safe to send again.
\<close>

section \<open>Booking\<close>

lemma find_SomeD: "find P xs = Some x \<Longrightarrow> P x \<and> x \<in> set xs"
  by (induction xs) (auto split: if_splits)

lemma create_movement_frame:
  assumes inv: "warehouse_inv d"
    and call: "create_movement sha256 d mid now p actor name custody = Inr (d', r)"
  shows "notification_outboxes d' = notification_outboxes d"
  using create_movement_internalI [OF call]
proof (cases rule: create_movement_cases)
  case (new original m ls)
  obtain s t where "d' = (append_movement d m ls)\<lparr>stock_balances := s, user_item_custody_balances := t\<rparr>"
    using new_movement_effect(1) [OF inv new(1,3)] unfolding same_but_projections_def by blast
  then show ?thesis by (simp add: append_movement_def)
qed simp

lemma recorded_movement:
  assumes inv: "warehouse_inv d"
    and call: "create_movement sha256 d mid now p actor name custody = Inr (d', r)"
  shows "mv_actor_user_id (rec_movement (res_record r)) = actor"
    and "rec_movement (res_record r) \<in> set (movements d')"
    and "\<not> res_replayed r \<Longrightarrow> mv_movement_type (rec_movement (res_record r)) = mc_movement_type p \<and>
      mv_custody_user_id (rec_movement (res_record r)) = custody"
proof -
  have "mv_actor_user_id (rec_movement (res_record r)) = actor \<and> rec_movement (res_record r) \<in> set (movements d') \<and>
    (\<not> res_replayed r \<longrightarrow> mv_movement_type (rec_movement (res_record r)) = mc_movement_type p \<and>
      mv_custody_user_id (rec_movement (res_record r)) = custody)"
    using create_movement_internalI [OF call]
  proof (cases rule: create_movement_cases)
    case replay
    obtain q m where "find (\<lambda>m. mv_actor_user_id m = actor \<and> mv_client_request_id m = q) (movements d) = Some m"
      and "rec_movement (res_record r) = m"
      using replay(3) by (auto simp: existing_idempotent_result_def split: option.splits if_splits)
    then show ?thesis using replay(1,2) find_SomeD by force
  next
    case (new original m ls)
    then show ?thesis
      using same_but_projectionsD(1) [OF new_movement_effect(1) [OF inv new(1,3)]] accepted_movement [OF new(1)]
      by (simp add: append_movement_def)
  qed
  then show "mv_actor_user_id (rec_movement (res_record r)) = actor"
    "rec_movement (res_record r) \<in> set (movements d')"
    "\<not> res_replayed r \<Longrightarrow> mv_movement_type (rec_movement (res_record r)) = mc_movement_type p \<and>
      mv_custody_user_id (rec_movement (res_record r)) = custody" by blast+
qed

section \<open>The announcement\<close>

lemma announcement_outcome:
  assumes "\<And>x. length (iv_sha256 env x) = 64"
  shows "enqueue_issue_admin_notification env d i now rec = Inl e \<Longrightarrow> raise_outbox_error e = (409, ''inventory_conflict'')"
    and "enqueue_issue_admin_notification env d i now rec = Inr d' \<Longrightarrow> \<exists>ns. d' = d\<lparr>notification_outboxes := ns\<rparr>"
proof -
  have key: "issue_dedupe_key (iv_sha256 env) j \<noteq> []" "\<not> 128 < length (issue_dedupe_key (iv_sha256 env) j)" for j
    using assms by (auto simp: issue_dedupe_key_def notification_dedupe_key_def simp flip: length_0_conv)
  show "enqueue_issue_admin_notification env d i now rec = Inl e \<Longrightarrow> raise_outbox_error e = (409, ''inventory_conflict'')"
    using key by (auto simp: enqueue_issue_admin_notification_def enqueue_telegram_call_def ALLOWED_TELEGRAM_METHODS_def
        raise_db_error_def raise_integrity_conflict_def RETRYABLE_POSTGRES_SQLSTATES_def split: option.splits if_splits)
  have "enqueue_issue_admin_notification env d i now rec = Inr d' \<Longrightarrow>
      d' = d\<lparr>notification_outboxes := notification_outboxes d'\<rparr>"
    by (auto simp: enqueue_issue_admin_notification_def enqueue_telegram_call_def split: option.splits if_splits)
  then show "enqueue_issue_admin_notification env d i now rec = Inr d' \<Longrightarrow> \<exists>ns. d' = d\<lparr>notification_outboxes := ns\<rparr>"
    by blast
qed

definition announcements :: "inventory_api_env \<Rightarrow> db \<Rightarrow> movement \<Rightarrow> notification_outbox list" where
  "announcements env d m =
     filter (\<lambda>n. no_dedupe_key n = issue_dedupe_key (iv_sha256 env) (mv_id m)) (notification_outboxes d)"

lemma announced_once:
  assumes "distinct (map no_dedupe_key (notification_outboxes d))"
    and run: "enqueue_issue_admin_notification env d i now rec = Inr d'"
    and "iv_notification_telegram_user_id env = Some chat" and "mv_movement_type (rec_movement rec) = ISSUE"
  shows "length (announcements env d' (rec_movement rec)) = 1"
    and "enqueue_issue_admin_notification env d' i' now' rec = Inr d'"
proof -
  let ?key = "issue_dedupe_key (iv_sha256 env) (mv_id (rec_movement rec))"
  have one: "length (filter (\<lambda>n. no_dedupe_key n = ?key) ns) = 1"
    if "distinct (map no_dedupe_key ns)" and "n \<in> set ns" and "no_dedupe_key n = ?key" for ns n
    using that by (induction ns) (auto simp: filter_empty_conv image_iff)
  have run': "enqueue_telegram_call d i now ''sendMessage'' (JObj [(''chat_id'', JInt chat), (''text'', JStr (issue_text rec))])
      ?key None False = Inr d'"
    using run assms(3,4) by (simp add: enqueue_issue_admin_notification_def)
  then have known: "\<exists>n\<in>set (notification_outboxes d'). no_dedupe_key n = ?key"
    and dist: "distinct (map no_dedupe_key (notification_outboxes d'))"
    using assms(1) by (fastforce simp: enqueue_telegram_call_def new_notification_def split: if_splits)+
  then show "length (announcements env d' (rec_movement rec)) = 1" using one by (auto simp: announcements_def)
  show "enqueue_issue_admin_notification env d' i' now' rec = Inr d'"
    using run' known assms(3,4)
    by (simp add: enqueue_issue_admin_notification_def) (auto simp: enqueue_telegram_call_def split: if_splits)
qed

lemma not_announced:
  assumes "iv_notification_telegram_user_id env = None \<or> mv_movement_type (rec_movement rec) \<noteq> ISSUE"
  shows "enqueue_issue_admin_notification env d i now rec = Inr d"
  using assms by (auto simp: enqueue_issue_admin_notification_def split: option.splits)

section \<open>Posting a movement\<close>

lemma inventory_error_status:
  assumes "\<And>s m. e = InventoryDbError s m \<Longrightarrow> s = ''22021'' \<and> nul"
  shows "fst (raise_inventory_error e) \<in> {404, 409, 422} \<or> fst (raise_inventory_error e) = 500 \<and> nul"
  using assms
  by (cases e) (auto simp: raise_db_error_def raise_retryable_db_conflict_def internal_error_def
      RETRYABLE_POSTGRES_SQLSTATES_def)

lemma request_custody_follows_role:
  "get_user d (u_id u) = Some u \<Longrightarrow> custody_follows_role d (mc_movement_type p) (u_id u) (request_custody u p)"
  by (auto simp: custody_follows_role_def request_custody_def)

lemma service_db_error:
  assumes inv: "warehouse_inv d" "journal_sealed d" "catalog_names_ok d"
    and sha: "\<And>x. length (sha256 x) = 64" and new: "get_mov d mid = None"
    and valid: "movement_create_valid p" and "custody_follows_role d (mc_movement_type p) actor custody"
    and error: "create_movement sha256 d mid now p actor name custody = Inl (InventoryDbError s m)"
  shows "s = ''22021'' \<and> CHR 0x00 \<in> set (mc_client_request_id p)"
proof -
  have "mc_movement_type p \<noteq> REVERSAL" using error by (auto simp: create_movement_def)
  then have "reversal_built d p"
    and "create_movement_internal sha256 d mid now p actor name custody = Inl (InventoryDbError s m)"
    using error by (simp_all add: create_movement_def reversal_built_def)
  from only_key_error [of d sha256, OF inv sha new valid this(1) assms(7) this(2)] show ?thesis by blast
qed

lemma refused_movement:
  assumes inv: "warehouse_inv d" "journal_sealed d" "catalog_names_ok d"
    and sha: "\<And>x. length (iv_sha256 env x) = 64" and new: "get_mov d mid = None"
    and valid: "movement_create_valid p"
    and caller: "get_user d (u_id (ctx_user c)) = Some (ctx_user c)"
    and refused: "post_movement env d c p mid nid now = Inl e"
  shows "fst e \<in> {403, 404, 409, 422, 423} \<or> fst e = 500 \<and> CHR 0x00 \<in> set (mc_client_request_id p)"
proof -
  let ?call = "create_movement (iv_sha256 env) d mid now p (u_id (ctx_user c)) (display_identity (ctx_identity c))
    (request_custody (ctx_user c) p)"
  have "s = ''22021'' \<and> CHR 0x00 \<in> set (mc_client_request_id p)" if "?call = Inl (InventoryDbError s m)" for s m
    using service_db_error [OF inv sha new valid request_custody_follows_role [OF caller] that] .
  note db = this
  have "fst (raise_inventory_error err) \<in> {404, 409, 422} \<or>
      fst (raise_inventory_error err) = 500 \<and> CHR 0x00 \<in> set (mc_client_request_id p)" if "?call = Inl err" for err
    using db that by (intro inventory_error_status) blast
  then show ?thesis
    using refused announcement_outcome(1) [OF sha]
    by (cases ?call)
      (fastforce simp: post_movement_def require_real_inventory_mutations_enabled_def ensure_def ebind_Inr_iff relabel_def
        split: if_splits sum.splits prod.splits)+
qed


section \<open>Reading\<close>

lemma sum_list_sort_key: "sum_list (map f (sort_key k xs)) = sum_list (map f xs)" for f :: "'a \<Rightarrow> int"
  by (metis mset_map mset_sort sum_mset_sum_list)

text \<open>The page of an item and the catalog list show the same number.\<close>

lemma summary_matches_catalog:
  assumes inv: "inventory_inv d" and item: "get_item d i = Some it"
  shows "\<exists>s. get_item_inventory_summary collate d i = Inr s \<and> is_total_count s = available_count d it"
proof -
  have id: "it_id it = i" using item by (auto simp: get_item_def dest: table_get_SomeD)
  have "\<exists>r. join_balance d b = Some r \<and> sr_balance r = b"
    if "b \<in> set (stock_balances d)" "sb_item_id b = i" for b
    using inv that item by (auto simp: inventory_inv_def stock_at_active_def join_balance_def)
  then have "sum_list (map (\<lambda>r. sb_quantity (sr_balance r)) (List.map_filter (join_balance d) bs)) =
      sum_list (map sb_quantity bs)" if "set bs \<subseteq> {b \<in> set (stock_balances d). sb_item_id b = i}" for bs
    using that by (induction bs) (fastforce simp: List.map_filter_simps)+
  then show ?thesis
    by (auto simp: get_item_inventory_summary_def item Let_def sum_list_sort_key available_count_def id)
qed

section \<open>Instances\<close>

definition sample_api :: inventory_api_env where
  "sample_api = \<lparr> iv_sha256 = sample_digest, iv_real_inventory_mutations_enabled = True,
     iv_notification_telegram_user_id = Some 77 \<rparr>"

definition sample_engineer :: authenticated_context where
  "sample_engineer = \<lparr>
     ctx_session = \<lparr> as_id = 1, as_user_id = 3, as_token_hash = [], as_created_at = 0, as_expires_at = 9,
       as_revoked_at = None \<rparr>,
     ctx_user = sample_user 3 ENGINEER APPROVED,
     ctx_identity = \<lparr> ti_user_id = 3, ti_telegram_user_id = 33, ti_username = None, ti_first_name = ''Eng'',
       ti_last_name = None, ti_language_code = None, ti_last_auth_at = None \<rparr> \<rparr>"

lemma sample_post:
  "\<exists>d'. post_movement sample_api sample_stocked sample_engineer sample_issue 101 900 6 =
     Inr (d', \<lparr> rec_movement = sample_issue_movement, rec_lines = [sample_issue_line] \<rparr>)"
proof -
  have call: "create_movement (iv_sha256 sample_api) sample_stocked 101 6 sample_issue (u_id (ctx_user sample_engineer))
      (display_identity (ctx_identity sample_engineer)) (request_custody (ctx_user sample_engineer) sample_issue) =
    Inr (sample_issued, \<lparr> res_record = \<lparr> rec_movement = sample_issue_movement, rec_lines = [sample_issue_line] \<rparr>,
      res_replayed = False \<rparr>)"
    using sample_issue_run
    by (simp add: sample_api_def sample_engineer_def display_identity_def request_custody_def sample_user_def)
      (simp add: sample_issue_def)
  have "mc_movement_type sample_issue = ISSUE" "notification_outboxes sample_issued = []"
    "mv_movement_type sample_issue_movement = ISSUE"
    by (simp_all add: sample_data empty_db_def)
  then have "\<exists>d'. enqueue_issue_admin_notification sample_api sample_issued 900 6
      \<lparr> rec_movement = sample_issue_movement, rec_lines = [sample_issue_line] \<rparr> = Inr d'"
    by (auto simp: enqueue_issue_admin_notification_def enqueue_telegram_call_def ALLOWED_TELEGRAM_METHODS_def
        issue_dedupe_key_def notification_dedupe_key_def sample_api_def sample_digest_def)
  then show ?thesis
    using \<open>mc_movement_type sample_issue = ISSUE\<close>
    by (auto simp: post_movement_def call require_real_inventory_mutations_enabled_def ensure_def)
      (simp_all add: sample_api_def)
qed


end
