(* ===== verification/Catalog_Api_Proofs.thy ===== *)
theory Catalog_Api_Proofs
  imports Catalog_Api System Inventory_Api_Proofs
begin

text \<open>
  What a client of the catalog can rely on: creating an item over the network has the outcome that
  validation and the duplicate check predict, an error leaves the database as it was, and a
  committed request is answered with the row it has written.
\<close>

section \<open>Reading back\<close>

lemma loaded_attributes:
  assumes checks: "item_write_checks schema sha256 d it = Inr ()" and ok: "schema_ok schema"
  shows "\<exists>as. load_attributes schema it = Inr as \<and> set as = set (it_attributes it)"
proof -
  let ?defs = "get_category_attributes schema (it_category_id it)"
  let ?found = "List.map_filter (\<lambda>a. map_option (Pair a) (map_of (it_attributes it) (at_key a))) ?defs"
  have dist: "distinct (map fst (it_attributes it))"
    and row: "\<And>k v. (k, v) \<in> set (it_attributes it) \<Longrightarrow> \<exists>a\<in>set (cs_attributes schema).
      at_category_id a = it_category_id it \<and> at_key a = k \<and> value_data_type v = at_data_type a"
    using checks by (fastforce simp: item_write_checks_Inr attribute_rows_ok_def
        validate_item_attribute_value_data_type_def)+
  have unique: "a = b" if "a \<in> set ?defs" "b \<in> set ?defs" "at_key a = at_key b" for a b
    using ok that by (auto simp: schema_ok_def get_category_attributes_def distinct_map inj_on_def)
  have typed: "value_data_type v = at_data_type a" if "(a, v) \<in> set ?found" for a v
  proof -
    from that have a: "a \<in> set ?defs" and v: "(at_key a, v) \<in> set (it_attributes it)"
      by (auto simp: List.map_filter_def dest: map_of_SomeD)
    obtain b where "b \<in> set ?defs" "at_key b = at_key a" "value_data_type v = at_data_type b"
      using row [OF v] by (auto simp: get_category_attributes_def)
    then show ?thesis using unique a by blast
  qed
  have "load_attributes schema it = Inr (map (\<lambda>(a, v). (at_key a, v)) ?found)"
    unfolding load_attributes_def
    by (rule emap_Inr_iff [THEN iffD2])
      (auto simp: list_all2_map2 list_all2_same stored_attribute_value_def typed)
  moreover have "set (map (\<lambda>(a, v). (at_key a, v)) ?found) = set (it_attributes it)"
  proof (intro equalityI subsetI)
    fix kv assume "kv \<in> set (it_attributes it)"
    moreover obtain k v where "kv = (k, v)" by (cases kv)
    ultimately have kv: "kv = (k, v)" "(k, v) \<in> set (it_attributes it)" by simp_all
    then obtain a where a: "a \<in> set ?defs" "at_key a = k"
      using row by (fastforce simp: get_category_attributes_def)
    moreover have "map_of (it_attributes it) k = Some v" using dist kv by simp
    ultimately show "kv \<in> set (map (\<lambda>(a, v). (at_key a, v)) ?found)"
      by (force simp: kv List.map_filter_def)
  qed (auto simp: List.map_filter_def dest: map_of_SomeD)
  ultimately show ?thesis by blast
qed

text \<open>Every row of the catalog can be shown.\<close>

definition shows_row :: "catalog_schema \<Rightarrow> db \<Rightarrow> item_view \<Rightarrow> bool" where
  "shows_row schema d out \<longleftrightarrow>
     get_item d (it_id (io_item out)) = Some (io_item out) \<and>
     get_category schema (it_category_id (io_item out)) = Some (io_category out) \<and>
     map_option mf_id (io_manufacturer out) = it_manufacturer_id (io_item out) \<and>
     set (io_attributes out) = set (it_attributes (io_item out))"

lemma catalog_row_shown:
  assumes inv: "catalog_inv env d" and ok: "schema_ok (ce_schema env)" and row: "get_item d i = Some it"
  shows "\<exists>out. load_item_out (ce_schema env) d i = Inr out \<and> shows_row (ce_schema env) d out \<and>
    io_item out = it \<and> io_manufacturer out = item_manufacturer d it"
proof -
  have it: "it \<in> set (items d)" "it_id it = i" using row by (auto simp: get_item_def dest: table_get_SomeD)
  then have checks: "item_write_checks (ce_schema env) (ce_sha256 env) d it = Inr ()"
    using inv by (simp add: catalog_inv_def)
  then have refs: "item_references_ok (ce_schema env) d it" by (simp add: item_write_checks_Inr)
  obtain as where as: "load_attributes (ce_schema env) it = Inr as" "set as = set (it_attributes it)"
    using loaded_attributes [OF checks ok] by blast
  obtain c where c: "get_category (ce_schema env) (it_category_id it) = Some c"
    using refs table_get_exists [of _ cat_id "cs_categories (ce_schema env)"]
    by (fastforce simp: item_references_ok_def get_category_def)
  have m: "map_option mf_id (item_manufacturer d it) = it_manufacturer_id it"
    using refs table_get_exists [of _ mf_id "manufacturers d"]
    by (cases "it_manufacturer_id it") (fastforce simp: item_references_ok_def item_manufacturer_def
        dest: table_get_SomeD)+
  show ?thesis
    using row it(2) as c m by (simp add: load_item_out_def get_item_record_def item_out_def shows_row_def)
qed

section \<open>Creating an item\<close>

lemma write_check_states:
  "item_write_checks schema sha256 d it = Inl (DbError s m) \<Longrightarrow> s \<in> {''23514'', ''23503'', ''22021''}"
  by (auto simp: item_write_checks_def ensure_def text_parameters_cases split: if_splits)

text \<open>With a validated draft the route inserts one row, or ends in the error of the insertion.\<close>

lemma post_item_insert:
  assumes on: "iv_real_inventory_mutations_enabled api" and valid: "validate_item_create_payload env d p = Inr v"
  shows "post_item api env d p new_id =
      transaction d (relabel raise_write_error (ebind (relabel Inr
        (insert_item (ce_schema env) (ce_sha256 env) d (drafted_item new_id p v))) (\<lambda>d'. Inr (d', new_id))))
        (load_item_out (ce_schema env))"
  by (simp add: post_item_def create_item_alt valid require_real_inventory_mutations_enabled_def on)

lemma insert_drafted:
  assumes new: "new_id \<notin> it_id ` set (items d)" and valid: "validate_item_create_payload env d p = Inr v"
  shows "insert_item (ce_schema env) (ce_sha256 env) d (drafted_item new_id p v) =
      (if CHR 0x00 \<in> set (vd_name v) \<or> CHR 0x00 \<in> set (or_empty (vd_model v))
       then Inl (DbError ''22021'' ''invalid byte sequence for encoding UTF8'')
       else if check_duplicate_candidates env d p None \<noteq> Inr [] then Inl (DbError ''23505'' ''items'')
       else ebind (item_write_checks (ce_schema env) (ce_sha256 env) d (drafted_item new_id p v))
         (\<lambda>_. Inr (d\<lparr>items := items d @ [drafted_item new_id p v]\<rparr>)))"
proof -
  let ?it = "drafted_item new_id p v"
  have dup: "check_duplicate_candidates env d p None \<noteq> Inr [] \<longleftrightarrow>
      (\<exists>x\<in>set (items d). it_identity_signature x = it_identity_signature ?it)"
    using valid duplicates_Nil [of p _ env d] by (auto simp: validate_item_Inr drafted_item_def)
  have "it_id ?it = new_id" by (simp add: drafted_item_def)
  then have "(\<forall>x\<in>set (items d). it_id x \<noteq> it_id ?it \<and> it_identity_signature x \<noteq> it_identity_signature ?it) \<longleftrightarrow>
      check_duplicate_candidates env d p None = Inr []"
    using new dup by (auto simp: image_iff)
  moreover have "(\<exists>s\<in>set (item_texts ?it). CHR 0x00 \<in> set s) \<longleftrightarrow>
      CHR 0x00 \<in> set (vd_name v) \<or> CHR 0x00 \<in> set (or_empty (vd_model v))"
    using drafted_texts [OF valid, of new_id] by blast
  ultimately show ?thesis by (simp add: insert_item_def text_parameters_cases ensure_def)
qed

lemma created_item_shown:
  assumes inv: "catalog_inv env d" and schema: "schema_ok (ce_schema env)"
    and made: "insert_item (ce_schema env) (ce_sha256 env) d (drafted_item new_id p v) = Inr d'"
    and on: "iv_real_inventory_mutations_enabled api" and valid: "validate_item_create_payload env d p = Inr v"
  obtains out where "post_item api env d p new_id = (d', Inr out)" "catalog_inv env d'"
    "d' = d\<lparr>items := items d @ [drafted_item new_id p v]\<rparr>" "io_item out = drafted_item new_id p v"
    "io_category out = vd_category v" "io_manufacturer out = vd_manufacturer v"
    "set (io_attributes out) = set (item_attribute_rows (vd_attributes v))"
proof -
  let ?it = "drafted_item new_id p v"
  have rows: "d' = d\<lparr>items := items d @ [?it]\<rparr>" using made by (simp add: insert_item_Inr)
  have inv': "catalog_inv env d'" by (rule insert_item_inv [OF inv made])
  have it: "it_id ?it = new_id" by (simp add: drafted_item_def)
  have "table_get it_id new_id (items d) = None"
    using made it by (auto simp: insert_item_Inr table_get_None_iff)
  then have "get_item d' new_id = Some ?it" using it by (simp add: get_item_def rows table_get_append)
  then obtain out where out: "load_item_out (ce_schema env) d' new_id = Inr out"
    "shows_row (ce_schema env) d' out" "io_item out = ?it" "io_manufacturer out = item_manufacturer d' ?it"
    using catalog_row_shown [OF inv' schema] by blast
  obtain prepared where prep: "prepare_identity env d p = Inr prepared" "vd_category v = pi_category prepared"
    "vd_manufacturer v = pi_manufacturer prepared"
    using valid by (auto simp: validate_item_Inr)
  have found: "vd_category v \<in> set (cs_categories (ce_schema env))"
    "find_manufacturer d (ic_manufacturer_id p) = Inr (vd_manufacturer v)"
    by (rule prepare_identity_Inr [OF prep(1)], simp add: prep)+
  have cat: "get_category (ce_schema env) (cat_id (vd_category v)) = Some (vd_category v)"
    using found(1) schema by (simp add: get_category_def schema_ok_def table_get_member)
  have man: "item_manufacturer d' ?it = vd_manufacturer v"
    using found(2)
    by (auto simp: find_manufacturer_def item_manufacturer_def drafted_item_def rows split: option.splits)
  have "post_item api env d p new_id = (d', Inr out)"
    using out(1) made by (simp add: post_item_insert [OF on valid] transaction_def)
  moreover have "io_category out = vd_category v" "set (io_attributes out) = set (item_attribute_rows (vd_attributes v))"
    using out(2,3) cat by (auto simp: shows_row_def drafted_item_def)
  moreover have "io_manufacturer out = vd_manufacturer v" using out(4) man by simp
  ultimately show thesis by (intro that [OF _ inv' rows out(3)])
qed


section \<open>Every writing request\<close>

text \<open>The answer of a request describes the database that the request has left.\<close>

fun answer_true :: "catalog_schema \<Rightarrow> db \<Rightarrow> catalog_write \<Rightarrow> catalog_answer \<Rightarrow> bool" where
  "answer_true schema d (Write_Manufacturer n i) a \<longleftrightarrow>
     (\<exists>m. a = Shows_Manufacturer m \<and> mf_id m = i \<and> m \<in> set (manufacturers d))"
| "answer_true schema d (Write_Item p i) a \<longleftrightarrow>
     (\<exists>out. a = Shows_Item out \<and> shows_row schema d out \<and> it_id (io_item out) = i)"
| "answer_true schema d (Write_Patch i p) a \<longleftrightarrow>
     (\<exists>out. a = Shows_Item out \<and> shows_row schema d out \<and> it_id (io_item out) = i)"
| "answer_true schema d (Write_Archive i now) a \<longleftrightarrow>
     (\<exists>out. a = Shows_Item out \<and> shows_row schema d out \<and> it_id (io_item out) = i \<and>
        it_status (io_item out) = ITEM_ARCHIVED)"
| "answer_true schema d (Write_Unarchive i now) a \<longleftrightarrow>
     (\<exists>out. a = Shows_Item out \<and> shows_row schema d out \<and> it_id (io_item out) = i \<and>
        it_status (io_item out) = ITEM_ACTIVE)"
| "answer_true schema d (Write_Delete i) a \<longleftrightarrow>
     a = No_Content \<and> get_item d i = None \<and>
     i \<notin> ml_item_id ` set (movement_lines d) \<union> sb_item_id ` set (stock_balances d) \<union>
       cb_item_id ` set (user_item_custody_balances d) \<union> bd_item_id ` set (procurement_line_catalog_bindings d) \<and>
     Some i \<notin> rl_catalog_item_id ` set (procurement_revision_lines d)"

lemma transaction_cases:
  assumes "transaction d r answer = (d', a)"
  obtains e where "r = Inl e" "d' = d" "a = Inl e" | x where "r = Inr (d', x)" "a = answer d' x"
  using assms by (auto simp: transaction_def split: sum.splits prod.splits)

lemma saved_row:
  assumes "save_item schema sha256 d it = Inr d'" and "it_id it = i" and "get_item d i = Some old"
  shows "get_item d' i = Some it"
  using assms by (auto simp: save_item_Inr get_item_def table_get_update)

lemma archived_row:
  assumes "set_item_archived env d i archived now = Inr (d', j)"
  shows "\<exists>it. get_item d' i = Some it \<and> it_status it = (if archived then ITEM_ARCHIVED else ITEM_ACTIVE)"
proof -
  obtain it where it: "get_item d i = Some it" using assms by (auto simp: set_item_archived_def result_simps)
  then have id: "it_id it = i" by (auto simp: get_item_def dest: table_get_SomeD)
  show ?thesis
    using assms it id saved_row [OF _ _ it]
    unfolding set_item_archived_def Let_def by (fastforce simp: result_simps split: if_splits)
qed

lemma committed_row:
  assumes inv: "catalog_inv env d" and step: "catalog_step env d d'" and ok: "schema_ok (ce_schema env)"
    and row: "get_item d' i = Some it"
  shows "\<exists>out. load_item_out (ce_schema env) d' i = Inr out \<and> shows_row (ce_schema env) d' out \<and>
    io_item out = it \<and> it_id it = i"
  using catalog_row_shown [OF catalog_step_inv [OF step inv] ok row] row
  by (auto simp: get_item_def dest: table_get_SomeD)

lemma run_write_answered:
  assumes inv: "catalog_inv env d" and ok: "schema_ok (ce_schema env)" and run: "run_write api env d w = (d', a)"
  shows "(\<exists>e. a = Inl e \<and> d' = d) \<or>
    (\<exists>x. a = Inr x \<and> iv_real_inventory_mutations_enabled api \<and> catalog_step env d d' \<and>
       answer_true (ce_schema env) d' w x)"
proof -
  note guard = require_real_inventory_mutations_enabled_def ensure_Inr_iff
  note shown = committed_row [OF inv _ ok]
  show ?thesis
  proof (cases w)
    case (Write_Manufacturer n i)
    then obtain b where "post_manufacturer api d n i = (d', b)" and a: "a = map_sum id Shows_Manufacturer b"
      using run by (auto simp: answered_def split: prod.splits)
    then show ?thesis unfolding post_manufacturer_def
    proof (cases rule: transaction_cases)
      case (2 m)
      then have "create_manufacturer d i n = Inr (d', m)" "iv_real_inventory_mutations_enabled api"
        by (auto simp: result_simps guard)
      moreover from this have "mf_id m = i" by (auto simp: create_manufacturer_def Let_def result_simps)
      ultimately show ?thesis
        using 2 step_manufacturer create_manufacturer_Inr(1) a by (fastforce simp: Write_Manufacturer)
    qed (use a in simp)
  next
    case (Write_Item p i)
    then obtain b where "post_item api env d p i = (d', b)" and a: "a = map_sum id Shows_Item b"
      using run by (auto simp: answered_def split: prod.splits)
    then show ?thesis unfolding post_item_def
    proof (cases rule: transaction_cases)
      case (2 j)
      then have made: "create_item env i d p = Inr (d', j)" "iv_real_inventory_mutations_enabled api"
        by (auto simp: result_simps guard)
      obtain it where "d' = d\<lparr>items := items d @ [it]\<rparr>" "j = i" "it_id it = i" "i \<notin> it_id ` set (items d)"
        using create_item_Inr [OF made(1)] by metis
      then have "get_item d' i = Some it" "j = i"
        by (simp_all add: get_item_def table_get_append table_get_None_iff [THEN iffD2])
      then show ?thesis
        using shown [OF step_create_item [OF made(1)]] step_create_item [OF made(1)] made(2) 2 a
        by (fastforce simp: Write_Item)
    qed (use a in simp)
  next
    case (Write_Patch i p)
    then obtain b where "patch_item api env d i p = (d', b)" and a: "a = map_sum id Shows_Item b"
      using run by (auto simp: answered_def split: prod.splits)
    then show ?thesis unfolding patch_item_def
    proof (cases rule: transaction_cases)
      case (2 j)
      then have made: "update_item env d i p = Inr (d', j)" "iv_real_inventory_mutations_enabled api"
        by (auto simp: result_simps guard)
      obtain old it where old: "get_item d i = Some old" and "save_item (ce_schema env) (ce_sha256 env) d it = Inr d'"
        "it_id it = it_id old"
        using update_item_Inr [OF made(1)] by metis
      moreover have "it_id old = i" using old by (auto simp: get_item_def dest: table_get_SomeD)
      ultimately have "get_item d' i = Some it" using saved_row by simp
      then show ?thesis
        using shown [OF step_update_item [OF made(1)]] step_update_item [OF made(1)] made(2) 2 a
        by (fastforce simp: Write_Patch)
    qed (use a in simp)
  next
    case (Write_Archive i now)
    then obtain b where "archive_item api env d i now = (d', b)" and a: "a = map_sum id Shows_Item b"
      using run by (auto simp: answered_def split: prod.splits)
    then show ?thesis unfolding archive_item_def
    proof (cases rule: transaction_cases)
      case (2 j)
      then have made: "set_item_archived env d i True now = Inr (d', j)" "iv_real_inventory_mutations_enabled api"
        by (auto simp: result_simps guard)
      then show ?thesis
        using archived_row [OF made(1)] shown [OF step_archive_item [OF made(1)]] step_archive_item [OF made(1)] 2 a
        by (fastforce simp: Write_Archive)
    qed (use a in simp)
  next
    case (Write_Unarchive i now)
    then obtain b where "unarchive_item api env d i now = (d', b)" and a: "a = map_sum id Shows_Item b"
      using run by (auto simp: answered_def split: prod.splits)
    then show ?thesis unfolding unarchive_item_def
    proof (cases rule: transaction_cases)
      case (2 j)
      then have made: "set_item_archived env d i False now = Inr (d', j)" "iv_real_inventory_mutations_enabled api"
        by (auto simp: result_simps guard)
      then show ?thesis
        using archived_row [OF made(1)] shown [OF step_archive_item [OF made(1)]] step_archive_item [OF made(1)] 2 a
        by (fastforce simp: Write_Unarchive)
    qed (use a in simp)
  next
    case (Write_Delete i)
    then obtain b where "delete_item api d i = (d', b)" and a: "a = map_sum id (\<lambda>_. No_Content) b"
      using run by (auto simp: answered_def split: prod.splits)
    then show ?thesis unfolding delete_item_def
    proof (cases rule: transaction_cases)
      case (2 u)
      then have made: "delete_unused_item d i = Inr d'" "iv_real_inventory_mutations_enabled api"
        by (auto simp: result_simps guard)
      moreover have "get_item d' i = None"
        using made(1) by (auto simp: delete_unused_item_Inr get_item_def table_get_None_iff table_del_def)
      ultimately show ?thesis
        using step_delete_item [OF made(1)] 2 a by (auto simp: Write_Delete delete_unused_item_Inr)
    qed (use a in simp)
  qed
qed

text \<open>
  The dependency of a route leaves the catalog alone, and what it leaves differs from what it found
  only when its commit has succeeded.
\<close>

lemma reconcile_frame:
  assumes "reconcile_recovery_owner d u identity recovery now = Inr (d', promoted)"
  shows "items d' = items d" and "manufacturers d' = manufacturers d" and "\<not> promoted \<Longrightarrow> d' = d"
  using assms
  by (auto simp: reconcile_recovery_owner_def approve_pending_request_def save_access_request_def Let_def
      change_role_def save_user_def transition_user_access_def
      split: if_splits list.splits prod.splits option.splits)

lemma context_frame:
  assumes "get_authenticated_context sha256 d r origin recovery now = Inr (d1, ctx)"
  shows "items d1 = items d \<and> manufacturers d1 = manufacturers d \<and> (d1 = d \<or> users_commit d d1)"
proof -
  obtain u identity promoted where run: "reconcile_recovery_owner d u identity recovery now = Inr (d1, promoted)"
    and "promoted \<longrightarrow> users_commit d d1"
    using assms unfolding get_authenticated_context_def
    by (auto simp: ebind_Inr_iff split: option.splits if_splits sum.splits identity_error.splits)
  then show ?thesis using reconcile_frame [OF run] by blast
qed

lemma authorised_frame:
  assumes "authorised env d r now c = (d1, a)"
  shows "items d1 = items d" and "manufacturers d1 = manufacturers d" and "d1 = d \<or> users_commit d d1"
  using assms by (auto simp: authorised_def dest: context_frame split: sum.splits prod.splits)

lemma authorised_Inr:
  assumes "authorised env d r now c = (d1, Inr ctx)"
  shows "has_capability (u_role (ctx_user ctx)) c" and "u_access_status (ctx_user ctx) = APPROVED"
  using assms by (auto simp: authorised_def require_capability_def get_approved_context_def result_simps
      split: sum.splits prod.splits if_splits)

text \<open>
  C36. The catalog is changed by those who may, and an answer tells the truth. A writing request
  that ends in an error leaves the catalog as it was, and of the database exactly what the
  dependency of its route has left: no change, or the promotion of the configured recovery owner,
  which the dependency commits before the handler runs and which has passed the deferred triggers
  on accounts. Any other request comes from an approved user whose role holds the capability of the
  route while changes of the inventory are enabled; then one step of the catalog is committed, the
  invariant holds, and the answer, which is read after the commit, cannot fail: it shows the row as
  committed, with the requested identifier, its category and manufacturer and exactly its stored
  attributes, in the requested state for (un)archiving; after a deletion the item is gone and no
  table refers to it.
\<close>

theorem catalog_request_answered:
  assumes inv: "catalog_inv ce d" and ok: "schema_ok (ce_schema ce)"
    and request: "catalog_request env ce d r w now = (d', a)"
  shows "(\<exists>e. a = Inl e \<and> items d' = items d \<and> manufacturers d' = manufacturers d \<and>
       d' = fst (authorised env d r now (write_capability w)) \<and> (d' = d \<or> users_commit d d')) \<or>
    (\<exists>x d1 ctx. a = Inr x \<and> authorised env d r now (write_capability w) = (d1, Inr ctx) \<and>
       u_access_status (ctx_user ctx) = APPROVED \<and>
       has_capability (u_role (ctx_user ctx)) (write_capability w) \<and>
       iv_real_inventory_mutations_enabled (re_api env) \<and> (d1 = d \<or> users_commit d d1) \<and>
       items d1 = items d \<and> manufacturers d1 = manufacturers d \<and> catalog_step ce d1 d' \<and>
       catalog_inv ce d' \<and> answer_true (ce_schema ce) d' w x)"
proof -
  obtain d1 got where dep: "authorised env d r now (write_capability w) = (d1, got)" by fastforce
  note frame = authorised_frame [OF dep]
  show ?thesis
  proof (cases got)
    case (Inl e)
    then have "d' = d1 \<and> a = Inl e" using request by (simp add: catalog_request_def dep)
    then show ?thesis using frame by (auto simp: dep)
  next
    case (Inr ctx)
    note who = authorised_Inr [OF dep [unfolded Inr]]
    have inv1: "catalog_inv ce d1" using inv catalog_inv_cong [OF frame(1,2)] by simp
    have run: "run_write (re_api env) ce d1 w = (d', a)"
      using request Inr by (simp add: catalog_request_def dep)
    show ?thesis
      using run_write_answered [OF inv1 ok run] who frame catalog_step_inv [OF _ inv1] by (auto simp: dep Inr)
  qed
qed

section \<open>Instances\<close>


definition sample_desk :: db where
  "sample_desk = sample_makers\<lparr>
     telegram_identities := [\<lparr> ti_user_id = 2, ti_telegram_user_id = 22, ti_username = None,
       ti_first_name = ''Admin'', ti_last_name = None, ti_language_code = None, ti_last_auth_at = None \<rparr>],
     auth_sessions := [\<lparr> as_id = 60, as_user_id = 2, as_token_hash = sample_digest ''token'', as_created_at = 1,
       as_expires_at = 100, as_revoked_at = None \<rparr>]\<rparr>"

definition sample_web :: request_env where
  "sample_web = \<lparr> re_api = sample_api, re_expected_origin = ''https://dc'', re_recovery = None \<rparr>"

definition sample_post :: http_request where
  "sample_post = \<lparr> hr_method = ''POST'', hr_origin = Some ''https://dc'', hr_cookie = Some ''token'' \<rparr>"

lemma sample_authorised:
  "\<exists>ctx. authorised sample_web sample_desk sample_post 5 CATALOG_MANAGE = (sample_desk, Inr ctx)"
proof -
  have "map ascii_upper ''POST'' = ''POST''" "rstrip_slash ''https://dc'' = ''https://dc''"
    "map casefold ''https://dc'' = ''https://dc''" by code_simp+
  then have "enforce_cookie_mutation_origin sample_post ''https://dc'' = Inr ()"
    by (simp add: enforce_cookie_mutation_origin_def sample_post_def SAFE_METHODS_def)
  moreover have "\<exists>ctx. load_auth_context (iv_sha256 sample_api) sample_desk ''token'' 5 = Some ctx \<and>
      ctx_user ctx = sample_user 2 ADMIN APPROVED \<and> u_id (ctx_user ctx) = 2"
    by (simp add: load_auth_context_def sample_desk_def sample_makers_def sample_db_def sample_api_def
        session_live_def get_user_def get_identity_def sample_user_def)
  moreover have "get_user sample_desk 2 = Some (sample_user 2 ADMIN APPROVED)"
    by (simp add: sample_desk_def sample_makers_def sample_db_def get_user_def sample_user_def)
  ultimately show ?thesis
    by (auto simp: authorised_def get_authenticated_context_def sample_web_def sample_post_def require_capability_def
        get_approved_context_def reconcile_recovery_owner_def sample_user_def has_capability_def)
qed

theorem catalog_request_answered_witness:
  "\<exists>d' out. catalog_request sample_web sample_catalog sample_desk sample_post (Write_Item sample_transceiver 70) 5 =
      (d', Inr (Shows_Item out)) \<and> shows_row sample_schema d' out \<and> it_id (io_item out) = 70"
proof -
  have inv: "catalog_inv sample_catalog sample_desk"
    using sample_makers_inv catalog_inv_cong [of sample_desk sample_makers] by (simp add: sample_desk_def)
  have schema: "schema_ok (ce_schema sample_catalog)" by (simp add: sample_catalog_def sample_schema_ok)
  have same: "find_manufacturer sample_desk = find_manufacturer sample_makers"
  proof -
    have "manufacturers sample_desk = manufacturers sample_makers" by (simp add: sample_desk_def)
    then show ?thesis unfolding find_manufacturer_def by simp
  qed
  obtain v where v: "validate_item_create_payload sample_catalog sample_desk sample_transceiver = Inr v"
    using sample_transceiver_valid
    unfolding validate_item_create_payload_def validate_item_def prepare_identity_def same by blast
  then have dup: "check_duplicate_candidates sample_catalog sample_desk sample_transceiver None = Inr []"
    unfolding validate_item_Inr by (auto simp: check_duplicate_candidates_def sample_desk_def sample_makers_def)
  have mf: "manufacturers_ok sample_desk" using inv by (simp add: catalog_inv_def)
  obtain d' where made: "create_item sample_catalog 70 sample_desk sample_transceiver = Inr (d', 70)"
    using create_clean_item [OF schema mf sample_payloads_clean _ v, of 70] dup
    by (auto simp: sample_catalog_def sample_digest_def sample_desk_def sample_makers_def)
  have more: "items d' \<noteq> items sample_desk" by (rule create_item_Inr [OF made]) simp
  obtain a where run: "catalog_request sample_web sample_catalog sample_desk sample_post
      (Write_Item sample_transceiver 70) 5 = (d', a)"
    using sample_authorised made
    by (auto simp: catalog_request_def answered_def post_item_def transaction_def sample_web_def sample_api_def
        require_real_inventory_mutations_enabled_def)
  show ?thesis
    using catalog_request_answered [OF inv schema run] more run by (auto simp: sample_catalog_def)
qed

end
