(* ===== verification/Procurement_Api.thy ===== *)
theory Procurement_Api
  imports Catalog_Api Email
begin

text \<open>
  The requests of \<open>procurement/api.py\<close>, with the two lists of \<open>procurement/service.py\<close> that they
  show. A handler gets the context that its route has accepted. As in the catalog, the outcome is
  the database that is left and the answer, which is built after the commit. The times at which
  rows were created, by which the lists are ordered, are an argument.
\<close>

section \<open>Errors\<close>

definition PROCUREMENT_CONFLICT_SQLSTATES :: "string list" where
  "PROCUREMENT_CONFLICT_SQLSTATES = [''23503'', ''23505'']"

definition PROCUREMENT_UNAVAILABLE_SQLSTATES :: "string list" where
  "PROCUREMENT_UNAVAILABLE_SQLSTATES = [''57014'', ''57P01'', ''57P02'', ''57P03'']"

definition raise_procurement_db_error :: "string \<Rightarrow> http_error" where
  "raise_procurement_db_error sqlstate =
     (if sqlstate \<in> set RETRYABLE_POSTGRES_SQLSTATES then (409, ''procurement_concurrency_conflict'')
      else if sqlstate \<in> set PROCUREMENT_CONFLICT_SQLSTATES then (409, ''procurement_database_conflict'')
      else if take 2 sqlstate = ''08'' \<or> sqlstate \<in> set PROCUREMENT_UNAVAILABLE_SQLSTATES
      then (503, ''procurement_database_unavailable'')
      else (500, ''procurement_database_error''))"

text \<open>
  Every error of the catalog and of the warehouse is a conflict here; a plain \<open>RuntimeError\<close> or
  \<open>ValueError\<close> is not handled.
\<close>

fun raise_procurement_error :: "procurement_error \<Rightarrow> http_error" where
  "raise_procurement_error (ProcurementNotFoundError code) = (404, code)"
| "raise_procurement_error (ProcurementForbiddenError code) = (403, code)"
| "raise_procurement_error (ProcurementConflictError code) = (409, code)"
| "raise_procurement_error (ProcurementCatalogError code) = (409, code)"
| "raise_procurement_error (ProcurementInventoryError e) =
     (case e of
        InventoryDbError sqlstate trigger_message \<Rightarrow> raise_procurement_db_error sqlstate
      | InventoryValidationError code \<Rightarrow> (409, code)
      | InventoryNotFoundError code \<Rightarrow> (409, code)
      | InventoryConflictError code \<Rightarrow> (409, code))"
| "raise_procurement_error (ProcurementValidationError code) = (422, code)"
| "raise_procurement_error (ProcurementOutboxError e) =
     (case e of OutboxDbError sqlstate \<Rightarrow> raise_procurement_db_error sqlstate | _ \<Rightarrow> internal_error)"
| "raise_procurement_error ProcurementRuntimeError = internal_error"
| "raise_procurement_error (ProcurementDbError sqlstate msg) = raise_procurement_db_error sqlstate"

fun raise_email_error :: "email_error \<Rightarrow> http_error" where
  "raise_email_error (EmailServiceUnavailableError code) = (503, code)"
| "raise_email_error (EmailConflictError code) = (409, code)"
| "raise_email_error (EmailProcurementError e) = raise_procurement_error e"
| "raise_email_error (EmailDbError sqlstate) = raise_procurement_db_error sqlstate"
| "raise_email_error EmailValueError = internal_error"
| "raise_email_error EmailRuntimeError = internal_error"

section \<open>Answers\<close>

fun STATUS_LABELS :: "procurement_status \<Rightarrow> string" where
  "STATUS_LABELS AGREEMENT_PENDING_MANAGER = points_text
     [1054, 1078, 1080, 1076, 1072, 1077, 1090, 32, 1084, 1077, 1085, 1077, 1076, 1078,
      1077, 1088, 1072]"
| "STATUS_LABELS AGREEMENT_REVISION_REQUIRED = points_text
     [1058, 1088, 1077, 1073, 1091, 1077, 1090, 32, 1082, 1086, 1088, 1088, 1077, 1082,
      1090, 1080, 1088, 1086, 1074, 1082, 1080]"
| "STATUS_LABELS PURCHASING = points_text
     [1042, 32, 1079, 1072, 1082, 1091, 1087, 1082, 1077]"
| "STATUS_LABELS AWAITING_ACCEPTANCE = points_text
     [1053, 1072, 32, 1087, 1088, 1080, 1105, 1084, 1082, 1077]"
| "STATUS_LABELS COMPLETED = points_text
     [1042, 1099, 1087, 1086, 1083, 1085, 1077, 1085, 1072]"

type_synonym user_summary = "uuid \<times> string"

text \<open>The names of the users that exist; for another the identifier is shown.\<close>

definition display_names :: "db \<Rightarrow> uuid \<Rightarrow> string option" where
  "display_names d user_id = map_option (\<lambda>_. actor_snapshot d user_id) (get_user d user_id)"

definition name_out :: "db \<Rightarrow> uuid \<Rightarrow> user_summary" where
  "name_out d user_id =
     (user_id, case display_names d user_id of None \<Rightarrow> uuid_str user_id | Some n \<Rightarrow> n)"

record procurement_line_out =
  lo_line :: procurement_revision_line
  lo_bound_item_id :: "uuid option"

definition line_out :: "db \<Rightarrow> procurement_revision_line \<Rightarrow> procurement_line_out" where
  "line_out d line = \<lparr> lo_line = line, lo_bound_item_id = bound_item_id (binding_of d) line \<rparr>"

record procurement_revision_out =
  ro_revision :: procurement_revision
  ro_submitted_by :: user_summary
  ro_lines :: "procurement_line_out list"

definition revision_out :: "db \<Rightarrow> procurement_revision \<Rightarrow> procurement_revision_out" where
  "revision_out d v =
     \<lparr> ro_revision = v, ro_submitted_by = name_out d (rv_submitted_by_user_id v),
       ro_lines = map (line_out d) (revision_lines d (rv_id v)) \<rparr>"

record procurement_summary =
  su_request :: procurement_request
  su_status_label :: string
  su_initiator :: user_summary
  su_assigned_manager :: user_summary
  su_revision_number :: int
  su_line_count :: int

definition summary_out :: "db \<Rightarrow> procurement_request \<Rightarrow> procurement_revision \<Rightarrow> procurement_summary" where
  "summary_out d r v =
     \<lparr> su_request = r, su_status_label = STATUS_LABELS (pr_status r),
       su_initiator = name_out d (pr_initiator_user_id r),
       su_assigned_manager = name_out d (pr_assigned_manager_user_id r),
       su_revision_number = rv_revision_number v, su_line_count = rv_line_count v \<rparr>"

record procurement_detail = procurement_summary +
  de_current_revision :: procurement_revision_out
  de_revisions :: "procurement_revision_out list"
  de_events :: "procurement_event list"
  de_final_movement_id :: "uuid option"
  de_available_actions :: "string list"

definition detail_out :: "db \<Rightarrow> user \<Rightarrow> procurement_record \<Rightarrow> http_error + procurement_detail" where
  "detail_out d actor record =
     relabel raise_procurement_error
       (ebind (current_revision record) (\<lambda>v.
        ebind (available_actions d record actor) (\<lambda>actions.
        Inr (procurement_summary.extend (summary_out d (prr_request record) v)
          (procurement_detail.fields (revision_out d v) (map (revision_out d) (prr_revisions record))
             (prr_events record) (pr_final_movement_id (prr_request record)) actions)))))"

section \<open>Reading\<close>

definition without_at_sign :: "string \<Rightarrow> string" where
  "without_at_sign s =
     (let rest = (case s of c # cs \<Rightarrow> if c = CHR ''@'' then cs else s | [] \<Rightarrow> [])
      in if rest = [] then s else rest)"

text \<open>\<open>ILIKE\<close> on a missing value is not true, and \<open>concat_ws\<close> leaves missing values out.\<close>

definition ilike_column :: "string \<Rightarrow> string option \<Rightarrow> bool" where
  "ilike_column pattern column = (case column of None \<Rightarrow> False | Some s \<Rightarrow> sql_ilike pattern s)"

definition manager_matches :: "db \<Rightarrow> string \<Rightarrow> user \<Rightarrow> bool" where
  "manager_matches d search u \<longleftrightarrow>
     (let identity = get_identity d (u_id u);
          first_name = map_option ti_first_name identity;
          last_name = Option.bind identity ti_last_name;
          pattern = ''%'' @ search @ ''%''
      in ilike_column (''%'' @ without_at_sign search @ ''%'') (Option.bind identity ti_username) \<or>
         ilike_column pattern first_name \<or> ilike_column pattern last_name \<or>
         sql_ilike pattern (py_join '' '' (List.map_filter (\<lambda>n. n) [first_name, last_name])))"

definition list_managers ::
    "(uuid \<Rightarrow> timestamp) \<Rightarrow> db \<Rightarrow> string option \<Rightarrow> nat \<Rightarrow> nat \<Rightarrow> user list \<times> nat" where
  "list_managers created_at d query limit offset =
     (let search = normalize_idempotency_key (or_empty query);
          rows = filter (\<lambda>u. u_role u = MANAGER \<and> u_access_status u = APPROVED \<and>
            (search \<noteq> [] \<longrightarrow> manager_matches d search u)) (users d)
      in (page limit offset (sort_key (\<lambda>u. created_at (u_id u)) (sort_key u_id rows)), length rows))"

definition get_managers ::
    "(uuid \<Rightarrow> timestamp) \<Rightarrow> db \<Rightarrow> string option \<Rightarrow> nat \<Rightarrow> nat \<Rightarrow> user_summary list \<times> nat" where
  "get_managers created_at d q limit offset =
     (let (found, total) = list_managers created_at d q limit offset
      in (map (\<lambda>u. (u_id u, actor_snapshot d (u_id u))) found, total))"

datatype procurement_view = VIEW_MY | VIEW_ACTIVE | VIEW_HISTORY

fun in_view :: "uuid \<Rightarrow> procurement_view \<Rightarrow> procurement_request \<Rightarrow> bool" where
  "in_view actor_user_id VIEW_MY r \<longleftrightarrow>
     pr_assigned_manager_user_id r = actor_user_id \<and> pr_status r \<in> set ACTIVE_PROCUREMENT_STATUSES"
| "in_view actor_user_id VIEW_ACTIVE r \<longleftrightarrow> pr_status r \<in> set ACTIVE_PROCUREMENT_STATUSES"
| "in_view actor_user_id VIEW_HISTORY r \<longleftrightarrow> pr_status r = COMPLETED"

text \<open>The inner join leaves out a request without its current revision, the count does not.\<close>

definition list_requests ::
    "(uuid \<Rightarrow> timestamp) \<Rightarrow> db \<Rightarrow> uuid \<Rightarrow> procurement_view \<Rightarrow> nat \<Rightarrow> nat
       \<Rightarrow> (procurement_request \<times> procurement_revision) list \<times> nat" where
  "list_requests created_at d actor_user_id view limit offset =
     (let rows = filter (in_view actor_user_id view) (procurement_requests d);
          joined = List.map_filter (\<lambda>r. map_option (Pair r)
            (table_get rv_id (pr_current_revision_id r) (procurement_revisions d))) rows
      in (page limit offset (order_by True (\<lambda>(r, v). created_at (pr_id r))
            (order_by True (\<lambda>(r, v). pr_id r) joined)), length rows))"

definition get_requests ::
    "(uuid \<Rightarrow> timestamp) \<Rightarrow> db \<Rightarrow> authenticated_context \<Rightarrow> procurement_view \<Rightarrow> nat \<Rightarrow> nat
       \<Rightarrow> procurement_summary list \<times> nat" where
  "get_requests created_at d approved view limit offset =
     (let (rows, total) = list_requests created_at d (u_id (ctx_user approved)) view limit offset
      in (map (\<lambda>(r, v). summary_out d r v) rows, total))"

definition get_request_detail ::
    "db \<Rightarrow> authenticated_context \<Rightarrow> uuid \<Rightarrow> http_error + procurement_detail" where
  "get_request_detail d approved request_id =
     ebind (relabel raise_procurement_error (get_request_record d request_id)) (\<lambda>record.
     detail_out d (ctx_user approved) record)"

section \<open>Mutations\<close>

definition mutate ::
    "db \<Rightarrow> authenticated_context \<Rightarrow> procurement_error + db \<times> procurement_record \<Rightarrow> procurement_detail response" where
  "mutate d approved call =
     transaction d (relabel raise_procurement_error call) (\<lambda>d' record. detail_out d' (ctx_user approved) record)"

definition post_request ::
    "procurement_env \<Rightarrow> db \<Rightarrow> authenticated_context \<Rightarrow> procurement_request_create
       \<Rightarrow> procurement_detail response" where
  "post_request env d approved p = mutate d approved (create_request env d p (u_id (ctx_user approved)))"

definition post_revision ::
    "procurement_env \<Rightarrow> db \<Rightarrow> authenticated_context \<Rightarrow> uuid \<Rightarrow> revision_create
       \<Rightarrow> procurement_detail response" where
  "post_revision env d approved request_id p =
     mutate d approved (submit_revision env d request_id p (u_id (ctx_user approved)))"

definition post_manager_accept ::
    "procurement_env \<Rightarrow> db \<Rightarrow> authenticated_context \<Rightarrow> uuid \<Rightarrow> expected_state_mutation
       \<Rightarrow> procurement_detail response" where
  "post_manager_accept env d approved request_id p =
     mutate d approved (manager_accept env d request_id p (u_id (ctx_user approved)))"

definition post_return_for_correction ::
    "procurement_env \<Rightarrow> db \<Rightarrow> authenticated_context \<Rightarrow> uuid \<Rightarrow> correction_request
       \<Rightarrow> procurement_detail response" where
  "post_return_for_correction env d approved request_id p =
     mutate d approved (return_for_correction env d request_id p (u_id (ctx_user approved)))"

definition post_take_ownership ::
    "procurement_env \<Rightarrow> db \<Rightarrow> authenticated_context \<Rightarrow> uuid \<Rightarrow> assignment_mutation
       \<Rightarrow> procurement_detail response" where
  "post_take_ownership env d approved request_id p =
     mutate d approved (take_ownership env d request_id p (u_id (ctx_user approved)))"

definition post_transfer_manager ::
    "procurement_env \<Rightarrow> db \<Rightarrow> authenticated_context \<Rightarrow> uuid \<Rightarrow> manager_transfer
       \<Rightarrow> procurement_detail response" where
  "post_transfer_manager env d approved request_id p =
     mutate d approved (transfer_manager env d request_id p (u_id (ctx_user approved)))"

definition post_transfer_to_acceptance ::
    "procurement_env \<Rightarrow> db \<Rightarrow> authenticated_context \<Rightarrow> uuid \<Rightarrow> expected_state_mutation
       \<Rightarrow> procurement_detail response" where
  "post_transfer_to_acceptance env d approved request_id p =
     mutate d approved (transfer_to_acceptance env d request_id p (u_id (ctx_user approved)))"

definition post_bind_line ::
    "procurement_env \<Rightarrow> db \<Rightarrow> authenticated_context \<Rightarrow> uuid \<Rightarrow> line_binding_create
       \<Rightarrow> procurement_detail response" where
  "post_bind_line env d approved request_id p =
     mutate d approved (bind_line env d request_id p (u_id (ctx_user approved)))"

definition post_discrepancy ::
    "procurement_env \<Rightarrow> db \<Rightarrow> authenticated_context \<Rightarrow> uuid \<Rightarrow> discrepancy_create
       \<Rightarrow> procurement_detail response" where
  "post_discrepancy env d approved request_id p =
     mutate d approved (report_discrepancy env d request_id p (u_id (ctx_user approved)))"

text \<open>Two routes ask for more than the capability of their dependency.\<close>

definition guarded :: "db \<Rightarrow> http_error + unit \<Rightarrow> 'a response \<Rightarrow> 'a response" where
  "guarded d guard r = (case guard of Inl e \<Rightarrow> (d, Inl e) | Inr _ \<Rightarrow> r)"

definition post_create_and_bind_line ::
    "inventory_api_env \<Rightarrow> procurement_env \<Rightarrow> db \<Rightarrow> authenticated_context \<Rightarrow> uuid
       \<Rightarrow> proposed_item_create_and_bind \<Rightarrow> procurement_detail response" where
  "post_create_and_bind_line api env d approved request_id p =
     guarded d (ebind (ensure (has_capability (u_role (ctx_user approved)) CATALOG_MANAGE)
         (403, ''catalog manage capability required'')) (\<lambda>_. require_real_inventory_mutations_enabled api))
       (mutate d approved (create_and_bind_line env d request_id p (u_id (ctx_user approved))))"

definition post_acceptance ::
    "inventory_api_env \<Rightarrow> procurement_env \<Rightarrow> db \<Rightarrow> authenticated_context \<Rightarrow> uuid
       \<Rightarrow> procurement_acceptance_create \<Rightarrow> procurement_detail response" where
  "post_acceptance api env d approved request_id p =
     guarded d (require_real_inventory_mutations_enabled api)
       (mutate d approved (complete_acceptance env d request_id p (u_id (ctx_user approved))))"

text \<open>The command of the e-mail announcement; its table is beside the database.\<close>

definition post_email_route ::
    "email_env \<Rightarrow> db \<Rightarrow> email_outbox list \<Rightarrow> uuid \<Rightarrow> timestamp \<Rightarrow> authenticated_context \<Rightarrow> uuid
       \<Rightarrow> procurement_email_create \<Rightarrow> http_error + email_outbox list \<times> email_outbox" where
  "post_email_route env d rows new_id now approved request_id p =
     relabel raise_email_error (post_email env d rows new_id now request_id p (u_id (ctx_user approved)))"

end
