(* ===== verification/Procurement_Api_Proofs.thy ===== *)
theory Procurement_Api_Proofs
  imports Procurement_Api Procurement_Safety
begin

text \<open>
  The network layer of the procurement service adds nothing and takes nothing away: a request over
  the network succeeds exactly when the service accepts the call of the signed-in user.
\<close>

section \<open>Routes\<close>

text \<open>The capability that the dependency of a route asks for, and the handler behind it.\<close>

fun route_capability :: "procurement_call \<Rightarrow> capability" where
  "route_capability (Accept p) = PROCUREMENT_MANAGE"
| "route_capability (Correct p) = PROCUREMENT_MANAGE"
| "route_capability (Resubmit p) = PROCUREMENT_CREATE"
| "route_capability (Take_Over p) = PROCUREMENT_MANAGE"
| "route_capability (Reassign p) = PROCUREMENT_MANAGE"
| "route_capability (Hand_Over p) = PROCUREMENT_MANAGE"
| "route_capability (Bind_Line p) = PROCUREMENT_ACCEPT"
| "route_capability (Create_And_Bind p) = PROCUREMENT_ACCEPT"
| "route_capability (Report p) = PROCUREMENT_ACCEPT"
| "route_capability (Complete p) = PROCUREMENT_ACCEPT"

fun run_route ::
    "inventory_api_env \<Rightarrow> procurement_env \<Rightarrow> db \<Rightarrow> authenticated_context \<Rightarrow> uuid \<Rightarrow> procurement_call
       \<Rightarrow> procurement_detail response" where
  "run_route api env d approved i (Accept p) = post_manager_accept env d approved i p"
| "run_route api env d approved i (Correct p) = post_return_for_correction env d approved i p"
| "run_route api env d approved i (Resubmit p) = post_revision env d approved i p"
| "run_route api env d approved i (Take_Over p) = post_take_ownership env d approved i p"
| "run_route api env d approved i (Reassign p) = post_transfer_manager env d approved i p"
| "run_route api env d approved i (Hand_Over p) = post_transfer_to_acceptance env d approved i p"
| "run_route api env d approved i (Bind_Line p) = post_bind_line env d approved i p"
| "run_route api env d approved i (Create_And_Bind p) = post_create_and_bind_line api env d approved i p"
| "run_route api env d approved i (Report p) = post_discrepancy env d approved i p"
| "run_route api env d approved i (Complete p) = post_acceptance api env d approved i p"

definition procurement_route ::
    "inventory_api_env \<Rightarrow> procurement_env \<Rightarrow> db \<Rightarrow> authenticated_context \<Rightarrow> uuid \<Rightarrow> procurement_call
       \<Rightarrow> procurement_detail response" where
  "procurement_route api env d ctx i c =
     (case require_capability (route_capability c) ctx of
        Inl e \<Rightarrow> (d, Inl e)
      | Inr approved \<Rightarrow> run_route api env d approved i c)"

fun writes_stock :: "procurement_call \<Rightarrow> bool" where
  "writes_stock (Create_And_Bind p) = True"
| "writes_stock (Complete p) = True"
| "writes_stock c = False"

lemmas route_defs = post_manager_accept_def post_return_for_correction_def post_revision_def post_take_ownership_def
  post_transfer_manager_def post_transfer_to_acceptance_def post_bind_line_def post_create_and_bind_line_def
  post_discrepancy_def post_acceptance_def

text \<open>All routes at once.\<close>

lemma run_route_alt:
  "run_route api env d approved i c =
     guarded d (ebind (ensure (\<forall>x\<in>set (call_capabilities c). x \<noteq> route_capability c \<longrightarrow>
           has_capability (u_role (ctx_user approved)) x) (403, ''catalog manage capability required''))
         (\<lambda>_. if writes_stock c then require_real_inventory_mutations_enabled api else Inr ()))
       (mutate d approved (run_call env d i c (u_id (ctx_user approved))))"
  by (cases c) (simp_all add: route_defs guarded_def)

lemma route_capability_needed: "route_capability c \<in> set (call_capabilities c)"
  by (cases c) simp_all

section \<open>Answers\<close>

lemma mutation_record:
  assumes "mutation env d i p pl actor t cs body = Inr (d', rec)"
    and "\<And>r key fp. body r key fp = Inr (d', rec) \<Longrightarrow> get_request_record d' i = Inr rec"
  shows "get_request_record d' i = Inr rec"
  using assms
  by (auto simp: mutation_def lock_and_validate_expected_def ebind_Inr_iff Let_def split: option.splits if_splits)

lemma run_call_record:
  assumes "run_call env d i c actor = Inr (d', rec)"
  shows "get_request_record d' i = Inr rec"
  using assms
  by (cases c)
    (auto simp: manager_accept_def return_for_correction_def submit_revision_def take_ownership_def
      transfer_manager_def change_assignment_def transfer_to_acceptance_def bind_line_def create_and_bind_line_def
      report_discrepancy_def complete_acceptance_def body_simps split: option.splits if_splits
      elim!: mutation_record)

lemma detail_total:
  assumes inv: "procurement_inv d" and rec: "get_request_record d i = Inr rec"
  shows "\<exists>out. detail_out d u rec = Inr out \<and> su_request out = prr_request rec \<and>
    available_actions d rec u = Inr (de_available_actions out)"
proof -
  have lines: "current_lines d rec = Inr (revision_lines d (pr_current_revision_id (prr_request rec)))"
    by (rule current_lines_ok [OF inv rec])
  then obtain v where v: "current_revision rec = Inr v" by (auto simp: current_lines_def result_simps)
  have "\<exists>as. available_actions d rec u = Inr as"
    unfolding available_actions_def Let_def by (simp add: lines)
  then show ?thesis
    using v by (auto simp: detail_out_def summary_out_def procurement_summary.defs procurement_detail.defs)
qed

lemma detail_of_request:
  assumes "procurement_inv d" and "get_request_record d i = Inr rec"
  shows "\<exists>out. detail_out d (ctx_user ctx) rec = Inr out \<and> get_request_detail d ctx i = Inr out \<and>
    get_request d i = Some (su_request out) \<and> available_actions d rec (ctx_user ctx) = Inr (de_available_actions out)"
  using detail_total [OF assms, of "ctx_user ctx"] assms(2)
  by (auto simp: get_request_detail_def get_request_record_def split: option.splits)

lemma ex_call:
  "(\<exists>c. P c) \<longleftrightarrow> (\<exists>p. P (Accept p)) \<or> (\<exists>p. P (Correct p)) \<or> (\<exists>p. P (Resubmit p)) \<or> (\<exists>p. P (Take_Over p)) \<or>
     (\<exists>p. P (Reassign p)) \<or> (\<exists>p. P (Hand_Over p)) \<or> (\<exists>p. P (Bind_Line p)) \<or>
     (\<exists>p. P (Create_And_Bind p)) \<or> (\<exists>p. P (Report p)) \<or> (\<exists>p. P (Complete p))"
proof
  assume "\<exists>c. P c"
  then obtain c where c: "P c" ..
  show "(\<exists>p. P (Accept p)) \<or> (\<exists>p. P (Correct p)) \<or> (\<exists>p. P (Resubmit p)) \<or> (\<exists>p. P (Take_Over p)) \<or>
     (\<exists>p. P (Reassign p)) \<or> (\<exists>p. P (Hand_Over p)) \<or> (\<exists>p. P (Bind_Line p)) \<or>
     (\<exists>p. P (Create_And_Bind p)) \<or> (\<exists>p. P (Report p)) \<or> (\<exists>p. P (Complete p))"
    by (cases c; use c in simp; blast)
qed blast

text \<open>
  The actions a page offers are those for which the role of the user passes the route and the
  request satisfies the guards that the handler evaluates, no others.
\<close>

lemma guarded_actions:
  "(\<exists>c. call_action c = a \<and> has_capability (u_role u) (route_capability c) \<and> call_guard d rec (u_id u) c) \<longleftrightarrow>
     (let st = pr_status (prr_request rec); cap = has_capability (u_role u) in
      a = ''take_ownership'' \<and> cap PROCUREMENT_MANAGE \<and> st \<noteq> COMPLETED \<and>
        pr_assigned_manager_user_id (prr_request rec) \<noteq> u_id u \<or>
      a = ''transfer_manager'' \<and> cap PROCUREMENT_MANAGE \<and> st \<noteq> COMPLETED \<or>
      a = ''manager_accept'' \<and> cap PROCUREMENT_MANAGE \<and> st = AGREEMENT_PENDING_MANAGER \<or>
      a = ''return_for_correction'' \<and> cap PROCUREMENT_MANAGE \<and>
        st \<in> {AGREEMENT_PENDING_MANAGER, AWAITING_ACCEPTANCE} \<or>
      a = ''transfer_to_acceptance'' \<and> cap PROCUREMENT_MANAGE \<and> st = PURCHASING \<or>
      a = ''submit_revision'' \<and> cap PROCUREMENT_CREATE \<and> st = AGREEMENT_REVISION_REQUIRED \<and>
        pr_initiator_user_id (prr_request rec) = u_id u \<or>
      a = ''bind_lines'' \<and> cap PROCUREMENT_ACCEPT \<and> st \<noteq> COMPLETED \<and>
        (\<exists>ls. current_lines d rec = Inr ls \<and> (\<exists>l\<in>set ls. rl_line_type l = PROPOSED_ITEM \<and> binding_of d l = None)) \<or>
      a = ''report_discrepancy'' \<and> cap PROCUREMENT_ACCEPT \<and> st = AWAITING_ACCEPTANCE \<or>
      a = ''complete_acceptance'' \<and> cap PROCUREMENT_ACCEPT \<and> st = AWAITING_ACCEPTANCE)"
  unfolding ex_call Let_def by (simp only: call_action.simps route_capability.simps call_guard.simps simp_thms) argo

lemma offered_iff:
  assumes "available_actions d rec u = Inr as" and "current_lines d rec = Inr ls"
  shows "a \<in> set as \<longleftrightarrow> (\<exists>c. call_action c = a \<and> has_capability (u_role u) (route_capability c) \<and>
    call_guard d rec (u_id u) c)"
  unfolding guarded_actions Let_def
  by (cases "pr_status (prr_request rec)"; cases "has_capability (u_role u) PROCUREMENT_MANAGE";
      cases "has_capability (u_role u) PROCUREMENT_CREATE"; cases "has_capability (u_role u) PROCUREMENT_ACCEPT";
      use assms in \<open>auto simp: available_actions_def ACTIVE_PROCUREMENT_STATUSES_def Let_def\<close>)

lemma guard_open: "call_guard d rec actor c \<Longrightarrow> pr_status (prr_request rec) \<noteq> COMPLETED"
  by (cases c) auto

lemma page_offers:
  assumes "procurement_inv d" and "get_request_detail d ctx i = Inr shown"
  shows "(pr_status (su_request shown) = COMPLETED \<longrightarrow> de_available_actions shown = []) \<and>
    (\<forall>a. a \<in> set (de_available_actions shown) \<longleftrightarrow> (\<exists>c rec. call_action c = a \<and>
       get_request_record d i = Inr rec \<and> has_capability (u_role (ctx_user ctx)) (route_capability c) \<and>
       call_guard d rec (u_id (ctx_user ctx)) c))"
proof -
  obtain rec where rec: "get_request_record d i = Inr rec"
    using assms(2) by (auto simp: get_request_detail_def result_simps)
  obtain out where out: "detail_out d (ctx_user ctx) rec = Inr out" "su_request out = prr_request rec"
    "available_actions d rec (ctx_user ctx) = Inr (de_available_actions out)"
    using detail_total [OF assms(1) rec] by blast
  moreover have "out = shown" using assms(2) rec out(1) by (simp add: get_request_detail_def)
  ultimately have acts: "available_actions d rec (ctx_user ctx) = Inr (de_available_actions shown)"
    and req: "su_request shown = prr_request rec" by simp_all
  note iff = offered_iff [OF acts current_lines_ok [OF assms(1) rec]]
  have "de_available_actions shown = []" if "pr_status (su_request shown) = COMPLETED"
    using that iff guard_open unfolding req by (metis list.set_intros(1) neq_Nil_conv)
  then show ?thesis using iff rec by auto
qed

lemma request_outcome:
  assumes inv: "procurement_inv d" and user: "get_user d (u_id (ctx_user ctx)) = Some (ctx_user ctx)"
  shows "case run_call env d i c (u_id (ctx_user ctx)) of
      Inl err \<Rightarrow> (\<exists>e. procurement_route api env d ctx i c = (d, Inl e) \<and>
        (e = raise_procurement_error err \<or> fst e \<in> {403, 423}))
    | Inr (d', rec) \<Rightarrow>
        if writes_stock c \<and> \<not> iv_real_inventory_mutations_enabled api
        then procurement_route api env d ctx i c = (d, Inl (423, ''real_inventory_mutations_disabled''))
        else \<exists>out. procurement_route api env d ctx i c = (d', Inr out) \<and>
          get_request_detail d' ctx i = Inr out \<and> get_request d' i = Some (su_request out) \<and>
          (d' = d \<or> (\<exists>shown. get_request_detail d ctx i = Inr shown \<and>
             call_action c \<in> set (de_available_actions shown) \<and> pr_status (su_request shown) \<noteq> COMPLETED))"
proof (cases "run_call env d i c (u_id (ctx_user ctx))")
  case (Inl err)
  obtain status code where e: "raise_procurement_error err = (status, code)" by (cases "raise_procurement_error err")
  show ?thesis
    by (auto simp: Inl e procurement_route_def run_route_alt guarded_def mutate_def transaction_def
        require_capability_def get_approved_context_def ensure_def require_real_inventory_mutations_enabled_def
        ebind_def split: sum.splits if_splits)
next
  case (Inr x)
  obtain d' rec where run: "run_call env d i c (u_id (ctx_user ctx)) = Inr (d', rec)" using Inr by (cases x) auto
  have "capable d (u_id (ctx_user ctx)) (call_capabilities c)" by (rule calls.run_cases [OF run])
  then have who: "u_access_status (ctx_user ctx) = APPROVED"
    "\<forall>x\<in>set (call_capabilities c). has_capability (u_role (ctx_user ctx)) x"
    using user by (simp_all add: capable_def)
  then have through: "require_capability (route_capability c) ctx = Inr ctx"
    using route_capability_needed [of c] by (simp add: require_capability_def get_approved_context_def)
  obtain out where out: "detail_out d' (ctx_user ctx) rec = Inr out" "get_request_detail d' ctx i = Inr out"
    "get_request d' i = Some (su_request out)"
    using detail_of_request [OF run_call_inv [OF inv run] run_call_record [OF run]] by blast
  have before: "d' = d \<or> (\<exists>shown. get_request_detail d ctx i = Inr shown \<and>
      call_action c \<in> set (de_available_actions shown) \<and> pr_status (su_request shown) \<noteq> COMPLETED)"
  proof (cases "d' = d")
    case False
    obtain rec0 where rec0: "get_request_record d i = Inr rec0"
      by (rule calls.run_cases [OF run]) (auto simp: get_request_record_def)
    then show ?thesis
      using accepted_calls_are_offered [OF inv run False user rec0] detail_of_request [OF inv rec0, of ctx]
      by (auto simp: get_request_record_def split: option.splits)
  qed simp
  show ?thesis
    using run who(2) through out before
    by (auto simp: procurement_route_def run_route_alt guarded_def mutate_def transaction_def
        require_real_inventory_mutations_enabled_def)
qed

text \<open>
  C25. The network layer neither adds nor removes permissions, and the client can trust what it is
  shown: for the current user of a request over the network, the answer is an error that leaves the
  database as it was whenever the service refuses the call. When the service accepts it, the
  request succeeds with the state of the service, unless it would write stock or the catalog while
  such changes are disabled, which ends with status 423. The answer is the page of the request as
  it now stands, its construction cannot fail, and a request that changes anything was among the
  actions that the page showed to that user before. Every page offers exactly the actions for which
  the role of the user passes the route and the request satisfies the guards of the handler; the page
  of a completed request offers none.
\<close>

theorem procurement_request_outcome:
  assumes inv: "procurement_inv d" and user: "get_user d (u_id (ctx_user ctx)) = Some (ctx_user ctx)"
  shows "(case run_call env d i c (u_id (ctx_user ctx)) of
      Inl err \<Rightarrow> (\<exists>e. procurement_route api env d ctx i c = (d, Inl e) \<and>
        (e = raise_procurement_error err \<or> fst e \<in> {403, 423}))
    | Inr (d', rec) \<Rightarrow>
        if writes_stock c \<and> \<not> iv_real_inventory_mutations_enabled api
        then procurement_route api env d ctx i c = (d, Inl (423, ''real_inventory_mutations_disabled''))
        else \<exists>out. procurement_route api env d ctx i c = (d', Inr out) \<and>
          get_request_detail d' ctx i = Inr out \<and> get_request d' i = Some (su_request out) \<and>
          (d' = d \<or> (\<exists>shown. get_request_detail d ctx i = Inr shown \<and>
             call_action c \<in> set (de_available_actions shown) \<and> pr_status (su_request shown) \<noteq> COMPLETED))) \<and>
    (\<forall>j shown. get_request_detail d ctx j = Inr shown \<longrightarrow>
      (pr_status (su_request shown) = COMPLETED \<longrightarrow> de_available_actions shown = []) \<and>
      (\<forall>a. a \<in> set (de_available_actions shown) \<longleftrightarrow> (\<exists>x rec. call_action x = a \<and>
         get_request_record d j = Inr rec \<and> has_capability (u_role (ctx_user ctx)) (route_capability x) \<and>
         call_guard d rec (u_id (ctx_user ctx)) x)))"
  using request_outcome [OF inv user, where env = env and i = i and c = c and api = api] page_offers [OF inv, of ctx] by blast

section \<open>Instances\<close>

definition sample_manager :: authenticated_context where
  "sample_manager = \<lparr>
     ctx_session = \<lparr> as_id = 61, as_user_id = 5, as_token_hash = [], as_created_at = 0, as_expires_at = 9,
       as_revoked_at = None \<rparr>,
     ctx_user = sample_user 5 MANAGER APPROVED,
     ctx_identity = \<lparr> ti_user_id = 5, ti_telegram_user_id = 55, ti_username = None, ti_first_name = ''Manager'',
       ti_last_name = None, ti_language_code = None, ti_last_auth_at = None \<rparr> \<rparr>"

definition sample_locked_api :: inventory_api_env where
  "sample_locked_api = \<lparr> iv_sha256 = sample_digest, iv_real_inventory_mutations_enabled = False,
     iv_notification_telegram_user_id = None \<rparr>"

theorem procurement_request_outcome_witness:
  "\<exists>out shown. procurement_route sample_locked_api sample_env sample_procurement sample_manager 50 (Correct sample_correction) =
      (sample_returned, Inr out) \<and>
     get_request_detail sample_procurement sample_manager 50 = Inr shown \<and>
     ''return_for_correction'' \<in> set (de_available_actions shown)"
proof -
  have id: "u_id (ctx_user sample_manager) = 5" by (simp add: sample_manager_def sample_user_def)
  obtain rec where run: "run_call sample_env sample_procurement 50 (Correct sample_correction)
      (u_id (ctx_user sample_manager)) = Inr (sample_returned, rec)" unfolding id using sample_correction_run by blast
  have user: "get_user sample_procurement (u_id (ctx_user sample_manager)) = Some (ctx_user sample_manager)"
    by (simp add: sample_manager_def get_user_def sample_procurement_tables sample_db_def sample_user_def)
  show ?thesis
    using procurement_request_outcome [OF sample_procurement_inv user, where env = sample_env and i = 50 and
      c = "Correct sample_correction" and api = sample_locked_api]
      run sample_returned_new by auto
qed

end
