(* ===== verification/Account_Api.thy ===== *)
theory Account_Api
  imports Identity_Proofs Telegram_Bot Init_Data Catalog_Api
begin

text \<open>
  The requests of the account administration (\<open>identity/admin_api.py\<close>, \<open>identity/reset_api.py\<close>),
  of sign-in (\<open>auth/api.py\<close>) and of a user's own access request (\<open>access/api.py\<close>). A transaction
  ends with the deferred triggers on users; a change is answered after its commit.
\<close>

section \<open>Errors\<close>

fun admin_error_code :: "identity_error \<Rightarrow> string" where
  "admin_error_code OutstandingCustodyInvariantError = ''admin_user_outstanding_custody''"
| "admin_error_code RecoveryAdminInvariantError = ''admin_user_recovery_invariant''"
| "admin_error_code InvalidAccessTransitionError = ''admin_user_invalid_access_transition''"
| "admin_error_code PendingAccessRequestNotFoundError = ''admin_user_pending_access_request_not_found''"
| "admin_error_code AdminUserForbiddenError = ''admin_user_forbidden''"
| "admin_error_code AdminUserNotFoundError = ''admin_user_not_found''"
| "admin_error_code e = ''admin_user_error''"

text \<open>Each route names the exceptions it handles; any other one is an internal error.\<close>

definition raise_admin_error :: "identity_error list \<Rightarrow> identity_error \<Rightarrow> http_error" where
  "raise_admin_error conflicts e =
     (if e = AdminUserNotFoundError then (404, ''user not found'')
      else if e = AdminUserForbiddenError then (403, admin_error_code e)
      else if e \<in> set conflicts then (409, admin_error_code e)
      else internal_error)"

definition access_conflicts :: "identity_error list" where
  "access_conflicts =
     [InvalidAccessTransitionError, OutstandingCustodyInvariantError, RecoveryAdminInvariantError]"

definition decision_conflicts :: "identity_error list" where
  "decision_conflicts =
     [InvalidAccessTransitionError, PendingAccessRequestNotFoundError, RecoveryAdminInvariantError]"

text \<open>The third exception that this route names is raised nowhere.\<close>

definition role_conflicts :: "identity_error list" where
  "role_conflicts = [OutstandingCustodyInvariantError, RecoveryAdminInvariantError]"

fun raise_reset_error :: "identity_error \<Rightarrow> http_error" where
  "raise_reset_error AdminUserNotFoundError = (404, ''admin_user_not_found'')"
| "raise_reset_error AdminUserForbiddenError = (403, ''admin_user_forbidden'')"
| "raise_reset_error RecoveryAdminInvariantError = (409, ''admin_user_recovery_invariant'')"
| "raise_reset_error OutstandingCustodyInvariantError = (409, ''admin_user_outstanding_custody'')"
| "raise_reset_error AccountResetActiveProcurementError = (409, ''admin_user_active_procurement'')"
| "raise_reset_error AccountResetIdentityMismatchError = (409, ''admin_user_reset_identity_mismatch'')"
| "raise_reset_error e = internal_error"

definition commit_users :: "db \<Rightarrow> db \<Rightarrow> 'a \<Rightarrow> http_error + 'a" where
  "commit_users d d' x = (if users_commit d d' then Inr x else Inl internal_error)"

section \<open>Users\<close>

record admin_user_view =
  av_user :: user
  av_identity :: telegram_identity
  av_is_recovery_identity :: bool

definition get_admin_user :: "db \<Rightarrow> uuid \<Rightarrow> (user \<times> telegram_identity) option" where
  "get_admin_user d user_id =
     Option.bind (get_user d user_id) (\<lambda>u. map_option (Pair u) (get_identity d user_id))"

definition user_out :: "int option \<Rightarrow> user \<times> telegram_identity \<Rightarrow> admin_user_view" where
  "user_out recovery v =
     (case v of (u, identity) \<Rightarrow>
        \<lparr> av_user = u, av_identity = identity,
          av_is_recovery_identity = (recovery = Some (ti_telegram_user_id identity)) \<rparr>)"

text \<open>A managed user that is not found ends in a plain \<open>RuntimeError\<close>.\<close>

definition managed_user :: "db \<Rightarrow> uuid \<Rightarrow> int option \<Rightarrow> http_error + admin_user_view" where
  "managed_user d user_id recovery =
     ebind (from_option internal_error (get_admin_user d user_id)) (\<lambda>v. Inr (user_out recovery v))"

definition telegram_user_id_candidate :: "string \<Rightarrow> int option" where
  "telegram_user_id_candidate v =
     (if v = [] \<or> \<not> list_all is_digit v then None
      else let candidate = int (digits_nat v)
        in if 0 < candidate \<and> candidate \<le> 9223372036854775807 then Some candidate else None)"

definition identity_found :: "string \<Rightarrow> telegram_identity \<Rightarrow> bool" where
  "identity_found v identity \<longleftrightarrow>
     (let pattern = escaped_contains_pattern v
      in (\<exists>s\<in>set_option (ti_username identity). sql_ilike pattern s) \<or>
         sql_ilike pattern (ti_first_name identity) \<or>
         (\<exists>s\<in>set_option (ti_last_name identity). sql_ilike pattern s) \<or>
         telegram_user_id_candidate v = Some (ti_telegram_user_id identity))"

definition search_filters ::
    "string option \<Rightarrow> user_role option \<Rightarrow> user_access_status option \<Rightarrow> user \<times> telegram_identity \<Rightarrow> bool" where
  "search_filters query role status v \<longleftrightarrow>
     (\<forall>x\<in>set_option role. u_role (fst v) = x) \<and>
     (\<forall>x\<in>set_option status. u_access_status (fst v) = x) \<and>
     (let s = py_strip (or_empty query) in s \<noteq> [] \<longrightarrow> identity_found s (snd v))"

definition list_admin_users ::
    "(uuid \<Rightarrow> timestamp) \<Rightarrow> db \<Rightarrow> string option \<Rightarrow> user_role option \<Rightarrow> user_access_status option \<Rightarrow> nat \<Rightarrow> nat
       \<Rightarrow> (user \<times> telegram_identity) list \<times> nat" where
  "list_admin_users created_at d query role status limit offset =
     (let rows = filter (search_filters query role status)
            (List.map_filter (\<lambda>u. map_option (Pair u) (get_identity d (u_id u))) (users d))
      in (page limit offset (order_by True (\<lambda>(u, t). created_at (u_id u)) (sort_key (\<lambda>(u, t). u_id u) rows)),
          length rows))"

definition get_users ::
    "(uuid \<Rightarrow> timestamp) \<Rightarrow> db \<Rightarrow> string option \<Rightarrow> user_role option \<Rightarrow> user_access_status option \<Rightarrow> nat \<Rightarrow> nat
       \<Rightarrow> int option \<Rightarrow> admin_user_view list \<times> nat" where
  "get_users created_at d query role status limit offset recovery =
     (let (rows, total) = list_admin_users created_at d query role status limit offset
      in (map (user_out recovery) rows, total))"

section \<open>Changes\<close>

definition patch_user ::
    "db \<Rightarrow> authenticated_context \<Rightarrow> uuid \<Rightarrow> user_access_status \<Rightarrow> int option \<Rightarrow> timestamp
       \<Rightarrow> admin_user_view response" where
  "patch_user d admin user_id status recovery now =
     transaction d
       (ebind (relabel (raise_admin_error access_conflicts)
          (update_user_access d (u_id (ctx_user admin)) user_id status recovery now)) (\<lambda>(d', _).
        commit_users d d' (d', ())))
       (\<lambda>d' _. managed_user d' user_id recovery)"

definition patch_user_role ::
    "db \<Rightarrow> authenticated_context \<Rightarrow> uuid \<Rightarrow> user_role \<Rightarrow> int option \<Rightarrow> timestamp \<Rightarrow> admin_user_view response" where
  "patch_user_role d admin user_id role recovery now =
     transaction d
       (ebind (relabel (raise_admin_error role_conflicts)
          (update_user_role d (u_id (ctx_user admin)) user_id role recovery now)) (\<lambda>(d', _).
        commit_users d d' (d', ())))
       (\<lambda>d' _. managed_user d' user_id recovery)"

text \<open>The decision is announced to the user in the same transaction.\<close>

definition post_access_request_decision ::
    "bot_env \<Rightarrow> bot_db \<Rightarrow> authenticated_context \<Rightarrow> uuid \<Rightarrow> bool \<Rightarrow> uuid \<Rightarrow> timestamp
       \<Rightarrow> bot_db \<times> (http_error + admin_user_view)" where
  "post_access_request_decision env st admin user_id approve new_id now =
     transaction st
       (ebind (relabel (raise_admin_error decision_conflicts)
          (decide_pending_access_request (core st) (u_id (ctx_user admin)) user_id
             (if approve then AR_APPROVED else AR_REJECTED) (be_admin_telegram_user_id env) now))
          (\<lambda>(d1, _, request, _).
        ebind (managed_user d1 user_id (be_admin_telegram_user_id env)) (\<lambda>view.
        ebind (relabel (\<lambda>_. internal_error) (enqueue_access_decision_user_notification env (st\<lparr>core := d1\<rparr>)
          new_id now (ar_id request) (av_identity view) (ar_status request))) (\<lambda>st'.
        commit_users (core st) (core st') (st', view)))))
       (\<lambda>st' view. Inr view)"

definition reset_admin_user_account ::
    "(string \<Rightarrow> string) \<Rightarrow> db \<Rightarrow> authenticated_context \<Rightarrow> uuid \<Rightarrow> int \<Rightarrow> int option \<Rightarrow> timestamp \<Rightarrow> unit response" where
  "reset_admin_user_account sha256 d admin user_id telegram_user_id recovery now =
     transaction d
       (ebind (relabel raise_reset_error
          (reset_user_account sha256 d (u_id (ctx_user admin)) user_id telegram_user_id recovery now)) (\<lambda>d'.
        commit_users d d' (d', ())))
       (\<lambda>d' u. Inr u)"

section \<open>Sign-in\<close>

record sign_in_env =
  sg_init :: init_env
  sg_sha256 :: "string \<Rightarrow> string"
  sg_telegram_bot_token :: "code_points option"
  sg_telegram_init_data_max_age_seconds :: int
  sg_auth_session_ttl_seconds :: int
  sg_recovery :: "int option"

text \<open>What a signed-in user is shown; the support contact is a setting.\<close>

record auth_state =
  st_user :: user
  st_identity :: telegram_identity
  st_capabilities :: "capability list"

definition state_response :: "user \<Rightarrow> telegram_identity \<Rightarrow> auth_state" where
  "state_response u identity =
     \<lparr> st_user = u, st_identity = identity, st_capabilities = serialized_capabilities (u_role u) \<rparr>"

fun raise_sign_in_error :: "identity_error \<Rightarrow> http_error" where
  "raise_sign_in_error RecoveryOwnerConflictError =
     (409, ''configured recovery identity conflicts with existing owner'')"
| "raise_sign_in_error e = internal_error"

fun raise_init_error :: "init_error \<Rightarrow> http_error" where
  "raise_init_error TelegramInitDataError = (401, ''invalid Telegram init data'')"
| "raise_init_error InitUnicodeEncodeError = internal_error"

definition get_me :: "authenticated_context \<Rightarrow> auth_state" where
  "get_me authenticated = state_response (ctx_user authenticated) (ctx_identity authenticated)"

definition logout :: "db \<Rightarrow> authenticated_context \<Rightarrow> timestamp \<Rightarrow> db" where
  "logout d authenticated now = revoke_auth_session d (ctx_session authenticated) now"

text \<open>One transaction brings the identity up to date and issues the session of the cookie.\<close>

definition authenticate_with_telegram ::
    "sign_in_env \<Rightarrow> db \<Rightarrow> uuid \<Rightarrow> uuid \<Rightarrow> string \<Rightarrow> code_points \<Rightarrow> timestamp
       \<Rightarrow> (auth_session \<times> auth_state) response" where
  "authenticate_with_telegram env d new_user_id session_id raw_token init_data now =
     transaction d
       (ebind (from_option (503, ''telegram authentication unavailable'') (sg_telegram_bot_token env)) (\<lambda>bot_token.
        ebind (relabel raise_init_error (validate_telegram_init_data (sg_init env) init_data bot_token
          (sg_telegram_init_data_max_age_seconds env) now)) (\<lambda>validated.
        ebind (relabel raise_sign_in_error
          (upsert_telegram_identity d new_user_id (vi_user validated) (sg_recovery env) now)) (\<lambda>(d1, user_id).
        ebind (relabel raise_sign_in_error (issue_auth_session (sg_sha256 env) d1 session_id user_id raw_token
          (sg_auth_session_ttl_seconds env) now)) (\<lambda>(d2, issued).
        commit_users d d2 (d2, (user_id, issued)))))))
       (\<lambda>d' (user_id, issued).
        ebind (from_option internal_error (get_admin_user d' user_id)) (\<lambda>(u, identity).
        Inr (issued, state_response u identity)))"

text \<open>The caller's own access request; \<open>request_access\<close> is with the bot.\<close>

definition get_my_access_request :: "db \<Rightarrow> authenticated_context \<Rightarrow> user_access_status \<times> access_request option" where
  "get_my_access_request d authenticated =
     (u_access_status (ctx_user authenticated), get_pending_access_request d (u_id (ctx_user authenticated)))"

end
