(* ===== verification/Account_Api_Proofs.thy ===== *)
theory Account_Api_Proofs
  imports Account_Api Telegram_Safety Identity_Steps Procurement_Samples
begin

text \<open>
  What an administrator's request leaves behind and answers, for every operation of the service,
  with the two cases that no handler of an exception covers.
\<close>

section \<open>Requests\<close>

datatype admin_write =
  Patch_Access user_access_status
| Patch_Role user_role
| Decide bool
| Reset int

definition on_core :: "bot_db \<Rightarrow> ('a \<Rightarrow> 'b) \<Rightarrow> db \<times> (http_error + 'a) \<Rightarrow> bot_db \<times> (http_error + 'b)" where
  "on_core st f p = (st\<lparr>core := fst p\<rparr>, map_sum id f (snd p))"

fun admin_request ::
    "bot_env \<Rightarrow> bot_db \<Rightarrow> authenticated_context \<Rightarrow> uuid \<Rightarrow> uuid \<Rightarrow> timestamp \<Rightarrow> admin_write
       \<Rightarrow> bot_db \<times> (http_error + admin_user_view option)" where
  "admin_request env st admin target new_id now (Patch_Access status) =
     on_core st Some (patch_user (core st) admin target status (be_admin_telegram_user_id env) now)"
| "admin_request env st admin target new_id now (Patch_Role role) =
     on_core st Some (patch_user_role (core st) admin target role (be_admin_telegram_user_id env) now)"
| "admin_request env st admin target new_id now (Decide approve) =
     map_prod id (map_sum id Some) (post_access_request_decision env st admin target approve new_id now)"
| "admin_request env st admin target new_id now (Reset telegram_user_id) =
     on_core st (\<lambda>_. None) (reset_admin_user_account (be_sha256 env) (core st) admin target telegram_user_id
       (be_admin_telegram_user_id env) now)"

text \<open>The operation of the service behind a request.\<close>

fun admin_operation :: "bot_env \<Rightarrow> db \<Rightarrow> uuid \<Rightarrow> uuid \<Rightarrow> timestamp \<Rightarrow> admin_write \<Rightarrow> identity_error + db" where
  "admin_operation env d actor target now (Patch_Access status) =
     map_sum id fst (update_user_access d actor target status (be_admin_telegram_user_id env) now)"
| "admin_operation env d actor target now (Patch_Role role) =
     map_sum id fst (update_user_role d actor target role (be_admin_telegram_user_id env) now)"
| "admin_operation env d actor target now (Decide approve) =
     map_sum id fst (decide_pending_access_request d actor target (if approve then AR_APPROVED else AR_REJECTED)
       (be_admin_telegram_user_id env) now)"
| "admin_operation env d actor target now (Reset telegram_user_id) =
     reset_user_account (be_sha256 env) d actor target telegram_user_id (be_admin_telegram_user_id env) now"

definition error_status :: "identity_error \<Rightarrow> nat" where
  "error_status e =
     (if e = AdminUserNotFoundError then 404
      else if e = AdminUserForbiddenError then 403
      else if e = ActiveProcurementResponsibilityInvariantError then 500
      else 409)"

fun is_reset :: "admin_write \<Rightarrow> bool" where
  "is_reset (Reset t) = True"
| "is_reset w = False"

fun is_decision :: "admin_write \<Rightarrow> bool" where
  "is_decision (Decide b) = True"
| "is_decision w = False"

section \<open>Refusals\<close>

lemma map_sum_fst_iff [simp]:
  "map_sum id fst m = Inl e \<longleftrightarrow> m = Inl e" "map_sum id fst m = Inr d \<longleftrightarrow> (\<exists>x. m = Inr (d, x))"
  by (cases m; auto)+

lemma lock_refusals:
  "lock_actor_and_target d actor target = Inl e \<Longrightarrow> e = AdminUserNotFoundError \<or> e = AdminUserForbiddenError"
  by (auto simp: lock_actor_and_target_def split: option.splits if_splits)

lemma access_refusals:
  "update_user_access d actor target status recovery now = Inl e \<Longrightarrow>
     e \<in> {AdminUserNotFoundError, AdminUserForbiddenError, ActiveProcurementResponsibilityInvariantError} \<or>
     e \<in> set access_conflicts"
  by (auto simp: update_user_access_def ebind_Inl_iff Let_def access_conflicts_def transition_user_access_def
      dest: lock_refusals split: if_splits)

lemma role_refusals:
  "update_user_role d actor target role recovery now = Inl e \<Longrightarrow>
     e \<in> {AdminUserNotFoundError, AdminUserForbiddenError, ActiveProcurementResponsibilityInvariantError} \<or>
     e \<in> set role_conflicts"
  by (auto simp: update_user_role_def ebind_Inl_iff Let_def role_conflicts_def change_role_def
      dest: lock_refusals split: if_splits)

lemma decision_refusals:
  "decide_pending_access_request d actor target (if approve then AR_APPROVED else AR_REJECTED) recovery now = Inl e \<Longrightarrow>
     e \<in> {AdminUserNotFoundError, AdminUserForbiddenError} \<or> e \<in> set decision_conflicts"
  by (auto simp: decide_pending_access_request_def ebind_Inl_iff Let_def decision_conflicts_def
      transition_user_access_def dest: lock_refusals split: if_splits option.splits)

lemma reset_refusals:
  "reset_user_account sha256 d actor target expected recovery now = Inl e \<Longrightarrow>
     e \<in> {AdminUserNotFoundError, AdminUserForbiddenError, RecoveryAdminInvariantError,
       OutstandingCustodyInvariantError, AccountResetActiveProcurementError, AccountResetIdentityMismatchError}"
  by (auto simp: reset_user_account_def ebind_Inl_iff Let_def dest: lock_refusals
      split: if_splits option.splits prod.splits)

lemmas conflict_lists = access_conflicts_def role_conflicts_def decision_conflicts_def

lemma refused_request:
  assumes "admin_operation env (core st) (u_id (ctx_user admin)) target now w = Inl e"
  shows "\<exists>detail. admin_request env st admin target new_id now w = (st, Inl (error_status e, detail))"
  using assms
proof (cases w)
  case (Patch_Access status)
  with assms have "update_user_access (core st) (u_id (ctx_user admin)) target status
      (be_admin_telegram_user_id env) now = Inl e" by simp
  with access_refusals [OF this] show ?thesis
    by (auto simp: Patch_Access patch_user_def transaction_def on_core_def raise_admin_error_def
        error_status_def access_conflicts_def internal_error_def)
next
  case (Patch_Role role)
  with assms have "update_user_role (core st) (u_id (ctx_user admin)) target role
      (be_admin_telegram_user_id env) now = Inl e" by simp
  with role_refusals [OF this] show ?thesis
    by (auto simp: Patch_Role patch_user_role_def transaction_def on_core_def raise_admin_error_def
        error_status_def role_conflicts_def internal_error_def)
next
  case (Decide approve)
  with assms have "decide_pending_access_request (core st) (u_id (ctx_user admin)) target
      (if approve then AR_APPROVED else AR_REJECTED) (be_admin_telegram_user_id env) now = Inl e" by simp
  with decision_refusals [OF this] show ?thesis
    by (auto simp: Decide post_access_request_decision_def transaction_def raise_admin_error_def
        error_status_def decision_conflicts_def internal_error_def)
next
  case (Reset expected)
  with assms have "reset_user_account (be_sha256 env) (core st) (u_id (ctx_user admin)) target expected
      (be_admin_telegram_user_id env) now = Inl e" by simp
  with reset_refusals [OF this] show ?thesis
    by (auto simp: Reset reset_admin_user_account_def transaction_def on_core_def error_status_def)
qed

section \<open>Accepted changes\<close>

lemma operation_step:
  "admin_operation env d actor target now w = Inr d' \<Longrightarrow> admin_step (be_sha256 env) actor target d d'"
  by (cases w) (auto intro: admin_step.intros)

lemma operation_target:
  assumes "admin_operation env d actor target now w = Inr d'"
  shows "get_user d target \<noteq> None"
proof -
  have "\<exists>a t. lock_actor_and_target d actor target = Inr (a, t)"
    using assms
    by (cases w) (auto simp: update_user_access_def update_user_role_def decide_pending_access_request_def
        reset_user_account_def ebind_Inr_iff split: if_splits option.splits)
  then show ?thesis using lock_actor_and_target_Inr(2) by fastforce
qed

lemma operation_shows:
  assumes "admin_operation env d actor target now w = Inr d'"
  shows "\<exists>u. get_user d' target = Some u"
proof -
  have "target \<in> u_id ` set (users d)" using operation_target [OF assms] get_user_member by fastforce
  then have "target \<in> u_id ` set (users d')" using admin_step_user_ids [OF operation_step [OF assms]] by simp
  then show ?thesis unfolding get_user_def by (rule table_get_exists)
qed

lemma operation_frame:
  assumes "admin_operation env d actor target now w = Inr d'" and "\<not> is_reset w"
  shows "telegram_identities d' = telegram_identities d \<and> notification_outboxes d' = notification_outboxes d"
  using assms
  by (cases w) (auto simp: update_user_access_def update_user_role_def decide_pending_access_request_def
      ebind_Inr_iff transition_user_access_def revoke_sessions_def save_user_def save_access_request_def
      change_role_def Let_def split: if_splits option.splits)

lemma reset_had_identity:
  "admin_operation env d actor target now (Reset t) = Inr d' \<Longrightarrow> get_identity d target \<noteq> None"
  by (auto simp: reset_user_account_def split: option.splits)

lemma announcement_accepted:
  assumes "length (be_sha256 env (py_join ''|'' [''access-request'', uuid_str r, ''user-decision''])) = 64"
    and "new_id \<notin> no_id ` set (notification_outboxes (core st))"
  shows "\<exists>st'. enqueue_access_decision_user_notification env st new_id now r t status = Inr st'"
proof -
  have "notification_dedupe_key (be_sha256 env) [''access-request'', uuid_str r, ''user-decision''] \<noteq> []"
    "length (notification_dedupe_key (be_sha256 env) [''access-request'', uuid_str r, ''user-decision'']) = 64"
    using assms(1) by (auto simp: notification_dedupe_key_def)
  then show ?thesis
    using assms(2)
    by (auto simp: enqueue_access_decision_user_notification_def bot_enqueue_def enqueue_telegram_call_def
        ALLOWED_TELEGRAM_METHODS_def Let_def split: if_splits)
qed

lemma managed_user_row:
  assumes "get_user d i = Some u"
  shows "managed_user d i recovery =
    (case get_identity d i of None \<Rightarrow> Inl internal_error | Some t \<Rightarrow> Inr (user_out recovery (u, t)))"
  using assms by (simp add: managed_user_def get_admin_user_def split: option.splits)

lemma committed_request:
  assumes run: "admin_operation env (core st) (u_id (ctx_user admin)) target now w = Inr d'"
    and commits: "users_commit (core st) d'" and kind: "\<not> is_decision w"
  shows "admin_request env st admin target new_id now w = (st\<lparr>core := d'\<rparr>,
    if is_reset w then Inr None
    else map_sum id Some (managed_user d' target (be_admin_telegram_user_id env)))"
proof (cases w)
  case (Patch_Access status)
  with run commits show ?thesis
    by (auto simp: patch_user_def transaction_def on_core_def commit_users_def)
next
  case (Patch_Role role)
  with run commits show ?thesis
    by (auto simp: patch_user_role_def transaction_def on_core_def commit_users_def)
next
  case (Decide approve)
  with kind show ?thesis by simp
next
  case (Reset expected)
  with run commits show ?thesis
    by (simp add: reset_admin_user_account_def transaction_def on_core_def commit_users_def)
qed

lemma decision_request:
  assumes run: "admin_operation env (core st) (u_id (ctx_user admin)) target now (Decide approve) = Inr d'"
    and commits: "users_commit (core st) d'" and row: "get_user d' target = Some u"
    and key: "\<And>x. length (be_sha256 env x) = 64"
    and fresh: "new_id \<notin> no_id ` set (notification_outboxes (core st))"
  shows "case get_identity d' target of
      None \<Rightarrow> admin_request env st admin target new_id now (Decide approve) = (st, Inl internal_error)
    | Some t \<Rightarrow> \<exists>st'. announces (st\<lparr>core := d'\<rparr>) st' \<and>
        admin_request env st admin target new_id now (Decide approve) =
          (st', Inr (Some (user_out (be_admin_telegram_user_id env) (u, t))))"
proof -
  obtain x r e where decide: "decide_pending_access_request (core st) (u_id (ctx_user admin)) target
      (if approve then AR_APPROVED else AR_REJECTED) (be_admin_telegram_user_id env) now = Inr (d', x, r, e)"
    using run by (auto split: if_splits)
  show ?thesis
  proof (cases "get_identity d' target")
    case None
    then show ?thesis
      using decide row by (simp add: post_access_request_decision_def transaction_def managed_user_row)
  next
    case (Some t)
    have "new_id \<notin> no_id ` set (notification_outboxes (core (st\<lparr>core := d'\<rparr>)))"
      using operation_frame [OF run] fresh by simp
    from announcement_accepted [OF key this, where r = "ar_id r" and now = now and t = t and status = "ar_status r"]
    obtain st' where told: "enqueue_access_decision_user_notification env (st\<lparr>core := d'\<rparr>) new_id now
        (ar_id r) t (ar_status r) = Inr st'" by blast
    note frame = enqueue_frames(3) [OF told]
    have outbox: "core st' = d'\<lparr>notification_outboxes := notification_outboxes (core st')\<rparr>"
      using frame by (simp add: announces_def same_but_outbox_def)
    have "users_commit (core st) (core st')"
      by (rule users_commit_cong [OF commits]) (subst outbox, simp)+
    then show ?thesis
      using decide row Some told frame
      by (auto simp: post_access_request_decision_def transaction_def managed_user_row commit_users_def
          user_out_def)
  qed
qed

text \<open>
  C21. What a request of an administrator (patch of the access or the role, decision on an access
  request, account reset) leaves behind and answers. When the service refuses the change the
  database stays as it was, and the answer is 404, 403 or 409 for every refusal but one: a change
  that an active procurement responsibility forbids ends in an internal error, since the routes do
  not name that exception. When the service accepts it and the user has a Telegram account, the
  change is committed, the answer shows the user's new row, and only a decision adds anything, an
  entry of the outbox. A user whose account was reset has none: a patch of that user is an internal
  error although the change is committed, while a decision on it is rolled back.
\<close>

theorem admin_request_outcome:
  assumes inv: "identity_inv (core st)" and key: "\<And>x. length (be_sha256 env x) = 64"
    and fresh: "new_id \<notin> no_id ` set (notification_outboxes (core st))"
  shows "case admin_operation env (core st) (u_id (ctx_user admin)) target now w of
      Inl e \<Rightarrow> \<exists>detail. admin_request env st admin target new_id now w = (st, Inl (error_status e, detail))
    | Inr d' \<Rightarrow> identity_inv d' \<and> (case get_identity (core st) target of
          None \<Rightarrow> admin_request env st admin target new_id now w =
            (if is_decision w then st else st\<lparr>core := d'\<rparr>, Inl internal_error)
        | Some t \<Rightarrow> \<exists>st' u. get_user d' target = Some u \<and>
            (if is_decision w then announces (st\<lparr>core := d'\<rparr>) st' else st' = st\<lparr>core := d'\<rparr>) \<and>
            admin_request env st admin target new_id now w =
              (st', Inr (if is_reset w then None else Some (user_out (be_admin_telegram_user_id env) (u, t)))))"
proof (cases "admin_operation env (core st) (u_id (ctx_user admin)) target now w")
  case (Inl e)
  then show ?thesis by (simp add: refused_request)
next
  case (Inr d')
  note keeps = admin_step_keeps [OF operation_step [OF Inr] inv]
  obtain u where u: "get_user d' target = Some u" using operation_shows [OF Inr] by blast
  have same: "get_identity d' target = get_identity (core st) target" if "\<not> is_reset w"
    using operation_frame [OF Inr that] by (simp add: get_identity_def)
  show ?thesis
  proof (cases "is_decision w")
    case True
    then obtain approve where w: "w = Decide approve" by (cases w) auto
    show ?thesis
      using decision_request [OF Inr [unfolded w] keeps(2) u key fresh] keeps(1) u same Inr
      by (auto simp: w split: option.splits)
  next
    case False
    have "get_identity (core st) target \<noteq> None" if "is_reset w"
      using that Inr reset_had_identity by (cases w) auto
    then show ?thesis
      using committed_request [OF Inr keeps(2) False, of new_id] keeps(1) u same Inr False
      by (auto simp: managed_user_row split: option.splits)
  qed
qed

section \<open>Concrete runs\<close>

definition sample_office :: "db \<Rightarrow> bot_db" where
  "sample_office d = \<lparr> core = d, telegram_updates = [], telegram_chat_states = [], access_decision_callbacks = [] \<rparr>"

definition sample_admin_context :: "user_role \<Rightarrow> authenticated_context" where
  "sample_admin_context role = \<lparr> ctx_session = \<lparr> as_id = 61, as_user_id = 2, as_token_hash = ''k'',
       as_created_at = 1, as_expires_at = 100, as_revoked_at = None \<rparr>,
     ctx_user = sample_user 2 role APPROVED, ctx_identity = sample_identity 2 22 \<rparr>"

theorem admin_request_outcome_witness:
  "\<exists>st v. admin_request sample_bot_env (sample_office sample_people) (sample_admin_context ADMIN) 3 70 9
      (Patch_Access BLOCKED) = (st, Inr (Some v)) \<and>
     core st = sample_blocking \<and> u_access_status (av_user v) = BLOCKED"
proof -
  obtain x e where run: "update_user_access sample_people 2 3 BLOCKED None 9 = Inr (sample_blocking, x, e)"
    and row: "map_option u_access_status (get_user sample_blocking 3) = Some BLOCKED"
    using sample_block_run by blast
  have inv: "identity_inv (core (sample_office sample_people))" by (simp add: sample_office_def sample_people_inv)
  have key: "length (be_sha256 sample_bot_env x) = 64" for x by (simp add: sample_bot_env_def sample_digest_def)
  have fresh: "70 \<notin> no_id ` set (notification_outboxes (core (sample_office sample_people)))"
    by (simp add: sample_office_def sample_people_def sample_db_def)
  have op: "admin_operation sample_bot_env (core (sample_office sample_people))
      (u_id (ctx_user (sample_admin_context ADMIN))) 3 9 (Patch_Access BLOCKED) = Inr sample_blocking"
    by (simp add: sample_office_def sample_admin_context_def sample_user_def sample_bot_env_def run)
  have id: "get_identity (core (sample_office sample_people)) 3 = Some (sample_identity 3 33)"
    by (simp add: sample_office_def sample_people_def get_identity_def sample_identity_def)
  from admin_request_outcome [OF inv key fresh, of "sample_admin_context ADMIN" 3 9 "Patch_Access BLOCKED",
      unfolded op id sum.case option.case is_decision.simps is_reset.simps if_False]
  obtain u where u: "get_user sample_blocking 3 = Some u"
    "admin_request sample_bot_env (sample_office sample_people) (sample_admin_context ADMIN) 3 70 9
      (Patch_Access BLOCKED) = (sample_office sample_people\<lparr>core := sample_blocking\<rparr>,
        Inr (Some (user_out (be_admin_telegram_user_id sample_bot_env) (u, sample_identity 3 33))))" by blast
  from row u(1) have "u_access_status u = BLOCKED" by simp
  with u(2) show ?thesis by (simp del: admin_request.simps add: user_out_def)
qed

text \<open>
  The two uncovered cases on concrete accounts. An owner blocks an administrator who has an open
  procurement agreement; an administrator approves a user whose account was reset.
\<close>

lemma blocked_initiator_is_internal_error:
  "snd (patch_user (sample_people\<lparr>users := [sample_user 2 OWNER APPROVED, sample_user 4 ADMIN APPROVED],
       procurement_requests := [sample_request\<lparr>pr_status := AGREEMENT_PENDING_MANAGER\<rparr>]\<rparr>)
     (sample_admin_context OWNER) 4 BLOCKED None 9) = Inl (500, ''internal server error'')"
  by (simp add: patch_user_def update_user_access_def lock_actor_and_target_def get_user_def sample_request_def
      sample_people_def sample_user_def sample_admin_context_def has_custody_def is_recovery_identity_def
      sample_db_def has_active_procurement_create_responsibility_def transaction_def raise_admin_error_def
      access_conflicts_def internal_error_def Let_def)

lemma reset_account_is_approved_again:
  "\<exists>d d'. reset_user_account sample_digest sample_people 2 3 33 None 9 = Inr d \<and>
     patch_user d (sample_admin_context ADMIN) 3 APPROVED None 10 = (d', Inl internal_error) \<and>
     map_option u_access_status (get_user d 3) = Some BLOCKED \<and>
     map_option u_access_status (get_user d' 3) = Some APPROVED"
  by (simp add: patch_user_def reset_user_account_def update_user_access_def lock_actor_and_target_def get_user_def
      get_identity_def sample_people_def sample_identity_def sample_db_def sample_user_def sample_admin_context_def
      has_custody_def is_recovery_identity_def transition_user_access_def save_user_def table_update_def
      revoke_sessions_def revoke_session_def drop_pending_requests_def change_role_def transaction_def
      managed_user_def get_admin_user_def commit_users_def users_commit_def
      enforce_user_access_audit_coupling_def enforce_user_role_audit_coupling_def
      enforce_user_custody_eligibility_def Let_def)

end
