(* ===== verification/Workbook.thy ===== *)
theory Workbook
  imports Reach Pynumber Catalog "HOL-Library.Product_Lexorder"
begin

text \<open>
  The spreadsheet of the first inventory load (\<open>bootstrap/inventory_workbook.py\<close>): the OOXML
  archive is read with limits on its parts, every row becomes a piece of equipment with an identity
  signature, and rows with the same signature are added up. The archive and the XML parser of the
  standard library are arguments, an XML document is the tree the parser returns. Errors of a row
  are collected; any other exception ends the reading with the rows read so far.
\<close>

section \<open>Worksheets\<close>

definition sheet_transceivers :: string where
  "sheet_transceivers = points_text
     [83, 70, 80, 32, 1084, 1086, 1076, 1091, 1083, 1080]"

definition sheet_controllers :: string where
  "sheet_controllers = points_text
     [1050, 1086, 1085, 1090, 1088, 1086, 1083, 1083, 1077, 1088, 1099, 32, 1080, 32, 80,
      67, 73, 101, 45, 1072, 1076, 1072, 1087, 1090, 1077, 1088, 1099]"

definition sheet_network :: string where
  "sheet_network = points_text
     [1057, 1077, 1090, 1077, 1074, 1099, 1077, 32, 1082, 1072, 1088, 1090, 1099]"

definition sheet_drives :: string where
  "sheet_drives = points_text
     [83, 83, 68, 32, 32, 1053, 1072, 1082, 1086, 1087, 1080, 1090, 1077, 1083, 1080]"

definition sheet_optical_cords :: string where
  "sheet_optical_cords = points_text
     [1054, 1087, 1090, 1080, 1095, 1077, 1089, 1082, 1080, 1077, 32, 1087, 1072, 1090,
      1095, 45, 1082, 1086, 1088, 1076, 1099]"

definition sheet_memory :: string where
  "sheet_memory = points_text
     [1054, 1087, 1077, 1088, 1072, 1090, 1080, 1074, 1085, 1072, 1103, 32, 1087, 1072,
      1084, 1103, 1090, 1100, 32, 40, 82, 65, 77, 41]"

definition sheet_power_cables :: string where
  "sheet_power_cables = points_text
     [1050, 1072, 1073, 1077, 1083, 1080, 32, 1087, 1080, 1090, 1072, 1085, 1080, 1103]"

definition sheet_splitters :: string where
  "sheet_splitters = points_text
     [1054, 1087, 1090, 1080, 1095, 1077, 1089, 1082, 1080, 1077, 32, 1089, 1087, 1083,
      1080, 1090, 1090, 1077, 1088, 1099, 32, 32, 1076, 1077, 1083, 1080, 1090, 1077, 1083,
      1080]"

definition sheet_ethernet_cords :: string where
  "sheet_ethernet_cords = points_text
     [69, 116, 104, 101, 114, 110, 101, 116, 32, 1087, 1072, 1090, 1095, 45, 1082, 1086,
      1088, 1076, 1099]"


text \<open>Column headers.\<close>

definition h_manufacturer :: string where
  "h_manufacturer = points_text
     [1055, 1088, 1086, 1080, 1079, 1074, 1086, 1076, 1080, 1090, 1077, 1083, 1100]"

definition h_model :: string where
  "h_model = points_text
     [1052, 1086, 1076, 1077, 1083, 1100]"

definition h_speed :: string where
  "h_speed = points_text
     [1057, 1082, 1086, 1088, 1086, 1089, 1090, 1100]"

definition h_wavelength :: string where
  "h_wavelength = points_text
     [1044, 1083, 1080, 1085, 1072, 32, 1074, 1086, 1083, 1085, 1099]"

definition h_reach :: string where
  "h_reach = points_text
     [1044, 1072, 1083, 1100, 1085, 1086, 1089, 1090, 1100]"

definition h_form_factor :: string where
  "h_form_factor = points_text
     [1060, 1086, 1088, 1084, 45, 1092, 1072, 1082, 1090, 1086, 1088]"

definition h_fiber :: string where
  "h_fiber = points_text
     [1042, 1086, 1083, 1086, 1082, 1085, 1086]"

definition h_connector :: string where
  "h_connector = points_text
     [1056, 1072, 1079, 1098, 1105, 1084]"

definition h_quantity :: string where
  "h_quantity = points_text
     [1050, 1086, 1083, 1080, 1095, 1077, 1089, 1090, 1074, 1086]"

definition h_interface :: string where
  "h_interface = points_text
     [1048, 1085, 1090, 1077, 1088, 1092, 1077, 1081, 1089]"

definition h_ports :: string where
  "h_ports = points_text
     [1055, 1086, 1088, 1090, 1099]"

definition h_purpose :: string where
  "h_purpose = points_text
     [1053, 1072, 1079, 1085, 1072, 1095, 1077, 1085, 1080, 1077]"

definition h_features :: string where
  "h_features = points_text
     [1054, 1089, 1086, 1073, 1077, 1085, 1085, 1086, 1089, 1090, 1080]"

definition h_port_type :: string where
  "h_port_type = points_text
     [1058, 1080, 1087, 32, 1087, 1086, 1088, 1090, 1086, 1074]"

definition h_capacity :: string where
  "h_capacity = points_text
     [1054, 1073, 1098, 1105, 1084]"

definition h_interface_speed :: string where
  "h_interface_speed = points_text
     [1057, 1082, 1086, 1088, 1086, 1089, 1090, 1100, 32, 1080, 1085, 1090, 1077, 1088,
      1092, 1077, 1081, 1089, 1072]"

definition h_rotation :: string where
  "h_rotation = points_text
     [1057, 1082, 1086, 1088, 1086, 1089, 1090, 1100, 32, 1074, 1088, 1072, 1097, 1077,
      1085, 1080, 1103]"

definition h_kind :: string where
  "h_kind = points_text
     [1058, 1080, 1087]"

definition h_fiber_type :: string where
  "h_fiber_type = points_text
     [1058, 1080, 1087, 32, 1074, 1086, 1083, 1086, 1082, 1085, 1072]"

definition h_category :: string where
  "h_category = points_text
     [1050, 1072, 1090, 1077, 1075, 1086, 1088, 1080, 1103]"

definition h_connector_a :: string where
  "h_connector_a = points_text
     [1056, 1072, 1079, 1098, 1105, 1084, 32, 65]"

definition h_connector_b :: string where
  "h_connector_b = points_text
     [1056, 1072, 1079, 1098, 1105, 1084, 32, 66]"

definition h_cable_length :: string where
  "h_cable_length = points_text
     [1044, 1083, 1080, 1085, 1072]"

definition h_construction :: string where
  "h_construction = points_text
     [1048, 1089, 1087, 1086, 1083, 1085, 1077, 1085, 1080, 1077]"

definition h_color :: string where
  "h_color = points_text
     [1062, 1074, 1077, 1090]"

definition h_organisation :: string where
  "h_organisation = points_text
     [1054, 1088, 1075, 1072, 1085, 1080, 1079, 1072, 1094, 1080, 1103]"

definition h_rating :: string where
  "h_rating = points_text
     [1053, 1086, 1084, 1080, 1085, 1072, 1083]"

definition h_configuration :: string where
  "h_configuration = points_text
     [1050, 1086, 1085, 1092, 1080, 1075, 1091, 1088, 1072, 1094, 1080, 1103]"

definition h_wavelengths :: string where
  "h_wavelengths = points_text
     [1056, 1072, 1073, 1086, 1095, 1080, 1077, 32, 1076, 1083, 1080, 1085, 1099, 32, 1074,
      1086, 1083, 1085]"

definition h_connectors :: string where
  "h_connectors = points_text
     [1056, 1072, 1079, 1098, 1105, 1084, 1099]"

definition h_split_ratio :: string where
  "h_split_ratio = points_text
     [1044, 1077, 1083, 1077, 1085, 1080, 1077]"

definition h_shielding :: string where
  "h_shielding = points_text
     [1069, 1082, 1088, 1072, 1085, 1080, 1088, 1086, 1074, 1072, 1085, 1080, 1077]"


text \<open>Units, the two answers of a yes-or-no column, and texts of the import.\<close>

definition gigabits_unit :: string where
  "gigabits_unit = points_text
     [1043, 1073, 1080, 1090, 47, 1089]"

definition megabits_unit :: string where
  "megabits_unit = points_text
     [1052, 1073, 1080, 1090, 47, 1089]"

definition gigabytes_unit :: string where
  "gigabytes_unit = points_text
     [1043, 1041]"

definition terabytes_unit :: string where
  "terabytes_unit = points_text
     [1058, 1041]"

definition metre_unit :: string where
  "metre_unit = points_text
     [1084]"

definition word_yes :: string where
  "word_yes = points_text
     [1044, 1072]"

definition word_no :: string where
  "word_no = points_text
     [1053, 1077, 1090]"

definition importer_name :: string where
  "importer_name = points_text
     [1040, 1076, 1084, 1080, 1085, 1080, 1089, 1090, 1088, 1072, 1090, 1086, 1088, 32,
      183, 32, 1080, 1084, 1087, 1086, 1088, 1090, 32, 105, 110, 118, 101, 110, 116, 111,
      114, 121, 46, 120, 108, 115, 120]"

definition name_separator :: string where
  "name_separator = points_text
     [32, 183, 32]"

definition name_metres :: string where
  "name_metres = points_text
     [32, 1084]"


definition SHEETS :: "(string \<times> string list) list" where
  "SHEETS =
     [(sheet_transceivers,
        [h_manufacturer, h_model, h_speed, h_wavelength, h_reach, h_form_factor, h_fiber, h_connector, h_quantity]),
      (sheet_controllers,
        [h_manufacturer, h_model, h_interface, h_ports, h_purpose, h_features, h_quantity]),
      (sheet_network,
        [h_manufacturer, h_model, h_interface, h_ports, h_speed, h_port_type, h_purpose, h_quantity]),
      (sheet_drives,
        [h_manufacturer, h_model, h_form_factor, h_interface, h_capacity, h_interface_speed, h_rotation, h_kind,
         h_quantity]),
      (sheet_optical_cords,
        [h_fiber_type, h_category, h_connector_a, h_connector_b, h_cable_length, h_construction, h_quantity, h_color]),
      (sheet_memory,
        [h_manufacturer, h_model, h_capacity, h_kind, h_speed, h_organisation, ''ECC'', h_quantity]),
      (sheet_power_cables,
        [h_kind, h_connector_a, h_connector_b, h_cable_length, h_rating, h_color, h_quantity]),
      (sheet_splitters,
        [h_kind, h_configuration, h_fiber, h_wavelengths, h_connectors, h_split_ratio, h_construction, h_quantity]),
      (sheet_ethernet_cords,
        [h_category, h_connector_a, h_connector_b, h_cable_length, h_shielding, h_color, h_quantity])]"

section \<open>Equipment\<close>

record equipment =
  eq_category :: string
  eq_manufacturer :: "string option"
  eq_model :: "string option"
  eq_attributes :: "(string \<times> attribute_value) list"
  eq_quantity :: int
  eq_signature :: string
  eq_sources :: "string list"

text \<open>The name of a piece of equipment: its model, or the attributes that tell it apart.\<close>

definition name_keys :: "string \<Rightarrow> string list" where
  "name_keys category =
     (if category = ''optical_patch_cord''
      then [''fiber_category'', ''connector_a'', ''connector_b'', ''length_m'', ''construction'', ''color'']
      else if category = ''power_cable''
      then [''type'', ''connector_a'', ''connector_b'', ''length_m'', ''color'']
      else if category = ''ethernet_patch_cord''
      then [''cable_category'', ''connector_a'', ''connector_b'', ''length_m'', ''shielding'', ''color'']
      else [''type'', ''configuration'', ''connector'', ''split_ratio''])"

definition equipment_name :: "equipment \<Rightarrow> string" where
  "equipment_name e =
     (let model = or_empty (eq_model e); manufacturer = or_empty (eq_manufacturer e)
      in if model \<noteq> [] then (if manufacturer \<noteq> [] then manufacturer @ '' '' @ model else model)
         else py_join name_separator
           (map (\<lambda>(k, v). raw_str (value_raw v) @ (if k = ''length_m'' then name_metres else []))
             (List.map_filter (\<lambda>k. map_option (Pair k) (map_of (eq_attributes e) k)) (name_keys (eq_category e)))))"

section \<open>Numbers\<close>

datatype row_error = Row_Value_Error | Row_Key_Error

definition whole_value :: "decimal \<Rightarrow> int option" where
  "whole_value v =
     (let c = (if dec_neg v then - 1 else 1) * int (dec_coeff v); e = dec_exp v
      in if e \<ge> 0 then Some (c * 10 ^ nat e)
         else if c mod 10 ^ nat (- e) = 0 then Some (c div 10 ^ nat (- e)) else None)"

definition bounded_integer :: "int \<Rightarrow> string \<Rightarrow> row_error + int" where
  "bounded_integer lower_bound v =
     (case Option.bind (parse_decimal v) whole_value of
        None \<Rightarrow> Inl Row_Value_Error
      | Some n \<Rightarrow> if lower_bound \<le> n \<and> n \<le> 2 ^ 53 - 1 then Inr n else Inl Row_Value_Error)"

definition positive_integer :: "string \<Rightarrow> row_error + int" where
  "positive_integer v = bounded_integer 1 v"

definition quantity_integer :: "string \<Rightarrow> bool \<Rightarrow> row_error + int" where
  "quantity_integer v allow_zero = bounded_integer (if allow_zero then 0 else 1) v"

section \<open>Patterns\<close>

text \<open>\<^verbatim>\<open>\d+(?:[.,]\d+)?\<close>, with what follows it.\<close>

definition number_prefix :: "string \<Rightarrow> (string \<times> string) option" where
  "number_prefix s =
     (let whole = takeWhile is_digit s; rest = dropWhile is_digit s
      in if whole = [] then None
         else case rest of
             [] \<Rightarrow> Some (whole, [])
           | c # r \<Rightarrow>
               if (c = CHR ''.'' \<or> c = CHR '','') \<and> takeWhile is_digit r \<noteq> []
               then Some (whole @ c # takeWhile is_digit r, dropWhile is_digit r)
               else Some (whole, rest))"

text \<open>A number, whitespace and one of the units; the number.\<close>

definition match_measure :: "string list \<Rightarrow> string \<Rightarrow> string option" where
  "match_measure units s =
     (case number_prefix s of
        None \<Rightarrow> None
      | Some (number, rest) \<Rightarrow> if dropWhile is_space rest \<in> set units then Some number else None)"

definition match_speed :: "string \<Rightarrow> bool" where
  "match_speed s \<longleftrightarrow>
     (let number_char = (\<lambda>c. is_digit c \<or> c \<in> set '',./'')
      in takeWhile number_char s \<noteq> [] \<and>
         dropWhile is_space (dropWhile number_char s) \<in> {gigabits_unit, megabits_unit, ''G FC''})"

definition match_form_factor :: "string \<Rightarrow> bool" where
  "match_form_factor s \<longleftrightarrow>
     take 3 s \<in> {''2.5'', ''2,5'', ''3.5'', ''3,5''} \<and>
       dropWhile is_space (drop 3 s) \<in> {[], points_text [8243], [char_of (34 :: nat)]} \<or>
     s \<in> {''M.2'', ''U.2'', ''U.3''}"

definition rotation_char :: "char \<Rightarrow> bool" where
  "rotation_char c \<longleftrightarrow> is_digit c \<or> c = CHR '' ''"

definition match_rotation :: "string \<Rightarrow> bool" where
  "match_rotation s \<longleftrightarrow>
     takeWhile rotation_char s \<noteq> [] \<and> dropWhile is_space (dropWhile rotation_char s) = ''RPM''"

text \<open>\<^verbatim>\<open>([\d ]+) RPM\<close>; the group.\<close>

definition rotation_number :: "string \<Rightarrow> string option" where
  "rotation_number s =
     (let n = length s - 4; group = take n s
      in if drop n s = '' RPM'' \<and> group \<noteq> [] \<and> list_all rotation_char group then Some group else None)"

section \<open>Rows\<close>

type_synonym sheet_row = "(string \<times> string) list"

definition row_value :: "sheet_row \<Rightarrow> string \<Rightarrow> row_error + string" where
  "row_value row h = from_option Row_Key_Error (map_of row h)"

definition row_check :: "bool \<Rightarrow> row_error + unit" where
  "row_check c = ensure c Row_Value_Error"

definition leaf_keys :: "string \<Rightarrow> string list" where
  "leaf_keys category = (case map_of LEAVES category of None \<Rightarrow> [] | Some (_, attributes) \<Rightarrow> map la_key attributes)"

text \<open>The category of a row of drives, after the checks of its columns.\<close>

definition drive_category :: "sheet_row \<Rightarrow> row_error + string" where
  "drive_category row =
     ebind (row_value row h_kind) (\<lambda>kind.
     ebind (row_check (kind \<in> {''Enterprise SSD'', ''Enterprise HDD''})) (\<lambda>_.
     ebind (row_value row h_form_factor) (\<lambda>form_factor.
     ebind (row_check (match_form_factor form_factor)) (\<lambda>_.
     ebind (row_value row h_interface) (\<lambda>drive_interface.
     ebind (row_check (drive_interface \<in> {''SATA'', ''SAS'', ''NVMe''})) (\<lambda>_.
     ebind (row_value row h_capacity) (\<lambda>capacity.
     ebind (row_check (match_measure [gigabytes_unit, terabytes_unit] capacity \<noteq> None)) (\<lambda>_.
     ebind (row_value row h_interface_speed) (\<lambda>speed.
     ebind (row_check (match_measure [gigabits_unit] speed \<noteq> None)) (\<lambda>_.
     ebind (row_value row h_rotation) (\<lambda>rotation.
     if kind = ''Enterprise SSD''
     then ebind (row_check (rotation \<in> {points_text [8212], ''-'', points_text [8211]})) (\<lambda>_. Inr ''ssd'')
     else ebind (row_check (match_rotation rotation)) (\<lambda>_. Inr ''hdd''))))))))))))"

definition generic_categories :: "(string \<times> string) list" where
  "generic_categories =
     [(sheet_controllers, ''pcie_adapter''), (sheet_optical_cords, ''optical_patch_cord''),
      (sheet_memory, ''ram''), (sheet_power_cables, ''power_cable''), (sheet_splitters, ''optical_splitter'')]"

text \<open>The category of a row and the keys of its attributes in the order of the columns.\<close>

definition row_category :: "string \<Rightarrow> sheet_row \<Rightarrow> row_error + string \<times> string list" where
  "row_category sheet row =
     (if sheet = sheet_transceivers then
        ebind (row_value row h_speed) (\<lambda>speed.
        ebind (row_check (match_speed speed)) (\<lambda>_.
        Inr (if drop (length speed - 4) speed = ''G FC'' then ''transceiver_fc'' else ''transceiver_ethernet'',
             [''speed'', ''wavelength'', ''reach'', ''form_factor'', ''fiber'', ''connector''])))
      else if sheet = sheet_network then
        ebind (row_value row h_purpose) (\<lambda>application.
        ebind (if is_prefix ''Fibre Channel HBA'' application then Inr ''network_fc''
               else if application = ''Ethernet NIC'' then Inr ''network_ethernet''
               else Inl Row_Value_Error) (\<lambda>category.
        Inr (category, [''interface'', ''ports'', ''speed'', ''port_type'', ''application''])))
      else if sheet = sheet_drives then
        ebind (drive_category row) (\<lambda>category.
        Inr (category, [''form_factor'', ''interface'', ''capacity'', ''interface_speed''] @
          (if category = ''ssd'' then [''type''] else [''rpm'', ''type''])))
      else if sheet = sheet_ethernet_cords then
        Inr (''ethernet_patch_cord'',
          [''cable_category'', ''connector_a'', ''connector_b'', ''length_m'', ''shielding'', ''color''])
      else
        ebind (from_option Row_Key_Error (map_of generic_categories sheet)) (\<lambda>category.
        Inr (category, leaf_keys category)))"

definition row_headers :: "string \<Rightarrow> string \<Rightarrow> string list" where
  "row_headers sheet category =
     (if sheet = sheet_drives
      then [h_form_factor, h_interface, h_capacity, h_interface_speed] @
        (if category = ''ssd'' then [h_kind] else [h_rotation, h_kind])
      else filter (\<lambda>h. h \<notin> {h_manufacturer, h_model, h_quantity})
        (case map_of SHEETS sheet of None \<Rightarrow> [] | Some hs \<Rightarrow> hs))"

text \<open>The value of one attribute; an optical cord may have no color.\<close>

definition row_attribute :: "string \<Rightarrow> string \<Rightarrow> string \<Rightarrow> row_error + (string \<times> attribute_value) list" where
  "row_attribute category key v =
     (if v = [] \<and> key = ''color'' \<and> category = ''optical_patch_cord'' then Inr []
      else if key = ''length_m'' then
        ebind (from_option Row_Value_Error (match_measure [metre_unit] v)) (\<lambda>number.
        ebind (from_option Row_Value_Error
            (parse_decimal (map (\<lambda>c. if c = CHR '','' then CHR ''.'' else c) number))) (\<lambda>cable_length.
        ebind (row_check (dec_less (dec_of_int 0) cable_length)) (\<lambda>_.
        Inr [(key, ADecimal cable_length)])))
      else if key = ''ports'' \<and> is_prefix ''network_'' category then
        ebind (positive_integer v) (\<lambda>n. Inr [(key, AInteger n)])
      else if key = ''rpm'' then
        ebind (from_option Row_Value_Error (rotation_number v)) (\<lambda>number.
        ebind (positive_integer (filter (\<lambda>c. c \<noteq> CHR '' '') number)) (\<lambda>n. Inr [(key, AInteger n)]))
      else if key = ''ecc'' then
        ebind (row_check (v \<in> {word_yes, word_no})) (\<lambda>_. Inr [(key, ABoolean (v = word_yes))])
      else Inr [(key, AText v)])"

definition normalize_row ::
    "(string \<Rightarrow> string) \<Rightarrow> string \<Rightarrow> sheet_row \<Rightarrow> string \<Rightarrow> bool \<Rightarrow> row_error + equipment" where
  "normalize_row sha256 sheet row source allow_zero_quantity =
     (let manufacturer = map_of row h_manufacturer; model = map_of row h_model
      in ebind (row_category sheet row) (\<lambda>(category, keys).
         let headers = row_headers sheet category in
         ebind (row_check (length keys = length headers)) (\<lambda>_.
         ebind (emap (\<lambda>(key, h). row_attribute category key (or_empty (map_of row h))) (zip keys headers))
           (\<lambda>found.
         let attributes = concat found in
         ebind (if is_prefix ''transceiver_'' category
                then (case normalize_reach (map code_point
                    (case map_of attributes ''reach'' of None \<Rightarrow> [] | Some v \<Rightarrow> raw_str (value_raw v))) of
                      None \<Rightarrow> Inl Row_Value_Error
                    | Some n \<Rightarrow> Inr (AList.update ''reach_m'' (AInteger (int n)) attributes))
                else Inr attributes) (\<lambda>attributes.
         ebind (row_value row h_quantity) (\<lambda>v.
         ebind (quantity_integer v allow_zero_quantity) (\<lambda>quantity.
         Inr \<lparr> eq_category = category, eq_manufacturer = manufacturer, eq_model = model,
               eq_attributes = attributes, eq_quantity = quantity,
               eq_signature = item_signature sha256 category manufacturer model attributes,
               eq_sources = [source] \<rparr>)))))))"

section \<open>The archive\<close>

datatype xml = Element (xml_tag: string) (xml_attrib: "(string \<times> string) list") (xml_text: "string option")
  (xml_children: "xml list") (xml_tail: "string option")

fun itertext :: "xml \<Rightarrow> string" where
  "itertext (Element tag attrib t cs tail) =
     or_empty t @ concat (map (\<lambda>c. itertext c @ or_empty (xml_tail c)) cs)"

fun xml_nodes :: "xml \<Rightarrow> nat" where
  "xml_nodes (Element tag attrib t cs tail) = Suc (sum_list (map xml_nodes cs))"

record zip_member =
  zm_filename :: string
  zm_file_size :: nat
  zm_encrypted :: bool
  zm_data :: "nat list"

text \<open>A file that exists, with its size; it may be no archive.\<close>

record source_file =
  sf_size :: nat
  sf_archive :: "zip_member list option"

definition MAX_WORKBOOK_BYTES :: nat where "MAX_WORKBOOK_BYTES = 16 * 1024 * 1024"
definition MAX_ARCHIVE_MEMBERS :: nat where "MAX_ARCHIVE_MEMBERS = 256"
definition MAX_UNCOMPRESSED_BYTES :: nat where "MAX_UNCOMPRESSED_BYTES = 32 * 1024 * 1024"
definition MAX_XML_BYTES :: nat where "MAX_XML_BYTES = 4 * 1024 * 1024"
definition MAX_XML_NODES :: nat where "MAX_XML_NODES = 100000"
definition MAX_XML_DEPTH :: nat where "MAX_XML_DEPTH = 64"

text \<open>The loop over a stack of nodes; the end of Python's list is the head of the stack.\<close>

lemma children_nodes: "sum_list (map (xml_nodes \<circ> fst) (rev (map (\<lambda>c. (c, k)) cs))) = sum_list (map xml_nodes cs)"
  by (simp add: rev_map [symmetric] comp_def sum_list_rev)

function within_limits :: "nat \<Rightarrow> (xml \<times> nat) list \<Rightarrow> bool" where
  "within_limits seen [] = True"
| "within_limits seen ((node, level) # stack) =
     (if Suc seen > MAX_XML_NODES \<or> level > MAX_XML_DEPTH then False
      else within_limits (Suc seen) (rev (map (\<lambda>c. (c, Suc level)) (xml_children node)) @ stack))"
  by pat_completeness auto
termination
proof (relation "measure (\<lambda>(seen, stack). sum_list (map (xml_nodes \<circ> fst) stack))", simp)
  fix seen level node and stack :: "(xml \<times> nat) list"
  show "((Suc seen, rev (map (\<lambda>c. (c, Suc level)) (xml_children node)) @ stack), seen, (node, level) # stack)
      \<in> measure (\<lambda>(seen, stack). sum_list (map (xml_nodes \<circ> fst) stack))"
    by (cases node) (simp add: children_nodes [unfolded comp_def] comp_def)
qed

record read_env =
  re_sha256 :: "string \<Rightarrow> string"
  re_parse_xml :: "nat list \<Rightarrow> xml option"

text \<open>No value is any of the exceptions that end the reading.\<close>

definition read_xml :: "read_env \<Rightarrow> zip_member list \<Rightarrow> string \<Rightarrow> xml option" where
  "read_xml env archive part =
     Option.bind (find (\<lambda>m. zm_filename m = part) archive) (\<lambda>m.
     if length (zm_data m) > MAX_XML_BYTES then None
     else Option.bind (re_parse_xml env (zm_data m)) (\<lambda>root.
       if within_limits 0 [(root, 1)] then Some root else None))"

definition check_archive :: "source_file \<Rightarrow> zip_member list option" where
  "check_archive f =
     (if sf_size f > MAX_WORKBOOK_BYTES then None
      else Option.bind (sf_archive f) (\<lambda>parts.
        if length parts > MAX_ARCHIVE_MEMBERS \<or> sum_list (map zm_file_size parts) > MAX_UNCOMPRESSED_BYTES \<or>
           \<not> distinct (map zm_filename parts) \<or> (\<exists>m\<in>set parts. zm_encrypted m)
        then None else Some parts))"

text \<open>\<open>posixpath.normpath\<close> of a relative path.\<close>

fun split_on :: "char \<Rightarrow> string \<Rightarrow> string \<Rightarrow> string list" where
  "split_on sep acc [] = [rev acc]"
| "split_on sep acc (c # cs) = (if c = sep then rev acc # split_on sep [] cs else split_on sep (c # acc) cs)"

definition norm_component :: "string \<Rightarrow> string list \<Rightarrow> string list" where
  "norm_component piece new_comps =
     (if piece = [] \<or> piece = ''.'' then new_comps
      else if piece \<noteq> ''..'' \<or> new_comps = [] \<or> last new_comps = ''..'' then new_comps @ [piece]
      else butlast new_comps)"

definition normpath :: "string \<Rightarrow> string" where
  "normpath path =
     (let comps = fold norm_component (split_on (CHR ''/'') [] path) []
      in if comps = [] then ''.'' else py_join ''/'' comps)"

definition sheet_member :: "string \<Rightarrow> string" where
  "sheet_member target =
     (if is_prefix ''/'' target then dropWhile (\<lambda>c. c = CHR ''/'') target else normpath (''xl/'' @ target))"

definition main_tag :: "string \<Rightarrow> string" where
  "main_tag tag = ''{http://schemas.openxmlformats.org/spreadsheetml/2006/main}'' @ tag"

definition relation_id :: string where
  "relation_id = ''{http://schemas.openxmlformats.org/officeDocument/2006/relationships}id''"

definition xml_findall :: "string \<Rightarrow> xml \<Rightarrow> xml list" where
  "xml_findall tag node = filter (\<lambda>c. xml_tag c = main_tag tag) (xml_children node)"

definition xml_find :: "string \<Rightarrow> xml \<Rightarrow> xml option" where
  "xml_find tag node = find (\<lambda>c. xml_tag c = main_tag tag) (xml_children node)"

definition shared_strings :: "read_env \<Rightarrow> zip_member list \<Rightarrow> string list option" where
  "shared_strings env archive =
     (if ''xl/sharedStrings.xml'' \<in> set (map zm_filename archive)
      then map_option (map itertext \<circ> xml_children) (read_xml env archive ''xl/sharedStrings.xml'')
      else Some [])"

definition read_relationships :: "read_env \<Rightarrow> zip_member list \<Rightarrow> (string \<times> string) list option" where
  "read_relationships env archive =
     Option.bind (read_xml env archive ''xl/_rels/workbook.xml.rels'') (\<lambda>root.
     map_option rev (those (map (\<lambda>node. Option.bind (map_of (xml_attrib node) ''Id'') (\<lambda>i.
       map_option (Pair i) (map_of (xml_attrib node) ''Target''))) (xml_children root))))"

section \<open>Reading the worksheets\<close>

datatype workbook_issue =
    Source_File_Missing
  | Unknown_Worksheet string
  | Formula_Not_Supported string string
  | Headers_Differ string
  | Row_Rejected string
  | Missing_Worksheet string
  | Invalid_Workbook

text \<open>While the rows are read, \<open>va_items\<close> is the dictionary of the equipment by signature.\<close>

record validation =
  va_sheets :: "string list"
  va_raw_rows :: int
  va_source_quantity :: int
  va_items :: "equipment list"
  va_errors :: "workbook_issue list"
  va_warnings :: "workbook_issue list"

definition empty_validation :: validation where
  "empty_validation = \<lparr> va_sheets = [], va_raw_rows = 0, va_source_quantity = 0, va_items = [],
     va_errors = [], va_warnings = [] \<rparr>"

definition note_issue :: "workbook_issue \<Rightarrow> validation \<Rightarrow> validation" where
  "note_issue issue st = st\<lparr>va_errors := va_errors st @ [issue]\<rparr>"

definition is_upper :: "char \<Rightarrow> bool" where
  "is_upper c = (let n = (of_char c :: nat) in 65 \<le> n \<and> n \<le> 90)"

definition cell_column :: "string \<Rightarrow> nat option" where
  "cell_column ref =
     (let letters = takeWhile is_upper ref; digits = dropWhile is_upper ref
      in if letters \<noteq> [] \<and> length letters \<le> 3 \<and> digits \<noteq> [] \<and> hd digits \<noteq> CHR ''0'' \<and>
            length digits \<le> 7 \<and> list_all is_digit digits
         then Some (fold (\<lambda>c col. col * 26 + (of_char c - 64)) letters 0) else None)"

definition clean_value :: "string \<Rightarrow> string" where
  "clean_value v = points_text (clean_text (map code_point v))"

definition cell_text :: "string list \<Rightarrow> xml \<Rightarrow> string option" where
  "cell_text strings cell =
     (let kind = map_of (xml_attrib cell) ''t'';
          written = (case xml_find ''v'' cell of None \<Rightarrow> [] | Some v \<Rightarrow> or_empty (xml_text v))
      in if kind = Some ''s'' then
           Option.bind (py_int written) (\<lambda>index.
             if 0 \<le> index \<and> index < int (length strings) then Some (strings ! nat index) else None)
         else if kind = Some ''inlineStr'' then map_option itertext (xml_find ''is'' cell)
         else Some written)"

text \<open>An exception keeps the errors found before it: a computation that fails leaves its state.\<close>

type_synonym cells = "(nat \<times> string) list"

definition read_cell ::
    "string list \<Rightarrow> string \<Rightarrow> xml \<Rightarrow> validation \<times> cells \<Rightarrow> validation + validation \<times> cells" where
  "read_cell strings name cell st =
     (case map_of (xml_attrib cell) ''r'' of
        None \<Rightarrow> Inl (fst st)
      | Some ref \<Rightarrow>
          let found = (if xml_find ''f'' cell = None then fst st
                       else note_issue (Formula_Not_Supported name ref) (fst st))
          in case (cell_column ref, cell_text strings cell) of
               (Some col, Some v) \<Rightarrow>
                 Inr (found, if py_strip v = [] then snd st else AList.update col (clean_value v) (snd st))
             | _ \<Rightarrow> Inl found)"

definition read_cells ::
    "string list \<Rightarrow> string \<Rightarrow> xml \<Rightarrow> validation \<times> (int \<times> cells) list
       \<Rightarrow> validation + validation \<times> (int \<times> cells) list" where
  "read_cells strings name xml_row st =
     ebind (efold (read_cell strings name) (xml_findall ''c'' xml_row) (fst st, [])) (\<lambda>(found, cells).
     if cells = [] then Inr (found, snd st)
     else case Option.bind (map_of (xml_attrib xml_row) ''r'') py_int of
         None \<Rightarrow> Inl found
       | Some number \<Rightarrow> Inr (found, snd st @ [(number, cells)]))"

definition add_equipment :: "equipment \<Rightarrow> equipment list \<Rightarrow> equipment list" where
  "add_equipment item grouped =
     (if eq_signature item \<in> eq_signature ` set grouped
      then map (\<lambda>e. if eq_signature e = eq_signature item
          then e\<lparr>eq_quantity := eq_quantity e + eq_quantity item, eq_sources := eq_sources e @ eq_sources item\<rparr>
          else e) grouped
      else grouped @ [item])"

definition blank_allowed :: "string \<Rightarrow> string \<Rightarrow> bool" where
  "blank_allowed name h \<longleftrightarrow> name = sheet_optical_cords \<and> h = h_color"

definition read_row ::
    "(string \<Rightarrow> string) \<Rightarrow> bool \<Rightarrow> string \<Rightarrow> string list \<Rightarrow> int \<times> cells \<Rightarrow> validation \<Rightarrow> validation + validation" where
  "read_row sha256 allow_zero name headers numbered st =
     (case numbered of (number, cells) \<Rightarrow>
        let source = name @ ''!'' @ int_str number;
            expected = enumerate 1 headers;
            st1 = st\<lparr>va_raw_rows := va_raw_rows st + 1\<rparr>;
            row = map (\<lambda>(index, h). (h, or_empty (map_of cells index))) expected
        in case ebind (row_value row h_quantity) (\<lambda>v. quantity_integer v allow_zero) of
             Inl Row_Key_Error \<Rightarrow> Inl st1
           | Inl Row_Value_Error \<Rightarrow> Inr (note_issue (Row_Rejected source) st1)
           | Inr quantity \<Rightarrow>
               let st2 = st1\<lparr>va_source_quantity := va_source_quantity st1 + quantity\<rparr>
               in case ebind (row_check (set (map fst cells) \<subseteq> set (map fst expected))) (\<lambda>_.
                       ebind (row_check (\<forall>(h, v)\<in>set row. v \<noteq> [] \<or> blank_allowed name h)) (\<lambda>_.
                       normalize_row sha256 name row source allow_zero)) of
                    Inl Row_Key_Error \<Rightarrow> Inl st2
                  | Inl Row_Value_Error \<Rightarrow> Inr (note_issue (Row_Rejected source) st2)
                  | Inr item \<Rightarrow> Inr (st2\<lparr>va_items := add_equipment item (va_items st2)\<rparr>))"

text \<open>The color column of the optical cords may lack its header.\<close>

definition sheet_header :: "string \<Rightarrow> (int \<times> cells) list \<Rightarrow> validation \<Rightarrow> validation \<times> cells" where
  "sheet_header name rows st =
     (let header = (case rows of (number, cells) # _ \<Rightarrow> if number = 1 then cells else [] | [] \<Rightarrow> [])
      in if name = sheet_optical_cords \<and> 8 \<notin> set (map fst header)
         then (st\<lparr>va_warnings := va_warnings st @ [Headers_Differ name]\<rparr>, header @ [(8, h_color)])
         else (st, header))"

definition read_sheet ::
    "read_env \<Rightarrow> bool \<Rightarrow> zip_member list \<Rightarrow> string list \<Rightarrow> (string \<times> string) list \<Rightarrow> xml \<Rightarrow> validation
       \<Rightarrow> validation + validation" where
  "read_sheet env allow_zero archive strings relationships sheet st =
     ebind (from_option st (map_of (xml_attrib sheet) ''name'')) (\<lambda>name.
     let st1 = st\<lparr>va_sheets := va_sheets st @ [name]\<rparr> in
     case map_of SHEETS name of
       None \<Rightarrow> Inr (note_issue (Unknown_Worksheet name) st1)
     | Some headers \<Rightarrow>
         ebind (from_option st1 (Option.bind (map_of (xml_attrib sheet) relation_id) (\<lambda>relation.
           Option.bind (map_of relationships relation) (\<lambda>target. read_xml env archive (sheet_member target)))))
           (\<lambda>root.
         ebind (efold (read_cells strings name)
             (concat (map (xml_findall ''row'') (xml_findall ''sheetData'' root))) (st1, [])) (\<lambda>(st2, rows).
         let (st3, header) = sheet_header name rows st2 in
         if set header \<noteq> set (enumerate 1 headers) then Inr (note_issue (Headers_Differ name) st3)
         else efold (read_row (re_sha256 env) allow_zero name headers) (drop 1 rows) st3)))"

definition missing_worksheets :: "validation \<Rightarrow> validation" where
  "missing_worksheets st = st\<lparr>va_errors := va_errors st @ map Missing_Worksheet
     (sort_key (map code_point) (filter (\<lambda>name. name \<notin> set (va_sheets st)) (map fst SHEETS)))\<rparr>"

definition read_archive :: "read_env \<Rightarrow> bool \<Rightarrow> source_file \<Rightarrow> validation + validation" where
  "read_archive env allow_zero f =
     ebind (from_option empty_validation (Option.bind (check_archive f) (\<lambda>archive.
       Option.bind (shared_strings env archive) (\<lambda>strings.
       Option.bind (read_relationships env archive) (\<lambda>relationships.
       map_option (\<lambda>root. (archive, strings, relationships, root)) (read_xml env archive ''xl/workbook.xml''))))))
       (\<lambda>(archive, strings, relationships, root).
     ebind (efold (read_sheet env allow_zero archive strings relationships)
       (concat (map (xml_findall ''sheet'') (xml_findall ''sheets'' root))) empty_validation) (\<lambda>st.
     Inr (missing_worksheets st)))"

definition equipment_order :: "equipment \<Rightarrow> nat list \<times> nat list" where
  "equipment_order e = (map code_point (eq_category e), map code_point (eq_signature e))"

definition read_workbook :: "read_env \<Rightarrow> source_file option \<Rightarrow> bool \<Rightarrow> validation" where
  "read_workbook env path allow_zero =
     (case path of
        None \<Rightarrow> note_issue Source_File_Missing empty_validation
      | Some f \<Rightarrow>
          let result = (case read_archive env allow_zero f of Inl st \<Rightarrow> note_issue Invalid_Workbook st | Inr st \<Rightarrow> st)
          in result\<lparr>va_items := sort_key equipment_order (va_items result)\<rparr>)"

section \<open>The report\<close>

record workbook_report =
  wr_total_source_quantity :: int
  wr_normalized_unique_items :: nat
  wr_duplicates :: "equipment list"
  wr_leaf_categories :: "(string \<times> nat \<times> int) list"
  wr_valid :: bool

definition validation_report :: "validation \<Rightarrow> workbook_report" where
  "validation_report v =
     (let of_category = (\<lambda>k. filter (\<lambda>e. eq_category e = k) (va_items v))
      in \<lparr> wr_total_source_quantity = va_source_quantity v,
           wr_normalized_unique_items = length (va_items v),
           wr_duplicates = filter (\<lambda>e. length (eq_sources e) > 1) (va_items v),
           wr_leaf_categories = map (\<lambda>k. (k, length (of_category k), sum_list (map eq_quantity (of_category k))))
             (sort_key (map code_point) (map fst LEAVES)),
           wr_valid = (va_errors v = []) \<rparr>)"

end
