(* ===== verification/Bootstrap.thy ===== *)
theory Bootstrap
  imports Workbook Inventory Policy
begin

text \<open>
  The first load of a real inventory: \<open>import_inventory\<close> of \<open>bootstrap/inventory_workbook.py\<close>, which
  fills an empty catalog from the equipment of a workbook and books its quantities as one receipt,
  and the transaction of \<open>bootstrap/production_inventory.py\<close> around it, which creates the location and
  compares what it wrote with what the operator announced. An exception rolls everything back.
\<close>

datatype bootstrap_error =
    Bootstrap_Value_Error string
  | Bootstrap_Catalog_Error string
  | Bootstrap_Inventory_Error inventory_error
  | Bootstrap_Db_Error db_error

fun import_failure :: "string + db_error \<Rightarrow> bootstrap_error" where
  "import_failure (Inl code) = Bootstrap_Catalog_Error code"
| "import_failure (Inr e) = Bootstrap_Db_Error e"

text \<open>Values drawn from outside; the identifiers of the k-th piece of equipment are indexed by k.\<close>

record bootstrap_env =
  bs_catalog :: catalog_env
  bs_now :: timestamp
  bs_location_id :: uuid
  bs_movement_id :: uuid
  bs_manufacturer_id :: "nat \<Rightarrow> uuid"
  bs_item_id :: "nat \<Rightarrow> uuid"

section \<open>Import\<close>

definition import_manufacturer ::
    "bootstrap_env \<Rightarrow> nat \<Rightarrow> equipment \<Rightarrow> db \<Rightarrow> bootstrap_error + db \<times> manufacturer option" where
  "import_manufacturer env k item d =
     (let name = or_empty (eq_manufacturer item)
      in if name = [] then Inr (d, None)
         else case find (\<lambda>m. mf_normalized_name m = identity_text name) (manufacturers d) of
             Some m \<Rightarrow> Inr (d, Some m)
           | None \<Rightarrow>
               ebind (ensure (length name \<le> 255) (Bootstrap_Value_Error ''ManufacturerCreate'')) (\<lambda>_.
               ebind (relabel import_failure (create_manufacturer d (bs_manufacturer_id env k) name)) (\<lambda>(d', m).
               Inr (d', Some m))))"

definition import_payload :: "equipment \<Rightarrow> manufacturer option \<Rightarrow> item_create" where
  "import_payload item m =
     \<lparr> ic_category_key = eq_category item, ic_manufacturer_id = map_option mf_id m,
       ic_name = equipment_name item, ic_model = eq_model item,
       ic_attributes = map (\<lambda>(k, v). (k, value_raw v)) (eq_attributes item) \<rparr>"

definition item_create_valid :: "item_create \<Rightarrow> bool" where
  "item_create_valid p \<longleftrightarrow> length (ic_category_key p) \<le> 64 \<and> length (ic_name p) \<le> 255 \<and>
     length (or_empty (ic_model p)) \<le> 255"

definition import_line ::
    "bootstrap_env \<Rightarrow> nat \<times> equipment \<Rightarrow> db \<times> movement_line_create list
       \<Rightarrow> bootstrap_error + db \<times> movement_line_create list" where
  "import_line env numbered st =
     (case (numbered, st) of ((k, item), (d, lines)) \<Rightarrow>
        ebind (import_manufacturer env k item d) (\<lambda>(d1, m).
        ebind (ensure (item_create_valid (import_payload item m)) (Bootstrap_Value_Error ''ItemCreate'')) (\<lambda>_.
        ebind (relabel import_failure (create_item (bs_catalog env) (bs_item_id env k) d1 (import_payload item m)))
          (\<lambda>(d2, item_id).
        if eq_quantity item > 0
        then let line = \<lparr> lc_item_id = item_id, lc_quantity = eq_quantity item \<rparr> in
          ebind (ensure (movement_line_create_valid line) (Bootstrap_Value_Error ''MovementLineCreate'')) (\<lambda>_.
          Inr (d2, lines @ [line]))
        else Inr (d2, lines)))))"

definition import_receipt :: "uuid \<Rightarrow> movement_line_create list \<Rightarrow> movement_create" where
  "import_receipt location_id lines =
     \<lparr> mc_movement_type = RECEIPT, mc_source_location_id = None,
       mc_destination_location_id = Some location_id, mc_original_movement_id = None,
       mc_client_request_id = ''inventory-workbook-bootstrap-v2'', mc_lines = lines \<rparr>"

definition import_inventory ::
    "bootstrap_env \<Rightarrow> db \<Rightarrow> validation \<Rightarrow> string \<Rightarrow> uuid \<Rightarrow> bootstrap_error + db \<times> uuid" where
  "import_inventory env d v target actor_user_id =
     ebind (ensure (va_errors v = [] \<and> va_items v \<noteq> [])
       (Bootstrap_Value_Error ''workbook validation failed'')) (\<lambda>_.
     ebind (ensure (items d = [] \<and> movements d = [])
       (Bootstrap_Value_Error ''BOOTSTRAP_ALREADY_POPULATED'')) (\<lambda>_.
     ebind (from_option (Bootstrap_Value_Error ''target location required'')
       (find (\<lambda>l. loc_code l = target \<or> uuid_str (loc_id l) = target) (locations d))) (\<lambda>location.
     ebind (ensure (loc_status location = LOC_ACTIVE) (Bootstrap_Value_Error ''target location required'')) (\<lambda>_.
     ebind (from_option (Bootstrap_Value_Error ''administrator required'') (get_user d actor_user_id)) (\<lambda>actor.
     ebind (ensure (has_capability (u_role actor) INVENTORY_ADMIN \<and> u_access_status actor = APPROVED)
       (Bootstrap_Value_Error ''administrator required'')) (\<lambda>_.
     ebind (efold (import_line env) (enumerate 0 (va_items v)) (d, [])) (\<lambda>(d1, lines).
     ebind (ensure (lines \<noteq> []) (Bootstrap_Value_Error ''no positive stock quantity'')) (\<lambda>_.
     ebind (ensure (movement_create_valid (import_receipt (loc_id location) lines))
       (Bootstrap_Value_Error ''MovementCreate'')) (\<lambda>_.
     ebind (relabel Bootstrap_Inventory_Error (create_movement (ce_sha256 (bs_catalog env)) d1 (bs_movement_id env)
       (bs_now env) (import_receipt (loc_id location) lines) actor_user_id importer_name None)) (\<lambda>(d2, movement).
     Inr (d2, mv_id (rec_movement (res_record movement)))))))))))))"

text \<open>The import into a local test database, and its guards.\<close>

definition import_local ::
    "bootstrap_env \<Rightarrow> string \<Rightarrow> string \<Rightarrow> bool \<Rightarrow> db \<Rightarrow> validation \<Rightarrow> string \<Rightarrow> uuid
       \<Rightarrow> bootstrap_error + db \<times> uuid" where
  "import_local env app_env host mutations_enabled d v target actor_user_id =
     ebind (ensure (app_env = ''test'' \<and> host \<in> {''127.0.0.1'', ''localhost'', ''::1''})
       (Bootstrap_Value_Error ''import requires a disposable database'')) (\<lambda>_.
     ebind (ensure (\<not> mutations_enabled) (Bootstrap_Value_Error ''REAL_INVENTORY_MUTATIONS_ENABLED'')) (\<lambda>_.
     import_inventory env d v target actor_user_id))"

section \<open>The production load\<close>

definition assert_bootstrap_runtime :: "string \<Rightarrow> string \<Rightarrow> string \<Rightarrow> bool \<Rightarrow> bootstrap_error + unit" where
  "assert_bootstrap_runtime app_env drivername host gate_enabled =
     ebind (ensure (app_env = ''production'') (Bootstrap_Value_Error ''APP_ENV'')) (\<lambda>_.
     ebind (ensure (drivername = ''postgresql+asyncpg'' \<and> host = ''postgres'')
       (Bootstrap_Value_Error ''production database required'')) (\<lambda>_.
     ensure (\<not> gate_enabled) (Bootstrap_Value_Error ''REAL_INVENTORY_MUTATIONS_ENABLED'')))"

definition assert_validation_contract :: "validation \<Rightarrow> int \<Rightarrow> int \<Rightarrow> int \<Rightarrow> bootstrap_error + unit" where
  "assert_validation_contract v expected_rows expected_items expected_quantity =
     ebind (ensure (va_errors v = []) (Bootstrap_Value_Error ''workbook validation failed'')) (\<lambda>_.
     ebind (ensure (va_raw_rows v = expected_rows) (Bootstrap_Value_Error ''unexpected workbook row count'')) (\<lambda>_.
     ebind (ensure (int (length (va_items v)) = expected_items)
       (Bootstrap_Value_Error ''unexpected normalized item count'')) (\<lambda>_.
     ensure (va_source_quantity v = expected_quantity) (Bootstrap_Value_Error ''unexpected source quantity''))))"

record warehouse_counts =
  wc_items :: nat
  wc_manufacturers :: nat
  wc_locations :: nat
  wc_movements :: nat
  wc_movement_lines :: nat
  wc_stock_balances :: nat

definition count_warehouse :: "db \<Rightarrow> warehouse_counts" where
  "count_warehouse d =
     \<lparr> wc_items = length (items d), wc_manufacturers = length (manufacturers d),
       wc_locations = length (locations d), wc_movements = length (movements d),
       wc_movement_lines = length (movement_lines d), wc_stock_balances = length (stock_balances d) \<rparr>"

definition no_rows :: warehouse_counts where
  "no_rows = \<lparr> wc_items = 0, wc_manufacturers = 0, wc_locations = 0, wc_movements = 0,
     wc_movement_lines = 0, wc_stock_balances = 0 \<rparr>"

record bootstrap_result =
  br_location :: location
  br_receipt_movement_id :: uuid
  br_counts :: warehouse_counts
  br_stock_quantity :: int
  br_movement_quantity :: int

text \<open>What was written is counted, added up and compared with the journal.\<close>

definition closing_checks ::
    "db \<Rightarrow> location \<Rightarrow> uuid \<Rightarrow> nat \<Rightarrow> int \<Rightarrow> int \<Rightarrow> bootstrap_error + bootstrap_result" where
  "closing_checks d location movement_id stocked_items expected_items expected_quantity =
     (let after = count_warehouse d;
          stock_total = sum_list (map sb_quantity (stock_balances d));
          line_total = sum_list (map ml_quantity (movement_lines d))
      in ebind (ensure (wc_locations after = 1 \<and> int (wc_items after) = expected_items \<and> wc_movements after = 1 \<and>
            wc_movement_lines after = stocked_items \<and> wc_stock_balances after = stocked_items)
          (Bootstrap_Value_Error ''post-bootstrap count mismatch'')) (\<lambda>_.
         ebind (ensure (stock_total = expected_quantity)
           (Bootstrap_Value_Error ''post-bootstrap stock quantity mismatch'')) (\<lambda>_.
         ebind (ensure (line_total = expected_quantity)
           (Bootstrap_Value_Error ''post-bootstrap movement quantity mismatch'')) (\<lambda>_.
         ebind (from_option (Bootstrap_Value_Error ''bootstrap receipt movement disappeared'')
           (get_mov d movement_id)) (\<lambda>movement.
         ebind (ensure (mv_movement_type movement = RECEIPT)
           (Bootstrap_Value_Error ''bootstrap movement is not RECEIPT'')) (\<lambda>_.
         ebind (ensure (mv_destination_location_id movement = Some (loc_id location))
           (Bootstrap_Value_Error ''bootstrap receipt destination mismatch'')) (\<lambda>_.
         ebind (ensure (mv_line_count movement = int stocked_items)
           (Bootstrap_Value_Error ''bootstrap movement line_count mismatch'')) (\<lambda>_.
         ebind (ensure (\<not> projection_drift_exists d)
           (Bootstrap_Value_Error ''post-bootstrap projection reconciliation failed'')) (\<lambda>_.
         Inr \<lparr> br_location = location, br_receipt_movement_id = movement_id, br_counts = after,
               br_stock_quantity = stock_total, br_movement_quantity = line_total \<rparr>)))))))))"

definition bootstrap_transaction ::
    "bootstrap_env \<Rightarrow> db \<Rightarrow> validation \<Rightarrow> location_create \<Rightarrow> uuid \<Rightarrow> int \<Rightarrow> int
       \<Rightarrow> bootstrap_error + db \<times> bootstrap_result" where
  "bootstrap_transaction env d v place actor_user_id expected_items expected_quantity =
     ebind (ensure (count_warehouse d = no_rows) (Bootstrap_Value_Error ''BOOTSTRAP_ALREADY_POPULATED'')) (\<lambda>_.
     ebind (relabel Bootstrap_Inventory_Error (create_location d (bs_location_id env) (place\<lparr>lcr_address := None\<rparr>)))
       (\<lambda>(d0, location).
     ebind (import_inventory env d0 v (uuid_str (loc_id location)) actor_user_id) (\<lambda>(d1, movement_id).
     ebind (closing_checks d1 location movement_id
         (length (filter (\<lambda>item. eq_quantity item > 0) (va_items v))) expected_items expected_quantity) (\<lambda>result.
     Inr (d1, result)))))"

record bootstrap_args =
  ba_confirm :: string
  ba_expected_sha256 :: string
  ba_expected_rows :: int
  ba_expected_items :: int
  ba_expected_quantity :: int
  ba_location :: location_create
  ba_actor :: uuid

record production_settings =
  ps_app_env :: string
  ps_drivername :: string
  ps_host :: string
  ps_real_inventory_mutations_enabled :: bool

definition CONFIRMATION :: string where
  "CONFIRMATION = ''BOOTSTRAP_REAL_INVENTORY_ONCE''"

definition lower_hex :: "char \<Rightarrow> bool" where
  "lower_hex c \<longleftrightarrow> c \<in> set ''0123456789abcdef''"

text \<open>The digest of the file is an argument; the workbook is read after it was compared.\<close>

definition run_production_bootstrap ::
    "bootstrap_env \<Rightarrow> read_env \<Rightarrow> production_settings \<Rightarrow> bootstrap_args \<Rightarrow> string \<Rightarrow> source_file option \<Rightarrow> db
       \<Rightarrow> bootstrap_error + db \<times> workbook_report \<times> bootstrap_result" where
  "run_production_bootstrap env renv settings args source_sha256 source d =
     ebind (assert_bootstrap_runtime (ps_app_env settings) (ps_drivername settings) (ps_host settings)
       (ps_real_inventory_mutations_enabled settings)) (\<lambda>_.
     ebind (ensure (ba_confirm args = CONFIRMATION) (Bootstrap_Value_Error ''confirmation required'')) (\<lambda>_.
     let expected_sha256 = map casefold (py_strip (ba_expected_sha256 args)) in
     ebind (ensure (length expected_sha256 = 64 \<and> list_all lower_hex expected_sha256)
       (Bootstrap_Value_Error ''expected SHA-256'')) (\<lambda>_.
     ebind (ensure (source_sha256 = expected_sha256) (Bootstrap_Value_Error ''source SHA-256 mismatch'')) (\<lambda>_.
     let v = read_workbook renv source True in
     ebind (assert_validation_contract v (ba_expected_rows args) (ba_expected_items args) (ba_expected_quantity args))
       (\<lambda>_.
     ebind (bootstrap_transaction env d v (ba_location args) (ba_actor args) (ba_expected_items args)
       (ba_expected_quantity args)) (\<lambda>(d', result).
     Inr (d', validation_report v, result)))))))"

end
