(* ===== verification/Workbook_Samples.thy ===== *)
theory Workbook_Samples
  imports Workbook Samples
begin

text \<open>
  Workbooks that are written cell by cell, and what reading one gives: texts of words with single
  spaces are read as they are written, a flat document is within the limits on nodes and depth, and
  a sheet with its headers adds the rows below them. The sample has all nine worksheets, and one
  splitter in one of them.
\<close>

section \<open>Texts that reading leaves alone\<close>

definition plain_point :: "nat \<Rightarrow> bool" where
  "plain_point n \<longleftrightarrow> n < 128 \<or> 1025 \<le> n \<and> n \<le> 1105 \<and> n \<noteq> 1037 \<and> n \<noteq> 1104"

lemma point_code: "plain_point n \<Longrightarrow> code_point (point_char n) = n"
  by (auto simp: plain_point_def code_point_def point_char_def Let_def)

lemma points_code: "list_all plain_point ns \<Longrightarrow> map code_point (points_text ns) = ns"
  by (induction ns) (simp_all add: points_text_def point_code)

text \<open>Words with one space between them; the flag says that a word must start.\<close>

fun single_spaced :: "bool \<Rightarrow> code_points \<Rightarrow> bool" where
  "single_spaced start [] = (\<not> start)"
| "single_spaced start (c # cs) = (if c = 32 then \<not> start \<and> single_spaced True cs else \<not> cp_space c \<and> single_spaced False cs)"

lemma spaced_words:
  "single_spaced (acc = []) cs \<Longrightarrow> cp_join 32 (cp_words acc cs) = rev acc @ cs"
proof (induction cs arbitrary: acc)
  case (Cons c cs)
  show ?case
  proof (cases "c = 32")
    case True
    with Cons.prems have "acc \<noteq> []" "single_spaced True cs" by (auto split: if_splits)
    moreover from this have "cp_join 32 (cp_words [] cs) = cs" "cs \<noteq> []" using Cons.IH [of "[]"] by auto
    moreover from this have "cp_words [] cs \<noteq> []" by auto
    ultimately show ?thesis using True by (cases "cp_words [] cs") (auto simp: cp_space_def)
  next
    case False
    with Cons.prems have "\<not> cp_space c" "single_spaced False cs" by (auto split: if_splits)
    then show ?thesis using Cons.IH [of "c # acc"] by simp
  qed
qed auto

lemma spaced_points: "single_spaced start cs \<Longrightarrow> c \<in> set cs \<Longrightarrow> c = 32 \<or> \<not> cp_space c"
  by (induction cs arbitrary: start) (auto split: if_splits)

lemma spaced_last: "single_spaced start cs \<Longrightarrow> cs \<noteq> [] \<Longrightarrow> \<not> cp_space (last cs)"
  by (induction start cs rule: single_spaced.induct) (auto split: if_splits)

lemma one_line:
  "\<forall>c\<in>set cs. \<not> cp_line_break c \<Longrightarrow> acc @ cs \<noteq> [] \<Longrightarrow> split_lines acc cs = [rev acc @ cs]"
  by (induction cs arbitrary: acc) auto

lemma clean_text_spaced:
  assumes "single_spaced True cs"
  shows "clean_text cs = cs"
proof -
  have ne: "cs \<noteq> []" using assms by auto
  then have hd: "\<not> cp_space (hd cs)" using assms by (cases cs) (auto split: if_splits)
  have last: "\<not> cp_space (last cs)" by (rule spaced_last [OF assms ne])
  have "cp_strip cs = cs"
  proof -
    have "dropWhile cp_space cs = cs" using hd ne by (cases cs) auto
    moreover have "dropWhile cp_space (rev cs) = rev cs" using last ne by (cases cs rule: rev_cases) auto
    ultimately show ?thesis by (simp add: cp_strip_def)
  qed
  moreover have "cp_line_break c \<Longrightarrow> cp_space c \<and> c \<noteq> 32" for c by (auto simp: cp_line_break_def cp_space_def)
  then have "\<forall>c\<in>set cs. \<not> cp_line_break c" using spaced_points [OF assms] by blast
  then have "split_lines [] cs = [cs]" using one_line [of cs "[]"] ne by simp
  ultimately show ?thesis using spaced_words [of "[]" cs] assms by (simp add: clean_text_def)
qed

lemma space_point: "is_space c \<Longrightarrow> cp_space (code_point c)"
proof -
  define n :: nat where "n = of_char c"
  assume "is_space c"
  then have n: "(9 \<le> n \<and> n \<le> 13) \<or> (28 \<le> n \<and> n \<le> 32) \<or> n = 133 \<or> n = 160"
    by (simp add: is_space_def n_def Let_def)
  then have "code_point c = n"
    unfolding code_point_def Let_def n_def [symmetric] by (elim disjE) simp_all
  then show ?thesis using n by (auto simp: cp_space_def)
qed

text \<open>A text of such words is read as it is written.\<close>

definition legible :: "string \<Rightarrow> bool" where
  "legible t \<longleftrightarrow> clean_value t = t \<and> py_strip t \<noteq> []"

lemma legible_text:
  assumes "single_spaced True (map code_point t)"
  shows "legible t"
proof -
  obtain c s where t: "t = c # s" using assms by (cases t) auto
  then have "\<not> cp_space (code_point c)" using assms by (auto split: if_splits simp: cp_space_def)
  then have "py_strip t \<noteq> []" using space_point by (auto simp: strip_no_space t)
  then show ?thesis by (simp add: legible_def clean_value_def clean_text_spaced [OF assms] points_text_def comp_def)
qed

lemma legible_points: "list_all plain_point ns \<Longrightarrow> single_spaced True ns \<Longrightarrow> legible (points_text ns)"
  by (simp add: legible_text points_code)

lemmas headers_defs = h_manufacturer_def h_model_def h_speed_def h_wavelength_def h_reach_def h_form_factor_def
  h_fiber_def h_connector_def h_quantity_def h_interface_def h_ports_def h_purpose_def h_features_def h_port_type_def
  h_capacity_def h_interface_speed_def h_rotation_def h_kind_def h_fiber_type_def h_category_def h_connector_a_def
  h_connector_b_def h_cable_length_def h_construction_def h_color_def h_organisation_def h_rating_def
  h_configuration_def h_wavelengths_def h_connectors_def h_split_ratio_def h_shielding_def

lemma legible_headers:
  "legible h_manufacturer" "legible h_model" "legible h_speed" "legible h_wavelength" "legible h_reach"
  "legible h_form_factor" "legible h_fiber" "legible h_connector" "legible h_quantity" "legible h_interface"
  "legible h_ports" "legible h_purpose" "legible h_features" "legible h_port_type" "legible h_capacity"
  "legible h_interface_speed" "legible h_rotation" "legible h_kind" "legible h_fiber_type" "legible h_category"
  "legible h_connector_a" "legible h_connector_b" "legible h_cable_length" "legible h_construction"
  "legible h_color" "legible h_organisation" "legible h_rating" "legible h_configuration" "legible h_wavelengths"
  "legible h_connectors" "legible h_split_ratio" "legible h_shielding"
  unfolding headers_defs
  by (rule legible_points; simp add: plain_point_def cp_space_def)+

section \<open>A workbook\<close>

definition written_cell :: "string \<Rightarrow> nat \<times> string \<Rightarrow> xml" where
  "written_cell row cell =
     (case cell of (col, t) \<Rightarrow> Element (main_tag ''c'') [(''r'', char_of (64 + col) # row)] None
        [Element (main_tag ''v'') [] (Some t) [] None] None)"

definition written_row :: "string \<Rightarrow> string list \<Rightarrow> xml" where
  "written_row row ts = Element (main_tag ''row'') [(''r'', row)] None (map (written_cell row) (enumerate 1 ts)) None"

definition written_sheet :: "xml list \<Rightarrow> xml" where
  "written_sheet rows = Element (main_tag ''worksheet'') [] None [Element (main_tag ''sheetData'') [] None rows None] None"

lemma main_tag_simps [simp]: "main_tag a = main_tag b \<longleftrightarrow> a = b"
  by (simp add: main_tag_def)

lemma update_new: "k \<notin> fst ` set acc \<Longrightarrow> AList.update k v acc = acc @ [(k, v)]"
  by (induction acc) auto

lemma read_written_cell:
  assumes "legible t" and "1 \<le> col" "col \<le> 26" and "row \<in> {''1'', ''2''}" and "col \<notin> fst ` set acc"
  shows "read_cell [] name (written_cell row (col, t)) (st, acc) = Inr (st, acc @ [(col, t)])"
proof -
  have col: "(of_char (char_of (64 + col)) :: nat) = 64 + col" using assms(3) by simp
  then have small: "(64 + col) mod 256 = 64 + col" by simp
  have "is_upper (char_of (64 + col))" using assms(2,3) by (simp add: is_upper_def)
  moreover have "\<not> is_upper (CHR ''1'')" "\<not> is_upper (CHR ''2'')" "is_digit (CHR ''1'')" "is_digit (CHR ''2'')" by code_simp+
  ultimately have "cell_column (char_of (64 + col) # row) = Some col" using assms(4) by (auto simp: cell_column_def small Let_def)
  moreover have "cell_text [] (written_cell row (col, t)) = Some t"
    by (simp add: cell_text_def written_cell_def xml_find_def Let_def or_empty_def)
  ultimately show ?thesis
    using assms(1,5) by (simp add: read_cell_def written_cell_def xml_find_def legible_def update_new Let_def)
qed

lemma read_written_cells:
  assumes "\<forall>t\<in>set ts. legible t" and "1 \<le> k" "k + length ts \<le> 27" and "row \<in> {''1'', ''2''}"
    and "\<forall>p\<in>set acc. fst p < k"
  shows "efold (read_cell [] name) (map (written_cell row) (enumerate k ts)) (st, acc) = Inr (st, acc @ enumerate k ts)"
  using assms
proof (induction ts arbitrary: k acc)
  case (Cons t ts)
  have "k \<notin> fst ` set acc" using Cons.prems(5) by auto
  then show ?case using Cons by (simp add: read_written_cell less_Suc_eq)
qed simp

lemma read_written_row:
  assumes "\<forall>t\<in>set ts. legible t" and "length ts \<le> 26" and "ts \<noteq> []" and "(row, n) \<in> {(''1'', 1), (''2'', 2)}"
  shows "read_cells [] name (written_row row ts) (st, rows) = Inr (st, rows @ [(n, enumerate 1 ts)])"
proof -
  have "xml_findall ''c'' (written_row row ts) = map (written_cell row) (enumerate 1 ts)"
    by (simp add: xml_findall_def written_row_def filter_id_conv written_cell_def split: prod.splits)
  moreover have "enumerate 1 ts \<noteq> []" using assms(3) by (cases ts) simp_all
  moreover have "py_int ''1'' = Some 1" "py_int ''2'' = Some 2" by code_simp+
  then have "py_int row = Some n" using assms(4) by auto
  ultimately show ?thesis
    using read_written_cells [of ts 1 row "[]"] assms by (auto simp: read_cells_def written_row_def)
qed

lemma xml_nodes_written:
  "xml_nodes (written_row row ts) = 1 + 2 * length ts"
proof -
  have "sum_list (map (xml_nodes \<circ> written_cell row) (enumerate k ts)) = 2 * length ts" for k
    by (induction ts arbitrary: k) (simp_all add: written_cell_def)
  then show ?thesis by (simp add: written_row_def)
qed

text \<open>Few nodes in a flat tree are within the limits.\<close>

fun xml_height :: "xml \<Rightarrow> nat" where
  "xml_height (Element tag attrib t cs tail) = Suc (Max (insert 0 (xml_height ` set cs)))"

lemma xml_height_child: "c \<in> set (xml_children x) \<Longrightarrow> Suc (xml_height c) \<le> xml_height x"
  by (cases x) auto

lemma within_limitsI:
  "seen + sum_list (map (xml_nodes \<circ> fst) stack) \<le> MAX_XML_NODES \<Longrightarrow>
   \<forall>(x, level)\<in>set stack. level + xml_height x \<le> Suc MAX_XML_DEPTH \<Longrightarrow> within_limits seen stack"
proof (induction seen stack rule: within_limits.induct)
  case (2 seen x level stack)
  have "xml_nodes x = Suc (sum_list (map xml_nodes (xml_children x)))" "1 \<le> xml_height x" by (cases x; simp)+
  moreover have "sum_list (map (xml_nodes \<circ> fst) (rev (map (\<lambda>c. (c, Suc level)) (xml_children x)))) =
      sum_list (map xml_nodes (xml_children x))" by (rule children_nodes)
  moreover have "Suc level + xml_height c \<le> Suc MAX_XML_DEPTH" if "c \<in> set (xml_children x)" for c
    using xml_height_child [OF that] 2(3) by auto
  ultimately have "within_limits (Suc seen) (rev (map (\<lambda>c. (c, Suc level)) (xml_children x)) @ stack)"
    if "\<not> (MAX_XML_NODES < Suc seen \<or> MAX_XML_DEPTH < level)"
    by (intro 2(1) [OF that]) (use 2(2,3) in \<open>auto simp: comp_def\<close>)
  moreover have "\<not> (MAX_XML_NODES < Suc seen \<or> MAX_XML_DEPTH < level)"
    using 2(2,3) \<open>1 \<le> xml_height x\<close> \<open>xml_nodes x = _\<close> by auto
  ultimately show ?case by simp
qed simp


text \<open>An archive whose members parse to the given trees.\<close>

definition archive_of :: "(string \<times> xml) list \<Rightarrow> zip_member list" where
  "archive_of parts = map (\<lambda>(k, p). \<lparr> zm_filename = fst p, zm_file_size = 1, zm_encrypted = False, zm_data = [k] \<rparr>)
     (enumerate 0 parts)"

definition parse_of :: "(string \<times> xml) list \<Rightarrow> nat list \<Rightarrow> xml option" where
  "parse_of parts data = (case data of [k] \<Rightarrow> if k < length parts then Some (snd (parts ! k)) else None | _ \<Rightarrow> None)"

lemma archive_names: "map zm_filename (archive_of parts) = map fst parts"
  unfolding archive_of_def by (induction parts rule: rev_induct) (simp_all add: enumerate_append_eq)

lemma find_member:
  assumes "distinct (map fst parts)" and "i < length parts"
  shows "find (\<lambda>m. zm_filename m = fst (parts ! i)) (archive_of parts) =
    Some \<lparr> zm_filename = fst (parts ! i), zm_file_size = 1, zm_encrypted = False, zm_data = [i] \<rparr>"
proof -
  have nth: "archive_of parts ! j = \<lparr> zm_filename = fst (parts ! j), zm_file_size = 1, zm_encrypted = False, zm_data = [j] \<rparr>"
    if "j < length parts" for j
    using that by (simp add: archive_of_def nth_enumerate_eq)
  have "length (archive_of parts) = length parts" by (simp add: archive_of_def)
  moreover have "fst (parts ! j) \<noteq> fst (parts ! i)" if "j < i" for j
    using assms that nth_eq_iff_index_eq [OF assms(1), of j i] by simp
  ultimately show ?thesis
    unfolding find_Some_iff by (intro exI [of _ i]) (use assms(2) nth in simp)
qed

lemma read_part:
  assumes "distinct (map fst parts)" and "(part, x) \<in> set parts" and "re_parse_xml env = parse_of parts"
    and "within_limits 0 [(x, 1)]"
  shows "read_xml env (archive_of parts) part = Some x"
proof -
  obtain i where i: "i < length parts" "parts ! i = (part, x)" using assms(2) by (auto simp: in_set_conv_nth)
  show ?thesis
    using find_member [OF assms(1) i(1)] i assms(3,4)
    by (simp add: read_xml_def parse_of_def MAX_XML_BYTES_def)
qed

lemma read_written_sheet:
  assumes "xml_attrib sheet = [(''name'', name), (relation_id, rid)]" and "map_of relationships rid = Some target"
    and "read_xml env archive (sheet_member target) = Some (written_sheet (written_row ''1'' headers # rows))"
    and "map_of SHEETS name = Some headers" and "\<forall>h\<in>set headers. legible h" and "headers \<noteq> []"
    and "length headers \<le> 26" and "name = sheet_optical_cords \<Longrightarrow> 8 \<le> length headers"
    and "efold (read_cells [] name) rows (st\<lparr>va_sheets := va_sheets st @ [name]\<rparr>, [(1, enumerate 1 headers)]) =
      Inr (st\<lparr>va_sheets := va_sheets st @ [name]\<rparr>, (1, enumerate 1 headers) # found)"
    and "\<forall>r\<in>set rows. xml_tag r = main_tag ''row''"
  shows "read_sheet env allow_zero archive [] relationships sheet st =
    efold (read_row (re_sha256 env) allow_zero name headers) found (st\<lparr>va_sheets := va_sheets st @ [name]\<rparr>)"
proof -
  have rows: "concat (map (xml_findall ''row'') (xml_findall ''sheetData'' (written_sheet (written_row ''1'' headers # rows)))) =
      written_row ''1'' headers # rows"
    using assms(10) by (simp add: xml_findall_def written_sheet_def written_row_def)
  have "sheet_header name ((1, enumerate 1 headers) # found) st1 = (st1, enumerate 1 headers)" for st1
  proof -
    have "fst ` set (enumerate 1 headers) = {1..<1 + length headers}"
      by (simp only: set_map [symmetric] map_fst_enumerate set_upt)
    then show ?thesis using assms(8) by (auto simp: sheet_header_def Let_def)
  qed
  moreover have "relation_id \<noteq> ''name''" by (simp add: relation_id_def)
  ultimately show ?thesis
    using assms(1-4,9) read_written_row [OF assms(5,7,6), of "''1''" 1 name _ "[]"]
    by (simp add: read_sheet_def rows Let_def)
qed

section \<open>The sample\<close>

definition sample_splitter :: "string list" where
  "sample_splitter = [''PLC'', ''1x8'', ''SM'', ''1550'', ''SC'', ''1:8'', ''Box'', ''3'']"

definition sample_data_rows :: "string \<Rightarrow> xml list" where
  "sample_data_rows name = (if name = sheet_splitters then [written_row ''2'' sample_splitter] else [])"

definition digit_text :: "nat \<Rightarrow> string" where
  "digit_text k = [char_of (48 + k)]"

definition sample_relations :: xml where
  "sample_relations = Element ''Relationships'' [] None
     (map (\<lambda>k. Element ''Relationship'' [(''Id'', digit_text k), (''Target'', CHR ''/'' # digit_text k)] None [] None) [1..<10]) None"

definition sample_sheet_node :: "nat \<times> string \<times> string list \<Rightarrow> xml" where
  "sample_sheet_node p = Element (main_tag ''sheet'') [(''name'', fst (snd p)), (relation_id, digit_text (fst p))] None [] None"

definition sample_book :: xml where
  "sample_book = Element (main_tag ''workbook'') [] None
     [Element (main_tag ''sheets'') [] None (map sample_sheet_node (enumerate 1 SHEETS)) None] None"

definition sample_sheet :: "string \<times> string list \<Rightarrow> xml" where
  "sample_sheet p = written_sheet (written_row ''1'' (snd p) # sample_data_rows (fst p))"

definition sample_parts :: "(string \<times> xml) list" where
  "sample_parts =
     (''xl/_rels/workbook.xml.rels'', sample_relations) # (''xl/workbook.xml'', sample_book) #
     map (\<lambda>(k, p). (digit_text k, sample_sheet p)) (enumerate 1 SHEETS)"

definition sample_file :: source_file where
  "sample_file = \<lparr> sf_size = 1, sf_archive = Some (archive_of sample_parts) \<rparr>"

definition sample_xlsx_reader :: read_env where
  "sample_xlsx_reader = \<lparr> re_sha256 = sample_digest, re_parse_xml = parse_of sample_parts \<rparr>"

lemma sheets_shape: "length SHEETS = 9" "p \<in> set SHEETS \<Longrightarrow> snd p \<noteq> [] \<and> length (snd p) \<le> 9"
  by (auto simp: SHEETS_def)

lemma sheet_names: "distinct (map fst SHEETS)"
proof -
  have "distinct (map (map code_point) (map fst SHEETS))"
    by (simp add: SHEETS_def sheet_transceivers_def sheet_controllers_def sheet_network_def sheet_drives_def
        sheet_optical_cords_def sheet_memory_def sheet_power_cables_def sheet_splitters_def sheet_ethernet_cords_def
        points_code plain_point_def)
  then show ?thesis by (metis distinct_map)
qed

lemma sheets_legible:
  assumes "p \<in> set SHEETS"
  shows "\<forall>h\<in>set (snd p). legible h"
proof -
  have "legible ''ECC''" by (rule legible_text) (simp add: code_point_def cp_space_def)
  then have "\<forall>p\<in>set SHEETS. \<forall>h\<in>set (snd p). legible h"
    by (simp add: SHEETS_def legible_headers)
  then show ?thesis using assms by blast
qed

lemma sample_splitter_legible: "t \<in> set sample_splitter \<Longrightarrow> legible t"
  by (rule legible_text) (auto simp: sample_splitter_def code_point_def cp_space_def)

lemma digit_text_eq: "k < 10 \<Longrightarrow> l < 10 \<Longrightarrow> digit_text k = digit_text l \<longleftrightarrow> k = l"
  by (simp add: digit_text_def)


lemma sample_height: "xml_height (written_sheet rows) \<le> 2 + Max (insert 0 (xml_height ` set rows))"
  by (simp add: written_sheet_def)

lemma written_row_height: "xml_height (written_row row ts) \<le> 3"
proof -
  have "xml_height (written_cell row c) = 2" for c by (simp add: written_cell_def split: prod.splits)
  then have "Max (insert 0 (xml_height ` set (map (written_cell row) (enumerate 1 ts)))) \<le> 2"
    by (intro Max.boundedI) auto
  then show ?thesis by (simp only: written_row_def xml_height.simps)
qed

lemma sample_sheet_limits:
  assumes "p \<in> set SHEETS"
  shows "within_limits 0 [(sample_sheet p, 1)]"
proof (rule within_limitsI)
  have "length (snd p) \<le> 9" "length sample_splitter = 8" using sheets_shape(2) [OF assms] by (simp_all add: sample_splitter_def)
  then have "xml_nodes (sample_sheet p) \<le> 40"
    by (simp add: sample_sheet_def written_sheet_def sample_data_rows_def xml_nodes_written)
  then show "0 + sum_list (map (xml_nodes \<circ> fst) [(sample_sheet p, 1)]) \<le> MAX_XML_NODES"
    by (simp add: MAX_XML_NODES_def)
  have "Max (insert 0 (xml_height ` set (written_row ''1'' (snd p) # sample_data_rows (fst p)))) \<le> 3"
    using written_row_height by (intro Max.boundedI) (auto simp: sample_data_rows_def)
  then have "xml_height (sample_sheet p) \<le> 5"
    using sample_height [of "written_row ''1'' (snd p) # sample_data_rows (fst p)"] unfolding sample_sheet_def by linarith
  then show "\<forall>(x, level)\<in>set [(sample_sheet p, 1)]. level + xml_height x \<le> Suc MAX_XML_DEPTH"
    by (simp add: MAX_XML_DEPTH_def)
qed

lemma sample_book_limits: "within_limits 0 [(sample_book, 1)]"
proof (rule within_limitsI)
  have node: "xml_nodes (sample_sheet_node p) = 1" "xml_height (sample_sheet_node p) = 1" for p
    by (simp_all add: sample_sheet_node_def)
  then have "map xml_nodes (map sample_sheet_node (enumerate 1 SHEETS)) = replicate 9 1"
    by (simp add: comp_def map_replicate_const sheets_shape)
  then have "xml_nodes sample_book = 11" by (simp add: sample_book_def sum_list_replicate)
  moreover have "Max (insert 0 (xml_height ` set (map sample_sheet_node (enumerate 1 SHEETS)))) \<le> 1"
    by (intro Max.boundedI) (auto simp: node)
  then have "xml_height sample_book \<le> 3" by (simp add: sample_book_def)
  ultimately show "0 + sum_list (map (xml_nodes \<circ> fst) [(sample_book, 1)]) \<le> MAX_XML_NODES"
    "\<forall>(x, level)\<in>set [(sample_book, 1)]. level + xml_height x \<le> Suc MAX_XML_DEPTH"
    by (simp_all add: MAX_XML_NODES_def MAX_XML_DEPTH_def)
qed

lemma sample_relations_limits: "within_limits 0 [(sample_relations, 1)]"
  by (rule within_limitsI) (simp_all add: sample_relations_def comp_def sum_list_triv MAX_XML_NODES_def MAX_XML_DEPTH_def)

lemma sample_part_names: "distinct (map fst sample_parts)"
proof -
  have "map (\<lambda>(k, p). digit_text k) (enumerate 1 SHEETS) = map digit_text [1..<10]"
  proof -
    have "map (\<lambda>(k, p). digit_text k) ps = map digit_text (map fst ps)"
      for ps :: "(nat \<times> string \<times> string list) list" by auto
    note this [of "enumerate 1 SHEETS", unfolded map_fst_enumerate]
    then show ?thesis by (simp add: sheets_shape)
  qed
  moreover have "inj_on digit_text (set [1..<10])" using digit_text_eq by (auto simp: inj_on_def)
  then have "distinct (map digit_text [1..<10])" by (simp add: distinct_map)
  moreover have "s \<noteq> digit_text k" if "1 < length s" for s k using that by (auto simp: digit_text_def)
  ultimately show ?thesis by (auto simp: sample_parts_def comp_def case_prod_beta')
qed


section \<open>Reading it\<close>

lemma sample_relationships:
  "\<exists>rel. read_relationships sample_xlsx_reader (archive_of sample_parts) = Some rel \<and>
    (\<forall>k\<in>{1..<10}. map_of rel (digit_text k) = Some (CHR ''/'' # digit_text k))"
proof -
  let ?pair = "\<lambda>k. (digit_text k, CHR ''/'' # digit_text k)"
  have "read_xml sample_xlsx_reader (archive_of sample_parts) ''xl/_rels/workbook.xml.rels'' = Some sample_relations"
    by (rule read_part [OF sample_part_names _ _ sample_relations_limits]) (simp_all add: sample_parts_def sample_xlsx_reader_def)
  moreover have "those (map (\<lambda>k. Some (?pair k)) ks) = Some (map ?pair ks)" for ks by (induction ks) simp_all
  ultimately have "read_relationships sample_xlsx_reader (archive_of sample_parts) = Some (rev (map ?pair [1..<10]))"
    by (simp add: read_relationships_def sample_relations_def comp_def del: upt_rec_numeral)
  moreover have "map_of (rev (map ?pair [1..<10])) (digit_text k) = Some (CHR ''/'' # digit_text k)"
    if "k \<in> {1..<10}" for k
  proof (rule map_of_is_SomeI)
    have "inj_on digit_text (set [1..<10])" using digit_text_eq by (auto simp: inj_on_def)
    then show "distinct (map fst (rev (map ?pair [1..<10])))"
      by (simp add: rev_map [symmetric] comp_def distinct_map)
  qed (use that in auto)
  ultimately show ?thesis by blast
qed

lemma sample_member: "k \<in> {1..<10} \<Longrightarrow> sheet_member (CHR ''/'' # digit_text k) = digit_text k"
proof -
  assume "k \<in> {1..<10}"
  then have code: "(of_char (char_of (48 + k) :: char) :: nat) = 48 + k" by simp
  have "char_of (48 + k) \<noteq> CHR ''/''"
  proof
    assume "char_of (48 + k) = CHR ''/''"
    then have "(48 + k :: nat) = of_char (CHR ''/'')" using code by metis
    then show False by simp
  qed
  then show ?thesis by (simp add: sheet_member_def digit_text_def)
qed

lemma sample_sheet_read:
  assumes "(k, p) \<in> set (enumerate 1 SHEETS)"
  shows "k \<in> {1..<10}"
    and "read_xml sample_xlsx_reader (archive_of sample_parts) (digit_text k) = Some (sample_sheet p)"
    and "p \<in> set SHEETS"
proof -
  show "k \<in> {1..<10}" "p \<in> set SHEETS" using assms by (auto simp: in_set_enumerate_eq sheets_shape)
  then show "read_xml sample_xlsx_reader (archive_of sample_parts) (digit_text k) = Some (sample_sheet p)"
    by (intro read_part [OF sample_part_names _ _ sample_sheet_limits])
      (use assms in \<open>force simp: sample_parts_def sample_xlsx_reader_def\<close>)+
qed

lemma sample_sheet_rows:
  assumes node: "(k, name, headers) \<in> set (enumerate 1 SHEETS)"
    and rel: "map_of rel (digit_text k) = Some (CHR ''/'' # digit_text k)"
  shows "read_sheet sample_xlsx_reader True (archive_of sample_parts) [] rel (sample_sheet_node (k, name, headers)) st =
    efold (read_row sample_digest True name headers)
      (if name = sheet_splitters then [(2, enumerate 1 sample_splitter)] else [])
      (st\<lparr>va_sheets := va_sheets st @ [name]\<rparr>)"
proof -
  note read = sample_sheet_read [OF node]
  have "map_of SHEETS name = Some headers" using read(3) sheet_names by simp
  moreover have "length headers \<le> 26" "headers \<noteq> []" using sheets_shape(2) [OF read(3)] by simp_all
  moreover have "name = sheet_optical_cords \<Longrightarrow> 8 \<le> length headers"
    using \<open>map_of SHEETS name = Some headers\<close> sheet_names by (auto simp: SHEETS_def split: if_splits)
  moreover have "length sample_splitter \<le> 26" "sample_splitter \<noteq> []" by (simp_all add: sample_splitter_def)
  moreover have "read_xml sample_xlsx_reader (archive_of sample_parts) (sheet_member (CHR ''/'' # digit_text k)) =
      Some (written_sheet (written_row ''1'' headers # sample_data_rows name))"
    using read(2) by (simp only: sample_member [OF read(1)]) (simp add: sample_sheet_def)
  moreover have "efold (read_cells [] name) (sample_data_rows name) (st1, [(1, enumerate 1 headers)]) =
      Inr (st1, (1, enumerate 1 headers) # (if name = sheet_splitters then [(2, enumerate 1 sample_splitter)] else []))" for st1
    using read_written_row [of sample_splitter "''2''" 2 sheet_splitters st1 "[(1, enumerate 1 headers)]"]
      sample_splitter_legible \<open>length sample_splitter \<le> 26\<close> \<open>sample_splitter \<noteq> []\<close>
    by (simp add: sample_data_rows_def)
  moreover have "\<forall>r\<in>set (sample_data_rows name). xml_tag r = main_tag ''row''"
    by (simp add: sample_data_rows_def written_row_def)
  ultimately show ?thesis
    using rel sheets_legible [OF read(3)]
    by (subst read_written_sheet [where name = name and headers = headers and rid = "digit_text k"])
      (simp_all add: sample_sheet_node_def, simp_all add: sample_xlsx_reader_def)
qed


definition sample_equipment :: equipment where
  "sample_equipment = \<lparr> eq_category = ''optical_splitter'', eq_manufacturer = None, eq_model = None,
     eq_attributes = [(''type'', AText ''PLC''), (''configuration'', AText ''1x8''), (''fiber'', AText ''SM''),
       (''wavelength'', AText ''1550''), (''connector'', AText ''SC''), (''split_ratio'', AText ''1:8''),
       (''construction'', AText ''Box'')],
     eq_quantity = 3, eq_signature = replicate 64 (CHR ''0''), eq_sources = [sheet_splitters @ ''!'' @ int_str 2] \<rparr>"

lemma splitter_headers:
  "distinct [h_kind, h_configuration, h_fiber, h_wavelengths, h_connectors, h_split_ratio, h_construction, h_quantity,
     h_manufacturer, h_model]"
proof -
  have "distinct (map (map code_point) [h_kind, h_configuration, h_fiber, h_wavelengths, h_connectors, h_split_ratio,
     h_construction, h_quantity, h_manufacturer, h_model])"
    by (simp add: headers_defs points_code plain_point_def)
  then show ?thesis by (metis distinct_map)
qed

lemma splitter_sheet:
  "sheet_splitters \<notin> {sheet_transceivers, sheet_controllers, sheet_network, sheet_drives, sheet_optical_cords,
     sheet_memory, sheet_power_cables, sheet_ethernet_cords}"
  using sheet_names unfolding SHEETS_def by auto

lemma splitter_leaf: "leaf_keys ''optical_splitter'' =
    [''type'', ''configuration'', ''fiber'', ''wavelength'', ''connector'', ''split_ratio'', ''construction'']"
  by (simp add: leaf_keys_def LEAVES_def text_attribute_def)

lemma sample_quantity: "quantity_integer ''3'' True = Inr 3"
  by code_simp

abbreviation "splitter_columns \<equiv>
  [h_kind, h_configuration, h_fiber, h_wavelengths, h_connectors, h_split_ratio, h_construction, h_quantity]"

lemma splitter_sheet_columns: "map_of SHEETS sheet_splitters = Some splitter_columns"
  using splitter_sheet by (simp add: SHEETS_def)

lemma sample_splitter_row:
  "normalize_row sample_digest sheet_splitters (zip splitter_columns sample_splitter) (sheet_splitters @ ''!'' @ int_str 2) True =
    Inr sample_equipment"
proof -
  let ?row = "zip splitter_columns sample_splitter"
  have row: "?row = [(h_kind, ''PLC''), (h_configuration, ''1x8''), (h_fiber, ''SM''), (h_wavelengths, ''1550''),
      (h_connectors, ''SC''), (h_split_ratio, ''1:8''), (h_construction, ''Box''), (h_quantity, ''3'')]"
    by (simp add: sample_splitter_def)
  have category: "row_category sheet_splitters ?row = Inr (''optical_splitter'', leaf_keys ''optical_splitter'')"
    using splitter_sheet by (simp add: row_category_def generic_categories_def)
  have headers: "row_headers sheet_splitters ''optical_splitter'' = butlast splitter_columns"
    using splitter_sheet splitter_headers by (simp add: row_headers_def splitter_sheet_columns)
  have digest: "item_signature sample_digest c m n vs = replicate 64 (CHR ''0'')" for c m n vs
    by (simp add: item_signature_def sample_fingerprint Let_def)
  have cells: "map_of ?row h_kind = Some ''PLC''" "map_of ?row h_configuration = Some ''1x8''" "map_of ?row h_fiber = Some ''SM''"
    "map_of ?row h_wavelengths = Some ''1550''" "map_of ?row h_connectors = Some ''SC''" "map_of ?row h_split_ratio = Some ''1:8''"
    "map_of ?row h_construction = Some ''Box''" "map_of ?row h_quantity = Some ''3''" "map_of ?row h_manufacturer = None"
    "map_of ?row h_model = None"
    unfolding row using splitter_headers by auto
  have plain: "row_attribute ''optical_splitter'' key v = Inr [(key, AText v)]"
    if "key \<in> set (leaf_keys ''optical_splitter'')" for key v
    using that by (auto simp: row_attribute_def splitter_leaf)
  show ?thesis
    by (simp add: normalize_row_def Let_def category headers splitter_leaf plain row_check_def row_value_def cells
        sample_quantity digest or_empty_def sample_equipment_def)
qed

lemma sample_row_read:
  "read_row sample_digest True sheet_splitters splitter_columns (2, enumerate 1 sample_splitter) st =
    Inr (st\<lparr>va_raw_rows := va_raw_rows st + 1, va_source_quantity := va_source_quantity st + 3,
      va_items := add_equipment sample_equipment (va_items st)\<rparr>)"
proof -
  have row: "map (\<lambda>(index, h). (h, or_empty (map_of (enumerate 1 sample_splitter) index))) (enumerate 1 splitter_columns) =
      zip splitter_columns sample_splitter"
    by (simp add: sample_splitter_def or_empty_def)
  have quantity: "ebind (row_value (zip splitter_columns sample_splitter) h_quantity) (\<lambda>v. quantity_integer v True) = Inr 3"
    using splitter_headers by (simp add: row_value_def sample_splitter_def sample_quantity) (auto simp: sample_quantity)
  have columns: "row_check (set (map fst (enumerate 1 sample_splitter)) \<subseteq> set (map fst (enumerate 1 splitter_columns))) = Inr ()"
    by (simp add: sample_splitter_def row_check_def)
  have filled: "row_check (\<forall>(h, v)\<in>set (zip splitter_columns sample_splitter). v \<noteq> [] \<or> blank_allowed sheet_splitters h) = Inr ()"
    by (simp add: sample_splitter_def row_check_def)
  show ?thesis
    unfolding read_row_def Let_def prod.case row quantity sum.case columns filled ebind_simps sample_splitter_row by simp
qed

lemma sample_read:
  "\<exists>st. read_archive sample_xlsx_reader True sample_file = Inr st \<and> va_errors st = [] \<and> va_raw_rows st = 1 \<and>
     va_source_quantity st = 3 \<and> va_items st = [sample_equipment]"
proof -
  obtain rel where rel: "read_relationships sample_xlsx_reader (archive_of sample_parts) = Some rel"
    and ids: "\<And>k. k \<in> {1..<10} \<Longrightarrow> map_of rel (digit_text k) = Some (CHR ''/'' # digit_text k)"
    using sample_relationships by blast
  let ?f = "read_sheet sample_xlsx_reader True (archive_of sample_parts) [] rel"
  have sheet: "?f (sample_sheet_node (k, name, headers)) st =
      efold (read_row sample_digest True name headers)
        (if name = sheet_splitters then [(2, enumerate 1 sample_splitter)] else [])
        (st\<lparr>va_sheets := va_sheets st @ [name]\<rparr>)"
    if "(k, name, headers) \<in> set (enumerate 1 SHEETS)" for k name headers st
    using sample_sheet_rows [OF that ids] sample_sheet_read(1) [OF that] by simp
  have header_only: "efold ?f (map sample_sheet_node ps) st = Inr (st\<lparr>va_sheets := va_sheets st @ map (fst \<circ> snd) ps\<rparr>)"
    if "set ps \<subseteq> set (enumerate 1 SHEETS)" "sheet_splitters \<notin> fst ` snd ` set ps" for ps st
    using that
  proof (induction ps arbitrary: st)
    case (Cons p ps)
    obtain k name headers where p: "p = (k, name, headers)" by (metis surj_pair)
    show ?case using Cons sheet [of k name headers st] by (auto simp: p)
  qed simp
  obtain before after where split: "enumerate 1 SHEETS = before @ (8, sheet_splitters, splitter_columns) # after"
    and away: "sheet_splitters \<notin> fst ` snd ` set before" "sheet_splitters \<notin> fst ` snd ` set after"
  proof
    show "enumerate 1 SHEETS = take 7 (enumerate 1 SHEETS) @ (8, sheet_splitters, splitter_columns) # drop 8 (enumerate 1 SHEETS)"
      "sheet_splitters \<notin> fst ` snd ` set (take 7 (enumerate 1 SHEETS))" "sheet_splitters \<notin> fst ` snd ` set (drop 8 (enumerate 1 SHEETS))"
      using splitter_sheet by (simp_all add: SHEETS_def)
  qed
  let ?st1 = "empty_validation\<lparr>va_sheets := map (fst \<circ> snd) before @ [sheet_splitters], va_raw_rows := 1,
    va_source_quantity := 3, va_items := [sample_equipment]\<rparr>"
  have "efold ?f (map sample_sheet_node (enumerate 1 SHEETS)) empty_validation =
      Inr (?st1\<lparr>va_sheets := map (fst \<circ> snd) (enumerate 1 SHEETS)\<rparr>)"
  proof -
    have "efold ?f (map sample_sheet_node before) empty_validation =
        Inr (empty_validation\<lparr>va_sheets := map (fst \<circ> snd) before\<rparr>)"
      by (subst header_only) (use split away in \<open>auto simp: empty_validation_def\<close>)
    moreover have "?f (sample_sheet_node (8, sheet_splitters, splitter_columns)) (empty_validation\<lparr>va_sheets := map (fst \<circ> snd) before\<rparr>) =
        Inr ?st1"
      by (subst sheet) (use split in \<open>auto simp: sample_row_read [unfolded One_nat_def] add_equipment_def empty_validation_def\<close>)
    moreover have "efold ?f (map sample_sheet_node after) ?st1 = Inr (?st1\<lparr>va_sheets := map (fst \<circ> snd) (enumerate 1 SHEETS)\<rparr>)"
      by (subst header_only) (use split away in auto)
    ultimately show ?thesis by (simp add: split [unfolded One_nat_def] efold_append)
  qed
  moreover have "map (fst \<circ> snd) (enumerate 1 SHEETS) = map fst SHEETS"
    by (metis map_map map_snd_enumerate)
  moreover have "check_archive sample_file = Some (archive_of sample_parts)"
  proof -
    have "length sample_parts = 11" by (simp add: sample_parts_def sheets_shape)
    moreover have "sum_list (map zm_file_size (archive_of parts)) = length parts" for parts
      unfolding archive_of_def by (induction parts rule: rev_induct) (simp_all add: enumerate_append_eq)
    moreover have "m \<in> set (archive_of parts) \<Longrightarrow> \<not> zm_encrypted m" for m parts by (auto simp: archive_of_def)
    moreover have "length (archive_of parts) = length parts" for parts by (simp add: archive_of_def)
    ultimately show ?thesis
      by (auto simp: check_archive_def sample_file_def MAX_WORKBOOK_BYTES_def MAX_ARCHIVE_MEMBERS_def
          MAX_UNCOMPRESSED_BYTES_def archive_names sample_part_names)
  qed
  moreover have "read_xml sample_xlsx_reader (archive_of sample_parts) ''xl/workbook.xml'' = Some sample_book"
    by (rule read_part [OF sample_part_names _ _ sample_book_limits]) (simp_all add: sample_parts_def sample_xlsx_reader_def)
  moreover have "shared_strings sample_xlsx_reader (archive_of sample_parts) = Some []"
  proof -
    have "''xl/sharedStrings.xml'' \<notin> set (map fst sample_parts)" by (auto simp: sample_parts_def digit_text_def)
    then show ?thesis by (simp add: shared_strings_def archive_names)
  qed
  moreover have "concat (map (xml_findall ''sheet'') (xml_findall ''sheets'' sample_book)) = map sample_sheet_node (enumerate 1 SHEETS)"
    by (simp add: xml_findall_def sample_book_def filter_id_conv) (simp add: sample_sheet_node_def)
  ultimately show ?thesis
    using rel by (simp add: read_archive_def missing_worksheets_def empty_validation_def)
qed


lemma sample_workbook:
  "va_errors (read_workbook sample_xlsx_reader (Some sample_file) True) = []"
  "va_raw_rows (read_workbook sample_xlsx_reader (Some sample_file) True) = 1"
  "va_source_quantity (read_workbook sample_xlsx_reader (Some sample_file) True) = 3"
  "va_items (read_workbook sample_xlsx_reader (Some sample_file) True) = [sample_equipment]"
  using sample_read by (auto simp: read_workbook_def)

end
