(* ===== verification/Bootstrap_Samples.thy ===== *)
theory Bootstrap_Samples
  imports Bootstrap Workbook_Samples Catalog_Api_Proofs
begin

text \<open>
  The first load of the sample workbook into the sample deployment, step by step: the location, the
  item of the splitter, and the receipt.
\<close>

section \<open>Loading it\<close>

definition sample_load_schema :: catalog_schema where
  "sample_load_schema = \<lparr> cs_categories =
     [\<lparr> cat_id = 33, cat_key = ''optics'', cat_display_name = ''Optics'', cat_parent_id = None, cat_sort_order = 1 \<rparr>,
      \<lparr> cat_id = 34, cat_key = ''optical_splitter'', cat_display_name = ''Splitters'', cat_parent_id = Some 33,
         cat_sort_order = 2 \<rparr>],
     cs_attributes =
     [sample_attribute 1 34 ''type'' DT_TEXT True, sample_attribute 2 34 ''configuration'' DT_TEXT True,
      sample_attribute 3 34 ''fiber'' DT_TEXT True, sample_attribute 4 34 ''wavelength'' DT_TEXT True,
      sample_attribute 5 34 ''connector'' DT_TEXT True, sample_attribute 6 34 ''split_ratio'' DT_TEXT True,
      sample_attribute 7 34 ''construction'' DT_TEXT True] \<rparr>"

definition sample_load_env :: bootstrap_env where
  "sample_load_env = \<lparr> bs_catalog = \<lparr> ce_schema = sample_load_schema, ce_sha256 = sample_digest \<rparr>, bs_now = 5,
     bs_location_id = 10, bs_movement_id = 100, bs_manufacturer_id = (\<lambda>k. 40 + of_nat k), bs_item_id = (\<lambda>k. 70 + of_nat k) \<rparr>"

definition sample_unfilled :: db where
  "sample_unfilled = sample_db\<lparr>items := [], locations := []\<rparr>"

definition sample_place :: location_create where
  "sample_place = \<lparr> lcr_code = ''WH1'', lcr_name = ''WH1'', lcr_location_type = WAREHOUSE, lcr_address = None \<rparr>"

definition sample_opened :: db where
  "sample_opened = sample_db\<lparr>items := [], locations := [sample_location 10 ''WH1'' ''wh1'']\<rparr>"

lemma sample_unfilled_inv: "warehouse_inv sample_unfilled" "count_warehouse sample_unfilled = no_rows"
proof -
  show "warehouse_inv sample_unfilled"
    by (rule warehouse_inv_cong [OF sample_db_inv])
      (use sample_db_inv in \<open>simp_all add: sample_unfilled_def warehouse_inv_def custody_holders_eligible_def custody_holder_eligible_def\<close>)
  show "count_warehouse sample_unfilled = no_rows"
    by (simp add: count_warehouse_def no_rows_def sample_unfilled_def sample_db_def empty_db_def)
qed

lemma sample_place_created:
  "create_location sample_unfilled 10 (sample_place\<lparr>lcr_address := None\<rparr>) = Inr (sample_opened, sample_location 10 ''WH1'' ''wh1'')"
proof -
  have "normalize_idempotency_key ''WH1'' = ''WH1''" "identity_text ''WH1'' = ''wh1''" "btrim ''WH1'' \<noteq> []" "btrim ''wh1'' \<noteq> []"
    by code_simp+
  then show ?thesis
    by (simp add: create_location_def normalize_inline_text_def insert_location_def sample_place_def sample_opened_def
        sample_unfilled_def sample_location_def normalize_optional_text_def Let_def)
qed

definition sample_name :: string where
  "sample_name = ''PLC'' @ name_separator @ ''1x8'' @ name_separator @ ''SC'' @ name_separator @ ''1:8''"

definition sample_splitter_payload :: item_create where
  "sample_splitter_payload = \<lparr> ic_category_key = ''optical_splitter'', ic_manufacturer_id = None, ic_name = sample_name,
     ic_model = None, ic_attributes = [(''type'', RStr ''PLC''), (''configuration'', RStr ''1x8''), (''fiber'', RStr ''SM''),
       (''wavelength'', RStr ''1550''), (''connector'', RStr ''SC''), (''split_ratio'', RStr ''1:8''),
       (''construction'', RStr ''Box'')] \<rparr>"

lemma sample_import_payload: "import_payload sample_equipment None = sample_splitter_payload"
  by (simp add: import_payload_def sample_splitter_payload_def equipment_name_def sample_name_def name_keys_def
      sample_equipment_def List.map_filter_def or_empty_def Let_def)

lemma point_char_space: "point_char 32 = CHR '' ''"
  using point_char_code_point [of "CHR '' ''"] by (simp add: code_point_def)

lemma sample_name_words: "sample_name = py_join '' '' [''PLC'', [point_char 183], ''1x8'', [point_char 183], ''SC'', [point_char 183], ''1:8'']"
  by (simp add: sample_name_def name_separator_def points_text_def point_char_space)

lemma sample_name_text:
  "normalize_idempotency_key sample_name = sample_name" "sample_name \<noteq> []" "length sample_name = 20" "btrim sample_name \<noteq> []"
proof -
  have "words_ok [''PLC'', [point_char 183], ''1x8'', [point_char 183], ''SC'', [point_char 183], ''1:8'']"
    by (simp add: words_ok_def is_space_def point_char_def)
  then show "normalize_idempotency_key sample_name = sample_name"
    unfolding sample_name_words normalize_idempotency_key_def by (simp only: split_join)
qed (simp_all add: sample_name_words btrim_eq_Nil)


lemma sample_load_schema_ok: "schema_ok sample_load_schema"
  by (simp add: schema_ok_def sample_load_schema_def sample_attribute_def)

lemma sample_load_texts:
  "normalize_category_key ''optical_splitter'' = Inr ''optical_splitter''"
  "normalize_idempotency_key ''PLC'' = ''PLC''" "normalize_idempotency_key ''1x8'' = ''1x8''"
  "normalize_idempotency_key ''SM'' = ''SM''" "normalize_idempotency_key ''1550'' = ''1550''"
  "normalize_idempotency_key ''SC'' = ''SC''" "normalize_idempotency_key ''1:8'' = ''1:8''"
  "normalize_idempotency_key ''Box'' = ''Box''"
  by code_simp+

lemma sample_load_attributes:
  "get_category_attributes sample_load_schema 34 = cs_attributes sample_load_schema"
  by (simp add: get_category_attributes_def sample_load_schema_def sample_attribute_def)

lemma sample_splitter_validates:
  "validate_attribute_values 34 (get_category_attributes sample_load_schema 34) (ic_attributes sample_splitter_payload) =
    Inr (eq_attributes sample_equipment)"
  unfolding sample_load_attributes
  by (simp add: sample_load_schema_def validation_simps sample_load_texts sample_splitter_payload_def sample_equipment_def)

lemma sample_splitter_valid:
  "\<exists>v. validate_item_create_payload (bs_catalog sample_load_env) sample_opened sample_splitter_payload = Inr v \<and>
     vd_name v = sample_name \<and> vd_model v = None"
proof -
  have "cs_categories sample_load_schema =
     [\<lparr> cat_id = 33, cat_key = ''optics'', cat_display_name = ''Optics'', cat_parent_id = None, cat_sort_order = 1 \<rparr>,
      \<lparr> cat_id = 34, cat_key = ''optical_splitter'', cat_display_name = ''Splitters'', cat_parent_id = Some 33,
         cat_sort_order = 2 \<rparr>]"
    by (simp add: sample_load_schema_def)
  moreover have "ic_category_key sample_splitter_payload = ''optical_splitter''" "ic_manufacturer_id sample_splitter_payload = None"
    "ic_model sample_splitter_payload = None" "ic_name sample_splitter_payload = sample_name"
    by (simp_all add: sample_splitter_payload_def)
  ultimately show ?thesis
    by (simp add: sample_drafts sample_load_env_def sample_load_texts sample_splitter_validates sample_name_text)
qed

lemma sample_splitter_created:
  "\<exists>it. create_item (bs_catalog sample_load_env) 70 sample_opened sample_splitter_payload =
      Inr (sample_opened\<lparr>items := [it]\<rparr>, 70) \<and> it_id it = 70 \<and> it_name it = sample_name \<and> it_manufacturer_id it = None \<and>
      it_model it = None \<and> it_status it = ITEM_ACTIVE"
proof -
  obtain v where v: "validate_item_create_payload (bs_catalog sample_load_env) sample_opened sample_splitter_payload = Inr v"
    "vd_name v = sample_name" "vd_model v = None" using sample_splitter_valid by blast
  have dup: "check_duplicate_candidates (bs_catalog sample_load_env) sample_opened sample_splitter_payload None = Inr []"
    using v(1) unfolding validate_item_Inr by (auto simp: check_duplicate_candidates_def sample_opened_def)
  have "no_separators ''PLC''" "no_separators ''1x8''" "no_separators ''SM''" "no_separators ''1550''" "no_separators ''SC''"
    "no_separators ''1:8''" "no_separators ''Box''" by (simp_all add: no_separators_def)
  moreover have "CHR 0x00 \<notin> set name_separator"
    by (simp add: name_separator_def points_text_def point_char_def nul_code of_char_of)
  ultimately have "clean_payload sample_splitter_payload"
    by (simp add: clean_payload_def sample_splitter_payload_def blank_model_def or_empty_def sample_name_def)
  then obtain d' where made: "create_item (bs_catalog sample_load_env) 70 sample_opened sample_splitter_payload = Inr (d', 70)"
    using create_clean_item [OF _ _ _ _ v(1), of 70] dup sample_load_schema_ok
    by (auto simp: sample_load_env_def sample_digest_def sample_opened_def sample_db_def empty_db_def manufacturers_ok_def)
  moreover have "items sample_opened = []" by (simp add: sample_opened_def)
  ultimately have "d' = sample_opened\<lparr>items := [drafted_item 70 sample_splitter_payload v]\<rparr>"
    by (auto simp: create_item_alt v(1) result_simps insert_item_Inr)
  then show ?thesis using made v by (auto simp: drafted_item_def sample_splitter_payload_def)
qed

definition sample_load_line :: movement_line_create where
  "sample_load_line = \<lparr> lc_item_id = 70, lc_quantity = 3 \<rparr>"

lemma sample_load_keys [eval_simps]:
  "normalize_idempotency_key ''inventory-workbook-bootstrap-v2'' = ''inventory-workbook-bootstrap-v2''"
  by code_simp

lemma sample_importer [eval_simps]:
  "normalize_idempotency_key importer_name = importer_name" "importer_name \<noteq> []" "length importer_name = 37" "btrim importer_name \<noteq> []"
proof -
  let ?ws = "[points_text [1040, 1076, 1084, 1080, 1085, 1080, 1089, 1090, 1088, 1072, 1090, 1086, 1088], [point_char 183],
    points_text [1080, 1084, 1087, 1086, 1088, 1090],
    points_text [105, 110, 118, 101, 110, 116, 111, 114, 121, 46, 120, 108, 115, 120]]"
  have name: "importer_name = py_join '' '' ?ws"
    by (simp add: importer_name_def points_text_def point_char_space)
  have dot: "\<not> is_space (point_char 183)" by (simp add: is_space_def point_char_def)
  have word: "points_text ns \<noteq> [] \<and> (\<forall>c\<in>set (points_text ns). \<not> is_space c)"
    if "ns \<noteq> []" "list_all (\<lambda>n. plain_point n \<and> \<not> cp_space n) ns" for ns
    using that space_point by (fastforce simp: points_text_def list_all_iff point_code)
  have words: "words_ok ?ws"
    unfolding words_ok_def set_simps ball_simps
    by (intro conjI word [THEN conjunct1] word [THEN conjunct2]) (simp_all add: dot plain_point_def cp_space_def)
  then show "normalize_idempotency_key importer_name = importer_name"
    unfolding name normalize_idempotency_key_def by (simp only: split_join)
  show "btrim importer_name \<noteq> []"
    using words by (auto simp: name btrim_eq_Nil words_ok_def points_text_def)
qed (simp_all add: importer_name_def points_text_def)

lemma sample_load_booked:
  assumes "it_id it = 70" "it_name it = sample_name" "it_manufacturer_id it = None" "it_model it = None" "it_status it = ITEM_ACTIVE"
  shows "\<exists>d' r. create_movement sample_digest (sample_opened\<lparr>items := [it]\<rparr>) 100 5 (import_receipt 10 [sample_load_line]) 2
    importer_name None = Inr (d', r)"
  by (simp add: eval_simps assms import_receipt_def sample_load_line_def sample_opened_def sample_data Let_def sample_name_text)


lemma sample_import_run:
  "\<exists>d' mid. import_inventory sample_load_env sample_opened (read_workbook sample_xlsx_reader (Some sample_file) True)
     (uuid_str 10) 2 = Inr (d', mid)"
proof -
  obtain it where it: "create_item (bs_catalog sample_load_env) 70 sample_opened sample_splitter_payload =
      Inr (sample_opened\<lparr>items := [it]\<rparr>, 70)"
    and row: "it_id it = 70" "it_name it = sample_name" "it_manufacturer_id it = None" "it_model it = None" "it_status it = ITEM_ACTIVE"
    using sample_splitter_created by blast
  obtain d' r where booked: "create_movement sample_digest (sample_opened\<lparr>items := [it]\<rparr>) 100 5
      (import_receipt 10 [sample_load_line]) 2 importer_name None = Inr (d', r)"
    using sample_load_booked [OF row] by blast
  have valid: "item_create_valid sample_splitter_payload" "movement_line_create_valid sample_load_line"
    "movement_create_valid (import_receipt 10 [sample_load_line])"
    by (simp_all add: item_create_valid_def sample_splitter_payload_def sample_name_text or_empty_def
        movement_line_create_valid_def movement_create_valid_def sample_load_line_def import_receipt_def MAX_SAFE_QUANTITY_def)
  have "import_line sample_load_env (0, sample_equipment) (sample_opened, []) =
      Inr (sample_opened\<lparr>items := [it]\<rparr>, [sample_load_line])"
  proof -
    have "import_manufacturer sample_load_env 0 sample_equipment sample_opened = Inr (sample_opened, None)"
      by (simp add: import_manufacturer_def sample_equipment_def or_empty_def)
    moreover have "bs_item_id sample_load_env 0 = 70" "eq_quantity sample_equipment = 3"
      by (simp_all add: sample_load_env_def sample_equipment_def)
    ultimately show ?thesis
      using valid it by (simp add: import_line_def sample_import_payload sample_load_line_def)
  qed
  moreover have "items sample_opened = []" "movements sample_opened = []" "locations sample_opened = [sample_location 10 ''WH1'' ''wh1'']"
    "get_user sample_opened 2 = Some (sample_user 2 ADMIN APPROVED)"
    by (simp_all add: sample_opened_def sample_db_def empty_db_def get_user_def sample_user_def)
  moreover have "loc_id (sample_location 10 ''WH1'' ''wh1'') = 10" "loc_status (sample_location 10 ''WH1'' ''wh1'') = LOC_ACTIVE"
    "u_role (sample_user 2 ADMIN APPROVED) = ADMIN" "u_access_status (sample_user 2 ADMIN APPROVED) = APPROVED"
    by (simp_all add: sample_location_def sample_user_def)
  moreover have "ce_sha256 (bs_catalog sample_load_env) = sample_digest" "bs_movement_id sample_load_env = 100" "bs_now sample_load_env = 5"
    by (simp_all add: sample_load_env_def)
  ultimately show ?thesis
    using valid booked by (simp add: import_inventory_def sample_workbook has_capability_def)
qed

end
