(* ===== verification/Bootstrap_Proofs.thy ===== *)
theory Bootstrap_Proofs
  imports Bootstrap_Samples Catalog_Steps Procurement_Steps
begin

text \<open>
  The first load books the workbook: what is read adds up to the figures of the file, the import
  turns it into one item per piece of equipment and one receipt, and the comparison at the end of
  the load never finds a difference.
\<close>

section \<open>Reading\<close>

definition adds_up :: "validation \<Rightarrow> bool" where
  "adds_up v \<longleftrightarrow>
     distinct (map eq_signature (va_items v)) \<and> (\<forall>e\<in>set (va_items v). 0 \<le> eq_quantity e) \<and>
     sum_list (map eq_quantity (va_items v)) = va_source_quantity v \<and>
     int (sum_list (map (length \<circ> eq_sources) (va_items v))) = va_raw_rows v"

definition reading_inv :: "validation \<Rightarrow> bool" where
  "reading_inv v \<longleftrightarrow> (va_errors v = [] \<longrightarrow> adds_up v)"

lemma reading_inv_simps [simp]:
  "reading_inv empty_validation" "reading_inv (note_issue e v)"
  "reading_inv (v\<lparr>va_sheets := names\<rparr>) = reading_inv v" "reading_inv (v\<lparr>va_warnings := ws\<rparr>) = reading_inv v"
  by (simp_all add: reading_inv_def adds_up_def empty_validation_def note_issue_def)

lemma quantity_not_negative: "quantity_integer v allow_zero = Inr q \<Longrightarrow> 0 \<le> q"
  by (auto simp: quantity_integer_def bounded_integer_def split: option.splits if_splits)

lemma normalized_row:
  assumes "normalize_row sha256 name row source allow_zero = Inr e"
  shows "length (eq_sources e) = 1 \<and> 0 \<le> eq_quantity e \<and>
    ebind (row_value row h_quantity) (\<lambda>v. quantity_integer v allow_zero) = Inr (eq_quantity e)"
  using assms by (auto simp: normalize_row_def Let_def result_simps dest: quantity_not_negative)

lemma sum_add_equipment:
  assumes "distinct (map eq_signature es)"
  shows "distinct (map eq_signature (add_equipment e es))"
    and "sum_list (map eq_quantity (add_equipment e es)) = sum_list (map eq_quantity es) + eq_quantity e"
    and "sum_list (map (length \<circ> eq_sources) (add_equipment e es)) =
      sum_list (map (length \<circ> eq_sources) es) + length (eq_sources e)"
proof -
  let ?f = "\<lambda>x. if eq_signature x = eq_signature e
    then x\<lparr>eq_quantity := eq_quantity x + eq_quantity e, eq_sources := eq_sources x @ eq_sources e\<rparr> else x"
  have sig: "map eq_signature (map ?f es) = map eq_signature es" by (induction es) auto
  have other: "map ?f xs = xs" if "eq_signature e \<notin> eq_signature ` set xs" for xs
    using that by (induction xs) auto
  have sums: "sum_list (map eq_quantity (map ?f es)) = sum_list (map eq_quantity es) + eq_quantity e \<and>
      sum_list (map (length \<circ> eq_sources) (map ?f es)) = sum_list (map (length \<circ> eq_sources) es) + length (eq_sources e)"
    if "eq_signature e \<in> eq_signature ` set es"
    using that assms
  proof (induction es)
    case (Cons x xs)
    show ?case
    proof (cases "eq_signature x = eq_signature e")
      case True
      then have "map ?f xs = xs" using Cons.prems(2) by (intro other) auto
      then show ?thesis using True by simp
    next
      case False
      then show ?thesis using Cons by auto
    qed
  qed simp
  show "distinct (map eq_signature (add_equipment e es))"
    unfolding add_equipment_def using assms by (simp only: sig split: if_splits) auto
  show "sum_list (map eq_quantity (add_equipment e es)) = sum_list (map eq_quantity es) + eq_quantity e"
    "sum_list (map (length \<circ> eq_sources) (add_equipment e es)) =
      sum_list (map (length \<circ> eq_sources) es) + length (eq_sources e)"
    unfolding add_equipment_def using sums by auto
qed

lemma add_equipment_nonneg:
  "\<forall>x\<in>set es. 0 \<le> eq_quantity x \<Longrightarrow> 0 \<le> eq_quantity e \<Longrightarrow> x \<in> set (add_equipment e es) \<Longrightarrow> 0 \<le> eq_quantity x"
  by (auto simp: add_equipment_def split: if_splits)

lemma read_row_inv:
  assumes inv: "reading_inv st" and run: "read_row sha256 allow_zero name headers numbered st = Inr st'"
  shows "reading_inv st'"
proof (cases "va_errors st' = []")
  case True
  obtain number cells where n: "numbered = (number, cells)" by (cases numbered)
  from run True obtain q e where q: "st' = st\<lparr>va_raw_rows := va_raw_rows st + 1,
       va_source_quantity := va_source_quantity st + eq_quantity e, va_items := add_equipment e (va_items st)\<rparr>"
    and e: "length (eq_sources e) = 1" "0 \<le> eq_quantity e"
    unfolding n read_row_def Let_def
    by (auto simp: note_issue_def result_simps split: sum.splits row_error.splits
        dest!: normalized_row)
  from True q have "va_errors st = []" by simp
  with inv have ok: "adds_up st" by (simp add: reading_inv_def)
  then have "distinct (map eq_signature (va_items st))" by (simp add: adds_up_def)
  note sums = sum_add_equipment [OF this, of e]
  show ?thesis
    using ok sums e by (auto simp: reading_inv_def q adds_up_def dest: add_equipment_nonneg)
qed (simp add: reading_inv_def)

text \<open>The errors found while the cells are read do not touch the figures.\<close>

definition same_figures :: "validation \<Rightarrow> validation \<Rightarrow> bool" where
  "same_figures v v' \<longleftrightarrow> va_items v' = va_items v \<and> va_source_quantity v' = va_source_quantity v \<and>
     va_raw_rows v' = va_raw_rows v \<and> (va_errors v' = [] \<longrightarrow> va_errors v = [])"

lemma same_figures_refl [simp]: "same_figures v v"
  by (simp add: same_figures_def)

lemma same_figures_trans: "same_figures a b \<Longrightarrow> same_figures b c \<Longrightarrow> same_figures a c"
  by (simp add: same_figures_def)

lemma same_figures_inv: "same_figures v v' \<Longrightarrow> reading_inv v \<Longrightarrow> reading_inv v'"
  by (simp add: same_figures_def reading_inv_def adds_up_def)

lemma read_cell_figures:
  assumes "read_cell strings name cell st = Inr st'"
  shows "same_figures (fst st) (fst st')"
  using assms
  by (auto simp: read_cell_def Let_def same_figures_def note_issue_def split: option.splits if_splits)

lemma read_cells_figures:
  assumes "read_cells strings name xml_row st = Inr st'"
  shows "same_figures (fst st) (fst st')"
proof -
  obtain found cells where run: "efold (read_cell strings name) (xml_findall ''c'' xml_row) (fst st, []) = Inr (found, cells)"
    and st': "fst st' = found"
    using assms by (auto simp: read_cells_def result_simps split: if_splits option.splits)
  from run have "same_figures (fst st) (fst (found, cells))"
    by (rule efold_invariant [where P = "\<lambda>s. same_figures (fst st) (fst s)"])
      (auto dest: read_cell_figures intro: same_figures_trans)
  with st' show ?thesis by simp
qed

lemma read_sheet_inv:
  assumes inv: "reading_inv st"
    and run: "read_sheet env allow_zero archive strings relationships sheet st = Inr st'"
  shows "reading_inv st'"
proof -
  obtain name where name: "map_of (xml_attrib sheet) ''name'' = Some name"
    using run by (auto simp: read_sheet_def result_simps)
  let ?st1 = "st\<lparr>va_sheets := va_sheets st @ [name]\<rparr>"
  show ?thesis
  proof (cases "map_of SHEETS name")
    case None
    then show ?thesis using run name by (auto simp: read_sheet_def result_simps Let_def)
  next
    case (Some headers)
    with run name obtain root st2 rows where
      rows: "efold (read_cells strings name)
        (concat (map (xml_findall ''row'') (xml_findall ''sheetData'' root))) (?st1, []) = Inr (st2, rows)"
      and rest: "(let (st3, header) = sheet_header name rows st2 in
         if set header \<noteq> set (enumerate 1 headers) then Inr (note_issue (Headers_Differ name) st3)
         else efold (read_row (re_sha256 env) allow_zero name headers) (drop 1 rows) st3) = Inr st'"
      by (auto simp: read_sheet_def result_simps Let_def)
    from rows have "same_figures ?st1 (fst (st2, rows))"
      by (rule efold_invariant [where P = "\<lambda>s. same_figures ?st1 (fst s)"])
        (auto dest: read_cells_figures intro: same_figures_trans)
    then have "reading_inv st2" using same_figures_inv inv by fastforce
    then have start: "reading_inv (fst (sheet_header name rows st2))" by (simp add: sheet_header_def Let_def)
    obtain st3 header where h: "sheet_header name rows st2 = (st3, header)" by (metis surj_pair)
    show ?thesis
    proof (cases "set header = set (enumerate 1 headers)")
      case True
      then have "efold (read_row (re_sha256 env) allow_zero name headers) (drop 1 rows) st3 = Inr st'"
        using rest by (simp add: h)
      then show ?thesis
        by (rule efold_invariant [where P = reading_inv]) (use start h read_row_inv in auto)
    next
      case False
      then have "st' = note_issue (Headers_Differ name) st3" using rest by (simp add: h)
      then show ?thesis by simp
    qed
  qed
qed

text \<open>A workbook without errors adds up: the equipment carries the quantity and the rows of the file.\<close>

lemma valid_workbook_adds_up:
  assumes "va_errors (read_workbook env source allow_zero) = []"
  shows "adds_up (read_workbook env source allow_zero)"
proof (cases source)
  case None
  then show ?thesis using assms by (simp add: read_workbook_def note_issue_def)
next
  case (Some f)
  with assms obtain st where st: "read_archive env allow_zero f = Inr st" "va_errors st = []"
    by (auto simp: read_workbook_def note_issue_def split: sum.splits)
  then obtain sheets archive strings relationships st1 where
    run: "efold (read_sheet env allow_zero archive strings relationships) sheets empty_validation = Inr st1"
    and st1: "st = missing_worksheets st1"
    by (auto simp: read_archive_def result_simps)
  from run have "reading_inv st1"
    by (rule efold_invariant [where P = reading_inv]) (simp_all add: read_sheet_inv)
  with st1 st(2) have ok: "adds_up st" by (simp add: missing_worksheets_def reading_inv_def adds_up_def)
  have perm: "mset (sort_key equipment_order (va_items st)) = mset (va_items st)" by simp
  have sums: "sum_list (map f (sort_key equipment_order (va_items st))) = sum_list (map f (va_items st))"
    for f :: "equipment \<Rightarrow> 'a :: comm_monoid_add"
    by (metis mset_map mset_sort sum_mset_sum_list)
  have "distinct (map eq_signature (sort_key equipment_order (va_items st)))"
    using ok perm by (metis adds_up_def mset_eq_imp_distinct_iff mset_map)
  then show ?thesis
    using ok st by (simp add: read_workbook_def Some adds_up_def sums)
qed

section \<open>The receipt\<close>

lemma table_rows_determined:
  assumes ok: "table_ok key qty rs" and ps: "distinct (map fst ps)" "\<forall>p\<in>set ps. 0 < snd p"
    and qty: "\<And>k. table_qty key qty k rs = (case map_of ps k of None \<Rightarrow> 0 | Some q \<Rightarrow> q)"
  shows "mset (map (\<lambda>r. (key r, qty r)) rs) = mset ps"
proof -
  have keys: "distinct (map key rs)" and pos: "\<forall>r\<in>set rs. 0 < qty r" using ok by (simp_all add: table_ok_def)
  have "p \<in> set (map (\<lambda>r. (key r, qty r)) rs) \<longleftrightarrow> p \<in> set ps" for p
  proof -
    obtain k q where p: "p = (k, q)" by (cases p)
    have "p \<in> set (map (\<lambda>r. (key r, qty r)) rs) \<longleftrightarrow> (\<exists>r. table_get key k rs = Some r \<and> qty r = q)"
      by (auto simp: p table_get_Some_iff [OF keys])
    also have "\<dots> \<longleftrightarrow> 0 < q \<and> table_qty key qty k rs = q"
      using pos by (auto simp: table_qty_def split: option.splits dest: table_get_SomeD)
    also have "\<dots> \<longleftrightarrow> map_of ps k = Some q"
      using ps(2) by (fastforce simp: qty split: option.splits dest: map_of_SomeD)
    also have "\<dots> \<longleftrightarrow> p \<in> set ps" using ps(1) by (simp add: p map_of_eq_Some_iff)
    finally show ?thesis .
  qed
  moreover have "distinct (map (\<lambda>r. (key r, qty r)) rs)" "distinct ps"
    using keys ps(1) by (simp_all add: distinct_map inj_on_def)
  ultimately show ?thesis by (subst set_eq_iff_mset_eq_distinct [symmetric]) auto
qed

definition lines_quantity :: "movement_line_create list \<Rightarrow> uuid \<Rightarrow> int" where
  "lines_quantity ls i = sum_list (map lc_quantity (filter (\<lambda>l. lc_item_id l = i) ls))"

lemma payload_quantity_map_of:
  assumes "distinct (map lc_item_id ls)"
  shows "lines_quantity ls i = (case map_of (map (\<lambda>l. (lc_item_id l, lc_quantity l)) ls) i of None \<Rightarrow> 0 | Some q \<Rightarrow> q)"
  using assms unfolding lines_quantity_def
proof (induction ls)
  case (Cons x xs)
  show ?case
  proof (cases "lc_item_id x = i")
    case True
    then have "filter (\<lambda>l. lc_item_id l = i) xs = []" using Cons.prems by (auto simp: filter_empty_conv image_iff)
    with True show ?thesis by simp
  next
    case False
    with Cons show ?thesis by simp
  qed
qed simp

lemma make_lines_sums:
  "length (make_lines d mid p) = length (mc_lines p)"
  "sum_list (map ml_quantity (make_lines d mid p)) = sum_list (map lc_quantity (mc_lines p))"
proof -
  have one: "ml_quantity (case x of (number, line) \<Rightarrow> make_line d mid (int number) line) = lc_quantity (snd x)" for x
    by (simp add: make_line_def Let_def split: prod.splits)
  have "map ml_quantity (make_lines d mid p) = map lc_quantity (map snd (enumerate 1 (sorted_lines p)))"
    unfolding make_lines_def map_map by (rule map_cong [OF refl]) (simp only: comp_def one)
  then have "map ml_quantity (make_lines d mid p) = map lc_quantity (sorted_lines p)" by simp
  then have "sum_list (map ml_quantity (make_lines d mid p)) = sum_mset (image_mset lc_quantity (mset (sorted_lines p)))"
    by (simp add: sum_mset_sum_list [symmetric])
  then show "sum_list (map ml_quantity (make_lines d mid p)) = sum_list (map lc_quantity (mc_lines p))"
    by (simp add: sorted_lines_perm sum_mset_sum_list [symmetric])
  show "length (make_lines d mid p) = length (mc_lines p)"
    by (simp add: make_lines_def)
qed

text \<open>A receipt into an empty warehouse: its lines are the stock.\<close>

lemma first_receipt:
  assumes inv: "warehouse_inv d" and empty: "movements d = []" "movement_lines d = []" "stock_balances d = []"
    and valid: "movement_create_valid (import_receipt loc lines)"
    and run: "create_movement sha256 d mid now (import_receipt loc lines) actor name None = Inr (d', r)"
  shows "warehouse_inv d'" and "custody_of d' = custody_of d"
    and "stock_of d' i l = (if l = loc then lines_quantity lines i else 0)"
    and "movements d' = [rec_movement (res_record r)]"
    and "mv_movement_type (rec_movement (res_record r)) = RECEIPT"
    and "mv_destination_location_id (rec_movement (res_record r)) = Some loc"
    and "mv_line_count (rec_movement (res_record r)) = int (length lines)"
    and "length (movement_lines d') = length lines"
    and "sum_list (map ml_quantity (movement_lines d')) = sum_list (map lc_quantity lines)"
    and "mset (map (\<lambda>b. (sb_key b, sb_quantity b)) (stock_balances d')) =
      mset (map (\<lambda>l. ((lc_item_id l, loc), lc_quantity l)) lines)"
proof -
  note int = create_movement_is_internal [OF run]
  have fresh: "\<not> res_replayed r"
    using int
  proof (cases rule: create_movement_cases)
    case replay
    then show ?thesis by (auto simp: existing_idempotent_result_def empty)
  qed simp
  obtain original m ls where
    acc: "accepted sha256 d mid now (import_receipt loc lines) actor name None original m ls"
    and same: "same_but_projections (append_movement d m ls) d'" and m: "rec_movement (res_record r) = m"
    and ref: "efold (\<lambda>ml d. refresh_warehouse_projection d mid (ml_item_id ml)) ls (append_movement d m ls) = Inr d'"
    using new_movement_frame [OF int fresh] by metis
  note eff = new_movement_effect [OF inv acc ref] and mv = accepted_movement [OF acc]
  show inv': "warehouse_inv d'" by (rule create_movement_effect(1) [OF inv int])
  show "movements d' = [rec_movement (res_record r)]"
    using same_but_projectionsD(1) [OF same] by (simp add: append_movement_def empty m)
  have ls: "movement_lines d' = make_lines d mid (import_receipt loc lines)"
    using same_but_projectionsD(2) [OF same] acc by (simp add: append_movement_def empty accepted_def)
  show "length (movement_lines d') = length lines"
    "sum_list (map ml_quantity (movement_lines d')) = sum_list (map lc_quantity lines)"
    by (simp_all add: ls make_lines_sums import_receipt_def)
  show "mv_movement_type (rec_movement (res_record r)) = RECEIPT"
    "mv_destination_location_id (rec_movement (res_record r)) = Some loc"
    "mv_line_count (rec_movement (res_record r)) = int (length lines)"
    using mv by (simp_all add: m import_receipt_def)
  show "custody_of d' = custody_of d"
    by (rule ext)+ (use eff(5) in \<open>simp add: spec_custody_def\<close>)
  have dist: "distinct (map lc_item_id lines)"
    using acc by (auto simp: accepted_def check_items_def item_ids_def import_receipt_def split: if_splits)
  let ?ps = "map (\<lambda>l. ((lc_item_id l, loc), lc_quantity l)) lines"
  have stock: "stock_of d' i l = (if l = loc then lines_quantity lines i else 0)" for i l
    using eff(4) by (simp add: spec_stock_def import_receipt_def payload_quantity_def lines_quantity_def stock_of_def
        empty table_qty_def)
  then show "stock_of d' i l = (if l = loc then lines_quantity lines i else 0)" .
  have "map_of ?ps (i, l) = (if l = loc then map_of (map (\<lambda>l. (lc_item_id l, lc_quantity l)) lines) i else None)" for i l
    by (induction lines) auto
  then have "table_qty sb_key sb_quantity k (stock_balances d') = (case map_of ?ps k of None \<Rightarrow> 0 | Some q \<Rightarrow> q)" for k
    using stock payload_quantity_map_of [OF dist] by (cases k) (simp add: stock_of_def)
  moreover have "distinct (map fst ?ps)" using dist by (simp add: distinct_map inj_on_def comp_def)
  moreover have "\<forall>p\<in>set ?ps. 0 < snd p"
    using valid by (auto simp: movement_create_valid_def import_receipt_def movement_line_create_valid_def list_all_iff)
  moreover have "table_ok sb_key sb_quantity (stock_balances d')" using eff(2) by (simp add: projection_tables_ok_def)
  ultimately show "mset (map (\<lambda>b. (sb_key b, sb_quantity b)) (stock_balances d')) = mset ?ps"
    by (intro table_rows_determined)
qed

section \<open>The import\<close>

text \<open>What the catalog holds of a piece of equipment.\<close>

definition imported :: "catalog_schema \<Rightarrow> equipment \<Rightarrow> item \<Rightarrow> bool" where
  "imported schema e it \<longleftrightarrow>
     it_status it = ITEM_ACTIVE \<and> it_name it = normalize_idempotency_key (equipment_name e) \<and>
     (\<exists>c. get_category_by_key schema (eq_category e) = Inr c \<and> it_category_id it = cat_id c)"

lemma created_item_row:
  assumes "create_item env new_id d p = Inr (d', i)"
  obtains it c where "d' = d\<lparr>items := items d @ [it]\<rparr>" and "i = new_id" and "it_id it = new_id"
    and "it_status it = ITEM_ACTIVE" and "it_name it = normalize_idempotency_key (ic_name p)"
    and "get_category_by_key (ce_schema env) (ic_category_key p) = Inr c" and "it_category_id it = cat_id c"
    and "new_id \<notin> it_id ` set (items d)"
proof -
  obtain it c where it: "insert_item (ce_schema env) (ce_sha256 env) d it = Inr d'" "i = new_id" "it_id it = new_id"
    "it_status it = ITEM_ACTIVE" "it_name it = normalize_idempotency_key (ic_name p)"
    and c: "get_category_by_key (ce_schema env) (ic_category_key p) = Inr c" "it_category_id it = cat_id c"
    using assms unfolding create_item_def prepare_identity_def Let_def
    by (fastforce simp: result_simps inline_text_Inr)
  show thesis by (rule that [OF _ it(2-5) c]) (use it(1,3) in \<open>auto simp: insert_item_Inr\<close>)
qed

lemma import_manufacturer_frame:
  assumes "import_manufacturer env k e d = Inr (d', m)"
  shows "\<exists>ms. d' = d\<lparr>manufacturers := ms\<rparr>" and "catalog_inv (bs_catalog env) d \<Longrightarrow> catalog_inv (bs_catalog env) d'"
proof -
  have "d' = d \<or> (\<exists>i n x. create_manufacturer d i n = Inr (d', x))"
    using assms by (auto simp: import_manufacturer_def result_simps Let_def split: if_splits option.splits)
  then show "\<exists>ms. d' = d\<lparr>manufacturers := ms\<rparr>"
    "catalog_inv (bs_catalog env) d \<Longrightarrow> catalog_inv (bs_catalog env) d'"
    by (auto dest: create_manufacturer_Inr(1) intro: exI [of _ "manufacturers d"])
      (use create_manufacturer_inv in blast)
qed

definition stocked_lines :: "equipment list \<Rightarrow> item list \<Rightarrow> movement_line_create list" where
  "stocked_lines es its =
     map (\<lambda>(e, it). \<lparr> lc_item_id = it_id it, lc_quantity = eq_quantity e \<rparr>)
       (filter (\<lambda>(e, it). 0 < eq_quantity e) (zip es its))"

definition loaded :: "bootstrap_env \<Rightarrow> db \<Rightarrow> equipment list \<Rightarrow> db \<Rightarrow> movement_line_create list \<Rightarrow> bool" where
  "loaded env d es d' lines \<longleftrightarrow>
     (\<exists>ms its. d' = d\<lparr>manufacturers := ms, items := its\<rparr>) \<and> catalog_inv (bs_catalog env) d' \<and>
     list_all2 (imported (ce_schema (bs_catalog env))) es (items d') \<and>
     distinct (map it_id (items d')) \<and> lines = stocked_lines es (items d')"

lemma import_line_loads:
  assumes st: "loaded env d es d1 lines" and run: "import_line env (k, e) (d1, lines) = Inr (d3, lines')"
  shows "loaded env d (es @ [e]) d3 lines'"
proof -
  obtain d2 m i where m: "import_manufacturer env k e d1 = Inr (d2, m)"
    and item: "create_item (bs_catalog env) (bs_item_id env k) d2 (import_payload e m) = Inr (d3, i)"
    and lines': "lines' = (if 0 < eq_quantity e then lines @ [\<lparr> lc_item_id = i, lc_quantity = eq_quantity e \<rparr>] else lines)"
    using run by (auto simp: import_line_def result_simps Let_def split: if_splits)
  obtain it c where it: "d3 = d2\<lparr>items := items d2 @ [it]\<rparr>" "i = bs_item_id env k" "it_id it = bs_item_id env k"
    "it_status it = ITEM_ACTIVE" "it_name it = normalize_idempotency_key (equipment_name e)"
    "get_category_by_key (ce_schema (bs_catalog env)) (eq_category e) = Inr c" "it_category_id it = cat_id c"
    "bs_item_id env k \<notin> it_id ` set (items d2)"
    using created_item_row [OF item] by (auto simp: import_payload_def)
  obtain ms ms' its where d: "d1 = d\<lparr>manufacturers := ms, items := its\<rparr>" "d2 = d1\<lparr>manufacturers := ms'\<rparr>"
    using st import_manufacturer_frame(1) [OF m] by (auto simp: loaded_def)
  have "d3 = d\<lparr>manufacturers := ms', items := its @ [it]\<rparr>" by (simp add: it(1) d)
  moreover have items: "items d3 = items d1 @ [it]" by (simp add: it(1) d)
  moreover have "catalog_inv (bs_catalog env) d3"
    using st import_manufacturer_frame(2) [OF m] create_item_inserts [OF item] insert_item_inv
    unfolding loaded_def by metis
  moreover have "imported (ce_schema (bs_catalog env)) e it"
    unfolding imported_def using it(4-7) by blast
  moreover have "list_all2 (imported (ce_schema (bs_catalog env))) es (items d1)" using st by (simp add: loaded_def)
  moreover from this have "length es = length (items d1)" by (rule list_all2_lengthD)
  then have "stocked_lines (es @ [e]) (items d1 @ [it]) = lines'"
    using st lines' it(2,3) by (simp add: stocked_lines_def loaded_def)
  moreover have "distinct (map it_id (items d3))" using st it(3,8) by (simp add: items d loaded_def)
  ultimately show ?thesis by (auto simp: loaded_def list_all2_appendI)
qed

lemma import_loop_loads:
  assumes "efold (import_line env) (enumerate 0 es) (d, []) = Inr (d', lines)"
    and "catalog_inv (bs_catalog env) d" and "items d = []"
  shows "loaded env d es d' lines"
  using assms(1)
proof (induction es arbitrary: d' lines rule: rev_induct)
  case Nil
  moreover have "d = d\<lparr>manufacturers := manufacturers d, items := []\<rparr>" using assms(3) by (cases d) simp
  then have "\<exists>ms its. d = d\<lparr>manufacturers := ms, items := its\<rparr>" by blast
  ultimately show ?case using assms(2,3) by (auto simp: loaded_def stocked_lines_def)
next
  case (snoc e es)
  then obtain d1 lines1 where "efold (import_line env) (enumerate 0 es) (d, []) = Inr (d1, lines1)"
    and "import_line env (length es, e) (d1, lines1) = Inr (d', lines)"
    by (auto simp: enumerate_append_eq efold_append ebind_Inr_iff)
  then show ?case using snoc.IH import_line_loads by blast
qed

lemma stocked_lines_sum:
  assumes "list_all2 P es its" and "\<forall>e\<in>set es. 0 \<le> eq_quantity e"
  shows "sum_list (map lc_quantity (stocked_lines es its)) = sum_list (map eq_quantity es)"
    and "length (stocked_lines es its) = length (filter (\<lambda>e. 0 < eq_quantity e) es)"
  using assms by (induction rule: list_all2_induct) (auto simp: stocked_lines_def)

lemma lines_quantity_Cons [simp]:
  "lines_quantity [] i = 0"
  "lines_quantity (l # ls) i = (if lc_item_id l = i then lc_quantity l else 0) + lines_quantity ls i"
  by (simp_all add: lines_quantity_def)

lemma stocked_lines_quantity:
  assumes "list_all2 P es its" and "distinct (map it_id its)" and "\<forall>e\<in>set es. 0 \<le> eq_quantity e"
  shows "list_all2 (\<lambda>e it. lines_quantity (stocked_lines es its) (it_id it) = eq_quantity e) es its \<and>
    (\<forall>i. i \<notin> it_id ` set its \<longrightarrow> lines_quantity (stocked_lines es its) i = 0)"
  using assms
proof (induction rule: list_all2_induct)
  case (Cons e es it its)
  let ?old = "stocked_lines es its" and ?new = "stocked_lines (e # es) (it # its)"
  have IH: "list_all2 (\<lambda>e it. lines_quantity ?old (it_id it) = eq_quantity e) es its"
    "\<And>i. i \<notin> it_id ` set its \<Longrightarrow> lines_quantity ?old i = 0"
    using Cons by simp_all
  have new: "lines_quantity ?new i = (if i = it_id it then eq_quantity e else 0) + lines_quantity ?old i" for i
    using Cons.prems by (auto simp: stocked_lines_def)
  have "list_all2 (\<lambda>e it. lines_quantity ?new (it_id it) = eq_quantity e) es its"
    using IH(1) Cons.prems(1) unfolding new by (fastforce simp: list_all2_conv_all_nth image_iff dest: nth_mem)
  then show ?case using IH(2) [of "it_id it"] IH(2) Cons.prems(1) new by auto
qed (simp add: stocked_lines_def)

text \<open>The import as a whole.\<close>

lemma import_books:
  assumes inv: "warehouse_inv d" and cat: "catalog_inv (bs_catalog env) d"
    and empty: "movements d = []" "movement_lines d = []" "stock_balances d = []"
    and run: "import_inventory env d v target actor = Inr (d', mid)"
  obtains loc d1 r where
    "find (\<lambda>l. loc_code l = target \<or> uuid_str (loc_id l) = target) (locations d) = Some loc"
    and "loaded env d (va_items v) d1 (stocked_lines (va_items v) (items d1))"
    and "warehouse_inv d1" "movements d1 = []" "movement_lines d1 = []" "stock_balances d1 = []"
    and "movement_create_valid (import_receipt (loc_id loc) (stocked_lines (va_items v) (items d1)))"
    and "create_movement (ce_sha256 (bs_catalog env)) d1 (bs_movement_id env) (bs_now env)
      (import_receipt (loc_id loc) (stocked_lines (va_items v) (items d1))) actor importer_name None = Inr (d', r)"
    and "mid = mv_id (rec_movement (res_record r))"
proof -
  obtain loc d1 lines r where "items d = []"
    and found: "find (\<lambda>l. loc_code l = target \<or> uuid_str (loc_id l) = target) (locations d) = Some loc"
    and loop: "efold (import_line env) (enumerate 0 (va_items v)) (d, []) = Inr (d1, lines)"
    and valid: "movement_create_valid (import_receipt (loc_id loc) lines)"
    and booked: "create_movement (ce_sha256 (bs_catalog env)) d1 (bs_movement_id env) (bs_now env)
      (import_receipt (loc_id loc) lines) actor importer_name None = Inr (d', r)"
    and mid: "mid = mv_id (rec_movement (res_record r))"
    using run by (auto simp: import_inventory_def result_simps)
  have load: "loaded env d (va_items v) d1 lines" by (rule import_loop_loads [OF loop cat]) fact
  then obtain ms its where d1: "d1 = d\<lparr>manufacturers := ms, items := its\<rparr>" and lines: "lines = stocked_lines (va_items v) (items d1)"
    by (auto simp: loaded_def)
  have "custody_holders_eligible d1"
    using inv by (simp add: d1 warehouse_inv_def custody_holders_eligible_def custody_holder_eligible_def)
  then have "warehouse_inv d1" by (intro warehouse_inv_cong [OF inv]) (simp_all add: d1)
  moreover have "movements d1 = []" "movement_lines d1 = []" "stock_balances d1 = []" using empty by (simp_all add: d1)
  ultimately show thesis by (rule that [OF found load [unfolded lines] _ _ _ _ valid [unfolded lines] booked [unfolded lines] mid])
qed

section \<open>The load\<close>

lemma empty_catalog_inv: "items d = [] \<Longrightarrow> manufacturers d = [] \<Longrightarrow> catalog_inv env d"
  by (simp add: catalog_inv_def manufacturers_ok_def)

lemma no_rows_iff:
  "count_warehouse d = no_rows \<longleftrightarrow> items d = [] \<and> manufacturers d = [] \<and> locations d = [] \<and> movements d = [] \<and>
     movement_lines d = [] \<and> stock_balances d = []"
  by (simp add: count_warehouse_def no_rows_def)

lemma create_location_frame:
  assumes "create_location d i p = Inr (d', l)"
  shows "d' = d\<lparr>locations := locations d @ [l]\<rparr>"
  using assms by (auto simp: create_location_def insert_location_def Let_def result_simps split: if_splits)

lemma no_custody_without_movements:
  assumes "warehouse_inv d" and "movements d = []" and "movement_lines d = []"
  shows "custody_of d u i = 0"
  using warehouse_invD(5) [OF assms(1)] assms(2,3)
  by (simp add: expected_custody_def journal_def)

definition books_workbook :: "bootstrap_env \<Rightarrow> validation \<Rightarrow> location \<Rightarrow> db \<Rightarrow> bool" where
  "books_workbook env v loc d \<longleftrightarrow>
     warehouse_inv d \<and> catalog_inv (bs_catalog env) d \<and> locations d = [loc] \<and>
     list_all2 (\<lambda>e it. imported (ce_schema (bs_catalog env)) e it \<and>
       stock_of d (it_id it) (loc_id loc) = eq_quantity e) (va_items v) (items d) \<and>
     (\<forall>i l. l \<noteq> loc_id loc \<or> i \<notin> it_id ` set (items d) \<longrightarrow> stock_of d i l = 0) \<and>
     (\<forall>u i. custody_of d u i = 0) \<and>
     (\<exists>m. movements d = [m] \<and> mv_movement_type m = RECEIPT \<and> mv_destination_location_id m = Some (loc_id loc))"

lemma load_outcome:
  assumes inv: "warehouse_inv d" and none: "count_warehouse d = no_rows"
    and nonneg: "\<forall>e\<in>set (va_items v). 0 \<le> eq_quantity e"
    and place: "create_location d i p = Inr (d0, loc)"
    and run: "import_inventory env d0 v (uuid_str (loc_id loc)) actor = Inr (d', mid)"
  shows "books_workbook env v loc d'"
    and "\<exists>result. closing_checks d' loc mid (length (filter (\<lambda>e. 0 < eq_quantity e) (va_items v)))
      (int (length (va_items v))) (sum_list (map eq_quantity (va_items v))) = Inr result \<and>
      br_location result = loc \<and> br_receipt_movement_id result = mid \<and>
      br_stock_quantity result = sum_list (map eq_quantity (va_items v))"
proof -
  let ?lines = "\<lambda>d1. stocked_lines (va_items v) (items d1)"
  note none = none [unfolded no_rows_iff]
  have d0: "d0 = d\<lparr>locations := [loc]\<rparr>" using create_location_frame [OF place] none by simp
  have w0: "warehouse_inv d0"
    by (rule warehouse_inv_cong [OF inv])
      (use inv in \<open>simp_all add: d0 warehouse_inv_def custody_holders_eligible_def custody_holder_eligible_def\<close>)
  have c0: "catalog_inv (bs_catalog env) d0" using none by (simp add: empty_catalog_inv d0)
  obtain loc' d1 r where "find (\<lambda>l. loc_code l = uuid_str (loc_id loc) \<or> uuid_str (loc_id l) = uuid_str (loc_id loc))
      (locations d0) = Some loc'"
    and load: "loaded env d0 (va_items v) d1 (?lines d1)"
    and w1: "warehouse_inv d1" and e1: "movements d1 = []" "movement_lines d1 = []" "stock_balances d1 = []"
    and valid: "movement_create_valid (import_receipt (loc_id loc') (?lines d1))"
    and book: "create_movement (ce_sha256 (bs_catalog env)) d1 (bs_movement_id env) (bs_now env)
      (import_receipt (loc_id loc') (?lines d1)) actor importer_name None = Inr (d', r)"
    and mid: "mid = mv_id (rec_movement (res_record r))"
    by (rule import_books [OF w0 c0 _ _ _ run]) (use none in \<open>simp_all add: d0\<close>)
  then have loc': "loc' = loc" by (simp add: d0)
  note rcpt = first_receipt [OF w1 e1 valid [unfolded loc'] book [unfolded loc']]
  note tabs = new_movement_tables [OF create_movement_is_internal [OF book]]
  obtain ms its where d1: "d1 = d0\<lparr>manufacturers := ms, items := its\<rparr>" using load by (auto simp: loaded_def)
  have rows: "list_all2 (imported (ce_schema (bs_catalog env))) (va_items v) (items d1)"
    and dist: "distinct (map it_id (items d1))" and cat: "catalog_inv (bs_catalog env) d1"
    using load by (simp_all add: loaded_def)
  note qty = stocked_lines_quantity [OF rows dist nonneg]
  note sums = stocked_lines_sum [OF rows nonneg]
  have cat': "catalog_inv (bs_catalog env) d'"
    using cat write_checks_cong [OF tabs(12)] tabs(3,12) by (simp add: catalog_inv_def manufacturers_ok_def)
  have locs: "locations d' = [loc]" using tabs(4) by (simp add: d1 d0)
  show "books_workbook env v loc d'"
    unfolding books_workbook_def tabs(3) rcpt(2,3)
    using rcpt(1,4-6) cat' locs rows qty no_custody_without_movements [OF w1 e1(1,2)]
    by (auto simp: list_all2_conv_all_nth)
  have items: "length (items d') = length (va_items v)" using rows tabs(3) by (simp add: list_all2_lengthD)
  have stock_rows: "length (stock_balances d') = length (?lines d1)"
    "sum_list (map sb_quantity (stock_balances d')) = sum_list (map lc_quantity (?lines d1))"
  proof -
    let ?bs = "map (\<lambda>b. (sb_key b, sb_quantity b)) (stock_balances d')"
      and ?ls = "map (\<lambda>l. ((lc_item_id l, loc_id loc), lc_quantity l)) (?lines d1)"
    have "length ?bs = length ?ls" using arg_cong [OF rcpt(10), of size] by (simp only: size_mset)
    then show "length (stock_balances d') = length (?lines d1)" by simp
    have "sum_list (map snd ?bs) = sum_list (map snd ?ls)"
      using arg_cong [OF rcpt(10), of "\<lambda>M. sum_mset (image_mset snd M)"]
      by (simp only: sum_mset_sum_list mset_map [symmetric])
    then show "sum_list (map sb_quantity (stock_balances d')) = sum_list (map lc_quantity (?lines d1))"
      by (simp add: comp_def)
  qed
  have "\<not> projection_drift_exists d'" using rcpt(1) by (simp add: warehouse_inv_def projections_agree_iff)
  moreover have "get_mov d' mid = Some (rec_movement (res_record r))" by (simp add: get_mov_def rcpt(4) mid)
  ultimately show "\<exists>result. closing_checks d' loc mid (length (filter (\<lambda>e. 0 < eq_quantity e) (va_items v)))
      (int (length (va_items v))) (sum_list (map eq_quantity (va_items v))) = Inr result \<and>
      br_location result = loc \<and> br_receipt_movement_id result = mid \<and>
      br_stock_quantity result = sum_list (map eq_quantity (va_items v))"
    using rcpt(4-9) locs items stock_rows sums by (simp add: closing_checks_def count_warehouse_def Let_def)
qed

text \<open>The messages of the comparison that ends the load.\<close>

definition closing_failures :: "string list" where
  "closing_failures =
     [''post-bootstrap count mismatch'', ''post-bootstrap stock quantity mismatch'',
      ''post-bootstrap movement quantity mismatch'', ''bootstrap receipt movement disappeared'',
      ''bootstrap movement is not RECEIPT'', ''bootstrap receipt destination mismatch'',
      ''bootstrap movement line_count mismatch'', ''post-bootstrap projection reconciliation failed'']"

definition closing_error :: "bootstrap_error \<Rightarrow> bool" where
  "closing_error e \<longleftrightarrow> e \<in> Bootstrap_Value_Error ` set closing_failures"

lemma closing_error_simps [simp]:
  "\<not> closing_error (Bootstrap_Catalog_Error code)" "\<not> closing_error (Bootstrap_Inventory_Error ie)"
  "\<not> closing_error (Bootstrap_Db_Error de)"
  "closing_error (Bootstrap_Value_Error msg) \<longleftrightarrow> msg \<in> set closing_failures"
  by (auto simp: closing_error_def)

lemma efold_Inl: "efold f xs s = Inl e \<Longrightarrow> \<exists>x t. f x t = Inl e"
  by (induction xs arbitrary: s) (auto simp: ebind_Inl_iff)

lemma relabel_Inl_iff: "relabel h m = Inl e \<longleftrightarrow> (\<exists>x. m = Inl x \<and> e = h x)"
  by (cases m) auto

lemma from_option_Inl_iff: "from_option e m = Inl x \<longleftrightarrow> m = None \<and> x = e"
  by (cases m) auto

lemma ensure_Inl_iff: "ensure c e = Inl x \<longleftrightarrow> \<not> c \<and> x = e"
  by (cases c) auto

lemma ebind_InlE:
  assumes "ebind m f = Inl e"
  obtains "m = Inl e" | x where "m = Inr x" and "f x = Inl e"
  using assms by (cases m) auto

lemmas refusal_simps = ebind_Inl_iff relabel_Inl_iff from_option_Inl_iff ensure_Inl_iff

lemma import_failure_not_closing [simp]: "\<not> closing_error (import_failure x)"
  by (cases x) simp_all

lemma import_line_refusals: "import_line env x st = Inl e \<Longrightarrow> \<not> closing_error e"
  by (cases x; cases st)
    (auto simp: import_line_def import_manufacturer_def refusal_simps Let_def closing_failures_def
      split: if_splits option.splits)

lemma import_refusals:
  assumes "import_inventory env d v target actor = Inl e"
  shows "\<not> closing_error e"
proof (cases "\<exists>x st. import_line env x st = Inl e")
  case True
  then show ?thesis using import_line_refusals by blast
next
  case False
  then have "efold (import_line env) xs s \<noteq> Inl e" for xs s using efold_Inl [of "import_line env" xs s e] by blast
  then show ?thesis
    using assms unfolding import_inventory_def
    by (elim ebind_InlE) (simp_all add: refusal_simps closing_failures_def split: prod.splits,
        auto simp: closing_failures_def refusal_simps)
qed

lemma guard_refusals:
  "assert_bootstrap_runtime app_env drivername host gate = Inl e \<Longrightarrow> \<not> closing_error e"
  "assert_validation_contract v rows n q = Inl e \<Longrightarrow> \<not> closing_error e"
  by (auto simp: assert_bootstrap_runtime_def assert_validation_contract_def refusal_simps closing_failures_def)

lemma load_result:
  assumes inv: "warehouse_inv d" and adds: "adds_up v"
    and items: "int (length (va_items v)) = expected_items" and total: "va_source_quantity v = expected_quantity"
  shows "case bootstrap_transaction env d v place actor expected_items expected_quantity of
      Inl e \<Rightarrow> \<not> closing_error e
    | Inr (d', out) \<Rightarrow> count_warehouse d = no_rows \<and> books_workbook env v (br_location out) d' \<and>
        br_stock_quantity out = expected_quantity"
proof -
  have sum: "sum_list (map eq_quantity (va_items v)) = expected_quantity"
    and nonneg: "\<forall>e\<in>set (va_items v). 0 \<le> eq_quantity e" using adds total by (simp_all add: adds_up_def)
  note books = load_outcome [where v = v, OF inv _ nonneg, unfolded items sum]
  show ?thesis
  proof (cases "bootstrap_transaction env d v place actor expected_items expected_quantity")
    case (Inl e)
    then consider "e = Bootstrap_Value_Error ''BOOTSTRAP_ALREADY_POPULATED''"
      | ie where "e = Bootstrap_Inventory_Error ie"
      | d0 t where "import_inventory env d0 v t actor = Inl e"
      | d0 loc d1 mid where "count_warehouse d = no_rows"
          "create_location d (bs_location_id env) (place\<lparr>lcr_address := None\<rparr>) = Inr (d0, loc)"
          "import_inventory env d0 v (uuid_str (loc_id loc)) actor = Inr (d1, mid)"
          "closing_checks d1 loc mid (length (filter (\<lambda>item. 0 < eq_quantity item) (va_items v)))
             expected_items expected_quantity = Inl e"
      unfolding bootstrap_transaction_def
      by (auto elim!: ebind_InlE simp: ensure_Inl_iff relabel_Inl_iff result_simps)
    then have "\<not> closing_error e"
    proof cases
      case 4
      then show ?thesis using books(2) [OF 4(1-3)] by auto
    qed (simp_all add: import_refusals closing_failures_def)
    then show ?thesis by (simp add: Inl)
  next
    case (Inr x)
    then obtain d0 loc d1 mid out where none: "count_warehouse d = no_rows"
      and place: "create_location d (bs_location_id env) (place\<lparr>lcr_address := None\<rparr>) = Inr (d0, loc)"
      and run: "import_inventory env d0 v (uuid_str (loc_id loc)) actor = Inr (d1, mid)"
      and close: "closing_checks d1 loc mid (length (filter (\<lambda>item. 0 < eq_quantity item) (va_items v)))
             expected_items expected_quantity = Inr out" and x: "x = (d1, out)"
      unfolding bootstrap_transaction_def by (auto simp: result_simps)
    show ?thesis using books [OF none place run] close none by (auto simp: Inr x)
  qed
qed

text \<open>
  C20. The first load books the workbook, and its closing comparison is a formality. Started on a
  consistent database, a load that succeeds has read a workbook without errors whose rows and
  quantities are those the operator announced; it leaves one active item for every distinct piece of
  equipment, under its name and category, the quantity of the piece in stock at the new location and
  nothing anywhere else or in custody, all of it booked by a single receipt. A load that fails never
  does so because the counts, sums or balances found at the end disagree with the workbook.
\<close>

theorem first_load_books_the_workbook:
  assumes inv: "warehouse_inv d"
  shows "case run_production_bootstrap env renv settings args digest source d of
      Inl e \<Rightarrow> \<not> closing_error e
    | Inr (d', report, out) \<Rightarrow>
        count_warehouse d = no_rows \<and> wr_valid report \<and> adds_up (read_workbook renv source True) \<and>
        va_raw_rows (read_workbook renv source True) = ba_expected_rows args \<and>
        br_stock_quantity out = ba_expected_quantity args \<and>
        books_workbook env (read_workbook renv source True) (br_location out) d'"
proof -
  let ?v = "read_workbook renv source True"
  have load: "case bootstrap_transaction env d ?v (ba_location args) (ba_actor args) (ba_expected_items args)
      (ba_expected_quantity args) of Inl e \<Rightarrow> \<not> closing_error e
    | Inr (d', out) \<Rightarrow> count_warehouse d = no_rows \<and> books_workbook env ?v (br_location out) d' \<and>
        br_stock_quantity out = ba_expected_quantity args"
    if "assert_validation_contract ?v (ba_expected_rows args) (ba_expected_items args) (ba_expected_quantity args) = Inr ()"
    using that by (intro load_result [OF inv])
      (simp_all add: assert_validation_contract_def result_simps valid_workbook_adds_up)
  show ?thesis
  proof (cases "run_production_bootstrap env renv settings args digest source d")
    case (Inl e)
    then consider "bootstrap_transaction env d ?v (ba_location args) (ba_actor args) (ba_expected_items args)
        (ba_expected_quantity args) = Inl e"
        "assert_validation_contract ?v (ba_expected_rows args) (ba_expected_items args) (ba_expected_quantity args) = Inr ()"
      | "\<not> closing_error e"
      unfolding run_production_bootstrap_def Let_def
      by (auto elim!: ebind_InlE simp: ensure_Inl_iff closing_failures_def dest: guard_refusals)
    then show ?thesis using load by cases (auto simp: Inl)
  next
    case (Inr x)
    then obtain d' out where
      "bootstrap_transaction env d ?v (ba_location args) (ba_actor args) (ba_expected_items args)
        (ba_expected_quantity args) = Inr (d', out)" "x = (d', validation_report ?v, out)"
      and contract: "assert_validation_contract ?v (ba_expected_rows args) (ba_expected_items args)
        (ba_expected_quantity args) = Inr ()"
      by (auto simp: run_production_bootstrap_def result_simps Let_def)
    moreover from contract have "va_errors ?v = []" "va_raw_rows ?v = ba_expected_rows args"
      by (simp_all add: assert_validation_contract_def result_simps)
    ultimately show ?thesis using load [OF contract] by (simp add: Inr validation_report_def valid_workbook_adds_up)
  qed
qed


section \<open>Manufacturers\<close>

text \<open>
  The import looks a manufacturer up by \<open>identity_text\<close>, which applies NFKC, and the catalog stores
  \<open>comparison_text\<close>, which does not. A manufacturer whose name NFKC changes is therefore not found
  again: the second piece of its equipment ends the load with a conflict.
\<close>

lemma second_manufacturer_refused:
  assumes "eq_manufacturer e = Some name" and "length name \<le> 255" and "CHR 0x00 \<notin> set name" and "normalize_idempotency_key name = name" and "name \<noteq> []"
    and "identity_text name \<notin> mf_normalized_name ` set (manufacturers d)"
    and "comparison_text name \<in> mf_normalized_name ` set (manufacturers d)"
  shows "import_manufacturer env k e d = Inl (Bootstrap_Catalog_Error ''catalog_conflict'')"
proof -
  have "find (\<lambda>m. mf_normalized_name m = identity_text name) (manufacturers d) = None"
    using assms(6) by (force simp: find_None_iff)
  moreover have "\<not> (\<forall>x\<in>set (manufacturers d). mf_normalized_name x \<noteq> comparison_text name)" using assms(7) by force
  ultimately show ?thesis
    using assms(1-5) nul_comparison [of name]
    by (auto simp: import_manufacturer_def create_manufacturer_def catalog_inline_text_def normalize_comparison_def
        length_comparison_text or_empty_def ensure_def Let_def)
qed

lemma numero_sign_names_differ: "identity_text [point_char 8470] = ''no''" "comparison_text [point_char 8470] \<noteq> ''no''"
proof -
  have "of_char (CHR ''n'') = (110 :: nat)" by simp
  then have "char_of (110 :: nat) = CHR ''n''" by (metis char_of_char)
  then show "identity_text [point_char 8470] = ''no''" "comparison_text [point_char 8470] \<noteq> ''no''"
    by (simp_all add: identity_text_def comparison_text_def point_char_def nfkc_def py_split_def is_space_def casefold_def)
qed

section \<open>An instance\<close>

definition sample_bootstrap :: bootstrap_args where
  "sample_bootstrap = \<lparr> ba_confirm = Bootstrap.CONFIRMATION, ba_expected_sha256 = replicate 64 (CHR ''0''), ba_expected_rows = 1,
     ba_expected_items = 1, ba_expected_quantity = 3, ba_location = sample_place, ba_actor = 2 \<rparr>"

definition sample_production :: production_settings where
  "sample_production = \<lparr> ps_app_env = ''production'', ps_drivername = ''postgresql+asyncpg'', ps_host = ''postgres'',
     ps_real_inventory_mutations_enabled = False \<rparr>"

text \<open>The splitter of the sample workbook is in stock at the new location.\<close>

theorem first_load_books_the_workbook_witness:
  "\<exists>d' report out it. run_production_bootstrap sample_load_env sample_xlsx_reader sample_production sample_bootstrap
      (replicate 64 (CHR ''0'')) (Some sample_file) sample_unfilled = Inr (d', report, out) \<and>
    items d' = [it] \<and> it_name it = sample_name \<and> stock_of d' (it_id it) (loc_id (br_location out)) = 3"
proof -
  let ?v = "read_workbook sample_xlsx_reader (Some sample_file) True"
  have contract: "assert_validation_contract ?v 1 1 3 = Inr ()"
    by (simp add: assert_validation_contract_def sample_workbook)
  obtain d' mid where run: "import_inventory sample_load_env sample_opened ?v (uuid_str 10) 2 = Inr (d', mid)"
    using sample_import_run by blast
  have loc: "loc_id (sample_location 10 ''WH1'' ''wh1'') = 10" by (simp add: sample_location_def)
  have quantity: "eq_quantity sample_equipment = 3" by (simp add: sample_equipment_def)
  obtain out where "closing_checks d' (sample_location 10 ''WH1'' ''wh1'') mid 1 1 3 = Inr out"
    using load_outcome(2) [OF sample_unfilled_inv _ sample_place_created, of ?v sample_load_env 2 d' mid] run
    by (auto simp: loc sample_workbook quantity)
  then have "bootstrap_transaction sample_load_env sample_unfilled ?v sample_place 2 1 3 = Inr (d', out)"
    using sample_place_created run sample_unfilled_inv(2)
    by (simp add: bootstrap_transaction_def loc sample_workbook quantity sample_load_env_def)
  moreover have "map casefold (py_strip (replicate 64 (CHR ''0''))) = replicate 64 (CHR ''0'')" by code_simp
  moreover have "lower_hex (CHR ''0'')" by (simp add: lower_hex_def)
  ultimately have load: "run_production_bootstrap sample_load_env sample_xlsx_reader sample_production sample_bootstrap
      (replicate 64 (CHR ''0'')) (Some sample_file) sample_unfilled = Inr (d', validation_report ?v, out)"
    using contract by (simp add: run_production_bootstrap_def sample_production_def sample_bootstrap_def
        assert_bootstrap_runtime_def list_all_iff Let_def)
  have "books_workbook sample_load_env ?v (br_location out) d'"
    using first_load_books_the_workbook [OF sample_unfilled_inv(1), where env = sample_load_env and
        renv = sample_xlsx_reader and settings = sample_production and args = sample_bootstrap and
        digest = "replicate 64 (CHR ''0'')" and source = "Some sample_file"] by (simp add: load)
  then obtain it where "items d' = [it]" "imported sample_load_schema sample_equipment it"
    "stock_of d' (it_id it) (loc_id (br_location out)) = 3"
    by (auto simp: books_workbook_def sample_workbook list_all2_Cons1 quantity sample_load_env_def)
  moreover have "equipment_name sample_equipment = sample_name"
    using sample_import_payload by (simp add: import_payload_def sample_splitter_payload_def)
  ultimately show ?thesis using load sample_name_text(1) by (auto simp: imported_def)
qed

end
