(* ===== verification/Spec2Isabelle.thy ===== *)
theory Spec2Isabelle
  imports System Identity_Steps Worker_Proofs Email_Proofs Init_Data_Proofs Catalog_Facets_Proofs
    Movement_Feed_Proofs Catalog_Api_Proofs Procurement_Api_Proofs Account_Api_Proofs Bootstrap_Proofs
begin

text \<open>
  Spikatel Inventory is a warehouse system for data-centre equipment: a FastAPI backend over
  one PostgreSQL database, used from a Telegram mini application. This development models the
  backend's own logic, the services under \<open>src/backend/app/modules\<close> and the trigger functions
  that the migrations under \<open>src/backend/migrations/versions\<close> install, and proves the properties
  C1 to C40 that follow.

  \<^bold>\<open>Parts and how they interact.\<close> The \<^emph>\<open>inventory\<close> service books movements into an append-only
  journal; database triggers derive stock and custody balances from it. The \<^emph>\<open>catalog\<close> service
  keeps manufacturers and items, identified by a signature over category, manufacturer, model and
  attributes. The \<^emph>\<open>identity\<close>, \<^emph>\<open>access\<close> and \<^emph>\<open>auth\<close> services keep users, roles, access requests
  and sessions. The \<^emph>\<open>procurement\<close> service moves purchase requests through a state machine; it
  validates drafts with the catalog, creates items there, and finishes with a receipt in the
  inventory journal. Changes are announced through the \<^emph>\<open>notification outbox\<close>, whose worker delivers
  rows to Telegram; a second outbox with its own worker carries \<^emph>\<open>e-mail\<close>. The \<^emph>\<open>Telegram bot\<close>
  receives updates by a webhook and lets managers decide access requests. All services share the database; identity refuses changes that would strand
  custody or procurement responsibilities.

  \<^bold>\<open>State and steps.\<close> \<open>Models\<close> holds the rows (\<open>models.py\<close>, \<open>enums.py\<close>) and the record \<open>db\<close> of all
  tables; the bot and the e-mail command keep the tables only they use beside it (\<open>bot_db\<close>,
  \<open>email_outbox\<close>). Every operation is a function from \<open>db\<close> and its arguments to a sum: \<open>Inl\<close> the error, \<open>Inr\<close>
  the new \<open>db\<close> and the result. A transaction is atomic and committed transactions follow one another
  in some order; row and advisory locks, which only serialise, are left out. Deferred triggers run
  at the end of the operation that caused them. Generated identifiers, the clock, the digest
  \<open>sha256\<close>, the keyed digest \<open>hmac\<close>, the JSON parser, the remote ends of the workers, the catalog
  schema that migrations install and the web address of a request are arguments. Errors carry
  their code, not their message. Texts are over the 256-character alphabet of \<open>Pytext\<close>: ASCII,
  Cyrillic, and the pictographs of the bot's messages. PostgreSQL takes no text with the character
  U+0000. That error is modelled where the catalog writes items and manufacturers or looks up a category and where a
  movement is booked (\<open>text_parameter\<close>), so that C8, C33 and C34 say what such a request ends in; the other
  requests are taken to carry texts without it.

  \<^bold>\<open>Theories.\<close>
  \<^item> \<open>Prelude\<close>: results as sums, tables as lists with a unique key, sums over lists.
  \<^item> \<open>Pytext\<close>, \<open>Decimals\<close>, \<open>Pynumber\<close>, \<open>Reach\<close>: Python's text functions and canonical JSON with
    \<open>core/idempotency.py\<close>; \<open>decimal.Decimal\<close>; \<open>int\<close> on texts; \<open>catalog/normalization.py\<close>. C31 shows that the identity
    text of a decimal is a canonical form of its value.
  \<^item> \<open>Policy\<close>: \<open>identity/policy.py\<close>.
  \<^item> \<open>Projection\<close>, \<open>Warehouse_Db\<close>: the projection triggers and the constraints and triggers on
    movements; C11 (incremental refresh equals recomputation). \<open>Inventory\<close>: \<open>inventory/service.py\<close>.
    \<open>Ledger\<close>, \<open>Warehouse\<close> (C1-C5: balances, idempotency, reversal), \<open>Warehouse_Safety\<close> (C6-C9: bounds,
    errors, custody), \<open>Warehouse_Steps\<close> (the invariant in every reachable state). Booking a movement
    includes the deferred trigger that seals its lines at the commit.
  \<^item> \<open>Identity\<close>, \<open>Auth\<close>: \<open>identity/admin_service.py\<close>, \<open>reset_service.py\<close>, \<open>access/service.py\<close>,
    \<open>auth/service.py\<close>, \<open>auth/dependencies.py\<close>, whose commit of a promoted recovery owner has to pass
    the deferred triggers (\<open>users_commit\<close>). \<open>Owner_Rotation\<close>: \<open>bootstrap/recovery_owner_rotation.py\<close>, the
    one transaction that changes two users. \<open>Identity_Proofs\<close>, \<open>Identity_Steps\<close>: C12-C14, C16, C17, accounts are
    well formed in every reachable state, changes are authorised and audited, at most one owner,
    sessions. \<open>Init_Data\<close>: \<open>auth/telegram.py\<close> with the query-string, percent and UTF-8 decoding it
    rests on; \<open>Init_Data_Proofs\<close>, C40: data signed and encoded by the platform is accepted with
    exactly the user it carries, and only correctly signed fresh data is.
  \<^item> \<open>Outbox\<close>, \<open>Outbox_Proofs\<close>: \<open>notifications/service.py\<close> as the queue of the worker, with the deletion of
    settled rows by the retention pass (\<open>Retention_Batch\<close>) as one of its transactions; C18, C19, a claim
    is exclusive, rows stay consistent, a sent row stays until retention retires it; a lost claim is fenced and nothing pending is stranded.
  \<^item> \<open>Worker_Loop\<close>: the loop both workers run, and the locale \<open>lease_worker\<close> under whose laws it drains its
    outbox. \<open>Notification_Worker\<close> (\<open>notifications/worker.py\<close>, \<open>gateway.py\<close>) and \<open>Email\<close>
    (\<open>procurement/email.py\<close>) are the two workers; \<open>Worker_Proofs\<close> and \<open>Email_Proofs\<close> interpret the locale
    on them: C37 and C39, whatever the remote end answers, enough rounds leave no pending row.
  \<^item> \<open>Telegram_Bot\<close>: \<open>telegram_bot/service.py\<close>, \<open>telegram_bot/api.py\<close> and \<open>access/api.py\<close>. \<open>Telegram_Safety\<close>,
    C38: an update changes the accounts exactly as one decision of an authorised manager in the
    console would, or not at all.
  \<^item> \<open>Account_Api\<close>: the requests of \<open>identity/admin_api.py\<close>, \<open>identity/reset_api.py\<close>, \<open>auth/api.py\<close> and
    \<open>access/api.py\<close>. \<open>Account_Api_Proofs\<close>, C21: what an administrator's request leaves and answers, and the
    two cases in which it ends in an internal error.
  \<^item> \<open>Catalog_Schema\<close>, \<open>Catalog_Db\<close>, \<open>Catalog\<close>: \<open>catalog/configuration.py\<close>, \<open>catalog/service.py\<close> and the
    catalog triggers. \<open>Catalog_Identity\<close>, \<open>Catalog_Proofs\<close>, \<open>Catalog_Writes\<close>: the SQL functions compute
    what Python computes on texts without control separators, and a validated draft passes every database
    check but those on U+0000, on an empty normalised model and on the signature. \<open>Catalog_Safety\<close>
    (C32, whose bounds are read from the metadata independently of the service), \<open>Catalog_Steps\<close> (C35).
  \<^item> \<open>Catalog_Api\<close>: the requests of \<open>catalog/api.py\<close>, which answer after the commit. \<open>Catalog_Api_Proofs\<close>:
    C33, creating an item over the network has the outcome that validation predicts, up to the texts
    that the database refuses; C36, an error leaves of the database what the authorising dependency
    committed, and the answer to a committed request is read back and never fails.
  \<^item> \<open>Catalog_Query\<close>, \<open>Catalog_Facets\<close>: \<open>catalog/query.py\<close>, a statement being its meaning on the rows.
    \<open>Catalog_Patterns\<close> shows that an escaped pattern matches exactly the text a user typed;
    \<open>Catalog_Facets_Proofs\<close> (C10), that the counts of the facets are the totals of the lists, and by how
    much the two counts that are not differ.
  \<^item> \<open>Feed_Cursor\<close> (\<open>inventory/feed_cursor.py\<close>) and \<open>Movement_Feed\<close>: the signed page tokens, the filters and
    lists of movements, and the feed of \<open>inventory/api.py\<close>. \<open>Feed_Cursor_Proofs\<close>: base 64 and tokens are read
    back. \<open>Movement_Feed_Proofs\<close>, C15: the pages show one state of the journal while it grows.
  \<^item> \<open>Inventory_Api\<close>: the requests of \<open>inventory/api.py\<close> with their guards, the announcement of an issue
    and the status of every error. \<open>Inventory_Api_Proofs\<close>, C34: posting a movement ends in an internal
    error only for a key with U+0000, announces an issue once, and can be repeated.
  \<^item> \<open>Procurement_Db\<close>, \<open>Procurement_Notify\<close>, \<open>Procurement\<close>: \<open>procurement/service.py\<close>, its state machine,
    announcements and triggers. \<open>Procurement_Proofs\<close> states the contract of one mutation as the
    locale \<open>procurement_mutation\<close> and interprets it on the ten mutations; \<open>Procurement_Steps\<close> and
    \<open>Procurement_Safety\<close> (C22-C24, C27, C28): effect, exactly-once, staleness, offered actions,
    acceptance with exact quantities, and the stranded request. \<open>Procurement_Api\<close>: the requests of
    \<open>procurement/api.py\<close>; \<open>Procurement_Api_Proofs\<close>, C25: a request succeeds exactly when the service
    accepts the call, and was offered by the page shown before, which offers nothing else.
  \<^item> \<open>Retention_Batch\<close> (one statement of the pass, and the one on the outbox), \<open>Retention\<close>, \<open>Retention_Safety\<close>:
    \<open>maintenance/technical_retention.py\<close>; C26, it deletes what has expired and changes nothing else.
  \<^item> \<open>Workbook\<close> (\<open>bootstrap/inventory_workbook.py\<close>: reading) and \<open>Bootstrap\<close> (its import, and
    \<open>bootstrap/production_inventory.py\<close>): the first load. \<open>Bootstrap_Proofs\<close>, C20: it books the workbook, and its
    closing comparison never fails. \<open>Workbook_Samples\<close> and \<open>Bootstrap_Samples\<close> write a workbook and load it.
  \<^item> \<open>System\<close> and this theory: all services together, C29 and C30.
  \<^item> \<open>Samples\<close>, \<open>Procurement_Samples\<close>: concrete states on which the theorems are instantiated.

  \<^bold>\<open>Loops and bounds.\<close> Every function is total: loops are structural recursion or have a termination
  proof (\<open>scan_distances\<close>, \<open>drop_words\<close>, \<open>trim_scale\<close>, \<open>utf8_decode\<close>, \<open>unquote\<close>: the length of the text or
  the number of digits decreases; \<open>within_limits\<close>: the number of XML nodes left); there is no fuel. The endless loop of a worker is cut after a
  given number of rounds, and C37 and C39 say how many rounds are enough. Quantities are bounded by \<open>2 ^ 53 - 1\<close> as in the code, identifiers by
  128 bits where their text matters.

  \<^bold>\<open>Not modelled.\<close> Cookies, headers and the assembly of the application (\<open>main.py\<close>,
  \<open>api/router.py\<close>) are not represented. The lists of audit events of a user and the other list functions
  of the services only read. The HTTP clients of the workers are arguments, as are
  the archive and XML parsers of the workbook. The scripts under \<open>src/ops\<close>, which look after hosts and backups, and
  the command lines under \<open>bootstrap\<close>, which only pass values, are left out. The frontend and the Cloudflare worker are in other languages.
\<close>

section \<open>The services together\<close>

text \<open>
  C29. The invariants of the services compose: from a state that satisfies them, no
  interleaving of committed transactions of the warehouse, the accounts, the catalog, the
  procurement service, the Telegram bot, the notification outbox and the retention worker
  breaks any of them. Balances equal the journal,
  custody stays with approved engineers, there is at most one owner, every procurement
  request has as many events as its state version and a status its events explain, no two
  items share an identity signature, and the outbox rows are consistent.
\<close>

theorem system_reachable:
  assumes "system_inv ce m d" and "(system_step ce ttl m)\<^sup>*\<^sup>* d d'"
  shows "system_inv ce m d' \<and> \<not> projection_drift_exists d'"
proof -
  from assms(2) have "system_inv ce m d'"
    by (induction rule: rtranclp_induct) (use assms(1) system_step_inv in blast)+
  then show ?thesis
    by (simp add: system_inv_def inventory_inv_def warehouse_inv_def projections_agree_iff)
qed

text \<open>
  C30. A completed procurement request is final in the whole system: whatever the services
  do afterwards, its row stays exactly as it was, and the receipt it refers to stays in the
  journal and is never corrected or reversed.
\<close>

theorem completed_request_is_final:
  assumes "system_inv ce m d" and "get_request d i = Some r" and "pr_status r = COMPLETED"
    and "(system_step ce ttl m)\<^sup>*\<^sup>* d d'"
  shows "get_request d' i = Some r \<and> settled d' r"
proof -
  from assms(4) have "system_inv ce m d' \<and> get_request d' i = Some r"
    by (induction rule: rtranclp_induct)
      (use assms(1-3) system_step_inv system_step_completed in blast)+
  then show ?thesis using completed_is_settled assms(3) by blast
qed

section \<open>Instances\<close>

lemma sample_procurement_catalog: "catalog_inv sample_catalog sample_procurement"
proof -
  let ?it = "(sample_item 20 ''Patch cord'')\<lparr>it_identity_signature := sample_signature\<rparr>"
  have texts: "btrim ''Patch cord'' \<noteq> []" "btrim (comparison_text ''Patch cord'') \<noteq> []"
    "length (comparison_text ''Patch cord'') \<le> 255"
    "comparison_text ''Patch cord'' = catalog_normalize_comparison ''Patch cord''"
    by code_simp+
  have "item_checks ?it" using texts by (simp add: item_checks_def sample_item_def sample_signature_def)
  moreover have "item_references_ok sample_schema sample_procurement ?it"
    "attribute_rows_ok sample_schema ?it" "enforce_item_required_attributes sample_schema ?it"
    by (simp_all add: item_references_ok_def attribute_rows_ok_def enforce_item_required_attributes_def
        sample_item_def sample_schema_def sample_attribute_def)
  moreover have "assert_catalog_item_identity sample_schema sample_digest sample_procurement ?it"
    using texts(4) by (simp add: assert_catalog_item_identity_def catalog_item_signature_def get_category_def
        sample_item_def sample_schema_def sample_digest_def sample_signature_def)
  ultimately have "item_write_checks sample_schema sample_digest sample_procurement ?it = Inr ()"
    by (simp add: item_write_checks_Inr attribute_texts_def sample_item_def)
  then show ?thesis
    by (simp add: catalog_inv_def sample_procurement_tables sample_catalog_def manufacturers_ok_def)
      (simp add: sample_procurement_def sample_db_def)
qed

lemma sample_procurement_system: "system_inv sample_catalog 3 sample_procurement"
proof -
  have "users_inv sample_procurement"
    by (simp add: users_inv_def stamp_ok_def sample_procurement_tables sample_db_def sample_user_def)
  moreover have "outbox_inv 3 sample_procurement"
    by (simp add: outbox_inv_def sample_procurement_def sample_db_def)
  moreover have "catalog_inv sample_catalog sample_procurement" by (rule sample_procurement_catalog)
  ultimately show ?thesis
    using sample_procurement_inv sample_procurement_warehouse by (simp add: system_inv_def)
qed

lemma sample_system_step: "system_step sample_catalog 60 3 sample_procurement sample_completed"
proof -
  obtain rec where "run_call sample_env sample_procurement 50 (Complete sample_completion) 2 =
      Inr (sample_completed, rec)" using sample_completion_run by blast
  moreover have "pe_catalog sample_env = sample_catalog"
    by (simp add: pe_catalog_def sample_catalog_def sample_env_def)
  ultimately have "procurement_step sample_catalog sample_procurement sample_completed" by (rule step_call)
  then show ?thesis by (rule sys_procurement)
qed

theorem system_reachable_witness:
  "system_inv sample_catalog 3 sample_completed \<and> \<not> projection_drift_exists sample_completed"
proof -
  have "(system_step sample_catalog 60 3)\<^sup>*\<^sup>* sample_procurement sample_completed"
    using sample_system_step by (rule r_into_rtranclp)
  from system_reachable [OF sample_procurement_system this] show ?thesis .
qed

theorem completed_request_is_final_witness:
  "settled (outbox_run 60 3 (Cancel ''x'') sample_completed) sample_closed"
proof -
  have "system_inv sample_catalog 3 sample_completed"
    using system_step_inv [OF sample_system_step sample_procurement_system] .
  moreover have "get_request sample_completed 50 = Some sample_closed" "pr_status sample_closed = COMPLETED"
    by (simp_all add: get_request_def sample_completed_def sample_closed_def sample_request_def)
  moreover have "(system_step sample_catalog 60 3)\<^sup>*\<^sup>* sample_completed
      (outbox_run 60 3 (Cancel ''x'') sample_completed)"
    by (intro r_into_rtranclp sys_outbox)
  ultimately show ?thesis using completed_request_is_final by blast
qed

end
